(* ===== verification/Rust_Prelude.thy ===== *)
theory Rust_Prelude
  imports Main "HOL-Library.Word" "HOL-Library.Sublist"
begin

text \<open>
  What the components share: Rust's \<open>Result\<close> with the question-mark operator, the string and slice
  functions of the standard library that the sources call, fixed-width integers as byte strings,
  and two interfaces that several components implement: a canonical text or byte encoding
  (locale \<open>codec\<close>) and a machine whose steps keep an invariant (locale \<open>stepper\<close>).

  A Rust string is the list of its UTF-8 bytes, so it is a \<open>string\<close> (8-bit characters) and
  \<open>length\<close> is \<open>len()\<close>; a byte slice is an \<open>8 word list\<close>. Error values carry their constructor and
  their typed fields; the human-readable message texts of the sources are left out.
\<close>

type_synonym byte = "8 word"
type_synonym bytes = "byte list"
type_synonym u16 = "16 word"
type_synonym u32 = "32 word"
type_synonym u64 = "64 word"

named_theorems result_simps \<open>inversion of a successful chain of checks\<close>

section \<open>Result and Option\<close>

datatype ('a, 'e) result = Ok 'a | Err 'e

primrec and_then :: "('a, 'e) result \<Rightarrow> ('a \<Rightarrow> ('b, 'e) result) \<Rightarrow> ('b, 'e) result" where
  "and_then (Ok x) f = f x"
| "and_then (Err e) f = Err e"

primrec map_err :: "('e \<Rightarrow> 'f) \<Rightarrow> ('a, 'e) result \<Rightarrow> ('a, 'f) result" where
  "map_err f (Ok x) = Ok x"
| "map_err f (Err e) = Err (f e)"

primrec ok_or :: "'a option \<Rightarrow> 'e \<Rightarrow> ('a, 'e) result" where
  "ok_or (Some x) e = Ok x"
| "ok_or None e = Err e"

primrec is_ok :: "('a, 'e) result \<Rightarrow> bool" where
  "is_ok (Ok x) = True"
| "is_ok (Err e) = False"

primrec to_option :: "('a, 'e) result \<Rightarrow> 'a option" where
  "to_option (Ok x) = Some x"
| "to_option (Err e) = None"

text \<open>A guard: \<open>if bad \<lbrace> return Err(e) \<rbrace>\<close> followed by the rest of the body.\<close>

definition refuse_if :: "bool \<Rightarrow> 'e \<Rightarrow> ('a, 'e) result \<Rightarrow> ('a, 'e) result" where
  "refuse_if bad e r = (if bad then Err e else r)"

text \<open>\<open>iter().map(f).collect::<Result<Vec<_>, _>>()\<close>: the first error stops it.\<close>

fun collect_results :: "('a \<Rightarrow> ('b, 'e) result) \<Rightarrow> 'a list \<Rightarrow> ('b list, 'e) result" where
  "collect_results f [] = Ok []"
| "collect_results f (x # xs) =
     and_then (f x) (\<lambda>y. and_then (collect_results f xs) (\<lambda>ys. Ok (y # ys)))"

text \<open>\<open>iter().try_for_each(f)\<close>.\<close>

fun try_for_each :: "('a \<Rightarrow> (unit, 'e) result) \<Rightarrow> 'a list \<Rightarrow> (unit, 'e) result" where
  "try_for_each f [] = Ok ()"
| "try_for_each f (x # xs) = and_then (f x) (\<lambda>_. try_for_each f xs)"

lemma and_then_eq_Ok [result_simps]:
  "and_then m f = Ok y \<longleftrightarrow> (\<exists>x. m = Ok x \<and> f x = Ok y)"
  by (cases m) auto

lemma and_then_eq_Err: "and_then m f = Err e \<longleftrightarrow> m = Err e \<or> (\<exists>x. m = Ok x \<and> f x = Err e)"
  by (cases m) auto

lemma map_err_eq_Err: "map_err f m = Err e \<longleftrightarrow> (\<exists>x. m = Err x \<and> e = f x)"
  by (cases m) auto

lemma map_err_eq_Ok [result_simps]: "map_err f m = Ok y \<longleftrightarrow> m = Ok y"
  by (cases m) auto

lemma ok_or_eq_Ok [result_simps]: "ok_or m e = Ok y \<longleftrightarrow> m = Some y"
  by (cases m) auto

lemma ok_or_eq_Err: "ok_or m e = Err e' \<longleftrightarrow> m = None \<and> e' = e"
  by (cases m) auto

lemma refuse_if_eq_Ok [result_simps]: "refuse_if bad e r = Ok y \<longleftrightarrow> \<not> bad \<and> r = Ok y"
  by (simp add: refuse_if_def)

lemma refuse_if_simps [simp]:
  "refuse_if True e r = Err e" "refuse_if False e r = r"
  by (simp_all add: refuse_if_def)

lemma is_ok_iff: "is_ok r \<longleftrightarrow> (\<exists>x. r = Ok x)"
  by (cases r) auto

lemma to_option_eq_Some [result_simps]: "to_option r = Some x \<longleftrightarrow> r = Ok x"
  by (cases r) auto

lemma try_for_each_Ok [result_simps]:
  "try_for_each f xs = Ok u \<longleftrightarrow> (\<forall>x \<in> set xs. f x = Ok ())"
  by (induction xs) (auto simp: result_simps)

lemma collect_results_Ok [result_simps]:
  "collect_results f xs = Ok ys \<longleftrightarrow> list_all2 (\<lambda>x y. f x = Ok y) xs ys"
proof (induction xs arbitrary: ys)
  case Nil
  then show ?case by auto
next
  case (Cons x xs)
  then show ?case by (cases ys) (auto simp: result_simps)
qed

lemma list_all2_set_rightD: "list_all2 P xs ys \<Longrightarrow> y \<in> set ys \<Longrightarrow> \<exists>x \<in> set xs. P x y"
  by (induction rule: list_all2_induct) auto

lemma list_all2_set_leftD: "list_all2 P xs ys \<Longrightarrow> x \<in> set xs \<Longrightarrow> \<exists>y \<in> set ys. P x y"
  by (induction rule: list_all2_induct) auto

section \<open>Characters and strings\<close>

definition code :: "char \<Rightarrow> nat" where
  "code c = of_char c"

definition is_ascii_lowercase :: "char \<Rightarrow> bool" where
  "is_ascii_lowercase c \<longleftrightarrow> 97 \<le> code c \<and> code c \<le> 122"

definition is_ascii_digit :: "char \<Rightarrow> bool" where
  "is_ascii_digit c \<longleftrightarrow> 48 \<le> code c \<and> code c \<le> 57"

text \<open>
  The characters \<open>str::trim\<close> removes, those with the Unicode property White_Space, as their UTF-8
  bytes: six ASCII characters and the longer encodings of U+0085, U+00A0, U+1680, U+2000 to U+200A,
  U+2028, U+2029, U+202F, U+205F and U+3000.
\<close>

definition white_space :: "string list" where
  "white_space = map (\<lambda>n. [char_of n]) [9, 10, 11, 12, 13, 32 :: nat]
     @ map (map char_of) ([[0xC2, 0x85], [0xC2, 0xA0], [0xE1, 0x9A, 0x80]]
         @ map (\<lambda>n. [0xE2, 0x80, 0x80 + n]) [0 ..< 11]
         @ [[0xE2, 0x80, 0xA8], [0xE2, 0x80, 0xA9], [0xE2, 0x80, 0xAF], [0xE2, 0x81, 0x9F],
            [0xE3, 0x80, 0x80 :: nat]])"

definition as_bytes :: "string \<Rightarrow> bytes" where
  "as_bytes s = map (\<lambda>c. word_of_nat (code c)) s"

definition strip_prefix :: "'a list \<Rightarrow> 'a list \<Rightarrow> 'a list option" where
  "strip_prefix p s = (if take (length p) s = p then Some (drop (length p) s) else None)"

definition strip_suffix :: "'a list \<Rightarrow> 'a list \<Rightarrow> 'a list option" where
  "strip_suffix p s =
     (if length p \<le> length s \<and> drop (length s - length p) s = p
      then Some (take (length s - length p) s) else None)"

definition starts_with :: "'a list \<Rightarrow> 'a list \<Rightarrow> bool" where
  "starts_with p s \<longleftrightarrow> take (length p) s = p"

text \<open>\<open>s.split_once(p)\<close> at the first occurrence of the pattern, \<open>s.rsplit_once(p)\<close> at the last.\<close>

fun split_once :: "'a list \<Rightarrow> 'a list \<Rightarrow> ('a list \<times> 'a list) option" where
  "split_once p [] = (if p = [] then Some ([], []) else None)"
| "split_once p (c # cs) =
     (if take (length p) (c # cs) = p then Some ([], drop (length p) (c # cs))
      else map_option (\<lambda>(a, b). (c # a, b)) (split_once p cs))"

fun rsplit_once :: "'a list \<Rightarrow> 'a list \<Rightarrow> ('a list \<times> 'a list) option" where
  "rsplit_once p [] = (if p = [] then Some ([], []) else None)"
| "rsplit_once p (c # cs) =
     (case rsplit_once p cs of
        Some (a, b) \<Rightarrow> Some (c # a, b)
      | None \<Rightarrow> (if take (length p) (c # cs) = p then Some ([], drop (length p) (c # cs))
                 else None))"

text \<open>\<open>s.split(c)\<close> on one character: always at least one piece.\<close>

fun split_on :: "'a \<Rightarrow> 'a list \<Rightarrow> 'a list list" where
  "split_on d [] = [[]]"
| "split_on d (c # cs) =
     (if c = d then [] # split_on d cs
      else (case split_on d cs of [] \<Rightarrow> [[c]] | w # ws \<Rightarrow> (c # w) # ws))"

text \<open>\<open>str::replace\<close> with a pattern that is not empty.\<close>

function str_replace :: "'a list \<Rightarrow> 'a list \<Rightarrow> 'a list \<Rightarrow> 'a list" where
  "str_replace p q [] = []"
| "str_replace p q (c # cs) =
     (if p \<noteq> [] \<and> starts_with p (c # cs) then q @ str_replace p q (drop (length p) (c # cs)) else c # str_replace p q cs)"
  by pat_completeness auto
termination by (relation "measure (\<lambda>(p, q, s). length s)") auto

text \<open>Removing, again and again, a prefix that is one of the given words.\<close>

function strip_words :: "string list \<Rightarrow> string \<Rightarrow> string" where
  "strip_words ws s =
     (case find (\<lambda>w. w \<noteq> [] \<and> starts_with w s) ws of
        None \<Rightarrow> s
      | Some w \<Rightarrow> strip_words ws (drop (length w) s))"
  by pat_completeness auto
termination
proof (relation "measure (\<lambda>(ws, s). length s)")
  fix ws s w
  assume "find (\<lambda>w. w \<noteq> [] \<and> starts_with w s) ws = Some w"
  then have "w \<noteq> []" and "take (length w) s = w" by (auto simp: find_Some_iff starts_with_def)
  then have "s \<noteq> []" by auto
  with \<open>w \<noteq> []\<close> show "((ws, drop (length w) s), (ws, s)) \<in> measure (\<lambda>(ws, s). length s)"
    by simp
qed simp

declare strip_words.simps [simp del]

definition trim_start :: "string \<Rightarrow> string" where
  "trim_start s = strip_words white_space s"

definition trim_end :: "string \<Rightarrow> string" where
  "trim_end s = rev (strip_words (map rev white_space) (rev s))"

definition trim :: "string \<Rightarrow> string" where
  "trim s = trim_end (trim_start s)"

lemma strip_words_id: "(\<And>w. w \<in> set ws \<Longrightarrow> \<not> starts_with w s) \<Longrightarrow> strip_words ws s = s"
proof -
  assume "\<And>w. w \<in> set ws \<Longrightarrow> \<not> starts_with w s"
  then have "find (\<lambda>w. w \<noteq> [] \<and> starts_with w s) ws = None" by (auto simp: find_None_iff)
  then show ?thesis by (subst strip_words.simps) simp
qed

lemma strip_prefix_Some [simp]: "strip_prefix p s = Some r \<longleftrightarrow> s = p @ r"
  unfolding strip_prefix_def by (auto) (metis append_take_drop_id)

lemma strip_prefix_append [simp]: "strip_prefix p (p @ r) = Some r"
  by simp

lemma strip_suffix_Some [simp]: "strip_suffix p s = Some r \<longleftrightarrow> s = r @ p"
  unfolding strip_suffix_def by (auto) (metis append_take_drop_id)

lemma split_on_none: "d \<notin> set w \<Longrightarrow> split_on d w = [w]"
  by (induction w) auto

lemma split_on_append: "d \<notin> set w \<Longrightarrow> split_on d (w @ d # r) = w # split_on d r"
  by (induction w) auto

lemma find_unique:
  assumes "x \<in> set xs" and "P x" and "\<And>y. y \<in> set xs \<Longrightarrow> P y \<Longrightarrow> y = x"
  shows "find P xs = Some x"
proof (cases "find P xs")
  case None
  with assms(1,2) show ?thesis by (simp add: find_None_iff)
next
  case (Some y)
  then have "y \<in> set xs" "P y" unfolding find_Some_iff by auto
  with Some assms(3) show ?thesis by simp
qed

lemma split_once_Some: "split_once p s = Some (a, b) \<Longrightarrow> s = a @ p @ b"
proof (induction s arbitrary: a)
  case Nil
  then show ?case by (simp split: if_splits)
next
  case (Cons c cs)
  show ?case
  proof (cases "take (length p) (c # cs) = p")
    case True
    with Cons.prems have "a = []" and "b = drop (length p) (c # cs)" by simp_all
    with True show ?thesis by (metis append_Nil append_take_drop_id)
  next
    case False
    with Cons.prems obtain a' where "split_once p cs = Some (a', b)" and "a = c # a'" by auto
    with Cons.IH show ?thesis by simp
  qed
qed

lemma rsplit_once_Some: "rsplit_once p s = Some (a, b) \<Longrightarrow> s = a @ p @ b"
proof (induction s arbitrary: a)
  case Nil
  then show ?case by (simp split: if_splits)
next
  case (Cons c cs)
  show ?case
  proof (cases "rsplit_once p cs")
    case (Some ab)
    with Cons.prems obtain a' where "rsplit_once p cs = Some (a', b)" and "a = c # a'"
      by (auto split: prod.splits)
    with Cons.IH show ?thesis by simp
  next
    case None
    with Cons.prems have "take (length p) (c # cs) = p" and "a = []"
      and "b = drop (length p) (c # cs)" by (auto split: if_splits)
    then show ?thesis by (metis append_Nil append_take_drop_id)
  qed
qed

lemma split_on_not_Nil [simp]: "split_on d s \<noteq> []"
  by (induction s) (auto split: list.splits)

lemma split_on_no_sep: "w \<in> set (split_on d s) \<Longrightarrow> d \<notin> set w"
proof (induction s arbitrary: w)
  case Nil
  then show ?case by simp
next
  case (Cons c cs)
  show ?case
  proof (cases "split_on d cs")
    case Nil
    then show ?thesis by simp
  next
    case (Cons v vs)
    then show ?thesis using Cons.IH Cons.prems by (auto split: if_splits)
  qed
qed

lemma split_on_set: "w \<in> set (split_on d s) \<Longrightarrow> set w \<subseteq> set s"
proof (induction s arbitrary: w)
  case Nil
  then show ?case by simp
next
  case (Cons c cs)
  then show ?case by (cases "split_on d cs") (fastforce split: if_splits)+
qed

lemma split_on_append_sep:
  "d \<notin> set w \<Longrightarrow> split_on d (w @ d # s) = w # split_on d s"
  by (induction w) auto

lemma split_on_word: "d \<notin> set w \<Longrightarrow> split_on d w = [w]"
  by (induction w) auto

text \<open>Printable ASCII characters other than the blank are never trimmed.\<close>

definition is_graph :: "char \<Rightarrow> bool" where
  "is_graph c \<longleftrightarrow> 32 < code c \<and> code c < 128"

lemma white_space_ends:
  "w \<in> set white_space \<Longrightarrow> w \<noteq> [] \<and> \<not> is_graph (hd w) \<and> \<not> is_graph (last w)"
  by (auto simp: white_space_def is_graph_def code_def upt_conv_Cons)

lemma trim_graph:
  assumes "list_all is_graph s"
  shows "trim s = s"
proof -
  have f: "\<not> starts_with w s" if "w \<in> set white_space" for w
    using white_space_ends [OF that] assms
    by (cases w; cases s) (auto simp: starts_with_def)
  have b: "\<not> starts_with w (rev s)" if "w \<in> set (map rev white_space)" for w
  proof -
    from that obtain v where v: "v \<in> set white_space" and w: "w = rev v" by auto
    from white_space_ends [OF v] have "w \<noteq> []" "\<not> is_graph (hd w)" by (auto simp: w hd_rev)
    moreover have "list_all is_graph (rev s)" using assms by simp
    ultimately show ?thesis by (cases w; cases "rev s") (auto simp: starts_with_def)
  qed
  have "strip_words (map rev white_space) (rev s) = rev s" by (rule strip_words_id) (erule b)
  moreover have "strip_words white_space s = s" by (rule strip_words_id) (erule f)
  ultimately show ?thesis by (simp add: trim_def trim_start_def trim_end_def)
qed

lemma code_lt_256 [simp]: "code c < 256"
  by (simp add: code_def)

lemma code_inject [simp]: "code c = code d \<longleftrightarrow> c = d"
  by (simp add: code_def)

lemma as_bytes_append [simp]: "as_bytes (s @ t) = as_bytes s @ as_bytes t"
  by (simp add: as_bytes_def)

lemma length_as_bytes [simp]: "length (as_bytes s) = length s"
  by (simp add: as_bytes_def)

lemma byte_of_code_inject: "(word_of_nat (code c) :: byte) = word_of_nat (code d) \<longleftrightarrow> c = d"
proof -
  have "unat (word_of_nat (code e) :: byte) = code e" for e
    by (simp add: unat_of_nat)
  then show ?thesis by (metis code_inject)
qed

lemma as_bytes_inject [simp]: "as_bytes s = as_bytes t \<longleftrightarrow> s = t"
  unfolding as_bytes_def
  by (rule inj_map_eq_map) (auto simp: inj_def byte_of_code_inject)

text \<open>\<open>std::str::from_utf8\<close>: the well-formed byte sequences of the Unicode standard's table 3-7.\<close>

definition utf8_tail :: "nat \<Rightarrow> nat \<Rightarrow> bytes \<Rightarrow> bool" where
  "utf8_tail lo hi bs \<longleftrightarrow>
     (case bs of [] \<Rightarrow> False
      | b # r \<Rightarrow> lo \<le> unat b \<and> unat b \<le> hi \<and> list_all (\<lambda>c. 0x80 \<le> unat c \<and> unat c \<le> 0xBF) r)"

definition utf8_width :: "bytes \<Rightarrow> nat" where
  "utf8_width bs =
     (case bs of [] \<Rightarrow> 0
      | b # r \<Rightarrow>
          let x = unat b; t2 = take 1 r; t3 = take 2 r; t4 = take 3 r in
          if x < 0x80 then 1
          else if 0xC2 \<le> x \<and> x \<le> 0xDF \<and> utf8_tail 0x80 0xBF t2 then 2
          else if length t3 = 2 \<and> 0xE0 \<le> x \<and> x \<le> 0xEF
             \<and> utf8_tail (if x = 0xE0 then 0xA0 else 0x80) (if x = 0xED then 0x9F else 0xBF) t3 then 3
          else if length t4 = 3 \<and> 0xF0 \<le> x \<and> x \<le> 0xF4
             \<and> utf8_tail (if x = 0xF0 then 0x90 else 0x80) (if x = 0xF4 then 0x8F else 0xBF) t4 then 4
          else 0)"

function utf8_valid :: "bytes \<Rightarrow> bool" where
  "utf8_valid bs =
     (if bs = [] then True
      else if utf8_width bs = 0 then False else utf8_valid (drop (utf8_width bs) bs))"
  by pat_completeness auto
termination by (relation "measure length") auto

declare utf8_valid.simps [simp del]

definition from_bytes :: "bytes \<Rightarrow> string" where
  "from_bytes bs = map (\<lambda>b. char_of (unat b)) bs"

definition from_utf8 :: "bytes \<Rightarrow> string option" where
  "from_utf8 bs = (if utf8_valid bs then Some (from_bytes bs) else None)"

section \<open>Integers as text and as bytes\<close>

text \<open>\<open>str::parse\<close> on an unsigned type with largest value \<open>bound\<close>: an optional \<open>+\<close>, then digits.\<close>

definition digits_value :: "string \<Rightarrow> nat" where
  "digits_value ds = foldl (\<lambda>a c. 10 * a + (code c - 48)) 0 ds"

definition parse_uint :: "nat \<Rightarrow> string \<Rightarrow> nat option" where
  "parse_uint bound s =
     (let ds = (case s of [] \<Rightarrow> [] | c # cs \<Rightarrow> if c = CHR ''+'' then cs else s) in
      if ds = [] \<or> \<not> list_all is_ascii_digit ds then None
      else if digits_value ds \<le> bound then Some (digits_value ds) else None)"

definition digit_char :: "nat \<Rightarrow> char" where
  "digit_char n = char_of (48 + n)"

fun show_nat :: "nat \<Rightarrow> string" where
  "show_nat n = (if n < 10 then [digit_char n] else show_nat (n div 10) @ [digit_char (n mod 10)])"

declare show_nat.simps [simp del]

lemma digits_value_snoc: "digits_value (ds @ [c]) = 10 * digits_value ds + (code c - 48)"
  by (simp add: digits_value_def)

lemma digit_char_digit: "n < 10 \<Longrightarrow> is_ascii_digit (digit_char n) \<and> code (digit_char n) = 48 + n"
  by (simp add: is_ascii_digit_def digit_char_def code_def)

lemma digit_char_code: "is_ascii_digit c \<Longrightarrow> digit_char (code c - 48) = c \<and> code c - 48 < 10"
  by (auto simp: is_ascii_digit_def digit_char_def code_def)

lemma show_nat_digits:
  "list_all is_ascii_digit (show_nat n) \<and> digits_value (show_nat n) = n \<and> show_nat n \<noteq> []
   \<and> (hd (show_nat n) = CHR ''0'' \<longrightarrow> n = 0)"
proof (induction n rule: show_nat.induct)
  case (1 n)
  show ?case
  proof (cases "n < 10")
    case True
    with digit_char_digit [OF True] have "digit_char n = CHR ''0'' \<Longrightarrow> n = 0" by (auto simp: code_def)
    with True digit_char_digit [OF True] show ?thesis
      by (subst (1 2 3 4) show_nat.simps) (simp add: digits_value_def)
  next
    case False
    note ih = "1.IH" [OF False]
    have "digits_value (show_nat (n div 10) @ [digit_char (n mod 10)]) = n"
      using ih digit_char_digit [of "n mod 10"] by (simp add: digits_value_snoc)
    moreover have "n div 10 \<noteq> 0" using False by auto
    ultimately show ?thesis using False ih digit_char_digit [of "n mod 10"]
      by (subst (1 2 3 4) show_nat.simps) simp
  qed
qed

lemma show_nat_value:
  "list_all is_ascii_digit ds \<Longrightarrow> ds \<noteq> [] \<Longrightarrow> hd ds \<noteq> CHR ''0'' \<Longrightarrow>
   show_nat (digits_value ds) = ds \<and> 0 < digits_value ds"
proof (induction ds rule: rev_induct)
  case Nil
  then show ?case by simp
next
  case (snoc c ds)
  have c: "digit_char (code c - 48) = c" "code c - 48 < 10" using digit_char_code [of c] snoc.prems(1) by auto
  show ?case
  proof (cases "ds = []")
    case True
    have "code CHR ''0'' = 48" by (simp add: code_def)
    then have "code c \<noteq> 48" using snoc.prems True by (metis append_Nil code_inject list.sel(1))
    moreover have "48 \<le> code c" using snoc.prems(1) True by (simp add: is_ascii_digit_def)
    ultimately show ?thesis using True c by (subst show_nat.simps) (simp add: digits_value_def)
  next
    case False
    with snoc have "show_nat (digits_value ds) = ds" and "0 < digits_value ds" by auto
    with c show ?thesis by (subst show_nat.simps) (simp add: digits_value_snoc)
  qed
qed

fun le_bytes :: "nat \<Rightarrow> nat \<Rightarrow> bytes" where
  "le_bytes 0 x = []"
| "le_bytes (Suc n) x = word_of_nat (x mod 256) # le_bytes n (x div 256)"

fun from_le :: "bytes \<Rightarrow> nat" where
  "from_le [] = 0"
| "from_le (b # bs) = unat b + 256 * from_le bs"

definition be_bytes :: "nat \<Rightarrow> nat \<Rightarrow> bytes" where
  "be_bytes n x = rev (le_bytes n x)"

definition from_be :: "bytes \<Rightarrow> nat" where
  "from_be bs = from_le (rev bs)"

lemma unat_byte_lt [simp]: "unat (b :: byte) < 256"
  by (rule order_less_le_trans [OF unsigned_less]) simp

lemma unat_byte_of_nat: "n < 256 \<Longrightarrow> unat (word_of_nat n :: byte) = n"
  by (simp add: unat_of_nat)

lemma length_le_bytes [simp]: "length (le_bytes n x) = n"
  by (induction n arbitrary: x) auto

lemma length_be_bytes [simp]: "length (be_bytes n x) = n"
  by (simp add: be_bytes_def)

lemma from_le_le_bytes: "from_le (le_bytes n x) = x mod 256 ^ n"
proof (induction n arbitrary: x)
  case 0
  then show ?case by simp
next
  case (Suc n)
  have "unat (word_of_nat (x mod 256) :: byte) = x mod 256" by (simp add: unat_of_nat)
  then have "from_le (le_bytes (Suc n) x) = x mod 256 + 256 * (x div 256 mod 256 ^ n)"
    by (simp add: Suc.IH)
  then show ?case by (simp add: mod_mult2_eq add.commute)
qed

lemma le_bytes_from_le: "le_bytes (length bs) (from_le bs) = bs"
proof (induction bs)
  case Nil
  then show ?case by simp
next
  case (Cons b bs)
  have "unat b < 256" by simp
  then have "(unat b + 256 * from_le bs) mod 256 = unat b"
    and "(unat b + 256 * from_le bs) div 256 = from_le bs" by simp_all
  with Cons.IH show ?case by simp
qed

lemma from_le_bound: "from_le bs < 256 ^ length bs"
proof (induction bs)
  case Nil
  then show ?case by simp
next
  case (Cons b bs)
  have "unat b < 256" by simp
  with Cons.IH have "unat b + 256 * from_le bs < 256 * 256 ^ length bs" by linarith
  then show ?case by simp
qed

lemma from_be_be_bytes: "from_be (be_bytes n x) = x mod 256 ^ n"
  by (simp add: from_be_def be_bytes_def from_le_le_bytes)

lemma be_bytes_from_be: "be_bytes (length bs) (from_be bs) = bs"
  using le_bytes_from_le [of "rev bs"] by (simp add: from_be_def be_bytes_def)

lemma be_bytes_inject:
  assumes "x < 256 ^ n" and "y < 256 ^ n" and "be_bytes n x = be_bytes n y"
  shows "x = y"
  using assms by (metis from_be_be_bytes mod_less)

text \<open>Lowercase hexadecimal as \<open>{b:02x}\<close> prints it.\<close>

definition hex_char :: "nat \<Rightarrow> char" where
  "hex_char n = (if n < 10 then char_of (48 + n) else char_of (87 + n))"

definition hex_value :: "char \<Rightarrow> nat option" where
  "hex_value c =
     (if 48 \<le> code c \<and> code c \<le> 57 then Some (code c - 48)
      else if 97 \<le> code c \<and> code c \<le> 102 then Some (code c - 87) else None)"

definition hex_byte :: "byte \<Rightarrow> string" where
  "hex_byte b = [hex_char (unat b div 16), hex_char (unat b mod 16)]"

definition hex_encode :: "bytes \<Rightarrow> string" where
  "hex_encode bs = concat (map hex_byte bs)"

lemma hex_value_char: "n < 16 \<Longrightarrow> hex_value (hex_char n) = Some n"
  by (auto simp: hex_value_def hex_char_def code_def)

lemma hex_char_value: "hex_value c = Some n \<Longrightarrow> hex_char n = c \<and> n < 16"
  by (auto simp: hex_value_def hex_char_def code_def split: if_splits)

lemma length_hex_encode [simp]: "length (hex_encode bs) = 2 * length bs"
  by (induction bs) (auto simp: hex_encode_def hex_byte_def)

lemma hex_encode_hex: "c \<in> set (hex_encode bs) \<Longrightarrow> hex_value c \<noteq> None"
proof -
  have "hex_value (hex_char (unat b div 16)) \<noteq> None"
       "hex_value (hex_char (unat b mod 16)) \<noteq> None" for b :: byte
    by (simp_all add: hex_value_char less_mult_imp_div_less)
  then show "c \<in> set (hex_encode bs) \<Longrightarrow> hex_value c \<noteq> None"
    by (auto simp: hex_encode_def hex_byte_def)
qed

section \<open>Interfaces\<close>

text \<open>
  A canonical encoding: decoding accepts exactly the encodings of good values, so two texts that
  decode to one value are the same text.
\<close>

locale codec =
  fixes enc :: "'a \<Rightarrow> 'b list" and dec :: "'b list \<Rightarrow> 'a option" and good :: "'a \<Rightarrow> bool"
  assumes dec_enc: "good x \<Longrightarrow> dec (enc x) = Some x"
    and enc_dec: "dec s = Some x \<Longrightarrow> enc x = s"
    and dec_good: "dec s = Some x \<Longrightarrow> good x"
begin

lemma dec_iff: "dec s = Some x \<longleftrightarrow> good x \<and> s = enc x"
  using dec_enc enc_dec dec_good by blast

lemma enc_inject: "good x \<Longrightarrow> good y \<Longrightarrow> enc x = enc y \<longleftrightarrow> x = y"
  using dec_enc by (metis option.inject)

lemma dec_unique: "dec s = Some x \<Longrightarrow> dec t = Some x \<Longrightarrow> s = t"
  using enc_dec by metis

end

text \<open>
  A machine: from a state that satisfies the invariant every request leads to one that does, and
  every request moves the state up in a preorder (what is never undone).
\<close>

locale stepper =
  fixes step :: "'q \<Rightarrow> 's \<Rightarrow> 's" and inv :: "'s \<Rightarrow> bool"
  assumes step_inv: "inv s \<Longrightarrow> inv (step q s)"
begin

lemma run_inv: "inv s \<Longrightarrow> inv (fold step qs s)"
  by (induction qs arbitrary: s) (auto simp: step_inv)

end

locale monotone_stepper = stepper +
  fixes below :: "'s \<Rightarrow> 's \<Rightarrow> bool"
  assumes below_refl: "below s s"
    and below_trans: "below s t \<Longrightarrow> below t u \<Longrightarrow> below s u"
    and step_below: "inv s \<Longrightarrow> below s (step q s)"
begin

lemma run_below: "inv s \<Longrightarrow> below s (fold step qs s)"
proof (induction qs arbitrary: s)
  case Nil
  then show ?case by (simp add: below_refl)
next
  case (Cons q qs)
  then have "below (step q s) (fold step qs (step q s))" by (simp add: step_inv)
  with Cons.prems show ?case by (auto intro: below_trans step_below)
qed

end

end
