(* ===== verification/External.thy ===== *)
theory External
  imports Rust_Prelude "HOL-Library.Char_ord" "HOL-Library.List_Lexorder"
begin

text \<open>
  The data types and functions of the third-party crates the sources call. The data types
  (\<open>serde_json::Value\<close>, \<open>yaml_rust2::Yaml\<close>, \<open>toml::Value\<close>, \<open>uuid::Uuid\<close>) are given with their documented
  constructors. The functions are parameters: they are the fields of the record \<open>ext\<close>, which every
  definition that calls one of them takes as its first argument. What a property relies on is
  stated as a named predicate on the record (\<open>b64_law\<close>, \<open>uuid_law\<close>, \<dots>), documented behaviour of the
  crate in question, and is a hypothesis of that property.
\<close>

section \<open>Data\<close>

text \<open>
  A JSON number is an unsigned, a negative or a floating-point one (the last by its IEEE 754
  bits); an object is its entries in key order.
\<close>

datatype number = PosInt u64 | NegInt u64 | Float u64

datatype json =
    JNull
  | JBool bool
  | JNumber number
  | JString string
  | JArray "json list"
  | JObject "(string \<times> json) list"

datatype yaml =
    YReal string
  | YInteger int
  | YString string
  | YBoolean bool
  | YArray "yaml list"
  | YHash "(yaml \<times> yaml) list"
  | YAlias nat
  | YNull
  | YBadValue

datatype toml =
    TString string
  | TInteger int
  | TFloat u64
  | TBoolean bool
  | TDatetime string
  | TArray "toml list"
  | TTable "(string \<times> toml) list"

type_synonym toml_table = "(string \<times> toml) list"

type_synonym uuid = "128 word"

definition uuid_bytes :: "uuid \<Rightarrow> bytes" where
  "uuid_bytes u = be_bytes 16 (unat u)"

definition uuid_from_bytes :: "bytes \<Rightarrow> uuid" where
  "uuid_from_bytes bs = word_of_nat (from_be bs)"

text \<open>\<open>serde_json::Map\<close> without its \<open>preserve_order\<close> feature keeps its keys sorted bytewise.\<close>

definition map_insert :: "string \<Rightarrow> 'a \<Rightarrow> (string \<times> 'a) list \<Rightarrow> (string \<times> 'a) list" where
  "map_insert k v m = insort_key fst (k, v) (filter (\<lambda>e. fst e \<noteq> k) m)"

definition sorted_map :: "(string \<times> 'a) list \<Rightarrow> bool" where
  "sorted_map m \<longleftrightarrow> sorted (map fst m) \<and> distinct (map fst m)"

text \<open>
  The tree \<open>serde_json\<close>'s deserializer walks a visitor through: it may name a key of an object more
  than once.
\<close>

datatype raw =
    RNull
  | RBool bool
  | RI64 u64
  | RU64 u64
  | RF64 u64
  | RStr string
  | RSeq "raw list"
  | RMap "(string \<times> raw) list"

primrec json_as_str :: "json \<Rightarrow> string option" where
  "json_as_str (JString s) = Some s"
| "json_as_str JNull = None"
| "json_as_str (JBool b) = None"
| "json_as_str (JNumber n) = None"
| "json_as_str (JArray xs) = None"
| "json_as_str (JObject m) = None"

primrec json_as_object :: "json \<Rightarrow> (string \<times> json) list option" where
  "json_as_object (JObject m) = Some m"
| "json_as_object JNull = None"
| "json_as_object (JBool b) = None"
| "json_as_object (JNumber n) = None"
| "json_as_object (JArray xs) = None"
| "json_as_object (JString s) = None"

fun json_as_u64 :: "json \<Rightarrow> nat option" where
  "json_as_u64 (JNumber (PosInt w)) = Some (unat w)"
| "json_as_u64 _ = None"

primrec json_as_array :: "json \<Rightarrow> json list option" where
  "json_as_array (JArray xs) = Some xs"
| "json_as_array JNull = None"
| "json_as_array (JBool b) = None"
| "json_as_array (JNumber n) = None"
| "json_as_array (JObject m) = None"
| "json_as_array (JString s) = None"

definition json_get :: "json \<Rightarrow> string \<Rightarrow> json option" where
  "json_get v k = Option.bind (json_as_object v) (\<lambda>m. map_of m k)"

primrec yaml_as_str :: "yaml \<Rightarrow> string option" where
  "yaml_as_str (YString s) = Some s"
| "yaml_as_str (YReal s) = None"
| "yaml_as_str (YInteger i) = None"
| "yaml_as_str (YBoolean b) = None"
| "yaml_as_str (YArray xs) = None"
| "yaml_as_str (YHash m) = None"
| "yaml_as_str (YAlias n) = None"
| "yaml_as_str YNull = None"
| "yaml_as_str YBadValue = None"

primrec toml_as_str :: "toml \<Rightarrow> string option" where
  "toml_as_str (TString s) = Some s"
| "toml_as_str (TInteger i) = None"
| "toml_as_str (TFloat f) = None"
| "toml_as_str (TBoolean b) = None"
| "toml_as_str (TDatetime d) = None"
| "toml_as_str (TArray xs) = None"
| "toml_as_str (TTable m) = None"

definition toml_get :: "toml \<Rightarrow> string \<Rightarrow> toml option" where
  "toml_get v k = (case v of TTable m \<Rightarrow> map_of m k | _ \<Rightarrow> None)"

lemma json_as_simps [simp]:
  "json_as_str v = Some s \<longleftrightarrow> v = JString s"
  "json_as_object v = Some m \<longleftrightarrow> v = JObject m"
  "json_as_array v = Some xs \<longleftrightarrow> v = JArray xs"
  by (cases v; auto)+

lemma toml_as_str_eq_Some [simp]: "toml_as_str t = Some s \<longleftrightarrow> t = TString s"
  by (cases t) auto

lemma map_of_map_insert [simp]: "map_of (map_insert k v m) = (map_of m)(k \<mapsto> v)"
proof -
  have i: "map_of (insort_key fst (k, v) xs) = (map_of xs)(k \<mapsto> v)" if "k \<notin> fst ` set xs" for xs
    using that by (induction xs) (auto simp: fun_upd_twist)
  have f: "map_of (filter (\<lambda>e. fst e \<noteq> k) m) = (map_of m)(k := None)"
    by (induction m) (auto simp: fun_upd_twist)
  have "k \<notin> fst ` set (filter (\<lambda>e. fst e \<noteq> k) m)" by auto
  then show ?thesis by (simp add: map_insert_def i f)
qed

lemma sorted_map_insert [simp]: "sorted_map m \<Longrightarrow> sorted_map (map_insert k v m)"
proof -
  assume m: "sorted_map m"
  let ?f = "filter (\<lambda>e. fst e \<noteq> k) m"
  have k: "k \<notin> fst ` set ?f" by auto
  have "sorted (map fst ?f)" "distinct (map fst ?f)"
    using m by (auto simp: sorted_map_def sorted_filter distinct_map_filter)
  moreover have "distinct (map fst (insort_key fst (k, v) xs))"
    if "distinct (map fst xs)" "k \<notin> fst ` set xs" for xs
    using that by (induction xs) (auto simp: set_insort_key)
  ultimately show ?thesis using k by (simp add: sorted_map_def map_insert_def sorted_insort_key)
qed

lemma set_map_insert: "set (map_insert k v m) = insert (k, v) {e \<in> set m. fst e \<noteq> k}"
  by (auto simp: map_insert_def set_insort_key)

lemma sorted_map_Nil [simp]: "sorted_map []"
  by (simp add: sorted_map_def)

text \<open>
  What \<open>#[derive(Deserialize)]\<close> does with a \<open>Value\<close> for a struct: from an object, the fields by name,
  unknown ones refused when \<open>deny\<close> is set; from an array, the fields by position, where only fields
  with a default may be missing. Each field is listed with whether it has one.
\<close>

fun struct_seq :: "(string \<times> bool) list \<Rightarrow> json list \<Rightarrow> (string \<times> json) list option" where
  "struct_seq [] [] = Some []"
| "struct_seq [] (x # xs) = None"
| "struct_seq ((k, d) # fs) [] = (if d then struct_seq fs [] else None)"
| "struct_seq ((k, d) # fs) (x # xs) = map_option ((#) (k, x)) (struct_seq fs xs)"

definition struct_fields :: "bool \<Rightarrow> (string \<times> bool) list \<Rightarrow> json \<Rightarrow> (string \<times> json) list option" where
  "struct_fields deny fs v =
     (case v of
        JObject m \<Rightarrow> (if deny \<and> \<not> list_all (\<lambda>e. fst e \<in> set (map fst fs)) m then None else Some m)
      | JArray xs \<Rightarrow> struct_seq fs xs
      | _ \<Rightarrow> None)"

definition field :: "(string \<times> json) list \<Rightarrow> string \<Rightarrow> (json \<Rightarrow> 'a option) \<Rightarrow> 'a option" where
  "field m k dec = Option.bind (map_of m k) dec"

text \<open>An \<open>Option\<close> field: absent and \<open>null\<close> are both \<open>None\<close>.\<close>

definition opt_field :: "(string \<times> json) list \<Rightarrow> string \<Rightarrow> (json \<Rightarrow> 'a option) \<Rightarrow> 'a option option" where
  "opt_field m k dec =
     (case map_of m k of
        None \<Rightarrow> Some None
      | Some JNull \<Rightarrow> Some None
      | Some v \<Rightarrow> map_option Some (dec v))"

fun de_list :: "(json \<Rightarrow> 'a option) \<Rightarrow> json list \<Rightarrow> 'a list option" where
  "de_list dec [] = Some []"
| "de_list dec (x # xs) =
     Option.bind (dec x) (\<lambda>y. map_option ((#) y) (de_list dec xs))"

definition de_vec :: "(json \<Rightarrow> 'a option) \<Rightarrow> json \<Rightarrow> 'a list option" where
  "de_vec dec v = Option.bind (json_as_array v) (de_list dec)"

definition de_uint :: "nat \<Rightarrow> json \<Rightarrow> nat option" where
  "de_uint bound v =
     (case v of
        JNumber (PosInt w) \<Rightarrow> (if unat w \<le> bound then Some (unat w) else None)
      | JNumber (NegInt w) \<Rightarrow> (if 0 \<le> sint w \<and> nat (sint w) \<le> bound then Some (nat (sint w)) else None)
      | _ \<Rightarrow> None)"

text \<open>The \<open>json!\<close> macro on an object literal: its entries inserted in the order written.\<close>

definition jobj :: "(string \<times> json) list \<Rightarrow> json" where
  "jobj es = JObject (foldl (\<lambda>m e. map_insert (fst e) (snd e) m) [] es)"

definition jnat :: "nat \<Rightarrow> json" where
  "jnat n = JNumber (PosInt (word_of_nat n))"

lemma map_of_foldl_insert:
  "map_of (foldl (\<lambda>m e. map_insert (fst e) (snd e) m) m es) = map_of m ++ map_of (rev es)"
  by (induction es arbitrary: m) (auto simp: map_add_upd_left fun_eq_iff map_add_def split: option.splits)

lemma sorted_foldl_insert:
  "sorted_map m \<Longrightarrow> sorted_map (foldl (\<lambda>m e. map_insert (fst e) (snd e) m) m es)"
  by (induction es arbitrary: m) auto

lemma set_foldl_insert:
  "set (foldl (\<lambda>m e. map_insert (fst e) (snd e) m) m es) \<subseteq> set m \<union> set es"
  by (induction es arbitrary: m) (fastforce simp: set_map_insert)+

lemma json_get_jobj [simp]: "json_get (jobj es) k = map_of (rev es) k"
  by (simp add: jobj_def json_get_def map_of_foldl_insert)

lemma struct_fields_jobj:
  assumes "deny \<longrightarrow> set (map fst es) \<subseteq> set (map fst fs)"
  shows "\<exists>m. struct_fields deny fs (jobj es) = Some m \<and> map_of m = map_of (rev es)"
proof -
  let ?m = "foldl (\<lambda>m e. map_insert (fst e) (snd e) m) [] es"
  have "set ?m \<subseteq> set es" using set_foldl_insert [of "[]" es] by simp
  then have "fst ` set ?m \<subseteq> set (map fst es)" by auto
  then have "deny \<longrightarrow> fst ` set ?m \<subseteq> set (map fst fs)" using assms by blast
  then have "deny \<longrightarrow> list_all (\<lambda>e. fst e \<in> set (map fst fs)) ?m" unfolding list_all_iff by blast
  moreover have "map_of ?m = map_of (rev es)" by (simp add: map_of_foldl_insert)
  ultimately show ?thesis unfolding struct_fields_def jobj_def by auto
qed

lemma jobj_inject:
  assumes "map fst es = map fst fs" and "distinct (map fst es)" and "jobj es = jobj fs"
  shows "es = fs"
proof -
  have d: "distinct (map fst fs)" using assms by simp
  have "map_of es = map_of fs"
  proof
    fix k
    have "json_get (jobj es) k = json_get (jobj fs) k" using assms(3) by simp
    then have "map_of (rev es) k = map_of (rev fs) k" by simp
    moreover have "map_of (rev xs) = map_of xs" if "distinct (map fst xs)" for xs :: "(string \<times> json) list"
      using that by (intro map_of_inject_set [THEN iffD2]) (auto simp: rev_map [symmetric])
    ultimately show "map_of es k = map_of fs k" using assms(2) d by simp
  qed
  moreover have s: "map snd xs = map (\<lambda>k. the (map_of xs k)) (map fst xs)"
    if "distinct (map fst xs)" for xs :: "(string \<times> json) list"
    using that by (auto simp: o_def intro!: map_cong)
  ultimately have "map snd es = map snd fs"
    using assms(1) unfolding s [OF assms(2)] s [OF d] by simp
  with assms(1) show ?thesis by (rule pair_list_eqI)
qed

text \<open>
  The network openings of a Kata Revision, here because \<open>toml::from_str\<close> produces them, and the groups
  of Unicode's general categories.
\<close>

datatype protocol = Tcp | Udp

record net_opening =
  op_protocol :: protocol
  op_port :: u16
  op_cidr :: string
  op_justification :: string

record openings =
  ingress :: "net_opening list"
  egress :: "net_opening list"

datatype category_group =
  CatLetter | CatMark | CatNumber | CatPunctuation | CatSymbol | CatSeparator | CatOther

text \<open>
  A parsed X.509 certificate, as far as the sources read it: the raw bytes, the signed part, the
  names, the signature, the two forms of the public key, the validity in seconds, the extensions
  (identifier, critical, value), and basic constraints and key usage as \<open>x509_parser\<close> returns them,
  where the outer option is its error: CA flag with path length, and the bits \<open>digitalSignature\<close> and
  \<open>keyCertSign\<close>; last the URI names of the subject alternative name extensions, in order. A DER value is its class, tag and content.
\<close>

record x509 =
  x_raw :: bytes
  x_tbs :: bytes
  x_issuer :: bytes
  x_subject :: bytes
  x_sig_alg :: string
  x_signature :: bytes
  x_public_key :: bytes
  x_spki :: bytes
  x_serial :: bytes
  x_not_before :: int
  x_not_after :: int
  x_extensions :: "(string \<times> bool \<times> bytes) list"
  x_basic :: "(bool \<times> nat option) option option"
  x_key_usage :: "(bool \<times> bool) option option"
  x_uri_sans :: "string list"

record der_value =
  der_class :: nat
  der_tag :: nat
  der_data :: bytes

text \<open>
  What \<open>dcap-qvl\<close> returns for a verified quote: status, advisories and, for a TDX quote, the TD 1.0
  report. Collateral is opaque.
\<close>

type_synonym collateral = bytes

record td_report =
  td_report_data :: bytes
  td_attributes :: bytes
  td_xfam :: bytes
  td_mr_config_id :: bytes
  td_mr_owner :: bytes
  td_mr_owner_config :: bytes
  td_mr_signer_seam :: bytes
  td_mr_td :: bytes
  td_rt_mr0 :: bytes
  td_rt_mr1 :: bytes
  td_rt_mr2 :: bytes
  td_rt_mr3 :: bytes

record qvl_report =
  qv_status :: string
  qv_advisory_ids :: "string list"
  qv_td10 :: "td_report option"

text \<open>
  What the KMS hands to \<open>rcgen\<close> for a leaf: the subject key, the URI and DNS names, the certificate
  authority flag (\<open>None\<close> without basic constraints), the key usage \<open>digitalSignature\<close>, client and
  server authentication, validity, serial number and the custom extensions (identifier, value).
\<close>

record leaf_params =
  lp_spki :: bytes
  lp_uris :: "string list"
  lp_dns :: "string list"
  lp_is_ca :: "bool option"
  lp_digital_signature :: bool
  lp_client_auth :: bool
  lp_server_auth :: bool
  lp_not_before :: int
  lp_not_after :: int
  lp_serial :: bytes
  lp_extensions :: "(nat list \<times> bytes) list"

section \<open>Functions\<close>

text \<open>
  Times are integers: \<open>SystemTime\<close> and \<open>DateTime<Utc>\<close> are nanoseconds from the Unix epoch.
  \<open>rfc3339_parse\<close> reads RFC 3339 text to that scale, \<open>rfc3339_show\<close> prints whole seconds.
\<close>

type_synonym time = int

definition seconds_of :: "time \<Rightarrow> int" where
  "seconds_of t = t div 1000000000"

record ext =
  sha256 :: "bytes \<Rightarrow> bytes"
  sha384 :: "bytes \<Rightarrow> bytes"
  b64_enc :: "bytes \<Rightarrow> string"
  b64_dec :: "string \<Rightarrow> bytes option"
  jcs :: "json \<Rightarrow> bytes option"
  json_from_str :: "string \<Rightarrow> json option"
  json_events :: "bytes \<Rightarrow> raw option"
  json_to_string :: "json \<Rightarrow> string"
  yaml_load :: "string \<Rightarrow> yaml list option"
  toml_from_str :: "string \<Rightarrow> toml_table option"
  uuid_show :: "uuid \<Rightarrow> string"
  uuid_parse :: "string \<Rightarrow> uuid option"
  rfc3339_parse :: "string \<Rightarrow> time option"
  rfc3339_show :: "int \<Rightarrow> string option"
  aes_gcm_enc :: "bytes \<Rightarrow> bytes \<Rightarrow> bytes \<Rightarrow> bytes \<Rightarrow> bytes option"
  aes_gcm_dec :: "bytes \<Rightarrow> bytes \<Rightarrow> bytes \<Rightarrow> bytes \<Rightarrow> bytes option"
  hkdf_sha256 :: "bytes \<Rightarrow> bytes \<Rightarrow> bytes \<Rightarrow> bytes"
  hmac_sha256 :: "bytes \<Rightarrow> bytes \<Rightarrow> bytes"
  ed25519_from_bytes :: "bytes \<Rightarrow> bool"
  ed25519_is_weak :: "bytes \<Rightarrow> bool"
  ed25519_from_spki :: "bytes \<Rightarrow> bytes option"
  ed25519_verify_strict :: "bytes \<Rightarrow> bytes \<Rightarrow> bytes \<Rightarrow> bool"
  ed25519_public :: "bytes \<Rightarrow> bytes"
  ed25519_sign :: "bytes \<Rightarrow> bytes \<Rightarrow> bytes option"
  p256_from_spki :: "bytes \<Rightarrow> bytes option"
  p256_to_spki :: "bytes \<Rightarrow> bytes option"
  p256_sig_from_slice :: "bytes \<Rightarrow> bytes option"
  p256_sig_from_der :: "bytes \<Rightarrow> bytes option"
  p256_verify :: "bytes \<Rightarrow> bytes \<Rightarrow> bytes \<Rightarrow> bool"
  p256_public :: "bytes \<Rightarrow> bytes"
  p256_sign :: "bytes \<Rightarrow> bytes \<Rightarrow> bytes option"
  chrono_de :: "string \<Rightarrow> time option"
  openings_from_toml :: "string \<Rightarrow> openings option"
  general_category_group :: "nat \<Rightarrow> category_group"
  is_alphanumeric :: "nat \<Rightarrow> bool"
  x509_parse :: "bytes \<Rightarrow> (x509 \<times> bytes) option"
  asn1_from_timestamp :: "int \<Rightarrow> int option"
  pem_blocks :: "bytes \<Rightarrow> (string \<times> bytes) option list"
  der_any :: "bytes \<Rightarrow> (der_value \<times> bytes) option"
  der_oid :: "bytes \<Rightarrow> (string \<times> bytes) option"
  p384_from_sec1 :: "bytes \<Rightarrow> bytes option"
  p384_sig_from_slice :: "bytes \<Rightarrow> bytes option"
  p384_sig_from_der :: "bytes \<Rightarrow> bytes option"
  p384_verify :: "bytes \<Rightarrow> bytes \<Rightarrow> bytes \<Rightarrow> bool"
  qvl_verify :: "bytes \<Rightarrow> collateral \<Rightarrow> nat \<Rightarrow> qvl_report option"
  pem_encode :: "string \<Rightarrow> bytes \<Rightarrow> string"
  parse_x509_pem :: "bytes \<Rightarrow> (bytes \<times> string \<times> bytes) option"
  timestamptz :: "time \<Rightarrow> time"
  pbkdf2_sha256 :: "bytes \<Rightarrow> bytes \<Rightarrow> nat \<Rightarrow> bytes"
  b64_std_enc :: "bytes \<Rightarrow> string"
  p256_from_pkcs8 :: "bytes \<Rightarrow> bytes option"
  xwing_public :: "bytes \<Rightarrow> bytes"
  xwing_public_ok :: "bytes \<Rightarrow> bool"
  xwing_encapped_ok :: "bytes \<Rightarrow> bool"
  xwing_private_ok :: "bytes \<Rightarrow> bool"
  hpke_setup_sender :: "bytes \<Rightarrow> bytes \<Rightarrow> bytes \<Rightarrow> (bytes \<times> bytes) option"
  hpke_setup_receiver :: "bytes \<Rightarrow> bytes \<Rightarrow> bytes \<Rightarrow> bytes option"
  hpke_export :: "bytes \<Rightarrow> bytes \<Rightarrow> bytes option"
  utf8string_to_der :: "string \<Rightarrow> bytes option"
  utf8string_from_der :: "bytes \<Rightarrow> (bytes \<times> string) option"
  verify_client_cert :: "bytes \<Rightarrow> bytes \<Rightarrow> bytes list \<Rightarrow> time \<Rightarrow> bool"
  client_verifier_ok :: "bytes \<Rightarrow> bool"
  rcgen_spki_ok :: "bytes \<Rightarrow> bool"
  rcgen_key_pair_ok :: "bytes \<Rightarrow> bool"
  rcgen_issuer_ok :: "bytes \<Rightarrow> bool"
  ia5_ok :: "string \<Rightarrow> bool"
  rcgen_signed_by :: "leaf_params \<Rightarrow> bytes \<Rightarrow> bytes \<Rightarrow> bytes option"
  rcgen_new_ca :: "bytes \<Rightarrow> time \<Rightarrow> time \<Rightarrow> bytes \<Rightarrow> (bytes \<times> bytes) option"
  rcgen_self_signed :: "bytes \<Rightarrow> string \<Rightarrow> string list \<Rightarrow> time \<Rightarrow> time \<Rightarrow> bytes \<Rightarrow> bytes option"
  load_private_key_ok :: "bytes \<Rightarrow> bool"
  p384_verify_prehash :: "bytes \<Rightarrow> bytes \<Rightarrow> bytes \<Rightarrow> bool"
  der_oid_bytes :: "bytes \<Rightarrow> (bytes \<times> bytes) option"
  x509_ocsp_signing :: "x509 \<Rightarrow> bool option option"
  asn1_time_from_der :: "bytes \<Rightarrow> (int \<times> bytes) option"
  shamir_split :: "bytes \<Rightarrow> bytes \<Rightarrow> bytes list option"
  shamir_combine :: "bytes list \<Rightarrow> bytes option"
  hpke_single_shot_seal :: "bytes \<Rightarrow> bytes \<Rightarrow> bytes \<Rightarrow> bytes \<Rightarrow> bytes \<Rightarrow> (bytes \<times> bytes) option"
  hpke_single_shot_open :: "bytes \<Rightarrow> bytes \<Rightarrow> bytes \<Rightarrow> bytes \<Rightarrow> bytes \<Rightarrow> bytes option"
  b64_std_dec :: "string \<Rightarrow> bytes option"
  aes_kw_wrap :: "bytes \<Rightarrow> bytes \<Rightarrow> bytes option"
  p256_secret_ok :: "bytes \<Rightarrow> bool"
  p256_dh :: "bytes \<Rightarrow> bytes \<Rightarrow> bytes"
  p256_from_sec1 :: "bytes \<Rightarrow> bytes option"
  p256_to_sec1 :: "bytes \<Rightarrow> bytes"
  pg_login :: "string \<Rightarrow> string \<Rightarrow> bool"
  p256_sign_prehash :: "bytes \<Rightarrow> bytes \<Rightarrow> bytes option"
  p256_verify_prehash :: "bytes \<Rightarrow> bytes \<Rightarrow> bytes \<Rightarrow> bool"
  p256_sig_to_der :: "bytes \<Rightarrow> bytes"
  collateral_de :: "raw \<Rightarrow> collateral option"

text \<open>
  Keys of the signature crates are byte strings: an Ed25519 verifying key is its 32 bytes, a P-256
  one whatever \<open>p256_from_spki\<close> reads from a SubjectPublicKeyInfo and \<open>p256_to_spki\<close> writes back; a
  parsed P-256 signature is its 64 bytes \<open>r || s\<close>. \<open>hkdf_sha256\<close> takes salt, key material and info and
  gives 32 bytes. \<open>general_category_group\<close>
  and \<open>is_alphanumeric\<close> read Unicode's tables at a code point. \<open>chrono_de\<close> is how \<open>serde\<close> reads a \<open>DateTime<Utc>\<close> from a string.

  \<open>pem_encode\<close> writes one PEM block with a label and \<open>parse_x509_pem\<close> reads the first one: the rest,
  the label and the contents. \<open>timestamptz\<close> is what a time becomes when PostgreSQL stores it. A
  P-256 signing key is its scalar, read by \<open>p256_from_pkcs8\<close>. An X-Wing private key is its seed. The
  two HPKE set-ups (base mode) give the context their parties export from, the sender's also the
  encapsulated key; its first argument is the randomness it draws. \<open>verify_client_cert\<close> is
  \<open>rustls\<close>'s verifier for one trusted root: root, leaf, intermediates, time. \<open>rcgen_new_ca\<close> makes a
  self-signed root from randomness, validity and serial (its key and certificate),
  \<open>rcgen_self_signed\<close> a certificate from a key, a common name, URI names, validity and serial.
  \<open>der_oid\<close> and \<open>der_oid_bytes\<close> read an object identifier as its dotted text and as its content bytes,
  \<open>asn1_time_from_der\<close> a time in seconds; \<open>x509_ocsp_signing\<close> is the OCSP-signing bit of the extended
  key usage, where the outer option is the parser's error. \<open>p384_verify_prehash\<close> verifies over a digest.
  \<open>shamir_split\<close> makes three shares of a secret, two of which recover it; its first argument is the
  randomness, as it is of \<open>hpke_single_shot_seal\<close> (key, info, plaintext, additional data); a
  single-shot open takes key, encapsulated key, info, ciphertext, additional data. \<open>pg_login\<close> is whether
  PostgreSQL accepts a password against the verifier stored for the role. \<open>p256_sign_prehash\<close> and
  \<open>p256_verify_prehash\<close> take a digest, and \<open>p256_sig_to_der\<close> writes a signature as DER.
  \<open>collateral_de\<close> is how \<open>dcap-qvl\<close> reads its collateral from JSON.

  SHA-256 gives 32 bytes and SHA-384 gives 48. Base64url without padding, as the \<open>base64\<close> crate's
  \<open>URL_SAFE_NO_PAD\<close> engine decodes it, refuses padding and stray trailing bits, so decoding inverts
  encoding and accepts nothing else; its alphabet has letters, digits, \<open>-\<close> and \<open>_\<close> only. The
  hyphenated form of a UUID has 36 characters, hexadecimal digits and \<open>-\<close>, starts with a digit and parses back.
\<close>

definition sha_law :: "'x ext_scheme \<Rightarrow> bool" where
  "sha_law E \<longleftrightarrow> (\<forall>b. length (sha256 E b) = 32) \<and> (\<forall>b. length (sha384 E b) = 48)"

definition b64_law :: "'x ext_scheme \<Rightarrow> bool" where
  "b64_law E \<longleftrightarrow> (\<forall>b. b64_dec E (b64_enc E b) = Some b)
     \<and> (\<forall>s b. b64_dec E s = Some b \<longrightarrow> s = b64_enc E b)
     \<and> (\<forall>b. list_all is_graph (b64_enc E b)) \<and> (\<forall>b. b64_enc E b = [] \<longleftrightarrow> b = [])
     \<and> (\<forall>b. CHR ''.'' \<notin> set (b64_enc E b))"

definition uuid_law :: "'x ext_scheme \<Rightarrow> bool" where
  "uuid_law E \<longleftrightarrow> (\<forall>u. uuid_parse E (uuid_show E u) = Some u)
     \<and> (\<forall>u. length (uuid_show E u) = 36)
     \<and> (\<forall>u. list_all (\<lambda>c. hex_value c \<noteq> None \<or> c = CHR ''-'') (uuid_show E u))
     \<and> (\<forall>u. hex_value (hd (uuid_show E u)) \<noteq> None)"

text \<open>
  AES-256-GCM (key, nonce, associated data, message): decryption returns the message of a box that
  encryption made with the same key, nonce and associated data, and opens nothing else; a box is 16
  bytes longer than its message, so never empty.
\<close>

definition aead_law :: "'x ext_scheme \<Rightarrow> bool" where
  "aead_law E \<longleftrightarrow> (\<forall>k n a m c. aes_gcm_enc E k n a m = Some c \<longleftrightarrow> aes_gcm_dec E k n a c = Some m)
     \<and> (\<forall>k n a m c. aes_gcm_enc E k n a m = Some c \<longrightarrow> length c = length m + 16)"

text \<open>
  A signature made with a signing key is 64 bytes and verifies under its public key, which is a
  valid key and, for Ed25519, not a weak one.
\<close>

definition ed25519_law :: "'x ext_scheme \<Rightarrow> bool" where
  "ed25519_law E \<longleftrightarrow>
     (\<forall>k m s. ed25519_sign E k m = Some s \<longrightarrow> length s = 64 \<and> ed25519_verify_strict E (ed25519_public E k) m s)
     \<and> (\<forall>k. length (ed25519_public E k) = 32 \<and> ed25519_from_bytes E (ed25519_public E k)
            \<and> \<not> ed25519_is_weak E (ed25519_public E k))"

definition p256_law :: "'x ext_scheme \<Rightarrow> bool" where
  "p256_law E \<longleftrightarrow>
     (\<forall>k m s. p256_sign E k m = Some s \<longrightarrow>
        p256_sig_from_slice E s = Some s \<and> p256_verify E (p256_public E k) m s)"

text \<open>
  PostgreSQL keeps a \<open>timestamptz\<close> with a resolution of one microsecond: order is kept, a time of
  whole microseconds is kept as it is, and a stored time is such a time.
\<close>

definition timestamptz_law :: "'x ext_scheme \<Rightarrow> bool" where
  "timestamptz_law E \<longleftrightarrow> (\<forall>t u. t \<le> u \<longrightarrow> timestamptz E t \<le> timestamptz E u)
     \<and> (\<forall>t. 1000 dvd t \<longrightarrow> timestamptz E t = t) \<and> (\<forall>t. 1000 dvd timestamptz E t)"

text \<open>HKDF-SHA256 is asked for 32 bytes.\<close>

definition hkdf_law :: "'x ext_scheme \<Rightarrow> bool" where
  "hkdf_law E \<longleftrightarrow> (\<forall>s k i. length (hkdf_sha256 E s k i) = 32)"

text \<open>
  HPKE: whoever holds the private key of the public key encapsulated to gets the sender's context,
  from the encapsulated key and the same info.
\<close>

definition hpke_law :: "'x ext_scheme \<Rightarrow> bool" where
  "hpke_law E \<longleftrightarrow> (\<forall>r sk i enc ctx. hpke_setup_sender E r (xwing_public E sk) i = Some (enc, ctx) \<longrightarrow>
     xwing_encapped_ok E enc \<and> hpke_setup_receiver E sk enc i = Some ctx)
     \<and> (\<forall>sk. xwing_public_ok E (xwing_public E sk))"

text \<open>
  A PEM block written with a label reads back, with nothing after it.
\<close>

definition pem_law :: "'x ext_scheme \<Rightarrow> bool" where
  "pem_law E \<longleftrightarrow> (\<forall>l b. parse_x509_pem E (as_bytes (pem_encode E l b)) = Some ([], l, b))"

text \<open>
  Reading a DER value consumes at least its identifier and length.
\<close>

definition der_law :: "'x ext_scheme \<Rightarrow> bool" where
  "der_law E \<longleftrightarrow> (\<forall>b v r. der_any E b = Some (v, r) \<longrightarrow> length r < length b)"

text \<open>
  Two distinct shares of a two-of-three split recover the secret; a single-shot HPKE box opens under
  the private key with the same info and additional data.
\<close>

definition shamir_law :: "'x ext_scheme \<Rightarrow> bool" where
  "shamir_law E \<longleftrightarrow> (\<forall>r s shares. shamir_split E r s = Some shares \<longrightarrow> length shares = 3 \<and> distinct shares
     \<and> (\<forall>a \<in> set shares. \<forall>b \<in> set shares. a \<noteq> b \<longrightarrow> shamir_combine E [a, b] = Some s))"

definition hpke_box_law :: "'x ext_scheme \<Rightarrow> bool" where
  "hpke_box_law E \<longleftrightarrow> (\<forall>r sk i m a enc ct. hpke_single_shot_seal E r (xwing_public E sk) i m a = Some (enc, ct) \<longrightarrow>
     xwing_encapped_ok E enc \<and> hpke_single_shot_open E sk enc i ct a = Some m)"

lemma aead_iff: "aead_law E \<Longrightarrow> aes_gcm_dec E k n a c = Some m \<longleftrightarrow> aes_gcm_enc E k n a m = Some c"
  by (simp add: aead_law_def)

lemma aead_length: "aead_law E \<Longrightarrow> aes_gcm_enc E k n a m = Some c \<Longrightarrow> length c = length m + 16"
  by (simp add: aead_law_def)

lemma b64_graph: "b64_law E \<Longrightarrow> list_all is_graph (b64_enc E b)"
  by (simp add: b64_law_def)

lemma b64_no_dot: "b64_law E \<Longrightarrow> CHR ''.'' \<notin> set (b64_enc E b)"
  by (simp add: b64_law_def)

lemma b64_enc_Nil: "b64_law E \<Longrightarrow> b64_enc E b = [] \<longleftrightarrow> b = []"
  by (simp add: b64_law_def)

lemma sha_lawD: "sha_law E \<Longrightarrow> length (sha256 E b) = 32" "sha_law E \<Longrightarrow> length (sha384 E b) = 48"
  by (simp_all add: sha_law_def)

lemma b64_decode_encode: "b64_law E \<Longrightarrow> b64_dec E (b64_enc E b) = Some b"
  by (simp add: b64_law_def)

lemma b64_canonical: "b64_law E \<Longrightarrow> b64_dec E s = Some b \<Longrightarrow> s = b64_enc E b"
  by (simp add: b64_law_def)

lemma b64_enc_inject: "b64_law E \<Longrightarrow> b64_enc E a = b64_enc E b \<longleftrightarrow> a = b"
  by (metis b64_decode_encode option.inject)

lemma uuid_show_inject: "uuid_law E \<Longrightarrow> uuid_show E u = uuid_show E v \<longleftrightarrow> u = v"
  unfolding uuid_law_def by (metis option.inject)

lemma length_uuid_bytes [simp]: "length (uuid_bytes u) = 16"
  by (simp add: uuid_bytes_def)

lemma uuid_from_bytes_bytes [simp]: "uuid_from_bytes (uuid_bytes u) = u"
proof -
  have "unat u < 256 ^ 16"
    using unsigned_less [of u] by (rule order_less_le_trans) simp
  then show ?thesis by (simp add: uuid_from_bytes_def uuid_bytes_def from_be_be_bytes)
qed

lemma uuid_bytes_inject [simp]: "uuid_bytes u = uuid_bytes v \<longleftrightarrow> u = v"
  by (metis uuid_from_bytes_bytes)

end
