(* ===== verification/Demo.thy ===== *)
theory Demo
  imports External
begin

text \<open>
  A concrete instance of the third-party functions, used only where a witness evaluates the
  definitions: hashes that pad or cut their input, hexadecimal in place of base64, and 36
  characters of hexadecimal digits and \<open>-\<close> for a UUID. It satisfies the laws the properties assume.
\<close>

definition demo_hash :: "nat \<Rightarrow> bytes \<Rightarrow> bytes" where
  "demo_hash n b = take n (b @ replicate n 0)"

fun demo_unhex :: "string \<Rightarrow> bytes option" where
  "demo_unhex [] = Some []"
| "demo_unhex [c] = None"
| "demo_unhex (a # b # r) =
     (case (hex_value a, hex_value b, demo_unhex r) of
        (Some x, Some y, Some bs) \<Rightarrow> Some (word_of_nat (16 * x + y) # bs)
      | _ \<Rightarrow> None)"

definition demo_uuid_show :: "uuid \<Rightarrow> string" where
  "demo_uuid_show u = hex_encode (uuid_bytes u) @ ''----''"

definition demo_uuid_parse :: "string \<Rightarrow> uuid option" where
  "demo_uuid_parse s =
     (if length s = 36 then
        Option.bind (strip_suffix ''----'' s) (\<lambda>h. map_option uuid_from_bytes (demo_unhex h))
      else None)"

definition demo_jstr :: "string \<Rightarrow> bytes" where
  "demo_jstr s = concat (map (\<lambda>c. [1, word_of_nat (code c)]) s) @ [0]"

fun demo_jcs :: "json \<Rightarrow> bytes" where
  "demo_jcs JNull = [0]"
| "demo_jcs (JBool b) = [1, if b then 1 else 0]"
| "demo_jcs (JNumber (PosInt w)) = 2 # be_bytes 8 (unat w)"
| "demo_jcs (JNumber (NegInt w)) = 3 # be_bytes 8 (unat w)"
| "demo_jcs (JNumber (Float w)) = 4 # be_bytes 8 (unat w)"
| "demo_jcs (JString s) = 5 # demo_jstr s"
| "demo_jcs (JArray xs) = 6 # concat (map (\<lambda>x. 1 # demo_jcs x) xs) @ [0]"
| "demo_jcs (JObject m) = 7 # concat (map (\<lambda>e. 1 # demo_jstr (fst e) @ demo_jcs (snd e)) m) @ [0]"

definition demo_tag :: "bytes \<Rightarrow> bytes \<Rightarrow> bytes \<Rightarrow> bytes" where
  "demo_tag k n a = demo_hash 16 (n @ rev a @ k)"

definition demo_seal :: "bytes \<Rightarrow> bytes \<Rightarrow> bytes \<Rightarrow> bytes \<Rightarrow> bytes option" where
  "demo_seal k n a m = Some (demo_tag k n a @ m)"

definition demo_open :: "bytes \<Rightarrow> bytes \<Rightarrow> bytes \<Rightarrow> bytes \<Rightarrow> bytes option" where
  "demo_open k n a c = strip_prefix (demo_tag k n a) c"

definition demo_public :: "nat \<Rightarrow> bytes \<Rightarrow> bytes" where
  "demo_public n k = 1 # demo_hash n k"

definition demo_pem :: "bytes \<Rightarrow> (bytes \<times> string \<times> bytes) option" where
  "demo_pem s = Option.bind (split_once ''.'' (from_bytes s)) (\<lambda>(l, c).
     Option.bind (demo_unhex l) (\<lambda>lb. map_option (\<lambda>b. ([], from_bytes lb, b)) (demo_unhex c)))"

fun demo_combine :: "bytes list \<Rightarrow> bytes option" where
  "demo_combine ((i # s) # (j # t) # _) = (if i \<noteq> j \<and> s = t then Some s else None)"
| "demo_combine _ = None"

definition demo :: ext where
  "demo = \<lparr> sha256 = demo_hash 32, sha384 = demo_hash 48, b64_enc = hex_encode,
     b64_dec = demo_unhex, jcs = (\<lambda>v. Some (demo_jcs v)), json_from_str = (\<lambda>_. None),
     json_events = (\<lambda>_. None), json_to_string = (\<lambda>_. []),
     yaml_load = (\<lambda>_. None), toml_from_str = (\<lambda>_. None), uuid_show = demo_uuid_show,
     uuid_parse = demo_uuid_parse, rfc3339_parse = (\<lambda>_. None), rfc3339_show = (\<lambda>_. None),
     aes_gcm_enc = demo_seal, aes_gcm_dec = demo_open,
     hkdf_sha256 = (\<lambda>salt ikm info. demo_hash 32 (salt @ ikm @ info)),
     hmac_sha256 = (\<lambda>k m. demo_hash 32 (k @ m)),
     ed25519_from_bytes = (\<lambda>k. length k = 32), ed25519_is_weak = (\<lambda>k. k = replicate 32 0),
     ed25519_from_spki = (\<lambda>s. if length s = 32 then Some s else None),
     ed25519_verify_strict = (\<lambda>k m s. s = demo_hash 64 (k @ m)), ed25519_public = demo_public 31,
     ed25519_sign = (\<lambda>k m. Some (demo_hash 64 (demo_public 31 k @ m))),
     p256_from_spki = (\<lambda>s. if length s = 33 then Some s else None), p256_to_spki = (\<lambda>k. Some k),
     p256_sig_from_slice = (\<lambda>s. if length s = 64 then Some s else None),
     p256_sig_from_der = (\<lambda>s. if length s = 64 then Some s else None),
     p256_verify = (\<lambda>k m s. s = demo_hash 64 (k @ m)), p256_public = demo_public 32,
     p256_sign = (\<lambda>k m. Some (demo_hash 64 (demo_public 32 k @ m))), chrono_de = (\<lambda>_. None),
     openings_from_toml = (\<lambda>_. None),
     general_category_group = (\<lambda>c. if c = 32 then CatSeparator else if c < 33 then CatOther else CatLetter),
     is_alphanumeric = (\<lambda>c. 97 \<le> c \<and> c \<le> 122),
     x509_parse = (\<lambda>_. None), asn1_from_timestamp = Some, pem_blocks = (\<lambda>_. []),
     der_any = (\<lambda>_. None), der_oid = (\<lambda>_. None), p384_from_sec1 = (\<lambda>_. None),
     p384_sig_from_slice = Some, p384_sig_from_der = Some,
     p384_verify = (\<lambda>k m s. s = demo_hash 96 (k @ m)), qvl_verify = (\<lambda>_ _ _. None),
     pem_encode = (\<lambda>l b. hex_encode (as_bytes l) @ ''.'' @ hex_encode b), parse_x509_pem = demo_pem,
     timestamptz = (\<lambda>t. 1000 * (t div 1000)), pbkdf2_sha256 = (\<lambda>p s n. demo_hash 32 (p @ s)),
     b64_std_enc = hex_encode, p256_from_pkcs8 = Some, xwing_public = demo_public 1215,
     xwing_public_ok = (\<lambda>k. length k = 1216), xwing_encapped_ok = (\<lambda>e. length e = 1216),
     xwing_private_ok = (\<lambda>_. True), hpke_setup_sender = (\<lambda>r pk i. Some (pk, pk @ i)),
     hpke_setup_receiver = (\<lambda>sk e i. Some (demo_public 1215 sk @ i)),
     hpke_export = (\<lambda>c l. Some (demo_hash 32 (rev l @ c))), utf8string_to_der = (\<lambda>s. Some (as_bytes s)),
     utf8string_from_der = (\<lambda>b. map_option (\<lambda>s. ([], s)) (from_utf8 b)),
     verify_client_cert = (\<lambda>_ _ _ _. True), client_verifier_ok = (\<lambda>_. True), rcgen_spki_ok = (\<lambda>_. True),
     rcgen_key_pair_ok = (\<lambda>_. True), rcgen_issuer_ok = (\<lambda>_. True), ia5_ok = (\<lambda>_. True),
     rcgen_signed_by = (\<lambda>p k c. Some (lp_spki p)), rcgen_new_ca = (\<lambda>r nb na s. Some (r, 1 # r)),
     rcgen_self_signed = (\<lambda>k cn uris nb na s. Some k), load_private_key_ok = (\<lambda>_. True),
     p384_verify_prehash = (\<lambda>k d s. s = demo_hash 96 (k @ d)), der_oid_bytes = (\<lambda>_. None),
     x509_ocsp_signing = (\<lambda>_. None), asn1_time_from_der = (\<lambda>_. None),
     shamir_split = (\<lambda>r s. Some [1 # s, 2 # s, 3 # s]), shamir_combine = demo_combine,
     hpke_single_shot_seal = (\<lambda>r pk i m a. map_option (Pair pk) (demo_seal pk i a m)),
     hpke_single_shot_open = (\<lambda>sk e i c a. demo_open (demo_public 1215 sk) i a c),
     b64_std_dec = demo_unhex, aes_kw_wrap = (\<lambda>k m. Some (demo_hash 8 k @ m)), p256_secret_ok = (\<lambda>_. True),
     p256_dh = (\<lambda>k p. k @ p), p256_from_sec1 = (\<lambda>b. if length b = 65 then Some (take 33 b) else None),
     p256_to_sec1 = (\<lambda>k. demo_hash 65 k), pg_login = (\<lambda>_ _. True),
     p256_sign_prehash = (\<lambda>k d. Some (demo_hash 64 (demo_public 32 k @ d))), p256_verify_prehash = (\<lambda>k d s. s = demo_hash 64 (k @ d)),
     p256_sig_to_der = (\<lambda>s. s), collateral_de = (\<lambda>_. Some []) \<rparr>"

lemma length_demo_hash [simp]: "length (demo_hash n b) = n"
  by (simp add: demo_hash_def min_def)

lemma demo_unhex_encode: "demo_unhex (hex_encode bs) = Some bs"
proof (induction bs)
  case Nil
  then show ?case by (simp add: hex_encode_def)
next
  case (Cons b bs)
  have "hex_value (hex_char (unat b div 16)) = Some (unat b div 16)"
    and "hex_value (hex_char (unat b mod 16)) = Some (unat b mod 16)"
    by (rule hex_value_char; simp add: less_mult_imp_div_less)+
  moreover have "hex_encode (b # bs) =
      hex_char (unat b div 16) # hex_char (unat b mod 16) # hex_encode bs"
    by (simp add: hex_encode_def hex_byte_def)
  ultimately show ?case using Cons.IH by simp
qed

lemma demo_unhex_canonical: "demo_unhex s = Some bs \<Longrightarrow> s = hex_encode bs"
proof (induction s arbitrary: bs rule: demo_unhex.induct)
  case (3 a b r)
  then obtain x y bs' where x: "hex_value a = Some x" and y: "hex_value b = Some y"
    and r: "demo_unhex r = Some bs'" and bs: "bs = word_of_nat (16 * x + y) # bs'"
    by (auto split: option.splits)
  from hex_char_value [OF x] hex_char_value [OF y]
  have c: "hex_char x = a" "hex_char y = b" "x < 16" "y < 16" by auto
  then have "unat (word_of_nat (16 * x + y) :: byte) = 16 * x + y"
    by (intro unat_byte_of_nat) simp
  with c have "hex_byte (word_of_nat (16 * x + y)) = [a, b]"
    by (simp add: hex_byte_def del: of_nat_add of_nat_mult)
  with "3.IH" x y r show ?case by (simp add: bs hex_encode_def del: of_nat_add of_nat_mult)
qed (auto simp: hex_encode_def)

lemma hex_encode_graph: "list_all is_graph (hex_encode bs)"
proof -
  have "hex_value c \<noteq> None \<Longrightarrow> is_graph c" for c
    by (auto simp: is_graph_def hex_value_def split: if_splits)
  with hex_encode_hex show ?thesis by (fastforce simp: list_all_iff)
qed

lemma hex_encode_Nil: "hex_encode bs = [] \<longleftrightarrow> bs = []"
  by (auto simp: hex_encode_def hex_byte_def)

lemma hex_encode_no_dot: "CHR ''.'' \<notin> set (hex_encode bs)"
  by (auto dest: hex_encode_hex simp: hex_value_def code_def)

lemma demo_b64: "b64_law demo"
  by (simp add: b64_law_def demo_def demo_unhex_encode demo_unhex_canonical hex_encode_graph hex_encode_Nil hex_encode_no_dot)

lemma demo_public_not_zero: "demo_public n k \<noteq> replicate m 0"
  by (cases m) (simp_all add: demo_public_def)

lemma length_demo_public [simp]: "length (demo_public n k) = Suc n"
  by (simp add: demo_public_def)

lemma demo_ed25519: "ed25519_law demo"
  by (simp add: ed25519_law_def demo_def demo_public_not_zero)

lemma demo_p256: "p256_law demo"
  by (simp add: p256_law_def demo_def)

lemma demo_aead: "aead_law demo"
  by (auto simp: aead_law_def demo_def demo_seal_def demo_open_def demo_tag_def)

lemma demo_jstr_inject: "demo_jstr s @ x = demo_jstr t @ y \<longleftrightarrow> s = t \<and> x = y"
proof (induction s arbitrary: t)
  case Nil
  then show ?case by (cases t) (auto simp: demo_jstr_def)
next
  case (Cons c s)
  then show ?case by (cases t) (auto simp: demo_jstr_def byte_of_code_inject)
qed

lemma be_bytes_8_inject: "be_bytes 8 (unat v) @ x = be_bytes 8 (unat w) @ y \<longleftrightarrow> v = w \<and> x = y"
  for v w :: u64
proof -
  have b: "unat u < 256 ^ 8" for u :: u64
    using unsigned_less [of u] by (rule order_less_le_trans) simp
  show ?thesis using be_bytes_inject [OF b b, of v w] by (auto simp: append_eq_append_conv unsigned_word_eqI)
qed

lemma tagged_inject:
  assumes "\<And>v w x y. v \<in> set vs \<Longrightarrow> f v @ x = f w @ y \<Longrightarrow> v = w \<and> x = y"
    and "concat (map (\<lambda>v. 1 # f v) vs) @ (0 :: byte) # x = concat (map (\<lambda>v. 1 # f v) ws) @ 0 # y"
  shows "vs = ws \<and> x = y"
  using assms
proof (induction vs arbitrary: ws)
  case Nil
  then show ?case by (cases ws) auto
next
  case (Cons v vs)
  then obtain w ws' where ws: "ws = w # ws'" by (cases ws) auto
  with Cons.prems(2) have "f v @ concat (map (\<lambda>v. 1 # f v) vs) @ 0 # x =
    f w @ concat (map (\<lambda>v. 1 # f v) ws') @ 0 # y" by simp
  with Cons.prems(1) [of v] have v: "v = w"
    and r: "concat (map (\<lambda>v. 1 # f v) vs) @ 0 # x = concat (map (\<lambda>v. 1 # f v) ws') @ 0 # y"
    by auto
  have "vs = ws' \<and> x = y" by (rule Cons.IH [OF Cons.prems(1) r]) simp_all
  with v ws show ?case by simp
qed

lemma demo_jcs_inject: "demo_jcs v @ x = demo_jcs w @ y \<Longrightarrow> v = w \<and> x = y"
proof (induction v arbitrary: w x y rule: demo_jcs.induct)
  case (7 xs)
  then obtain ws where w: "w = JArray ws" by (cases w rule: demo_jcs.cases) auto
  with tagged_inject [of xs demo_jcs x ws y] 7 show ?case by auto
next
  case (8 m)
  then obtain n where w: "w = JObject n" by (cases w rule: demo_jcs.cases) auto
  have "e = f \<and> a = b" if "e \<in> set m" and
    "(demo_jstr (fst e) @ demo_jcs (snd e)) @ a = (demo_jstr (fst f) @ demo_jcs (snd f)) @ b" for e f a b
    using 8(1) [OF that(1), of a "snd f" b] that(2) by (simp add: demo_jstr_inject prod_eq_iff)
  with w tagged_inject [of m "\<lambda>e. demo_jstr (fst e) @ demo_jcs (snd e)" x n y] 8(2)
  show ?case by simp
next
  case 1
  then show ?case by (cases w rule: demo_jcs.cases) simp_all
next
  case (2 b)
  then show ?case by (cases w rule: demo_jcs.cases) (simp_all split: if_splits)
next
  case (3 v)
  then show ?case by (cases w rule: demo_jcs.cases) (simp_all add: be_bytes_8_inject)
next
  case (4 v)
  then show ?case by (cases w rule: demo_jcs.cases) (simp_all add: be_bytes_8_inject)
next
  case (5 v)
  then show ?case by (cases w rule: demo_jcs.cases) (simp_all add: be_bytes_8_inject)
next
  case (6 s)
  then show ?case by (cases w rule: demo_jcs.cases) (simp_all add: demo_jstr_inject)
qed

lemma demo_sha: "sha_law demo"
  by (simp add: sha_law_def demo_def)

lemma demo_uuid_roundtrip: "demo_uuid_parse (demo_uuid_show u) = Some u"
  by (simp add: demo_uuid_show_def demo_uuid_parse_def strip_suffix_def demo_unhex_encode
      del: strip_suffix_Some)

lemma demo_uuid: "uuid_law demo"
proof -
  have "hex_encode (uuid_bytes u) \<noteq> []" for u by (rule notI) (drule arg_cong [of _ _ length], simp)
  then have "hd (demo_uuid_show u) \<in> set (hex_encode (uuid_bytes u))" for u
    by (simp add: demo_uuid_show_def)
  then have "hex_value (hd (demo_uuid_show u)) \<noteq> None" for u by (rule hex_encode_hex)
  moreover have "list_all (\<lambda>c. hex_value c \<noteq> None \<or> c = CHR ''-'') (demo_uuid_show u)" for u
    using hex_encode_hex [of _ "uuid_bytes u"] by (auto simp: demo_uuid_show_def list_all_iff)
  moreover have "length (demo_uuid_show u) = 36" for u by (simp add: demo_uuid_show_def)
  ultimately show ?thesis by (simp add: uuid_law_def demo_def demo_uuid_roundtrip)
qed

lemma demo_timestamptz: "timestamptz_law demo"
  by (auto simp: timestamptz_law_def demo_def zdiv_mono1)

lemma demo_hkdf: "hkdf_law demo"
  by (simp add: hkdf_law_def demo_def)

lemma demo_hpke: "hpke_law demo"
  by (simp add: hpke_law_def demo_def)

lemma demo_shamir: "shamir_law demo"
  by (auto simp: shamir_law_def demo_def)

lemma demo_hpke_box: "hpke_box_law demo"
  by (auto simp: hpke_box_law_def demo_def demo_seal_def demo_open_def demo_public_def)

lemma from_bytes_as_bytes [simp]: "from_bytes (as_bytes s) = s"
  by (simp add: from_bytes_def as_bytes_def o_def unat_of_nat) (simp add: code_def map_idI)

lemma split_once_hex: "split_once ''.'' (hex_encode bs @ CHR ''.'' # r) = Some (hex_encode bs, r)"
proof -
  have "split_once ''.'' (w @ CHR ''.'' # r) = Some (w, r)" if "CHR ''.'' \<notin> set w" for w
    using that by (induction w) auto
  moreover have "hex_value CHR ''.'' = None" by (simp add: hex_value_def code_def)
  ultimately show ?thesis using hex_encode_hex by blast
qed

lemma demo_pem: "pem_law demo"
  by (simp add: pem_law_def demo_def demo_pem_def split_once_hex demo_unhex_encode del: as_bytes_append)

end
