(* ===== verification/Core_Names.thy ===== *)
theory Core_Names
  imports Demo
begin

text \<open>
  \<^verbatim>\<open>crates/alpha-core/src/lib.rs\<close> and \<^verbatim>\<open>crates/alpha-core/src/compose.rs\<close>: the names of keys and
  Secrets, the Revision digest and its text form, and the checks a compose passes before it can
  be registered as a Revision.
\<close>

section \<open>Key purposes and Secret names\<close>

definition segment_char :: "char \<Rightarrow> bool" where
  "segment_char c \<longleftrightarrow> is_ascii_lowercase c \<or> is_ascii_digit c \<or> c \<in> {CHR ''.'', CHR ''_'', CHR ''-''}"

definition is_segment :: "string \<Rightarrow> nat \<Rightarrow> bool" where
  "is_segment name bound \<longleftrightarrow>
     (case name of [] \<Rightarrow> False | b # _ \<Rightarrow> is_ascii_lowercase b \<or> is_ascii_digit b)
     \<and> length name \<le> bound
     \<and> list_all segment_char name"

definition is_key_purpose :: "string \<Rightarrow> bool" where
  "is_key_purpose purpose = is_segment purpose 64"

definition is_secret_name :: "string \<Rightarrow> bool" where
  "is_secret_name name = is_segment name 101"

definition SECRET_SALT_LEN :: nat where
  "SECRET_SALT_LEN = 32"

section \<open>The Revision digest\<close>

type_synonym compose_hash = bytes

text \<open>
  The source reads each pair of digits with \<open>from_str_radix\<close>; the guard before the loop has
  already refused everything but lowercase digits, and \<open>chunks_exact\<close> drops an odd last digit.
\<close>

fun hex_pairs :: "string \<Rightarrow> bytes option" where
  "hex_pairs (a # b # rest) =
     (case (hex_value a, hex_value b) of
        (Some x, Some y) \<Rightarrow> map_option ((#) (word_of_nat (16 * x + y))) (hex_pairs rest)
      | _ \<Rightarrow> None)"
| "hex_pairs _ = Some []"

definition hex_bytes :: "nat \<Rightarrow> string \<Rightarrow> bytes option" where
  "hex_bytes n hex =
     (if length hex \<noteq> 2 * n \<or> \<not> list_all (\<lambda>c. hex_value c \<noteq> None) hex then None
      else hex_pairs hex)"

definition compose_hash_show :: "compose_hash \<Rightarrow> string" where
  "compose_hash_show h = ''sha256:'' @ hex_encode h"

definition compose_hash_from_str :: "string \<Rightarrow> compose_hash option" where
  "compose_hash_from_str s = Option.bind (strip_prefix ''sha256:'' s) (hex_bytes 32)"

definition compose_hash_of :: "'x ext_scheme \<Rightarrow> bytes \<Rightarrow> compose_hash" where
  "compose_hash_of E compose = sha256 E compose"

section \<open>Registration of a compose\<close>

datatype registration_error =
    Json | NotObject | NameMismatch string uuid | NoDockerComposeFile | Yaml
  | ImageWithoutDigest string | BuildNotAllowed

definition registration_error_code :: "registration_error \<Rightarrow> string" where
  "registration_error_code e = ''malformed''"

definition has_sha256_digest :: "string \<Rightarrow> bool" where
  "has_sha256_digest img =
     (case rsplit_once ''@sha256:'' img of
        None \<Rightarrow> False
      | Some (_, hex) \<Rightarrow> hex_bytes 32 hex \<noteq> None)"

fun check_images :: "yaml \<Rightarrow> (unit, registration_error) result"
and check_entries :: "(yaml \<times> yaml) list \<Rightarrow> (unit, registration_error) result"
and check_items :: "yaml list \<Rightarrow> (unit, registration_error) result" where
  "check_images (YHash m) = check_entries m"
| "check_images (YArray items) = check_items items"
| "check_images _ = Ok ()"
| "check_entries [] = Ok ()"
| "check_entries ((key, v) # m) =
     and_then
       (refuse_if (yaml_as_str key = Some ''build'') BuildNotAllowed
         (let img = (case yaml_as_str v of None \<Rightarrow> [] | Some s \<Rightarrow> s) in
          refuse_if (yaml_as_str key = Some ''image'' \<and> \<not> has_sha256_digest img)
            (ImageWithoutDigest img)
            (check_images v)))
       (\<lambda>_. check_entries m)"
| "check_items [] = Ok ()"
| "check_items (x # xs) = and_then (check_images x) (\<lambda>_. check_items xs)"

definition check_registration ::
  "'x ext_scheme \<Rightarrow> string \<Rightarrow> uuid \<Rightarrow> (compose_hash, registration_error) result" where
  "check_registration E compose app_id =
     and_then (ok_or (json_from_str E compose) Json) (\<lambda>v.
     and_then (ok_or (json_as_object v) NotObject) (\<lambda>obj.
     let name = (case Option.bind (map_of obj ''name'') json_as_str of None \<Rightarrow> [] | Some s \<Rightarrow> s) in
     refuse_if (name \<noteq> uuid_show E app_id) (NameMismatch name app_id)
     (and_then (ok_or (Option.bind (map_of obj ''docker_compose_file'') json_as_str)
                 NoDockerComposeFile) (\<lambda>text.
      and_then (ok_or (yaml_load E text) Yaml) (\<lambda>docs.
      and_then (try_for_each check_images docs) (\<lambda>_.
      Ok (compose_hash_of E (as_bytes compose))))))))"

section \<open>Lemmas\<close>

lemma hex_pairs_encode: "hex_pairs (hex_encode bs) = Some bs"
proof (induction bs)
  case Nil
  then show ?case by (simp add: hex_encode_def)
next
  case (Cons b bs)
  have "hex_value (hex_char (unat b div 16)) = Some (unat b div 16)"
    and "hex_value (hex_char (unat b mod 16)) = Some (unat b mod 16)"
    by (rule hex_value_char; simp add: less_mult_imp_div_less)+
  moreover have "hex_encode (b # bs) =
      hex_char (unat b div 16) # hex_char (unat b mod 16) # hex_encode bs"
    by (simp add: hex_encode_def hex_byte_def)
  ultimately show ?case using Cons.IH by simp
qed

lemma hex_encode_pairs:
  "even (length s) \<Longrightarrow> hex_pairs s = Some bs \<Longrightarrow> hex_encode bs = s"
proof (induction s arbitrary: bs rule: hex_pairs.induct)
  case (1 a b rest)
  then obtain x y bs' where x: "hex_value a = Some x" and y: "hex_value b = Some y"
    and r: "hex_pairs rest = Some bs'" and bs: "bs = word_of_nat (16 * x + y) # bs'"
    by (auto split: option.splits)
  from hex_char_value [OF x] hex_char_value [OF y]
  have c: "hex_char x = a" "hex_char y = b" "x < 16" "y < 16" by auto
  then have "unat (word_of_nat (16 * x + y) :: byte) = 16 * x + y"
    by (intro unat_byte_of_nat) simp
  with c have "hex_byte (word_of_nat (16 * x + y)) = [a, b]"
    by (simp add: hex_byte_def del: of_nat_add of_nat_mult)
  moreover from "1.prems" "1.IH" x y r have "hex_encode bs' = rest" by simp
  ultimately show ?case by (simp add: bs hex_encode_def)
qed (auto simp: hex_encode_def)

lemma hex_pairs_length: "hex_pairs s = Some bs \<Longrightarrow> length bs = length s div 2"
  by (induction s arbitrary: bs rule: hex_pairs.induct) (auto split: option.splits)

interpretation hex: codec hex_encode "hex_bytes n" "\<lambda>bs. length bs = n" for n
proof unfold_locales
  show "length x = n \<Longrightarrow> hex_bytes n (hex_encode x) = Some x" for x :: bytes
    by (auto simp: hex_bytes_def hex_pairs_encode list_all_iff dest: hex_encode_hex)
  show "hex_bytes n s = Some x \<Longrightarrow> hex_encode x = s" for s x
    by (auto simp: hex_bytes_def hex_encode_pairs split: if_splits)
  show "hex_bytes n s = Some x \<Longrightarrow> length x = n" for s x
    by (auto simp: hex_bytes_def dest: hex_pairs_length split: if_splits)
qed

interpretation compose_text:
  codec compose_hash_show compose_hash_from_str "\<lambda>h. length h = 32"
  by unfold_locales
    (auto simp: compose_hash_show_def compose_hash_from_str_def hex.dec_enc hex.enc_dec hex.dec_good
      split: Option.bind_splits)

text \<open>The entries at any depth of a YAML document, through the values of maps and the items of lists.\<close>

inductive entry_in :: "yaml \<Rightarrow> yaml \<Rightarrow> yaml \<Rightarrow> bool" where
  here: "(k, v) \<in> set m \<Longrightarrow> entry_in (YHash m) k v"
| under: "(k', v') \<in> set m \<Longrightarrow> entry_in v' k v \<Longrightarrow> entry_in (YHash m) k v"
| item: "x \<in> set xs \<Longrightarrow> entry_in x k v \<Longrightarrow> entry_in (YArray xs) k v"

inductive_simps entry_in_hash [simp]: "entry_in (YHash m) k v"
inductive_simps entry_in_array [simp]: "entry_in (YArray xs) k v"

lemma entry_in_scalar [simp]:
  "\<not> entry_in (YReal s) k v" "\<not> entry_in (YInteger i) k v" "\<not> entry_in (YString s) k v"
  "\<not> entry_in (YBoolean b) k v" "\<not> entry_in (YAlias n) k v" "\<not> entry_in YNull k v"
  "\<not> entry_in YBadValue k v"
  by (auto elim: entry_in.cases)

definition pinned_entry :: "yaml \<Rightarrow> yaml \<Rightarrow> bool" where
  "pinned_entry k v \<longleftrightarrow> yaml_as_str k \<noteq> Some ''build'' \<and>
     (yaml_as_str k = Some ''image'' \<longrightarrow> (\<exists>img. yaml_as_str v = Some img \<and> has_sha256_digest img))"

lemma has_sha256_digest_Nil: "\<not> has_sha256_digest []"
  by (simp add: has_sha256_digest_def)

lemma check_images_spec:
  "check_images y = Ok () \<longleftrightarrow> (\<forall>k v. entry_in y k v \<longrightarrow> pinned_entry k v)"
  "check_entries m = Ok () \<longleftrightarrow>
     (\<forall>(k, v) \<in> set m. pinned_entry k v \<and> (\<forall>k' v'. entry_in v k' v' \<longrightarrow> pinned_entry k' v'))"
  "check_items xs = Ok () \<longleftrightarrow> (\<forall>x \<in> set xs. \<forall>k v. entry_in x k v \<longrightarrow> pinned_entry k v)"
proof (induction y and m and xs rule: check_images_check_entries_check_items.induct)
  case (1 m)
  then show ?case by auto
next
  case (5 key v m)
  have "pinned_entry key v \<longleftrightarrow> yaml_as_str key \<noteq> Some ''build'' \<and>
      (yaml_as_str key = Some ''image'' \<longrightarrow>
       has_sha256_digest (case yaml_as_str v of None \<Rightarrow> [] | Some s \<Rightarrow> s))"
    by (auto simp: pinned_entry_def has_sha256_digest_Nil split: option.splits)
  with 5 show ?case by (auto simp: result_simps Let_def)
qed (auto simp: result_simps)

lemma hex_value_at: "hex_value CHR ''@'' = None"
  by (simp add: hex_value_def code_def)

lemma rsplit_once_no_at: "CHR ''@'' \<notin> set h \<Longrightarrow> rsplit_once ''@sha256:'' h = None"
  by (induction h) auto

lemma rsplit_once_last:
  "CHR ''@'' \<notin> set h \<Longrightarrow> rsplit_once ''@sha256:'' (a @ ''@sha256:'' @ h) = Some (a, h)"
  by (induction a) (auto simp: rsplit_once_no_at)

lemma has_sha256_digest_iff:
  "has_sha256_digest s \<longleftrightarrow> (\<exists>a hx. s = a @ ''@sha256:'' @ hx \<and> length hx = 64
     \<and> list_all (\<lambda>c. hex_value c \<noteq> None) hx)" (is "?l \<longleftrightarrow> ?r")
proof
  assume ?l
  then obtain a hx where "rsplit_once ''@sha256:'' s = Some (a, hx)" and "hex_bytes 32 hx \<noteq> None"
    by (auto simp: has_sha256_digest_def split: option.splits)
  with rsplit_once_Some [OF this(1)] show ?r
    by (auto simp: hex_bytes_def split: if_splits)
next
  assume ?r
  then obtain a hx where s: "s = a @ ''@sha256:'' @ hx" and n: "length hx = 64"
    and hex: "list_all (\<lambda>c. hex_value c \<noteq> None) hx" by blast
  from hex have "CHR ''@'' \<notin> set hx" using hex_value_at by (auto simp: list_all_iff)
  then have "rsplit_once ''@sha256:'' s = Some (a, hx)" unfolding s by (rule rsplit_once_last)
  moreover have "hex_pairs hx \<noteq> None" using hex by (induction hx rule: hex_pairs.induct) auto
  ultimately show ?l using n hex by (auto simp: has_sha256_digest_def hex_bytes_def)
qed

lemma is_segment_props:
  assumes "is_segment s n"
  shows "s \<noteq> []" and "length s \<le> n" and "CHR ''/'' \<notin> set s" and "hd s \<noteq> CHR ''.''"
    and "c \<in> set s \<Longrightarrow> code c < 128 \<and> 32 < code c"
proof -
  have "\<not> segment_char CHR ''/''"
    by (simp add: segment_char_def is_ascii_lowercase_def is_ascii_digit_def code_def)
  with assms show "CHR ''/'' \<notin> set s" by (auto simp: is_segment_def list_all_iff)
  show "s \<noteq> []" "length s \<le> n" using assms by (auto simp: is_segment_def)
  show "hd s \<noteq> CHR ''.''"
    using assms
    by (auto simp: is_segment_def is_ascii_lowercase_def is_ascii_digit_def code_def
        split: list.splits)
  show "c \<in> set s \<Longrightarrow> code c < 128 \<and> 32 < code c"
    using assms
    by (auto simp: is_segment_def list_all_iff segment_char_def is_ascii_lowercase_def
        is_ascii_digit_def code_def)
qed

section \<open>Properties\<close>

text \<open>
  A text is accepted as a Revision digest exactly when it is the printed form of a 32-byte
  digest: \<open>from_str\<close> and \<open>Display\<close> are inverse to each other, and no second spelling (uppercase, a
  sign, another length) reads as the same digest.
\<close>

theorem compose_hash_text_canonical:
  "compose_hash_from_str s = Some h \<longleftrightarrow> length h = 32 \<and> s = compose_hash_show h"
  by (rule compose_text.dec_iff)

text \<open>
  A compose registers exactly when it is a JSON object named after the App whose
  \<open>docker_compose_file\<close> is YAML in which, at every depth, no \<open>build\<close> key occurs and every \<open>image\<close>
  key holds a text that ends in \<open>@sha256:\<close> and 64 lowercase hexadecimal digits; the digest
  returned is the hash of the very bytes that were checked.
\<close>

theorem check_registration_Ok:
  "check_registration E compose app_id = Ok h \<longleftrightarrow>
     h = compose_hash_of E (as_bytes compose) \<and>
     (\<exists>obj text docs. json_from_str E compose = Some (JObject obj)
        \<and> (case Option.bind (map_of obj ''name'') json_as_str of None \<Rightarrow> [] | Some s \<Rightarrow> s)
            = uuid_show E app_id
        \<and> map_of obj ''docker_compose_file'' = Some (JString text)
        \<and> yaml_load E text = Some docs
        \<and> (\<forall>doc \<in> set docs. \<forall>k v. entry_in doc k v \<longrightarrow>
              yaml_as_str k \<noteq> Some ''build'' \<and>
              (yaml_as_str k = Some ''image'' \<longrightarrow>
                (\<exists>a hx. yaml_as_str v = Some (a @ ''@sha256:'' @ hx) \<and> length hx = 64
                   \<and> list_all (\<lambda>c. hex_value c \<noteq> None) hx))))"
proof -
  have pin: "pinned_entry k v \<longleftrightarrow> yaml_as_str k \<noteq> Some ''build'' \<and>
      (yaml_as_str k = Some ''image'' \<longrightarrow>
       (\<exists>a hx. yaml_as_str v = Some (a @ ''@sha256:'' @ hx) \<and> length hx = 64
          \<and> list_all (\<lambda>c. hex_value c \<noteq> None) hx))" for k v
    unfolding pinned_entry_def has_sha256_digest_iff by blast
  show ?thesis
    unfolding check_registration_def
    by (simp add: result_simps Let_def check_images_spec(1) pin bind_eq_Some_conv) blast
qed

definition demo_registry :: ext where
  "demo_registry = demo\<lparr>
     json_from_str := (\<lambda>_. Some (JObject
       [(''name'', JString (uuid_show demo 7)), (''docker_compose_file'', JString ''y'')])),
     yaml_load := (\<lambda>_. Some [YHash [(YString ''image'',
       YString (''x'' @ ''@sha256:'' @ replicate 64 CHR ''0''))]])\<rparr>"

theorem check_registration_Ok_witness:
  "\<exists>h. check_registration demo_registry ''c'' 7 = Ok h
     \<and> h = compose_hash_of demo_registry (as_bytes ''c'')"
proof -
  have "has_sha256_digest (''x'' @ ''@sha256:'' @ replicate 64 CHR ''0'')"
    unfolding has_sha256_digest_iff
    by (intro exI conjI, rule refl) (auto simp: hex_value_def code_def list_all_iff)
  then obtain h where "check_registration demo_registry ''c'' 7 = Ok h"
    by (simp add: check_registration_def demo_registry_def demo_def Let_def)
  then show ?thesis by (auto simp: check_registration_Ok)
qed

text \<open>
  A key purpose is 1 to 64 ASCII bytes without a slash, a control or a leading dot, so it is
  one segment of a path and never \<open>.\<close> or \<open>..\<close>.
\<close>

theorem key_purpose_is_a_path_segment:
  "is_key_purpose p \<longleftrightarrow>
     p \<noteq> [] \<and> length p \<le> 64 \<and> list_all segment_char p \<and> segment_char (hd p)
     \<and> hd p \<notin> {CHR ''.'', CHR ''_'', CHR ''-''} \<and> CHR ''/'' \<notin> set p
     \<and> p \<notin> {''.'', ''..''}"
  using is_segment_props [of p 64]
  by (auto simp: is_key_purpose_def is_segment_def segment_char_def is_ascii_lowercase_def
      is_ascii_digit_def code_def split: list.splits)

text \<open>
  An App id, a dot and a key purpose always make a Secret name, and different pairs of App id
  and purpose make different names.
\<close>

theorem app_secret_name:
  assumes "uuid_law E" and "is_key_purpose p"
  shows "is_secret_name (uuid_show E a @ ''.'' @ p)
    \<and> (uuid_show E a @ ''.'' @ p = uuid_show E b @ ''.'' @ q \<longleftrightarrow> a = b \<and> p = q)"
proof
  have hex: "hex_value c \<noteq> None \<Longrightarrow> is_ascii_lowercase c \<or> is_ascii_digit c" for c
    by (auto simp: hex_value_def is_ascii_lowercase_def is_ascii_digit_def split: if_splits)
  from assms(1) have u: "length (uuid_show E a) = 36" "hex_value (hd (uuid_show E a)) \<noteq> None"
    "list_all (\<lambda>c. hex_value c \<noteq> None \<or> c = CHR ''-'') (uuid_show E a)"
    by (simp_all add: uuid_law_def)
  then obtain c cs where c: "uuid_show E a = c # cs" by (cases "uuid_show E a") auto
  have "list_all segment_char (uuid_show E a)"
    using u(3) hex by (auto simp: list_all_iff segment_char_def)
  moreover have "is_ascii_lowercase c \<or> is_ascii_digit c" using u(2) c hex by simp
  moreover have "list_all segment_char p" "length p \<le> 64"
    using assms(2) by (auto simp: is_key_purpose_def is_segment_def)
  moreover have "segment_char CHR ''.''" by (simp add: segment_char_def)
  ultimately show "is_secret_name (uuid_show E a @ ''.'' @ p)"
    using u(1) c by (auto simp: is_secret_name_def is_segment_def)
next
  have "length (uuid_show E a) = length (uuid_show E b)" using assms(1) by (simp add: uuid_law_def)
  then show "uuid_show E a @ ''.'' @ p = uuid_show E b @ ''.'' @ q \<longleftrightarrow> a = b \<and> p = q"
    using uuid_show_inject [OF assms(1)] by auto
qed

theorem app_secret_name_witness:
  "is_secret_name (uuid_show demo 3 @ ''.'' @ ''db_password'')"
proof -
  have "is_key_purpose ''db_password''"
    by (simp add: is_key_purpose_def is_segment_def segment_char_def is_ascii_lowercase_def
        is_ascii_digit_def code_def)
  from app_secret_name [OF demo_uuid this] show ?thesis by blast
qed

end
