(* ===== verification/Core_Json.thy ===== *)
theory Core_Json
  imports Core_Names
begin

text \<open>
  \<^verbatim>\<open>crates/alpha-core/src/signing.rs\<close> and \<^verbatim>\<open>crates/alpha-core/src/phala.rs\<close>: the signing contexts and
  the digest a signature covers, the JSON reader that refuses a repeated key, and the key-sorted
  form in which a compose is measured.
\<close>

section \<open>Signing contexts and digests\<close>

definition REVISION :: string where "REVISION = ''alphacompute/revision/v1''"
definition SECRET :: string where "SECRET = ''alphacompute/secret/v2''"
definition ORG_ROOT_KEY :: string where "ORG_ROOT_KEY = ''alphacompute/org-root-key/v1''"
definition PRINCIPAL_KEY :: string where "PRINCIPAL_KEY = ''alphacompute/principal-key/v1''"
definition CONTROL :: string where "CONTROL = ''alphacompute/control/v1''"
definition PLATFORM :: string where "PLATFORM = ''alphacompute/platform/v1''"
definition NODE_BOOTSTRAP :: string where "NODE_BOOTSTRAP = ''alphacompute/node-bootstrap/v1''"
definition INNER_CHANNEL :: string where "INNER_CHANNEL = ''alphacompute/inner-channel/v1''"
definition CONNECTOR_REQUEST :: string where
  "CONNECTOR_REQUEST = ''alphacompute/connector-request/v1''"
definition CONNECTOR_GRANT :: string where "CONNECTOR_GRANT = ''alphacompute/connector-grant/v1''"
definition CONNECTOR_WRITE :: string where "CONNECTOR_WRITE = ''alphacompute/connector-write/v1''"
definition KMS_RECEIPT :: string where "KMS_RECEIPT = ''alphacompute/kms-receipt/v1''"
definition CATALOG :: string where "CATALOG = ''alphacompute/catalog/v1''"

definition contexts :: "string list" where
  "contexts = [REVISION, SECRET, ORG_ROOT_KEY, PRINCIPAL_KEY, CONTROL, PLATFORM, NODE_BOOTSTRAP,
     INNER_CHANNEL, CONNECTOR_REQUEST, CONNECTOR_GRANT, CONNECTOR_WRITE, KMS_RECEIPT, CATALOG]"

lemmas context_defs = REVISION_def SECRET_def ORG_ROOT_KEY_def PRINCIPAL_KEY_def CONTROL_def
  PLATFORM_def NODE_BOOTSTRAP_def INNER_CHANNEL_def CONNECTOR_REQUEST_def CONNECTOR_GRANT_def
  CONNECTOR_WRITE_def KMS_RECEIPT_def CATALOG_def

definition signing_digest :: "'x ext_scheme \<Rightarrow> string \<Rightarrow> json \<Rightarrow> bytes option" where
  "signing_digest E ctx document =
     map_option (\<lambda>j. sha256 E (as_bytes ctx @ [0] @ j)) (jcs E document)"

section \<open>The JSON reader\<close>

definition f64_is_finite :: "u64 \<Rightarrow> bool" where
  "f64_is_finite w \<longleftrightarrow> take_bit 11 (drop_bit 52 w) \<noteq> 2047"

definition number_from_i64 :: "u64 \<Rightarrow> number" where
  "number_from_i64 v = (if sint v < 0 then NegInt v else PosInt v)"

fun unique_visit :: "raw \<Rightarrow> json option"
and unique_seq :: "raw list \<Rightarrow> json list option"
and unique_map :: "(string \<times> json) list \<Rightarrow> (string \<times> raw) list \<Rightarrow> (string \<times> json) list option"
where
  "unique_visit RNull = Some JNull"
| "unique_visit (RBool v) = Some (JBool v)"
| "unique_visit (RI64 v) = Some (JNumber (number_from_i64 v))"
| "unique_visit (RU64 v) = Some (JNumber (PosInt v))"
| "unique_visit (RF64 v) = (if f64_is_finite v then Some (JNumber (Float v)) else None)"
| "unique_visit (RStr v) = Some (JString v)"
| "unique_visit (RSeq xs) = map_option JArray (unique_seq xs)"
| "unique_visit (RMap es) = map_option JObject (unique_map [] es)"
| "unique_seq [] = Some []"
| "unique_seq (x # xs) =
     Option.bind (unique_visit x) (\<lambda>v. map_option ((#) v) (unique_seq xs))"
| "unique_map out [] = Some out"
| "unique_map out ((k, v) # es) =
     (if map_of out k \<noteq> None then None
      else Option.bind (unique_visit v) (\<lambda>j. unique_map (map_insert k j out) es))"

definition parse :: "'x ext_scheme \<Rightarrow> bytes \<Rightarrow> json option" where
  "parse E bs = Option.bind (json_events E bs) unique_visit"

text \<open>
  What \<open>#[derive(Deserialize)]\<close> does for a struct when \<open>serde_json\<close> reads the text itself rather than a
  \<open>Value\<close>: as \<open>struct_fields\<close>, but a field named twice is refused.
\<close>

fun raw_seq :: "(string \<times> bool) list \<Rightarrow> raw list \<Rightarrow> (string \<times> raw) list option" where
  "raw_seq [] [] = Some []"
| "raw_seq [] (x # xs) = None"
| "raw_seq ((k, d) # fs) [] = (if d then raw_seq fs [] else None)"
| "raw_seq ((k, d) # fs) (x # xs) = map_option ((#) (k, x)) (raw_seq fs xs)"

definition raw_fields :: "bool \<Rightarrow> (string \<times> bool) list \<Rightarrow> raw \<Rightarrow> (string \<times> raw) list option" where
  "raw_fields deny fs v =
     (case v of
        RMap m \<Rightarrow>
          (if deny \<and> \<not> list_all (\<lambda>e. fst e \<in> set (map fst fs)) m then None
           else if \<not> distinct (filter (\<lambda>k. k \<in> set (map fst fs)) (map fst m)) then None else Some m)
      | RSeq xs \<Rightarrow> raw_seq fs xs
      | _ \<Rightarrow> None)"

definition raw_field :: "(string \<times> raw) list \<Rightarrow> string \<Rightarrow> (raw \<Rightarrow> 'a option) \<Rightarrow> 'a option" where
  "raw_field m k dec = Option.bind (map_of m k) dec"

definition raw_opt_field :: "(string \<times> raw) list \<Rightarrow> string \<Rightarrow> (raw \<Rightarrow> 'a option) \<Rightarrow> 'a option option" where
  "raw_opt_field m k dec =
     (case map_of m k of
        None \<Rightarrow> Some None
      | Some RNull \<Rightarrow> Some None
      | Some v \<Rightarrow> map_option Some (dec v))"

fun raw_as_str :: "raw \<Rightarrow> string option" where
  "raw_as_str (RStr s) = Some s"
| "raw_as_str _ = None"

fun raw_as_u64 :: "raw \<Rightarrow> nat option" where
  "raw_as_u64 (RU64 w) = Some (unat w)"
| "raw_as_u64 (RI64 w) = (if 0 \<le> sint w then Some (nat (sint w)) else None)"
| "raw_as_u64 _ = None"

fun raw_list :: "(raw \<Rightarrow> 'a option) \<Rightarrow> raw list \<Rightarrow> 'a list option" where
  "raw_list dec [] = Some []"
| "raw_list dec (x # xs) = Option.bind (dec x) (\<lambda>y. map_option ((#) y) (raw_list dec xs))"

definition raw_vec :: "(raw \<Rightarrow> 'a option) \<Rightarrow> raw \<Rightarrow> 'a list option" where
  "raw_vec dec v = (case v of RSeq xs \<Rightarrow> raw_list dec xs | _ \<Rightarrow> None)"

section \<open>The measured form of a compose\<close>

definition number_as_i64 :: "number \<Rightarrow> int option" where
  "number_as_i64 n =
     (case n of
        PosInt w \<Rightarrow> (if uint w < 2 ^ 63 then Some (uint w) else None)
      | NegInt w \<Rightarrow> Some (sint w)
      | Float _ \<Rightarrow> None)"

fun sort_keys :: "json \<Rightarrow> json option"
and sort_items :: "json list \<Rightarrow> json list option"
and sort_entries :: "(string \<times> json) list \<Rightarrow> (string \<times> json) list option" where
  "sort_keys (JObject m) = map_option JObject (sort_entries m)"
| "sort_keys (JArray items) = map_option JArray (sort_items items)"
| "sort_keys (JNumber n) =
     (case number_as_i64 n of
        Some i \<Rightarrow> (if \<bar>i\<bar> \<le> 2 ^ 53 then Some (JNumber n) else None)
      | None \<Rightarrow> None)"
| "sort_keys JNull = Some JNull"
| "sort_keys (JBool b) = Some (JBool b)"
| "sort_keys (JString s) = Some (JString s)"
| "sort_items [] = Some []"
| "sort_items (x # xs) = Option.bind (sort_keys x) (\<lambda>v. map_option ((#) v) (sort_items xs))"
| "sort_entries [] = Some []"
| "sort_entries ((k, v) # m) =
     Option.bind (sort_keys v) (\<lambda>w. map_option (map_insert k w) (sort_entries m))"

definition canonicalize :: "'x ext_scheme \<Rightarrow> json \<Rightarrow> string option" where
  "canonicalize E v = map_option (json_to_string E) (sort_keys v)"

section \<open>Lemmas\<close>

lemma nul_not_in_ascii: "CHR 0x00 \<notin> set s \<Longrightarrow> 0 \<notin> set (as_bytes s)"
proof -
  have "(word_of_nat (code c) :: byte) = 0 \<Longrightarrow> c = CHR 0x00" for c
    using byte_of_code_inject [of c "CHR 0x00"] by (simp add: code_def)
  then show "CHR 0x00 \<notin> set s \<Longrightarrow> 0 \<notin> set (as_bytes s)"
    by (auto simp: as_bytes_def)
qed

lemma separator_unique:
  "x \<notin> set a \<Longrightarrow> x \<notin> set b \<Longrightarrow> a @ x # u = b @ x # v \<longleftrightarrow> a = b \<and> u = v"
proof (induction a arbitrary: b)
  case Nil
  then show ?case by (cases b) auto
next
  case (Cons c a)
  then show ?case by (cases b) auto
qed

lemma contexts_no_nul: "ctx \<in> set contexts \<Longrightarrow> CHR 0x00 \<notin> set ctx"
  unfolding contexts_def context_defs by auto

text \<open>
  What \<open>serde_json\<close>'s own \<open>Value\<close> does with the same tree: the last value of a repeated key wins.
\<close>

fun plain_visit :: "raw \<Rightarrow> json option"
and plain_seq :: "raw list \<Rightarrow> json list option"
and plain_map :: "(string \<times> json) list \<Rightarrow> (string \<times> raw) list \<Rightarrow> (string \<times> json) list option"
where
  "plain_visit RNull = Some JNull"
| "plain_visit (RBool v) = Some (JBool v)"
| "plain_visit (RI64 v) = Some (JNumber (number_from_i64 v))"
| "plain_visit (RU64 v) = Some (JNumber (PosInt v))"
| "plain_visit (RF64 v) = (if f64_is_finite v then Some (JNumber (Float v)) else None)"
| "plain_visit (RStr v) = Some (JString v)"
| "plain_visit (RSeq xs) = map_option JArray (plain_seq xs)"
| "plain_visit (RMap es) = map_option JObject (plain_map [] es)"
| "plain_seq [] = Some []"
| "plain_seq (x # xs) = Option.bind (plain_visit x) (\<lambda>v. map_option ((#) v) (plain_seq xs))"
| "plain_map out [] = Some out"
| "plain_map out ((k, v) # es) =
     Option.bind (plain_visit v) (\<lambda>j. plain_map (map_insert k j out) es)"

fun no_repeats :: "raw \<Rightarrow> bool" where
  "no_repeats (RSeq xs) = list_all no_repeats xs"
| "no_repeats (RMap es) = (distinct (map fst es) \<and> list_all (\<lambda>e. no_repeats (snd e)) es)"
| "no_repeats _ = True"

fun sorted_json :: "json \<Rightarrow> bool" where
  "sorted_json (JArray xs) = list_all sorted_json xs"
| "sorted_json (JObject m) = (sorted_map m \<and> list_all (\<lambda>e. sorted_json (snd e)) m)"
| "sorted_json _ = True"

lemma unique_plain:
  "unique_visit r = (if no_repeats r then plain_visit r else None)"
  "unique_seq rs = (if list_all no_repeats rs then plain_seq rs else None)"
  "unique_map out es =
     (if distinct (map fst es) \<and> (\<forall>k \<in> fst ` set es. map_of out k = None)
         \<and> list_all (\<lambda>e. no_repeats (snd e)) es
      then plain_map out es else None)"
proof (induction r and rs and out es rule: unique_visit_unique_seq_unique_map.induct)
  case (10 x xs)
  then show ?case by (cases "plain_visit x") auto
next
  case (12 out k v es)
  show ?case
  proof (cases "map_of out k = None \<and> no_repeats v")
    case True
    then show ?thesis
    proof (cases "plain_visit v")
      case (Some j)
      with True "12.IH" show ?thesis by (auto simp: image_iff)
    qed (use True "12.IH" in auto)
  next
    case False
    with "12.IH"(1) show ?thesis by auto
  qed
qed auto

lemma plain_sorted:
  "plain_visit r = Some v \<Longrightarrow> sorted_json v"
  "plain_seq rs = Some vs \<Longrightarrow> list_all sorted_json vs"
  "plain_map out es = Some m \<Longrightarrow> sorted_map out \<Longrightarrow> list_all (\<lambda>e. sorted_json (snd e)) out \<Longrightarrow>
     sorted_map m \<and> list_all (\<lambda>e. sorted_json (snd e)) m"
proof (induction r and rs and out es arbitrary: v and vs and m
    rule: plain_visit_plain_seq_plain_map.induct)
  case (12 out k v es)
  then obtain j where j: "plain_visit v = Some j" and m: "plain_map (map_insert k j out) es = Some m"
    by (auto simp: bind_eq_Some_conv)
  from j have "sorted_json j" by (rule "12.IH"(1))
  with "12.prems"(3) have "list_all (\<lambda>e. sorted_json (snd e)) (map_insert k j out)"
    by (auto simp: list_all_iff set_map_insert)
  with "12.prems"(2) show ?case by (intro "12.IH"(2) [OF j m]) simp_all
qed (auto simp: bind_eq_Some_conv split: if_splits)

fun safe_json :: "json \<Rightarrow> bool" where
  "safe_json (JArray xs) = list_all safe_json xs"
| "safe_json (JObject m) = list_all (\<lambda>e. safe_json (snd e)) m"
| "safe_json (JNumber n) = (\<exists>i. number_as_i64 n = Some i \<and> \<bar>i\<bar> \<le> 2 ^ 53)"
| "safe_json _ = True"

text \<open>
  JCS (RFC 8785): every document whose numbers are integers of magnitude at most \<open>2^53\<close> has one
  canonical form, and different documents have different ones. \<open>serde_json\<close> holds a negative number
  only in its signed constructor.
\<close>

fun signs_ok :: "json \<Rightarrow> bool" where
  "signs_ok (JArray xs) = list_all signs_ok xs"
| "signs_ok (JObject m) = list_all (\<lambda>e. signs_ok (snd e)) m"
| "signs_ok (JNumber (NegInt w)) = (sint w < 0)"
| "signs_ok _ = True"

definition canonical_json :: "json \<Rightarrow> bool" where
  "canonical_json v \<longleftrightarrow> sorted_json v \<and> safe_json v \<and> signs_ok v"

definition jcs_law :: "'x ext_scheme \<Rightarrow> bool" where
  "jcs_law E \<longleftrightarrow> (\<forall>v. canonical_json v \<longrightarrow> jcs E v \<noteq> None)
     \<and> (\<forall>v w. canonical_json v \<and> canonical_json w \<and> jcs E v = jcs E w \<longrightarrow> v = w)"

lemma jcs_total: "jcs_law E \<Longrightarrow> canonical_json v \<Longrightarrow> \<exists>j. jcs E v = Some j"
  by (auto simp: jcs_law_def)

lemma jcs_inject:
  "jcs_law E \<Longrightarrow> canonical_json v \<Longrightarrow> canonical_json w \<Longrightarrow> jcs E v = jcs E w \<longleftrightarrow> v = w"
  by (auto simp: jcs_law_def)

lemma demo_jcs_law: "jcs_law demo"
  using demo_jcs_inject [of _ "[]" _ "[]"] by (auto simp: jcs_law_def demo_def)

lemma canonical_jobj [simp]:
  "(\<And>k v. (k, v) \<in> set es \<Longrightarrow> canonical_json v) \<Longrightarrow> canonical_json (jobj es)"
proof -
  assume a: "\<And>k v. (k, v) \<in> set es \<Longrightarrow> canonical_json v"
  let ?m = "foldl (\<lambda>m e. map_insert (fst e) (snd e) m) [] es"
  have "sorted_map ?m" by (rule sorted_foldl_insert) simp
  moreover have "\<forall>e \<in> set ?m. canonical_json (snd e)" using set_foldl_insert [of "[]" es] a by fastforce
  ultimately show ?thesis by (auto simp: jobj_def canonical_json_def list_all_iff)
qed

lemma canonical_simps [simp]:
  "canonical_json JNull" "canonical_json (JBool b)" "canonical_json (JString s)"
  "canonical_json (JArray xs) \<longleftrightarrow> list_all canonical_json xs"
  "canonical_json (JNumber (PosInt w)) \<longleftrightarrow> uint w \<le> 2 ^ 53"
  by (auto simp: canonical_json_def list_all_iff number_as_i64_def)

lemma map_insert_head:
  "sorted_map ((k, v) # m) \<Longrightarrow> map_insert k v m = (k, v) # m"
proof -
  assume a: "sorted_map ((k, v) # m)"
  then have "filter (\<lambda>e. fst e \<noteq> k) m = m" by (auto simp: sorted_map_def filter_id_conv)
  moreover have "\<forall>e \<in> set m. k \<le> fst e" using a by (auto simp: sorted_map_def)
  ultimately show ?thesis by (simp add: map_insert_def insort_is_Cons)
qed

lemma sort_keys_spec:
  "sort_keys v = Some w \<Longrightarrow> sorted_json w \<and> safe_json v \<and> safe_json w"
  "sort_items vs = Some ws \<Longrightarrow> list_all sorted_json ws \<and> list_all safe_json vs \<and> list_all safe_json ws"
  "sort_entries m = Some m' \<Longrightarrow> sorted_map m' \<and> list_all (\<lambda>e. sorted_json (snd e)) m'
     \<and> list_all (\<lambda>e. safe_json (snd e)) m \<and> list_all (\<lambda>e. safe_json (snd e)) m'"
proof (induction v and vs and m arbitrary: w and ws and m'
    rule: sort_keys_sort_items_sort_entries.induct)
  case (10 k v m)
  then obtain w n where "sort_keys v = Some w" and "sort_entries m = Some n"
    and "m' = map_insert k w n" by (auto simp: bind_eq_Some_conv)
  with 10 show ?case by (auto simp: list_all_iff set_map_insert)
qed (auto simp: bind_eq_Some_conv split: option.splits if_splits)

lemma sort_keys_fixed:
  "sorted_json v \<Longrightarrow> safe_json v \<Longrightarrow> sort_keys v = Some v"
  "list_all sorted_json vs \<Longrightarrow> list_all safe_json vs \<Longrightarrow> sort_items vs = Some vs"
  "sorted_map m \<Longrightarrow> list_all (\<lambda>e. sorted_json (snd e)) m \<Longrightarrow> list_all (\<lambda>e. safe_json (snd e)) m \<Longrightarrow>
     sort_entries m = Some m"
proof (induction v and vs and m rule: sort_keys_sort_items_sort_entries.induct)
  case (10 k v m)
  then have "sorted_map m" by (simp add: sorted_map_def)
  with 10 show ?case by (simp add: map_insert_head)
qed auto

lemma sort_entries_None: "sort_entries m = None \<longleftrightarrow> (\<exists>e \<in> set m. sort_keys (snd e) = None)"
  by (induction m) (auto split: Option.bind_splits)

lemma sort_entries_set:
  "sort_entries m = Some m' \<Longrightarrow> distinct (map fst m) \<Longrightarrow>
   set m' = {(k, w). \<exists>v. (k, v) \<in> set m \<and> sort_keys v = Some w}"
proof (induction m arbitrary: m')
  case Nil
  then show ?case by auto
next
  case (Cons e m)
  obtain k v where e: "e = (k, v)" by (cases e)
  with Cons.prems obtain w n where w: "sort_keys v = Some w" and n: "sort_entries m = Some n"
    and m': "m' = map_insert k w n" by (auto simp: bind_eq_Some_conv)
  have "set n = {(k, w). \<exists>v. (k, v) \<in> set m \<and> sort_keys v = Some w}"
    using Cons.IH [OF n] Cons.prems(2) by simp
  with e w m' Cons.prems(2) show ?case by (auto simp: set_map_insert image_iff)
qed

lemma sorted_map_unique:
  assumes "sorted_map m" and "sorted_map n" and "set m = set n"
  shows "m = n"
proof (rule map_sorted_distinct_set_unique [of fst])
  have "distinct (map fst m)" using assms(1) by (simp add: sorted_map_def)
  then show "inj_on fst (set m \<union> set n)" using assms(3) by (simp add: distinct_map)
qed (use assms in \<open>simp_all add: sorted_map_def distinct_map\<close>)

section \<open>Properties\<close>

text \<open>
  Domain separation: two signing digests under listed contexts are equal only when the context
  and the canonical bytes of the document are, or else the two preimages are a SHA-256 collision.
  A signature made in one context is therefore never one in another.
\<close>

theorem signing_digest_separates:
  assumes "c \<in> set contexts" and "d \<in> set contexts"
    and "signing_digest E c v = Some x" and "signing_digest E d w = Some x"
  shows "(c = d \<and> jcs E v = jcs E w) \<or> (\<exists>a b. a \<noteq> b \<and> sha256 E a = sha256 E b)"
proof -
  from assms(3,4) obtain j k where j: "jcs E v = Some j" and k: "jcs E w = Some k"
    and eq: "sha256 E (as_bytes c @ 0 # j) = sha256 E (as_bytes d @ 0 # k)"
    by (auto simp: signing_digest_def)
  have "as_bytes c @ 0 # j = as_bytes d @ 0 # k \<longleftrightarrow> c = d \<and> j = k"
    using assms(1,2) by (simp add: separator_unique nul_not_in_ascii contexts_no_nul)
  with eq j k show ?thesis by (metis (no_types))
qed

theorem signing_digest_separates_witness:
  "(REVISION = REVISION \<and> jcs demo JNull = jcs demo JNull)
     \<or> (\<exists>a b. a \<noteq> b \<and> sha256 demo a = sha256 demo b)"
  by (rule signing_digest_separates [where x = "sha256 demo (as_bytes REVISION @ [0, 0])"])
    (simp_all add: contexts_def signing_digest_def demo_def)

text \<open>
  The reader is \<open>serde_json\<close>'s own reading of the bytes, except that it refuses every document
  in which some object, at any depth, repeats a key.
\<close>

theorem parse_is_plain_without_repeats:
  "parse E bs =
     (case json_events E bs of
        None \<Rightarrow> None
      | Some r \<Rightarrow> (if no_repeats r then plain_visit r else None))"
  by (auto simp: parse_def unique_plain(1) split: option.splits)

lemma parse_sorted: "parse E bs = Some v \<Longrightarrow> sorted_json v"
  by (auto simp: parse_def unique_plain(1) bind_eq_Some_conv intro: plain_sorted(1) split: if_splits)

text \<open>
  The measured form of a compose does not depend on the order its keys were written in, is
  sorted at every depth, is a fixed point, and exists exactly for values whose numbers are all
  integers of magnitude at most \<open>2^53\<close>.
\<close>

theorem sort_keys_canonical:
  assumes "distinct (map fst m)" and "set m = set n" and "distinct (map fst n)"
    and "sort_keys (JObject m) = Some w"
  shows "sort_keys (JObject n) = Some w \<and> sorted_json w \<and> safe_json w \<and> sort_keys w = Some w"
proof -
  from assms(4) obtain m' where m': "sort_entries m = Some m'" and w: "w = JObject m'" by auto
  then have "sort_entries n \<noteq> None" using assms(2) sort_entries_None by (metis option.discI)
  then obtain n' where n': "sort_entries n = Some n'" by auto
  have "set m' = set n'"
    using sort_entries_set [OF m' assms(1)] sort_entries_set [OF n' assms(3)] assms(2) by simp
  then have "m' = n'"
    using sort_keys_spec(3) [OF m'] sort_keys_spec(3) [OF n'] sorted_map_unique by blast
  then have "sort_keys (JObject n) = Some w" using n' w by simp
  moreover have "sorted_json w \<and> safe_json w" using sort_keys_spec(1) [OF assms(4)] by simp
  ultimately show ?thesis using sort_keys_fixed(1) by blast
qed

theorem sort_keys_canonical_witness:
  "sort_keys (JObject [(''a'', JNull), (''b'', JNumber (PosInt 5))]) =
     Some (JObject [(''a'', JNull), (''b'', JNumber (PosInt 5))])"
proof -
  have "sort_keys (JObject [(''b'', JNumber (PosInt 5)), (''a'', JNull)]) =
     Some (JObject [(''a'', JNull), (''b'', JNumber (PosInt 5))])"
    by (simp add: map_insert_def number_as_i64_def)
  from sort_keys_canonical [OF _ _ _ this, of "[(''a'', JNull), (''b'', JNumber (PosInt 5))]"]
  show ?thesis by (simp add: insert_commute)
qed

end
