(* ===== verification/Core_Platform.thy ===== *)
theory Core_Platform
  imports Core_Json
begin

text \<open>
  \<^verbatim>\<open>crates/alpha-core/src/platform.rs\<close> and \<^verbatim>\<open>crates/alpha-core/src/catalog.rs\<close>: the parts of the platform
  document that name the signing page and the catalog key, with the checks their deserialization
  makes, and the signed catalog files. Errors whose only content is a message are \<open>None\<close>.
\<close>

section \<open>The platform document's parts\<close>

record kms_revision =
  kr_compose_hash :: compose_hash
  kr_build :: string
  kr_source_url :: string

record kata_policy =
  rules_sha256 :: compose_hash
  data_sha256 :: compose_hash

record signer =
  sg_origins :: "string list"
  sg_rp_id :: string
  sg_bundle_sha256 :: string
  sg_api_origin :: string

record catalog_key =
  ck_algorithm :: string
  ck_public_key :: string

definition host_char :: "char \<Rightarrow> bool" where
  "host_char c \<longleftrightarrow> is_ascii_lowercase c \<or> is_ascii_digit c \<or> c = CHR ''-''"

definition host_label :: "string \<Rightarrow> bool" where
  "host_label l \<longleftrightarrow> l \<noteq> [] \<and> length l \<le> 63 \<and> hd l \<noteq> CHR ''-'' \<and> last l \<noteq> CHR ''-''
     \<and> list_all host_char l"

definition is_host :: "string \<Rightarrow> bool" where
  "is_host host \<longleftrightarrow> length host \<le> 253 \<and> list_all host_label (split_on CHR ''.'' host)
     \<and> list_ex is_ascii_lowercase (last (split_on CHR ''.'' host))"

definition origin_port_ok :: "string \<Rightarrow> bool" where
  "origin_port_ok port \<longleftrightarrow> \<not> starts_with ''0'' port \<and> list_all is_ascii_digit port
     \<and> (case parse_uint 65535 port of Some p \<Rightarrow> p \<noteq> 443 | None \<Rightarrow> False)"

definition origin_host :: "string \<Rightarrow> string option" where
  "origin_host origin =
     Option.bind (strip_prefix ''https://'' origin) (\<lambda>rest.
     Option.bind (case split_once '':'' rest of
                    None \<Rightarrow> Some rest
                  | Some (host, port) \<Rightarrow> (if origin_port_ok port then Some host else None)) (\<lambda>host.
     if is_host host then Some host else None))"

definition on_rp_id :: "string \<Rightarrow> string \<Rightarrow> bool" where
  "on_rp_id rp_id origin =
     (case Option.bind (origin_host origin) (strip_suffix rp_id) of
        None \<Rightarrow> False
      | Some rest \<Rightarrow> rest = [] \<or> last rest = CHR ''.'')"

definition signer_try_from :: "signer \<Rightarrow> signer option" where
  "signer_try_from f =
     (if \<not> is_host (sg_rp_id f) then None
      else if sg_origins f = [] then None
      else if \<not> list_all (on_rp_id (sg_rp_id f)) (sg_origins f) then None
      else if origin_host (sg_api_origin f) = None then None
      else if Option.bind (strip_prefix ''sha256:'' (sg_bundle_sha256 f)) (hex_bytes 32) = None then None
      else Some f)"

definition signer_de :: "json \<Rightarrow> signer option" where
  "signer_de v =
     Option.bind (struct_fields False [(''origins'', False), (''rp_id'', False), (''bundle_sha256'', False),
       (''api_origin'', False)] v) (\<lambda>m.
     Option.bind (field m ''origins'' (de_vec json_as_str)) (\<lambda>origins.
     Option.bind (field m ''rp_id'' json_as_str) (\<lambda>rp_id.
     Option.bind (field m ''bundle_sha256'' json_as_str) (\<lambda>bundle.
     Option.bind (field m ''api_origin'' json_as_str) (\<lambda>api.
     signer_try_from \<lparr> sg_origins = origins, sg_rp_id = rp_id, sg_bundle_sha256 = bundle,
       sg_api_origin = api \<rparr>)))))"

definition catalog_verifying_key :: "'x ext_scheme \<Rightarrow> catalog_key \<Rightarrow> bytes option" where
  "catalog_verifying_key E k =
     (if ck_algorithm k \<noteq> ''ed25519'' then None
      else Option.bind (b64_dec E (ck_public_key k)) (\<lambda>b.
        if length b = 32 \<and> ed25519_from_bytes E b \<and> \<not> ed25519_is_weak E b then Some b else None))"

definition catalog_key_from :: "'x ext_scheme \<Rightarrow> bytes \<Rightarrow> catalog_key" where
  "catalog_key_from E key = \<lparr> ck_algorithm = ''ed25519'', ck_public_key = b64_enc E key \<rparr>"

definition catalog_key_try_from :: "'x ext_scheme \<Rightarrow> catalog_key \<Rightarrow> catalog_key option" where
  "catalog_key_try_from E f =
     (if ck_algorithm f \<noteq> ''ed25519'' then None
      else if catalog_verifying_key E f = None then None else Some f)"

section \<open>Catalog files\<close>

record named_signature =
  ns_algorithm :: string
  ns_signature :: string

record entry =
  en_catalog_id :: string
  en_version :: string
  en_title :: string
  en_template_sha256 :: compose_hash
  en_cpu :: u32
  en_memory_mib :: u32

record catalog_file =
  cf_entry :: entry
  cf_signature :: named_signature
  cf_template :: string

datatype catalog_error = CatSignatureInvalid | TemplateMismatch | NameNotOnce nat | CatMalformed

fun catalog_error_code :: "catalog_error \<Rightarrow> string" where
  "catalog_error_code CatSignatureInvalid = ''signature_invalid''"
| "catalog_error_code TemplateMismatch = ''template_mismatch''"
| "catalog_error_code (NameNotOnce _) = ''name_not_once''"
| "catalog_error_code CatMalformed = ''malformed''"

definition dquote :: string where "dquote = [CHR 0x22]"

definition name_member :: "string \<Rightarrow> string" where
  "name_member n = dquote @ ''name'' @ dquote @ '':'' @ dquote @ n @ dquote"

definition NIL_NAME :: string where
  "NIL_NAME = name_member ''00000000-0000-0000-0000-000000000000''"

definition entry_json :: "entry \<Rightarrow> json" where
  "entry_json e = jobj [(''catalog_id'', JString (en_catalog_id e)), (''version'', JString (en_version e)),
     (''title'', JString (en_title e)),
     (''template_sha256'', JString (compose_hash_show (en_template_sha256 e))),
     (''resources'', jobj [(''cpu'', JNumber (PosInt (ucast (en_cpu e)))),
        (''memory_mib'', JNumber (PosInt (ucast (en_memory_mib e))))])]"

definition catalog_digest :: "'x ext_scheme \<Rightarrow> entry \<Rightarrow> (bytes, catalog_error) result" where
  "catalog_digest E e = ok_or (signing_digest E CATALOG (entry_json e)) CatMalformed"

definition catalog_sign :: "'x ext_scheme \<Rightarrow> entry \<Rightarrow> string \<Rightarrow> bytes \<Rightarrow> (catalog_file, catalog_error) result" where
  "catalog_sign E e template key =
     refuse_if (compose_hash_of E (as_bytes template) \<noteq> en_template_sha256 e) TemplateMismatch
     (and_then (catalog_digest E e) (\<lambda>d.
      and_then (ok_or (ed25519_sign E key d) CatMalformed) (\<lambda>s.
      Ok \<lparr> cf_entry = e, cf_signature = \<lparr> ns_algorithm = ''ed25519'', ns_signature = b64_enc E s \<rparr>,
           cf_template = template \<rparr>)))"

definition ed25519_signature :: "'x ext_scheme \<Rightarrow> string \<Rightarrow> bytes option" where
  "ed25519_signature E text =
     Option.bind (b64_dec E text) (\<lambda>b. if length b = 64 then Some b else None)"

definition catalog_verify :: "'x ext_scheme \<Rightarrow> catalog_file \<Rightarrow> catalog_key \<Rightarrow> (unit, catalog_error) result" where
  "catalog_verify E file key =
     and_then (ok_or (catalog_verifying_key E key) CatMalformed) (\<lambda>usable.
     refuse_if (ns_algorithm (cf_signature file) \<noteq> ''ed25519'') CatSignatureInvalid
     (and_then (ok_or (ed25519_signature E (ns_signature (cf_signature file))) CatSignatureInvalid) (\<lambda>s.
      and_then (catalog_digest E (cf_entry file)) (\<lambda>d.
      if ed25519_verify_strict E usable d s then Ok () else Err CatSignatureInvalid))))"

text \<open>\<open>str::matches(p).count()\<close> counts disjoint occurrences from the left.\<close>

function count_matches :: "string \<Rightarrow> string \<Rightarrow> nat" where
  "count_matches p s =
     (case split_once p s of
        None \<Rightarrow> 0
      | Some (a, b) \<Rightarrow> (if p = [] then 0 else Suc (count_matches p b)))"
  by pat_completeness auto
termination
proof (relation "measure (\<lambda>(p, s). length s)")
  fix p s ab a b
  assume "split_once p s = Some ab" and "(a, b) = ab" and "p \<noteq> []"
  then have "s = a @ p @ b" by (auto dest: split_once_Some)
  with \<open>p \<noteq> []\<close> show "((p, b), (p, s)) \<in> measure (\<lambda>(p, s). length s)" by simp
qed simp

declare count_matches.simps [simp del]

definition replace_first :: "string \<Rightarrow> string \<Rightarrow> string \<Rightarrow> string" where
  "replace_first p r s = (case split_once p s of None \<Rightarrow> s | Some (a, b) \<Rightarrow> a @ r @ b)"

definition render :: "'x ext_scheme \<Rightarrow> string \<Rightarrow> compose_hash \<Rightarrow> uuid \<Rightarrow> (string, catalog_error) result" where
  "render E template template_sha256 app_id =
     refuse_if (compose_hash_of E (as_bytes template) \<noteq> template_sha256) TemplateMismatch
     (let count = count_matches NIL_NAME template in
      if count = 1 then Ok (replace_first NIL_NAME (name_member (uuid_show E app_id)) template)
      else Err (NameNotOnce count))"

section \<open>Lemmas\<close>

lemma split_on_mem: "c \<in> set s \<Longrightarrow> c \<noteq> d \<Longrightarrow> \<exists>w \<in> set (split_on d s). c \<in> set w"
proof (induction s)
  case Nil
  then show ?case by simp
next
  case (Cons x s)
  show ?case
  proof (cases "split_on d s")
    case Nil
    then show ?thesis by simp
  next
    case (Cons w ws)
    then show ?thesis using Cons.IH Cons.prems by (cases "c = x") auto
  qed
qed

lemma is_host_chars: "is_host h \<Longrightarrow> c \<in> set h \<Longrightarrow> host_char c \<or> c = CHR ''.''"
  using split_on_mem [of c h "CHR ''.''"] by (auto simp: is_host_def host_label_def list_all_iff)

lemma is_host_no_colon: "is_host h \<Longrightarrow> CHR '':'' \<notin> set h"
  using is_host_chars [of h "CHR '':''"]
  by (auto simp: host_char_def is_ascii_lowercase_def is_ascii_digit_def code_def)

lemma split_once_char_None: "split_once [c] s = None \<longleftrightarrow> c \<notin> set s"
  by (induction s) auto

lemma split_once_char: "c \<notin> set a \<Longrightarrow> split_once [c] (a @ c # b) = Some (a, b)"
  by (induction a) auto

lemma split_once_char_Some: "split_once [c] s = Some (a, b) \<longleftrightarrow> s = a @ c # b \<and> c \<notin> set a"
proof
  show "split_once [c] s = Some (a, b) \<Longrightarrow> s = a @ c # b \<and> c \<notin> set a"
    by (induction s arbitrary: a) (auto split: if_splits)
qed (auto simp: split_once_char)

lemma origin_port_iff:
  "origin_port_ok port \<longleftrightarrow> (\<exists>p. 0 < p \<and> p < 65536 \<and> p \<noteq> 443 \<and> port = show_nat p)"
proof
  assume "origin_port_ok port"
  then have d: "list_all is_ascii_digit port" and z: "\<not> starts_with ''0'' port"
    and "\<exists>p. parse_uint 65535 port = Some p \<and> p \<noteq> 443"
    by (auto simp: origin_port_ok_def split: option.splits)
  then obtain p where p: "parse_uint 65535 port = Some p" "p \<noteq> 443" by auto
  then have n: "port \<noteq> []" by (auto simp: parse_uint_def split: if_splits)
  then obtain c cs where c: "port = c # cs" by (cases port) auto
  then have "c \<noteq> CHR ''+''" using d by (auto simp: is_ascii_digit_def code_def)
  with p c have "digits_value port = p" "p \<le> 65535" by (auto simp: parse_uint_def Let_def split: if_splits)
  moreover have "hd port \<noteq> CHR ''0''" using z c by (auto simp: starts_with_def)
  ultimately show "\<exists>p. 0 < p \<and> p < 65536 \<and> p \<noteq> 443 \<and> port = show_nat p"
    using show_nat_value [OF d n] p(2) by (intro exI [of _ p]) auto
next
  assume "\<exists>p. 0 < p \<and> p < 65536 \<and> p \<noteq> 443 \<and> port = show_nat p"
  then obtain p where p: "0 < p" "p < 65536" "p \<noteq> 443" "port = show_nat p" by blast
  note d = show_nat_digits [of p]
  obtain c cs where c: "port = c # cs" using d p(4) by (metis list.exhaust)
  then have "c \<noteq> CHR ''+''" using d p(4) by (auto simp: is_ascii_digit_def code_def)
  with c d p have "parse_uint 65535 port = Some p" by (auto simp: parse_uint_def Let_def)
  moreover have "\<not> starts_with ''0'' port" using c d p by (auto simp: starts_with_def)
  ultimately show "origin_port_ok port" using p d by (simp add: origin_port_ok_def)
qed

section \<open>Properties\<close>

text \<open>
  An origin is accepted exactly when it is \<open>https://\<close>, a lowercase host name and either nothing
  or \<open>:\<close> and a port from 1 to 65535 other than 443 in plain decimal, so every accepted origin is the
  only spelling of its host and port, as the byte-for-byte comparison of the passkey check needs.
\<close>

theorem origin_host_canonical:
  "origin_host origin = Some h \<longleftrightarrow>
     is_host h \<and> (origin = ''https://'' @ h
       \<or> (\<exists>p. 0 < p \<and> p < 65536 \<and> p \<noteq> 443 \<and> origin = ''https://'' @ h @ '':'' @ show_nat p))"
  (is "?l \<longleftrightarrow> ?r")
proof
  assume ?l
  then obtain rest where o: "origin = ''https://'' @ rest" and h: "is_host h"
    and c: "(case split_once '':'' rest of None \<Rightarrow> Some rest
            | Some (host, port) \<Rightarrow> (if origin_port_ok port then Some host else None)) = Some h"
    by (auto simp: origin_host_def bind_eq_Some_conv split: if_splits)
  then show ?r using o h by (auto simp: split_once_char_Some origin_port_iff split: option.splits if_splits)
next
  assume ?r
  then have h: "is_host h" by blast
  moreover from this have "CHR '':'' \<notin> set h" by (rule is_host_no_colon)
  moreover have "origin_port_ok (show_nat p)" if "0 < p" "p < 65536" "p \<noteq> 443" for p
    using that origin_port_iff by blast
  ultimately show ?l using \<open>?r\<close>
    by (auto simp: origin_host_def strip_prefix_def split_once_char split_once_char_None [THEN iffD2])
qed

text \<open>
  The signer of an accepted platform document: every origin is an https origin whose host is
  the \<open>rp_id\<close> or a subdomain of it ending at a label boundary, there is at least one, and the
  page's bundle digest is 64 lowercase hexadecimal digits.
\<close>

theorem signer_origins_on_rp_id:
  assumes "signer_de v = Some s"
  shows "sg_origins s \<noteq> [] \<and> is_host (sg_rp_id s)
    \<and> (\<forall>o' \<in> set (sg_origins s). \<exists>h. origin_host o' = Some h
          \<and> (h = sg_rp_id s \<or> (\<exists>sub. h = sub @ ''.'' @ sg_rp_id s)))
    \<and> (\<exists>d. length d = 32 \<and> sg_bundle_sha256 s = ''sha256:'' @ hex_encode d)"
proof -
  from assms obtain f where "signer_try_from f = Some s"
    unfolding signer_de_def bind_eq_Some_conv by blast
  then have p: "list_all (on_rp_id (sg_rp_id s)) (sg_origins s)" and "sg_origins s \<noteq> []"
    and "is_host (sg_rp_id s)"
    and b: "Option.bind (strip_prefix ''sha256:'' (sg_bundle_sha256 s)) (hex_bytes 32) \<noteq> None"
    by (auto simp: signer_try_from_def split: if_splits)
  moreover have "\<exists>h. origin_host o' = Some h \<and> (h = sg_rp_id s \<or> (\<exists>sub. h = sub @ ''.'' @ sg_rp_id s))"
    if "on_rp_id (sg_rp_id s) o'" for o'
  proof -
    from that obtain h r where h: "origin_host o' = Some h" and hr: "h = r @ sg_rp_id s"
      and r: "r = [] \<or> last r = CHR ''.''"
      by (auto simp: on_rp_id_def bind_eq_Some_conv split: option.splits)
    show ?thesis
    proof (cases "r = []")
      case False
      with r have "r = butlast r @ ''.''" by (metis append_butlast_last_id)
      with h hr show ?thesis by (metis append.assoc)
    qed (use h hr in simp)
  qed
  moreover from b obtain d where "Option.bind (strip_prefix ''sha256:'' (sg_bundle_sha256 s)) (hex_bytes 32) = Some d"
    by blast
  then obtain x where "sg_bundle_sha256 s = ''sha256:'' @ x" and d: "hex_bytes 32 x = Some d"
    unfolding bind_eq_Some_conv strip_prefix_Some by blast
  then have "sg_bundle_sha256 s = ''sha256:'' @ hex_encode d \<and> length d = 32"
    using hex.enc_dec [OF d] hex.dec_good [OF d] by simp
  ultimately show ?thesis by (auto simp: list_all_iff)
qed

definition demo_signer :: json where
  "demo_signer = jobj [(''origins'', JArray [JString ''https://sign.example.com:8443'']),
     (''rp_id'', JString ''example.com''),
     (''bundle_sha256'', JString (''sha256:'' @ hex_encode (replicate 32 7))),
     (''api_origin'', JString ''https://api.example.com'')]"

lemma demo_signer_accepted: "\<exists>s. signer_de demo_signer = Some s \<and> sg_rp_id s = ''example.com''"
proof -
  obtain m where m: "struct_fields False [(''origins'', False), (''rp_id'', False), (''bundle_sha256'', False),
       (''api_origin'', False)] demo_signer = Some m" and f: "map_of m = map_of (rev
      [(''origins'', JArray [JString ''https://sign.example.com:8443'']), (''rp_id'', JString ''example.com''),
       (''bundle_sha256'', JString (''sha256:'' @ hex_encode (replicate 32 7))),
       (''api_origin'', JString ''https://api.example.com'')])"
    unfolding demo_signer_def using struct_fields_jobj [of False] by blast
  have h: "hex_bytes 32 (hex_encode (replicate 32 7)) = Some (replicate 32 7)" by (rule hex.dec_enc) simp
  have "signer_try_from \<lparr> sg_origins = [''https://sign.example.com:8443''], sg_rp_id = ''example.com'',
      sg_bundle_sha256 = ''sha256:'' @ hex_encode (replicate 32 7), sg_api_origin = ''https://api.example.com'' \<rparr> \<noteq> None"
    by (simp add: signer_try_from_def is_host_def host_label_def host_char_def is_ascii_lowercase_def
        is_ascii_digit_def code_def on_rp_id_def origin_host_def origin_port_ok_def strip_prefix_def
        strip_suffix_def starts_with_def parse_uint_def digits_value_def h
        del: strip_prefix_Some strip_suffix_Some)
  then show ?thesis
    by (auto simp: signer_de_def m field_def f de_vec_def signer_try_from_def split: if_splits)
qed

theorem signer_origins_on_rp_id_witness:
  "\<exists>s. signer_de demo_signer = Some s \<and> (\<exists>h. origin_host (hd (sg_origins s)) = Some h
     \<and> (h = ''example.com'' \<or> (\<exists>sub. h = sub @ ''.'' @ ''example.com'')))"
proof -
  from demo_signer_accepted obtain s where s: "signer_de demo_signer = Some s" and r: "sg_rp_id s = ''example.com''"
    by blast
  from signer_origins_on_rp_id [OF s] r show ?thesis using s by (intro exI [of _ s]) (auto dest: hd_in_set)
qed

lemma count_matches_one:
  "p \<noteq> [] \<Longrightarrow> count_matches p s = 1 \<longleftrightarrow> (\<exists>a b. split_once p s = Some (a, b) \<and> split_once p b = None)"
  by (subst (1) count_matches.simps, subst (1) count_matches.simps) (auto split: option.splits)

lemma NIL_NAME_not_Nil: "NIL_NAME \<noteq> []"
  by (simp add: NIL_NAME_def name_member_def dquote_def)

lemma render_Ok:
  assumes "compose_hash_of E (as_bytes t) = h"
  shows "render E t h app = Ok out \<longleftrightarrow>
     (\<exists>a b. split_once NIL_NAME t = Some (a, b) \<and> split_once NIL_NAME b = None
        \<and> t = a @ NIL_NAME @ b \<and> out = a @ name_member (uuid_show E app) @ b)"
proof (cases "split_once NIL_NAME t")
  case None
  then show ?thesis using assms count_matches_one [OF NIL_NAME_not_Nil, of t] by (simp add: render_def)
next
  case (Some ab)
  then obtain a b where s: "split_once NIL_NAME t = Some (a, b)" by (cases ab) auto
  then have "count_matches NIL_NAME t = 1 \<longleftrightarrow> split_once NIL_NAME b = None"
    using count_matches_one [OF NIL_NAME_not_Nil, of t] by simp
  moreover have "t = a @ NIL_NAME @ b" using s by (rule split_once_Some)
  ultimately show ?thesis using assms s unfolding render_def by (auto simp: replace_first_def Let_def)
qed

text \<open>
  A signed catalog file verifies under the key that signed it, and the rendered compose is its
  template with the one nil App id replaced: every byte before and after it is kept, and a template
  that does not hash to the signed entry's digest is never rendered.
\<close>

theorem catalog_sign_verify_render:
  assumes "b64_law E" and "ed25519_law E" and "catalog_sign E e template k = Ok f"
  shows "catalog_verify E f (catalog_key_from E (ed25519_public E k)) = Ok ()
    \<and> (\<forall>out. render E (cf_template f) (en_template_sha256 (cf_entry f)) app = Ok out \<longleftrightarrow>
         (\<exists>a b. split_once NIL_NAME template = Some (a, b) \<and> split_once NIL_NAME b = None
            \<and> template = a @ NIL_NAME @ b \<and> out = a @ name_member (uuid_show E app) @ b))
    \<and> (\<forall>t. compose_hash_of E (as_bytes t) \<noteq> en_template_sha256 e \<longrightarrow>
         render E t (en_template_sha256 (cf_entry f)) app = Err TemplateMismatch)"
proof -
  from assms(3) obtain d s where h: "compose_hash_of E (as_bytes template) = en_template_sha256 e"
    and d: "catalog_digest E e = Ok d" and s: "ed25519_sign E k d = Some s"
    and f: "f = \<lparr> cf_entry = e, cf_signature = \<lparr> ns_algorithm = ''ed25519'', ns_signature = b64_enc E s \<rparr>,
           cf_template = template \<rparr>"
    by (auto simp: catalog_sign_def result_simps)
  have "catalog_verify E f (catalog_key_from E (ed25519_public E k)) = Ok ()"
    using assms(2) s d
    by (simp add: f catalog_verify_def catalog_verifying_key_def catalog_key_from_def ed25519_signature_def
        b64_decode_encode [OF assms(1)] ed25519_law_def)
  moreover have "render E template (en_template_sha256 e) app = Ok out \<longleftrightarrow>
         (\<exists>a b. split_once NIL_NAME template = Some (a, b) \<and> split_once NIL_NAME b = None
            \<and> template = a @ NIL_NAME @ b \<and> out = a @ name_member (uuid_show E app) @ b)" for out
    by (rule render_Ok [OF h])
  ultimately show ?thesis by (simp add: f render_def)
qed

definition demo_entry :: "string \<Rightarrow> entry" where
  "demo_entry t = \<lparr> en_catalog_id = ''chat'', en_version = ''1'', en_title = ''Chat'',
     en_template_sha256 = compose_hash_of demo (as_bytes t), en_cpu = 2, en_memory_mib = 1024 \<rparr>"

theorem catalog_sign_verify_render_witness:
  "\<exists>f. catalog_sign demo (demo_entry NIL_NAME) NIL_NAME [] = Ok f
     \<and> catalog_verify demo f (catalog_key_from demo (ed25519_public demo [])) = Ok ()
     \<and> render demo (cf_template f) (en_template_sha256 (cf_entry f)) 5 = Ok (name_member (uuid_show demo 5))"
proof -
  have "is_ok (catalog_sign demo (demo_entry NIL_NAME) NIL_NAME [])"
    by (simp add: catalog_sign_def demo_entry_def catalog_digest_def signing_digest_def) (simp add: demo_def)
  then obtain f where f: "catalog_sign demo (demo_entry NIL_NAME) NIL_NAME [] = Ok f" by (auto simp: is_ok_iff)
  have "split_once NIL_NAME NIL_NAME = Some ([], [])"
    by (simp add: NIL_NAME_def name_member_def dquote_def)
  moreover have "split_once NIL_NAME [] = None" by (simp add: NIL_NAME_def name_member_def dquote_def)
  ultimately show ?thesis
    using catalog_sign_verify_render [OF demo_b64 demo_ed25519 f, of 5] f by (intro exI [of _ f]) auto
qed

end
