(* ===== verification/Attest_Gpu.thy ===== *)
theory Attest_Gpu
  imports Core_Platform
begin

unbundle bit_operations_syntax

text \<open>
  \<^verbatim>\<open>crates/alpha-attest/src/gpu.rs\<close>: appraisal of NVIDIA GPU evidence, from the bytes of the SPDM
  exchange and the device's certificate chain to the reference values. Parsing of PEM, X.509 and
  DER and the P-384 operations are parameters.
\<close>

section \<open>Data\<close>

type_synonym measurement = bytes

datatype appraisal_error = Failed | Unknown | PolicyDenied

fun appraisal_error_code :: "appraisal_error \<Rightarrow> string" where
  "appraisal_error_code Failed = ''attestation_failed''"
| "appraisal_error_code Unknown = ''attestation_unknown''"
| "appraisal_error_code PolicyDenied = ''policy_denied''"

record gpu_evidence =
  ge_evidence :: bytes
  ge_certificate_chain :: bytes

record gpu_reference =
  gr_root_sha256 :: compose_hash
  gr_chip :: string
  gr_project :: string
  gr_project_sku :: string
  gr_chip_sku :: string
  gr_vbios_version :: string
  gr_driver_version :: string
  gr_fwid :: measurement
  gr_feature_flag :: nat
  gr_measurements :: "nat \<rightharpoonup> measurement list"

record kata_gpus =
  kg_count :: nat
  kg_reference_values :: "gpu_reference list"

record kata_reference =
  kr_runtime_class :: string
  kr_mrtd :: measurement
  kr_rtmr0 :: "measurement list"
  kr_rtmr1 :: measurement
  kr_rtmr2 :: measurement
  kr_gpu :: bool
  kr_gpus :: "kata_gpus option"

section \<open>Binding GPUs to a quote\<close>

definition NONCE_DOMAIN :: bytes where
  "NONCE_DOMAIN = as_bytes ''alphacompute-gpu/1''"

definition gpu_nonce :: "'x ext_scheme \<Rightarrow> bytes \<Rightarrow> bytes" where
  "gpu_nonce E report_data = sha256 E (NONCE_DOMAIN @ take 32 report_data)"

definition gpu_preimage :: "gpu_evidence list \<Rightarrow> bytes" where
  "gpu_preimage gpus =
     concat (map (\<lambda>g. be_bytes 8 (length (ge_evidence g)) @ ge_evidence g) gpus)"

definition bind_gpus :: "'x ext_scheme \<Rightarrow> bytes \<Rightarrow> gpu_evidence list \<Rightarrow> bytes" where
  "bind_gpus E report_data gpus = take 32 report_data @ sha256 E (gpu_preimage gpus)"

section \<open>The SPDM exchange\<close>

definition REQUEST :: bytes where "REQUEST = [0x11, 0xe0, 0x01, 0xff]"
definition RESPONSE :: bytes where "RESPONSE = [0x11, 0x60]"
definition BLOCKS :: nat where "BLOCKS = 64"
definition SIGNATURE_LEN :: nat where "SIGNATURE_LEN = 96"
definition TCB_INFO_OID :: string where "TCB_INFO_OID = ''2.23.133.5.4.1.1''"
definition OID_ECDSA_SHA384 :: string where "OID_ECDSA_SHA384 = ''1.2.840.10045.4.3.3''"
definition OID_SHA384 :: string where "OID_SHA384 = ''2.16.840.1.101.3.4.2.2''"
definition OID_BASIC_CONSTRAINTS :: string where "OID_BASIC_CONSTRAINTS = ''2.5.29.19''"
definition OID_KEY_USAGE :: string where "OID_KEY_USAGE = ''2.5.29.15''"

record spdm =
  sp_nonce :: bytes
  sp_blocks :: "measurement list"
  sp_opaque :: bytes
  sp_signed :: bytes
  sp_signature :: bytes

definition rd_take :: "nat \<Rightarrow> bytes \<Rightarrow> (bytes \<times> bytes, appraisal_error) result" where
  "rd_take n r = (if n \<le> length r then Ok (take n r, drop n r) else Err Failed)"

definition rd_u16 :: "bytes \<Rightarrow> (nat \<times> bytes, appraisal_error) result" where
  "rd_u16 r = and_then (rd_take 2 r) (\<lambda>(b, r). Ok (from_le b, r))"

text \<open>Blocks \<open>index\<close>, \<open>index + 1\<close>, \<dots>, \<open>n\<close> of them.\<close>

fun parse_blocks :: "nat \<Rightarrow> nat \<Rightarrow> bytes \<Rightarrow> (measurement list \<times> bytes, appraisal_error) result" where
  "parse_blocks 0 index r = Ok ([], r)"
| "parse_blocks (Suc n) index r =
     and_then (rd_take 2 r) (\<lambda>(head, r).
     and_then (rd_u16 r) (\<lambda>(size, r).
     and_then (rd_take 1 r) (\<lambda>(value_type, r).
     and_then (rd_u16 r) (\<lambda>(value_len, r).
     refuse_if (unat (head ! 0) \<noteq> index \<or> head ! 1 \<noteq> 1 \<or> size \<noteq> 51 \<or> value_len \<noteq> 48) Failed
     (and_then (rd_take 48 r) (\<lambda>(value, r).
      and_then (parse_blocks n (Suc index) r) (\<lambda>(blocks, r). Ok (value # blocks, r))))))))"

definition parse_spdm :: "bytes \<Rightarrow> (spdm, appraisal_error) result" where
  "parse_spdm evidence =
     refuse_if (length evidence < SIGNATURE_LEN) Failed
     (let signed = take (length evidence - SIGNATURE_LEN) evidence;
          signature = drop (length evidence - SIGNATURE_LEN) evidence in
      and_then (rd_take 4 signed) (\<lambda>(request, r).
      refuse_if (request \<noteq> REQUEST) Failed
      (and_then (rd_take 32 r) (\<lambda>(nonce, r).
       and_then (rd_take 1 r) (\<lambda>(slot, r).
       refuse_if (slot \<noteq> [0]) Failed
       (and_then (rd_take 4 r) (\<lambda>(response, r).
        refuse_if (take 2 response \<noteq> RESPONSE) Failed
        (and_then (rd_take 1 r) (\<lambda>(count, r).
         refuse_if (count \<noteq> [word_of_nat BLOCKS]) Failed
         (and_then (rd_take 3 r) (\<lambda>(len, r).
          and_then (rd_take (from_le len) r) (\<lambda>(record, r).
          and_then (parse_blocks BLOCKS 1 record) (\<lambda>(blocks, rest).
          refuse_if (rest \<noteq> []) Failed
          (and_then (rd_take 32 r) (\<lambda>(responder_nonce, r).
           and_then (rd_u16 r) (\<lambda>(opaque_len, r).
           and_then (rd_take opaque_len r) (\<lambda>(opaque, r).
           refuse_if (r \<noteq> []) Failed
           (Ok \<lparr> sp_nonce = nonce, sp_blocks = blocks, sp_opaque = opaque, sp_signed = signed,
                sp_signature = signature \<rparr>))))))))))))))))))"

record opaque =
  oq_chip :: string
  oq_project :: string
  oq_project_sku :: string
  oq_chip_sku :: string
  oq_vbios_version :: string
  oq_driver_version :: string
  oq_fwid :: bytes
  oq_feature_flag :: nat

definition opaque_known :: "nat \<Rightarrow> bool" where
  "opaque_known kind \<longleftrightarrow> kind \<in> {3, 4, 6} \<or> (11 \<le> kind \<and> kind \<le> 20) \<or> (33 \<le> kind \<and> kind \<le> 36)"

lemma rd_take_Ok: "rd_take n r = Ok (a, s) \<longleftrightarrow> r = a @ s \<and> length a = n"
  by (auto simp: rd_take_def)

lemma rd_u16_Ok: "rd_u16 r = Ok (x, s) \<longleftrightarrow> (\<exists>a. r = a @ s \<and> length a = 2 \<and> x = from_le a)"
  by (auto simp: rd_u16_def result_simps rd_take_Ok)

function opaque_fields :: "(nat \<rightharpoonup> bytes) \<Rightarrow> bytes \<Rightarrow> (nat \<rightharpoonup> bytes, appraisal_error) result" where
  "opaque_fields flds r =
     (if r = [] then Ok flds
      else (case rd_u16 r of
              Err e \<Rightarrow> Err e
            | Ok (kind, r1) \<Rightarrow>
                (case and_then (rd_u16 r1) (\<lambda>(len, r2). rd_take len r2) of
                   Err e \<Rightarrow> Err e
                 | Ok (val, r3) \<Rightarrow>
                     if \<not> opaque_known kind then Err Failed
                     else if flds kind \<noteq> None then Err Failed
                     else opaque_fields (flds(kind \<mapsto> val)) r3)))"
  by pat_completeness auto
termination
  by (relation "measure (\<lambda>(_, r). length r)") (auto simp: rd_u16_Ok result_simps rd_take_Ok)

declare opaque_fields.simps [simp del]

definition opaque_text :: "(nat \<rightharpoonup> bytes) \<Rightarrow> nat \<Rightarrow> (string, appraisal_error) result" where
  "opaque_text flds kind =
     and_then (ok_or (flds kind) Failed) (\<lambda>v. ok_or (from_utf8 (takeWhile (\<lambda>b. b \<noteq> 0) v)) Failed)"

definition dotted_hex :: "bytes \<Rightarrow> string" where
  "dotted_hex v = hex_byte (v ! 3) @ ''.'' @ hex_byte (v ! 2) @ ''.'' @ hex_byte (v ! 1) @ ''.''
     @ hex_byte (v ! 0) @ ''.'' @ hex_byte (v ! 4)"

definition opaque_parse :: "bytes \<Rightarrow> (opaque, appraisal_error) result" where
  "opaque_parse data =
     and_then (opaque_fields Map.empty data) (\<lambda>flds.
     and_then (ok_or (flds 34) Failed) (\<lambda>version.
     refuse_if (version \<noteq> [1, 0]) Failed
     (and_then (ok_or (flds 6) Failed) (\<lambda>vbios.
      refuse_if (length vbios \<noteq> 8 \<or> drop 5 vbios \<noteq> [0, 0, 0]) Failed
      (and_then (opaque_text flds 35) (\<lambda>chip.
       and_then (opaque_text flds 17) (\<lambda>project.
       and_then (opaque_text flds 18) (\<lambda>project_sku.
       and_then (opaque_text flds 15) (\<lambda>chip_sku.
       and_then (opaque_text flds 3) (\<lambda>driver.
       and_then (ok_or (flds 20) Failed) (\<lambda>fwid.
       refuse_if (length fwid \<noteq> 48) Failed
       (and_then (ok_or (flds 36) Failed) (\<lambda>flag.
        refuse_if (length flag \<noteq> 2) Failed
        (Ok \<lparr> oq_chip = chip, oq_project = project, oq_project_sku = project_sku, oq_chip_sku = chip_sku,
             oq_vbios_version = dotted_hex vbios, oq_driver_version = driver, oq_fwid = fwid,
             oq_feature_flag = from_le flag \<rparr>))))))))))))))"

definition opaque_is :: "opaque \<Rightarrow> gpu_reference \<Rightarrow> bool" where
  "opaque_is q r \<longleftrightarrow> oq_chip q = gr_chip r \<and> oq_project q = gr_project r
     \<and> oq_project_sku q = gr_project_sku r \<and> oq_chip_sku q = gr_chip_sku r
     \<and> oq_vbios_version q = gr_vbios_version r \<and> oq_driver_version q = gr_driver_version r
     \<and> oq_fwid q = gr_fwid r \<and> oq_feature_flag q = gr_feature_flag r"

section \<open>The device's certificate chain\<close>

record leaf =
  lf_key :: bytes
  lf_serial :: string
  lf_fwid :: "bytes option"
  lf_root :: compose_hash

record tcb_info =
  ti_fwid :: "bytes option"
  ti_insecure :: bool

text \<open>The fields of a TcbInfo; class 2 is context-specific, tag 4 an octet string. Fuel: one per byte.\<close>

fun tcb_fields :: "'x ext_scheme \<Rightarrow> nat \<Rightarrow> nat option \<Rightarrow> bytes \<Rightarrow> tcb_info \<Rightarrow> tcb_info option" where
  "tcb_fields E fuel last_tag [] info = Some info"
| "tcb_fields E 0 last_tag (b # bs) info = None"
| "tcb_fields E (Suc fuel) last_tag (b # bs) info =
     Option.bind (der_any E (b # bs)) (\<lambda>(f, rest).
     if der_class f \<noteq> 2 \<or> (case last_tag of None \<Rightarrow> False | Some t \<Rightarrow> t \<ge> der_tag f) then None
     else if der_tag f = 6 then
       Option.bind (der_any E (der_data f)) (\<lambda>(fwid, _).
       Option.bind (der_oid E (der_data fwid)) (\<lambda>(hash_alg, d).
       Option.bind (der_any E d) (\<lambda>(digest, r).
       if r \<noteq> [] then None
       else tcb_fields E fuel (Some (der_tag f)) rest
              (info\<lparr> ti_fwid := if hash_alg = OID_SHA384 \<and> der_tag digest = 4
                                  \<and> length (der_data digest) = 48
                               then Some (der_data digest) else None \<rparr>))))
     else if der_tag f = 7 then
       tcb_fields E fuel (Some (der_tag f)) rest
         (info\<lparr> ti_insecure := 1 < length (der_data f) \<and> der_data f ! 1 AND 0x70 \<noteq> 0 \<rparr>)
     else tcb_fields E fuel (Some (der_tag f)) rest info)"

definition tcb_info_of :: "'x ext_scheme \<Rightarrow> bytes \<Rightarrow> tcb_info option" where
  "tcb_info_of E v =
     Option.bind (der_any E v) (\<lambda>(t, rest).
     if rest \<noteq> [] then None
     else tcb_fields E (length (der_data t)) None (der_data t) \<lparr> ti_fwid = None, ti_insecure = False \<rparr>)"

definition unknown_critical :: "x509 \<Rightarrow> string \<Rightarrow> string option" where
  "unknown_critical cert also =
     map_option fst (find (\<lambda>(oid, critical, _). critical \<and> oid \<noteq> OID_BASIC_CONSTRAINTS
       \<and> oid \<noteq> OID_KEY_USAGE \<and> oid \<noteq> also) (x_extensions cert))"

definition p384_key :: "'x ext_scheme \<Rightarrow> x509 \<Rightarrow> (bytes, appraisal_error) result" where
  "p384_key E cert = ok_or (p384_from_sec1 E (x_public_key cert)) Failed"

definition asn1_time :: "'x ext_scheme \<Rightarrow> time \<Rightarrow> (int, appraisal_error) result" where
  "asn1_time E t =
     ok_or (if t < 0 \<or> 2 ^ 63 \<le> seconds_of t then None else asn1_from_timestamp E (seconds_of t)) Failed"

definition check_link :: "'x ext_scheme \<Rightarrow> nat \<Rightarrow> x509 \<Rightarrow> x509 \<Rightarrow> (unit, appraisal_error) result" where
  "check_link E depth cert issuer =
     (case x_basic issuer of
        Some (Some (True, path_len)) \<Rightarrow>
          (let within = (case path_len of None \<Rightarrow> True | Some m \<Rightarrow> depth \<le> m);
               may_sign = (case x_key_usage issuer of Some (Some (_, cert_sign)) \<Rightarrow> cert_sign | _ \<Rightarrow> False) in
           refuse_if (\<not> within \<or> \<not> may_sign \<or> x_issuer cert \<noteq> x_subject issuer) Failed
           (refuse_if (x_sig_alg cert \<noteq> OID_ECDSA_SHA384) Failed
           (and_then (ok_or (p384_sig_from_der E (x_signature cert)) Failed) (\<lambda>sig.
            and_then (p384_key E issuer) (\<lambda>key.
            if p384_verify E key (x_tbs cert) sig then Ok () else Err Failed)))))
      | _ \<Rightarrow> Err Failed)"

fun check_links :: "'x ext_scheme \<Rightarrow> nat \<Rightarrow> x509 list \<Rightarrow> (unit, appraisal_error) result" where
  "check_links E depth (cert # issuer # certs) =
     and_then (check_link E depth cert issuer) (\<lambda>_. check_links E (Suc depth) (issuer # certs))"
| "check_links E depth certs = Ok ()"

fun check_extensions :: "'x ext_scheme \<Rightarrow> nat \<Rightarrow> bytes option \<Rightarrow> (string \<times> bool \<times> bytes) list \<Rightarrow>
    (bytes option, appraisal_error) result" where
  "check_extensions E depth fwid [] = Ok fwid"
| "check_extensions E depth fwid ((oid, critical, val) # exts) =
     (if oid \<noteq> TCB_INFO_OID then check_extensions E depth fwid exts
      else and_then (ok_or (tcb_info_of E val) Failed) (\<lambda>info.
        refuse_if (ti_insecure info) Failed
        (check_extensions E depth (if depth = 0 then ti_fwid info else fwid) exts)))"

fun check_tcb :: "'x ext_scheme \<Rightarrow> nat \<Rightarrow> bytes option \<Rightarrow> x509 list \<Rightarrow> (bytes option, appraisal_error) result" where
  "check_tcb E depth fwid [] = Ok fwid"
| "check_tcb E depth fwid (cert # certs) =
     and_then (check_extensions E depth fwid (x_extensions cert)) (\<lambda>fwid.
     refuse_if (unknown_critical cert TCB_INFO_OID \<noteq> None) Failed
     (check_tcb E (Suc depth) fwid certs))"

definition leaf_may_sign :: "x509 \<Rightarrow> bool" where
  "leaf_may_sign cert \<longleftrightarrow>
     \<not> (case x_basic cert of None \<Rightarrow> True | Some None \<Rightarrow> False | Some (Some (ca, _)) \<Rightarrow> ca)
     \<and> (case x_key_usage cert of Some (Some (sign, _)) \<Rightarrow> sign | _ \<Rightarrow> False)"

definition parse_cert :: "'x ext_scheme \<Rightarrow> bytes \<Rightarrow> (x509, appraisal_error) result" where
  "parse_cert E der = (case x509_parse E der of Some (cert, []) \<Rightarrow> Ok cert | _ \<Rightarrow> Err Failed)"

definition verify_chain :: "'x ext_scheme \<Rightarrow> bytes list \<Rightarrow> compose_hash list \<Rightarrow> time \<Rightarrow>
    (leaf, appraisal_error) result" where
  "verify_chain E ders roots now =
     and_then (collect_results (parse_cert E) ders) (\<lambda>certs.
     refuse_if (certs = []) Failed
     (let root = sha256 E (x_raw (last certs)) in
      refuse_if (root \<notin> set roots) Failed
      (and_then (asn1_time E now) (\<lambda>t.
       and_then (check_links E 0 certs) (\<lambda>_.
       refuse_if (\<not> list_all (\<lambda>c. x_not_before c \<le> t \<and> t \<le> x_not_after c) certs) Failed
       (and_then (check_tcb E 0 None certs) (\<lambda>fwid.
        refuse_if (\<not> leaf_may_sign (hd certs)) Failed
        (and_then (p384_key E (hd certs)) (\<lambda>key.
         Ok \<lparr> lf_key = key, lf_serial = hex_encode (x_serial (hd certs)), lf_fwid = fwid,
              lf_root = root \<rparr>))))))))) "

section \<open>Appraisal\<close>

definition pem_chain :: "'x ext_scheme \<Rightarrow> gpu_evidence \<Rightarrow> (bytes list, appraisal_error) result" where
  "pem_chain E gpu =
     collect_results (\<lambda>block. case block of
         Some (label, contents) \<Rightarrow> (if label = ''CERTIFICATE'' then Ok contents else Err Failed)
       | None \<Rightarrow> Err Failed) (pem_blocks E (ge_certificate_chain gpu))"

definition read_gpu :: "'x ext_scheme \<Rightarrow> gpu_evidence \<Rightarrow> compose_hash list \<Rightarrow> time \<Rightarrow>
    (leaf \<times> spdm \<times> opaque, appraisal_error) result" where
  "read_gpu E gpu roots now =
     and_then (pem_chain E gpu) (\<lambda>chain.
     and_then (verify_chain E chain roots now) (\<lambda>leaf.
     and_then (parse_spdm (ge_evidence gpu)) (\<lambda>spdm.
     and_then (ok_or (p384_sig_from_slice E (sp_signature spdm)) Failed) (\<lambda>sig.
     refuse_if (\<not> p384_verify E (lf_key leaf) (sp_signed spdm) sig) Failed
     (and_then (opaque_parse (sp_opaque spdm)) (\<lambda>opaque.
      and_then (ok_or (lf_fwid leaf) Failed) (\<lambda>fwid.
      refuse_if (fwid \<noteq> oq_fwid opaque) Failed (Ok (leaf, spdm, opaque)))))))))"

definition block_allowed :: "gpu_reference \<Rightarrow> nat \<Rightarrow> measurement \<Rightarrow> bool" where
  "block_allowed r index v =
     (case gr_measurements r index of Some vs \<Rightarrow> v \<in> set vs | None \<Rightarrow> v = replicate 48 0)"

definition appraise_gpu :: "'x ext_scheme \<Rightarrow> gpu_evidence \<Rightarrow> bytes \<Rightarrow> gpu_reference list \<Rightarrow> time \<Rightarrow>
    (string, appraisal_error) result" where
  "appraise_gpu E gpu nonce references now =
     and_then (read_gpu E gpu (map gr_root_sha256 references) now) (\<lambda>(leaf, spdm, opaque).
     refuse_if (sp_nonce spdm \<noteq> nonce) Failed
     (and_then (ok_or (find (\<lambda>r. gr_root_sha256 r = lf_root leaf \<and> opaque_is opaque r) references) Unknown)
       (\<lambda>reference.
       if list_all (\<lambda>(i, v). block_allowed reference i v) (zip [1 ..< Suc BLOCKS] (sp_blocks spdm))
       then Ok (lf_serial leaf) else Err Unknown)))"

fun appraise_each :: "'x ext_scheme \<Rightarrow> gpu_evidence list \<Rightarrow> string list \<Rightarrow> bytes \<Rightarrow> gpu_reference list \<Rightarrow> time \<Rightarrow>
    (string list, appraisal_error) result" where
  "appraise_each E [] seen nonce references now = Ok []"
| "appraise_each E (gpu # gpus) seen nonce references now =
     and_then (appraise_gpu E gpu nonce references now) (\<lambda>serial.
     refuse_if (serial \<in> set seen) Failed
     (and_then (appraise_each E gpus (serial # seen) nonce references now) (\<lambda>rest. Ok (serial # rest))))"

definition appraise_gpus :: "'x ext_scheme \<Rightarrow> gpu_evidence list \<Rightarrow> bytes \<Rightarrow> nat \<Rightarrow> gpu_reference list \<Rightarrow> time \<Rightarrow>
    (string list, appraisal_error) result" where
  "appraise_gpus E gpus nonce count references now =
     refuse_if (length gpus \<noteq> count) Failed (appraise_each E gpus [] nonce references now)"

definition appraise_kata_gpus :: "'x ext_scheme \<Rightarrow> kata_reference \<Rightarrow> bytes \<Rightarrow> gpu_evidence list \<Rightarrow> time \<Rightarrow>
    (string list, appraisal_error) result" where
  "appraise_kata_gpus E rclass report_data gpus now =
     (if \<not> kr_gpu rclass then (if gpus = [] then Ok [] else Err Failed)
      else (case kr_gpus rclass of
              None \<Rightarrow> Err PolicyDenied
            | Some pinned \<Rightarrow>
                refuse_if (gpus = []) Failed
                (refuse_if (bind_gpus E report_data gpus \<noteq> report_data) Failed
                (appraise_gpus E gpus (gpu_nonce E report_data) (kg_count pinned)
                   (kg_reference_values pinned) now))))"

text \<open>OCSP queries for the certificates of a chain but the root, once each.\<close>

record ocsp_query =
  oc_cert :: bytes
  oc_issuer :: bytes

fun add_queries :: "ocsp_query list \<Rightarrow> bytes list \<Rightarrow> ocsp_query list" where
  "add_queries queries (cert # issuer # chain) =
     (let q = \<lparr> oc_cert = cert, oc_issuer = issuer \<rparr> in
      add_queries (if q \<in> set queries then queries else queries @ [q]) (issuer # chain))"
| "add_queries queries chain = queries"

fun device_queries :: "'x ext_scheme \<Rightarrow> ocsp_query list \<Rightarrow> gpu_evidence list \<Rightarrow> (ocsp_query list, appraisal_error) result" where
  "device_queries E queries [] = Ok queries"
| "device_queries E queries (gpu # gpus) =
     and_then (pem_chain E gpu) (\<lambda>chain. device_queries E (add_queries queries (drop 1 chain)) gpus)"

definition device_ocsp_queries :: "'x ext_scheme \<Rightarrow> gpu_evidence list \<Rightarrow> (ocsp_query list, appraisal_error) result" where
  "device_ocsp_queries E gpus = device_queries E [] gpus"

section \<open>Lemmas\<close>

lemma gpu_preimage_inject:
  assumes "\<forall>g \<in> set xs \<union> set ys. length (ge_evidence g) < 2 ^ 64" and "gpu_preimage xs = gpu_preimage ys"
  shows "map ge_evidence xs = map ge_evidence ys"
  using assms
proof (induction xs arbitrary: ys)
  case Nil
  then have "ys = []" by (cases ys) (auto simp: gpu_preimage_def dest: arg_cong [of _ _ length])
  then show ?case by simp
next
  case (Cons x xs)
  have ne: "gpu_preimage (g # gs) \<noteq> []" for g gs
    by (auto simp: gpu_preimage_def dest: arg_cong [of _ _ length])
  from Cons.prems(2) have "ys \<noteq> []" using ne [of x xs] by (auto simp: gpu_preimage_def)
  then obtain y ys' where ys: "ys = y # ys'" by (cases ys) auto
  let ?l = "\<lambda>g. length (ge_evidence g)"
  have p: "be_bytes 8 (?l x) @ ge_evidence x @ gpu_preimage xs = be_bytes 8 (?l y) @ ge_evidence y @ gpu_preimage ys'"
    using Cons.prems(2) ys by (simp add: gpu_preimage_def)
  have b: "?l x < 256 ^ 8" "?l y < 256 ^ 8" using Cons.prems(1) ys by auto
  from p have "be_bytes 8 (?l x) = be_bytes 8 (?l y)"
    and r: "ge_evidence x @ gpu_preimage xs = ge_evidence y @ gpu_preimage ys'"
    by (simp_all add: append_eq_append_conv)
  then have "?l x = ?l y" using be_bytes_inject [OF b] by simp
  with r have "ge_evidence x = ge_evidence y" and "gpu_preimage xs = gpu_preimage ys'"
    by (simp_all add: append_eq_append_conv)
  moreover have "\<forall>g \<in> set xs \<union> set ys'. length (ge_evidence g) < 2 ^ 64" using Cons.prems(1) ys by auto
  ultimately show ?case using Cons.IH ys by simp
qed

definition block_bytes :: "nat \<Rightarrow> byte \<Rightarrow> measurement \<Rightarrow> bytes" where
  "block_bytes index value_type v = [word_of_nat index, 1, 51, 0, value_type, 48, 0] @ v"

fun record_bytes :: "nat \<Rightarrow> (byte \<times> measurement) list \<Rightarrow> bytes" where
  "record_bytes index [] = []"
| "record_bytes index ((t, v) # bs) = block_bytes index t v @ record_bytes (Suc index) bs"

lemma length_2_conv: "length a = 2 \<longleftrightarrow> (\<exists>x y. a = [x, y])"
  by (auto simp: numeral_2_eq_2 length_Suc_conv)

lemma length_1_conv: "length a = Suc 0 \<longleftrightarrow> (\<exists>x. a = [x])"
  by (auto simp: length_Suc_conv)

lemma from_le_2: "from_le [x, y] = n \<Longrightarrow> n < 256 \<Longrightarrow> x = word_of_nat n \<and> y = 0"
proof -
  assume "from_le [x, y] = n" and n: "n < 256"
  then have u: "unat x + 256 * unat y = n" by simp
  with n have "unat y = 0" by auto
  with u have "unat x = n" by simp
  moreover have "word_of_nat (unat x) = x" by simp
  ultimately have "word_of_nat n = x" by simp
  with \<open>unat y = 0\<close> show ?thesis by (simp add: unat_eq_0)
qed

lemma parse_blocks_Ok:
  "parse_blocks n i r = Ok (bs, rest) \<Longrightarrow> i + n \<le> 256 \<Longrightarrow>
   length bs = n \<and> list_all (\<lambda>v. length v = 48) bs
   \<and> (\<exists>ts. length ts = n \<and> r = record_bytes i (zip ts bs) @ rest)"
proof (induction n arbitrary: i r bs)
  case 0
  then show ?case by simp
next
  case (Suc n)
  from Suc.prems(1) obtain hd2 r1 a r2 t r3 b r4 v r5 bs' where
    1: "r = hd2 @ r1" "length hd2 = 2" and 2: "r1 = a @ r2" "length a = 2" "from_le a = 51"
    and 3: "r2 = t @ r3" "length t = 1" and 4: "r3 = b @ r4" "length b = 2" "from_le b = 48"
    and h: "unat (hd2 ! 0) = i" "hd2 ! 1 = 1" and 5: "r4 = v @ r5" "length v = 48"
    and p: "parse_blocks n (Suc i) r5 = Ok (bs', rest)" and bs: "bs = v # bs'"
    by (auto simp: result_simps rd_take_Ok rd_u16_Ok)
  obtain x y where hd2: "hd2 = [x, y]" using 1(2) by (auto simp: length_2_conv)
  obtain tv where t: "t = [tv]" using 3(2) by (auto simp: length_1_conv)
  have "hd2 = [word_of_nat i, 1]" using h hd2 by auto
  moreover obtain a0 a1 where "a = [a0, a1]" using 2(2) by (auto simp: length_2_conv)
  then have "a = [51, 0]" using 2(3) from_le_2 [of a0 a1 51] by simp
  moreover obtain b0 b1 where "b = [b0, b1]" using 4(2) by (auto simp: length_2_conv)
  then have "b = [48, 0]" using 4(3) from_le_2 [of b0 b1 48] by simp
  moreover obtain ts where "length bs' = n" "list_all (\<lambda>v. length v = 48) bs'" "length ts = n"
    "r5 = record_bytes (Suc i) (zip ts bs') @ rest"
    using Suc.IH [OF p] Suc.prems(2) by auto
  ultimately show ?case using 1 2 3 4 5 bs t
    by (intro conjI exI [of _ "tv # ts"]) (simp_all add: block_bytes_def)
qed

lemma parse_spdm_Ok:
  assumes "parse_spdm e = Ok s"
  shows "e = sp_signed s @ sp_signature s \<and> length (sp_signature s) = 96 \<and> length (sp_nonce s) = 32
    \<and> length (sp_blocks s) = 64 \<and> list_all (\<lambda>v. length v = 48) (sp_blocks s)
    \<and> (\<exists>param ts len responder olen. length ts = 64 \<and> length param = 2 \<and> length responder = 32
         \<and> length len = 3 \<and> length olen = 2 \<and> from_le olen = length (sp_opaque s)
         \<and> sp_signed s = REQUEST @ sp_nonce s @ [0] @ RESPONSE @ param @ [64] @ len
             @ record_bytes 1 (zip ts (sp_blocks s)) @ responder @ olen @ sp_opaque s)"
proof -
  let ?signed = "take (length e - SIGNATURE_LEN) e"
  let ?sig = "drop (length e - SIGNATURE_LEN) e"
  from assms obtain r1 nonce r2 r3 resp r4 r5 len r6 rec r7 blocks rn r8 olen r9 opq where
    l: "96 \<le> length e" and 1: "?signed = REQUEST @ r1" and 2: "r1 = nonce @ r2" "length nonce = 32"
    and 3: "r2 = [0] @ r3" and 4: "r3 = resp @ r4" "length resp = 4" "take 2 resp = RESPONSE"
    and 5: "r4 = [64] @ r5" and 6: "r5 = len @ r6" "length len = 3" and 7: "r6 = rec @ r7"
    and 8: "parse_blocks 64 1 rec = Ok (blocks, [])" and 9: "r7 = rn @ r8" "length rn = 32"
    and 10: "r8 = olen @ opq" "length olen = 2" "length opq = from_le olen"
    and s: "s = \<lparr> sp_nonce = nonce, sp_blocks = blocks, sp_opaque = opq, sp_signed = ?signed, sp_signature = ?sig \<rparr>"
    by (auto simp: parse_spdm_def result_simps rd_take_Ok rd_u16_Ok SIGNATURE_LEN_def BLOCKS_def Let_def not_less)
  from parse_blocks_Ok [OF 8] obtain ts where b: "length blocks = 64" "list_all (\<lambda>v. length v = 48) blocks"
    "length ts = 64" "rec = record_bytes 1 (zip ts blocks)" by auto
  have "resp = RESPONSE @ drop 2 resp" using 4(3) by (metis append_take_drop_id)
  then have signed: "?signed = REQUEST @ nonce @ [0] @ RESPONSE @ drop 2 resp @ [64] @ len
             @ record_bytes 1 (zip ts blocks) @ rn @ olen @ opq"
    using 1 2 3 4 5 6 7 9 10 b by (metis append.assoc)
  have d: "length (drop 2 resp) = 2" using 4(2) by simp
  have g: "length ?sig = 96" using l by (simp add: SIGNATURE_LEN_def)
  have "\<exists>param ts len responder olen. length ts = 64 \<and> length param = 2 \<and> length responder = 32
         \<and> length len = 3 \<and> length olen = 2 \<and> from_le olen = length opq
         \<and> ?signed = REQUEST @ nonce @ [0] @ RESPONSE @ param @ [64] @ len
             @ record_bytes 1 (zip ts blocks) @ responder @ olen @ opq"
    using signed d b(3) 6(2) 9(2) 10(2,3) by metis
  then show ?thesis unfolding s using b(1,2) 2(2) g by simp
qed

lemma appraise_each_Ok:
  "appraise_each E gpus seen nonce refs now = Ok serials \<Longrightarrow>
     list_all2 (\<lambda>g n. appraise_gpu E g nonce refs now = Ok n) gpus serials
     \<and> distinct serials \<and> set serials \<inter> set seen = {}"
  by (induction gpus arbitrary: seen serials) (fastforce simp: result_simps)+

text \<open>
  What an accepted certificate chain proves, in terms of its certificates: the fields of a TcbInfo
  as consecutive DER values, one link, and the chain.
\<close>

fun der_items :: "'x ext_scheme \<Rightarrow> bytes \<Rightarrow> der_value list \<Rightarrow> bool" where
  "der_items E bs [] \<longleftrightarrow> bs = []"
| "der_items E bs (f # fs) \<longleftrightarrow> (\<exists>rest. der_any E bs = Some (f, rest) \<and> der_items E rest fs)"

definition flags_insecure :: "der_value \<Rightarrow> bool" where
  "flags_insecure f \<longleftrightarrow> 1 < length (der_data f) \<and> der_data f ! 1 AND 0x70 \<noteq> 0"

definition fwid_digest :: "'x ext_scheme \<Rightarrow> der_value \<Rightarrow> bytes \<Rightarrow> bool" where
  "fwid_digest E f d \<longleftrightarrow> (\<exists>fwid r rest digest. der_any E (der_data f) = Some (fwid, r)
     \<and> der_oid E (der_data fwid) = Some (OID_SHA384, rest) \<and> der_any E rest = Some (digest, [])
     \<and> der_tag digest = 4 \<and> der_data digest = d \<and> length d = 48)"

definition tcb_holds :: "'x ext_scheme \<Rightarrow> bytes \<Rightarrow> bytes option \<Rightarrow> bool" where
  "tcb_holds E v fwid \<longleftrightarrow> (\<exists>t fs. der_any E v = Some (t, []) \<and> der_items E (der_data t) fs
     \<and> (\<forall>f \<in> set fs. der_class f = 2) \<and> sorted_wrt (\<lambda>f g. der_tag f < der_tag g) fs
     \<and> (\<forall>f \<in> set fs. der_tag f = 7 \<longrightarrow> \<not> flags_insecure f)
     \<and> (\<forall>d. fwid = Some d \<longrightarrow> (\<exists>f \<in> set fs. der_tag f = 6 \<and> fwid_digest E f d)))"

definition extensions_hold :: "'x ext_scheme \<Rightarrow> x509 \<Rightarrow> bool" where
  "extensions_hold E c \<longleftrightarrow> (\<forall>(oid, critical, v) \<in> set (x_extensions c).
     (oid = TCB_INFO_OID \<longrightarrow> tcb_holds E v None)
     \<and> (critical \<longrightarrow> oid \<in> {OID_BASIC_CONSTRAINTS, OID_KEY_USAGE, TCB_INFO_OID}))"

definition link_holds :: "'x ext_scheme \<Rightarrow> nat \<Rightarrow> x509 \<Rightarrow> x509 \<Rightarrow> bool" where
  "link_holds E depth cert issuer \<longleftrightarrow> (\<exists>path_len sign sig key.
     x_basic issuer = Some (Some (True, path_len)) \<and> (\<forall>m. path_len = Some m \<longrightarrow> depth \<le> m)
     \<and> x_key_usage issuer = Some (Some (sign, True)) \<and> x_issuer cert = x_subject issuer
     \<and> x_sig_alg cert = OID_ECDSA_SHA384 \<and> p384_sig_from_der E (x_signature cert) = Some sig
     \<and> p384_from_sec1 E (x_public_key issuer) = Some key \<and> p384_verify E key (x_tbs cert) sig)"

definition chain_holds :: "'x ext_scheme \<Rightarrow> x509 list \<Rightarrow> compose_hash \<Rightarrow> bytes \<Rightarrow> bytes option \<Rightarrow> time \<Rightarrow> bool" where
  "chain_holds E certs root key fwid now \<longleftrightarrow> certs \<noteq> [] \<and> sha256 E (x_raw (last certs)) = root
     \<and> (\<forall>i. Suc i < length certs \<longrightarrow> link_holds E i (certs ! i) (certs ! Suc i))
     \<and> (\<exists>t. asn1_from_timestamp E (seconds_of now) = Some t
           \<and> (\<forall>c \<in> set certs. x_not_before c \<le> t \<and> t \<le> x_not_after c))
     \<and> (\<forall>c \<in> set certs. extensions_hold E c)
     \<and> (\<forall>d. fwid = Some d \<longrightarrow> (\<exists>critical v. (TCB_INFO_OID, critical, v) \<in> set (x_extensions (hd certs))
           \<and> tcb_holds E v (Some d)))
     \<and> x_basic (hd certs) \<in> {Some None} \<union> {Some (Some (False, m)) | m. True}
     \<and> (\<exists>cert_sign. x_key_usage (hd certs) = Some (Some (True, cert_sign)))
     \<and> p384_from_sec1 E (x_public_key (hd certs)) = Some key"

definition tcb_read :: "'x ext_scheme \<Rightarrow> bytes \<Rightarrow> der_value list \<Rightarrow> tcb_info \<Rightarrow> tcb_info \<Rightarrow> bool" where
  "tcb_read E bs fs info info' \<longleftrightarrow>
     der_items E bs fs \<and> (\<forall>f \<in> set fs. der_class f = 2) \<and> sorted_wrt (\<lambda>f g. der_tag f < der_tag g) fs
     \<and> (\<forall>f \<in> set fs. der_tag f = 7 \<longrightarrow> ti_insecure info' = flags_insecure f)
     \<and> ((\<forall>f \<in> set fs. der_tag f \<noteq> 7) \<longrightarrow> ti_insecure info' = ti_insecure info)
     \<and> (\<forall>f \<in> set fs. \<forall>d. der_tag f = 6 \<longrightarrow> ti_fwid info' = Some d \<longrightarrow> fwid_digest E f d)
     \<and> ((\<forall>f \<in> set fs. der_tag f \<noteq> 6) \<longrightarrow> ti_fwid info' = ti_fwid info)"

lemma tcb_read_Cons:
  assumes "der_any E bs = Some (f, rest)" and "der_class f = 2" and "\<forall>g \<in> set fs. der_tag f < der_tag g"
    and "tcb_read E rest fs info1 info'"
    and "ti_insecure info1 = (if der_tag f = 7 then flags_insecure f else ti_insecure info)"
    and "\<forall>d. der_tag f = 6 \<longrightarrow> ti_fwid info1 = Some d \<longrightarrow> fwid_digest E f d"
    and "der_tag f \<noteq> 6 \<longrightarrow> ti_fwid info1 = ti_fwid info"
  shows "tcb_read E bs (f # fs) info info'"
  using assms unfolding tcb_read_def by (auto dest: bspec)

lemma if_None_eq_Some: "(if b then None else x) = Some y \<longleftrightarrow> \<not> b \<and> x = Some y"
  by simp

lemma tcb_fields_Some:
  "tcb_fields E fuel last_tag bs info = Some info' \<Longrightarrow>
   \<exists>fs. tcb_read E bs fs info info' \<and> (\<forall>t. last_tag = Some t \<longrightarrow> (\<forall>f \<in> set fs. t < der_tag f))"
proof (induction E fuel last_tag bs info arbitrary: info' rule: tcb_fields.induct)
  case (1 E fuel last_tag info)
  then show ?case by (intro exI [of _ "[]"]) (simp add: tcb_read_def)
next
  case (2 E last_tag b bs info)
  then show ?case by simp
next
  case (3 E fuel last_tag b bs info)
  let ?fwid = "\<lambda>alg digest. if alg = OID_SHA384 \<and> der_tag digest = 4 \<and> length (der_data digest) = 48
                            then Some (der_data digest) else None"
  from "3.prems" obtain f rest where f: "der_any E (b # bs) = Some (f, rest)" "der_class f = 2"
      "\<forall>t. last_tag = Some t \<longrightarrow> t < der_tag f"
    by (auto simp: bind_eq_Some_conv split: if_splits option.splits)
  then have g: "\<not> (der_class f \<noteq> 2 \<or> (case last_tag of None \<Rightarrow> False | Some t \<Rightarrow> t \<ge> der_tag f))"
    by (auto split: option.splits)
  have step: ?case if "\<exists>fs. tcb_read E rest fs info1 info' \<and> (\<forall>t. Some (der_tag f) = Some t \<longrightarrow> (\<forall>g \<in> set fs. t < der_tag g))"
    "ti_insecure info1 = (if der_tag f = 7 then flags_insecure f else ti_insecure info)"
    "\<forall>d. der_tag f = 6 \<longrightarrow> ti_fwid info1 = Some d \<longrightarrow> fwid_digest E f d"
    "der_tag f \<noteq> 6 \<longrightarrow> ti_fwid info1 = ti_fwid info" for info1
  proof -
    from that(1) obtain fs where fs: "tcb_read E rest fs info1 info'" "\<forall>g \<in> set fs. der_tag f < der_tag g" by blast
    have "tcb_read E (b # bs) (f # fs) info info'"
      by (rule tcb_read_Cons [OF f(1,2) fs(2,1) that(2-4)])
    moreover have "\<forall>t. last_tag = Some t \<longrightarrow> (\<forall>g \<in> set (f # fs). t < der_tag g)"
      using f(3) fs(2) by (auto dest: order_less_trans)
    ultimately show ?case by blast
  qed
  consider (six) "der_tag f = 6" | (seven) "der_tag f = 7" | (other) "der_tag f \<noteq> 6" "der_tag f \<noteq> 7" by blast
  then show ?case
  proof cases
    case six
    with "3.prems" f(1) g obtain fwid r alg d digest where d: "der_any E (der_data f) = Some (fwid, r)"
        "der_oid E (der_data fwid) = Some (alg, d)" "der_any E d = Some (digest, [])"
        and t: "tcb_fields E fuel (Some (der_tag f)) rest (info\<lparr> ti_fwid := ?fwid alg digest \<rparr>) = Some info'"
      by (clarsimp simp: bind_eq_Some_conv if_None_eq_Some simp del: de_Morgan_disj split del: if_split)
    show ?thesis
      by (rule step [OF "3.IH"(1) [OF f(1) refl g six d(1) refl d(2) refl d(3) refl _ t]])
        (use six d in \<open>auto simp: fwid_digest_def split: if_splits\<close>)
  next
    case seven
    with "3.prems" f(1) g have t: "tcb_fields E fuel (Some (der_tag f)) rest
        (info\<lparr> ti_insecure := 1 < length (der_data f) \<and> der_data f ! 1 AND 0x70 \<noteq> 0 \<rparr>) = Some info'"
      by (simp del: de_Morgan_disj)
    have "der_tag f \<noteq> 6" using seven by simp
    show ?thesis
      by (rule step [OF "3.IH"(2) [OF f(1) refl g \<open>der_tag f \<noteq> 6\<close> seven t]])
        (use seven in \<open>auto simp: flags_insecure_def\<close>)
  next
    case other
    with "3.prems" f(1) g have t: "tcb_fields E fuel (Some (der_tag f)) rest info = Some info'"
      by (simp del: de_Morgan_disj)
    show ?thesis
      by (rule step [OF "3.IH"(3) [OF f(1) refl g other t]]) (use other in auto)
  qed
qed

lemma tcb_info_of_Some:
  assumes "tcb_info_of E v = Some info" and "\<not> ti_insecure info"
  shows "tcb_holds E v (ti_fwid info)"
proof -
  from assms(1) obtain t where t: "der_any E v = Some (t, [])"
    and f: "tcb_fields E (length (der_data t)) None (der_data t) \<lparr> ti_fwid = None, ti_insecure = False \<rparr> = Some info"
    by (auto simp: tcb_info_of_def bind_eq_Some_conv split: if_splits)
  from tcb_fields_Some [OF f] obtain fs where
    fs: "tcb_read E (der_data t) fs \<lparr> ti_fwid = None, ti_insecure = False \<rparr> info" by blast
  have "\<exists>f \<in> set fs. der_tag f = 6 \<and> fwid_digest E f d" if "ti_fwid info = Some d" for d
    using fs that unfolding tcb_read_def by (metis option.distinct(1) tcb_info.select_convs(1))
  then show ?thesis using t fs assms(2) unfolding tcb_holds_def tcb_read_def by blast
qed

lemma tcb_holds_None: "tcb_holds E v fwid \<Longrightarrow> tcb_holds E v None"
  by (auto simp: tcb_holds_def)

lemma check_extensions_Ok:
  "check_extensions E depth fwid exts = Ok fwid' \<Longrightarrow>
   (\<forall>(oid, critical, v) \<in> set exts. oid = TCB_INFO_OID \<longrightarrow> tcb_holds E v None)
   \<and> (depth \<noteq> 0 \<longrightarrow> fwid' = fwid)
   \<and> (\<forall>d. depth = 0 \<longrightarrow> fwid' = Some d \<longrightarrow>
        fwid = Some d \<or> (\<exists>critical v. (TCB_INFO_OID, critical, v) \<in> set exts \<and> tcb_holds E v (Some d)))"
proof (induction E depth fwid exts rule: check_extensions.induct)
  case (1 E depth fwid)
  then show ?case by simp
next
  case (2 E depth fwid oid critical val exts)
  show ?case
  proof (cases "oid = TCB_INFO_OID")
    case False
    with 2 show ?thesis by auto
  next
    case True
    with "2.prems" obtain info where i: "tcb_info_of E val = Some info" "\<not> ti_insecure info"
      and r: "check_extensions E depth (if depth = 0 then ti_fwid info else fwid) exts = Ok fwid'"
      by (auto simp: result_simps)
    have h: "tcb_holds E val (ti_fwid info)" by (rule tcb_info_of_Some [OF i])
    have "ok_or (tcb_info_of E val) Failed = Ok info" using i by (simp add: result_simps)
    with True i r "2.IH"(2) [of info] have
      a: "\<forall>(oid, critical, v) \<in> set exts. oid = TCB_INFO_OID \<longrightarrow> tcb_holds E v None"
      and b: "depth \<noteq> 0 \<longrightarrow> fwid' = fwid"
      and c: "\<forall>d. depth = 0 \<longrightarrow> fwid' = Some d \<longrightarrow> ti_fwid info = Some d
        \<or> (\<exists>critical v. (TCB_INFO_OID, critical, v) \<in> set exts \<and> tcb_holds E v (Some d))"
      by (auto simp: result_simps)
    have "\<forall>d. depth = 0 \<longrightarrow> fwid' = Some d \<longrightarrow>
        (\<exists>crit v. (TCB_INFO_OID, crit, v) \<in> set ((oid, critical, val) # exts) \<and> tcb_holds E v (Some d))"
      using c h True by (metis list.set_intros)
    with True a b tcb_holds_None [OF h] show ?thesis by fastforce
  qed
qed

lemma unknown_critical_None:
  "unknown_critical cert also = None \<longleftrightarrow>
   (\<forall>(oid, critical, v) \<in> set (x_extensions cert). critical \<longrightarrow> oid \<in> {OID_BASIC_CONSTRAINTS, OID_KEY_USAGE, also})"
  by (auto simp: unknown_critical_def find_None_iff) blast

lemma check_tcb_Ok:
  "check_tcb E depth fwid certs = Ok fwid' \<Longrightarrow>
   (\<forall>c \<in> set certs. extensions_hold E c) \<and> (depth \<noteq> 0 \<longrightarrow> fwid' = fwid)
   \<and> (\<forall>d. depth = 0 \<longrightarrow> certs \<noteq> [] \<longrightarrow> fwid' = Some d \<longrightarrow> fwid = Some d
        \<or> (\<exists>critical v. (TCB_INFO_OID, critical, v) \<in> set (x_extensions (hd certs)) \<and> tcb_holds E v (Some d)))"
proof (induction certs arbitrary: depth fwid)
  case Nil
  then show ?case by simp
next
  case (Cons c certs)
  from Cons.prems obtain f where e: "check_extensions E depth fwid (x_extensions c) = Ok f"
    and u: "unknown_critical c TCB_INFO_OID = None" and r: "check_tcb E (Suc depth) f certs = Ok fwid'"
    by (auto simp: result_simps)
  have "extensions_hold E c"
    using check_extensions_Ok [OF e] u unfolding extensions_hold_def unknown_critical_None by blast
  with check_extensions_Ok [OF e] Cons.IH [OF r] show ?case by simp
qed

lemma check_link_Ok: "check_link E depth cert issuer = Ok () \<Longrightarrow> link_holds E depth cert issuer"
  by (auto simp: check_link_def link_holds_def p384_key_def result_simps Let_def
      split: option.splits prod.splits bool.splits if_splits)

lemma check_links_Ok:
  "check_links E depth certs = Ok () \<Longrightarrow> Suc i < length certs \<Longrightarrow>
   link_holds E (depth + i) (certs ! i) (certs ! Suc i)"
proof (induction E depth certs arbitrary: i rule: check_links.induct)
  case (1 E depth cert issuer certs)
  then show ?case by (cases i) (auto simp: result_simps check_link_Ok)
qed simp_all

lemma verify_chain_Ok:
  assumes "verify_chain E ders roots now = Ok leaf"
  shows "\<exists>certs. list_all2 (\<lambda>d c. x509_parse E d = Some (c, [])) ders certs \<and> lf_root leaf \<in> set roots
    \<and> chain_holds E certs (lf_root leaf) (lf_key leaf) (lf_fwid leaf) now
    \<and> lf_serial leaf = hex_encode (x_serial (hd certs))"
proof -
  from assms obtain certs t fwid key where p: "list_all2 (\<lambda>d c. parse_cert E d = Ok c) ders certs" "certs \<noteq> []"
    and r: "sha256 E (x_raw (last certs)) \<in> set roots" and t: "asn1_time E now = Ok t"
    and l: "check_links E 0 certs = Ok ()"
    and w: "list_all (\<lambda>c. x_not_before c \<le> t \<and> t \<le> x_not_after c) certs"
    and tcb: "check_tcb E 0 None certs = Ok fwid" and s: "leaf_may_sign (hd certs)" and k: "p384_key E (hd certs) = Ok key"
    and leaf: "leaf = \<lparr> lf_key = key, lf_serial = hex_encode (x_serial (hd certs)), lf_fwid = fwid,
              lf_root = sha256 E (x_raw (last certs)) \<rparr>"
    by (auto simp: verify_chain_def result_simps Let_def)
  have "list_all2 (\<lambda>d c. x509_parse E d = Some (c, [])) ders certs"
    by (rule list_all2_mono [OF p(1)]) (auto simp: parse_cert_def split: option.splits list.splits)
  moreover have "chain_holds E certs (lf_root leaf) (lf_key leaf) (lf_fwid leaf) now"
    unfolding chain_holds_def leaf leaf.simps
  proof (intro conjI)
    show "\<forall>i. Suc i < length certs \<longrightarrow> link_holds E i (certs ! i) (certs ! Suc i)"
      using check_links_Ok [OF l] by simp
    show "\<exists>t. asn1_from_timestamp E (seconds_of now) = Some t
           \<and> (\<forall>c \<in> set certs. x_not_before c \<le> t \<and> t \<le> x_not_after c)"
      using t w by (auto simp: asn1_time_def result_simps list_all_iff split: if_splits)
    show "\<forall>c \<in> set certs. extensions_hold E c" using check_tcb_Ok [OF tcb] by blast
    show "\<forall>d. fwid = Some d \<longrightarrow> (\<exists>critical v. (TCB_INFO_OID, critical, v) \<in> set (x_extensions (hd certs))
           \<and> tcb_holds E v (Some d))" using check_tcb_Ok [OF tcb] p(2) by simp
    show "x_basic (hd certs) \<in> {Some None} \<union> {Some (Some (False, m)) | m. True}"
      using s by (auto simp: leaf_may_sign_def split: option.splits)
    show "\<exists>cert_sign. x_key_usage (hd certs) = Some (Some (True, cert_sign))"
      using s by (auto simp: leaf_may_sign_def split: option.splits)
    show "p384_from_sec1 E (x_public_key (hd certs)) = Some key" using k by (simp add: p384_key_def result_simps)
  qed (use p(2) in simp_all)
  ultimately show ?thesis using r leaf by auto
qed

lemma pem_chain_Ok:
  assumes "pem_chain E gpu = Ok ders"
  shows "pem_blocks E (ge_certificate_chain gpu) = map (\<lambda>d. Some (''CERTIFICATE'', d)) ders"
proof -
  have "bs = map (\<lambda>d. Some (''CERTIFICATE'', d)) ds"
    if "list_all2 (\<lambda>b d. (case b of Some (label, contents) \<Rightarrow> if label = ''CERTIFICATE'' then Ok contents else Err Failed
                                | None \<Rightarrow> Err Failed) = Ok d) bs ds" for bs :: "(string \<times> bytes) option list" and ds
    using that by (induction rule: list_all2_induct) (simp_all split: option.splits prod.splits if_splits)
  with assms show ?thesis by (simp add: pem_chain_def result_simps)
qed


text \<open>What one accepted GPU evidence proves.\<close>

definition gpu_proved :: "'x ext_scheme \<Rightarrow> gpu_evidence \<Rightarrow> bytes \<Rightarrow> gpu_reference list \<Rightarrow> time \<Rightarrow> string \<Rightarrow> bool" where
  "gpu_proved E g nonce refs now serial \<longleftrightarrow>
     (\<exists>ders certs key r msg sig sig' param ts blocks len responder olen opq.
        pem_blocks E (ge_certificate_chain g) = map (\<lambda>d. Some (''CERTIFICATE'', d)) ders
        \<and> list_all2 (\<lambda>d c. x509_parse E d = Some (c, [])) ders certs
        \<and> r \<in> set refs \<and> chain_holds E certs (gr_root_sha256 r) key (Some (gr_fwid r)) now
        \<and> serial = hex_encode (x_serial (hd certs))
        \<and> ge_evidence g = msg @ sig \<and> length sig = 96
        \<and> p384_sig_from_slice E sig = Some sig' \<and> p384_verify E key msg sig'
        \<and> msg = REQUEST @ nonce @ [0] @ RESPONSE @ param @ [64] @ len
             @ record_bytes 1 (zip ts blocks) @ responder @ olen @ opq
        \<and> length param = 2 \<and> length len = 3 \<and> length responder = 32 \<and> length olen = 2 \<and> length ts = 64
        \<and> length blocks = 64 \<and> (\<forall>b \<in> set blocks. length b = 48)
        \<and> (\<forall>i < 64. case gr_measurements r (Suc i) of
              Some vs \<Rightarrow> blocks ! i \<in> set vs | None \<Rightarrow> blocks ! i = replicate 48 0)
        \<and> opaque_parse opq = Ok \<lparr> oq_chip = gr_chip r, oq_project = gr_project r,
             oq_project_sku = gr_project_sku r, oq_chip_sku = gr_chip_sku r,
             oq_vbios_version = gr_vbios_version r, oq_driver_version = gr_driver_version r,
             oq_fwid = gr_fwid r, oq_feature_flag = gr_feature_flag r \<rparr>)"

lemma opaque_is_eq:
  "opaque_is q r \<Longrightarrow> q = \<lparr> oq_chip = gr_chip r, oq_project = gr_project r,
     oq_project_sku = gr_project_sku r, oq_chip_sku = gr_chip_sku r,
     oq_vbios_version = gr_vbios_version r, oq_driver_version = gr_driver_version r,
     oq_fwid = gr_fwid r, oq_feature_flag = gr_feature_flag r \<rparr>"
  by (cases q) (simp add: opaque_is_def)

lemma appraise_gpu_proved:
  assumes "appraise_gpu E g nonce refs now = Ok serial"
  shows "gpu_proved E g nonce refs now serial"
proof -
  from assms obtain leaf spdm opaque r where rd: "read_gpu E g (map gr_root_sha256 refs) now = Ok (leaf, spdm, opaque)"
    and n: "sp_nonce spdm = nonce"
    and f: "find (\<lambda>r. gr_root_sha256 r = lf_root leaf \<and> opaque_is opaque r) refs = Some r"
    and b: "list_all (\<lambda>(i, v). block_allowed r i v) (zip [1 ..< Suc BLOCKS] (sp_blocks spdm))"
    and s: "serial = lf_serial leaf"
    by (auto simp: appraise_gpu_def result_simps split: if_splits)
  from rd obtain ders sig where c: "pem_chain E g = Ok ders" "verify_chain E ders (map gr_root_sha256 refs) now = Ok leaf"
    and p: "parse_spdm (ge_evidence g) = Ok spdm" "p384_sig_from_slice E (sp_signature spdm) = Some sig"
      "p384_verify E (lf_key leaf) (sp_signed spdm) sig" "opaque_parse (sp_opaque spdm) = Ok opaque"
      "lf_fwid leaf = Some (oq_fwid opaque)"
    by (auto simp: read_gpu_def result_simps)
  have r: "r \<in> set refs" "gr_root_sha256 r = lf_root leaf" "opaque_is opaque r"
    using f by (auto simp: find_Some_iff)
  from verify_chain_Ok [OF c(2)] obtain certs where
    ch: "list_all2 (\<lambda>d c. x509_parse E d = Some (c, [])) ders certs"
      "chain_holds E certs (lf_root leaf) (lf_key leaf) (lf_fwid leaf) now" "lf_serial leaf = hex_encode (x_serial (hd certs))"
    by blast
  from parse_spdm_Ok [OF p(1)] obtain param ts len responder olen where
    sp: "ge_evidence g = sp_signed spdm @ sp_signature spdm" "length (sp_signature spdm) = 96"
      "length (sp_blocks spdm) = 64" "\<forall>v \<in> set (sp_blocks spdm). length v = 48"
      "length ts = 64" "length param = 2" "length responder = 32" "length len = 3" "length olen = 2"
      "sp_signed spdm = REQUEST @ sp_nonce spdm @ [0] @ RESPONSE @ param @ [64] @ len
             @ record_bytes 1 (zip ts (sp_blocks spdm)) @ responder @ olen @ sp_opaque spdm"
    by (auto simp: list_all_iff)
  have bl: "\<forall>i < 64. case gr_measurements r (Suc i) of
              Some vs \<Rightarrow> sp_blocks spdm ! i \<in> set vs | None \<Rightarrow> sp_blocks spdm ! i = replicate 48 0"
    using b sp(3) by (auto simp: list_all_length BLOCKS_def block_allowed_def)
  have fw: "lf_fwid leaf = Some (gr_fwid r)" using p(5) r(3) by (simp add: opaque_is_def)
  note chain = ch(2) [folded r(2), unfolded fw]
  show ?thesis
    unfolding gpu_proved_def
    by (rule exI [of _ ders], rule exI [of _ certs], rule exI [of _ "lf_key leaf"], rule exI [of _ r],
        rule exI [of _ "sp_signed spdm"], rule exI [of _ "sp_signature spdm"], rule exI [of _ sig],
        rule exI [of _ param], rule exI [of _ ts], rule exI [of _ "sp_blocks spdm"], rule exI [of _ len],
        rule exI [of _ responder], rule exI [of _ olen], rule exI [of _ "sp_opaque spdm"])
      (use pem_chain_Ok [OF c(1)] ch(1,3) r(1) chain s sp bl p(2-4) n opaque_is_eq [OF r(3)] in simp)
qed

text \<open>Evidence written in the layout is read back.\<close>

lemma rd_take_append [simp]: "length a = n \<Longrightarrow> rd_take n (a @ b) = Ok (a, b)"
  by (simp add: rd_take_def)

lemma rd_u16_append [simp]: "length a = 2 \<Longrightarrow> rd_u16 (a @ b) = Ok (from_le a, b)"
  by (simp add: rd_u16_def)

lemma parse_blocks_record:
  "\<forall>b \<in> set bs. length (snd b) = 48 \<Longrightarrow> i + length bs \<le> 256 \<Longrightarrow>
   parse_blocks (length bs) i (record_bytes i bs @ rest) = Ok (map snd bs, rest)"
proof (induction bs arbitrary: i)
  case Nil
  then show ?case by simp
next
  case (Cons b bs)
  obtain t v where b: "b = (t, v)" by (cases b)
  have u: "unat (word_of_nat i :: byte) = i" using Cons.prems(2) by (simp add: unat_of_nat)
  have ih: "parse_blocks (length bs) (Suc i) (record_bytes (Suc i) bs @ rest) = Ok (map snd bs, rest)"
    using Cons by simp
  have "record_bytes i (b # bs) @ rest =
    [word_of_nat i, 1] @ [51, 0] @ [t] @ [48, 0] @ v @ record_bytes (Suc i) bs @ rest"
    by (simp add: b block_bytes_def)
  moreover have "length v = 48" using Cons.prems(1) b by simp
  ultimately show ?case using u ih b by (simp del: append.simps add: append.simps(1))
qed

lemma parse_spdm_complete:
  assumes "length nonce = 32" and "length param = 2" and "length len = 3" and "from_le len = length (record_bytes 1 bs)"
    and "length bs = 64" and "\<forall>b \<in> set bs. length (snd b) = 48" and "length responder = 32"
    and "length olen = 2" and "from_le olen = length opq" and "length sig = 96"
    and msg: "msg = REQUEST @ nonce @ [0] @ RESPONSE @ param @ [64] @ len @ record_bytes 1 bs @ responder @ olen @ opq"
  shows "parse_spdm (msg @ sig) = Ok \<lparr> sp_nonce = nonce, sp_blocks = map snd bs, sp_opaque = opq,
    sp_signed = msg, sp_signature = sig \<rparr>"
proof -
  have b: "parse_blocks BLOCKS 1 (record_bytes 1 bs) = Ok (map snd bs, [])"
    using parse_blocks_record [of bs 1 "[]"] assms(5,6) by (simp add: BLOCKS_def)
  let ?r8 = "responder @ olen @ opq" let ?r6 = "len @ record_bytes 1 bs @ ?r8"
  let ?r4 = "RESPONSE @ param @ [64] @ ?r6"
  have rd: "rd_take 4 msg = Ok (REQUEST, nonce @ [0] @ ?r4)" "rd_take 32 (nonce @ [0] @ ?r4) = Ok (nonce, [0] @ ?r4)"
    "rd_take 1 ([0] @ ?r4) = Ok ([0], ?r4)" "rd_take 4 ?r4 = Ok (RESPONSE @ param, [64] @ ?r6)"
    "rd_take 1 ([64] @ ?r6) = Ok ([64], ?r6)" "rd_take 3 ?r6 = Ok (len, record_bytes 1 bs @ ?r8)"
    "rd_take (from_le len) (record_bytes 1 bs @ ?r8) = Ok (record_bytes 1 bs, ?r8)"
    "rd_take 32 ?r8 = Ok (responder, olen @ opq)" "rd_u16 (olen @ opq) = Ok (from_le olen, opq)"
    "rd_take (from_le olen) opq = Ok (opq, [])"
    using assms by (simp_all add: rd_take_Ok rd_u16_Ok REQUEST_def RESPONSE_def)
  have l: "take 2 (RESPONSE @ param) = RESPONSE" "[word_of_nat BLOCKS :: byte] = [64]"
    by (simp_all add: RESPONSE_def BLOCKS_def)
  have t: "take (length (msg @ sig) - SIGNATURE_LEN) (msg @ sig) = msg" "drop (length (msg @ sig) - SIGNATURE_LEN) (msg @ sig) = sig"
    "(length (msg @ sig) < SIGNATURE_LEN) = False"
    using assms(10) by (simp_all add: SIGNATURE_LEN_def)
  show ?thesis
    unfolding parse_spdm_def t Let_def
    by (simp only: rd b l refuse_if_simps and_then.simps prod.case simp_thms)
qed


text \<open>A device for the witness: a leaf under a root, a firmware id in the leaf's TcbInfo and one pinned block.\<close>

definition demo_der :: "bytes \<Rightarrow> (der_value \<times> bytes) option" where
  "demo_der b =
     (if b = [48] then Some (\<lparr> der_class = 0, der_tag = 16, der_data = [6, 7] \<rparr>, [])
      else if b = [6, 7] then Some (\<lparr> der_class = 2, der_tag = 6, der_data = [60] \<rparr>, [7])
      else if b = [7] then Some (\<lparr> der_class = 2, der_tag = 7, der_data = [0, 128] \<rparr>, [])
      else if b = [60] then Some (\<lparr> der_class = 0, der_tag = 16, der_data = [61] \<rparr>, [])
      else if b = [4] then Some (\<lparr> der_class = 0, der_tag = 4, der_data = replicate 48 5 \<rparr>, [])
      else None)"

definition demo_root_cert :: x509 where
  "demo_root_cert = \<lparr> x_raw = [2], x_tbs = [2, 2], x_issuer = [2], x_subject = [2], x_sig_alg = OID_ECDSA_SHA384,
     x_signature = [], x_public_key = [22], x_spki = [], x_serial = [2], x_not_before = 0, x_not_after = 100,
     x_extensions = [(OID_BASIC_CONSTRAINTS, True, []), (OID_KEY_USAGE, True, [])],
     x_basic = Some (Some (True, Some 1)), x_key_usage = Some (Some (False, True)), x_uri_sans = [] \<rparr>"

definition demo_leaf_cert :: x509 where
  "demo_leaf_cert = \<lparr> x_raw = [1], x_tbs = [1, 1], x_issuer = [2], x_subject = [1], x_sig_alg = OID_ECDSA_SHA384,
     x_signature = demo_hash 96 [22, 1, 1], x_public_key = [11], x_spki = [], x_serial = [1], x_not_before = 0,
     x_not_after = 100, x_extensions = [(OID_KEY_USAGE, True, []), (TCB_INFO_OID, False, [48])],
     x_basic = Some None, x_key_usage = Some (Some (True, False)), x_uri_sans = [] \<rparr>"

definition demo_gpu :: ext where
  "demo_gpu = demo\<lparr> pem_blocks := \<lambda>_. [Some (''CERTIFICATE'', [1]), Some (''CERTIFICATE'', [2])],
     x509_parse := \<lambda>d. if d = [1] then Some (demo_leaf_cert, []) else if d = [2] then Some (demo_root_cert, []) else None,
     der_any := demo_der, der_oid := \<lambda>b. if b = [61] then Some (OID_SHA384, [4]) else None, p384_from_sec1 := Some \<rparr>"

definition demo_opaque :: bytes where
  "demo_opaque = [34, 0, 2, 0, 1, 0,  6, 0, 8, 0, 1, 2, 3, 4, 5, 0, 0, 0,  35, 0, 1, 0, 71,  17, 0, 0, 0,
     18, 0, 0, 0,  15, 0, 0, 0,  3, 0, 0, 0,  36, 0, 2, 0, 3, 0,  20, 0, 48, 0] @ replicate 48 5"

definition demo_gpu_reference :: gpu_reference where
  "demo_gpu_reference = \<lparr> gr_root_sha256 = demo_hash 32 [2], gr_chip = ''G'', gr_project = [], gr_project_sku = [],
     gr_chip_sku = [], gr_vbios_version = ''04.03.02.01.05'', gr_driver_version = [], gr_fwid = replicate 48 5,
     gr_feature_flag = 3, gr_measurements = [1 \<mapsto> [replicate 48 9]] \<rparr>"

definition demo_gpu_blocks :: "(byte \<times> measurement) list" where
  "demo_gpu_blocks = (1, replicate 48 9) # replicate 63 (1, replicate 48 0)"

definition demo_gpu_nonce :: bytes where
  "demo_gpu_nonce = sha256 demo_gpu (NONCE_DOMAIN @ replicate 32 7)"

definition demo_gpu_message :: bytes where
  "demo_gpu_message = REQUEST @ demo_gpu_nonce @ [0] @ RESPONSE @ [0, 0] @ [64] @ [0xC0, 0x0D, 0]
     @ record_bytes 1 demo_gpu_blocks @ replicate 32 3 @ [97, 0] @ demo_opaque"

definition demo_gpu_evidence :: gpu_evidence where
  "demo_gpu_evidence = \<lparr> ge_evidence = demo_gpu_message @ demo_hash 96 (11 # demo_gpu_message), ge_certificate_chain = [] \<rparr>"

definition demo_gpu_class :: kata_reference where
  "demo_gpu_class = \<lparr> kr_runtime_class = ''kata-gpu'', kr_mrtd = [], kr_rtmr0 = [], kr_rtmr1 = [],
     kr_rtmr2 = [], kr_gpu = True, kr_gpus = Some \<lparr> kg_count = 1, kg_reference_values = [demo_gpu_reference] \<rparr> \<rparr>"

definition demo_gpu_report :: bytes where
  "demo_gpu_report = bind_gpus demo_gpu (replicate 32 7) [demo_gpu_evidence]"

lemma demo_gpu_fields [simp]:
  "sha256 demo_gpu = demo_hash 32" "p384_verify demo_gpu = (\<lambda>k m s. s = demo_hash 96 (k @ m))"
  "p384_sig_from_slice demo_gpu = Some" "p384_sig_from_der demo_gpu = Some" "p384_from_sec1 demo_gpu = Some"
  "der_any demo_gpu = demo_der" "der_oid demo_gpu = (\<lambda>b. if b = [61] then Some (OID_SHA384, [4]) else None)"
  "asn1_from_timestamp demo_gpu = Some"
  "pem_blocks demo_gpu = (\<lambda>_. [Some (''CERTIFICATE'', [1]), Some (''CERTIFICATE'', [2])])"
  "x509_parse demo_gpu = (\<lambda>d. if d = [1] then Some (demo_leaf_cert, []) else if d = [2] then Some (demo_root_cert, []) else None)"
  by (simp_all add: demo_gpu_def demo_def)

lemma demo_gpu_tcb: "tcb_info_of demo_gpu [48] = Some \<lparr> ti_fwid = Some (replicate 48 5), ti_insecure = False \<rparr>"
  by (simp add: tcb_info_of_def demo_der_def)

lemma demo_gpu_chain:
  "verify_chain demo_gpu [[1], [2]] [demo_hash 32 [2]] 0 = Ok \<lparr> lf_key = [11], lf_serial = hex_encode [1],
     lf_fwid = Some (replicate 48 5), lf_root = demo_hash 32 [2] \<rparr>"
  by (simp add: verify_chain_def parse_cert_def asn1_time_def check_link_def p384_key_def leaf_may_sign_def
      demo_leaf_cert_def demo_root_cert_def demo_gpu_tcb unknown_critical_def OID_KEY_USAGE_def OID_BASIC_CONSTRAINTS_def
      TCB_INFO_OID_def Let_def seconds_of_def)

lemma demo_opaque_parse: "opaque_parse demo_opaque = Ok \<lparr> oq_chip = ''G'', oq_project = [], oq_project_sku = [],
   oq_chip_sku = [], oq_vbios_version = ''04.03.02.01.05'', oq_driver_version = [], oq_fwid = replicate 48 5,
   oq_feature_flag = 3 \<rparr>"
  by code_simp

lemma length_record_bytes: "\<forall>b \<in> set bs. length (snd b) = 48 \<Longrightarrow> length (record_bytes i bs) = 55 * length bs"
  by (induction i bs rule: record_bytes.induct) (auto simp: block_bytes_def)

lemma demo_gpu_spdm: "parse_spdm (ge_evidence demo_gpu_evidence) = Ok \<lparr> sp_nonce = demo_gpu_nonce,
   sp_blocks = replicate 48 9 # replicate 63 (replicate 48 0), sp_opaque = demo_opaque,
   sp_signed = demo_gpu_message, sp_signature = demo_hash 96 (11 # demo_gpu_message) \<rparr>"
proof -
  have b: "\<forall>b \<in> set demo_gpu_blocks. length (snd b) = 48" "length demo_gpu_blocks = 64"
    by (auto simp: demo_gpu_blocks_def)
  have "parse_spdm (demo_gpu_message @ demo_hash 96 (11 # demo_gpu_message)) = Ok \<lparr> sp_nonce = demo_gpu_nonce,
      sp_blocks = map snd demo_gpu_blocks, sp_opaque = demo_opaque, sp_signed = demo_gpu_message,
      sp_signature = demo_hash 96 (11 # demo_gpu_message) \<rparr>"
    by (rule parse_spdm_complete [where param = "[0, 0]" and len = "[0xC0, 0x0D, 0]" and responder = "replicate 32 3" and olen = "[97, 0]"])
      (use b in \<open>simp_all add: demo_gpu_nonce_def length_record_bytes demo_gpu_message_def demo_opaque_def\<close>)
  then show ?thesis by (simp add: demo_gpu_evidence_def demo_gpu_blocks_def)
qed

lemma demo_gpu_appraised: "appraise_kata_gpus demo_gpu demo_gpu_class demo_gpu_report [demo_gpu_evidence] 0 = Ok [hex_encode [1]]"
proof -
  have n: "gpu_nonce demo_gpu demo_gpu_report = demo_gpu_nonce"
    by (simp add: gpu_nonce_def demo_gpu_report_def bind_gpus_def demo_gpu_nonce_def)
  have c: "pem_chain demo_gpu demo_gpu_evidence = Ok [[1], [2]]" by (simp add: pem_chain_def)
  have o: "opaque_is \<lparr> oq_chip = ''G'', oq_project = [], oq_project_sku = [],
     oq_chip_sku = [], oq_vbios_version = ''04.03.02.01.05'', oq_driver_version = [], oq_fwid = replicate 48 5,
     oq_feature_flag = 3 \<rparr> demo_gpu_reference" by (simp add: opaque_is_def demo_gpu_reference_def)
  have r: "gr_root_sha256 demo_gpu_reference = demo_hash 32 [2]" by (simp add: demo_gpu_reference_def)
  have b: "list_all (\<lambda>(i, v). block_allowed demo_gpu_reference i v)
      (zip [1 ..< Suc BLOCKS] (replicate 48 9 # replicate 63 (replicate 48 0)))"
    by (auto simp: list_all_length BLOCKS_def block_allowed_def demo_gpu_reference_def nth_Cons split: nat.split)
  have "appraise_gpu demo_gpu demo_gpu_evidence demo_gpu_nonce [demo_gpu_reference] 0 = Ok (hex_encode [1])"
    using b by (simp add: appraise_gpu_def read_gpu_def c r demo_gpu_chain demo_gpu_spdm demo_opaque_parse o del: One_nat_def)
  then show ?thesis
    by (simp add: appraise_kata_gpus_def demo_gpu_class_def n appraise_gpus_def)
      (simp add: demo_gpu_report_def bind_gpus_def)
qed

section \<open>Properties\<close>

text \<open>
  The TD commits to exactly the GPU evidences it presents: two lists bound into the same
  report data carry the same evidences in the same order, or SHA-256 collides on their preimages. The length prefixes
  keep one evidence from running into the next.
\<close>

theorem bind_gpus_commits:
  assumes "\<forall>g \<in> set xs \<union> set ys. length (ge_evidence g) < 2 ^ 64"
    and "length rd = 64" and "bind_gpus E rd xs = bind_gpus E rd ys"
  shows "map ge_evidence xs = map ge_evidence ys
    \<or> gpu_preimage xs \<noteq> gpu_preimage ys \<and> sha256 E (gpu_preimage xs) = sha256 E (gpu_preimage ys)"
proof -
  have "sha256 E (gpu_preimage xs) = sha256 E (gpu_preimage ys)" using assms(3) by (simp add: bind_gpus_def)
  then show ?thesis using gpu_preimage_inject [OF assms(1)] by blast
qed

theorem bind_gpus_commits_witness:
  "map ge_evidence [\<lparr> ge_evidence = [1], ge_certificate_chain = [] \<rparr>] =
     map ge_evidence [\<lparr> ge_evidence = [1], ge_certificate_chain = [5] \<rparr>]
   \<or> gpu_preimage [\<lparr> ge_evidence = [1], ge_certificate_chain = [] \<rparr>] \<noteq>
        gpu_preimage [\<lparr> ge_evidence = [1], ge_certificate_chain = [5] \<rparr>]
     \<and> sha256 demo (gpu_preimage [\<lparr> ge_evidence = [1], ge_certificate_chain = [] \<rparr>]) =
        sha256 demo (gpu_preimage [\<lparr> ge_evidence = [1], ge_certificate_chain = [5] \<rparr>])"
  by (rule bind_gpus_commits [where rd = "replicate 64 0"]) (auto simp: bind_gpus_def gpu_preimage_def)

text \<open>
  C5. A GPU runtime class is granted only with exactly its pinned number of evidences, all committed
  to by the quote's report data, from distinct devices. Each is an SPDM exchange signed, for the
  nonce derived from that report data, by the key of a leaf certificate whose chain ends in a pinned
  root: every link is signed by a CA certificate's key, in its path length, all certificates are
  valid now, none has a TcbInfo that is not secure, in recovery or in debug, or an unknown critical
  extension, and the leaf's TcbInfo carries the pinned firmware id. Each of the 64 measurement blocks
  in the signed bytes has a pinned value, or zero when none is pinned. A class without GPUs is
  granted only without GPU evidence.
\<close>

theorem appraise_kata_gpus_Ok:
  assumes "appraise_kata_gpus E rclass rd gpus now = Ok serials"
  shows "(\<not> kr_gpu rclass \<longrightarrow> gpus = [] \<and> serials = [])
    \<and> (kr_gpu rclass \<longrightarrow> (\<exists>pinned. kr_gpus rclass = Some pinned \<and> length gpus = kg_count pinned
          \<and> gpus \<noteq> [] \<and> drop 32 rd = sha256 E (gpu_preimage gpus) \<and> distinct serials
          \<and> list_all2 (\<lambda>g n. gpu_proved E g (sha256 E (NONCE_DOMAIN @ take 32 rd)) (kg_reference_values pinned) now n)
              gpus serials))"
proof (cases "kr_gpu rclass")
  case False
  with assms show ?thesis by (auto simp: appraise_kata_gpus_def split: if_splits)
next
  case True
  with assms obtain pinned where p: "kr_gpus rclass = Some pinned" "gpus \<noteq> []"
    and b: "bind_gpus E rd gpus = rd" and len: "length gpus = kg_count pinned"
    and each: "appraise_each E gpus [] (gpu_nonce E rd) (kg_reference_values pinned) now = Ok serials"
    by (auto simp: appraise_kata_gpus_def appraise_gpus_def result_simps split: option.splits)
  have "drop 32 rd = sha256 E (gpu_preimage gpus)"
    using b by (metis append_take_drop_id bind_gpus_def same_append_eq)
  moreover have "list_all2 (\<lambda>g n. gpu_proved E g (gpu_nonce E rd) (kg_reference_values pinned) now n) gpus serials"
    by (rule list_all2_mono [OF conjunct1 [OF appraise_each_Ok [OF each]]]) (rule appraise_gpu_proved)
  ultimately show ?thesis using True p len appraise_each_Ok [OF each] unfolding gpu_nonce_def by blast
qed

theorem appraise_kata_gpus_Ok_witness:
  "gpu_proved demo_gpu demo_gpu_evidence (sha256 demo_gpu (NONCE_DOMAIN @ replicate 32 7)) [demo_gpu_reference] 0 (hex_encode [1])"
proof -
  have "take 32 demo_gpu_report = replicate 32 7" by (simp add: demo_gpu_report_def bind_gpus_def)
  then show ?thesis
    using appraise_kata_gpus_Ok [OF demo_gpu_appraised] by (auto simp: demo_gpu_class_def)
qed

end
