(* ===== verification/Core_Network.thy ===== *)
theory Core_Network
  imports Core_Json
begin

unbundle bit_operations_syntax

text \<open>
  \<^verbatim>\<open>crates/alpha-core/src/network.rs\<close>: the network openings a Kata Revision declares. The textual form
  of IP addresses is the standard library's: \<open>parse_ip\<close> follows \<open>core::net::parser\<close> and \<open>show_ip\<close> the
  \<open>Display\<close> implementations, RFC 5952 included.
\<close>

section \<open>IP addresses as text\<close>

datatype ipaddr = V4 "32 word" | V6 "128 word"

definition digit_value :: "nat \<Rightarrow> char \<Rightarrow> nat option" where
  "digit_value radix c =
     (let n = code c;
          v = (if 48 \<le> n \<and> n \<le> 57 then Some (n - 48)
               else if 97 \<le> n \<and> n \<le> 122 then Some (n - 87)
               else if 65 \<le> n \<and> n \<le> 90 then Some (n - 55) else None) in
      case v of None \<Rightarrow> None | Some d \<Rightarrow> (if d < radix then Some d else None))"

fun take_digits :: "nat \<Rightarrow> string \<Rightarrow> nat list \<times> string" where
  "take_digits radix [] = ([], [])"
| "take_digits radix (c # cs) =
     (case digit_value radix c of
        None \<Rightarrow> ([], c # cs)
      | Some d \<Rightarrow> (let (ds, r) = take_digits radix cs in (d # ds, r)))"

definition read_number :: "nat \<Rightarrow> nat \<Rightarrow> bool \<Rightarrow> nat \<Rightarrow> string \<Rightarrow> (nat \<times> string) option" where
  "read_number radix max_digits allow_zero_prefix bound s =
     (let (ds, r) = take_digits radix s; n = foldl (\<lambda>a d. a * radix + d) 0 ds in
      if ds = [] \<or> length ds > max_digits then None
      else if \<not> allow_zero_prefix \<and> hd ds = 0 \<and> length ds > 1 then None
      else if n > bound then None else Some (n, r))"

definition read_sep :: "char \<Rightarrow> nat \<Rightarrow> string \<Rightarrow> string option" where
  "read_sep sep index s = (if index = 0 then Some s else strip_prefix [sep] s)"

fun read_v4_groups :: "nat \<Rightarrow> nat \<Rightarrow> string \<Rightarrow> (nat \<times> string) option" where
  "read_v4_groups 0 index s = Some (0, s)"
| "read_v4_groups (Suc k) index s =
     Option.bind (read_sep CHR ''.'' index s) (\<lambda>s.
     Option.bind (read_number 10 3 False 255 s) (\<lambda>(n, s).
     Option.bind (read_v4_groups k (Suc index) s) (\<lambda>(m, s).
     Some (n * 256 ^ k + m, s))))"

definition read_ipv4 :: "string \<Rightarrow> (nat \<times> string) option" where
  "read_ipv4 s = read_v4_groups 4 0 s"

text \<open>\<open>read_groups\<close> with \<open>k\<close> slots left, at slot \<open>i\<close>: the groups read, whether they end in IPv4, the rest.\<close>

fun read_groups :: "nat \<Rightarrow> nat \<Rightarrow> string \<Rightarrow> nat list \<times> bool \<times> string" where
  "read_groups 0 i s = ([], False, s)"
| "read_groups (Suc k) i s =
     (case (if k = 0 then None else Option.bind (read_sep CHR '':'' i s) read_ipv4) of
        Some (v4, r) \<Rightarrow> ([v4 div 65536, v4 mod 65536], True, r)
      | None \<Rightarrow>
          (case Option.bind (read_sep CHR '':'' i s) (read_number 16 4 True 65535) of
             None \<Rightarrow> ([], False, s)
           | Some (g, r) \<Rightarrow> (let (gs, v4, r') = read_groups k (Suc i) r in (g # gs, v4, r'))))"

definition from_groups :: "nat list \<Rightarrow> 128 word" where
  "from_groups gs = word_of_nat (foldl (\<lambda>a g. a * 65536 + g) 0 gs)"

definition read_ipv6 :: "string \<Rightarrow> (128 word \<times> string) option" where
  "read_ipv6 s =
     (let (head, v4, r) = read_groups 8 0 s in
      if length head = 8 then Some (from_groups head, r)
      else if v4 then None
      else Option.bind (strip_prefix ''::'' r) (\<lambda>r.
        let (tail, _, r) = read_groups (7 - length head) 0 r in
        Some (from_groups (head @ replicate (8 - length head - length tail) 0 @ tail), r)))"

definition parse_ip :: "string \<Rightarrow> ipaddr option" where
  "parse_ip s =
     (case read_ipv4 s of
        Some (n, r) \<Rightarrow> (if r = [] then Some (V4 (word_of_nat n)) else None)
      | None \<Rightarrow>
          (case read_ipv6 s of
             Some (w, r) \<Rightarrow> (if r = [] then Some (V6 w) else None)
           | None \<Rightarrow> None))"

definition show_ipv4 :: "nat \<Rightarrow> string" where
  "show_ipv4 n = show_nat (n div 16777216 mod 256) @ ''.'' @ show_nat (n div 65536 mod 256) @ ''.''
     @ show_nat (n div 256 mod 256) @ ''.'' @ show_nat (n mod 256)"

definition to_groups :: "128 word \<Rightarrow> nat list" where
  "to_groups w = map (\<lambda>i. unat w div 65536 ^ (7 - i) mod 65536) [0 ..< 8]"

fun show_hex :: "nat \<Rightarrow> string" where
  "show_hex n = (if n < 16 then [hex_char n] else show_hex (n div 16) @ [hex_char (n mod 16)])"

declare show_hex.simps [simp del]

fun join_groups :: "nat list \<Rightarrow> string" where
  "join_groups [] = []"
| "join_groups [g] = show_hex g"
| "join_groups (g # gs) = show_hex g @ '':'' @ join_groups gs"

text \<open>The first longest run of zero groups: where it starts and how long it is.\<close>

fun zero_run :: "nat list \<Rightarrow> nat" where
  "zero_run [] = 0"
| "zero_run (g # gs) = (if g = 0 then Suc (zero_run gs) else 0)"

fun longest_run :: "nat \<Rightarrow> nat list \<Rightarrow> nat \<times> nat" where
  "longest_run i [] = (0, 0)"
| "longest_run i (g # gs) =
     (let (s, l) = longest_run (Suc i) gs; z = zero_run (g # gs) in
      if l \<le> z \<and> 0 < z then (i, z) else (s, l))"

definition show_ipv6 :: "128 word \<Rightarrow> string" where
  "show_ipv6 w =
     (let gs = to_groups w; (start, len) = longest_run 0 gs in
      if take 6 gs = [0, 0, 0, 0, 0, 65535] then ''::ffff:'' @ show_ipv4 (gs ! 6 * 65536 + gs ! 7)
      else if len > 1 then join_groups (take start gs) @ ''::'' @ join_groups (drop (start + len) gs)
      else join_groups gs)"

definition show_ip :: "ipaddr \<Rightarrow> string" where
  "show_ip a = (case a of V4 n \<Rightarrow> show_ipv4 (unat n) | V6 w \<Rightarrow> show_ipv6 w)"

section \<open>Address ranges\<close>

definition v4 :: "nat \<Rightarrow> nat \<Rightarrow> nat \<Rightarrow> nat \<Rightarrow> ipaddr" where
  "v4 a b c d = V4 (word_of_nat (((a * 256 + b) * 256 + c) * 256 + d))"

definition NON_PUBLIC :: "(ipaddr \<times> nat) list" where
  "NON_PUBLIC =
    [(v4 0 0 0 0, 8), (v4 10 0 0 0, 8), (v4 100 64 0 0, 10), (v4 127 0 0 0, 8), (v4 169 254 0 0, 16),
     (v4 172 16 0 0, 12), (v4 192 0 0 0, 24), (v4 192 88 99 0, 24), (v4 192 168 0 0, 16),
     (v4 198 18 0 0, 15), (v4 224 0 0 0, 4), (v4 240 0 0 0, 4),
     (V6 (from_groups [0, 0, 0, 0, 0, 0, 0, 0]), 96), (V6 (from_groups [0, 0, 0, 0, 0, 0, 0, 0]), 128),
     (V6 (from_groups [0, 0, 0, 0, 0, 0, 0, 1]), 128),
     (V6 (from_groups [0, 0, 0, 0, 0, 0xffff, 0, 0]), 96),
     (V6 (from_groups [0, 0, 0, 0, 0xffff, 0, 0, 0]), 96),
     (V6 (from_groups [0x64, 0xff9b, 1, 0, 0, 0, 0, 0]), 48),
     (V6 (from_groups [0x64, 0xff9b, 0, 0, 0, 0, 0, 0]), 96),
     (V6 (from_groups [0x100, 0, 0, 0, 0, 0, 0, 0]), 64),
     (V6 (from_groups [0x100, 0, 0, 1, 0, 0, 0, 0]), 64),
     (V6 (from_groups [0x2001, 0, 0, 0, 0, 0, 0, 0]), 23),
     (V6 (from_groups [0x2002, 0, 0, 0, 0, 0, 0, 0]), 16),
     (V6 (from_groups [0x5f00, 0, 0, 0, 0, 0, 0, 0]), 16),
     (V6 (from_groups [0xfc00, 0, 0, 0, 0, 0, 0, 0]), 7),
     (V6 (from_groups [0xfe80, 0, 0, 0, 0, 0, 0, 0]), 10),
     (V6 (from_groups [0xff00, 0, 0, 0, 0, 0, 0, 0]), 8)]"

definition addr_bits :: "ipaddr \<Rightarrow> 128 word \<times> nat" where
  "addr_bits a = (case a of V4 n \<Rightarrow> (ucast n, 32) | V6 w \<Rightarrow> (w, 128))"

definition host_mask :: "nat \<Rightarrow> 128 word" where
  "host_mask host_bits = (if host_bits < 128 then push_bit host_bits 1 - 1 else - 1)"

definition inside_range :: "128 word \<Rightarrow> nat \<Rightarrow> nat \<Rightarrow> ipaddr \<times> nat \<Rightarrow> bool" where
  "inside_range bits width plen r =
     (let (range_bits, range_width) = addr_bits (fst r);
          range_host = host_mask (range_width - snd r) in
      range_width = width \<and> snd r \<le> plen \<and> bits AND NOT range_host = range_bits)"

datatype cidr_error = NotCidr | BadAddress | BadPrefix | PrefixTooLong | NotCanonical | HostBits | NonPublic

definition check_cidr :: "string \<Rightarrow> (unit, cidr_error) result" where
  "check_cidr cidr =
     and_then (ok_or (split_once ''/'' cidr) NotCidr) (\<lambda>(a, p).
     and_then (ok_or (parse_ip a) BadAddress) (\<lambda>addr.
     and_then (ok_or (parse_uint 255 p) BadPrefix) (\<lambda>plen.
     (let (bits, width) = addr_bits addr in
      refuse_if (width < plen) PrefixTooLong
      (refuse_if (show_ip addr @ ''/'' @ show_nat plen \<noteq> cidr) NotCanonical
      (refuse_if (bits AND host_mask (width - plen) \<noteq> 0) HostBits
      (refuse_if (list_ex (inside_range bits width plen) NON_PUBLIC) NonPublic (Ok ()))))))))"

section \<open>Openings\<close>

text \<open>The code points of a well-formed UTF-8 string.\<close>

fun chars :: "string \<Rightarrow> nat list" where
  "chars [] = []"
| "chars (a # s) =
     (let x = code a in
      if x < 128 then x # chars s
      else (case s of
              [] \<Rightarrow> []
            | b # s2 \<Rightarrow>
                let y = code b - 128 in
                if x < 224 then ((x - 192) * 64 + y) # chars s2
                else (case s2 of
                        [] \<Rightarrow> []
                      | c # s3 \<Rightarrow>
                          let z = code c - 128 in
                          if x < 240 then ((x - 224) * 4096 + y * 64 + z) # chars s3
                          else (case s3 of
                                  [] \<Rightarrow> []
                                | d # s4 \<Rightarrow>
                                    ((x - 240) * 262144 + y * 4096 + z * 64 + (code d - 128)) # chars s4))))"

definition letter_or_mark :: "'x ext_scheme \<Rightarrow> nat \<Rightarrow> bool" where
  "letter_or_mark E c \<longleftrightarrow> general_category_group E c \<in> {CatLetter, CatMark}"

fun justification_chars :: "'x ext_scheme \<Rightarrow> nat \<Rightarrow> nat \<Rightarrow> nat list \<Rightarrow> bool" where
  "justification_chars E prev marks [] = True"
| "justification_chars E prev marks (c # cs) =
     (let nxt = (case cs of [] \<Rightarrow> 32 | d # _ \<Rightarrow> d);
          joiner = (c \<in> {0x200C, 0x200D} \<and> letter_or_mark E prev \<and> letter_or_mark E nxt);
          ok = (c = 32 \<or> joiner
                \<or> general_category_group E c \<in> {CatLetter, CatMark, CatNumber, CatPunctuation, CatSymbol});
          marks' = (if general_category_group E c = CatMark then min 255 (Suc marks)
                    else if \<not> joiner then 0 else marks) in
      ok \<and> marks' \<le> 4 \<and> justification_chars E c marks' cs)"

definition justification_ok :: "'x ext_scheme \<Rightarrow> string \<Rightarrow> bool" where
  "justification_ok E text \<longleftrightarrow>
     length (chars text) \<le> 200 \<and> justification_chars E 32 0 (chars text)
     \<and> list_ex (\<lambda>c. is_alphanumeric E c \<and> c \<notin> {0x115F, 0x1160, 0x3164, 0xFFA0}) (chars text)"

datatype network_error =
    NotToml
  | TooMany
  | PortZero nat
  | BadCidr nat cidr_error
  | BadJustification nat
  | Repeats nat

fun check_openings :: "'x ext_scheme \<Rightarrow> nat \<Rightarrow> (protocol \<times> u16 \<times> string) list \<Rightarrow> net_opening list \<Rightarrow>
    (unit, network_error) result" where
  "check_openings E i seen [] = Ok ()"
| "check_openings E i seen (opn # rest) =
     refuse_if (op_port opn = 0) (PortZero i)
     (and_then (map_err (BadCidr i) (check_cidr (op_cidr opn))) (\<lambda>_.
      refuse_if (\<not> justification_ok E (op_justification opn)) (BadJustification i)
      (refuse_if ((op_protocol opn, op_port opn, op_cidr opn) \<in> set seen) (Repeats i)
      (check_openings E (Suc i) ((op_protocol opn, op_port opn, op_cidr opn) # seen) rest))))"

definition check_direction :: "'x ext_scheme \<Rightarrow> net_opening list \<Rightarrow> (unit, network_error) result" where
  "check_direction E xs = refuse_if (length xs > 32) TooMany (check_openings E 0 [] xs)"

definition openings_parse :: "'x ext_scheme \<Rightarrow> string \<Rightarrow> (openings, network_error) result" where
  "openings_parse E toml =
     and_then (ok_or (openings_from_toml E toml) NotToml) (\<lambda>opns.
     and_then (check_direction E (ingress opns)) (\<lambda>_.
     and_then (check_direction E (egress opns)) (\<lambda>_. Ok opns)))"

section \<open>Lemmas\<close>

lemma w128_eq_iff: "a = b \<longleftrightarrow> (\<forall>n < 128. bit a n = bit b n)" for a b :: "128 word"
  by (auto intro: bit_word_eqI)

lemma host_mask_mask: "host_mask n = mask n"
  by (auto simp: host_mask_def mask_eq_exp_minus_1 push_bit_eq_mult)

text \<open>An address belongs to a range when it agrees with it outside the host bits.\<close>

definition in_range :: "128 word \<Rightarrow> nat \<Rightarrow> 128 word \<Rightarrow> bool" where
  "in_range bits host_bits x \<longleftrightarrow> x AND NOT (mask host_bits) = bits"

lemma in_range_bits: "bits AND mask h = 0 \<Longrightarrow> in_range bits h bits"
  unfolding in_range_def by (auto simp: w128_eq_iff bit_simps)

lemma in_range_set_bit:
  "bits AND mask h = 0 \<Longrightarrow> i < h \<Longrightarrow> in_range bits h (set_bit i bits)"
  unfolding in_range_def by (auto simp: w128_eq_iff bit_simps)

lemma range_escapes:
  fixes bits :: "128 word"
  assumes "bits AND mask h = 0" and "k < h" and "h \<le> 128"
  shows "\<exists>x \<in> {bits, set_bit k bits}. in_range bits h x \<and> \<not> in_range r k x"
proof (rule ccontr)
  assume "\<not> ?thesis"
  then have "in_range r k bits" and "in_range r k (set_bit k bits)"
    using in_range_bits [OF assms(1)] in_range_set_bit [OF assms(1,2)] by auto
  then have "bits AND NOT (mask k) = set_bit k bits AND NOT (mask k)" by (simp add: in_range_def)
  then have "bit (bits AND NOT (mask k)) k = bit (set_bit k bits AND NOT (mask k)) k" by simp
  then have "bit bits k = bit (set_bit k bits) k" using assms(2,3) by (simp add: bit_simps)
  moreover have "\<not> bit (bits AND mask h) k" using assms(1) by simp
  then have "\<not> bit bits k" using assms(2,3) by (simp add: bit_simps)
  moreover have "bit (set_bit k bits) k" using assms(2,3) by (simp add: bit_simps)
  ultimately show False by simp
qed

lemma addr_bits_width: "addr_bits a = (b, w) \<Longrightarrow> w \<in> {32, 128} \<and> take_bit w b = b"
proof (cases a)
  case (V4 n)
  moreover assume "addr_bits a = (b, w)"
  moreover have "take_bit 32 (ucast n :: 128 word) = ucast n"
    by (auto simp: w128_eq_iff bit_simps dest: bit_imp_le_length)
  ultimately show ?thesis by (simp add: addr_bits_def)
qed (auto simp: addr_bits_def w128_eq_iff bit_simps)

lemma not_inside_escapes:
  assumes a: "addr_bits a = (bits, w)" and z: "bits AND mask (w - p) = 0" and p: "p \<le> w"
    and r: "addr_bits (fst r) = (rb, w)" and n: "\<not> inside_range bits w p r" and rp: "snd r \<le> w"
  shows "\<exists>x. take_bit w x = x \<and> in_range bits (w - p) x \<and> \<not> in_range rb (w - snd r) x"
proof (cases "snd r \<le> p")
  case True
  then have "\<not> in_range rb (w - snd r) bits" using n r by (simp add: inside_range_def host_mask_mask in_range_def)
  then show ?thesis using in_range_bits [OF z] addr_bits_width [OF a] by blast
next
  case False
  have w: "w \<le> 128" using addr_bits_width [OF a] by auto
  have k: "w - snd r < w - p" using False rp p by simp
  have "take_bit w (set_bit (w - snd r) bits) = set_bit (w - snd r) bits"
    using conjunct2 [OF addr_bits_width [OF a]] k by (auto simp: w128_eq_iff bit_simps)
  moreover obtain x where "x \<in> {bits, set_bit (w - snd r) bits}" and "in_range bits (w - p) x"
    and "\<not> in_range rb (w - snd r) x" using range_escapes [OF z k] w by force
  ultimately show ?thesis using addr_bits_width [OF a] by auto
qed

lemma NON_PUBLIC_prefixes: "r \<in> set NON_PUBLIC \<Longrightarrow> snd r \<le> snd (addr_bits (fst r))"
  by (auto simp: NON_PUBLIC_def addr_bits_def v4_def)

lemma check_openings_Ok:
  "check_openings E i seen xs = Ok () \<Longrightarrow>
     (\<forall>x \<in> set xs. op_port x \<noteq> 0 \<and> check_cidr (op_cidr x) = Ok () \<and> justification_ok E (op_justification x))
     \<and> distinct (map (\<lambda>x. (op_protocol x, op_port x, op_cidr x)) xs)
     \<and> set (map (\<lambda>x. (op_protocol x, op_port x, op_cidr x)) xs) \<inter> set seen = {}"
proof (induction xs arbitrary: i seen)
  case Nil
  then show ?case by simp
next
  case (Cons x xs)
  then have "check_openings E (Suc i) ((op_protocol x, op_port x, op_cidr x) # seen) xs = Ok ()"
    and "op_port x \<noteq> 0" "check_cidr (op_cidr x) = Ok ()" "justification_ok E (op_justification x)"
    and "(op_protocol x, op_port x, op_cidr x) \<notin> set seen"
    by (auto simp: result_simps)
  with Cons.IH show ?case by fastforce
qed

lemma numeral_4_eq_4: "(4::nat) = Suc (Suc (Suc (Suc 0)))"
  by simp

lemma demo_ipv4: "parse_ip ''8.0.0.0'' = Some (V4 0x8000000)"
proof -
  have r: "read_number 10 3 False 255 (c # CHR ''.'' # s) = Some (code c - 48, CHR ''.'' # s)"
    "read_number 10 3 False 255 [c] = Some (code c - 48, [])" if "is_ascii_digit c" for c s
    using that by (auto simp: read_number_def digit_value_def is_ascii_digit_def code_def Let_def)
  have d: "is_ascii_digit CHR ''8''" "is_ascii_digit CHR ''0''" by (simp_all add: is_ascii_digit_def code_def)
  show ?thesis
    unfolding parse_ip_def read_ipv4_def numeral_4_eq_4
    by (simp add: read_sep_def strip_prefix_def r d del: strip_prefix_Some) (simp add: code_def)
qed

lemma demo_cidr: "check_cidr ''8.0.0.0/7'' = Ok ()"
proof -
  have s: "show_ip (V4 0x8000000) = ''8.0.0.0''"
    by (simp add: show_ip_def show_ipv4_def show_nat.simps digit_char_def char_of_eq_iff)
  have p: "parse_uint 255 ''7'' = Some 7" by (simp add: parse_uint_def digits_value_def is_ascii_digit_def code_def)
  have n: "show_nat 7 = ''7''" by (simp add: show_nat.simps digit_char_def char_of_eq_iff)
  have "\<not> list_ex (inside_range 0x8000000 32 7) NON_PUBLIC"
    by (simp add: NON_PUBLIC_def inside_range_def addr_bits_def v4_def host_mask_def)
  then show ?thesis
    by (simp add: check_cidr_def demo_ipv4 p addr_bits_def s n host_mask_def)
qed

section \<open>Properties\<close>

text \<open>
  An accepted cidr is the canonical text of a network: an address with no bit set below its
  prefix. It may contain a non-public range but never lies inside one: for every listed range of
  the same family it has an address outside that range.
\<close>

theorem check_cidr_public:
  assumes "check_cidr cidr = Ok ()"
  shows "\<exists>a p bits w. addr_bits a = (bits, w) \<and> p \<le> w \<and> cidr = show_ip a @ ''/'' @ show_nat p
    \<and> bits AND mask (w - p) = 0
    \<and> (\<forall>r \<in> set NON_PUBLIC. snd (addr_bits (fst r)) = w \<longrightarrow>
          (\<exists>x. take_bit w x = x \<and> in_range bits (w - p) x
             \<and> \<not> in_range (fst (addr_bits (fst r))) (w - snd r) x))"
proof -
  from assms obtain a p where r: "(let (bits, w) = addr_bits a in
      refuse_if (w < p) PrefixTooLong
      (refuse_if (show_ip a @ ''/'' @ show_nat p \<noteq> cidr) NotCanonical
      (refuse_if (bits AND host_mask (w - p) \<noteq> 0) HostBits
      (refuse_if (list_ex (inside_range bits w p) NON_PUBLIC) NonPublic (Ok ()))))) = Ok ()"
    unfolding check_cidr_def and_then_eq_Ok ok_or_eq_Ok split_def by blast
  obtain bits w where a: "addr_bits a = (bits, w)" by (cases "addr_bits a")
  with r have p: "p \<le> w" and c: "cidr = show_ip a @ ''/'' @ show_nat p"
    and z: "bits AND mask (w - p) = 0" and n: "\<not> list_ex (inside_range bits w p) NON_PUBLIC"
    by (auto simp: result_simps host_mask_mask not_less)
  have "\<exists>x. take_bit w x = x \<and> in_range bits (w - p) x \<and> \<not> in_range (fst (addr_bits (fst r))) (w - snd r) x"
    if "r \<in> set NON_PUBLIC" and "snd (addr_bits (fst r)) = w" for r
    using not_inside_escapes [OF a z p, of r "fst (addr_bits (fst r))"] NON_PUBLIC_prefixes [OF that(1)] n that
    by (auto simp: list_ex_iff prod_eq_iff)
  with a p c z show ?thesis by blast
qed

theorem check_cidr_public_witness:
  "\<exists>a p bits w. addr_bits a = (bits, w) \<and> ''8.0.0.0/7'' = show_ip a @ ''/'' @ show_nat p
    \<and> bits AND mask (w - p) = 0"
  using check_cidr_public [OF demo_cidr] by blast

text \<open>
  What \<open>Openings::parse\<close> accepts: at most 32 openings per direction, every port nonzero, every
  cidr and justification valid, and no protocol, port and cidr twice in a direction.
\<close>

theorem openings_parse_Ok:
  assumes "openings_parse E toml = Ok opns" and "xs \<in> {ingress opns, egress opns}"
  shows "length xs \<le> 32 \<and> distinct (map (\<lambda>x. (op_protocol x, op_port x, op_cidr x)) xs)
    \<and> (\<forall>x \<in> set xs. op_port x \<noteq> 0 \<and> check_cidr (op_cidr x) = Ok () \<and> justification_ok E (op_justification x))"
proof -
  have "check_direction E xs = Ok ()" using assms by (auto simp: openings_parse_def result_simps)
  then show ?thesis using check_openings_Ok [of E 0 "[]" xs] by (auto simp: check_direction_def result_simps)
qed

definition demo_opening :: net_opening where
  "demo_opening = \<lparr> op_protocol = Tcp, op_port = 443, op_cidr = ''8.0.0.0/7'', op_justification = ''ok'' \<rparr>"

theorem openings_parse_Ok_witness:
  "openings_parse (demo\<lparr> openings_from_toml := \<lambda>_. Some \<lparr> ingress = [], egress = [demo_opening] \<rparr> \<rparr>) [] =
     Ok \<lparr> ingress = [], egress = [demo_opening] \<rparr>
   \<and> op_port demo_opening \<noteq> 0"
proof -
  let ?E = "demo\<lparr> openings_from_toml := \<lambda>_. Some \<lparr> ingress = [], egress = [demo_opening] \<rparr> \<rparr>"
  have "justification_ok ?E ''ok''"
    by (simp add: justification_ok_def code_def demo_def letter_or_mark_def)
  then have "openings_parse ?E [] = Ok \<lparr> ingress = [], egress = [demo_opening] \<rparr>"
    by (simp add: openings_parse_def check_direction_def demo_opening_def demo_cidr)
  moreover from openings_parse_Ok [OF this, of "[demo_opening]"] have "op_port demo_opening \<noteq> 0"
    by simp
  ultimately show ?thesis by blast
qed

end
