(* ===== verification/Core_InitData.thy ===== *)
theory Core_InitData
  imports Core_Platform Core_Network
begin

text \<open>
  \<^verbatim>\<open>crates/alpha-core/src/initdata.rs\<close>: a Kata pod's init-data, its digest, the template of the guest
  pull configuration and the policy check. An \<open>InitData\<close> is its TOML text.
\<close>

datatype guest_pull_error = NoSecretNoProxy | BadPullProxy | BadSecretName | TheyDiffer

datatype init_data_error =
    TooLarge
  | BadToml
  | Algorithm string
  | Version string
  | NoPolicy
  | UnknownKey string
  | Network network_error
  | NetworkNotString
  | GuestPull guest_pull_error
  | NoPolicyData
  | Rules compose_hash
  | PolicyDataJson
  | NoContainers
  | PolicyData compose_hash
  | ExecCommands json

type_synonym init_data = string

definition newline :: string where "newline = [CHR 0x0A]"
definition quotes3 :: string where "quotes3 = dquote @ dquote @ dquote"

definition POLICY_DATA :: string where "POLICY_DATA = newline @ ''policy_data := ''"
definition KBS_URL :: string where "KBS_URL = ''https://kms.alpha-kms.svc:8443''"
definition CREDENTIAL_URI :: string where "CREDENTIAL_URI = ''kbs:///alpha/secret/''"
definition MAX_PULL_PROXY :: nat where "MAX_PULL_PROXY = 300"
definition MAX_INIT_DATA :: nat where "MAX_INIT_DATA = 2 ^ 20"

definition proxy_label :: "string \<Rightarrow> bool" where
  "proxy_label l \<longleftrightarrow> 1 \<le> length l \<and> length l \<le> 63 \<and> hd l \<noteq> CHR ''-'' \<and> last l \<noteq> CHR ''-''
     \<and> list_all host_char l"

definition proxy_port_ok :: "string option \<Rightarrow> bool" where
  "proxy_port_ok port =
     (case port of
        None \<Rightarrow> True
      | Some p \<Rightarrow> list_all is_ascii_digit p
          \<and> (case parse_uint 65535 p of Some n \<Rightarrow> n \<noteq> 0 | None \<Rightarrow> False))"

definition is_pull_proxy :: "string \<Rightarrow> bool" where
  "is_pull_proxy url =
     (case strip_prefix ''http://'' url of
        None \<Rightarrow> False
      | Some rest \<Rightarrow>
          if length url > MAX_PULL_PROXY then False
          else (let (host, port) = (case split_once '':'' rest of
                                      None \<Rightarrow> (rest, None)
                                    | Some (h, p) \<Rightarrow> (h, Some p)) in
                proxy_port_ok port \<and> length host \<le> 253 \<and> list_all proxy_label (split_on CHR ''.'' host)))"

definition guest_pull :: "string option \<Rightarrow> string option \<Rightarrow> string \<Rightarrow> (string \<times> string, init_data_error) result" where
  "guest_pull credential pull_proxy kms_ca_pem =
     refuse_if (credential = None \<and> pull_proxy = None) (GuestPull NoSecretNoProxy)
     (let cdh = ''[kbc]'' @ newline @ ''name = '' @ dquote @ ''cc_kbc'' @ dquote @ newline
             @ ''url = '' @ dquote @ KBS_URL @ dquote @ newline
             @ ''kbs_cert = '' @ quotes3 @ kms_ca_pem @ quotes3 @ newline @ newline @ ''[image]'' @ newline;
          cdh1 = (case credential of
                    None \<Rightarrow> cdh
                  | Some name \<Rightarrow> cdh @ ''authenticated_registry_credentials_uri = '' @ dquote @ CREDENTIAL_URI
                      @ name @ dquote @ newline);
          aa = ''[token_configs.kbs]'' @ newline @ ''url = '' @ dquote @ KBS_URL @ dquote @ newline
             @ ''cert = '' @ quotes3 @ kms_ca_pem @ quotes3 @ newline in
      case pull_proxy of
        None \<Rightarrow> Ok (aa, cdh1)
      | Some url \<Rightarrow>
          refuse_if (\<not> is_pull_proxy url) (GuestPull BadPullProxy)
          (Ok (aa, cdh1 @ ''image_pull_proxy = { https_proxy = '' @ dquote @ url @ dquote @ '' }'' @ newline)))"

definition toml_string :: "toml_table \<Rightarrow> string \<Rightarrow> string option" where
  "toml_string t k = Option.bind (map_of t k) toml_as_str"

definition init_data_parse :: "'x ext_scheme \<Rightarrow> string \<Rightarrow> (init_data, init_data_error) result" where
  "init_data_parse E toml =
     refuse_if (length toml \<ge> MAX_INIT_DATA) TooLarge
     (and_then (ok_or (Option.bind (toml_from_str E toml) (\<lambda>t.
                  Option.bind (toml_string t ''algorithm'') (\<lambda>a.
                  Option.bind (toml_string t ''version'') (\<lambda>v. Some (a, v))))) BadToml) (\<lambda>(a, v).
      refuse_if (a \<noteq> ''sha256'') (Algorithm a)
      (refuse_if (v \<noteq> ''0.1.0'') (Version v) (Ok toml))))"

definition init_data_digest :: "'x ext_scheme \<Rightarrow> init_data \<Rightarrow> compose_hash" where
  "init_data_digest E d = compose_hash_of E (as_bytes d)"

definition init_data_table :: "'x ext_scheme \<Rightarrow> init_data \<Rightarrow> (toml_table, init_data_error) result" where
  "init_data_table E d =
     ok_or (Option.bind (toml_from_str E d) (\<lambda>t.
            case map_of t ''data'' of Some (TTable m) \<Rightarrow> Some m | _ \<Rightarrow> None)) NoPolicy"

definition init_data_app_id :: "'x ext_scheme \<Rightarrow> init_data \<Rightarrow> uuid option" where
  "init_data_app_id E d =
     Option.bind (to_option (init_data_table E d)) (\<lambda>m.
     Option.bind (toml_string m ''app_id'') (uuid_parse E))"

definition table_openings :: "'x ext_scheme \<Rightarrow> toml_table \<Rightarrow> (openings, init_data_error) result" where
  "table_openings E data =
     (case map_of data ''network.toml'' of
        None \<Rightarrow> Ok \<lparr> ingress = [], egress = [] \<rparr>
      | Some (TString toml) \<Rightarrow> map_err Network (openings_parse E toml)
      | Some _ \<Rightarrow> Err NetworkNotString)"

definition cdh_image :: "'x ext_scheme \<Rightarrow> toml_table \<Rightarrow> toml option" where
  "cdh_image E data =
     Option.bind (toml_string data ''cdh.toml'') (\<lambda>s.
     Option.bind (toml_from_str E s) (\<lambda>cdh. map_of cdh ''image''))"

definition credential_name :: "toml \<Rightarrow> string option" where
  "credential_name img =
     Option.bind (toml_get img ''authenticated_registry_credentials_uri'') (\<lambda>v.
     Option.bind (toml_as_str v) (strip_prefix CREDENTIAL_URI))"

definition pull_proxy :: "toml \<Rightarrow> string option" where
  "pull_proxy img =
     Option.bind (toml_get img ''image_pull_proxy'') (\<lambda>p.
     Option.bind (toml_get p ''https_proxy'') toml_as_str)"

definition check_guest_pull :: "'x ext_scheme \<Rightarrow> toml_table \<Rightarrow> string \<Rightarrow> (unit, init_data_error) result" where
  "check_guest_pull E data kms_ca_pem =
     (if map_of data ''aa.toml'' = None \<and> map_of data ''cdh.toml'' = None then Ok ()
      else (let img = cdh_image E data;
                name = Option.bind img credential_name;
                proxy = Option.bind img pull_proxy in
            refuse_if (case name of None \<Rightarrow> False | Some n \<Rightarrow> \<not> is_secret_name n) (GuestPull BadSecretName)
            (and_then (guest_pull name proxy kms_ca_pem) (\<lambda>(want_aa, want_cdh).
             refuse_if (map_of data ''aa.toml'' \<noteq> Some (TString want_aa)
                \<or> map_of data ''cdh.toml'' \<noteq> Some (TString want_cdh)) (GuestPull TheyDiffer) (Ok ())))))"

definition data_keys :: "string list" where
  "data_keys = [''aa.toml'', ''app_id'', ''cdh.toml'', ''network.toml'', ''policy.rego'']"

definition policy :: "'x ext_scheme \<Rightarrow> toml_table \<Rightarrow> (compose_hash \<times> json \<times> json, init_data_error) result" where
  "policy E data =
     (case find (\<lambda>k. k \<notin> set data_keys) (map fst data) of
        Some k \<Rightarrow> Err (UnknownKey k)
      | None \<Rightarrow>
          and_then (ok_or (toml_string data ''policy.rego'') NoPolicy) (\<lambda>pol.
          and_then (ok_or (split_once POLICY_DATA pol) NoPolicyData) (\<lambda>(rules, text).
          and_then (ok_or (parse E (as_bytes text)) PolicyDataJson) (\<lambda>v.
          and_then (ok_or (json_get v ''containers'') NoContainers) (\<lambda>containers.
          Ok (compose_hash_of E (as_bytes rules),
              JObject (filter (\<lambda>e. fst e \<noteq> ''containers'') (the (json_as_object v))), containers))))))"

fun check_exec :: "json list \<Rightarrow> (unit, init_data_error) result" where
  "check_exec [] = Ok ()"
| "check_exec (c # cs) =
     (case json_get c ''exec_commands'' of
        None \<Rightarrow> check_exec cs
      | Some JNull \<Rightarrow> check_exec cs
      | Some (JArray []) \<Rightarrow> check_exec cs
      | Some commands \<Rightarrow> Err (ExecCommands commands))"

definition check_policy :: "'x ext_scheme \<Rightarrow> init_data \<Rightarrow> kata_policy \<Rightarrow> string \<Rightarrow> (unit, init_data_error) result" where
  "check_policy E d pinned kms_ca_pem =
     and_then (init_data_table E d) (\<lambda>table.
     and_then (policy E table) (\<lambda>(rules, data, containers).
     and_then (check_guest_pull E table kms_ca_pem) (\<lambda>_.
     and_then (table_openings E table) (\<lambda>_.
     refuse_if (rules \<noteq> rules_sha256 pinned) (Rules rules)
     (and_then (ok_or (jcs E data) PolicyDataJson) (\<lambda>j.
      refuse_if (compose_hash_of E j \<noteq> data_sha256 pinned) (PolicyData (compose_hash_of E j))
      (and_then (ok_or (json_as_array containers) NoContainers) check_exec)))))))"

definition registry_credential :: "'x ext_scheme \<Rightarrow> init_data \<Rightarrow> string option" where
  "registry_credential E d =
     Option.bind (to_option (init_data_table E d)) (\<lambda>data.
     Option.bind (cdh_image E data) credential_name)"

definition init_data_openings :: "'x ext_scheme \<Rightarrow> init_data \<Rightarrow> (openings, init_data_error) result" where
  "init_data_openings E d = and_then (init_data_table E d) (table_openings E)"

definition init_data_containers :: "'x ext_scheme \<Rightarrow> init_data \<Rightarrow> (json, init_data_error) result" where
  "init_data_containers E d =
     and_then (init_data_table E d) (\<lambda>t. and_then (policy E t) (\<lambda>(_, _, c). Ok c))"

section \<open>Lemmas\<close>

lemma check_exec_Ok:
  "check_exec cs = Ok u \<longleftrightarrow>
     (\<forall>c \<in> set cs. json_get c ''exec_commands'' \<in> {None, Some JNull, Some (JArray [])})"
proof (induction cs)
  case Nil
  then show ?case by simp
next
  case (Cons c cs)
  show ?case
  proof (cases "json_get c ''exec_commands''")
    case (Some v)
    with Cons.IH show ?thesis by (cases v) (auto split: list.splits)
  qed (use Cons.IH in auto)
qed

lemma guest_pull_Ok:
  "guest_pull cred prox ca = Ok r \<Longrightarrow>
     (cred \<noteq> None \<or> prox \<noteq> None) \<and> (\<forall>u. prox = Some u \<longrightarrow> is_pull_proxy u)"
  by (auto simp: guest_pull_def result_simps Let_def split: option.splits)

lemma check_guest_pull_Ok:
  "check_guest_pull E data ca = Ok () \<Longrightarrow>
     (map_of data ''aa.toml'' = None \<and> map_of data ''cdh.toml'' = None)
     \<or> (\<exists>name prox aa cdh. guest_pull name prox ca = Ok (aa, cdh)
          \<and> (\<forall>n. name = Some n \<longrightarrow> is_secret_name n) \<and> (\<forall>u. prox = Some u \<longrightarrow> is_pull_proxy u)
          \<and> map_of data ''aa.toml'' = Some (TString aa) \<and> map_of data ''cdh.toml'' = Some (TString cdh))"
proof -
  assume a: "check_guest_pull E data ca = Ok ()"
  show ?thesis
  proof (cases "map_of data ''aa.toml'' = None \<and> map_of data ''cdh.toml'' = None")
    case False
    let ?name = "Option.bind (cdh_image E data) credential_name"
    let ?prox = "Option.bind (cdh_image E data) pull_proxy"
    obtain aa cdh where g: "guest_pull ?name ?prox ca = Ok (aa, cdh)"
      and "map_of data ''aa.toml'' = Some (TString aa)" "map_of data ''cdh.toml'' = Some (TString cdh)"
      and "\<not> (case ?name of None \<Rightarrow> False | Some n \<Rightarrow> \<not> is_secret_name n)"
      using a False by (simp add: check_guest_pull_def Let_def result_simps split: if_splits) fastforce
    moreover from this(4) have "\<forall>n. ?name = Some n \<longrightarrow> is_secret_name n" by auto
    ultimately show ?thesis using guest_pull_Ok [OF g] by blast
  qed simp
qed

lemma policy_keys:
  "policy E data = Ok r \<Longrightarrow> fst ` set data \<subseteq> set data_keys"
  by (auto simp: policy_def find_None_iff split: option.splits)

section \<open>Properties\<close>

text \<open>
  What an init-data that passes the policy check can say. Its \<open>[data]\<close> has only the five known
  keys. \<open>aa.toml\<close> and \<open>cdh.toml\<close> are both absent or are, byte for byte, the platform's template for a
  valid Secret name or pull proxy and the KMS certificate authority, so the guest talks to no other
  key broker. The rules and the policy data outside \<open>containers\<close> hash to the pinned digests, no
  container lets the host run a command, and the network openings are valid.
\<close>

theorem check_policy_Ok:
  assumes "check_policy E d pinned ca = Ok ()"
  shows "\<exists>data rules rest containers j.
     init_data_table E d = Ok data \<and> fst ` set data \<subseteq> set data_keys
     \<and> ((map_of data ''aa.toml'' = None \<and> map_of data ''cdh.toml'' = None)
        \<or> (\<exists>name prox aa cdh. guest_pull name prox ca = Ok (aa, cdh)
            \<and> (\<forall>n. name = Some n \<longrightarrow> is_secret_name n) \<and> (\<forall>u. prox = Some u \<longrightarrow> is_pull_proxy u)
            \<and> map_of data ''aa.toml'' = Some (TString aa) \<and> map_of data ''cdh.toml'' = Some (TString cdh)))
     \<and> policy E data = Ok (rules_sha256 pinned, rest, JArray containers)
     \<and> jcs E rest = Some j \<and> compose_hash_of E j = data_sha256 pinned
     \<and> (\<forall>c \<in> set containers. json_get c ''exec_commands'' \<in> {None, Some JNull, Some (JArray [])})
     \<and> is_ok (init_data_openings E d)"
proof -
  from assms obtain data rules rest cs j containers opns where t: "init_data_table E d = Ok data"
    and p: "policy E data = Ok (rules, rest, cs)" and g: "check_guest_pull E data ca = Ok ()"
    and o: "table_openings E data = Ok opns" and r: "rules = rules_sha256 pinned"
    and j: "jcs E rest = Some j" "compose_hash_of E j = data_sha256 pinned"
    and c: "cs = JArray containers" "check_exec containers = Ok ()"
    by (auto simp: check_policy_def result_simps)
  have "is_ok (init_data_openings E d)" using t o by (simp add: init_data_openings_def)
  then show ?thesis
    using t p r j c policy_keys [OF p] check_guest_pull_Ok [OF g] by (auto simp: check_exec_Ok)
qed

definition demo_kata :: ext where
  "demo_kata = demo\<lparr> toml_from_str := \<lambda>_. Some [(''algorithm'', TString ''sha256''), (''data'', TTable
       [(''app_id'', TString (uuid_show demo 7)), (''policy.rego'', TString POLICY_DATA)]),
       (''version'', TString ''0.1.0'')],
     json_events := \<lambda>_. Some (RMap [(''containers'', RSeq [])]) \<rparr>"

definition demo_pin :: kata_policy where
  "demo_pin = \<lparr> rules_sha256 = compose_hash_of demo [], data_sha256 = compose_hash_of demo [7, 0] \<rparr>"

lemma demo_kata_policy:
  "check_policy demo_kata d demo_pin ca = Ok ()"
  "init_data_table demo_kata d =
     Ok [(''app_id'', TString (uuid_show demo 7)), (''policy.rego'', TString POLICY_DATA)]"
proof -
  show t: "init_data_table demo_kata d =
     Ok [(''app_id'', TString (uuid_show demo 7)), (''policy.rego'', TString POLICY_DATA)]"
    by (simp add: init_data_table_def demo_kata_def)
  show "check_policy demo_kata d demo_pin ca = Ok ()"
    by (simp add: check_policy_def t policy_def data_keys_def toml_string_def POLICY_DATA_def newline_def
        check_guest_pull_def table_openings_def parse_def json_get_def)
      (simp add: demo_kata_def demo_pin_def compose_hash_of_def demo_def as_bytes_def map_insert_def)
qed

theorem check_policy_Ok_witness:
  "check_policy demo_kata [] demo_pin [] = Ok ()
   \<and> (\<exists>data rest containers. policy demo_kata data = Ok (rules_sha256 demo_pin, rest, JArray containers))"
proof (intro conjI)
  show "\<exists>data rest containers. policy demo_kata data = Ok (rules_sha256 demo_pin, rest, JArray containers)"
    using check_policy_Ok [OF demo_kata_policy(1) [of "[]" "[]"]] by - ((erule exE)+, (erule conjE)+, (rule exI)+, assumption)
qed (rule demo_kata_policy(1))

text \<open>
  A pull proxy that is accepted can break out of nothing: it is at most 300 bytes of lowercase
  letters, digits and \<open>- . : /\<close>, so it neither ends the TOML string it is written into nor adds a
  key, and the rendered files depend on nothing but the Secret name, the proxy and the authority.
\<close>

theorem pull_proxy_cannot_inject:
  assumes "is_pull_proxy url"
  shows "length url \<le> 300 \<and> (\<forall>c \<in> set url. host_char c \<or> c \<in> {CHR ''.'', CHR '':'', CHR ''/''})
    \<and> (\<exists>h p. url = ''http://'' @ h @ p \<and> (p = [] \<or> (\<exists>d. p = '':'' @ d \<and> list_all is_ascii_digit d)))"
proof -
  from assms obtain rest where u: "url = ''http://'' @ rest" and l: "length url \<le> 300"
    and r: "(let (host, port) = (case split_once '':'' rest of None \<Rightarrow> (rest, None) | Some (h, p) \<Rightarrow> (h, Some p)) in
                proxy_port_ok port \<and> length host \<le> 253 \<and> list_all proxy_label (split_on CHR ''.'' host))"
    by (auto simp: is_pull_proxy_def MAX_PULL_PROXY_def split: option.splits if_splits)
  have h: "host_char c \<or> c = CHR ''.''" if "list_all proxy_label (split_on CHR ''.'' host)" "c \<in> set host" for c host
    using that split_on_mem [of c host "CHR ''.''"] by (auto simp: proxy_label_def list_all_iff)
  have "\<exists>host p. rest = host @ p \<and> list_all proxy_label (split_on CHR ''.'' host)
      \<and> (p = [] \<or> (\<exists>d. p = '':'' @ d \<and> list_all is_ascii_digit d))"
  proof (cases "split_once '':'' rest")
    case None
    with r show ?thesis by (intro exI [of _ rest] exI [of _ "[]"]) auto
  next
    case (Some hp)
    then obtain host port where hp: "split_once '':'' rest = Some (host, port)" by (cases hp) auto
    with r have "list_all is_ascii_digit port" "list_all proxy_label (split_on CHR ''.'' host)"
      by (auto simp: proxy_port_ok_def)
    with hp show ?thesis by (intro exI [of _ host] exI [of _ "'':'' @ port"]) (auto simp: split_once_char_Some)
  qed
  then obtain host p where hp: "rest = host @ p" "list_all proxy_label (split_on CHR ''.'' host)"
    and p: "p = [] \<or> (\<exists>d. p = '':'' @ d \<and> list_all is_ascii_digit d)" by blast
  have q: "host_char c \<or> c = CHR '':''" if "c \<in> set p" for c
    using that p by (auto simp: host_char_def list_all_iff)
  have s: "host_char c \<or> c \<in> {CHR '':'', CHR ''/''}" if "c \<in> set ''http://''" for c
    using that by (auto simp: host_char_def is_ascii_lowercase_def code_def)
  have "set url = set ''http://'' \<union> set host \<union> set p" using u hp(1) by (simp add: Un_assoc)
  then have "host_char c \<or> c \<in> {CHR ''.'', CHR '':'', CHR ''/''}" if "c \<in> set url" for c
    using that h [OF hp(2), of c] q [of c] s [of c] by blast
  moreover have "url = ''http://'' @ host @ p" using u hp(1) by simp
  ultimately show ?thesis using l p by blast
qed

theorem pull_proxy_cannot_inject_witness:
  "is_pull_proxy ''http://proxy.local:3128'' \<and> (\<exists>h p. ''http://proxy.local:3128'' = ''http://'' @ h @ p)"
proof -
  have "is_pull_proxy ''http://proxy.local:3128''"
    by (simp add: is_pull_proxy_def MAX_PULL_PROXY_def strip_prefix_def proxy_port_ok_def proxy_label_def
        host_char_def is_ascii_lowercase_def is_ascii_digit_def code_def parse_uint_def digits_value_def
        del: strip_prefix_Some)
  with pull_proxy_cannot_inject [OF this] show ?thesis by blast
qed

end
