(* ===== verification/Attest.thy ===== *)
theory Attest
  imports Attest_Gpu Core_InitData
begin

unbundle bit_operations_syntax

text \<open>
  \<^verbatim>\<open>crates/alpha-attest/src/event_log.rs\<close> and \<^verbatim>\<open>crates/alpha-attest/src/lib.rs\<close>: the event log and its
  replay, the platform document, quote verification and policy, and the appraisal of dstack and
  Kata evidence. Verifying a quote's signatures is \<open>dcap-qvl\<close>'s and a parameter.
\<close>

section \<open>The event log\<close>

record event_log_entry =
  ev_imr :: u32
  ev_event_type :: u32
  ev_digest :: bytes
  ev_event :: string
  ev_payload :: bytes

definition DSTACK_RUNTIME_EVENT_TYPE :: u32 where
  "DSTACK_RUNTIME_EVENT_TYPE = 0x08000001"

definition COMPOSE_HASH_EVENT :: string where
  "COMPOSE_HASH_EVENT = ''compose-hash''"

definition runtime_preimage :: "event_log_entry \<Rightarrow> bytes" where
  "runtime_preimage e = le_bytes 4 (unat DSTACK_RUNTIME_EVENT_TYPE) @ as_bytes '':'' @ as_bytes (ev_event e)
     @ as_bytes '':'' @ ev_payload e"

definition event_digest :: "'x ext_scheme \<Rightarrow> event_log_entry \<Rightarrow> bytes" where
  "event_digest E e =
     (if ev_event_type e \<noteq> DSTACK_RUNTIME_EVENT_TYPE then ev_digest e else sha384 E (runtime_preimage e))"

definition extend_register :: "'x ext_scheme \<Rightarrow> event_log_entry \<Rightarrow> bytes list \<Rightarrow> bytes list" where
  "extend_register E e registers =
     (let i = unat (ev_imr e) in
      if i < length registers then registers[i := sha384 E (registers ! i @ event_digest E e)]
      else registers)"

definition replay :: "'x ext_scheme \<Rightarrow> event_log_entry list \<Rightarrow> measurement list" where
  "replay E event_log = fold (extend_register E) event_log (replicate 4 (replicate 48 0))"

definition is_compose_event :: "event_log_entry \<Rightarrow> bool" where
  "is_compose_event e \<longleftrightarrow> ev_imr e = 3 \<and> ev_event_type e = DSTACK_RUNTIME_EVENT_TYPE
     \<and> ev_event e = COMPOSE_HASH_EVENT"

definition event_log_compose_hash :: "event_log_entry list \<Rightarrow> compose_hash option" where
  "event_log_compose_hash event_log =
     Option.bind (find is_compose_event event_log) (\<lambda>e.
     if length (ev_payload e) = 32 then Some (ev_payload e) else None)"

section \<open>The platform document\<close>

record attest_policy =
  tcb_statuses :: "string list"
  tolerated_advisories :: "string list"

record reference_value =
  rv_name :: string
  rv_mrtd :: measurement
  rv_rtmr0 :: measurement
  rv_rtmr1 :: measurement
  rv_rtmr2 :: measurement

record platform_document =
  pd_version :: u64
  pd_issued_at :: string
  pd_policy :: attest_policy
  pd_reference_values :: "reference_value list"
  pd_kms_ca_pem :: string
  pd_kms_revisions :: "kms_revision list"
  pd_signer :: "signer option"
  pd_catalog_key :: "catalog_key option"
  pd_kata_reference_values :: "kata_reference list"
  pd_kata_policy :: "kata_policy option"

record measured =
  m_mrtd :: measurement
  m_rtmr0 :: measurement
  m_rtmr1 :: measurement
  m_rtmr2 :: measurement
  m_rtmr3 :: measurement

definition measurement_show :: "measurement \<Rightarrow> string" where
  "measurement_show m = ''sha384:'' @ hex_encode m"

definition measurement_from_str :: "string \<Rightarrow> measurement option" where
  "measurement_from_str s = Option.bind (strip_prefix ''sha384:'' s) (hex_bytes 48)"

definition kata_matches :: "kata_reference \<Rightarrow> measured \<Rightarrow> bool" where
  "kata_matches r m \<longleftrightarrow> kr_mrtd r = m_mrtd m \<and> kr_rtmr1 r = m_rtmr1 m \<and> kr_rtmr2 r = m_rtmr2 m
     \<and> m_rtmr0 m \<in> set (kr_rtmr0 r)"

definition kata_overlaps :: "kata_reference \<Rightarrow> kata_reference \<Rightarrow> bool" where
  "kata_overlaps r s \<longleftrightarrow> kr_mrtd r = kr_mrtd s \<and> kr_rtmr1 r = kr_rtmr1 s \<and> kr_rtmr2 r = kr_rtmr2 s
     \<and> list_ex (\<lambda>x. x \<in> set (kr_rtmr0 s)) (kr_rtmr0 r)"

text \<open>\<open>deserialize_with = "kata_reference_values"\<close>, on the entries as they deserialize one by one.\<close>

fun kata_reference_values :: "kata_reference list \<Rightarrow> kata_reference list option" where
  "kata_reference_values [] = Some []"
| "kata_reference_values (entry # entries) =
     (if kr_runtime_class entry = [] then None
      else if kr_gpus entry \<noteq> None \<and> \<not> kr_gpu entry then None
      else if list_ex (kata_overlaps entry) entries then None
      else map_option ((#) entry) (kata_reference_values entries))"

section \<open>Quotes\<close>

record verified_quote =
  vq_report_data :: bytes
  vq_td_attributes :: bytes
  vq_xfam :: bytes
  vq_mr_config_id :: bytes
  vq_mr_owner :: bytes
  vq_mr_owner_config :: bytes
  vq_mr_signer_seam :: bytes
  vq_measured :: measured
  vq_tcb_status :: string
  vq_advisories :: "string list"

definition report_data :: "'x ext_scheme \<Rightarrow> bytes \<Rightarrow> bytes \<Rightarrow> bytes option \<Rightarrow> bytes" where
  "report_data E runtime_pubkey_spki nonce node_xwing =
     sha256 E (runtime_pubkey_spki @ nonce)
     @ (case node_xwing of None \<Rightarrow> replicate 32 0 | Some x \<Rightarrow> sha256 E x)"

definition quote_policy :: "attest_policy \<Rightarrow> string \<Rightarrow> string list \<Rightarrow> bytes \<Rightarrow> (unit, appraisal_error) result" where
  "quote_policy p tcb_status advisories td_attrs =
     refuse_if (tcb_status \<notin> set (tcb_statuses p)) PolicyDenied
     (refuse_if (list_ex (\<lambda>a. a \<notin> set (tolerated_advisories p)) advisories) PolicyDenied
     (refuse_if (td_attrs ! 0 AND 1 \<noteq> 0) PolicyDenied (Ok ())))"

definition verify_quote :: "'x ext_scheme \<Rightarrow> bytes \<Rightarrow> collateral \<Rightarrow> attest_policy \<Rightarrow> time \<Rightarrow>
    (verified_quote, appraisal_error) result" where
  "verify_quote E quote collateral p now =
     refuse_if (now < 0) Failed
     (and_then (ok_or (qvl_verify E quote collateral (nat (seconds_of now))) Failed) (\<lambda>v.
      and_then (ok_or (qv_td10 v) Failed) (\<lambda>r.
      and_then (quote_policy p (qv_status v) (qv_advisory_ids v) (td_attributes r)) (\<lambda>_.
      Ok \<lparr> vq_report_data = td_report_data r, vq_td_attributes = td_attributes r, vq_xfam = td_xfam r,
           vq_mr_config_id = td_mr_config_id r, vq_mr_owner = td_mr_owner r,
           vq_mr_owner_config = td_mr_owner_config r, vq_mr_signer_seam = td_mr_signer_seam r,
           vq_measured = \<lparr> m_mrtd = td_mr_td r, m_rtmr0 = td_rt_mr0 r, m_rtmr1 = td_rt_mr1 r,
             m_rtmr2 = td_rt_mr2 r, m_rtmr3 = td_rt_mr3 r \<rparr>,
           vq_tcb_status = qv_status v, vq_advisories = qv_advisory_ids v \<rparr>))))"

section \<open>Evidence and appraisal\<close>

definition EVIDENCE_FORMAT :: string where "EVIDENCE_FORMAT = ''alphacompute-evidence/1''"
definition KATA_EVIDENCE_FORMAT :: string where "KATA_EVIDENCE_FORMAT = ''alphacompute-evidence/kata/1''"

record evidence =
  e_format :: string
  e_quote :: bytes
  e_event_log :: "event_log_entry list"

record kata_evidence =
  k_format :: string
  k_quote :: bytes
  k_gpu :: "gpu_evidence list"

datatype instance_evidence = Dstack evidence | Kata kata_evidence

definition evidence_quote :: "instance_evidence \<Rightarrow> bytes" where
  "evidence_quote e = (case e of Dstack d \<Rightarrow> e_quote d | Kata k \<Rightarrow> k_quote k)"

record appraised =
  ap_measured :: measured
  ap_tcb_status :: string
  ap_advisories :: "string list"
  ap_os_image :: string
  ap_compose_hash :: compose_hash
  ap_runtime_pubkey_sha256 :: string
  ap_evidence_sha256 :: string
  ap_policy_version :: u64
  ap_gpu_serials :: "string list"

definition sha256_text :: "'x ext_scheme \<Rightarrow> bytes \<Rightarrow> string" where
  "sha256_text E bs = ''sha256:'' @ hex_encode (sha256 E bs)"

definition event_json :: "event_log_entry \<Rightarrow> json" where
  "event_json e = jobj [(''imr'', JNumber (PosInt (ucast (ev_imr e)))),
     (''event_type'', JNumber (PosInt (ucast (ev_event_type e)))),
     (''digest'', JString (hex_encode (ev_digest e))), (''event'', JString (ev_event e)),
     (''event_payload'', JString (hex_encode (ev_payload e)))]"

definition evidence_json :: "'x ext_scheme \<Rightarrow> evidence \<Rightarrow> json" where
  "evidence_json E e = jobj [(''format'', JString (e_format e)), (''quote'', JString (b64_enc E (e_quote e))),
     (''event_log'', JArray (map event_json (e_event_log e)))]"

definition gpu_json :: "'x ext_scheme \<Rightarrow> gpu_evidence \<Rightarrow> json" where
  "gpu_json E g = jobj [(''evidence'', JString (b64_enc E (ge_evidence g))),
     (''certificate_chain'', JString (b64_enc E (ge_certificate_chain g)))]"

definition kata_evidence_json :: "'x ext_scheme \<Rightarrow> kata_evidence \<Rightarrow> json" where
  "kata_evidence_json E k =
     jobj ([(''format'', JString (k_format k)), (''quote'', JString (b64_enc E (k_quote k)))]
       @ (if k_gpu k = [] then [] else [(''gpu'', JArray (map (gpu_json E) (k_gpu k)))]))"

definition evidence_sha256 :: "'x ext_scheme \<Rightarrow> json \<Rightarrow> (string, appraisal_error) result" where
  "evidence_sha256 E v = and_then (ok_or (jcs E v) Failed) (\<lambda>j. Ok (sha256_text E j))"

definition kms_revision_listed :: "platform_document \<Rightarrow> compose_hash \<Rightarrow> (unit, appraisal_error) result" where
  "kms_revision_listed doc revision =
     (if list_ex (\<lambda>r. kr_compose_hash r = revision) (pd_kms_revisions doc) then Ok () else Err Unknown)"

definition reference_matches :: "measured \<Rightarrow> reference_value \<Rightarrow> bool" where
  "reference_matches m rv \<longleftrightarrow> rv_mrtd rv = m_mrtd m \<and> rv_rtmr0 rv = m_rtmr0 m
     \<and> rv_rtmr1 rv = m_rtmr1 m \<and> rv_rtmr2 rv = m_rtmr2 m"

definition appraise :: "'x ext_scheme \<Rightarrow> evidence \<Rightarrow> bytes \<Rightarrow> bytes \<Rightarrow> bytes option \<Rightarrow> platform_document \<Rightarrow>
    collateral \<Rightarrow> time \<Rightarrow> (appraised, appraisal_error) result" where
  "appraise E ev nonce spki node_xwing doc collateral now =
     refuse_if (e_format ev \<noteq> EVIDENCE_FORMAT) Unknown
     (and_then (verify_quote E (e_quote ev) collateral (pd_policy doc) now) (\<lambda>q.
      let m = vq_measured q in
      refuse_if (vq_report_data q \<noteq> report_data E spki nonce node_xwing) Failed
      (refuse_if (replay E (e_event_log ev) \<noteq> [m_rtmr0 m, m_rtmr1 m, m_rtmr2 m, m_rtmr3 m]) Failed
      (and_then (ok_or (find (reference_matches m) (pd_reference_values doc)) Unknown) (\<lambda>rv.
       and_then (ok_or (event_log_compose_hash (e_event_log ev)) Failed) (\<lambda>hash.
       and_then (if node_xwing \<noteq> None then kms_revision_listed doc hash else Ok ()) (\<lambda>_.
       and_then (evidence_sha256 E (evidence_json E ev)) (\<lambda>esha.
       Ok \<lparr> ap_measured = m, ap_tcb_status = vq_tcb_status q, ap_advisories = vq_advisories q,
            ap_os_image = rv_name rv, ap_compose_hash = hash,
            ap_runtime_pubkey_sha256 = sha256_text E spki, ap_evidence_sha256 = esha,
            ap_policy_version = pd_version doc, ap_gpu_serials = [] \<rparr>)))))))) "

datatype init_data_mismatch = Absent | NotSha256

definition mr_config_digest :: "bytes \<Rightarrow> (compose_hash, init_data_mismatch) result" where
  "mr_config_digest mr_config_id =
     (if mr_config_id = replicate 48 0 then Err Absent
      else if list_all (\<lambda>b. b = 0) (drop 32 mr_config_id) then Ok (take 32 mr_config_id)
      else Err NotSha256)"

definition KATA_TD_ATTRIBUTES :: nat where "KATA_TD_ATTRIBUTES = 0x10000000"
definition KATA_XFAM :: nat where "KATA_XFAM = 0x61ae7"

definition kata_reference_of :: "verified_quote \<Rightarrow> kata_reference list \<Rightarrow> (kata_reference, appraisal_error) result" where
  "kata_reference_of q references =
     refuse_if (from_le (vq_td_attributes q) \<noteq> KATA_TD_ATTRIBUTES) PolicyDenied
     (refuse_if (from_le (vq_xfam q) \<noteq> KATA_XFAM) PolicyDenied
     (refuse_if (m_rtmr3 (vq_measured q) \<noteq> replicate 48 0) Unknown
     (refuse_if (vq_mr_owner q \<noteq> replicate 48 0 \<or> vq_mr_owner_config q \<noteq> replicate 48 0) Unknown
     (refuse_if (vq_mr_signer_seam q \<noteq> replicate 48 0) PolicyDenied
     (case filter (\<lambda>r. kr_runtime_class r \<noteq> [] \<and> kata_matches r (vq_measured q)) references of
        [r] \<Rightarrow> Ok r
      | _ \<Rightarrow> Err Unknown)))))"

record kata_appraised =
  ka_reference :: kata_reference
  ka_init_data :: compose_hash
  ka_quote :: verified_quote

definition appraise_kata :: "'x ext_scheme \<Rightarrow> bytes \<Rightarrow> bytes \<Rightarrow> platform_document \<Rightarrow> collateral \<Rightarrow> time \<Rightarrow>
    (kata_appraised, appraisal_error) result" where
  "appraise_kata E quote expected doc collateral now =
     and_then (verify_quote E quote collateral (pd_policy doc) now) (\<lambda>q.
     refuse_if (vq_report_data q \<noteq> expected) Failed
     (and_then (kata_reference_of q (pd_kata_reference_values doc)) (\<lambda>r.
      and_then (map_err (\<lambda>_. Failed) (mr_config_digest (vq_mr_config_id q))) (\<lambda>d.
      Ok \<lparr> ka_reference = r, ka_init_data = d, ka_quote = q \<rparr>))))"

definition appraise_kata_evidence :: "'x ext_scheme \<Rightarrow> kata_evidence \<Rightarrow> bytes \<Rightarrow> bytes \<Rightarrow> bytes option \<Rightarrow>
    platform_document \<Rightarrow> collateral \<Rightarrow> time \<Rightarrow> (appraised, appraisal_error) result" where
  "appraise_kata_evidence E ev nonce spki node_xwing doc collateral now =
     refuse_if (k_format ev \<noteq> KATA_EVIDENCE_FORMAT) Unknown
     (let base = report_data E spki nonce node_xwing;
          expected = (if k_gpu ev \<noteq> [] then bind_gpus E base (k_gpu ev) else base) in
      and_then (appraise_kata E (k_quote ev) expected doc collateral now) (\<lambda>kata.
      and_then (if node_xwing \<noteq> None
                then refuse_if (kr_gpu (ka_reference kata)) PolicyDenied (kms_revision_listed doc (ka_init_data kata))
                else Ok ()) (\<lambda>_.
      and_then (appraise_kata_gpus E (ka_reference kata) (vq_report_data (ka_quote kata)) (k_gpu ev) now) (\<lambda>serials.
      and_then (evidence_sha256 E (kata_evidence_json E ev)) (\<lambda>esha.
      Ok \<lparr> ap_measured = vq_measured (ka_quote kata), ap_tcb_status = vq_tcb_status (ka_quote kata),
           ap_advisories = vq_advisories (ka_quote kata), ap_os_image = kr_runtime_class (ka_reference kata),
           ap_compose_hash = ka_init_data kata, ap_runtime_pubkey_sha256 = sha256_text E spki,
           ap_evidence_sha256 = esha, ap_policy_version = pd_version doc, ap_gpu_serials = serials \<rparr>)))))"

definition appraise_instance :: "'x ext_scheme \<Rightarrow> instance_evidence \<Rightarrow> bytes \<Rightarrow> bytes \<Rightarrow> bytes option \<Rightarrow>
    platform_document \<Rightarrow> collateral \<Rightarrow> time \<Rightarrow> (appraised, appraisal_error) result" where
  "appraise_instance E ev nonce spki node_xwing doc collateral now =
     (case ev of
        Dstack e \<Rightarrow> appraise E e nonce spki node_xwing doc collateral now
      | Kata k \<Rightarrow> appraise_kata_evidence E k nonce spki node_xwing doc collateral now)"

section \<open>Lemmas\<close>

subsection \<open>Replay\<close>

definition hash_chain :: "'x ext_scheme \<Rightarrow> bytes list \<Rightarrow> bytes" where
  "hash_chain E ds = foldl (\<lambda>r d. sha384 E (r @ d)) (replicate 48 0) ds"

lemma hash_chain_snoc: "hash_chain E (ds @ [d]) = sha384 E (hash_chain E ds @ d)"
  by (simp add: hash_chain_def)

lemma length_extend_register [simp]: "length (extend_register E e regs) = length regs"
  by (simp add: extend_register_def Let_def)

lemma fold_extend_nth:
  "i < length regs \<Longrightarrow>
   fold (extend_register E) l regs ! i =
     foldl (\<lambda>r d. sha384 E (r @ d)) (regs ! i) (map (event_digest E) (filter (\<lambda>e. unat (ev_imr e) = i) l))"
  by (induction l arbitrary: regs) (auto simp: extend_register_def Let_def nth_list_update)

lemma replay_nth:
  "i < 4 \<Longrightarrow> replay E l ! i = hash_chain E (map (event_digest E) (filter (\<lambda>e. unat (ev_imr e) = i) l))"
  by (simp add: replay_def fold_extend_nth hash_chain_def)

lemma length_replay: "length (replay E l) = 4"
proof -
  have "length (fold (extend_register E) l regs) = length regs" for regs
    by (induction l arbitrary: regs) simp_all
  then show ?thesis by (simp add: replay_def)
qed

text \<open>The strings that replaying RTMR3 of a log hashes: each register before its event's digest, and each event's preimage.\<close>

definition chain_inputs :: "'x ext_scheme \<Rightarrow> bytes list \<Rightarrow> bytes set" where
  "chain_inputs E ds = {hash_chain E xs @ d | xs d ys. ds = xs @ d # ys}"

definition replay_inputs :: "'x ext_scheme \<Rightarrow> event_log_entry list \<Rightarrow> bytes set" where
  "replay_inputs E l = (let es = filter (\<lambda>e. ev_imr e = 3) l in
     chain_inputs E (map (event_digest E) es) \<union> runtime_preimage ` set es)"

text \<open>Two different strings with one hash, the first hashed in one replay and the second in the other.\<close>

definition collide :: "'x ext_scheme \<Rightarrow> bytes set \<Rightarrow> bytes set \<Rightarrow> bool" where
  "collide E X Y \<longleftrightarrow> (\<exists>x \<in> X. \<exists>y \<in> Y. x \<noteq> y \<and> sha384 E x = sha384 E y)"

definition hits_zero :: "'x ext_scheme \<Rightarrow> bytes set \<Rightarrow> bool" where
  "hits_zero E X \<longleftrightarrow> (\<exists>x \<in> X. sha384 E x = replicate 48 0)"

lemma chain_inputs_last: "hash_chain E ds @ d \<in> chain_inputs E (ds @ [d])"
  unfolding chain_inputs_def by blast

lemma chain_inputs_butlast: "chain_inputs E ds \<subseteq> chain_inputs E (ds @ [d])"
  unfolding chain_inputs_def by fastforce

lemma collide_mono: "collide E X Y \<Longrightarrow> X \<subseteq> X' \<Longrightarrow> Y \<subseteq> Y' \<Longrightarrow> collide E X' Y'"
  unfolding collide_def by blast

lemma hits_zero_mono: "hits_zero E X \<Longrightarrow> X \<subseteq> X' \<Longrightarrow> hits_zero E X'"
  unfolding hits_zero_def by blast

lemma hash_chain_eq:
  assumes "hash_chain E ds = hash_chain E es"
    and "\<forall>d \<in> set ds \<union> set es. length d = 48"
  shows "ds = es \<or> collide E (chain_inputs E ds) (chain_inputs E es)
    \<or> hits_zero E (chain_inputs E ds \<union> chain_inputs E es)"
  using assms
proof (induction ds arbitrary: es rule: rev_induct)
  case Nil
  show ?case
  proof (cases es rule: rev_cases)
    case (snoc es' e)
    then have "sha384 E (hash_chain E es' @ e) = replicate 48 0"
      using Nil.prems(1) by (simp add: hash_chain_snoc) (simp add: hash_chain_def)
    then show ?thesis using chain_inputs_last [of E es' e] snoc unfolding hits_zero_def by blast
  qed simp
next
  case (snoc d ds)
  show ?case
  proof (cases es rule: rev_cases)
    case Nil
    then have "sha384 E (hash_chain E ds @ d) = replicate 48 0"
      using snoc.prems(1) by (simp add: hash_chain_snoc) (simp add: hash_chain_def)
    then show ?thesis using chain_inputs_last [of E ds d] unfolding hits_zero_def by blast
  next
    case es: (snoc es' e)
    then have h: "sha384 E (hash_chain E ds @ d) = sha384 E (hash_chain E es' @ e)"
      using snoc.prems(1) by (simp add: hash_chain_snoc)
    show ?thesis
    proof (cases "hash_chain E ds @ d = hash_chain E es' @ e")
      case True
      moreover have "length d = length e" using snoc.prems(2) es by simp
      ultimately have "d = e" and "hash_chain E ds = hash_chain E es'" by simp_all
      moreover from this have "ds = es' \<or> collide E (chain_inputs E ds) (chain_inputs E es')
          \<or> hits_zero E (chain_inputs E ds \<union> chain_inputs E es')"
        using snoc.IH [of es'] snoc.prems(2) es by simp
      ultimately show ?thesis
        using es chain_inputs_butlast collide_mono hits_zero_mono [OF _ Un_mono] by metis
    next
      case False
      then show ?thesis
        using h chain_inputs_last [of E ds d] chain_inputs_last [of E es' e] es unfolding collide_def by blast
    qed
  qed
qed

lemma runtime_preimage_inject:
  assumes "CHR '':'' \<notin> set (ev_event e)" and "CHR '':'' \<notin> set (ev_event f)"
    and "runtime_preimage e = runtime_preimage f"
  shows "ev_event e = ev_event f \<and> ev_payload e = ev_payload f"
proof -
  let ?c = "word_of_nat (code CHR '':'') :: byte"
  have n: "?c \<notin> set (as_bytes s)" if "CHR '':'' \<notin> set s" for s
    using that by (auto simp: as_bytes_def) (metis byte_of_code_inject)
  have "as_bytes (ev_event e) @ ?c # ev_payload e = as_bytes (ev_event f) @ ?c # ev_payload f"
    using assms(3) by (simp add: runtime_preimage_def as_bytes_def)
  then show ?thesis using separator_unique [OF n n] assms(1,2) by auto
qed

definition runtime_log :: "event_log_entry list \<Rightarrow> bool" where
  "runtime_log l \<longleftrightarrow> (\<forall>e \<in> set l. ev_imr e = 3 \<longrightarrow>
     ev_event_type e = DSTACK_RUNTIME_EVENT_TYPE \<and> CHR '':'' \<notin> set (ev_event e))"

lemma find_filter: "(\<And>x. P x \<Longrightarrow> Q x) \<Longrightarrow> find P (filter Q xs) = find P xs"
  by (induction xs) auto

lemma imr3: "unat (ev_imr e) = 3 \<longleftrightarrow> ev_imr e = 3"
proof
  assume "unat (ev_imr e) = 3"
  then have "word_of_nat (unat (ev_imr e)) = (word_of_nat 3 :: u32)" by simp
  then show "ev_imr e = 3" by simp
qed simp

lemma same_events_compose_hash:
  "list_all2 (\<lambda>e f. ev_event e = ev_event f \<and> ev_payload e = ev_payload f) xs ys \<Longrightarrow>
   list_all (\<lambda>e. ev_imr e = 3 \<and> ev_event_type e = DSTACK_RUNTIME_EVENT_TYPE) (xs @ ys) \<Longrightarrow>
   event_log_compose_hash xs = event_log_compose_hash ys"
proof (induction rule: list_all2_induct)
  case Nil
  then show ?case by simp
next
  case (Cons e xs f ys)
  then show ?case by (auto simp: event_log_compose_hash_def is_compose_event_def)
qed

lemma digests_same_entries:
  assumes "map (event_digest E) xs = map (event_digest E) ys"
    and "\<forall>e \<in> set xs \<union> set ys. ev_event_type e = DSTACK_RUNTIME_EVENT_TYPE \<and> CHR '':'' \<notin> set (ev_event e)"
  shows "list_all2 (\<lambda>e f. ev_event e = ev_event f \<and> ev_payload e = ev_payload f) xs ys
    \<or> collide E (runtime_preimage ` set xs) (runtime_preimage ` set ys)"
proof (cases "collide E (runtime_preimage ` set xs) (runtime_preimage ` set ys)")
  case False
  have "ev_event e = ev_event f \<and> ev_payload e = ev_payload f"
    if "event_digest E e = event_digest E f" and "e \<in> set xs" and "f \<in> set ys" for e f
  proof (rule runtime_preimage_inject)
    show "runtime_preimage e = runtime_preimage f"
      using that assms(2) False by (auto simp: event_digest_def collide_def)
  qed (use that assms(2) in auto)
  moreover have "list_all2 (\<lambda>e f. event_digest E e = event_digest E f) xs ys"
    using assms(1) by (simp add: list_all2_conv_all_nth list_eq_iff_nth_eq)
  ultimately show ?thesis by (auto simp: list_all2_conv_all_nth)
qed simp

lemma compose_hash_imr3: "event_log_compose_hash (filter (\<lambda>e. ev_imr e = 3) l) = event_log_compose_hash l"
  unfolding event_log_compose_hash_def by (subst find_filter) (simp_all add: is_compose_event_def)

lemma replay_3_compose_hash:
  assumes "sha_law E" and "runtime_log l" and "runtime_log l'" and "replay E l ! 3 = replay E l' ! 3"
  shows "event_log_compose_hash l = event_log_compose_hash l'
    \<or> collide E (replay_inputs E l) (replay_inputs E l') \<or> hits_zero E (replay_inputs E l \<union> replay_inputs E l')"
proof -
  let ?f = "filter (\<lambda>e. ev_imr e = 3)"
  let ?d = "\<lambda>l. map (event_digest E) (?f l)"
  have rt: "\<forall>e \<in> set (?f l) \<union> set (?f l'). ev_imr e = 3 \<and> ev_event_type e = DSTACK_RUNTIME_EVENT_TYPE
      \<and> CHR '':'' \<notin> set (ev_event e)"
    using assms(2,3) unfolding runtime_log_def by auto
  have "length (event_digest E e) = 48" if "ev_event_type e = DSTACK_RUNTIME_EVENT_TYPE" for e
    using that assms(1) by (simp add: event_digest_def sha_lawD)
  with rt have "\<forall>d \<in> set (?d l) \<union> set (?d l'). length d = 48"
    unfolding set_map image_Un [symmetric] by blast
  moreover have "hash_chain E (?d l) = hash_chain E (?d l')"
    using assms(4) by (simp add: replay_nth imr3)
  ultimately have c: "?d l = ?d l' \<or> collide E (chain_inputs E (?d l)) (chain_inputs E (?d l'))
      \<or> hits_zero E (chain_inputs E (?d l) \<union> chain_inputs E (?d l'))"
    by (intro hash_chain_eq)
  have sub: "chain_inputs E (?d k) \<subseteq> replay_inputs E k" "runtime_preimage ` set (?f k) \<subseteq> replay_inputs E k" for k
    by (auto simp: replay_inputs_def)
  have "event_log_compose_hash (?f l) = event_log_compose_hash (?f l')
      \<or> collide E (runtime_preimage ` set (?f l)) (runtime_preimage ` set (?f l'))" if "?d l = ?d l'"
  proof -
    have "list_all (\<lambda>e. ev_imr e = 3 \<and> ev_event_type e = DSTACK_RUNTIME_EVENT_TYPE) (?f l @ ?f l')"
      using rt unfolding list_all_iff set_append by blast
    moreover have "\<forall>e \<in> set (?f l) \<union> set (?f l'). ev_event_type e = DSTACK_RUNTIME_EVENT_TYPE \<and> CHR '':'' \<notin> set (ev_event e)"
      using rt by blast
    ultimately show ?thesis using digests_same_entries [OF that] same_events_compose_hash by blast
  qed
  with c show ?thesis
    unfolding compose_hash_imr3 using collide_mono [of E, OF _ sub(1) [of l] sub(1) [of l']]
      collide_mono [of E, OF _ sub(2) [of l] sub(2) [of l']] hits_zero_mono [of E, OF _ Un_mono [OF sub(1) [of l] sub(1) [of l']]] by blast
qed

text \<open>An event presented as one of another type, carrying its own digest.\<close>

definition retyped :: "'x ext_scheme \<Rightarrow> u32 \<Rightarrow> event_log_entry \<Rightarrow> event_log_entry" where
  "retyped E t e = e\<lparr> ev_event_type := t, ev_digest := sha384 E (runtime_preimage e) \<rparr>"

lemma event_digest_retyped:
  "ev_event_type e = DSTACK_RUNTIME_EVENT_TYPE \<Longrightarrow> t \<noteq> DSTACK_RUNTIME_EVENT_TYPE \<Longrightarrow>
   event_digest E (retyped E t e) = event_digest E e"
  by (simp add: event_digest_def retyped_def)

lemma replay_retyped:
  assumes "ev_event_type e = DSTACK_RUNTIME_EVENT_TYPE" and "t \<noteq> DSTACK_RUNTIME_EVENT_TYPE"
  shows "replay E (pre @ retyped E t e # suf) = replay E (pre @ e # suf)"
proof -
  have "extend_register E (retyped E t e) = extend_register E e"
    by (simp add: fun_eq_iff extend_register_def Let_def event_digest_retyped [OF assms]) (simp add: retyped_def)
  then show ?thesis by (simp add: replay_def)
qed

lemma find_skip: "\<forall>x \<in> set pre. \<not> P x \<Longrightarrow> find P (pre @ xs) = find P xs"
  by (induction pre) auto

subsection \<open>Kata references\<close>

lemma kata_reference_values_pairwise:
  "kata_reference_values rs = Some rs' \<Longrightarrow>
     rs' = rs \<and> (\<forall>r \<in> set rs. kr_runtime_class r \<noteq> [] \<and> (kr_gpus r \<noteq> None \<longrightarrow> kr_gpu r))
     \<and> sorted_wrt (\<lambda>r s. \<not> kata_overlaps r s) rs"
  by (induction rs arbitrary: rs') (auto simp: list_ex_iff split: if_splits)

lemma kata_matches_overlap: "kata_matches r m \<Longrightarrow> kata_matches s m \<Longrightarrow> kata_overlaps r s"
  by (auto simp: kata_matches_def kata_overlaps_def list_ex_iff)

lemma filter_at_most_one:
  "sorted_wrt (\<lambda>r s. \<not> (P r \<and> P s)) xs \<Longrightarrow> length (filter P xs) \<le> 1"
  by (induction xs) (auto simp: filter_empty_conv)

lemma mr_config_digest_Ok:
  "length m = 48 \<Longrightarrow>
   mr_config_digest m = Ok d \<longleftrightarrow> length d = 32 \<and> d \<noteq> replicate 32 0 \<and> m = d @ replicate 16 0"
proof -
  assume l: "length m = 48"
  have z: "list_all (\<lambda>b. b = 0) (drop 32 m) \<longleftrightarrow> drop 32 m = replicate 16 0"
    using l by (auto simp: list_all_iff intro!: replicate_eqI)
  have "replicate 48 0 = replicate 32 (0 :: byte) @ replicate 16 0" by (simp add: replicate_add [symmetric])
  then have "m = replicate 48 0 \<longleftrightarrow> take 32 m = replicate 32 0 \<and> drop 32 m = replicate 16 0"
    using l by (metis append_eq_conv_conj append_take_drop_id length_replicate)
  then show ?thesis using l z
    by (auto simp: mr_config_digest_def) (metis append_take_drop_id)
qed

subsection \<open>Appraisal\<close>

lemma quote_policy_Ok:
  "quote_policy p st adv attrs = Ok () \<longleftrightarrow> st \<in> set (tcb_statuses p)
     \<and> set adv \<subseteq> set (tolerated_advisories p) \<and> attrs ! 0 AND 1 = 0"
  by (auto simp: quote_policy_def result_simps list_ex_iff)

text \<open>What an accepted quote proves whatever its kind.\<close>

definition quote_proved :: "'x ext_scheme \<Rightarrow> bytes \<Rightarrow> collateral \<Rightarrow> platform_document \<Rightarrow> time \<Rightarrow> verified_quote \<Rightarrow> bool" where
  "quote_proved E quote collateral doc now q \<longleftrightarrow>
     (\<exists>v r. qvl_verify E quote collateral (nat (seconds_of now)) = Some v \<and> qv_td10 v = Some r
        \<and> vq_report_data q = td_report_data r \<and> vq_mr_config_id q = td_mr_config_id r
        \<and> vq_measured q = \<lparr> m_mrtd = td_mr_td r, m_rtmr0 = td_rt_mr0 r, m_rtmr1 = td_rt_mr1 r,
             m_rtmr2 = td_rt_mr2 r, m_rtmr3 = td_rt_mr3 r \<rparr>
        \<and> qv_status v \<in> set (tcb_statuses (pd_policy doc))
        \<and> set (qv_advisory_ids v) \<subseteq> set (tolerated_advisories (pd_policy doc))
        \<and> td_attributes r ! 0 AND 1 = 0)"

lemma verify_quote_proved:
  "verify_quote E quote collateral (pd_policy doc) now = Ok q \<Longrightarrow> quote_proved E quote collateral doc now q"
  by (auto simp: verify_quote_def result_simps quote_policy_Ok quote_proved_def)

lemma kms_revision_listed_Ok:
  "kms_revision_listed doc h = Ok () \<longleftrightarrow> h \<in> kr_compose_hash ` set (pd_kms_revisions doc)"
  unfolding kms_revision_listed_def list_ex_iff by force

lemma find_in_set: "find P xs = Some x \<Longrightarrow> x \<in> set xs \<and> P x"
  by (auto simp: find_Some_iff)

lemma appraise_Ok:
  assumes "appraise E ev nonce spki xw doc coll now = Ok a"
  shows "\<exists>q. quote_proved E (e_quote ev) coll doc now q \<and> vq_report_data q = report_data E spki nonce xw
    \<and> replay E (e_event_log ev) = [m_rtmr0 (vq_measured q), m_rtmr1 (vq_measured q), m_rtmr2 (vq_measured q),
        m_rtmr3 (vq_measured q)]
    \<and> (\<exists>rv \<in> set (pd_reference_values doc). reference_matches (vq_measured q) rv \<and> ap_os_image a = rv_name rv)
    \<and> event_log_compose_hash (e_event_log ev) = Some (ap_compose_hash a)
    \<and> (xw \<noteq> None \<longrightarrow> ap_compose_hash a \<in> kr_compose_hash ` set (pd_kms_revisions doc))"
proof -
  from assms obtain q rv where v: "verify_quote E (e_quote ev) coll (pd_policy doc) now = Ok q"
    and rest: "vq_report_data q = report_data E spki nonce xw"
      "replay E (e_event_log ev) = [m_rtmr0 (vq_measured q), m_rtmr1 (vq_measured q), m_rtmr2 (vq_measured q),
        m_rtmr3 (vq_measured q)]"
    and f: "find (reference_matches (vq_measured q)) (pd_reference_values doc) = Some rv" "ap_os_image a = rv_name rv"
    and h: "event_log_compose_hash (e_event_log ev) = Some (ap_compose_hash a)"
      "xw \<noteq> None \<longrightarrow> kms_revision_listed doc (ap_compose_hash a) = Ok ()"
    by (auto simp: appraise_def result_simps Let_def split: if_splits)
  have rv: "\<exists>rv \<in> set (pd_reference_values doc). reference_matches (vq_measured q) rv \<and> ap_os_image a = rv_name rv"
    using find_in_set [OF f(1)] f(2) by blast
  show ?thesis
    by (rule exI [of _ q], intro conjI) (use verify_quote_proved [OF v] rest h rv in \<open>simp_all add: kms_revision_listed_Ok\<close>)
qed

lemma appraise_measured:
  assumes "appraise E ev nonce spki xw doc coll now = Ok a"
  shows "replay E (e_event_log ev) ! 3 = m_rtmr3 (ap_measured a)
    \<and> event_log_compose_hash (e_event_log ev) = Some (ap_compose_hash a)"
  using assms by (auto simp: appraise_def result_simps Let_def split: if_splits)

lemma kata_reference_of_Ok:
  "kata_reference_of q refs = Ok r \<Longrightarrow> r \<in> set refs \<and> kata_matches r (vq_measured q)
     \<and> (\<forall>s \<in> set refs. kr_runtime_class s \<noteq> [] \<and> kata_matches s (vq_measured q) \<longrightarrow> s = r)
     \<and> from_le (vq_td_attributes q) = KATA_TD_ATTRIBUTES \<and> from_le (vq_xfam q) = KATA_XFAM
     \<and> m_rtmr3 (vq_measured q) = replicate 48 0 \<and> vq_mr_signer_seam q = replicate 48 0"
proof -
  assume a: "kata_reference_of q refs = Ok r"
  then have f: "filter (\<lambda>r. kr_runtime_class r \<noteq> [] \<and> kata_matches r (vq_measured q)) refs = [r]"
    by (auto simp: kata_reference_of_def result_simps split: list.splits)
  then have "set (filter (\<lambda>r. kr_runtime_class r \<noteq> [] \<and> kata_matches r (vq_measured q)) refs) = {r}" by simp
  then show ?thesis using a by (auto simp: kata_reference_of_def result_simps split: list.splits)
qed

lemma appraise_kata_evidence_Ok:
  assumes "appraise_kata_evidence E ev nonce spki xw doc coll now = Ok a"
  shows "\<exists>q r. quote_proved E (k_quote ev) coll doc now q
    \<and> vq_report_data q = (if k_gpu ev = [] then report_data E spki nonce xw
                           else bind_gpus E (report_data E spki nonce xw) (k_gpu ev))
    \<and> r \<in> set (pd_kata_reference_values doc) \<and> kata_matches r (vq_measured q) \<and> ap_os_image a = kr_runtime_class r
    \<and> mr_config_digest (vq_mr_config_id q) = Ok (ap_compose_hash a)
    \<and> appraise_kata_gpus E r (vq_report_data q) (k_gpu ev) now = Ok (ap_gpu_serials a)
    \<and> (xw \<noteq> None \<longrightarrow> \<not> kr_gpu r \<and> ap_compose_hash a \<in> kr_compose_hash ` set (pd_kms_revisions doc))"
proof -
  from assms obtain kata where k: "appraise_kata E (k_quote ev)
      (if k_gpu ev \<noteq> [] then bind_gpus E (report_data E spki nonce xw) (k_gpu ev) else report_data E spki nonce xw)
      doc coll now = Ok kata"
    and n: "xw \<noteq> None \<longrightarrow> \<not> kr_gpu (ka_reference kata) \<and> kms_revision_listed doc (ka_init_data kata) = Ok ()"
    and g: "appraise_kata_gpus E (ka_reference kata) (vq_report_data (ka_quote kata)) (k_gpu ev) now = Ok (ap_gpu_serials a)"
    and a: "ap_os_image a = kr_runtime_class (ka_reference kata)" "ap_compose_hash a = ka_init_data kata"
    by (auto simp: appraise_kata_evidence_def result_simps Let_def split: if_splits)
  from k have v: "verify_quote E (k_quote ev) coll (pd_policy doc) now = Ok (ka_quote kata)"
    and rd: "vq_report_data (ka_quote kata) = (if k_gpu ev = [] then report_data E spki nonce xw
                           else bind_gpus E (report_data E spki nonce xw) (k_gpu ev))"
    and r: "kata_reference_of (ka_quote kata) (pd_kata_reference_values doc) = Ok (ka_reference kata)"
    and m: "mr_config_digest (vq_mr_config_id (ka_quote kata)) = Ok (ka_init_data kata)"
    by (auto simp: appraise_kata_def result_simps)
  from n have "xw \<noteq> None \<longrightarrow> \<not> kr_gpu (ka_reference kata)
      \<and> ap_compose_hash a \<in> kr_compose_hash ` set (pd_kms_revisions doc)"
    using a unfolding kms_revision_listed_Ok by simp
  then show ?thesis
    using verify_quote_proved [OF v] kata_reference_of_Ok [OF r] rd m g a
    by (intro exI [of _ "ka_quote kata"] exI [of _ "ka_reference kata"]) simp
qed

lemma take_report_data: "sha_law E \<Longrightarrow> take 32 (report_data E spki nonce xw) = sha256 E (spki @ nonce)"
  by (simp add: report_data_def sha_lawD)

lemma take_bind_gpus: "length rd = 64 \<Longrightarrow> take 32 (bind_gpus E rd gpus) = take 32 rd"
  by (simp add: bind_gpus_def)

lemma length_report_data: "sha_law E \<Longrightarrow> length (report_data E spki nonce xw) = 64"
  by (simp add: report_data_def sha_lawD split: option.splits)

text \<open>A Kata pod for the witnesses.\<close>

definition demo_class :: "byte \<Rightarrow> kata_reference" where
  "demo_class b = \<lparr> kr_runtime_class = ''kata'', kr_mrtd = [b], kr_rtmr0 = [[1], [2]], kr_rtmr1 = [3],
     kr_rtmr2 = [4], kr_gpu = False, kr_gpus = None \<rparr>"

definition demo_report :: td_report where
  "demo_report = \<lparr> td_report_data = report_data demo [1] [2] None, td_attributes = [0, 0, 0, 16, 0, 0, 0, 0],
     td_xfam = [0xe7, 0x1a, 6, 0, 0, 0, 0, 0], td_mr_config_id = replicate 32 7 @ replicate 16 0,
     td_mr_owner = replicate 48 0, td_mr_owner_config = replicate 48 0, td_mr_signer_seam = replicate 48 0,
     td_mr_td = [1], td_rt_mr0 = [2], td_rt_mr1 = [3], td_rt_mr2 = [4], td_rt_mr3 = replicate 48 0 \<rparr>"

definition demo_td :: ext where
  "demo_td = demo\<lparr> qvl_verify := \<lambda>_ _ _. Some \<lparr> qv_status = ''UpToDate'', qv_advisory_ids = [],
     qv_td10 = Some demo_report \<rparr> \<rparr>"

definition demo_doc :: platform_document where
  "demo_doc = \<lparr> pd_version = 1, pd_issued_at = [], pd_policy = \<lparr> tcb_statuses = [''UpToDate''],
     tolerated_advisories = [] \<rparr>, pd_reference_values = [], pd_kms_ca_pem = [], pd_kms_revisions = [],
     pd_signer = None, pd_catalog_key = None, pd_kata_reference_values = [demo_class 1, demo_class 2],
     pd_kata_policy = None \<rparr>"

definition demo_pod :: kata_evidence where
  "demo_pod = \<lparr> k_format = KATA_EVIDENCE_FORMAT, k_quote = [], k_gpu = [] \<rparr>"

lemma demo_td_sha: "sha_law demo_td"
  using demo_sha by (simp add: sha_law_def demo_td_def)

lemma demo_pod_appraised: "is_ok (appraise_kata_evidence demo_td demo_pod [2] [1] None demo_doc [] 0)"
proof -
  have r: "report_data demo_td [1] [2] None = report_data demo [1] [2] None"
    by (simp add: report_data_def demo_td_def)
  have q: "verify_quote demo_td [] [] (pd_policy demo_doc) 0 = Ok \<lparr> vq_report_data = report_data demo [1] [2] None,
      vq_td_attributes = [0, 0, 0, 16, 0, 0, 0, 0], vq_xfam = [0xe7, 0x1a, 6, 0, 0, 0, 0, 0],
      vq_mr_config_id = replicate 32 7 @ replicate 16 0, vq_mr_owner = replicate 48 0,
      vq_mr_owner_config = replicate 48 0, vq_mr_signer_seam = replicate 48 0,
      vq_measured = \<lparr> m_mrtd = [1], m_rtmr0 = [2], m_rtmr1 = [3], m_rtmr2 = [4], m_rtmr3 = replicate 48 0 \<rparr>,
      vq_tcb_status = ''UpToDate'', vq_advisories = [] \<rparr>"
    by (simp add: verify_quote_def demo_td_def demo_report_def demo_doc_def quote_policy_def)
  have c: "mr_config_digest (replicate 32 7 @ replicate 16 0) = Ok (replicate 32 7)"
    by (simp add: mr_config_digest_Ok)
  have d: "pd_kata_reference_values demo_doc = [demo_class 1, demo_class 2]" by (simp add: demo_doc_def)
  have j: "jcs demo_td v = Some (demo_jcs v)" for v by (simp add: demo_td_def demo_def)
  show ?thesis
    by (simp add: appraise_kata_evidence_def demo_pod_def appraise_kata_def q r c d kata_reference_of_def
        KATA_TD_ATTRIBUTES_def KATA_XFAM_def kata_matches_def demo_class_def appraise_kata_gpus_def
        evidence_sha256_def j)
qed

definition demo_event :: "bytes \<Rightarrow> event_log_entry" where
  "demo_event payload = \<lparr> ev_imr = 3, ev_event_type = DSTACK_RUNTIME_EVENT_TYPE, ev_digest = [],
     ev_event = COMPOSE_HASH_EVENT, ev_payload = payload \<rparr>"

text \<open>A dstack instance for the witnesses, quoted after replaying a log.\<close>

definition demo_vm :: "event_log_entry list \<Rightarrow> ext" where
  "demo_vm l = demo\<lparr> qvl_verify := \<lambda>_ _ _. Some \<lparr> qv_status = ''UpToDate'', qv_advisory_ids = [],
     qv_td10 = Some (demo_report\<lparr> td_rt_mr0 := replay demo l ! 0, td_rt_mr1 := replay demo l ! 1,
       td_rt_mr2 := replay demo l ! 2, td_rt_mr3 := replay demo l ! 3 \<rparr>) \<rparr> \<rparr>"

definition demo_vm_doc :: "event_log_entry list \<Rightarrow> platform_document" where
  "demo_vm_doc l = demo_doc\<lparr> pd_reference_values := [\<lparr> rv_name = ''dstack'', rv_mrtd = [1],
     rv_rtmr0 = replay demo l ! 0, rv_rtmr1 = replay demo l ! 1, rv_rtmr2 = replay demo l ! 2 \<rparr>] \<rparr>"

definition demo_evidence :: "event_log_entry list \<Rightarrow> evidence" where
  "demo_evidence l = \<lparr> e_format = EVIDENCE_FORMAT, e_quote = [], e_event_log = l \<rparr>"

lemma demo_vm_fields [simp]: "sha384 (demo_vm l) = sha384 demo" "sha256 (demo_vm l) = sha256 demo"
  "jcs (demo_vm l) v = Some (demo_jcs v)"
  by (simp_all add: demo_vm_def) (simp add: demo_def)

lemma demo_vm_sha: "sha_law (demo_vm l)"
  using demo_sha by (simp add: sha_law_def)

lemma replay_demo_vm [simp]: "replay (demo_vm l) l' = replay demo l'"
proof -
  have "extend_register (demo_vm l) = extend_register demo"
    by (simp add: fun_eq_iff extend_register_def event_digest_def Let_def)
  then show ?thesis by (simp add: replay_def)
qed

lemma demo_vm_appraised:
  assumes "replay demo l' = replay demo l" and "event_log_compose_hash l' = Some h"
  shows "\<exists>a. appraise (demo_vm l) (demo_evidence l') [2] [1] None (demo_vm_doc l) [] 0 = Ok a
    \<and> m_rtmr3 (ap_measured a) = replay demo l ! 3 \<and> ap_compose_hash a = h"
proof -
  have r: "report_data (demo_vm l) [1] [2] None = report_data demo [1] [2] None"
    by (simp add: report_data_def)
  obtain r0 r1 r2 r3 where rs: "replay demo l = [r0, r1, r2, r3]"
    using length_replay [of demo l] by (auto simp: length_Suc_conv numeral_eq_Suc)
  obtain q where q: "verify_quote (demo_vm l) [] [] (pd_policy (demo_vm_doc l)) 0 = Ok q"
    "vq_report_data q = report_data demo [1] [2] None"
    "vq_measured q = \<lparr> m_mrtd = [1], m_rtmr0 = r0, m_rtmr1 = r1, m_rtmr2 = r2, m_rtmr3 = r3 \<rparr>"
    by (simp add: verify_quote_def demo_vm_def demo_report_def demo_vm_doc_def demo_doc_def quote_policy_def rs)
  have "\<exists>a. appraise (demo_vm l) (demo_evidence l') [2] [1] None (demo_vm_doc l) [] 0 = Ok a
    \<and> ap_measured a = vq_measured q \<and> ap_compose_hash a = h"
    using q r rs assms by (simp add: appraise_def demo_evidence_def evidence_sha256_def demo_vm_doc_def reference_matches_def Let_def)
  then show ?thesis using q(3) rs by auto
qed

definition demo_vm_event :: event_log_entry where
  "demo_vm_event = \<lparr> ev_imr = 0, ev_event_type = 1, ev_digest = replicate 48 3, ev_event = [], ev_payload = [] \<rparr>"

section \<open>Properties\<close>

text \<open>
  C1. Every accepted appraisal, dstack or Kata, rests on a quote that verifies under the collateral
  at the current time, with an allowed TCB status, only tolerated advisories and no debug bit; its
  report data begins with the hash of the caller's key and the nonce; and for a KMS node the
  Revision is one the platform document lists.
\<close>

theorem appraisal_bound_to_key_and_nonce:
  assumes "sha_law E" and "appraise_instance E ev nonce spki xw doc coll now = Ok a"
  shows "\<exists>q. quote_proved E (evidence_quote ev) coll doc now q
    \<and> take 32 (vq_report_data q) = sha256 E (spki @ nonce)
    \<and> (\<forall>x. xw = Some x \<longrightarrow> drop 32 (vq_report_data q) = sha256 E x \<or> (\<exists>k. ev = Kata k \<and> k_gpu k \<noteq> []))
    \<and> (xw \<noteq> None \<longrightarrow> ap_compose_hash a \<in> kr_compose_hash ` set (pd_kms_revisions doc))"
proof (cases ev)
  case (Dstack e)
  with assms(2) have "appraise E e nonce spki xw doc coll now = Ok a" by (simp add: appraise_instance_def)
  from appraise_Ok [OF this] obtain q where "quote_proved E (e_quote e) coll doc now q"
    and "vq_report_data q = report_data E spki nonce xw"
    and "xw \<noteq> None \<longrightarrow> ap_compose_hash a \<in> kr_compose_hash ` set (pd_kms_revisions doc)"
    by (elim exE conjE) (rule that)
  moreover have "drop 32 (report_data E spki nonce (Some x)) = sha256 E x" for x
    using assms(1) by (simp add: report_data_def sha_lawD)
  ultimately show ?thesis using assms(1) Dstack
    by (intro exI [of _ q]) (auto simp: evidence_quote_def take_report_data)
next
  case (Kata k)
  with assms(2) have "appraise_kata_evidence E k nonce spki xw doc coll now = Ok a" by (simp add: appraise_instance_def)
  from appraise_kata_evidence_Ok [OF this] obtain q where "quote_proved E (k_quote k) coll doc now q"
    and rd: "vq_report_data q = (if k_gpu k = [] then report_data E spki nonce xw
                           else bind_gpus E (report_data E spki nonce xw) (k_gpu k))"
    and "xw \<noteq> None \<longrightarrow> ap_compose_hash a \<in> kr_compose_hash ` set (pd_kms_revisions doc)" by auto
  moreover have "take 32 (vq_report_data q) = sha256 E (spki @ nonce)"
    unfolding rd using assms(1) by (simp add: take_report_data take_bind_gpus length_report_data)
  moreover have "drop 32 (report_data E spki nonce (Some x)) = sha256 E x" for x
    using assms(1) by (simp add: report_data_def sha_lawD)
  ultimately show ?thesis using Kata by (intro exI [of _ q]) (auto simp: evidence_quote_def)
qed

theorem appraisal_bound_to_key_and_nonce_witness:
  "\<exists>a q. appraise_instance demo_td (Kata demo_pod) [2] [1] None demo_doc [] 0 = Ok a
     \<and> quote_proved demo_td (evidence_quote (Kata demo_pod)) [] demo_doc 0 q
     \<and> take 32 (vq_report_data q) = sha256 demo_td [1, 2]"
proof -
  from demo_pod_appraised obtain a where "appraise_instance demo_td (Kata demo_pod) [2] [1] None demo_doc [] 0 = Ok a"
    by (auto simp: is_ok_iff appraise_instance_def)
  with appraisal_bound_to_key_and_nonce [OF demo_td_sha this] show ?thesis by auto
qed

text \<open>
  C2. What binds the Revision to the quote in dstack evidence: two accepted appraisals whose quotes
  measure the same RTMR3, and whose RTMR3 entries are all runtime events with names free of \<open>:\<close>, name
  the same \<open>compose_hash\<close>, unless two different strings hashed in these two replays have the same
  SHA-384, or one of them hashes to the all-zero register.
\<close>

theorem rtmr3_determines_compose_hash:
  assumes "sha_law E"
    and "appraise E ev nonce spki xw doc coll now = Ok a" and "appraise E ev' nonce' spki' xw' doc' coll' now' = Ok a'"
    and "m_rtmr3 (ap_measured a) = m_rtmr3 (ap_measured a')"
    and "runtime_log (e_event_log ev)" and "runtime_log (e_event_log ev')"
  shows "ap_compose_hash a = ap_compose_hash a'
    \<or> (\<exists>x \<in> replay_inputs E (e_event_log ev). \<exists>y \<in> replay_inputs E (e_event_log ev').
          x \<noteq> y \<and> sha384 E x = sha384 E y)
    \<or> (\<exists>x \<in> replay_inputs E (e_event_log ev) \<union> replay_inputs E (e_event_log ev'). sha384 E x = replicate 48 0)"
proof -
  note m = appraise_measured [OF assms(2)] appraise_measured [OF assms(3)]
  have "replay E (e_event_log ev) ! 3 = replay E (e_event_log ev') ! 3" using m assms(4) by simp
  from replay_3_compose_hash [OF assms(1,5,6) this] m show ?thesis unfolding collide_def hits_zero_def by auto
qed

theorem rtmr3_determines_compose_hash_witness:
  "let l = [demo_vm_event, demo_event (replicate 32 7)];
       l' = [(demo_event (replicate 32 7))\<lparr> ev_digest := [1] \<rparr>, demo_vm_event];
       E = demo_vm l in
   l \<noteq> l' \<and> (\<exists>a a'. appraise E (demo_evidence l) [2] [1] None (demo_vm_doc l) [] 0 = Ok a
     \<and> appraise E (demo_evidence l') [2] [1] None (demo_vm_doc l) [] 0 = Ok a'
     \<and> (ap_compose_hash a = ap_compose_hash a'
        \<or> (\<exists>x \<in> replay_inputs E l. \<exists>y \<in> replay_inputs E l'. x \<noteq> y \<and> sha384 E x = sha384 E y)
        \<or> (\<exists>x \<in> replay_inputs E l \<union> replay_inputs E l'. sha384 E x = replicate 48 0)))"
proof -
  let ?l = "[demo_vm_event, demo_event (replicate 32 7)]"
  let ?l' = "[(demo_event (replicate 32 7))\<lparr> ev_digest := [1] \<rparr>, demo_vm_event]"
  have r: "replay demo ?l' = replay demo ?l"
    by (simp add: replay_def extend_register_def event_digest_def demo_vm_event_def demo_event_def
        runtime_preimage_def Let_def list_update_swap DSTACK_RUNTIME_EVENT_TYPE_def)
  have h: "event_log_compose_hash ?l = Some (replicate 32 7)" "event_log_compose_hash ?l' = Some (replicate 32 7)"
    by (simp_all add: event_log_compose_hash_def is_compose_event_def demo_vm_event_def demo_event_def)
  obtain a a' where a: "appraise (demo_vm ?l) (demo_evidence ?l) [2] [1] None (demo_vm_doc ?l) [] 0 = Ok a"
      "appraise (demo_vm ?l) (demo_evidence ?l') [2] [1] None (demo_vm_doc ?l) [] 0 = Ok a'"
      "m_rtmr3 (ap_measured a) = m_rtmr3 (ap_measured a')"
    using demo_vm_appraised [OF refl h(1)] demo_vm_appraised [OF r h(2)] by metis
  have d: "?l \<noteq> ?l'" by (simp add: demo_vm_event_def demo_event_def)
  have g: "e_event_log (demo_evidence l) = l" for l by (simp add: demo_evidence_def)
  have w: "runtime_log ?l" "runtime_log ?l'"
    by (simp_all add: runtime_log_def demo_vm_event_def demo_event_def COMPOSE_HASH_EVENT_def)
  have "ap_compose_hash a = ap_compose_hash a'
        \<or> (\<exists>x \<in> replay_inputs (demo_vm ?l) ?l. \<exists>y \<in> replay_inputs (demo_vm ?l) ?l'. x \<noteq> y \<and> sha384 (demo_vm ?l) x = sha384 (demo_vm ?l) y)
        \<or> (\<exists>x \<in> replay_inputs (demo_vm ?l) ?l \<union> replay_inputs (demo_vm ?l) ?l'. sha384 (demo_vm ?l) x = replicate 48 0)"
    using rtmr3_determines_compose_hash [OF demo_vm_sha a] w unfolding g by blast
  with a d show ?thesis unfolding Let_def by blast
qed

text \<open>
  C3. The hypothesis on the entries' type cannot be dropped, because \<open>appraise\<close> does not check it.
  Take accepted evidence whose log has a second \<open>compose-hash\<close> event after the first: the same
  quote, with the log that presents the first one as an event of another type carrying its digest,
  is accepted too, and the appraisal names the second event's hash as the Revision.
\<close>

theorem retyped_event_hides_compose_hash:
  assumes "appraise E ev nonce spki xw doc coll now = Ok a"
    and "e_event_log ev = pre @ e # suf" and "is_compose_event e" and "\<forall>x \<in> set pre. \<not> is_compose_event x"
    and "event_log_compose_hash suf = Some h"
    and "xw \<noteq> None \<longrightarrow> h \<in> kr_compose_hash ` set (pd_kms_revisions doc)"
    and "t \<noteq> DSTACK_RUNTIME_EVENT_TYPE"
    and "jcs E (evidence_json E (ev\<lparr> e_event_log := pre @ retyped E t e # suf \<rparr>)) = Some j"
  shows "ap_compose_hash a = ev_payload e
    \<and> appraise E (ev\<lparr> e_event_log := pre @ retyped E t e # suf \<rparr>) nonce spki xw doc coll now =
        Ok (a\<lparr> ap_compose_hash := h, ap_evidence_sha256 := sha256_text E j \<rparr>)"
proof -
  have e: "ev_event_type e = DSTACK_RUNTIME_EVENT_TYPE" using assms(3) by (simp add: is_compose_event_def)
  have r: "replay E (pre @ retyped E t e # suf) = replay E (e_event_log ev)"
    unfolding assms(2) by (rule replay_retyped [OF e assms(7)])
  have "\<not> is_compose_event (retyped E t e)" using assms(7) by (simp add: is_compose_event_def retyped_def)
  then have h: "event_log_compose_hash (pre @ retyped E t e # suf) = Some h"
    using assms(4,5) by (simp add: event_log_compose_hash_def find_skip)
  have p: "ap_compose_hash a = ev_payload e"
    using appraise_measured [OF assms(1)] assms(2-4)
    by (auto simp: event_log_compose_hash_def find_skip split: if_splits)
  have k: "(if xw \<noteq> None then kms_revision_listed doc h else Ok ()) = Ok ()"
    using assms(6) by (simp add: kms_revision_listed_Ok)
  have "evidence_sha256 E (evidence_json E (ev\<lparr> e_event_log := pre @ retyped E t e # suf \<rparr>)) = Ok (sha256_text E j)"
    using assms(8) by (simp add: evidence_sha256_def)
  with assms(1) r h k have "appraise E (ev\<lparr> e_event_log := pre @ retyped E t e # suf \<rparr>) nonce spki xw doc coll now =
        Ok (a\<lparr> ap_compose_hash := h, ap_evidence_sha256 := sha256_text E j \<rparr>)"
    by (auto simp: appraise_def Let_def result_simps simp del: if_split split del: if_split)
  with p show ?thesis by blast
qed


theorem retyped_event_hides_compose_hash_witness:
  "let l = [demo_event (replicate 32 1), demo_event (replicate 32 2)];
       shown = [retyped (demo_vm l) 0 (demo_event (replicate 32 1)), demo_event (replicate 32 2)] in
   \<exists>a a'. appraise (demo_vm l) (demo_evidence l) [2] [1] None (demo_vm_doc l) [] 0 = Ok a
     \<and> appraise (demo_vm l) (demo_evidence shown) [2] [1] None (demo_vm_doc l) [] 0 = Ok a'
     \<and> ap_compose_hash a = replicate 32 1 \<and> ap_compose_hash a' = replicate 32 2"
proof -
  let ?e = "demo_event (replicate 32 1)" let ?s = "[demo_event (replicate 32 2)]"
  let ?E = "demo_vm (?e # ?s)"
  have h: "event_log_compose_hash (?e # ?s) = Some (replicate 32 1)" "event_log_compose_hash ?s = Some (replicate 32 2)"
    by (simp_all add: event_log_compose_hash_def is_compose_event_def demo_event_def)
  obtain a where a: "appraise ?E (demo_evidence (?e # ?s)) [2] [1] None (demo_vm_doc (?e # ?s)) [] 0 = Ok a"
    using demo_vm_appraised [OF refl h(1)] by blast
  have p: "ev_payload ?e = replicate 32 1" by (simp add: demo_event_def)
  have u: "(demo_evidence (?e # ?s))\<lparr> e_event_log := l \<rparr> = demo_evidence l" for l by (simp add: demo_evidence_def)
  have "ap_compose_hash a = ev_payload ?e
    \<and> appraise ?E ((demo_evidence (?e # ?s))\<lparr> e_event_log := [] @ retyped ?E 0 ?e # ?s \<rparr>) [2] [1] None
        (demo_vm_doc (?e # ?s)) [] 0 =
      Ok (a\<lparr> ap_compose_hash := replicate 32 2, ap_evidence_sha256 := sha256_text ?E (demo_jcs (evidence_json ?E
        ((demo_evidence (?e # ?s))\<lparr> e_event_log := [] @ retyped ?E 0 ?e # ?s \<rparr>))) \<rparr>)"
    by (rule retyped_event_hides_compose_hash [OF a _ _ _ h(2)])
      (simp_all add: demo_evidence_def is_compose_event_def demo_event_def DSTACK_RUNTIME_EVENT_TYPE_def)
  then show ?thesis using a unfolding Let_def u p append_Nil by fastforce
qed

text \<open>
  In an accepted platform document at most one Kata runtime class matches any measurements, so a
  TD is never read as a GPU class and as a CPU class at once, whichever entry comes first.
\<close>

theorem kata_class_unique:
  assumes "kata_reference_values rs = Some rs'"
  shows "length (filter (\<lambda>r. kr_runtime_class r \<noteq> [] \<and> kata_matches r m) rs') \<le> 1
    \<and> (\<forall>r \<in> set rs'. kr_runtime_class r \<noteq> [] \<and> (kr_gpus r \<noteq> None \<longrightarrow> kr_gpu r))"
proof -
  note a = kata_reference_values_pairwise [OF assms]
  have "sorted_wrt (\<lambda>r s. \<not> ((kr_runtime_class r \<noteq> [] \<and> kata_matches r m) \<and> (kr_runtime_class s \<noteq> [] \<and> kata_matches s m))) rs"
    by (rule sorted_wrt_mono_rel [of _ "\<lambda>r s. \<not> kata_overlaps r s"]) (use a kata_matches_overlap in blast)+
  from filter_at_most_one [OF this] a show ?thesis by simp
qed

theorem kata_class_unique_witness:
  "kata_reference_values [demo_class 1, demo_class 2] = Some [demo_class 1, demo_class 2]
   \<and> length (filter (\<lambda>r. kr_runtime_class r \<noteq> [] \<and> kata_matches r
       \<lparr> m_mrtd = [1], m_rtmr0 = [2], m_rtmr1 = [3], m_rtmr2 = [4], m_rtmr3 = [] \<rparr>) [demo_class 1, demo_class 2]) \<le> 1"
proof -
  have "kata_reference_values [demo_class 1, demo_class 2] = Some [demo_class 1, demo_class 2]"
    by (simp add: demo_class_def kata_overlaps_def)
  with kata_class_unique [OF this] show ?thesis by blast
qed

text \<open>
  Accepted Kata evidence: the Revision digest it reports is the nonzero 32-byte digest in
  \<open>MRCONFIGID\<close>, followed by zeros, so a pod booted without init-data, or with a longer digest, is
  never accepted; the runtime class is the only one whose reference values match the quote, and its
  GPU evidence was appraised for that class.
\<close>

theorem kata_revision_measured:
  assumes "appraise_kata_evidence E ev nonce spki xw doc coll now = Ok a"
    and "\<And>v r. qvl_verify E (k_quote ev) coll (nat (seconds_of now)) = Some v \<Longrightarrow> qv_td10 v = Some r \<Longrightarrow>
           length (td_mr_config_id r) = 48"
  shows "\<exists>q r. quote_proved E (k_quote ev) coll doc now q \<and> length (ap_compose_hash a) = 32
    \<and> ap_compose_hash a \<noteq> replicate 32 0 \<and> vq_mr_config_id q = ap_compose_hash a @ replicate 16 0
    \<and> r \<in> set (pd_kata_reference_values doc) \<and> kata_matches r (vq_measured q) \<and> ap_os_image a = kr_runtime_class r
    \<and> appraise_kata_gpus E r (vq_report_data q) (k_gpu ev) now = Ok (ap_gpu_serials a)"
proof -
  from appraise_kata_evidence_Ok [OF assms(1)] obtain q r where q: "quote_proved E (k_quote ev) coll doc now q"
    and m: "mr_config_digest (vq_mr_config_id q) = Ok (ap_compose_hash a)"
    and r: "r \<in> set (pd_kata_reference_values doc)" "kata_matches r (vq_measured q)"
      "ap_os_image a = kr_runtime_class r"
      "appraise_kata_gpus E r (vq_report_data q) (k_gpu ev) now = Ok (ap_gpu_serials a)" by blast
  have "length (vq_mr_config_id q) = 48" using q assms(2) by (auto simp: quote_proved_def)
  from mr_config_digest_Ok [OF this] m q r show ?thesis by blast
qed

theorem kata_revision_measured_witness:
  "\<exists>a q. appraise_kata_evidence demo_td demo_pod [2] [1] None demo_doc [] 0 = Ok a
     \<and> quote_proved demo_td (k_quote demo_pod) [] demo_doc 0 q
     \<and> vq_mr_config_id q = ap_compose_hash a @ replicate 16 0"
proof -
  from demo_pod_appraised obtain a where a: "appraise_kata_evidence demo_td demo_pod [2] [1] None demo_doc [] 0 = Ok a"
    by (auto simp: is_ok_iff)
  have "\<exists>q r. quote_proved demo_td (k_quote demo_pod) [] demo_doc 0 q \<and> length (ap_compose_hash a) = 32
    \<and> ap_compose_hash a \<noteq> replicate 32 0 \<and> vq_mr_config_id q = ap_compose_hash a @ replicate 16 0
    \<and> r \<in> set (pd_kata_reference_values demo_doc) \<and> kata_matches r (vq_measured q) \<and> ap_os_image a = kr_runtime_class r
    \<and> appraise_kata_gpus demo_td r (vq_report_data q) (k_gpu demo_pod) 0 = Ok (ap_gpu_serials a)"
    by (rule kata_revision_measured [OF a]) (auto simp: demo_td_def demo_report_def)
  with a show ?thesis by blast
qed

end
