(* ===== verification/Channel_Frame.thy ===== *)
theory Channel_Frame
  imports Core_Json
begin

text \<open>
  \<^verbatim>\<open>crates/alpha-channel/src/lib.rs\<close> and \<^verbatim>\<open>crates/alpha-channel/src/frame.rs\<close>: the channel's errors and
  small helpers, then the frames of an open channel. A channel is a record passed through its
  operations. \<open>channel_step\<close> runs one operation of either end, in any order, and keeps what it
  returned; the properties are about every sequence of such steps.
\<close>

section \<open>Errors and helpers\<close>

datatype chan_error =
    PlatformSignature
  | ForeignCertificate
  | CertificateExpired
  | UnknownRevision compose_hash
  | ComposeMismatch
  | HandshakeSignature
  | Malformed
  | Rng
  | Seal
  | Open
  | Replayed u64
  | Exhausted
  | Truncated
  | SignatureInvalid
  | RequestStale
  | GrantExpired
  | ReceiptMismatch

fun chan_error_code :: "chan_error \<Rightarrow> string" where
  "chan_error_code PlatformSignature = ''platform_signature''"
| "chan_error_code ForeignCertificate = ''foreign_certificate''"
| "chan_error_code CertificateExpired = ''certificate_expired''"
| "chan_error_code (UnknownRevision _) = ''unknown_revision''"
| "chan_error_code ComposeMismatch = ''compose_mismatch''"
| "chan_error_code HandshakeSignature = ''handshake_signature''"
| "chan_error_code Malformed = ''malformed''"
| "chan_error_code Rng = ''rng''"
| "chan_error_code Seal = ''seal''"
| "chan_error_code Open = ''open''"
| "chan_error_code (Replayed _) = ''replayed''"
| "chan_error_code Exhausted = ''exhausted''"
| "chan_error_code Truncated = ''truncated''"
| "chan_error_code SignatureInvalid = ''signature_invalid''"
| "chan_error_code RequestStale = ''request_stale''"
| "chan_error_code GrantExpired = ''grant_expired''"
| "chan_error_code ReceiptMismatch = ''receipt_mismatch''"

definition unix_seconds :: "time \<Rightarrow> (int, chan_error) result" where
  "unix_seconds t =
     (if t < 0 \<or> 2 ^ 63 \<le> seconds_of t then Err Malformed else Ok (seconds_of t))"

definition rfc3339 :: "'x ext_scheme \<Rightarrow> time \<Rightarrow> (string, chan_error) result" where
  "rfc3339 E t = and_then (unix_seconds t) (\<lambda>s. ok_or (rfc3339_show E s) Malformed)"

definition from_unix_seconds :: "int \<Rightarrow> time option" where
  "from_unix_seconds s = (if s < 0 then None else Some (s * 1000000000))"

definition sha256_label :: "'x ext_scheme \<Rightarrow> bytes \<Rightarrow> string" where
  "sha256_label E bs = ''sha256:'' @ hex_encode (sha256 E bs)"

section \<open>Frames\<close>

definition MAX_REQUESTS :: u64 where "MAX_REQUESTS = 65536"
definition MORE :: byte where "MORE = 0"
definition END :: byte where "END = 1"

record request_frame =
  frame_channel :: string
  frame_seq :: u64
  frame_ct :: string

record channel =
  ch_id :: string
  ch_c2s :: bytes
  ch_s2c :: bytes
  ch_next_seq :: u64
  ch_responses :: "u64 \<rightharpoonup> u32 option"

definition seal :: "'x ext_scheme \<Rightarrow> bytes \<Rightarrow> bytes \<Rightarrow> bytes \<Rightarrow> bytes \<Rightarrow> (bytes, chan_error) result" where
  "seal E key nonce aad msg = ok_or (aes_gcm_enc E key nonce aad msg) Seal"

definition open_box :: "'x ext_scheme \<Rightarrow> bytes \<Rightarrow> bytes \<Rightarrow> bytes \<Rightarrow> bytes \<Rightarrow> (bytes, chan_error) result" where
  "open_box E key nonce aad msg = ok_or (aes_gcm_dec E key nonce aad msg) Open"

definition nonce :: "u64 \<Rightarrow> u32 \<Rightarrow> bytes" where
  "nonce seq index = be_bytes 8 (unat seq) @ be_bytes 4 (unat index)"

definition request_doc :: "string \<Rightarrow> u64 \<Rightarrow> string \<Rightarrow> string \<Rightarrow> json" where
  "request_doc cid seq meth path =
     jobj [(''channel'', JString cid), (''seq'', JNumber (PosInt seq)), (''method'', JString meth),
           (''path'', JString path)]"

definition response_doc :: "string \<Rightarrow> u64 \<Rightarrow> u32 \<Rightarrow> json" where
  "response_doc cid seq index =
     jobj [(''channel'', JString cid), (''seq'', JNumber (PosInt seq)),
           (''frame'', JNumber (PosInt (ucast index)))]"

definition request_aad :: "'x ext_scheme \<Rightarrow> string \<Rightarrow> u64 \<Rightarrow> string \<Rightarrow> string \<Rightarrow> (bytes, chan_error) result" where
  "request_aad E cid seq meth path = ok_or (jcs E (request_doc cid seq meth path)) Malformed"

definition response_aad :: "'x ext_scheme \<Rightarrow> string \<Rightarrow> u64 \<Rightarrow> u32 \<Rightarrow> (bytes, chan_error) result" where
  "response_aad E cid seq index = ok_or (jcs E (response_doc cid seq index)) Malformed"

definition open_detached :: "'x ext_scheme \<Rightarrow> string \<Rightarrow> bytes \<Rightarrow> request_frame \<Rightarrow> string \<Rightarrow> string \<Rightarrow>
    (bytes, chan_error) result" where
  "open_detached E cid c2s frame meth path =
     refuse_if (frame_channel frame \<noteq> cid) Open
     (refuse_if (frame_seq frame \<ge> MAX_REQUESTS) Exhausted
      (and_then (ok_or (b64_dec E (frame_ct frame)) Open) (\<lambda>ct.
       and_then (request_aad E cid (frame_seq frame) meth path) (\<lambda>aad.
       open_box E c2s (nonce (frame_seq frame) 0) aad ct))))"

definition channel_new :: "'x ext_scheme \<Rightarrow> bytes \<Rightarrow> bytes \<Rightarrow> bytes \<Rightarrow> channel" where
  "channel_new E rid c2s s2c = \<lparr> ch_id = b64_enc E rid, ch_c2s = c2s, ch_s2c = s2c, ch_next_seq = 0,
     ch_responses = Map.empty \<rparr>"

text \<open>\<open>w.checked_add(1)\<close>; \<open>- 1\<close> is the largest value of the type.\<close>

definition checked_succ :: "'w::len word \<Rightarrow> 'w word option" where
  "checked_succ w = (if w = - 1 then None else Some (w + 1))"

definition seal_request :: "'x ext_scheme \<Rightarrow> channel \<Rightarrow> string \<Rightarrow> string \<Rightarrow> bytes \<Rightarrow>
    (request_frame, chan_error) result \<times> channel" where
  "seal_request E ch meth path plaintext =
     (let seq = ch_next_seq ch in
      if seq \<ge> MAX_REQUESTS then (Err Exhausted, ch)
      else (case and_then (request_aad E (ch_id ch) seq meth path)
                   (\<lambda>aad. seal E (ch_c2s ch) (nonce seq 0) aad plaintext) of
              Err e \<Rightarrow> (Err e, ch)
            | Ok ct \<Rightarrow>
                (case checked_succ seq of
                   None \<Rightarrow> (Err Exhausted, ch)
                 | Some n \<Rightarrow>
                     (Ok \<lparr> frame_channel = ch_id ch, frame_seq = seq, frame_ct = b64_enc E ct \<rparr>,
                      ch\<lparr> ch_next_seq := n \<rparr>))))"

definition open_request :: "'x ext_scheme \<Rightarrow> channel \<Rightarrow> request_frame \<Rightarrow> string \<Rightarrow> string \<Rightarrow>
    (bytes, chan_error) result \<times> channel" where
  "open_request E ch frame meth path =
     (if ch_responses ch (frame_seq frame) \<noteq> None then (Err (Replayed (frame_seq frame)), ch)
      else (case open_detached E (ch_id ch) (ch_c2s ch) frame meth path of
              Err e \<Rightarrow> (Err e, ch)
            | Ok plaintext \<Rightarrow>
                (Ok plaintext,
                 ch\<lparr> ch_responses := (ch_responses ch)(frame_seq frame \<mapsto> Some 0) \<rparr>)))"

definition seal_response :: "'x ext_scheme \<Rightarrow> channel \<Rightarrow> u64 \<Rightarrow> bool \<Rightarrow> bytes \<Rightarrow>
    (string, chan_error) result \<times> channel" where
  "seal_response E ch seq fin plaintext =
     (case ch_responses ch seq of
        None \<Rightarrow> (Err Seal, ch)
      | Some None \<Rightarrow> (Err Seal, ch)
      | Some (Some index) \<Rightarrow>
          (case (if fin then Ok None
                 else and_then (ok_or (checked_succ index) Exhausted) (\<lambda>n. Ok (Some n))) of
             Err e \<Rightarrow> (Err e, ch)
           | Ok nxt \<Rightarrow>
               (case and_then (response_aad E (ch_id ch) seq index)
                       (\<lambda>aad. seal E (ch_s2c ch) (nonce seq index) aad
                                ((if fin then END else MORE) # plaintext)) of
                  Err e \<Rightarrow> (Err e, ch)
                | Ok ct \<Rightarrow>
                    (Ok (b64_enc E ct), ch\<lparr> ch_responses := (ch_responses ch)(seq \<mapsto> nxt) \<rparr>))))"

record response_reader =
  rd_id :: string
  rd_s2c :: bytes
  rd_seq :: u64
  rd_index :: u32
  rd_ended :: bool

definition response :: "channel \<Rightarrow> u64 \<Rightarrow> response_reader" where
  "response ch seq = \<lparr> rd_id = ch_id ch, rd_s2c = ch_s2c ch, rd_seq = seq, rd_index = 0,
     rd_ended = False \<rparr>"

definition flag_ended :: "byte \<Rightarrow> (bool, chan_error) result" where
  "flag_ended flag = (if flag = MORE then Ok False else if flag = END then Ok True else Err Open)"

definition open_line :: "'x ext_scheme \<Rightarrow> response_reader \<Rightarrow> string \<Rightarrow>
    (bytes option, chan_error) result \<times> response_reader" where
  "open_line E r line0 =
     (let line = trim line0 in
      if line = [] then (Ok None, r)
      else if rd_ended r then (Err Open, r)
      else (case and_then (ok_or (b64_dec E line) Open) (\<lambda>ct.
                 and_then (response_aad E (rd_id r) (rd_seq r) (rd_index r)) (\<lambda>aad.
                 and_then (open_box E (rd_s2c r) (nonce (rd_seq r) (rd_index r)) aad ct) (\<lambda>framed.
                 and_then (ok_or (case framed of [] \<Rightarrow> None | f # b \<Rightarrow> Some (f, b)) Open) (\<lambda>(flag, body).
                 and_then (flag_ended flag) (\<lambda>ended. Ok (ended, body)))))) of
              Err e \<Rightarrow> (Err e, r)
            | Ok (ended, body) \<Rightarrow>
                (case checked_succ (rd_index r) of
                   None \<Rightarrow> (Err Exhausted, r\<lparr> rd_ended := ended \<rparr>)
                 | Some n \<Rightarrow> (Ok (Some body), r\<lparr> rd_ended := ended, rd_index := n \<rparr>))))"

definition finish :: "response_reader \<Rightarrow> (unit, chan_error) result" where
  "finish r = (if rd_ended r then Ok () else Err Truncated)"

section \<open>Lemmas\<close>

lemma checked_succ_Some: "checked_succ w = Some v \<longleftrightarrow> w \<noteq> - 1 \<and> v = w + 1"
  by (auto simp: checked_succ_def)

lemma unat_checked_succ: "checked_succ w = Some v \<Longrightarrow> unat v = Suc (unat w)"
proof -
  assume "checked_succ w = Some v"
  then have "v = 1 + w" and "1 + w \<noteq> 0"
    by (auto simp: checked_succ_Some add.commute eq_neg_iff_add_eq_0)
  then show ?thesis by (simp add: unatSuc)
qed

lemma be_bytes_append_inject:
  assumes "x < 256 ^ n" and "y < 256 ^ n"
  shows "be_bytes n x @ a = be_bytes n y @ b \<longleftrightarrow> x = y \<and> a = b"
  using be_bytes_inject [OF assms] by (auto simp: append_eq_append_conv)

lemma nonce_inject: "nonce s i = nonce t j \<longleftrightarrow> s = t \<and> i = j"
proof -
  have s: "unat u < 256 ^ 8" for u :: u64
    using unsigned_less [of u] by (rule order_less_le_trans) simp
  have i: "unat u < 256 ^ 4" for u :: u32
    using unsigned_less [of u] by (rule order_less_le_trans) simp
  show ?thesis
    using be_bytes_inject [OF i i, of i j]
    by (auto simp: nonce_def be_bytes_append_inject [OF s s] unsigned_word_eqI)
qed

lemma length_nonce: "length (nonce s i) = 12"
  by (simp add: nonce_def)

lemma request_doc_inject:
  "request_doc i s m p = request_doc i' s' m' p' \<longleftrightarrow> i = i' \<and> s = s' \<and> m = m' \<and> p = p'"
proof
  assume "request_doc i s m p = request_doc i' s' m' p'"
  then show "i = i' \<and> s = s' \<and> m = m' \<and> p = p'"
    unfolding request_doc_def by (drule_tac jobj_inject [rotated 2]) auto
qed simp

lemma uint_ucast_32: "uint (ucast g :: u64) = uint g" for g :: u32
proof -
  have "uint g < 2 ^ 32" using unsigned_less [of g] by simp
  then show ?thesis by (simp add: unsigned_ucast_eq take_bit_eq_mod)
qed

lemma canonical_request_doc: "s < MAX_REQUESTS \<Longrightarrow> canonical_json (request_doc i s m p)"
  by (auto simp: request_doc_def MAX_REQUESTS_def word_less_def intro!: canonical_jobj)

lemma canonical_response_doc: "s < MAX_REQUESTS \<Longrightarrow> canonical_json (response_doc i s f)"
  using uint_lt2p [of f]
  by (auto simp: response_doc_def MAX_REQUESTS_def word_less_def uint_ucast_32 intro!: canonical_jobj)

lemma response_doc_inject:
  "response_doc i s f = response_doc i' s' f' \<longleftrightarrow> i = i' \<and> s = s' \<and> f = f'"
proof
  assume "response_doc i s f = response_doc i' s' f'"
  then have "i = i' \<and> s = s' \<and> (ucast f :: u64) = ucast f'"
    unfolding response_doc_def by (drule_tac jobj_inject [rotated 2]) auto
  moreover have "uint (ucast g :: u64) = uint g" for g :: u32 by (rule uint_ucast_32)
  then have "(ucast f :: u64) = ucast f' \<Longrightarrow> f = f'" by (metis word_uint_eq_iff)
  ultimately show "i = i' \<and> s = s' \<and> f = f'" by blast
qed simp

text \<open>One operation of either end, in a trace of what was sealed: the caller's arguments and the output.\<close>

datatype chan_op =
    SealRequest string string bytes
  | OpenRequest request_frame string string
  | SealResponse u64 bool bytes

record sent_request =
  sq_meth :: string
  sq_path :: string
  sq_text :: bytes
  sq_frame :: request_frame

record sent_line =
  sl_seq :: u64
  sl_fin :: bool
  sl_text :: bytes
  sl_line :: string

record chan_trace =
  tr_ch :: channel
  tr_requests :: "sent_request list"
  tr_lines :: "sent_line list"

definition channel_step :: "'x ext_scheme \<Rightarrow> chan_op \<Rightarrow> chan_trace \<Rightarrow> chan_trace" where
  "channel_step E op t =
     (case op of
        SealRequest meth path x \<Rightarrow>
          (case seal_request E (tr_ch t) meth path x of
             (Ok f, ch) \<Rightarrow> t\<lparr> tr_ch := ch, tr_requests := tr_requests t
               @ [\<lparr> sq_meth = meth, sq_path = path, sq_text = x, sq_frame = f \<rparr>] \<rparr>
           | (Err e, ch) \<Rightarrow> t\<lparr> tr_ch := ch \<rparr>)
      | OpenRequest f meth path \<Rightarrow> t\<lparr> tr_ch := snd (open_request E (tr_ch t) f meth path) \<rparr>
      | SealResponse seq fin x \<Rightarrow>
          (case seal_response E (tr_ch t) seq fin x of
             (Ok l, ch) \<Rightarrow> t\<lparr> tr_ch := ch, tr_lines := tr_lines t
               @ [\<lparr> sl_seq = seq, sl_fin = fin, sl_text = x, sl_line = l \<rparr>] \<rparr>
           | (Err e, ch) \<Rightarrow> t\<lparr> tr_ch := ch \<rparr>))"

definition trace_start :: "channel \<Rightarrow> chan_trace" where
  "trace_start ch = \<lparr> tr_ch = ch, tr_requests = [], tr_lines = [] \<rparr>"

text \<open>A frame, or a line of a response, is the encryption of what the caller gave under this nonce.\<close>

definition request_under :: "'x ext_scheme \<Rightarrow> string \<Rightarrow> bytes \<Rightarrow> bytes \<Rightarrow> sent_request \<Rightarrow> bool" where
  "request_under E cid key n s \<longleftrightarrow> (\<exists>aad ct.
     jcs E (request_doc cid (frame_seq (sq_frame s)) (sq_meth s) (sq_path s)) = Some aad
     \<and> aes_gcm_enc E key n aad (sq_text s) = Some ct \<and> frame_ct (sq_frame s) = b64_enc E ct)"

definition line_under :: "'x ext_scheme \<Rightarrow> string \<Rightarrow> bytes \<Rightarrow> bytes \<Rightarrow> sent_line \<Rightarrow> bool" where
  "line_under E cid key n s \<longleftrightarrow> (\<exists>index aad ct. n = be_bytes 8 (unat (sl_seq s)) @ be_bytes 4 (unat index)
     \<and> jcs E (response_doc cid (sl_seq s) index) = Some aad
     \<and> aes_gcm_enc E key n aad ((if sl_fin s then END else MORE) # sl_text s) = Some ct
     \<and> sl_line s = b64_enc E ct)"

definition used_up :: "(u64 \<rightharpoonup> u32 option) \<Rightarrow> u64 \<Rightarrow> u32 \<Rightarrow> bool" where
  "used_up rs seq i \<longleftrightarrow> (case rs seq of None \<Rightarrow> False | Some None \<Rightarrow> True | Some (Some j) \<Rightarrow> i < j)"

definition chan_inv :: "'x ext_scheme \<Rightarrow> string \<Rightarrow> bytes \<Rightarrow> bytes \<Rightarrow> chan_trace \<Rightarrow> bool" where
  "chan_inv E cid c2s s2c t \<longleftrightarrow>
     ch_id (tr_ch t) = cid \<and> ch_c2s (tr_ch t) = c2s \<and> ch_s2c (tr_ch t) = s2c
     \<and> ch_next_seq (tr_ch t) \<le> MAX_REQUESTS
     \<and> list_all2 (\<lambda>i s. frame_seq (sq_frame s) = word_of_nat i \<and> request_under E cid c2s (nonce (word_of_nat i) 0) s)
         [0 ..< unat (ch_next_seq (tr_ch t))] (tr_requests t)
     \<and> (\<exists>ps. list_all2 (\<lambda>(seq, i) s. line_under E cid s2c (nonce seq i) s) ps (tr_lines t) \<and> distinct ps
          \<and> (\<forall>(seq, i) \<in> set ps. used_up (ch_responses (tr_ch t)) seq i))"

definition chan_below :: "chan_trace \<Rightarrow> chan_trace \<Rightarrow> bool" where
  "chan_below t u \<longleftrightarrow> dom (ch_responses (tr_ch t)) \<subseteq> dom (ch_responses (tr_ch u))
     \<and> ch_next_seq (tr_ch t) \<le> ch_next_seq (tr_ch u)
     \<and> (\<forall>seq. ch_responses (tr_ch t) seq = Some None \<longrightarrow> ch_responses (tr_ch u) seq = Some None)"

lemma seal_request_Ok:
  assumes "seal_request E ch meth path x = (Ok f, ch')"
  shows "\<exists>aad ct. ch_next_seq ch < MAX_REQUESTS
    \<and> request_aad E (ch_id ch) (ch_next_seq ch) meth path = Ok aad
    \<and> aes_gcm_enc E (ch_c2s ch) (nonce (ch_next_seq ch) 0) aad x = Some ct
    \<and> f = \<lparr> frame_channel = ch_id ch, frame_seq = ch_next_seq ch, frame_ct = b64_enc E ct \<rparr>
    \<and> ch' = ch\<lparr> ch_next_seq := ch_next_seq ch + 1 \<rparr>"
  using assms
  by (fastforce simp: seal_request_def Let_def seal_def result_simps checked_succ_def
      split: if_split_asm result.split_asm)

lemma seal_request_Err: "seal_request E ch meth path x = (Err e, ch') \<Longrightarrow> ch' = ch"
  by (auto simp: seal_request_def Let_def split: if_split_asm result.split_asm option.split_asm)

lemma open_request_Ok:
  assumes "open_request E ch f meth path = (Ok x, ch')"
  shows "ch_responses ch (frame_seq f) = None
    \<and> open_detached E (ch_id ch) (ch_c2s ch) f meth path = Ok x
    \<and> ch' = ch\<lparr> ch_responses := (ch_responses ch)(frame_seq f \<mapsto> Some 0) \<rparr>"
  using assms by (simp add: open_request_def split: if_split_asm result.split_asm)

lemma open_request_Err: "open_request E ch f meth path = (Err e, ch') \<Longrightarrow> ch' = ch"
  by (auto simp: open_request_def split: if_split_asm result.split_asm)

lemma seal_response_Ok:
  assumes "seal_response E ch seq fin x = (Ok l, ch')"
  shows "\<exists>i aad ct nxt. ch_responses ch seq = Some (Some i)
    \<and> response_aad E (ch_id ch) seq i = Ok aad
    \<and> aes_gcm_enc E (ch_s2c ch) (nonce seq i) aad ((if fin then END else MORE) # x) = Some ct
    \<and> (if fin then nxt = None else i \<noteq> - 1 \<and> nxt = Some (i + 1))
    \<and> l = b64_enc E ct \<and> ch' = ch\<lparr> ch_responses := (ch_responses ch)(seq \<mapsto> nxt) \<rparr>"
proof -
  obtain i where i: "ch_responses ch seq = Some (Some i)"
    using assms by (auto simp: seal_response_def split: option.split_asm)
  then obtain nxt where n: "(if fin then Ok None
      else and_then (ok_or (checked_succ i) Exhausted) (\<lambda>n. Ok (Some n))) = Ok nxt"
    and a: "(case and_then (response_aad E (ch_id ch) seq i)
        (\<lambda>aad. seal E (ch_s2c ch) (nonce seq i) aad ((if fin then END else MORE) # x)) of
          Err e \<Rightarrow> (Err e, ch)
        | Ok ct \<Rightarrow> (Ok (b64_enc E ct), ch\<lparr> ch_responses := (ch_responses ch)(seq \<mapsto> nxt) \<rparr>)) = (Ok l, ch')"
    using assms by (auto simp: seal_response_def split: result.split_asm)
  have "if fin then nxt = None else i \<noteq> - 1 \<and> nxt = Some (i + 1)"
    using n by (auto simp: result_simps checked_succ_Some split: if_split_asm)
  moreover have "\<exists>aad ct. response_aad E (ch_id ch) seq i = Ok aad
    \<and> aes_gcm_enc E (ch_s2c ch) (nonce seq i) aad ((if fin then END else MORE) # x) = Some ct
    \<and> l = b64_enc E ct \<and> ch' = ch\<lparr> ch_responses := (ch_responses ch)(seq \<mapsto> nxt) \<rparr>"
    using a by (fastforce simp: seal_def result_simps split: result.split_asm)
  ultimately show ?thesis using i by blast
qed

lemma seal_response_Err: "seal_response E ch seq fin x = (Err e, ch') \<Longrightarrow> ch' = ch"
  by (auto simp: seal_response_def split: option.split_asm result.split_asm)

lemma less_succ: "i \<noteq> - 1 \<Longrightarrow> j < i + 1 \<longleftrightarrow> j \<le> i" for i j :: "'w::len word"
  using unat_checked_succ [of i "i + 1"] by (simp add: checked_succ_Some word_less_nat_alt word_le_nat_alt less_Suc_eq_le)

lemma used_up_mono:
  "used_up rs seq i \<Longrightarrow> rs s = Some (Some k) \<Longrightarrow> nxt = None \<or> (\<exists>j. nxt = Some j \<and> k \<le> j) \<Longrightarrow>
   used_up (rs(s \<mapsto> nxt)) seq i"
  by (cases "seq = s") (auto simp: used_up_def split: option.splits)

lemma next_seq_succ:
  "s < MAX_REQUESTS \<Longrightarrow> unat (s + 1) = Suc (unat s) \<and> s + 1 \<le> MAX_REQUESTS \<and> s \<le> s + 1"
proof -
  assume s: "s < MAX_REQUESTS"
  then have "s \<noteq> - 1" by (auto simp: MAX_REQUESTS_def)
  then have u: "unat (s + 1) = Suc (unat s)" using unat_checked_succ [of s] by (simp add: checked_succ_def)
  with s show ?thesis by (auto simp: word_le_nat_alt word_less_nat_alt)
qed

lemma chan_inv_start:
  "chan_inv E (b64_enc E rid) c2s s2c (trace_start (channel_new E rid c2s s2c))"
  by (simp add: chan_inv_def trace_start_def channel_new_def)

lemma seal_request_inv:
  assumes "chan_inv E cid c2s s2c t" and "seal_request E (tr_ch t) meth path x = (Ok f, ch)"
  shows "chan_inv E cid c2s s2c (t\<lparr> tr_ch := ch,
    tr_requests := tr_requests t @ [\<lparr> sq_meth = meth, sq_path = path, sq_text = x, sq_frame = f \<rparr>] \<rparr>)"
proof -
  let ?seq = "ch_next_seq (tr_ch t)"
  from seal_request_Ok [OF assms(2)] obtain aad ct where lt: "?seq < MAX_REQUESTS"
    and aad: "jcs E (request_doc (ch_id (tr_ch t)) ?seq meth path) = Some aad"
    and ct: "aes_gcm_enc E (ch_c2s (tr_ch t)) (nonce ?seq 0) aad x = Some ct"
    and f: "f = \<lparr> frame_channel = ch_id (tr_ch t), frame_seq = ?seq, frame_ct = b64_enc E ct \<rparr>"
    and ch: "ch = (tr_ch t)\<lparr> ch_next_seq := ?seq + 1 \<rparr>" by (auto simp: request_aad_def result_simps)
  have "request_under E (ch_id (tr_ch t)) (ch_c2s (tr_ch t)) (nonce ?seq 0)
      \<lparr> sq_meth = meth, sq_path = path, sq_text = x, sq_frame = f \<rparr>"
    using aad ct f by (simp add: request_under_def)
  moreover have "length (tr_requests t) = unat ?seq"
    using assms(1) by (auto simp: chan_inv_def dest: list_all2_lengthD)
  ultimately show ?thesis using assms(1) next_seq_succ [OF lt] f ch
    by (simp add: chan_inv_def list_all2_append)
qed

lemma open_request_inv:
  assumes "chan_inv E cid c2s s2c t" and "open_request E (tr_ch t) f meth path = (Ok x, ch)"
  shows "chan_inv E cid c2s s2c (t\<lparr> tr_ch := ch \<rparr>)"
proof -
  from open_request_Ok [OF assms(2)] have n: "ch_responses (tr_ch t) (frame_seq f) = None" and
    ch: "ch = (tr_ch t)\<lparr> ch_responses := (ch_responses (tr_ch t))(frame_seq f \<mapsto> Some 0) \<rparr>" by blast+
  have "used_up ((ch_responses (tr_ch t))(frame_seq f \<mapsto> Some 0)) s i"
    if "used_up (ch_responses (tr_ch t)) s i" for s i
    using that n by (cases "s = frame_seq f") (auto simp: used_up_def)
  with ch assms(1) show ?thesis by (fastforce simp: chan_inv_def)
qed

lemma seal_response_inv:
  assumes "chan_inv E cid c2s s2c t" and "seal_response E (tr_ch t) seq fin x = (Ok l, ch)"
  shows "chan_inv E cid c2s s2c (t\<lparr> tr_ch := ch,
    tr_lines := tr_lines t @ [\<lparr> sl_seq = seq, sl_fin = fin, sl_text = x, sl_line = l \<rparr>] \<rparr>)"
proof -
  let ?old = "ch_responses (tr_ch t)"
  from seal_response_Ok [OF assms(2)] obtain i aad ct nxt where i: "?old seq = Some (Some i)"
    and aad: "jcs E (response_doc (ch_id (tr_ch t)) seq i) = Some aad"
    and ct: "aes_gcm_enc E (ch_s2c (tr_ch t)) (nonce seq i) aad ((if fin then END else MORE) # x) = Some ct"
    and n: "if fin then nxt = None else i \<noteq> - 1 \<and> nxt = Some (i + 1)" and l: "l = b64_enc E ct"
    and ch: "ch = (tr_ch t)\<lparr> ch_responses := ?old(seq \<mapsto> nxt) \<rparr>"
    by (auto simp: response_aad_def result_simps)
  let ?rs = "?old(seq \<mapsto> nxt)"
  have up: "nxt = None \<or> (\<exists>j. nxt = Some j \<and> i \<le> j)" using n less_succ [of i i] by (cases fin) auto
  have new: "used_up ?rs seq i" using n less_succ [of i i] by (cases fin) (auto simp: used_up_def)
  have old: "used_up ?rs s j" if "used_up ?old s j" for s j using used_up_mono [OF that i up] .
  from assms(1) obtain ps where ps: "list_all2 (\<lambda>(seq, i) s. line_under E cid s2c (nonce seq i) s) ps (tr_lines t)"
    "distinct ps" "\<forall>(seq, i) \<in> set ps. used_up ?old seq i" by (auto simp: chan_inv_def)
  have "line_under E cid s2c (nonce seq i) \<lparr> sl_seq = seq, sl_fin = fin, sl_text = x, sl_line = l \<rparr>"
    using assms(1) aad ct l unfolding line_under_def by (auto simp: chan_inv_def nonce_def)
  then have "list_all2 (\<lambda>(seq, i) s. line_under E cid s2c (nonce seq i) s) (ps @ [(seq, i)])
      (tr_lines t @ [\<lparr> sl_seq = seq, sl_fin = fin, sl_text = x, sl_line = l \<rparr>])"
    using ps(1) list_all2_lengthD [OF ps(1)] by (simp add: list_all2_append)
  moreover have "distinct (ps @ [(seq, i)])" using ps(2,3) i by (auto simp: used_up_def)
  moreover have "\<forall>(s, j) \<in> set (ps @ [(seq, i)]). used_up ?rs s j" using ps(3) new old by auto
  ultimately have "\<exists>ps. list_all2 (\<lambda>(seq, i) s. line_under E cid s2c (nonce seq i) s) ps
      (tr_lines t @ [\<lparr> sl_seq = seq, sl_fin = fin, sl_text = x, sl_line = l \<rparr>])
      \<and> distinct ps \<and> (\<forall>(s, j) \<in> set ps. used_up ?rs s j)" by blast
  then show ?thesis using assms(1) ch by (simp add: chan_inv_def)
qed

lemma trace_ch_same: "t\<lparr> tr_ch := tr_ch t \<rparr> = t"
  by simp

lemma channel_step_inv: "chan_inv E cid c2s s2c t \<Longrightarrow> chan_inv E cid c2s s2c (channel_step E op t)"
  by (auto simp: channel_step_def seal_request_inv seal_response_inv
      dest!: seal_request_Err seal_response_Err split: chan_op.split prod.split result.split)
    (metis open_request_Err open_request_inv prod.collapse result.exhaust trace_ch_same)

lemma channel_step_below: "chan_below t (channel_step E op t)"
proof (cases op)
  case (SealRequest meth path x)
  then show ?thesis
    by (auto simp: channel_step_def chan_below_def dest!: seal_request_Err seal_request_Ok
        simp: next_seq_succ split: prod.split result.split)
next
  case (OpenRequest f meth path)
  obtain r ch where o: "open_request E (tr_ch t) f meth path = (r, ch)" by (cases "open_request E (tr_ch t) f meth path")
  show ?thesis
    using OpenRequest o open_request_Ok [of E "tr_ch t" f meth path _ ch] open_request_Err [of E "tr_ch t" f meth path _ ch]
    by (cases r) (auto simp: channel_step_def chan_below_def)
next
  case (SealResponse seq fin x)
  then show ?thesis
    by (auto simp: channel_step_def chan_below_def dest!: seal_response_Err seal_response_Ok
        split: prod.split result.split)
qed

interpretation chan: stepper "channel_step E" "chan_inv E cid c2s s2c" for E cid c2s s2c
  by standard (rule channel_step_inv)

interpretation chan_order: monotone_stepper "channel_step E" "\<lambda>_. True" chan_below for E
proof
  show "chan_below s u" if "chan_below s t" and "chan_below t u" for s t u
    using that unfolding chan_below_def by (meson order_trans)
qed (simp_all add: channel_step_below, simp add: chan_below_def)

text \<open>
  A box made for one nonce and associated data that opens under another: what an attacker would
  have to produce to move a frame.
\<close>

definition aead_forgery :: "'x ext_scheme \<Rightarrow> bytes \<Rightarrow> bool" where
  "aead_forgery E k \<longleftrightarrow> (\<exists>n a m n' a' m' c. (n, a) \<noteq> (n', a')
     \<and> aes_gcm_enc E k n a m = Some c \<and> aes_gcm_dec E k n' a' c = Some m')"

lemma open_detached_Ok:
  "open_detached E i k f meth path = Ok x \<longleftrightarrow>
     frame_channel f = i \<and> frame_seq f < MAX_REQUESTS
     \<and> (\<exists>ct aad. b64_dec E (frame_ct f) = Some ct \<and> jcs E (request_doc i (frame_seq f) meth path) = Some aad
           \<and> aes_gcm_dec E k (nonce (frame_seq f) 0) aad ct = Some x)"
  by (auto simp: open_detached_def request_aad_def open_box_def result_simps not_le)

text \<open>Sealing the lines of one response, and reading a stream of lines.\<close>

fun seal_all :: "'x ext_scheme \<Rightarrow> channel \<Rightarrow> u64 \<Rightarrow> (bool \<times> bytes) list \<Rightarrow> (string list, chan_error) result" where
  "seal_all E ch seq [] = Ok []"
| "seal_all E ch seq ((fin, x) # items) =
     (case seal_response E ch seq fin x of
        (Err e, _) \<Rightarrow> Err e
      | (Ok l, ch') \<Rightarrow> and_then (seal_all E ch' seq items) (\<lambda>ls. Ok (l # ls)))"

fun read_all :: "'x ext_scheme \<Rightarrow> response_reader \<Rightarrow> string list \<Rightarrow>
    (bytes list, chan_error) result \<times> response_reader" where
  "read_all E r [] = (Ok [], r)"
| "read_all E r (l # ls) =
     (case open_line E r l of
        (Err e, r') \<Rightarrow> (Err e, r')
      | (Ok x, r') \<Rightarrow>
          (case read_all E r' ls of
             (Err e, r'') \<Rightarrow> (Err e, r'')
           | (Ok ys, r'') \<Rightarrow> (Ok ((case x of None \<Rightarrow> [] | Some y \<Rightarrow> [y]) @ ys), r'')))"

lemma open_line_sealed:
  assumes laws: "b64_law E" "aead_law E" and r: "\<not> rd_ended r" "rd_index r \<noteq> - 1"
    and aad: "response_aad E (rd_id r) (rd_seq r) (rd_index r) = Ok aad"
    and ct: "aes_gcm_enc E (rd_s2c r) (nonce (rd_seq r) (rd_index r)) aad ((if fin then END else MORE) # x) = Some ct"
  shows "open_line E r (b64_enc E ct) = (Ok (Some x), r\<lparr> rd_ended := fin, rd_index := rd_index r + 1 \<rparr>)"
proof -
  have "trim (b64_enc E ct) = b64_enc E ct" by (rule trim_graph) (rule b64_graph [OF laws(1)])
  moreover have "b64_enc E ct \<noteq> []" using aead_length [OF laws(2) ct] b64_enc_Nil [OF laws(1), of ct] by force
  moreover have "open_box E (rd_s2c r) (nonce (rd_seq r) (rd_index r)) aad ct = Ok ((if fin then END else MORE) # x)"
    using ct by (simp add: open_box_def ok_or_eq_Ok aead_iff [OF laws(2)])
  ultimately show ?thesis using r aad
    by (simp add: open_line_def b64_decode_encode [OF laws(1)] checked_succ_def flag_ended_def MORE_def END_def)
qed

lemma seal_all_after_end:
  "ch_responses ch seq = Some None \<Longrightarrow> seal_all E ch seq items = Ok ls \<Longrightarrow> items = [] \<and> ls = []"
  by (cases items) (auto simp: seal_response_def)

lemma stream_read_back:
  assumes laws: "b64_law E" "aead_law E"
    and "seal_all E ch seq items = Ok lines" and "ch_responses ch seq = Some (Some i)"
    and "unat i + length items < 2 ^ 32" and "n \<le> length lines"
  shows "length lines = length items
    \<and> (\<exists>r. read_all E \<lparr> rd_id = ch_id ch, rd_s2c = ch_s2c ch, rd_seq = seq, rd_index = i, rd_ended = False \<rparr>
              (take n lines) = (Ok (map snd (take n items)), r)
          \<and> rd_ended r = (0 < n \<and> n = length items \<and> fst (last items)))"
  using assms(3-)
proof (induction items arbitrary: ch i lines n)
  case Nil
  then show ?case by simp
next
  case (Cons item items)
  obtain fin x where item: "item = (fin, x)" by (cases item)
  with Cons.prems(1) obtain l ch' ls where l: "seal_response E ch seq fin x = (Ok l, ch')"
    and ls: "seal_all E ch' seq items = Ok ls" and lines: "lines = l # ls"
    by (auto simp: result_simps split: prod.splits result.splits)
  from seal_response_Ok [OF l] Cons.prems(2) obtain aad ct nxt where
    aad: "response_aad E (ch_id ch) seq i = Ok aad"
    and ct: "aes_gcm_enc E (ch_s2c ch) (nonce seq i) aad ((if fin then END else MORE) # x) = Some ct"
    and nxt: "if fin then nxt = None else i \<noteq> - 1 \<and> nxt = Some (i + 1)" and lc: "l = b64_enc E ct"
    and ch': "ch' = ch\<lparr> ch_responses := (ch_responses ch)(seq \<mapsto> nxt) \<rparr>" by auto
  let ?r = "\<lparr> rd_id = ch_id ch, rd_s2c = ch_s2c ch, rd_seq = seq, rd_index = i, rd_ended = False \<rparr>"
  have i1: "i \<noteq> - 1" using Cons.prems(3) by (auto simp: unsigned_minus_1_eq_mask mask_eq_exp_minus_1)
  then have ui: "unat (i + 1) = Suc (unat i)" using unat_checked_succ [of i] by (simp add: checked_succ_def)
  have o: "open_line E ?r l = (Ok (Some x), ?r\<lparr> rd_ended := fin, rd_index := i + 1 \<rparr>)"
    using open_line_sealed [OF laws, of ?r aad fin x ct] aad ct i1 lc by simp
  show ?case
  proof (cases fin)
    case True
    with nxt ch' seal_all_after_end [OF _ ls] have "items = []" "ls = []" by auto
    with o True lines item Cons.prems(4) show ?thesis by (cases n) auto
  next
    case False
    have c: "ch_id ch' = ch_id ch" "ch_s2c ch' = ch_s2c ch" "ch_responses ch' seq = Some (Some (i + 1))"
      using False nxt ch' by simp_all
    have b: "unat (i + 1) + length items < 2 ^ 32" using Cons.prems(3) ui by simp
    have m: "n - 1 \<le> length ls" using Cons.prems(4) lines by simp
    from Cons.IH [OF ls c(3) b m] o False lines item c show ?thesis by (cases n) auto
  qed
qed

text \<open>A concrete exchange for the witnesses: one request on a fresh channel with empty keys.\<close>

definition demo_channel :: channel where
  "demo_channel = channel_new demo [] [] []"

definition demo_request :: request_frame where
  "demo_request = \<lparr> frame_channel = b64_enc demo [], frame_seq = 0,
     frame_ct = b64_enc demo (demo_tag [] (nonce 0 0)
       (demo_jcs (request_doc (b64_enc demo []) 0 ''POST'' ''/v1'')) @ [9]) \<rparr>"

lemma demo_request_sealed:
  "seal_request demo demo_channel ''POST'' ''/v1'' [9] = (Ok demo_request, demo_channel\<lparr> ch_next_seq := 1 \<rparr>)"
  by (simp add: seal_request_def demo_channel_def demo_request_def channel_new_def MAX_REQUESTS_def
      request_aad_def seal_def Let_def)
    (simp add: demo_def demo_seal_def checked_succ_def)

lemma demo_request_opens:
  "open_request demo demo_channel demo_request ''POST'' ''/v1'' =
     (Ok [9], demo_channel\<lparr> ch_responses := [0 \<mapsto> Some 0] \<rparr>)"
proof -
  have "open_detached demo (b64_enc demo []) [] demo_request ''POST'' ''/v1'' = Ok [9]"
    unfolding open_detached_Ok
    by (simp add: demo_request_def b64_decode_encode [OF demo_b64] MAX_REQUESTS_def)
      (simp add: demo_def demo_open_def)
  then show ?thesis
    by (simp add: open_request_def demo_channel_def channel_new_def) (simp add: demo_request_def)
qed

section \<open>Properties\<close>

text \<open>
  C6. Whatever sequence of operations runs on a fresh channel, no nonce is used twice under either
  key: the request frames it returned are the encryptions, under the client's key, of what the
  callers gave, with the nonces of the sequence numbers 0, 1, 2, \<dots> in this order, at most 65536 of
  them, and the response lines it returned are the encryptions, under the server's key, with nonces
  that are all different, each of the line's sequence number and an index.
\<close>

theorem nonces_never_repeat:
  "let t = fold (channel_step E) ops (trace_start (channel_new E rid c2s s2c));
       ns = map (\<lambda>i. be_bytes 8 i @ be_bytes 4 0) [0 ..< length (tr_requests t)] in
     list_all2 (request_under E (b64_enc E rid) c2s) ns (tr_requests t)
     \<and> distinct ns \<and> length ns \<le> 65536
     \<and> (\<exists>ms. list_all2 (line_under E (b64_enc E rid) s2c) ms (tr_lines t) \<and> distinct ms)"
proof -
  define t where "t = fold (channel_step E) ops (trace_start (channel_new E rid c2s s2c))"
  have "chan_inv E (b64_enc E rid) c2s s2c t" unfolding t_def by (intro chan.run_inv chan_inv_start)
  then obtain ps where r: "list_all2 (\<lambda>i s. frame_seq (sq_frame s) = word_of_nat i
        \<and> request_under E (b64_enc E rid) c2s (nonce (word_of_nat i) 0) s) [0 ..< unat (ch_next_seq (tr_ch t))] (tr_requests t)"
    and le: "unat (ch_next_seq (tr_ch t)) \<le> 65536" and d: "distinct ps"
    and ps: "list_all2 (\<lambda>(seq, i) s. line_under E (b64_enc E rid) s2c (nonce seq i) s) ps (tr_lines t)"
    by (auto simp: chan_inv_def MAX_REQUESTS_def word_le_nat_alt)
  have len: "length (tr_requests t) = unat (ch_next_seq (tr_ch t))" using list_all2_lengthD [OF r] by simp
  have n: "nonce (word_of_nat i) 0 = be_bytes 8 i @ be_bytes 4 0" if "i < 65536" for i
    using that by (simp add: nonce_def unat_of_nat)
  have "list_all2 (request_under E (b64_enc E rid) c2s) (map (\<lambda>i. be_bytes 8 i @ be_bytes 4 0) [0 ..< length (tr_requests t)]) (tr_requests t)"
    using r le n unfolding len by (auto simp: list_all2_conv_all_nth)
  moreover have "distinct (map (\<lambda>i. be_bytes 8 i @ be_bytes 4 0) [0 ..< length (tr_requests t)])"
    using le unfolding distinct_map len by (auto intro!: inj_onI elim!: be_bytes_inject [rotated 2])
  moreover have "list_all2 (line_under E (b64_enc E rid) s2c) (map (\<lambda>(seq, i). nonce seq i) ps) (tr_lines t)"
    using ps by (auto simp: list_all2_conv_all_nth split_beta)
  moreover have "distinct (map (\<lambda>(seq, i). nonce seq i) ps)"
    using d by (auto simp: distinct_map nonce_inject intro!: inj_onI)
  ultimately show ?thesis using le len unfolding t_def [symmetric] Let_def by auto
qed

text \<open>
  C7. A request frame opens at most once: after a frame has opened, every later frame with its
  sequence number is refused as replayed, whatever happened on the channel in between.
\<close>

theorem request_opens_once:
  assumes "open_request E (tr_ch t) f meth path = (Ok x, ch)"
    and "frame_seq g = frame_seq f"
  shows "fst (open_request E
            (tr_ch (fold (channel_step E) ops (channel_step E (OpenRequest f meth path) t)))
            g meth' path') = Err (Replayed (frame_seq f))"
proof -
  let ?t = "channel_step E (OpenRequest f meth path) t"
  have "ch_responses (tr_ch ?t) (frame_seq f) \<noteq> None"
    using open_request_Ok [OF assms(1)] assms(1) by (simp add: channel_step_def)
  moreover have "chan_below ?t (fold (channel_step E) ops ?t)" by (simp add: chan_order.run_below)
  ultimately have "ch_responses (tr_ch (fold (channel_step E) ops ?t)) (frame_seq f) \<noteq> None"
    by (auto simp: chan_below_def dom_def)
  with assms(2) show ?thesis by (simp add: open_request_def)
qed

theorem request_opens_once_witness:
  "fst (open_request demo
     (tr_ch (fold (channel_step demo) [SealResponse 0 True []]
       (channel_step demo (OpenRequest demo_request ''POST'' ''/v1'') (trace_start demo_channel))))
     demo_request ''POST'' ''/v1'') = Err (Replayed (frame_seq demo_request))"
  by (rule request_opens_once [where x = "[9]"]) (simp_all add: trace_start_def demo_request_opens)

text \<open>
  A sealed request opens, to the same plaintext, on a channel with the same identifier and key
  that has not seen its sequence number, on the method and path it was sealed for; and if it opens
  on any other method or path, with another sequence number or on a channel of another identifier,
  then a box was forged.
\<close>

theorem request_bound_to_route:
  assumes laws: "b64_law E" "aead_law E" "jcs_law E"
    and sealed: "seal_request E c meth path x = (Ok f, c')"
    and keys: "ch_c2s s = ch_c2s c"
  shows "(ch_id s = ch_id c \<and> ch_responses s (frame_seq f) = None \<longrightarrow>
            fst (open_request E s f meth path) = Ok x)
    \<and> (\<forall>g meth' path' y. frame_ct g = frame_ct f \<and> fst (open_request E s g meth' path') = Ok y \<longrightarrow>
          (ch_id s = ch_id c \<and> frame_seq g = frame_seq f \<and> meth' = meth \<and> path' = path \<and> y = x)
          \<or> aead_forgery E (ch_c2s c))"
proof (intro conjI allI impI; (elim conjE)?)
  obtain aad ct where lt: "ch_next_seq c < MAX_REQUESTS"
    and aad: "jcs E (request_doc (ch_id c) (ch_next_seq c) meth path) = Some aad"
    and ct: "aes_gcm_enc E (ch_c2s c) (nonce (ch_next_seq c) 0) aad x = Some ct"
    and f: "f = \<lparr> frame_channel = ch_id c, frame_seq = ch_next_seq c, frame_ct = b64_enc E ct \<rparr>"
    using seal_request_Ok [OF sealed] by (auto simp: request_aad_def result_simps)
  note b = b64_decode_encode [OF laws(1)]
  {
    assume "ch_id s = ch_id c" and "ch_responses s (frame_seq f) = None"
    moreover from this have "open_detached E (ch_id s) (ch_c2s s) f meth path = Ok x"
      using f lt aad ct keys by (simp add: open_detached_Ok b aead_iff [OF laws(2)])
    ultimately show "fst (open_request E s f meth path) = Ok x" by (simp add: open_request_def)
  }
  fix g meth' path' y
  assume g: "frame_ct g = frame_ct f" and o: "fst (open_request E s g meth' path') = Ok y"
  then obtain s' where "open_request E s g meth' path' = (Ok y, s')" by (metis prod.collapse)
  then have "open_detached E (ch_id s) (ch_c2s s) g meth' path' = Ok y" using open_request_Ok by blast
  then obtain aad' where lt': "frame_seq g < MAX_REQUESTS"
    and aad': "jcs E (request_doc (ch_id s) (frame_seq g) meth' path') = Some aad'"
    and dec: "aes_gcm_dec E (ch_c2s c) (nonce (frame_seq g) 0) aad' ct = Some y"
    using g f keys by (auto simp: open_detached_Ok b)
  show "(ch_id s = ch_id c \<and> frame_seq g = frame_seq f \<and> meth' = meth \<and> path' = path \<and> y = x)
          \<or> aead_forgery E (ch_c2s c)"
  proof (cases "aad = aad' \<and> frame_seq g = ch_next_seq c")
    case True
    then have "request_doc (ch_id c) (ch_next_seq c) meth path = request_doc (ch_id s) (frame_seq g) meth' path'"
      using aad aad' lt lt' jcs_inject [OF laws(3) canonical_request_doc canonical_request_doc] by metis
    moreover have "y = x" using True dec ct by (simp add: aead_iff [OF laws(2), symmetric])
    ultimately show ?thesis using f by (simp add: request_doc_inject)
  next
    case False
    then have "(nonce (ch_next_seq c) 0, aad) \<noteq> (nonce (frame_seq g) 0, aad')" by (auto simp: nonce_inject)
    with ct dec show ?thesis unfolding aead_forgery_def by blast
  qed
qed

theorem request_bound_to_route_witness:
  "fst (open_request demo demo_channel demo_request ''POST'' ''/v1'') = Ok [9]
   \<and> (case fst (open_request demo demo_channel demo_request ''GET'' ''/v1'') of
        Ok y \<Rightarrow> aead_forgery demo [] | Err e \<Rightarrow> True)"
proof -
  note t = request_bound_to_route [OF demo_b64 demo_aead demo_jcs_law demo_request_sealed refl]
  have "ch_c2s demo_channel = []" "ch_responses demo_channel (frame_seq demo_request) = None"
    by (simp_all add: demo_channel_def channel_new_def)
  then show ?thesis using conjunct1 [OF t]
      conjunct2 [OF t, rule_format, of demo_request "''GET''" "''/v1''"]
    by (auto split: result.splits)
qed

text \<open>
  The reader gives back, in order, the lines that were sealed for a response, and closing the
  stream succeeds exactly when every line arrived and the last one was the end frame: a stream cut
  anywhere before it is reported as truncated.
\<close>

theorem response_stream_read_back:
  assumes "b64_law E" and "aead_law E"
    and "ch_responses s seq = Some (Some 0)" and "seal_all E s seq items = Ok lines"
    and "ch_id c = ch_id s" and "ch_s2c c = ch_s2c s"
    and "length items < 2 ^ 32" and "n \<le> length lines"
  shows "fst (read_all E (response c seq) (take n lines)) = Ok (map snd (take n items))
    \<and> finish (snd (read_all E (response c seq) (take n lines))) =
        (if 0 < n \<and> n = length items \<and> fst (last items) then Ok () else Err Truncated)"
  using stream_read_back [OF assms(1,2,4,3) _ assms(8)] assms(5-7)
  by (auto simp: response_def finish_def)

theorem response_stream_read_back_witness:
  "\<exists>s lines. ch_responses s 0 = Some (Some 0) \<and> seal_all demo s 0 [(False, [1, 2]), (True, [3])] = Ok lines
     \<and> finish (snd (read_all demo (response s 0) (take 1 lines))) = Err Truncated
     \<and> finish (snd (read_all demo (response s 0) (take 2 lines))) = Ok ()"
proof -
  let ?s = "(channel_new demo [] [] [])\<lparr> ch_responses := [0 \<mapsto> Some 0] \<rparr>"
  have "is_ok (seal_all demo ?s 0 [(False, [1, 2]), (True, [3])])"
    by (simp add: seal_response_def channel_new_def seal_def response_aad_def demo_def demo_seal_def checked_succ_def)
  then obtain lines where l: "seal_all demo ?s 0 [(False, [1, 2]), (True, [3])] = Ok lines"
    by (auto simp: is_ok_iff)
  have r: "ch_responses ?s 0 = Some (Some 0)" by simp
  have n: "length lines = 2" using stream_read_back [OF demo_b64 demo_aead l r, of 0] by simp
  note t = response_stream_read_back [OF demo_b64 demo_aead r l, of ?s]
  from t [of 1] t [of 2] n r l show ?thesis by (intro exI [of _ ?s] exI [of _ lines]) simp
qed

end
