(* ===== verification/Channel_Cert.thy ===== *)
theory Channel_Cert
  imports Channel_Frame Core_Platform
begin

text \<open>
  \<^verbatim>\<open>crates/alpha-channel/src/cert.rs\<close>, \<^verbatim>\<open>receipt.rs\<close> and \<^verbatim>\<open>secret.rs\<close>: what a leaf of the KMS CA says
  (its names, its appraisal, its validity), receipts of the Control API, and a Secret's value
  sealed to a KMS node.
\<close>

section \<open>Certificates\<close>

definition ECDSA_P256 :: string where "ECDSA_P256 = ''ecdsa-p256''"

definition p256_signature :: "'x ext_scheme \<Rightarrow> string \<Rightarrow> bytes option" where
  "p256_signature E txt = Option.bind (b64_dec E txt) (p256_sig_from_slice E)"

definition KMS_SAN :: string where "KMS_SAN = ''alphacompute://kms''"

definition parse_x509 :: "'x ext_scheme \<Rightarrow> bytes \<Rightarrow> (x509, chan_error) result" where
  "parse_x509 E cert = ok_or (map_option fst (x509_parse E cert)) Malformed"

definition uri_sans :: "'x ext_scheme \<Rightarrow> bytes \<Rightarrow> (string list, chan_error) result" where
  "uri_sans E cert = and_then (parse_x509 E cert) (\<lambda>c. Ok (x_uri_sans c))"

definition spki_of :: "'x ext_scheme \<Rightarrow> bytes \<Rightarrow> (bytes, chan_error) result" where
  "spki_of E cert = and_then (parse_x509 E cert) (\<lambda>c. Ok (x_spki c))"

definition spki_sha256 :: "'x ext_scheme \<Rightarrow> bytes \<Rightarrow> bytes option" where
  "spki_sha256 E cert = map_option (sha256 E) (to_option (spki_of E cert))"

record instance_sans =
  is_org_id :: uuid
  is_app_id :: uuid
  is_runtime_pubkey_sha256_hex :: string
  is_compose_hash :: compose_hash

definition REVISION_URN :: string where "REVISION_URN = ''urn:alphacompute:revision:''"

definition parse_revision_san :: "string \<Rightarrow> compose_hash option" where
  "parse_revision_san s = Option.bind (strip_prefix REVISION_URN s) compose_hash_from_str"

definition parse_instance_sans :: "'x ext_scheme \<Rightarrow> string list \<Rightarrow> (instance_sans, chan_error) result" where
  "parse_instance_sans E sans =
     (case sans of
        [identity, revision] \<Rightarrow>
          and_then (ok_or (strip_prefix ''alphacompute://'' identity) ForeignCertificate) (\<lambda>rest.
          (case split_on CHR ''/'' rest of
             [org, app, key] \<Rightarrow>
               and_then (ok_or (parse_revision_san revision) ForeignCertificate) (\<lambda>h.
               and_then (ok_or (uuid_parse E org) ForeignCertificate) (\<lambda>o_id.
               and_then (ok_or (uuid_parse E app) ForeignCertificate) (\<lambda>a_id.
               and_then (ok_or (map_option (\<lambda>_. key) (hex_bytes 32 key)) ForeignCertificate) (\<lambda>k.
               Ok \<lparr> is_org_id = o_id, is_app_id = a_id, is_runtime_pubkey_sha256_hex = k,
                    is_compose_hash = h \<rparr>))))
           | _ \<Rightarrow> Err ForeignCertificate))
      | _ \<Rightarrow> Err ForeignCertificate)"

definition parse_kms_sans :: "string list \<Rightarrow> (compose_hash, chan_error) result" where
  "parse_kms_sans sans =
     (case sans of
        [kms, revision] \<Rightarrow>
          refuse_if (kms \<noteq> KMS_SAN) ForeignCertificate
          (ok_or (parse_revision_san revision) ForeignCertificate)
      | _ \<Rightarrow> Err ForeignCertificate)"

definition APPRAISAL_OID :: "nat list" where "APPRAISAL_OID = [2, 25, 1858292143, 1688857791, 1295186308]"
definition FIRST_APPRAISAL_OID :: "nat list" where "FIRST_APPRAISAL_OID = [2, 25, 7686831627720934303]"
definition APPRAISAL_FORMAT :: string where "APPRAISAL_FORMAT = ''alphacompute-appraisal/1''"

record leaf_appraisal =
  la_tcb_status :: string
  la_advisories :: "string list"
  la_policy_version :: u64
  la_os_image :: string
  la_gpu_count :: nat

definition appraisal_json :: "leaf_appraisal \<Rightarrow> json" where
  "appraisal_json a = jobj [(''format'', JString APPRAISAL_FORMAT), (''tcb_status'', JString (la_tcb_status a)),
     (''advisories'', JArray (map JString (la_advisories a))),
     (''policy_version'', JNumber (PosInt (la_policy_version a))), (''os_image'', JString (la_os_image a)),
     (''gpu_count'', jnat (la_gpu_count a))]"

definition appraisal_to_der :: "'x ext_scheme \<Rightarrow> leaf_appraisal \<Rightarrow> (bytes, chan_error) result" where
  "appraisal_to_der E a =
     and_then (ok_or (jcs E (appraisal_json a)) Malformed) (\<lambda>j.
     and_then (ok_or (from_utf8 j) Malformed) (\<lambda>txt.
     ok_or (utf8string_to_der E txt) Malformed))"

text \<open>The dotted form of an object identifier, which names a parsed certificate's extensions.\<close>

fun oid_text :: "nat list \<Rightarrow> string" where
  "oid_text [] = []"
| "oid_text [n] = show_nat n"
| "oid_text (n # ns) = show_nat n @ ''.'' @ oid_text ns"

definition appraisal_de :: "json \<Rightarrow> leaf_appraisal option" where
  "appraisal_de v =
     Option.bind (struct_fields False [(''tcb_status'', False), (''advisories'', False),
       (''policy_version'', False), (''os_image'', False), (''gpu_count'', False)] v) (\<lambda>m.
     Option.bind (field m ''tcb_status'' json_as_str) (\<lambda>tcb.
     Option.bind (field m ''advisories'' (de_vec json_as_str)) (\<lambda>adv.
     Option.bind (field m ''policy_version'' (de_uint (2 ^ 64 - 1))) (\<lambda>ver.
     Option.bind (field m ''os_image'' json_as_str) (\<lambda>os.
     Option.bind (field m ''gpu_count'' (de_uint (2 ^ 64 - 1))) (\<lambda>gpu.
     Some \<lparr> la_tcb_status = tcb, la_advisories = adv, la_policy_version = word_of_nat ver,
       la_os_image = os, la_gpu_count = gpu \<rparr>))))))"

definition leaf_appraisal_of :: "'x ext_scheme \<Rightarrow> bytes \<Rightarrow> (leaf_appraisal option, chan_error) result" where
  "leaf_appraisal_of E cert =
     and_then (parse_x509 E cert) (\<lambda>c.
     (case find (\<lambda>e. fst e = oid_text APPRAISAL_OID \<or> fst e = oid_text FIRST_APPRAISAL_OID) (x_extensions c) of
        None \<Rightarrow> Ok None
      | Some (_, _, value) \<Rightarrow>
          and_then (ok_or (utf8string_from_der E value) Malformed) (\<lambda>(rest, txt).
          refuse_if (rest \<noteq> []) Malformed
          (and_then (ok_or (json_from_str E txt) Malformed) (\<lambda>v.
           refuse_if (Option.bind (json_get v ''format'') json_as_str \<noteq> Some APPRAISAL_FORMAT) Malformed
           (and_then (ok_or (appraisal_de v) Malformed) (\<lambda>a. Ok (Some a)))))))) "

definition is_ascii_whitespace :: "byte \<Rightarrow> bool" where
  "is_ascii_whitespace b \<longleftrightarrow> b \<in> {32, 9, 10, 12, 13}"

definition pem_to_der :: "'x ext_scheme \<Rightarrow> string \<Rightarrow> (bytes, chan_error) result" where
  "pem_to_der E pem =
     and_then (ok_or (parse_x509_pem E (as_bytes pem)) Malformed) (\<lambda>(rest, label, contents).
     refuse_if (label \<noteq> ''CERTIFICATE'' \<or> \<not> list_all is_ascii_whitespace rest) Malformed (Ok contents))"

definition not_after :: "'x ext_scheme \<Rightarrow> bytes \<Rightarrow> (time, chan_error) result" where
  "not_after E cert =
     and_then (parse_x509 E cert) (\<lambda>c. ok_or (from_unix_seconds (x_not_after c)) Malformed)"

definition OID_SIG_ECDSA_WITH_SHA256 :: string where
  "OID_SIG_ECDSA_WITH_SHA256 = ''1.2.840.10045.4.3.2''"

definition verify_leaf :: "'x ext_scheme \<Rightarrow> bytes \<Rightarrow> bytes \<Rightarrow> time \<Rightarrow> (time \<times> time, chan_error) result" where
  "verify_leaf E leaf_der ca_der now =
     and_then (map_err (\<lambda>_. ForeignCertificate) (parse_x509 E leaf_der)) (\<lambda>leaf.
     and_then (parse_x509 E ca_der) (\<lambda>ca.
     refuse_if (x_sig_alg leaf \<noteq> OID_SIG_ECDSA_WITH_SHA256) ForeignCertificate
     (and_then (ok_or (p256_from_spki E (x_spki ca)) Malformed) (\<lambda>key.
      and_then (ok_or (p256_sig_from_der E (x_signature leaf)) ForeignCertificate) (\<lambda>sg.
      refuse_if (\<not> p256_verify E key (x_tbs leaf) sg) ForeignCertificate
      (and_then (unix_seconds now) (\<lambda>s.
       refuse_if (s < x_not_before leaf \<or> s \<ge> x_not_after leaf) CertificateExpired
       (and_then (ok_or (from_unix_seconds (x_not_before leaf)) ForeignCertificate) (\<lambda>nb.
        and_then (ok_or (from_unix_seconds (x_not_after leaf)) ForeignCertificate) (\<lambda>na.
        Ok (nb, na)))))))))))"

section \<open>Receipts\<close>

record receipt =
  rc_document :: json
  rc_signature :: named_signature
  rc_certificate_chain :: "string list"

record receipt_document =
  rd_route :: string
  rd_request_sha256 :: string
  rd_response :: "(string \<times> json) list"
  rd_issued_at :: string

record expected_receipt =
  ex_route :: string
  ex_request_sha256 :: string
  ex_response :: "(string \<times> json) list"

definition named_signature_de :: "json \<Rightarrow> named_signature option" where
  "named_signature_de v =
     Option.bind (struct_fields True [(''algorithm'', False), (''signature'', False)] v) (\<lambda>m.
     Option.bind (field m ''algorithm'' json_as_str) (\<lambda>a.
     Option.bind (field m ''signature'' json_as_str) (\<lambda>s.
     Some \<lparr> ns_algorithm = a, ns_signature = s \<rparr>)))"

definition named_signature_json :: "named_signature \<Rightarrow> json" where
  "named_signature_json s = jobj [(''algorithm'', JString (ns_algorithm s)), (''signature'', JString (ns_signature s))]"

definition receipt_json :: "receipt \<Rightarrow> json" where
  "receipt_json r = jobj [(''document'', rc_document r), (''signature'', named_signature_json (rc_signature r)),
     (''certificate_chain'', JArray (map JString (rc_certificate_chain r)))]"

definition receipt_de :: "json \<Rightarrow> receipt option" where
  "receipt_de v =
     Option.bind (struct_fields True [(''document'', False), (''signature'', False), (''certificate_chain'', False)] v) (\<lambda>m.
     Option.bind (field m ''document'' Some) (\<lambda>d.
     Option.bind (field m ''signature'' named_signature_de) (\<lambda>s.
     Option.bind (field m ''certificate_chain'' (de_vec json_as_str)) (\<lambda>c.
     Some \<lparr> rc_document = d, rc_signature = s, rc_certificate_chain = c \<rparr>))))"

definition receipt_document_de :: "json \<Rightarrow> receipt_document option" where
  "receipt_document_de v =
     Option.bind (struct_fields True [(''route'', False), (''request_sha256'', False), (''response'', False),
       (''issued_at'', False)] v) (\<lambda>m.
     Option.bind (field m ''route'' json_as_str) (\<lambda>r.
     Option.bind (field m ''request_sha256'' json_as_str) (\<lambda>q.
     Option.bind (field m ''response'' json_as_object) (\<lambda>p.
     Option.bind (field m ''issued_at'' json_as_str) (\<lambda>t.
     Some \<lparr> rd_route = r, rd_request_sha256 = q, rd_response = p, rd_issued_at = t \<rparr>)))))"

definition canonical :: "'x ext_scheme \<Rightarrow> json \<Rightarrow> (bytes, chan_error) result" where
  "canonical E v = ok_or (jcs E v) Malformed"

definition request_sha256 :: "'x ext_scheme \<Rightarrow> json \<Rightarrow> (string, chan_error) result" where
  "request_sha256 E body = and_then (canonical E body) (\<lambda>b. Ok (sha256_label E b))"

definition receipt_issue :: "'x ext_scheme \<Rightarrow> bytes \<Rightarrow> string \<Rightarrow> string \<Rightarrow> json \<Rightarrow> json \<Rightarrow> time \<Rightarrow>
    (receipt, chan_error) result" where
  "receipt_issue E key leaf_pem route request resp issued_at =
     and_then (request_sha256 E request) (\<lambda>q.
     and_then (rfc3339 E issued_at) (\<lambda>t.
     (let document = jobj [(''route'', JString route), (''request_sha256'', JString q),
            (''response'', resp), (''issued_at'', JString t)] in
      and_then (ok_or (signing_digest E KMS_RECEIPT document) Malformed) (\<lambda>digest.
      and_then (ok_or (p256_sign E key digest) Malformed) (\<lambda>sg.
      Ok \<lparr> rc_document = document,
           rc_signature = \<lparr> ns_algorithm = ECDSA_P256, ns_signature = b64_enc E sg \<rparr>,
           rc_certificate_chain = [leaf_pem] \<rparr>)))))"

definition expected_entry_ok :: "'x ext_scheme \<Rightarrow> (string \<times> json) list \<Rightarrow> string \<times> json \<Rightarrow> (unit, chan_error) result" where
  "expected_entry_ok E resp e =
     and_then (ok_or (map_of resp (fst e)) ReceiptMismatch) (\<lambda>actual.
     and_then (canonical E actual) (\<lambda>a.
     and_then (canonical E (snd e)) (\<lambda>b.
     refuse_if (a \<noteq> b) ReceiptMismatch (Ok ()))))"

definition receipt_verify :: "'x ext_scheme \<Rightarrow> bytes \<Rightarrow> string \<Rightarrow> compose_hash list \<Rightarrow> expected_receipt \<Rightarrow>
    (json, chan_error) result" where
  "receipt_verify E bs kms_ca_pem kms_revisions expected =
     and_then (ok_or (Option.bind (parse E bs) receipt_de) Malformed) (\<lambda>r.
     (case rc_certificate_chain r of
        [leaf_pem] \<Rightarrow>
          and_then (ok_or (receipt_document_de (rc_document r)) Malformed) (\<lambda>doc.
          and_then (ok_or (Option.bind (rfc3339_parse E (rd_issued_at doc))
                             (\<lambda>t. from_unix_seconds (seconds_of t))) Malformed) (\<lambda>issued_at.
          and_then (pem_to_der E kms_ca_pem) (\<lambda>ca.
          and_then (map_err (\<lambda>_. ForeignCertificate) (pem_to_der E leaf_pem)) (\<lambda>leaf.
          and_then (verify_leaf E leaf ca issued_at) (\<lambda>_.
          and_then (uri_sans E leaf) (\<lambda>sans.
          and_then (parse_kms_sans sans) (\<lambda>revision.
          refuse_if (revision \<notin> set kms_revisions) (UnknownRevision revision)
          (refuse_if (ns_algorithm (rc_signature r) \<noteq> ECDSA_P256) SignatureInvalid
          (and_then (spki_of E leaf) (\<lambda>spki.
           and_then (ok_or (p256_from_spki E spki) SignatureInvalid) (\<lambda>key.
           and_then (ok_or (p256_signature E (ns_signature (rc_signature r))) SignatureInvalid) (\<lambda>sg.
           and_then (ok_or (signing_digest E KMS_RECEIPT (rc_document r)) Malformed) (\<lambda>digest.
           refuse_if (\<not> p256_verify E key digest sg) SignatureInvalid
           (refuse_if (rd_route doc \<noteq> ex_route expected) ReceiptMismatch
           (refuse_if (rd_request_sha256 doc \<noteq> ex_request_sha256 expected) ReceiptMismatch
           (and_then (try_for_each (expected_entry_ok E (rd_response doc)) (ex_response expected)) (\<lambda>_.
            Ok (JObject (rd_response doc)))))))))))))))))))
      | _ \<Rightarrow> Err ForeignCertificate))"

section \<open>Sealed Secrets\<close>

record sealed_secret =
  ss_ticket :: string
  ss_frame :: request_frame

definition secret_path :: "string \<Rightarrow> string" where
  "secret_path name = ''/v1/secrets/'' @ name"

definition secret_digest :: "'x ext_scheme \<Rightarrow> json \<Rightarrow> (bytes, chan_error) result" where
  "secret_digest E payload = ok_or (signing_digest E SECRET payload) Malformed"

definition secret_seal :: "'x ext_scheme \<Rightarrow> channel \<Rightarrow> string \<Rightarrow> json \<Rightarrow> uuid \<Rightarrow> bytes \<Rightarrow>
    (sealed_secret, chan_error) result \<times> channel" where
  "secret_seal E ch ticket payload org_id value =
     (case and_then (ok_or (Option.bind (Option.bind (json_get payload ''name'') json_as_str)
               (\<lambda>n. if is_secret_name n then Some n else None)) Malformed)
             (\<lambda>n. and_then (secret_digest E payload) (\<lambda>d. Ok (n, d))) of
        Err e \<Rightarrow> (Err e, ch)
      | Ok (name, digest) \<Rightarrow>
          (case seal_request E ch ''PUT'' (secret_path name) (digest @ uuid_bytes org_id @ value) of
             (Err e, ch') \<Rightarrow> (Err e, ch')
           | (Ok frame, ch') \<Rightarrow> (Ok \<lparr> ss_ticket = ticket, ss_frame = frame \<rparr>, ch')))"

definition secret_open :: "'x ext_scheme \<Rightarrow> bytes \<Rightarrow> bytes \<Rightarrow> request_frame \<Rightarrow> string \<Rightarrow> json \<Rightarrow>
    (uuid \<times> bytes, chan_error) result" where
  "secret_open E channel c2s frame name payload =
     and_then (open_detached E (b64_enc E channel) c2s frame ''PUT'' (secret_path name)) (\<lambda>plaintext.
     refuse_if (length plaintext < 32) Malformed
     (and_then (secret_digest E payload) (\<lambda>digest.
      refuse_if (take 32 plaintext \<noteq> digest) Malformed
      (refuse_if (length (drop 32 plaintext) < 16) Malformed
       (Ok (uuid_from_bytes (take 16 (drop 32 plaintext)), drop 48 plaintext))))))"

section \<open>Lemmas\<close>

lemma case_singleton_Ok [result_simps]:
  "(case xs of [] \<Rightarrow> Err e | [x] \<Rightarrow> f x | x # y # zs \<Rightarrow> Err e) = Ok v \<longleftrightarrow> (\<exists>x. xs = [x] \<and> f x = Ok v)"
  by (cases xs; cases "tl xs") auto

lemma case_pair_Ok [result_simps]:
  "(case xs of [] \<Rightarrow> Err e | [x] \<Rightarrow> Err e | [x, y] \<Rightarrow> f x y | x # y # z # zs \<Rightarrow> Err e) = Ok v \<longleftrightarrow>
     (\<exists>x y. xs = [x, y] \<and> f x y = Ok v)"
  by (cases xs; cases "tl xs"; cases "tl (tl xs)") auto

lemma uuid_no_slash: "uuid_law E \<Longrightarrow> CHR ''/'' \<notin> set (uuid_show E u)"
proof
  assume "uuid_law E" and "CHR ''/'' \<in> set (uuid_show E u)"
  then have "hex_value CHR ''/'' \<noteq> None" by (fastforce simp: uuid_law_def list_all_iff)
  then show False by (simp add: hex_value_def code_def)
qed

lemma hex_no_slash: "CHR ''/'' \<notin> set (hex_encode bs)"
  by (auto dest: hex_encode_hex simp: hex_value_def code_def)

lemma parse_revision_san_show: "length h = 32 \<Longrightarrow> parse_revision_san (REVISION_URN @ compose_hash_show h) = Some h"
  by (simp add: parse_revision_san_def compose_text.dec_enc)

lemma parse_instance_names:
  assumes "uuid_law E" and "length key = 32" and "length h = 32"
  shows "parse_instance_sans E [''alphacompute://'' @ uuid_show E org @ ''/'' @ uuid_show E app @ ''/'' @ hex_encode key,
      REVISION_URN @ compose_hash_show h] =
    Ok \<lparr> is_org_id = org, is_app_id = app, is_runtime_pubkey_sha256_hex = hex_encode key, is_compose_hash = h \<rparr>"
proof -
  have "split_on CHR ''/'' (uuid_show E org @ CHR ''/'' # uuid_show E app @ CHR ''/'' # hex_encode key)
      = [uuid_show E org, uuid_show E app, hex_encode key]"
    using assms(1) by (simp add: split_on_append split_on_none uuid_no_slash hex_no_slash)
  moreover have "uuid_parse E (uuid_show E u) = Some u" for u using assms(1) by (simp add: uuid_law_def)
  ultimately show ?thesis
    using assms(2,3) by (simp add: parse_instance_sans_def strip_prefix_def parse_revision_san_show hex.dec_enc)
qed

definition sha_collision :: "'x ext_scheme \<Rightarrow> bool" where
  "sha_collision E \<longleftrightarrow> (\<exists>a b. a \<noteq> b \<and> sha256 E a = sha256 E b)"

lemma signing_digest_same_context:
  assumes "signing_digest E c v = Some x" and "signing_digest E c w = Some x"
  shows "jcs E v = jcs E w \<or> sha_collision E"
proof -
  from assms obtain j k where "jcs E v = Some j" "jcs E w = Some k"
    and "sha256 E (as_bytes c @ [0] @ j) = sha256 E (as_bytes c @ [0] @ k)"
    by (auto simp: signing_digest_def)
  moreover have "as_bytes c @ [0] @ j \<noteq> as_bytes c @ [0] @ k" if "j \<noteq> k" using that by simp
  ultimately show ?thesis unfolding sha_collision_def by metis
qed

lemma uuid_bytes_append_inject: "uuid_bytes u @ x = uuid_bytes v @ y \<longleftrightarrow> u = v \<and> x = y"
  by (simp add: append_eq_append_conv)

lemma sealed_secretE:
  assumes "secret_seal E ch ticket payload org_id value = (Ok s, ch')"
  obtains name d where "json_get payload ''name'' = Some (JString name)" "is_secret_name name"
    "signing_digest E SECRET payload = Some d" "ss_ticket s = ticket"
    "seal_request E ch ''PUT'' (secret_path name) (d @ uuid_bytes org_id @ value) = (Ok (ss_frame s), ch')"
  using assms
  by (auto simp: secret_seal_def secret_digest_def result_simps bind_eq_Some_conv
      split: result.splits if_splits prod.splits option.splits)

lemma secret_open_Ok:
  "secret_open E cid c2s f name payload = Ok (o_id, v) \<longleftrightarrow>
     (\<exists>d w. open_detached E (b64_enc E cid) c2s f ''PUT'' (secret_path name) = Ok (d @ w @ v)
        \<and> length d = 32 \<and> length w = 16 \<and> signing_digest E SECRET payload = Some d
        \<and> o_id = uuid_from_bytes w)"
proof -
  have e: "take 32 x @ take 16 (drop 32 x) @ drop 48 x = x" for x :: bytes
    using append_take_drop_id [of 16 "drop 32 x"] append_take_drop_id [of 32 x] by simp
  let ?o = "open_detached E (b64_enc E cid) c2s f ''PUT'' (secret_path name)"
  have "secret_open E cid c2s f name payload = Ok (o_id, v) \<longleftrightarrow>
     (\<exists>x. ?o = Ok x \<and> 48 \<le> length x \<and> signing_digest E SECRET payload = Some (take 32 x)
        \<and> o_id = uuid_from_bytes (take 16 (drop 32 x)) \<and> v = drop 48 x)"
    by (auto simp: secret_open_def secret_digest_def result_simps not_less)
  also have "\<dots> \<longleftrightarrow> (\<exists>d w. ?o = Ok (d @ w @ v) \<and> length d = 32 \<and> length w = 16
        \<and> signing_digest E SECRET payload = Some d \<and> o_id = uuid_from_bytes w)" (is "?l \<longleftrightarrow> ?r")
  proof
    assume ?l
    then obtain x where x: "?o = Ok x" "48 \<le> length x" "signing_digest E SECRET payload = Some (take 32 x)"
      "o_id = uuid_from_bytes (take 16 (drop 32 x))" "v = drop 48 x" by (elim exE conjE) (rule that)
    then have "length (take 32 x) = 32" "length (take 16 (drop 32 x)) = 16" by simp_all
    with x e [of x] show ?r by metis
  next
    assume ?r
    then obtain d w where "?o = Ok (d @ w @ v)" "length d = 32" "length w = 16"
      "signing_digest E SECRET payload = Some d" "o_id = uuid_from_bytes w" by (elim exE conjE) (rule that)
    then show ?l by (intro exI [of _ "d @ w @ v"]) simp
  qed
  finally show ?thesis .
qed

lemma secret_open_sealed:
  assumes laws: "b64_law E" "aead_law E" "sha_law E"
    and sealed: "secret_seal E ch ticket payload org_id value = (Ok s, ch')" and i: "ch_id ch = b64_enc E cid"
    and n: "json_get payload ''name'' = Some (JString name)"
  shows "secret_open E cid (ch_c2s ch) (ss_frame s) name payload = Ok (org_id, value)"
proof -
  from sealed n obtain d where d: "signing_digest E SECRET payload = Some d"
    and f: "seal_request E ch ''PUT'' (secret_path name) (d @ uuid_bytes org_id @ value) = (Ok (ss_frame s), ch')"
    by (elim sealed_secretE) simp
  have "length d = 32" using d laws(3) by (auto simp: signing_digest_def sha_lawD)
  with seal_request_Ok [OF f] d i show ?thesis
    unfolding secret_open_Ok open_detached_Ok request_aad_def
    by (intro exI [of _ d] exI [of _ "uuid_bytes org_id"])
      (auto simp: result_simps b64_decode_encode [OF laws(1)] aead_iff [OF laws(2)])
qed

lemma verify_leaf_Ok:
  assumes "verify_leaf E leaf_der ca_der now = Ok validity"
  shows "\<exists>ca leaf key sg. map_option fst (x509_parse E ca_der) = Some ca
    \<and> map_option fst (x509_parse E leaf_der) = Some leaf
    \<and> x_sig_alg leaf = OID_SIG_ECDSA_WITH_SHA256 \<and> p256_from_spki E (x_spki ca) = Some key
    \<and> p256_sig_from_der E (x_signature leaf) = Some sg \<and> p256_verify E key (x_tbs leaf) sg
    \<and> x_not_before leaf \<le> seconds_of now \<and> seconds_of now < x_not_after leaf"
  using assms
  by (auto simp: verify_leaf_def parse_x509_def unix_seconds_def result_simps not_less split: if_splits)

lemma parse_kms_sans_Ok:
  "parse_kms_sans sans = Ok h \<longleftrightarrow> (\<exists>urn. sans = [KMS_SAN, REVISION_URN @ urn] \<and> compose_hash_from_str urn = Some h)"
  by (auto simp: parse_kms_sans_def parse_revision_san_def result_simps bind_eq_Some_conv strip_prefix_Some
      split: list.splits)

section \<open>Properties\<close>

text \<open>
  A Secret's value sealed on the page opens at the KMS for its name and document to the
  organization and value it was sealed with. Under another name, beside another document, or with
  another organization or value it opens only if an AES-GCM box was forged or SHA-256 collides.
\<close>

theorem sealed_secret_bound:
  assumes laws: "b64_law E" "aead_law E" "jcs_law E" "sha_law E"
    and sealed: "secret_seal E ch ticket payload org_id value = (Ok s, ch')" and i: "ch_id ch = b64_enc E cid"
  shows "\<exists>name. json_get payload ''name'' = Some (JString name)
    \<and> secret_open E cid (ch_c2s ch) (ss_frame s) name payload = Ok (org_id, value)
    \<and> (\<forall>name' payload' org' v. secret_open E cid (ch_c2s ch) (ss_frame s) name' payload' = Ok (org', v) \<longrightarrow>
         (name' = name \<and> jcs E payload' = jcs E payload \<and> org' = org_id \<and> v = value)
         \<or> sha_collision E \<or> aead_forgery E (ch_c2s ch))"
proof -
  let ?k = "ch_c2s ch"
  from sealed obtain name d where n: "json_get payload ''name'' = Some (JString name)"
    and d: "signing_digest E SECRET payload = Some d"
    and f: "seal_request E ch ''PUT'' (secret_path name) (d @ uuid_bytes org_id @ value) = (Ok (ss_frame s), ch')"
    by (rule sealed_secretE)
  let ?x = "d @ uuid_bytes org_id @ value" and ?q = "ch_next_seq ch"
  have ld: "length d = 32" using d laws(4) by (auto simp: signing_digest_def sha_lawD)
  from seal_request_Ok [OF f] obtain aad ct where lt: "?q < MAX_REQUESTS"
    and aad: "jcs E (request_doc (ch_id ch) ?q ''PUT'' (secret_path name)) = Some aad"
    and ct: "aes_gcm_enc E ?k (nonce ?q 0) aad ?x = Some ct"
    and fr: "ss_frame s = \<lparr> frame_channel = ch_id ch, frame_seq = ?q, frame_ct = b64_enc E ct \<rparr>"
    by (auto simp: request_aad_def result_simps)
  note b = b64_decode_encode [OF laws(1)]
  have "secret_open E cid ?k (ss_frame s) name payload = Ok (org_id, value)"
    by (rule secret_open_sealed [OF laws(1,2,4) sealed i n])
  moreover have "(name' = name \<and> jcs E payload' = jcs E payload \<and> org' = org_id \<and> v = value)
         \<or> sha_collision E \<or> aead_forgery E ?k"
    if o: "secret_open E cid ?k (ss_frame s) name' payload' = Ok (org', v)" for name' payload' org' v
  proof -
    from o obtain d' w aad' where d': "length d' = 32" "length w = 16" "signing_digest E SECRET payload' = Some d'"
      "org' = uuid_from_bytes w"
      and aad': "jcs E (request_doc (ch_id ch) ?q ''PUT'' (secret_path name')) = Some aad'"
      and dec: "aes_gcm_dec E ?k (nonce ?q 0) aad' ct = Some (d' @ w @ v)"
      by (auto simp: secret_open_Ok open_detached_Ok fr b i)
    show ?thesis
    proof (cases "aad' = aad")
      case True
      then have "request_doc (ch_id ch) ?q ''PUT'' (secret_path name) = request_doc (ch_id ch) ?q ''PUT'' (secret_path name')"
        using aad aad' jcs_inject [OF laws(3) canonical_request_doc [OF lt] canonical_request_doc [OF lt]] by metis
      then have "name' = name" by (simp add: request_doc_inject secret_path_def)
      moreover have "d' @ w @ v = ?x" using True dec ct by (simp add: aead_iff [OF laws(2), symmetric])
      then have "d' = d" "w = uuid_bytes org_id" "v = value" using ld d' by (simp_all add: append_eq_append_conv)
      ultimately show ?thesis using d d' signing_digest_same_context [of E SECRET payload' d payload] by auto
    next
      case False
      then have "(nonce ?q 0, aad) \<noteq> (nonce ?q 0, aad')" by simp
      with ct dec show ?thesis unfolding aead_forgery_def by metis
    qed
  qed
  ultimately show ?thesis using n by blast
qed

definition demo_put :: json where "demo_put = jobj [(''name'', JString ''a'')]"

definition demo_secret_channel :: channel where "demo_secret_channel = channel_new demo [5] [] []"

lemma demo_secret_sealed: "\<exists>s ch'. secret_seal demo demo_secret_channel ''t'' demo_put 7 [9] = (Ok s, ch')"
proof -
  have "is_secret_name ''a''"
    by (simp add: is_secret_name_def is_segment_def segment_char_def is_ascii_lowercase_def is_ascii_digit_def code_def)
  moreover have "(0 :: u64) < MAX_REQUESTS" by (simp add: MAX_REQUESTS_def)
  ultimately show ?thesis
    by (simp add: secret_seal_def demo_put_def secret_digest_def signing_digest_def demo_secret_channel_def
        channel_new_def seal_request_def Let_def request_aad_def seal_def demo_def demo_seal_def checked_succ_def
        linorder_not_less [symmetric])
qed

theorem sealed_secret_bound_witness:
  "\<exists>s ch'. secret_seal demo demo_secret_channel ''t'' demo_put 7 [9] = (Ok s, ch')
    \<and> secret_open demo [5] [] (ss_frame s) ''a'' demo_put = Ok (7, [9])"
proof -
  obtain s ch' where s: "secret_seal demo demo_secret_channel ''t'' demo_put 7 [9] = (Ok s, ch')"
    using demo_secret_sealed by blast
  have "ch_id demo_secret_channel = b64_enc demo [5]" "ch_c2s demo_secret_channel = []"
    by (simp_all add: demo_secret_channel_def channel_new_def)
  with sealed_secret_bound [OF demo_b64 demo_aead demo_jcs_law demo_sha s, of "[5]"]
  have "\<exists>name. json_get demo_put ''name'' = Some (JString name)
    \<and> secret_open demo [5] [] (ss_frame s) name demo_put = Ok (7, [9])" by auto
  then have "secret_open demo [5] [] (ss_frame s) ''a'' demo_put = Ok (7, [9])"
    by (auto simp: demo_put_def)
  with s show ?thesis by blast
qed

text \<open>
  C9. A verified receipt rests on the pinned CA: its only certificate carries a P-256 signature by
  the CA's key over its contents and is valid at the receipt's own time; its names are those of a KMS
  node of an allowed Revision; the certificate's key signed the document; and the document names the
  expected route and request and holds every expected field with an equal canonical form. What is
  returned is the signed response.
\<close>

theorem receipt_verify_sound:
  assumes "receipt_verify E bs ca_pem revisions expected = Ok v"
  shows "\<exists>r leaf_pem doc t ca_der leaf_der ca leaf ca_key ca_sg urn revision key digest sg.
    Option.bind (parse E bs) receipt_de = Some r \<and> rc_certificate_chain r = [leaf_pem]
    \<and> receipt_document_de (rc_document r) = Some doc \<and> v = JObject (rd_response doc)
    \<and> rfc3339_parse E (rd_issued_at doc) = Some t \<and> 0 \<le> seconds_of t
    \<and> pem_to_der E ca_pem = Ok ca_der \<and> map_option fst (x509_parse E ca_der) = Some ca
    \<and> pem_to_der E leaf_pem = Ok leaf_der \<and> map_option fst (x509_parse E leaf_der) = Some leaf
    \<and> x_sig_alg leaf = OID_SIG_ECDSA_WITH_SHA256 \<and> p256_from_spki E (x_spki ca) = Some ca_key
    \<and> p256_sig_from_der E (x_signature leaf) = Some ca_sg \<and> p256_verify E ca_key (x_tbs leaf) ca_sg
    \<and> x_not_before leaf \<le> seconds_of t \<and> seconds_of t < x_not_after leaf
    \<and> x_uri_sans leaf = [''alphacompute://kms'', ''urn:alphacompute:revision:'' @ urn]
    \<and> compose_hash_from_str urn = Some revision \<and> revision \<in> set revisions
    \<and> p256_from_spki E (x_spki leaf) = Some key \<and> ns_algorithm (rc_signature r) = ECDSA_P256
    \<and> signing_digest E KMS_RECEIPT (rc_document r) = Some digest
    \<and> p256_signature E (ns_signature (rc_signature r)) = Some sg \<and> p256_verify E key digest sg
    \<and> rd_route doc = ex_route expected \<and> rd_request_sha256 doc = ex_request_sha256 expected
    \<and> (\<forall>e \<in> set (ex_response expected). \<exists>w. map_of (rd_response doc) (fst e) = Some w
          \<and> jcs E w = jcs E (snd e) \<and> jcs E w \<noteq> None)"
proof -
  have entry: "expected_entry_ok E resp e = Ok () \<longleftrightarrow>
      (\<exists>w. map_of resp (fst e) = Some w \<and> jcs E w = jcs E (snd e) \<and> jcs E w \<noteq> None)" for resp e
    by (cases "jcs E (snd e)") (auto simp: expected_entry_ok_def canonical_def result_simps)
  have secs: "from_unix_seconds s = Some u \<longleftrightarrow> 0 \<le> s \<and> u = s * 1000000000" for s u
    by (auto simp: from_unix_seconds_def)
  obtain r leaf_pem doc t ca_der leaf_der validity sans revision spki key digest sg where
    doc: "Option.bind (parse E bs) receipt_de = Some r" "rc_certificate_chain r = [leaf_pem]"
      "receipt_document_de (rc_document r) = Some doc" "v = JObject (rd_response doc)"
      "rfc3339_parse E (rd_issued_at doc) = Some t" "0 \<le> seconds_of t"
    and pem: "pem_to_der E ca_pem = Ok ca_der" "pem_to_der E leaf_pem = Ok leaf_der"
    and vl: "verify_leaf E leaf_der ca_der (seconds_of t * 1000000000) = Ok validity"
    and names: "uri_sans E leaf_der = Ok sans" "parse_kms_sans sans = Ok revision" "revision \<in> set revisions"
    and key: "spki_of E leaf_der = Ok spki" "p256_from_spki E spki = Some key"
    and sg: "ns_algorithm (rc_signature r) = ECDSA_P256" "signing_digest E KMS_RECEIPT (rc_document r) = Some digest"
      "p256_signature E (ns_signature (rc_signature r)) = Some sg" "p256_verify E key digest sg"
    and rest: "rd_route doc = ex_route expected" "rd_request_sha256 doc = ex_request_sha256 expected"
      "\<forall>e \<in> set (ex_response expected). \<exists>w. map_of (rd_response doc) (fst e) = Some w
          \<and> jcs E w = jcs E (snd e) \<and> jcs E w \<noteq> None"
    using assms unfolding receipt_verify_def
    apply (simp only: result_simps entry secs bind_eq_Some_conv [of "rfc3339_parse E _"] not_not)
    apply (elim exE conjE)
    apply (rule that, (assumption | simp)+)
    done
  from verify_leaf_Ok [OF vl] obtain ca leaf ca_key ca_sg where
    c: "map_option fst (x509_parse E ca_der) = Some ca" "map_option fst (x509_parse E leaf_der) = Some leaf"
      "x_sig_alg leaf = OID_SIG_ECDSA_WITH_SHA256" "p256_from_spki E (x_spki ca) = Some ca_key"
      "p256_sig_from_der E (x_signature leaf) = Some ca_sg" "p256_verify E ca_key (x_tbs leaf) ca_sg"
      "x_not_before leaf \<le> seconds_of t" "seconds_of t < x_not_after leaf"
    by (auto simp: seconds_of_def)
  have p: "parse_x509 E leaf_der = Ok leaf" using c(2) by (auto simp: parse_x509_def)
  obtain urn where u: "x_uri_sans leaf = [''alphacompute://kms'', ''urn:alphacompute:revision:'' @ urn]"
      "compose_hash_from_str urn = Some revision"
    using names(1,2) p by (auto simp: uri_sans_def parse_kms_sans_Ok KMS_SAN_def REVISION_URN_def)
  have k: "p256_from_spki E (x_spki leaf) = Some key" using key p by (simp add: spki_of_def)
  show ?thesis
    by (intro exI conjI, (rule doc pem c u names(3) k sg rest)+)
qed

definition demo_leaf :: x509 where
  "demo_leaf = \<lparr> x_raw = [], x_tbs = [], x_issuer = [], x_subject = [], x_sig_alg = OID_SIG_ECDSA_WITH_SHA256,
     x_signature = [], x_public_key = [], x_spki = [], x_serial = [], x_not_before = 0, x_not_after = 10,
     x_extensions = [], x_basic = None, x_key_usage = None,
     x_uri_sans = [KMS_SAN, REVISION_URN @ compose_hash_show (replicate 32 1)] \<rparr>"

definition demo_pki :: ext where
  "demo_pki = demo\<lparr> x509_parse := \<lambda>_. Some (demo_leaf, []), parse_x509_pem := \<lambda>_. Some ([], ''CERTIFICATE'', []),
     p256_from_spki := Some, p256_sig_from_der := Some, p256_sig_from_slice := Some, p256_verify := \<lambda>_ _ _. True,
     rfc3339_parse := \<lambda>_. Some 0,
     json_events := \<lambda>_. Some (RSeq [RSeq [RStr ''r'', RStr ''q'', RMap [], RStr []],
       RSeq [RStr ECDSA_P256, RStr []], RSeq [RStr []]]) \<rparr>"

definition demo_expected :: expected_receipt where
  "demo_expected = \<lparr> ex_route = ''r'', ex_request_sha256 = ''q'', ex_response = [] \<rparr>"

lemma demo_revision_san: "parse_revision_san (REVISION_URN @ compose_hash_show (replicate 32 1)) = Some (replicate 32 1)"
  by (simp add: parse_revision_san_def compose_text.dec_enc)

lemma demo_receipt_verified: "receipt_verify demo_pki [] [] [replicate 32 1] demo_expected = Ok (JObject [])"
proof -
  have p: "pem_to_der demo_pki s = Ok []" for s by (simp add: pem_to_der_def demo_pki_def)
  have "verify_leaf demo_pki [] [] 0 = Ok (0, 10 * 1000000000)"
    by (simp add: verify_leaf_def parse_x509_def demo_pki_def demo_leaf_def unix_seconds_def seconds_of_def
        from_unix_seconds_def)
  moreover have "parse_kms_sans (x_uri_sans demo_leaf) = Ok (replicate 32 1)"
    by (simp add: parse_kms_sans_def demo_leaf_def demo_revision_san)
  moreover have "parse demo_pki [] = Some (JArray [JArray [JString ''r'', JString ''q'', JObject [], JString []],
       JArray [JString ECDSA_P256, JString []], JArray [JString []]])"
    by (simp add: parse_def demo_pki_def)
  moreover have "x509_parse demo_pki [] = Some (demo_leaf, [])" "p256_from_spki demo_pki = Some"
    "p256_verify demo_pki k m s" "rfc3339_parse demo_pki [] = Some 0" "p256_signature demo_pki [] = Some []"
    for k m s
    by (simp_all add: demo_pki_def p256_signature_def demo_def)
  moreover obtain d where
    "signing_digest demo_pki KMS_RECEIPT (JArray [JString ''r'', JString ''q'', JObject [], JString []]) = Some d"
    by (simp add: demo_pki_def demo_def signing_digest_def)
  ultimately show ?thesis
    by (simp add: receipt_verify_def receipt_de_def struct_fields_def field_def named_signature_de_def de_vec_def
        receipt_document_de_def p seconds_of_def from_unix_seconds_def uri_sans_def parse_x509_def spki_of_def
        demo_expected_def)
qed

theorem receipt_verify_sound_witness:
  "\<exists>(leaf :: x509) ca_key sg. x_uri_sans leaf = [''alphacompute://kms'',
       ''urn:alphacompute:revision:'' @ compose_hash_show (replicate 32 1)]
     \<and> p256_verify demo_pki ca_key (x_tbs leaf) sg \<and> x_not_before leaf \<le> 0 \<and> 0 < x_not_after leaf"
proof -
  have x: "x509_parse demo_pki d = Some (demo_leaf, [])" for d by (simp add: demo_pki_def)
  from receipt_verify_sound [OF demo_receipt_verified] obtain leaf leaf_der ca_key sg t where
    l: "map_option fst (x509_parse demo_pki leaf_der) = Some leaf" "p256_verify demo_pki ca_key (x_tbs leaf) sg"
    "x_not_before leaf \<le> seconds_of t" "seconds_of t < x_not_after leaf" by (elim exE conjE) (rule that)
  then have "leaf = demo_leaf" by (simp add: x)
  with l(2) show ?thesis 
    by - (rule exI [of _ leaf], rule exI [of _ ca_key], rule exI [of _ sg],
        simp add: demo_leaf_def KMS_SAN_def REVISION_URN_def)
qed

end
