(* ===== verification/Kms_Keys.thy ===== *)
theory Kms_Keys
  imports Attest Channel_Cert
begin

text \<open>
  \<^verbatim>\<open>services/alpha-kms/src/error.rs\<close>, \<^verbatim>\<open>keys.rs\<close> and \<^verbatim>\<open>webauthn.rs\<close>: the wire errors, the derivation of an
  organization's and an App's keys, the sealed boxes of the database, signature objects (Ed25519
  and passkey) and the walk from a key to its organization's anchor. An \<open>ApiError\<close> is its code. A
  call of the system's random generator is an argument, \<open>None\<close> where it fails. The table
  \<open>principal_keys\<close> is the list of its rows.
\<close>

section \<open>Errors\<close>

datatype api_error = ApiError (err_code: string)

definition malformed :: api_error where "malformed = ApiError ''malformed''"
definition signature_invalid :: api_error where "signature_invalid = ApiError ''signature_invalid''"
definition not_found :: api_error where "not_found = ApiError ''not_found''"
definition internal :: api_error where "internal = ApiError ''internal''"

definition status :: "api_error \<Rightarrow> nat" where
  "status e =
     (if err_code e \<in> set [''signature_invalid'', ''nonce_invalid'', ''malformed''] then 400
      else if err_code e \<in> set [''cert_invalid'', ''token_invalid''] then 401
      else if err_code e \<in> set [''attestation_failed'', ''attestation_unknown'', ''policy_denied''] then 403
      else if err_code e \<in> set [''revision_revoked'', ''already_exists''] then 409
      else if err_code e = ''not_found'' then 404
      else if err_code e = ''rate_limited'' then 429
      else if err_code e = ''sealed'' then 503
      else 500)"

definition outcome :: "api_error \<Rightarrow> string" where
  "outcome e = (if err_code e = ''internal'' then ''error'' else ''denied'')"

definition retry_after :: "api_error \<Rightarrow> nat option" where
  "retry_after e =
     (if err_code e = ''rate_limited'' then Some 1
      else if err_code e = ''sealed'' then Some 30 else None)"

lemmas api_error_defs = malformed_def signature_invalid_def not_found_def internal_def

lemma api_error_neq [simp]:
  "malformed \<noteq> internal" "signature_invalid \<noteq> internal" "not_found \<noteq> internal"
  "malformed \<noteq> not_found" "signature_invalid \<noteq> not_found"
  by (simp_all add: api_error_defs)

section \<open>Derived keys\<close>

definition kms_hkdf :: "'x ext_scheme \<Rightarrow> bytes \<Rightarrow> bytes \<Rightarrow> bytes \<Rightarrow> (bytes, api_error) result" where
  "kms_hkdf E ikm salt info = Ok (hkdf_sha256 E salt ikm info)"

definition derive :: "'x ext_scheme \<Rightarrow> bytes \<Rightarrow> bytes \<Rightarrow> uuid \<Rightarrow> bytes \<Rightarrow> (bytes, api_error) result" where
  "derive E ikm salt org anchor_spki =
     kms_hkdf E ikm salt (uuid_bytes org @ sha256 E anchor_spki)"

definition org_key :: "'x ext_scheme \<Rightarrow> bytes \<Rightarrow> uuid \<Rightarrow> bytes \<Rightarrow> (bytes, api_error) result" where
  "org_key E tenant_kek_root org anchor_spki =
     derive E tenant_kek_root (as_bytes ''alphacompute-kms/org-key/v1'') org anchor_spki"

definition anchor_check :: "'x ext_scheme \<Rightarrow> bytes \<Rightarrow> uuid \<Rightarrow> bytes \<Rightarrow> (bytes, api_error) result" where
  "anchor_check E tenant_kek_root org anchor_spki =
     derive E tenant_kek_root (as_bytes ''alphacompute-kms/anchor-check/v1'') org anchor_spki"

definition app_key :: "'x ext_scheme \<Rightarrow> bytes \<Rightarrow> uuid \<Rightarrow> string \<Rightarrow> (bytes, api_error) result" where
  "app_key E okey app purpose =
     kms_hkdf E okey (as_bytes ''alphacompute-kms/app-key/v1'') (uuid_bytes app @ as_bytes purpose)"

definition database_password :: "'x ext_scheme \<Rightarrow> bytes \<Rightarrow> (string, api_error) result" where
  "database_password E root =
     and_then (kms_hkdf E root (as_bytes ''alphacompute-kms/database/v1'') []) (\<lambda>out. Ok (hex_encode out))"

definition SCRAM_ITERATIONS :: nat where "SCRAM_ITERATIONS = 4096"

definition scram_verifier :: "'x ext_scheme \<Rightarrow> string \<Rightarrow> bytes \<Rightarrow> (string, api_error) result" where
  "scram_verifier E password salt =
     (let salted = pbkdf2_sha256 E (as_bytes password) salt SCRAM_ITERATIONS;
          stored_key = sha256 E (hmac_sha256 E salted (as_bytes ''Client Key''));
          server_key = hmac_sha256 E salted (as_bytes ''Server Key'') in
      Ok (''SCRAM-SHA-256$'' @ show_nat SCRAM_ITERATIONS @ '':'' @ b64_std_enc E salt @ ''$''
          @ b64_std_enc E stored_key @ '':'' @ b64_std_enc E server_key))"

section \<open>Sealed boxes\<close>

definition aead_seal :: "'x ext_scheme \<Rightarrow> bytes option \<Rightarrow> bytes \<Rightarrow> bytes \<Rightarrow> bytes \<Rightarrow> (bytes, api_error) result" where
  "aead_seal E rnd key aad plaintext =
     and_then (ok_or rnd internal) (\<lambda>nonce.
     and_then (ok_or (aes_gcm_enc E key nonce aad plaintext) internal) (\<lambda>ct.
     Ok (nonce @ ct)))"

definition aead_open :: "'x ext_scheme \<Rightarrow> bytes \<Rightarrow> bytes \<Rightarrow> bytes \<Rightarrow> bytes option" where
  "aead_open E key aad blob =
     (if length blob < 12 then None else aes_gcm_dec E key (take 12 blob) aad (drop 12 blob))"

definition secret_aad :: "'x ext_scheme \<Rightarrow> uuid \<Rightarrow> json \<Rightarrow> (bytes, api_error) result" where
  "secret_aad E i document =
     and_then (ok_or (signing_digest E SECRET document) malformed) (\<lambda>digest.
     Ok (uuid_bytes i @ digest))"

section \<open>Signature objects\<close>

record signature_object =
  so_key_id :: "uuid option"
  so_algorithm :: string
  so_signature :: string
  so_authenticator_data :: "string option"
  so_client_data_json :: "string option"

definition uuid_de :: "'x ext_scheme \<Rightarrow> json \<Rightarrow> uuid option" where
  "uuid_de E v = Option.bind (json_as_str v) (uuid_parse E)"

definition signature_object_de :: "'x ext_scheme \<Rightarrow> json \<Rightarrow> signature_object option" where
  "signature_object_de E v =
     Option.bind (struct_fields True [(''key_id'', True), (''algorithm'', False), (''signature'', False),
       (''authenticator_data'', True), (''client_data_json'', True)] v) (\<lambda>m.
     Option.bind (opt_field m ''key_id'' (uuid_de E)) (\<lambda>key_id.
     Option.bind (field m ''algorithm'' json_as_str) (\<lambda>algorithm.
     Option.bind (field m ''signature'' json_as_str) (\<lambda>sg.
     Option.bind (opt_field m ''authenticator_data'' json_as_str) (\<lambda>adata.
     Option.bind (opt_field m ''client_data_json'' json_as_str) (\<lambda>cdata.
     Some \<lparr> so_key_id = key_id, so_algorithm = algorithm, so_signature = sg,
       so_authenticator_data = adata, so_client_data_json = cdata \<rparr>))))))"

definition opt_entry :: "string \<Rightarrow> ('a \<Rightarrow> json) \<Rightarrow> 'a option \<Rightarrow> (string \<times> json) list" where
  "opt_entry k f v = (case v of None \<Rightarrow> [] | Some x \<Rightarrow> [(k, f x)])"

definition signature_object_json :: "'x ext_scheme \<Rightarrow> signature_object \<Rightarrow> json" where
  "signature_object_json E s = jobj (opt_entry ''key_id'' (\<lambda>u. JString (uuid_show E u)) (so_key_id s)
     @ [(''algorithm'', JString (so_algorithm s)), (''signature'', JString (so_signature s))]
     @ opt_entry ''authenticator_data'' JString (so_authenticator_data s)
     @ opt_entry ''client_data_json'' JString (so_client_data_json s))"

definition ALGORITHM :: string where "ALGORITHM = ''webauthn-es256''"
definition FLAG_UP :: byte where "FLAG_UP = 1"
definition FLAG_UV :: byte where "FLAG_UV = 4"

definition check_shape :: "signature_object \<Rightarrow> (unit, api_error) result" where
  "check_shape s =
     (let fields_set = (so_authenticator_data s \<noteq> None, so_client_data_json s \<noteq> None) in
      if so_algorithm s = ''ed25519'' then
        (if fields_set \<noteq> (False, False) then Err malformed else Ok ())
      else if so_algorithm s = ALGORITHM then
        (if fields_set \<noteq> (True, True) then Err malformed else Ok ())
      else Err signature_invalid)"

definition verify_ed25519 :: "'x ext_scheme \<Rightarrow> bytes \<Rightarrow> bytes \<Rightarrow> string \<Rightarrow> bool" where
  "verify_ed25519 E spki_der digest signature_b64 =
     (case ed25519_from_spki E spki_der of
        None \<Rightarrow> False
      | Some key \<Rightarrow>
          (case Option.bind (b64_dec E signature_b64) (\<lambda>b. if length b = 64 then Some b else None) of
             None \<Rightarrow> False
           | Some sg \<Rightarrow> ed25519_verify_strict E key digest sg))"

definition client_str :: "(string \<times> json) list \<Rightarrow> string \<Rightarrow> string option" where
  "client_str client k = Option.bind (map_of client k) json_as_str"

definition flag_clear :: "byte \<Rightarrow> byte \<Rightarrow> bool" where
  "flag_clear flags f \<longleftrightarrow> Bit_Operations.and flags f = 0"

definition webauthn_client_ok :: "'x ext_scheme \<Rightarrow> bytes \<Rightarrow> signer \<Rightarrow> (string \<times> json) list \<Rightarrow> (unit, api_error) result" where
  "webauthn_client_ok E digest sp client =
     refuse_if (client_str client ''type'' \<noteq> Some ''webauthn.get'') signature_invalid
     (refuse_if (client_str client ''challenge'' \<noteq> Some (b64_enc E digest)) signature_invalid
     (refuse_if (\<not> list_ex (\<lambda>x. Some x = client_str client ''origin'') (sg_origins sp)) signature_invalid
     (refuse_if (map_of client ''crossOrigin'' \<notin> {None, Some (JBool False)}) signature_invalid
     (refuse_if (map_of client ''topOrigin'' \<noteq> None) signature_invalid (Ok ())))))"

definition webauthn_data_ok :: "'x ext_scheme \<Rightarrow> signer \<Rightarrow> bytes \<Rightarrow> (unit, api_error) result" where
  "webauthn_data_ok E sp adata =
     refuse_if (length adata < 37) signature_invalid
     (refuse_if (take 32 adata \<noteq> sha256 E (as_bytes (sg_rp_id sp))) signature_invalid
     (refuse_if (flag_clear (adata ! 32) FLAG_UP) signature_invalid
     (refuse_if (flag_clear (adata ! 32) FLAG_UV) signature_invalid (Ok ()))))"

definition webauthn_verify :: "'x ext_scheme \<Rightarrow> bytes \<Rightarrow> bytes \<Rightarrow> signature_object \<Rightarrow> signer option \<Rightarrow>
    (unit, api_error) result" where
  "webauthn_verify E spki digest s signer_opt =
     (let decode = (\<lambda>f. Option.bind f (b64_dec E)) in
      and_then (ok_or signer_opt signature_invalid) (\<lambda>sp.
      and_then (ok_or (p256_from_spki E spki) signature_invalid) (\<lambda>key.
      and_then (ok_or (decode (so_client_data_json s)) signature_invalid) (\<lambda>cdata.
      and_then (ok_or (Option.bind (parse E cdata) json_as_object) signature_invalid) (\<lambda>client.
      and_then (webauthn_client_ok E digest sp client) (\<lambda>_.
      and_then (ok_or (decode (so_authenticator_data s)) signature_invalid) (\<lambda>adata.
      and_then (webauthn_data_ok E sp adata) (\<lambda>_.
      and_then (ok_or (decode (Some (so_signature s))) signature_invalid) (\<lambda>raw_der.
      and_then (ok_or (p256_sig_from_der E raw_der) signature_invalid) (\<lambda>der.
      refuse_if (\<not> p256_verify E key (adata @ sha256 E cdata) der) signature_invalid (Ok ())))))))))))"

definition verify_signature :: "'x ext_scheme \<Rightarrow> bytes \<Rightarrow> bytes \<Rightarrow> signature_object \<Rightarrow> signer option \<Rightarrow>
    (unit, api_error) result" where
  "verify_signature E spki digest s sp =
     and_then (map_err (\<lambda>_. signature_invalid) (check_shape s)) (\<lambda>_.
     if so_algorithm s = ''ed25519'' then
       (if verify_ed25519 E spki digest (so_signature s) then Ok () else Err signature_invalid)
     else if so_algorithm s = ALGORITHM then webauthn_verify E spki digest s sp
     else Err signature_invalid)"

section \<open>The chain to the anchor\<close>

record key_row =
  k_id :: uuid
  k_org_id :: uuid
  k_public_key :: bytes
  k_document :: json
  k_signature :: json
  k_registered_by_key :: "uuid option"
  k_anchor_check :: "bytes option"
  k_revoked_at :: "time option"
  k_revocation_reason :: "string option"

record principal_key = key_row +
  k_principal_id :: uuid
  k_created_at :: time

definition load_key :: "principal_key list \<Rightarrow> uuid \<Rightarrow> key_row option" where
  "load_key rows i = map_option key_row.truncate (find (\<lambda>r. k_id r = i) rows)"

record chain =
  chain_key :: key_row
  chain_anchor_spki :: bytes

definition registration_signature :: "'x ext_scheme \<Rightarrow> key_row \<Rightarrow> (signature_object, api_error) result" where
  "registration_signature E row = ok_or (signature_object_de E (k_signature row)) signature_invalid"

definition document_str :: "key_row \<Rightarrow> string \<Rightarrow> string option" where
  "document_str row k = Option.bind (json_get (k_document row) k) json_as_str"

definition verify_document_spki :: "'x ext_scheme \<Rightarrow> key_row \<Rightarrow> (unit, api_error) result" where
  "verify_document_spki E row =
     refuse_if (Option.bind (document_str row ''public_key'') (b64_dec E) \<noteq> Some (k_public_key row))
       signature_invalid (Ok ())"

definition verify_registration :: "'x ext_scheme \<Rightarrow> key_row \<Rightarrow> key_row \<Rightarrow> signer option \<Rightarrow> (unit, api_error) result" where
  "verify_registration E child parent sp =
     and_then (registration_signature E child) (\<lambda>s.
     refuse_if (so_key_id s \<noteq> Some (k_id parent)) signature_invalid
     (and_then (verify_document_spki E child) (\<lambda>_.
      and_then (ok_or (signing_digest E PRINCIPAL_KEY (k_document child)) signature_invalid) (\<lambda>digest.
      map_err (\<lambda>_. signature_invalid) (verify_signature E (k_public_key parent) digest s sp)))))"

definition verify_self_registration :: "'x ext_scheme \<Rightarrow> key_row \<Rightarrow> signer option \<Rightarrow> (unit, api_error) result" where
  "verify_self_registration E root sp =
     and_then (registration_signature E root) (\<lambda>s.
     refuse_if (so_key_id s \<noteq> None) signature_invalid
     (and_then (verify_document_spki E root) (\<lambda>_.
      refuse_if (Option.bind (document_str root ''org_id'') (uuid_parse E) \<noteq> Some (k_org_id root))
        signature_invalid
      (and_then (ok_or (signing_digest E ORG_ROOT_KEY (k_document root)) signature_invalid) (\<lambda>digest.
       map_err (\<lambda>_. signature_invalid) (verify_signature E (k_public_key root) digest s sp))))))"

definition link_revoked :: "key_row \<Rightarrow> time \<Rightarrow> bool" where
  "link_revoked link signed_at =
     (case k_revoked_at link of
        None \<Rightarrow> False
      | Some revoked_at \<Rightarrow> k_revocation_reason link \<noteq> Some ''retired'' \<or> signed_at \<ge> revoked_at)"

definition link_anchored :: "'x ext_scheme \<Rightarrow> bytes \<Rightarrow> key_row \<Rightarrow> signer option \<Rightarrow> (unit, api_error) result" where
  "link_anchored E tenant_kek_root link sp =
     and_then (anchor_check E tenant_kek_root (k_org_id link) (k_public_key link)) (\<lambda>expected.
     refuse_if (k_anchor_check link \<noteq> Some expected) signature_invalid
     (verify_self_registration E link sp))"

function walk_links :: "'x ext_scheme \<Rightarrow> principal_key list \<Rightarrow> bytes \<Rightarrow> signer option \<Rightarrow> key_row \<Rightarrow>
    key_row option \<Rightarrow> key_row option \<Rightarrow> time \<Rightarrow> nat \<Rightarrow> (chain, api_error) result" where
  "walk_links E rows kek sp first current child signed_at hops =
     (case current of
        None \<Rightarrow> Err signature_invalid
      | Some link \<Rightarrow>
          refuse_if (k_org_id link \<noteq> k_org_id first) signature_invalid
          (and_then (case child of None \<Rightarrow> Ok () | Some c \<Rightarrow> verify_registration E c link sp) (\<lambda>_.
           refuse_if (link_revoked link signed_at) signature_invalid
           (case k_registered_by_key link of
              None \<Rightarrow>
                and_then (link_anchored E kek link sp) (\<lambda>_.
                Ok \<lparr> chain_key = first, chain_anchor_spki = k_public_key link \<rparr>)
            | Some parent \<Rightarrow>
                and_then (ok_or (Option.bind (document_str link ''issued_at'') (rfc3339_parse E)) signature_invalid)
                  (\<lambda>issued_at.
                   if hops + 1 > 64 then Err signature_invalid
                   else walk_links E rows kek sp first (load_key rows parent) (Some link) issued_at (hops + 1))))))"
  by pat_completeness auto
termination by (relation "measure (\<lambda>(E, rows, kek, sp, first, current, child, t, hops). 65 - hops)") auto

declare walk_links.simps [simp del]

definition walk_chain :: "'x ext_scheme \<Rightarrow> principal_key list \<Rightarrow> bytes \<Rightarrow> uuid \<Rightarrow> time \<Rightarrow> signer option \<Rightarrow>
    (chain, api_error) result" where
  "walk_chain E rows tenant_kek_root key_id signed_at sp =
     and_then (ok_or (load_key rows key_id) signature_invalid) (\<lambda>first.
     walk_links E rows tenant_kek_root sp first (Some first) None signed_at 0)"

definition verify_signed :: "'x ext_scheme \<Rightarrow> principal_key list \<Rightarrow> bytes \<Rightarrow> signature_object \<Rightarrow> string \<Rightarrow>
    json \<Rightarrow> time \<Rightarrow> signer option \<Rightarrow> (chain, api_error) result" where
  "verify_signed E rows tenant_kek_root s ctx document signed_at sp =
     and_then (ok_or (so_key_id s) malformed) (\<lambda>key_id.
     and_then (walk_chain E rows tenant_kek_root key_id signed_at sp) (\<lambda>c.
     and_then (ok_or (signing_digest E ctx document) malformed) (\<lambda>digest.
     and_then (verify_signature E (k_public_key (chain_key c)) digest s sp) (\<lambda>_. Ok c))))"

definition sha256_hex :: "'x ext_scheme \<Rightarrow> bytes \<Rightarrow> string" where
  "sha256_hex E b = hex_encode (sha256 E b)"

section \<open>What a chain is\<close>

text \<open>
  The specification of the walk: \<open>chains child t (l # ls)\<close> says that \<open>l # ls\<close> leads from the key \<open>l\<close> to an
  anchor of the organization, where \<open>l\<close> signed at \<open>t\<close> the registration of \<open>child\<close>, if there is one.
\<close>

definition link_ok :: "'x ext_scheme \<Rightarrow> signer option \<Rightarrow> uuid \<Rightarrow> key_row option \<Rightarrow> time \<Rightarrow> key_row \<Rightarrow> bool" where
  "link_ok E sp org child t l \<longleftrightarrow> k_org_id l = org \<and> \<not> link_revoked l t
     \<and> (case child of None \<Rightarrow> True | Some c \<Rightarrow> verify_registration E c l sp = Ok ())"

definition issued_at :: "'x ext_scheme \<Rightarrow> key_row \<Rightarrow> time option" where
  "issued_at E l = Option.bind (document_str l ''issued_at'') (rfc3339_parse E)"

inductive chains :: "'x ext_scheme \<Rightarrow> principal_key list \<Rightarrow> bytes \<Rightarrow> signer option \<Rightarrow> uuid \<Rightarrow>
    key_row option \<Rightarrow> time \<Rightarrow> key_row list \<Rightarrow> bool"
  for E rows kek sp org where
  anchor: "link_ok E sp org child t l \<Longrightarrow> k_registered_by_key l = None \<Longrightarrow> link_anchored E kek l sp = Ok () \<Longrightarrow>
    chains E rows kek sp org child t [l]"
| hop: "link_ok E sp org child t l \<Longrightarrow> k_registered_by_key l = Some p \<Longrightarrow> issued_at E l = Some t' \<Longrightarrow>
    load_key rows p = Some r \<Longrightarrow> chains E rows kek sp org (Some l) t' (r # ls) \<Longrightarrow>
    chains E rows kek sp org child t (l # r # ls)"

inductive_cases chains_ConsE: "chains E rows kek sp org child t (l # ls)"

lemma chains_not_Nil: "chains E rows kek sp org child t ls \<Longrightarrow> ls \<noteq> []"
  by (induction rule: chains.induct) auto

lemma unit_result: "r = Ok x \<longleftrightarrow> r = Ok ()" for r :: "(unit, 'e) result"
  by simp

lemma walk_links_iff:
  assumes "hops \<le> 64"
  shows "walk_links E rows kek sp first (Some l) child t hops = Ok c \<longleftrightarrow>
    (\<exists>ls. chains E rows kek sp (k_org_id first) child t (l # ls) \<and> length ls + hops \<le> 64
       \<and> c = \<lparr> chain_key = first, chain_anchor_spki = k_public_key (last (l # ls)) \<rparr>)"
  (is "?W l child t hops \<longleftrightarrow> (\<exists>ls. ?C l child t hops ls)")
  using assms
proof (induction "64 - hops" arbitrary: hops l child t)
  case z: 0
  have "?W l child t hops \<longleftrightarrow> ?C l child t hops []"
    using z by (subst walk_links.simps)
      (auto simp: result_simps link_ok_def chains.simps [of _ _ _ _ _ _ _ "[_]"] split: option.splits)
  moreover have "?C l child t hops ls \<Longrightarrow> ls = []" for ls using z by auto
  ultimately show ?case by blast
next
  case (Suc n)
  show ?case
  proof (cases "k_registered_by_key l")
    case None
    then have "?W l child t hops \<longleftrightarrow> ?C l child t hops []"
      using Suc.prems by (subst walk_links.simps)
        (auto simp: result_simps link_ok_def chains.simps [of _ _ _ _ _ _ _ "[_]"] split: option.splits)
    moreover have "?C l child t hops ls \<Longrightarrow> ls = []" for ls using None by (auto elim: chains_ConsE)
    ultimately show ?thesis by blast
  next
    case (Some p)
    have lt: "hops < 64" using Suc.hyps(2) by simp
    have ih: "?W r (Some l) t' (hops + 1) \<longleftrightarrow> (\<exists>ls. ?C r (Some l) t' (hops + 1) ls)" for r t'
      using Suc.hyps(1) [of "hops + 1"] Suc.hyps(2) lt by simp
    have none: "walk_links E rows kek sp first None child' t' h \<noteq> Ok c" for child' t' h
      by (subst walk_links.simps) simp
    have "?W l child t hops \<longleftrightarrow> link_ok E sp (k_org_id first) child t l
        \<and> (\<exists>t' r. issued_at E l = Some t' \<and> load_key rows p = Some r \<and> ?W r (Some l) t' (hops + 1))"
      using Some lt none
      by (subst walk_links.simps)
        (cases "load_key rows p"; auto simp: result_simps link_ok_def issued_at_def split: option.splits)
    also have "\<dots> \<longleftrightarrow> (\<exists>ls. ?C l child t hops ls)"
    proof
      assume "link_ok E sp (k_org_id first) child t l
        \<and> (\<exists>t' r. issued_at E l = Some t' \<and> load_key rows p = Some r \<and> ?W r (Some l) t' (hops + 1))"
      then obtain t' r ls where "link_ok E sp (k_org_id first) child t l" "issued_at E l = Some t'"
        "load_key rows p = Some r" "?C r (Some l) t' (hops + 1) ls" using ih by blast
      with Some have "?C l child t hops (r # ls)" by (auto intro: chains.hop)
      then show "\<exists>ls. ?C l child t hops ls" ..
    next
      assume "\<exists>ls. ?C l child t hops ls"
      then obtain ls where c: "?C l child t hops ls" ..
      then have "chains E rows kek sp (k_org_id first) child t (l # ls)" by simp
      then obtain t' r ls' where "ls = r # ls'" "link_ok E sp (k_org_id first) child t l"
        "issued_at E l = Some t'" "load_key rows p = Some r"
        "chains E rows kek sp (k_org_id first) (Some l) t' (r # ls')"
        using Some by (auto elim: chains_ConsE)
      moreover from this c have "?C r (Some l) t' (hops + 1) ls'" by simp
      ultimately show "link_ok E sp (k_org_id first) child t l
        \<and> (\<exists>t' r. issued_at E l = Some t' \<and> load_key rows p = Some r \<and> ?W r (Some l) t' (hops + 1))"
        using ih by blast
    qed
    finally show ?thesis .
  qed
qed

lemma chains_links:
  "chains E rows kek sp org child t ls \<Longrightarrow> \<forall>l \<in> set ls. k_org_id l = org
     \<and> (k_revoked_at l \<noteq> None \<longrightarrow> k_revocation_reason l = Some ''retired'')"
  by (induction rule: chains.induct) (auto simp: link_ok_def link_revoked_def split: option.splits)

lemma chains_registered:
  "chains E rows kek sp org child t ls \<Longrightarrow> Suc i < length ls \<Longrightarrow>
     verify_registration E (ls ! i) (ls ! Suc i) sp = Ok ()
     \<and> k_registered_by_key (ls ! i) \<noteq> None
     \<and> load_key rows (the (k_registered_by_key (ls ! i))) = Some (ls ! Suc i)"
proof (induction arbitrary: i rule: chains.induct)
  case (hop child t l p t' r ls)
  from hop.hyps(5) have "link_ok E sp org (Some l) t' r" by (auto elim: chains_ConsE)
  with hop show ?case by (cases i) (auto simp: link_ok_def)
qed simp

lemma chains_anchored:
  "chains E rows kek sp org child t ls \<Longrightarrow>
     link_anchored E kek (last ls) sp = Ok () \<and> k_registered_by_key (last ls) = None"
  by (induction rule: chains.induct) auto

definition hkdf_collision :: "'x ext_scheme \<Rightarrow> bytes \<Rightarrow> bool" where
  "hkdf_collision E k \<longleftrightarrow> (\<exists>s i s' i'. (s, i) \<noteq> (s', i') \<and> hkdf_sha256 E s k i = hkdf_sha256 E s' k i')"

lemma signature_object_roundtrip:
  assumes "uuid_law E"
  shows "signature_object_de E (signature_object_json E s) = Some s"
proof -
  obtain k a g d c where s: "s = \<lparr> so_key_id = k, so_algorithm = a, so_signature = g,
    so_authenticator_data = d, so_client_data_json = c \<rparr>" by (cases s)
  let ?es = "opt_entry ''key_id'' (\<lambda>u. JString (uuid_show E u)) k
     @ [(''algorithm'', JString a), (''signature'', JString g)]
     @ opt_entry ''authenticator_data'' JString d @ opt_entry ''client_data_json'' JString c"
  let ?fs = "[(''key_id'', True), (''algorithm'', False), (''signature'', False),
       (''authenticator_data'', True), (''client_data_json'', True)]"
  have "set (map fst ?es) \<subseteq> set (map fst ?fs)" by (auto simp: opt_entry_def split: option.splits)
  then obtain m where m: "struct_fields True ?fs (jobj ?es) = Some m" and f: "map_of m = map_of (rev ?es)"
    using struct_fields_jobj by blast
  have u: "uuid_parse E (uuid_show E v) = Some v" for v using assms by (simp add: uuid_law_def)
  show ?thesis
    unfolding signature_object_de_def signature_object_json_def s signature_object.simps m Option.bind.bind_lunit
      opt_field_def field_def f
    by (cases k; cases d; cases c; simp add: opt_entry_def uuid_de_def u)
qed

lemma verify_signature_ed25519:
  assumes "b64_law E" and "ed25519_law E" and "ed25519_sign E k digest = Some g"
    and "ed25519_from_spki E spki = Some (ed25519_public E k)"
  shows "verify_signature E spki digest \<lparr> so_key_id = i, so_algorithm = ''ed25519'',
    so_signature = b64_enc E g, so_authenticator_data = None, so_client_data_json = None \<rparr> sp = Ok ()"
proof -
  have "length g = 64" "ed25519_verify_strict E (ed25519_public E k) digest g"
    using assms(2,3) by (auto simp: ed25519_law_def)
  then show ?thesis
    using assms(4) by (simp add: verify_signature_def check_shape_def verify_ed25519_def b64_decode_encode [OF assms(1)])
qed

text \<open>An anchor as it is stored when a root key registers itself walks to itself.\<close>

lemma walk_chain_root:
  assumes "load_key rows i = Some l" and "k_registered_by_key l = None" and "k_revoked_at l = None"
    and "anchor_check E kek (k_org_id l) (k_public_key l) = Ok a" and "k_anchor_check l = Some a"
    and "verify_self_registration E l sp = Ok ()"
  shows "walk_chain E rows kek i t sp = Ok \<lparr> chain_key = l, chain_anchor_spki = k_public_key l \<rparr>"
  using assms by (auto simp: walk_chain_def walk_links.simps link_revoked_def link_anchored_def)

section \<open>Properties\<close>

text \<open>
  The walk accepts a key exactly when at most 64 hops lead from it to an anchor: every link is of
  the key's organization, each delegated link's registration document carries its own public key and
  verifies under its parent's, each link is unrevoked or was retired after it last signed, and the
  last one has the anchor check only the KMS can compute and signed its own registration. The chain
  returned is the first key with the anchor's public key.
\<close>

theorem walk_chain_iff:
  "walk_chain E rows kek key_id t sp = Ok c \<longleftrightarrow>
    (\<exists>l ls. load_key rows key_id = Some l \<and> chains E rows kek sp (k_org_id l) None t (l # ls)
       \<and> length ls \<le> 64 \<and> c = \<lparr> chain_key = l, chain_anchor_spki = k_public_key (last (l # ls)) \<rparr>)"
  by (auto simp: walk_chain_def result_simps walk_links_iff)

lemma verify_signed_chain:
  assumes "verify_signed E rows kek s ctx document t sp = Ok c"
  shows "\<exists>i ls digest. so_key_id s = Some i \<and> load_key rows i = Some (chain_key c)
    \<and> chains E rows kek sp (k_org_id (chain_key c)) None t (chain_key c # ls)
    \<and> signing_digest E ctx document = Some digest
    \<and> verify_signature E (k_public_key (chain_key c)) digest s sp = Ok ()"
  using assms by (auto simp: verify_signed_def result_simps walk_chain_iff)

text \<open>
  C8. What an accepted signature over a document rests on: a key of the roster that verifies it, and
  a path of rows from that key to an anchor in which every row is of one organization, none was
  revoked as compromised, each is registered by the next one's signature, and the last one carries
  the keyed anchor check of its organization and public key.
\<close>

theorem verify_signed_sound:
  assumes "verify_signed E rows kek s ctx document t sp = Ok c"
  shows "\<exists>key_id ls digest. so_key_id s = Some key_id \<and> load_key rows key_id = Some (chain_key c)
    \<and> ls \<noteq> [] \<and> hd ls = chain_key c \<and> length ls \<le> 65
    \<and> signing_digest E ctx document = Some digest
    \<and> verify_signature E (k_public_key (chain_key c)) digest s sp = Ok ()
    \<and> (\<forall>l \<in> set ls. k_org_id l = k_org_id (chain_key c)
         \<and> (k_revoked_at l \<noteq> None \<longrightarrow> k_revocation_reason l = Some ''retired''))
    \<and> (\<forall>i. Suc i < length ls \<longrightarrow> verify_registration E (ls ! i) (ls ! Suc i) sp = Ok ()
         \<and> load_key rows (the (k_registered_by_key (ls ! i))) = Some (ls ! Suc i))
    \<and> anchor_check E kek (k_org_id (chain_key c)) (k_public_key (last ls)) = Ok (the (k_anchor_check (last ls)))
    \<and> verify_self_registration E (last ls) sp = Ok ()
    \<and> chain_anchor_spki c = k_public_key (last ls)"
proof -
  from assms obtain key_id digest where k: "so_key_id s = Some key_id"
    and w: "walk_chain E rows kek key_id t sp = Ok c" and d: "signing_digest E ctx document = Some digest"
    and v: "verify_signature E (k_public_key (chain_key c)) digest s sp = Ok ()"
    by (auto simp: verify_signed_def result_simps)
  from w obtain l ls where l: "load_key rows key_id = Some l" "length ls \<le> 64"
    and c: "chains E rows kek sp (k_org_id l) None t (l # ls)"
    and e: "c = \<lparr> chain_key = l, chain_anchor_spki = k_public_key (last (l # ls)) \<rparr>"
    unfolding walk_chain_iff by (elim exE conjE) (rule that)
  have "k_org_id (last (l # ls)) = k_org_id l" using chains_links [OF c] last_in_set [of "l # ls"] by blast
  then have a: "anchor_check E kek (k_org_id l) (k_public_key (last (l # ls))) = Ok (the (k_anchor_check (last (l # ls))))
    \<and> verify_self_registration E (last (l # ls)) sp = Ok ()"
    using chains_anchored [OF c] by (auto simp: link_anchored_def result_simps)
  have r: "\<forall>i. Suc i < length (l # ls) \<longrightarrow> verify_registration E ((l # ls) ! i) ((l # ls) ! Suc i) sp = Ok ()
         \<and> load_key rows (the (k_registered_by_key ((l # ls) ! i))) = Some ((l # ls) ! Suc i)"
    using chains_registered [OF c] by blast
  have "chain_key c = l" "chain_anchor_spki c = k_public_key (last (l # ls))" by (simp_all add: e)
  moreover have "l # ls \<noteq> []" "hd (l # ls) = l" "length (l # ls) \<le> 65" using l by simp_all
  ultimately show ?thesis using k l(1) d v conjunct1 [OF a] conjunct2 [OF a] r chains_links [OF c] by metis
qed

text \<open>
  Derived keys are separate: two organization keys are equal only for the same organization and
  the same anchor, an organization key is never an anchor check, and two App keys of an organization
  are equal only for the same App and purpose, unless SHA-256 or HKDF collides.
\<close>

theorem derived_keys_separate:
  "(org_key E k org a = org_key E k org' a' \<longrightarrow>
       (org = org' \<and> a = a') \<or> sha_collision E \<or> hkdf_collision E k)
   \<and> (org_key E k org a = anchor_check E k org' a' \<longrightarrow> hkdf_collision E k)
   \<and> (app_key E k app p = app_key E k app' p' \<longrightarrow> (app = app' \<and> p = p') \<or> hkdf_collision E k)"
proof (intro conjI impI)
  assume "org_key E k org a = org_key E k org' a'"
  then show "(org = org' \<and> a = a') \<or> sha_collision E \<or> hkdf_collision E k"
    unfolding org_key_def derive_def kms_hkdf_def sha_collision_def hkdf_collision_def
    by simp (metis uuid_bytes_append_inject)
next
  assume "org_key E k org a = anchor_check E k org' a'"
  moreover have "as_bytes ''alphacompute-kms/org-key/v1'' \<noteq> as_bytes ''alphacompute-kms/anchor-check/v1''"
    by simp
  ultimately show "hkdf_collision E k"
    unfolding org_key_def anchor_check_def derive_def kms_hkdf_def hkdf_collision_def by blast
next
  assume "app_key E k app p = app_key E k app' p'"
  then show "(app = app' \<and> p = p') \<or> hkdf_collision E k"
    unfolding app_key_def kms_hkdf_def hkdf_collision_def
    by simp (metis uuid_bytes_append_inject as_bytes_inject)
qed

text \<open>
  A Secret's ciphertext opens to what was sealed beside the Secret's id and the document its
  signature covers, and beside another id or document only if an AES-GCM box was forged or SHA-256
  collides.
\<close>

theorem secret_box_bound_to_document:
  assumes "aead_law E" and "length n = 12"
    and "secret_aad E i d = Ok aad" and "aead_seal E (Some n) key aad x = Ok box"
    and "secret_aad E i' d' = Ok aad'"
  shows "aead_open E key aad box = Some x
    \<and> (\<forall>y. aead_open E key aad' box = Some y \<longrightarrow>
         (y = x \<and> i' = i \<and> jcs E d' = jcs E d) \<or> sha_collision E \<or> aead_forgery E key)"
proof -
  from assms(4) obtain ct where ct: "aes_gcm_enc E key n aad x = Some ct" and box: "box = n @ ct"
    by (auto simp: aead_seal_def result_simps)
  have o: "aead_open E key a box = aes_gcm_dec E key n a ct" for a
    using assms(2) by (simp add: aead_open_def box)
  have x: "aes_gcm_dec E key n aad ct = Some x" using ct by (simp add: aead_iff [OF assms(1)])
  have "(y = x \<and> i' = i \<and> jcs E d' = jcs E d) \<or> sha_collision E \<or> aead_forgery E key"
    if y: "aes_gcm_dec E key n aad' ct = Some y" for y
  proof (cases "aad' = aad")
    case True
    with assms(3,5) obtain g where "i' = i" "signing_digest E SECRET d = Some g" "signing_digest E SECRET d' = Some g"
      by (auto simp: secret_aad_def result_simps uuid_bytes_append_inject)
    moreover from this have "jcs E d' = jcs E d \<or> sha_collision E"
      using signing_digest_same_context by metis
    ultimately show ?thesis using True x y by auto
  next
    case False
    then have "(n, aad) \<noteq> (n, aad')" by simp
    with ct y have "aead_forgery E key" unfolding aead_forgery_def by metis
    then show ?thesis by simp
  qed
  with o x show ?thesis by simp
qed

text \<open>
  A passkey's assertion is accepted exactly when the platform document names a signer, the key is
  a P-256 one, the client data is a JSON object without repeated keys of type \<open>webauthn.get\<close> whose
  challenge is the signing digest, made on one of the signer's origins and in no other frame, the
  authenticator data is for the signer's rp_id with user presence and user verification set, and
  the signature verifies over the authenticator data and the hash of the client data.
\<close>

theorem webauthn_verify_iff:
  "webauthn_verify E spki digest s signer_opt = Ok () \<longleftrightarrow>
    (\<exists>sp key cdata client adata raw_der der.
       signer_opt = Some sp \<and> p256_from_spki E spki = Some key
       \<and> Option.bind (so_client_data_json s) (b64_dec E) = Some cdata
       \<and> parse E cdata = Some (JObject client)
       \<and> map_of client ''type'' = Some (JString ''webauthn.get'')
       \<and> map_of client ''challenge'' = Some (JString (b64_enc E digest))
       \<and> (\<exists>origin \<in> set (sg_origins sp). map_of client ''origin'' = Some (JString origin))
       \<and> map_of client ''crossOrigin'' \<in> {None, Some (JBool False)}
       \<and> map_of client ''topOrigin'' = None
       \<and> Option.bind (so_authenticator_data s) (b64_dec E) = Some adata
       \<and> 37 \<le> length adata \<and> take 32 adata = sha256 E (as_bytes (sg_rp_id sp))
       \<and> \<not> flag_clear (adata ! 32) FLAG_UP \<and> \<not> flag_clear (adata ! 32) FLAG_UV
       \<and> b64_dec E (so_signature s) = Some raw_der \<and> p256_sig_from_der E raw_der = Some der
       \<and> p256_verify E key (adata @ sha256 E cdata) der)"
proof -
  have str: "client_str m k = Some v \<longleftrightarrow> map_of m k = Some (JString v)" for m k v
    by (auto simp: client_str_def bind_eq_Some_conv)
  have "list_ex (\<lambda>x. Some x = client_str m k) xs \<longleftrightarrow> (\<exists>x \<in> set xs. map_of m k = Some (JString x))" for m k xs
    by (auto simp: list_ex_iff str [symmetric] eq_commute)
  then show ?thesis
    unfolding webauthn_verify_def webauthn_client_ok_def webauthn_data_ok_def
    by (simp add: result_simps str Let_def bind_eq_Some_conv [of "parse E _"] not_less)
qed

section \<open>Witnesses\<close>

text \<open>Every text is the epoch, and a quote is its report data followed by RTMR3.\<close>

text \<open>The body of a request that deletes a secret, signed with the demo root key.\<close>

definition demo_delete_doc :: json where
  "demo_delete_doc = jobj [(''name'', JString ''s''), (''issued_at'', JString ''t'')]"

definition demo_delete_raw :: raw where
  "demo_delete_raw = RMap [(''payload'', RMap [(''name'', RStr ''s''), (''issued_at'', RStr ''t'')]),
     (''signature'', RMap [(''key_id'', RStr (uuid_show demo 1)), (''algorithm'', RStr ''ed25519''),
       (''signature'', RStr (b64_enc demo (the (ed25519_sign demo [] (the (signing_digest demo CONTROL demo_delete_doc))))))])]"

definition demo_kms :: ext where
  "demo_kms = demo\<lparr> json_events := \<lambda>b. if b = [] then None else Some demo_delete_raw, chrono_de := \<lambda>_. Some 0, rfc3339_parse := \<lambda>_. Some 0, rfc3339_show := \<lambda>_. Some ''t'',
     qvl_verify := \<lambda>q _ _. Some \<lparr> qv_status = ''UpToDate'', qv_advisory_ids = [],
       qv_td10 = Some (demo_report\<lparr> td_report_data := take 64 q, td_rt_mr0 := replicate 48 0, td_rt_mr1 := replicate 48 0,
         td_rt_mr2 := replicate 48 0, td_rt_mr3 := drop 64 q \<rparr>) \<rparr> \<rparr>"

lemma demo_kms_laws:
  "sha_law demo_kms" "b64_law demo_kms" "uuid_law demo_kms" "aead_law demo_kms" "ed25519_law demo_kms"
  "jcs_law demo_kms" "hkdf_law demo_kms" "timestamptz_law demo_kms"
  using demo_sha demo_b64 demo_uuid demo_aead demo_ed25519 demo_jcs_law demo_hkdf demo_timestamptz
  by (simp_all add: demo_kms_def sha_law_def b64_law_def uuid_law_def aead_law_def ed25519_law_def
      jcs_law_def hkdf_law_def timestamptz_law_def)

definition demo_spki :: bytes where "demo_spki = demo_public 31 []"

definition demo_root_doc :: json where
  "demo_root_doc = jobj [(''org_id'', JString (uuid_show demo_kms 7)), (''principal_id'', JString (uuid_show demo_kms 8)),
     (''public_key'', JString (b64_enc demo_kms demo_spki)), (''label'', JString []), (''issued_at'', JString ''t'')]"

text \<open>A document signed with the demo root key, by a signature object naming the given key.\<close>

definition demo_sign :: "uuid option \<Rightarrow> string \<Rightarrow> json \<Rightarrow> signature_object" where
  "demo_sign i ctx doc = \<lparr> so_key_id = i, so_algorithm = ''ed25519'',
     so_signature = b64_enc demo_kms (the (ed25519_sign demo_kms [] (the (signing_digest demo_kms ctx doc)))),
     so_authenticator_data = None, so_client_data_json = None \<rparr>"

definition demo_root_row :: principal_key where
  "demo_root_row = \<lparr> k_id = 1, k_org_id = 7, k_public_key = demo_spki, k_document = demo_root_doc,
     k_signature = signature_object_json demo_kms (demo_sign None ORG_ROOT_KEY demo_root_doc),
     k_registered_by_key = None,
     k_anchor_check = Some (hkdf_sha256 demo_kms (as_bytes ''alphacompute-kms/anchor-check/v1'') []
       (uuid_bytes 7 @ sha256 demo_kms demo_spki)),
     k_revoked_at = None, k_revocation_reason = None, k_principal_id = 8, k_created_at = 0 \<rparr>"

lemma demo_digest: "\<exists>d. signing_digest demo_kms ctx doc = Some d"
  by (simp add: signing_digest_def demo_kms_def demo_def)

lemma demo_sign_verifies:
  "signing_digest demo_kms ctx doc = Some d \<Longrightarrow>
   verify_signature demo_kms demo_spki d (demo_sign i ctx doc) sp = Ok ()"
proof -
  assume d: "signing_digest demo_kms ctx doc = Some d"
  obtain g where "ed25519_sign demo_kms [] d = Some g" by (simp add: demo_kms_def demo_def)
  moreover have "ed25519_from_spki demo_kms demo_spki = Some (ed25519_public demo_kms [])"
    by (simp add: demo_kms_def demo_def demo_spki_def)
  ultimately show ?thesis
    using verify_signature_ed25519 [OF demo_kms_laws(2,5)] by (simp add: demo_sign_def d)
qed

lemma demo_root_self: "verify_self_registration demo_kms (key_row.truncate demo_root_row) sp = Ok ()"
proof -
  obtain d where d: "signing_digest demo_kms ORG_ROOT_KEY demo_root_doc = Some d" using demo_digest by blast
  have "uuid_parse demo_kms (uuid_show demo_kms 7) = Some 7" using demo_kms_laws(3) by (simp add: uuid_law_def)
  then have "Option.bind (document_str (key_row.truncate demo_root_row) ''org_id'') (uuid_parse demo_kms) = Some 7"
    "Option.bind (document_str (key_row.truncate demo_root_row) ''public_key'') (b64_dec demo_kms) = Some demo_spki"
    by (simp_all add: document_str_def demo_root_row_def key_row.truncate_def demo_root_doc_def
        b64_decode_encode [OF demo_kms_laws(2)])
  with d demo_sign_verifies [OF d, of None sp] show ?thesis
    by (simp add: verify_self_registration_def registration_signature_def verify_document_spki_def
        demo_root_row_def key_row.truncate_def signature_object_roundtrip [OF demo_kms_laws(3)])
      (simp add: demo_sign_def)
qed

lemma demo_root_chain:
  assumes "load_key rows 1 = Some (key_row.truncate demo_root_row)"
  shows "walk_chain demo_kms rows [] 1 t sp =
    Ok \<lparr> chain_key = key_row.truncate demo_root_row, chain_anchor_spki = demo_spki \<rparr>"
  using walk_chain_root [OF assms, of demo_kms "[]" _ sp t] demo_root_self [of sp]
  by (simp add: demo_root_row_def key_row.truncate_def anchor_check_def derive_def kms_hkdf_def)

lemma demo_verify_signed:
  assumes "load_key rows 1 = Some (key_row.truncate demo_root_row)"
  shows "verify_signed demo_kms rows [] (demo_sign (Some 1) ctx doc) ctx doc t sp =
    Ok \<lparr> chain_key = key_row.truncate demo_root_row, chain_anchor_spki = demo_spki \<rparr>"
proof -
  obtain d where d: "signing_digest demo_kms ctx doc = Some d" using demo_digest by blast
  have "so_key_id (demo_sign (Some 1) ctx doc) = Some 1" by (simp add: demo_sign_def)
  moreover have "k_public_key (key_row.truncate demo_root_row) = demo_spki"
    by (simp add: demo_root_row_def key_row.truncate_def)
  ultimately show ?thesis using d demo_sign_verifies [OF d]
    by (simp add: verify_signed_def demo_root_chain [OF assms])
qed

theorem verify_signed_sound_witness:
  "\<exists>ls. ls \<noteq> [] \<and> hd ls = key_row.truncate demo_root_row \<and> length ls \<le> 65
    \<and> verify_self_registration demo_kms (last ls) None = Ok ()"
proof -
  have l: "load_key [demo_root_row] 1 = Some (key_row.truncate demo_root_row)"
    by (simp add: load_key_def demo_root_row_def)
  from verify_signed_sound [OF demo_verify_signed [OF l, of CONTROL JNull 0 None]]
  show ?thesis by (elim exE conjE) (intro exI conjI, assumption, simp_all)
qed

theorem derived_keys_separate_witness:
  "app_key (demo\<lparr> hkdf_sha256 := \<lambda>_ _ _. [] \<rparr>) [] 1 ''a'' = app_key (demo\<lparr> hkdf_sha256 := \<lambda>_ _ _. [] \<rparr>) [] 2 ''a''
   \<and> hkdf_collision (demo\<lparr> hkdf_sha256 := \<lambda>_ _ _. [] \<rparr>) []"
proof -
  let ?E = "demo\<lparr> hkdf_sha256 := \<lambda>_ _ _. [] \<rparr>"
  have "app_key ?E [] 1 ''a'' = app_key ?E [] 2 ''a''" by (simp add: app_key_def kms_hkdf_def)
  with derived_keys_separate [of ?E "[]" 1 "[]" 1 "[]" 1 "''a''" 2 "''a''"] show ?thesis by simp
qed

theorem secret_box_bound_to_document_witness:
  "aead_open demo [] (uuid_bytes 1 @ demo_hash 32 (as_bytes SECRET @ [0, 0]))
     (replicate 12 0 @ demo_tag [] (replicate 12 0) (uuid_bytes 1 @ demo_hash 32 (as_bytes SECRET @ [0, 0])) @ [9])
   = Some [9]"
proof -
  let ?aad = "uuid_bytes 1 @ demo_hash 32 (as_bytes SECRET @ [0, 0])"
  have a: "secret_aad demo 1 JNull = Ok ?aad" by (simp add: secret_aad_def signing_digest_def demo_def)
  have "aead_seal demo (Some (replicate 12 0)) [] ?aad [9] =
    Ok (replicate 12 0 @ demo_tag [] (replicate 12 0) ?aad @ [9])"
    by (simp add: aead_seal_def demo_def demo_seal_def)
  from secret_box_bound_to_document [OF demo_aead _ a this a] show ?thesis by simp
qed

end
