(* ===== verification/Kms_Control.thy ===== *)
theory Kms_Control
  imports Kms_Keys
begin

text \<open>
  \<^verbatim>\<open>services/alpha-kms/src/control.rs\<close> with \<^verbatim>\<open>body.rs\<close>, \<^verbatim>\<open>audit.rs\<close>, the tables of the migrations and the
  tickets of \<^verbatim>\<open>channel.rs\<close>: the six mutations of the Control API as functions on the database. A table
  is the list of its rows and a transaction either commits or leaves the database as it was;
  constraint violations are errors as the schema makes them, a failing connection is not modelled.
  What a call takes from outside is in the record \<open>call\<close>: the clocks, what it mints and draws, the
  listener's leaf, and the tables as \<open>authorize\<close> read them before the transaction began
  (\<open>c_snap\<close>), which other calls may have changed since.
\<close>

section \<open>Tables\<close>

record revision_row =
  rv_app_id :: uuid
  rv_org_id :: uuid
  rv_compose :: "string option"
  rv_init_data :: "string option"
  rv_created_by_key :: uuid
  rv_signature :: json
  rv_created_at :: time
  rv_revoked_at :: "time option"

record revision = revision_row +
  rv_compose_hash :: compose_hash

record secret =
  se_id :: uuid
  se_org_id :: uuid
  se_name :: string
  se_app_ids :: "uuid list"
  se_ciphertext :: bytes
  se_content_sha256 :: bytes
  se_document :: json
  se_signed_by_key :: uuid
  se_signature :: json
  se_issued_at :: time
  se_deleted_at :: "time option"

datatype audit_details = Details json | ErrorDetails api_error

record audit =
  au_actor_kind :: string
  au_actor :: string
  au_action :: string
  au_org_id :: "uuid option"
  au_object :: "string option"
  au_outcome :: string
  au_details :: audit_details
  au_evidence_sha256 :: "bytes option"

record db =
  db_keys :: "principal_key list"
  db_revisions :: "revision list"
  db_secrets :: "secret list"
  db_audit :: "audit list"

definition audit_insert :: "audit \<Rightarrow> db \<Rightarrow> db" where
  "audit_insert a d = d\<lparr> db_audit := db_audit d @ [a] \<rparr>"

definition load_revision :: "db \<Rightarrow> compose_hash \<Rightarrow> revision_row option" where
  "load_revision d h = map_option revision_row.truncate (find (\<lambda>r. rv_compose_hash r = h) (db_revisions d))"

section \<open>The node and one call\<close>

record intermediates =
  im_tenant_kek_root :: bytes
  im_ca_key_der :: bytes
  im_ca_cert_der :: bytes

datatype phase = Sealed "bytes list" | Serving intermediates

record node =
  nd_phase :: phase
  nd_platform :: "platform_document option"
  nd_runtime_key :: bytes
  nd_nonce_key :: bytes

record call =
  c_now :: time
  c_receipt_now :: time
  c_db_now :: time
  c_mint :: uuid
  c_nonce :: "bytes option"
  c_leaf_der :: "bytes option"
  c_snap :: db

definition intermediates_of :: "node \<Rightarrow> (intermediates, api_error) result" where
  "intermediates_of nd =
     (case nd_phase nd of Serving keys \<Rightarrow> Ok keys | Sealed _ \<Rightarrow> Err (ApiError ''sealed''))"

definition signer_of :: "node \<Rightarrow> signer option" where
  "signer_of nd = Option.bind (nd_platform nd) pd_signer"

text \<open>A \<open>DateTime<Utc>\<close> is always in the range \<open>to_rfc3339_opts\<close> prints.\<close>

definition kms_rfc3339 :: "'x ext_scheme \<Rightarrow> time \<Rightarrow> string" where
  "kms_rfc3339 E t = (case rfc3339_show E (seconds_of t) of Some s \<Rightarrow> s | None \<Rightarrow> [])"

definition cert_pem :: "'x ext_scheme \<Rightarrow> bytes \<Rightarrow> string" where
  "cert_pem E der = pem_encode E ''CERTIFICATE'' der"

section \<open>Tickets\<close>

definition TICKET_TTL :: int where "TICKET_TTL = 600 * 1000000000"
definition TICKET_LABEL :: bytes where "TICKET_LABEL = as_bytes ''alphacompute-kms/channel-ticket/v1''"

definition unix :: "time \<Rightarrow> nat" where
  "unix now = (if now < 0 then 0 else nat (seconds_of now))"

definition seal_ticket :: "'x ext_scheme \<Rightarrow> bytes option \<Rightarrow> bytes option \<Rightarrow> bytes \<Rightarrow> bytes \<Rightarrow> bytes \<Rightarrow> time \<Rightarrow>
    (string, api_error) result" where
  "seal_ticket E rnd_salt rnd_nonce kek channel c2s expires_at =
     and_then (ok_or rnd_salt internal) (\<lambda>salt.
     refuse_if (expires_at < 0) internal
     (and_then (kms_hkdf E kek TICKET_LABEL salt) (\<lambda>key.
      and_then (aead_seal E rnd_nonce key TICKET_LABEL
                  (channel @ c2s @ be_bytes 8 (nat (seconds_of expires_at)))) (\<lambda>sealed.
      Ok (b64_enc E (salt @ sealed))))))"

definition open_ticket :: "'x ext_scheme \<Rightarrow> bytes \<Rightarrow> string \<Rightarrow> time \<Rightarrow> (bytes \<times> bytes, api_error) result" where
  "open_ticket E kek ticket now =
     and_then (ok_or (b64_dec E ticket) malformed) (\<lambda>bs.
     refuse_if (length bs < 16) malformed
     (and_then (kms_hkdf E kek TICKET_LABEL (take 16 bs)) (\<lambda>key.
      and_then (ok_or (aead_open E key TICKET_LABEL (drop 16 bs)) malformed) (\<lambda>plaintext.
      refuse_if (length plaintext < 16) malformed
      (refuse_if (length (drop 16 plaintext) < 32) malformed
      (refuse_if (length (drop 48 plaintext) \<noteq> 8) malformed
      (refuse_if (unix now \<ge> from_be (drop 48 plaintext)) malformed
       (Ok (take 16 plaintext, take 32 (drop 16 plaintext))))))))))"

section \<open>Bodies\<close>

record signed_body =
  sb_payload :: json
  sb_signature :: signature_object

record put_body =
  pb_payload :: json
  pb_signature :: signature_object
  pb_value :: "string option"
  pb_sealed :: "sealed_secret option"

definition datetime_de :: "'x ext_scheme \<Rightarrow> json \<Rightarrow> time option" where
  "datetime_de E v = Option.bind (json_as_str v) (chrono_de E)"

definition compose_hash_de :: "json \<Rightarrow> compose_hash option" where
  "compose_hash_de v = Option.bind (json_as_str v) compose_hash_from_str"

definition request_frame_de :: "json \<Rightarrow> request_frame option" where
  "request_frame_de v =
     Option.bind (struct_fields True [(''channel'', False), (''seq'', False), (''ct'', False)] v) (\<lambda>m.
     Option.bind (field m ''channel'' json_as_str) (\<lambda>c.
     Option.bind (field m ''seq'' (de_uint (2 ^ 64 - 1))) (\<lambda>s.
     Option.bind (field m ''ct'' json_as_str) (\<lambda>t.
     Some \<lparr> frame_channel = c, frame_seq = word_of_nat s, frame_ct = t \<rparr>))))"

definition sealed_secret_de :: "json \<Rightarrow> sealed_secret option" where
  "sealed_secret_de v =
     Option.bind (struct_fields True [(''ticket'', False), (''frame'', False)] v) (\<lambda>m.
     Option.bind (field m ''ticket'' json_as_str) (\<lambda>t.
     Option.bind (field m ''frame'' request_frame_de) (\<lambda>f.
     Some \<lparr> ss_ticket = t, ss_frame = f \<rparr>)))"

definition signed_body_de :: "'x ext_scheme \<Rightarrow> json \<Rightarrow> signed_body option" where
  "signed_body_de E v =
     Option.bind (struct_fields True [(''payload'', False), (''signature'', False)] v) (\<lambda>m.
     Option.bind (field m ''payload'' Some) (\<lambda>p.
     Option.bind (field m ''signature'' (signature_object_de E)) (\<lambda>s.
     Some \<lparr> sb_payload = p, sb_signature = s \<rparr>)))"

definition put_body_de :: "'x ext_scheme \<Rightarrow> json \<Rightarrow> put_body option" where
  "put_body_de E v =
     Option.bind (struct_fields True [(''payload'', False), (''signature'', False), (''value'', True),
       (''sealed'', True)] v) (\<lambda>m.
     Option.bind (field m ''payload'' Some) (\<lambda>p.
     Option.bind (field m ''signature'' (signature_object_de E)) (\<lambda>s.
     Option.bind (opt_field m ''value'' json_as_str) (\<lambda>w.
     Option.bind (opt_field m ''sealed'' sealed_secret_de) (\<lambda>x.
     Some \<lparr> pb_payload = p, pb_signature = s, pb_value = w, pb_sealed = x \<rparr>)))))"

definition body_from_request :: "'x ext_scheme \<Rightarrow> (json \<Rightarrow> 'b option) \<Rightarrow> bytes \<Rightarrow> ('b \<times> json, api_error) result" where
  "body_from_request E de bs =
     and_then (ok_or (parse E bs) malformed) (\<lambda>value.
     and_then (ok_or (de value) malformed) (\<lambda>parsed. Ok (parsed, value)))"

section \<open>Payloads\<close>

record secret_payload =
  sp_name :: string
  sp_app_ids :: "uuid list"
  sp_content_sha256 :: string
  sp_issued_at :: time

record key_payload =
  kp_principal_id :: uuid
  kp_public_key :: string
  kp_label :: string
  kp_issued_at :: time

record root_key_payload = key_payload +
  kp_org_id :: uuid

definition revision_payload_de :: "'x ext_scheme \<Rightarrow> json \<Rightarrow> (uuid \<times> string) option" where
  "revision_payload_de E v =
     Option.bind (struct_fields True [(''app_id'', False), (''compose'', False)] v) (\<lambda>m.
     Option.bind (field m ''app_id'' (uuid_de E)) (\<lambda>a.
     Option.bind (field m ''compose'' json_as_str) (\<lambda>c. Some (a, c))))"

definition init_data_payload_de :: "'x ext_scheme \<Rightarrow> json \<Rightarrow> (uuid \<times> string \<times> compose_hash) option" where
  "init_data_payload_de E v =
     Option.bind (struct_fields True [(''app_id'', False), (''init_data'', False), (''digest'', False)] v) (\<lambda>m.
     Option.bind (field m ''app_id'' (uuid_de E)) (\<lambda>a.
     Option.bind (field m ''init_data'' json_as_str) (\<lambda>i.
     Option.bind (field m ''digest'' compose_hash_de) (\<lambda>d. Some (a, i, d)))))"

definition revoke_revision_payload_de :: "'x ext_scheme \<Rightarrow> json \<Rightarrow> (compose_hash \<times> time) option" where
  "revoke_revision_payload_de E v =
     Option.bind (struct_fields True [(''compose_hash'', False), (''issued_at'', False)] v) (\<lambda>m.
     Option.bind (field m ''compose_hash'' compose_hash_de) (\<lambda>h.
     Option.bind (field m ''issued_at'' (datetime_de E)) (\<lambda>t. Some (h, t))))"

definition secret_payload_de :: "'x ext_scheme \<Rightarrow> json \<Rightarrow> secret_payload option" where
  "secret_payload_de E v =
     Option.bind (struct_fields True [(''name'', False), (''app_ids'', False), (''content_sha256'', False),
       (''issued_at'', False)] v) (\<lambda>m.
     Option.bind (field m ''name'' json_as_str) (\<lambda>n.
     Option.bind (field m ''app_ids'' (de_vec (uuid_de E))) (\<lambda>a.
     Option.bind (field m ''content_sha256'' json_as_str) (\<lambda>c.
     Option.bind (field m ''issued_at'' (datetime_de E)) (\<lambda>t.
     Some \<lparr> sp_name = n, sp_app_ids = a, sp_content_sha256 = c, sp_issued_at = t \<rparr>)))))"

definition delete_secret_payload_de :: "'x ext_scheme \<Rightarrow> json \<Rightarrow> (string \<times> time) option" where
  "delete_secret_payload_de E v =
     Option.bind (struct_fields True [(''name'', False), (''issued_at'', False)] v) (\<lambda>m.
     Option.bind (field m ''name'' json_as_str) (\<lambda>n.
     Option.bind (field m ''issued_at'' (datetime_de E)) (\<lambda>t. Some (n, t))))"

definition key_payload_de :: "'x ext_scheme \<Rightarrow> json \<Rightarrow> key_payload option" where
  "key_payload_de E v =
     Option.bind (struct_fields True [(''principal_id'', False), (''public_key'', False), (''label'', False),
       (''issued_at'', False)] v) (\<lambda>m.
     Option.bind (field m ''principal_id'' (uuid_de E)) (\<lambda>p.
     Option.bind (field m ''public_key'' json_as_str) (\<lambda>k.
     Option.bind (field m ''label'' json_as_str) (\<lambda>l.
     Option.bind (field m ''issued_at'' (datetime_de E)) (\<lambda>t.
     Some \<lparr> kp_principal_id = p, kp_public_key = k, kp_label = l, kp_issued_at = t \<rparr>)))))"

definition root_key_payload_de :: "'x ext_scheme \<Rightarrow> json \<Rightarrow> root_key_payload option" where
  "root_key_payload_de E v =
     Option.bind (struct_fields True [(''org_id'', False), (''principal_id'', False), (''public_key'', False),
       (''label'', False), (''issued_at'', False)] v) (\<lambda>m.
     Option.bind (field m ''org_id'' (uuid_de E)) (\<lambda>oid.
     Option.bind (field m ''principal_id'' (uuid_de E)) (\<lambda>p.
     Option.bind (field m ''public_key'' json_as_str) (\<lambda>k.
     Option.bind (field m ''label'' json_as_str) (\<lambda>l.
     Option.bind (field m ''issued_at'' (datetime_de E)) (\<lambda>t.
     Some \<lparr> kp_principal_id = p, kp_public_key = k, kp_label = l, kp_issued_at = t, kp_org_id = oid \<rparr>))))))"

definition revoke_key_payload_de :: "'x ext_scheme \<Rightarrow> json \<Rightarrow> (uuid \<times> string \<times> time) option" where
  "revoke_key_payload_de E v =
     Option.bind (struct_fields True [(''key_id'', False), (''reason'', False), (''issued_at'', False)] v) (\<lambda>m.
     Option.bind (field m ''key_id'' (uuid_de E)) (\<lambda>k.
     Option.bind (field m ''reason'' json_as_str) (\<lambda>r.
     Option.bind (field m ''issued_at'' (datetime_de E)) (\<lambda>t. Some (k, r, t)))))"

section \<open>Checks every route shares\<close>

definition ISSUED_AT_WINDOW :: int where "ISSUED_AT_WINDOW = 5 * 60 * 1000000000"

definition within_window :: "time \<Rightarrow> time \<Rightarrow> (time, api_error) result" where
  "within_window at now = refuse_if (\<bar>at - now\<bar> > ISSUED_AT_WINDOW) malformed (Ok at)"

definition authorize :: "'x ext_scheme \<Rightarrow> node \<Rightarrow> intermediates \<Rightarrow> call \<Rightarrow> string \<Rightarrow> signed_body \<Rightarrow> time \<Rightarrow>
    (chain, api_error) result" where
  "authorize E nd keys c ctx body signed_at =
     and_then (check_shape (sb_signature body)) (\<lambda>_.
     and_then (verify_signed E (db_keys (c_snap c)) (im_tenant_kek_root keys) (sb_signature body) ctx
                 (sb_payload body) signed_at (signer_of nd)) (\<lambda>ch.
     refuse_if (k_revoked_at (chain_key ch) \<noteq> None) signature_invalid (Ok ch)))"

definition ok_row :: "'x ext_scheme \<Rightarrow> chain \<Rightarrow> string \<Rightarrow> string \<Rightarrow> json \<Rightarrow> audit" where
  "ok_row E ch action object details =
     \<lparr> au_actor_kind = ''principal'', au_actor = uuid_show E (k_id (chain_key ch)), au_action = action,
       au_org_id = Some (k_org_id (chain_key ch)), au_object = Some object, au_outcome = ''ok'',
       au_details = Details details, au_evidence_sha256 = None \<rparr>"

definition audited :: "'x ext_scheme \<Rightarrow> chain \<Rightarrow> string \<Rightarrow> string \<Rightarrow> json \<Rightarrow> db \<Rightarrow> db" where
  "audited E ch action object details d = audit_insert (ok_row E ch action object details) d"

definition denied :: "'x ext_scheme \<Rightarrow> uuid option \<Rightarrow> string \<Rightarrow> api_error \<Rightarrow> db \<Rightarrow> db" where
  "denied E key_id action e =
     audit_insert \<lparr> au_actor_kind = ''principal'',
       au_actor = (case key_id of None \<Rightarrow> ''unregistered'' | Some k \<Rightarrow> uuid_show E k), au_action = action,
       au_org_id = None, au_object = None, au_outcome = outcome e, au_details = ErrorDetails e,
       au_evidence_sha256 = None \<rparr>"

definition receipted :: "'x ext_scheme \<Rightarrow> node \<Rightarrow> call \<Rightarrow> string \<Rightarrow> json \<Rightarrow> json \<Rightarrow> (json, api_error) result" where
  "receipted E nd c route request resp =
     (case resp of
        JObject fs \<Rightarrow>
          and_then (ok_or (c_leaf_der c) internal) (\<lambda>der.
          and_then (map_err (\<lambda>_. internal)
              (receipt_issue E (nd_runtime_key nd) (cert_pem E der) route request (JObject fs) (c_receipt_now c))) (\<lambda>r.
          Ok (JObject (map_insert ''receipt'' (receipt_json r) fs))))
      | _ \<Rightarrow> Err internal)"

definition audited_route :: "'x ext_scheme \<Rightarrow> node \<Rightarrow> call \<Rightarrow> uuid option \<Rightarrow> json \<Rightarrow> string \<Rightarrow> db \<Rightarrow>
    (json \<times> db, api_error) result \<Rightarrow> (json, api_error) result \<times> db" where
  "audited_route E nd c key_id request action d inner =
     (case inner of
        Err e \<Rightarrow> (Err e, denied E key_id action e d)
      | Ok (resp, d') \<Rightarrow> (receipted E nd c action request resp, d'))"

section \<open>Revisions\<close>

definition check_kata_policy :: "'x ext_scheme \<Rightarrow> init_data \<Rightarrow> platform_document option \<Rightarrow> string \<Rightarrow> (unit, api_error) result" where
  "check_kata_policy E init doc miss =
     and_then (ok_or (Option.bind doc (\<lambda>d. map_option (\<lambda>k. (k, pd_kms_ca_pem d)) (pd_kata_policy d)))
                (ApiError ''policy_denied'')) (\<lambda>(pinned, kms_ca_pem).
     map_err (\<lambda>_. ApiError miss) (check_policy E init pinned kms_ca_pem))"

definition revision_payload :: "'x ext_scheme \<Rightarrow> json \<Rightarrow> platform_document option \<Rightarrow>
    (compose_hash \<times> uuid \<times> string option \<times> string option, api_error) result" where
  "revision_payload E value doc =
     (if json_get value ''init_data'' = None then
        and_then (ok_or (revision_payload_de E value) malformed) (\<lambda>(app_id, compose).
        and_then (map_err (\<lambda>e. ApiError (registration_error_code e)) (check_registration E compose app_id)) (\<lambda>hash.
        Ok (hash, app_id, Some compose, None)))
      else
        and_then (ok_or (init_data_payload_de E value) malformed) (\<lambda>(app_id, txt, expected).
        and_then (map_err (\<lambda>_. malformed) (init_data_parse E txt)) (\<lambda>init.
        refuse_if (init_data_app_id E init \<noteq> Some app_id) malformed
        (refuse_if (init_data_digest E init \<noteq> expected) malformed
         (and_then (check_kata_policy E init doc ''malformed'') (\<lambda>_.
          Ok (init_data_digest E init, app_id, None, Some txt)))))))"

definition revision_json :: "'x ext_scheme \<Rightarrow> compose_hash \<Rightarrow> uuid \<Rightarrow> uuid \<Rightarrow> time \<Rightarrow> json" where
  "revision_json E hash app_id org_id created_at =
     jobj [(''compose_hash'', JString (compose_hash_show hash)), (''app_id'', JString (uuid_show E app_id)),
           (''org_id'', JString (uuid_show E org_id)), (''created_at'', JString (kms_rfc3339 E created_at))]"

text \<open>A foreign key to \<open>principal_keys\<close>.\<close>

definition has_key :: "db \<Rightarrow> uuid \<Rightarrow> bool" where
  "has_key d i \<longleftrightarrow> i \<in> k_id ` set (db_keys d)"

definition register_revision_commit :: "'x ext_scheme \<Rightarrow> call \<Rightarrow> signed_body \<Rightarrow> chain \<Rightarrow> compose_hash \<Rightarrow> uuid \<Rightarrow>
    string option \<Rightarrow> string option \<Rightarrow> db \<Rightarrow> (json \<times> db, api_error) result" where
  "register_revision_commit E c body ch hash app_id compose init d =
     (let org_id = k_org_id (chain_key ch) in
      case load_revision d hash of
        Some existing \<Rightarrow>
          refuse_if (rv_org_id existing \<noteq> org_id) not_found
          (Ok (revision_json E hash (rv_app_id existing) org_id (rv_created_at existing), d))
      | None \<Rightarrow>
          refuse_if (list_ex (\<lambda>r. rv_app_id r = app_id \<and> rv_org_id r \<noteq> org_id) (db_revisions d)) not_found
          (refuse_if (\<not> has_key d (k_id (chain_key ch))) internal
           (let row = \<lparr> rv_app_id = app_id, rv_org_id = org_id, rv_compose = compose, rv_init_data = init,
                        rv_created_by_key = k_id (chain_key ch),
                        rv_signature = signature_object_json E (sb_signature body),
                        rv_created_at = c_db_now c, rv_revoked_at = None, rv_compose_hash = hash \<rparr>;
                d1 = d\<lparr> db_revisions := db_revisions d @ [row] \<rparr>;
                d2 = audited E ch ''revision.register'' (''revision:'' @ compose_hash_show hash)
                       (jobj [(''app_id'', JString (uuid_show E app_id))]) d1 in
            Ok (revision_json E hash app_id org_id (c_db_now c), d2))))"

definition register_revision_inner :: "'x ext_scheme \<Rightarrow> node \<Rightarrow> call \<Rightarrow> signed_body \<Rightarrow> db \<Rightarrow> (json \<times> db, api_error) result" where
  "register_revision_inner E nd c body d =
     and_then (intermediates_of nd) (\<lambda>keys.
     and_then (revision_payload E (sb_payload body) (nd_platform nd)) (\<lambda>(hash, app_id, compose, init).
     and_then (authorize E nd keys c REVISION body (c_now c)) (\<lambda>ch.
     register_revision_commit E c body ch hash app_id compose init d)))"

definition register_revision :: "'x ext_scheme \<Rightarrow> node \<Rightarrow> call \<Rightarrow> bytes \<Rightarrow> db \<Rightarrow> (json, api_error) result \<times> db" where
  "register_revision E nd c bs d =
     (case body_from_request E (signed_body_de E) bs of
        Err e \<Rightarrow> (Err e, d)
      | Ok (body, request) \<Rightarrow>
          audited_route E nd c (so_key_id (sb_signature body)) request ''revision.register'' d
            (register_revision_inner E nd c body d))"

definition revoke_revision_commit :: "'x ext_scheme \<Rightarrow> call \<Rightarrow> chain \<Rightarrow> compose_hash \<Rightarrow> db \<Rightarrow> (json \<times> db, api_error) result" where
  "revoke_revision_commit E c ch hash d =
     and_then (ok_or (case load_revision d hash of
                        Some r \<Rightarrow> if rv_org_id r = k_org_id (chain_key ch) then Some r else None
                      | None \<Rightarrow> None) not_found) (\<lambda>rev.
     (let (revoked_at, d') =
         (case rv_revoked_at rev of
            Some t \<Rightarrow> (t, d)
          | None \<Rightarrow>
              (c_db_now c,
               audited E ch ''revision.revoke'' (''revision:'' @ compose_hash_show hash) (jobj [])
                 (d\<lparr> db_revisions := map (\<lambda>r. if rv_compose_hash r = hash
                      then r\<lparr> rv_revoked_at := Some (c_db_now c) \<rparr> else r) (db_revisions d) \<rparr>))) in
      Ok (jobj [(''compose_hash'', JString (compose_hash_show hash)),
                (''revoked_at'', JString (kms_rfc3339 E revoked_at))], d')))"

definition revoke_revision_inner :: "'x ext_scheme \<Rightarrow> node \<Rightarrow> call \<Rightarrow> string \<Rightarrow> signed_body \<Rightarrow> db \<Rightarrow> (json \<times> db, api_error) result" where
  "revoke_revision_inner E nd c path_hash body d =
     and_then (intermediates_of nd) (\<lambda>keys.
     and_then (ok_or (revoke_revision_payload_de E (sb_payload body)) malformed) (\<lambda>(hash, issued).
     refuse_if (path_hash \<noteq> compose_hash_show hash) malformed
     (and_then (within_window issued (c_now c)) (\<lambda>at.
      and_then (authorize E nd keys c CONTROL body at) (\<lambda>ch.
      revoke_revision_commit E c ch hash d)))))"

definition revoke_revision :: "'x ext_scheme \<Rightarrow> node \<Rightarrow> call \<Rightarrow> string \<Rightarrow> bytes \<Rightarrow> db \<Rightarrow> (json, api_error) result \<times> db" where
  "revoke_revision E nd c path_hash bs d =
     (case body_from_request E (signed_body_de E) bs of
        Err e \<Rightarrow> (Err e, d)
      | Ok (body, request) \<Rightarrow>
          audited_route E nd c (so_key_id (sb_signature body)) request ''revision.revoke'' d
            (revoke_revision_inner E nd c path_hash body d))"

section \<open>Secrets\<close>

definition put_value :: "'x ext_scheme \<Rightarrow> intermediates \<Rightarrow> call \<Rightarrow> string \<Rightarrow> put_body \<Rightarrow> (uuid option \<times> bytes, api_error) result" where
  "put_value E keys c name b =
     (case (pb_value b, pb_sealed b) of
        (Some value, None) \<Rightarrow> and_then (ok_or (b64_dec E value) malformed) (\<lambda>v. Ok (None, v))
      | (None, Some sealed) \<Rightarrow>
          and_then (open_ticket E (im_tenant_kek_root keys) (ss_ticket sealed) (c_now c)) (\<lambda>(cid, c2s).
          and_then (map_err (\<lambda>_. malformed) (secret_open E cid c2s (ss_frame sealed) name (pb_payload b))) (\<lambda>(org, v).
          Ok (Some org, v)))
      | _ \<Rightarrow> Err malformed)"

definition find_secret :: "db \<Rightarrow> uuid \<Rightarrow> string \<Rightarrow> secret option" where
  "find_secret d org name = find (\<lambda>s. se_org_id s = org \<and> se_name s = name) (db_secrets d)"

text \<open>\<open>insert \<dots> on conflict (org_id, name) do update\<close>: the id of a row already stored stays.\<close>

definition upsert_secret :: "secret \<Rightarrow> secret list \<Rightarrow> secret list" where
  "upsert_secret s rows =
     (if list_ex (\<lambda>r. se_org_id r = se_org_id s \<and> se_name r = se_name s) rows
      then map (\<lambda>r. if se_org_id r = se_org_id s \<and> se_name r = se_name s then s\<lparr> se_id := se_id r \<rparr> else r) rows
      else rows @ [s])"

record put_checked =
  pc_payload :: secret_payload
  pc_content :: bytes
  pc_value :: bytes
  pc_at :: time
  pc_chain :: chain

definition put_checks :: "'x ext_scheme \<Rightarrow> node \<Rightarrow> intermediates \<Rightarrow> call \<Rightarrow> string \<Rightarrow> put_body \<Rightarrow> json \<Rightarrow>
    (put_checked, api_error) result" where
  "put_checks E nd keys c name b request =
     and_then (ok_or (secret_payload_de E (pb_payload b)) malformed) (\<lambda>p.
     refuse_if (sp_name p \<noteq> name) malformed
     (refuse_if (sp_app_ids p = []) malformed
     (refuse_if ((json_get request ''value'' \<noteq> None) = (json_get request ''sealed'' \<noteq> None)) malformed
     (and_then (put_value E keys c name b) (\<lambda>(sealed_for, value).
      and_then (ok_or (Option.bind (strip_prefix ''sha256:'' (sp_content_sha256 p)) (hex_bytes 32)) malformed) (\<lambda>content.
      refuse_if (length value < SECRET_SALT_LEN) malformed
      (refuse_if (sha256 E value \<noteq> content) malformed
      (and_then (within_window (sp_issued_at p) (c_now c)) (\<lambda>at.
       and_then (authorize E nd keys c SECRET \<lparr> sb_payload = pb_payload b, sb_signature = pb_signature b \<rparr> at) (\<lambda>ch.
       refuse_if (case sealed_for of None \<Rightarrow> False | Some org \<Rightarrow> org \<noteq> k_org_id (chain_key ch)) malformed
       (Ok \<lparr> pc_payload = p, pc_content = content, pc_value = value, pc_at = at, pc_chain = ch \<rparr>)))))))))))"

definition put_commit :: "'x ext_scheme \<Rightarrow> intermediates \<Rightarrow> call \<Rightarrow> string \<Rightarrow> put_body \<Rightarrow> put_checked \<Rightarrow> db \<Rightarrow>
    (json \<times> db, api_error) result" where
  "put_commit E keys c name b k d =
     (let p = pc_payload k; ch = pc_chain k; at = pc_at k; org_id = k_org_id (chain_key ch) in
      refuse_if (list_ex (\<lambda>r. rv_app_id r \<in> set (sp_app_ids p) \<and> rv_org_id r \<noteq> org_id) (db_revisions d)) not_found
      (and_then (case find_secret d org_id name of
                   None \<Rightarrow> Ok (c_mint c)
                 | Some row \<Rightarrow> if se_issued_at row \<ge> at then Err (ApiError ''already_exists'') else Ok (se_id row)) (\<lambda>i.
       and_then (org_key E (im_tenant_kek_root keys) org_id (chain_anchor_spki ch)) (\<lambda>okey.
       and_then (secret_aad E i (pb_payload b)) (\<lambda>aad.
       and_then (aead_seal E (c_nonce c) okey aad (pc_value k)) (\<lambda>ct.
       refuse_if (\<not> has_key d (k_id (chain_key ch))) internal
       (refuse_if (find_secret d org_id name = None \<and> i \<in> se_id ` set (db_secrets d)) internal
        (let row = \<lparr> se_id = i, se_org_id = org_id, se_name = name, se_app_ids = sp_app_ids p, se_ciphertext = ct,
                     se_content_sha256 = pc_content k, se_document = pb_payload b,
                     se_signed_by_key = k_id (chain_key ch),
                     se_signature = signature_object_json E (pb_signature b), se_issued_at = timestamptz E at,
                     se_deleted_at = None \<rparr>;
             d1 = d\<lparr> db_secrets := upsert_secret row (db_secrets d) \<rparr>;
             ids = JArray (map (\<lambda>a. JString (uuid_show E a)) (sp_app_ids p));
             d2 = audited E ch ''secret.put'' (''secret:'' @ name) (jobj [(''app_ids'', ids)]) d1 in
         Ok (jobj [(''id'', JString (uuid_show E i)), (''name'', JString name),
                   (''org_id'', JString (uuid_show E org_id)), (''app_ids'', ids),
                   (''content_sha256'', JString (sp_content_sha256 p)), (''issued_at'', JString (kms_rfc3339 E at))],
             d2)))))))))"

definition put_secret_inner :: "'x ext_scheme \<Rightarrow> node \<Rightarrow> call \<Rightarrow> string \<Rightarrow> put_body \<Rightarrow> json \<Rightarrow> db \<Rightarrow> (json \<times> db, api_error) result" where
  "put_secret_inner E nd c name b request d =
     and_then (intermediates_of nd) (\<lambda>keys.
     and_then (put_checks E nd keys c name b request) (\<lambda>k.
     put_commit E keys c name b k d))"

definition put_secret :: "'x ext_scheme \<Rightarrow> node \<Rightarrow> call \<Rightarrow> string \<Rightarrow> bytes \<Rightarrow> db \<Rightarrow> (json, api_error) result \<times> db" where
  "put_secret E nd c name bs d =
     (case body_from_request E (put_body_de E) bs of
        Err e \<Rightarrow> (Err e, d)
      | Ok (b, request) \<Rightarrow>
          audited_route E nd c (so_key_id (pb_signature b)) request ''secret.put'' d
            (put_secret_inner E nd c name b request d))"

definition delete_commit :: "'x ext_scheme \<Rightarrow> call \<Rightarrow> string \<Rightarrow> signed_body \<Rightarrow> time \<Rightarrow> chain \<Rightarrow> db \<Rightarrow>
    (json \<times> db, api_error) result" where
  "delete_commit E c name body at ch d =
     (let org_id = k_org_id (chain_key ch) in
      and_then (ok_or (find_secret d org_id name) not_found) (\<lambda>row.
      and_then
        (if se_deleted_at row \<noteq> None \<and> se_document row = sb_payload body then Ok (the (se_deleted_at row), d)
         else if se_issued_at row \<ge> at then Err (ApiError ''already_exists'')
         else if se_deleted_at row \<noteq> None then Err not_found
         else refuse_if (\<not> has_key d (k_id (chain_key ch))) internal
           (Ok (c_db_now c,
              audited E ch ''secret.delete'' (''secret:'' @ name) (jobj [])
                (d\<lparr> db_secrets := map (\<lambda>r. if se_org_id r = org_id \<and> se_name r = name
                     then r\<lparr> se_app_ids := [], se_ciphertext := [], se_content_sha256 := [],
                            se_document := sb_payload body, se_signed_by_key := k_id (chain_key ch),
                            se_signature := signature_object_json E (sb_signature body),
                            se_issued_at := timestamptz E at, se_deleted_at := Some (c_db_now c) \<rparr>
                     else r) (db_secrets d) \<rparr>)))) (\<lambda>(deleted_at, d').
      Ok (jobj [(''name'', JString name), (''deleted_at'', JString (kms_rfc3339 E deleted_at))], d'))))"

definition delete_secret_inner :: "'x ext_scheme \<Rightarrow> node \<Rightarrow> call \<Rightarrow> string \<Rightarrow> signed_body \<Rightarrow> db \<Rightarrow> (json \<times> db, api_error) result" where
  "delete_secret_inner E nd c name body d =
     and_then (intermediates_of nd) (\<lambda>keys.
     and_then (ok_or (delete_secret_payload_de E (sb_payload body)) malformed) (\<lambda>(pname, issued).
     refuse_if (pname \<noteq> name) malformed
     (and_then (within_window issued (c_now c)) (\<lambda>at.
      and_then (authorize E nd keys c CONTROL body at) (\<lambda>ch.
      delete_commit E c name body at ch d)))))"

definition delete_secret :: "'x ext_scheme \<Rightarrow> node \<Rightarrow> call \<Rightarrow> string \<Rightarrow> bytes \<Rightarrow> db \<Rightarrow> (json, api_error) result \<times> db" where
  "delete_secret E nd c name bs d =
     (case body_from_request E (signed_body_de E) bs of
        Err e \<Rightarrow> (Err e, d)
      | Ok (body, request) \<Rightarrow>
          audited_route E nd c (so_key_id (sb_signature body)) request ''secret.delete'' d
            (delete_secret_inner E nd c name body d))"

section \<open>Keys\<close>

definition registered_spki :: "'x ext_scheme \<Rightarrow> string \<Rightarrow> (bytes, api_error) result" where
  "registered_spki E public_key =
     and_then (ok_or (b64_dec E public_key) malformed) (\<lambda>spki.
     if ed25519_from_spki E spki \<noteq> None then Ok spki
     else and_then (ok_or (p256_from_spki E spki) malformed) (\<lambda>p.
       refuse_if (p256_to_spki E p \<noteq> Some spki) malformed (Ok spki)))"

text \<open>
  The unique indexes of \<open>principal_keys\<close>: the primary key, the public key, and one row without a
  registering key per organization.
\<close>

definition key_conflict :: "principal_key \<Rightarrow> db \<Rightarrow> bool" where
  "key_conflict row d \<longleftrightarrow> list_ex (\<lambda>r. k_id r = k_id row \<or> k_public_key r = k_public_key row
     \<or> (k_registered_by_key row = None \<and> k_registered_by_key r = None \<and> k_org_id r = k_org_id row)) (db_keys d)"

definition insert_key :: "principal_key \<Rightarrow> db \<Rightarrow> (db, api_error) result" where
  "insert_key row d =
     refuse_if (key_conflict row d) (ApiError ''already_exists'')
     (refuse_if (case k_registered_by_key row of None \<Rightarrow> False | Some p \<Rightarrow> \<not> has_key d p) internal
      (Ok (d\<lparr> db_keys := db_keys d @ [row] \<rparr>)))"

definition register_endorsed_key :: "'x ext_scheme \<Rightarrow> node \<Rightarrow> intermediates \<Rightarrow> call \<Rightarrow> signed_body \<Rightarrow> db \<Rightarrow>
    (json \<times> db, api_error) result" where
  "register_endorsed_key E nd keys c body d =
     and_then (ok_or (key_payload_de E (sb_payload body)) malformed) (\<lambda>p.
     and_then (registered_spki E (kp_public_key p)) (\<lambda>spki.
     and_then (within_window (kp_issued_at p) (c_now c)) (\<lambda>at.
     and_then (authorize E nd keys c PRINCIPAL_KEY body at) (\<lambda>ch.
     and_then (insert_key \<lparr> k_id = c_mint c, k_org_id = k_org_id (chain_key ch), k_public_key = spki,
         k_document = sb_payload body, k_signature = signature_object_json E (sb_signature body),
         k_registered_by_key = Some (k_id (chain_key ch)), k_anchor_check = None, k_revoked_at = None,
         k_revocation_reason = None, k_principal_id = kp_principal_id p, k_created_at = c_db_now c \<rparr> d) (\<lambda>d1.
     Ok (jobj [(''id'', JString (uuid_show E (c_mint c))), (''principal_id'', JString (uuid_show E (kp_principal_id p))),
               (''org_id'', JString (uuid_show E (k_org_id (chain_key ch)))),
               (''created_at'', JString (kms_rfc3339 E (c_db_now c)))],
         audited E ch ''key.register'' (''key:'' @ uuid_show E (c_mint c))
           (jobj [(''principal_id'', JString (uuid_show E (kp_principal_id p)))]) d1))))))"

definition root_key_json :: "'x ext_scheme \<Rightarrow> uuid \<Rightarrow> uuid \<Rightarrow> uuid \<Rightarrow> bytes \<Rightarrow> time \<Rightarrow> json" where
  "root_key_json E i principal_id org_id spki created_at =
     jobj [(''id'', JString (uuid_show E i)), (''principal_id'', JString (uuid_show E principal_id)),
           (''org_id'', JString (uuid_show E org_id)), (''public_key'', JString (b64_enc E spki)),
           (''created_at'', JString (kms_rfc3339 E created_at))]"

definition register_root_key :: "'x ext_scheme \<Rightarrow> node \<Rightarrow> intermediates \<Rightarrow> call \<Rightarrow> signed_body \<Rightarrow> db \<Rightarrow>
    (json \<times> db, api_error) result" where
  "register_root_key E nd keys c body d =
     and_then (ok_or (root_key_payload_de E (sb_payload body)) malformed) (\<lambda>p.
     and_then (registered_spki E (kp_public_key p)) (\<lambda>spki.
     and_then (within_window (kp_issued_at p) (c_now c)) (\<lambda>_.
     and_then (check_shape (sb_signature body)) (\<lambda>_.
     and_then (ok_or (signing_digest E ORG_ROOT_KEY (sb_payload body)) malformed) (\<lambda>digest.
     and_then (verify_signature E spki digest (sb_signature body) (signer_of nd)) (\<lambda>_.
     (let org_id = kp_org_id p in
      case find (\<lambda>r. k_org_id r = org_id \<and> k_registered_by_key r = None) (db_keys d) of
        Some row \<Rightarrow>
          refuse_if (k_public_key row \<noteq> spki) (ApiError ''already_exists'')
          (Ok (root_key_json E (k_id row) (k_principal_id row) org_id (k_public_key row) (k_created_at row), d))
      | None \<Rightarrow>
          and_then (anchor_check E (im_tenant_kek_root keys) org_id spki) (\<lambda>chk.
          and_then (insert_key \<lparr> k_id = c_mint c, k_org_id = org_id, k_public_key = spki,
              k_document = sb_payload body, k_signature = signature_object_json E (sb_signature body),
              k_registered_by_key = None, k_anchor_check = Some chk, k_revoked_at = None,
              k_revocation_reason = None, k_principal_id = kp_principal_id p, k_created_at = c_db_now c \<rparr> d) (\<lambda>d1.
          Ok (root_key_json E (c_mint c) (kp_principal_id p) org_id spki (c_db_now c),
              audit_insert \<lparr> au_actor_kind = ''principal'', au_actor = uuid_show E (c_mint c),
                au_action = ''key.register'', au_org_id = Some org_id,
                au_object = Some (''key:'' @ uuid_show E (c_mint c)), au_outcome = ''ok'',
                au_details = Details (jobj [(''principal_id'', JString (uuid_show E (kp_principal_id p))),
                  (''root'', JBool True)]), au_evidence_sha256 = None \<rparr> d1)))))))))) "

definition register_key_inner :: "'x ext_scheme \<Rightarrow> node \<Rightarrow> call \<Rightarrow> signed_body \<Rightarrow> db \<Rightarrow> (json \<times> db, api_error) result" where
  "register_key_inner E nd c body d =
     and_then (intermediates_of nd) (\<lambda>keys.
     (case so_key_id (sb_signature body) of
        Some _ \<Rightarrow> register_endorsed_key E nd keys c body d
      | None \<Rightarrow> register_root_key E nd keys c body d))"

definition register_key :: "'x ext_scheme \<Rightarrow> node \<Rightarrow> call \<Rightarrow> bytes \<Rightarrow> db \<Rightarrow> (json, api_error) result \<times> db" where
  "register_key E nd c bs d =
     (case body_from_request E (signed_body_de E) bs of
        Err e \<Rightarrow> (Err e, d)
      | Ok (body, request) \<Rightarrow>
          audited_route E nd c (so_key_id (sb_signature body)) request ''key.register'' d
            (register_key_inner E nd c body d))"

definition revoke_key_commit :: "'x ext_scheme \<Rightarrow> call \<Rightarrow> chain \<Rightarrow> uuid \<Rightarrow> string \<Rightarrow> db \<Rightarrow> (json \<times> db, api_error) result" where
  "revoke_key_commit E c ch key_id reason d =
     and_then (ok_or (case load_key (db_keys d) key_id of
                        Some k \<Rightarrow> if k_org_id k = k_org_id (chain_key ch) then Some k else None
                      | None \<Rightarrow> None) not_found) (\<lambda>target.
     (let (revoked_at, why, d') =
         (case (k_revoked_at target, k_revocation_reason target) of
            (Some t, Some r) \<Rightarrow> (t, r, d)
          | _ \<Rightarrow>
              (c_db_now c, reason,
               audited E ch ''key.revoke'' (''key:'' @ uuid_show E (k_id target)) (jobj [(''reason'', JString reason)])
                 (d\<lparr> db_keys := map (\<lambda>r. if k_id r = k_id target
                      then r\<lparr> k_revoked_at := Some (c_db_now c), k_revocation_reason := Some reason \<rparr> else r)
                      (db_keys d) \<rparr>))) in
      Ok (jobj [(''key_id'', JString (uuid_show E (k_id target))), (''revoked_at'', JString (kms_rfc3339 E revoked_at)),
                (''reason'', JString why)], d')))"

definition revoke_key_inner :: "'x ext_scheme \<Rightarrow> node \<Rightarrow> call \<Rightarrow> string \<Rightarrow> signed_body \<Rightarrow> db \<Rightarrow> (json \<times> db, api_error) result" where
  "revoke_key_inner E nd c path_id body d =
     and_then (intermediates_of nd) (\<lambda>keys.
     and_then (ok_or (revoke_key_payload_de E (sb_payload body)) malformed) (\<lambda>(key_id, reason, issued).
     refuse_if (path_id \<noteq> uuid_show E key_id) malformed
     (refuse_if (reason \<notin> set [''retired'', ''compromised'']) malformed
     (and_then (within_window issued (c_now c)) (\<lambda>at.
      and_then (authorize E nd keys c CONTROL body at) (\<lambda>ch.
      revoke_key_commit E c ch key_id reason d))))))"

definition revoke_key :: "'x ext_scheme \<Rightarrow> node \<Rightarrow> call \<Rightarrow> string \<Rightarrow> bytes \<Rightarrow> db \<Rightarrow> (json, api_error) result \<times> db" where
  "revoke_key E nd c path_id bs d =
     (case body_from_request E (signed_body_de E) bs of
        Err e \<Rightarrow> (Err e, d)
      | Ok (body, request) \<Rightarrow>
          audited_route E nd c (so_key_id (sb_signature body)) request ''key.revoke'' d
            (revoke_key_inner E nd c path_id body d))"

section \<open>The Control API as a machine\<close>

datatype control_request =
    RegisterRevision bytes
  | RevokeRevision string bytes
  | PutSecret string bytes
  | DeleteSecret string bytes
  | RegisterKey bytes
  | RevokeKey string bytes

fun control :: "'x ext_scheme \<Rightarrow> node \<Rightarrow> call \<Rightarrow> control_request \<Rightarrow> db \<Rightarrow> (json, api_error) result \<times> db" where
  "control E nd c (RegisterRevision bs) d = register_revision E nd c bs d"
| "control E nd c (RevokeRevision h bs) d = revoke_revision E nd c h bs d"
| "control E nd c (PutSecret n bs) d = put_secret E nd c n bs d"
| "control E nd c (DeleteSecret n bs) d = delete_secret E nd c n bs d"
| "control E nd c (RegisterKey bs) d = register_key E nd c bs d"
| "control E nd c (RevokeKey i bs) d = revoke_key E nd c i bs d"

definition control_step :: "'x ext_scheme \<Rightarrow> node \<times> call \<times> control_request \<Rightarrow> db \<Rightarrow> db" where
  "control_step E q d = (case q of (nd, c, r) \<Rightarrow> snd (control E nd c r d))"

end
