(* ===== verification/Attest_Ocsp.thy ===== *)
theory Attest_Ocsp
  imports Attest_Gpu
begin

text \<open>
  \<^verbatim>\<open>crates/alpha-attest/src/gpu/ocsp.rs\<close>: the OCSP request for a device certificate and the check of
  the responder's answer. The encoder of DER values is the source's own; reading DER, X.509 and
  ASN.1 times are parameters.
\<close>

section \<open>Writing DER\<close>

definition SHA384_ID :: bytes where
  "SHA384_ID = [0x30, 0x0d, 0x06, 0x09, 0x60, 0x86, 0x48, 0x01, 0x65, 0x03, 0x04, 0x02, 0x02, 0x05, 0x00]"

definition NONCE_OID :: bytes where
  "NONCE_OID = [0x2b, 0x06, 0x01, 0x05, 0x05, 0x07, 0x30, 0x01, 0x02]"

definition BASIC_OID :: bytes where
  "BASIC_OID = [0x2b, 0x06, 0x01, 0x05, 0x05, 0x07, 0x30, 0x01, 0x01]"

definition SKEW :: time where "SKEW = 300 * 1000000000"

definition OID_ECDSA_SHA256 :: string where "OID_ECDSA_SHA256 = ''1.2.840.10045.4.3.2''"
definition OID_EXTENDED_KEY_USAGE :: string where "OID_EXTENDED_KEY_USAGE = ''2.5.29.37''"

definition der :: "byte \<Rightarrow> bytes list \<Rightarrow> (bytes, appraisal_error) result" where
  "der tag parts =
     (let len = length (concat parts) in
      refuse_if (2 ^ 64 \<le> len) Failed
      (if len < 0x80 then Ok (tag # word_of_nat len # concat parts)
       else if len < 256 then Ok (tag # 0x81 # word_of_nat len # concat parts)
       else if len < 65536 then Ok (tag # 0x82 # be_bytes 2 len @ concat parts)
       else Err Failed))"

definition nonce_extension :: "bytes \<Rightarrow> (bytes, appraisal_error) result" where
  "nonce_extension nonce =
     and_then (der 0x06 [NONCE_OID]) (\<lambda>oid.
     and_then (der 0x04 [nonce]) (\<lambda>inner.
     and_then (der 0x04 [inner]) (\<lambda>val. der 0x30 [oid, val])))"

section \<open>Reading DER\<close>

definition is_context :: "der_value \<Rightarrow> nat \<Rightarrow> bool" where
  "is_context f tag \<longleftrightarrow> der_class f = 2 \<and> der_tag f = tag"

text \<open>The next element, its whole encoding, and what follows.\<close>

definition next_raw :: "'x ext_scheme \<Rightarrow> bytes \<Rightarrow> (der_value \<times> bytes \<times> bytes, appraisal_error) result" where
  "next_raw E data =
     and_then (ok_or (der_any E data) Failed) (\<lambda>(any, rest).
     refuse_if (length data < length rest) Failed
     (Ok (any, take (length data - length rest) data, rest)))"

definition next_any :: "'x ext_scheme \<Rightarrow> bytes \<Rightarrow> (der_value \<times> bytes, appraisal_error) result" where
  "next_any E data = and_then (next_raw E data) (\<lambda>(any, _, rest). Ok (any, rest))"

definition sequence_of :: "'x ext_scheme \<Rightarrow> bytes \<Rightarrow> (bytes, appraisal_error) result" where
  "sequence_of E data =
     (case der_any E data of
        Some (any, []) \<Rightarrow> (if der_tag any = 16 then Ok (der_data any) else Err Failed)
      | _ \<Rightarrow> Err Failed)"

definition time_of :: "'x ext_scheme \<Rightarrow> bytes \<Rightarrow> (int, appraisal_error) result" where
  "time_of E data = (case asn1_time_from_der E data of Some (t, []) \<Rightarrow> Ok t | _ \<Rightarrow> Err Failed)"

text \<open>
  The extensions of a list, each as its identifier and its value. Fuel: one per byte, since reading
  an element consumes at least one.
\<close>

fun extension_list :: "'x ext_scheme \<Rightarrow> nat \<Rightarrow> bytes \<Rightarrow> ((bytes \<times> bytes) list, appraisal_error) result" where
  "extension_list E fuel [] = Ok []"
| "extension_list E 0 (b # bs) = Err Failed"
| "extension_list E (Suc fuel) (b # bs) =
     and_then (next_any E (b # bs)) (\<lambda>(ext, rest).
     and_then (ok_or (der_oid_bytes E (der_data ext)) Failed) (\<lambda>(oid, body).
     and_then (next_any E body) (\<lambda>(first, body1).
     and_then (if der_tag first = 1
               then refuse_if (der_data first \<noteq> [0] \<and> oid \<noteq> NONCE_OID) Failed (next_any E body1)
               else Ok (first, body1)) (\<lambda>(val, body2).
     refuse_if (der_tag val \<noteq> 4 \<or> body2 \<noteq> []) Failed
     (and_then (extension_list E fuel rest) (\<lambda>exts. Ok ((oid, der_data val) # exts)))))))"

definition extensions_of :: "'x ext_scheme \<Rightarrow> bytes \<Rightarrow> ((bytes \<times> bytes) list, appraisal_error) result" where
  "extensions_of E data = and_then (sequence_of E data) (\<lambda>l. extension_list E (length l) l)"

fun certificates :: "'x ext_scheme \<Rightarrow> nat \<Rightarrow> bytes \<Rightarrow> (x509 list, appraisal_error) result" where
  "certificates E fuel [] = Ok []"
| "certificates E 0 (b # bs) = Err Failed"
| "certificates E (Suc fuel) (b # bs) =
     and_then (ok_or (x509_parse E (b # bs)) Failed) (\<lambda>(cert, rest).
     and_then (certificates E fuel rest) (\<lambda>certs. Ok (cert # certs)))"

section \<open>The query\<close>

definition cert_id :: "'x ext_scheme \<Rightarrow> x509 \<Rightarrow> x509 \<Rightarrow> (bytes, appraisal_error) result" where
  "cert_id E cert issuer =
     and_then (der 0x04 [sha384 E (x_subject issuer)]) (\<lambda>name.
     and_then (der 0x04 [sha384 E (x_public_key issuer)]) (\<lambda>key.
     and_then (der 0x02 [x_serial cert]) (\<lambda>serial.
     der 0x30 [SHA384_ID, name, key, serial])))"

definition ocsp_parse :: "'x ext_scheme \<Rightarrow> ocsp_query \<Rightarrow> (x509 \<times> x509 \<times> bytes, appraisal_error) result" where
  "ocsp_parse E q =
     and_then (parse_cert E (oc_cert q)) (\<lambda>cert.
     and_then (parse_cert E (oc_issuer q)) (\<lambda>issuer.
     refuse_if (x_issuer cert \<noteq> x_subject issuer) Failed
     (and_then (cert_id E cert issuer) (\<lambda>cid. Ok (cert, issuer, cid)))))"

definition ocsp_request :: "'x ext_scheme \<Rightarrow> ocsp_query \<Rightarrow> bytes \<Rightarrow> (bytes, appraisal_error) result" where
  "ocsp_request E q nonce =
     and_then (ocsp_parse E q) (\<lambda>(_, _, cid).
     and_then (der 0x30 [cid]) (\<lambda>request.
     and_then (der 0x30 [request]) (\<lambda>requests.
     and_then (nonce_extension nonce) (\<lambda>ext.
     and_then (der 0x30 [ext]) (\<lambda>exts.
     and_then (der 0xa2 [exts]) (\<lambda>tagged.
     and_then (der 0x30 [requests, tagged]) (\<lambda>tbs.
     der 0x30 [tbs])))))))"

section \<open>The answer\<close>

definition ocsp_verify :: "'x ext_scheme \<Rightarrow> bytes \<Rightarrow> string \<Rightarrow> bytes \<Rightarrow> bytes \<Rightarrow> bool" where
  "ocsp_verify E key algorithm msg signature =
     (case p384_sig_from_der E signature of
        None \<Rightarrow> False
      | Some sg \<Rightarrow>
          if algorithm = OID_ECDSA_SHA384 then p384_verify_prehash E key (sha384 E msg) sg
          else if algorithm = OID_ECDSA_SHA256 then p384_verify_prehash E key (sha256 E msg) sg
          else False)"

definition delegated :: "'x ext_scheme \<Rightarrow> x509 \<Rightarrow> x509 \<Rightarrow> time \<Rightarrow> (unit, appraisal_error) result" where
  "delegated E responder issuer now =
     refuse_if (x_issuer responder \<noteq> x_subject issuer) Failed
     (and_then (p384_key E issuer) (\<lambda>key.
      refuse_if (\<not> ocsp_verify E key (x_sig_alg responder) (x_tbs responder) (x_signature responder)) Failed
      (refuse_if (x509_ocsp_signing E responder \<noteq> Some (Some True)) Failed
      (refuse_if (case x_key_usage responder of
                    None \<Rightarrow> True | Some None \<Rightarrow> False | Some (Some (sign, _)) \<Rightarrow> \<not> sign) Failed
      (and_then (asn1_time E now) (\<lambda>t.
       refuse_if (\<not> (x_not_before responder \<le> t \<and> t \<le> x_not_after responder)) Failed
       (refuse_if (unknown_critical responder OID_EXTENDED_KEY_USAGE \<noteq> None) Failed (Ok ()))))))))"

text \<open>The response data, its encoding, the algorithm, the signature and the certificates of a basic response.\<close>

definition ocsp_basic :: "'x ext_scheme \<Rightarrow> bytes \<Rightarrow>
    (bytes \<times> bytes \<times> string \<times> bytes \<times> bytes, appraisal_error) result" where
  "ocsp_basic E response =
     and_then (sequence_of E response) (\<lambda>outer.
     and_then (next_any E outer) (\<lambda>(status, outer).
     refuse_if (der_tag status \<noteq> 10 \<or> der_data status \<noteq> [0]) Failed
     (and_then (next_any E outer) (\<lambda>(tagged, outer).
      refuse_if (\<not> is_context tagged 0 \<or> outer \<noteq> []) Failed
      (and_then (sequence_of E (der_data tagged)) (\<lambda>body.
       and_then (ok_or (der_oid_bytes E body) Failed) (\<lambda>(kind, body).
       and_then (next_any E body) (\<lambda>(octets, body).
       refuse_if (kind \<noteq> BASIC_OID \<or> der_tag octets \<noteq> 4 \<or> body \<noteq> []) Failed
       (and_then (sequence_of E (der_data octets)) (\<lambda>basic.
        and_then (next_raw E basic) (\<lambda>(tbs, tbs_der, basic).
        and_then (next_any E basic) (\<lambda>(alg, basic).
        and_then (ok_or (der_oid E (der_data alg)) Failed) (\<lambda>(algorithm, _).
        and_then (next_any E basic) (\<lambda>(bits, basic).
        refuse_if (der_tag bits \<noteq> 3 \<or> take 1 (der_data bits) \<noteq> [0]) Failed
        (and_then (next_any E basic) (\<lambda>(certs, basic).
         refuse_if (\<not> is_context certs 0 \<or> basic \<noteq> []) Failed
         (and_then (sequence_of E (der_data certs)) (\<lambda>cs.
          Ok (der_data tbs, tbs_der, algorithm, drop 1 (der_data bits), cs)))))))))))))))))))"

text \<open>The certificate among those carried that signed the answer, which the issuer delegated.\<close>

definition ocsp_responder :: "'x ext_scheme \<Rightarrow> x509 \<Rightarrow> bytes \<Rightarrow> string \<Rightarrow> bytes \<Rightarrow> bytes \<Rightarrow> time \<Rightarrow>
    (unit, appraisal_error) result" where
  "ocsp_responder E issuer tbs_der algorithm signature certs now =
     and_then (certificates E (length certs) certs) (\<lambda>cs.
     and_then (ok_or (find (\<lambda>c. case p384_key E c of
                              Ok k \<Rightarrow> ocsp_verify E k algorithm tbs_der signature | Err _ \<Rightarrow> False) cs) Failed)
       (\<lambda>responder. delegated E responder issuer now))"

text \<open>The single response of the data, once the nonce is found to be the request's.\<close>

definition ocsp_single :: "'x ext_scheme \<Rightarrow> bytes \<Rightarrow> bytes \<Rightarrow> (bytes, appraisal_error) result" where
  "ocsp_single E tbs nonce =
     and_then (next_any E tbs) (\<lambda>(first, rest).
     and_then (if is_context first 0 then next_any E rest else Ok (first, rest)) (\<lambda>(rid, rest).
     refuse_if (\<not> is_context rid 1 \<and> \<not> is_context rid 2) Failed
     (and_then (next_any E rest) (\<lambda>(_, rest).
      and_then (next_any E rest) (\<lambda>(responses, rest).
      and_then (next_any E (der_data responses)) (\<lambda>(single, more).
      refuse_if (more \<noteq> []) Failed
      (and_then (next_any E rest) (\<lambda>(exts, rest).
       refuse_if (\<not> is_context exts 1 \<or> rest \<noteq> []) Failed
       (and_then (extensions_of E (der_data exts)) (\<lambda>es.
        and_then (der 0x04 [nonce]) (\<lambda>expected.
        refuse_if (map snd (filter (\<lambda>e. fst e = NONCE_OID) es) \<noteq> [expected]) Failed
        (Ok (der_data single)))))))))))))"

definition ocsp_status :: "'x ext_scheme \<Rightarrow> bytes \<Rightarrow> bytes \<Rightarrow> time \<Rightarrow> (unit, appraisal_error) result" where
  "ocsp_status E single cid now =
     and_then (next_raw E single) (\<lambda>(_, id_der, single).
     refuse_if (id_der \<noteq> cid) Failed
     (and_then (next_any E single) (\<lambda>(status, single).
      and_then (next_raw E single) (\<lambda>(_, this_der, single).
      and_then (next_any E single) (\<lambda>(next_up, single).
      and_then (time_of E this_der) (\<lambda>this_update.
      refuse_if (\<not> is_context next_up 0) Failed
      (and_then (time_of E (der_data next_up)) (\<lambda>next_update.
       and_then (if single = [] then Ok []
                 else and_then (next_any E single) (\<lambda>(exts, rest).
                      refuse_if (\<not> is_context exts 1 \<or> rest \<noteq> []) Failed (extensions_of E (der_data exts)))) (\<lambda>_.
       and_then (asn1_time E (now + SKEW)) (\<lambda>ahead.
       and_then (asn1_time E now) (\<lambda>t.
       refuse_if (this_update > ahead \<or> t \<ge> next_update) Failed
       (if is_context status 0 \<and> der_data status = [] then Ok () else Err Failed))))))))))))"

definition ocsp_check :: "'x ext_scheme \<Rightarrow> ocsp_query \<Rightarrow> bytes \<Rightarrow> bytes \<Rightarrow> time \<Rightarrow> (unit, appraisal_error) result" where
  "ocsp_check E q response nonce now =
     and_then (ocsp_parse E q) (\<lambda>(_, issuer, cid).
     and_then (ocsp_basic E response) (\<lambda>(tbs, tbs_der, algorithm, signature, certs).
     and_then (ocsp_responder E issuer tbs_der algorithm signature certs now) (\<lambda>_.
     and_then (ocsp_single E tbs nonce) (\<lambda>single.
     ocsp_status E single cid now))))"

section \<open>The encoder is prefix-free\<close>

definition der_header :: "nat \<Rightarrow> bytes" where
  "der_header len = (if len < 0x80 then [word_of_nat len] else if len < 256 then [0x81, word_of_nat len]
     else 0x82 # be_bytes 2 len)"

lemma der_Ok:
  "der t ps = Ok out \<longleftrightarrow> length (concat ps) < 65536 \<and> out = t # der_header (length (concat ps)) @ concat ps"
  by (auto simp: der_def der_header_def Let_def refuse_if_def)

lemma byte_of_nat_inject: "m < 256 \<Longrightarrow> n < 256 \<Longrightarrow> (word_of_nat m :: byte) = word_of_nat n \<longleftrightarrow> m = n"
  by (metis unat_byte_of_nat)

lemma der_header_unique:
  assumes "m < 65536" and "n < 65536" and "der_header m @ x = der_header n @ y"
  shows "m = n \<and> x = y"
proof -
  have b: "(word_of_nat k :: byte) \<noteq> 0x81" "(word_of_nat k :: byte) \<noteq> 0x82" if "k < 0x80" for k
    using that byte_of_nat_inject [of k 129] byte_of_nat_inject [of k 130] by simp_all
  have t: "m = n" if "be_bytes 2 m = be_bytes 2 n" using be_bytes_inject [of m 2 n] that assms(1,2) by simp
  show ?thesis using assms b [of m] b [of n] t
    by (auto simp: der_header_def byte_of_nat_inject append_eq_append_conv split: if_split_asm)
qed

lemma der_prefix_free:
  assumes "der t ps = Ok a" and "der t' ps' = Ok b" and "a @ x = b @ y"
  shows "t = t' \<and> concat ps = concat ps' \<and> x = y"
proof -
  from assms have "t = t'" and h: "der_header (length (concat ps)) @ concat ps @ x = der_header (length (concat ps')) @ concat ps' @ y"
    and l: "length (concat ps) < 65536" "length (concat ps') < 65536" by (auto simp: der_Ok)
  from der_header_unique [OF l h] have "length (concat ps) = length (concat ps')" "concat ps @ x = concat ps' @ y" by auto
  with \<open>t = t'\<close> show ?thesis by (simp add: append_eq_append_conv)
qed

lemma der_inject: "der t ps = Ok a \<Longrightarrow> der t' ps' = Ok a \<Longrightarrow> t = t' \<and> concat ps = concat ps'"
  using der_prefix_free [of t ps a t' ps' a "[]" "[]"] by simp

lemma cert_id_inject:
  assumes "cert_id E c i = Ok d" and "cert_id E c' i' = Ok d"
  shows "x_serial c = x_serial c' \<and> sha384 E (x_subject i) = sha384 E (x_subject i')
    \<and> sha384 E (x_public_key i) = sha384 E (x_public_key i')"
proof -
  obtain n k s where a: "der 0x04 [sha384 E (x_subject i)] = Ok n" "der 0x04 [sha384 E (x_public_key i)] = Ok k"
      "der 0x02 [x_serial c] = Ok s" and d: "der 0x30 [SHA384_ID, n, k, s] = Ok d"
    using assms(1) by (auto simp: cert_id_def result_simps)
  obtain n' k' s' where a': "der 0x04 [sha384 E (x_subject i')] = Ok n'" "der 0x04 [sha384 E (x_public_key i')] = Ok k'"
      "der 0x02 [x_serial c'] = Ok s'" and d': "der 0x30 [SHA384_ID, n', k', s'] = Ok d"
    using assms(2) by (auto simp: cert_id_def result_simps)
  from der_inject [OF d d'] have c: "n @ k @ s = n' @ k' @ s'" by simp
  from der_prefix_free [OF a(1) a'(1) c] have n: "sha384 E (x_subject i) = sha384 E (x_subject i')" and c2: "k @ s = k' @ s'"
    by simp_all
  from der_prefix_free [OF a(2) a'(2) c2] have k: "sha384 E (x_public_key i) = sha384 E (x_public_key i')" and c3: "s = s'"
    by simp_all
  from der_inject [OF a(3)] a'(3) c3 have "x_serial c = x_serial c'" by simp
  with n k show ?thesis by simp
qed

lemma ocsp_single_nonce:
  assumes "ocsp_single E tbs n = Ok s" and "ocsp_single E tbs n' = Ok s'"
  shows "n = n' \<and> s = s'"
proof -
  from assms obtain e where "der 0x04 [n] = Ok e" "der 0x04 [n'] = Ok e" "s = s'"
    by (auto simp: ocsp_single_def result_simps)
  then have "concat [n] = concat [n']" by (blast dest: der_inject)
  with \<open>s = s'\<close> show ?thesis by simp
qed

lemma ocsp_status_id:
  "ocsp_status E single cid now = Ok u \<Longrightarrow> ocsp_status E single cid' now' = Ok u' \<Longrightarrow> cid = cid'"
  by (auto simp: ocsp_status_def result_simps)

section \<open>Properties\<close>

text \<open>
  An answer of the responder speaks for one request only: whatever two queries accept the same
  bytes, at whatever times, they carried the same nonce and asked about the same serial number of
  the same issuer, as far as SHA-384 tells issuers apart. A good answer for one device, or for an
  earlier request, is never one for another.
\<close>

theorem ocsp_answer_for_one_request:
  assumes "ocsp_check E q response nonce now = Ok ()" and "ocsp_check E q' response nonce' now' = Ok ()"
  shows "nonce = nonce' \<and> (\<exists>c i c' i'. parse_cert E (oc_cert q) = Ok c \<and> parse_cert E (oc_issuer q) = Ok i
    \<and> parse_cert E (oc_cert q') = Ok c' \<and> parse_cert E (oc_issuer q') = Ok i' \<and> x_serial c = x_serial c'
    \<and> sha384 E (x_subject i) = sha384 E (x_subject i') \<and> sha384 E (x_public_key i) = sha384 E (x_public_key i'))"
proof -
  from assms(1) obtain c i d tbs td alg sg certs single where p: "ocsp_parse E q = Ok (c, i, d)"
      "ocsp_basic E response = Ok (tbs, td, alg, sg, certs)"
      "ocsp_single E tbs nonce = Ok single" "ocsp_status E single d now = Ok ()"
    by (auto simp: ocsp_check_def result_simps)
  from assms(2) p(2) obtain c' i' d' single' where p': "ocsp_parse E q' = Ok (c', i', d')"
      "ocsp_single E tbs nonce' = Ok single'" "ocsp_status E single' d' now' = Ok ()"
    by (auto simp: ocsp_check_def result_simps)
  from ocsp_single_nonce [OF p(3) p'(2)] have n: "nonce = nonce'" "single = single'" by auto
  with ocsp_status_id [OF p(4)] p'(3) have "d = d'" by simp
  with p(1) p'(1) have "parse_cert E (oc_cert q) = Ok c" "parse_cert E (oc_issuer q) = Ok i" "cert_id E c i = Ok d"
      "parse_cert E (oc_cert q') = Ok c'" "parse_cert E (oc_issuer q') = Ok i'" "cert_id E c' i' = Ok d"
    by (simp_all add: ocsp_parse_def result_simps)
  with cert_id_inject [of E c i d c' i'] n show ?thesis by metis
qed

text \<open>
  For the witness, a reader of short DER values, one certificate that plays every part, and an
  answer to a request with the nonce \<open>[7]\<close>.
\<close>

definition tlv_read :: "bytes \<Rightarrow> (der_value \<times> bytes) option" where
  "tlv_read b = (case b of
      t # l # r \<Rightarrow> (if unat l \<le> length r
        then Some (\<lparr> der_class = unat t div 64, der_tag = unat t mod 32, der_data = take (unat l) r \<rparr>, drop (unat l) r)
        else None)
    | _ \<Rightarrow> None)"

definition tlv :: "byte \<Rightarrow> bytes \<Rightarrow> bytes" where
  "tlv t xs = t # word_of_nat (length xs) # xs"

definition demo_cert :: x509 where
  "demo_cert = \<lparr> x_raw = [], x_tbs = [], x_issuer = [], x_subject = [], x_sig_alg = OID_ECDSA_SHA384, x_signature = [],
     x_public_key = [], x_spki = [], x_serial = [], x_not_before = 0, x_not_after = 9, x_extensions = [],
     x_basic = None, x_key_usage = Some None, x_uri_sans = [] \<rparr>"

definition demo_ocsp :: ext where
  "demo_ocsp = demo\<lparr> sha384 := \<lambda>_. [], der_any := tlv_read, der_oid := \<lambda>_. Some (OID_ECDSA_SHA384, []),
     der_oid_bytes := \<lambda>b. map_option (\<lambda>(v, r). (der_data v, r)) (tlv_read b),
     x509_parse := \<lambda>b. Some (demo_cert, tl b), p384_from_sec1 := Some, p384_verify_prehash := \<lambda>_ _ _. True,
     x509_ocsp_signing := \<lambda>_. Some (Some True), asn1_time_from_der := \<lambda>b. Some (int (unat (last b)), []) \<rparr>"

definition demo_cid :: bytes where
  "demo_cid = tlv 0x30 (SHA384_ID @ tlv 4 [] @ tlv 4 [] @ tlv 2 [])"

definition demo_single :: bytes where
  "demo_single = demo_cid @ tlv 0x80 [] @ tlv 0x18 [0] @ tlv 0xa0 [9]"

definition demo_data :: bytes where
  "demo_data = tlv 0xa1 [] @ tlv 0x18 [] @ tlv 0x30 (tlv 0x30 demo_single)
     @ tlv 0xa1 (tlv 0x30 (tlv 0x30 (tlv 6 NONCE_OID @ tlv 4 (tlv 4 [7]))))"

definition demo_answer :: bytes where
  "demo_answer = tlv 0x30 (tlv 0x0a [0] @ tlv 0xa0 (tlv 0x30 (tlv 6 BASIC_OID @ tlv 4
     (tlv 0x30 (tlv 0x30 demo_data @ tlv 0x30 [] @ tlv 3 [0, 5] @ tlv 0xa0 (tlv 0x30 [1]))))))"

lemma tlv_simps:
  assumes "length xs < 256"
  shows "tlv_read (tlv t xs @ r) = Some (\<lparr> der_class = unat t div 64, der_tag = unat t mod 32, der_data = xs \<rparr>, r)"
    and "tlv_read (tlv t xs) = Some (\<lparr> der_class = unat t div 64, der_tag = unat t mod 32, der_data = xs \<rparr>, [])"
  using unat_byte_of_nat [OF assms] by (simp_all add: tlv_read_def tlv_def)

lemma demo_ocsp_read:
  assumes "length xs < 256"
  shows "next_raw demo_ocsp (tlv t xs @ r) =
      Ok (\<lparr> der_class = unat t div 64, der_tag = unat t mod 32, der_data = xs \<rparr>, tlv t xs, r)"
    and "next_raw demo_ocsp (tlv t xs) =
      Ok (\<lparr> der_class = unat t div 64, der_tag = unat t mod 32, der_data = xs \<rparr>, tlv t xs, [])"
    and "sequence_of demo_ocsp (tlv 0x30 xs) = Ok xs"
    and "der_oid_bytes demo_ocsp (tlv 6 xs @ r) = Some (xs, r)"
  using assms by (simp_all add: next_raw_def sequence_of_def demo_ocsp_def tlv_simps)

lemma length_tlv [simp]: "length (tlv t xs) = Suc (Suc (length xs))"
  by (simp add: tlv_def)

lemma demo_lengths [simp]:
  "length demo_cid = 23" "length demo_single = 31" "length demo_data = 61" "length NONCE_OID = 9" "length BASIC_OID = 9"
  by (simp_all add: demo_cid_def demo_single_def demo_data_def SHA384_ID_def NONCE_OID_def BASIC_OID_def)

lemma demo_extension: "extension_list demo_ocsp 18 (tlv 0x30 (tlv 6 NONCE_OID @ tlv 4 (tlv 4 [7]))) = Ok [(NONCE_OID, tlv 4 [7])]"
proof -
  let ?l = "tlv 0x30 (tlv 6 NONCE_OID @ tlv 4 (tlv 4 [7]))"
  obtain b bs where l: "?l = b # bs" by (simp add: tlv_def)
  have "next_any demo_ocsp ?l = Ok (\<lparr> der_class = 0, der_tag = 16, der_data = tlv 6 NONCE_OID @ tlv 4 (tlv 4 [7]) \<rparr>, [])"
    by (simp add: next_any_def demo_ocsp_read)
  then have "extension_list demo_ocsp (Suc 17) (b # bs) = Ok [(NONCE_OID, tlv 4 [7])]"
    unfolding l extension_list.simps by (simp add: next_any_def [of demo_ocsp "tlv t xs" for t xs] demo_ocsp_read)
  then show ?thesis by (simp add: l)
qed

lemma demo_answer_good: "ocsp_check demo_ocsp \<lparr> oc_cert = [1], oc_issuer = [1] \<rparr> demo_answer [7] 0 = Ok ()"
proof -
  have p: "ocsp_parse demo_ocsp \<lparr> oc_cert = [1], oc_issuer = [1] \<rparr> = Ok (demo_cert, demo_cert, demo_cid)"
    by (simp add: ocsp_parse_def parse_cert_def cert_id_def der_def demo_ocsp_def demo_cert_def demo_cid_def SHA384_ID_def tlv_def)
  have b: "ocsp_basic demo_ocsp demo_answer = Ok (demo_data, tlv 0x30 demo_data, OID_ECDSA_SHA384, [5], [1])"
    by (simp add: ocsp_basic_def demo_answer_def next_any_def demo_ocsp_read is_context_def) (simp add: demo_ocsp_def)
  have r: "ocsp_responder demo_ocsp demo_cert (tlv 0x30 demo_data) OID_ECDSA_SHA384 [5] [1] 0 = Ok ()"
    by (simp add: ocsp_responder_def demo_ocsp_def demo_def p384_key_def ocsp_verify_def delegated_def demo_cert_def
        asn1_time_def seconds_of_def unknown_critical_def)
  have s: "ocsp_single demo_ocsp demo_data [7] = Ok demo_single"
    by (simp add: ocsp_single_def demo_data_def next_any_def demo_ocsp_read is_context_def extensions_of_def demo_extension der_def)
      (simp add: tlv_def)
  have t: "ocsp_status demo_ocsp demo_single demo_cid 0 = Ok ()"
    unfolding ocsp_status_def next_any_def demo_single_def demo_cid_def
    by (simp add: demo_ocsp_read is_context_def SHA384_ID_def)
      (simp add: time_of_def demo_ocsp_def tlv_def asn1_time_def demo_def seconds_of_def SKEW_def)
  show ?thesis by (simp add: ocsp_check_def p b r s t)
qed

theorem ocsp_answer_for_one_request_witness:
  "ocsp_check demo_ocsp \<lparr> oc_cert = [1], oc_issuer = [1] \<rparr> demo_answer [7] 0 = Ok ()
     \<and> ocsp_check demo_ocsp \<lparr> oc_cert = [1], oc_issuer = [1] \<rparr> demo_answer [8] 0 \<noteq> Ok ()"
  using ocsp_answer_for_one_request [OF demo_answer_good, of _ "[8]"] demo_answer_good by auto

end
