(* ===== verification/Attest_Wire.thy ===== *)
theory Attest_Wire
  imports Attest Attest_Ocsp
begin

text \<open>
  The wire forms of \<^verbatim>\<open>crates/alpha-attest/src/lib.rs\<close>: how evidence is read from JSON and how an
  attestation result is written. Reading inverts writing, so what a node hashes, stores and appraises
  is the evidence a guest sent.
\<close>

section \<open>Reading\<close>

text \<open>The \<open>hex\<close> crate reads both cases.\<close>

definition hex_digit :: "char \<Rightarrow> nat option" where
  "hex_digit c = (if 65 \<le> code c \<and> code c \<le> 70 then Some (code c - 55) else hex_value c)"

fun hex_decode :: "string \<Rightarrow> bytes option" where
  "hex_decode [] = Some []"
| "hex_decode [c] = None"
| "hex_decode (a # b # r) =
     Option.bind (hex_digit a) (\<lambda>x. Option.bind (hex_digit b) (\<lambda>y.
     map_option ((#) (word_of_nat (16 * x + y))) (hex_decode r)))"

definition hex_de :: "json \<Rightarrow> bytes option" where
  "hex_de v = Option.bind (json_as_str v) hex_decode"

definition base64url_de :: "'x ext_scheme \<Rightarrow> json \<Rightarrow> bytes option" where
  "base64url_de E v = Option.bind (json_as_str v) (b64_dec E)"

definition event_de :: "json \<Rightarrow> event_log_entry option" where
  "event_de v =
     Option.bind (struct_fields True [(''imr'', False), (''event_type'', False), (''digest'', False),
       (''event'', False), (''event_payload'', False)] v) (\<lambda>m.
     Option.bind (field m ''imr'' (de_uint (2 ^ 32 - 1))) (\<lambda>i.
     Option.bind (field m ''event_type'' (de_uint (2 ^ 32 - 1))) (\<lambda>t.
     Option.bind (field m ''digest'' hex_de) (\<lambda>d.
     Option.bind (field m ''event'' json_as_str) (\<lambda>e.
     Option.bind (field m ''event_payload'' hex_de) (\<lambda>p.
     Some \<lparr> ev_imr = word_of_nat i, ev_event_type = word_of_nat t, ev_digest = d, ev_event = e, ev_payload = p \<rparr>))))))"

definition gpu_de :: "'x ext_scheme \<Rightarrow> json \<Rightarrow> gpu_evidence option" where
  "gpu_de E v =
     Option.bind (struct_fields True [(''evidence'', False), (''certificate_chain'', False)] v) (\<lambda>m.
     Option.bind (field m ''evidence'' (base64url_de E)) (\<lambda>e.
     Option.bind (field m ''certificate_chain'' (base64url_de E)) (\<lambda>c.
     Some \<lparr> ge_evidence = e, ge_certificate_chain = c \<rparr>)))"

definition evidence_de :: "'x ext_scheme \<Rightarrow> json \<Rightarrow> evidence option" where
  "evidence_de E v =
     Option.bind (struct_fields True [(''format'', False), (''quote'', False), (''event_log'', False)] v) (\<lambda>m.
     Option.bind (field m ''format'' json_as_str) (\<lambda>f.
     Option.bind (field m ''quote'' (base64url_de E)) (\<lambda>q.
     Option.bind (field m ''event_log'' (de_vec event_de)) (\<lambda>l.
     Some \<lparr> e_format = f, e_quote = q, e_event_log = l \<rparr>))))"

text \<open>\<open>gpu\<close> has a default, so it may be absent, but not \<open>null\<close>.\<close>

definition kata_evidence_de :: "'x ext_scheme \<Rightarrow> json \<Rightarrow> kata_evidence option" where
  "kata_evidence_de E v =
     Option.bind (struct_fields True [(''format'', False), (''quote'', False), (''gpu'', True)] v) (\<lambda>m.
     Option.bind (field m ''format'' json_as_str) (\<lambda>f.
     Option.bind (field m ''quote'' (base64url_de E)) (\<lambda>q.
     Option.bind (if map_of m ''gpu'' = None then Some [] else field m ''gpu'' (de_vec (gpu_de E))) (\<lambda>g.
     Some \<lparr> k_format = f, k_quote = q, k_gpu = g \<rparr>))))"

definition instance_evidence_de :: "'x ext_scheme \<Rightarrow> json \<Rightarrow> instance_evidence option" where
  "instance_evidence_de E v =
     (if Option.bind (json_get v ''format'') json_as_str = Some KATA_EVIDENCE_FORMAT
      then map_option Kata (kata_evidence_de E v) else map_option Dstack (evidence_de E v))"

definition instance_evidence_json :: "'x ext_scheme \<Rightarrow> instance_evidence \<Rightarrow> json" where
  "instance_evidence_json E ev = (case ev of Dstack e \<Rightarrow> evidence_json E e | Kata k \<Rightarrow> kata_evidence_json E k)"

section \<open>The attestation result\<close>

definition RESULT_FORMAT :: string where "RESULT_FORMAT = ''alphacompute-attestation-result/1''"

datatype verdict = Verified | VerdictFailed | VerdictUnknown

definition verdict_json :: "verdict \<Rightarrow> json" where
  "verdict_json v = JString (case v of Verified \<Rightarrow> ''verified'' | VerdictFailed \<Rightarrow> ''failed'' | VerdictUnknown \<Rightarrow> ''unknown'')"

record attested_revision =
  ar_compose_hash :: compose_hash
  ar_app_id :: uuid
  ar_org_id :: uuid

record attestation_result =
  at_format :: string
  at_verdict :: verdict
  at_measured :: measured
  at_tcb_status :: string
  at_advisories :: "string list"
  at_os_image :: string
  at_revision :: attested_revision
  at_runtime_pubkey_sha256 :: string
  at_evidence_sha256 :: string
  at_verified_at :: string
  at_policy_version :: u64
  at_gpu_serials :: "string list"

definition measured_json :: "measured \<Rightarrow> json" where
  "measured_json m = jobj [(''mrtd'', JString (measurement_show (m_mrtd m))), (''rtmr0'', JString (measurement_show (m_rtmr0 m))),
     (''rtmr1'', JString (measurement_show (m_rtmr1 m))), (''rtmr2'', JString (measurement_show (m_rtmr2 m))),
     (''rtmr3'', JString (measurement_show (m_rtmr3 m)))]"

definition attestation_result_json :: "'x ext_scheme \<Rightarrow> attestation_result \<Rightarrow> json" where
  "attestation_result_json E r = jobj ([(''format'', JString (at_format r)), (''verdict'', verdict_json (at_verdict r)),
     (''measured'', measured_json (at_measured r)), (''tcb_status'', JString (at_tcb_status r)),
     (''advisories'', JArray (map JString (at_advisories r))), (''os_image'', JString (at_os_image r)),
     (''revision'', jobj [(''compose_hash'', JString (compose_hash_show (ar_compose_hash (at_revision r)))),
        (''app_id'', JString (uuid_show E (ar_app_id (at_revision r)))),
        (''org_id'', JString (uuid_show E (ar_org_id (at_revision r))))]),
     (''runtime_pubkey_sha256'', JString (at_runtime_pubkey_sha256 r)),
     (''evidence_sha256'', JString (at_evidence_sha256 r)), (''verified_at'', JString (at_verified_at r)),
     (''policy_version'', JNumber (PosInt (at_policy_version r)))]
     @ (if at_gpu_serials r = [] then [] else [(''gpu_serials'', JArray (map JString (at_gpu_serials r)))]))"

section \<open>Reading inverts writing\<close>

lemma hex_digit_value: "hex_value c = Some x \<Longrightarrow> hex_digit c = Some x"
  by (auto simp: hex_digit_def hex_value_def split: if_split_asm)

lemma hex_decode_encode: "hex_decode (hex_encode bs) = Some bs"
proof (induction bs)
  case Nil
  then show ?case by (simp add: hex_encode_def)
next
  case (Cons b bs)
  have "hex_digit (hex_char (unat b div 16)) = Some (unat b div 16)"
    and "hex_digit (hex_char (unat b mod 16)) = Some (unat b mod 16)"
    by (rule hex_digit_value, rule hex_value_char, simp add: less_mult_imp_div_less)+
  moreover have "hex_encode (b # bs) = hex_char (unat b div 16) # hex_char (unat b mod 16) # hex_encode bs"
    by (simp add: hex_encode_def hex_byte_def)
  ultimately show ?case using Cons.IH by (simp del: of_nat_add of_nat_mult)
qed

lemma de_list_map: "(\<And>x. x \<in> set xs \<Longrightarrow> de (f x) = Some x) \<Longrightarrow> de_list de (map f xs) = Some xs"
  by (induction xs) simp_all

lemma de_vec_map: "(\<And>x. x \<in> set xs \<Longrightarrow> de (f x) = Some x) \<Longrightarrow> de_vec de (JArray (map f xs)) = Some xs"
  by (simp add: de_vec_def de_list_map)

lemma struct_fields_jobj_bind:
  assumes "set (map fst es) \<subseteq> set (map fst fs)" and "\<And>m. map_of m = map_of (rev es) \<Longrightarrow> g m = r"
  shows "Option.bind (struct_fields deny fs (jobj es)) g = r"
proof -
  obtain m where "struct_fields deny fs (jobj es) = Some m" "map_of m = map_of (rev es)"
    using struct_fields_jobj [of deny es fs] assms(1) by blast
  with assms(2) show ?thesis by simp
qed

lemma de_uint_u32: "de_uint (2 ^ 32 - 1) (JNumber (PosInt (ucast (w :: u32)))) = Some (unat w)"
proof -
  have "unat w < 2 ^ 32" using unsigned_less [of w] by simp
  then have "unat (ucast w :: u64) = unat w" by (simp add: unsigned_ucast_eq take_bit_nat_eq_self)
  with \<open>unat w < 2 ^ 32\<close> show ?thesis by (simp add: de_uint_def)
qed

lemma event_de_json: "event_de (event_json e) = Some e"
  unfolding event_de_def event_json_def
  by (rule struct_fields_jobj_bind) (simp_all add: field_def de_uint_u32 [simplified] hex_de_def hex_decode_encode)

lemma gpu_de_json: "b64_law E \<Longrightarrow> gpu_de E (gpu_json E g) = Some g"
  unfolding gpu_de_def gpu_json_def
  by (rule struct_fields_jobj_bind) (simp_all add: field_def base64url_de_def b64_decode_encode)

lemma evidence_de_json: "b64_law E \<Longrightarrow> evidence_de E (evidence_json E e) = Some e"
  unfolding evidence_de_def evidence_json_def
  by (rule struct_fields_jobj_bind)
    (simp_all add: field_def base64url_de_def b64_decode_encode de_vec_map event_de_json)

lemma kata_evidence_de_json: "b64_law E \<Longrightarrow> kata_evidence_de E (kata_evidence_json E k) = Some k"
  unfolding kata_evidence_de_def kata_evidence_json_def
  by (rule struct_fields_jobj_bind)
    (simp_all add: field_def base64url_de_def b64_decode_encode de_vec_map gpu_de_json)

section \<open>Properties\<close>

text \<open>
  Evidence survives the wire: what \<open>InstanceEvidence\<close> writes it reads back, unchanged and in the
  same variant, when its format names that variant. In particular a Kata quote can never be read as
  dstack evidence.
\<close>

theorem instance_evidence_roundtrip:
  assumes "b64_law E" and "case ev of Dstack e \<Rightarrow> e_format e \<noteq> KATA_EVIDENCE_FORMAT | Kata k \<Rightarrow> k_format k = KATA_EVIDENCE_FORMAT"
  shows "instance_evidence_de E (instance_evidence_json E ev) = Some ev"
proof (cases ev)
  case (Dstack e)
  with assms(2) have "Option.bind (json_get (evidence_json E e) ''format'') json_as_str \<noteq> Some KATA_EVIDENCE_FORMAT"
    by (simp add: evidence_json_def)
  with Dstack assms(1) show ?thesis
    by (simp add: instance_evidence_de_def instance_evidence_json_def evidence_de_json)
next
  case (Kata k)
  with assms(2) have "Option.bind (json_get (kata_evidence_json E k) ''format'') json_as_str = Some KATA_EVIDENCE_FORMAT"
    by (simp add: kata_evidence_json_def)
  with Kata assms(1) show ?thesis
    by (simp add: instance_evidence_de_def instance_evidence_json_def kata_evidence_de_json)
qed

theorem instance_evidence_roundtrip_witness:
  "instance_evidence_de demo (instance_evidence_json demo (Kata \<lparr> k_format = KATA_EVIDENCE_FORMAT, k_quote = [1, 2],
     k_gpu = [\<lparr> ge_evidence = [3], ge_certificate_chain = [] \<rparr>] \<rparr>)) =
   Some (Kata \<lparr> k_format = KATA_EVIDENCE_FORMAT, k_quote = [1, 2], k_gpu = [\<lparr> ge_evidence = [3], ge_certificate_chain = [] \<rparr>] \<rparr>)"
  by (rule instance_evidence_roundtrip [OF demo_b64]) simp

end
