(* ===== verification/Kms_Control_Spec.thy ===== *)
theory Kms_Control_Spec
  imports Kms_Control Attest_Wire
begin

text \<open>
  What the Control API promises: an abstract specification of the commits it can make, the proof
  that every route refines it, the invariant of the tables, what no call ever undoes, and the
  isolation of one organization from another. The routes run in any order, and the tables that
  \<open>authorize\<close> read may be older than those the transaction meets.
\<close>

section \<open>The abstract specification\<close>

text \<open>
  What a call may do to the tables, on behalf of one organization: nothing but write to the audit
  log, or one of six commits, each with one audit row of outcome \<open>ok\<close>.
\<close>

inductive db_step :: "'x ext_scheme \<Rightarrow> uuid \<Rightarrow> db \<Rightarrow> db \<Rightarrow> bool" for E org where
  stay: "db_step E org d d"
| refusal: "au_outcome a \<noteq> ''ok'' \<Longrightarrow> db_step E org d (audit_insert a d)"
| add_key: "\<not> key_conflict row d \<Longrightarrow> (\<forall>p. k_registered_by_key row = Some p \<longrightarrow> has_key d p) \<Longrightarrow>
    (k_registered_by_key row = None) = (k_anchor_check row \<noteq> None) \<Longrightarrow> k_revoked_at row = None \<Longrightarrow>
    k_org_id row = org \<Longrightarrow> au_outcome a = ''ok'' \<Longrightarrow> au_org_id a = Some org \<Longrightarrow>
    db_step E org d (audit_insert a (d\<lparr> db_keys := db_keys d @ [row] \<rparr>))"
| end_key: "load_key (db_keys d) i = Some k \<Longrightarrow> k_org_id k = org \<Longrightarrow>
    k_revoked_at k = None \<or> k_revocation_reason k = None \<Longrightarrow> au_outcome a = ''ok'' \<Longrightarrow> au_org_id a = Some org \<Longrightarrow>
    db_step E org d (audit_insert a (d\<lparr> db_keys := map (\<lambda>r. if k_id r = i
      then r\<lparr> k_revoked_at := Some t, k_revocation_reason := Some why \<rparr> else r) (db_keys d) \<rparr>))"
| add_revision: "load_revision d (rv_compose_hash row) = None \<Longrightarrow> rv_org_id row = org \<Longrightarrow>
    (\<forall>r \<in> set (db_revisions d). rv_app_id r = rv_app_id row \<longrightarrow> rv_org_id r = org) \<Longrightarrow>
    rv_revoked_at row = None \<Longrightarrow> (rv_compose row = None) \<noteq> (rv_init_data row = None) \<Longrightarrow>
    has_key d (rv_created_by_key row) \<Longrightarrow> au_outcome a = ''ok'' \<Longrightarrow> au_org_id a = Some org \<Longrightarrow>
    db_step E org d (audit_insert a (d\<lparr> db_revisions := db_revisions d @ [row] \<rparr>))"
| end_revision: "load_revision d h = Some r \<Longrightarrow> rv_org_id r = org \<Longrightarrow> rv_revoked_at r = None \<Longrightarrow>
    au_outcome a = ''ok'' \<Longrightarrow> au_org_id a = Some org \<Longrightarrow>
    db_step E org d (audit_insert a (d\<lparr> db_revisions := map (\<lambda>r. if rv_compose_hash r = h
      then r\<lparr> rv_revoked_at := Some t \<rparr> else r) (db_revisions d) \<rparr>))"
| write_secret: "se_org_id s = org \<Longrightarrow> (\<forall>r. find_secret d org (se_name s) = Some r \<longrightarrow> se_issued_at r < at) \<Longrightarrow>
    (find_secret d org (se_name s) = None \<longrightarrow> se_id s \<notin> se_id ` set (db_secrets d)) \<Longrightarrow>
    se_issued_at s = timestamptz E at \<Longrightarrow> has_key d (se_signed_by_key s) \<Longrightarrow>
    au_outcome a = ''ok'' \<Longrightarrow> au_org_id a = Some org \<Longrightarrow>
    db_step E org d (audit_insert a (d\<lparr> db_secrets := upsert_secret s (db_secrets d) \<rparr>))"

lemma outcome_not_ok [simp]: "outcome e \<noteq> ''ok''"
  by (simp add: outcome_def)

lemma denied_step: "db_step E org d (denied E' key_id action e d)"
  unfolding denied_def by (rule db_step.refusal) simp

lemma ok_row_simps [simp]:
  "au_outcome (ok_row E ch action object details) = ''ok''"
  "au_org_id (ok_row E ch action object details) = Some (k_org_id (chain_key ch))"
  by (simp_all add: ok_row_def)

lemma register_revision_commit_step:
  assumes "register_revision_commit E c body ch hash app_id compose init d = Ok (resp, d')"
    and one: "(compose = None) \<noteq> (init = None)"
  shows "db_step E (k_org_id (chain_key ch)) d d'"
proof (cases "load_revision d hash")
  case (Some e)
  with assms(1) show ?thesis by (simp add: register_revision_commit_def result_simps Let_def db_step.stay)
next
  case None
  with assms(1) have f: "\<not> list_ex (\<lambda>r. rv_app_id r = app_id \<and> rv_org_id r \<noteq> k_org_id (chain_key ch)) (db_revisions d)"
      "has_key d (k_id (chain_key ch))"
    and d': "d' = audited E ch ''revision.register'' (''revision:'' @ compose_hash_show hash)
      (jobj [(''app_id'', JString (uuid_show E app_id))]) (d\<lparr> db_revisions := db_revisions d @
        [\<lparr> rv_app_id = app_id, rv_org_id = k_org_id (chain_key ch), rv_compose = compose, rv_init_data = init,
    rv_created_by_key = k_id (chain_key ch), rv_signature = signature_object_json E (sb_signature body),
    rv_created_at = c_db_now c, rv_revoked_at = None, rv_compose_hash = hash \<rparr>] \<rparr>)"
    by (simp_all add: register_revision_commit_def result_simps Let_def)
  show ?thesis unfolding d' audited_def
    by (rule db_step.add_revision) (use None f one in \<open>auto simp: list_ex_iff\<close>)
qed

lemma revoke_revision_commit_step:
  assumes "revoke_revision_commit E c ch hash d = Ok (resp, d')"
  shows "db_step E (k_org_id (chain_key ch)) d d'"
proof -
  from assms obtain r where r: "load_revision d hash = Some r" "rv_org_id r = k_org_id (chain_key ch)"
    by (auto simp: revoke_revision_commit_def result_simps split: option.split_asm if_split_asm)
  show ?thesis
  proof (cases "rv_revoked_at r")
    case None
    with assms r have d': "d' = audited E ch ''revision.revoke'' (''revision:'' @ compose_hash_show hash) (jobj [])
                 (d\<lparr> db_revisions := map (\<lambda>r. if rv_compose_hash r = hash
                      then r\<lparr> rv_revoked_at := Some (c_db_now c) \<rparr> else r) (db_revisions d) \<rparr>)"
      by (simp add: revoke_revision_commit_def)
    show ?thesis unfolding d' audited_def by (rule db_step.end_revision) (use r None in simp_all)
  qed (use assms r in \<open>simp add: revoke_revision_commit_def db_step.stay\<close>)
qed

lemma revoke_key_commit_step:
  assumes "revoke_key_commit E c ch key_id reason d = Ok (resp, d')"
  shows "db_step E (k_org_id (chain_key ch)) d d'"
proof -
  from assms obtain k where k: "load_key (db_keys d) key_id = Some k" "k_org_id k = k_org_id (chain_key ch)"
    by (auto simp: revoke_key_commit_def result_simps split: option.split_asm if_split_asm)
  have i: "k_id k = key_id" using k(1) by (auto simp: load_key_def find_Some_iff key_row.truncate_def)
  show ?thesis
  proof (cases "k_revoked_at k = None \<or> k_revocation_reason k = None")
    case True
    with assms k i have d': "d' = audited E ch ''key.revoke'' (''key:'' @ uuid_show E key_id) (jobj [(''reason'', JString reason)])
                 (d\<lparr> db_keys := map (\<lambda>r. if k_id r = key_id
                      then r\<lparr> k_revoked_at := Some (c_db_now c), k_revocation_reason := Some reason \<rparr> else r)
                      (db_keys d) \<rparr>)"
      by (cases "k_revoked_at k"; cases "k_revocation_reason k") (simp_all add: revoke_key_commit_def)
    show ?thesis unfolding d' audited_def by (rule db_step.end_key) (use k True in simp_all)
  qed (use assms k in \<open>auto simp: revoke_key_commit_def db_step.stay\<close>)
qed

lemma put_commit_step:
  assumes "put_commit E keys c name b k d = Ok (resp, d')"
  shows "db_step E (k_org_id (chain_key (pc_chain k))) d d'
    \<and> (\<forall>r. find_secret d (k_org_id (chain_key (pc_chain k))) name = Some r \<longrightarrow> se_issued_at r < pc_at k)"
proof -
  let ?org = "k_org_id (chain_key (pc_chain k))"
  from assms obtain i okey aad ct where
    i: "(case find_secret d ?org name of None \<Rightarrow> Ok (c_mint c)
        | Some row \<Rightarrow> if se_issued_at row \<ge> pc_at k then Err (ApiError ''already_exists'') else Ok (se_id row)) = Ok i"
    and h: "has_key d (k_id (chain_key (pc_chain k)))" "find_secret d ?org name = None \<longrightarrow> i \<notin> se_id ` set (db_secrets d)"
    and d': "d' = audited E (pc_chain k) ''secret.put'' (''secret:'' @ name)
       (jobj [(''app_ids'', JArray (map (\<lambda>a. JString (uuid_show E a)) (sp_app_ids (pc_payload k))))])
       (d\<lparr> db_secrets := upsert_secret \<lparr> se_id = i, se_org_id = ?org, se_name = name,
          se_app_ids = sp_app_ids (pc_payload k), se_ciphertext = ct,
          se_content_sha256 = pc_content k, se_document = pb_payload b, se_signed_by_key = k_id (chain_key (pc_chain k)),
          se_signature = signature_object_json E (pb_signature b), se_issued_at = timestamptz E (pc_at k),
          se_deleted_at = None \<rparr> (db_secrets d) \<rparr>)"
    unfolding put_commit_def Let_def by (auto simp: result_simps)
  have n: "\<forall>r. find_secret d ?org name = Some r \<longrightarrow> se_issued_at r < pc_at k"
    using i by (auto split: if_split_asm)
  show ?thesis unfolding d' audited_def
    by (rule conjI [OF _ n], rule db_step.write_secret [where at = "pc_at k"]) (use h n in simp_all)
qed

lemma upsert_secret_map:
  assumes "find_secret d (se_org_id s) (se_name s) = Some r"
  shows "upsert_secret s (db_secrets d) =
    map (\<lambda>r. if se_org_id r = se_org_id s \<and> se_name r = se_name s then s\<lparr> se_id := se_id r \<rparr> else r) (db_secrets d)"
proof -
  from assms have "list_ex (\<lambda>r. se_org_id r = se_org_id s \<and> se_name r = se_name s) (db_secrets d)"
    by (auto simp: find_secret_def find_Some_iff list_ex_length)
  then show ?thesis by (simp add: upsert_secret_def)
qed

lemma delete_commit_step:
  assumes "delete_commit E c name body at ch d = Ok (resp, d')"
  shows "db_step E (k_org_id (chain_key ch)) d d'"
proof -
  let ?org = "k_org_id (chain_key ch)"
  from assms obtain row where row: "find_secret d ?org name = Some row"
    by (auto simp: delete_commit_def Let_def result_simps)
  show ?thesis
  proof (cases "se_deleted_at row \<noteq> None \<and> se_document row = sb_payload body")
    case True
    with assms row show ?thesis by (auto simp: delete_commit_def Let_def db_step.stay)
  next
    case False
    let ?s = "\<lparr> se_id = se_id row, se_org_id = ?org, se_name = name, se_app_ids = [], se_ciphertext = [],
      se_content_sha256 = [], se_document = sb_payload body, se_signed_by_key = k_id (chain_key ch),
      se_signature = signature_object_json E (sb_signature body), se_issued_at = timestamptz E at,
      se_deleted_at = Some (c_db_now c) \<rparr>"
    let ?m = "map (\<lambda>r. if se_org_id r = ?org \<and> se_name r = name
                     then r\<lparr> se_app_ids := [], se_ciphertext := [], se_content_sha256 := [],
                            se_document := sb_payload body, se_signed_by_key := k_id (chain_key ch),
                            se_signature := signature_object_json E (sb_signature body),
                            se_issued_at := timestamptz E at, se_deleted_at := Some (c_db_now c) \<rparr>
                     else r) (db_secrets d)"
    from assms row False have h: "se_issued_at row < at" "has_key d (k_id (chain_key ch))"
      and d': "d' = audited E ch ''secret.delete'' (''secret:'' @ name) (jobj []) (d\<lparr> db_secrets := ?m \<rparr>)"
      by (auto simp: delete_commit_def Let_def result_simps split: if_split_asm)
    have m: "?m = upsert_secret ?s (db_secrets d)" using row
      by (subst upsert_secret_map [where r = row]) (auto intro!: map_cong secret.equality)
    show ?thesis unfolding d' audited_def m
      by (rule db_step.write_secret [where at = at]) (use row h in simp_all)
  qed
qed

lemma insert_key_Ok:
  "insert_key row d = Ok d1 \<longleftrightarrow> \<not> key_conflict row d \<and> (\<forall>p. k_registered_by_key row = Some p \<longrightarrow> has_key d p)
     \<and> d1 = d\<lparr> db_keys := db_keys d @ [row] \<rparr>"
  by (auto simp: insert_key_def result_simps split: option.splits)

text \<open>
  What a request carries: the signed payload with its signature, the context of its route, and the
  time the signer's chain has to stand at.
\<close>

definition signed_part :: "'x ext_scheme \<Rightarrow> control_request \<Rightarrow> signed_body option" where
  "signed_part E r = (case r of
     RegisterRevision bs \<Rightarrow> map_option fst (to_option (body_from_request E (signed_body_de E) bs))
   | RevokeRevision h bs \<Rightarrow> map_option fst (to_option (body_from_request E (signed_body_de E) bs))
   | PutSecret n bs \<Rightarrow> map_option (\<lambda>(b, _). \<lparr> sb_payload = pb_payload b, sb_signature = pb_signature b \<rparr>)
       (to_option (body_from_request E (put_body_de E) bs))
   | DeleteSecret n bs \<Rightarrow> map_option fst (to_option (body_from_request E (signed_body_de E) bs))
   | RegisterKey bs \<Rightarrow> map_option fst (to_option (body_from_request E (signed_body_de E) bs))
   | RevokeKey i bs \<Rightarrow> map_option fst (to_option (body_from_request E (signed_body_de E) bs)))"

definition asked_context :: "control_request \<Rightarrow> string" where
  "asked_context r = (case r of RegisterRevision bs \<Rightarrow> REVISION | PutSecret n bs \<Rightarrow> SECRET
     | RegisterKey bs \<Rightarrow> PRINCIPAL_KEY | _ \<Rightarrow> CONTROL)"

definition asked_at :: "'x ext_scheme \<Rightarrow> call \<Rightarrow> control_request \<Rightarrow> json \<Rightarrow> time option" where
  "asked_at E c r payload = (case r of
     RegisterRevision bs \<Rightarrow> Some (c_now c)
   | RevokeRevision h bs \<Rightarrow> map_option snd (revoke_revision_payload_de E payload)
   | PutSecret n bs \<Rightarrow> map_option sp_issued_at (secret_payload_de E payload)
   | DeleteSecret n bs \<Rightarrow> map_option snd (delete_secret_payload_de E payload)
   | RegisterKey bs \<Rightarrow> map_option kp_issued_at (key_payload_de E payload)
   | RevokeKey i bs \<Rightarrow> map_option (\<lambda>(_, _, t). t) (revoke_key_payload_de E payload))"

text \<open>The payload is signed, in this context, by a key of the organization that is not revoked and chains to its anchor.\<close>

definition signed_as :: "'x ext_scheme \<Rightarrow> node \<Rightarrow> intermediates \<Rightarrow> call \<Rightarrow> string \<Rightarrow> signed_body \<Rightarrow> time \<Rightarrow> uuid \<Rightarrow> bool" where
  "signed_as E nd keys c ctx body at org \<longleftrightarrow> (\<exists>i k ls digest.
     so_key_id (sb_signature body) = Some i \<and> load_key (db_keys (c_snap c)) i = Some k \<and> k_org_id k = org
     \<and> k_revoked_at k = None
     \<and> chains E (db_keys (c_snap c)) (im_tenant_kek_root keys) (signer_of nd) org None at (k # ls)
     \<and> signing_digest E ctx (sb_payload body) = Some digest
     \<and> verify_signature E (k_public_key k) digest (sb_signature body) (signer_of nd) = Ok ())"

text \<open>
  Whose request it is: the organization of a key that signed its payload for its route, at a time
  within five minutes, or the one that a root key claims for itself.
\<close>

definition authorized :: "'x ext_scheme \<Rightarrow> node \<Rightarrow> call \<Rightarrow> control_request \<Rightarrow> uuid \<Rightarrow> bool" where
  "authorized E nd c r org \<longleftrightarrow> (\<exists>keys body. intermediates_of nd = Ok keys \<and> signed_part E r = Some body
     \<and> ((\<exists>at. asked_at E c r (sb_payload body) = Some at \<and> \<bar>at - c_now c\<bar> \<le> 300 * 1000000000
           \<and> signed_as E nd keys c (asked_context r) body at org)
        \<or> (\<exists>bs p spki digest. r = RegisterKey bs \<and> so_key_id (sb_signature body) = None
             \<and> root_key_payload_de E (sb_payload body) = Some p \<and> kp_org_id p = org
             \<and> \<bar>kp_issued_at p - c_now c\<bar> \<le> 300 * 1000000000
             \<and> registered_spki E (kp_public_key p) = Ok spki
             \<and> signing_digest E ORG_ROOT_KEY (sb_payload body) = Some digest
             \<and> verify_signature E spki digest (sb_signature body) (signer_of nd) = Ok ())))"

text \<open>What the payload of a request asks for, done or already so; the tables it does not name stay.\<close>

definition performed :: "'x ext_scheme \<Rightarrow> node \<Rightarrow> control_request \<Rightarrow> json \<Rightarrow> uuid \<Rightarrow> db \<Rightarrow> db \<Rightarrow> bool" where
  "performed E nd r payload org d d' = (case r of
     RegisterRevision bs \<Rightarrow> db_keys d' = db_keys d \<and> db_secrets d' = db_secrets d
       \<and> (\<exists>hash app compose init. revision_payload E payload (nd_platform nd) = Ok (hash, app, compose, init)
            \<and> (db_revisions d' = db_revisions d \<and> (\<exists>e \<in> set (db_revisions d). rv_compose_hash e = hash \<and> rv_org_id e = org)
               \<or> (\<exists>row. db_revisions d' = db_revisions d @ [row] \<and> rv_compose_hash row = hash \<and> rv_app_id row = app
                    \<and> rv_org_id row = org \<and> rv_compose row = compose \<and> rv_init_data row = init \<and> rv_revoked_at row = None)))
   | RevokeRevision h bs \<Rightarrow> db_keys d' = db_keys d \<and> db_secrets d' = db_secrets d
       \<and> (\<exists>hash at t. revoke_revision_payload_de E payload = Some (hash, at) \<and> h = compose_hash_show hash
            \<and> (db_revisions d' = db_revisions d
               \<or> db_revisions d' = map (\<lambda>e. if rv_compose_hash e = hash then e\<lparr> rv_revoked_at := Some t \<rparr> else e) (db_revisions d))
            \<and> (\<exists>e \<in> set (db_revisions d'). rv_compose_hash e = hash \<and> rv_org_id e = org \<and> rv_revoked_at e \<noteq> None))
   | PutSecret n bs \<Rightarrow> db_keys d' = db_keys d \<and> db_revisions d' = db_revisions d
       \<and> (\<exists>p row. secret_payload_de E payload = Some p \<and> sp_name p = n
            \<and> db_secrets d' = upsert_secret row (db_secrets d) \<and> se_org_id row = org \<and> se_name row = n
            \<and> se_app_ids row = sp_app_ids p \<and> se_document row = payload \<and> se_deleted_at row = None)
   | DeleteSecret n bs \<Rightarrow> db_keys d' = db_keys d \<and> db_revisions d' = db_revisions d
       \<and> (\<exists>at. delete_secret_payload_de E payload = Some (n, at))
       \<and> (db_secrets d' = db_secrets d
          \<or> (\<exists>i sg at t. db_secrets d' = map (\<lambda>e. if se_org_id e = org \<and> se_name e = n
               then e\<lparr> se_app_ids := [], se_ciphertext := [], se_content_sha256 := [], se_document := payload,
                       se_signed_by_key := i, se_signature := sg, se_issued_at := at, se_deleted_at := Some t \<rparr>
               else e) (db_secrets d)))
       \<and> (\<exists>e \<in> set (db_secrets d'). se_org_id e = org \<and> se_name e = n \<and> se_deleted_at e \<noteq> None \<and> se_document e = payload)
   | RegisterKey bs \<Rightarrow> db_revisions d' = db_revisions d \<and> db_secrets d' = db_secrets d
       \<and> (\<exists>p :: key_payload. (key_payload_de E payload = Some p
              \<or> map_option key_payload.truncate (root_key_payload_de E payload) = Some p)
            \<and> (db_keys d' = db_keys d \<and> (\<exists>e \<in> set (db_keys d). k_org_id e = org \<and> registered_spki E (kp_public_key p) = Ok (k_public_key e))
               \<or> (\<exists>row. db_keys d' = db_keys d @ [row] \<and> k_org_id row = org \<and> k_document row = payload
                    \<and> k_principal_id row = kp_principal_id p \<and> registered_spki E (kp_public_key p) = Ok (k_public_key row)
                    \<and> k_revoked_at row = None)))
   | RevokeKey i bs \<Rightarrow> db_revisions d' = db_revisions d \<and> db_secrets d' = db_secrets d
       \<and> (\<exists>key_id reason at t. revoke_key_payload_de E payload = Some (key_id, reason, at) \<and> i = uuid_show E key_id
            \<and> reason \<in> {''retired'', ''compromised''}
            \<and> (db_keys d' = db_keys d
               \<or> db_keys d' = map (\<lambda>e. if k_id e = key_id
                    then e\<lparr> k_revoked_at := Some t, k_revocation_reason := Some reason \<rparr> else e) (db_keys d))
            \<and> (\<exists>e \<in> set (db_keys d'). k_id e = key_id \<and> k_org_id e = org \<and> k_revoked_at e \<noteq> None)))"

definition granted :: "'x ext_scheme \<Rightarrow> node \<Rightarrow> call \<Rightarrow> control_request \<Rightarrow> db \<Rightarrow> db \<Rightarrow> bool" where
  "granted E nd c r d d' \<longleftrightarrow> (\<exists>org body. signed_part E r = Some body \<and> authorized E nd c r org
     \<and> db_step E org d d' \<and> performed E nd r (sb_payload body) org d d')"

lemma authorize_signed_by:
  assumes "authorize E nd keys c ctx body at = Ok ch"
  shows "signed_as E nd keys c ctx body at (k_org_id (chain_key ch))"
proof -
  from assms have v: "verify_signed E (db_keys (c_snap c)) (im_tenant_kek_root keys) (sb_signature body) ctx
      (sb_payload body) at (signer_of nd) = Ok ch" and "k_revoked_at (chain_key ch) = None"
    by (auto simp: authorize_def result_simps)
  with verify_signed_chain [OF v] show ?thesis unfolding signed_as_def by blast
qed

lemma within_window_Ok: "within_window at now = Ok t \<longleftrightarrow> t = at \<and> \<bar>at - now\<bar> \<le> 300 * 1000000000"
  by (auto simp: within_window_def result_simps ISSUED_AT_WINDOW_def)

lemma grantedI:
  assumes "intermediates_of nd = Ok keys" and "signed_part E r = Some body"
    and "asked_at E c r (sb_payload body) = Some at" and "\<bar>at - c_now c\<bar> \<le> 300 * 1000000000"
    and "authorize E nd keys c (asked_context r) body at = Ok ch"
    and "db_step E (k_org_id (chain_key ch)) d d'" and "performed E nd r (sb_payload body) (k_org_id (chain_key ch)) d d'"
  shows "granted E nd c r d d'"
  using assms authorize_signed_by [OF assms(5)] unfolding granted_def authorized_def by blast

lemma load_key_mem: "load_key rows i = Some k \<Longrightarrow> \<exists>e \<in> set rows. k_id e = i \<and> k = key_row.truncate e"
  by (auto simp: load_key_def find_Some_iff)

lemma load_revision_mem:
  "load_revision d h = Some r \<Longrightarrow> \<exists>e \<in> set (db_revisions d). rv_compose_hash e = h \<and> r = revision_row.truncate e"
  by (auto simp: load_revision_def find_Some_iff)

lemma bex_mapI: "e \<in> set xs \<Longrightarrow> P (f e) \<Longrightarrow> \<exists>x \<in> set (map f xs). P x"
  by auto

lemma audited_simps [simp]:
  "db_keys (audited E ch action object details d) = db_keys d"
  "db_revisions (audited E ch action object details d) = db_revisions d"
  "db_secrets (audited E ch action object details d) = db_secrets d"
  by (simp_all add: audited_def audit_insert_def)

lemma register_revision_performed:
  assumes "register_revision_commit E c body ch hash app_id compose init d = Ok (resp, d')"
    and "revision_payload E payload (nd_platform nd) = Ok (hash, app_id, compose, init)"
  shows "performed E nd (RegisterRevision bs) payload (k_org_id (chain_key ch)) d d'"
proof (cases "load_revision d hash")
  case None
  with assms show ?thesis by (auto simp: performed_def register_revision_commit_def result_simps Let_def)
next
  case (Some r)
  with assms(1) have "d' = d" "rv_org_id r = k_org_id (chain_key ch)"
    by (auto simp: register_revision_commit_def result_simps Let_def)
  with load_revision_mem [OF Some] assms(2) show ?thesis
    by (auto simp: performed_def revision_row.truncate_def)
qed

lemma revoke_revision_performed:
  assumes "revoke_revision_commit E c ch hash d = Ok (resp, d')"
    and "revoke_revision_payload_de E payload = Some (hash, at)"
  shows "performed E nd (RevokeRevision (compose_hash_show hash) bs) payload (k_org_id (chain_key ch)) d d'"
proof -
  from assms obtain r where r: "load_revision d hash = Some r" "rv_org_id r = k_org_id (chain_key ch)"
    by (auto simp: revoke_revision_commit_def result_simps split: option.split_asm if_split_asm)
  from load_revision_mem [OF r(1)] obtain e where e: "e \<in> set (db_revisions d)" "rv_compose_hash e = hash"
    "r = revision_row.truncate e" by blast
  have "db_keys d' = db_keys d" "db_secrets d' = db_secrets d"
    "db_revisions d' = db_revisions d \<and> rv_revoked_at e \<noteq> None
     \<or> db_revisions d' = map (\<lambda>e. if rv_compose_hash e = hash then e\<lparr> rv_revoked_at := Some (c_db_now c) \<rparr> else e) (db_revisions d)"
    using assms(1) r e(3) by (auto simp: revoke_revision_commit_def revision_row.truncate_def split: option.split_asm)
  moreover from this have "\<exists>x \<in> set (db_revisions d'). rv_compose_hash x = hash \<and> rv_org_id x = k_org_id (chain_key ch)
      \<and> rv_revoked_at x \<noteq> None"
    using e r(2) by (elim disjE conjE) (auto simp: revision_row.truncate_def intro!: bex_mapI simp del: set_map)
  ultimately show ?thesis using assms(2) by (auto simp: performed_def)
qed

lemma put_secret_performed:
  assumes "put_commit E keys c name b k d = Ok (resp, d')" and "secret_payload_de E (pb_payload b) = Some (pc_payload k)"
    and "sp_name (pc_payload k) = name"
  shows "performed E nd (PutSecret name bs) (pb_payload b) (k_org_id (chain_key (pc_chain k))) d d'"
  using assms by (auto simp: performed_def put_commit_def result_simps Let_def)

lemma delete_secret_performed:
  assumes "delete_commit E c name body at ch d = Ok (resp, d')"
    and "delete_secret_payload_de E (sb_payload body) = Some (name, issued)"
  shows "performed E nd (DeleteSecret name bs) (sb_payload body) (k_org_id (chain_key ch)) d d'"
proof -
  from assms(1) obtain row where row: "find_secret d (k_org_id (chain_key ch)) name = Some row"
    by (auto simp: delete_commit_def Let_def result_simps)
  then have m: "row \<in> set (db_secrets d)" "se_org_id row = k_org_id (chain_key ch)" "se_name row = name"
    by (auto simp: find_secret_def find_Some_iff)
  show ?thesis
  proof (cases "se_deleted_at row \<noteq> None \<and> se_document row = sb_payload body")
    case True
    with assms row m show ?thesis by (auto simp: performed_def delete_commit_def Let_def)
  next
    case False
    with assms(1) row have k: "db_keys d' = db_keys d" "db_revisions d' = db_revisions d"
      and s: "db_secrets d' = map (\<lambda>e. if se_org_id e = k_org_id (chain_key ch) \<and> se_name e = name
               then e\<lparr> se_app_ids := [], se_ciphertext := [], se_content_sha256 := [], se_document := sb_payload body,
                       se_signed_by_key := k_id (chain_key ch), se_signature := signature_object_json E (sb_signature body),
                       se_issued_at := timestamptz E at, se_deleted_at := Some (c_db_now c) \<rparr>
               else e) (db_secrets d)"
      by (auto simp: delete_commit_def Let_def result_simps split: if_split_asm)
    have "\<exists>e \<in> set (db_secrets d'). se_org_id e = k_org_id (chain_key ch) \<and> se_name e = name
        \<and> se_deleted_at e \<noteq> None \<and> se_document e = sb_payload body"
      unfolding s by (rule bex_mapI [OF m(1)]) (use m in simp)
    with k s assms(2) show ?thesis by (auto simp: performed_def)
  qed
qed

lemma revoke_key_performed:
  assumes "revoke_key_commit E c ch key_id reason d = Ok (resp, d')"
    and "revoke_key_payload_de E payload = Some (key_id, reason, at)" and "reason \<in> set [''retired'', ''compromised'']"
  shows "performed E nd (RevokeKey (uuid_show E key_id) bs) payload (k_org_id (chain_key ch)) d d'"
proof -
  from assms obtain k where k: "load_key (db_keys d) key_id = Some k" "k_org_id k = k_org_id (chain_key ch)"
    by (auto simp: revoke_key_commit_def result_simps split: option.split_asm if_split_asm)
  from load_key_mem [OF k(1)] obtain e where e: "e \<in> set (db_keys d)" "k_id e = key_id" "k = key_row.truncate e" by blast
  have "db_revisions d' = db_revisions d" "db_secrets d' = db_secrets d"
    "db_keys d' = db_keys d \<and> k_revoked_at e \<noteq> None
     \<or> db_keys d' = map (\<lambda>e. if k_id e = key_id
          then e\<lparr> k_revoked_at := Some (c_db_now c), k_revocation_reason := Some reason \<rparr> else e) (db_keys d)"
    using assms(1) k e by (auto simp: revoke_key_commit_def key_row.truncate_def split: option.split_asm)
  moreover from this have "\<exists>x \<in> set (db_keys d'). k_id x = key_id \<and> k_org_id x = k_org_id (chain_key ch) \<and> k_revoked_at x \<noteq> None"
    using e k(2) by (elim disjE conjE) (auto simp: key_row.truncate_def intro!: bex_mapI simp del: set_map)
  ultimately show ?thesis using assms(2,3) by (auto simp: performed_def)
qed

lemma register_endorsed_key_granted:
  assumes "register_endorsed_key E nd keys c body d = Ok (resp, d')" and "intermediates_of nd = Ok keys"
    and "signed_part E (RegisterKey bs) = Some body"
  shows "granted E nd c (RegisterKey bs) d d'"
proof -
  from assms(1) obtain p spki at ch where p: "key_payload_de E (sb_payload body) = Some p" "registered_spki E (kp_public_key p) = Ok spki"
    and w: "within_window (kp_issued_at p) (c_now c) = Ok at"
    and a: "authorize E nd keys c PRINCIPAL_KEY body at = Ok ch"
    and r: "\<exists>d1. insert_key \<lparr> k_id = c_mint c, k_org_id = k_org_id (chain_key ch), k_public_key = spki,
         k_document = sb_payload body, k_signature = signature_object_json E (sb_signature body),
         k_registered_by_key = Some (k_id (chain_key ch)), k_anchor_check = None, k_revoked_at = None,
         k_revocation_reason = None, k_principal_id = kp_principal_id p, k_created_at = c_db_now c \<rparr> d = Ok d1
       \<and> d' = audited E ch ''key.register'' (''key:'' @ uuid_show E (c_mint c))
           (jobj [(''principal_id'', JString (uuid_show E (kp_principal_id p)))]) d1"
    unfolding register_endorsed_key_def by (auto simp: result_simps)
  have "db_step E (k_org_id (chain_key ch)) d d'"
    using r by (auto simp: insert_key_Ok audited_def intro!: db_step.add_key)
  moreover have "performed E nd (RegisterKey bs) (sb_payload body) (k_org_id (chain_key ch)) d d'"
    using r p by (auto simp: performed_def insert_key_Ok)
  ultimately show ?thesis using p(1) w a assms(2,3)
    by (intro grantedI [where keys = keys and body = body and at = at and ch = ch])
      (auto simp: asked_at_def asked_context_def within_window_Ok)
qed

lemma register_root_key_granted:
  assumes "register_root_key E nd keys c body d = Ok (resp, d')" and "intermediates_of nd = Ok keys"
    and "signed_part E (RegisterKey bs) = Some body" and "so_key_id (sb_signature body) = None"
  shows "granted E nd c (RegisterKey bs) d d'"
proof -
  from assms(1) obtain p spki digest where p: "root_key_payload_de E (sb_payload body) = Some p"
    "registered_spki E (kp_public_key p) = Ok spki" "\<bar>kp_issued_at p - c_now c\<bar> \<le> 300 * 1000000000"
    "signing_digest E ORG_ROOT_KEY (sb_payload body) = Some digest"
    "verify_signature E spki digest (sb_signature body) (signer_of nd) = Ok ()"
    by (auto simp: register_root_key_def result_simps within_window_Ok)
  have "db_step E (kp_org_id p) d d' \<and> performed E nd (RegisterKey bs) (sb_payload body) (kp_org_id p) d d'"
  proof (cases "find (\<lambda>r. k_org_id r = kp_org_id p \<and> k_registered_by_key r = None) (db_keys d)")
    case None
    let ?row = "\<lambda>chk. \<lparr> k_id = c_mint c, k_org_id = kp_org_id p, k_public_key = spki,
              k_document = sb_payload body, k_signature = signature_object_json E (sb_signature body),
              k_registered_by_key = None, k_anchor_check = Some chk, k_revoked_at = None,
              k_revocation_reason = None, k_principal_id = kp_principal_id p, k_created_at = c_db_now c \<rparr>"
    let ?a = "\<lparr> au_actor_kind = ''principal'', au_actor = uuid_show E (c_mint c), au_action = ''key.register'',
                au_org_id = Some (kp_org_id p), au_object = Some (''key:'' @ uuid_show E (c_mint c)), au_outcome = ''ok'',
                au_details = Details (jobj [(''principal_id'', JString (uuid_show E (kp_principal_id p))),
                  (''root'', JBool True)]), au_evidence_sha256 = None \<rparr>"
    from None assms(1) p obtain chk where d': "d' = audit_insert ?a (d\<lparr> db_keys := db_keys d @ [?row chk] \<rparr>)"
      and n: "\<not> key_conflict (?row chk) d"
      unfolding register_root_key_def by (auto simp: result_simps insert_key_Ok Let_def)
    have "db_step E (kp_org_id p) d d'" unfolding d' by (rule db_step.add_key) (use n in simp_all)
    with p show ?thesis unfolding d' by (auto simp: performed_def audit_insert_def key_payload.truncate_def)
  next
    case (Some e)
    then have "e \<in> set (db_keys d)" "k_org_id e = kp_org_id p" by (auto simp: find_Some_iff)
    moreover from assms(1) p Some have "d' = d" "k_public_key e = spki"
      by (auto simp: register_root_key_def result_simps Let_def)
    moreover have "registered_spki E (kp_public_key (key_payload.truncate p)) = Ok spki"
      using p by (simp add: key_payload.truncate_def)
    ultimately show ?thesis using p(1) by (simp add: performed_def db_step.stay) (metis option.map(2))
  qed
  moreover have "authorized E nd c (RegisterKey bs) (kp_org_id p)"
    using p assms(2-4) unfolding authorized_def by blast
  ultimately show ?thesis using assms(3) unfolding granted_def by blast
qed

lemma register_revision_granted:
  assumes "register_revision_inner E nd c body d = Ok (resp, d')" and "signed_part E (RegisterRevision bs) = Some body"
  shows "granted E nd c (RegisterRevision bs) d d'"
proof -
  from assms(1) obtain keys hash app_id compose init ch where k: "intermediates_of nd = Ok keys"
    and p: "revision_payload E (sb_payload body) (nd_platform nd) = Ok (hash, app_id, compose, init)"
    and a: "authorize E nd keys c REVISION body (c_now c) = Ok ch"
    and r: "register_revision_commit E c body ch hash app_id compose init d = Ok (resp, d')"
    by (auto simp: register_revision_inner_def result_simps)
  have "(compose = None) \<noteq> (init = None)"
    using p by (auto simp: revision_payload_def result_simps split: if_split_asm)
  from grantedI [OF k assms(2) _ _ _ register_revision_commit_step [OF r this] register_revision_performed [OF r p]] a
  show ?thesis by (simp add: asked_at_def asked_context_def)
qed

lemma revoke_revision_granted:
  assumes "revoke_revision_inner E nd c h body d = Ok (resp, d')" and "signed_part E (RevokeRevision h bs) = Some body"
  shows "granted E nd c (RevokeRevision h bs) d d'"
proof -
  from assms(1) obtain keys hash at ch where k: "intermediates_of nd = Ok keys"
    and p: "revoke_revision_payload_de E (sb_payload body) = Some (hash, at)" "h = compose_hash_show hash"
    and w: "\<bar>at - c_now c\<bar> \<le> 300 * 1000000000" and a: "authorize E nd keys c CONTROL body at = Ok ch"
    and r: "revoke_revision_commit E c ch hash d = Ok (resp, d')"
    by (auto simp: revoke_revision_inner_def result_simps within_window_Ok)
  from grantedI [OF k assms(2) _ w _ revoke_revision_commit_step [OF r] revoke_revision_performed [OF r p(1), folded p(2)]] a p
  show ?thesis by (simp add: asked_at_def asked_context_def)
qed

lemma put_secret_checks_Ok:
  "put_checks E nd keys c name b request = Ok k \<Longrightarrow>
   secret_payload_de E (pb_payload b) = Some (pc_payload k) \<and> sp_name (pc_payload k) = name
   \<and> pc_at k = sp_issued_at (pc_payload k) \<and> \<bar>pc_at k - c_now c\<bar> \<le> 300 * 1000000000
   \<and> authorize E nd keys c SECRET \<lparr> sb_payload = pb_payload b, sb_signature = pb_signature b \<rparr> (pc_at k) = Ok (pc_chain k)"
  by (auto simp: put_checks_def result_simps within_window_Ok)

lemma put_secret_granted:
  assumes "put_secret_inner E nd c name b request d = Ok (resp, d')"
    and "signed_part E (PutSecret name bs) = Some \<lparr> sb_payload = pb_payload b, sb_signature = pb_signature b \<rparr>"
  shows "granted E nd c (PutSecret name bs) d d'"
proof -
  from assms(1) obtain keys k where k: "intermediates_of nd = Ok keys"
    and p: "put_checks E nd keys c name b request = Ok k" and r: "put_commit E keys c name b k d = Ok (resp, d')"
    by (auto simp: put_secret_inner_def result_simps)
  note q = put_secret_checks_Ok [OF p]
  have "performed E nd (PutSecret name bs) (pb_payload b) (k_org_id (chain_key (pc_chain k))) d d'"
    using put_secret_performed [OF r] q by blast
  then show ?thesis
    by (intro grantedI [OF k assms(2), where at = "pc_at k" and ch = "pc_chain k"])
      (use q put_commit_step [OF r] in \<open>auto simp: asked_at_def asked_context_def\<close>)
qed

lemma delete_secret_granted:
  assumes "delete_secret_inner E nd c name body d = Ok (resp, d')" and "signed_part E (DeleteSecret name bs) = Some body"
  shows "granted E nd c (DeleteSecret name bs) d d'"
proof -
  from assms(1) obtain keys at ch where k: "intermediates_of nd = Ok keys"
    and p: "delete_secret_payload_de E (sb_payload body) = Some (name, at)"
    and w: "\<bar>at - c_now c\<bar> \<le> 300 * 1000000000" and a: "authorize E nd keys c CONTROL body at = Ok ch"
    and r: "delete_commit E c name body at ch d = Ok (resp, d')"
    by (auto simp: delete_secret_inner_def result_simps within_window_Ok)
  from grantedI [OF k assms(2) _ w _ delete_commit_step [OF r] delete_secret_performed [OF r p]] a p
  show ?thesis by (simp add: asked_at_def asked_context_def)
qed

lemma register_key_granted:
  assumes "register_key_inner E nd c body d = Ok (resp, d')" and "signed_part E (RegisterKey bs) = Some body"
  shows "granted E nd c (RegisterKey bs) d d'"
proof -
  from assms(1) obtain keys where k: "intermediates_of nd = Ok keys" by (auto simp: register_key_inner_def result_simps)
  with assms register_root_key_granted [OF _ k assms(2)] register_endorsed_key_granted [OF _ k assms(2)] show ?thesis
    by (cases "so_key_id (sb_signature body)") (simp_all add: register_key_inner_def)
qed

lemma revoke_key_granted:
  assumes "revoke_key_inner E nd c i body d = Ok (resp, d')" and "signed_part E (RevokeKey i bs) = Some body"
  shows "granted E nd c (RevokeKey i bs) d d'"
proof -
  from assms(1) obtain keys key_id reason at ch where k: "intermediates_of nd = Ok keys"
    and p: "revoke_key_payload_de E (sb_payload body) = Some (key_id, reason, at)" "i = uuid_show E key_id"
      "reason \<in> set [''retired'', ''compromised'']"
    and w: "\<bar>at - c_now c\<bar> \<le> 300 * 1000000000" and a: "authorize E nd keys c CONTROL body at = Ok ch"
    and r: "revoke_key_commit E c ch key_id reason d = Ok (resp, d')"
    by (auto simp: revoke_key_inner_def result_simps within_window_Ok)
  from grantedI [OF k assms(2) _ w _ revoke_key_commit_step [OF r] revoke_key_performed [OF r p(1,3), folded p(2)]] a p
  show ?thesis by (simp add: asked_at_def asked_context_def)
qed

lemma audited_route_cases:
  assumes "\<And>resp d'. inner = Ok (resp, d') \<Longrightarrow> granted E nd c r d d'"
    and "audited_route E nd c key_id request action d inner = (res, d')"
  shows "granted E nd c r d d' \<or> (\<exists>a. au_outcome a \<noteq> ''ok'' \<and> d' = audit_insert a d)"
proof (cases inner)
  case (Err e)
  with assms(2) have "d' = denied E key_id action e d" by (simp add: audited_route_def)
  moreover obtain a where "denied E key_id action e d = audit_insert a d" "au_outcome a = outcome e"
    by (simp add: denied_def)
  ultimately show ?thesis by (metis outcome_not_ok)
qed (use assms in \<open>auto simp: audited_route_def\<close>)

lemma route_cases:
  assumes "(case body_from_request E de bs of
        Err e \<Rightarrow> (Err e, d)
      | Ok (body, request) \<Rightarrow> audited_route E nd c (kid body) request action d (inner body request)) = (res, d')"
    and "\<And>body request resp d'. body_from_request E de bs = Ok (body, request) \<Longrightarrow> inner body request = Ok (resp, d') \<Longrightarrow>
      granted E nd c r d d'"
  shows "granted E nd c r d d' \<or> (\<exists>a. au_outcome a \<noteq> ''ok'' \<and> d' = audit_insert a d) \<or> d' = d"
proof (cases "body_from_request E de bs")
  case (Ok x)
  obtain body request where x: "x = (body, request)" by (cases x)
  with Ok assms(1) have "audited_route E nd c (kid body) request action d (inner body request) = (res, d')" by simp
  from audited_route_cases [OF _ this] assms(2) Ok x show ?thesis by blast
qed (use assms(1) in simp)

lemma control_cases:
  assumes "control E nd c r d = (res, d')"
  shows "granted E nd c r d d' \<or> (\<exists>a. au_outcome a \<noteq> ''ok'' \<and> d' = audit_insert a d) \<or> d' = d"
proof (cases r)
  case (RegisterRevision bs)
  show ?thesis using assms unfolding RegisterRevision control.simps register_revision_def
    by (rule route_cases) (rule register_revision_granted, assumption, simp add: signed_part_def)
next
  case (RevokeRevision h bs)
  show ?thesis using assms unfolding RevokeRevision control.simps revoke_revision_def
    by (rule route_cases) (rule revoke_revision_granted, assumption, simp add: signed_part_def)
next
  case (PutSecret n bs)
  show ?thesis using assms unfolding PutSecret control.simps put_secret_def
    by (rule route_cases) (rule put_secret_granted, assumption, simp add: signed_part_def)
next
  case (DeleteSecret n bs)
  show ?thesis using assms unfolding DeleteSecret control.simps delete_secret_def
    by (rule route_cases) (rule delete_secret_granted, assumption, simp add: signed_part_def)
next
  case (RegisterKey bs)
  show ?thesis using assms unfolding RegisterKey control.simps register_key_def
    by (rule route_cases) (rule register_key_granted, assumption, simp add: signed_part_def)
next
  case (RevokeKey i bs)
  show ?thesis using assms unfolding RevokeKey control.simps revoke_key_def
    by (rule route_cases) (rule revoke_key_granted, assumption, simp add: signed_part_def)
qed

section \<open>The invariant of the tables\<close>

definition is_root :: "'a key_row_scheme \<Rightarrow> bool" where
  "is_root k \<longleftrightarrow> k_registered_by_key k = None"

definition registrant_in :: "uuid list \<Rightarrow> 'a key_row_scheme \<Rightarrow> bool" where
  "registrant_in ids k = (case k_registered_by_key k of None \<Rightarrow> True | Some p \<Rightarrow> p \<in> set ids)"

definition keys_ok :: "principal_key list \<Rightarrow> bool" where
  "keys_ok ks \<longleftrightarrow> distinct (map k_id ks) \<and> distinct (map k_public_key ks)
     \<and> distinct (map k_org_id (filter is_root ks))
     \<and> list_all (\<lambda>k. is_root k = (k_anchor_check k \<noteq> None)) ks
     \<and> list_all (registrant_in (map k_id ks)) ks"

definition apps_owned :: "revision list \<Rightarrow> bool" where
  "apps_owned rs \<longleftrightarrow> (\<forall>r \<in> set rs. \<forall>s \<in> set rs. rv_app_id r = rv_app_id s \<longrightarrow> rv_org_id r = rv_org_id s)"

definition revisions_ok :: "uuid set \<Rightarrow> revision list \<Rightarrow> bool" where
  "revisions_ok ids rs \<longleftrightarrow> distinct (map rv_compose_hash rs) \<and> apps_owned rs
     \<and> (\<forall>r \<in> set rs. (rv_compose r = None) \<noteq> (rv_init_data r = None) \<and> rv_created_by_key r \<in> ids)"

definition secret_slot :: "secret \<Rightarrow> uuid \<times> string" where
  "secret_slot s = (se_org_id s, se_name s)"

definition secrets_ok :: "'x ext_scheme \<Rightarrow> uuid set \<Rightarrow> secret list \<Rightarrow> bool" where
  "secrets_ok E ids ss \<longleftrightarrow> distinct (map se_id ss) \<and> distinct (map secret_slot ss)
     \<and> (\<forall>s \<in> set ss. timestamptz E (se_issued_at s) = se_issued_at s \<and> se_signed_by_key s \<in> ids)"

definition db_ok :: "'x ext_scheme \<Rightarrow> db \<Rightarrow> bool" where
  "db_ok E d \<longleftrightarrow> keys_ok (db_keys d) \<and> revisions_ok (k_id ` set (db_keys d)) (db_revisions d)
     \<and> secrets_ok E (k_id ` set (db_keys d)) (db_secrets d)"

lemma audit_insert_simps [simp]:
  "db_keys (audit_insert a d) = db_keys d" "db_revisions (audit_insert a d) = db_revisions d"
  "db_secrets (audit_insert a d) = db_secrets d" "db_audit (audit_insert a d) = db_audit d @ [a]"
  "has_key (audit_insert a d) i = has_key d i"
  by (simp_all add: audit_insert_def has_key_def)

lemma db_ok_audit [simp]: "db_ok E (audit_insert a d) = db_ok E d"
  by (simp add: db_ok_def)

lemma keys_ok_add:
  assumes "keys_ok (db_keys d)" and "\<not> key_conflict row d"
    and "\<forall>p. k_registered_by_key row = Some p \<longrightarrow> has_key d p"
    and "(k_registered_by_key row = None) = (k_anchor_check row \<noteq> None)"
  shows "keys_ok (db_keys d @ [row])"
proof -
  have n: "\<forall>k \<in> set (db_keys d). k_id k \<noteq> k_id row \<and> k_public_key k \<noteq> k_public_key row
      \<and> (is_root row \<longrightarrow> is_root k \<longrightarrow> k_org_id k \<noteq> k_org_id row)"
    using assms(2) unfolding key_conflict_def list_ex_iff is_root_def by blast
  have "registrant_in (map k_id (db_keys d @ [row])) k" if "registrant_in (map k_id (db_keys d)) k" for k :: principal_key
    using that by (auto simp: registrant_in_def split: option.splits)
  moreover have "registrant_in (map k_id (db_keys d @ [row])) row"
    using assms(3) by (auto simp: registrant_in_def has_key_def split: option.splits)
  moreover have "is_root row = (k_anchor_check row \<noteq> None)" using assms(4) by (simp add: is_root_def)
  ultimately show ?thesis using assms(1) n by (auto simp: keys_ok_def list_all_iff image_iff)
qed

lemma keys_ok_update:
  assumes "keys_ok ks" and "k_id \<circ> f = k_id" "k_public_key \<circ> f = k_public_key" "k_org_id \<circ> f = k_org_id"
    "k_registered_by_key \<circ> f = k_registered_by_key" "k_anchor_check \<circ> f = k_anchor_check"
  shows "keys_ok (map f ks)"
proof -
  have "is_root \<circ> f = is_root" "registrant_in ids \<circ> f = registrant_in ids" for ids
    using assms(5) by (simp_all add: fun_eq_iff is_root_def registrant_in_def)
  moreover from this have "(\<lambda>k. is_root k = (k_anchor_check k \<noteq> None)) \<circ> f = (\<lambda>k. is_root k = (k_anchor_check k \<noteq> None))"
    using assms(6) by (simp add: fun_eq_iff)
  ultimately show ?thesis using assms(1)
    unfolding keys_ok_def filter_map map_map list.pred_map assms(2-4) by simp
qed

lemma has_key_iff: "has_key d i \<longleftrightarrow> i \<in> k_id ` set (db_keys d)"
  by (auto simp: has_key_def)

lemma revisions_ok_mono: "revisions_ok ids rs \<Longrightarrow> ids \<subseteq> ids' \<Longrightarrow> revisions_ok ids' rs"
  unfolding revisions_ok_def by (simp add: subset_iff)

lemma secrets_ok_mono: "secrets_ok E ids ss \<Longrightarrow> ids \<subseteq> ids' \<Longrightarrow> secrets_ok E ids' ss"
  unfolding secrets_ok_def by (simp add: subset_iff)

lemma revisions_ok_add:
  assumes "revisions_ok ids rs" and "rv_compose_hash row \<notin> rv_compose_hash ` set rs"
    and "\<forall>r \<in> set rs. rv_app_id r = rv_app_id row \<longrightarrow> rv_org_id r = rv_org_id row"
    and "(rv_compose row = None) \<noteq> (rv_init_data row = None)" and "rv_created_by_key row \<in> ids"
  shows "revisions_ok ids (rs @ [row])"
proof -
  have "apps_owned (rs @ [row])"
    using assms(1,3) unfolding revisions_ok_def apps_owned_def set_append list.set by (metis UnE singletonD empty_iff insertE)
  moreover have "distinct (map rv_compose_hash (rs @ [row]))" using assms(1,2) by (simp add: revisions_ok_def)
  moreover have "\<forall>r \<in> set (rs @ [row]). (rv_compose r = None) \<noteq> (rv_init_data r = None) \<and> rv_created_by_key r \<in> ids"
    using assms(1,4,5) by (simp add: revisions_ok_def)
  ultimately show ?thesis unfolding revisions_ok_def by (intro conjI)
qed

lemma revisions_ok_update:
  assumes "revisions_ok ids rs" and "rv_compose_hash \<circ> f = rv_compose_hash" "rv_app_id \<circ> f = rv_app_id"
    "rv_org_id \<circ> f = rv_org_id" "rv_compose \<circ> f = rv_compose" "rv_init_data \<circ> f = rv_init_data"
    "rv_created_by_key \<circ> f = rv_created_by_key"
  shows "revisions_ok ids (map f rs)"
proof -
  have "rv_compose_hash (f r) = rv_compose_hash r \<and> rv_app_id (f r) = rv_app_id r \<and> rv_org_id (f r) = rv_org_id r
      \<and> rv_compose (f r) = rv_compose r \<and> rv_init_data (f r) = rv_init_data r
      \<and> rv_created_by_key (f r) = rv_created_by_key r" for r
    using assms(2-) by (simp only: o_def fun_eq_iff)
  with assms(1) show ?thesis unfolding revisions_ok_def apps_owned_def list.set_map ball_simps(9) map_map assms(2)
    by (simp only: simp_thms) blast
qed

lemma find_secret_None:
  "find_secret d org name = None \<longleftrightarrow> (org, name) \<notin> secret_slot ` set (db_secrets d)"
  by (auto simp: find_secret_def find_None_iff secret_slot_def)

lemma find_secret_Some:
  "find_secret d org name = Some s \<Longrightarrow> s \<in> set (db_secrets d) \<and> secret_slot s = (org, name)"
  by (auto simp: find_secret_def find_Some_iff secret_slot_def)

lemma find_secret_unique:
  assumes "secrets_ok E ids (db_secrets d)" and "s \<in> set (db_secrets d)"
  shows "find_secret d (se_org_id s) (se_name s) = Some s"
proof -
  have "find_secret d (se_org_id s) (se_name s) \<noteq> None"
    using assms(2) by (auto simp: find_secret_None secret_slot_def)
  then obtain r where r: "find_secret d (se_org_id s) (se_name s) = Some r" by blast
  have "inj_on secret_slot (set (db_secrets d))"
    using assms(1) by (simp add: secrets_ok_def distinct_map)
  moreover have "r \<in> set (db_secrets d)" "secret_slot r = secret_slot s"
    using find_secret_Some [OF r] by (simp_all add: secret_slot_def [of s])
  ultimately have "r = s" using assms(2) by (simp only: inj_on_eq_iff)
  with r show ?thesis by simp
qed

lemma upsert_secret_append:
  assumes "find_secret d (se_org_id s) (se_name s) = None"
  shows "upsert_secret s (db_secrets d) = db_secrets d @ [s]"
proof -
  from assms have "\<not> list_ex (\<lambda>r. se_org_id r = se_org_id s \<and> se_name r = se_name s) (db_secrets d)"
    by (auto simp: find_secret_None list_ex_iff secret_slot_def image_iff)
  then show ?thesis by (simp only: upsert_secret_def if_False)
qed

lemma upsert_secret_ok:
  assumes "timestamptz_law E" and ok: "secrets_ok E ids (db_secrets d)"
    and "find_secret d (se_org_id s) (se_name s) = None \<longrightarrow> se_id s \<notin> se_id ` set (db_secrets d)"
    and "se_issued_at s = timestamptz E at" and k: "se_signed_by_key s \<in> ids"
  shows "secrets_ok E ids (upsert_secret s (db_secrets d))"
proof -
  have t: "timestamptz E (se_issued_at s) = se_issued_at s"
    using assms(1,4) by (auto simp: timestamptz_law_def)
  show ?thesis
  proof (cases "find_secret d (se_org_id s) (se_name s)")
    case None
    then have "secret_slot s \<notin> secret_slot ` set (db_secrets d)"
      by (simp add: find_secret_None secret_slot_def [of s])
    with None assms(3) ok k t show ?thesis by (simp add: upsert_secret_append secrets_ok_def)
  next
    case (Some r)
    let ?g = "\<lambda>r. if se_org_id r = se_org_id s \<and> se_name r = se_name s then s\<lparr> se_id := se_id r \<rparr> else r"
    have "map se_id (map ?g (db_secrets d)) = map se_id (db_secrets d)"
      and "map secret_slot (map ?g (db_secrets d)) = map secret_slot (db_secrets d)"
      by (simp_all add: secret_slot_def)
    moreover have "\<forall>x \<in> set (map ?g (db_secrets d)). timestamptz E (se_issued_at x) = se_issued_at x \<and> se_signed_by_key x \<in> ids"
      using ok k t unfolding secrets_ok_def list.set_map ball_simps(9) by simp
    ultimately show ?thesis using ok unfolding secrets_ok_def upsert_secret_map [OF Some] by (simp only: simp_thms)
  qed
qed

lemma db_step_ok:
  assumes "db_step E org d d'" and "timestamptz_law E" and "db_ok E d"
  shows "db_ok E d'"
  using assms(1)
proof cases
  case (add_key row a)
  have "k_id ` set (db_keys d) \<subseteq> k_id ` set (db_keys d @ [row])" by auto
  with assms(3) keys_ok_add [OF _ add_key(2-4)] show ?thesis
    unfolding add_key(1) db_ok_audit by (auto simp: db_ok_def intro: revisions_ok_mono secrets_ok_mono)
next
  case (end_key i k a why t)
  let ?f = "\<lambda>r. if k_id r = i then r\<lparr> k_revoked_at := Some t, k_revocation_reason := Some why \<rparr> else r"
  have "k_id ` set (map ?f (db_keys d)) = k_id ` set (db_keys d)" unfolding list.set_map image_image by (intro image_cong) simp_all
  moreover have "keys_ok (map ?f (db_keys d))"
    using assms(3) by (intro keys_ok_update) (auto simp: db_ok_def fun_eq_iff)
  ultimately show ?thesis using assms(3) unfolding end_key(1) db_ok_audit by (simp add: db_ok_def)
next
  case (add_revision row a)
  have "rv_compose_hash row \<notin> rv_compose_hash ` set (db_revisions d)"
    using add_revision(2) by (auto simp: load_revision_def find_None_iff)
  with assms(3) add_revision show ?thesis unfolding add_revision(1) db_ok_audit
    by (simp add: db_ok_def revisions_ok_add has_key_iff)
next
  case (end_revision h r a t)
  have "revisions_ok (k_id ` set (db_keys d)) (map (\<lambda>r. if rv_compose_hash r = h
      then r\<lparr> rv_revoked_at := Some t \<rparr> else r) (db_revisions d))"
    by (rule revisions_ok_update) (use assms(3) in \<open>simp_all add: db_ok_def fun_eq_iff\<close>)
  with assms(3) show ?thesis unfolding end_revision(1) db_ok_audit by (simp add: db_ok_def)
next
  case (write_secret s at a)
  have "secrets_ok E (k_id ` set (db_keys d)) (upsert_secret s (db_secrets d))"
    by (rule upsert_secret_ok [OF assms(2)])
      (use assms(3) write_secret in \<open>simp_all add: db_ok_def has_key_iff\<close>)
  with assms(3) show ?thesis unfolding write_secret(1) db_ok_audit by (simp add: db_ok_def)
qed (use assms(3) in simp_all)

section \<open>What no call undoes\<close>

text \<open>
  Tables grow at the end and their rows only move one way: \<open>grows R\<close> compares two states of a table
  row by row.
\<close>

definition grows :: "('a \<Rightarrow> 'a \<Rightarrow> bool) \<Rightarrow> 'a list \<Rightarrow> 'a list \<Rightarrow> bool" where
  "grows R xs ys \<longleftrightarrow> list_all2 R xs (take (length xs) ys)"

lemma grows_refl: "(\<And>x. R x x) \<Longrightarrow> grows R xs xs"
  by (simp add: grows_def list_all2_refl)

lemma grows_length: "grows R xs ys \<Longrightarrow> length xs \<le> length ys"
  unfolding grows_def by (drule list_all2_lengthD) simp

lemma grows_trans:
  assumes "\<And>x y z. R x y \<Longrightarrow> R y z \<Longrightarrow> R x z" and "grows R xs ys" and "grows R ys zs"
  shows "grows R xs zs"
proof -
  have "list_all2 R (take (length xs) ys) (take (length xs) (take (length ys) zs))"
    using assms(3) unfolding grows_def by (rule list_all2_takeI)
  moreover have "take (length xs) (take (length ys) zs) = take (length xs) zs"
    using grows_length [OF assms(2)] by (simp add: min_absorb1)
  ultimately have "list_all2 R (take (length xs) ys) (take (length xs) zs)" by simp
  moreover have "list_all2 R xs (take (length xs) ys)" using assms(2) by (simp add: grows_def)
  ultimately show ?thesis unfolding grows_def by - (rule list_all2_trans, rule assms(1), assumption+)
qed

lemma grows_append: "(\<And>x. R x x) \<Longrightarrow> grows R xs (xs @ ys)"
  by (simp add: grows_def list_all2_refl)

lemma grows_map: "(\<And>x. x \<in> set xs \<Longrightarrow> R x (f x)) \<Longrightarrow> grows R xs (map f xs)"
  by (simp add: grows_def list_all2_map2 list.rel_refl_strong)

lemma grows_nth: "grows R xs ys \<Longrightarrow> i < length xs \<Longrightarrow> R (xs ! i) (ys ! i)"
  using list_all2_nthD [of R xs "take (length xs) ys" i] by (simp add: grows_def nth_take)

lemma grows_memE:
  assumes "grows R xs ys" and "x \<in> set xs"
  obtains y where "y \<in> set ys" and "R x y"
proof -
  from assms(2) obtain i where i: "i < length xs" "xs ! i = x" by (auto simp: in_set_conv_nth)
  with grows_nth [OF assms(1) i(1)] grows_length [OF assms(1)] show thesis by (intro that [of "ys ! i"]) simp_all
qed

lemma grows_final: "grows R xs ys \<Longrightarrow> x \<in> set xs \<Longrightarrow> (\<And>y. R x y \<Longrightarrow> y = x) \<Longrightarrow> x \<in> set ys"
  by (metis grows_memE)

definition key_le :: "principal_key \<Rightarrow> principal_key \<Rightarrow> bool" where
  "key_le k k' \<longleftrightarrow> k'\<lparr> k_revoked_at := k_revoked_at k, k_revocation_reason := k_revocation_reason k \<rparr> = k
     \<and> (k_revoked_at k \<noteq> None \<longrightarrow> k_revoked_at k' \<noteq> None)
     \<and> (k_revoked_at k \<noteq> None \<and> k_revocation_reason k \<noteq> None \<longrightarrow> k' = k)"

definition revision_le :: "revision \<Rightarrow> revision \<Rightarrow> bool" where
  "revision_le r r' \<longleftrightarrow> r'\<lparr> rv_revoked_at := rv_revoked_at r \<rparr> = r \<and> (rv_revoked_at r \<noteq> None \<longrightarrow> r' = r)"

definition secret_le :: "secret \<Rightarrow> secret \<Rightarrow> bool" where
  "secret_le s s' \<longleftrightarrow> se_id s' = se_id s \<and> secret_slot s' = secret_slot s \<and> se_issued_at s \<le> se_issued_at s'"

definition db_below :: "db \<Rightarrow> db \<Rightarrow> bool" where
  "db_below d d' \<longleftrightarrow> grows key_le (db_keys d) (db_keys d') \<and> grows revision_le (db_revisions d) (db_revisions d')
     \<and> grows secret_le (db_secrets d) (db_secrets d') \<and> grows (=) (db_audit d) (db_audit d')"

lemma row_le_refl [simp]: "key_le k k" "revision_le r r" "secret_le s s"
  by (simp_all add: key_le_def revision_le_def secret_le_def)

lemma key_le_trans: "key_le k l \<Longrightarrow> key_le l m \<Longrightarrow> key_le k m"
  unfolding key_le_def by (cases k; cases l; cases m) simp

lemma revision_le_trans: "revision_le k l \<Longrightarrow> revision_le l m \<Longrightarrow> revision_le k m"
  unfolding revision_le_def by (cases k; cases l; cases m) simp

lemma secret_le_trans: "secret_le k l \<Longrightarrow> secret_le l m \<Longrightarrow> secret_le k m"
  unfolding secret_le_def by simp

lemma db_below_refl: "db_below d d"
  by (simp add: db_below_def grows_refl)

lemma db_below_trans: "db_below d e \<Longrightarrow> db_below e f \<Longrightarrow> db_below d f"
  unfolding db_below_def
  by (elim conjE, intro conjI; rule grows_trans; (assumption | rule key_le_trans revision_le_trans secret_le_trans | simp)?)

lemma upsert_secret_grows:
  assumes "timestamptz_law E" and ok: "secrets_ok E ids (db_secrets d)"
    and newer: "\<forall>r. find_secret d (se_org_id s) (se_name s) = Some r \<longrightarrow> se_issued_at r < at"
    and "se_issued_at s = timestamptz E at"
  shows "grows secret_le (db_secrets d) (upsert_secret s (db_secrets d))"
proof (cases "find_secret d (se_org_id s) (se_name s)")
  case None
  then show ?thesis by (simp add: upsert_secret_append grows_append)
next
  case (Some r)
  have "se_issued_at x \<le> se_issued_at s"
    if x: "x \<in> set (db_secrets d)" "se_org_id x = se_org_id s" "se_name x = se_name s" for x
  proof -
    from find_secret_unique [OF ok x(1)] newer x(2,3) have "se_issued_at x \<le> at" by force
    moreover have "timestamptz E (se_issued_at x) = se_issued_at x" using ok x(1) by (simp add: secrets_ok_def)
    ultimately show ?thesis using assms(1,4) unfolding timestamptz_law_def by (metis)
  qed
  then show ?thesis unfolding upsert_secret_map [OF Some]
    by (intro grows_map) (simp add: secret_le_def secret_slot_def)
qed

lemma db_step_below:
  assumes "db_step E org d d'" and "timestamptz_law E" and "db_ok E d"
  shows "db_below d d'"
  using assms(1)
proof cases
  case (end_key i k a why t)
  have inj: "inj_on k_id (set (db_keys d))" using assms(3) by (simp add: db_ok_def keys_ok_def distinct_map)
  obtain k0 where k0: "k0 \<in> set (db_keys d)" "k_id k0 = i" "k = key_row.truncate k0"
    using end_key(2) unfolding load_key_def map_option_eq_Some find_Some_iff by (metis nth_mem)
  have "key_le r (if k_id r = i then r\<lparr> k_revoked_at := Some t, k_revocation_reason := Some why \<rparr> else r)"
    if "r \<in> set (db_keys d)" for r
  proof (cases "k_id r = i")
    case True
    with k0 that have "r = k0" using inj_onD [OF inj, of r k0] by simp
    with k0 end_key(4) have "k_revoked_at r = None \<or> k_revocation_reason r = None"
      by (simp add: key_row.truncate_def)
    with True show ?thesis by (auto simp: key_le_def)
  qed simp
  then show ?thesis unfolding end_key(1) by (simp add: db_below_def grows_refl grows_append grows_map)
next
  case (end_revision h r a t)
  have inj: "inj_on rv_compose_hash (set (db_revisions d))"
    using assms(3) by (simp add: db_ok_def revisions_ok_def distinct_map)
  obtain r0 where r0: "r0 \<in> set (db_revisions d)" "rv_compose_hash r0 = h" "r = revision_row.truncate r0"
    using end_revision(2) unfolding load_revision_def map_option_eq_Some find_Some_iff by (metis nth_mem)
  have "revision_le x (if rv_compose_hash x = h then x\<lparr> rv_revoked_at := Some t \<rparr> else x)"
    if "x \<in> set (db_revisions d)" for x
  proof (cases "rv_compose_hash x = h")
    case True
    with r0 that have "x = r0" using inj_onD [OF inj, of x r0] by simp
    with r0 end_revision(4) have "rv_revoked_at x = None" by (simp add: revision_row.truncate_def)
    with True show ?thesis by (simp add: revision_le_def)
  qed simp
  then show ?thesis unfolding end_revision(1) by (simp add: db_below_def grows_refl grows_append grows_map)
next
  case (write_secret s at a)
  have "secrets_ok E (k_id ` set (db_keys d)) (db_secrets d)" using assms(3) by (simp add: db_ok_def)
  from upsert_secret_grows [OF assms(2) this, of s at] write_secret show ?thesis
    by (simp add: db_below_def grows_refl grows_append)
qed (simp_all add: db_below_def grows_refl grows_append)

lemma control_step_cases:
  obtains (granted) org where "db_step E org d (control_step E q d)"
  | (refused) a where "au_outcome a \<noteq> ''ok''" and "control_step E q d = audit_insert a d"
  | (unchanged) "control_step E q d = d"
proof -
  obtain nd c r where q: "q = (nd, c, r)" by (cases q)
  obtain res d' where r: "control E nd c r d = (res, d')" by fastforce
  with q have "control_step E q d = d'" by (simp add: control_step_def)
  with control_cases [OF r] show thesis using that unfolding granted_def by metis
qed

lemma control_step_ok: "timestamptz_law E \<Longrightarrow> db_ok E d \<Longrightarrow> db_ok E (control_step E q d)"
  by (cases rule: control_step_cases [of E d q]) (simp_all add: db_step_ok)

lemma audit_insert_below: "db_below d (audit_insert a d)"
  by (simp add: db_below_def grows_refl grows_append)

lemma control_step_below: "timestamptz_law E \<Longrightarrow> db_ok E d \<Longrightarrow> db_below d (control_step E q d)"
  by (cases rule: control_step_cases [of E d q]) (simp_all add: db_step_below audit_insert_below db_below_refl)

interpretation control: monotone_stepper "control_step E" "\<lambda>d. timestamptz_law E \<and> db_ok E d" db_below for E
  by unfold_locales (blast intro: control_step_ok control_step_below db_below_refl db_below_trans)+

section \<open>One organization does not reach another\<close>

text \<open>What an organization owns: its keys, its revisions, its secrets, and the commits in its name.\<close>

definition org_view :: "uuid \<Rightarrow> db \<Rightarrow> principal_key list \<times> revision list \<times> secret list \<times> audit list" where
  "org_view org d = (filter (\<lambda>k. k_org_id k = org) (db_keys d), filter (\<lambda>r. rv_org_id r = org) (db_revisions d),
     filter (\<lambda>s. se_org_id s = org) (db_secrets d),
     filter (\<lambda>a. au_outcome a = ''ok'' \<and> au_org_id a = Some org) (db_audit d))"

lemma filter_map_same:
  "(\<And>x. x \<in> set xs \<Longrightarrow> P (f x) = P x \<and> (P x \<longrightarrow> f x = x)) \<Longrightarrow> filter P (map f xs) = filter P xs"
  by (induction xs) simp_all

lemma upsert_secret_other_org:
  "se_org_id s \<noteq> org \<Longrightarrow>
   filter (\<lambda>s. se_org_id s = org) (upsert_secret s ss) = filter (\<lambda>s. se_org_id s = org) ss"
  unfolding upsert_secret_def by (simp add: filter_map_same)

lemma db_step_other_org:
  assumes "db_step E org d d'" and "db_ok E d" and "org \<noteq> other"
  shows "org_view other d' = org_view other d"
  using assms(1)
proof cases
  case (end_key i k a why t)
  have inj: "inj_on k_id (set (db_keys d))" using assms(2) by (simp add: db_ok_def keys_ok_def distinct_map)
  obtain k0 where k0: "k0 \<in> set (db_keys d)" "k_id k0 = i" "k = key_row.truncate k0"
    using end_key(2) unfolding load_key_def map_option_eq_Some find_Some_iff by (metis nth_mem)
  have "k_org_id r = org" if "r \<in> set (db_keys d)" "k_id r = i" for r
    using k0 inj_onD [OF inj, of r k0] that end_key(3) by (simp add: key_row.truncate_def)
  then have "filter (\<lambda>k. k_org_id k = other) (map (\<lambda>r. if k_id r = i
      then r\<lparr> k_revoked_at := Some t, k_revocation_reason := Some why \<rparr> else r) (db_keys d))
      = filter (\<lambda>k. k_org_id k = other) (db_keys d)"
    using assms(3) by (intro filter_map_same) simp
  with assms(3) end_key show ?thesis by (simp add: org_view_def)
next
  case (end_revision h r a t)
  have inj: "inj_on rv_compose_hash (set (db_revisions d))"
    using assms(2) by (simp add: db_ok_def revisions_ok_def distinct_map)
  obtain r0 where r0: "r0 \<in> set (db_revisions d)" "rv_compose_hash r0 = h" "r = revision_row.truncate r0"
    using end_revision(2) unfolding load_revision_def map_option_eq_Some find_Some_iff by (metis nth_mem)
  have "rv_org_id x = org" if "x \<in> set (db_revisions d)" "rv_compose_hash x = h" for x
    using r0 inj_onD [OF inj, of x r0] that end_revision(3) by (simp add: revision_row.truncate_def)
  then have "filter (\<lambda>r. rv_org_id r = other) (map (\<lambda>r. if rv_compose_hash r = h
      then r\<lparr> rv_revoked_at := Some t \<rparr> else r) (db_revisions d)) = filter (\<lambda>r. rv_org_id r = other) (db_revisions d)"
    using assms(3) by (intro filter_map_same) simp
  with assms(3) end_revision show ?thesis by (simp add: org_view_def)
qed (use assms(3) in \<open>simp_all add: org_view_def upsert_secret_other_org\<close>)

lemma receipted_error: "receipted E nd c route request resp = Err e \<Longrightarrow> e = internal"
  unfolding receipted_def
  by (cases resp; cases "c_leaf_der c")
    (auto simp: and_then_eq_Err map_err_eq_Err)

section \<open>A node and a table for the witnesses\<close>

definition demo_secret :: secret where
  "demo_secret = \<lparr> se_id = 3, se_org_id = 7, se_name = ''s'', se_app_ids = [5], se_ciphertext = [], se_content_sha256 = [],
     se_document = JNull, se_signed_by_key = 1, se_signature = JNull, se_issued_at = 9000, se_deleted_at = None \<rparr>"

definition demo_db :: db where
  "demo_db = \<lparr> db_keys = [demo_root_row], db_revisions = [], db_secrets = [demo_secret], db_audit = [] \<rparr>"

definition demo_node :: node where
  "demo_node = \<lparr> nd_phase = Serving \<lparr> im_tenant_kek_root = [], im_ca_key_der = [], im_ca_cert_der = [] \<rparr>,
     nd_platform = None, nd_runtime_key = [], nd_nonce_key = [] \<rparr>"

definition demo_call :: call where
  "demo_call = \<lparr> c_now = 0, c_receipt_now = 0, c_db_now = 0, c_mint = 4, c_nonce = Some (replicate 12 0),
     c_leaf_der = None, c_snap = demo_db \<rparr>"

lemma demo_db_ok: "db_ok demo_kms demo_db"
  by (simp add: demo_db_def db_ok_def keys_ok_def revisions_ok_def apps_owned_def secrets_ok_def demo_root_row_def
      demo_secret_def is_root_def registrant_in_def demo_kms_def demo_def)

definition demo_chain :: chain where
  "demo_chain = \<lparr> chain_key = key_row.truncate demo_root_row, chain_anchor_spki = demo_spki \<rparr>"

definition demo_keys :: intermediates where
  "demo_keys = \<lparr> im_tenant_kek_root = [], im_ca_key_der = [], im_ca_cert_der = [] \<rparr>"

lemma demo_authorize: "load_key (db_keys (c_snap c)) 1 = Some (key_row.truncate demo_root_row) \<Longrightarrow>
  authorize demo_kms nd demo_keys c ctx \<lparr> sb_payload = doc, sb_signature = demo_sign (Some 1) ctx doc \<rparr> t = Ok demo_chain"
proof -
  assume l: "load_key (db_keys (c_snap c)) 1 = Some (key_row.truncate demo_root_row)"
  have "check_shape (demo_sign (Some 1) ctx doc) = Ok ()" by (simp add: check_shape_def demo_sign_def)
  moreover have "k_revoked_at (chain_key demo_chain) = None"
    by (simp add: demo_chain_def demo_root_row_def key_row.truncate_def)
  ultimately show ?thesis
    using demo_verify_signed [OF l, of ctx doc t "signer_of nd"] by (simp add: authorize_def demo_keys_def demo_chain_def)
qed

section \<open>Properties\<close>

definition empty_db :: db where
  "empty_db = \<lparr> db_keys = [], db_revisions = [], db_secrets = [], db_audit = [] \<rparr>"

lemma empty_db_ok [simp]: "db_ok E empty_db"
  by (simp add: empty_db_def db_ok_def keys_ok_def revisions_ok_def apps_owned_def secrets_ok_def)


text \<open>
  C11. The tables stay well formed through every sequence of calls, on whatever nodes and with
  whatever stale reads: key ids and public keys are unique and there is one root per organization,
  a key is a root exactly when it has an anchor check, its registrant is in the table, a compose
  hash names one revision, an App belongs to one organization, a revision has a compose or an
  init-data and never both, and there is one secret row per organization and name.
\<close>

theorem control_runs_keep_tables:
  assumes "timestamptz_law E" and "db_ok E d"
  shows "db_ok E (fold (control_step E) qs d)"
  using control.run_inv [of E d qs] assms by blast

theorem control_runs_keep_tables_witness:
  "timestamptz_law demo_kms \<and> db_ok demo_kms demo_db
     \<and> db_ok demo_kms (fold (control_step demo_kms) [(demo_node, demo_call, RevokeKey [] []), (demo_node, demo_call, PutSecret ''s'' [])] demo_db)"
  using control_runs_keep_tables [OF demo_kms_laws(8) demo_db_ok] demo_kms_laws(8) demo_db_ok by blast

text \<open>
  No sequence of calls undoes anything: a row of a table is never removed, a key or a revision
  changes in nothing but its revocation, a revocation once made is final, a secret keeps its id, its
  organization and its name while its \<open>issued_at\<close> never goes back, and the audit log is append-only.
\<close>

theorem control_runs_undo_nothing:
  assumes "timestamptz_law E" and "db_ok E d"
  shows "db_below d (fold (control_step E) qs d)
    \<and> {r \<in> set (db_revisions d). rv_revoked_at r \<noteq> None} \<subseteq> set (db_revisions (fold (control_step E) qs d))
    \<and> {k \<in> set (db_keys d). k_revoked_at k \<noteq> None \<and> k_revocation_reason k \<noteq> None}
        \<subseteq> set (db_keys (fold (control_step E) qs d))"
proof -
  let ?d = "fold (control_step E) qs d"
  have b: "db_below d ?d" using control.run_below [of E d qs] assms by blast
  have "r \<in> set (db_revisions ?d)" if "r \<in> set (db_revisions d)" "rv_revoked_at r \<noteq> None" for r
    using b that grows_final [of revision_le "db_revisions d" "db_revisions ?d" r]
    by (simp add: db_below_def revision_le_def)
  moreover have "k \<in> set (db_keys ?d)"
    if "k \<in> set (db_keys d)" "k_revoked_at k \<noteq> None \<and> k_revocation_reason k \<noteq> None" for k
    using b that grows_final [of key_le "db_keys d" "db_keys ?d" k] by (simp add: db_below_def key_le_def)
  ultimately show ?thesis using b by blast
qed

theorem control_runs_undo_nothing_witness:
  "timestamptz_law demo_kms \<and> db_ok demo_kms demo_db
     \<and> db_below demo_db (fold (control_step demo_kms) [(demo_node, demo_call, RevokeKey [] []), (demo_node, demo_call, DeleteSecret ''s'' [])] demo_db)"
  using control_runs_undo_nothing [OF demo_kms_laws(8) demo_db_ok] demo_kms_laws(8) demo_db_ok by blast


text \<open>A node on which organization 7 deletes its secret while organization 6 has one of the same name.\<close>

definition demo_orgs :: db where
  "demo_orgs = demo_db\<lparr> db_secrets := [demo_secret\<lparr> se_issued_at := - 1000 \<rparr>, demo_secret\<lparr> se_id := 9, se_org_id := 6 \<rparr>] \<rparr>"

lemma demo_orgs_ok: "db_ok demo_kms demo_orgs"
  using demo_db_ok by (simp add: demo_orgs_def demo_db_def db_ok_def secrets_ok_def demo_secret_def secret_slot_def
      demo_root_row_def demo_kms_def demo_def)

lemma demo_delete_body: "\<exists>v. body_from_request demo_kms (signed_body_de demo_kms) [1] =
  Ok (\<lparr> sb_payload = demo_delete_doc, sb_signature = demo_sign (Some 1) CONTROL demo_delete_doc \<rparr>, v)"
proof -
  let ?sg = "demo_sign (Some 1) CONTROL demo_delete_doc"
  have e: "json_events demo_kms [1] = Some demo_delete_raw" by (simp add: demo_kms_def)
  have j: "signature_object_json demo_kms ?sg = jobj [(''key_id'', JString (uuid_show demo 1)), (''algorithm'', JString ''ed25519''),
      (''signature'', JString (b64_enc demo (the (ed25519_sign demo [] (the (signing_digest demo CONTROL demo_delete_doc))))))]"
    by (simp add: signature_object_json_def demo_sign_def opt_entry_def) (simp add: demo_kms_def signing_digest_def)
  have p: "parse demo_kms [1] = Some (jobj [(''payload'', demo_delete_doc), (''signature'', signature_object_json demo_kms ?sg)])"
    unfolding j by (simp add: parse_def e demo_delete_raw_def) (simp add: jobj_def demo_delete_doc_def)
  have "signed_body_de demo_kms (jobj [(''payload'', demo_delete_doc), (''signature'', signature_object_json demo_kms ?sg)]) =
      Some \<lparr> sb_payload = demo_delete_doc, sb_signature = ?sg \<rparr>"
    unfolding signed_body_de_def
    by (rule struct_fields_jobj_bind) (simp_all add: field_def signature_object_roundtrip [OF demo_kms_laws(3)])
  with p show ?thesis by (simp add: body_from_request_def)
qed

lemma demo_not_authorized: "\<not> authorized demo_kms demo_node demo_call (DeleteSecret ''s'' [1]) 6"
  by (auto simp: authorized_def signed_as_def demo_call_def demo_db_def load_key_def demo_root_row_def key_row.truncate_def
      split: if_splits)

lemma demo_deleted: "filter (\<lambda>s. se_org_id s = 7) (db_secrets (snd (control demo_kms demo_node demo_call (DeleteSecret ''s'' [1]) demo_orgs)))
   \<noteq> filter (\<lambda>s. se_org_id s = 7) (db_secrets demo_orgs)"
proof -
  let ?b = "\<lparr> sb_payload = demo_delete_doc, sb_signature = demo_sign (Some 1) CONTROL demo_delete_doc \<rparr>"
  have l: "load_key (db_keys (c_snap demo_call)) 1 = Some (key_row.truncate demo_root_row)"
    by (simp add: load_key_def demo_call_def demo_db_def demo_root_row_def)
  have p: "delete_secret_payload_de demo_kms demo_delete_doc = Some (''s'', 0)"
    unfolding delete_secret_payload_de_def demo_delete_doc_def
    by (rule struct_fields_jobj_bind) (simp_all add: field_def datetime_de_def demo_kms_def)
  have w: "within_window 0 (c_now demo_call) = Ok 0" by (simp add: within_window_Ok demo_call_def)
  have i: "intermediates_of demo_node = Ok demo_keys" by (simp add: intermediates_of_def demo_node_def demo_keys_def)
  have f: "find_secret demo_orgs 7 ''s'' = Some (demo_secret\<lparr> se_issued_at := - 1000 \<rparr>)"
    by (simp add: find_secret_def demo_orgs_def demo_secret_def)
  have q: "se_deleted_at demo_secret = None" by (simp add: demo_secret_def)
  have h: "has_key demo_orgs 1" by (simp add: has_key_def demo_orgs_def demo_db_def demo_root_row_def)
  have c: "k_org_id (chain_key demo_chain) = 7" "k_id (chain_key demo_chain) = 1"
    by (simp_all add: demo_chain_def demo_root_row_def key_row.truncate_def)
  obtain resp d' where "delete_commit demo_kms demo_call ''s'' ?b 0 demo_chain demo_orgs = Ok (resp, d')"
      "filter (\<lambda>s. se_org_id s = 7) (db_secrets d') \<noteq> filter (\<lambda>s. se_org_id s = 7) (db_secrets demo_orgs)"
    using q by (simp add: delete_commit_def Let_def f h c) (simp add: demo_orgs_def demo_secret_def)
  then have "delete_secret_inner demo_kms demo_node demo_call ''s'' ?b demo_orgs = Ok (resp, d')"
    by (simp add: delete_secret_inner_def i p w demo_authorize [OF l])
  with demo_delete_body show ?thesis
    using \<open>filter (\<lambda>s. se_org_id s = 7) (db_secrets d') \<noteq> _\<close> by (auto simp: delete_secret_def audited_route_def)
qed


text \<open>
  C13. A put is accepted at most once: once a secret row carries a time, neither a put nor a delete
  signed at or before that time is ever committed again, after any number of further calls. What
  the row carries is the time PostgreSQL stored, the signed one cut to whole microseconds.
\<close>

theorem stale_put_never_commits:
  assumes "timestamptz_law E" and "db_ok E d" and "s \<in> set (db_secrets d)"
    and "secret_slot s = (k_org_id (chain_key (pc_chain k)), name)" and "pc_at k \<le> se_issued_at s"
  shows "put_commit E keys c name b k (fold (control_step E) qs d) \<noteq> Ok (resp, d')
    \<and> delete_commit E c name body (pc_at k) (pc_chain k) (fold (control_step E) qs d)
        \<in> {Err (ApiError ''already_exists'')} \<union> {Ok (j, fold (control_step E) qs d) |j. True}"
proof -
  let ?d = "fold (control_step E) qs d" and ?org = "k_org_id (chain_key (pc_chain k))"
  have "db_below d ?d" and ok: "db_ok E ?d" using control.run_below [of E d qs] control.run_inv [of E d qs] assms by blast+
  with assms(3) obtain s' where s': "s' \<in> set (db_secrets ?d)" "secret_le s s'"
    unfolding db_below_def by (metis grows_memE)
  with assms(4,5) have f: "se_org_id s' = ?org" "se_name s' = name" "pc_at k \<le> se_issued_at s'"
    by (simp_all add: secret_le_def secret_slot_def)
  have "find_secret ?d ?org name = Some s'"
    using find_secret_unique [of E "k_id ` set (db_keys ?d)" ?d s'] ok s'(1) f by (simp add: db_ok_def)
  with f(3) put_commit_step [of E keys c name b k ?d resp d'] show ?thesis
    by (auto simp: delete_commit_def Let_def)
qed

definition demo_put :: "time \<Rightarrow> put_checked" where
  "demo_put at = \<lparr> pc_payload = \<lparr> sp_name = ''s'', sp_app_ids = [5], sp_content_sha256 = [], sp_issued_at = at \<rparr>,
     pc_content = [], pc_value = [1, 2], pc_at = at, pc_chain = demo_chain \<rparr>"

definition demo_put_body :: put_body where
  "demo_put_body = \<lparr> pb_payload = JNull, pb_signature = demo_sign None SECRET JNull, pb_value = None, pb_sealed = None \<rparr>"

definition demo_body :: signed_body where
  "demo_body = \<lparr> sb_payload = JNull, sb_signature = demo_sign None CONTROL JNull \<rparr>"

theorem stale_put_never_commits_witness:
  "demo_secret \<in> set (db_secrets demo_db) \<and> pc_at (demo_put 8999) \<le> se_issued_at demo_secret
     \<and> put_commit demo_kms demo_keys demo_call ''s'' demo_put_body (demo_put 8999)
         (fold (control_step demo_kms) [(demo_node, demo_call, DeleteSecret ''s'' [])] demo_db) \<noteq> Ok (JNull, demo_db)"
proof -
  have m: "demo_secret \<in> set (db_secrets demo_db)" by (simp add: demo_db_def)
  have s: "secret_slot demo_secret = (k_org_id (chain_key (pc_chain (demo_put 8999))), ''s'')"
    and t: "pc_at (demo_put 8999) \<le> se_issued_at demo_secret"
    by (simp_all add: demo_secret_def demo_put_def demo_chain_def demo_root_row_def secret_slot_def key_row.truncate_def)
  from stale_put_never_commits [OF demo_kms_laws(8) demo_db_ok m s t] m t show ?thesis by blast
qed

text \<open>
  The tombstone does not hold within a microsecond: a put signed before a delete, in the same
  microsecond, is committed when it is replayed after that delete, and the secret is live again.
\<close>

theorem put_replayed_within_microsecond:
  "\<exists>r1 r2 d1 d2. delete_commit demo_kms demo_call ''s'' demo_body 9900 demo_chain demo_db = Ok (r1, d1)
     \<and> put_commit demo_kms demo_keys demo_call ''s'' demo_put_body (demo_put 9800) d1 = Ok (r2, d2)
     \<and> map se_deleted_at (db_secrets d1) = [Some 0] \<and> map se_deleted_at (db_secrets d2) = [None]"
proof -
  obtain okey where k: "org_key demo_kms (im_tenant_kek_root demo_keys) 7 demo_spki = Ok okey"
    by (simp add: org_key_def derive_def kms_hkdf_def)
  obtain aad where a: "secret_aad demo_kms 3 JNull = Ok aad"
    using demo_digest [of SECRET JNull] by (auto simp: secret_aad_def)
  obtain box where b: "aead_seal demo_kms (Some (replicate 12 0)) okey aad [1, 2] = Ok box"
    by (simp add: aead_seal_def demo_kms_def demo_def demo_seal_def)
  have t: "timestamptz demo_kms 9900 = 9000" by (simp add: demo_kms_def demo_def)
  note defs = demo_db_def demo_call_def demo_chain_def demo_root_row_def key_row.truncate_def demo_secret_def
    find_secret_def has_key_def audited_def audit_insert_def
  define d1 where "d1 = audited demo_kms demo_chain ''secret.delete'' ''secret:s'' (jobj [])
    (demo_db\<lparr> db_secrets := [demo_secret\<lparr> se_app_ids := [], se_document := JNull,
       se_signature := signature_object_json demo_kms (sb_signature demo_body), se_deleted_at := Some 0 \<rparr>] \<rparr>)"
  have "\<exists>r1. delete_commit demo_kms demo_call ''s'' demo_body 9900 demo_chain demo_db = Ok (r1, d1)"
    by (simp add: delete_commit_def defs demo_body_def t d1_def)
  moreover have "\<exists>r2 d2. put_commit demo_kms demo_keys demo_call ''s'' demo_put_body (demo_put 9800) d1 = Ok (r2, d2)
      \<and> map se_deleted_at (db_secrets d2) = [None]"
    using k a b by (simp add: put_commit_def defs demo_put_def demo_put_body_def d1_def upsert_secret_def Let_def)
  moreover have "map se_deleted_at (db_secrets d1) = [Some 0]" by (simp add: d1_def defs)
  ultimately show ?thesis by (elim exE conjE) (intro exI conjI, assumption+)
qed

text \<open>
  A refusal changes no table: unless the answer is an internal error, which is also what a
  receipt that cannot be issued gives after its commit, a call that fails leaves keys, revisions and
  secrets as they were and at most adds the one audit row of that error, with no organization on it.
\<close>

theorem control_error_changes_nothing:
  assumes "control E nd c r d = (Err e, d')" and "e \<noteq> internal"
  shows "db_keys d' = db_keys d \<and> db_revisions d' = db_revisions d \<and> db_secrets d' = db_secrets d
    \<and> (db_audit d' = db_audit d \<or> (\<exists>a. db_audit d' = db_audit d @ [a] \<and> au_outcome a = outcome e
         \<and> au_details a = ErrorDetails e \<and> au_org_id a = None))"
proof -
  have "d' = d \<or> (\<exists>i act. d' = denied E i act e d)"
    using assms by (cases r)
      (auto simp: register_revision_def revoke_revision_def put_secret_def delete_secret_def register_key_def
        revoke_key_def audited_route_def split: result.split_asm prod.split_asm dest: receipted_error)
  then show ?thesis by (auto simp: denied_def)
qed

theorem control_error_changes_nothing_witness:
  "\<exists>d'. control demo_kms (demo_node\<lparr> nd_phase := Sealed [] \<rparr>) demo_call (RegisterRevision []) demo_db
      = (Err malformed, d') \<and> db_secrets d' = db_secrets demo_db"
proof -
  have "control demo_kms (demo_node\<lparr> nd_phase := Sealed [] \<rparr>) demo_call (RegisterRevision []) demo_db = (Err malformed, demo_db)"
    by (simp add: register_revision_def body_from_request_def parse_def demo_kms_def demo_def)
  from control_error_changes_nothing [OF this] this show ?thesis by simp
qed

text \<open>
  A ticket opens to the channel and the key it was sealed with, under the same root and before
  its expiry, on any node, and is refused from its expiry on.
\<close>

theorem ticket_roundtrip:
  assumes "b64_law E" and "aead_law E" and "seal_ticket E (Some salt) (Some iv) kek channel c2s expires_at = Ok t"
    and "length salt = 16" and "length iv = 12" and "length channel = 16" and "length c2s = 32"
    and "seconds_of expires_at < 2 ^ 64"
  shows "open_ticket E kek t now =
    (if unix now < nat (seconds_of expires_at) then Ok (channel, c2s) else Err malformed)"
proof -
  let ?pt = "channel @ c2s @ be_bytes 8 (nat (seconds_of expires_at))"
  from assms(3) obtain ct where c: "aes_gcm_enc E (hkdf_sha256 E TICKET_LABEL kek salt) iv TICKET_LABEL ?pt = Some ct"
    and t: "t = b64_enc E (salt @ iv @ ct)"
    by (auto simp: seal_ticket_def kms_hkdf_def aead_seal_def result_simps)
  have "from_be (be_bytes 8 (nat (seconds_of expires_at))) = nat (seconds_of expires_at)"
    using assms(8) by (simp add: from_be_be_bytes nat_less_iff)
  moreover have "aead_open E (hkdf_sha256 E TICKET_LABEL kek salt) TICKET_LABEL (iv @ ct) = Some ?pt"
    using c assms(5) by (simp add: aead_open_def aead_iff [OF assms(2)])
  ultimately show ?thesis using assms(4,6,7)
    by (simp add: open_ticket_def t b64_decode_encode [OF assms(1)] kms_hkdf_def)
qed

theorem ticket_roundtrip_witness:
  "case seal_ticket demo (Some (replicate 16 1)) (Some (replicate 12 2)) [3] (replicate 16 4) (replicate 32 5) TICKET_TTL of
     Err _ \<Rightarrow> False
   | Ok t \<Rightarrow> open_ticket demo [3] t 0 = Ok (replicate 16 4, replicate 32 5) \<and> open_ticket demo [3] t TICKET_TTL = Err malformed"
proof -
  obtain t where t: "seal_ticket demo (Some (replicate 16 1)) (Some (replicate 12 2)) [3] (replicate 16 4) (replicate 32 5) TICKET_TTL = Ok t"
    by (simp add: seal_ticket_def kms_hkdf_def aead_seal_def demo_def demo_seal_def TICKET_TTL_def)
  have o: "open_ticket demo [3] t now =
      (if unix now < nat (seconds_of TICKET_TTL) then Ok (replicate 16 4, replicate 32 5) else Err malformed)" for now
    by (rule ticket_roundtrip [OF demo_b64 demo_aead t]) (simp_all add: TICKET_TTL_def seconds_of_def)
  show ?thesis unfolding t result.case o by (simp add: unix_def TICKET_TTL_def seconds_of_def)
qed

end
