(* ===== verification/Kms_Instance.thy ===== *)
theory Kms_Instance
  imports Kms_Control_Spec Attest_Wire
begin

text \<open>
  \<^verbatim>\<open>services/alpha-kms/src/certs.rs\<close> and \<^verbatim>\<open>instance.rs\<close>: the leaves the KMS issues and the names on
  them, the stateless nonce, attestation into a leaf, and secrets and derived keys over mTLS. What a
  call takes from outside is in the record \<open>icall\<close>: the clock, the collateral, what it draws, the
  responder's answers, and the tables as each of its reads finds them, since other calls may commit
  in between.
\<close>

section \<open>Certificates\<close>

definition cert_invalid :: api_error where "cert_invalid = ApiError ''cert_invalid''"

definition later :: "time \<Rightarrow> time \<Rightarrow> (time, api_error) result" where
  "later now by_ns = refuse_if (2 ^ 63 \<le> seconds_of (now + by_ns)) internal (Ok (now + by_ns))"

definition LEAF_TTL :: time where "LEAF_TTL = 3600 * 1000000000"

definition KMS_DNS_NAMES :: "string list" where
  "KMS_DNS_NAMES = [''kms.alpha-kms.svc'', ''kms.alpha-kms.svc.cluster.local'']"

definition serial_of :: "bytes option \<Rightarrow> (bytes, api_error) result" where
  "serial_of rnd = and_then (ok_or rnd internal) (\<lambda>bs.
     Ok (case bs of [] \<Rightarrow> [] | b # r \<Rightarrow> (b AND 0x7f) # r))"

definition key_pair :: "'x ext_scheme \<Rightarrow> bytes \<Rightarrow> (bytes, api_error) result" where
  "key_pair E pkcs8 = refuse_if (\<not> rcgen_key_pair_ok E pkcs8) internal (Ok pkcs8)"

definition self_signed :: "'x ext_scheme \<Rightarrow> bytes option \<Rightarrow> bytes \<Rightarrow> time \<Rightarrow> (bytes, api_error) result" where
  "self_signed E rnd key now =
     refuse_if (\<not> ia5_ok E KMS_SAN) internal
     (and_then (later now (365 * 86400 * 1000000000)) (\<lambda>na.
      and_then (serial_of rnd) (\<lambda>serial.
      ok_or (rcgen_self_signed E key ''alpha-kms sealed node'' [KMS_SAN] now na serial) internal)))"

definition new_ca :: "'x ext_scheme \<Rightarrow> bytes \<Rightarrow> bytes option \<Rightarrow> time \<Rightarrow> (bytes \<times> bytes, api_error) result" where
  "new_ca E key_rnd rnd now =
     and_then (later now (20 * 365 * 86400 * 1000000000)) (\<lambda>na.
     and_then (serial_of rnd) (\<lambda>serial.
     ok_or (rcgen_new_ca E key_rnd now na serial) internal))"

definition issue_leaf :: "'x ext_scheme \<Rightarrow> bytes option \<Rightarrow> bytes \<Rightarrow> bytes \<Rightarrow> bytes \<Rightarrow> string list \<Rightarrow>
    leaf_appraisal option \<Rightarrow> time \<Rightarrow> (bytes, api_error) result" where
  "issue_leaf E rnd ca_key ca_cert_der spki_der sans appraisal now =
     refuse_if (\<not> rcgen_spki_ok E spki_der) malformed
     (refuse_if (\<not> rcgen_issuer_ok E ca_cert_der) internal
     (let dns = (case sans of [] \<Rightarrow> [] | san # _ \<Rightarrow> if san = KMS_SAN then KMS_DNS_NAMES else []) in
      refuse_if (\<not> list_all (ia5_ok E) (sans @ dns)) internal
      (and_then (later now LEAF_TTL) (\<lambda>na.
       and_then (serial_of rnd) (\<lambda>serial.
       and_then (case appraisal of
                   None \<Rightarrow> Ok []
                 | Some a \<Rightarrow> and_then (map_err (\<lambda>_. internal) (appraisal_to_der E a)) (\<lambda>d. Ok [(APPRAISAL_OID, d)])) (\<lambda>exts.
       ok_or (rcgen_signed_by E \<lparr> lp_spki = spki_der, lp_uris = sans, lp_dns = dns, lp_is_ca = Some False,
          lp_digital_signature = True, lp_client_auth = True, lp_server_auth = True, lp_not_before = now,
          lp_not_after = na, lp_serial = serial, lp_extensions = exts \<rparr> ca_key ca_cert_der) internal))))))"

definition sans_of_instance :: "'x ext_scheme \<Rightarrow> uuid \<Rightarrow> uuid \<Rightarrow> string \<Rightarrow> compose_hash \<Rightarrow> string list" where
  "sans_of_instance E org app key_hex h =
     [''alphacompute://'' @ uuid_show E org @ ''/'' @ uuid_show E app @ ''/'' @ key_hex,
      REVISION_URN @ compose_hash_show h]"

definition node_sans :: "compose_hash \<Rightarrow> string list" where
  "node_sans h = [KMS_SAN, REVISION_URN @ compose_hash_show h]"

definition ca_verifier :: "'x ext_scheme \<Rightarrow> bytes \<Rightarrow> (bytes, api_error) result" where
  "ca_verifier E ca_cert_der = refuse_if (\<not> client_verifier_ok E ca_cert_der) internal (Ok ca_cert_der)"

definition verify_to_ca :: "'x ext_scheme \<Rightarrow> bytes \<Rightarrow> bytes list \<Rightarrow> time \<Rightarrow> (string list, api_error) result" where
  "verify_to_ca E verifier chain now =
     (case chain of
        [] \<Rightarrow> Err cert_invalid
      | leaf # intermediates \<Rightarrow>
          refuse_if (now < 0) internal
          (refuse_if (\<not> verify_client_cert E verifier leaf intermediates now) cert_invalid
          (map_err (\<lambda>_. cert_invalid) (uri_sans E leaf))))"

definition identity_of :: "'x ext_scheme \<Rightarrow> string list \<Rightarrow> (instance_sans, api_error) result" where
  "identity_of E sans = map_err (\<lambda>_. cert_invalid) (parse_instance_sans E sans)"

section \<open>The nonce\<close>

definition NONCE_MAX_AGE :: nat where "NONCE_MAX_AGE = 300"

definition nonce_at :: "'x ext_scheme \<Rightarrow> bytes \<Rightarrow> nat \<Rightarrow> bytes" where
  "nonce_at E key ts = be_bytes 8 ts @ take 24 (hmac_sha256 E key (be_bytes 8 ts))"

definition mint_nonce :: "'x ext_scheme \<Rightarrow> bytes \<Rightarrow> time \<Rightarrow> bytes" where
  "mint_nonce E key now = nonce_at E key (unix now)"

definition check_nonce :: "'x ext_scheme \<Rightarrow> bytes \<Rightarrow> bytes \<Rightarrow> time \<Rightarrow> (unit, api_error) result" where
  "check_nonce E key n32 now =
     (let ts = from_be (take 8 n32) in
      refuse_if (2 ^ 63 \<le> ts) (ApiError ''nonce_invalid'')
      (refuse_if (mint_nonce E key (int ts * 1000000000) \<noteq> n32) (ApiError ''nonce_invalid'')
      (refuse_if (ts > unix now \<or> unix now - ts > NONCE_MAX_AGE) (ApiError ''nonce_invalid'') (Ok ()))))"

definition nonce_route :: "'x ext_scheme \<Rightarrow> node \<Rightarrow> time \<Rightarrow> (json, api_error) result" where
  "nonce_route E nd now =
     and_then (later now (int NONCE_MAX_AGE * 1000000000)) (\<lambda>expires.
     Ok (jobj [(''nonce'', JString (b64_enc E (mint_nonce E (nd_nonce_key nd) now))),
               (''expires_at'', JString (kms_rfc3339 E expires))]))"

definition decode32 :: "'x ext_scheme \<Rightarrow> string \<Rightarrow> (bytes, api_error) result" where
  "decode32 E txt = ok_or (Option.bind (b64_dec E txt) (\<lambda>b. if length b = 32 then Some b else None)) malformed"

section \<open>Revisions\<close>

definition revision_signed :: "'x ext_scheme \<Rightarrow> revision_row \<Rightarrow> compose_hash \<Rightarrow> (string \<times> json, api_error) result" where
  "revision_signed E r h =
     (case (rv_compose r, rv_init_data r) of
        (Some compose, None) \<Rightarrow>
          Ok (compose, jobj [(''app_id'', JString (uuid_show E (rv_app_id r))), (''compose'', JString compose)])
      | (None, Some init) \<Rightarrow>
          Ok (init, jobj [(''app_id'', JString (uuid_show E (rv_app_id r))), (''init_data'', JString init),
                          (''digest'', JString (compose_hash_show h))])
      | _ \<Rightarrow> Err signature_invalid)"

definition verify_revision :: "'x ext_scheme \<Rightarrow> principal_key list \<Rightarrow> bytes \<Rightarrow> compose_hash \<Rightarrow> revision_row \<Rightarrow>
    signer option \<Rightarrow> (chain, api_error) result" where
  "verify_revision E rows tenant_kek_root h r sp =
     refuse_if (rv_revoked_at r \<noteq> None) (ApiError ''revision_revoked'')
     (and_then (revision_signed E r h) (\<lambda>(txt, document).
      refuse_if (compose_hash_of E (as_bytes txt) \<noteq> h) signature_invalid
      (and_then (ok_or (signature_object_de E (rv_signature r)) signature_invalid) (\<lambda>s.
       refuse_if (so_key_id s \<noteq> Some (rv_created_by_key r)) signature_invalid
       (and_then (verify_signed E rows tenant_kek_root s REVISION document (rv_created_at r) sp) (\<lambda>ch.
        refuse_if (k_org_id (chain_key ch) \<noteq> rv_org_id r) signature_invalid (Ok ch)))))))"

definition appraise_revision :: "'x ext_scheme \<Rightarrow> principal_key list \<Rightarrow> bytes \<Rightarrow> compose_hash \<Rightarrow> revision_row \<Rightarrow>
    platform_document \<Rightarrow> (init_data option, api_error) result" where
  "appraise_revision E rows tenant_kek_root h r doc =
     and_then (verify_revision E rows tenant_kek_root h r (pd_signer doc)) (\<lambda>_.
     (case rv_init_data r of
        None \<Rightarrow> Ok None
      | Some txt \<Rightarrow>
          and_then (map_err (\<lambda>_. ApiError ''policy_denied'') (init_data_parse E txt)) (\<lambda>init.
          and_then (check_kata_policy E init (Some doc) ''policy_denied'') (\<lambda>_. Ok (Some init)))))"

section \<open>Attestation\<close>

record icall =
  ic_now :: time
  ic_clock :: time
  ic_collateral :: "(collateral, appraisal_error) result"
  ic_ocsp_nonce :: "nat \<Rightarrow> bytes option"
  ic_ocsp_answer :: "nat \<Rightarrow> bytes option"
  ic_serial :: "bytes option"
  ic_peer :: "bytes list"
  ic_revisions :: db
  ic_keys :: db
  ic_secrets :: db
  ic_secret_keys :: db

definition appraisal_api_error :: "appraisal_error \<Rightarrow> api_error" where
  "appraisal_api_error e = ApiError (appraisal_error_code e)"

record attest_request =
  aq_runtime_pubkey :: string
  aq_nonce :: string
  aq_evidence :: json

definition attest_request_de :: "json \<Rightarrow> attest_request option" where
  "attest_request_de v =
     Option.bind (struct_fields True [(''runtime_pubkey'', False), (''nonce'', False), (''evidence'', False)] v) (\<lambda>m.
     Option.bind (field m ''runtime_pubkey'' json_as_str) (\<lambda>k.
     Option.bind (field m ''nonce'' json_as_str) (\<lambda>n.
     Option.bind (field m ''evidence'' Some) (\<lambda>e.
     Some \<lparr> aq_runtime_pubkey = k, aq_nonce = n, aq_evidence = e \<rparr>))))"

text \<open>
  Requests are built for every query before any answer is looked at; the answers are checked as they
  come in, here in the order of the queries.
\<close>

fun ocsp_requests :: "'x ext_scheme \<Rightarrow> icall \<Rightarrow> nat \<Rightarrow> ocsp_query list \<Rightarrow> (bytes list, api_error) result" where
  "ocsp_requests E c i [] = Ok []"
| "ocsp_requests E c i (q # qs) =
     and_then (ok_or (ic_ocsp_nonce c i) internal) (\<lambda>n.
     and_then (map_err appraisal_api_error (ocsp_request E q n)) (\<lambda>_.
     and_then (ocsp_requests E c (Suc i) qs) (\<lambda>ns. Ok (n # ns))))"

fun ocsp_checks :: "'x ext_scheme \<Rightarrow> icall \<Rightarrow> nat \<Rightarrow> ocsp_query list \<Rightarrow> bytes list \<Rightarrow> (unit, api_error) result" where
  "ocsp_checks E c i (q # qs) (n # ns) =
     and_then (ok_or (ic_ocsp_answer c i) internal) (\<lambda>answer.
     and_then (map_err appraisal_api_error (ocsp_check E q answer n (ic_clock c))) (\<lambda>_.
     ocsp_checks E c (Suc i) qs ns))"
| "ocsp_checks E c i _ _ = Ok ()"

definition check_gpu_revocation :: "'x ext_scheme \<Rightarrow> icall \<Rightarrow> gpu_evidence list \<Rightarrow> (unit, api_error) result" where
  "check_gpu_revocation E c gpus =
     and_then (map_err appraisal_api_error (device_ocsp_queries E gpus)) (\<lambda>qs.
     and_then (ocsp_requests E c 0 qs) (\<lambda>ns. ocsp_checks E c 0 qs ns))"

text \<open>\<open>trim_start_matches\<close> with a nonempty pattern.\<close>

function trim_start_matches :: "string \<Rightarrow> string \<Rightarrow> string" where
  "trim_start_matches p s =
     (if p = [] then s else case strip_prefix p s of None \<Rightarrow> s | Some r \<Rightarrow> trim_start_matches p r)"
  by pat_completeness auto
termination
  by (relation "measure (\<lambda>(p, s). length s)") auto

declare trim_start_matches.simps [simp del]

definition attest_leaf :: "'x ext_scheme \<Rightarrow> icall \<Rightarrow> intermediates \<Rightarrow> bytes \<Rightarrow> revision_row \<Rightarrow> appraised \<Rightarrow>
    (bytes, api_error) result" where
  "attest_leaf E c keys spki r a =
     and_then (key_pair E (im_ca_key_der keys)) (\<lambda>ca_key.
     issue_leaf E (ic_serial c) ca_key (im_ca_cert_der keys) spki
       (sans_of_instance E (rv_org_id r) (rv_app_id r)
          (trim_start_matches ''sha256:'' (ap_runtime_pubkey_sha256 a)) (ap_compose_hash a))
       (Some \<lparr> la_tcb_status = ap_tcb_status a, la_advisories = ap_advisories a, la_policy_version = ap_policy_version a,
               la_os_image = ap_os_image a, la_gpu_count = length (ap_gpu_serials a) \<rparr>) (ic_now c))"

definition result_of :: "'x ext_scheme \<Rightarrow> icall \<Rightarrow> revision_row \<Rightarrow> appraised \<Rightarrow> attestation_result" where
  "result_of E c r a =
     \<lparr> at_format = RESULT_FORMAT, at_verdict = Verified, at_measured = ap_measured a, at_tcb_status = ap_tcb_status a,
       at_advisories = ap_advisories a, at_os_image = ap_os_image a,
       at_revision = \<lparr> ar_compose_hash = ap_compose_hash a, ar_app_id = rv_app_id r, ar_org_id = rv_org_id r \<rparr>,
       at_runtime_pubkey_sha256 = ap_runtime_pubkey_sha256 a, at_evidence_sha256 = ap_evidence_sha256 a,
       at_verified_at = kms_rfc3339 E (ic_now c), at_policy_version = ap_policy_version a,
       at_gpu_serials = ap_gpu_serials a \<rparr>"

definition is_kata :: "instance_evidence \<Rightarrow> bool" where
  "is_kata ev = (case ev of Kata _ \<Rightarrow> True | Dstack _ \<Rightarrow> False)"

definition attest_inner :: "'x ext_scheme \<Rightarrow> node \<Rightarrow> icall \<Rightarrow> bytes \<Rightarrow> attest_request \<Rightarrow>
    (bytes \<times> attestation_result, api_error) result" where
  "attest_inner E nd c spki request =
     and_then (decode32 E (aq_nonce request)) (\<lambda>n32.
     and_then (check_nonce E (nd_nonce_key nd) n32 (ic_now c)) (\<lambda>_.
     and_then (ok_or (nd_platform nd) (ApiError ''attestation_unknown'')) (\<lambda>doc.
     and_then (ok_or (instance_evidence_de E (aq_evidence request)) malformed) (\<lambda>ev.
     and_then (map_err appraisal_api_error (ic_collateral c)) (\<lambda>coll.
     and_then (map_err appraisal_api_error (appraise_instance E ev n32 spki None doc coll (ic_now c))) (\<lambda>a.
     and_then (case ev of Kata k \<Rightarrow> check_gpu_revocation E c (k_gpu k) | Dstack _ \<Rightarrow> Ok ()) (\<lambda>_.
     and_then (intermediates_of nd) (\<lambda>keys.
     and_then (ok_or (Option.bind (load_revision (ic_revisions c) (ap_compose_hash a)) (\<lambda>r.
                 if (if is_kata ev then rv_init_data r \<noteq> None else rv_compose r \<noteq> None) then Some r else None))
                (ApiError ''attestation_unknown'')) (\<lambda>r.
     and_then (appraise_revision E (db_keys (ic_keys c)) (im_tenant_kek_root keys) (ap_compose_hash a) r doc) (\<lambda>_.
     and_then (attest_leaf E c keys spki r a) (\<lambda>leaf.
     Ok (leaf, result_of E c r a))))))))))))"

definition attest_row :: "'x ext_scheme \<Rightarrow> string \<Rightarrow> bytes \<Rightarrow> (bytes \<times> attestation_result, api_error) result \<Rightarrow> audit" where
  "attest_row E actor ev_sha res =
     \<lparr> au_actor_kind = ''instance'', au_actor = actor, au_action = ''attest'',
       au_org_id = (case res of Ok (_, r) \<Rightarrow> Some (ar_org_id (at_revision r)) | Err _ \<Rightarrow> None),
       au_object = (case res of Ok (_, r) \<Rightarrow> Some (''revision:'' @ compose_hash_show (ar_compose_hash (at_revision r)))
                   | Err _ \<Rightarrow> None),
       au_outcome = (case res of Ok _ \<Rightarrow> ''ok'' | Err e \<Rightarrow> outcome e),
       au_details = (case res of Ok (_, r) \<Rightarrow> Details (attestation_result_json E r) | Err e \<Rightarrow> ErrorDetails e),
       au_evidence_sha256 = Some ev_sha \<rparr>"

definition attest_checks :: "'x ext_scheme \<Rightarrow> attest_request \<Rightarrow> (bytes \<times> bytes, api_error) result" where
  "attest_checks E request =
     and_then (ok_or (b64_dec E (aq_runtime_pubkey request)) malformed) (\<lambda>spki.
     refuse_if (p256_from_spki E spki = None) malformed
     (and_then (ok_or (jcs E (aq_evidence request)) malformed) (\<lambda>j. Ok (spki, sha256 E j))))"

definition attest :: "'x ext_scheme \<Rightarrow> node \<Rightarrow> icall \<Rightarrow> bytes \<Rightarrow> db \<Rightarrow> (json, api_error) result \<times> db" where
  "attest E nd c bs d =
     (case body_from_request E attest_request_de bs of
        Err e \<Rightarrow> (Err e, d)
      | Ok (request, _) \<Rightarrow>
          (case attest_checks E request of
             Err e \<Rightarrow> (Err e, d)
           | Ok (spki, ev_sha) \<Rightarrow>
               (let res = attest_inner E nd c spki request in
                (and_then res (\<lambda>(leaf, r).
                 and_then (intermediates_of nd) (\<lambda>keys.
                 and_then (later (ic_now c) LEAF_TTL) (\<lambda>na.
                 Ok (jobj [(''certificate_chain'', JArray [JString (cert_pem E leaf), JString (cert_pem E (im_ca_cert_der keys))]),
                           (''not_after'', JString (kms_rfc3339 E na)),
                           (''attestation_result'', attestation_result_json E r)])))),
                 audit_insert (attest_row E (sha256_hex E spki) ev_sha res) d))))"

section \<open>Secrets and derived keys\<close>

record released =
  re_value :: bytes
  re_content_sha256 :: string
  re_issued_at :: time

definition identity_revision :: "db \<Rightarrow> instance_sans \<Rightarrow> (revision_row, api_error) result" where
  "identity_revision d who =
     ok_or (Option.bind (load_revision d (is_compose_hash who)) (\<lambda>r.
       if rv_org_id r = is_org_id who \<and> rv_app_id r = is_app_id who then Some r else None)) not_found"

definition release_secret :: "'x ext_scheme \<Rightarrow> db \<Rightarrow> principal_key list \<Rightarrow> bytes \<Rightarrow> signer option \<Rightarrow> uuid \<Rightarrow> uuid \<Rightarrow>
    string \<Rightarrow> (released, api_error) result" where
  "release_secret E d rows tenant_kek_root sp org app name =
     and_then (ok_or (find (\<lambda>s. se_org_id s = org \<and> se_name s = name \<and> app \<in> set (se_app_ids s)
                            \<and> se_deleted_at s = None) (db_secrets d)) not_found) (\<lambda>secret.
     and_then (ok_or (signature_object_de E (se_signature secret)) signature_invalid) (\<lambda>s.
     refuse_if (so_key_id s \<noteq> Some (se_signed_by_key secret)) signature_invalid
     (and_then (ok_or (secret_payload_de E (se_document secret)) signature_invalid) (\<lambda>p.
      (let content = ''sha256:'' @ hex_encode (se_content_sha256 secret) in
       refuse_if (sp_name p \<noteq> name \<or> sp_content_sha256 p \<noteq> content) signature_invalid
       (refuse_if (app \<notin> set (sp_app_ids p)) not_found
       (and_then (verify_signed E rows tenant_kek_root s SECRET (se_document secret) (sp_issued_at p) sp) (\<lambda>ch.
        refuse_if (k_org_id (chain_key ch) \<noteq> org) signature_invalid
        (and_then (org_key E tenant_kek_root org (chain_anchor_spki ch)) (\<lambda>okey.
         and_then (secret_aad E (se_id secret) (se_document secret)) (\<lambda>aad.
         and_then (ok_or (aead_open E okey aad (se_ciphertext secret)) internal) (\<lambda>v.
         refuse_if (sha256 E v \<noteq> se_content_sha256 secret) signature_invalid
         (refuse_if (length v < SECRET_SALT_LEN) internal
         (Ok \<lparr> re_value = drop SECRET_SALT_LEN v, re_content_sha256 = content,
               re_issued_at = sp_issued_at p \<rparr>))))))))))))))"

definition get_secret_inner :: "'x ext_scheme \<Rightarrow> node \<Rightarrow> icall \<Rightarrow> bytes \<Rightarrow> instance_sans \<Rightarrow> string \<Rightarrow>
    (released, api_error) result" where
  "get_secret_inner E nd c tenant_kek_root who name =
     and_then (identity_revision (ic_revisions c) who) (\<lambda>r.
     and_then (verify_revision E (db_keys (ic_keys c)) tenant_kek_root (is_compose_hash who) r (signer_of nd)) (\<lambda>_.
     release_secret E (ic_secrets c) (db_keys (ic_secret_keys c)) tenant_kek_root (signer_of nd)
       (is_org_id who) (is_app_id who) name))"

definition mtls_identity :: "'x ext_scheme \<Rightarrow> icall \<Rightarrow> intermediates \<Rightarrow> (instance_sans, api_error) result" where
  "mtls_identity E c keys =
     and_then (ca_verifier E (im_ca_cert_der keys)) (\<lambda>verifier.
     and_then (verify_to_ca E verifier (ic_peer c) (ic_now c)) (\<lambda>sans. identity_of E sans))"

definition instance_row :: "string \<Rightarrow> string \<Rightarrow> uuid option \<Rightarrow> string option \<Rightarrow> ('a, api_error) result \<Rightarrow> audit" where
  "instance_row actor action org object res =
     \<lparr> au_actor_kind = ''instance'', au_actor = actor, au_action = action, au_org_id = org, au_object = object,
       au_outcome = (case res of Ok _ \<Rightarrow> ''ok'' | Err e \<Rightarrow> outcome e),
       au_details = (case res of Ok _ \<Rightarrow> Details (jobj []) | Err e \<Rightarrow> ErrorDetails e), au_evidence_sha256 = None \<rparr>"

definition get_secret :: "'x ext_scheme \<Rightarrow> node \<Rightarrow> icall \<Rightarrow> string \<Rightarrow> db \<Rightarrow> (json, api_error) result \<times> db" where
  "get_secret E nd c name d =
     (case and_then (intermediates_of nd) (\<lambda>keys. and_then (mtls_identity E c keys) (\<lambda>who. Ok (keys, who))) of
        Err e \<Rightarrow> (Err e, d)
      | Ok (keys, who) \<Rightarrow>
          (let res = get_secret_inner E nd c (im_tenant_kek_root keys) who name in
           (and_then res (\<lambda>r. Ok (jobj [(''value'', JString (b64_enc E (re_value r))),
                (''content_sha256'', JString (re_content_sha256 r)), (''issued_at'', JString (kms_rfc3339 E (re_issued_at r)))])),
            audit_insert (instance_row (is_runtime_pubkey_sha256_hex who) ''secret.get'' (Some (is_org_id who))
              (Some (''secret:'' @ name)) res) d)))"

definition derive_key_inner :: "'x ext_scheme \<Rightarrow> node \<Rightarrow> icall \<Rightarrow> bytes \<Rightarrow> instance_sans \<Rightarrow> string \<Rightarrow> (string, api_error) result" where
  "derive_key_inner E nd c tenant_kek_root who purpose =
     refuse_if (\<not> is_key_purpose purpose) malformed
     (and_then (identity_revision (ic_revisions c) who) (\<lambda>r.
      and_then (verify_revision E (db_keys (ic_keys c)) tenant_kek_root (is_compose_hash who) r (signer_of nd)) (\<lambda>ch.
      and_then (org_key E tenant_kek_root (is_org_id who) (chain_anchor_spki ch)) (\<lambda>okey.
      and_then (app_key E okey (is_app_id who) purpose) (\<lambda>key. Ok (b64_enc E key))))))"

definition derive_request_de :: "'x ext_scheme \<Rightarrow> bytes \<Rightarrow> (string, api_error) result" where
  "derive_request_de E bs =
     ok_or (Option.bind (json_events E bs) (\<lambda>v. Option.bind (raw_fields True [(''purpose'', False)] v)
       (\<lambda>m. raw_field m ''purpose'' raw_as_str))) malformed"

definition derive_key :: "'x ext_scheme \<Rightarrow> node \<Rightarrow> icall \<Rightarrow> bytes \<Rightarrow> db \<Rightarrow> (json, api_error) result \<times> db" where
  "derive_key E nd c body d =
     (case intermediates_of nd of
        Err e \<Rightarrow> (Err e, d)
      | Ok keys \<Rightarrow>
          (let request = derive_request_de E body;
               object = (case request of
                           Ok purpose \<Rightarrow> if is_key_purpose purpose then Some (''key:'' @ purpose) else None
                         | Err _ \<Rightarrow> None);
               (actor, org, res) = (case mtls_identity E c keys of
                   Ok who \<Rightarrow> (is_runtime_pubkey_sha256_hex who, Some (is_org_id who),
                             and_then request (derive_key_inner E nd c (im_tenant_kek_root keys) who))
                 | Err e \<Rightarrow> (''unauthenticated'', None, Err e)) in
           (and_then res (\<lambda>k. Ok (jobj [(''key'', JString k)])),
            audit_insert (instance_row actor ''key.derive'' org object res) d)))"

end
