(* ===== verification/Channel_Platform.thy ===== *)
theory Channel_Platform
  imports Channel_Cert Attest_Wire
begin

text \<open>
  \<^verbatim>\<open>crates/alpha-channel/src/platform.rs\<close> and \<^verbatim>\<open>crates/alpha-client/src/platform.rs\<close>: the release key set
  with its threshold, signing the platform document with one key after another, and verifying it;
  with the readers of \<open>PlatformView\<close> and \<open>PlatformDocument\<close>. A verifying key is its 32 bytes. The text
  of the compiled-in key file and its threshold are arguments, as a build chooses them.
\<close>

section \<open>Documents\<close>

record release_signature =
  rs_key :: string
  rs_algorithm :: string
  rs_signature :: string

record signed_document =
  sd_document :: json
  sd_signatures :: "release_signature list"

record platform_view =
  pv_version :: u64
  pv_issued_at :: string
  pv_kms_ca_pem :: string
  pv_kms_revisions :: "kms_revision list"
  pv_signer :: "signer option"
  pv_catalog_key :: "catalog_key option"
  pv_kata_policy :: "kata_policy option"

definition digest_de :: "json \<Rightarrow> compose_hash option" where
  "digest_de v = Option.bind (json_as_str v) compose_hash_from_str"

definition kms_revision_de :: "json \<Rightarrow> kms_revision option" where
  "kms_revision_de v =
     Option.bind (struct_fields False [(''compose_hash'', False), (''build'', False), (''source_url'', False)] v) (\<lambda>m.
     Option.bind (field m ''compose_hash'' digest_de) (\<lambda>h.
     Option.bind (field m ''build'' json_as_str) (\<lambda>b.
     Option.bind (field m ''source_url'' json_as_str) (\<lambda>u.
     Some \<lparr> kr_compose_hash = h, kr_build = b, kr_source_url = u \<rparr>))))"

definition catalog_key_de :: "'x ext_scheme \<Rightarrow> json \<Rightarrow> catalog_key option" where
  "catalog_key_de E v =
     Option.bind (struct_fields False [(''algorithm'', False), (''public_key'', False)] v) (\<lambda>m.
     Option.bind (field m ''algorithm'' json_as_str) (\<lambda>a.
     Option.bind (field m ''public_key'' json_as_str) (\<lambda>k.
     catalog_key_try_from E \<lparr> ck_algorithm = a, ck_public_key = k \<rparr>)))"

definition kata_policy_de :: "json \<Rightarrow> kata_policy option" where
  "kata_policy_de v =
     Option.bind (struct_fields False [(''rules_sha256'', False), (''data_sha256'', False)] v) (\<lambda>m.
     Option.bind (field m ''rules_sha256'' digest_de) (\<lambda>r.
     Option.bind (field m ''data_sha256'' digest_de) (\<lambda>d.
     Some \<lparr> rules_sha256 = r, data_sha256 = d \<rparr>)))"

definition platform_view_de :: "'x ext_scheme \<Rightarrow> json \<Rightarrow> platform_view option" where
  "platform_view_de E v =
     Option.bind (struct_fields False [(''version'', False), (''issued_at'', False), (''kms_ca_pem'', False),
       (''kms_revisions'', False), (''signer'', True), (''catalog_key'', True), (''kata_policy'', True)] v) (\<lambda>m.
     Option.bind (field m ''version'' (de_uint (2 ^ 64 - 1))) (\<lambda>n.
     Option.bind (field m ''issued_at'' json_as_str) (\<lambda>t.
     Option.bind (field m ''kms_ca_pem'' json_as_str) (\<lambda>ca.
     Option.bind (field m ''kms_revisions'' (de_vec kms_revision_de)) (\<lambda>rs.
     Option.bind (opt_field m ''signer'' signer_de) (\<lambda>s.
     Option.bind (opt_field m ''catalog_key'' (catalog_key_de E)) (\<lambda>k.
     Option.bind (opt_field m ''kata_policy'' kata_policy_de) (\<lambda>p.
     Some \<lparr> pv_version = word_of_nat n, pv_issued_at = t, pv_kms_ca_pem = ca, pv_kms_revisions = rs,
            pv_signer = s, pv_catalog_key = k, pv_kata_policy = p \<rparr>))))))))"

definition measurement_de :: "json \<Rightarrow> measurement option" where
  "measurement_de v = Option.bind (json_as_str v) measurement_from_str"

definition attest_policy_de :: "json \<Rightarrow> attest_policy option" where
  "attest_policy_de v =
     Option.bind (struct_fields False [(''tcb_statuses'', False), (''tolerated_advisories'', False)] v) (\<lambda>m.
     Option.bind (field m ''tcb_statuses'' (de_vec json_as_str)) (\<lambda>s.
     Option.bind (field m ''tolerated_advisories'' (de_vec json_as_str)) (\<lambda>a.
     Some \<lparr> tcb_statuses = s, tolerated_advisories = a \<rparr>)))"

definition reference_value_de :: "json \<Rightarrow> reference_value option" where
  "reference_value_de v =
     Option.bind (struct_fields False [(''name'', False), (''values'', False)] v) (\<lambda>m.
     Option.bind (field m ''name'' json_as_str) (\<lambda>n.
     field m ''values'' (\<lambda>w.
     Option.bind (struct_fields False [(''mrtd'', False), (''rtmr0'', False), (''rtmr1'', False), (''rtmr2'', False)] w) (\<lambda>r.
     Option.bind (field r ''mrtd'' measurement_de) (\<lambda>td.
     Option.bind (field r ''rtmr0'' measurement_de) (\<lambda>r0.
     Option.bind (field r ''rtmr1'' measurement_de) (\<lambda>r1.
     Option.bind (field r ''rtmr2'' measurement_de) (\<lambda>r2.
     Some \<lparr> rv_name = n, rv_mrtd = td, rv_rtmr0 = r0, rv_rtmr1 = r1, rv_rtmr2 = r2 \<rparr>))))))))"

text \<open>A \<open>u8\<close> key of a JSON object: the number as JSON writes it.\<close>

definition u8_key :: "string \<Rightarrow> nat option" where
  "u8_key s = Option.bind (parse_uint 255 s) (\<lambda>n. if show_nat n = s then Some n else None)"

fun measurements_de :: "(string \<times> json) list \<Rightarrow> (nat \<rightharpoonup> measurement list) option" where
  "measurements_de [] = Some (\<lambda>_. None)"
| "measurements_de ((k, v) # es) =
     Option.bind (u8_key k) (\<lambda>n.
     Option.bind (de_vec measurement_de v) (\<lambda>ms.
     map_option (\<lambda>f. f(n \<mapsto> ms)) (measurements_de es)))"

definition gpu_reference_de :: "json \<Rightarrow> gpu_reference option" where
  "gpu_reference_de v =
     Option.bind (struct_fields True [(''root_sha256'', False), (''chip'', False), (''project'', False), (''project_sku'', False),
       (''chip_sku'', False), (''vbios_version'', False), (''driver_version'', False), (''fwid'', False),
       (''feature_flag'', False), (''measurements'', False)] v) (\<lambda>m.
     Option.bind (field m ''root_sha256'' digest_de) (\<lambda>root.
     Option.bind (field m ''chip'' json_as_str) (\<lambda>chip.
     Option.bind (field m ''project'' json_as_str) (\<lambda>project.
     Option.bind (field m ''project_sku'' json_as_str) (\<lambda>psku.
     Option.bind (field m ''chip_sku'' json_as_str) (\<lambda>csku.
     Option.bind (field m ''vbios_version'' json_as_str) (\<lambda>vbios.
     Option.bind (field m ''driver_version'' json_as_str) (\<lambda>driver.
     Option.bind (field m ''fwid'' measurement_de) (\<lambda>fwid.
     Option.bind (field m ''feature_flag'' (de_uint 65535)) (\<lambda>flag.
     Option.bind (field m ''measurements'' (\<lambda>w. case w of JObject es \<Rightarrow> measurements_de es | _ \<Rightarrow> None)) (\<lambda>ms.
     Some \<lparr> gr_root_sha256 = root, gr_chip = chip, gr_project = project, gr_project_sku = psku, gr_chip_sku = csku,
            gr_vbios_version = vbios, gr_driver_version = driver, gr_fwid = fwid, gr_feature_flag = flag,
            gr_measurements = ms \<rparr>)))))))))))"

definition kata_gpus_de :: "json \<Rightarrow> kata_gpus option" where
  "kata_gpus_de v =
     Option.bind (struct_fields True [(''count'', False), (''reference_values'', False)] v) (\<lambda>m.
     Option.bind (field m ''count'' (de_uint 255)) (\<lambda>n.
     if n = 0 then None else
     Option.bind (field m ''reference_values'' (de_vec gpu_reference_de)) (\<lambda>rs.
     Some \<lparr> kg_count = n, kg_reference_values = rs \<rparr>)))"

definition bool_de :: "json \<Rightarrow> bool option" where
  "bool_de v = (case v of JBool b \<Rightarrow> Some b | _ \<Rightarrow> None)"

definition kata_reference_de :: "json \<Rightarrow> kata_reference option" where
  "kata_reference_de v =
     Option.bind (struct_fields False [(''runtime_class'', False), (''mrtd'', False), (''rtmr0'', False), (''rtmr1'', False),
       (''rtmr2'', False), (''gpu'', False), (''gpus'', True)] v) (\<lambda>m.
     Option.bind (field m ''runtime_class'' json_as_str) (\<lambda>c.
     Option.bind (field m ''mrtd'' measurement_de) (\<lambda>td.
     Option.bind (field m ''rtmr0'' (de_vec measurement_de)) (\<lambda>r0.
     Option.bind (field m ''rtmr1'' measurement_de) (\<lambda>r1.
     Option.bind (field m ''rtmr2'' measurement_de) (\<lambda>r2.
     Option.bind (field m ''gpu'' bool_de) (\<lambda>g.
     Option.bind (opt_field m ''gpus'' kata_gpus_de) (\<lambda>gs.
     Some \<lparr> kr_runtime_class = c, kr_mrtd = td, kr_rtmr0 = r0, kr_rtmr1 = r1, kr_rtmr2 = r2, kr_gpu = g,
            kr_gpus = gs \<rparr>))))))))"

text \<open>\<open>default\<close> on a field that is not an \<open>Option\<close>: absent is empty, \<open>null\<close> is refused.\<close>

definition kata_references_field :: "(string \<times> json) list \<Rightarrow> kata_reference list option" where
  "kata_references_field m =
     (case map_of m ''kata_reference_values'' of
        None \<Rightarrow> Some []
      | Some v \<Rightarrow> Option.bind (de_vec kata_reference_de v) kata_reference_values)"

definition platform_document_de :: "'x ext_scheme \<Rightarrow> json \<Rightarrow> platform_document option" where
  "platform_document_de E v =
     Option.bind (struct_fields False [(''version'', False), (''issued_at'', False), (''policy'', False),
       (''reference_values'', False), (''kms_ca_pem'', False), (''kms_revisions'', False), (''signer'', True),
       (''catalog_key'', True), (''kata_reference_values'', True), (''kata_policy'', True)] v) (\<lambda>m.
     Option.bind (field m ''version'' (de_uint (2 ^ 64 - 1))) (\<lambda>n.
     Option.bind (field m ''issued_at'' json_as_str) (\<lambda>t.
     Option.bind (field m ''policy'' attest_policy_de) (\<lambda>pol.
     Option.bind (field m ''reference_values'' (de_vec reference_value_de)) (\<lambda>refs.
     Option.bind (field m ''kms_ca_pem'' json_as_str) (\<lambda>ca.
     Option.bind (field m ''kms_revisions'' (de_vec kms_revision_de)) (\<lambda>rs.
     Option.bind (opt_field m ''signer'' signer_de) (\<lambda>s.
     Option.bind (opt_field m ''catalog_key'' (catalog_key_de E)) (\<lambda>k.
     Option.bind (kata_references_field m) (\<lambda>kr.
     Option.bind (opt_field m ''kata_policy'' kata_policy_de) (\<lambda>p.
     Some \<lparr> pd_version = word_of_nat n, pd_issued_at = t, pd_policy = pol, pd_reference_values = refs,
            pd_kms_ca_pem = ca, pd_kms_revisions = rs, pd_signer = s, pd_catalog_key = k,
            pd_kata_reference_values = kr, pd_kata_policy = p \<rparr>)))))))))))"

section \<open>Release keys\<close>

record release_keys =
  rk_keys :: "bytes list"
  rk_threshold :: nat

definition release_keys_new :: "'x ext_scheme \<Rightarrow> bytes list \<Rightarrow> nat \<Rightarrow> (release_keys, chan_error) result" where
  "release_keys_new E keys threshold =
     refuse_if (threshold = 0 \<or> threshold > length keys) Malformed
     (refuse_if (list_ex (ed25519_is_weak E) keys) Malformed
     (refuse_if (length (remdups keys) \<noteq> length keys) Malformed
     (Ok \<lparr> rk_keys = keys, rk_threshold = threshold \<rparr>)))"

definition release_keys_from :: "bytes \<Rightarrow> release_keys" where
  "release_keys_from key = \<lparr> rk_keys = [key], rk_threshold = 1 \<rparr>"

text \<open>\<open>lines\<close> also strips a carriage return, which \<open>trim\<close> does as well.\<close>

definition release_keys_of :: "'x ext_scheme \<Rightarrow> string \<Rightarrow> nat \<Rightarrow> (release_keys, chan_error) result" where
  "release_keys_of E file threshold =
     and_then (collect_results (\<lambda>l. ok_or (Option.bind (hex_bytes 32 l)
         (\<lambda>b. if ed25519_from_bytes E b then Some b else None)) Malformed)
       (filter (\<lambda>l. l \<noteq> []) (map trim (split_on (CHR 0x0A) file)))) (\<lambda>keys.
     release_keys_new E keys threshold)"

section \<open>Signing and verifying\<close>

definition add_signature :: "'x ext_scheme \<Rightarrow> bytes \<Rightarrow> signed_document \<Rightarrow> (signed_document, chan_error) result" where
  "add_signature E key d =
     (let public = b64_enc E (ed25519_public E key) in
      refuse_if (list_ex (\<lambda>s. rs_key s = public) (sd_signatures d)) PlatformSignature
      (and_then (ok_or (signing_digest E PLATFORM (sd_document d)) PlatformSignature) (\<lambda>digest.
       and_then (ok_or (ed25519_sign E key digest) PlatformSignature) (\<lambda>s.
       Ok (d\<lparr> sd_signatures := sd_signatures d @
         [\<lparr> rs_key = public, rs_algorithm = ''ed25519'', rs_signature = b64_enc E s \<rparr>] \<rparr>)))))"

definition platform_sign :: "'x ext_scheme \<Rightarrow> json \<Rightarrow> bytes \<Rightarrow> (signed_document, chan_error) result" where
  "platform_sign E document key = add_signature E key \<lparr> sd_document = document, sd_signatures = [] \<rparr>"

fun count_seen :: "'x ext_scheme \<Rightarrow> bytes \<Rightarrow> bytes list \<Rightarrow> release_signature list \<Rightarrow> bytes list \<Rightarrow>
    (nat, chan_error) result" where
  "count_seen E digest keys [] seen = Ok (length seen)"
| "count_seen E digest keys (s # ss) seen =
     refuse_if (rs_algorithm s \<noteq> ''ed25519'') PlatformSignature
     (and_then (ok_or (Option.bind (b64_dec E (rs_key s)) (\<lambda>b. find (\<lambda>k. k = b) keys)) PlatformSignature) (\<lambda>key.
      refuse_if (key \<in> set seen) PlatformSignature
      (and_then (ok_or (ed25519_signature E (rs_signature s)) PlatformSignature) (\<lambda>signature.
       refuse_if (\<not> ed25519_verify_strict E key digest signature) PlatformSignature
       (count_seen E digest keys ss (seen @ [key])))))) "

definition count_signatures :: "'x ext_scheme \<Rightarrow> signed_document \<Rightarrow> release_keys \<Rightarrow> (nat, chan_error) result" where
  "count_signatures E d keys =
     and_then (ok_or (signing_digest E PLATFORM (sd_document d)) PlatformSignature) (\<lambda>digest.
     count_seen E digest (rk_keys keys) (sd_signatures d) [])"

definition platform_verify :: "'x ext_scheme \<Rightarrow> signed_document \<Rightarrow> release_keys \<Rightarrow> time \<Rightarrow>
    (platform_view, chan_error) result" where
  "platform_verify E d keys now =
     and_then (count_signatures E d keys) (\<lambda>signed_by.
     refuse_if (signed_by < rk_threshold keys) PlatformSignature
     (and_then (ok_or (platform_view_de E (sd_document d)) PlatformSignature) (\<lambda>view.
      and_then (ok_or (rfc3339_parse E (pv_issued_at view)) PlatformSignature) (\<lambda>issued_at.
      and_then (unix_seconds now) (\<lambda>s.
      refuse_if (seconds_of issued_at > s) PlatformSignature (Ok view))))))"

text \<open>\<open>alpha_client::platform::verify\<close>; its own error, \<open>Invalid\<close>, is \<open>Malformed\<close> here.\<close>

definition client_platform_verify :: "'x ext_scheme \<Rightarrow> signed_document \<Rightarrow> release_keys \<Rightarrow> time \<Rightarrow>
    (platform_document, chan_error) result" where
  "client_platform_verify E d keys now =
     and_then (platform_verify E d keys now) (\<lambda>_.
     ok_or (platform_document_de E (sd_document d)) Malformed)"

definition release_signature_de :: "json \<Rightarrow> release_signature option" where
  "release_signature_de v =
     Option.bind (struct_fields True [(''key'', False), (''algorithm'', False), (''signature'', False)] v) (\<lambda>m.
     Option.bind (field m ''key'' json_as_str) (\<lambda>k.
     Option.bind (field m ''algorithm'' json_as_str) (\<lambda>a.
     Option.bind (field m ''signature'' json_as_str) (\<lambda>s.
     Some \<lparr> rs_key = k, rs_algorithm = a, rs_signature = s \<rparr>))))"

definition release_signature_json :: "release_signature \<Rightarrow> json" where
  "release_signature_json s = jobj [(''key'', JString (rs_key s)), (''algorithm'', JString (rs_algorithm s)),
     (''signature'', JString (rs_signature s))]"

section \<open>Lemmas\<close>

lemma struct_fields_open_bind:
  assumes "\<And>m. map_of m = map_of (rev es) \<Longrightarrow> g m = r"
  shows "Option.bind (struct_fields False fs (jobj es)) g = r"
  using struct_fields_jobj [of False es fs] assms by auto

lemma count_seen_Ok:
  assumes "count_seen E digest keys ss seen = Ok n" and "distinct seen"
  shows "\<exists>signers. distinct (seen @ signers) \<and> set signers \<subseteq> set keys \<and> n = length seen + length signers
    \<and> (\<forall>k \<in> set signers. \<exists>g. ed25519_verify_strict E k digest g)"
  using assms
proof (induction ss arbitrary: seen)
  case Nil
  then show ?case by (intro exI [of _ "[]"]) simp
next
  case (Cons s ss)
  from Cons.prems(1) obtain b key g where k: "find (\<lambda>k. k = b) keys = Some key" "key \<notin> set seen"
      "ed25519_verify_strict E key digest g" and r: "count_seen E digest keys ss (seen @ [key]) = Ok n"
    by (auto simp: result_simps bind_eq_Some_conv)
  from Cons.IH [OF r] Cons.prems(2) k(2) obtain signers where
    "distinct ((seen @ [key]) @ signers)" "set signers \<subseteq> set keys" "n = length (seen @ [key]) + length signers"
    "\<forall>k \<in> set signers. \<exists>g. ed25519_verify_strict E k digest g" by auto
  moreover from k(1) have "key \<in> set keys" by (auto simp: find_Some_iff)
  ultimately show ?case using k(3) by (intro exI [of _ "key # signers"]) auto
qed

text \<open>Signing with one key after another, as the release ceremony does.\<close>

fun sign_all :: "'x ext_scheme \<Rightarrow> bytes list \<Rightarrow> signed_document \<Rightarrow> (signed_document, chan_error) result" where
  "sign_all E [] d = Ok d"
| "sign_all E (k # ks) d = and_then (add_signature E k d) (sign_all E ks)"

definition signed_by :: "'x ext_scheme \<Rightarrow> bytes \<Rightarrow> bytes \<Rightarrow> release_signature \<Rightarrow> bool" where
  "signed_by E digest k s \<longleftrightarrow> rs_key s = b64_enc E (ed25519_public E k) \<and> rs_algorithm s = ''ed25519''
     \<and> (\<exists>g. ed25519_sign E k digest = Some g \<and> rs_signature s = b64_enc E g)"

lemma sign_all_Ok:
  assumes "sign_all E ks d = Ok d'" and "signing_digest E PLATFORM (sd_document d) = Some digest"
    and "list_all2 (signed_by E digest) ks0 (sd_signatures d)" and "distinct (map (ed25519_public E) ks0)"
  shows "sd_document d' = sd_document d \<and> list_all2 (signed_by E digest) (ks0 @ ks) (sd_signatures d')
    \<and> distinct (map (ed25519_public E) (ks0 @ ks))"
  using assms
proof (induction ks arbitrary: d ks0)
  case Nil
  then show ?case by simp
next
  case (Cons k ks)
  from Cons.prems(1,2) obtain g where g: "ed25519_sign E k digest = Some g"
    and n: "\<not> list_ex (\<lambda>s. rs_key s = b64_enc E (ed25519_public E k)) (sd_signatures d)"
    and r: "sign_all E ks (d\<lparr> sd_signatures := sd_signatures d @ [\<lparr> rs_key = b64_enc E (ed25519_public E k),
        rs_algorithm = ''ed25519'', rs_signature = b64_enc E g \<rparr>] \<rparr>) = Ok d'" (is "sign_all E ks ?d = _")
    by (auto simp: add_signature_def result_simps Let_def)
  have "ed25519_public E k \<notin> ed25519_public E ` set ks0"
  proof
    assume "ed25519_public E k \<in> ed25519_public E ` set ks0"
    then obtain k0 where "k0 \<in> set ks0" "ed25519_public E k0 = ed25519_public E k" by auto
    with Cons.prems(3) obtain s where "s \<in> set (sd_signatures d)" "signed_by E digest k0 s"
      by (metis in_set_conv_nth list_all2_conv_all_nth)
    with \<open>ed25519_public E k0 = _\<close> n show False by (auto simp: signed_by_def list_ex_iff)
  qed
  then have "distinct (map (ed25519_public E) (ks0 @ [k]))" using Cons.prems(4) by auto
  moreover have "list_all2 (signed_by E digest) (ks0 @ [k]) (sd_signatures ?d)"
    using Cons.prems(3) g by (auto intro!: list_all2_appendI simp: signed_by_def [of E digest k])
  ultimately show ?case using Cons.IH [OF r, of "ks0 @ [k]"] Cons.prems(2) by simp
qed

lemma count_seen_signed:
  assumes "b64_law E" and "ed25519_law E" and "list_all2 (signed_by E digest) ks ss"
    and "distinct (seen @ map (ed25519_public E) ks)" and "ed25519_public E ` set ks \<subseteq> set keys"
  shows "count_seen E digest keys ss seen = Ok (length seen + length ks)"
  using assms(3-)
proof (induction arbitrary: seen rule: list_all2_induct)
  case Nil
  then show ?case by simp
next
  case (Cons k ks s ss)
  from Cons(1) obtain g where g: "ed25519_sign E k digest = Some g" "rs_signature s = b64_enc E g"
    "rs_key s = b64_enc E (ed25519_public E k)" "rs_algorithm s = ''ed25519''" by (auto simp: signed_by_def)
  with assms(2) have v: "length g = 64" "ed25519_verify_strict E (ed25519_public E k) digest g"
    by (auto simp: ed25519_law_def)
  have "find (\<lambda>x. x = ed25519_public E k) keys = Some (ed25519_public E k)"
    by (rule find_unique) (use Cons.prems(2) in auto)
  with Cons.IH [of "seen @ [ed25519_public E k]"] Cons.prems g v assms(1) show ?case
    by (simp add: b64_decode_encode ed25519_signature_def)
qed

section \<open>Properties\<close>

text \<open>
  C4. No document below the threshold: a platform document is accepted only if at least the
  compiled-in number of distinct keys of the release key set signed exactly this document under the
  platform context, and it was issued by now. The threshold is never zero and the keys are distinct,
  so one key cannot count twice.
\<close>

theorem platform_document_signed_by_threshold:
  assumes "release_keys_new E keys n = Ok rk" and "client_platform_verify E d rk now = Ok doc"
  shows "\<exists>signers digest view t. distinct signers \<and> set signers \<subseteq> set keys \<and> 0 < n \<and> n \<le> length signers
    \<and> signing_digest E PLATFORM (sd_document d) = Some digest
    \<and> (\<forall>k \<in> set signers. \<exists>g. ed25519_verify_strict E k digest g)
    \<and> platform_document_de E (sd_document d) = Some doc
    \<and> platform_view_de E (sd_document d) = Some view \<and> rfc3339_parse E (pv_issued_at view) = Some t
    \<and> seconds_of t \<le> seconds_of now"
proof -
  from assms(1) have rk: "rk_keys rk = keys" "rk_threshold rk = n" "0 < n"
    by (auto simp: release_keys_new_def result_simps)
  from assms(2) obtain digest m view t s where d: "signing_digest E PLATFORM (sd_document d) = Some digest"
    and c: "count_seen E digest keys (sd_signatures d) [] = Ok m" and m: "n \<le> m"
    and v: "platform_view_de E (sd_document d) = Some view" "rfc3339_parse E (pv_issued_at view) = Some t"
      "unix_seconds now = Ok s" "seconds_of t \<le> s" "platform_document_de E (sd_document d) = Some doc"
    by (auto simp: client_platform_verify_def platform_verify_def count_signatures_def rk result_simps)
  from count_seen_Ok [OF c] obtain signers where "distinct signers" "set signers \<subseteq> set keys" "m = length signers"
    "\<forall>k \<in> set signers. \<exists>g. ed25519_verify_strict E k digest g" by auto
  moreover from v(3,4) have "seconds_of t \<le> seconds_of now" by (auto simp: unix_seconds_def split: if_split_asm)
  ultimately show ?thesis using d m v rk(3) by blast
qed

text \<open>
  The ceremony works: after one release key after another has signed a document, the signatures
  count as many keys as signed, whatever the order; a key that signs twice is refused.
\<close>

theorem ceremony_counts_signers:
  assumes "b64_law E" and "ed25519_law E" and "sign_all E ks \<lparr> sd_document = doc, sd_signatures = [] \<rparr> = Ok d"
    and "ed25519_public E ` set ks \<subseteq> set (rk_keys rk)" and "ks \<noteq> []"
  shows "count_signatures E d rk = Ok (length ks)"
proof -
  obtain digest where g: "signing_digest E PLATFORM doc = Some digest"
    using assms(3,5) by (cases ks) (auto simp: add_signature_def result_simps Let_def)
  from sign_all_Ok [OF assms(3), of digest "[]"] g have
    "sd_document d = doc" "list_all2 (signed_by E digest) ks (sd_signatures d)" "distinct (map (ed25519_public E) ks)" by simp_all
  with count_seen_signed [OF assms(1,2), of digest ks "sd_signatures d" "[]"] assms(4) g show ?thesis
    by (simp add: count_signatures_def)
qed

text \<open>A document two demo keys sign, for the witnesses.\<close>

definition demo_platform :: json where
  "demo_platform = jobj [(''version'', JNumber (PosInt 3)), (''issued_at'', JString ''t''), (''policy'',
     jobj [(''tcb_statuses'', JArray []), (''tolerated_advisories'', JArray [])]), (''reference_values'', JArray []),
     (''kms_ca_pem'', JString []), (''kms_revisions'', JArray [])]"

definition demo_clock :: ext where "demo_clock = demo\<lparr> rfc3339_parse := \<lambda>_. Some 0 \<rparr>"

definition demo_release :: release_keys where
  "demo_release = \<lparr> rk_keys = [demo_public 31 [1], demo_public 31 [2]], rk_threshold = 2 \<rparr>"

lemma demo_clock_laws: "b64_law demo_clock" "ed25519_law demo_clock"
  using demo_b64 demo_ed25519 by (simp_all add: b64_law_def ed25519_law_def demo_clock_def)

lemma demo_release_new: "release_keys_new demo_clock [demo_public 31 [1], demo_public 31 [2]] 2 = Ok demo_release"
proof -
  have w: "\<not> ed25519_is_weak demo_clock (demo_public 31 k)" for k
    using demo_clock_laws(2) by (simp add: ed25519_law_def) (simp add: demo_clock_def demo_def)
  show ?thesis by (simp add: release_keys_new_def demo_release_def w) (simp add: demo_public_def demo_hash_def)
qed

lemma demo_signed:
  obtains d where "sign_all demo_clock [[1], [2]] \<lparr> sd_document = demo_platform, sd_signatures = [] \<rparr> = Ok d"
    "sd_document d = demo_platform"
proof -
  obtain digest where g: "signing_digest demo_clock PLATFORM demo_platform = Some digest"
    by (simp add: signing_digest_def demo_clock_def demo_def)
  have k: "b64_enc demo_clock (ed25519_public demo_clock [1]) \<noteq> b64_enc demo_clock (ed25519_public demo_clock [2])"
  proof
    assume "b64_enc demo_clock (ed25519_public demo_clock [1]) = b64_enc demo_clock (ed25519_public demo_clock [2])"
    then have "ed25519_public demo_clock [1] = ed25519_public demo_clock [2]"
      using b64_decode_encode [OF demo_clock_laws(1)] by (metis option.inject)
    then show False by (simp add: demo_clock_def demo_def demo_public_def demo_hash_def)
  qed
  have s: "ed25519_sign demo_clock k m = Some (demo_hash 64 (demo_public 31 k @ m))" for k m
    by (simp add: demo_clock_def demo_def)
  obtain d where d: "sign_all demo_clock [[1], [2]] \<lparr> sd_document = demo_platform, sd_signatures = [] \<rparr> = Ok d"
    using g k by (simp add: add_signature_def Let_def s)
  with sign_all_Ok [OF d, of digest "[]"] g show ?thesis by (intro that [OF d]) simp
qed

lemma demo_document: "platform_document_de demo_clock demo_platform = Some \<lparr> pd_version = 3, pd_issued_at = ''t'',
    pd_policy = \<lparr> tcb_statuses = [], tolerated_advisories = [] \<rparr>, pd_reference_values = [], pd_kms_ca_pem = [],
    pd_kms_revisions = [], pd_signer = None, pd_catalog_key = None, pd_kata_reference_values = [], pd_kata_policy = None \<rparr>"
proof -
  have "attest_policy_de (jobj [(''tcb_statuses'', JArray []), (''tolerated_advisories'', JArray [])]) =
      Some \<lparr> tcb_statuses = [], tolerated_advisories = [] \<rparr>"
    unfolding attest_policy_de_def by (rule struct_fields_jobj_bind) (simp_all add: field_def de_vec_def)
  then show ?thesis unfolding platform_document_de_def demo_platform_def
    by (intro struct_fields_jobj_bind)
      (simp_all add: field_def opt_field_def de_vec_def de_uint_def kata_references_field_def)
qed

lemma demo_view: "\<exists>view. platform_view_de demo_clock demo_platform = Some view"
  unfolding platform_view_de_def demo_platform_def
  by (rule exI, rule struct_fields_open_bind) (simp add: field_def opt_field_def de_vec_def de_uint_def)

theorem platform_document_signed_by_threshold_witness:
  "\<exists>d doc signers. client_platform_verify demo_clock d demo_release 0 = Ok doc \<and> distinct signers
     \<and> set signers \<subseteq> {demo_public 31 [1], demo_public 31 [2]} \<and> 2 \<le> length signers"
proof -
  obtain d where d: "sign_all demo_clock [[1], [2]] \<lparr> sd_document = demo_platform, sd_signatures = [] \<rparr> = Ok d"
      "sd_document d = demo_platform" by (rule demo_signed)
  obtain digest where g: "signing_digest demo_clock PLATFORM demo_platform = Some digest"
    by (simp add: signing_digest_def demo_clock_def demo_def)
  from sign_all_Ok [OF d(1), of digest "[]"] g
  have l: "list_all2 (signed_by demo_clock digest) [[1], [2]] (sd_signatures d)"
    "distinct (map (ed25519_public demo_clock) [[1], [2]])" by simp_all
  have "ed25519_public demo_clock ` set [[1], [2]] \<subseteq> set (rk_keys demo_release)"
    by (simp add: demo_release_def demo_clock_def demo_def)
  with count_seen_signed [OF demo_clock_laws l(1), of "[]"] l(2)
  have c: "count_seen demo_clock digest (rk_keys demo_release) (sd_signatures d) [] = Ok 2" by simp
  have t: "rfc3339_parse demo_clock x = Some 0" for x by (simp add: demo_clock_def)
  obtain view where v: "platform_view_de demo_clock demo_platform = Some view" using demo_view by blast
  obtain doc where "client_platform_verify demo_clock d demo_release 0 = Ok doc"
    by (simp add: client_platform_verify_def platform_verify_def count_signatures_def d(2) g c v t demo_document
        unix_seconds_def seconds_of_def demo_release_def [THEN arg_cong, of rk_threshold])
  with platform_document_signed_by_threshold [OF demo_release_new this] show ?thesis by auto
qed

theorem ceremony_counts_signers_witness:
  "\<exists>d. sign_all demo_clock [[1], [2]] \<lparr> sd_document = demo_platform, sd_signatures = [] \<rparr> = Ok d
     \<and> count_signatures demo_clock d demo_release = Ok 2"
proof -
  obtain d where d: "sign_all demo_clock [[1], [2]] \<lparr> sd_document = demo_platform, sd_signatures = [] \<rparr> = Ok d"
    by (rule demo_signed)
  with ceremony_counts_signers [OF demo_clock_laws d, of demo_release] show ?thesis
    by (auto simp: demo_release_def demo_clock_def demo_def)
qed

end
