(* ===== verification/Crypto_Hpke.thy ===== *)
theory Crypto_Hpke
  imports Demo Core_Json Attest_Wire
begin

text \<open>
  \<^verbatim>\<open>crates/alpha-crypto/src/lib.rs\<close>: single-shot HPKE with the X-Wing KEM for the bodies that cross a
  custodian's boundary. A private key is its 32-byte seed, a public key its 1216 bytes; HPKE itself
  is a parameter, with its randomness as an argument.
\<close>

section \<open>Keys\<close>

definition INFO_UNSEAL_SHARE :: bytes where "INFO_UNSEAL_SHARE = as_bytes ''alphacompute/unseal-share/v1''"
definition INFO_NODE_BOOTSTRAP :: bytes where "INFO_NODE_BOOTSTRAP = as_bytes ''alphacompute/node-bootstrap/v1''"
definition KEM_NAME :: string where "KEM_NAME = ''x-wing''"
definition PUBLIC_KEY_LEN :: nat where "PUBLIC_KEY_LEN = 1216"

datatype crypto_error = BadPublicKey | BadKem string | BadEncoding | NotOpened | RngFailed | BadSeed | BadAad | NotSealed

definition private_key_from_seed :: "'x ext_scheme \<Rightarrow> bytes \<Rightarrow> (bytes, crypto_error) result" where
  "private_key_from_seed E seed = refuse_if (\<not> xwing_private_ok E seed) BadSeed (Ok seed)"

definition private_key_generate :: "'x ext_scheme \<Rightarrow> bytes option \<Rightarrow> (bytes, crypto_error) result" where
  "private_key_generate E rnd = and_then (ok_or rnd RngFailed) (private_key_from_seed E)"

definition public_key_try_from :: "'x ext_scheme \<Rightarrow> bytes \<Rightarrow> (bytes, crypto_error) result" where
  "public_key_try_from E bs =
     refuse_if (length bs \<noteq> PUBLIC_KEY_LEN) BadPublicKey
     (refuse_if (\<not> xwing_public_ok E bs) BadPublicKey (Ok bs))"

definition public_key_de :: "'x ext_scheme \<Rightarrow> json \<Rightarrow> bytes option" where
  "public_key_de E v =
     Option.bind (json_as_str v) (\<lambda>t.
     Option.bind (b64_dec E t) (\<lambda>bs. to_option (public_key_try_from E bs)))"

definition public_key_json :: "'x ext_scheme \<Rightarrow> bytes \<Rightarrow> json" where
  "public_key_json E k = JString (b64_enc E k)"

section \<open>Boxes\<close>

record sealed_box =
  sx_kem :: string
  sx_enc :: string
  sx_ct :: string

definition sealed_box_de :: "json \<Rightarrow> sealed_box option" where
  "sealed_box_de v =
     Option.bind (struct_fields True [(''kem'', False), (''enc'', False), (''ct'', False)] v) (\<lambda>m.
     Option.bind (field m ''kem'' json_as_str) (\<lambda>k.
     Option.bind (field m ''enc'' json_as_str) (\<lambda>e.
     Option.bind (field m ''ct'' json_as_str) (\<lambda>c.
     Some \<lparr> sx_kem = k, sx_enc = e, sx_ct = c \<rparr>))))"

definition sealed_box_json :: "sealed_box \<Rightarrow> json" where
  "sealed_box_json s = jobj [(''kem'', JString (sx_kem s)), (''enc'', JString (sx_enc s)), (''ct'', JString (sx_ct s))]"

definition hpke_aad :: "'x ext_scheme \<Rightarrow> bytes \<Rightarrow> (bytes, crypto_error) result" where
  "hpke_aad E spki_sha256 =
     ok_or (jcs E (jobj [(''kms_node_spki_sha256'', JString (''sha256:'' @ hex_encode spki_sha256))])) BadAad"

definition hpke_seal :: "'x ext_scheme \<Rightarrow> bytes \<Rightarrow> bytes \<Rightarrow> bytes \<Rightarrow> bytes \<Rightarrow> bytes \<Rightarrow> (sealed_box, crypto_error) result" where
  "hpke_seal E rnd recipient info spki_sha256 plaintext =
     refuse_if (\<not> xwing_public_ok E recipient) BadPublicKey
     (and_then (hpke_aad E spki_sha256) (\<lambda>aad.
      and_then (ok_or (hpke_single_shot_seal E rnd recipient info plaintext aad) NotSealed) (\<lambda>(enc, ct).
      Ok \<lparr> sx_kem = KEM_NAME, sx_enc = b64_enc E enc, sx_ct = b64_enc E ct \<rparr>)))"

definition hpke_open :: "'x ext_scheme \<Rightarrow> bytes \<Rightarrow> bytes \<Rightarrow> bytes \<Rightarrow> sealed_box \<Rightarrow> (bytes, crypto_error) result" where
  "hpke_open E key info spki_sha256 s =
     refuse_if (sx_kem s \<noteq> KEM_NAME) (BadKem (sx_kem s))
     (and_then (ok_or (Option.bind (b64_dec E (sx_enc s)) (\<lambda>b. if xwing_encapped_ok E b then Some b else None)) BadEncoding) (\<lambda>enc.
      and_then (ok_or (b64_dec E (sx_ct s)) BadEncoding) (\<lambda>ct.
      and_then (hpke_aad E spki_sha256) (\<lambda>aad.
      ok_or (hpke_single_shot_open E key enc info ct aad) NotOpened))))"

section \<open>Properties\<close>

lemma sealed_box_de_json: "sealed_box_de (sealed_box_json s) = Some s"
  unfolding sealed_box_de_def sealed_box_json_def by (rule struct_fields_jobj_bind) (simp_all add: field_def)

lemma hpke_open_seal:
  assumes "b64_law E" and "hpke_box_law E" and "hpke_seal E r (xwing_public E sk) info h m = Ok s"
  shows "hpke_open E sk info h s = Ok m"
proof -
  from assms(3) obtain aad enc ct where a: "hpke_aad E h = Ok aad"
    and b: "hpke_single_shot_seal E r (xwing_public E sk) info m aad = Some (enc, ct)"
    and s: "s = \<lparr> sx_kem = KEM_NAME, sx_enc = b64_enc E enc, sx_ct = b64_enc E ct \<rparr>"
    by (auto simp: hpke_seal_def result_simps)
  from b assms(2) have "xwing_encapped_ok E enc" "hpke_single_shot_open E sk enc info ct aad = Some m"
    by (auto simp: hpke_box_law_def)
  with a assms(1) show ?thesis by (simp add: hpke_open_def s b64_decode_encode)
qed

end
