(* ===== verification/Kms_Node.thy ===== *)
theory Kms_Node
  imports Kms_Instance Channel_Platform Crypto_Hpke
begin

text \<open>
  \<^verbatim>\<open>services/alpha-kms/src/node.rs\<close> and \<^verbatim>\<open>platform.rs\<close> with the phase of \<^verbatim>\<open>lib.rs\<close> and the listener's
  certificate of \<^verbatim>\<open>tls.rs\<close>: bootstrap on an empty database, unseal from shares, join from another node,
  and the platform document a node holds and stores. A handler takes the node with its database and
  returns its reply beside the new state, which keeps what the handler had changed before it failed.
  A query of a Kata node needs a password the role accepts; no other connection fails. What a call
  takes from outside is in \<open>ncall\<close>: the clock at its successive readings, what it draws, the document
  server's answer, the node's quote, the collateral, the client certificate and the \<open>ts\<close> column of
  the audit rows, in their order.
\<close>

section \<open>State\<close>

record platform_row =
  pr_version :: int
  pr_document :: json
  pr_signatures :: "json option"

record node_db =
  nb_db :: db
  nb_intermediates :: "(string \<times> bytes \<times> bytes option) list"
  nb_platform :: "platform_row option"
  nb_role :: string

record full_node = node +
  nd_spki :: bytes
  nd_pkcs8 :: bytes
  nd_xwing :: bytes
  nd_compose_hash :: compose_hash
  nd_release_keys :: release_keys
  nd_kata :: bool
  nd_dev_root :: "bytes option"
  nd_password :: "string option"
  nd_cert :: "bytes list"

record world =
  w_node :: full_node
  w_db :: node_db

record ncall =
  nc_now :: time
  nc_leaf_now :: time
  nc_doc_now :: time
  nc_root :: "bytes option"
  nc_tenant :: "bytes option"
  nc_ca_key :: bytes
  nc_ca_serial :: "bytes option"
  nc_wrap :: "string \<Rightarrow> bytes option"
  nc_salt :: "bytes option"
  nc_shamir :: bytes
  nc_seal :: "nat \<Rightarrow> bytes"
  nc_leaf_serial :: "bytes option"
  nc_fetch :: "signed_document option"
  nc_quote :: "bytes \<Rightarrow> instance_evidence option"
  nc_collateral :: "(collateral, appraisal_error) result"
  nc_peer :: "bytes list"
  nc_audit_ts :: "time list"
  nc_db_now :: time

type_synonym 'a handled = "('a, api_error) result \<times> world"

definition is_sealed :: "full_node \<Rightarrow> bool" where
  "is_sealed nd = (case nd_phase nd of Sealed _ \<Rightarrow> True | Serving _ \<Rightarrow> False)"

definition has_database :: "full_node \<Rightarrow> bool" where
  "has_database nd \<longleftrightarrow> \<not> nd_kata nd \<or> \<not> is_sealed nd"

definition serving_keys :: "full_node \<Rightarrow> (intermediates, api_error) result" where
  "serving_keys nd = (case nd_phase nd of Serving keys \<Rightarrow> Ok keys | Sealed _ \<Rightarrow> Err (ApiError ''sealed''))"

definition use_database_password :: "string \<Rightarrow> world \<Rightarrow> world" where
  "use_database_password p w = w\<lparr> w_node := (w_node w)\<lparr> nd_password := Some p \<rparr> \<rparr>"

definition reachable :: "'x ext_scheme \<Rightarrow> world \<Rightarrow> bool" where
  "reachable E w \<longleftrightarrow> \<not> nd_kata (w_node w)
     \<or> (case nd_password (w_node w) of None \<Rightarrow> False | Some p \<Rightarrow> pg_login E (nb_role (w_db w)) p)"

definition query :: "'x ext_scheme \<Rightarrow> world \<Rightarrow> ('a, api_error) result \<Rightarrow> ('a, api_error) result" where
  "query E w r = refuse_if (\<not> reachable E w) internal r"

definition node_audit :: "string \<Rightarrow> string \<Rightarrow> audit_details \<Rightarrow> audit" where
  "node_audit action oc details =
     \<lparr> au_actor_kind = ''node'', au_actor = ''node'', au_action = action, au_org_id = None, au_object = None,
       au_outcome = oc, au_details = details, au_evidence_sha256 = None \<rparr>"

definition insert_audit :: "audit \<Rightarrow> world \<Rightarrow> world" where
  "insert_audit a w = w\<lparr> w_db := (w_db w)\<lparr> nb_db := audit_insert a (nb_db (w_db w)) \<rparr> \<rparr>"

section \<open>Serving\<close>

definition certified :: "'x ext_scheme \<Rightarrow> bytes \<Rightarrow> bytes list \<Rightarrow> (bytes list, api_error) result" where
  "certified E pkcs8 chain = refuse_if (\<not> load_private_key_ok E pkcs8) internal (Ok chain)"

definition issue_own_leaf :: "'x ext_scheme \<Rightarrow> ncall \<Rightarrow> intermediates \<Rightarrow> full_node \<Rightarrow> (full_node, api_error) result" where
  "issue_own_leaf E c keys nd =
     and_then (key_pair E (im_ca_key_der keys)) (\<lambda>ca_key.
     and_then (issue_leaf E (nc_leaf_serial c) ca_key (im_ca_cert_der keys) (nd_spki nd)
                 (node_sans (nd_compose_hash nd)) None (nc_leaf_now c)) (\<lambda>leaf.
     and_then (certified E (nd_pkcs8 nd) [leaf, im_ca_cert_der keys]) (\<lambda>chain.
     Ok (nd\<lparr> nd_cert := chain \<rparr>))))"

definition start_serving :: "'x ext_scheme \<Rightarrow> ncall \<Rightarrow> intermediates \<Rightarrow> full_node \<Rightarrow> (full_node, api_error) result" where
  "start_serving E c keys nd =
     and_then (issue_own_leaf E c keys nd) (\<lambda>nd'. Ok (nd'\<lparr> nd_phase := Serving keys \<rparr>))"

definition renew_leaf :: "'x ext_scheme \<Rightarrow> ncall \<Rightarrow> full_node \<Rightarrow> full_node" where
  "renew_leaf E c nd =
     (case and_then (serving_keys nd) (\<lambda>keys. issue_own_leaf E c keys nd) of Ok nd' \<Rightarrow> nd' | Err _ \<Rightarrow> nd)"

definition node_new :: "'x ext_scheme \<Rightarrow> bytes option \<Rightarrow> bytes option \<Rightarrow> bytes option \<Rightarrow> (bytes \<Rightarrow> bytes) \<Rightarrow> bytes \<Rightarrow>
    compose_hash \<Rightarrow> release_keys \<Rightarrow> bool \<Rightarrow> bytes option \<Rightarrow> time \<Rightarrow> (full_node, api_error) result" where
  "node_new E key_rnd seed serial pkcs8_of nonce_key h keys kata dev_root now =
     and_then (ok_or key_rnd internal) (\<lambda>key.
     refuse_if (\<not> p256_secret_ok E key) internal
     (and_then (ok_or (p256_to_spki E (p256_public E key)) internal) (\<lambda>spki.
      and_then (key_pair E (pkcs8_of key)) (\<lambda>kp.
      and_then (self_signed E serial kp now) (\<lambda>cert.
      and_then (certified E (pkcs8_of key) [cert]) (\<lambda>chain.
      and_then (map_err (\<lambda>_. internal) (private_key_generate E seed)) (\<lambda>xwing.
      Ok \<lparr> nd_phase = Sealed [], nd_platform = None, nd_runtime_key = key, nd_nonce_key = nonce_key, nd_spki = spki,
           nd_pkcs8 = pkcs8_of key, nd_xwing = xwing, nd_compose_hash = h, nd_release_keys = keys, nd_kata = kata,
           nd_dev_root = dev_root, nd_password = None, nd_cert = chain \<rparr>)))))))"

section \<open>The platform document\<close>

definition load_stored :: "'x ext_scheme \<Rightarrow> ncall \<Rightarrow> world \<Rightarrow> ((platform_document \<times> signed_document) option, api_error) result" where
  "load_stored E c w =
     query E w
       (case nb_platform (w_db w) of
          None \<Rightarrow> Ok None
        | Some row \<Rightarrow>
            (case pr_signatures row of
               None \<Rightarrow> Ok None
             | Some signatures \<Rightarrow>
                 and_then (ok_or (de_vec release_signature_de signatures) internal) (\<lambda>ss.
                 (let d = \<lparr> sd_document = pr_document row, sd_signatures = ss \<rparr> in
                  and_then (map_err (\<lambda>_. internal) (client_platform_verify E d (nd_release_keys (w_node w)) (nc_doc_now c)))
                    (\<lambda>doc. Ok (Some (doc, d)))))))"

definition remember :: "platform_document \<Rightarrow> full_node \<Rightarrow> full_node" where
  "remember doc nd =
     (case nd_platform nd of
        None \<Rightarrow> nd\<lparr> nd_platform := Some doc \<rparr>
      | Some d \<Rightarrow> if pd_version d < pd_version doc then nd\<lparr> nd_platform := Some doc \<rparr> else nd)"

definition opt_int_json :: "int option \<Rightarrow> json" where
  "opt_int_json v = (case v of None \<Rightarrow> JNull | Some n \<Rightarrow> JNumber (number_from_i64 (word_of_int n)))"

definition store_document :: "platform_document \<Rightarrow> signed_document \<Rightarrow> int \<Rightarrow> int option \<Rightarrow> world \<Rightarrow> unit handled" where
  "store_document doc sdoc version stored w =
     (let row = \<lparr> pr_version = version, pr_document = sd_document sdoc,
                  pr_signatures = Some (JArray (map release_signature_json (sd_signatures sdoc))) \<rparr>;
          w1 = w\<lparr> w_db := (w_db w)\<lparr> nb_platform := Some row \<rparr> \<rparr>;
          w2 = insert_audit (node_audit ''platform.reload'' ''ok''
                 (Details (jobj [(''version'', opt_int_json (Some version)), (''previous'', opt_int_json stored)]))) w1 in
      (Ok (), w2\<lparr> w_node := remember doc (w_node w2) \<rparr>))"

definition apply_document :: "'x ext_scheme \<Rightarrow> platform_document \<times> signed_document \<Rightarrow> world \<Rightarrow> unit handled" where
  "apply_document E v w =
     (let doc = fst v; sdoc = snd v; version = int (unat (pd_version doc));
          stored = map_option pr_version (nb_platform (w_db w)) in
      if version \<ge> 2 ^ 31 then (Err internal, w)
      else if \<not> reachable E w then (Err internal, w)
      else (case stored of
              Some n \<Rightarrow>
                if n > version then
                  (Err internal, insert_audit (node_audit ''platform.reload'' ''denied''
                     (Details (jobj [(''version'', opt_int_json (Some version)), (''stored'', opt_int_json (Some n))]))) w)
                else if n = version then (Ok (), w\<lparr> w_node := remember doc (w_node w) \<rparr>)
                else store_document doc sdoc version stored w
            | None \<Rightarrow> store_document doc sdoc version stored w))"

definition reload :: "'x ext_scheme \<Rightarrow> ncall \<Rightarrow> world \<Rightarrow> unit handled" where
  "reload E c w =
     (case and_then (ok_or (nc_fetch c) internal) (\<lambda>sdoc.
             and_then (map_err (\<lambda>_. internal) (client_platform_verify E sdoc (nd_release_keys (w_node w)) (nc_doc_now c)))
               (\<lambda>doc. Ok (doc, sdoc))) of
        Err e \<Rightarrow> (Err e, w)
      | Ok v \<Rightarrow>
          if \<not> has_database (w_node w) then (Ok (), w\<lparr> w_node := remember (fst v) (w_node w) \<rparr>)
          else apply_document E v w)"

definition platform_start :: "'x ext_scheme \<Rightarrow> ncall \<Rightarrow> world \<Rightarrow> world" where
  "platform_start E c w =
     (let w1 = (if has_database (w_node w) then
                  (case load_stored E c w of
                     Ok (Some v) \<Rightarrow> w\<lparr> w_node := remember (fst v) (w_node w) \<rparr>
                   | _ \<Rightarrow> w)
                else w) in
      snd (reload E c w1))"

definition on_database :: "'x ext_scheme \<Rightarrow> ncall \<Rightarrow> world \<Rightarrow> world" where
  "on_database E c w = (if nd_kata (w_node w) then platform_start E c w else w)"

section \<open>Bootstrap\<close>

record bootstrap_body =
  bb_custodians :: "bytes list"
  bb_database_password :: "string option"

definition raw_public_key :: "'x ext_scheme \<Rightarrow> raw \<Rightarrow> bytes option" where
  "raw_public_key E v =
     Option.bind (raw_as_str v) (\<lambda>t. Option.bind (b64_dec E t) (\<lambda>b. to_option (public_key_try_from E b)))"

definition bootstrap_body_de :: "'x ext_scheme \<Rightarrow> bytes \<Rightarrow> bootstrap_body option" where
  "bootstrap_body_de E bs =
     Option.bind (json_events E bs) (\<lambda>v.
     Option.bind (raw_fields True [(''custodians'', False), (''database_password'', True)] v) (\<lambda>m.
     Option.bind (raw_field m ''custodians'' (raw_vec (raw_public_key E))) (\<lambda>ks.
     if length ks \<noteq> 3 then None else
     Option.bind (raw_opt_field m ''database_password'' raw_as_str) (\<lambda>p.
     Some \<lparr> bb_custodians = ks, bb_database_password = p \<rparr>))))"

definition box_request_de :: "string \<Rightarrow> json \<Rightarrow> sealed_box option" where
  "box_request_de name v =
     Option.bind (struct_fields True [(name, False)] v) (\<lambda>m. field m name sealed_box_de)"

definition runtime_spki_sha256 :: "'x ext_scheme \<Rightarrow> full_node \<Rightarrow> bytes" where
  "runtime_spki_sha256 E nd = sha256 E (nd_spki nd)"

definition root_kek :: "ncall \<Rightarrow> full_node \<Rightarrow> (bytes, api_error) result" where
  "root_kek c nd = (case nd_dev_root nd of Some root \<Rightarrow> Ok root | None \<Rightarrow> ok_or (nc_root c) internal)"

definition role_password :: "'x ext_scheme \<Rightarrow> ncall \<Rightarrow> bytes \<Rightarrow> (string \<times> string, api_error) result" where
  "role_password E c root =
     and_then (database_password E root) (\<lambda>password.
     and_then (ok_or (nc_salt c) internal) (\<lambda>salt.
     and_then (scram_verifier E password salt) (\<lambda>verifier. Ok (password, verifier))))"

definition set_role_password :: "'x ext_scheme \<Rightarrow> ncall \<Rightarrow> bytes \<Rightarrow> world \<Rightarrow> string handled" where
  "set_role_password E c root w =
     (case and_then (role_password E c root) (query E w \<circ> Ok) of
        Err e \<Rightarrow> (Err e, w)
      | Ok (password, verifier) \<Rightarrow> (Ok password, w\<lparr> w_db := (w_db w)\<lparr> nb_role := verifier \<rparr> \<rparr>))"

text \<open>The transaction: the keys made, the rows inserted, and the database and password after the commit.\<close>

definition bootstrap_rows :: "'x ext_scheme \<Rightarrow> ncall \<Rightarrow> bytes \<Rightarrow> intermediates \<Rightarrow>
    ((string \<times> bytes \<times> bytes option) list, api_error) result" where
  "bootstrap_rows E c root keys =
     and_then (aead_seal E (nc_wrap c ''tenant-kek-root'') root (as_bytes ''tenant-kek-root'') (im_tenant_kek_root keys)) (\<lambda>t.
     and_then (aead_seal E (nc_wrap c ''ca'') root (as_bytes ''ca'') (im_ca_key_der keys)) (\<lambda>ca.
     Ok [(''tenant-kek-root'', t, None), (''ca'', ca, Some (im_ca_cert_der keys))]))"

definition bootstrap_commit :: "'x ext_scheme \<Rightarrow> ncall \<Rightarrow> world \<Rightarrow>
    (bytes \<times> intermediates \<times> string option \<times> node_db, api_error) result" where
  "bootstrap_commit E c w =
     and_then (root_kek c (w_node w)) (\<lambda>root.
     and_then (ok_or (nc_tenant c) internal) (\<lambda>tenant.
     and_then (new_ca E (nc_ca_key c) (nc_ca_serial c) (nc_now c)) (\<lambda>(ca_key, ca_cert).
     (let keys = \<lparr> im_tenant_kek_root = tenant, im_ca_key_der = ca_key, im_ca_cert_der = ca_cert \<rparr> in
      query E w
        (and_then (bootstrap_rows E c root keys) (\<lambda>rows.
         (let fresh = filter (\<lambda>r. map_of (nb_intermediates (w_db w)) (fst r) = None) rows in
          refuse_if (length fresh \<noteq> 2) (ApiError ''already_exists'')
          (let d = (w_db w)\<lparr> nb_intermediates := nb_intermediates (w_db w) @ fresh,
                 nb_db := audit_insert (node_audit ''node.bootstrap'' ''ok'' (Details (jobj []))) (nb_db (w_db w)) \<rparr> in
           if nd_kata (w_node w) then
             and_then (role_password E c root) (\<lambda>(password, verifier).
             Ok (root, keys, Some password, d\<lparr> nb_role := verifier \<rparr>))
           else Ok (root, keys, None, d))))))))) "

fun seal_shares :: "'x ext_scheme \<Rightarrow> ncall \<Rightarrow> nat \<Rightarrow> bytes \<Rightarrow> (bytes \<times> bytes) list \<Rightarrow> (sealed_box list, api_error) result" where
  "seal_shares E c i h [] = Ok []"
| "seal_shares E c i h ((share, custodian) # rest) =
     and_then (map_err (\<lambda>_. internal) (hpke_seal E (nc_seal c i) custodian INFO_UNSEAL_SHARE h share)) (\<lambda>s.
     and_then (seal_shares E c (Suc i) h rest) (\<lambda>ss. Ok (s # ss)))"

definition bootstrap_payload :: "'x ext_scheme \<Rightarrow> sealed_box list \<Rightarrow> intermediates \<Rightarrow> json" where
  "bootstrap_payload E boxes keys =
     jobj [(''shares_hpke'', JArray (map sealed_box_json boxes)), (''kms_ca_pem'', JString (cert_pem E (im_ca_cert_der keys)))]"

definition bootstrap_open :: "'x ext_scheme \<Rightarrow> full_node \<Rightarrow> bytes \<Rightarrow> (bootstrap_body, api_error) result" where
  "bootstrap_open E nd bs =
     and_then (body_from_request E (box_request_de ''body_hpke'') bs) (\<lambda>(request, _).
     refuse_if (\<not> is_sealed nd) (ApiError ''already_exists'')
     (and_then (map_err (\<lambda>_. malformed) (hpke_open E (nd_xwing nd) INFO_NODE_BOOTSTRAP (runtime_spki_sha256 E nd) request)) (\<lambda>plain.
      and_then (ok_or (bootstrap_body_de E plain) malformed) (\<lambda>body.
      refuse_if (nd_kata nd \<and> bb_database_password body = None) malformed (Ok body)))))"

definition bootstrap_reply :: "'x ext_scheme \<Rightarrow> ncall \<Rightarrow> bytes list \<Rightarrow> bytes \<Rightarrow> intermediates \<Rightarrow> full_node \<Rightarrow>
    (json \<times> bytes, api_error) result" where
  "bootstrap_reply E c custodians root keys nd =
     and_then (ok_or (shamir_split E (nc_shamir c) root) internal) (\<lambda>shares.
     and_then (seal_shares E c 0 (runtime_spki_sha256 E nd) (zip shares custodians)) (\<lambda>boxes.
     and_then (ok_or (signing_digest E NODE_BOOTSTRAP (bootstrap_payload E boxes keys)) internal) (\<lambda>digest.
     Ok (bootstrap_payload E boxes keys, digest))))"

definition bootstrap_signature :: "'x ext_scheme \<Rightarrow> bytes \<Rightarrow> bytes \<Rightarrow> json" where
  "bootstrap_signature E key digest =
     jobj [(''algorithm'', JString ''ecdsa-p256''), (''signature'', JString (b64_enc E (case p256_sign E key digest of Some s \<Rightarrow> s | None \<Rightarrow> [])))]"

definition bootstrap :: "'x ext_scheme \<Rightarrow> ncall \<Rightarrow> bytes \<Rightarrow> world \<Rightarrow> json handled" where
  "bootstrap E c bs w =
     (case bootstrap_open E (w_node w) bs of
        Err e \<Rightarrow> (Err e, w)
      | Ok body \<Rightarrow>
          (let w1 = (case bb_database_password body of
                       Some p \<Rightarrow> if nd_kata (w_node w) then use_database_password p w else w
                     | None \<Rightarrow> w) in
           (case bootstrap_commit E c w1 of
              Err e \<Rightarrow> (Err e, w1)
            | Ok (root, keys, password, d) \<Rightarrow>
                (let w2 = w1\<lparr> w_db := d \<rparr>;
                     w3 = (case password of Some p \<Rightarrow> use_database_password p w2 | None \<Rightarrow> w2) in
                 (case bootstrap_reply E c (bb_custodians body) root keys (w_node w3) of
                    Err e \<Rightarrow> (Err e, w3)
                  | Ok (payload, digest) \<Rightarrow>
                      (case start_serving E c keys (w_node w3) of
                         Err e \<Rightarrow> (Err e, w3)
                       | Ok nd \<Rightarrow>
                           (Ok (jobj [(''payload'', payload),
                                      (''signature'', bootstrap_signature E (nd_runtime_key nd) digest)]),
                            on_database E c (w3\<lparr> w_node := nd \<rparr>))))))))"

section \<open>Unseal\<close>

definition unwrap_row :: "'x ext_scheme \<Rightarrow> bytes \<Rightarrow> string \<Rightarrow> bytes option \<Rightarrow> (bytes, api_error) result" where
  "unwrap_row E root purpose wrapped = ok_or (Option.bind wrapped (aead_open E root (as_bytes purpose))) malformed"

definition unwrap_intermediates :: "'x ext_scheme \<Rightarrow> bytes \<Rightarrow> world \<Rightarrow> (intermediates, api_error) result" where
  "unwrap_intermediates E root w =
     query E w
       (let rows = nb_intermediates (w_db w); ca = map_of rows ''ca'' in
        and_then (unwrap_row E root ''tenant-kek-root'' (map_option fst (map_of rows ''tenant-kek-root''))) (\<lambda>tenant.
        refuse_if (length tenant \<noteq> 32) internal
        (and_then (unwrap_row E root ''ca'' (map_option fst ca)) (\<lambda>ca_key.
         Ok \<lparr> im_tenant_kek_root = tenant, im_ca_key_der = ca_key,
              im_ca_cert_der = (case Option.bind ca snd of Some cert \<Rightarrow> cert | None \<Rightarrow> []) \<rparr>))))"

definition serve_from_root :: "'x ext_scheme \<Rightarrow> ncall \<Rightarrow> bytes \<Rightarrow> world \<Rightarrow> unit handled" where
  "serve_from_root E c root w =
     (case (if nd_kata (w_node w) then and_then (database_password E root) (\<lambda>p. Ok (use_database_password p w)) else Ok w) of
        Err e \<Rightarrow> (Err e, w)
      | Ok w1 \<Rightarrow>
          (case unwrap_intermediates E root w1 of
             Err e \<Rightarrow> (Err e, w1)
           | Ok keys \<Rightarrow>
               (case (if nd_kata (w_node w1) then set_role_password E c root w1 else (Ok [], w1)) of
                  (Err e, w2) \<Rightarrow> (Err e, w2)
                | (Ok _, w2) \<Rightarrow>
                    (case start_serving E c keys (w_node w2) of
                       Err e \<Rightarrow> (Err e, w2)
                     | Ok nd \<Rightarrow> (Ok (), on_database E c (w2\<lparr> w_node := nd \<rparr>))))))"

definition unseal_outcome :: "'x ext_scheme \<Rightarrow> ncall \<Rightarrow> bytes list \<Rightarrow> world \<Rightarrow> unit handled" where
  "unseal_outcome E c collected w =
     (case Option.bind (shamir_combine E collected) (\<lambda>r. if length r = 32 then Some r else None) of
        None \<Rightarrow> (Err malformed, w)
      | Some root \<Rightarrow> serve_from_root E c root w)"

definition set_phase :: "phase \<Rightarrow> world \<Rightarrow> world" where
  "set_phase p w = w\<lparr> w_node := (w_node w)\<lparr> nd_phase := p \<rparr> \<rparr>"

definition clear_shares :: "world \<Rightarrow> world" where
  "clear_shares w = (if is_sealed (w_node w) then set_phase (Sealed []) w else w)"

definition unseal_reply :: "bool \<Rightarrow> nat \<Rightarrow> json" where
  "unseal_reply sealed shares = jobj [(''sealed'', JBool sealed), (''shares'', jnat shares)]"

definition unseal :: "'x ext_scheme \<Rightarrow> ncall \<Rightarrow> bytes \<Rightarrow> world \<Rightarrow> json handled" where
  "unseal E c bs w =
     (case and_then (body_from_request E (box_request_de ''share_hpke'') bs) (\<lambda>(request, _).
             map_err (\<lambda>_. malformed) (hpke_open E (nd_xwing (w_node w)) INFO_UNSEAL_SHARE (runtime_spki_sha256 E (w_node w)) request)) of
        Err e \<Rightarrow> (Err e, w)
      | Ok share \<Rightarrow>
          (case nd_phase (w_node w) of
             Serving _ \<Rightarrow> (Err (ApiError ''already_exists''), w)
           | Sealed shares \<Rightarrow>
               (let collected = (if share \<in> set shares then shares else shares @ [share]);
                    w1 = set_phase (Sealed collected) w in
                if length collected < 2 then (Ok (unseal_reply True (length collected)), w1)
                else (case unseal_outcome E c collected w1 of
                        (Err e, w2) \<Rightarrow>
                          (let w3 = clear_shares w2 in
                           (Err e, if reachable E w3 then insert_audit (node_audit ''node.unseal'' ''denied'' (ErrorDetails e)) w3
                                   else w3))
                      | (Ok _, w2) \<Rightarrow>
                          if reachable E w2 then
                            (Ok (unseal_reply False 2), insert_audit (node_audit ''node.unseal'' ''ok'' (Details (jobj []))) w2)
                          else (Err internal, w2)))))"

section \<open>Join\<close>

record join_request =
  jq_nonce :: string
  jq_evidence :: instance_evidence
  jq_xwing_pubkey :: bytes

definition join_request_de :: "'x ext_scheme \<Rightarrow> json \<Rightarrow> join_request option" where
  "join_request_de E v =
     Option.bind (struct_fields True [(''nonce'', False), (''evidence'', False), (''xwing_pubkey'', False)] v) (\<lambda>m.
     Option.bind (field m ''nonce'' json_as_str) (\<lambda>n.
     Option.bind (field m ''evidence'' (instance_evidence_de E)) (\<lambda>ev.
     Option.bind (field m ''xwing_pubkey'' (public_key_de E)) (\<lambda>x.
     Some \<lparr> jq_nonce = n, jq_evidence = ev, jq_xwing_pubkey = x \<rparr>))))"

definition join_requested :: "'x ext_scheme \<Rightarrow> ncall \<Rightarrow> db \<Rightarrow> bytes \<Rightarrow> bool" where
  "join_requested E c d spki =
     list_ex (\<lambda>(a, ts). au_action a = ''node.join.request'' \<and> au_outcome a = ''ok''
       \<and> (case au_details a of
            Details v \<Rightarrow> Option.bind (json_get v ''runtime_pubkey_sha256'') json_as_str = Some (sha256_hex E spki)
          | ErrorDetails _ \<Rightarrow> False)
       \<and> ts > nc_db_now c - 600 * 1000000000) (zip (db_audit d) (nc_audit_ts c))"

definition join_inner :: "'x ext_scheme \<Rightarrow> ncall \<Rightarrow> bytes \<Rightarrow> join_request \<Rightarrow> world \<Rightarrow> (compose_hash, api_error) result" where
  "join_inner E c spki request w =
     (let nd = w_node w in
      and_then (serving_keys nd) (\<lambda>_.
      and_then (decode32 E (jq_nonce request)) (\<lambda>n32.
      and_then (check_nonce E (nd_nonce_key nd) n32 (nc_now c)) (\<lambda>_.
      and_then (ok_or (nd_platform nd) (ApiError ''attestation_unknown'')) (\<lambda>doc.
      and_then (map_err appraisal_api_error (nc_collateral c)) (\<lambda>coll.
      and_then (map_err appraisal_api_error (appraise_instance E (jq_evidence request) n32 spki
                  (Some (jq_xwing_pubkey request)) doc coll (nc_now c))) (\<lambda>a.
      if is_kata (jq_evidence request) then Ok (ap_compose_hash a)
      else query E w (refuse_if (\<not> join_requested E c (nb_db (w_db w)) spki) not_found (Ok (ap_compose_hash a))))))))))"

definition join_details :: "'x ext_scheme \<Rightarrow> bytes \<Rightarrow> (compose_hash, api_error) result \<Rightarrow> audit" where
  "join_details E spki res =
     (case res of
        Ok h \<Rightarrow> node_audit ''node.join'' ''ok'' (Details (jobj [(''runtime_pubkey_sha256'', JString (sha256_hex E spki)),
                 (''compose_hash'', JString (compose_hash_show h))]))
      | Err e \<Rightarrow> node_audit ''node.join'' (outcome e) (ErrorDetails e))"

definition opt_str_json :: "string option \<Rightarrow> json" where
  "opt_str_json v = (case v of None \<Rightarrow> JNull | Some s \<Rightarrow> JString s)"

definition join_reply_json :: "'x ext_scheme \<Rightarrow> intermediates \<Rightarrow> string option \<Rightarrow> json" where
  "join_reply_json E keys password =
     jobj [(''tenant_kek_root'', JString (b64_enc E (im_tenant_kek_root keys))), (''ca_key'', JString (b64_enc E (im_ca_key_der keys))),
           (''ca_cert'', JString (b64_enc E (im_ca_cert_der keys))), (''database_password'', opt_str_json password)]"

definition join_checks :: "'x ext_scheme \<Rightarrow> ncall \<Rightarrow> bytes \<Rightarrow> (bytes \<times> join_request, api_error) result" where
  "join_checks E c bs =
     and_then (body_from_request E (join_request_de E) bs) (\<lambda>(request, _).
     (case nc_peer c of
        [] \<Rightarrow> Err cert_invalid
      | leaf # _ \<Rightarrow> and_then (map_err (\<lambda>_. cert_invalid) (spki_of E leaf)) (\<lambda>spki. Ok (spki, request))))"

definition join_node :: "'x ext_scheme \<Rightarrow> ncall \<Rightarrow> bytes \<Rightarrow> world \<Rightarrow> json handled" where
  "join_node E c bs w =
     (case join_checks E c bs of
        Err e \<Rightarrow> (Err e, w)
      | Ok (spki, request) \<Rightarrow>
          (let res = join_inner E c spki request w in
           if \<not> reachable E w then (Err internal, w)
           else (and_then res (\<lambda>_. and_then (serving_keys (w_node w)) (\<lambda>keys.
                   Ok (join_reply_json E keys (nd_password (w_node w))))),
                 insert_audit (join_details E spki res) w)))"

record join_reply =
  jr_tenant_kek_root :: string
  jr_ca_key :: string
  jr_ca_cert :: string
  jr_database_password :: "string option"

definition join_reply_de :: "json \<Rightarrow> join_reply option" where
  "join_reply_de v =
     Option.bind (struct_fields False [(''tenant_kek_root'', False), (''ca_key'', False), (''ca_cert'', False),
       (''database_password'', True)] v) (\<lambda>m.
     Option.bind (field m ''tenant_kek_root'' json_as_str) (\<lambda>t.
     Option.bind (field m ''ca_key'' json_as_str) (\<lambda>k.
     Option.bind (field m ''ca_cert'' json_as_str) (\<lambda>c.
     Option.bind (opt_field m ''database_password'' json_as_str) (\<lambda>p.
     Some \<lparr> jr_tenant_kek_root = t, jr_ca_key = k, jr_ca_cert = c, jr_database_password = p \<rparr>)))))"

text \<open>
  \<open>JoinRequest\<close> as the client writes it, and the other node as seen over the network: what it answers to a
  request on the shared database, and the database after it.
\<close>

definition join_request_json :: "'x ext_scheme \<Rightarrow> join_request \<Rightarrow> json" where
  "join_request_json E q =
     jobj [(''nonce'', JString (jq_nonce q)), (''evidence'', instance_evidence_json E (jq_evidence q)),
           (''xwing_pubkey'', public_key_json E (jq_xwing_pubkey q))]"

type_synonym peer = "json \<Rightarrow> node_db \<Rightarrow> json option \<times> node_db"

definition join_fields :: "'x ext_scheme \<Rightarrow> join_reply \<Rightarrow> (intermediates, api_error) result" where
  "join_fields E r =
     and_then (ok_or (Option.bind (b64_dec E (jr_tenant_kek_root r)) (\<lambda>t. if length t = 32 then Some t else None)) internal) (\<lambda>t.
     and_then (ok_or (b64_dec E (jr_ca_key r)) internal) (\<lambda>k.
     and_then (ok_or (b64_dec E (jr_ca_cert r)) internal) (\<lambda>cert.
     Ok \<lparr> im_tenant_kek_root = t, im_ca_key_der = k, im_ca_cert_der = cert \<rparr>)))"

definition pinned_ok :: "'x ext_scheme \<Rightarrow> ncall \<Rightarrow> nat \<Rightarrow> world \<Rightarrow> (unit, api_error) result" where
  "pinned_ok E c pinned_version w =
     and_then (load_stored E c w) (\<lambda>stored.
     refuse_if (case stored of Some (doc, _) \<Rightarrow> unat (pd_version doc) > pinned_version | None \<Rightarrow> False) internal (Ok ()))"

definition join_credential :: "'x ext_scheme \<Rightarrow> ncall \<Rightarrow> nat \<Rightarrow> join_reply \<Rightarrow> world \<Rightarrow> unit handled" where
  "join_credential E c pinned_version r w =
     (if \<not> nd_kata (w_node w) then (Ok (), w)
      else (case jr_database_password r of
              None \<Rightarrow> (Err internal, w)
            | Some p \<Rightarrow> (let w' = use_database_password p w in (pinned_ok E c pinned_version w', w'))))"

definition join_request_row :: "'x ext_scheme \<Rightarrow> string \<Rightarrow> bytes \<Rightarrow> audit" where
  "join_request_row E endpoint spki =
     node_audit ''node.join.request'' ''ok'' (Details (jobj [(''runtime_pubkey_sha256'', JString (sha256_hex E spki)),
       (''endpoint'', JString endpoint)]))"

definition join_receive :: "'x ext_scheme \<Rightarrow> ncall \<Rightarrow> nat \<Rightarrow> json option \<Rightarrow> world \<Rightarrow> unit handled" where
  "join_receive E c pinned_version answer w =
     (case Option.bind answer join_reply_de of
        None \<Rightarrow> (Err internal, w)
      | Some r \<Rightarrow>
          (case Option.bind (b64_dec E (jr_tenant_kek_root r)) (\<lambda>t. if length t = 32 then Some t else None) of
             None \<Rightarrow> (Err internal, w)
           | Some _ \<Rightarrow>
               (case join_credential E c pinned_version r w of
                  (Err e, w') \<Rightarrow> (Err e, w')
                | (Ok _, w') \<Rightarrow>
                    (case and_then (join_fields E r) (\<lambda>keys. start_serving E c keys (w_node w')) of
                       Err e \<Rightarrow> (Err e, w')
                     | Ok nd \<Rightarrow> (Ok (), on_database E c (w'\<lparr> w_node := nd \<rparr>))))))"

definition join_announce :: "'x ext_scheme \<Rightarrow> string \<Rightarrow> world \<Rightarrow> world" where
  "join_announce E endpoint w =
     (if nd_kata (w_node w) then w else insert_audit (join_request_row E endpoint (nd_spki (w_node w))) w)"

definition join_via :: "'x ext_scheme \<Rightarrow> ncall \<Rightarrow> string option \<Rightarrow> peer \<Rightarrow> string \<Rightarrow> nat \<Rightarrow> world \<Rightarrow> unit handled" where
  "join_via E c peer_nonce peer endpoint pinned_version w =
     (case and_then (ok_or peer_nonce internal) (\<lambda>t. and_then (decode32 E t) (\<lambda>n. Ok (t, n))) of
        Err e \<Rightarrow> (Err e, w)
      | Ok (nonce_text, n32) \<Rightarrow>
          (let nd = w_node w; w1 = join_announce E endpoint w; xwing = xwing_public E (nd_xwing nd) in
           (case nc_quote c (report_data E (nd_spki nd) n32 (Some xwing)) of
              None \<Rightarrow> (Err internal, w1)
            | Some ev \<Rightarrow>
                (let (answer, d) = peer (join_request_json E \<lparr> jq_nonce = nonce_text, jq_evidence = ev, jq_xwing_pubkey = xwing \<rparr>)
                                     (w_db w1) in
                 join_receive E c pinned_version answer (w1\<lparr> w_db := d \<rparr>)))))"

text \<open>The other nodes in the order of the configuration: whether a client for it could be made, whether it is ready, and how it answers.\<close>

record endpoint =
  ep_url :: string
  ep_client :: "(unit, api_error) result"
  ep_ready :: bool
  ep_nonce :: "string option"
  ep_peer :: peer

fun try_endpoints :: "'x ext_scheme \<Rightarrow> ncall \<Rightarrow> nat \<Rightarrow> endpoint list \<Rightarrow> world \<Rightarrow> unit handled" where
  "try_endpoints E c pinned [] w = (Err internal, w)"
| "try_endpoints E c pinned (ep # eps) w =
     (case ep_client ep of
        Err e \<Rightarrow> (Err e, w)
      | Ok _ \<Rightarrow>
          if \<not> ep_ready ep then try_endpoints E c pinned eps w
          else (case join_via E c (ep_nonce ep) (ep_peer ep) (ep_url ep) pinned w of
                  (Ok _, w') \<Rightarrow> (Ok (), w')
                | (Err _, w') \<Rightarrow> try_endpoints E c pinned eps w'))"

definition try_join :: "'x ext_scheme \<Rightarrow> ncall \<Rightarrow> endpoint list \<Rightarrow> world \<Rightarrow> unit handled" where
  "try_join E c eps w =
     (case nd_platform (w_node w) of
        None \<Rightarrow> (Err internal, w)
      | Some doc \<Rightarrow> try_endpoints E c (unat (pd_version doc)) eps w)"

section \<open>Evidence and the gate\<close>

definition node_evidence :: "'x ext_scheme \<Rightarrow> ncall \<Rightarrow> string \<Rightarrow> full_node \<Rightarrow> (json, api_error) result" where
  "node_evidence E c nonce_text nd =
     and_then (decode32 E nonce_text) (\<lambda>n32.
     (let xwing = xwing_public E (nd_xwing nd) in
      and_then (ok_or (nc_quote c (report_data E (nd_spki nd) n32 (Some xwing))) internal) (\<lambda>ev.
      Ok (case instance_evidence_json E ev of
            JObject m \<Rightarrow> JObject (foldl (\<lambda>m e. map_insert (fst e) (snd e) m) m
              [(''runtime_pubkey'', JString (b64_enc E (nd_spki nd))), (''xwing_pubkey'', public_key_json E xwing),
               (''compose_hash'', JString (compose_hash_show (nd_compose_hash nd)))])
          | v \<Rightarrow> v))))"

definition gate_exempt :: "string \<Rightarrow> bool" where
  "gate_exempt path \<longleftrightarrow> starts_with ''/v1/node/'' path \<or> path = ''/healthz'' \<or> path = ''/ready''"

definition gate :: "bool \<Rightarrow> full_node \<Rightarrow> string \<Rightarrow> (unit, api_error) result" where
  "gate token nd path =
     refuse_if (\<not> token) (ApiError ''rate_limited'')
     (refuse_if (\<not> gate_exempt path \<and> is_sealed nd) (ApiError ''sealed'') (Ok ()))"

definition ready :: "'x ext_scheme \<Rightarrow> world \<Rightarrow> (nat \<times> json, api_error) result" where
  "ready E w =
     (if is_sealed (w_node w) then Ok (503, jobj [(''sealed'', JBool True)])
      else query E w (Ok (200, jobj [(''sealed'', JBool False)])))"

end
