(* ===== verification/Kms_Instance_Spec.thy ===== *)
theory Kms_Instance_Spec
  imports Kms_Instance
begin

text \<open>
  What the Instance API promises: the window of the nonce, the two kinds of leaf that cannot be
  taken for one another, that a stored Secret is released as it was put and only to an App its
  signed document names, and what an issued leaf certifies.
\<close>

section \<open>Lemmas\<close>

lemma verify_signed_key:
  assumes "verify_signed E rows kek s ctx doc t sp = Ok ch"
  shows "so_key_id s = Some (k_id (chain_key ch)) \<and> load_key rows (k_id (chain_key ch)) = Some (chain_key ch)"
proof -
  from assms obtain i first where i: "so_key_id s = Some i" "load_key rows i = Some first"
    and w: "walk_links E rows kek sp first (Some first) None t 0 = Ok ch"
    by (auto simp: verify_signed_def walk_chain_def result_simps)
  from w have "chain_key ch = first" using walk_links_iff [of 0 E rows kek sp first first None t ch] by auto
  moreover have "k_id first = i" using i(2) by (auto simp: load_key_def find_Some_iff key_row.truncate_def)
  ultimately show ?thesis using i by simp
qed

lemma parse_sans_of_instance:
  "uuid_law E \<Longrightarrow> length key = 32 \<Longrightarrow> length h = 32 \<Longrightarrow>
   parse_instance_sans E (sans_of_instance E org app (hex_encode key) h) =
    Ok \<lparr> is_org_id = org, is_app_id = app, is_runtime_pubkey_sha256_hex = hex_encode key, is_compose_hash = h \<rparr>"
  using parse_instance_names by (simp add: sans_of_instance_def)

lemma trim_sha256_text: "trim_start_matches ''sha256:'' (sha256_text E b) = hex_encode (sha256 E b)"
proof -
  have "strip_prefix ''sha256:'' (hex_encode x) = None" for x
  proof (rule ccontr)
    assume "strip_prefix ''sha256:'' (hex_encode x) \<noteq> None"
    then obtain r where "hex_encode x = CHR ''s'' # r" by auto
    then have "CHR ''s'' \<in> set (hex_encode x)" by simp
    then show False by (auto dest: hex_encode_hex simp: hex_value_def code_def)
  qed
  then have "trim_start_matches ''sha256:'' (hex_encode x) = hex_encode x" for x
    by (subst trim_start_matches.simps) simp
  then show ?thesis by (subst trim_start_matches.simps) (simp add: sha256_text_def strip_prefix_def)
qed

lemma appraised_key:
  "appraise_instance E ev n spki x doc coll now = Ok a \<Longrightarrow> ap_runtime_pubkey_sha256 a = sha256_text E spki"
  by (cases ev) (auto simp: appraise_instance_def appraise_def appraise_kata_evidence_def result_simps Let_def)

lemma ocsp_requests_length: "ocsp_requests E c i qs = Ok ns \<Longrightarrow> length ns = length qs"
  by (induction qs arbitrary: i ns) (auto simp: result_simps)

lemma ocsp_checks_all:
  "ocsp_checks E c i qs ns = Ok () \<Longrightarrow> length ns = length qs \<Longrightarrow> q \<in> set qs \<Longrightarrow>
   \<exists>answer n. ocsp_check E q answer n (ic_clock c) = Ok ()"
proof (induction E c i qs ns rule: ocsp_checks.induct)
  case (1 E c i q' qs n ns)
  then show ?case by (cases "q = q'") (auto simp: result_simps)
qed auto

lemma unix_of_seconds: "unix (int ts * 1000000000) = ts"
  by (simp add: unix_def seconds_of_def)

lemma nonce_at_time: "ts < 2 ^ 63 \<Longrightarrow> from_be (take 8 (nonce_at E key ts)) = ts"
  by (simp add: nonce_at_def from_be_be_bytes)

lemma put_checks_Ok:
  assumes "put_checks E nd keys c name b request = Ok k"
  shows "secret_payload_de E (pb_payload b) = Some (pc_payload k) \<and> sp_name (pc_payload k) = name
    \<and> sp_content_sha256 (pc_payload k) = ''sha256:'' @ hex_encode (pc_content k) \<and> sha256 E (pc_value k) = pc_content k
    \<and> SECRET_SALT_LEN \<le> length (pc_value k) \<and> pc_at k = sp_issued_at (pc_payload k)
    \<and> verify_signed E (db_keys (c_snap c)) (im_tenant_kek_root keys) (pb_signature b) SECRET (pb_payload b)
        (sp_issued_at (pc_payload k)) (signer_of nd) = Ok (pc_chain k)"
proof -
  from assms obtain p vl content ch where p: "secret_payload_de E (pb_payload b) = Some p" "sp_name p = name"
    and c: "Option.bind (strip_prefix ''sha256:'' (sp_content_sha256 p)) (hex_bytes 32) = Some content"
    and v: "SECRET_SALT_LEN \<le> length vl" "sha256 E vl = content" "within_window (sp_issued_at p) (c_now c) = Ok (pc_at k)"
    and a: "authorize E nd keys c SECRET \<lparr> sb_payload = pb_payload b, sb_signature = pb_signature b \<rparr> (pc_at k) = Ok ch"
    and k: "k = \<lparr> pc_payload = p, pc_content = content, pc_value = vl, pc_at = pc_at k, pc_chain = ch \<rparr>"
    by (auto simp: put_checks_def result_simps not_less)
  have "sp_content_sha256 p = ''sha256:'' @ hex_encode content"
    using c by (auto simp: bind_eq_Some_conv hex.enc_dec)
  moreover have at: "pc_at k = sp_issued_at p" using v(3) by (auto simp: within_window_def result_simps)
  moreover have "verify_signed E (db_keys (c_snap c)) (im_tenant_kek_root keys) (pb_signature b) SECRET (pb_payload b) (sp_issued_at p)
        (signer_of nd) = Ok ch" using a unfolding at by (auto simp: authorize_def result_simps)
  moreover have "pc_payload k = p" "pc_content k = content" "pc_value k = vl" "pc_chain k = ch"
    by (subst k, simp)+
  ultimately show ?thesis using p v by simp
qed

lemma put_commit_row:
  assumes "put_commit E keys c name b k d = Ok (resp, d')"
  obtains i okey aad box where "org_key E (im_tenant_kek_root keys) (k_org_id (chain_key (pc_chain k))) (chain_anchor_spki (pc_chain k)) = Ok okey"
    and "secret_aad E i (pb_payload b) = Ok aad" and "aead_seal E (c_nonce c) okey aad (pc_value k) = Ok box"
    and "db_secrets d' = upsert_secret \<lparr> se_id = i, se_org_id = k_org_id (chain_key (pc_chain k)), se_name = name,
          se_app_ids = sp_app_ids (pc_payload k), se_ciphertext = box,
          se_content_sha256 = pc_content k, se_document = pb_payload b, se_signed_by_key = k_id (chain_key (pc_chain k)),
          se_signature = signature_object_json E (pb_signature b), se_issued_at = timestamptz E (pc_at k),
          se_deleted_at = None \<rparr> (db_secrets d)"
    and "\<forall>r. find_secret d (k_org_id (chain_key (pc_chain k))) name = Some r \<longrightarrow> i = se_id r"
proof -
  let ?org = "k_org_id (chain_key (pc_chain k))"
  from assms obtain i okey aad box where
    i: "(case find_secret d ?org name of None \<Rightarrow> Ok (c_mint c)
        | Some row \<Rightarrow> if se_issued_at row \<ge> pc_at k then Err (ApiError ''already_exists'') else Ok (se_id row)) = Ok i"
    and o: "org_key E (im_tenant_kek_root keys) ?org (chain_anchor_spki (pc_chain k)) = Ok okey"
      "secret_aad E i (pb_payload b) = Ok aad" "aead_seal E (c_nonce c) okey aad (pc_value k) = Ok box"
    and d': "db_secrets d' = upsert_secret \<lparr> se_id = i, se_org_id = ?org, se_name = name,
          se_app_ids = sp_app_ids (pc_payload k), se_ciphertext = box,
          se_content_sha256 = pc_content k, se_document = pb_payload b, se_signed_by_key = k_id (chain_key (pc_chain k)),
          se_signature = signature_object_json E (pb_signature b), se_issued_at = timestamptz E (pc_at k),
          se_deleted_at = None \<rparr> (db_secrets d)"
    unfolding put_commit_def Let_def by (auto simp: result_simps audited_def)
  have "\<forall>r. find_secret d ?org name = Some r \<longrightarrow> i = se_id r" using i by (auto split: if_split_asm)
  from that [OF o d' this] show thesis .
qed

lemma upsert_secret_mem:
  assumes "\<forall>r. find_secret d (se_org_id s) (se_name s) = Some r \<longrightarrow> se_id s = se_id r"
  shows "s \<in> set (upsert_secret s (db_secrets d))"
proof (cases "find_secret d (se_org_id s) (se_name s)")
  case None
  then show ?thesis by (simp add: upsert_secret_append)
next
  case (Some r)
  from find_secret_Some [OF Some] assms Some
  have "r \<in> set (db_secrets d)" "se_org_id r = se_org_id s" "se_name r = se_name s" "s = s\<lparr> se_id := se_id r \<rparr>"
    by (simp_all add: secret_slot_def)
  then show ?thesis unfolding upsert_secret_map [OF Some] list.set_map by (intro image_eqI [of _ _ r]) simp_all
qed

section \<open>Properties\<close>

text \<open>
  A nonce is accepted exactly in the 300 seconds from its minting on, by the holder of the key
  that minted it, whichever 32 bytes are presented.
\<close>

theorem check_nonce_iff:
  "check_nonce E key n now = Ok () \<longleftrightarrow>
    (\<exists>ts < 2 ^ 63. n = nonce_at E key ts \<and> ts \<le> unix now \<and> unix now \<le> ts + NONCE_MAX_AGE)"
proof
  assume "check_nonce E key n now = Ok ()"
  then show "\<exists>ts < 2 ^ 63. n = nonce_at E key ts \<and> ts \<le> unix now \<and> unix now \<le> ts + NONCE_MAX_AGE"
    by (intro exI [of _ "from_be (take 8 n)"])
      (auto simp: check_nonce_def Let_def result_simps mint_nonce_def unix_of_seconds not_le)
next
  assume "\<exists>ts < 2 ^ 63. n = nonce_at E key ts \<and> ts \<le> unix now \<and> unix now \<le> ts + NONCE_MAX_AGE"
  then show "check_nonce E key n now = Ok ()"
    by (auto simp: check_nonce_def Let_def nonce_at_time mint_nonce_def unix_of_seconds refuse_if_def)
qed

text \<open>
  The names the KMS writes on a leaf are the ones it reads back, and no leaf plays two roles: an
  Instance's names parse to its organization, App, key and Revision and are refused as a node's, and
  a node's names parse to its Revision and are refused as an Instance's.
\<close>

theorem leaf_names_separate_roles:
  assumes "uuid_law E" and "length key = 32" and "length h = 32"
  shows "parse_instance_sans E (sans_of_instance E org app (hex_encode key) h) =
      Ok \<lparr> is_org_id = org, is_app_id = app, is_runtime_pubkey_sha256_hex = hex_encode key, is_compose_hash = h \<rparr>
    \<and> parse_kms_sans (sans_of_instance E org app (hex_encode key) h) = Err ForeignCertificate
    \<and> parse_kms_sans (node_sans h) = Ok h \<and> parse_instance_sans E (node_sans h) = Err ForeignCertificate"
proof (intro conjI)
  show "parse_instance_sans E (sans_of_instance E org app (hex_encode key) h) =
      Ok \<lparr> is_org_id = org, is_app_id = app, is_runtime_pubkey_sha256_hex = hex_encode key, is_compose_hash = h \<rparr>"
    using assms by (rule parse_sans_of_instance)
  have "''alphacompute://'' @ uuid_show E org @ ''/'' @ x \<noteq> KMS_SAN" for x
  proof
    assume "''alphacompute://'' @ uuid_show E org @ ''/'' @ x = KMS_SAN"
    then have "uuid_show E org @ CHR ''/'' # x = ''kms''" by (simp add: KMS_SAN_def)
    then have "CHR ''/'' \<in> set ''kms''" by (metis in_set_conv_decomp)
    then show False by simp
  qed
  then show "parse_kms_sans (sans_of_instance E org app (hex_encode key) h) = Err ForeignCertificate"
    by (simp add: parse_kms_sans_def sans_of_instance_def)
  show "parse_kms_sans (node_sans h) = Ok h"
    using assms(3) by (simp add: parse_kms_sans_def node_sans_def parse_revision_san_show)
  show "parse_instance_sans E (node_sans h) = Err ForeignCertificate"
    by (simp add: parse_instance_sans_def node_sans_def KMS_SAN_def strip_prefix_def)
qed

theorem leaf_names_separate_roles_witness:
  "parse_kms_sans (sans_of_instance demo 1 2 (hex_encode (replicate 32 3)) (replicate 32 4)) = Err ForeignCertificate
     \<and> parse_kms_sans (node_sans (replicate 32 4)) = Ok (replicate 32 4)"
  using leaf_names_separate_roles [OF demo_uuid, of "replicate 32 3" "replicate 32 4" 1 2] by simp

lemma release_after_put:
  assumes "uuid_law E" and "aead_law E" and "timestamptz_law E" and "db_ok E d"
    and checks: "put_checks E nd keys c name b request = Ok k" and commit: "put_commit E keys c name b k d = Ok (resp, d')"
    and n: "c_nonce c = Some n" "length n = 12" and app: "app \<in> set (sp_app_ids (pc_payload k))"
  shows "release_secret E d' (db_keys (c_snap c)) (im_tenant_kek_root keys) (signer_of nd)
      (k_org_id (chain_key (pc_chain k))) app name =
    Ok \<lparr> re_value = drop SECRET_SALT_LEN (pc_value k), re_content_sha256 = sp_content_sha256 (pc_payload k),
         re_issued_at = sp_issued_at (pc_payload k) \<rparr>"
proof -
  let ?org = "k_org_id (chain_key (pc_chain k))"
  note p = put_checks_Ok [OF checks]
  obtain i okey aad box where o: "org_key E (im_tenant_kek_root keys) ?org (chain_anchor_spki (pc_chain k)) = Ok okey"
      "secret_aad E i (pb_payload b) = Ok aad" and s: "aead_seal E (c_nonce c) okey aad (pc_value k) = Ok box"
    and d': "db_secrets d' = upsert_secret \<lparr> se_id = i, se_org_id = ?org, se_name = name,
          se_app_ids = sp_app_ids (pc_payload k), se_ciphertext = box,
          se_content_sha256 = pc_content k, se_document = pb_payload b, se_signed_by_key = k_id (chain_key (pc_chain k)),
          se_signature = signature_object_json E (pb_signature b), se_issued_at = timestamptz E (pc_at k),
          se_deleted_at = None \<rparr> (db_secrets d)" (is "_ = upsert_secret ?row _")
    and i: "\<forall>r. find_secret d ?org name = Some r \<longrightarrow> i = se_id r"
    by (rule put_commit_row [OF commit]) (rule that; assumption)
  have m: "?row \<in> set (db_secrets d')" unfolding d' by (rule upsert_secret_mem) (use i in simp)
  have "db_ok E d'" using db_step_ok [OF put_commit_step [OF commit, THEN conjunct1]] assms(3,4) by blast
  then have inj: "inj_on secret_slot (set (db_secrets d'))" by (simp add: db_ok_def secrets_ok_def distinct_map)
  have "find (\<lambda>s. se_org_id s = ?org \<and> se_name s = name \<and> app \<in> set (se_app_ids s) \<and> se_deleted_at s = None)
      (db_secrets d') = Some ?row"
  proof (rule find_unique [OF m])
    fix y
    assume "y \<in> set (db_secrets d')"
      and "se_org_id y = ?org \<and> se_name y = name \<and> app \<in> set (se_app_ids y) \<and> se_deleted_at y = None"
    with m show "y = ?row" using inj_onD [OF inj, of y ?row] by (simp add: secret_slot_def)
  qed (use app in simp)
  moreover have "aead_open E okey aad box = Some (pc_value k)"
    using s n by (auto simp: aead_seal_def aead_open_def result_simps aead_iff [OF assms(2)])
  moreover have "so_key_id (pb_signature b) = Some (k_id (chain_key (pc_chain k)))" using verify_signed_key p by blast
  ultimately show ?thesis using p o app
    by (simp add: release_secret_def signature_object_roundtrip [OF assms(1)] Let_def)
qed

text \<open>A value put under the demo root key, for the witnesses.\<close>

definition demo_value :: bytes where "demo_value = replicate 33 9"

definition demo_secret_doc :: json where
  "demo_secret_doc = jobj [(''name'', JString ''s''), (''app_ids'', JArray [JString (uuid_show demo_kms 5)]),
     (''content_sha256'', JString (''sha256:'' @ hex_encode (sha256 demo_kms demo_value))), (''issued_at'', JString ''t'')]"

definition demo_secret_body :: put_body where
  "demo_secret_body = \<lparr> pb_payload = demo_secret_doc, pb_signature = demo_sign (Some 1) SECRET demo_secret_doc,
     pb_value = Some (b64_enc demo_kms demo_value), pb_sealed = None \<rparr>"

definition demo_checked :: put_checked where
  "demo_checked = \<lparr> pc_payload = \<lparr> sp_name = ''s'', sp_app_ids = [5],
       sp_content_sha256 = ''sha256:'' @ hex_encode (sha256 demo_kms demo_value), sp_issued_at = 0 \<rparr>,
     pc_content = sha256 demo_kms demo_value, pc_value = demo_value, pc_at = 0, pc_chain = demo_chain \<rparr>"

definition demo_empty :: db where "demo_empty = demo_db\<lparr> db_secrets := [] \<rparr>"

lemma demo_secret_payload: "secret_payload_de demo_kms demo_secret_doc = Some (pc_payload demo_checked)"
proof -
  have u: "uuid_parse demo_kms (uuid_show demo_kms 5) = Some 5" using demo_kms_laws(3) by (simp add: uuid_law_def)
  have c: "chrono_de demo_kms t = Some 0" for t by (simp add: demo_kms_def)
  show ?thesis unfolding secret_payload_de_def demo_secret_doc_def demo_checked_def
    by (rule struct_fields_jobj_bind) (simp_all add: field_def de_vec_def uuid_de_def u datetime_de_def c)
qed

lemma demo_load_key: "load_key (db_keys demo_db) 1 = Some (key_row.truncate demo_root_row)"
  by (simp add: load_key_def demo_db_def demo_root_row_def)

lemma demo_put_checks:
  "put_checks demo_kms demo_node demo_keys demo_call ''s'' demo_secret_body (jobj [(''value'', JNull)]) = Ok demo_checked"
proof -
  let ?b = "demo_secret_body" and ?p = "pc_payload demo_checked"
  have l: "length (sha256 demo_kms demo_value) = 32" using demo_kms_laws(1) by (simp add: sha_lawD)
  have v: "put_value demo_kms demo_keys demo_call ''s'' ?b = Ok (None, demo_value)"
    by (simp add: put_value_def demo_secret_body_def b64_decode_encode [OF demo_kms_laws(2)])
  have p: "secret_payload_de demo_kms (pb_payload ?b) = Some ?p" by (simp add: demo_secret_body_def demo_secret_payload)
  have c: "Option.bind (strip_prefix ''sha256:'' (sp_content_sha256 ?p)) (hex_bytes 32) = Some (sha256 demo_kms demo_value)"
    using l by (simp add: demo_checked_def strip_prefix_def hex.dec_enc)
  have w: "within_window (sp_issued_at ?p) (c_now demo_call) = Ok 0"
    by (simp add: within_window_def demo_checked_def demo_call_def ISSUED_AT_WINDOW_def)
  have a: "authorize demo_kms demo_node demo_keys demo_call SECRET
      \<lparr> sb_payload = pb_payload ?b, sb_signature = pb_signature ?b \<rparr> 0 = Ok demo_chain"
    by (simp add: demo_secret_body_def demo_authorize demo_call_def demo_load_key)
  have n: "sp_name ?p = ''s''" "sp_app_ids ?p \<noteq> []" "SECRET_SALT_LEN \<le> length demo_value"
    by (simp_all add: demo_checked_def SECRET_SALT_LEN_def demo_value_def)
  show ?thesis unfolding put_checks_def p v c w a
    using n by (simp add: v c w a) (simp add: demo_checked_def)
qed

lemma demo_put_committed: "\<exists>resp d'. put_commit demo_kms demo_keys demo_call ''s'' demo_secret_body demo_checked demo_empty = Ok (resp, d')"
proof -
  obtain okey where k: "org_key demo_kms (im_tenant_kek_root demo_keys) 7 demo_spki = Ok okey"
    by (simp add: org_key_def derive_def kms_hkdf_def)
  obtain aad where a: "secret_aad demo_kms 4 demo_secret_doc = Ok aad"
    using demo_digest [of SECRET demo_secret_doc] by (auto simp: secret_aad_def)
  obtain box where b: "aead_seal demo_kms (Some (replicate 12 0)) okey aad demo_value = Ok box"
    by (simp add: aead_seal_def demo_kms_def demo_def demo_seal_def)
  from k a b show ?thesis
    by (simp add: put_commit_def demo_checked_def demo_empty_def demo_db_def demo_call_def demo_chain_def demo_root_row_def
        key_row.truncate_def find_secret_def has_key_def demo_secret_body_def Let_def)
qed

lemma demo_empty_ok: "db_ok demo_kms demo_empty"
  using demo_db_ok by (simp add: demo_empty_def db_ok_def secrets_ok_def)

lemma demo_released:
  obtains resp d' where "put_commit demo_kms demo_keys demo_call ''s'' demo_secret_body demo_checked demo_empty = Ok (resp, d')"
    "release_secret demo_kms d' (db_keys (c_snap demo_call)) (im_tenant_kek_root demo_keys) (signer_of demo_node) 7 5 ''s'' =
      Ok \<lparr> re_value = [9], re_content_sha256 = ''sha256:'' @ hex_encode (sha256 demo_kms demo_value), re_issued_at = 0 \<rparr>"
proof -
  obtain resp d' where c: "put_commit demo_kms demo_keys demo_call ''s'' demo_secret_body demo_checked demo_empty = Ok (resp, d')"
    using demo_put_committed by blast
  have n: "c_nonce demo_call = Some (replicate 12 0)" by (simp add: demo_call_def)
  from release_after_put [OF demo_kms_laws(3,4,8) demo_empty_ok demo_put_checks c n, of 5]
  show ?thesis by (intro that [OF c])
    (simp add: demo_checked_def demo_chain_def demo_root_row_def key_row.truncate_def demo_value_def SECRET_SALT_LEN_def)
qed

text \<open>
  C15. A Secret is released as it was put: once \<open>put_secret\<close> has accepted a value and committed its row,
  \<open>release_secret\<close> on the resulting tables returns exactly that value without its salt, with the hash
  and the time the customer signed, to every App the signed document names, as long as the signer's
  chain still stands.
\<close>

theorem put_then_release:
  assumes "uuid_law E" and "aead_law E" and "timestamptz_law E" and "db_ok E d"
    and checks: "put_checks E nd keys c name b request = Ok k" and commit: "put_commit E keys c name b k d = Ok (resp, d')"
    and n: "c_nonce c = Some n" "length n = 12" and app: "app \<in> set (sp_app_ids (pc_payload k))"
  shows "release_secret E d' (db_keys (c_snap c)) (im_tenant_kek_root keys) (signer_of nd)
      (k_org_id (chain_key (pc_chain k))) app name =
    Ok \<lparr> re_value = drop SECRET_SALT_LEN (pc_value k), re_content_sha256 = sp_content_sha256 (pc_payload k),
         re_issued_at = sp_issued_at (pc_payload k) \<rparr>"
  by (rule release_after_put [OF assms])

theorem put_then_release_witness:
  "case put_commit demo_kms demo_keys demo_call ''s'' demo_secret_body demo_checked demo_empty of
     Err _ \<Rightarrow> False
   | Ok (_, d') \<Rightarrow> release_secret demo_kms d' (db_keys (c_snap demo_call)) (im_tenant_kek_root demo_keys) (signer_of demo_node) 7 5 ''s'' =
       Ok \<lparr> re_value = [9], re_content_sha256 = ''sha256:'' @ hex_encode (sha256 demo_kms demo_value), re_issued_at = 0 \<rparr>"
proof -
  obtain resp d' where c: "put_commit demo_kms demo_keys demo_call ''s'' demo_secret_body demo_checked demo_empty = Ok (resp, d')"
    using demo_put_committed by blast
  have n: "c_nonce demo_call = Some (replicate 12 0)" by (simp add: demo_call_def)
  from put_then_release [OF demo_kms_laws(3,4,8) demo_empty_ok demo_put_checks c n, of 5]
  have "release_secret demo_kms d' (db_keys (c_snap demo_call)) (im_tenant_kek_root demo_keys) (signer_of demo_node) 7 5 ''s'' =
      Ok \<lparr> re_value = [9], re_content_sha256 = ''sha256:'' @ hex_encode (sha256 demo_kms demo_value), re_issued_at = 0 \<rparr>"
    by (simp add: demo_checked_def demo_chain_def demo_root_row_def key_row.truncate_def demo_value_def SECRET_SALT_LEN_def)
  with c show ?thesis by simp
qed

text \<open>
  C16. Only what was signed is released, whatever the columns of the table say: a released value
  comes from a document that a key of the organization signed and whose chain stands, the document
  names the Secret and the App, and the value is what its hash commits to.
\<close>

theorem release_secret_sound:
  assumes "release_secret E d rows kek sp org app name = Ok r"
  shows "\<exists>s doc p ch salt. verify_signed E rows kek s SECRET doc (sp_issued_at p) sp = Ok ch
    \<and> k_org_id (chain_key ch) = org \<and> secret_payload_de E doc = Some p \<and> sp_name p = name \<and> app \<in> set (sp_app_ids p)
    \<and> sp_content_sha256 p = re_content_sha256 r \<and> length salt = SECRET_SALT_LEN
    \<and> re_content_sha256 r = ''sha256:'' @ hex_encode (sha256 E (salt @ re_value r))"
proof -
  from assms obtain secret :: secret and s p ch okey aad v where
    c: "signature_object_de E (se_signature secret) = Some s" "\<not> so_key_id s \<noteq> Some (se_signed_by_key secret)"
      "secret_payload_de E (se_document secret) = Some p"
      "\<not> (sp_name p \<noteq> name \<or> sp_content_sha256 p \<noteq> ''sha256:'' @ hex_encode (se_content_sha256 secret))"
      "\<not> app \<notin> set (sp_app_ids p)"
      "verify_signed E rows kek s SECRET (se_document secret) (sp_issued_at p) sp = Ok ch" "\<not> k_org_id (chain_key ch) \<noteq> org"
    and v: "aead_open E okey aad (se_ciphertext secret) = Some v" "\<not> sha256 E v \<noteq> se_content_sha256 secret"
      "\<not> length v < SECRET_SALT_LEN" "\<lparr> re_value = drop SECRET_SALT_LEN v,
         re_content_sha256 = ''sha256:'' @ hex_encode (se_content_sha256 secret), re_issued_at = sp_issued_at p \<rparr> = r"
    unfolding release_secret_def Let_def and_then_eq_Ok refuse_if_eq_Ok ok_or_eq_Ok result.inject
    by (elim exE conjE) (rule that, assumption+)
  from c v show ?thesis
    by (intro exI [of _ s] exI [of _ "se_document secret"] exI [of _ p] exI [of _ ch] exI [of _ "take SECRET_SALT_LEN v"]) auto
qed

theorem release_secret_sound_witness:
  "\<exists>s doc p ch salt. verify_signed demo_kms (db_keys (c_snap demo_call)) (im_tenant_kek_root demo_keys) s SECRET doc
      (sp_issued_at p) (signer_of demo_node) = Ok ch
    \<and> k_org_id (chain_key ch) = 7 \<and> secret_payload_de demo_kms doc = Some p \<and> sp_name p = ''s'' \<and> 5 \<in> set (sp_app_ids p)
    \<and> length salt = SECRET_SALT_LEN \<and> sp_content_sha256 p = ''sha256:'' @ hex_encode (sha256 demo_kms (salt @ [9]))"
proof -
  obtain resp d' where "release_secret demo_kms d' (db_keys (c_snap demo_call)) (im_tenant_kek_root demo_keys) (signer_of demo_node) 7 5 ''s'' =
      Ok \<lparr> re_value = [9], re_content_sha256 = ''sha256:'' @ hex_encode (sha256 demo_kms demo_value), re_issued_at = 0 \<rparr>"
    by (rule demo_released)
  from release_secret_sound [OF this] obtain s doc p ch salt where
    "verify_signed demo_kms (db_keys (c_snap demo_call)) (im_tenant_kek_root demo_keys) s SECRET doc
      (sp_issued_at p) (signer_of demo_node) = Ok ch" "k_org_id (chain_key ch) = 7" "secret_payload_de demo_kms doc = Some p"
    "sp_name p = ''s''" "5 \<in> set (sp_app_ids p)" "length salt = SECRET_SALT_LEN"
    "sp_content_sha256 p = ''sha256:'' @ hex_encode (sha256 demo_kms (salt @ [9]))"
    by (elim exE conjE) (rule that, (assumption | simp)+)
  then show ?thesis by blast
qed

text \<open>A guest that runs a signed compose file, for the witness.\<close>

definition demo_rev_hash :: bytes where "demo_rev_hash = compose_hash_of demo_kms (as_bytes ''x'')"

definition demo_rev_row :: revision where
  "demo_rev_row = \<lparr> rv_app_id = 5, rv_org_id = 7, rv_compose = Some ''x'', rv_init_data = None, rv_created_by_key = 1,
     rv_signature = signature_object_json demo_kms (demo_sign (Some 1) REVISION
       (jobj [(''app_id'', JString (uuid_show demo_kms 5)), (''compose'', JString ''x'')])),
     rv_created_at = 0, rv_revoked_at = None, rv_compose_hash = demo_rev_hash \<rparr>"

definition demo_nonce :: bytes where "demo_nonce = mint_nonce demo_kms [] 0"

definition demo_guest :: evidence where
  "demo_guest = \<lparr> e_format = EVIDENCE_FORMAT,
     e_quote = report_data demo_kms (replicate 33 1) demo_nonce None @ replay demo_kms [demo_event demo_rev_hash] ! 3,
     e_event_log = [demo_event demo_rev_hash] \<rparr>"

definition demo_guest_doc :: platform_document where
  "demo_guest_doc = demo_doc\<lparr> pd_reference_values := [\<lparr> rv_name = ''os'', rv_mrtd = [1], rv_rtmr0 = replicate 48 0,
     rv_rtmr1 = replicate 48 0, rv_rtmr2 = replicate 48 0 \<rparr>] \<rparr>"

definition demo_icall :: icall where
  "demo_icall = \<lparr> ic_now = 0, ic_clock = 0, ic_collateral = Ok [], ic_ocsp_nonce = \<lambda>_. None, ic_ocsp_answer = \<lambda>_. None,
     ic_serial = Some [1], ic_peer = [], ic_revisions = demo_db\<lparr> db_revisions := [demo_rev_row] \<rparr>, ic_keys = demo_db,
     ic_secrets = demo_db, ic_secret_keys = demo_db \<rparr>"

definition demo_attest :: attest_request where
  "demo_attest = \<lparr> aq_runtime_pubkey = [], aq_nonce = b64_enc demo_kms demo_nonce,
     aq_evidence = evidence_json demo_kms demo_guest \<rparr>"

lemma demo_nonce_ok: "check_nonce demo_kms [] demo_nonce 0 = Ok ()" "length demo_nonce = 32"
proof -
  have n: "demo_nonce = nonce_at demo_kms [] 0" by (simp add: demo_nonce_def mint_nonce_def unix_def seconds_of_def)
  show "check_nonce demo_kms [] demo_nonce 0 = Ok ()"
    using nonce_at_time [of 0 demo_kms "[]"] by (simp add: check_nonce_def n mint_nonce_def unix_def seconds_of_def Let_def)
  have "length (hmac_sha256 demo_kms k m) = 32" for k m by (simp add: demo_kms_def demo_def)
  then show "length demo_nonce = 32" by (simp add: n nonce_at_def)
qed

lemma demo_guest_replay: "replay demo_kms [demo_event h] =
  [replicate 48 0, replicate 48 0, replicate 48 0, replay demo_kms [demo_event h] ! 3]"
proof -
  have r: "replicate 4 z = [z, z, z, z]" for z :: bytes by (simp add: numeral_eq_Suc)
  have "unat (3 :: u32) = 3" by simp
  then show ?thesis unfolding replay_def r by (simp add: extend_register_def demo_event_def Let_def)
qed

lemma demo_guest_appraised: "appraise_instance demo_kms (Dstack demo_guest) demo_nonce (replicate 33 1) None demo_guest_doc [] 0 =
  Ok \<lparr> ap_measured = \<lparr> m_mrtd = [1], m_rtmr0 = replicate 48 0, m_rtmr1 = replicate 48 0, m_rtmr2 = replicate 48 0,
         m_rtmr3 = replay demo_kms [demo_event demo_rev_hash] ! 3 \<rparr>,
       ap_tcb_status = ''UpToDate'', ap_advisories = [], ap_os_image = ''os'', ap_compose_hash = demo_rev_hash,
       ap_runtime_pubkey_sha256 = sha256_text demo_kms (replicate 33 1),
       ap_evidence_sha256 = sha256_text demo_kms (demo_jcs (evidence_json demo_kms demo_guest)),
       ap_policy_version = 1, ap_gpu_serials = [] \<rparr>"
proof -
  let ?rd = "report_data demo_kms (replicate 33 1) demo_nonce None"
  have l: "length ?rd = 64" by (rule length_report_data [OF demo_kms_laws(1)])
  have h: "event_log_compose_hash [demo_event demo_rev_hash] = Some demo_rev_hash"
    by (simp add: event_log_compose_hash_def is_compose_event_def demo_event_def demo_rev_hash_def compose_hash_of_def
        sha_lawD [OF demo_kms_laws(1)])
  have q: "verify_quote demo_kms (e_quote demo_guest) [] (pd_policy demo_guest_doc) 0 = Ok \<lparr> vq_report_data = ?rd,
      vq_td_attributes = td_attributes demo_report, vq_xfam = td_xfam demo_report,
      vq_mr_config_id = td_mr_config_id demo_report, vq_mr_owner = td_mr_owner demo_report,
      vq_mr_owner_config = td_mr_owner_config demo_report, vq_mr_signer_seam = td_mr_signer_seam demo_report,
      vq_measured = \<lparr> m_mrtd = [1], m_rtmr0 = replicate 48 0, m_rtmr1 = replicate 48 0, m_rtmr2 = replicate 48 0,
         m_rtmr3 = replay demo_kms [demo_event demo_rev_hash] ! 3 \<rparr>,
      vq_tcb_status = ''UpToDate'', vq_advisories = [] \<rparr>"
    using l by (simp add: verify_quote_def demo_kms_def [THEN arg_cong, of qvl_verify] demo_guest_def demo_guest_doc_def
        demo_doc_def quote_policy_def) (simp add: demo_report_def)
  have j: "jcs demo_kms v = Some (demo_jcs v)" for v by (simp add: demo_kms_def demo_def)
  have e: "e_event_log demo_guest = [demo_event demo_rev_hash]" "e_format demo_guest = EVIDENCE_FORMAT"
    by (simp_all add: demo_guest_def)
  show ?thesis unfolding appraise_instance_def appraise_def
    by (simp add: q e h demo_guest_replay [symmetric] evidence_sha256_def j) (simp add: demo_guest_doc_def demo_doc_def reference_matches_def)
qed

lemma demo_evidence_read: "instance_evidence_de demo_kms (evidence_json demo_kms demo_guest) = Some (Dstack demo_guest)"
proof -
  have "Option.bind (json_get (evidence_json demo_kms demo_guest) ''format'') json_as_str \<noteq> Some KATA_EVIDENCE_FORMAT"
    by (simp add: evidence_json_def demo_guest_def EVIDENCE_FORMAT_def KATA_EVIDENCE_FORMAT_def)
  then show ?thesis by (simp add: instance_evidence_de_def evidence_de_json [OF demo_kms_laws(2)])
qed

lemma demo_revision_verified:
  "verify_revision demo_kms [demo_root_row] [] demo_rev_hash (revision_row.truncate demo_rev_row) sp = Ok demo_chain"
proof -
  have k: "load_key [demo_root_row] 1 = Some (key_row.truncate demo_root_row)"
    by (simp add: load_key_def demo_root_row_def)
  show ?thesis
    by (simp add: verify_revision_def revision_signed_def demo_rev_row_def revision_row.truncate_def
        demo_rev_hash_def [symmetric] signature_object_roundtrip [OF demo_kms_laws(3)] demo_verify_signed [OF k])
      (simp add: demo_sign_def demo_chain_def demo_root_row_def key_row.truncate_def)
qed

lemma utf8_ascii: "list_all (\<lambda>b. b < 128) bs \<Longrightarrow> utf8_valid bs"
proof (induction bs)
  case Nil
  then show ?case by (simp add: utf8_valid.simps)
next
  case (Cons b bs)
  then have "utf8_width (b # bs) = 1" by (simp add: utf8_width_def word_less_nat_alt)
  with Cons show ?case by (subst utf8_valid.simps) simp
qed

lemma demo_jstr_ascii: "list_all (\<lambda>c. code c < 128) s \<Longrightarrow> list_all (\<lambda>b. b < 128) (demo_jstr s)"
  by (induction s) (auto simp: demo_jstr_def word_less_nat_alt unat_byte_of_nat)

lemma demo_map_ascii:
  assumes "list_all (\<lambda>b. b < 128) (f (k, v))" and "list_all (\<lambda>b. b < 128) (concat (map f m))"
  shows "list_all (\<lambda>b. b < 128) (concat (map f (map_insert k v m)))"
  using assms by (auto simp: list_all_iff set_map_insert)

lemma demo_leaf_appraisal:
  "is_ok (appraisal_to_der demo_kms \<lparr> la_tcb_status = ''UpToDate'', la_advisories = [], la_policy_version = 1,
     la_os_image = ''os'', la_gpu_count = 0 \<rparr>)"
proof -
  have b: "list_all (\<lambda>b. b < 128) (be_bytes 8 0)" "list_all (\<lambda>b. b < 128) (be_bytes 8 1)" by code_simp+
  have "list_all (\<lambda>b. b < 128) (demo_jcs (appraisal_json \<lparr> la_tcb_status = ''UpToDate'', la_advisories = [],
      la_policy_version = 1, la_os_image = ''os'', la_gpu_count = 0 \<rparr>))"
    using b by (simp add: appraisal_json_def jobj_def jnat_def APPRAISAL_FORMAT_def demo_map_ascii demo_jstr_ascii code_def)
  from utf8_ascii [OF this] show ?thesis
    by (simp add: appraisal_to_der_def demo_kms_def demo_def from_utf8_def)
qed

lemma demo_attested:
  "is_ok (attest_inner demo_kms (demo_node\<lparr> nd_platform := Some demo_guest_doc \<rparr>) demo_icall (replicate 33 1) demo_attest)"
proof -
  obtain der where der: "appraisal_to_der demo_kms \<lparr> la_tcb_status = ''UpToDate'', la_advisories = [], la_policy_version = 1,
     la_os_image = ''os'', la_gpu_count = 0 \<rparr> = Ok der"
    using demo_leaf_appraisal by (auto simp: is_ok_iff)
  have x: "rcgen_spki_ok demo_kms k" "rcgen_issuer_ok demo_kms k" "rcgen_key_pair_ok demo_kms k" "list_all (ia5_ok demo_kms) t"
    "rcgen_signed_by demo_kms lp k c = Some (lp_spki lp)" for k t lp c
    by (simp_all add: demo_kms_def demo_def list_all_iff)
  have d: "decode32 demo_kms (b64_enc demo_kms demo_nonce) = Ok demo_nonce"
    by (simp add: decode32_def b64_decode_encode [OF demo_kms_laws(2)] demo_nonce_ok)
  have r: "load_revision (ic_revisions demo_icall) demo_rev_hash = Some (revision_row.truncate demo_rev_row)"
    by (simp add: load_revision_def demo_icall_def demo_rev_row_def)
  have c: "rv_compose (revision_row.truncate demo_rev_row) = Some ''x''" "rv_init_data (revision_row.truncate demo_rev_row) = None"
    by (simp_all add: revision_row.truncate_def demo_rev_row_def)
  have k: "db_keys (ic_keys demo_icall) = [demo_root_row]" "ic_now demo_icall = 0" "ic_collateral demo_icall = Ok []"
    "ic_serial demo_icall = Some [1]"
    by (simp_all add: demo_icall_def demo_db_def)
  show ?thesis
    by (simp add: attest_inner_def demo_attest_def d demo_node_def demo_nonce_ok k demo_evidence_read demo_guest_appraised
        intermediates_of_def r c is_kata_def appraise_revision_def demo_revision_verified attest_leaf_def key_pair_def
        issue_leaf_def x later_def LEAF_TTL_def serial_of_def der Let_def seconds_of_def)
qed

lemma check_nonce_Ok:
  assumes "check_nonce E key n now = Ok ()"
  shows "\<exists>ts. n = be_bytes 8 ts @ take 24 (hmac_sha256 E key (be_bytes 8 ts)) \<and> ts \<le> unix now \<and> unix now \<le> ts + 300"
proof -
  let ?ts = "from_be (take 8 n)"
  have "unix (int ?ts * 1000000000) = ?ts" by (simp add: unix_def seconds_of_def)
  with assms have "n = nonce_at E key ?ts" "?ts \<le> unix now" "unix now \<le> ?ts + 300"
    by (auto simp: check_nonce_def Let_def result_simps mint_nonce_def NONCE_MAX_AGE_def)
  then show ?thesis unfolding nonce_at_def by blast
qed

lemma appraise_revision_Ok:
  assumes "appraise_revision E rows kek h r doc = Ok i0"
    and "if kata then rv_init_data r \<noteq> None else rv_compose r \<noteq> None"
  shows "\<exists>document s k ls digest.
    (if kata
     then (\<exists>txt init pinned. rv_init_data r = Some txt \<and> rv_compose r = None \<and> sha256 E (as_bytes txt) = h
        \<and> document = jobj [(''app_id'', JString (uuid_show E (rv_app_id r))), (''init_data'', JString txt),
                        (''digest'', JString (compose_hash_show h))]
        \<and> init_data_parse E txt = Ok init \<and> pd_kata_policy doc = Some pinned
        \<and> check_policy E init pinned (pd_kms_ca_pem doc) = Ok ())
     else (\<exists>txt. rv_compose r = Some txt \<and> rv_init_data r = None \<and> sha256 E (as_bytes txt) = h
        \<and> document = jobj [(''app_id'', JString (uuid_show E (rv_app_id r))), (''compose'', JString txt)]))
    \<and> rv_revoked_at r = None \<and> signature_object_de E (rv_signature r) = Some s \<and> so_key_id s = Some (rv_created_by_key r)
    \<and> load_key rows (rv_created_by_key r) = Some k \<and> k_org_id k = rv_org_id r
    \<and> chains E rows kek (pd_signer doc) (rv_org_id r) None (rv_created_at r) (k # ls)
    \<and> signing_digest E REVISION document = Some digest \<and> verify_signature E (k_public_key k) digest s (pd_signer doc) = Ok ()"
proof -
  from assms(1) obtain ch src document s where rv: "rv_revoked_at r = None"
    and rs: "revision_signed E r h = Ok (src, document)" "sha256 E (as_bytes src) = h"
    and s: "signature_object_de E (rv_signature r) = Some s" "so_key_id s = Some (rv_created_by_key r)"
    and v: "verify_signed E rows kek s REVISION document (rv_created_at r) (pd_signer doc) = Ok ch"
    and o: "k_org_id (chain_key ch) = rv_org_id r"
    and init: "(case rv_init_data r of None \<Rightarrow> Ok None
      | Some txt \<Rightarrow> and_then (map_err (\<lambda>_. ApiError ''policy_denied'') (init_data_parse E txt)) (\<lambda>init.
          and_then (check_kata_policy E init (Some doc) ''policy_denied'') (\<lambda>_. Ok (Some init)))) = Ok i0"
    by (auto simp: appraise_revision_def verify_revision_def result_simps compose_hash_of_def)
  from verify_signed_chain [OF v] s(2) o obtain ls digest where
    c: "load_key rows (rv_created_by_key r) = Some (chain_key ch)"
      "chains E rows kek (pd_signer doc) (rv_org_id r) None (rv_created_at r) (chain_key ch # ls)"
      "signing_digest E REVISION document = Some digest"
      "verify_signature E (k_public_key (chain_key ch)) digest s (pd_signer doc) = Ok ()" by auto
  have "if kata
     then (\<exists>txt init pinned. rv_init_data r = Some txt \<and> rv_compose r = None \<and> sha256 E (as_bytes txt) = h
        \<and> document = jobj [(''app_id'', JString (uuid_show E (rv_app_id r))), (''init_data'', JString txt),
                        (''digest'', JString (compose_hash_show h))]
        \<and> init_data_parse E txt = Ok init \<and> pd_kata_policy doc = Some pinned
        \<and> check_policy E init pinned (pd_kms_ca_pem doc) = Ok ())
     else (\<exists>txt. rv_compose r = Some txt \<and> rv_init_data r = None \<and> sha256 E (as_bytes txt) = h
        \<and> document = jobj [(''app_id'', JString (uuid_show E (rv_app_id r))), (''compose'', JString txt)])"
    using rs assms(2) init
    by (auto simp: revision_signed_def check_kata_policy_def result_simps bind_eq_Some_conv split: option.split_asm if_split_asm)
  with rv s o c show ?thesis by blast
qed

text \<open>
  C14. What a leaf of the KMS certifies: the evidence behind it was appraised against the current
  platform document with a nonce that carries this node's MAC and is at most 300 seconds old and not
  in the future; the Revision measured is registered, in the form it was measured in, is not revoked,
  and its compose file or init-data, whose hash is the measurement, is signed with its App by a key of
  its organization that chains to the anchor; init-data meets the pinned policy; every GPU device
  certificate has a good answer of the responder; and the leaf carries the attested key for one hour,
  under names that read back as that key's hash and that Revision's organization, App and digest.
\<close>

theorem leaf_certifies_revision:
  assumes "sha_law E" and "uuid_law E" and "attest_inner E nd c spki request = Ok (leaf, res)"
  shows "\<exists>n ts ev doc coll a r document s k ls digest (keys :: intermediates) params.
    b64_dec E (aq_nonce request) = Some n \<and> length n = 32
    \<and> n = be_bytes 8 ts @ take 24 (hmac_sha256 E (nd_nonce_key nd) (be_bytes 8 ts))
    \<and> ts \<le> unix (ic_now c) \<and> unix (ic_now c) \<le> ts + 300
    \<and> nd_platform nd = Some doc \<and> intermediates_of nd = Ok keys
    \<and> instance_evidence_de E (aq_evidence request) = Some ev
    \<and> appraise_instance E ev n spki None doc coll (ic_now c) = Ok a
    \<and> (\<forall>k qs q. ev = Kata k \<longrightarrow> device_ocsp_queries E (k_gpu k) = Ok qs \<longrightarrow> q \<in> set qs \<longrightarrow>
         (\<exists>answer n. ocsp_check E q answer n (ic_clock c) = Ok ()))
    \<and> load_revision (ic_revisions c) (ap_compose_hash a) = Some r \<and> rv_revoked_at r = None
    \<and> (if is_kata ev
       then (\<exists>txt init pinned. rv_init_data r = Some txt \<and> rv_compose r = None \<and> sha256 E (as_bytes txt) = ap_compose_hash a
          \<and> document = jobj [(''app_id'', JString (uuid_show E (rv_app_id r))), (''init_data'', JString txt),
                          (''digest'', JString (compose_hash_show (ap_compose_hash a)))]
          \<and> init_data_parse E txt = Ok init \<and> pd_kata_policy doc = Some pinned
          \<and> check_policy E init pinned (pd_kms_ca_pem doc) = Ok ())
       else (\<exists>txt. rv_compose r = Some txt \<and> rv_init_data r = None \<and> sha256 E (as_bytes txt) = ap_compose_hash a
          \<and> document = jobj [(''app_id'', JString (uuid_show E (rv_app_id r))), (''compose'', JString txt)]))
    \<and> signature_object_de E (rv_signature r) = Some s \<and> so_key_id s = Some (rv_created_by_key r)
    \<and> load_key (db_keys (ic_keys c)) (rv_created_by_key r) = Some k \<and> k_org_id k = rv_org_id r
    \<and> chains E (db_keys (ic_keys c)) (im_tenant_kek_root keys) (pd_signer doc) (rv_org_id r) None (rv_created_at r) (k # ls)
    \<and> signing_digest E REVISION document = Some digest
    \<and> verify_signature E (k_public_key k) digest s (pd_signer doc) = Ok ()
    \<and> rcgen_signed_by E params (im_ca_key_der keys) (im_ca_cert_der keys) = Some leaf \<and> lp_spki params = spki
    \<and> lp_is_ca params = Some False \<and> lp_not_after params = ic_now c + 3600 * 1000000000
    \<and> parse_instance_sans E (lp_uris params) = Ok \<lparr> is_org_id = rv_org_id r, is_app_id = rv_app_id r,
        is_runtime_pubkey_sha256_hex = hex_encode (sha256 E spki), is_compose_hash = ap_compose_hash a \<rparr>"
proof -
  from assms(3) obtain n doc ev coll a keys r rev0 where
    n: "b64_dec E (aq_nonce request) = Some n" "length n = 32" "check_nonce E (nd_nonce_key nd) n (ic_now c) = Ok ()"
    and doc: "nd_platform nd = Some doc" "intermediates_of nd = Ok keys"
    and ev: "instance_evidence_de E (aq_evidence request) = Some ev"
    and ap: "appraise_instance E ev n spki None doc coll (ic_now c) = Ok a"
    and gpu: "(case ev of Kata k \<Rightarrow> check_gpu_revocation E c (k_gpu k) | Dstack _ \<Rightarrow> Ok ()) = Ok ()"
    and r: "load_revision (ic_revisions c) (ap_compose_hash a) = Some r"
      "if is_kata ev then rv_init_data r \<noteq> None else rv_compose r \<noteq> None"
    and rev: "appraise_revision E (db_keys (ic_keys c)) (im_tenant_kek_root keys) (ap_compose_hash a) r doc = Ok rev0"
    and leaf: "attest_leaf E c keys spki r a = Ok leaf"
    unfolding attest_inner_def decode32_def by (auto simp: result_simps bind_eq_Some_conv split: if_split_asm)
  from check_nonce_Ok [OF n(3)] obtain ts where
    ts: "n = be_bytes 8 ts @ take 24 (hmac_sha256 E (nd_nonce_key nd) (be_bytes 8 ts))"
      "ts \<le> unix (ic_now c)" "unix (ic_now c) \<le> ts + 300" by blast
  from appraise_revision_Ok [OF rev r(2)] obtain document s k ls digest where
    form: "if is_kata ev
       then (\<exists>txt init pinned. rv_init_data r = Some txt \<and> rv_compose r = None \<and> sha256 E (as_bytes txt) = ap_compose_hash a
          \<and> document = jobj [(''app_id'', JString (uuid_show E (rv_app_id r))), (''init_data'', JString txt),
                          (''digest'', JString (compose_hash_show (ap_compose_hash a)))]
          \<and> init_data_parse E txt = Ok init \<and> pd_kata_policy doc = Some pinned
          \<and> check_policy E init pinned (pd_kms_ca_pem doc) = Ok ())
       else (\<exists>txt. rv_compose r = Some txt \<and> rv_init_data r = None \<and> sha256 E (as_bytes txt) = ap_compose_hash a
          \<and> document = jobj [(''app_id'', JString (uuid_show E (rv_app_id r))), (''compose'', JString txt)])"
    and ch: "rv_revoked_at r = None" "signature_object_de E (rv_signature r) = Some s" "so_key_id s = Some (rv_created_by_key r)"
      "load_key (db_keys (ic_keys c)) (rv_created_by_key r) = Some k" "k_org_id k = rv_org_id r"
      "chains E (db_keys (ic_keys c)) (im_tenant_kek_root keys) (pd_signer doc) (rv_org_id r) None (rv_created_at r) (k # ls)"
      "signing_digest E REVISION document = Some digest"
      "verify_signature E (k_public_key k) digest s (pd_signer doc) = Ok ()"
    by blast
  from form obtain src where "sha256 E (as_bytes src) = ap_compose_hash a" by (auto split: if_split_asm)
  then have h: "length (ap_compose_hash a) = 32" using sha_lawD(1) [OF assms(1)] by metis
  have q: "\<exists>answer n. ocsp_check E q answer n (ic_clock c) = Ok ()"
    if "ev = Kata k" "device_ocsp_queries E (k_gpu k) = Ok qs" "q \<in> set qs" for k qs q
  proof -
    from gpu that obtain ns where ns: "ocsp_requests E c 0 qs = Ok ns" "ocsp_checks E c 0 qs ns = Ok ()"
      by (auto simp: check_gpu_revocation_def result_simps)
    from ocsp_checks_all [OF ns(2) ocsp_requests_length [OF ns(1)] that(3)] show ?thesis .
  qed
  then have q': "\<forall>k qs q. ev = Kata k \<longrightarrow> device_ocsp_queries E (k_gpu k) = Ok qs \<longrightarrow> q \<in> set qs \<longrightarrow>
      (\<exists>answer n. ocsp_check E q answer n (ic_clock c) = Ok ())" by blast
  from leaf obtain params where p: "rcgen_signed_by E params (im_ca_key_der keys) (im_ca_cert_der keys) = Some leaf"
      "lp_spki params = spki" "lp_is_ca params = Some False" "lp_not_after params = ic_now c + 3600 * 1000000000"
      "lp_uris params = sans_of_instance E (rv_org_id r) (rv_app_id r) (hex_encode (sha256 E spki)) (ap_compose_hash a)"
    unfolding attest_leaf_def issue_leaf_def later_def key_pair_def appraised_key [OF ap] trim_sha256_text
    by (auto simp: result_simps Let_def LEAF_TTL_def)
  have "parse_instance_sans E (lp_uris params) = Ok \<lparr> is_org_id = rv_org_id r, is_app_id = rv_app_id r,
      is_runtime_pubkey_sha256_hex = hex_encode (sha256 E spki), is_compose_hash = ap_compose_hash a \<rparr>"
    unfolding p(5) by (rule parse_sans_of_instance [OF assms(2) _ h]) (simp add: sha_lawD [OF assms(1)])
  note facts = n(1,2) ts doc ev ap q' r(1) form ch p(1-4) this
  show ?thesis by (intro exI conjI, (rule facts)+)
qed
theorem leaf_certifies_revision_witness:
  "\<exists>leaf res ts (a :: appraised) r k. attest_inner demo_kms (demo_node\<lparr> nd_platform := Some demo_guest_doc \<rparr>) demo_icall
         (replicate 33 1) demo_attest = Ok (leaf, res)
     \<and> b64_dec demo_kms (aq_nonce demo_attest) = Some (be_bytes 8 ts @ take 24 (hmac_sha256 demo_kms [] (be_bytes 8 ts)))
     \<and> ts \<le> unix 0 \<and> unix 0 \<le> ts + 300
     \<and> load_revision (ic_revisions demo_icall) (ap_compose_hash a) = Some r
     \<and> load_key [demo_root_row] (rv_created_by_key r) = Some k \<and> k_org_id k = rv_org_id r"
proof -
  let ?nd = "demo_node\<lparr> nd_platform := Some demo_guest_doc \<rparr>"
  obtain leaf res where a: "attest_inner demo_kms ?nd demo_icall (replicate 33 1) demo_attest = Ok (leaf, res)"
    using demo_attested by (auto simp: is_ok_iff)
  have d: "nd_nonce_key ?nd = []" "ic_now demo_icall = 0" "db_keys (ic_keys demo_icall) = [demo_root_row]"
    by (simp_all add: demo_node_def demo_icall_def demo_db_def)
  from leaf_certifies_revision [OF demo_kms_laws(1,3) a] obtain n ts a' r k where
    "b64_dec demo_kms (aq_nonce demo_attest) = Some n"
    "n = be_bytes 8 ts @ take 24 (hmac_sha256 demo_kms (nd_nonce_key ?nd) (be_bytes 8 ts))"
    "ts \<le> unix (ic_now demo_icall)" "unix (ic_now demo_icall) \<le> ts + 300"
    "load_revision (ic_revisions demo_icall) (ap_compose_hash (a' :: appraised)) = Some r"
    "load_key (db_keys (ic_keys demo_icall)) (rv_created_by_key r) = Some k" "k_org_id k = rv_org_id r"
    by (elim exE conjE) (rule that)
  with a show ?thesis unfolding d by blast
qed

end
