(* ===== verification/Kms_Node_Spec.thy ===== *)
theory Kms_Node_Spec
  imports Kms_Node Kms_Instance_Spec
begin

text \<open>
  What the Node API guarantees: the intermediates are made once, any two custodians bring them back,
  a joining node receives them only on appraised evidence, and the platform document only moves
  forward.
\<close>

section \<open>Bootstrap and unseal\<close>

lemma set_phase_simps [simp]:
  "w_db (set_phase p w) = w_db w" "nd_phase (w_node (set_phase p w)) = p" "nd_kata (w_node (set_phase p w)) = nd_kata (w_node w)"
  "nd_xwing (w_node (set_phase p w)) = nd_xwing (w_node w)" "nd_spki (w_node (set_phase p w)) = nd_spki (w_node w)"
  "set_phase p (set_phase q w) = set_phase p w" "reachable E (set_phase p w) = reachable E w"
  "unwrap_intermediates E root (set_phase p w) = unwrap_intermediates E root w"
proof -
  show r: "reachable E (set_phase p w) = reachable E w" by (simp add: reachable_def set_phase_def split: option.split)
  show "unwrap_intermediates E root (set_phase p w) = unwrap_intermediates E root w"
    unfolding unwrap_intermediates_def query_def r by (simp add: set_phase_def)
qed (simp_all add: set_phase_def)

lemma on_database_dstack [simp]: "\<not> nd_kata (w_node w) \<Longrightarrow> on_database E c w = w"
  by (simp add: on_database_def)

lemma start_serving_Ok:
  "start_serving E c keys nd = Ok nd' \<longleftrightarrow> (\<exists>m. issue_own_leaf E c keys nd = Ok m \<and> nd' = m\<lparr> nd_phase := Serving keys \<rparr>)"
  by (auto simp: start_serving_def result_simps)

lemma issue_own_leaf_frame:
  "issue_own_leaf E c keys nd = Ok m \<Longrightarrow> \<exists>chain. m = nd\<lparr> nd_cert := chain \<rparr>"
  by (auto simp: issue_own_leaf_def result_simps)

lemma start_serving_frame:
  "start_serving E c keys nd = Ok nd' \<Longrightarrow> \<exists>chain. nd' = nd\<lparr> nd_cert := chain, nd_phase := Serving keys \<rparr>"
  by (auto simp: start_serving_Ok dest!: issue_own_leaf_frame)

lemma bootstrap_rows_fst: "bootstrap_rows E c root keys = Ok rows \<Longrightarrow> map fst rows = [''tenant-kek-root'', ''ca'']"
  by (auto simp: bootstrap_rows_def result_simps)

text \<open>Postgres lets a role in with the password its SCRAM verifier was made from.\<close>

definition pg_login_law :: "'x ext_scheme \<Rightarrow> bool" where
  "pg_login_law E \<longleftrightarrow> (\<forall>p salt v. scram_verifier E p salt = Ok v \<longrightarrow> pg_login E v p)"

lemma remember_frame [simp]:
  "nd_phase (remember doc nd) = nd_phase nd" "nd_kata (remember doc nd) = nd_kata nd" "nd_password (remember doc nd) = nd_password nd"
  by (simp_all add: remember_def split: option.split)

definition same_login :: "world \<Rightarrow> world \<Rightarrow> bool" where
  "same_login w w' \<longleftrightarrow> nb_intermediates (w_db w') = nb_intermediates (w_db w) \<and> nb_role (w_db w') = nb_role (w_db w)
     \<and> nd_phase (w_node w') = nd_phase (w_node w) \<and> nd_kata (w_node w') = nd_kata (w_node w)
     \<and> nd_password (w_node w') = nd_password (w_node w)"

lemma same_login_refl [simp]: "same_login w w" "same_login w (insert_audit a w)" "same_login w (w\<lparr> w_node := remember doc (w_node w) \<rparr>)"
  by (simp_all add: same_login_def insert_audit_def)

lemma same_login_trans: "same_login u v \<Longrightarrow> same_login v w \<Longrightarrow> same_login u w"
  by (simp add: same_login_def)

lemma same_login_reload: "same_login w (snd (reload E c w))"
proof -
  have "same_login w (snd (apply_document E v w))" for v
    by (simp add: apply_document_def Let_def store_document_def split: option.split) (simp add: same_login_def insert_audit_def)
  then show ?thesis by (auto simp: reload_def split: result.split)
qed

lemma same_login_database: "same_login w (on_database E c w)"
proof -
  define w1 where "w1 = (if has_database (w_node w) then
      (case load_stored E c w of Ok (Some v) \<Rightarrow> w\<lparr> w_node := remember (fst v) (w_node w) \<rparr> | _ \<Rightarrow> w) else w)"
  have "same_login w w1" by (simp add: w1_def split: result.split option.split)
  then have "same_login w (snd (reload E c w1))" by (rule same_login_trans) (rule same_login_reload)
  then show ?thesis by (simp add: on_database_def platform_start_def w1_def)
qed

lemma bootstrap_commit_Ok:
  assumes "bootstrap_commit E c w = Ok (root, keys, password, d)"
  obtains rows where "root_kek c (w_node w) = Ok root" "nc_tenant c = Some (im_tenant_kek_root keys)"
    "bootstrap_rows E c root keys = Ok rows" "map_of (nb_intermediates (w_db w)) ''tenant-kek-root'' = None"
    "map_of (nb_intermediates (w_db w)) ''ca'' = None" "nb_intermediates d = nb_intermediates (w_db w) @ rows"
    "nd_kata (w_node w) \<longrightarrow> (\<exists>p salt. database_password E root = Ok p \<and> scram_verifier E p salt = Ok (nb_role d))"
proof -
  from assms obtain rows where r: "bootstrap_rows E c root keys = Ok rows" "root_kek c (w_node w) = Ok root"
      "nc_tenant c = Some (im_tenant_kek_root keys)"
    and f: "length (filter (\<lambda>r. map_of (nb_intermediates (w_db w)) (fst r) = None) rows) = 2"
    and d: "nb_intermediates d = nb_intermediates (w_db w) @ filter (\<lambda>r. map_of (nb_intermediates (w_db w)) (fst r) = None) rows"
    by (auto simp: bootstrap_commit_def query_def Let_def result_simps split: if_split_asm)
  from assms have k: "nd_kata (w_node w) \<longrightarrow> (\<exists>p salt. database_password E root = Ok p \<and> scram_verifier E p salt = Ok (nb_role d))"
    by (auto simp: bootstrap_commit_def query_def role_password_def Let_def result_simps split: if_split_asm)
  from bootstrap_rows_fst [OF r(1)] obtain a b where "rows = [(''tenant-kek-root'', a), (''ca'', b)]"
    by (cases rows; cases "tl rows") auto
  with r f d k show ?thesis by (intro that [of rows]) (auto split: if_split_asm)
qed

lemma bootstrap_Ok:
  assumes "bootstrap E c bs w = (Ok reply, wb)" and "bootstrap_open E (w_node w) bs = Ok body"
  obtains root keys rows shares boxes where
    "root_kek c (w_node w) = Ok root" "nc_tenant c = Some (im_tenant_kek_root keys)" "bootstrap_rows E c root keys = Ok rows"
    "map_of (nb_intermediates (w_db w)) ''tenant-kek-root'' = None" "map_of (nb_intermediates (w_db w)) ''ca'' = None"
    "nb_intermediates (w_db wb) = nb_intermediates (w_db w) @ rows" "shamir_split E (nc_shamir c) root = Some shares"
    "seal_shares E c 0 (runtime_spki_sha256 E (w_node w)) (zip shares (bb_custodians body)) = Ok boxes"
    "json_get reply ''payload'' = Some (bootstrap_payload E boxes keys)" "nd_phase (w_node wb) = Serving keys"
    "nd_kata (w_node w) \<longrightarrow> (\<exists>p salt. database_password E root = Ok p \<and> scram_verifier E p salt = Ok (nb_role (w_db wb)))"
proof -
  define w1 where "w1 = (case bb_database_password body of
      Some p \<Rightarrow> if nd_kata (w_node w) then use_database_password p w else w | None \<Rightarrow> w)"
  have w1: "w_db w1 = w_db w" "root_kek c (w_node w1) = root_kek c (w_node w)" "nd_kata (w_node w1) = nd_kata (w_node w)"
    "runtime_spki_sha256 E (w_node w1) = runtime_spki_sha256 E (w_node w)"
    by (simp_all add: w1_def use_database_password_def root_kek_def runtime_spki_sha256_def split: option.split)
  from assms obtain root keys password d where b: "bootstrap_commit E c w1 = Ok (root, keys, password, d)"
    and c: "(let w3 = (case password of Some p \<Rightarrow> use_database_password p (w1\<lparr> w_db := d \<rparr>) | None \<Rightarrow> w1\<lparr> w_db := d \<rparr>) in
        (case bootstrap_reply E c (bb_custodians body) root keys (w_node w3) of
           Err e \<Rightarrow> (Err e, w3)
         | Ok (payload, digest) \<Rightarrow>
             (case start_serving E c keys (w_node w3) of
                Err e \<Rightarrow> (Err e, w3)
              | Ok nd \<Rightarrow> (Ok (jobj [(''payload'', payload), (''signature'', bootstrap_signature E (nd_runtime_key nd) digest)]),
                          on_database E c (w3\<lparr> w_node := nd \<rparr>))))) = (Ok reply, wb)"
    by (cases "bootstrap_commit E c w1") (auto simp: bootstrap_def Let_def w1_def [symmetric] split: prod.splits)
  obtain rows where r: "root_kek c (w_node w1) = Ok root" "nc_tenant c = Some (im_tenant_kek_root keys)"
    "bootstrap_rows E c root keys = Ok rows" "map_of (nb_intermediates (w_db w1)) ''tenant-kek-root'' = None"
    "map_of (nb_intermediates (w_db w1)) ''ca'' = None" "nb_intermediates d = nb_intermediates (w_db w1) @ rows"
    and k: "nd_kata (w_node w1) \<longrightarrow> (\<exists>p salt. database_password E root = Ok p \<and> scram_verifier E p salt = Ok (nb_role d))"
    by (rule bootstrap_commit_Ok [OF b])
  define w3 where "w3 = (case password of Some p \<Rightarrow> use_database_password p (w1\<lparr> w_db := d \<rparr>) | None \<Rightarrow> w1\<lparr> w_db := d \<rparr>)"
  have w3: "w_db w3 = d" "runtime_spki_sha256 E (w_node w3) = runtime_spki_sha256 E (w_node w)"
    using w1(4) by (simp_all add: w3_def use_database_password_def runtime_spki_sha256_def split: option.split)
  from c obtain payload digest nd where p: "bootstrap_reply E c (bb_custodians body) root keys (w_node w3) = Ok (payload, digest)"
    and s: "start_serving E c keys (w_node w3) = Ok nd" and reply: "json_get reply ''payload'' = Some payload"
    and wb: "wb = on_database E c (w3\<lparr> w_node := nd \<rparr>)"
    unfolding w3_def [symmetric] by (auto simp: Let_def split: result.splits)
  from start_serving_frame [OF s] same_login_database [of "w3\<lparr> w_node := nd \<rparr>" E c]
  have l: "nb_intermediates (w_db wb) = nb_intermediates d" "nb_role (w_db wb) = nb_role d" "nd_phase (w_node wb) = Serving keys"
    by (auto simp: wb same_login_def w3(1))
  from p obtain shares boxes where "shamir_split E (nc_shamir c) root = Some shares" "payload = bootstrap_payload E boxes keys"
    "seal_shares E c 0 (runtime_spki_sha256 E (w_node w)) (zip shares (bb_custodians body)) = Ok boxes"
    by (auto simp: bootstrap_reply_def result_simps w3(2))
  with that [of root keys rows shares boxes] r k w1(1-3) l reply show ?thesis by simp
qed

lemma seal_shares_open:
  assumes "b64_law E" and "hpke_box_law E" and "seal_shares E c i h (zip shares (map (xwing_public E) sks)) = Ok boxes"
    and "length shares = length sks" and "j < length sks"
  shows "hpke_open E (sks ! j) INFO_UNSEAL_SHARE h (boxes ! j) = Ok (shares ! j)"
  using assms(3-)
proof (induction shares sks arbitrary: i j boxes rule: list_induct2')
  case (4 share shares sk sks)
  then obtain box rest where b: "hpke_seal E (nc_seal c i) (xwing_public E sk) INFO_UNSEAL_SHARE h share = Ok box"
    and r: "seal_shares E c (Suc i) h (zip shares (map (xwing_public E) sks)) = Ok rest" and e: "boxes = box # rest"
    by (auto simp: result_simps)
  show ?case
  proof (cases j)
    case 0
    then show ?thesis using hpke_open_seal [OF assms(1,2) b] e by simp
  next
    case (Suc k)
    with "4.IH" [OF r] "4.prems" e show ?thesis by simp
  qed
qed simp_all

lemma aead_open_seal:
  "aead_law E \<Longrightarrow> aead_seal E (Some n) key aad m = Ok box \<Longrightarrow> length n = 12 \<Longrightarrow> aead_open E key aad box = Some m"
  by (auto simp: aead_seal_def aead_open_def result_simps aead_iff)

lemma unwrap_bootstrap_rows:
  assumes "aead_law E" and "bootstrap_rows E c root keys = Ok rows" and "length (im_tenant_kek_root keys) = 32"
    and "\<And>p. \<exists>n. nc_wrap c p = Some n \<and> length n = 12" and "reachable E w"
    and "map_of (nb_intermediates (w_db w)) ''tenant-kek-root'' = map_of rows ''tenant-kek-root''"
    and "map_of (nb_intermediates (w_db w)) ''ca'' = map_of rows ''ca''"
  shows "unwrap_intermediates E root w = Ok keys"
proof -
  from assms(2) obtain t ca where t: "aead_seal E (nc_wrap c ''tenant-kek-root'') root (as_bytes ''tenant-kek-root'')
        (im_tenant_kek_root keys) = Ok t"
    and ca: "aead_seal E (nc_wrap c ''ca'') root (as_bytes ''ca'') (im_ca_key_der keys) = Ok ca"
    and r: "rows = [(''tenant-kek-root'', t, None), (''ca'', ca, Some (im_ca_cert_der keys))]"
    by (auto simp: bootstrap_rows_def result_simps)
  from t ca assms(4) [of "''tenant-kek-root''"] assms(4) [of "''ca''"]
  have "aead_open E root (as_bytes ''tenant-kek-root'') t = Some (im_tenant_kek_root keys)"
    "aead_open E root (as_bytes ''ca'') ca = Some (im_ca_key_der keys)"
    using aead_open_seal [OF assms(1)] by auto
  with r assms(3,5-7) show ?thesis
    by (simp add: unwrap_intermediates_def query_def unwrap_row_def Let_def)
qed

definition share_body :: "'x ext_scheme \<Rightarrow> full_node \<Rightarrow> bytes \<Rightarrow> bytes \<Rightarrow> bool" where
  "share_body E nd bs share \<longleftrightarrow> (\<exists>box v. body_from_request E (box_request_de ''share_hpke'') bs = Ok (box, v)
     \<and> hpke_open E (nd_xwing nd) INFO_UNSEAL_SHARE (runtime_spki_sha256 E nd) box = Ok share)"

lemma unseal_first:
  assumes "share_body E (w_node w) bs a" and "nd_phase (w_node w) = Sealed []"
  shows "unseal E c bs w = (Ok (unseal_reply True 1), set_phase (Sealed [a]) w)"
  using assms by (auto simp: unseal_def share_body_def Let_def)

lemma issue_own_leaf_ok_cong:
  "nd_pkcs8 nd' = nd_pkcs8 nd \<Longrightarrow> nd_spki nd' = nd_spki nd \<Longrightarrow> nd_compose_hash nd' = nd_compose_hash nd \<Longrightarrow>
   is_ok (issue_own_leaf E c keys nd') = is_ok (issue_own_leaf E c keys nd)"
  by (auto simp: issue_own_leaf_def is_ok_iff result_simps)

text \<open>
  The root key in hand: a node that can reach its database, on Kata with the password derived from
  the root, serves the keys the root unwraps and stays able to reach it.
\<close>

lemma serve_from_root_Ok:
  assumes "nd_kata (w_node w) \<longrightarrow> (\<exists>p salt. database_password E root = Ok p \<and> scram_verifier E p salt = Ok (nb_role (w_db w)))"
    and "nd_kata (w_node w) \<longrightarrow> pg_login_law E \<and> nc_salt c \<noteq> None"
    and "\<And>p. reachable E (use_database_password p w) \<Longrightarrow> unwrap_intermediates E root (use_database_password p w) = Ok keys"
    and "\<not> nd_kata (w_node w) \<Longrightarrow> unwrap_intermediates E root w = Ok keys"
    and "is_ok (issue_own_leaf E c keys (w_node w))"
  obtains w' where "serve_from_root E c root w = (Ok (), w')" "nd_phase (w_node w') = Serving keys" "reachable E w'"
proof (cases "nd_kata (w_node w)")
  case False
  with assms(5) obtain nd where s: "start_serving E c keys (w_node w) = Ok nd" by (auto simp: is_ok_iff start_serving_def)
  from start_serving_frame [OF s] False have "nd_phase nd = Serving keys" "\<not> nd_kata nd" by auto
  with False s assms(4) show ?thesis
    by (intro that [of "w\<lparr> w_node := nd \<rparr>"]) (simp_all add: serve_from_root_def reachable_def)
next
  case True
  with assms(1,2) obtain p salt0 salt where p: "database_password E root = Ok p" and v: "scram_verifier E p salt0 = Ok (nb_role (w_db w))"
    and l: "pg_login_law E" and salt: "nc_salt c = Some salt" by auto
  obtain verifier where n: "scram_verifier E p salt = Ok verifier" by (simp add: scram_verifier_def Let_def)
  let ?w = "use_database_password p w"
  let ?u = "?w\<lparr> w_db := (w_db ?w)\<lparr> nb_role := verifier \<rparr> \<rparr>"
  have r: "reachable E ?w" using l v by (auto simp: reachable_def use_database_password_def pg_login_law_def)
  have k: "nd_kata (w_node ?w)" using True by (simp add: use_database_password_def)
  have "set_role_password E c root ?w = (Ok p, ?u)"
    using r by (simp add: set_role_password_def role_password_def p salt n query_def)
  moreover obtain nd where s: "start_serving E c keys (w_node ?u) = Ok nd"
    using assms(5) issue_own_leaf_ok_cong [of "w_node ?w" "w_node w" E c keys]
    by (auto simp: is_ok_iff start_serving_def use_database_password_def)
  ultimately have "serve_from_root E c root w = (Ok (), on_database E c (?u\<lparr> w_node := nd \<rparr>))"
    using True k p assms(3) [OF r] by (simp add: serve_from_root_def)
  moreover from start_serving_frame [OF s] same_login_database [of "?u\<lparr> w_node := nd \<rparr>" E c]
  have "nd_phase (w_node (on_database E c (?u\<lparr> w_node := nd \<rparr>))) = Serving keys"
    "nd_password (w_node (on_database E c (?u\<lparr> w_node := nd \<rparr>))) = Some p"
    "nb_role (w_db (on_database E c (?u\<lparr> w_node := nd \<rparr>))) = verifier"
    by (auto simp: same_login_def use_database_password_def)
  moreover have "pg_login E verifier p" using l n by (auto simp: pg_login_law_def)
  ultimately show ?thesis by (intro that [of "on_database E c (?u\<lparr> w_node := nd \<rparr>)"]) (simp_all add: reachable_def)
qed

lemma unseal_second:
  assumes "share_body E (w_node w) bs b" and "nd_phase (w_node w) = Sealed [a]" and "a \<noteq> b"
    and "shamir_combine E [a, b] = Some root" and "length root = 32"
    and "serve_from_root E c root (set_phase (Sealed [a, b]) w) = (Ok (), w')" "nd_phase (w_node w') = Serving keys" "reachable E w'"
  shows "nd_phase (w_node (snd (unseal E c bs w))) = Serving keys"
  using assms by (auto simp: unseal_def share_body_def Let_def unseal_outcome_def insert_audit_def)

text \<open>
  Two shares bring a sealed node with the given rows to serve the given keys. A node on Kata finds
  the database role as the bootstrap left it and draws a salt for the new verifier.
\<close>

definition unseals :: "'x ext_scheme \<Rightarrow> bool \<Rightarrow> node_db \<Rightarrow> intermediates \<Rightarrow> bytes \<Rightarrow> bytes \<Rightarrow> bool" where
  "unseals E kata db keys a b \<longleftrightarrow> (\<forall>(w :: world) c1 c2 b1 b2. nd_kata (w_node w) = kata \<longrightarrow> nd_phase (w_node w) = Sealed [] \<longrightarrow>
     nb_intermediates (w_db w) = nb_intermediates db \<longrightarrow> (kata \<longrightarrow> nb_role (w_db w) = nb_role db \<and> nc_salt c2 \<noteq> None) \<longrightarrow>
     share_body E (w_node w) b1 a \<longrightarrow> share_body E (w_node w) b2 b \<longrightarrow> is_ok (issue_own_leaf E c2 keys (w_node w)) \<longrightarrow>
     nd_phase (w_node (snd (unseal E c2 b2 (snd (unseal E c1 b1 w))))) = Serving keys)"

lemma unseals_bootstrapped:
  assumes "aead_law E" and "shamir_law E" and "bootstrap_rows E c root keys = Ok rows" and "length (im_tenant_kek_root keys) = 32"
    and "\<And>p. \<exists>n. nc_wrap c p = Some n \<and> length n = 12" and "length root = 32"
    and "map_of old ''tenant-kek-root'' = None" and "map_of old ''ca'' = None"
    and "shamir_split E r root = Some shares" and "a \<in> set shares" and "b \<in> set shares" and "a \<noteq> b"
    and "nb_intermediates db = old @ rows"
    and "kata \<longrightarrow> pg_login_law E \<and> (\<exists>p salt. database_password E root = Ok p \<and> scram_verifier E p salt = Ok (nb_role db))"
  shows "unseals E kata db keys a b"
  unfolding unseals_def
proof (intro allI impI)
  fix w :: world and c1 c2 b1 b2
  assume w: "nd_kata (w_node w) = kata" "nd_phase (w_node w) = Sealed []" "nb_intermediates (w_db w) = nb_intermediates db"
      "kata \<longrightarrow> nb_role (w_db w) = nb_role db \<and> nc_salt c2 \<noteq> None"
    and s: "share_body E (w_node w) b1 a" "share_body E (w_node w) b2 b" and l: "is_ok (issue_own_leaf E c2 keys (w_node w))"
  let ?w = "set_phase (Sealed [a]) w" and ?u = "set_phase (Sealed [a, b]) w"
  have rows: "map_of (nb_intermediates (w_db w)) ''tenant-kek-root'' = map_of rows ''tenant-kek-root''"
    "map_of (nb_intermediates (w_db w)) ''ca'' = map_of rows ''ca''"
    using w(3) assms(7,8,13) by (simp_all add: map_add_def)
  have u: "unwrap_intermediates E root v = Ok keys" if "reachable E v" "nb_intermediates (w_db v) = nb_intermediates (w_db w)" for v
    by (rule unwrap_bootstrap_rows [OF assms(1,3,4,5) that(1)]) (simp_all add: that(2) rows)
  obtain w' where w': "serve_from_root E c2 root ?u = (Ok (), w')" "nd_phase (w_node w') = Serving keys" "reachable E w'"
  proof (rule serve_from_root_Ok [of ?u E root c2 keys])
    show "is_ok (issue_own_leaf E c2 keys (w_node ?u))"
      using l issue_own_leaf_ok_cong [of "w_node ?u" "w_node w" E c2 keys] by (simp add: set_phase_def)
  qed (use w assms(14) u in \<open>auto simp: use_database_password_def reachable_def\<close>)
  have "shamir_combine E [a, b] = Some root" using assms(2,9-12) by (auto simp: shamir_law_def)
  moreover have "share_body E (w_node ?w) b2 b" using s(2) by (simp add: share_body_def runtime_spki_sha256_def)
  ultimately have "nd_phase (w_node (snd (unseal E c2 b2 ?w))) = Serving keys"
    using unseal_second [of E ?w b2 b a root c2 w' keys] assms(6,12) w' by simp
  then show "nd_phase (w_node (snd (unseal E c2 b2 (snd (unseal E c1 b1 w))))) = Serving keys"
    by (simp add: unseal_first [OF s(1) w(2)])
qed

text \<open>
  C17. Any two of the three custodians can always bring the node back, under dstack and under Kata:
  after a bootstrap, each custodian opens its own share from the reply, and from any two shares, in
  either order, a sealed node of the same kind on the same database comes to serve exactly the keys
  the bootstrapped node serves. On Kata the sealed node logs in to the database with the password
  derived from the root key it recovers, for which the bootstrap stored the verifier.
\<close>

theorem any_two_custodians_unseal:
  assumes "b64_law E" and "aead_law E" and "hpke_box_law E" and "shamir_law E" and "pg_login_law E"
    and "bootstrap E c bs w = (Ok reply, wb)"
    and "bootstrap_open E (w_node w) bs = Ok body" and "bb_custodians body = map (xwing_public E) sks" and "length sks = 3"
    and "root_kek c (w_node w) = Ok root" and "length root = 32"
    and "nc_tenant c = Some t" and "length t = 32" and "\<And>p. \<exists>n. nc_wrap c p = Some n \<and> length n = 12"
  shows "\<exists>keys boxes shares. nd_phase (w_node wb) = Serving keys \<and> length shares = 3
    \<and> json_get reply ''payload'' = Some (bootstrap_payload E boxes keys)
    \<and> (\<forall>i < 3. hpke_open E (sks ! i) INFO_UNSEAL_SHARE (runtime_spki_sha256 E (w_node w)) (boxes ! i) = Ok (shares ! i))
    \<and> (\<forall>i < 3. \<forall>j < 3. i \<noteq> j \<longrightarrow> unseals E (nd_kata (w_node w)) (w_db wb) keys (shares ! i) (shares ! j))"
proof -
  obtain keys rows shares boxes where k: "nc_tenant c = Some (im_tenant_kek_root keys)"
      "bootstrap_rows E c root keys = Ok rows" "map_of (nb_intermediates (w_db w)) ''tenant-kek-root'' = None"
      "map_of (nb_intermediates (w_db w)) ''ca'' = None" "nb_intermediates (w_db wb) = nb_intermediates (w_db w) @ rows"
    and s: "shamir_split E (nc_shamir c) root = Some shares"
    and b: "seal_shares E c 0 (runtime_spki_sha256 E (w_node w)) (zip shares (bb_custodians body)) = Ok boxes"
    and r: "json_get reply ''payload'' = Some (bootstrap_payload E boxes keys)" "nd_phase (w_node wb) = Serving keys"
    and p: "nd_kata (w_node w) \<longrightarrow> (\<exists>p salt. database_password E root = Ok p \<and> scram_verifier E p salt = Ok (nb_role (w_db wb)))"
    using bootstrap_Ok [OF assms(6,7)] assms(10) by (metis result.inject(1))
  from s assms(4) have l: "length shares = 3" "distinct shares" by (auto simp: shamir_law_def)
  have o: "hpke_open E (sks ! i) INFO_UNSEAL_SHARE (runtime_spki_sha256 E (w_node w)) (boxes ! i) = Ok (shares ! i)" if "i < 3" for i
    by (rule seal_shares_open [OF assms(1,3) b [unfolded assms(8)]]) (use l(1) assms(9) that in simp_all)
  have u: "unseals E (nd_kata (w_node w)) (w_db wb) keys (shares ! i) (shares ! j)" if "i < 3" "j < 3" "i \<noteq> j" for i j
    by (rule unseals_bootstrapped [OF assms(2,4) k(2) _ assms(14,11) k(3,4) s _ _ _ k(5)])
      (use k(1) assms(5,12,13) p l that in \<open>simp_all add: nth_eq_iff_index_eq\<close>)
  from r l o u show ?thesis by blast
qed

section \<open>What no call undoes\<close>

text \<open>
  Intermediate keys stay as they are, the stored version does not fall, a node keeps the document it
  holds or takes a newer one, and a node that serves keeps serving the same keys.
\<close>

definition node_db_below :: "node_db \<Rightarrow> node_db \<Rightarrow> bool" where
  "node_db_below d d' \<longleftrightarrow>
     (\<forall>p r. map_of (nb_intermediates d) p = Some r \<longrightarrow> map_of (nb_intermediates d') p = Some r)
     \<and> (\<forall>row. nb_platform d = Some row \<longrightarrow> (\<exists>row'. nb_platform d' = Some row' \<and> pr_version row \<le> pr_version row'))"

definition node_below :: "full_node \<Rightarrow> full_node \<Rightarrow> bool" where
  "node_below nd nd' \<longleftrightarrow>
     (\<forall>doc. nd_platform nd = Some doc \<longrightarrow> (\<exists>doc'. nd_platform nd' = Some doc' \<and> pd_version doc \<le> pd_version doc'))
     \<and> (\<forall>keys. nd_phase nd = Serving keys \<longrightarrow> nd_phase nd' = Serving keys)"

definition world_below :: "world \<Rightarrow> world \<Rightarrow> bool" where
  "world_below w w' \<longleftrightarrow> node_db_below (w_db w) (w_db w') \<and> node_below (w_node w) (w_node w')"

lemma node_db_below_refl [simp]: "node_db_below d d" by (simp add: node_db_below_def)

lemma node_below_refl [simp]: "node_below nd nd" by (simp add: node_below_def)

lemma world_below_refl [simp]: "world_below w w" by (simp add: world_below_def)

lemma world_below_trans: "world_below u v \<Longrightarrow> world_below v w \<Longrightarrow> world_below u w"
  unfolding world_below_def node_db_below_def node_below_def by (meson order_trans)

lemma world_below_frame [simp]:
  "world_below w (insert_audit a w)" "world_below w (use_database_password p w)"
  "world_below w (w\<lparr> w_db := (w_db w)\<lparr> nb_db := x \<rparr> \<rparr>)" "world_below w (w\<lparr> w_db := (w_db w)\<lparr> nb_role := r \<rparr> \<rparr>)"
  "is_sealed (w_node w) \<Longrightarrow> world_below w (set_phase q w)"
  by (simp_all add: world_below_def node_db_below_def node_below_def insert_audit_def use_database_password_def set_phase_def
      is_sealed_def split: phase.split_asm)

lemma node_below_remember: "node_below nd (remember doc nd)"
  by (auto simp: node_below_def remember_def split: option.split)

lemma world_below_remember [simp]: "world_below w (w\<lparr> w_node := remember doc (w_node w) \<rparr>)"
  by (simp add: world_below_def node_below_remember)

lemma apply_document_below: "world_below w (snd (apply_document E v w))"
proof -
  have "world_below w (snd (store_document doc sd version (map_option pr_version (nb_platform (w_db w))) w))"
    if "\<forall>row. nb_platform (w_db w) = Some row \<longrightarrow> pr_version row \<le> version" for doc sd version
    using that by (simp add: store_document_def Let_def world_below_def node_db_below_def insert_audit_def node_below_remember)
  then show ?thesis by (auto simp: apply_document_def Let_def split: option.split)
qed

lemma reload_below: "world_below w (snd (reload E c w))"
  by (auto simp: reload_def apply_document_below split: result.split)

lemma platform_start_below: "world_below w (platform_start E c w)"
proof -
  define w1 where "w1 = (if has_database (w_node w) then
      (case load_stored E c w of Ok (Some v) \<Rightarrow> w\<lparr> w_node := remember (fst v) (w_node w) \<rparr> | _ \<Rightarrow> w) else w)"
  have "world_below w w1" by (simp add: w1_def split: result.split option.split)
  then have "world_below w (snd (reload E c w1))" by (rule world_below_trans) (rule reload_below)
  then show ?thesis by (simp add: platform_start_def w1_def)
qed

lemma on_database_below: "world_below w (on_database E c w)"
  by (simp add: on_database_def platform_start_below)

lemma start_serving_below:
  assumes "start_serving E c keys (w_node w) = Ok nd" and "is_sealed (w_node w)"
  shows "world_below w (w\<lparr> w_node := nd \<rparr>)"
  using start_serving_frame [OF assms(1)] assms(2)
  by (auto simp: world_below_def node_below_def is_sealed_def split: phase.split_asm)

lemma serve_below:
  assumes "is_sealed (w_node w)" and "start_serving E c keys (w_node w) = Ok nd"
  shows "world_below w (on_database E c (w\<lparr> w_node := nd \<rparr>))"
  by (rule world_below_trans [OF start_serving_below [OF assms(2,1)] on_database_below])

lemma is_sealed_password [simp]: "is_sealed (w_node (use_database_password p w)) = is_sealed (w_node w)"
  by (simp add: is_sealed_def use_database_password_def)

lemma bootstrap_commit_below:
  assumes "bootstrap_commit E c w = Ok (root, keys, password, d)"
  shows "world_below w (w\<lparr> w_db := d \<rparr>)"
  using assms
  by (auto simp: bootstrap_commit_def query_def Let_def result_simps world_below_def node_db_below_def map_add_def
      split: option.split if_split_asm)

lemma bootstrap_below: "world_below w (snd (bootstrap E c bs w))"
proof (cases "bootstrap_open E (w_node w) bs")
  case (Ok body)
  then have sealed: "is_sealed (w_node w)" by (auto simp: bootstrap_open_def result_simps)
  define w1 where "w1 = (case bb_database_password body of
      Some p \<Rightarrow> if nd_kata (w_node w) then use_database_password p w else w | None \<Rightarrow> w)"
  have w1: "world_below w w1" "is_sealed (w_node w1)" using sealed by (simp_all add: w1_def split: option.split)
  show ?thesis
  proof (cases "bootstrap_commit E c w1")
    case (Err e)
    with Ok w1 show ?thesis by (simp add: bootstrap_def w1_def [symmetric])
  next
    case (Ok r)
    then obtain root keys password d where c: "bootstrap_commit E c w1 = Ok (root, keys, password, d)" by (cases r) auto
    define w3 where "w3 = (case password of Some p \<Rightarrow> use_database_password p (w1\<lparr> w_db := d \<rparr>) | None \<Rightarrow> w1\<lparr> w_db := d \<rparr>)"
    have "world_below (w1\<lparr> w_db := d \<rparr>) w3" by (simp add: w3_def split: option.split)
    with w1(1) bootstrap_commit_below [OF c] have w3: "world_below w w3" by (blast intro: world_below_trans)
    have "is_sealed (w_node w3)" using w1(2) by (simp add: w3_def split: option.split)
    with w3 serve_below have "world_below w (on_database E c (w3\<lparr> w_node := nd \<rparr>))"
      if "start_serving E c keys (w_node w3) = Ok nd" for nd using that by (blast intro: world_below_trans)
    with c w3 \<open>bootstrap_open E (w_node w) bs = Ok body\<close> show ?thesis
      by (auto simp: bootstrap_def w1_def [symmetric] w3_def [symmetric] Let_def split: result.split)
  qed
qed (simp add: bootstrap_def)

lemma set_role_password_below: "world_below w (snd (set_role_password E c root w))"
  by (simp add: set_role_password_def split: result.split prod.split)

lemma is_sealed_role [simp]: "is_sealed (w_node (snd (set_role_password E c root w))) = is_sealed (w_node w)"
  by (simp add: set_role_password_def split: result.split prod.split)

lemma serve_from_root_below:
  assumes "is_sealed (w_node w)"
  shows "world_below w (snd (serve_from_root E c root w))"
proof (cases "if nd_kata (w_node w) then and_then (database_password E root) (\<lambda>p. Ok (use_database_password p w)) else Ok w")
  case (Ok w1)
  then have w1: "world_below w w1" "is_sealed (w_node w1)" using assms by (auto simp: result_simps split: if_split_asm)
  define r where "r = (if nd_kata (w_node w1) then set_role_password E c root w1 else (Ok [], w1))"
  have w2: "world_below w (snd r)" "is_sealed (w_node (snd r))"
    using w1 world_below_trans [OF w1(1) set_role_password_below] by (auto simp: r_def)
  then have "world_below w (on_database E c (snd r\<lparr> w_node := nd \<rparr>))"
    if "start_serving E c keys (w_node (snd r)) = Ok nd" for keys nd
    using that serve_below world_below_trans by blast
  moreover have "serve_from_root E c root w = (case unwrap_intermediates E root w1 of
      Err e \<Rightarrow> (Err e, w1)
    | Ok keys \<Rightarrow> (case r of
        (Err e, w2) \<Rightarrow> (Err e, w2)
      | (Ok _, w2) \<Rightarrow> (case start_serving E c keys (w_node w2) of
          Err e \<Rightarrow> (Err e, w2) | Ok nd \<Rightarrow> (Ok (), on_database E c (w2\<lparr> w_node := nd \<rparr>)))))"
    unfolding serve_from_root_def Ok r_def by simp
  ultimately show ?thesis using w1 w2 by (cases r) (auto split: result.split)
qed (simp add: serve_from_root_def)

lemma unseal_outcome_below: "is_sealed (w_node w) \<Longrightarrow> world_below w (snd (unseal_outcome E c shares w))"
  by (simp add: unseal_outcome_def serve_from_root_below split: option.split)

lemma unseal_below: "world_below w (snd (unseal E c bs w))"
proof (cases "and_then (body_from_request E (box_request_de ''share_hpke'') bs) (\<lambda>(request, _).
    map_err (\<lambda>_. malformed) (hpke_open E (nd_xwing (w_node w)) INFO_UNSEAL_SHARE (runtime_spki_sha256 E (w_node w)) request))")
  case (Ok share)
  show ?thesis
  proof (cases "nd_phase (w_node w)")
    case (Sealed shares)
    define collected where "collected = (if share \<in> set shares then shares else shares @ [share])"
    let ?w = "set_phase (Sealed collected) w"
    have "is_sealed (w_node w)" by (simp add: is_sealed_def Sealed)
    then have w: "world_below w ?w" by simp
    have "is_sealed (w_node ?w)" by (simp add: is_sealed_def)
    from world_below_trans [OF w unseal_outcome_below [OF this]]
    have u: "world_below w (snd (unseal_outcome E c collected ?w))" .
    have "world_below v (clear_shares v)" for v by (simp add: clear_shares_def)
    with u have "world_below w (clear_shares (snd (unseal_outcome E c collected ?w)))" by (blast intro: world_below_trans)
    with u w Ok Sealed show ?thesis
      by (auto simp: unseal_def Let_def collected_def [symmetric] intro: world_below_trans split: prod.split result.split)
  qed (simp add: unseal_def Ok)
qed (simp add: unseal_def)

text \<open>The other node's handler writes audit rows only.\<close>

definition audit_peer :: "(json \<Rightarrow> node_db \<Rightarrow> json option) \<Rightarrow> (db \<Rightarrow> db) \<Rightarrow> peer" where
  "audit_peer answer f = (\<lambda>q d. (answer q d, d\<lparr> nb_db := f (nb_db d) \<rparr>))"

lemma join_credential_below: "world_below w (snd (join_credential E c v r w))"
  by (simp add: join_credential_def Let_def split: option.split)

lemma is_sealed_credential [simp]: "is_sealed (w_node (snd (join_credential E c v r w))) = is_sealed (w_node w)"
  by (simp add: join_credential_def Let_def split: option.split)

lemma join_receive_below:
  assumes "is_sealed (w_node w)"
  shows "world_below w (snd (join_receive E c v answer w))"
proof -
  have "world_below w (on_database E c (snd (join_credential E c v r w)\<lparr> w_node := nd \<rparr>))"
    if "start_serving E c keys (w_node (snd (join_credential E c v r w))) = Ok nd" for r keys nd
    by (rule world_below_trans [OF join_credential_below serve_below [OF _ that]]) (simp add: assms)
  then show ?thesis
    unfolding join_receive_def using join_credential_below [of w E c v]
    by (auto simp: result_simps prod_eq_iff split: option.split prod.split result.split)
qed

lemma join_announce_below: "world_below w (join_announce E ep w)" "w_node (join_announce E ep w) = w_node w"
  by (simp_all add: join_announce_def) (simp add: insert_audit_def)

lemma join_via_below:
  assumes "is_sealed (w_node w)"
  shows "world_below w (snd (join_via E c n (audit_peer answer f) ep v w))"
proof (cases "and_then (ok_or n internal) (\<lambda>t. and_then (decode32 E t) (\<lambda>x. Ok (t, x)))")
  case (Ok tn)
  let ?w = "join_announce E ep w"
  let ?v = "?w\<lparr> w_db := (w_db ?w)\<lparr> nb_db := f (nb_db (w_db ?w)) \<rparr> \<rparr>"
  have "world_below w ?v" by (rule world_below_trans [OF join_announce_below(1) [of w E ep]]) simp
  moreover have "world_below ?v (snd (join_receive E c v a ?v))" for a
    by (rule join_receive_below) (simp add: join_announce_below assms)
  ultimately have "world_below w (snd (join_receive E c v a ?v))" for a by (blast intro: world_below_trans)
  with Ok show ?thesis
    by (auto simp: join_via_def audit_peer_def Let_def join_announce_below split: option.split prod.split)
qed (simp add: join_via_def)

section \<open>Runs\<close>

datatype node_op =
    Bootstrap ncall bytes
  | Unseal ncall bytes
  | Join ncall bytes
  | Reload ncall
  | Start ncall
  | Renew ncall
  | JoinVia ncall "string option" "json \<Rightarrow> node_db \<Rightarrow> json option" "db \<Rightarrow> db" string nat
  | Tables "db \<Rightarrow> db"

text \<open>\<open>Tables\<close> stands for the calls of the other two APIs; a node joins only while it is sealed.\<close>

fun node_step :: "'x ext_scheme \<Rightarrow> node_op \<Rightarrow> world \<Rightarrow> world" where
  "node_step E (Bootstrap c bs) w = snd (bootstrap E c bs w)"
| "node_step E (Unseal c bs) w = snd (unseal E c bs w)"
| "node_step E (Join c bs) w = snd (join_node E c bs w)"
| "node_step E (Reload c) w = snd (reload E c w)"
| "node_step E (Start c) w = platform_start E c w"
| "node_step E (Renew c) w = w\<lparr> w_node := renew_leaf E c (w_node w) \<rparr>"
| "node_step E (JoinVia c n answer f ep v) w =
     (if is_sealed (w_node w) then snd (join_via E c n (audit_peer answer f) ep v w) else w)"
| "node_step E (Tables f) w = w\<lparr> w_db := (w_db w)\<lparr> nb_db := f (nb_db (w_db w)) \<rparr> \<rparr>"

lemma join_node_below: "world_below w (snd (join_node E c bs w))"
  by (simp add: join_node_def Let_def split: result.split prod.split)

lemma renew_leaf_below: "node_below nd (renew_leaf E c nd)"
proof (cases "and_then (serving_keys nd) (\<lambda>keys. issue_own_leaf E c keys nd)")
  case (Ok m)
  then obtain keys where "issue_own_leaf E c keys nd = Ok m" by (auto simp: result_simps)
  from issue_own_leaf_frame [OF this] Ok show ?thesis by (auto simp: renew_leaf_def node_below_def)
qed (simp add: renew_leaf_def)

lemma node_step_below: "world_below w (node_step E q w)"
  by (cases q) (simp_all add: bootstrap_below unseal_below join_node_below reload_below platform_start_below join_via_below
      world_below_def [of w "w\<lparr> w_node := _ \<rparr>"] renew_leaf_below)

interpretation node_api: monotone_stepper "node_step E" "\<lambda>_. True" world_below for E
  by unfold_locales (auto intro: world_below_trans node_step_below)

lemma appraise_instance_listed:
  assumes "sha_law E" and "appraise_instance E ev n spki (Some x) doc coll now = Ok a"
  shows "ap_compose_hash a \<in> kr_compose_hash ` set (pd_kms_revisions doc)"
  using assms appraise_Ok [of E _ n spki "Some x"] appraise_kata_evidence_Ok [of E _ n spki "Some x"]
  by (cases ev) (fastforce simp: appraise_instance_def)+

section \<open>Properties\<close>

text \<open>
  Whatever calls reach a node, in whatever order: the intermediate keys in the database are
  never replaced, the version of the stored platform document never falls, the node never goes back to
  an older document than it holds, and once it serves it serves the same keys.
\<close>

theorem node_runs_undo_nothing:
  "world_below w (fold (node_step E) qs w)"
  by (rule node_api.run_below) simp

text \<open>
  C18. The intermediates leave a node for one reason only: the peer's evidence was appraised against
  this node's platform document with a fresh nonce of this node, for the key of its client
  certificate and its X-Wing key, in a KMS Revision the document lists, and, unless it is a Kata
  pod, a row of the shared database announced it in the last ten minutes. The handover is audited.
\<close>

theorem join_reveals_to_listed_peer:
  assumes "sha_law E" and "join_node E c bs w = (Ok reply, w')"
  shows "\<exists>leaf rest spki (request :: join_request) n doc coll a keys. nc_peer c = leaf # rest \<and> spki_of E leaf = Ok spki
    \<and> check_nonce E (nd_nonce_key (w_node w)) n (nc_now c) = Ok () \<and> nd_platform (w_node w) = Some doc
    \<and> appraise_instance E (jq_evidence request) n spki (Some (jq_xwing_pubkey request)) doc coll (nc_now c) = Ok a
    \<and> ap_compose_hash a \<in> kr_compose_hash ` set (pd_kms_revisions doc)
    \<and> (is_kata (jq_evidence request) \<or> join_requested E c (nb_db (w_db w)) spki)
    \<and> nd_phase (w_node w) = Serving keys \<and> reply = join_reply_json E keys (nd_password (w_node w))
    \<and> w' = insert_audit (join_details E spki (Ok (ap_compose_hash a))) w"
proof -
  from assms(2) obtain leaf rest where "nc_peer c = leaf # rest"
    by (cases "nc_peer c") (auto simp: join_node_def join_checks_def result_simps split: result.split_asm)
  with assms(2) obtain spki request h keys where p: "nc_peer c = leaf # rest" "spki_of E leaf = Ok spki"
    and i: "join_inner E c spki request w = Ok h"
    and k: "serving_keys (w_node w) = Ok keys" "reply = join_reply_json E keys (nd_password (w_node w))"
      "w' = insert_audit (join_details E spki (Ok h)) w"
    by (auto simp: join_node_def join_checks_def Let_def result_simps split: result.split_asm if_split_asm)
  from i obtain n doc coll a where a: "check_nonce E (nd_nonce_key (w_node w)) n (nc_now c) = Ok ()" "nd_platform (w_node w) = Some doc"
      "appraise_instance E (jq_evidence request) n spki (Some (jq_xwing_pubkey request)) doc coll (nc_now c) = Ok a" "h = ap_compose_hash a"
    and r: "is_kata (jq_evidence request) \<or> join_requested E c (nb_db (w_db w)) spki"
    by (auto simp: join_inner_def Let_def query_def result_simps split: if_split_asm)
  have l: "ap_compose_hash a \<in> kr_compose_hash ` set (pd_kms_revisions doc)"
    using appraise_instance_listed [OF assms(1) a(3)] by simp
  from k(1) have "nd_phase (w_node w) = Serving keys" by (simp add: serving_keys_def split: phase.split_asm)
  with p a(1-3) r l k(2) k(3) [unfolded a(4)] show ?thesis by (intro exI conjI)
qed

lemma join_reply_de_json:
  "join_reply_de (join_reply_json E keys p) = Some \<lparr> jr_tenant_kek_root = b64_enc E (im_tenant_kek_root keys),
      jr_ca_key = b64_enc E (im_ca_key_der keys), jr_ca_cert = b64_enc E (im_ca_cert_der keys), jr_database_password = p \<rparr>"
  unfolding join_reply_de_def join_reply_json_def
  by (rule struct_fields_jobj_bind) (simp_all add: field_def opt_field_def opt_str_json_def split: option.split)

text \<open>
  Joining copies the keys exactly: a node that joins through a peer which answers with the keys
  it serves comes to serve those same keys.
\<close>

theorem join_copies_keys:
  assumes "b64_law E" and "\<not> nd_kata (w_node w)" and "length (im_tenant_kek_root keys) = 32"
    and "join_via E c n (\<lambda>q d. (Some (join_reply_json E keys p), f d)) ep v w = (Ok (), w')"
  shows "nd_phase (w_node w') = Serving keys"
proof -
  have k: "join_fields E \<lparr> jr_tenant_kek_root = b64_enc E (im_tenant_kek_root keys),
      jr_ca_key = b64_enc E (im_ca_key_der keys), jr_ca_cert = b64_enc E (im_ca_cert_der keys), jr_database_password = p \<rparr> = Ok keys"
    using assms(3) by (simp add: join_fields_def b64_decode_encode [OF assms(1)])
  from assms(4) obtain nd d where nd: "start_serving E c keys (w_node w) = Ok nd"
    and w': "w' = on_database E c (join_announce E ep w\<lparr> w_db := d, w_node := nd \<rparr>)"
    using assms(2) by (auto simp: join_via_def Let_def join_receive_def join_reply_de_json k join_credential_def join_announce_below
        split: result.split_asm option.split_asm prod.split_asm)
  from start_serving_frame [OF nd] assms(2) have "nd_phase nd = Serving keys" "\<not> nd_kata nd" by auto
  then show ?thesis by (simp add: w')
qed

section \<open>Witnesses\<close>

definition demo_boot :: ext where
  "demo_boot = demo_kms\<lparr> hpke_single_shot_seal := \<lambda>r pk i m a. Some (pk, m), hpke_single_shot_open := \<lambda>sk e i c a. Some c,
     xwing_encapped_ok := \<lambda>_. True, x509_parse := \<lambda>_. Some (demo_leaf, []),
     qvl_verify := \<lambda>_ _ _. Some \<lparr> qv_status = ''UpToDate'', qv_advisory_ids = [],
       qv_td10 = Some (demo_report\<lparr> td_report_data := report_data demo_kms [] demo_nonce (Some (demo_public 1215 [])) \<rparr>) \<rparr>,
     json_events := \<lambda>bs.
       if bs = [1] then Some (RSeq [RSeq [RStr KEM_NAME, RStr [], RStr (hex_encode [2])]])
       else if bs = [2] then Some (RSeq [RSeq (map (\<lambda>k. RStr (hex_encode (demo_public 1215 k))) [[1], [2], [3]])])
       else if bs = [3] then Some (RSeq [RStr (hex_encode demo_nonce),
         RMap [(''format'', RStr KATA_EVIDENCE_FORMAT), (''quote'', RStr [])], RStr (hex_encode (demo_public 1215 []))])
       else if bs = [4] then Some (RSeq [RSeq [RStr KEM_NAME, RStr [], RStr (hex_encode [5])]])
       else if bs = [5] then Some (RSeq [RSeq (map (\<lambda>k. RStr (hex_encode (demo_public 1215 k))) [[1], [2], [3]]), RStr ''pw''])
       else None \<rparr>"

lemma demo_boot_laws: "b64_law demo_boot" "aead_law demo_boot" "hpke_box_law demo_boot" "shamir_law demo_boot" "sha_law demo_boot"
  using demo_kms_laws(1,2,4) demo_shamir
  by (simp_all add: demo_boot_def b64_law_def aead_law_def hpke_box_law_def shamir_law_def sha_law_def demo_kms_def)

lemma demo_boot_login: "pg_login demo_boot v p" by (simp add: demo_boot_def demo_kms_def demo_def)

lemma demo_boot_postgres: "pg_login_law demo_boot" by (simp add: pg_login_law_def demo_boot_login)

definition demo_full :: full_node where
  "demo_full = \<lparr> nd_phase = Sealed [], nd_platform = None, nd_runtime_key = [], nd_nonce_key = [], nd_spki = [], nd_pkcs8 = [],
     nd_xwing = [], nd_compose_hash = [], nd_release_keys = demo_release, nd_kata = False, nd_dev_root = None,
     nd_password = None, nd_cert = [] \<rparr>"

definition demo_ncall :: ncall where
  "demo_ncall = \<lparr> nc_now = 0, nc_leaf_now = 0, nc_doc_now = 0, nc_root = Some (replicate 32 1), nc_tenant = Some (replicate 32 2),
     nc_ca_key = [3], nc_ca_serial = Some [1], nc_wrap = \<lambda>_. Some (replicate 12 0), nc_salt = Some [], nc_shamir = [],
     nc_seal = \<lambda>_. [], nc_leaf_serial = Some [1], nc_fetch = None, nc_quote = \<lambda>_. Some (Dstack demo_guest),
     nc_collateral = Ok [], nc_peer = [[]], nc_audit_ts = [], nc_db_now = 0 \<rparr>"

definition demo_world :: world where
  "demo_world = \<lparr> w_node = demo_full, w_db = \<lparr> nb_db = demo_db, nb_intermediates = [], nb_platform = None, nb_role = [] \<rparr> \<rparr>"

text \<open>The same node and database on Kata.\<close>

definition demo_kata_world :: world where
  "demo_kata_world = demo_world\<lparr> w_node := demo_full\<lparr> nd_kata := True \<rparr> \<rparr>"

lemma demo_boot_leaf: "is_ok (issue_own_leaf demo_boot demo_ncall keys nd)"
proof -
  have x: "rcgen_spki_ok demo_boot k" "rcgen_issuer_ok demo_boot k" "rcgen_key_pair_ok demo_boot k" "list_all (ia5_ok demo_boot) t"
    "rcgen_signed_by demo_boot lp k c = Some (lp_spki lp)" "load_private_key_ok demo_boot k" for k t lp c
    by (simp_all add: demo_boot_def demo_kms_def demo_def list_all_iff)
  show ?thesis
    by (simp add: issue_own_leaf_def key_pair_def x issue_leaf_def later_def seconds_of_def LEAF_TTL_def serial_of_def demo_ncall_def
        certified_def Let_def)
qed

lemma demo_boot_opened:
  "bootstrap_open demo_boot (w_node demo_kata_world) [4] =
   Ok \<lparr> bb_custodians = map (xwing_public demo_boot) [[1], [2], [3]], bb_database_password = Some ''pw'' \<rparr>"
proof -
  have u: "b64_dec demo_boot (hex_encode b) = Some b" for b
    by (simp add: demo_boot_def demo_kms_def demo_def demo_unhex_encode)
  have o: "xwing_public_ok demo_boot k = (length k = 1216)" "xwing_encapped_ok demo_boot k" "b64_dec demo_boot [] = Some []"
    "hpke_single_shot_open demo_boot sk e i c a = Some c" "xwing_public demo_boot k = demo_public 1215 k"
    "jcs demo_boot v = Some (demo_jcs v)" for k sk e i c a v
    by (simp_all add: demo_boot_def demo_kms_def demo_def)
  have j: "json_events demo_boot [4] = Some (RSeq [RSeq [RStr KEM_NAME, RStr [], RStr (hex_encode [5])]])"
    "json_events demo_boot [5] = Some (RSeq [RSeq (map (\<lambda>k. RStr (hex_encode (demo_public 1215 k))) [[1], [2], [3]]), RStr ''pw''])"
    by (simp_all add: demo_boot_def)
  have k: "to_option (public_key_try_from demo_boot (demo_public 1215 k)) = Some (demo_public 1215 k)" for k
    by (simp add: public_key_try_from_def o PUBLIC_KEY_LEN_def demo_public_def)
  have b: "bootstrap_body_de demo_boot [5] = Some \<lparr> bb_custodians = map (xwing_public demo_boot) [[1], [2], [3]],
      bb_database_password = Some ''pw'' \<rparr>"
    by (simp add: bootstrap_body_de_def j raw_fields_def raw_field_def raw_vec_def raw_public_key_def u k o raw_opt_field_def)
  have r: "body_from_request demo_boot (box_request_de ''body_hpke'') [4] =
      Ok (\<lparr> sx_kem = KEM_NAME, sx_enc = [], sx_ct = hex_encode [5] \<rparr>, JArray [JArray [JString KEM_NAME, JString [], JString (hex_encode [5])]])"
    by (simp add: body_from_request_def parse_def j box_request_de_def struct_fields_def field_def sealed_box_de_def)
  have h: "hpke_open demo_boot sk info h \<lparr> sx_kem = KEM_NAME, sx_enc = [], sx_ct = hex_encode [5] \<rparr> = Ok [5]" for sk info h
    by (simp add: hpke_open_def o u hpke_aad_def)
  show ?thesis unfolding bootstrap_open_def r by (simp add: h b) (simp add: demo_kata_world_def demo_full_def is_sealed_def)
qed

lemma demo_boot_aead: "\<exists>b. aead_seal demo_boot (Some n) key aad m = Ok b"
  by (simp add: aead_seal_def demo_boot_def demo_kms_def demo_def demo_seal_def)

lemma demo_boot_seal: "\<exists>b. hpke_seal demo_boot r (demo_public 1215 k) info h m = Ok b"
  by (simp add: hpke_seal_def hpke_aad_def demo_boot_def demo_kms_def demo_def)

lemma demo_boot_commit:
  "\<exists>keys p d. bootstrap_commit demo_boot demo_ncall (use_database_password ''pw'' demo_kata_world) = Ok (replicate 32 1, keys, Some p, d)"
proof -
  obtain t where t: "aead_seal demo_boot (Some (replicate 12 0)) (replicate 32 1) (as_bytes ''tenant-kek-root'') (replicate 32 2) = Ok t"
    using demo_boot_aead by blast
  obtain ca where ca: "aead_seal demo_boot (Some (replicate 12 0)) (replicate 32 1) (as_bytes ''ca'') [3] = Ok ca"
    using demo_boot_aead by blast
  have n: "new_ca demo_boot [3] (Some [1]) 0 = Ok ([3], [1, 3])"
    by (simp add: new_ca_def later_def seconds_of_def serial_of_def demo_boot_def demo_kms_def demo_def)
  obtain p where p: "database_password demo_boot (replicate 32 1) = Ok p"
    by (simp add: database_password_def kms_hkdf_def demo_boot_def demo_kms_def demo_def)
  obtain v where v: "scram_verifier demo_boot p [] = Ok v" by (simp add: scram_verifier_def Let_def)
  show ?thesis
    by (simp add: bootstrap_commit_def root_kek_def demo_kata_world_def demo_world_def demo_full_def demo_ncall_def n query_def reachable_def
        use_database_password_def bootstrap_rows_def t ca Let_def demo_boot_login role_password_def p v)
qed

lemma demo_boot_reply:
  "is_ok (bootstrap_reply demo_boot demo_ncall (map (xwing_public demo_boot) [[1], [2], [3]]) root keys nd)"
proof -
  have s: "shamir_split demo_boot r m = Some [1 # m, 2 # m, 3 # m]" "xwing_public demo_boot k = demo_public 1215 k"
    "jcs demo_boot v = Some (demo_jcs v)" for r m k v
    by (simp_all add: demo_boot_def demo_kms_def demo_def)
  obtain b where b: "hpke_seal demo_boot r (demo_public 1215 k) info h m = Ok (b r k info h m)" for r k info h m
    using demo_boot_seal by metis
  show ?thesis by (simp add: bootstrap_reply_def s b signing_digest_def)
qed

lemma demo_bootstrap: "\<exists>reply wb. bootstrap demo_boot demo_ncall [4] demo_kata_world = (Ok reply, wb)"
proof -
  let ?w = "use_database_password ''pw'' demo_kata_world"
  obtain keys p d where c: "bootstrap_commit demo_boot demo_ncall ?w = Ok (replicate 32 1, keys, Some p, d)"
    using demo_boot_commit by blast
  let ?u = "use_database_password p (?w\<lparr> w_db := d \<rparr>)"
  obtain payload digest where r: "bootstrap_reply demo_boot demo_ncall (map (xwing_public demo_boot) [[1], [2], [3]])
      (replicate 32 1) keys (w_node ?u) = Ok (payload, digest)"
    using demo_boot_reply by (fastforce simp: is_ok_iff)
  obtain nd where s: "start_serving demo_boot demo_ncall keys (w_node ?u) = Ok nd"
    using demo_boot_leaf [of keys "w_node ?u"] by (auto simp: is_ok_iff start_serving_def)
  have k: "nd_kata (w_node demo_kata_world)" by (simp add: demo_kata_world_def)
  show ?thesis
    unfolding bootstrap_def demo_boot_opened by (simp add: c r s k del: list.map)
qed

theorem any_two_custodians_unseal_witness:
  "\<exists>reply wb keys boxes shares. nd_kata (w_node demo_kata_world)
    \<and> bootstrap demo_boot demo_ncall [4] demo_kata_world = (Ok reply, wb) \<and> nd_phase (w_node wb) = Serving keys
    \<and> json_get reply ''payload'' = Some (bootstrap_payload demo_boot boxes keys)
    \<and> unseals demo_boot (nd_kata (w_node demo_kata_world)) (w_db wb) keys (shares ! 0) (shares ! 2)"
proof -
  obtain reply wb where b: "bootstrap demo_boot demo_ncall [4] demo_kata_world = (Ok reply, wb)"
    using demo_bootstrap by blast
  have c: "nd_kata (w_node demo_kata_world)" "root_kek demo_ncall (w_node demo_kata_world) = Ok (replicate 32 1)"
    "nc_tenant demo_ncall = Some (replicate 32 2)" "\<And>p. \<exists>n. nc_wrap demo_ncall p = Some n \<and> length n = 12"
    by (simp_all add: demo_kata_world_def demo_full_def root_kek_def demo_ncall_def)
  obtain keys boxes shares where "nd_phase (w_node wb) = Serving keys"
      "json_get reply ''payload'' = Some (bootstrap_payload demo_boot boxes keys)"
    and u: "\<forall>i < 3. \<forall>j < 3. i \<noteq> j \<longrightarrow>
      unseals demo_boot (nd_kata (w_node demo_kata_world)) (w_db wb) keys (shares ! i) (shares ! j)"
    using any_two_custodians_unseal [OF demo_boot_laws(1-4) demo_boot_postgres b demo_boot_opened bootstrap_body.select_convs(1) _
      c(2) _ c(3) _ c(4)] by (auto simp del: list.map)
  moreover have "unseals demo_boot (nd_kata (w_node demo_kata_world)) (w_db wb) keys (shares ! 0) (shares ! 2)"
    by (rule u [rule_format]) simp_all
  ultimately have "\<exists>keys boxes shares. nd_phase (w_node wb) = Serving keys
      \<and> json_get reply ''payload'' = Some (bootstrap_payload demo_boot boxes keys)
      \<and> unseals demo_boot (nd_kata (w_node demo_kata_world)) (w_db wb) keys (shares ! 0) (shares ! 2)"
    by (intro exI conjI)
  with b c(1) show ?thesis by blast
qed

theorem join_copies_keys_witness:
  "nd_phase (w_node (snd (join_via demo_boot demo_ncall (Some (b64_enc demo_boot (replicate 32 0)))
     (\<lambda>q d. (Some (join_reply_json demo_boot \<lparr> im_tenant_kek_root = replicate 32 2, im_ca_key_der = [3], im_ca_cert_der = [1] \<rparr> None), d))
     [] 0 demo_world))) = Serving \<lparr> im_tenant_kek_root = replicate 32 2, im_ca_key_der = [3], im_ca_cert_der = [1] \<rparr>"
  (is "nd_phase (w_node (snd ?j)) = Serving ?keys")
proof -
  have d: "decode32 demo_boot (b64_enc demo_boot (replicate 32 0)) = Ok (replicate 32 0)"
    by (simp add: decode32_def b64_decode_encode [OF demo_boot_laws(1)])
  have r: "join_reply_de (join_reply_json demo_boot ?keys None) = Some \<lparr> jr_tenant_kek_root = b64_enc demo_boot (replicate 32 2),
      jr_ca_key = b64_enc demo_boot [3], jr_ca_cert = b64_enc demo_boot [1], jr_database_password = None \<rparr>"
    by (simp add: join_reply_de_json)
  obtain nd where s: "start_serving demo_boot demo_ncall ?keys demo_full = Ok nd"
    using demo_boot_leaf [of ?keys demo_full] by (auto simp: is_ok_iff start_serving_def)
  have w: "w_node (join_announce demo_boot [] demo_world) = demo_full" "\<not> nd_kata demo_full"
    by (simp_all add: join_announce_below) (simp_all add: demo_world_def demo_full_def)
  obtain w' where j: "?j = (Ok (), w')"
    by (simp add: join_via_def d join_receive_def r b64_decode_encode [OF demo_boot_laws(1)] join_credential_def w
        join_fields_def s demo_ncall_def [THEN arg_cong [of _ _ nc_quote]] Let_def)
  have "\<not> nd_kata (w_node demo_world)" "length (im_tenant_kek_root ?keys) = 32" by (simp_all add: demo_world_def demo_full_def)
  from join_copies_keys [OF demo_boot_laws(1) this j] j show ?thesis by simp
qed

definition demo_kms_doc :: platform_document where
  "demo_kms_doc = demo_doc\<lparr> pd_kms_revisions := [\<lparr> kr_compose_hash = replicate 32 7, kr_build = [], kr_source_url = [] \<rparr>] \<rparr>"

definition demo_serving :: world where
  "demo_serving = demo_world\<lparr> w_node := demo_full\<lparr> nd_platform := Some demo_kms_doc,
     nd_phase := Serving \<lparr> im_tenant_kek_root = replicate 32 2, im_ca_key_der = [3], im_ca_cert_der = [1] \<rparr> \<rparr> \<rparr>"

lemma demo_peer_appraised:
  "is_ok (appraise_kata_evidence demo_boot demo_pod demo_nonce [] (Some (demo_public 1215 [])) demo_kms_doc [] 0)"
proof -
  have r: "report_data demo_boot s n x = report_data demo_kms s n x" for s n x
    by (simp add: report_data_def demo_boot_def split: option.split)
  have q: "verify_quote demo_boot [] [] (pd_policy demo_kms_doc) 0 = Ok \<lparr>
      vq_report_data = report_data demo_kms [] demo_nonce (Some (demo_public 1215 [])),
      vq_td_attributes = [0, 0, 0, 16, 0, 0, 0, 0], vq_xfam = [0xe7, 0x1a, 6, 0, 0, 0, 0, 0],
      vq_mr_config_id = replicate 32 7 @ replicate 16 0, vq_mr_owner = replicate 48 0,
      vq_mr_owner_config = replicate 48 0, vq_mr_signer_seam = replicate 48 0,
      vq_measured = \<lparr> m_mrtd = [1], m_rtmr0 = [2], m_rtmr1 = [3], m_rtmr2 = [4], m_rtmr3 = replicate 48 0 \<rparr>,
      vq_tcb_status = ''UpToDate'', vq_advisories = [] \<rparr>"
    by (simp add: verify_quote_def demo_boot_def demo_report_def demo_kms_doc_def demo_doc_def quote_policy_def)
  have c: "mr_config_digest (replicate 32 7 @ replicate 16 0) = Ok (replicate 32 7)"
    by (simp add: mr_config_digest_Ok)
  have d: "pd_kata_reference_values demo_kms_doc = [demo_class 1, demo_class 2]"
    "kms_revision_listed demo_kms_doc (replicate 32 7) = Ok ()"
    by (simp_all add: demo_kms_doc_def demo_doc_def kms_revision_listed_def)
  have j: "jcs demo_boot v = Some (demo_jcs v)" for v by (simp add: demo_boot_def demo_kms_def demo_def)
  show ?thesis
    by (simp add: appraise_kata_evidence_def demo_pod_def appraise_kata_def q r c d kata_reference_of_def
        KATA_TD_ATTRIBUTES_def KATA_XFAM_def kata_matches_def demo_class_def appraise_kata_gpus_def
        evidence_sha256_def j)
qed

lemma demo_join_checks: "join_checks demo_boot demo_ncall [3] =
  Ok ([], \<lparr> jq_nonce = hex_encode demo_nonce, jq_evidence = Kata demo_pod, jq_xwing_pubkey = demo_public 1215 [] \<rparr>)"
proof -
  have u: "b64_dec demo_boot (hex_encode b) = Some b" "b64_dec demo_boot [] = Some []" for b
    by (simp_all add: demo_boot_def demo_kms_def demo_def demo_unhex_encode)
  have o: "xwing_public_ok demo_boot k = (length k = 1216)" "x509_parse demo_boot b = Some (demo_leaf, [])" for k b
    by (simp_all add: demo_boot_def demo_kms_def demo_def)
  have j: "json_events demo_boot [3] = Some (RSeq [RStr (hex_encode demo_nonce),
         RMap [(''format'', RStr KATA_EVIDENCE_FORMAT), (''quote'', RStr [])], RStr (hex_encode (demo_public 1215 []))])"
    by (simp add: demo_boot_def)
  have k: "public_key_de demo_boot (JString (hex_encode (demo_public 1215 []))) = Some (demo_public 1215 [])"
    by (simp add: public_key_de_def public_key_try_from_def o u PUBLIC_KEY_LEN_def)
  have e: "instance_evidence_de demo_boot (JObject [(''format'', JString KATA_EVIDENCE_FORMAT), (''quote'', JString [])]) = Some (Kata demo_pod)"
    by (simp add: instance_evidence_de_def kata_evidence_de_def struct_fields_def field_def u base64url_de_def demo_pod_def json_get_def)
  have m: "map_insert ''quote'' (JString []) (map_insert ''format'' (JString KATA_EVIDENCE_FORMAT) []) =
      [(''format'', JString KATA_EVIDENCE_FORMAT), (''quote'', JString [])]"
    by code_simp
  have b: "body_from_request demo_boot (join_request_de demo_boot) [3] = Ok (\<lparr> jq_nonce = hex_encode demo_nonce,
      jq_evidence = Kata demo_pod, jq_xwing_pubkey = demo_public 1215 [] \<rparr>, JArray [JString (hex_encode demo_nonce),
      JObject [(''format'', JString KATA_EVIDENCE_FORMAT), (''quote'', JString [])], JString (hex_encode (demo_public 1215 []))])"
    by (simp add: body_from_request_def parse_def j join_request_de_def struct_fields_def field_def k m e)
  have s: "spki_of demo_boot [] = Ok []"
    by (simp add: spki_of_def parse_x509_def o demo_leaf_def)
  show ?thesis by (simp add: join_checks_def b s demo_ncall_def)
qed

lemma demo_joined: "\<exists>reply w'. join_node demo_boot demo_ncall [3] demo_serving = (Ok reply, w')"
proof -
  obtain a where a: "appraise_instance demo_boot (Kata demo_pod) demo_nonce [] (Some (demo_public 1215 [])) demo_kms_doc [] 0 = Ok a"
    using demo_peer_appraised by (auto simp: is_ok_iff appraise_instance_def)
  have n: "check_nonce demo_boot [] demo_nonce 0 = Ok ()"
    using demo_nonce_ok(1) by (simp add: check_nonce_def mint_nonce_def nonce_at_def demo_boot_def)
  have d: "decode32 demo_boot (hex_encode demo_nonce) = Ok demo_nonce"
    by (simp add: decode32_def demo_boot_def demo_kms_def demo_def demo_unhex_encode demo_nonce_ok(2))
  show ?thesis
    unfolding join_node_def demo_join_checks
    by (simp add: join_inner_def demo_serving_def demo_world_def demo_full_def serving_keys_def
        d n demo_ncall_def a is_kata_def reachable_def Let_def)
qed

theorem join_reveals_to_listed_peer_witness:
  "\<exists>reply w' n (a :: appraised) coll (request :: join_request). join_node demo_boot demo_ncall [3] demo_serving = (Ok reply, w')
     \<and> check_nonce demo_boot [] n 0 = Ok ()
     \<and> appraise_instance demo_boot (jq_evidence request) n [] (Some (jq_xwing_pubkey request)) demo_kms_doc coll 0 = Ok a
     \<and> ap_compose_hash a = replicate 32 7"
proof -
  obtain reply w' where j: "join_node demo_boot demo_ncall [3] demo_serving = (Ok reply, w')"
    using demo_joined by blast
  have c: "nc_peer demo_ncall = [[]]" "nd_nonce_key (w_node demo_serving) = []" "nd_platform (w_node demo_serving) = Some demo_kms_doc"
      "nc_now demo_ncall = 0" "spki_of demo_boot [] = Ok []" "kr_compose_hash ` set (pd_kms_revisions demo_kms_doc) = {replicate 32 7}"
    by (simp_all add: demo_ncall_def demo_serving_def demo_full_def demo_kms_doc_def spki_of_def parse_x509_def demo_boot_def demo_leaf_def)
  show ?thesis
    using join_reveals_to_listed_peer [OF demo_boot_laws(5) j] unfolding c
    by (elim exE conjE) (use j in \<open>auto simp: c\<close>)
qed

end
