(* ===== verification/Channel_Handshake.thy ===== *)
theory Channel_Handshake
  imports Channel_Cert Crypto_Hpke
begin

text \<open>
  \<^verbatim>\<open>crates/alpha-channel/src/handshake.rs\<close>: the one round trip that opens an inner channel. The
  randomness each side draws is an argument of its operations, an option where drawing may fail.
\<close>

section \<open>Messages\<close>

definition VERSION :: byte where "VERSION = 1"
definition C2S :: bytes where "C2S = as_bytes ''alphacompute/inner-channel/v1 c2s''"
definition S2C :: bytes where "S2C = as_bytes ''alphacompute/inner-channel/v1 s2c''"

record client_hello =
  hl_v :: byte
  hl_kem :: string
  hl_pk :: string
  hl_nonce :: string

record server_hello =
  sh_v :: byte
  sh_channel :: string
  sh_enc :: string
  sh_now :: string
  sh_certificate_chain :: "string list"
  sh_compose :: string
  sh_signature :: named_signature
  sh_ticket :: "string option"

definition de_byte :: "json \<Rightarrow> byte option" where
  "de_byte v = map_option word_of_nat (de_uint 255 v)"

definition client_hello_de :: "json \<Rightarrow> client_hello option" where
  "client_hello_de v =
     Option.bind (struct_fields True [(''v'', False), (''kem'', False), (''pk'', False), (''nonce'', False)] v) (\<lambda>m.
     Option.bind (field m ''v'' de_byte) (\<lambda>ver.
     Option.bind (field m ''kem'' json_as_str) (\<lambda>kem.
     Option.bind (field m ''pk'' json_as_str) (\<lambda>pk.
     Option.bind (field m ''nonce'' json_as_str) (\<lambda>n.
     Some \<lparr> hl_v = ver, hl_kem = kem, hl_pk = pk, hl_nonce = n \<rparr>)))))"

definition client_hello_json :: "client_hello \<Rightarrow> json" where
  "client_hello_json h = jobj [(''v'', jnat (unat (hl_v h))), (''kem'', JString (hl_kem h)), (''pk'', JString (hl_pk h)),
     (''nonce'', JString (hl_nonce h))]"

definition server_hello_de :: "json \<Rightarrow> server_hello option" where
  "server_hello_de v =
     Option.bind (struct_fields True [(''v'', False), (''channel'', False), (''enc'', False), (''now'', False),
       (''certificate_chain'', False), (''compose'', False), (''signature'', False), (''ticket'', True)] v) (\<lambda>m.
     Option.bind (field m ''v'' de_byte) (\<lambda>ver.
     Option.bind (field m ''channel'' json_as_str) (\<lambda>c.
     Option.bind (field m ''enc'' json_as_str) (\<lambda>e.
     Option.bind (field m ''now'' json_as_str) (\<lambda>t.
     Option.bind (field m ''certificate_chain'' (de_vec json_as_str)) (\<lambda>chain.
     Option.bind (field m ''compose'' json_as_str) (\<lambda>compose.
     Option.bind (field m ''signature'' named_signature_de) (\<lambda>sg.
     Option.bind (opt_field m ''ticket'' json_as_str) (\<lambda>ticket.
     Some \<lparr> sh_v = ver, sh_channel = c, sh_enc = e, sh_now = t, sh_certificate_chain = chain, sh_compose = compose,
            sh_signature = sg, sh_ticket = ticket \<rparr>)))))))))"

definition server_hello_json :: "server_hello \<Rightarrow> json" where
  "server_hello_json h = jobj ([(''v'', jnat (unat (sh_v h))), (''channel'', JString (sh_channel h)), (''enc'', JString (sh_enc h)),
     (''now'', JString (sh_now h)), (''certificate_chain'', JArray (map JString (sh_certificate_chain h))),
     (''compose'', JString (sh_compose h)), (''signature'', named_signature_json (sh_signature h))]
     @ (case sh_ticket h of None \<Rightarrow> [] | Some t \<Rightarrow> [(''ticket'', JString t)]))"

record expected_app =
  ea_org_id :: uuid
  ea_app_id :: uuid
  ea_revisions :: "compose_hash list"

record verified_app =
  va_org_id :: uuid
  va_app_id :: uuid
  va_compose_hash :: compose_hash
  va_aud :: bytes
  va_not_before :: time
  va_not_after :: time
  va_kms_ca_sha256 :: bytes
  va_compose :: string
  va_now :: time

section \<open>What both ends compute\<close>

definition handshake_info :: "bytes \<Rightarrow> bytes" where
  "handshake_info n = as_bytes INNER_CHANNEL @ [0] @ n"

definition handshake_document :: "'x ext_scheme \<Rightarrow> string \<Rightarrow> string \<Rightarrow> bytes \<Rightarrow> bytes \<Rightarrow> compose_hash \<Rightarrow> string \<Rightarrow> json" where
  "handshake_document E cid n client_pk enc h now =
     jobj [(''v'', jnat (unat VERSION)), (''channel'', JString cid), (''nonce'', JString n),
           (''client_pk_sha256'', JString (sha256_label E client_pk)), (''enc_sha256'', JString (sha256_label E enc)),
           (''compose_hash'', JString (compose_hash_show h)), (''now'', JString now)]"

definition handshake_digest :: "'x ext_scheme \<Rightarrow> json \<Rightarrow> (bytes, chan_error) result" where
  "handshake_digest E document = ok_or (signing_digest E INNER_CHANNEL document) Malformed"

definition direction_keys :: "'x ext_scheme \<Rightarrow> bytes \<Rightarrow> (bytes \<times> bytes, chan_error) result" where
  "direction_keys E ctx =
     and_then (ok_or (hpke_export E ctx C2S) Seal) (\<lambda>c2s.
     and_then (ok_or (hpke_export E ctx S2C) Seal) (\<lambda>s2c. Ok (c2s, s2c)))"

definition decode_bytes :: "'x ext_scheme \<Rightarrow> nat \<Rightarrow> string \<Rightarrow> (bytes, chan_error) result" where
  "decode_bytes E n t = ok_or (Option.bind (b64_dec E t) (\<lambda>b. if length b = n then Some b else None)) Malformed"

section \<open>The initiator\<close>

record initiator =
  in_key :: bytes
  in_nonce :: bytes

definition initiator_new :: "'x ext_scheme \<Rightarrow> bytes option \<Rightarrow> bytes option \<Rightarrow> (initiator \<times> client_hello, chan_error) result" where
  "initiator_new E seed rnd =
     and_then (map_err (\<lambda>_. Rng) (private_key_generate E seed)) (\<lambda>key.
     and_then (ok_or rnd Rng) (\<lambda>n.
     Ok (\<lparr> in_key = key, in_nonce = n \<rparr>,
         \<lparr> hl_v = VERSION, hl_kem = KEM_NAME, hl_pk = b64_enc E (xwing_public E key), hl_nonce = b64_enc E n \<rparr>)))"

record 'a finished =
  fi_channel :: channel
  fi_sans :: 'a
  fi_leaf_spki :: bytes
  fi_not_before :: time
  fi_not_after :: time
  fi_kms_ca :: bytes
  fi_now :: time

definition finish_keys :: "'x ext_scheme \<Rightarrow> initiator \<Rightarrow> bytes \<Rightarrow> bytes \<Rightarrow> (channel, chan_error) result" where
  "finish_keys E i cid enc =
     refuse_if (\<not> xwing_encapped_ok E enc) HandshakeSignature
     (refuse_if (\<not> xwing_private_ok E (in_key i)) Rng
     (and_then (ok_or (hpke_setup_receiver E (in_key i) enc (handshake_info (in_nonce i))) HandshakeSignature) (\<lambda>ctx.
      and_then (direction_keys E ctx) (\<lambda>(c2s, s2c). Ok (channel_new E cid c2s s2c)))))"

definition finish_signature :: "'x ext_scheme \<Rightarrow> initiator \<Rightarrow> server_hello \<Rightarrow> bytes \<Rightarrow> compose_hash \<Rightarrow> bytes \<Rightarrow>
    (bytes, chan_error) result" where
  "finish_signature E i hello enc h leaf =
     refuse_if (ns_algorithm (sh_signature hello) \<noteq> ECDSA_P256) HandshakeSignature
     (and_then (spki_of E leaf) (\<lambda>spki.
      and_then (ok_or (p256_from_spki E spki) HandshakeSignature) (\<lambda>key.
      and_then (ok_or (p256_signature E (ns_signature (sh_signature hello))) HandshakeSignature) (\<lambda>sg.
      and_then (handshake_digest E (handshake_document E (sh_channel hello) (b64_enc E (in_nonce i))
                  (xwing_public E (in_key i)) enc h (sh_now hello))) (\<lambda>digest.
      refuse_if (\<not> p256_verify E key digest sg) HandshakeSignature (Ok spki))))))"

definition finish_with :: "'x ext_scheme \<Rightarrow> initiator \<Rightarrow> server_hello \<Rightarrow> string \<Rightarrow> time \<Rightarrow>
    (bytes \<Rightarrow> (compose_hash \<times> 'a, chan_error) result) \<Rightarrow> ('a finished, chan_error) result" where
  "finish_with E i hello kms_ca_pem now check_sans =
     refuse_if (sh_v hello \<noteq> VERSION) Malformed
     (and_then (decode_bytes E 16 (sh_channel hello)) (\<lambda>cid.
      and_then (ok_or (b64_dec E (sh_enc hello)) Malformed) (\<lambda>enc.
      and_then (ok_or (Option.bind (rfc3339_parse E (sh_now hello)) (\<lambda>t. from_unix_seconds (seconds_of t))) Malformed) (\<lambda>rnow.
      (case sh_certificate_chain hello of
         [leaf_pem, ca_pem] \<Rightarrow>
           and_then (pem_to_der E kms_ca_pem) (\<lambda>kms_ca.
           refuse_if (to_option (pem_to_der E ca_pem) \<noteq> Some kms_ca) ForeignCertificate
           (and_then (map_err (\<lambda>_. ForeignCertificate) (pem_to_der E leaf_pem)) (\<lambda>leaf.
            and_then (verify_leaf E leaf kms_ca now) (\<lambda>(nb, na).
            and_then (check_sans leaf) (\<lambda>(h, sans).
            and_then (finish_signature E i hello enc h leaf) (\<lambda>spki.
            and_then (finish_keys E i cid enc) (\<lambda>ch.
            Ok \<lparr> fi_channel = ch, fi_sans = sans, fi_leaf_spki = spki, fi_not_before = nb, fi_not_after = na,
                 fi_kms_ca = kms_ca, fi_now = rnow \<rparr>)))))))
       | _ \<Rightarrow> Err ForeignCertificate)))))"

definition check_instance_sans :: "'x ext_scheme \<Rightarrow> expected_app \<Rightarrow> string \<Rightarrow> bytes \<Rightarrow>
    (compose_hash \<times> instance_sans, chan_error) result" where
  "check_instance_sans E expected compose leaf =
     and_then (uri_sans E leaf) (\<lambda>uris.
     and_then (parse_instance_sans E uris) (\<lambda>sans.
     refuse_if (is_org_id sans \<noteq> ea_org_id expected \<or> is_app_id sans \<noteq> ea_app_id expected) ForeignCertificate
     (refuse_if (is_compose_hash sans \<notin> set (ea_revisions expected)) (UnknownRevision (is_compose_hash sans))
     (refuse_if (compose_hash_of E (as_bytes compose) \<noteq> is_compose_hash sans) ComposeMismatch
     (Ok (is_compose_hash sans, sans))))))"

definition initiator_finish :: "'x ext_scheme \<Rightarrow> initiator \<Rightarrow> server_hello \<Rightarrow> string \<Rightarrow> expected_app \<Rightarrow> time \<Rightarrow>
    (channel \<times> verified_app, chan_error) result" where
  "initiator_finish E i hello kms_ca_pem expected now =
     and_then (finish_with E i hello kms_ca_pem now (check_instance_sans E expected (sh_compose hello))) (\<lambda>d.
     Ok (fi_channel d, \<lparr> va_org_id = is_org_id (fi_sans d), va_app_id = is_app_id (fi_sans d),
       va_compose_hash = is_compose_hash (fi_sans d), va_aud = sha256 E (fi_leaf_spki d),
       va_not_before = fi_not_before d, va_not_after = fi_not_after d, va_kms_ca_sha256 = sha256 E (fi_kms_ca d),
       va_compose = sh_compose hello, va_now = fi_now d \<rparr>))"

definition check_kms_sans :: "'x ext_scheme \<Rightarrow> compose_hash list \<Rightarrow> bytes \<Rightarrow> (compose_hash \<times> unit, chan_error) result" where
  "check_kms_sans E kms_revisions leaf =
     and_then (uri_sans E leaf) (\<lambda>uris.
     and_then (parse_kms_sans uris) (\<lambda>h.
     refuse_if (h \<notin> set kms_revisions) (UnknownRevision h) (Ok (h, ()))))"

definition finish_kms :: "'x ext_scheme \<Rightarrow> initiator \<Rightarrow> server_hello \<Rightarrow> string \<Rightarrow> compose_hash list \<Rightarrow> time \<Rightarrow>
    (channel \<times> string, chan_error) result" where
  "finish_kms E i hello kms_ca_pem kms_revisions now =
     and_then (ok_or (sh_ticket hello) Malformed) (\<lambda>ticket.
     and_then (finish_with E i hello kms_ca_pem now (check_kms_sans E kms_revisions)) (\<lambda>d.
     Ok (fi_channel d, ticket)))"

section \<open>The responder\<close>

record responder =
  rs_certificate_chain :: "string list"
  rs_key :: bytes
  rs_compose :: string
  rs_compose_hash :: compose_hash

definition leaf_and_key :: "'x ext_scheme \<Rightarrow> string list \<Rightarrow> bytes \<Rightarrow> (bytes \<times> bytes, chan_error) result" where
  "leaf_and_key E chain pkcs8 =
     (case chain of
        [leaf_pem, _] \<Rightarrow>
          and_then (pem_to_der E leaf_pem) (\<lambda>leaf.
          and_then (ok_or (p256_from_pkcs8 E pkcs8) Malformed) (\<lambda>key.
          and_then (ok_or (p256_to_spki E (p256_public E key)) Malformed) (\<lambda>public.
          and_then (spki_of E leaf) (\<lambda>spki.
          refuse_if (spki \<noteq> public) Malformed (Ok (leaf, key))))))
      | _ \<Rightarrow> Err Malformed)"

definition responder_new :: "'x ext_scheme \<Rightarrow> string list \<Rightarrow> bytes \<Rightarrow> string \<Rightarrow> (responder, chan_error) result" where
  "responder_new E chain pkcs8 compose =
     and_then (leaf_and_key E chain pkcs8) (\<lambda>(leaf, key).
     and_then (uri_sans E leaf) (\<lambda>uris.
     and_then (parse_instance_sans E uris) (\<lambda>sans.
     refuse_if (compose_hash_of E (as_bytes compose) \<noteq> is_compose_hash sans) ComposeMismatch
     (Ok \<lparr> rs_certificate_chain = chain, rs_key = key, rs_compose = compose, rs_compose_hash = is_compose_hash sans \<rparr>))))"

definition responder_kms :: "'x ext_scheme \<Rightarrow> string list \<Rightarrow> bytes \<Rightarrow> (responder, chan_error) result" where
  "responder_kms E chain pkcs8 =
     and_then (leaf_and_key E chain pkcs8) (\<lambda>(leaf, key).
     and_then (uri_sans E leaf) (\<lambda>uris.
     and_then (parse_kms_sans uris) (\<lambda>h.
     Ok \<lparr> rs_certificate_chain = chain, rs_key = key, rs_compose = [], rs_compose_hash = h \<rparr>)))"

definition responder_reply :: "'x ext_scheme \<Rightarrow> bytes option \<Rightarrow> bytes \<Rightarrow> responder \<Rightarrow> client_hello \<Rightarrow> time \<Rightarrow>
    (server_hello \<times> bytes \<times> bytes \<times> bytes, chan_error) result" where
  "responder_reply E rnd enc_rnd r hello now =
     refuse_if (hl_v hello \<noteq> VERSION) Malformed
     (refuse_if (hl_kem hello \<noteq> KEM_NAME) Malformed
     (and_then (ok_or (b64_dec E (hl_pk hello)) Malformed) (\<lambda>pk.
      refuse_if (\<not> xwing_public_ok E pk) Malformed
      (and_then (decode_bytes E 32 (hl_nonce hello)) (\<lambda>n.
       and_then (ok_or rnd Rng) (\<lambda>cid.
       and_then (rfc3339 E now) (\<lambda>t.
       and_then (ok_or (hpke_setup_sender E enc_rnd pk (handshake_info n)) Malformed) (\<lambda>(enc, ctx).
       and_then (handshake_digest E (handshake_document E (b64_enc E cid) (hl_nonce hello) pk enc (rs_compose_hash r) t)) (\<lambda>digest.
       and_then (ok_or (p256_sign E (rs_key r) digest) Seal) (\<lambda>sg.
       and_then (direction_keys E ctx) (\<lambda>(c2s, s2c).
       Ok (\<lparr> sh_v = VERSION, sh_channel = b64_enc E cid, sh_enc = b64_enc E enc, sh_now = t,
             sh_certificate_chain = rs_certificate_chain r, sh_compose = rs_compose r,
             sh_signature = \<lparr> ns_algorithm = ECDSA_P256, ns_signature = b64_enc E sg \<rparr>, sh_ticket = None \<rparr>,
           cid, c2s, s2c))))))))))))"

definition respond :: "'x ext_scheme \<Rightarrow> bytes option \<Rightarrow> bytes \<Rightarrow> responder \<Rightarrow> client_hello \<Rightarrow> time \<Rightarrow>
    (server_hello \<times> channel, chan_error) result" where
  "respond E rnd enc_rnd r hello now =
     and_then (responder_reply E rnd enc_rnd r hello now) (\<lambda>(reply, cid, c2s, s2c). Ok (reply, channel_new E cid c2s s2c))"

definition respond_detached :: "'x ext_scheme \<Rightarrow> bytes option \<Rightarrow> bytes \<Rightarrow> responder \<Rightarrow> client_hello \<Rightarrow> time \<Rightarrow>
    (server_hello \<times> bytes \<times> bytes, chan_error) result" where
  "respond_detached E rnd enc_rnd r hello now =
     and_then (responder_reply E rnd enc_rnd r hello now) (\<lambda>(reply, cid, c2s, s2c). Ok (reply, cid, c2s))"

section \<open>Laws\<close>

text \<open>
  Text \<open>chrono\<close> prints for a second reads back as that second, and a key written as a
  SubjectPublicKeyInfo reads back.
\<close>

definition clock_text_law :: "'x ext_scheme \<Rightarrow> bool" where
  "clock_text_law E \<longleftrightarrow> (\<forall>s t. rfc3339_show E s = Some t \<longrightarrow> rfc3339_parse E t = Some (s * 1000000000))"

definition p256_spki_law :: "'x ext_scheme \<Rightarrow> bool" where
  "p256_spki_law E \<longleftrightarrow> (\<forall>k s. p256_to_spki E k = Some s \<longrightarrow> p256_from_spki E s = Some k)"

section \<open>Lemmas\<close>

lemma rfc3339_reads_back:
  "clock_text_law E \<Longrightarrow> rfc3339 E now = Ok t \<Longrightarrow>
   Option.bind (rfc3339_parse E t) (\<lambda>t. from_unix_seconds (seconds_of t)) = Some (seconds_of now * 1000000000)"
proof -
  assume l: "clock_text_law E" and "rfc3339 E now = Ok t"
  then have s: "rfc3339_show E (seconds_of now) = Some t" "0 \<le> now"
    by (auto simp: rfc3339_def unix_seconds_def result_simps split: if_splits)
  then have "0 \<le> seconds_of now" by (simp add: seconds_of_def)
  then have "\<not> seconds_of now < 0" by simp
  with l s(1) show ?thesis by (simp add: clock_text_law_def seconds_of_def from_unix_seconds_def)
qed

lemma responder_reply_Ok:
  assumes "responder_reply E rnd enc_rnd r hello now = Ok (sh, cid, c2s, s2c)"
  obtains pk n enc ctx digest sg t where "b64_dec E (hl_pk hello) = Some pk" "decode_bytes E 32 (hl_nonce hello) = Ok n"
    "rnd = Some cid" "rfc3339 E now = Ok t" "hpke_setup_sender E enc_rnd pk (handshake_info n) = Some (enc, ctx)"
    "handshake_digest E (handshake_document E (b64_enc E cid) (hl_nonce hello) pk enc (rs_compose_hash r) t) = Ok digest"
    "p256_sign E (rs_key r) digest = Some sg" "direction_keys E ctx = Ok (c2s, s2c)"
    "sh = \<lparr> sh_v = VERSION, sh_channel = b64_enc E cid, sh_enc = b64_enc E enc, sh_now = t,
             sh_certificate_chain = rs_certificate_chain r, sh_compose = rs_compose r,
             sh_signature = \<lparr> ns_algorithm = ECDSA_P256, ns_signature = b64_enc E sg \<rparr>, sh_ticket = None \<rparr>"
  using assms unfolding responder_reply_def by (auto simp: result_simps intro: that)

lemma leaf_and_key_Ok:
  assumes "leaf_and_key E chain pkcs8 = Ok (leaf, key)"
  obtains leaf_pem ca_pem spki where "chain = [leaf_pem, ca_pem]" "pem_to_der E leaf_pem = Ok leaf"
    "p256_to_spki E (p256_public E key) = Some spki" "spki_of E leaf = Ok spki"
  using assms unfolding leaf_and_key_def by (auto simp: result_simps)

text \<open>
  The common half of both handshakes: a reply made to this initiator's hello finishes for it, under
  any check of the names that gives the responder's Revision.
\<close>

lemma finish_with_reply:
  assumes "b64_law E" "p256_law E" "p256_spki_law E" "hpke_law E" "clock_text_law E"
    and i: "initiator_new E seed (Some n) = Ok (i, hello)" "length n = 32"
    and k: "leaf_and_key E (rs_certificate_chain r) pkcs8 = Ok (leaf, rs_key r)"
    and r: "responder_reply E (Some cid) enc_rnd r hello rnow = Ok (sh, cid', c2s, s2c)" "length cid = 16"
    and ca: "pem_to_der E kms_ca_pem = Ok ca" "pem_to_der E (last (rs_certificate_chain r)) = Ok ca"
    and v: "verify_leaf E leaf ca now = Ok (nb, na)"
    and c: "check leaf = Ok (rs_compose_hash r, sans)"
  shows "\<exists>spki. finish_with E i (sh\<lparr> sh_ticket := ticket \<rparr>) kms_ca_pem now check = Ok \<lparr> fi_channel = channel_new E cid c2s s2c,
    fi_sans = sans, fi_leaf_spki = spki, fi_not_before = nb, fi_not_after = na, fi_kms_ca = ca,
    fi_now = seconds_of rnow * 1000000000 \<rparr>"
proof -
  from i obtain key where key: "i = \<lparr> in_key = key, in_nonce = n \<rparr>" "xwing_private_ok E key"
    and hello: "hello = \<lparr> hl_v = VERSION, hl_kem = KEM_NAME, hl_pk = b64_enc E (xwing_public E key), hl_nonce = b64_enc E n \<rparr>"
    by (auto simp: initiator_new_def private_key_generate_def private_key_from_seed_def result_simps)
  note dec = b64_decode_encode [OF assms(1)]
  from r(1) obtain enc ctx digest sg t where cid: "cid' = cid" and t: "rfc3339 E rnow = Ok t"
    and s: "hpke_setup_sender E enc_rnd (xwing_public E key) (handshake_info n) = Some (enc, ctx)"
    and d: "handshake_digest E (handshake_document E (b64_enc E cid) (b64_enc E n) (xwing_public E key) enc (rs_compose_hash r) t) = Ok digest"
    and sg: "p256_sign E (rs_key r) digest = Some sg" and dk: "direction_keys E ctx = Ok (c2s, s2c)"
    and sh: "sh = \<lparr> sh_v = VERSION, sh_channel = b64_enc E cid, sh_enc = b64_enc E enc, sh_now = t,
             sh_certificate_chain = rs_certificate_chain r, sh_compose = rs_compose r,
             sh_signature = \<lparr> ns_algorithm = ECDSA_P256, ns_signature = b64_enc E sg \<rparr>, sh_ticket = None \<rparr>"
    using i(2) by (elim responder_reply_Ok) (auto simp: hello dec decode_bytes_def result_simps)
  obtain leaf_pem ca_pem spki where chain: "rs_certificate_chain r = [leaf_pem, ca_pem]" "pem_to_der E leaf_pem = Ok leaf"
    and spki: "p256_to_spki E (p256_public E (rs_key r)) = Some spki" "spki_of E leaf = Ok spki"
    by (rule leaf_and_key_Ok [OF k])
  have h: "xwing_encapped_ok E enc" "hpke_setup_receiver E key enc (handshake_info n) = Some ctx"
    using assms(4) s by (auto simp: hpke_law_def)
  have v': "p256_from_spki E spki = Some (p256_public E (rs_key r))" using assms(3) spki(1) by (simp add: p256_spki_law_def)
  have sv: "p256_signature E (b64_enc E sg) = Some sg" "p256_verify E (p256_public E (rs_key r)) digest sg"
    using assms(2) sg by (auto simp: p256_law_def p256_signature_def dec)
  let ?sh = "\<lparr> sh_v = VERSION, sh_channel = b64_enc E cid, sh_enc = b64_enc E enc, sh_now = t,
     sh_certificate_chain = [leaf_pem, ca_pem], sh_compose = rs_compose r,
     sh_signature = \<lparr> ns_algorithm = ECDSA_P256, ns_signature = b64_enc E sg \<rparr>, sh_ticket = ticket \<rparr>"
  have e: "sh\<lparr> sh_ticket := ticket \<rparr> = ?sh" by (simp add: sh chain)
  have fs: "finish_signature E i ?sh enc (rs_compose_hash r) leaf = Ok spki"
    by (simp add: finish_signature_def key spki v' sv d)
  have fk: "finish_keys E i cid enc = Ok (channel_new E cid c2s s2c)"
    by (simp add: finish_keys_def key h dk)
  have cd: "decode_bytes E 16 (b64_enc E cid) = Ok cid" using r(2) by (simp add: decode_bytes_def dec)
  note pt = rfc3339_reads_back [OF assms(5) t]
  from ca(2) chain have ca': "pem_to_der E ca_pem = Ok ca" by simp
  show ?thesis
    unfolding e finish_with_def server_hello.simps pt cd dec by (simp add: ca ca' chain v c fs fk)
qed

lemma initiator_finish_reply:
  assumes "b64_law E" and "p256_law E" and "p256_spki_law E" and "hpke_law E" and "clock_text_law E"
    and "initiator_new E seed (Some n) = Ok (i, hello)" and "length n = 32"
    and "responder_new E chain pkcs8 compose = Ok r"
    and "respond E (Some cid) enc_rnd r hello rnow = Ok (sh, ch)" and "length cid = 16"
    and "pem_to_der E (hd chain) = Ok leaf" and "pem_to_der E (last chain) = Ok ca" and "pem_to_der E kms_ca_pem = Ok ca"
    and "verify_leaf E leaf ca now = Ok (nb, na)" and "uri_sans E leaf = Ok uris" and "parse_instance_sans E uris = Ok sans"
    and "ea_org_id expected = is_org_id sans" and "ea_app_id expected = is_app_id sans"
    and "is_compose_hash sans \<in> set (ea_revisions expected)"
  shows "\<exists>spki. initiator_finish E i sh kms_ca_pem expected now = Ok (ch, \<lparr> va_org_id = ea_org_id expected,
    va_app_id = ea_app_id expected, va_compose_hash = compose_hash_of E (as_bytes compose), va_aud = sha256 E spki,
    va_not_before = nb, va_not_after = na, va_kms_ca_sha256 = sha256 E ca, va_compose = compose,
    va_now = seconds_of rnow * 1000000000 \<rparr>)"
proof -
  from assms(8) obtain l sans' uris' where l: "leaf_and_key E chain pkcs8 = Ok (l, rs_key r)"
    and h: "uri_sans E l = Ok uris'" "parse_instance_sans E uris' = Ok sans'"
    and c: "compose_hash_of E (as_bytes compose) = is_compose_hash sans'"
    and r: "rs_certificate_chain r = chain" "rs_compose r = compose" "rs_compose_hash r = is_compose_hash sans'"
    unfolding responder_new_def by (auto simp: result_simps)
  from l assms(11) have "l = leaf" by (elim leaf_and_key_Ok) simp
  with l h assms(15,16) have l: "leaf_and_key E chain pkcs8 = Ok (leaf, rs_key r)" and "sans' = sans" by simp_all
  with c r have c: "compose_hash_of E (as_bytes compose) = is_compose_hash sans" and r: "rs_certificate_chain r = chain"
    "rs_compose r = compose" "rs_compose_hash r = is_compose_hash sans" by simp_all
  from assms(9) obtain cid' c2s s2c where p: "responder_reply E (Some cid) enc_rnd r hello rnow = Ok (sh, cid', c2s, s2c)"
    and ch: "ch = channel_new E cid' c2s s2c" unfolding respond_def by (auto simp: result_simps)
  from p have sh: "sh_compose sh = compose" "sh\<lparr> sh_ticket := None \<rparr> = sh" "cid' = cid"
    by (elim responder_reply_Ok; simp add: r)+
  have k: "check_instance_sans E expected compose leaf = Ok (rs_compose_hash r, sans)"
    using assms(15-19) c r by (simp add: check_instance_sans_def)
  from finish_with_reply [where check = "check_instance_sans E expected compose" and ticket = None,
      OF assms(1-7) l [folded r(1)] p assms(10,13) _ assms(14) k] assms(12)
  show ?thesis using assms(17,18) c by (auto simp: initiator_finish_def sh ch r)
qed

section \<open>Properties\<close>

text \<open>
  C19. The handshake completes and both ends agree: when the responder's chain is a leaf valid under
  the platform's CA for the App and one of the Revisions the initiator expects, the reply to the
  initiator's own hello gives the initiator the very channel (identifier and both keys) the responder
  holds, and names the App, its Revision and the compose it runs.
\<close>

theorem handshake_agrees:
  assumes "b64_law E" and "p256_law E" and "p256_spki_law E" and "hpke_law E" and "clock_text_law E"
    and "initiator_new E seed (Some n) = Ok (i, hello)" and "length n = 32"
    and "responder_new E chain pkcs8 compose = Ok r"
    and "respond E (Some cid) enc_rnd r hello rnow = Ok (sh, ch)" and "length cid = 16"
    and "pem_to_der E (hd chain) = Ok leaf" and "pem_to_der E (last chain) = Ok ca" and "pem_to_der E kms_ca_pem = Ok ca"
    and "verify_leaf E leaf ca now = Ok (nb, na)" and "uri_sans E leaf = Ok uris" and "parse_instance_sans E uris = Ok sans"
    and "ea_org_id expected = is_org_id sans" and "ea_app_id expected = is_app_id sans"
    and "is_compose_hash sans \<in> set (ea_revisions expected)"
  shows "\<exists>v. initiator_finish E i sh kms_ca_pem expected now = Ok (ch, v) \<and> va_org_id v = ea_org_id expected
    \<and> va_app_id v = ea_app_id expected \<and> va_compose v = compose \<and> va_compose_hash v = compose_hash_of E (as_bytes compose)
    \<and> va_not_before v = nb \<and> va_not_after v = na"
  using initiator_finish_reply [OF assms] by auto

text \<open>
  C20. What a finished handshake proves: the leaf is valid now under the CA of the platform document,
  names exactly the App expected at one of the Revisions allowed, the compose handed over is that
  Revision's, and the leaf's key signed a document with this initiator's own nonce and public key,
  and the encapsulation the channel keys are derived from.
\<close>

theorem handshake_sound:
  assumes "initiator_finish E i hello kms_ca_pem expected now = Ok (ch, v)"
  shows "\<exists>leaf ca uris sans spki key enc cid sg digest ctx. pem_to_der E kms_ca_pem = Ok ca
    \<and> verify_leaf E leaf ca now = Ok (va_not_before v, va_not_after v)
    \<and> uri_sans E leaf = Ok uris \<and> parse_instance_sans E uris = Ok sans
    \<and> is_org_id sans = ea_org_id expected \<and> is_app_id sans = ea_app_id expected
    \<and> va_compose_hash v = is_compose_hash sans \<and> va_compose_hash v \<in> set (ea_revisions expected)
    \<and> compose_hash_of E (as_bytes (va_compose v)) = va_compose_hash v
    \<and> spki_of E leaf = Ok spki \<and> va_aud v = sha256 E spki \<and> p256_from_spki E spki = Some key
    \<and> b64_dec E (sh_enc hello) = Some enc
    \<and> signing_digest E INNER_CHANNEL (handshake_document E (sh_channel hello) (b64_enc E (in_nonce i)) (xwing_public E (in_key i))
         enc (va_compose_hash v) (sh_now hello)) = Some digest
    \<and> p256_verify E key digest sg
    \<and> hpke_setup_receiver E (in_key i) enc (handshake_info (in_nonce i)) = Some ctx
    \<and> direction_keys E ctx = Ok (ch_c2s ch, ch_s2c ch) \<and> ch = channel_new E cid (ch_c2s ch) (ch_s2c ch)"
proof -
  from assms obtain cid enc rnow leaf_pem ca_pem ca leaf nb na sans spki where
    cid: "decode_bytes E 16 (sh_channel hello) = Ok cid" and enc: "b64_dec E (sh_enc hello) = Some enc"
    and ca: "pem_to_der E kms_ca_pem = Ok ca" and vl: "verify_leaf E leaf ca now = Ok (nb, na)"
    and k: "check_instance_sans E expected (sh_compose hello) leaf = Ok (is_compose_hash sans, sans)"
    and fs: "finish_signature E i hello enc (is_compose_hash sans) leaf = Ok spki"
    and fk: "finish_keys E i cid enc = Ok ch"
    and v: "v = \<lparr> va_org_id = is_org_id sans, va_app_id = is_app_id sans, va_compose_hash = is_compose_hash sans,
       va_aud = sha256 E spki, va_not_before = nb, va_not_after = na, va_kms_ca_sha256 = sha256 E ca,
       va_compose = sh_compose hello, va_now = rnow \<rparr>"
    unfolding initiator_finish_def finish_with_def by (auto simp: result_simps check_instance_sans_def)
  from k obtain uris where u: "uri_sans E leaf = Ok uris" "parse_instance_sans E uris = Ok sans"
    "is_org_id sans = ea_org_id expected" "is_app_id sans = ea_app_id expected" "is_compose_hash sans \<in> set (ea_revisions expected)"
    "compose_hash_of E (as_bytes (sh_compose hello)) = is_compose_hash sans"
    by (auto simp: check_instance_sans_def result_simps)
  from fs obtain key sg digest where s: "spki_of E leaf = Ok spki" "p256_from_spki E spki = Some key" "p256_verify E key digest sg"
    "signing_digest E INNER_CHANNEL (handshake_document E (sh_channel hello) (b64_enc E (in_nonce i)) (xwing_public E (in_key i))
         enc (is_compose_hash sans) (sh_now hello)) = Some digest"
    by (auto simp: finish_signature_def handshake_digest_def result_simps)
  from fk obtain ctx c2s s2c where x: "hpke_setup_receiver E (in_key i) enc (handshake_info (in_nonce i)) = Some ctx"
    "direction_keys E ctx = Ok (c2s, s2c)" "ch = channel_new E cid c2s s2c"
    by (auto simp: finish_keys_def result_simps)
  then have "direction_keys E ctx = Ok (ch_c2s ch, ch_s2c ch)" "ch = channel_new E cid (ch_c2s ch) (ch_s2c ch)"
    by (simp_all add: channel_new_def)
  with ca vl u s x(1) enc show ?thesis unfolding v verified_app.simps by (intro exI conjI) ((assumption | rule refl)+)
qed

section \<open>Witnesses\<close>

definition demo_compose_hash :: compose_hash where "demo_compose_hash = demo_hash 32 []"

definition demo_app_leaf :: x509 where
  "demo_app_leaf = demo_leaf\<lparr> x_spki := demo_public 32 [], x_signature := demo_hash 64 (demo_public 32 []), x_uri_sans :=
     [''alphacompute://'' @ demo_uuid_show 1 @ ''/'' @ demo_uuid_show 2 @ ''/'' @ hex_encode (replicate 32 0),
      REVISION_URN @ compose_hash_show demo_compose_hash] \<rparr>"

definition demo_edge :: ext where
  "demo_edge = demo\<lparr> x509_parse := \<lambda>_. Some (demo_app_leaf, []), rfc3339_show := \<lambda>s. if s = 0 then Some ''t'' else None,
     rfc3339_parse := \<lambda>t. if t = ''t'' then Some 0 else None,
     p256_to_spki := \<lambda>k. if length k = 33 then Some k else None \<rparr>"

lemma demo_edge_laws: "b64_law demo_edge" "p256_law demo_edge" "p256_spki_law demo_edge" "hpke_law demo_edge"
    "clock_text_law demo_edge"
proof -
  show "b64_law demo_edge" using demo_b64 by (simp add: demo_edge_def b64_law_def)
  show "p256_law demo_edge" using demo_p256 by (simp add: demo_edge_def p256_law_def)
  show "p256_spki_law demo_edge" by (simp add: demo_edge_def p256_spki_law_def demo_def)
  show "hpke_law demo_edge" using demo_hpke by (simp add: demo_edge_def hpke_law_def)
  show "clock_text_law demo_edge" by (simp add: demo_edge_def clock_text_law_def)
qed

definition demo_app :: expected_app where
  "demo_app = \<lparr> ea_org_id = 1, ea_app_id = 2, ea_revisions = [demo_compose_hash] \<rparr>"

definition demo_sans :: instance_sans where
  "demo_sans = \<lparr> is_org_id = 1, is_app_id = 2, is_runtime_pubkey_sha256_hex = hex_encode (replicate 32 0),
     is_compose_hash = demo_compose_hash \<rparr>"

abbreviation "demo_ca_pem \<equiv> pem_encode demo_edge ''CERTIFICATE'' []"

lemma demo_pem_der: "pem_to_der demo_edge demo_ca_pem = Ok []"
  using demo_pem by (simp add: pem_to_der_def pem_law_def demo_edge_def)

lemma demo_app_names: "uri_sans demo_edge [] = Ok (x_uri_sans demo_app_leaf)"
    "parse_instance_sans demo_edge (x_uri_sans demo_app_leaf) = Ok demo_sans"
proof -
  show "uri_sans demo_edge [] = Ok (x_uri_sans demo_app_leaf)" by (simp add: uri_sans_def parse_x509_def demo_edge_def)
  have "uuid_law demo_edge" using demo_uuid by (simp add: demo_edge_def uuid_law_def)
  from parse_instance_names [OF this, of "replicate 32 0" demo_compose_hash 1 2]
  show "parse_instance_sans demo_edge (x_uri_sans demo_app_leaf) = Ok demo_sans"
    by (simp add: demo_app_leaf_def demo_sans_def demo_compose_hash_def) (simp add: demo_edge_def demo_def)
qed

lemma demo_responder: "\<exists>r. responder_new demo_edge [demo_ca_pem, demo_ca_pem] [] [] = Ok r \<and> rs_key r = []"
proof -
  have k: "leaf_and_key demo_edge [demo_ca_pem, demo_ca_pem] [] = Ok ([], [])"
    unfolding leaf_and_key_def list.case demo_pem_der
    by (simp add: spki_of_def parse_x509_def) (simp add: demo_edge_def demo_def demo_app_leaf_def)
  show ?thesis
    unfolding responder_new_def k by (simp add: demo_app_names) 
      (simp add: compose_hash_of_def demo_sans_def demo_edge_def demo_def demo_compose_hash_def as_bytes_def)
qed

lemma demo_app_leaf_valid: "verify_leaf demo_edge [] [] 0 = Ok (0, 10 * 1000000000)"
proof -
  have x: "x509_parse demo_edge b = Some (demo_app_leaf, [])" "p256_from_spki demo_edge (demo_public 32 []) = Some (demo_public 32 [])"
    "p256_sig_from_der demo_edge (demo_hash 64 (demo_public 32 [])) = Some (demo_hash 64 (demo_public 32 []))"
    "p256_verify demo_edge k m sg = (sg = demo_hash 64 (k @ m))" for b k m sg
    by (simp_all add: demo_edge_def demo_def)
  show ?thesis
    by (simp add: verify_leaf_def parse_x509_def x unix_seconds_def seconds_of_def from_unix_seconds_def)
      (simp add: demo_app_leaf_def demo_leaf_def x)
qed

lemma demo_replied:
  assumes "initiator_new demo_edge (Some []) (Some (replicate 32 0)) = Ok (i, hello)"
  shows "\<exists>sh ch. respond demo_edge (Some (replicate 16 0)) [] r hello 0 = Ok (sh, ch)"
proof -
  have x: "xwing_public demo_edge k = demo_public 1215 k" "xwing_public_ok demo_edge p = (length p = 1216)"
    "hpke_setup_sender demo_edge rr pk f = Some (pk, pk @ f)" "hpke_export demo_edge c l = Some (demo_hash 32 (rev l @ c))"
    "p256_sign demo_edge k m = Some (demo_hash 64 (demo_public 32 k @ m))" "jcs demo_edge v = Some (demo_jcs v)"
    "rfc3339_show demo_edge 0 = Some ''t''" for k p rr pk f c l m v
    by (simp_all add: demo_edge_def demo_def)
  from assms have h: "hello = \<lparr> hl_v = VERSION, hl_kem = KEM_NAME, hl_pk = b64_enc demo_edge (demo_public 1215 []),
      hl_nonce = b64_enc demo_edge (replicate 32 0) \<rparr>"
    by (auto simp: initiator_new_def private_key_generate_def private_key_from_seed_def result_simps x)
  show ?thesis
    by (simp add: respond_def responder_reply_def h b64_decode_encode [OF demo_edge_laws(1)] x decode_bytes_def rfc3339_def
        unix_seconds_def seconds_of_def handshake_digest_def signing_digest_def direction_keys_def)
qed

lemma demo_initiator: "\<exists>i hello. initiator_new demo_edge (Some []) (Some (replicate 32 0)) = Ok (i, hello)"
  by (simp add: initiator_new_def private_key_generate_def private_key_from_seed_def) (simp add: demo_edge_def demo_def)

lemma demo_parties:
  obtains i hello r sh ch where "initiator_new demo_edge (Some []) (Some (replicate 32 0)) = Ok (i, hello)"
    "responder_new demo_edge [demo_ca_pem, demo_ca_pem] [] [] = Ok r"
    "respond demo_edge (Some (replicate 16 0)) [] r hello 0 = Ok (sh, ch)"
  using demo_initiator demo_responder demo_replied by metis

lemma demo_expectations:
  "pem_to_der demo_edge (hd [demo_ca_pem, demo_ca_pem]) = Ok []" "pem_to_der demo_edge (last [demo_ca_pem, demo_ca_pem]) = Ok []"
  "ea_org_id demo_app = is_org_id demo_sans" "ea_app_id demo_app = is_app_id demo_sans"
  "is_compose_hash demo_sans \<in> set (ea_revisions demo_app)" "ea_org_id demo_app = 1" "ea_app_id demo_app = 2"
  using demo_pem_der by (simp_all add: demo_app_def demo_sans_def)

theorem handshake_agrees_witness:
  "\<exists>i hello r sh ch v. initiator_new demo_edge (Some []) (Some (replicate 32 0)) = Ok (i, hello)
    \<and> respond demo_edge (Some (replicate 16 0)) [] r hello 0 = Ok (sh, ch)
    \<and> initiator_finish demo_edge i sh demo_ca_pem demo_app 0 = Ok (ch, v) \<and> va_org_id v = 1 \<and> va_app_id v = 2"
proof -
  obtain i hello r sh ch where p: "initiator_new demo_edge (Some []) (Some (replicate 32 0)) = Ok (i, hello)"
    "responder_new demo_edge [demo_ca_pem, demo_ca_pem] [] [] = Ok r"
    "respond demo_edge (Some (replicate 16 0)) [] r hello 0 = Ok (sh, ch)" by (rule demo_parties)
  from handshake_agrees [OF demo_edge_laws p(1) _ p(2,3) _ demo_expectations(1,2) demo_pem_der demo_app_leaf_valid demo_app_names
      demo_expectations(3-5)] p(1,3) demo_expectations(6,7)
  show ?thesis by fastforce
qed

theorem handshake_sound_witness:
  "\<exists>i sh ch v leaf uris sans. initiator_finish demo_edge i sh demo_ca_pem demo_app 0 = Ok (ch, v)
    \<and> verify_leaf demo_edge leaf [] 0 = Ok (va_not_before v, va_not_after v)
    \<and> uri_sans demo_edge leaf = Ok uris \<and> parse_instance_sans demo_edge uris = Ok sans \<and> is_org_id sans = 1"
proof -
  obtain i hello r sh ch where p: "initiator_new demo_edge (Some []) (Some (replicate 32 0)) = Ok (i, hello)"
    "responder_new demo_edge [demo_ca_pem, demo_ca_pem] [] [] = Ok r"
    "respond demo_edge (Some (replicate 16 0)) [] r hello 0 = Ok (sh, ch)" by (rule demo_parties)
  obtain v where f: "initiator_finish demo_edge i sh demo_ca_pem demo_app 0 = Ok (ch, v)"
    using initiator_finish_reply [OF demo_edge_laws p(1) _ p(2,3) _ demo_expectations(1,2) demo_pem_der demo_app_leaf_valid
      demo_app_names demo_expectations(3-5)] by auto
  from handshake_sound [OF f] f demo_expectations(6) demo_pem_der show ?thesis by fastforce
qed

end
