(* ===== verification/Kms_Channel.thy ===== *)
theory Kms_Channel
  imports Kms_Node Kms_Instance_Spec Channel_Handshake
begin

text \<open>
  \<^verbatim>\<open>services/alpha-kms/src/channel.rs\<close>: the handshake route of a KMS node, which answers with a ticket
  and keeps no channel. The property follows a Secret's value from the client that seals it over
  such a channel to whichever node of the KMS takes the put.
\<close>

definition handshake_api_error :: "chan_error \<Rightarrow> api_error" where
  "handshake_api_error e = (case e of Malformed \<Rightarrow> malformed | _ \<Rightarrow> internal)"

text \<open>What the route draws: the channel identifier, HPKE's randomness, and the ticket's salt and nonce.\<close>

record handshake_rnd =
  hr_channel :: "bytes option"
  hr_enc :: bytes
  hr_salt :: "bytes option"
  hr_nonce :: "bytes option"

definition node_leaf_der :: "full_node \<Rightarrow> (bytes, api_error) result" where
  "node_leaf_der nd = (case nd_cert nd of [] \<Rightarrow> Err internal | leaf # _ \<Rightarrow> Ok leaf)"

definition kms_handshake :: "'x ext_scheme \<Rightarrow> handshake_rnd \<Rightarrow> full_node \<Rightarrow> client_hello \<Rightarrow> time \<Rightarrow> (server_hello, api_error) result" where
  "kms_handshake E rnd nd hello now =
     and_then (serving_keys nd) (\<lambda>keys.
     and_then (node_leaf_der nd) (\<lambda>leaf.
     and_then (map_err (\<lambda>_. internal) (responder_kms E [cert_pem E leaf, cert_pem E (im_ca_cert_der keys)] (nd_pkcs8 nd))) (\<lambda>r.
     and_then (map_err handshake_api_error (respond_detached E (hr_channel rnd) (hr_enc rnd) r hello now)) (\<lambda>(reply, channel, c2s).
     and_then (later now TICKET_TTL) (\<lambda>expires_at.
     and_then (seal_ticket E (hr_salt rnd) (hr_nonce rnd) (im_tenant_kek_root keys) channel c2s expires_at) (\<lambda>ticket.
     Ok (reply\<lparr> sh_ticket := Some ticket \<rparr>)))))))"

definition channel_route :: "'x ext_scheme \<Rightarrow> handshake_rnd \<Rightarrow> full_node \<Rightarrow> bytes \<Rightarrow> time \<Rightarrow> (json, api_error) result" where
  "channel_route E rnd nd bs now =
     and_then (body_from_request E client_hello_de bs) (\<lambda>(hello, _).
     and_then (kms_handshake E rnd nd hello now) (\<lambda>reply. Ok (server_hello_json reply)))"

section \<open>Lemmas\<close>

text \<open>An exporter of HPKE is asked for 32 bytes.\<close>

definition export_law :: "'x ext_scheme \<Rightarrow> bool" where
  "export_law E \<longleftrightarrow> (\<forall>ctx l k. hpke_export E ctx l = Some k \<longrightarrow> length k = 32)"

lemma responder_reply_key_length:
  "export_law E \<Longrightarrow> responder_reply E rnd enc_rnd r hello now = Ok (sh, cid, c2s, s2c) \<Longrightarrow> length c2s = 32"
  by (elim responder_reply_Ok) (auto simp: direction_keys_def export_law_def result_simps)

lemma pem_to_der_cert_pem: "pem_law E \<Longrightarrow> pem_to_der E (cert_pem E cert) = Ok cert"
  by (simp add: pem_to_der_def cert_pem_def pem_law_def)

lemma kms_handshake_Ok:
  assumes "kms_handshake E rnd nd hello now = Ok reply"
  obtains keys leaf rest r sh cid c2s s2c ticket where "nd_phase nd = Serving keys" "nd_cert nd = leaf # rest"
    "responder_kms E [cert_pem E leaf, cert_pem E (im_ca_cert_der keys)] (nd_pkcs8 nd) = Ok r"
    "responder_reply E (hr_channel rnd) (hr_enc rnd) r hello now = Ok (sh, cid, c2s, s2c)"
    "seconds_of (now + TICKET_TTL) < 2 ^ 63"
    "seal_ticket E (hr_salt rnd) (hr_nonce rnd) (im_tenant_kek_root keys) cid c2s (now + TICKET_TTL) = Ok ticket"
    "reply = sh\<lparr> sh_ticket := Some ticket \<rparr>"
  using assms unfolding kms_handshake_def respond_detached_def serving_keys_def node_leaf_der_def later_def
  by (auto simp: result_simps intro: that split: phase.split_asm list.split_asm)

section \<open>Property\<close>

text \<open>
  C21. A value put over the sealed path arrives: when a client handshakes with one KMS node whose leaf
  is valid under the platform's CA for a listed Revision, the handshake finishes, and what the
  client then seals for a signed document opens, until the ticket expires ten minutes later, on
  every node with the same root to exactly that organization and value.
\<close>

theorem sealed_put_reaches_any_node:
  assumes "b64_law E" and "p256_law E" and "p256_spki_law E" and "hpke_law E" and "clock_text_law E"
    and "aead_law E" and "sha_law E" and "pem_law E" and "export_law E"
    and "initiator_new E seed (Some n) = Ok (i, hello)" and "length n = 32"
    and "kms_handshake E \<lparr> hr_channel = Some cid, hr_enc = enc, hr_salt = Some salt, hr_nonce = Some iv \<rparr> nd hello rnow = Ok reply"
    and "length cid = 16" and "length salt = 16" and "length iv = 12"
    and "nd_phase nd = Serving keys" and "verify_leaf E (hd (nd_cert nd)) (im_ca_cert_der keys) now = Ok validity"
    and "check_kms_sans E kms_revisions (hd (nd_cert nd)) = Ok names"
    and "pem_to_der E kms_ca_pem = Ok (im_ca_cert_der keys)"
  shows "\<exists>ch ticket. finish_kms E i reply kms_ca_pem kms_revisions now = Ok (ch, ticket)
    \<and> (\<forall>payload org v s ch' name later. secret_seal E ch ticket payload org v = (Ok s, ch') \<longrightarrow>
         json_get payload ''name'' = Some (JString name) \<longrightarrow> unix later < nat (seconds_of (rnow + TICKET_TTL)) \<longrightarrow>
         (\<exists>c2s. open_ticket E (im_tenant_kek_root keys) (ss_ticket s) later = Ok (cid, c2s)
           \<and> secret_open E cid c2s (ss_frame s) name payload = Ok (org, v)))"
proof -
  from assms(12,16) obtain leaf rest r sh cid' c2s s2c ticket where nd: "nd_cert nd = leaf # rest"
    and r: "responder_kms E [cert_pem E leaf, cert_pem E (im_ca_cert_der keys)] (nd_pkcs8 nd) = Ok r"
    and p: "responder_reply E (Some cid) enc r hello rnow = Ok (sh, cid', c2s, s2c)"
    and ttl: "seconds_of (rnow + TICKET_TTL) < 2 ^ 63"
    and t: "seal_ticket E (Some salt) (Some iv) (im_tenant_kek_root keys) cid' c2s (rnow + TICKET_TTL) = Ok ticket"
    and reply: "reply = sh\<lparr> sh_ticket := Some ticket \<rparr>"
    by (elim kms_handshake_Ok) auto
  from p have cid: "cid' = cid" by (elim responder_reply_Ok) simp
  from r obtain l h where l: "leaf_and_key E [cert_pem E leaf, cert_pem E (im_ca_cert_der keys)] (nd_pkcs8 nd) = Ok (l, rs_key r)"
    and h: "and_then (uri_sans E l) parse_kms_sans = Ok (rs_compose_hash r)"
    and rc: "rs_certificate_chain r = [cert_pem E leaf, cert_pem E (im_ca_cert_der keys)]"
    unfolding responder_kms_def by (auto simp: result_simps)
  from l pem_to_der_cert_pem [OF assms(8), of leaf] have "l = leaf" by (auto elim!: leaf_and_key_Ok)
  with h assms(18) nd have k: "check_kms_sans E kms_revisions leaf = Ok (rs_compose_hash r, ())"
    unfolding check_kms_sans_def by (auto simp: result_simps)
  obtain nb na where v: "verify_leaf E leaf (im_ca_cert_der keys) now = Ok (nb, na)" using assms(17) nd by (cases validity) simp
  have "\<exists>spki. finish_with E i reply kms_ca_pem now (check_kms_sans E kms_revisions) = Ok \<lparr> fi_channel = channel_new E cid c2s s2c,
    fi_sans = (), fi_leaf_spki = spki, fi_not_before = nb, fi_not_after = na, fi_kms_ca = im_ca_cert_der keys,
    fi_now = seconds_of rnow * 1000000000 \<rparr>"
    unfolding reply
    by (rule finish_with_reply [where r = r and leaf = leaf and check = "check_kms_sans E kms_revisions", OF assms(1-5,10,11) _ p assms(13,19) _ v k])
      (use l \<open>l = leaf\<close> in \<open>simp_all add: rc pem_to_der_cert_pem [OF assms(8)]\<close>)
  then have f: "finish_kms E i reply kms_ca_pem kms_revisions now = Ok (channel_new E cid c2s s2c, ticket)"
    unfolding finish_kms_def by (auto simp: reply)
  have s: "\<exists>c. open_ticket E (im_tenant_kek_root keys) (ss_ticket s) later = Ok (cid, c) \<and> secret_open E cid c (ss_frame s) name payload = Ok (org, v)"
    if o: "secret_seal E (channel_new E cid c2s s2c) ticket payload org v = (Ok s, ch')"
      "json_get payload ''name'' = Some (JString name)" "unix later < nat (seconds_of (rnow + TICKET_TTL))"
    for payload org v s ch' name later
  proof -
    from o(1) have "ss_ticket s = ticket" by (rule sealed_secretE)
    moreover have "open_ticket E (im_tenant_kek_root keys) ticket later = Ok (cid, c2s)"
      using ticket_roundtrip [OF assms(1,6) t assms(14,15), of later] o(3) ttl assms(13) responder_reply_key_length [OF assms(9) p]
      by (simp add: cid)
    moreover have "secret_open E cid c2s (ss_frame s) name payload = Ok (org, v)"
      using secret_open_sealed [OF assms(1,6,7) o(1) _ o(2)] by (simp add: channel_new_def)
    ultimately show ?thesis by simp
  qed
  show ?thesis by (intro exI conjI, rule f) (use s in blast)
qed

definition demo_kms_edge :: ext where
  "demo_kms_edge = demo_edge\<lparr> x509_parse := \<lambda>_. Some (demo_app_leaf\<lparr> x_uri_sans := x_uri_sans demo_leaf \<rparr>, []) \<rparr>"

lemma demo_kms_edge_laws: "b64_law demo_kms_edge" "p256_law demo_kms_edge" "p256_spki_law demo_kms_edge" "hpke_law demo_kms_edge"
  "clock_text_law demo_kms_edge" "aead_law demo_kms_edge" "sha_law demo_kms_edge" "pem_law demo_kms_edge" "export_law demo_kms_edge"
proof -
  show "b64_law demo_kms_edge" using demo_edge_laws(1) by (simp add: demo_kms_edge_def b64_law_def)
  show "p256_law demo_kms_edge" using demo_edge_laws(2) by (simp add: demo_kms_edge_def p256_law_def)
  show "p256_spki_law demo_kms_edge" using demo_edge_laws(3) by (simp add: demo_kms_edge_def p256_spki_law_def)
  show "hpke_law demo_kms_edge" using demo_edge_laws(4) by (simp add: demo_kms_edge_def hpke_law_def)
  show "clock_text_law demo_kms_edge" using demo_edge_laws(5) by (simp add: demo_kms_edge_def clock_text_law_def)
  show "aead_law demo_kms_edge" using demo_aead by (simp add: demo_kms_edge_def demo_edge_def aead_law_def)
  show "sha_law demo_kms_edge" using demo_sha by (simp add: demo_kms_edge_def demo_edge_def sha_law_def)
  show "pem_law demo_kms_edge" using demo_pem by (simp add: demo_kms_edge_def demo_edge_def pem_law_def)
  show "export_law demo_kms_edge" by (simp add: demo_kms_edge_def demo_edge_def demo_def export_law_def)
qed

definition demo_channel_node :: full_node where
  "demo_channel_node = \<lparr> nd_phase = Serving \<lparr> im_tenant_kek_root = [], im_ca_key_der = [], im_ca_cert_der = [] \<rparr>, nd_platform = None,
     nd_runtime_key = [], nd_nonce_key = [], nd_spki = [], nd_pkcs8 = [], nd_xwing = [], nd_compose_hash = [],
     nd_release_keys = demo_release, nd_kata = False, nd_dev_root = None, nd_password = None, nd_cert = [[]] \<rparr>"

definition demo_rnd :: handshake_rnd where
  "demo_rnd = \<lparr> hr_channel = Some (replicate 16 0), hr_enc = [], hr_salt = Some (replicate 16 1), hr_nonce = Some (replicate 12 2) \<rparr>"

lemma demo_kms_leaf:
  "spki_of demo_kms_edge cert = Ok (demo_public 32 [])" "uri_sans demo_kms_edge cert = Ok (x_uri_sans demo_leaf)"
  "parse_kms_sans (x_uri_sans demo_leaf) = Ok (replicate 32 1)" "verify_leaf demo_kms_edge [] [] 0 = Ok (0, 10 * 1000000000)"
proof -
  have x: "x509_parse demo_kms_edge b = Some (demo_app_leaf\<lparr> x_uri_sans := x_uri_sans demo_leaf \<rparr>, [])"
    "p256_from_spki demo_kms_edge (demo_public 32 []) = Some (demo_public 32 [])"
    "p256_sig_from_der demo_kms_edge (demo_hash 64 (demo_public 32 [])) = Some (demo_hash 64 (demo_public 32 []))"
    "p256_verify demo_kms_edge k m sg = (sg = demo_hash 64 (k @ m))" for b k m sg
    by (simp_all add: demo_kms_edge_def demo_edge_def demo_def)
  show "spki_of demo_kms_edge cert = Ok (demo_public 32 [])" "uri_sans demo_kms_edge cert = Ok (x_uri_sans demo_leaf)"
    by (simp_all add: spki_of_def uri_sans_def parse_x509_def x demo_app_leaf_def)
  show "parse_kms_sans (x_uri_sans demo_leaf) = Ok (replicate 32 1)"
    by (simp add: parse_kms_sans_def demo_leaf_def demo_revision_san)
  show "verify_leaf demo_kms_edge [] [] 0 = Ok (0, 10 * 1000000000)"
    by (simp add: verify_leaf_def parse_x509_def x unix_seconds_def seconds_of_def from_unix_seconds_def)
      (simp add: demo_app_leaf_def demo_leaf_def x)
qed

lemma demo_kms_initiator:
  "\<exists>i. initiator_new demo_kms_edge (Some []) (Some (replicate 32 0)) = Ok (i, \<lparr> hl_v = VERSION, hl_kem = KEM_NAME,
     hl_pk = b64_enc demo_kms_edge (demo_public 1215 []), hl_nonce = b64_enc demo_kms_edge (replicate 32 0) \<rparr>)"
  by (simp add: initiator_new_def private_key_generate_def private_key_from_seed_def)
    (simp add: demo_kms_edge_def demo_edge_def demo_def)

lemma demo_kms_answers:
  "\<exists>reply. kms_handshake demo_kms_edge demo_rnd demo_channel_node \<lparr> hl_v = VERSION, hl_kem = KEM_NAME,
     hl_pk = b64_enc demo_kms_edge (demo_public 1215 []), hl_nonce = b64_enc demo_kms_edge (replicate 32 0) \<rparr> 0 = Ok reply"
proof -
  have x: "xwing_public_ok demo_kms_edge p = (length p = 1216)" "p256_from_pkcs8 demo_kms_edge k = Some k"
    "p256_to_spki demo_kms_edge (p256_public demo_kms_edge []) = Some (demo_public 32 [])"
    "hpke_setup_sender demo_kms_edge rr pk f = Some (pk, pk @ f)" "hpke_export demo_kms_edge c l = Some (demo_hash 32 (rev l @ c))"
    "p256_sign demo_kms_edge k m = Some (demo_hash 64 (demo_public 32 k @ m))" "jcs demo_kms_edge v = Some (demo_jcs v)"
    "rfc3339_show demo_kms_edge 0 = Some ''t''" "aes_gcm_enc demo_kms_edge = demo_seal" for k p rr pk f c l m v
    by (simp_all add: demo_kms_edge_def demo_edge_def demo_def)
  have r: "responder_kms demo_kms_edge [cert_pem demo_kms_edge [], cert_pem demo_kms_edge []] [] =
      Ok \<lparr> rs_certificate_chain = [cert_pem demo_kms_edge [], cert_pem demo_kms_edge []], rs_key = [], rs_compose = [],
           rs_compose_hash = replicate 32 1 \<rparr>"
    by (simp add: responder_kms_def leaf_and_key_def pem_to_der_cert_pem [OF demo_kms_edge_laws(8)] x demo_kms_leaf)
  show ?thesis
    by (simp add: kms_handshake_def serving_keys_def node_leaf_der_def demo_channel_node_def r demo_rnd_def respond_detached_def
        responder_reply_def b64_decode_encode [OF demo_kms_edge_laws(1)] x decode_bytes_def rfc3339_def unix_seconds_def
        seconds_of_def handshake_digest_def signing_digest_def direction_keys_def later_def TICKET_TTL_def seal_ticket_def
        kms_hkdf_def aead_seal_def demo_seal_def)
qed

theorem sealed_put_reaches_any_node_witness:
  "\<exists>i reply ch ticket. kms_handshake demo_kms_edge demo_rnd demo_channel_node \<lparr> hl_v = VERSION, hl_kem = KEM_NAME,
       hl_pk = b64_enc demo_kms_edge (demo_public 1215 []), hl_nonce = b64_enc demo_kms_edge (replicate 32 0) \<rparr> 0 = Ok reply
     \<and> finish_kms demo_kms_edge i reply (cert_pem demo_kms_edge []) [replicate 32 1] 0 = Ok (ch, ticket)"
proof -
  obtain i where i: "initiator_new demo_kms_edge (Some []) (Some (replicate 32 0)) = Ok (i, \<lparr> hl_v = VERSION, hl_kem = KEM_NAME,
     hl_pk = b64_enc demo_kms_edge (demo_public 1215 []), hl_nonce = b64_enc demo_kms_edge (replicate 32 0) \<rparr>)"
    using demo_kms_initiator by blast
  obtain reply where r: "kms_handshake demo_kms_edge demo_rnd demo_channel_node \<lparr> hl_v = VERSION, hl_kem = KEM_NAME,
     hl_pk = b64_enc demo_kms_edge (demo_public 1215 []), hl_nonce = b64_enc demo_kms_edge (replicate 32 0) \<rparr> 0 = Ok reply"
    using demo_kms_answers by blast
  have n: "nd_phase demo_channel_node = Serving \<lparr> im_tenant_kek_root = [], im_ca_key_der = [], im_ca_cert_der = [] \<rparr>"
    "hd (nd_cert demo_channel_node) = []" "pem_to_der demo_kms_edge (cert_pem demo_kms_edge []) = Ok []"
    "check_kms_sans demo_kms_edge [replicate 32 1] [] = Ok (replicate 32 1, ())"
    using pem_to_der_cert_pem [OF demo_kms_edge_laws(8)] demo_kms_leaf(2,3)
    by (simp_all add: demo_channel_node_def check_kms_sans_def)
  have "\<exists>ch ticket. finish_kms demo_kms_edge i reply (cert_pem demo_kms_edge []) [replicate 32 1] 0 = Ok (ch, ticket)"
    using sealed_put_reaches_any_node [OF demo_kms_edge_laws i _ r [unfolded demo_rnd_def] _ _ _ n(1), unfolded n(2) intermediates.simps,
        OF _ _ _ _ demo_kms_leaf(4) n(4,3)] by auto
  with r show ?thesis by blast
qed

end
