(* ===== verification/Serde_Text.thy ===== *)
theory Serde_Text
  imports Core_Json
begin

text \<open>
  What \<open>serde_json::to_string\<close> writes for a struct: its fields in the order they are declared, compactly.
  Each entry is given with the text of its value. That the reader reads such a text back is a
  hypothesis of the properties that need it, \<open>reads_back\<close>.
\<close>

fun join :: "string \<Rightarrow> string list \<Rightarrow> string" where
  "join sep [] = []"
| "join sep [s] = s"
| "join sep (s # t # r) = s @ sep @ join sep (t # r)"

definition json_text :: "'x ext_scheme \<Rightarrow> string \<Rightarrow> string" where
  "json_text E s = json_to_string E (JString s)"

definition struct_text :: "'x ext_scheme \<Rightarrow> (string \<times> string) list \<Rightarrow> string" where
  "struct_text E fs = ''{'' @ join '','' (map (\<lambda>e. json_text E (fst e) @ '':'' @ snd e) fs) @ ''}''"

definition reads_back :: "'x ext_scheme \<Rightarrow> string \<Rightarrow> raw \<Rightarrow> bool" where
  "reads_back E t v \<longleftrightarrow> json_events E (as_bytes t) = Some v"

end
