(* ===== verification/Kms_Kbs.thy ===== *)
theory Kms_Kbs
  imports Kms_Instance_Spec Serde_Text
begin

text \<open>
  \<^verbatim>\<open>services/alpha-kms/src/kbs.rs\<close>: the three routes of the KBS protocol that release one registry
  credential to a guest's data hub. Randomness and the tables read are in \<open>icall\<close> and the
  arguments, as for the Instance API; a token and its claims are text, read with \<open>serde_json\<close>.
\<close>

section \<open>Auth\<close>

definition TOKEN_TTL :: time where "TOKEN_TTL = 300 * 1000000000"
definition NONCE_LABEL :: bytes where "NONCE_LABEL = as_bytes ''alphacompute-kms/kbs-nonce/v1''"
definition TOKEN_LABEL :: bytes where "TOKEN_LABEL = as_bytes ''alphacompute-kms/kbs-token/v1''"
definition TOKEN_HEADER :: string where "TOKEN_HEADER = ''eyJhbGciOiJIUzI1NiIsInR5cCI6IkpXVCJ9''"
definition KEY_WRAP :: string where "KEY_WRAP = ''ECDH-ES+A256KW''"

definition token_invalid :: api_error where "token_invalid = ApiError ''token_invalid''"

definition kbs_nonce_key :: "'x ext_scheme \<Rightarrow> bytes \<Rightarrow> (bytes, api_error) result" where
  "kbs_nonce_key E tenant_kek_root = kms_hkdf E tenant_kek_root NONCE_LABEL []"

definition auth_request_de :: "json \<Rightarrow> (string \<times> string) option" where
  "auth_request_de v =
     Option.bind (struct_fields False [(''version'', False), (''tee'', False)] v) (\<lambda>m.
     Option.bind (field m ''version'' json_as_str) (\<lambda>ver.
     Option.bind (field m ''tee'' json_as_str) (\<lambda>tee. Some (ver, tee))))"

definition kbs_auth :: "'x ext_scheme \<Rightarrow> node \<Rightarrow> time \<Rightarrow> bytes \<Rightarrow> (json, api_error) result" where
  "kbs_auth E nd now bs =
     and_then (body_from_request E auth_request_de bs) (\<lambda>((ver, tee), _).
     refuse_if (ver \<noteq> ''0.4.0'' \<or> tee \<noteq> ''tdx'') malformed
     (and_then (intermediates_of nd) (\<lambda>keys.
      and_then (kbs_nonce_key E (im_tenant_kek_root keys)) (\<lambda>key.
      Ok (jobj [(''nonce'', JString (b64_enc E (mint_nonce E key now))),
                (''extra-params'', jobj [(''selected-hash-algorithm'', JString ''sha384'')])])))))"

section \<open>Attest\<close>

record tee_key =
  tk_kty :: string
  tk_crv :: string
  tk_alg :: string
  tk_x :: string
  tk_y :: string

definition tee_key_de :: "json \<Rightarrow> tee_key option" where
  "tee_key_de v =
     Option.bind (struct_fields True [(''kty'', False), (''crv'', False), (''alg'', False), (''x'', False), (''y'', False)] v) (\<lambda>m.
     Option.bind (field m ''kty'' json_as_str) (\<lambda>k.
     Option.bind (field m ''crv'' json_as_str) (\<lambda>c.
     Option.bind (field m ''alg'' json_as_str) (\<lambda>a.
     Option.bind (field m ''x'' json_as_str) (\<lambda>x.
     Option.bind (field m ''y'' json_as_str) (\<lambda>y.
     Some \<lparr> tk_kty = k, tk_crv = c, tk_alg = a, tk_x = x, tk_y = y \<rparr>))))))"

definition tee_key_json :: "tee_key \<Rightarrow> json" where
  "tee_key_json k = jobj [(''kty'', JString (tk_kty k)), (''crv'', JString (tk_crv k)), (''alg'', JString (tk_alg k)),
     (''x'', JString (tk_x k)), (''y'', JString (tk_y k))]"

definition tee_coordinate :: "'x ext_scheme \<Rightarrow> string \<Rightarrow> bytes option" where
  "tee_coordinate E c = Option.bind (b64_dec E c) (\<lambda>b. if length b = 32 then Some b else None)"

definition tee_public_key :: "'x ext_scheme \<Rightarrow> tee_key \<Rightarrow> (bytes, api_error) result" where
  "tee_public_key E k =
     (case (tee_coordinate E (tk_x k), tee_coordinate E (tk_y k)) of
        (Some x, Some y) \<Rightarrow>
          if (tk_kty k, tk_crv k, tk_alg k) = (''EC'', ''P-256'', KEY_WRAP)
          then ok_or (p256_from_sec1 E ([4] @ x @ y)) malformed
          else Err malformed
      | _ \<Rightarrow> Err malformed)"

record kbs_attestation =
  ka_nonce :: string
  ka_tee_pubkey :: json
  ka_quote_text :: string
  ka_additional_evidence :: string

definition runtime_data_de :: "json \<Rightarrow> (string \<times> json) option" where
  "runtime_data_de v =
     Option.bind (struct_fields False [(''nonce'', False), (''tee-pubkey'', False)] v) (\<lambda>m.
     Option.bind (field m ''nonce'' json_as_str) (\<lambda>n.
     Option.bind (field m ''tee-pubkey'' Some) (\<lambda>k. Some (n, k))))"

definition tdx_evidence_de :: "json \<Rightarrow> string option" where
  "tdx_evidence_de v = Option.bind (struct_fields False [(''quote'', False)] v) (\<lambda>m. field m ''quote'' json_as_str)"

definition tee_evidence_de :: "json \<Rightarrow> (string \<times> string) option" where
  "tee_evidence_de v =
     Option.bind (struct_fields False [(''primary_evidence'', False), (''additional_evidence'', False)] v) (\<lambda>m.
     Option.bind (field m ''primary_evidence'' tdx_evidence_de) (\<lambda>q.
     Option.bind (field m ''additional_evidence'' json_as_str) (\<lambda>a. Some (q, a))))"

definition kbs_attestation_de :: "json \<Rightarrow> kbs_attestation option" where
  "kbs_attestation_de v =
     Option.bind (struct_fields False [(''runtime-data'', False), (''tee-evidence'', False)] v) (\<lambda>m.
     Option.bind (field m ''runtime-data'' runtime_data_de) (\<lambda>(n, k).
     Option.bind (field m ''tee-evidence'' tee_evidence_de) (\<lambda>(q, a).
     Some \<lparr> ka_nonce = n, ka_tee_pubkey = k, ka_quote_text = q, ka_additional_evidence = a \<rparr>)))"

definition kbs_report_data :: "'x ext_scheme \<Rightarrow> string \<Rightarrow> json \<Rightarrow> string \<Rightarrow> (bytes, api_error) result" where
  "kbs_report_data E n tee_pubkey additional =
     and_then (ok_or (jcs E (jobj [(''additional-evidence'', JString additional), (''nonce'', JString n),
       (''tee-pubkey'', tee_pubkey)])) malformed) (\<lambda>j.
     Ok (sha384 E j @ replicate 16 0))"

record claims =
  cl_exp :: nat
  cl_org_id :: uuid
  cl_revision :: compose_hash
  cl_tee_pubkey :: tee_key

definition tee_key_hash :: "'x ext_scheme \<Rightarrow> json \<Rightarrow> string" where
  "tee_key_hash E k = (case jcs E k of Some j \<Rightarrow> sha256_hex E j | None \<Rightarrow> [])"

definition tee_key_text :: "'x ext_scheme \<Rightarrow> tee_key \<Rightarrow> string" where
  "tee_key_text E k = struct_text E [(''kty'', json_text E (tk_kty k)), (''crv'', json_text E (tk_crv k)),
     (''alg'', json_text E (tk_alg k)), (''x'', json_text E (tk_x k)), (''y'', json_text E (tk_y k))]"

definition claims_text :: "'x ext_scheme \<Rightarrow> claims \<Rightarrow> string" where
  "claims_text E cl = struct_text E [(''exp'', show_nat (cl_exp cl)), (''org_id'', json_text E (uuid_show E (cl_org_id cl))),
     (''revision'', json_text E (compose_hash_show (cl_revision cl))), (''tee-pubkey'', tee_key_text E (cl_tee_pubkey cl))]"

definition raw_tee_key :: "raw \<Rightarrow> tee_key option" where
  "raw_tee_key v =
     Option.bind (raw_fields True [(''kty'', False), (''crv'', False), (''alg'', False), (''x'', False), (''y'', False)] v) (\<lambda>m.
     Option.bind (raw_field m ''kty'' raw_as_str) (\<lambda>k.
     Option.bind (raw_field m ''crv'' raw_as_str) (\<lambda>c.
     Option.bind (raw_field m ''alg'' raw_as_str) (\<lambda>a.
     Option.bind (raw_field m ''x'' raw_as_str) (\<lambda>x.
     Option.bind (raw_field m ''y'' raw_as_str) (\<lambda>y.
     Some \<lparr> tk_kty = k, tk_crv = c, tk_alg = a, tk_x = x, tk_y = y \<rparr>))))))"

definition claims_de :: "'x ext_scheme \<Rightarrow> bytes \<Rightarrow> claims option" where
  "claims_de E bs =
     Option.bind (json_events E bs) (\<lambda>v.
     Option.bind (raw_fields False [(''exp'', False), (''org_id'', False), (''revision'', False), (''tee-pubkey'', False)] v) (\<lambda>m.
     Option.bind (raw_field m ''exp'' raw_as_u64) (\<lambda>e.
     Option.bind (raw_field m ''org_id'' (\<lambda>r. Option.bind (raw_as_str r) (uuid_parse E))) (\<lambda>org.
     Option.bind (raw_field m ''revision'' (\<lambda>r. Option.bind (raw_as_str r) compose_hash_from_str)) (\<lambda>h.
     Option.bind (raw_field m ''tee-pubkey'' raw_tee_key) (\<lambda>k.
     Some \<lparr> cl_exp = e, cl_org_id = org, cl_revision = h, cl_tee_pubkey = k \<rparr>))))))"

definition token_mac :: "'x ext_scheme \<Rightarrow> bytes \<Rightarrow> string \<Rightarrow> (bytes, api_error) result" where
  "token_mac E tenant_kek_root txt =
     and_then (kms_hkdf E tenant_kek_root TOKEN_LABEL []) (\<lambda>key. Ok (hmac_sha256 E key (as_bytes txt)))"

definition issue_token :: "'x ext_scheme \<Rightarrow> bytes \<Rightarrow> claims \<Rightarrow> (string, api_error) result" where
  "issue_token E tenant_kek_root cl =
     (let txt = TOKEN_HEADER @ ''.'' @ b64_enc E (as_bytes (claims_text E cl)) in
      and_then (token_mac E tenant_kek_root txt) (\<lambda>tag. Ok (txt @ ''.'' @ b64_enc E tag)))"

definition verify_token :: "'x ext_scheme \<Rightarrow> bytes \<Rightarrow> string \<Rightarrow> time \<Rightarrow> (claims, api_error) result" where
  "verify_token E tenant_kek_root token now =
     and_then (ok_or (rsplit_once ''.'' token) token_invalid) (\<lambda>(txt, tag).
     and_then (ok_or (b64_dec E tag) token_invalid) (\<lambda>t.
     and_then (token_mac E tenant_kek_root txt) (\<lambda>mac.
     refuse_if (mac \<noteq> t) token_invalid
     (and_then (ok_or (Option.bind (strip_prefix TOKEN_HEADER txt) (\<lambda>p.
                  Option.bind (strip_prefix ''.'' p) (b64_dec E))) token_invalid) (\<lambda>payload.
      and_then (ok_or (claims_de E payload) token_invalid) (\<lambda>cl.
      refuse_if (unix now \<ge> cl_exp cl) token_invalid (Ok cl)))))))"

definition revision_credential :: "'x ext_scheme \<Rightarrow> icall \<Rightarrow> bytes \<Rightarrow> platform_document \<Rightarrow> compose_hash \<Rightarrow>
    (uuid \<times> uuid \<times> string, api_error) result" where
  "revision_credential E c tenant_kek_root doc h =
     and_then (ok_or (load_revision (ic_revisions c) h) (ApiError ''attestation_unknown'')) (\<lambda>r.
     and_then (appraise_revision E (db_keys (ic_keys c)) tenant_kek_root h r doc) (\<lambda>i.
     and_then (ok_or i (ApiError ''attestation_unknown'')) (\<lambda>init.
     and_then (ok_or (registry_credential E init) (ApiError ''policy_denied'')) (\<lambda>name.
     Ok (rv_org_id r, rv_app_id r, name)))))"

definition kbs_attest_inner :: "'x ext_scheme \<Rightarrow> node \<Rightarrow> icall \<Rightarrow> kbs_attestation \<Rightarrow> bytes option \<Rightarrow>
    (claims \<times> string, api_error) result" where
  "kbs_attest_inner E nd c request quote =
     and_then (intermediates_of nd) (\<lambda>keys.
     and_then (decode32 E (ka_nonce request)) (\<lambda>n32.
     and_then (kbs_nonce_key E (im_tenant_kek_root keys)) (\<lambda>nkey.
     and_then (check_nonce E nkey n32 (ic_now c)) (\<lambda>_.
     and_then (ok_or (tee_key_de (ka_tee_pubkey request)) malformed) (\<lambda>tee.
     and_then (tee_public_key E tee) (\<lambda>_.
     and_then (kbs_report_data E (ka_nonce request) (ka_tee_pubkey request) (ka_additional_evidence request)) (\<lambda>expected.
     and_then (ok_or quote malformed) (\<lambda>q.
     and_then (ok_or (nd_platform nd) (ApiError ''attestation_unknown'')) (\<lambda>doc.
     and_then (map_err appraisal_api_error (ic_collateral c)) (\<lambda>coll.
     and_then (map_err appraisal_api_error (appraise_kata E q expected doc coll (ic_now c))) (\<lambda>a.
     and_then (revision_credential E c (im_tenant_kek_root keys) doc (ka_init_data a)) (\<lambda>(org, _, _).
     and_then (later (ic_now c) TOKEN_TTL) (\<lambda>expiry.
     (let cl = \<lparr> cl_exp = unix expiry, cl_org_id = org, cl_revision = ka_init_data a, cl_tee_pubkey = tee \<rparr> in
      and_then (issue_token E (im_tenant_kek_root keys) cl) (\<lambda>token. Ok (cl, token))))))))))))))))"

definition kbs_attest_row :: "string \<Rightarrow> bytes option \<Rightarrow> (claims \<times> string, api_error) result \<Rightarrow> audit" where
  "kbs_attest_row actor ev_sha res =
     \<lparr> au_actor_kind = ''instance'', au_actor = actor, au_action = ''kbs.attest'',
       au_org_id = (case res of Ok (cl, _) \<Rightarrow> Some (cl_org_id cl) | Err _ \<Rightarrow> None),
       au_object = (case res of Ok (cl, _) \<Rightarrow> Some (''revision:'' @ compose_hash_show (cl_revision cl)) | Err _ \<Rightarrow> None),
       au_outcome = (case res of Ok _ \<Rightarrow> ''ok'' | Err e \<Rightarrow> outcome e),
       au_details = (case res of Ok _ \<Rightarrow> Details (jobj []) | Err e \<Rightarrow> ErrorDetails e), au_evidence_sha256 = ev_sha \<rparr>"

definition kbs_attest :: "'x ext_scheme \<Rightarrow> node \<Rightarrow> icall \<Rightarrow> bytes \<Rightarrow> db \<Rightarrow> (json, api_error) result \<times> db" where
  "kbs_attest E nd c bs d =
     (case body_from_request E kbs_attestation_de bs of
        Err e \<Rightarrow> (Err e, d)
      | Ok (request, _) \<Rightarrow>
          (let quote = b64_std_dec E (ka_quote_text request);
               res = kbs_attest_inner E nd c request quote in
           (and_then res (\<lambda>(_, token). Ok (jobj [(''token'', JString token)])),
            audit_insert (kbs_attest_row (tee_key_hash E (ka_tee_pubkey request)) (map_option (sha256 E) quote) res) d)))"

section \<open>Resource\<close>

definition kbs_kek :: "'x ext_scheme \<Rightarrow> bytes \<Rightarrow> bytes" where
  "kbs_kek E shared = sha256 E (be_bytes 4 1 @ shared @ be_bytes 4 (length KEY_WRAP) @ as_bytes KEY_WRAP @ replicate 8 0 @ be_bytes 4 256)"

definition jwe_header :: "'x ext_scheme \<Rightarrow> bytes \<Rightarrow> bytes \<Rightarrow> json" where
  "jwe_header E x y = jobj [(''alg'', JString KEY_WRAP), (''enc'', JString ''A256GCM''),
     (''epk'', jobj [(''crv'', JString ''P-256''), (''kty'', JString ''EC''), (''x'', JString (b64_enc E x)),
                     (''y'', JString (b64_enc E y))])]"

definition kbs_seal :: "'x ext_scheme \<Rightarrow> bytes \<Rightarrow> bytes \<Rightarrow> bytes \<Rightarrow> bytes \<Rightarrow> bytes \<Rightarrow> (json, api_error) result" where
  "kbs_seal E tee plaintext ephemeral cek iv =
     refuse_if (\<not> p256_secret_ok E ephemeral) internal
     (and_then (ok_or (aes_kw_wrap E (kbs_kek E (p256_dh E ephemeral tee)) cek) internal) (\<lambda>wrapped.
      (let point = p256_to_sec1 E (p256_public E ephemeral) in
       refuse_if (length point < 33) internal
       (and_then (ok_or (jcs E (jwe_header E (take 32 (drop 1 point)) (drop 33 point))) internal) (\<lambda>header.
        (let protected = b64_enc E header in
         and_then (ok_or (aes_gcm_enc E cek iv (as_bytes protected) plaintext) internal) (\<lambda>box.
         Ok (jobj [(''protected'', JString protected), (''encrypted_key'', JString (b64_enc E wrapped)),
                   (''iv'', JString (b64_enc E iv)), (''ciphertext'', JString (b64_enc E (take (length plaintext) box))),
                   (''tag'', JString (b64_enc E (drop (length plaintext) box)))]))))))))"

text \<open>What the route draws: the ephemeral key, the content key and the nonce.\<close>

record kbs_rnd =
  kd_ephemeral :: "bytes option"
  kd_cek :: "bytes option"
  kd_iv :: "bytes option"

definition resource_inner :: "'x ext_scheme \<Rightarrow> node \<Rightarrow> icall \<Rightarrow> kbs_rnd \<Rightarrow> bytes \<Rightarrow> claims \<Rightarrow> string \<times> string \<times> string \<Rightarrow>
    (json, api_error) result" where
  "resource_inner E nd c rnd tenant_kek_root cl path =
     and_then (ok_or (nd_platform nd) (ApiError ''attestation_unknown'')) (\<lambda>doc.
     and_then (revision_credential E c tenant_kek_root doc (cl_revision cl)) (\<lambda>(org, app, credential).
     refuse_if (path \<noteq> (''alpha'', ''secret'', credential)) not_found
     (and_then (release_secret E (ic_secrets c) (db_keys (ic_secret_keys c)) tenant_kek_root (pd_signer doc) org app (snd (snd path))) (\<lambda>released.
      and_then (tee_public_key E (cl_tee_pubkey cl)) (\<lambda>tee.
      and_then (ok_or (kd_ephemeral rnd) internal) (\<lambda>eph.
      and_then (ok_or (kd_cek rnd) internal) (\<lambda>cek.
      and_then (ok_or (kd_iv rnd) internal) (\<lambda>iv.
      kbs_seal E tee (re_value released) eph cek iv))))))))"

definition kbs_resource :: "'x ext_scheme \<Rightarrow> node \<Rightarrow> icall \<Rightarrow> kbs_rnd \<Rightarrow> string option \<Rightarrow> string \<times> string \<times> string \<Rightarrow> db \<Rightarrow>
    (json, api_error) result \<times> db" where
  "kbs_resource E nd c rnd authorization path d =
     (case and_then (intermediates_of nd) (\<lambda>keys.
             and_then (ok_or (Option.bind authorization (strip_prefix ''Bearer '')) token_invalid) (\<lambda>token.
             and_then (verify_token E (im_tenant_kek_root keys) token (ic_now c)) (\<lambda>cl. Ok (keys, cl)))) of
        Err e \<Rightarrow> (Err e, d)
      | Ok (keys, cl) \<Rightarrow>
          (let res = resource_inner E nd c rnd (im_tenant_kek_root keys) cl path; name = snd (snd path) in
           (res, audit_insert (instance_row (tee_key_hash E (tee_key_json (cl_tee_pubkey cl))) ''kbs.resource'' (Some (cl_org_id cl))
                   (if is_secret_name name then Some (''secret:'' @ name) else None) res) d)))"

section \<open>Lemmas\<close>

lemma revision_credential_Ok:
  assumes "revision_credential E c root doc h = Ok (org, app, name)"
  obtains r ch mtext init where "load_revision (ic_revisions c) h = Some r" "rv_org_id r = org" "rv_app_id r = app"
    "verify_revision E (db_keys (ic_keys c)) root h r (pd_signer doc) = Ok ch" "rv_init_data r = Some mtext"
    "sha256 E (as_bytes mtext) = h" "init_data_parse E mtext = Ok init" "registry_credential E init = Some name"
proof -
  from assms obtain r init where r: "load_revision (ic_revisions c) h = Some r" "rv_org_id r = org" "rv_app_id r = app"
    and a: "appraise_revision E (db_keys (ic_keys c)) root h r doc = Ok (Some init)" and n: "registry_credential E init = Some name"
    unfolding revision_credential_def by (auto simp: result_simps)
  from a obtain ch mtext where v: "verify_revision E (db_keys (ic_keys c)) root h r (pd_signer doc) = Ok ch" "rv_init_data r = Some mtext"
    "init_data_parse E mtext = Ok init"
    unfolding appraise_revision_def by (auto simp: result_simps split: option.splits)
  from v(1,2) have "sha256 E (as_bytes mtext) = h"
    unfolding verify_revision_def revision_signed_def by (auto simp: result_simps compose_hash_of_def split: option.splits)
  with r v n show ?thesis by (intro that) simp_all
qed

text \<open>What \<open>serde_json\<close> reads from the text of claims.\<close>

definition claims_raw :: "'x ext_scheme \<Rightarrow> claims \<Rightarrow> raw" where
  "claims_raw E cl = RMap [(''exp'', RU64 (word_of_nat (cl_exp cl))), (''org_id'', RStr (uuid_show E (cl_org_id cl))),
     (''revision'', RStr (compose_hash_show (cl_revision cl))),
     (''tee-pubkey'', RMap [(''kty'', RStr (tk_kty (cl_tee_pubkey cl))), (''crv'', RStr (tk_crv (cl_tee_pubkey cl))),
       (''alg'', RStr (tk_alg (cl_tee_pubkey cl))), (''x'', RStr (tk_x (cl_tee_pubkey cl))), (''y'', RStr (tk_y (cl_tee_pubkey cl)))])]"

lemma claims_de_text:
  assumes "uuid_law E" and "reads_back E (claims_text E cl) (claims_raw E cl)" and "length (cl_revision cl) = 32" and "cl_exp cl < 2 ^ 64"
  shows "claims_de E (as_bytes (claims_text E cl)) = Some cl"
proof -
  have "uuid_parse E (uuid_show E u) = Some u" for u using assms(1) by (simp add: uuid_law_def)
  moreover have "unat (word_of_nat (cl_exp cl) :: u64) = cl_exp cl" using assms(4) by (simp add: unat_of_nat)
  ultimately show ?thesis
    using assms(2,3) unfolding claims_de_def reads_back_def
    by (simp add: claims_raw_def raw_fields_def raw_field_def raw_tee_key_def compose_text.dec_enc)
qed

lemma rsplit_once_dot:
  assumes "CHR ''.'' \<notin> set b"
  shows "rsplit_once ''.'' (a @ CHR ''.'' # b) = Some (a, b)"
proof -
  have "rsplit_once ''.'' b = None" using assms by (induction b) auto
  then show ?thesis by (induction a) auto
qed

section \<open>Properties\<close>

text \<open>
  A token verifies to exactly the claims it was issued with until it expires, on any node that
  holds the same root, and is refused from its expiry on.
\<close>

theorem kbs_token_roundtrip:
  assumes "b64_law E" and "uuid_law E" and "issue_token E root cl = Ok token"
    and "reads_back E (claims_text E cl) (claims_raw E cl)" and "length (cl_revision cl) = 32" and "cl_exp cl < 2 ^ 64"
  shows "verify_token E root token now = (if unix now < cl_exp cl then Ok cl else Err token_invalid)"
proof -
  let ?t = "TOKEN_HEADER @ ''.'' @ b64_enc E (as_bytes (claims_text E cl))"
  from assms(3) obtain tag where m: "token_mac E root ?t = Ok tag" and t: "token = ?t @ ''.'' @ b64_enc E tag"
    by (auto simp: issue_token_def Let_def result_simps)
  have "rsplit_once ''.'' token = Some (?t, b64_enc E tag)"
    unfolding t using rsplit_once_dot [of "b64_enc E tag" ?t] b64_no_dot [OF assms(1)] by simp
  moreover have "strip_prefix TOKEN_HEADER ?t = Some (''.'' @ b64_enc E (as_bytes (claims_text E cl)))" by simp
  ultimately show ?thesis
    using claims_de_text [OF assms(2,4-6)] m by (simp add: verify_token_def b64_decode_encode [OF assms(1)] strip_prefix_def [of "''.''"])
qed

definition demo_claims :: claims where
  "demo_claims = \<lparr> cl_exp = 5, cl_org_id = 7, cl_revision = replicate 32 1,
     cl_tee_pubkey = \<lparr> tk_kty = ''EC'', tk_crv = ''P-256'', tk_alg = KEY_WRAP, tk_x = [], tk_y = [] \<rparr> \<rparr>"

definition demo_kbs :: ext where
  "demo_kbs = demo\<lparr> json_events := \<lambda>_. Some (claims_raw demo demo_claims) \<rparr>"

theorem kbs_token_roundtrip_witness:
  "case issue_token demo_kbs [] demo_claims of Err _ \<Rightarrow> False
   | Ok t \<Rightarrow> verify_token demo_kbs [] t 0 = Ok demo_claims \<and> verify_token demo_kbs [] t 5000000000 = Err token_invalid"
proof -
  obtain t where t: "issue_token demo_kbs [] demo_claims = Ok t"
    by (simp add: issue_token_def token_mac_def kms_hkdf_def Let_def)
  have l: "b64_law demo_kbs" "uuid_law demo_kbs" using demo_b64 demo_uuid by (simp_all add: demo_kbs_def b64_law_def uuid_law_def)
  have r: "reads_back demo_kbs (claims_text demo_kbs demo_claims) (claims_raw demo_kbs demo_claims)"
    by (simp add: reads_back_def claims_raw_def) (simp add: demo_kbs_def claims_raw_def)
  have "verify_token demo_kbs [] t now = (if unix now < cl_exp demo_claims then Ok demo_claims else Err token_invalid)" for now
    by (rule kbs_token_roundtrip [OF l t r]) (simp_all add: demo_claims_def)
  then show ?thesis by (simp add: t unix_def seconds_of_def) (simp add: demo_claims_def)
qed

text \<open>
  A token is issued only for a guest whose quote was appraised against the platform document,
  with the hash of a fresh nonce of this KMS, the guest's own key and its further evidence as report
  data, and whose measured init-data is a registered, unrevoked Revision signed by a standing key of
  its organization that names a registry credential; its claims are that organization, that
  Revision and that key, for five minutes.
\<close>

theorem kbs_token_for_appraised_guest:
  assumes "kbs_attest_inner E nd c request quote = Ok (cl, token)"
  shows "\<exists>keys n nkey q j doc coll (a :: kata_appraised) r ch mtext init name. nd_phase nd = Serving keys
    \<and> kms_hkdf E (im_tenant_kek_root keys) NONCE_LABEL [] = Ok nkey
    \<and> decode32 E (ka_nonce request) = Ok n \<and> check_nonce E nkey n (ic_now c) = Ok ()
    \<and> jcs E (jobj [(''additional-evidence'', JString (ka_additional_evidence request)), (''nonce'', JString (ka_nonce request)),
         (''tee-pubkey'', ka_tee_pubkey request)]) = Some j
    \<and> quote = Some q \<and> nd_platform nd = Some doc \<and> appraise_kata E q (sha384 E j @ replicate 16 0) doc coll (ic_now c) = Ok a
    \<and> tee_key_de (ka_tee_pubkey request) = Some (cl_tee_pubkey cl)
    \<and> cl_revision cl = ka_init_data a \<and> load_revision (ic_revisions c) (cl_revision cl) = Some r
    \<and> verify_revision E (db_keys (ic_keys c)) (im_tenant_kek_root keys) (cl_revision cl) r (pd_signer doc) = Ok ch
    \<and> rv_init_data r = Some mtext \<and> sha256 E (as_bytes mtext) = cl_revision cl \<and> init_data_parse E mtext = Ok init
    \<and> registry_credential E init = Some name \<and> cl_org_id cl = rv_org_id r
    \<and> cl_exp cl = unix (ic_now c + TOKEN_TTL) \<and> issue_token E (im_tenant_kek_root keys) cl = Ok token"
proof -
  from assms obtain keys n nkey j q doc coll a org app name where
    k: "intermediates_of nd = Ok keys" and n: "decode32 E (ka_nonce request) = Ok n"
    and nk: "kms_hkdf E (im_tenant_kek_root keys) NONCE_LABEL [] = Ok nkey" "check_nonce E nkey n (ic_now c) = Ok ()"
    and tee: "tee_key_de (ka_tee_pubkey request) = Some (cl_tee_pubkey cl)"
    and j: "jcs E (jobj [(''additional-evidence'', JString (ka_additional_evidence request)), (''nonce'', JString (ka_nonce request)),
         (''tee-pubkey'', ka_tee_pubkey request)]) = Some j"
    and q: "quote = Some q" "nd_platform nd = Some doc" "appraise_kata E q (sha384 E j @ replicate 16 0) doc coll (ic_now c) = Ok a"
    and r: "revision_credential E c (im_tenant_kek_root keys) doc (ka_init_data a) = Ok (org, app, name)"
    and cl: "cl_revision cl = ka_init_data a" "cl_org_id cl = org" "cl_exp cl = unix (ic_now c + TOKEN_TTL)"
    and t: "issue_token E (im_tenant_kek_root keys) cl = Ok token"
    unfolding kbs_attest_inner_def kbs_nonce_key_def kbs_report_data_def later_def by (auto simp: result_simps Let_def)
  from k have k: "nd_phase nd = Serving keys" by (simp add: intermediates_of_def split: phase.splits)
  obtain rv ch mtext init where v: "load_revision (ic_revisions c) (cl_revision cl) = Some rv" "rv_org_id rv = org"
    "verify_revision E (db_keys (ic_keys c)) (im_tenant_kek_root keys) (cl_revision cl) rv (pd_signer doc) = Ok ch"
    "rv_init_data rv = Some mtext" "sha256 E (as_bytes mtext) = cl_revision cl" "init_data_parse E mtext = Ok init"
    "registry_credential E init = Some name"
    using revision_credential_Ok [OF r [folded cl(1)]] by metis
  from cl(2) v(2) have "cl_org_id cl = rv_org_id rv" by simp
  with k nk n j q tee v(1,3-) cl(1,3) t show ?thesis by (intro exI conjI)
qed

text \<open>
  What the resource route releases: under a token of this KMS that has not expired, exactly the
  one registry credential the token's Revision names in its measured init-data, as \<open>release_secret\<close>
  gives it for that Revision's organization and App, sealed to the key the token was issued for.
\<close>

theorem kbs_resource_sound:
  assumes "kbs_resource E nd c rnd authorization (repository, kind, name) d = (Ok box, d')"
  shows "\<exists>keys token tag cl doc r ch mtext init released tee eph cek iv. nd_phase nd = Serving keys \<and> authorization = Some (''Bearer '' @ token)
    \<and> verify_token E (im_tenant_kek_root keys) token (ic_now c) = Ok cl \<and> unix (ic_now c) < cl_exp cl
    \<and> rsplit_once ''.'' token = Some tag \<and> token_mac E (im_tenant_kek_root keys) (fst tag) = ok_or (b64_dec E (snd tag)) token_invalid
    \<and> nd_platform nd = Some doc \<and> load_revision (ic_revisions c) (cl_revision cl) = Some r
    \<and> verify_revision E (db_keys (ic_keys c)) (im_tenant_kek_root keys) (cl_revision cl) r (pd_signer doc) = Ok ch
    \<and> rv_init_data r = Some mtext \<and> sha256 E (as_bytes mtext) = cl_revision cl \<and> init_data_parse E mtext = Ok init
    \<and> registry_credential E init = Some name \<and> repository = ''alpha'' \<and> kind = ''secret''
    \<and> release_secret E (ic_secrets c) (db_keys (ic_secret_keys c)) (im_tenant_kek_root keys) (pd_signer doc)
         (rv_org_id r) (rv_app_id r) name = Ok released
    \<and> tee_public_key E (cl_tee_pubkey cl) = Ok tee \<and> kbs_seal E tee (re_value released) eph cek iv = Ok box"
proof -
  from assms obtain keys token cl where k: "intermediates_of nd = Ok keys" and b: "authorization = Some (''Bearer '' @ token)"
    and v: "verify_token E (im_tenant_kek_root keys) token (ic_now c) = Ok cl"
    and res: "resource_inner E nd c rnd (im_tenant_kek_root keys) cl (repository, kind, name) = Ok box"
    unfolding kbs_resource_def by (auto simp: Let_def result_simps bind_eq_Some_conv split: result.split_asm)
  from v obtain tag where t: "rsplit_once ''.'' token = Some tag" "unix (ic_now c) < cl_exp cl"
    "token_mac E (im_tenant_kek_root keys) (fst tag) = ok_or (b64_dec E (snd tag)) token_invalid"
    unfolding verify_token_def by (auto simp: result_simps)
  from res obtain doc org app released tee eph cek iv where doc: "nd_platform nd = Some doc"
    and r: "revision_credential E c (im_tenant_kek_root keys) doc (cl_revision cl) = Ok (org, app, name)"
    and p: "repository = ''alpha''" "kind = ''secret''"
    and rel: "release_secret E (ic_secrets c) (db_keys (ic_secret_keys c)) (im_tenant_kek_root keys) (pd_signer doc) org app name = Ok released"
    and tee: "tee_public_key E (cl_tee_pubkey cl) = Ok tee" "kbs_seal E tee (re_value released) eph cek iv = Ok box"
    unfolding resource_inner_def by (auto simp: result_simps)
  from k have k: "nd_phase nd = Serving keys" by (simp add: intermediates_of_def split: phase.splits)
  obtain rv ch mtext init where w: "load_revision (ic_revisions c) (cl_revision cl) = Some rv" "rv_org_id rv = org" "rv_app_id rv = app"
    "verify_revision E (db_keys (ic_keys c)) (im_tenant_kek_root keys) (cl_revision cl) rv (pd_signer doc) = Ok ch"
    "rv_init_data rv = Some mtext" "sha256 E (as_bytes mtext) = cl_revision cl" "init_data_parse E mtext = Ok init"
    "registry_credential E init = Some name"
    using revision_credential_Ok [OF r] by metis
  with rel have rel: "release_secret E (ic_secrets c) (db_keys (ic_secret_keys c)) (im_tenant_kek_root keys) (pd_signer doc)
      (rv_org_id rv) (rv_app_id rv) name = Ok released" by simp
  from k b v t doc w(1,4-) p rel tee show ?thesis by (intro exI conjI)
qed

end
