(* ===== verification/Channel_Member.thy ===== *)
theory Channel_Member
  imports Channel_Cert
begin

text \<open>
  \<^verbatim>\<open>crates/alpha-channel/src/member.rs\<close>: the documents a member signs with a P-256 key, the connector
  requests and writes, and the grant that lets one worker read through connections for a while.
\<close>

section \<open>Documents\<close>

definition FRESHNESS_SECONDS :: int where "FRESHNESS_SECONDS = 60"
definition MAX_GRANT_SECONDS :: int where "MAX_GRANT_SECONDS = 12 * 3600"

definition v1_de :: "json \<Rightarrow> unit option" where
  "v1_de v = Option.bind (de_uint 255 v) (\<lambda>n. if n = 1 then Some () else None)"

definition nonce_text :: "'x ext_scheme \<Rightarrow> string \<Rightarrow> string option" where
  "nonce_text E t = Option.bind (b64_dec E t) (\<lambda>b. if length b = 32 then Some t else None)"

definition nonce_de :: "'x ext_scheme \<Rightarrow> json \<Rightarrow> string option" where
  "nonce_de E v = Option.bind (json_as_str v) (nonce_text E)"

definition uuid_value :: "'x ext_scheme \<Rightarrow> json \<Rightarrow> uuid option" where
  "uuid_value E v = Option.bind (json_as_str v) (uuid_parse E)"

datatype connector_request =
    Connect (cr_provider: string) (cr_nonce: string) (cr_issued_at: string)
  | Finish (cr_state: string) (cr_code: string) (cr_nonce: string) (cr_issued_at: string)
  | ListConnections (cr_nonce: string) (cr_issued_at: string)
  | Disconnect (cr_connection_id: uuid) (cr_nonce: string) (cr_issued_at: string)

text \<open>
  An enum tagged inside its object: the entry \<open>op\<close> names the variant and the others are its fields;
  from an array, the first item names it and the rest are the fields by position.
\<close>

definition tagged_content :: "string \<Rightarrow> json \<Rightarrow> (string \<times> json) option" where
  "tagged_content tag v =
     (case v of
        JObject m \<Rightarrow>
          Option.bind (Option.bind (map_of m tag) json_as_str) (\<lambda>t. Some (t, JObject (filter (\<lambda>e. fst e \<noteq> tag) m)))
      | JArray (t # xs) \<Rightarrow> Option.bind (json_as_str t) (\<lambda>t. Some (t, JArray xs))
      | _ \<Rightarrow> None)"

definition member_fields :: "string list \<Rightarrow> json \<Rightarrow> (string \<times> json) list option" where
  "member_fields own v = struct_fields True (map (\<lambda>k. (k, False)) ([''v''] @ own @ [''nonce'', ''issued_at''])) v"

definition with_nonce :: "'x ext_scheme \<Rightarrow> (string \<times> json) list \<Rightarrow> (string \<Rightarrow> string \<Rightarrow> 'a option) \<Rightarrow> 'a option" where
  "with_nonce E m f =
     Option.bind (field m ''v'' v1_de) (\<lambda>_.
     Option.bind (field m ''nonce'' (nonce_de E)) (\<lambda>n.
     Option.bind (field m ''issued_at'' json_as_str) (\<lambda>t. f n t)))"

definition connector_request_de :: "'x ext_scheme \<Rightarrow> json \<Rightarrow> connector_request option" where
  "connector_request_de E v =
     Option.bind (tagged_content ''op'' v) (\<lambda>(op, c).
     if op = ''connect'' then
       Option.bind (member_fields [''provider''] c) (\<lambda>m.
       Option.bind (field m ''provider'' json_as_str) (\<lambda>p. with_nonce E m (\<lambda>n t. Some (Connect p n t))))
     else if op = ''finish'' then
       Option.bind (member_fields [''state'', ''code''] c) (\<lambda>m.
       Option.bind (field m ''state'' json_as_str) (\<lambda>s.
       Option.bind (field m ''code'' json_as_str) (\<lambda>d. with_nonce E m (\<lambda>n t. Some (Finish s d n t)))))
     else if op = ''list'' then
       Option.bind (member_fields [] c) (\<lambda>m. with_nonce E m (\<lambda>n t. Some (ListConnections n t)))
     else if op = ''disconnect'' then
       Option.bind (member_fields [''connection_id''] c) (\<lambda>m.
       Option.bind (field m ''connection_id'' (uuid_value E)) (\<lambda>i. with_nonce E m (\<lambda>n t. Some (Disconnect i n t))))
     else None)"

record write_document =
  wd_connection_id :: uuid
  wd_method :: string
  wd_url :: string
  wd_body_sha256 :: string
  wd_nonce :: string
  wd_issued_at :: string

definition write_document_de :: "'x ext_scheme \<Rightarrow> json \<Rightarrow> write_document option" where
  "write_document_de E v =
     Option.bind (member_fields [''connection_id'', ''method'', ''url'', ''body_sha256''] v) (\<lambda>m.
     Option.bind (field m ''connection_id'' (uuid_value E)) (\<lambda>i.
     Option.bind (field m ''method'' json_as_str) (\<lambda>meth.
     Option.bind (field m ''url'' json_as_str) (\<lambda>u.
     Option.bind (field m ''body_sha256'' json_as_str) (\<lambda>b.
     with_nonce E m (\<lambda>n t. Some \<lparr> wd_connection_id = i, wd_method = meth, wd_url = u, wd_body_sha256 = b,
       wd_nonce = n, wd_issued_at = t \<rparr>))))))"

datatype member_document = MemberRequest connector_request | MemberWrite write_document

fun nonce_and_issued_at :: "member_document \<Rightarrow> string \<times> string" where
  "nonce_and_issued_at (MemberRequest r) = (cr_nonce r, cr_issued_at r)"
| "nonce_and_issued_at (MemberWrite d) = (wd_nonce d, wd_issued_at d)"

definition member_nonce :: "member_document \<Rightarrow> string" where
  "member_nonce d = fst (nonce_and_issued_at d)"

record grant =
  gr_aud :: string
  gr_connections :: "uuid list"
  gr_exp :: string
  gr_nonce :: string
  gr_issued_at :: string

definition grant_de :: "'x ext_scheme \<Rightarrow> bytes \<Rightarrow> grant option" where
  "grant_de E bs =
     Option.bind (json_events E bs) (\<lambda>v.
     Option.bind (raw_fields True [(''v'', False), (''aud'', False), (''connections'', False), (''exp'', False), (''nonce'', False),
       (''issued_at'', False)] v) (\<lambda>m.
     Option.bind (raw_field m ''v'' (\<lambda>r. Option.bind (raw_as_u64 r) (\<lambda>n. if n = 1 then Some () else None))) (\<lambda>_.
     Option.bind (raw_field m ''aud'' raw_as_str) (\<lambda>a.
     Option.bind (raw_field m ''connections'' (raw_vec (\<lambda>r. Option.bind (raw_as_str r) (uuid_parse E)))) (\<lambda>cs.
     Option.bind (raw_field m ''exp'' raw_as_str) (\<lambda>e.
     Option.bind (raw_field m ''nonce'' (\<lambda>r. Option.bind (raw_as_str r) (nonce_text E))) (\<lambda>n.
     Option.bind (raw_field m ''issued_at'' raw_as_str) (\<lambda>t.
     Some \<lparr> gr_aud = a, gr_connections = cs, gr_exp = e, gr_nonce = n, gr_issued_at = t \<rparr>))))))))"

section \<open>Verification\<close>

definition member_verifying_key :: "'x ext_scheme \<Rightarrow> bytes \<Rightarrow> (bytes, chan_error) result" where
  "member_verifying_key E spki = ok_or (p256_from_spki E spki) Malformed"

definition member_check :: "'x ext_scheme \<Rightarrow> bytes \<Rightarrow> bytes \<Rightarrow> bytes \<Rightarrow> (unit, chan_error) result" where
  "member_check E key digest sg = refuse_if (\<not> p256_verify E key digest sg) SignatureInvalid (Ok ())"

definition time_seconds :: "'x ext_scheme \<Rightarrow> string \<Rightarrow> (int, chan_error) result" where
  "time_seconds E t = ok_or (map_option seconds_of (rfc3339_parse E t)) Malformed"

definition check_fresh :: "'x ext_scheme \<Rightarrow> string \<Rightarrow> time \<Rightarrow> (unit, chan_error) result" where
  "check_fresh E issued_at now =
     and_then (time_seconds E issued_at) (\<lambda>t.
     and_then (unix_seconds now) (\<lambda>s.
     refuse_if (\<bar>t - s\<bar> > \<bar>FRESHNESS_SECONDS\<bar>) RequestStale (Ok ())))"

definition verify_request :: "'x ext_scheme \<Rightarrow> string \<Rightarrow> json \<Rightarrow> string \<Rightarrow> named_signature \<Rightarrow> time \<Rightarrow>
    (bytes \<times> member_document, chan_error) result" where
  "verify_request E ctx document member_key sg now =
     refuse_if (ns_algorithm sg \<noteq> ECDSA_P256) SignatureInvalid
     (and_then (ok_or (b64_dec E member_key) Malformed) (\<lambda>spki.
      and_then (member_verifying_key E spki) (\<lambda>key.
      and_then (ok_or (p256_signature E (ns_signature sg)) SignatureInvalid) (\<lambda>s.
      and_then (ok_or (signing_digest E ctx document) Malformed) (\<lambda>digest.
      and_then (member_check E key digest s) (\<lambda>_.
      and_then (if ctx = CONNECTOR_REQUEST then ok_or (map_option MemberRequest (connector_request_de E document)) Malformed
                else if ctx = CONNECTOR_WRITE then ok_or (map_option MemberWrite (write_document_de E document)) Malformed
                else Err Malformed) (\<lambda>parsed.
      and_then (check_fresh E (snd (nonce_and_issued_at parsed)) now) (\<lambda>_. Ok (spki, parsed)))))))))"

record signed_grant =
  sg_document :: bytes
  sg_signature :: bytes

definition parse_grant :: "'x ext_scheme \<Rightarrow> string \<Rightarrow> (signed_grant, chan_error) result" where
  "parse_grant E wire =
     and_then (ok_or (split_once ''.'' wire) Malformed) (\<lambda>(document, sg).
     and_then (ok_or (b64_dec E document) Malformed) (\<lambda>d.
     and_then (ok_or (p256_signature E sg) Malformed) (\<lambda>s.
     Ok \<lparr> sg_document = d, sg_signature = s \<rparr>)))"

definition verify_grant :: "'x ext_scheme \<Rightarrow> signed_grant \<Rightarrow> bytes \<Rightarrow> (grant, chan_error) result" where
  "verify_grant E g spki =
     and_then (member_verifying_key E spki) (\<lambda>key.
     and_then (member_check E key (sha256 E (as_bytes CONNECTOR_GRANT @ [0] @ sg_document g)) (sg_signature g)) (\<lambda>_.
     ok_or (grant_de E (sg_document g)) Malformed))"

definition saturating_add :: "int \<Rightarrow> int \<Rightarrow> int" where
  "saturating_add a b = max (- (2 ^ 63)) (min (2 ^ 63 - 1) (a + b))"

definition check_window :: "'x ext_scheme \<Rightarrow> grant \<Rightarrow> time \<Rightarrow> (unit, chan_error) result" where
  "check_window E g now =
     and_then (unix_seconds now) (\<lambda>s.
     and_then (time_seconds E (gr_issued_at g)) (\<lambda>issued_at.
     and_then (time_seconds E (gr_exp g)) (\<lambda>expiry.
     refuse_if (issued_at > saturating_add s FRESHNESS_SECONDS \<or> s \<ge> expiry \<or> expiry \<le> issued_at
                \<or> expiry > saturating_add issued_at MAX_GRANT_SECONDS) GrantExpired (Ok ()))))"

section \<open>Signing\<close>

fun fill :: "(string \<times> json) list \<Rightarrow> (string \<times> json) list \<Rightarrow> ((string \<times> json) list, chan_error) result" where
  "fill m [] = Ok m"
| "fill m ((k, v) # es) = refuse_if (map_of m k \<noteq> None) Malformed (fill (map_insert k v m) es)"

definition signable :: "'x ext_scheme \<Rightarrow> bytes option \<Rightarrow> string \<Rightarrow> json \<Rightarrow> time \<Rightarrow> (string \<times> bytes, chan_error) result" where
  "signable E rnd ctx fs now =
     refuse_if (ctx \<notin> {CONNECTOR_REQUEST, CONNECTOR_GRANT, CONNECTOR_WRITE}) Malformed
     (and_then (ok_or (json_as_object fs) Malformed) (\<lambda>m.
      and_then (ok_or rnd Rng) (\<lambda>n.
      and_then (rfc3339 E now) (\<lambda>t.
      and_then (fill m [(''v'', jnat 1), (''nonce'', JString (b64_enc E n)), (''issued_at'', JString t)]) (\<lambda>document.
      and_then (ok_or (Option.bind (jcs E (JObject document)) from_utf8) Malformed) (\<lambda>canonical_text.
      and_then (ok_or (signing_digest E ctx (JObject document)) Malformed) (\<lambda>digest.
      Ok (canonical_text, digest))))))))"

section \<open>Properties\<close>

text \<open>
  A grant that passes its window is in force now and ends soon: it was issued at most a minute
  ahead of the verifier's clock, lasts at most twelve hours from its issue, and at most twelve hours
  and a minute from now, whatever times it names.
\<close>

theorem grant_window_bounds:
  assumes "check_window E g now = Ok ()"
  shows "\<exists>issued expiry. time_seconds E (gr_issued_at g) = Ok issued \<and> time_seconds E (gr_exp g) = Ok expiry
    \<and> issued \<le> seconds_of now + 60 \<and> seconds_of now < expiry \<and> issued < expiry \<and> expiry - issued \<le> 43200
    \<and> expiry - seconds_of now \<le> 43260"
proof -
  from assms obtain issued expiry where t: "time_seconds E (gr_issued_at g) = Ok issued" "time_seconds E (gr_exp g) = Ok expiry"
    and u: "unix_seconds now = Ok (seconds_of now)"
    and w: "issued \<le> saturating_add (seconds_of now) FRESHNESS_SECONDS" "seconds_of now < expiry" "issued < expiry"
      "expiry \<le> saturating_add issued MAX_GRANT_SECONDS"
    by (auto simp: check_window_def result_simps not_less unix_seconds_def split: if_split_asm)
  from u have "0 \<le> seconds_of now" by (auto simp: unix_seconds_def seconds_of_def split: if_split_asm)
  with w have "issued \<le> seconds_of now + 60" "expiry - issued \<le> 43200"
    by (auto simp: saturating_add_def FRESHNESS_SECONDS_def MAX_GRANT_SECONDS_def max_def min_def split: if_split_asm)
  with t w(2,3) show ?thesis by (intro exI conjI) auto
qed

definition demo_grant :: grant where
  "demo_grant = \<lparr> gr_aud = [], gr_connections = [], gr_exp = ''e'', gr_nonce = [], gr_issued_at = ''i'' \<rparr>"

definition demo_window :: ext where
  "demo_window = demo\<lparr> rfc3339_parse := \<lambda>t. Some (if t = ''e'' then 43260 * 1000000000 else 60 * 1000000000) \<rparr>"

theorem grant_window_bounds_witness:
  "check_window demo_window demo_grant 0 = Ok ()
   \<and> (\<exists>expiry. time_seconds demo_window (gr_exp demo_grant) = Ok expiry \<and> expiry - seconds_of 0 \<le> 43260)"
proof -
  have w: "check_window demo_window demo_grant 0 = Ok ()"
    by (simp add: check_window_def unix_seconds_def time_seconds_def demo_window_def demo_grant_def seconds_of_def
        saturating_add_def FRESHNESS_SECONDS_def MAX_GRANT_SECONDS_def)
  from grant_window_bounds [OF w] w show ?thesis by blast
qed

text \<open>
  A request or write that verifies was signed, as it is and for its own context, by the key named,
  carries 32 bytes of nonce and was issued within a minute of the verifier's clock.
\<close>

theorem verify_request_sound:
  assumes "verify_request E ctx document member_key sg now = Ok (spki, parsed)"
  shows "\<exists>key digest s t. b64_dec E member_key = Some spki \<and> p256_from_spki E spki = Some key
    \<and> signing_digest E ctx document = Some digest \<and> p256_verify E key digest s
    \<and> (case parsed of MemberRequest r \<Rightarrow> ctx = CONNECTOR_REQUEST \<and> connector_request_de E document = Some r
        | MemberWrite d \<Rightarrow> ctx = CONNECTOR_WRITE \<and> write_document_de E document = Some d)
    \<and> time_seconds E (snd (nonce_and_issued_at parsed)) = Ok t \<and> \<bar>t - seconds_of now\<bar> \<le> 60"
proof -
  from assms obtain key s digest where k: "b64_dec E member_key = Some spki" "p256_from_spki E spki = Some key"
    "signing_digest E ctx document = Some digest" "p256_verify E key digest s"
    and p: "(if ctx = CONNECTOR_REQUEST then ok_or (map_option MemberRequest (connector_request_de E document)) Malformed
                else if ctx = CONNECTOR_WRITE then ok_or (map_option MemberWrite (write_document_de E document)) Malformed
                else Err Malformed) = Ok parsed"
    and f: "check_fresh E (snd (nonce_and_issued_at parsed)) now = Ok ()"
    unfolding verify_request_def member_verifying_key_def member_check_def by (auto simp: result_simps)
  from f obtain t where "time_seconds E (snd (nonce_and_issued_at parsed)) = Ok t" "\<bar>t - seconds_of now\<bar> \<le> 60"
    by (auto simp: check_fresh_def result_simps unix_seconds_def FRESHNESS_SECONDS_def split: if_split_asm)
  moreover from p have "case parsed of MemberRequest r \<Rightarrow> ctx = CONNECTOR_REQUEST \<and> connector_request_de E document = Some r
        | MemberWrite d \<Rightarrow> ctx = CONNECTOR_WRITE \<and> write_document_de E document = Some d"
    by (auto simp: result_simps split: if_split_asm)
  ultimately show ?thesis using k by (intro exI conjI)
qed

end
