(* ===== verification/Channel_Binding.thy ===== *)
theory Channel_Binding
  imports Channel_Handshake Serde_Text
begin

text \<open>
  \<^verbatim>\<open>crates/alpha-channel/src/binding.rs\<close>: the statement with which an Instance binds the key of a
  browser-trusted certificate to its own leaf, and its answers to a verifier's challenge.
\<close>

definition BINDING_PATH :: string where "BINDING_PATH = ''/.well-known/alphacompute/binding''"
definition BINDING_FORMAT :: string where "BINDING_FORMAT = ''alphacompute-edge-binding/1''"
definition newline_char :: char where "newline_char = CHR 0x0A"
definition BINDING_CONTEXT :: bytes where "BINDING_CONTEXT = as_bytes (''alphacompute/edge-binding/v1'' @ [newline_char])"
definition ANSWER_CONTEXT :: bytes where "ANSWER_CONTEXT = as_bytes (''alphacompute/edge-answer/v1'' @ [newline_char])"

record binding =
  bi_format :: string
  bi_name :: string
  bi_spki_sha256 :: string
  bi_not_after :: string

record signed_binding =
  bs_statement :: string
  bs_signature :: string
  bs_chain_pem :: string
  bs_answer :: "string option"

definition binding_text :: "'x ext_scheme \<Rightarrow> binding \<Rightarrow> string" where
  "binding_text E b = struct_text E [(''format'', json_text E (bi_format b)), (''name'', json_text E (bi_name b)),
     (''spki_sha256'', json_text E (bi_spki_sha256 b)), (''not_after'', json_text E (bi_not_after b))]"

definition binding_de :: "'x ext_scheme \<Rightarrow> string \<Rightarrow> binding option" where
  "binding_de E t =
     Option.bind (json_events E (as_bytes t)) (\<lambda>v.
     Option.bind (raw_fields True [(''format'', False), (''name'', False), (''spki_sha256'', False), (''not_after'', False)] v) (\<lambda>m.
     Option.bind (raw_field m ''format'' raw_as_str) (\<lambda>f.
     Option.bind (raw_field m ''name'' raw_as_str) (\<lambda>n.
     Option.bind (raw_field m ''spki_sha256'' raw_as_str) (\<lambda>s.
     Option.bind (raw_field m ''not_after'' raw_as_str) (\<lambda>na.
     Some \<lparr> bi_format = f, bi_name = n, bi_spki_sha256 = s, bi_not_after = na \<rparr>))))))"

definition binding_digest :: "'x ext_scheme \<Rightarrow> string \<Rightarrow> bytes" where
  "binding_digest E statement = sha256 E (BINDING_CONTEXT @ as_bytes statement)"

definition answer_digest :: "'x ext_scheme \<Rightarrow> bytes \<Rightarrow> string \<Rightarrow> bytes" where
  "answer_digest E challenge statement = sha256 E (ANSWER_CONTEXT @ challenge @ as_bytes statement)"

definition encode_signature :: "'x ext_scheme \<Rightarrow> bytes \<Rightarrow> string" where
  "encode_signature E sg = b64_enc E (p256_sig_to_der E sg)"

definition decode_signature :: "'x ext_scheme \<Rightarrow> string \<Rightarrow> (bytes, chan_error) result" where
  "decode_signature E t = ok_or (Option.bind (b64_dec E t) (p256_sig_from_der E)) Malformed"

definition binding_answer :: "'x ext_scheme \<Rightarrow> bytes \<Rightarrow> bytes \<Rightarrow> signed_binding \<Rightarrow> (signed_binding, chan_error) result" where
  "binding_answer E key challenge b =
     and_then (ok_or (p256_sign_prehash E key (answer_digest E challenge (bs_statement b))) SignatureInvalid) (\<lambda>sg.
     Ok (b\<lparr> bs_answer := Some (encode_signature E sg) \<rparr>))"

definition check_answer :: "'x ext_scheme \<Rightarrow> signed_binding \<Rightarrow> bytes \<Rightarrow> bytes \<Rightarrow> (unit, chan_error) result" where
  "check_answer E b spki challenge =
     and_then (ok_or (p256_from_spki E spki) ForeignCertificate) (\<lambda>key.
     and_then (ok_or (bs_answer b) SignatureInvalid) (\<lambda>answer.
     and_then (decode_signature E answer) (\<lambda>sg.
     refuse_if (\<not> p256_verify_prehash E key (answer_digest E challenge (bs_statement b)) sg) SignatureInvalid (Ok ()))))"

definition binding_sign :: "'x ext_scheme \<Rightarrow> bytes \<Rightarrow> string \<Rightarrow> string \<Rightarrow> bytes \<Rightarrow> (signed_binding, chan_error) result" where
  "binding_sign E key chain_pem name served =
     and_then (spki_of E served) (\<lambda>spki.
     and_then (not_after E served) (\<lambda>na.
     and_then (rfc3339 E na) (\<lambda>t.
     (let statement = binding_text E \<lparr> bi_format = BINDING_FORMAT, bi_name = name, bi_spki_sha256 = sha256_label E spki,
                                       bi_not_after = t \<rparr> in
      and_then (ok_or (p256_sign_prehash E key (binding_digest E statement)) SignatureInvalid) (\<lambda>sg.
      Ok \<lparr> bs_statement = statement, bs_signature = encode_signature E sg, bs_chain_pem = chain_pem, bs_answer = None \<rparr>)))))"

definition binding_leaf :: "'x ext_scheme \<Rightarrow> signed_binding \<Rightarrow> (bytes, chan_error) result" where
  "binding_leaf E b = ok_or (map_option (\<lambda>(_, _, contents). contents) (parse_x509_pem E (as_bytes (bs_chain_pem b)))) Malformed"

text \<open>\<open>eq_ignore_ascii_case\<close> compares after mapping the letters \<open>A\<close> to \<open>Z\<close> to lower case.\<close>

definition to_ascii_lowercase :: "string \<Rightarrow> string" where
  "to_ascii_lowercase s = map (\<lambda>c. if 65 \<le> code c \<and> code c \<le> 90 then char_of (code c + 32) else c) s"

definition eq_ignore_ascii_case :: "string \<Rightarrow> string \<Rightarrow> bool" where
  "eq_ignore_ascii_case a b \<longleftrightarrow> to_ascii_lowercase a = to_ascii_lowercase b"

definition binding_open :: "'x ext_scheme \<Rightarrow> signed_binding \<Rightarrow> bytes \<Rightarrow> string \<Rightarrow> time \<Rightarrow> (binding, chan_error) result" where
  "binding_open E b leaf name now =
     and_then (spki_of E leaf) (\<lambda>spki.
     and_then (ok_or (p256_from_spki E spki) ForeignCertificate) (\<lambda>key.
     and_then (decode_signature E (bs_signature b)) (\<lambda>sg.
     refuse_if (\<not> p256_verify_prehash E key (binding_digest E (bs_statement b)) sg) SignatureInvalid
     (and_then (ok_or (binding_de E (bs_statement b)) Malformed) (\<lambda>st.
      refuse_if (bi_format st \<noteq> BINDING_FORMAT) Malformed
      (refuse_if (\<not> eq_ignore_ascii_case (bi_name st) name) ForeignCertificate
      (and_then (ok_or (rfc3339_parse E (bi_not_after st)) Malformed) (\<lambda>expires.
       refuse_if (now \<ge> expires) CertificateExpired (Ok st)))))))))"

definition binding_verify :: "'x ext_scheme \<Rightarrow> signed_binding \<Rightarrow> string \<Rightarrow> bytes \<Rightarrow> bytes \<Rightarrow> time \<Rightarrow>
    (instance_sans \<times> binding, chan_error) result" where
  "binding_verify E b name served kms_ca now =
     and_then (binding_leaf E b) (\<lambda>leaf.
     and_then (verify_leaf E leaf kms_ca now) (\<lambda>_.
     and_then (uri_sans E leaf) (\<lambda>uris.
     and_then (parse_instance_sans E uris) (\<lambda>who.
     and_then (binding_open E b leaf name now) (\<lambda>st.
     and_then (spki_of E served) (\<lambda>spki.
     refuse_if (bi_spki_sha256 st \<noteq> sha256_label E spki) ForeignCertificate (Ok (who, st))))))))"

section \<open>Properties\<close>

text \<open>A signature over a digest reads back from its DER and verifies under its key.\<close>

definition p256_prehash_law :: "'x ext_scheme \<Rightarrow> bool" where
  "p256_prehash_law E \<longleftrightarrow> (\<forall>k d s. p256_sign_prehash E k d = Some s \<longrightarrow>
     p256_sig_from_der E (p256_sig_to_der E s) = Some s \<and> p256_verify_prehash E (p256_public E k) d s)"

definition binding_raw :: "binding \<Rightarrow> raw" where
  "binding_raw b = RMap [(''format'', RStr (bi_format b)), (''name'', RStr (bi_name b)), (''spki_sha256'', RStr (bi_spki_sha256 b)),
     (''not_after'', RStr (bi_not_after b))]"

lemma binding_de_text: "reads_back E (binding_text E b) (binding_raw b) \<Longrightarrow> binding_de E (binding_text E b) = Some b"
  by (simp add: binding_de_def reads_back_def binding_raw_def raw_fields_def raw_field_def)

lemma decode_encode_signature:
  "b64_law E \<Longrightarrow> p256_prehash_law E \<Longrightarrow> p256_sign_prehash E k d = Some sg \<Longrightarrow> decode_signature E (encode_signature E sg) = Ok sg"
  by (auto simp: decode_signature_def encode_signature_def b64_decode_encode p256_prehash_law_def)

text \<open>
  What a binding that verifies proves of a public connection: a leaf valid now under the
  platform's CA, for the Instance returned, whose key signed, apart from everything else that key
  signs, that the name asked for is served with exactly the key the connection presented, until a
  time still ahead.
\<close>

theorem binding_proves_served_key:
  assumes "binding_verify E b name served kms_ca now = Ok (who, st)"
  shows "\<exists>leaf validity uris lspki key sg spki expires. verify_leaf E leaf kms_ca now = Ok validity \<and> uri_sans E leaf = Ok uris
    \<and> parse_instance_sans E uris = Ok who \<and> spki_of E leaf = Ok lspki \<and> p256_from_spki E lspki = Some key
    \<and> p256_verify_prehash E key (sha256 E (BINDING_CONTEXT @ as_bytes (bs_statement b))) sg
    \<and> binding_de E (bs_statement b) = Some st \<and> eq_ignore_ascii_case (bi_name st) name
    \<and> spki_of E served = Ok spki \<and> bi_spki_sha256 st = sha256_label E spki
    \<and> rfc3339_parse E (bi_not_after st) = Some expires \<and> now < expires"
proof -
  from assms obtain leaf validity uris spki where l: "verify_leaf E leaf kms_ca now = Ok validity" "uri_sans E leaf = Ok uris"
    "parse_instance_sans E uris = Ok who" and b: "binding_open E b leaf name now = Ok st"
    and sp: "spki_of E served = Ok spki" "bi_spki_sha256 st = sha256_label E spki"
    unfolding binding_verify_def by (auto simp: result_simps)
  from b obtain lspki key sg expires where "spki_of E leaf = Ok lspki" "p256_from_spki E lspki = Some key"
    "p256_verify_prehash E key (sha256 E (BINDING_CONTEXT @ as_bytes (bs_statement b))) sg"
    "binding_de E (bs_statement b) = Some st" "eq_ignore_ascii_case (bi_name st) name"
    "rfc3339_parse E (bi_not_after st) = Some expires" "now < expires"
    unfolding binding_open_def binding_digest_def by (auto simp: result_simps not_le)
  with l sp show ?thesis by (intro exI conjI)
qed

text \<open>
  A binding an Instance signs for a certificate verifies for its name, in any case of its letters,
  and that certificate, while the leaf is valid and until the certificate's last second.
\<close>

theorem binding_sign_verify:
  assumes "b64_law E" and "p256_prehash_law E" and "p256_spki_law E" and "clock_text_law E"
    and "binding_sign E key pem name served = Ok b" and "reads_back E (bs_statement b) (binding_raw st)"
    and "bs_statement b = binding_text E st" and "bi_format st = BINDING_FORMAT" and "bi_name st = name"
    and "spki_of E served = Ok spki" and "bi_spki_sha256 st = sha256_label E spki"
    and "rfc3339_parse E (bi_not_after st) = Some expires" and "now < expires"
    and "binding_leaf E b = Ok leaf" and "verify_leaf E leaf kms_ca now = Ok validity" and "uri_sans E leaf = Ok uris"
    and "parse_instance_sans E uris = Ok who" and "spki_of E leaf = Ok lspki" and "p256_to_spki E (p256_public E key) = Some lspki"
    and "eq_ignore_ascii_case name name'"
  shows "binding_verify E b name' served kms_ca now = Ok (who, st)"
proof -
  from assms(5) obtain sg where sg: "p256_sign_prehash E key (binding_digest E (bs_statement b)) = Some sg"
    "bs_signature b = encode_signature E sg"
    unfolding binding_sign_def by (auto simp: result_simps Let_def)
  have k: "p256_from_spki E lspki = Some (p256_public E key)" using assms(3,19) by (simp add: p256_spki_law_def)
  have v: "p256_verify_prehash E (p256_public E key) (binding_digest E (bs_statement b)) sg"
    using assms(2) sg(1) by (simp add: p256_prehash_law_def)
  have d: "binding_de E (bs_statement b) = Some st" using binding_de_text [of E st] assms(6,7) by simp
  have "binding_open E b leaf name' now = Ok st"
    using assms(8,9,12,13,18,20) decode_encode_signature [OF assms(1,2) sg(1)] k v d sg(2)
    by (simp add: binding_open_def)
  then show ?thesis using assms(10,11,14-17) by (simp add: binding_verify_def)
qed

text \<open>The answer to a challenge checks for that challenge under the key that made it.\<close>

lemma check_answer_answered:
  assumes "b64_law E" and "p256_prehash_law E" and "p256_spki_law E" and "binding_answer E key challenge b = Ok b'"
    and "p256_to_spki E (p256_public E key) = Some spki"
  shows "check_answer E b' spki challenge = Ok ()"
proof -
  from assms(4) obtain sg where sg: "p256_sign_prehash E key (answer_digest E challenge (bs_statement b)) = Some sg"
    "b' = b\<lparr> bs_answer := Some (encode_signature E sg) \<rparr>"
    unfolding binding_answer_def by (auto simp: result_simps)
  with assms(2,3,5) decode_encode_signature [OF assms(1,2) sg(1)] show ?thesis
    by (simp add: check_answer_def p256_spki_law_def p256_prehash_law_def)
qed

definition demo_binding :: binding where
  "demo_binding = \<lparr> bi_format = BINDING_FORMAT, bi_name = ''a.b'', bi_spki_sha256 = sha256_label demo (demo_public 32 []), bi_not_after = ''t'' \<rparr>"

definition demo_bind :: ext where
  "demo_bind = demo_edge\<lparr> rfc3339_show := \<lambda>s. if s = 10 then Some ''t'' else None,
     rfc3339_parse := \<lambda>t. if t = ''t'' then Some (10 * 1000000000) else None,
     json_events := \<lambda>_. Some (binding_raw demo_binding) \<rparr>"

lemma demo_bind_laws: "b64_law demo_bind" "p256_prehash_law demo_bind" "p256_spki_law demo_bind" "clock_text_law demo_bind"
proof -
  show "b64_law demo_bind" using demo_edge_laws(1) by (simp add: demo_bind_def b64_law_def)
  show "p256_prehash_law demo_bind" by (simp add: demo_bind_def p256_prehash_law_def demo_edge_def demo_def)
  show "p256_spki_law demo_bind" using demo_edge_laws(3) by (simp add: demo_bind_def p256_spki_law_def)
  show "clock_text_law demo_bind" by (simp add: demo_bind_def clock_text_law_def)
qed

lemma demo_bound:
  "\<exists>b. binding_sign demo_bind [] (pem_encode demo_bind ''CERTIFICATE'' []) ''a.b'' [] = Ok b
     \<and> binding_verify demo_bind b ''A.b'' [] [] 0 = Ok (demo_sans, demo_binding)"
proof -
  have x: "x509_parse demo_bind b = Some (demo_app_leaf, [])" "rfc3339_show demo_bind 10 = Some ''t''"
    "p256_sign_prehash demo_bind k d = Some (demo_hash 64 (demo_public 32 k @ d))" "p256_public demo_bind [] = demo_public 32 []"
    "p256_to_spki demo_bind (demo_public 32 []) = Some (demo_public 32 [])" "sha256 demo_bind = sha256 demo"
    "rfc3339_parse demo_bind ''t'' = Some (10 * 1000000000)"
    "p256_from_spki demo_bind (demo_public 32 []) = Some (demo_public 32 [])"
    "p256_sig_from_der demo_bind (demo_hash 64 (demo_public 32 [])) = Some (demo_hash 64 (demo_public 32 []))"
    "p256_verify demo_bind kk m sg = (sg = demo_hash 64 (kk @ m))" for b k d kk m sg
    by (simp_all add: demo_bind_def demo_edge_def demo_def)
  have sp: "spki_of demo_bind b = Ok (demo_public 32 [])" "uri_sans demo_bind b = Ok (x_uri_sans demo_app_leaf)"
    "not_after demo_bind b = Ok (10 * 1000000000)" for b
    by (simp_all add: spki_of_def uri_sans_def not_after_def parse_x509_def x demo_app_leaf_def demo_leaf_def from_unix_seconds_def)
  have n: "parse_instance_sans demo_bind (x_uri_sans demo_app_leaf) = Ok demo_sans"
  proof -
    have u: "uuid_parse demo_bind = uuid_parse demo_edge" by (simp add: demo_bind_def)
    show ?thesis using demo_app_names(2) unfolding parse_instance_sans_def u .
  qed
  have vl: "verify_leaf demo_bind [] [] 0 = Ok (0, 10 * 1000000000)"
    by (simp add: verify_leaf_def parse_x509_def x unix_seconds_def seconds_of_def from_unix_seconds_def)
      (simp add: demo_app_leaf_def demo_leaf_def x)
  have st: "\<lparr> bi_format = BINDING_FORMAT, bi_name = ''a.b'', bi_spki_sha256 = sha256_label demo_bind (demo_public 32 []), bi_not_after = ''t'' \<rparr> = demo_binding"
    by (simp add: demo_binding_def sha256_label_def x)
  obtain b where b: "binding_sign demo_bind [] (pem_encode demo_bind ''CERTIFICATE'' []) ''a.b'' [] = Ok b"
    and bb: "bs_statement b = binding_text demo_bind demo_binding" "bs_chain_pem b = pem_encode demo_bind ''CERTIFICATE'' []"
    by (simp add: binding_sign_def sp rfc3339_def unix_seconds_def seconds_of_def x st Let_def)
  have l: "binding_leaf demo_bind b = Ok []"
    using demo_pem by (simp add: binding_leaf_def bb) (simp add: demo_bind_def demo_edge_def pem_law_def)
  have rb: "reads_back demo_bind (bs_statement b) (binding_raw demo_binding)" by (simp add: reads_back_def demo_bind_def)
  have ic: "eq_ignore_ascii_case ''a.b'' ''A.b''" by code_simp
  have "binding_verify demo_bind b ''A.b'' [] [] 0 = Ok (demo_sans, demo_binding)"
    by (rule binding_sign_verify [where expires = "10 * 1000000000", OF demo_bind_laws b rb bb(1) _ _ sp(1) _ _ _ l vl sp(2) n sp(1) _ ic])
      (simp_all add: demo_binding_def x sha256_label_def)
  with b show ?thesis by blast
qed

theorem binding_proves_served_key_witness:
  "\<exists>b leaf validity expires. binding_verify demo_bind b ''A.b'' [] [] 0 = Ok (demo_sans, demo_binding)
     \<and> verify_leaf demo_bind leaf [] 0 = Ok validity \<and> rfc3339_parse demo_bind (bi_not_after demo_binding) = Some expires \<and> 0 < expires"
proof -
  obtain b where b: "binding_verify demo_bind b ''A.b'' [] [] 0 = Ok (demo_sans, demo_binding)" using demo_bound by blast
  with binding_proves_served_key [OF b] show ?thesis by blast
qed

end
