(* ===== verification/Channel_Public.thy ===== *)
theory Channel_Public
  imports Channel_Binding Channel_Platform Core_InitData Attest_Wire
begin

text \<open>
  \<^verbatim>\<open>crates/alpha-channel/src/public.rs\<close>: what a browser checks about an App's public name. The texts of
  the checks are not modelled, only which of them pass and what they establish.
\<close>

record report =
  rp_verified :: bool
  rp_live :: bool
  rp_checks :: "(string \<times> bool) list"
  rp_platform_document_version :: "u64 option"
  rp_tcb_status :: "string option"
  rp_advisories :: "string list"
  rp_runtime_class :: "string option"
  rp_revision :: "compose_hash option"
  rp_app_id :: "uuid option"
  rp_init_data :: "string option"
  rp_served_spki_sha256 :: "string option"

record fetched =
  fe_challenge :: bytes
  fe_binding :: string
  fe_attestation :: string
  fe_platform :: string
  fe_issuances :: "string option"

record attestation =
  an_evidence :: kata_evidence
  an_nonce :: string
  an_init_data :: string
  an_collateral :: collateral

text \<open>
  A struct that refuses unknown fields, as every struct inside Kata evidence does, reads from text
  what it reads from the value without repeated keys.
\<close>

definition attestation_de :: "'x ext_scheme \<Rightarrow> string \<Rightarrow> attestation option" where
  "attestation_de E t =
     Option.bind (json_events E (as_bytes t)) (\<lambda>v.
     Option.bind (raw_fields True [(''evidence'', False), (''nonce'', False), (''init_data'', False), (''collateral'', False)] v) (\<lambda>m.
     Option.bind (raw_field m ''evidence'' (\<lambda>r. Option.bind (unique_visit r) (kata_evidence_de E))) (\<lambda>ev.
     Option.bind (raw_field m ''nonce'' raw_as_str) (\<lambda>n.
     Option.bind (raw_field m ''init_data'' raw_as_str) (\<lambda>i.
     Option.bind (raw_field m ''collateral'' (collateral_de E)) (\<lambda>c.
     Some \<lparr> an_evidence = ev, an_nonce = n, an_init_data = i, an_collateral = c \<rparr>))))))"

definition signed_binding_de :: "'x ext_scheme \<Rightarrow> string \<Rightarrow> signed_binding option" where
  "signed_binding_de E t =
     Option.bind (json_events E (as_bytes t)) (\<lambda>v.
     Option.bind (raw_fields False [(''statement'', False), (''signature'', False), (''chain_pem'', False), (''answer'', True)] v) (\<lambda>m.
     Option.bind (raw_field m ''statement'' raw_as_str) (\<lambda>st.
     Option.bind (raw_field m ''signature'' raw_as_str) (\<lambda>sg.
     Option.bind (raw_field m ''chain_pem'' raw_as_str) (\<lambda>c.
     Option.bind (raw_opt_field m ''answer'' raw_as_str) (\<lambda>a.
     Some \<lparr> bs_statement = st, bs_signature = sg, bs_chain_pem = c, bs_answer = a \<rparr>))))))"

definition signed_document_de :: "json \<Rightarrow> signed_document option" where
  "signed_document_de v =
     Option.bind (struct_fields True [(''document'', False), (''signatures'', False)] v) (\<lambda>m.
     Option.bind (field m ''document'' Some) (\<lambda>d.
     Option.bind (field m ''signatures'' (de_vec release_signature_de)) (\<lambda>ss.
     Some \<lparr> sd_document = d, sd_signatures = ss \<rparr>)))"

definition public_document :: "'x ext_scheme \<Rightarrow> string \<Rightarrow> release_keys \<Rightarrow> u64 \<Rightarrow> time \<Rightarrow> platform_document option" where
  "public_document E t keys min_version now =
     Option.bind (Option.bind (parse E (as_bytes t)) signed_document_de) (\<lambda>d.
     Option.bind (to_option (platform_verify E d keys now)) (\<lambda>_.
     Option.bind (platform_document_de E (sd_document d)) (\<lambda>doc.
     if pd_version doc < min_version then None else Some doc)))"

definition public_appraise :: "'x ext_scheme \<Rightarrow> attestation \<Rightarrow> bytes \<Rightarrow> platform_document \<Rightarrow> time \<Rightarrow> appraised option" where
  "public_appraise E a leaf doc now =
     Option.bind (to_option (spki_of E leaf)) (\<lambda>spki.
     Option.bind (Option.bind (b64_dec E (an_nonce a)) (\<lambda>n. if length n = 32 then Some n else None)) (\<lambda>n.
     to_option (appraise_kata_evidence E (an_evidence a) n spki None doc (an_collateral a) now)))"

definition public_init_data :: "'x ext_scheme \<Rightarrow> string \<Rightarrow> compose_hash \<Rightarrow> platform_document \<Rightarrow> uuid option" where
  "public_init_data E t revision doc =
     Option.bind (to_option (init_data_parse E t)) (\<lambda>d.
     if init_data_digest E d \<noteq> revision then None
     else Option.bind (pd_kata_policy doc) (\<lambda>pinned.
          Option.bind (to_option (check_policy E d pinned (pd_kms_ca_pem doc))) (\<lambda>_.
          init_data_app_id E d)))"

record issuance =
  iu_id :: string
  iu_dns_names :: "string list"
  iu_pubkey_sha256 :: string
  iu_not_before :: string
  iu_not_after :: string

definition issuance_de :: "raw \<Rightarrow> issuance option" where
  "issuance_de v =
     Option.bind (raw_fields False [(''id'', False), (''dns_names'', False), (''pubkey_sha256'', False), (''not_before'', False),
       (''not_after'', False)] v) (\<lambda>m.
     Option.bind (raw_field m ''id'' raw_as_str) (\<lambda>i.
     Option.bind (raw_field m ''dns_names'' (raw_vec raw_as_str)) (\<lambda>ns.
     Option.bind (raw_field m ''pubkey_sha256'' raw_as_str) (\<lambda>k.
     Option.bind (raw_field m ''not_before'' raw_as_str) (\<lambda>nb.
     Option.bind (raw_field m ''not_after'' raw_as_str) (\<lambda>na.
     Some \<lparr> iu_id = i, iu_dns_names = ns, iu_pubkey_sha256 = k, iu_not_before = nb, iu_not_after = na \<rparr>))))))"

text \<open>\<open>not_after\<close> is read only when \<open>not_before\<close> has passed.\<close>

definition issuance_current :: "'x ext_scheme \<Rightarrow> time \<Rightarrow> issuance \<Rightarrow> bool option" where
  "issuance_current E now i =
     Option.bind (rfc3339_parse E (iu_not_before i)) (\<lambda>nb.
     if nb \<le> now then Option.bind (rfc3339_parse E (iu_not_after i)) (\<lambda>na. Some (now < na)) else Some False)"

fun current_issuances :: "'x ext_scheme \<Rightarrow> time \<Rightarrow> issuance list \<Rightarrow> issuance list option" where
  "current_issuances E now [] = Some []"
| "current_issuances E now (i # is) =
     Option.bind (issuance_current E now i) (\<lambda>c.
     Option.bind (current_issuances E now is) (\<lambda>cs. Some (if c then i # cs else cs)))"

definition transparency :: "'x ext_scheme \<Rightarrow> binding \<Rightarrow> string option \<Rightarrow> time \<Rightarrow> unit option" where
  "transparency E b issuances now =
     Option.bind (Option.bind (Option.bind issuances (\<lambda>t. json_events E (as_bytes t))) (raw_vec issuance_de)) (\<lambda>is.
     Option.bind (current_issuances E now is) (\<lambda>current.
     if current = [] \<or> list_ex (\<lambda>i. bi_spki_sha256 b \<noteq> ''sha256:'' @ iu_pubkey_sha256 i) current then None else Some ()))"

definition public_verify :: "'x ext_scheme \<Rightarrow> string \<Rightarrow> fetched \<Rightarrow> release_keys \<Rightarrow> u64 \<Rightarrow> time \<Rightarrow> report" where
  "public_verify E name f keys min_version now =
     (let doc = public_document E (fe_platform f) keys min_version now;
          sg = Option.bind (signed_binding_de E (fe_binding f)) (\<lambda>s. map_option (Pair s) (to_option (binding_leaf E s)));
          evidence = attestation_de E (fe_attestation f);
          appr = Option.bind doc (\<lambda>d. Option.bind sg (\<lambda>(_, leaf). Option.bind evidence (\<lambda>ev. public_appraise E ev leaf d now)));
          app_id = Option.bind doc (\<lambda>d. Option.bind appr (\<lambda>a. Option.bind evidence (\<lambda>ev.
                     public_init_data E (an_init_data ev) (ap_compose_hash a) d)));
          bound = Option.bind appr (\<lambda>_. Option.bind sg (\<lambda>(s, leaf). to_option (binding_open E s leaf name now)));
          ct = Option.bind bound (\<lambda>b. transparency E b (fe_issuances f) now);
          checks = [(''platform_document'', doc \<noteq> None), (''attestation'', appr \<noteq> None), (''init_data'', app_id \<noteq> None),
                    (''binding'', bound \<noteq> None), (''certificate_transparency'', ct \<noteq> None)];
          verified = list_all snd checks in
      \<lparr> rp_verified = verified,
        rp_live = (verified \<and> (case sg of None \<Rightarrow> False | Some (s, leaf) \<Rightarrow>
          (case spki_of E leaf of Err _ \<Rightarrow> False | Ok spki \<Rightarrow> is_ok (check_answer E s spki (fe_challenge f))))),
        rp_checks = checks, rp_platform_document_version = map_option pd_version doc,
        rp_tcb_status = map_option ap_tcb_status appr,
        rp_advisories = (case appr of None \<Rightarrow> [] | Some a \<Rightarrow> ap_advisories a),
        rp_runtime_class = map_option ap_os_image appr, rp_revision = map_option ap_compose_hash appr, rp_app_id = app_id,
        rp_init_data = (if app_id = None then None else map_option an_init_data evidence),
        rp_served_spki_sha256 = map_option bi_spki_sha256 bound \<rparr>)"

section \<open>Properties\<close>

lemma current_issuances_Some:
  "current_issuances E now iss = Some cs \<Longrightarrow>
     set cs = {i \<in> set iss. issuance_current E now i = Some True} \<and> (\<forall>i \<in> set iss. issuance_current E now i \<noteq> None)"
  by (induction iss arbitrary: cs) (auto simp: bind_eq_Some_conv split: if_split_asm)

lemma transparency_Some:
  assumes "transparency E b issuances now = Some u"
  obtains t r iss where "issuances = Some t" "json_events E (as_bytes t) = Some r" "raw_vec issuance_de r = Some iss"
    "\<exists>i \<in> set iss. issuance_current E now i = Some True"
    "\<forall>i \<in> set iss. issuance_current E now i = Some True \<longrightarrow> bi_spki_sha256 b = ''sha256:'' @ iu_pubkey_sha256 i"
proof -
  from assms obtain t r iss cs where t: "issuances = Some t" "json_events E (as_bytes t) = Some r" "raw_vec issuance_de r = Some iss"
    and c: "current_issuances E now iss = Some cs" "cs \<noteq> []" "\<forall>i \<in> set cs. bi_spki_sha256 b = ''sha256:'' @ iu_pubkey_sha256 i"
    by (auto simp: transparency_def bind_eq_Some_conv list_ex_iff split: if_split_asm)
  from c(2) have "set cs \<noteq> {}" by simp
  with current_issuances_Some [OF c(1)] c(3) t show ?thesis by (intro that [of t r iss]) auto
qed

lemma init_data_parse_same: "init_data_parse E t = Ok d \<Longrightarrow> d = t"
  by (auto simp: init_data_parse_def result_simps)

lemma public_document_Some:
  assumes "public_document E t keys min_version now = Some doc"
  obtains d view v where "parse E (as_bytes t) = Some v" "signed_document_de v = Some d" "platform_verify E d keys now = Ok view"
    "platform_document_de E (sd_document d) = Some doc" "min_version \<le> pd_version doc"
  using assms by (auto simp: public_document_def bind_eq_Some_conv result_simps not_less split: if_split_asm)

lemma public_appraise_Some:
  assumes "public_appraise E ev leaf doc now = Some a"
  obtains spki n where "spki_of E leaf = Ok spki" "b64_dec E (an_nonce ev) = Some n" "length n = 32"
    "appraise_kata_evidence E (an_evidence ev) n spki None doc (an_collateral ev) now = Ok a"
  using assms by (auto simp: public_appraise_def bind_eq_Some_conv result_simps split: if_split_asm)

lemma public_init_data_Some:
  assumes "public_init_data E t revision doc = Some app"
  obtains pinned where "init_data_parse E t = Ok t" "compose_hash_of E (as_bytes t) = revision" "init_data_app_id E t = Some app"
    "pd_kata_policy doc = Some pinned" "check_policy E t pinned (pd_kms_ca_pem doc) = Ok ()"
  using assms
  by (auto dest: init_data_parse_same simp: public_init_data_def init_data_digest_def bind_eq_Some_conv result_simps split: if_split_asm)

text \<open>
  What a verified report means, with no server of the platform in the path: the platform document
  is signed by a threshold of release keys and no older than one seen before; the quote was appraised
  against it with the key of the binding's leaf as report data; the init-data shown is the one the TD
  measured and obeys the pinned policy, and names the App shown; that same key signed that the name is
  served with the key shown; and every current certificate Certificate Transparency lists for the
  name, of which there is one, holds that key. A live report is also an answer of that key to this
  verifier's challenge.
\<close>

theorem verified_report_sound:
  assumes "rp_verified (public_verify E name f keys min_version now)"
  shows "\<exists>v d view doc s leaf spki ev n (a :: appraised) pinned txt b issuances r iss app.
    parse E (as_bytes (fe_platform f)) = Some v \<and> signed_document_de v = Some d
    \<and> platform_verify E d keys now = Ok view \<and> platform_document_de E (sd_document d) = Some doc \<and> min_version \<le> pd_version doc
    \<and> signed_binding_de E (fe_binding f) = Some s \<and> binding_leaf E s = Ok leaf \<and> spki_of E leaf = Ok spki
    \<and> attestation_de E (fe_attestation f) = Some ev
    \<and> appraise_kata_evidence E (an_evidence ev) n spki None doc (an_collateral ev) now = Ok a
    \<and> rp_revision (public_verify E name f keys min_version now) = Some (ap_compose_hash a)
    \<and> rp_init_data (public_verify E name f keys min_version now) = Some txt
    \<and> compose_hash_of E (as_bytes txt) = ap_compose_hash a
    \<and> rp_app_id (public_verify E name f keys min_version now) = Some app \<and> init_data_app_id E txt = Some app
    \<and> pd_kata_policy doc = Some pinned \<and> check_policy E txt pinned (pd_kms_ca_pem doc) = Ok ()
    \<and> binding_open E s leaf name now = Ok b
    \<and> rp_served_spki_sha256 (public_verify E name f keys min_version now) = Some (bi_spki_sha256 b)
    \<and> fe_issuances f = Some issuances \<and> json_events E (as_bytes issuances) = Some r \<and> raw_vec issuance_de r = Some iss
    \<and> (\<exists>i \<in> set iss. issuance_current E now i = Some True)
    \<and> (\<forall>i \<in> set iss. issuance_current E now i = Some True \<longrightarrow> bi_spki_sha256 b = ''sha256:'' @ iu_pubkey_sha256 i)
    \<and> (rp_live (public_verify E name f keys min_version now) \<longrightarrow> check_answer E s spki (fe_challenge f) = Ok ())"
proof -
  let ?R = "public_verify E name f keys min_version now"
  obtain doc s leaf ev a app b u
    where d: "public_document E (fe_platform f) keys min_version now = Some doc"
      and s: "signed_binding_de E (fe_binding f) = Some s" "binding_leaf E s = Ok leaf"
      and ev: "attestation_de E (fe_attestation f) = Some ev" "public_appraise E ev leaf doc now = Some a"
      and i: "public_init_data E (an_init_data ev) (ap_compose_hash a) doc = Some app"
      and b: "binding_open E s leaf name now = Ok b" "transparency E b (fe_issuances f) now = Some u"
      and r: "rp_revision ?R = Some (ap_compose_hash a)" "rp_init_data ?R = Some (an_init_data ev)" "rp_app_id ?R = Some app"
        "rp_served_spki_sha256 ?R = Some (bi_spki_sha256 b)"
        "rp_live ?R \<longrightarrow> (\<forall>spki. spki_of E leaf = Ok spki \<longrightarrow> check_answer E s spki (fe_challenge f) = Ok ())"
    using assms
    by (fastforce simp: public_verify_def Let_def bind_eq_Some_conv result_simps is_ok_iff)
  obtain d view v where D: "parse E (as_bytes (fe_platform f)) = Some v" "signed_document_de v = Some d"
      "platform_verify E d keys now = Ok view" "platform_document_de E (sd_document d) = Some doc" "min_version \<le> pd_version doc"
    by (rule public_document_Some [OF d])
  obtain spki n where A: "spki_of E leaf = Ok spki"
      "appraise_kata_evidence E (an_evidence ev) n spki None doc (an_collateral ev) now = Ok a"
    by (rule public_appraise_Some [OF ev(2)])
  obtain pinned where I: "compose_hash_of E (as_bytes (an_init_data ev)) = ap_compose_hash a"
      "init_data_app_id E (an_init_data ev) = Some app" "pd_kata_policy doc = Some pinned"
      "check_policy E (an_init_data ev) pinned (pd_kms_ca_pem doc) = Ok ()"
    by (rule public_init_data_Some [OF i])
  obtain t rr iss where T: "fe_issuances f = Some t" "json_events E (as_bytes t) = Some rr" "raw_vec issuance_de rr = Some iss"
      "\<exists>i \<in> set iss. issuance_current E now i = Some True"
      "\<forall>i \<in> set iss. issuance_current E now i = Some True \<longrightarrow> bi_spki_sha256 b = ''sha256:'' @ iu_pubkey_sha256 i"
    by (rule transparency_Some [OF b(2)])
  from r(5) A(1) have L: "rp_live ?R \<longrightarrow> check_answer E s spki (fe_challenge f) = Ok ()" by simp
  show ?thesis
    using D s ev(1) A I r(1,2,3,4) b(1) T L by (intro exI conjI) ((assumption | rule refl)+)
qed

end
