(* ===== verification/Channel_Compose.thy ===== *)
theory Channel_Compose
  imports Channel_Cert Core_InitData
begin

text \<open>
  \<^verbatim>\<open>crates/alpha-channel/src/compose.rs\<close>: what a page shows of a Revision, read from the bytes that were
  measured, and the payload it registers. A \<open>BTreeMap\<close> is its entries in key order.
\<close>

record service =
  sv_image :: "string option"
  sv_environment :: "(string \<times> string) list"
  sv_ports :: "string list"
  sv_volumes :: "string list"
  sv_secrets :: "string list"

definition RUNTIME :: string where "RUNTIME = ''alpha-runtime''"
definition SECRETS :: string where "SECRETS = ''ALPHACOMPUTE_SECRETS''"

definition yaml_entry :: "(yaml \<times> yaml) list \<Rightarrow> string \<Rightarrow> yaml option" where
  "yaml_entry m k = map_of m (YString k)"

definition is_compose :: "string \<Rightarrow> (bool, chan_error) result" where
  "is_compose revision = refuse_if (length revision \<ge> MAX_INIT_DATA) Malformed (Ok (starts_with ''{'' (trim_start revision)))"

definition page_revision_payload :: "'x ext_scheme \<Rightarrow> uuid \<Rightarrow> string \<Rightarrow> kata_policy option \<Rightarrow> string \<Rightarrow> (json, chan_error) result" where
  "page_revision_payload E app_id revision kata_policy kms_ca_pem =
     and_then (is_compose revision) (\<lambda>c.
     if c then
       and_then (map_err (\<lambda>_. Malformed) (check_registration E revision app_id)) (\<lambda>_.
       Ok (jobj [(''app_id'', JString (uuid_show E app_id)), (''compose'', JString revision)]))
     else
       and_then (map_err (\<lambda>_. Malformed) (init_data_parse E revision)) (\<lambda>d.
       refuse_if (init_data_app_id E d \<noteq> Some app_id) Malformed
       (and_then (ok_or kata_policy Malformed) (\<lambda>pinned.
        and_then (map_err (\<lambda>_. Malformed) (check_policy E d pinned kms_ca_pem)) (\<lambda>_.
        Ok (jobj [(''app_id'', JString (uuid_show E app_id)), (''init_data'', JString revision),
                  (''digest'', JString (compose_hash_show (init_data_digest E d)))]))))))"

definition page_openings :: "'x ext_scheme \<Rightarrow> string \<Rightarrow> (openings option, chan_error) result" where
  "page_openings E revision =
     and_then (is_compose revision) (\<lambda>c.
     if c then Ok None
     else map_err (\<lambda>_. Malformed) (and_then (init_data_parse E revision) (\<lambda>d. and_then (init_data_openings E d) (\<lambda>n. Ok (Some n)))))"

definition show_int :: "int \<Rightarrow> string" where
  "show_int i = (if i < 0 then CHR ''-'' # show_nat (nat (- i)) else show_nat (nat i))"

definition env_entry :: "yaml \<times> yaml \<Rightarrow> (string \<times> string, chan_error) result" where
  "env_entry e =
     (case e of
        (YString k, YString v) \<Rightarrow> Ok (k, v)
      | (YString k, YReal v) \<Rightarrow> Ok (k, v)
      | (YString k, YInteger v) \<Rightarrow> Ok (k, show_int v)
      | (YString k, YBoolean v) \<Rightarrow> Ok (k, if v then ''true'' else ''false'')
      | _ \<Rightarrow> Err Malformed)"

definition sorted_entries :: "(string \<times> 'a) list \<Rightarrow> (string \<times> 'a) list" where
  "sorted_entries es = foldl (\<lambda>m e. map_insert (fst e) (snd e) m) [] es"

definition yaml_items :: "yaml option \<Rightarrow> (yaml list, chan_error) result" where
  "yaml_items v = (case v of None \<Rightarrow> Ok [] | Some (YArray items) \<Rightarrow> Ok items | Some _ \<Rightarrow> Err Malformed)"

definition ports :: "yaml option \<Rightarrow> (string list, chan_error) result" where
  "ports v =
     and_then (yaml_items v) (collect_results (\<lambda>p. case p of
       YString s \<Rightarrow> Ok s | YInteger i \<Rightarrow> Ok (show_int i) | _ \<Rightarrow> Err Malformed))"

definition volume_name :: "yaml \<Rightarrow> (string list, chan_error) result" where
  "volume_name v =
     (case v of
        YString short \<Rightarrow>
          Ok (case split_once '':'' short of
                Some (source, _) \<Rightarrow> if source \<noteq> [] \<and> hd source \<in> {CHR ''/'', CHR ''.'', CHR ''~''} then [] else [source]
              | None \<Rightarrow> [])
      | YHash long \<Rightarrow>
          (case (yaml_entry long ''type'', yaml_entry long ''source'') of
             (Some (YString kind), Some (YString source)) \<Rightarrow> Ok (if kind = ''volume'' then [source] else [])
           | (Some (YString kind), None) \<Rightarrow> Ok []
           | _ \<Rightarrow> Err Malformed)
      | _ \<Rightarrow> Err Malformed)"

definition volumes :: "yaml option \<Rightarrow> (string list, chan_error) result" where
  "volumes v = and_then (yaml_items v) (\<lambda>items. and_then (collect_results volume_name items) (\<lambda>ns. Ok (concat ns)))"

definition compose_service :: "yaml \<times> yaml \<Rightarrow> (string \<times> service, chan_error) result" where
  "compose_service e =
     and_then (ok_or (yaml_as_str (fst e)) Malformed) (\<lambda>name.
     (case snd e of
        YHash m \<Rightarrow>
          and_then (case yaml_entry m ''image'' of None \<Rightarrow> Ok None | Some (YString i) \<Rightarrow> Ok (Some i) | Some _ \<Rightarrow> Err Malformed) (\<lambda>image.
          and_then (case yaml_entry m ''environment'' of
                      None \<Rightarrow> Ok []
                    | Some (YHash env) \<Rightarrow> and_then (collect_results env_entry env) (\<lambda>es. Ok (sorted_entries es))
                    | Some _ \<Rightarrow> Err Malformed) (\<lambda>env.
          and_then (ports (yaml_entry m ''ports'')) (\<lambda>ps.
          and_then (volumes (yaml_entry m ''volumes'')) (\<lambda>vs.
          Ok (name, \<lparr> sv_image = image, sv_environment = env, sv_ports = ps, sv_volumes = vs, sv_secrets = [] \<rparr>)))))
      | _ \<Rightarrow> Err Malformed))"

definition compose_services :: "'x ext_scheme \<Rightarrow> string \<Rightarrow> ((string \<times> service) list, chan_error) result" where
  "compose_services E compose =
     and_then (ok_or (parse E (as_bytes compose)) Malformed) (\<lambda>v.
     and_then (ok_or (Option.bind (json_get v ''docker_compose_file'') json_as_str) Malformed) (\<lambda>y.
     and_then (ok_or (yaml_load E y) Malformed) (\<lambda>docs.
     (case docs of
        [YHash root] \<Rightarrow>
          (case yaml_entry root ''services'' of
             Some (YHash services) \<Rightarrow> and_then (collect_results compose_service services) (\<lambda>es. Ok (sorted_entries es))
           | _ \<Rightarrow> Err Malformed)
      | _ \<Rightarrow> Err Malformed))))"

record container =
  co_env :: "string list"
  co_annotations :: "(string \<times> string) list"

definition string_map_de :: "json \<Rightarrow> (string \<times> string) list option" where
  "string_map_de v =
     Option.bind (json_as_object v) (\<lambda>m.
     to_option (collect_results (\<lambda>e. ok_or (map_option (Pair (fst e)) (json_as_str (snd e))) Malformed) m))"

definition container_de :: "json \<Rightarrow> container option" where
  "container_de v =
     Option.bind (struct_fields False [(''OCI'', False)] v) (\<lambda>m.
     Option.bind (field m ''OCI'' (\<lambda>oci.
       Option.bind (struct_fields False [(''Process'', False), (''Annotations'', False)] oci) (\<lambda>n.
       Option.bind (field n ''Process'' (\<lambda>p.
         Option.bind (struct_fields False [(''Env'', False)] p) (\<lambda>q. field q ''Env'' (de_vec json_as_str)))) (\<lambda>env.
       Option.bind (field n ''Annotations'' string_map_de) (\<lambda>an.
       Some \<lparr> co_env = env, co_annotations = an \<rparr>))))) Some)"

text \<open>The variables of one container: the map, and the names set more than once.\<close>

fun pod_env :: "string \<Rightarrow> (string \<times> string) list \<Rightarrow> string list \<Rightarrow> string list \<Rightarrow> ((string \<times> string) list \<times> string list, chan_error) result" where
  "pod_env name env twice [] = Ok (env, twice)"
| "pod_env name env twice (var # vars) =
     and_then (ok_or (split_once ''='' var) Malformed) (\<lambda>(key, value).
     if map_of env key \<noteq> None then
       refuse_if (name = RUNTIME \<and> key = SECRETS) Malformed (pod_env name (map_insert key value env) (twice @ [key]) vars)
     else pod_env name (map_insert key value env) twice vars)"

definition pod_service :: "container \<Rightarrow> ((string \<times> service) option, chan_error) result" where
  "pod_service c =
     (let annotation = map_of (co_annotations c) in
      if annotation ''io.kubernetes.cri.container-type'' = Some ''sandbox'' then Ok None
      else if annotation ''io.kubernetes.cri.container-type'' \<noteq> Some ''container'' then Err Malformed
      else
        and_then (ok_or (annotation ''io.kubernetes.cri.container-name'') Malformed) (\<lambda>name.
        and_then (ok_or (annotation ''io.kubernetes.cri.image-name'') Malformed) (\<lambda>image.
        and_then (pod_env name [] [] (co_env c)) (\<lambda>(env, twice).
        Ok (Some (name, \<lparr> sv_image = Some image, sv_environment = filter (\<lambda>e. fst e \<notin> set twice) env, sv_ports = [],
          sv_volumes = [], sv_secrets = [] \<rparr>))))))"

fun pod_services_from :: "(string \<times> service) list \<Rightarrow> container list \<Rightarrow> ((string \<times> service) list, chan_error) result" where
  "pod_services_from m [] = Ok m"
| "pod_services_from m (c # cs) =
     and_then (pod_service c) (\<lambda>s.
     (case s of
        None \<Rightarrow> pod_services_from m cs
      | Some (name, service) \<Rightarrow> refuse_if (map_of m name \<noteq> None) Malformed (pod_services_from (map_insert name service m) cs)))"

definition pod_services :: "'x ext_scheme \<Rightarrow> string \<Rightarrow> ((string \<times> service) list, chan_error) result" where
  "pod_services E t =
     and_then (map_err (\<lambda>_. Malformed) (and_then (init_data_parse E t) (init_data_containers E))) (\<lambda>cs.
     and_then (ok_or (de_vec container_de cs) Malformed) (pod_services_from []))"

definition declared_secrets :: "'x ext_scheme \<Rightarrow> string \<Rightarrow> ((string \<times> string list) list, chan_error) result" where
  "declared_secrets E t =
     and_then (ok_or (Option.bind (Option.bind (parse E (as_bytes t)) json_as_object) (\<lambda>m.
       to_option (collect_results (\<lambda>e. ok_or (map_option (Pair (fst e)) (de_vec json_as_str (snd e))) Malformed) m))) Malformed) (\<lambda>declared.
     refuse_if (list_ex (\<lambda>(svc, names). \<not> list_all is_key_purpose (svc # names)) declared) Malformed (Ok declared))"

fun put_secrets :: "(string \<times> service) list \<Rightarrow> (string \<times> string list) list \<Rightarrow> ((string \<times> service) list, chan_error) result" where
  "put_secrets m [] = Ok m"
| "put_secrets m ((name, secrets) # es) =
     (case map_of m name of
        None \<Rightarrow> Err Malformed
      | Some s \<Rightarrow> put_secrets (map (\<lambda>e. if fst e = name then (name, s\<lparr> sv_secrets := secrets \<rparr>) else e) m) es)"

definition services :: "'x ext_scheme \<Rightarrow> string \<Rightarrow> ((string \<times> service) list, chan_error) result" where
  "services E revision =
     and_then (is_compose revision) (\<lambda>c.
     and_then (if c then compose_services E revision else pod_services E revision) (\<lambda>m.
     and_then (case Option.bind (map_of m RUNTIME) (\<lambda>r. map_of (sv_environment r) SECRETS) of
                 None \<Rightarrow> Ok []
               | Some t \<Rightarrow> declared_secrets E t) (put_secrets m)))"

section \<open>Properties\<close>

lemma map_of_replace:
  "map_of (map (\<lambda>e. if fst e = k then (k, v) else e) m) n = (if n = k \<and> map_of m k \<noteq> None then Some v else map_of m n)"
  by (induction m) auto

lemma put_secrets_names:
  "put_secrets m ds = Ok m' \<Longrightarrow> distinct (map fst ds) \<Longrightarrow> fst ` set ds \<subseteq> fst ` set m
     \<and> map_of m' n = map_option (\<lambda>s. case map_of ds n of None \<Rightarrow> s | Some names \<Rightarrow> s\<lparr> sv_secrets := names \<rparr>) (map_of m n)"
proof (induction m ds arbitrary: m' rule: put_secrets.induct)
  case (2 m name secrets es)
  then obtain s where s: "map_of m name = Some s"
    and r: "put_secrets (map (\<lambda>e. if fst e = name then (name, s\<lparr> sv_secrets := secrets \<rparr>) else e) m) es = Ok m'"
    by (auto split: option.splits)
  from "2.prems"(2) have d: "distinct (map fst es)" "map_of es name = None" by (auto simp: map_of_eq_None_iff)
  have "fst ` set (map (\<lambda>e. if fst e = name then (name, s\<lparr> sv_secrets := secrets \<rparr>) else e) m) = fst ` set m"
    by (simp only: set_map image_image) (rule image_cong; simp)
  moreover have "name \<in> fst ` set m" using map_of_SomeD [OF s] by force
  ultimately show ?case using "2.IH" [OF s r d(1)] s d(2) by (auto simp: map_of_replace split: option.splits)
qed (simp_all add: option.map_ident)

lemma services_Ok:
  assumes "services E revision = Ok shown"
  obtains m declared where "(if starts_with ''{'' (trim_start revision) then compose_services E revision else pod_services E revision) = Ok m"
    "length revision < MAX_INIT_DATA" "put_secrets m declared = Ok shown"
  using assms by (auto simp: services_def is_compose_def result_simps)

end
