(* ===== verification/Rust_Action.thy ===== *)
theory Rust_Action
  imports Rust_Prelude
begin

text \<open>
  Code that changes a state and may fail: a function of the state that returns a \<open>result\<close> and the state
  it leaves, which an error keeps as it was when the error was raised. \<open>act_bind\<close> is the \<open>?\<close> operator.
  A service's handlers are such actions, so what a failing call already did stays visible. The second
  part says how an invariant, or a relation to the first state, passes through a composition.
\<close>

named_theorems act_intros

type_synonym ('s, 'a, 'e) action = "'s \<Rightarrow> ('a, 'e) result \<times> 's"

definition act_bind :: "('s, 'a, 'e) action \<Rightarrow> ('a \<Rightarrow> ('s, 'b, 'e) action) \<Rightarrow> ('s, 'b, 'e) action" where
  "act_bind m f s = (case m s of (Ok a, t) \<Rightarrow> f a t | (Err e, t) \<Rightarrow> (Err e, t))"

definition act_lift :: "('a, 'e) result \<Rightarrow> ('s, 'a, 'e) action" where
  "act_lift r s = (r, s)"

abbreviation act_ok :: "'a \<Rightarrow> ('s, 'a, 'e) action" where
  "act_ok a \<equiv> act_lift (Ok a)"

abbreviation act_fail :: "'e \<Rightarrow> ('s, 'a, 'e) action" where
  "act_fail e \<equiv> act_lift (Err e)"

definition act_read :: "('s \<Rightarrow> 'a) \<Rightarrow> ('s, 'a, 'e) action" where
  "act_read f s = (Ok (f s), s)"

definition act_modify :: "('s \<Rightarrow> 's) \<Rightarrow> ('s, unit, 'e) action" where
  "act_modify g s = (Ok (), g s)"

definition act_refuse :: "bool \<Rightarrow> 'e \<Rightarrow> ('s, 'a, 'e) action \<Rightarrow> ('s, 'a, 'e) action" where
  "act_refuse b e m = (if b then act_fail e else m)"

definition act_map_err :: "('e \<Rightarrow> 'f) \<Rightarrow> ('s, 'a, 'e) action \<Rightarrow> ('s, 'a, 'f) action" where
  "act_map_err f m s = (case m s of (r, t) \<Rightarrow> (map_err f r, t))"

text \<open>An action on a part of the state.\<close>

definition act_on :: "('s \<Rightarrow> 'p) \<Rightarrow> ('p \<Rightarrow> 's \<Rightarrow> 's) \<Rightarrow> ('p, 'a, 'e) action \<Rightarrow> ('s, 'a, 'e) action" where
  "act_on get put m s = (case m (get s) of (r, p) \<Rightarrow> (r, put p s))"

section \<open>Results\<close>

lemma act_lift_eq [simp]: "act_lift r s = (r, s)"
  by (simp add: act_lift_def)

lemma act_read_eq [simp]: "act_read f s = (Ok (f s), s)"
  by (simp add: act_read_def)

lemma act_modify_eq [simp]: "act_modify g s = (Ok (), g s)"
  by (simp add: act_modify_def)

lemma act_bind_lift [simp]: "act_bind (act_lift (Ok a)) f = f a" "act_bind (act_lift (Err e)) f = act_lift (Err e)"
  by (auto simp: act_bind_def)

lemma act_bind_read [simp]: "act_bind (act_read g) f s = f (g s) s"
  by (simp add: act_bind_def)

lemma act_bind_modify [simp]: "act_bind (act_modify g) f s = f () (g s)"
  by (simp add: act_bind_def)

lemma act_bind_Ok: "act_bind m f s = (Ok b, u) \<longleftrightarrow> (\<exists>a t. m s = (Ok a, t) \<and> f a t = (Ok b, u))"
  by (auto simp: act_bind_def split: prod.splits result.splits)

lemma act_refuse_Ok: "act_refuse b e m s = (Ok a, t) \<longleftrightarrow> \<not> b \<and> m s = (Ok a, t)"
  by (auto simp: act_refuse_def)

lemma act_map_err_Ok: "act_map_err f m s = (Ok a, t) \<longleftrightarrow> m s = (Ok a, t)"
  by (auto simp: act_map_err_def result_simps split: prod.splits)

lemma act_on_Ok: "act_on get put m s = (Ok a, t) \<longleftrightarrow> (\<exists>p. m (get s) = (Ok a, p) \<and> t = put p s)"
  by (auto simp: act_on_def split: prod.splits)

lemmas act_inv_simps = act_bind_Ok act_refuse_Ok act_map_err_Ok act_on_Ok

section \<open>What an action keeps\<close>

text \<open>Whatever the outcome, the state left relates to the state found; \<open>Q\<close> is a transitive relation.\<close>

definition keeps :: "('s \<Rightarrow> 's \<Rightarrow> bool) \<Rightarrow> ('s, 'a, 'e) action \<Rightarrow> bool" where
  "keeps Q m \<longleftrightarrow> (\<forall>s. Q s (snd (m s)))"

definition order_like :: "('s \<Rightarrow> 's \<Rightarrow> bool) \<Rightarrow> bool" where
  "order_like Q \<longleftrightarrow> (\<forall>s. Q s s) \<and> (\<forall>s t u. Q s t \<longrightarrow> Q t u \<longrightarrow> Q s u)"

lemma order_like_imp [simp]: "order_like (\<lambda>s t. P s \<longrightarrow> P t)"
  by (simp add: order_like_def)

lemma order_like_eq [simp]: "order_like (\<lambda>s t. f t = f s)"
  by (simp add: order_like_def)

lemma order_like_conj: "order_like Q \<Longrightarrow> order_like R \<Longrightarrow> order_like (\<lambda>s t. Q s t \<and> R s t)"
  by (simp add: order_like_def) blast

lemma keeps_bind [act_intros]:
  assumes "order_like Q" and "keeps Q m" and "\<And>a. keeps Q (f a)"
  shows "keeps Q (act_bind m f)"
  using assms by (auto simp: keeps_def order_like_def act_bind_def split: prod.splits result.splits) (metis snd_conv)+

lemma keeps_lift [act_intros]: "order_like Q \<Longrightarrow> keeps Q (act_lift r)"
  by (simp add: keeps_def order_like_def)

lemma keeps_read [act_intros]: "order_like Q \<Longrightarrow> keeps Q (act_read f)"
  by (simp add: keeps_def order_like_def)

lemma keeps_modify [act_intros]: "(\<And>s. Q s (g s)) \<Longrightarrow> keeps Q (act_modify g)"
  by (simp add: keeps_def)

lemma keeps_refuse [act_intros]: "order_like Q \<Longrightarrow> keeps Q m \<Longrightarrow> keeps Q (act_refuse b e m)"
  by (simp add: act_refuse_def keeps_lift)

lemma keeps_map_err [act_intros]: "keeps Q m \<Longrightarrow> keeps Q (act_map_err f m)"
  by (auto simp: keeps_def act_map_err_def split: prod.splits) (metis snd_conv)

lemma keeps_on [act_intros]: "(\<And>s r p. m (get s) = (r, p) \<Longrightarrow> Q s (put p s)) \<Longrightarrow> keeps Q (act_on get put m)"
  by (auto simp: keeps_def act_on_def split: prod.splits)

lemma keeps_if [act_intros]: "(b \<Longrightarrow> keeps Q m) \<Longrightarrow> (\<not> b \<Longrightarrow> keeps Q n) \<Longrightarrow> keeps Q (if b then m else n)"
  by simp

lemma keeps_case_option [act_intros]:
  "keeps Q m \<Longrightarrow> (\<And>a. keeps Q (f a)) \<Longrightarrow> keeps Q (case x of None \<Rightarrow> m | Some a \<Rightarrow> f a)"
  by (cases x) auto

lemma keeps_case_prod [act_intros]: "(\<And>a b. keeps Q (f a b)) \<Longrightarrow> keeps Q (case p of (a, b) \<Rightarrow> f a b)"
  by (cases p) auto

lemma keeps_snd: "keeps Q m \<Longrightarrow> Q s (snd (m s))"
  by (simp add: keeps_def)

lemma keepsD: "keeps Q m \<Longrightarrow> m s = (r, t) \<Longrightarrow> Q s t"
  by (auto simp: keeps_def) (metis snd_conv)

lemma keeps_bind_Ok:
  assumes "order_like Q" and "keeps Q m" and "\<And>s a t. m s = (Ok a, t) \<Longrightarrow> keeps Q (f a)"
  shows "keeps Q (act_bind m f)"
  unfolding keeps_def
proof (intro allI)
  fix s
  obtain r t where m: "m s = (r, t)" by fastforce
  with assms(2) have q: "Q s t" by (auto simp: keeps_def) (metis snd_conv)
  show "Q s (snd (act_bind m f s))"
  proof (cases r)
    case (Ok a)
    with m assms(3) have "Q t (snd (f a t))" by (auto simp: keeps_def)
    with assms(1) q m Ok show ?thesis unfolding order_like_def by (auto simp: act_bind_def)
  next
    case (Err e)
    with q m show ?thesis by (simp add: act_bind_def)
  qed
qed

section \<open>What an action establishes\<close>

text \<open>From a state with \<open>P\<close> an action returns a value and a state with \<open>R\<close>, or fails in a state with \<open>S\<close>.\<close>

definition triple :: "('s \<Rightarrow> bool) \<Rightarrow> ('s, 'a, 'e) action \<Rightarrow> ('a \<Rightarrow> 's \<Rightarrow> bool) \<Rightarrow> ('s \<Rightarrow> bool) \<Rightarrow> bool" where
  "triple P m R S \<longleftrightarrow> (\<forall>s a t. P s \<longrightarrow> m s = (Ok a, t) \<longrightarrow> R a t) \<and> (\<forall>s e t. P s \<longrightarrow> m s = (Err e, t) \<longrightarrow> S t)"

named_theorems triple_intros

lemma act_bind_Err: "act_bind m f s = (Err e, u) \<longleftrightarrow> m s = (Err e, u) \<or> (\<exists>a t. m s = (Ok a, t) \<and> f a t = (Err e, u))"
  by (auto simp: act_bind_def split: prod.splits result.splits)

lemma triple_bind [triple_intros]:
  "triple P m R S \<Longrightarrow> (\<And>a. triple (R a) (f a) T S) \<Longrightarrow> triple P (act_bind m f) T S"
  unfolding triple_def by (auto simp only: act_bind_Ok act_bind_Err) blast+

lemma triple_lift [triple_intros]:
  "(\<And>s a. P s \<Longrightarrow> r = Ok a \<Longrightarrow> R a s) \<Longrightarrow> (\<And>s. P s \<Longrightarrow> S s) \<Longrightarrow> triple P (act_lift r) R S"
  by (cases r) (auto simp: triple_def)

lemma triple_read [triple_intros]: "(\<And>s. P s \<Longrightarrow> R (f s) s) \<Longrightarrow> triple P (act_read f) R S"
  by (simp add: triple_def)

lemma triple_modify [triple_intros]: "(\<And>s. P s \<Longrightarrow> R () (g s)) \<Longrightarrow> triple P (act_modify g) R S"
  by (simp add: triple_def)

lemma triple_refuse [triple_intros]:
  "(\<And>s. P s \<Longrightarrow> S s) \<Longrightarrow> (\<not> b \<Longrightarrow> triple P m R S) \<Longrightarrow> triple P (act_refuse b e m) R S"
  by (auto simp: act_refuse_def triple_def)

lemma triple_map_err [triple_intros]: "triple P m R S \<Longrightarrow> triple P (act_map_err f m) R S"
  unfolding triple_def act_map_err_def by (auto split: prod.splits simp: result_simps) (metis map_err.simps result.exhaust)

lemma triple_if [triple_intros]: "(b \<Longrightarrow> triple P m R S) \<Longrightarrow> (\<not> b \<Longrightarrow> triple P n R S) \<Longrightarrow> triple P (if b then m else n) R S"
  by simp

lemma triple_case_option [triple_intros]:
  "(x = None \<Longrightarrow> triple P m R S) \<Longrightarrow> (\<And>a. x = Some a \<Longrightarrow> triple P (f a) R S) \<Longrightarrow> triple P (case x of None \<Rightarrow> m | Some a \<Rightarrow> f a) R S"
  by (cases x) auto

lemma triple_case_prod [triple_intros]: "(\<And>a b. p = (a, b) \<Longrightarrow> triple P (f a b) R S) \<Longrightarrow> triple P (case p of (a, b) \<Rightarrow> f a b) R S"
  by (cases p) auto

lemma triple_conseq:
  "triple P' m R' S' \<Longrightarrow> (\<And>s. P s \<Longrightarrow> P' s) \<Longrightarrow> (\<And>a s. R' a s \<Longrightarrow> R a s) \<Longrightarrow> (\<And>s. S' s \<Longrightarrow> S s) \<Longrightarrow> triple P m R S"
  unfolding triple_def by blast

lemma tripleD: "triple P m (\<lambda>_. Q) Q \<Longrightarrow> P s \<Longrightarrow> Q (snd (m s))"
  by (cases "m s"; cases "fst (m s)") (auto simp: triple_def)

end
