(* ===== verification/Broker_OAuth.thy ===== *)
theory Broker_OAuth
  imports Rust_Action Core_Json Serde_Text
begin

text \<open>
  \<^verbatim>\<open>services/alpha-broker/src/oauth.rs\<close>: every provider as a row of a fixed table, PKCE, and the calls the
  broker makes to a provider. A call appends the request to the list of requests sent, and what comes
  back is a function of that request and of everything sent before it, so any behaviour of a provider
  is covered; no answer at all, or one that comes too late, is \<open>None\<close>.
\<close>

section \<open>HTTP\<close>

text \<open>A \<open>Url\<close> of the \<open>url\<close> crate, as the parts of it the broker reads.\<close>

record url =
  url_scheme :: string
  url_port :: "nat option"
  url_username :: string
  url_password :: "string option"
  url_fragment :: "string option"
  url_host :: "string option"
  url_segments :: "string list option"
  url_query :: "string option"

datatype http_target = Fixed string | Parsed url

datatype payload = NoBody | Form "(string \<times> string) list" | JsonBody json | RawBody string bytes

record outgoing =
  og_method :: string
  og_to :: http_target
  og_bearer :: "string option"
  og_basic :: "(string \<times> string) option"
  og_headers :: "(string \<times> string) list"
  og_payload :: payload

text \<open>The body arrives in chunks; \<open>aw_broken\<close> says that the connection failed before its end.\<close>

record answer =
  aw_status :: nat
  aw_content_type :: "string option"
  aw_chunks :: "bytes list"
  aw_broken :: bool

record net_ext = ext +
  url_parse :: "string \<Rightarrow> url option"
  url_with_params :: "string \<Rightarrow> (string \<times> string) list \<Rightarrow> string option"
  http_send :: "outgoing list \<Rightarrow> outgoing \<Rightarrow> answer option"
  header_name :: "string \<Rightarrow> string option"
  header_value_ok :: "string \<Rightarrow> bool"
  response_text :: "string option \<Rightarrow> bytes \<Rightarrow> string"
  header_to_str :: "string \<Rightarrow> string option"

definition send :: "'x net_ext_scheme \<Rightarrow> outgoing \<Rightarrow> 'e \<Rightarrow> (outgoing list, answer, 'e) action" where
  "send E r unreachable sent = (ok_or (http_send E sent r) unreachable, sent @ [r])"

definition is_success :: "answer \<Rightarrow> bool" where
  "is_success a \<longleftrightarrow> 200 \<le> aw_status a \<and> aw_status a < 300"

definition answer_bytes :: "answer \<Rightarrow> bytes option" where
  "answer_bytes a = (if aw_broken a then None else Some (concat (aw_chunks a)))"

definition answer_json :: "'x ext_scheme \<Rightarrow> answer \<Rightarrow> raw option" where
  "answer_json E a = Option.bind (answer_bytes a) (json_events E)"

section \<open>The provider table\<close>

record route_entry =
  en_method :: string
  en_host :: string
  en_path :: string

datatype revoke_kind = RevokeForm string | RevokeBearer string | RevokeAccessForm string | RevokeLocal

datatype client_auth = AuthForm | AuthBasic | AuthPublic

datatype identity =
    IdentityBearer string string
  | IdentityMcp (mcp_url: string) (mcp_tool: string) (mcp_arguments: "(string \<times> string) list")
      (mcp_subject: "string list") (mcp_name: "string list")

record provider =
  pv_name :: string
  pv_authorization :: string
  pv_token :: string
  pv_refresh :: string
  pv_client_auth :: client_auth
  pv_scopes :: "string list"
  pv_scope_param :: "string \<times> string"
  pv_tokens_at :: "string option"
  pv_dead :: "string list"
  pv_extra_authorize :: "(string \<times> string) list"
  pv_identity :: identity
  pv_revoke :: revoke_kind
  pv_reads :: "route_entry list"
  pv_writes :: "route_entry list"
  pv_headers :: "string list"
  pv_mcp_tools :: "string list option"

definition get :: "string \<Rightarrow> string \<Rightarrow> route_entry" where
  "get host path = \<lparr> en_method = ''GET'', en_host = host, en_path = path \<rparr>"

definition post :: "string \<Rightarrow> string \<Rightarrow> route_entry" where
  "post host path = \<lparr> en_method = ''POST'', en_host = host, en_path = path \<rparr>"

definition GOOGLE :: provider where
  "GOOGLE = \<lparr> pv_name = ''google'',
     pv_authorization = ''https://accounts.google.com/o/oauth2/v2/auth'',
     pv_token = ''https://oauth2.googleapis.com/token'',
     pv_refresh = ''https://oauth2.googleapis.com/token'',
     pv_client_auth = AuthForm,
     pv_scopes = [''https://www.googleapis.com/auth/drive.readonly'',
       ''https://www.googleapis.com/auth/gmail.readonly'',
       ''https://www.googleapis.com/auth/calendar.readonly'',
       ''https://www.googleapis.com/auth/drive.file'', ''openid'', ''email''],
     pv_scope_param = (''scope'', '' ''), pv_tokens_at = None, pv_dead = [''invalid_grant''],
     pv_extra_authorize = [(''access_type'', ''offline''), (''prompt'', ''consent'')],
     pv_identity = IdentityBearer ''GET'' ''https://openidconnect.googleapis.com/v1/userinfo'',
     pv_revoke = RevokeForm ''https://oauth2.googleapis.com/revoke'',
     pv_reads = [get ''www.googleapis.com'' ''/drive/v3/drives'',
       get ''www.googleapis.com'' ''/drive/v3/files'',
       get ''www.googleapis.com'' ''/drive/v3/files/{id}'',
       get ''www.googleapis.com'' ''/drive/v3/files/{id}/export'',
       get ''www.googleapis.com'' ''/gmail/v1/users/me/messages'',
       get ''www.googleapis.com'' ''/gmail/v1/users/me/messages/{id}'',
       get ''www.googleapis.com'' ''/calendar/v3/calendars/primary/events''],
     pv_writes = [post ''www.googleapis.com'' ''/upload/drive/v3/files'',
       post ''www.googleapis.com'' ''/drive/v3/files''],
     pv_headers = [], pv_mcp_tools = None \<rparr>"

definition DROPBOX :: provider where
  "DROPBOX = \<lparr> pv_name = ''dropbox'',
     pv_authorization = ''https://www.dropbox.com/oauth2/authorize'',
     pv_token = ''https://api.dropboxapi.com/oauth2/token'',
     pv_refresh = ''https://api.dropboxapi.com/oauth2/token'',
     pv_client_auth = AuthForm,
     pv_scopes = [''account_info.read'', ''files.metadata.read'', ''files.content.read'', ''files.content.write'', ''sharing.read''],
     pv_scope_param = (''scope'', '' ''), pv_tokens_at = None, pv_dead = [''invalid_grant''],
     pv_extra_authorize = [(''token_access_type'', ''offline'')],
     pv_identity = IdentityBearer ''POST'' ''https://api.dropboxapi.com/2/users/get_current_account'',
     pv_revoke = RevokeBearer ''https://api.dropboxapi.com/2/auth/token/revoke'',
     pv_reads = [post ''api.dropboxapi.com'' ''/2/files/list_folder'',
       post ''api.dropboxapi.com'' ''/2/files/list_folder/continue'',
       post ''api.dropboxapi.com'' ''/2/files/get_metadata'',
       post ''api.dropboxapi.com'' ''/2/files/search_v2'',
       post ''api.dropboxapi.com'' ''/2/files/search/continue_v2'',
       post ''api.dropboxapi.com'' ''/2/sharing/list_folders'',
       post ''api.dropboxapi.com'' ''/2/sharing/list_folders/continue'',
       post ''api.dropboxapi.com'' ''/2/users/get_current_account'',
       post ''content.dropboxapi.com'' ''/2/files/download'',
       post ''content.dropboxapi.com'' ''/2/files/export''],
     pv_writes = [post ''content.dropboxapi.com'' ''/2/files/upload'',
       post ''api.dropboxapi.com'' ''/2/files/create_folder_v2''],
     pv_headers = [''dropbox-api-arg'', ''dropbox-api-path-root''], pv_mcp_tools = None \<rparr>"

definition SLACK :: provider where
  "SLACK = \<lparr> pv_name = ''slack'',
     pv_authorization = ''https://slack.com/oauth/v2/authorize'',
     pv_token = ''https://slack.com/api/oauth.v2.access'',
     pv_refresh = ''https://slack.com/api/oauth.v2.access'',
     pv_client_auth = AuthForm,
     pv_scopes = [''channels:read'', ''channels:history'', ''groups:read'', ''groups:history'', ''im:read'', ''im:history'',
       ''mpim:read'', ''mpim:history'', ''users:read''],
     pv_scope_param = (''user_scope'', '',''), pv_tokens_at = Some ''authed_user'', pv_dead = [''invalid_refresh_token''],
     pv_extra_authorize = [],
     pv_identity = IdentityBearer ''POST'' ''https://slack.com/api/auth.test'',
     pv_revoke = RevokeBearer ''https://slack.com/api/auth.revoke'',
     pv_reads = [get ''slack.com'' ''/api/conversations.list'',
       get ''slack.com'' ''/api/conversations.history'',
       get ''slack.com'' ''/api/users.info''],
     pv_writes = [], pv_headers = [], pv_mcp_tools = None \<rparr>"

definition FIGMA :: provider where
  "FIGMA = \<lparr> pv_name = ''figma'',
     pv_authorization = ''https://www.figma.com/oauth'',
     pv_token = ''https://api.figma.com/v1/oauth/token'',
     pv_refresh = ''https://api.figma.com/v1/oauth/refresh'',
     pv_client_auth = AuthBasic,
     pv_scopes = [''current_user:read'', ''file_content:read'', ''file_metadata:read'', ''file_comments:read'', ''folders:read''],
     pv_scope_param = (''scope'', '' ''), pv_tokens_at = None, pv_dead = [''invalid_grant''],
     pv_extra_authorize = [],
     pv_identity = IdentityBearer ''GET'' ''https://api.figma.com/v1/me'',
     pv_revoke = RevokeLocal,
     pv_reads = [get ''api.figma.com'' ''/v1/me'',
       get ''api.figma.com'' ''/v2/teams/{id}/folders'',
       get ''api.figma.com'' ''/v2/folders/{id}/folders'',
       get ''api.figma.com'' ''/v2/folders/{id}/files'',
       get ''api.figma.com'' ''/v1/files/{id}'',
       get ''api.figma.com'' ''/v1/files/{id}/nodes'',
       get ''api.figma.com'' ''/v1/images/{id}'',
       get ''api.figma.com'' ''/v1/files/{id}/comments''],
     pv_writes = [], pv_headers = [], pv_mcp_tools = None \<rparr>"

definition HUBSPOT_READ_TOOLS :: "string list" where
  "HUBSPOT_READ_TOOLS = [''get_campaign_attribution_reports'', ''get_aeo_metrics'', ''get_conversation_channel_metadata'',
     ''search_intent_signals'', ''discover_hubspot_schema'', ''get_content_analytics_report'', ''get_properties'',
     ''get_crm_objects'', ''search_conversations'', ''get_user_details'', ''search_crm_objects'',
     ''get_marketing_email_analytics'', ''search_owners'', ''query_crm_data'', ''read_campaign_data'',
     ''get_organization_details'', ''search_properties'', ''tool_guidance'']"

definition HUBSPOT :: provider where
  "HUBSPOT = \<lparr> pv_name = ''hubspot'',
     pv_authorization = ''https://mcp.hubspot.com/oauth/authorize/user'',
     pv_token = ''https://mcp.hubspot.com/oauth/v3/token'',
     pv_refresh = ''https://mcp.hubspot.com/oauth/v3/token'',
     pv_client_auth = AuthForm, pv_scopes = [],
     pv_scope_param = (''scope'', '' ''), pv_tokens_at = None, pv_dead = [''invalid_grant''],
     pv_extra_authorize = [],
     pv_identity = IdentityMcp ''https://mcp.hubspot.com/'' ''get_user_details'' [] [''/accountId'', ''/userId'']
       [''/userInformation/email''],
     pv_revoke = RevokeLocal,
     pv_reads = [post ''mcp.hubspot.com'' ''/''],
     pv_writes = [], pv_headers = [], pv_mcp_tools = Some HUBSPOT_READ_TOOLS \<rparr>"

definition NOTION_READ_TOOLS :: "string list" where
  "NOTION_READ_TOOLS = [''notion-search'', ''notion-get-tool-access'', ''notion-fetch'', ''notion-download-attachment'',
     ''notion-get-comments'', ''notion-get-async-task'', ''notion-get-teams'', ''notion-get-users'',
     ''notion-query-data-sources'', ''notion-query-multiple-data-sources'', ''notion-query-meeting-notes'',
     ''notion-list-private-pages'', ''notion-list-shared-pages'', ''notion-list-favorite-pages'',
     ''notion-list-recent-pages'']"

definition NOTION :: provider where
  "NOTION = \<lparr> pv_name = ''notion'',
     pv_authorization = ''https://mcp.notion.com/authorize'',
     pv_token = ''https://mcp.notion.com/token'',
     pv_refresh = ''https://mcp.notion.com/token'',
     pv_client_auth = AuthPublic, pv_scopes = [''default''],
     pv_scope_param = (''scope'', '' ''), pv_tokens_at = None, pv_dead = [''invalid_grant'', ''invalid_token''],
     pv_extra_authorize = [],
     pv_identity = IdentityMcp ''https://mcp.notion.com/mcp'' ''notion-fetch'' [(''id'', ''self'')]
       [''/self/workspace/id'', ''/self/user/id''] [''/self/user/email'', ''/self/user/name''],
     pv_revoke = RevokeAccessForm ''https://mcp.notion.com/token'',
     pv_reads = [post ''mcp.notion.com'' ''/mcp''],
     pv_writes = [], pv_headers = [], pv_mcp_tools = Some NOTION_READ_TOOLS \<rparr>"

definition PROVIDERS :: "provider list" where
  "PROVIDERS = [GOOGLE, DROPBOX, SLACK, FIGMA, HUBSPOT, NOTION]"

definition provider_named :: "string \<Rightarrow> provider option" where
  "provider_named name = find (\<lambda>p. pv_name p = name) PROVIDERS"

section \<open>PKCE and the authorization URL\<close>

definition challenge :: "'x ext_scheme \<Rightarrow> string \<Rightarrow> string" where
  "challenge E verifier = b64_enc E (sha256 E (as_bytes verifier))"

definition pkce :: "'x ext_scheme \<Rightarrow> bytes \<Rightarrow> string \<times> string" where
  "pkce E rnd = (let verifier = b64_enc E rnd in (verifier, challenge E verifier))"

definition authorization_url :: "'x net_ext_scheme \<Rightarrow> provider \<Rightarrow> string \<Rightarrow> string \<Rightarrow> string \<Rightarrow> string \<Rightarrow> string option" where
  "authorization_url E p client_id redirect_uri state chal =
     url_with_params E (pv_authorization p)
       (filter (\<lambda>e. snd e \<noteq> []) [(''client_id'', client_id), (''redirect_uri'', redirect_uri), (''response_type'', ''code''),
          (fst (pv_scope_param p), join (snd (pv_scope_param p)) (pv_scopes p)), (''state'', state), (''code_challenge'', chal),
          (''code_challenge_method'', ''S256'')] @ pv_extra_authorize p)"

section \<open>Tokens\<close>

record tokens =
  tk_access :: string
  tk_refresh :: string
  tk_scope :: string

definition base_request :: "string \<Rightarrow> http_target \<Rightarrow> outgoing" where
  "base_request m u = \<lparr> og_method = m, og_to = u, og_bearer = None, og_basic = None, og_headers = [], og_payload = NoBody \<rparr>"

definition token_request :: "provider \<Rightarrow> string \<Rightarrow> string \<Rightarrow> string option \<Rightarrow> (string \<times> string) list \<Rightarrow> outgoing option" where
  "token_request p u client_id client_secret form =
     (let r = base_request ''POST'' (Fixed u) in
      case pv_client_auth p of
        AuthBasic \<Rightarrow> map_option (\<lambda>sec. r\<lparr> og_basic := Some (client_id, sec), og_payload := Form form \<rparr>) client_secret
      | AuthForm \<Rightarrow>
          map_option (\<lambda>sec. r\<lparr> og_payload := Form (form @ [(''client_id'', client_id), (''client_secret'', sec)]) \<rparr>) client_secret
      | AuthPublic \<Rightarrow> Some (r\<lparr> og_payload := Form (form @ [(''client_id'', client_id)]) \<rparr>))"

definition token_reply_de :: "json \<Rightarrow> (string \<times> string option \<times> string) option" where
  "token_reply_de v =
     Option.bind (struct_fields False [(''access_token'', False), (''refresh_token'', True), (''scope'', True)] v) (\<lambda>m.
     Option.bind (field m ''access_token'' json_as_str) (\<lambda>a.
     Option.bind (opt_field m ''refresh_token'' json_as_str) (\<lambda>r.
     Option.bind (case map_of m ''scope'' of None \<Rightarrow> Some [] | Some sc \<Rightarrow> json_as_str sc) (\<lambda>sc. Some (a, r, sc)))))"

definition read_tokens :: "'x ext_scheme \<Rightarrow> provider \<Rightarrow> answer \<Rightarrow> (tokens, string) result" where
  "read_tokens E p a =
     and_then (ok_or (Option.bind (answer_json E a) plain_visit) ''token_malformed'') (\<lambda>reply.
     let at = (case pv_tokens_at p of None \<Rightarrow> reply
               | Some key \<Rightarrow> (case json_get reply key of None \<Rightarrow> JNull | Some v \<Rightarrow> v)) in
     and_then (ok_or (token_reply_de at) ''token_malformed'') (\<lambda>(acc, ref, sc).
     and_then (ok_or ref ''no_refresh_token'') (\<lambda>r.
     Ok \<lparr> tk_access = acc, tk_refresh = r, tk_scope = sc \<rparr>)))"

definition exchange :: "'x net_ext_scheme \<Rightarrow> provider \<Rightarrow> string \<Rightarrow> string option \<Rightarrow> string \<Rightarrow> string \<Rightarrow> string \<Rightarrow>
    (outgoing list, tokens, string) action" where
  "exchange E p client_id client_secret redirect_uri auth_code verifier =
     act_bind (act_lift (ok_or (token_request p (pv_token p) client_id client_secret
       [(''grant_type'', ''authorization_code''), (''code'', auth_code), (''code_verifier'', verifier), (''redirect_uri'', redirect_uri)])
       ''no_client_secret'')) (\<lambda>r.
     act_bind (send E r ''token_unreachable'') (\<lambda>a.
     act_refuse (\<not> is_success a) ''token_refused'' (act_lift (read_tokens E p a))))"

record refreshed =
  rf_access :: string
  rf_expires_in :: "nat option"
  rf_refresh :: "string option"

datatype refresh_error = Dead | Other string

definition refresh_reply_de :: "raw \<Rightarrow> (string option \<times> nat option \<times> string option \<times> json option) option" where
  "refresh_reply_de v =
     Option.bind (raw_fields False [(''access_token'', True), (''expires_in'', True), (''refresh_token'', True), (''error'', True)] v) (\<lambda>m.
     Option.bind (raw_opt_field m ''access_token'' raw_as_str) (\<lambda>a.
     Option.bind (raw_opt_field m ''expires_in'' raw_as_u64) (\<lambda>e.
     Option.bind (raw_opt_field m ''refresh_token'' raw_as_str) (\<lambda>r.
     Option.bind (raw_opt_field m ''error'' plain_visit) (\<lambda>err. Some (a, e, r, err))))))"

definition read_refreshed :: "'x ext_scheme \<Rightarrow> provider \<Rightarrow> answer \<Rightarrow> (refreshed, refresh_error) result" where
  "read_refreshed E p a =
     and_then (ok_or (Option.bind (answer_json E a) refresh_reply_de) (Other ''token_malformed'')) (\<lambda>(acc, exp, ref, err).
     refuse_if (case Option.bind err json_as_str of None \<Rightarrow> False | Some e \<Rightarrow> e \<in> set (pv_dead p)) Dead
     (case (is_success a, acc) of
        (True, Some t) \<Rightarrow> Ok \<lparr> rf_access = t, rf_expires_in = exp, rf_refresh = ref \<rparr>
      | _ \<Rightarrow> Err (Other ''token_refused'')))"

definition refresh :: "'x net_ext_scheme \<Rightarrow> provider \<Rightarrow> string \<Rightarrow> string option \<Rightarrow> string \<Rightarrow>
    (outgoing list, refreshed, refresh_error) action" where
  "refresh E p client_id client_secret refresh_token =
     act_bind (act_lift (ok_or (token_request p (pv_refresh p) client_id client_secret
       [(''grant_type'', ''refresh_token''), (''refresh_token'', refresh_token)]) (Other ''no_client_secret''))) (\<lambda>r.
     act_bind (send E r (Other ''token_unreachable'')) (\<lambda>a. act_lift (read_refreshed E p a)))"

section \<open>The account behind a token\<close>

record account =
  ac_subject :: string
  ac_email :: string

fun rename_subject :: "raw \<Rightarrow> raw" where
  "rename_subject (RMap es) = RMap (map (\<lambda>(k, v). (if k \<in> {''account_id'', ''id''} then ''sub'' else k, v)) es)"
| "rename_subject r = r"

definition account_de :: "raw \<Rightarrow> account option" where
  "account_de v =
     Option.bind (raw_fields False [(''sub'', False), (''email'', False)] (rename_subject v)) (\<lambda>m.
     Option.bind (raw_field m ''sub'' raw_as_str) (\<lambda>sb.
     Option.bind (raw_field m ''email'' raw_as_str) (\<lambda>e. Some \<lparr> ac_subject = sb, ac_email = e \<rparr>)))"

definition team_de :: "raw \<Rightarrow> account option" where
  "team_de v =
     Option.bind (raw_fields False [(''team_id'', False), (''user_id'', False), (''user'', False), (''team'', False)] v) (\<lambda>m.
     Option.bind (raw_field m ''team_id'' raw_as_str) (\<lambda>ti.
     Option.bind (raw_field m ''user_id'' raw_as_str) (\<lambda>ui.
     Option.bind (raw_field m ''user'' raw_as_str) (\<lambda>u.
     Option.bind (raw_field m ''team'' raw_as_str) (\<lambda>t.
     Some \<lparr> ac_subject = ti @ '':'' @ ui, ac_email = u @ '' @ '' @ t \<rparr>)))))"

definition account_reply_de :: "raw \<Rightarrow> account option" where
  "account_reply_de v = (case account_de v of None \<Rightarrow> team_de v | Some a \<Rightarrow> Some a)"

text \<open>\<open>str::lines\<close>: split at line feeds, without a carriage return before one and without a last empty line.\<close>

definition strip_cr :: "string \<Rightarrow> string" where
  "strip_cr l = (case strip_suffix [CHR 0x0D] l of None \<Rightarrow> l | Some r \<Rightarrow> r)"

definition str_lines :: "string \<Rightarrow> string list" where
  "str_lines t = (let ls = split_on (CHR 0x0A) t in map strip_cr (butlast ls) @ (if last ls = [] then [] else [last ls]))"

definition tool_content :: "'x ext_scheme \<Rightarrow> string \<Rightarrow> json option" where
  "tool_content E reply =
     Option.bind (find (\<lambda>r. r \<noteq> None) (map (\<lambda>r. Option.bind (json_from_str E (trim r)) (\<lambda>v. json_get v ''result''))
       (reply # List.map_filter (strip_prefix ''data:'') (str_lines reply)))) (\<lambda>found.
     Option.bind found (\<lambda>result.
     if json_get result ''isError'' = Some (JBool True) then None
     else
       Option.bind (Option.bind (json_get result ''content'') json_as_array) (\<lambda>items.
       Option.bind (find (\<lambda>c. Option.bind (json_get c ''type'') json_as_str = Some ''text'') items) (\<lambda>c.
       Option.bind (Option.bind (json_get c ''text'') json_as_str) (json_from_str E)))))"

text \<open>\<open>Value::pointer\<close>.\<close>

fun replace_pair :: "char \<Rightarrow> char \<Rightarrow> char \<Rightarrow> string \<Rightarrow> string" where
  "replace_pair a b c (x # y # r) = (if x = a \<and> y = b then c # replace_pair a b c r else x # replace_pair a b c (y # r))"
| "replace_pair a b c s = s"

definition array_index :: "string \<Rightarrow> nat option" where
  "array_index t = (if starts_with ''+'' t \<or> (starts_with ''0'' t \<and> length t \<noteq> 1) then None else parse_uint (2 ^ 64 - 1) t)"

fun pointer_step :: "json option \<Rightarrow> string \<Rightarrow> json option" where
  "pointer_step (Some (JObject m)) t = map_of m t"
| "pointer_step (Some (JArray xs)) t =
     Option.bind (array_index t) (\<lambda>i. if i < length xs then Some (xs ! i) else None)"
| "pointer_step _ t = None"

definition json_pointer :: "json \<Rightarrow> string \<Rightarrow> json option" where
  "json_pointer v p =
     (if p = [] then Some v
      else if \<not> starts_with ''/'' p then None
      else foldl pointer_step (Some v)
        (map (\<lambda>t. replace_pair (CHR ''~'') (CHR ''0'') (CHR ''~'') (replace_pair (CHR ''~'') (CHR ''1'') (CHR ''/'') t))
          (tl (split_on (CHR ''/'') p))))"

definition pointed_text :: "'x ext_scheme \<Rightarrow> json \<Rightarrow> string \<Rightarrow> string option" where
  "pointed_text E content p =
     Option.bind (json_pointer content p) (\<lambda>v.
     (case v of
        JString s \<Rightarrow> if s \<noteq> [] then Some s else None
      | JNumber n \<Rightarrow> Some (json_to_string E (JNumber n))
      | _ \<Rightarrow> None))"

definition mcp_account :: "'x ext_scheme \<Rightarrow> string list \<Rightarrow> string list \<Rightarrow> string \<Rightarrow> (account, string) result" where
  "mcp_account E subject name t =
     and_then (ok_or (tool_content E t) ''account_malformed'') (\<lambda>content.
     and_then (collect_results (\<lambda>p. ok_or (pointed_text E content p) ''account_malformed'') subject) (\<lambda>parts.
     and_then (ok_or (Option.bind (find (\<lambda>x. x \<noteq> None) (map (pointed_text E content) name)) (\<lambda>x. x)) ''account_malformed'') (\<lambda>email.
     Ok \<lparr> ac_subject = join '':'' parts, ac_email = email \<rparr>)))"

definition MCP_ACCEPT :: "string \<times> string" where
  "MCP_ACCEPT = (''accept'', ''application/json, text/event-stream'')"

definition with_mcp_accept :: "provider \<Rightarrow> outgoing \<Rightarrow> outgoing" where
  "with_mcp_accept p r = (if pv_mcp_tools p \<noteq> None then r\<lparr> og_headers := og_headers r @ [MCP_ACCEPT] \<rparr> else r)"

definition account_request :: "provider \<Rightarrow> outgoing" where
  "account_request p =
     (case pv_identity p of
        IdentityBearer m u \<Rightarrow> base_request m (Fixed u)
      | IdentityMcp u tool arguments _ _ \<Rightarrow>
          (with_mcp_accept p (base_request ''POST'' (Fixed u)))\<lparr> og_payload := JsonBody (jobj [(''jsonrpc'', JString ''2.0''), (''id'', jnat 1),
             (''method'', JString ''tools/call''),
             (''params'', jobj [(''name'', JString tool), (''arguments'', jobj (map (\<lambda>(k, v). (k, JString v)) arguments))])]) \<rparr>)"

text \<open>\<open>response_text\<close> is the decoding of \<open>reqwest\<close>, by the charset the answer names.\<close>

definition account_of :: "'x net_ext_scheme \<Rightarrow> provider \<Rightarrow> string \<Rightarrow> (outgoing list, account, string) action" where
  "account_of E p access_token =
     act_bind (send E ((account_request p)\<lparr> og_bearer := Some access_token \<rparr>) ''account_unreachable'') (\<lambda>a.
     act_refuse (\<not> is_success a) ''account_refused''
     (act_lift (case pv_identity p of
        IdentityBearer _ _ \<Rightarrow> ok_or (Option.bind (answer_json E a) account_reply_de) ''account_malformed''
      | IdentityMcp _ _ _ subject name \<Rightarrow>
          and_then (ok_or (answer_bytes a) ''account_unreachable'') (\<lambda>b.
          mcp_account E subject name (response_text E (aw_content_type a) b)))))"

section \<open>Revoking\<close>

text \<open>
  The attempt is cut off after five seconds; a request that has no answer by then is one that gets
  none, and nothing follows it.
\<close>

definition revoke :: "'x net_ext_scheme \<Rightarrow> provider \<Rightarrow> string \<Rightarrow> string option \<Rightarrow> string \<Rightarrow> outgoing list \<Rightarrow> outgoing list" where
  "revoke E p client_id client_secret refresh_token sent =
     (let after = (\<lambda>f. case refresh E p client_id client_secret refresh_token sent of
                        (Ok fresh, sent') \<Rightarrow> sent' @ [f (rf_access fresh)] | (Err _, sent') \<Rightarrow> sent') in
      case pv_revoke p of
        RevokeForm u \<Rightarrow> sent @ [(base_request ''POST'' (Fixed u))\<lparr> og_payload := Form [(''token'', refresh_token)] \<rparr>]
      | RevokeBearer u \<Rightarrow> after (\<lambda>t. (base_request ''POST'' (Fixed u))\<lparr> og_bearer := Some t \<rparr>)
      | RevokeAccessForm u \<Rightarrow>
          after (\<lambda>t. (base_request ''POST'' (Fixed u))\<lparr> og_payload := Form [(''token'', t), (''token_type_hint'', ''access_token''),
            (''client_id'', client_id)] \<rparr>)
      | RevokeLocal \<Rightarrow> sent)"

end
