(* ===== verification/Broker_Store.thy ===== *)
theory Broker_Store
  imports Broker_OAuth
begin

text \<open>
  \<^verbatim>\<open>services/alpha-broker/src/store.rs\<close> and the broker's migrations: values sealed under the connectors
  key, and every query on its three tables. A table is the list of its rows in the order they were
  inserted; \<open>now\<close> is the database's clock. Failures of the database itself are not modelled; a broken
  constraint is \<open>None\<close>.
\<close>

section \<open>Sealing\<close>

definition store_seal :: "'x ext_scheme \<Rightarrow> bytes option \<Rightarrow> bytes \<Rightarrow> bytes \<Rightarrow> bytes \<Rightarrow> bytes option" where
  "store_seal E rnd key aad plaintext =
     Option.bind rnd (\<lambda>n. map_option (\<lambda>ct. n @ ct) (aes_gcm_enc E key n aad plaintext))"

definition store_aad :: "'x ext_scheme \<Rightarrow> bytes \<Rightarrow> bytes \<Rightarrow> string \<Rightarrow> bytes" where
  "store_aad E row member provider_name = row @ sha256 E member @ as_bytes provider_name"

definition store_open :: "'x ext_scheme \<Rightarrow> bytes \<Rightarrow> bytes \<Rightarrow> bytes \<Rightarrow> bytes option" where
  "store_open E key aad blob =
     (if length blob < 12 then None else aes_gcm_dec E key (take 12 blob) aad (drop 12 blob))"

section \<open>Tables\<close>

record pending_row =
  pe_state :: string
  pe_member :: bytes
  pe_provider :: string
  pe_enc_pkce_verifier :: bytes
  pe_exp :: time

record connection =
  cn_id :: uuid
  cn_member :: bytes
  cn_provider :: string
  cn_subject :: string
  cn_account :: string
  cn_enc_refresh_token :: "bytes option"
  cn_scopes :: string
  cn_created_at :: time
  cn_dead_at :: "time option"
  cn_revoked_at :: "time option"

record broker_db =
  bd_pending :: "pending_row list"
  bd_connections :: "connection list"
  bd_nonces :: "(bytes \<times> time) list"

definition minutes :: "int \<Rightarrow> time" where
  "minutes n = n * 60 * 1000000000"

definition purge_expired :: "time \<Rightarrow> broker_db \<Rightarrow> broker_db" where
  "purge_expired now d = d\<lparr> bd_pending := filter (\<lambda>p. \<not> pe_exp p < now) (bd_pending d),
     bd_nonces := filter (\<lambda>n. \<not> snd n < now) (bd_nonces d) \<rparr>"

definition use_nonce :: "time \<Rightarrow> bytes \<Rightarrow> broker_db \<Rightarrow> bool \<times> broker_db" where
  "use_nonce now n d =
     (if n \<in> fst ` set (bd_nonces d) then (False, d)
      else (True, d\<lparr> bd_nonces := bd_nonces d @ [(n, now + minutes 2)] \<rparr>))"

definition insert_pending :: "time \<Rightarrow> string \<Rightarrow> bytes \<Rightarrow> string \<Rightarrow> bytes \<Rightarrow> broker_db \<Rightarrow> broker_db option" where
  "insert_pending now st member prov enc d =
     (if st \<in> pe_state ` set (bd_pending d) then None
      else Some (d\<lparr> bd_pending := bd_pending d @ [\<lparr> pe_state = st, pe_member = member, pe_provider = prov,
        pe_enc_pkce_verifier = enc, pe_exp = now + minutes 10 \<rparr>] \<rparr>))"

text \<open>The row, and whether it was still live.\<close>

definition take_pending :: "time \<Rightarrow> string \<Rightarrow> broker_db \<Rightarrow> (pending_row \<times> bool) option \<times> broker_db" where
  "take_pending now st d =
     (map_option (\<lambda>p. (p, pe_exp p > now)) (find (\<lambda>p. pe_state p = st) (bd_pending d)),
      d\<lparr> bd_pending := filter (\<lambda>p. pe_state p \<noteq> st) (bd_pending d) \<rparr>)"

definition update_rows :: "(connection \<Rightarrow> bool) \<Rightarrow> (connection \<Rightarrow> connection) \<Rightarrow> broker_db \<Rightarrow> broker_db" where
  "update_rows which f d = d\<lparr> bd_connections := map (\<lambda>c. if which c then f c else c) (bd_connections d) \<rparr>"

definition live :: "connection \<Rightarrow> bool" where
  "live c \<longleftrightarrow> cn_revoked_at c = None"

definition save_connection :: "'x ext_scheme \<Rightarrow> bytes option \<Rightarrow> time \<Rightarrow> uuid \<Rightarrow> bytes \<Rightarrow> bytes \<Rightarrow> string \<Rightarrow> account \<Rightarrow>
    string \<Rightarrow> string \<Rightarrow> broker_db \<Rightarrow> (uuid \<times> broker_db) option" where
  "save_connection E rnd now fresh key member prov acct refresh_token scopes d =
     (let existing = find (\<lambda>c. cn_member c = member \<and> cn_provider c = prov \<and> cn_subject c = ac_subject acct \<and> live c)
                       (bd_connections d);
          i = (case existing of None \<Rightarrow> fresh | Some c \<Rightarrow> cn_id c) in
      Option.bind (store_seal E rnd key (store_aad E (uuid_bytes i) member prov) (as_bytes refresh_token)) (\<lambda>sealed.
      case existing of
        None \<Rightarrow>
          (if i \<in> cn_id ` set (bd_connections d) then None
           else Some (i, d\<lparr> bd_connections := bd_connections d @ [\<lparr> cn_id = i, cn_member = member, cn_provider = prov,
             cn_subject = ac_subject acct, cn_account = ac_email acct, cn_enc_refresh_token = Some sealed, cn_scopes = scopes,
             cn_created_at = now, cn_dead_at = None, cn_revoked_at = None \<rparr>] \<rparr>))
      | Some _ \<Rightarrow>
          Some (i, update_rows (\<lambda>c. cn_id c = i)
            (\<lambda>c. c\<lparr> cn_account := ac_email acct, cn_enc_refresh_token := Some sealed, cn_scopes := scopes, cn_dead_at := None \<rparr>) d)))"

definition list_connections :: "bytes \<Rightarrow> broker_db \<Rightarrow> connection list" where
  "list_connections member d =
     sort_key cn_created_at (sort_key cn_id (filter (\<lambda>c. cn_member c = member \<and> live c) (bd_connections d)))"

text \<open>The provider and the sealed token, and whether another live connection holds the same account.\<close>

definition revoke_connection :: "time \<Rightarrow> uuid \<Rightarrow> bytes \<Rightarrow> broker_db \<Rightarrow> (string \<times> bytes option \<times> bool) option \<times> broker_db" where
  "revoke_connection now i member d =
     (case find (\<lambda>c. cn_id c = i \<and> cn_member c = member \<and> live c) (bd_connections d) of
        None \<Rightarrow> (None, d)
      | Some p \<Rightarrow>
          (Some (cn_provider p, cn_enc_refresh_token p,
             list_ex (\<lambda>x. cn_provider x = cn_provider p \<and> cn_subject x = cn_subject p \<and> cn_id x \<noteq> cn_id p \<and> live x
               \<and> cn_dead_at x = None) (bd_connections d)),
           update_rows (\<lambda>c. cn_id c = i) (\<lambda>c. c\<lparr> cn_revoked_at := Some now, cn_enc_refresh_token := None \<rparr>) d))"

definition load_connection :: "uuid \<Rightarrow> bytes \<Rightarrow> broker_db \<Rightarrow> (string \<times> bool) option" where
  "load_connection i member d =
     map_option (\<lambda>c. (cn_provider c, cn_dead_at c \<noteq> None))
       (find (\<lambda>c. cn_id c = i \<and> cn_member c = member \<and> live c) (bd_connections d))"

definition load_grant_keys :: "uuid list \<Rightarrow> broker_db \<Rightarrow> (uuid \<times> bytes) list" where
  "load_grant_keys ids d = map (\<lambda>c. (cn_id c, cn_member c)) (filter (\<lambda>c. cn_id c \<in> set ids \<and> live c) (bd_connections d))"

definition lock_token :: "uuid \<Rightarrow> broker_db \<Rightarrow> bytes option" where
  "lock_token i d = Option.bind (find (\<lambda>c. cn_id c = i \<and> live c) (bd_connections d)) cn_enc_refresh_token"

definition mark_dead :: "time \<Rightarrow> uuid \<Rightarrow> broker_db \<Rightarrow> broker_db" where
  "mark_dead now i = update_rows (\<lambda>c. cn_id c = i) (\<lambda>c. c\<lparr> cn_dead_at := Some now \<rparr>)"

definition replace_refresh_token :: "uuid \<Rightarrow> bytes \<Rightarrow> broker_db \<Rightarrow> broker_db" where
  "replace_refresh_token i sealed = update_rows (\<lambda>c. cn_id c = i) (\<lambda>c. c\<lparr> cn_enc_refresh_token := Some sealed \<rparr>)"

section \<open>The tables' invariant\<close>

text \<open>
  What the migrations declare: primary keys, one live connection of a member to an account, and a
  sealed token exactly in the rows not revoked.
\<close>

definition account_key :: "connection \<Rightarrow> bytes \<times> string \<times> string" where
  "account_key c = (cn_member c, cn_provider c, cn_subject c)"

definition token_ok :: "connection \<Rightarrow> bool" where
  "token_ok c \<longleftrightarrow> (cn_enc_refresh_token c \<noteq> None) = live c"

definition tables_ok :: "broker_db \<Rightarrow> bool" where
  "tables_ok d \<longleftrightarrow> distinct (map cn_id (bd_connections d)) \<and> distinct (map pe_state (bd_pending d)) \<and> distinct (map fst (bd_nonces d))
     \<and> list_all token_ok (bd_connections d) \<and> distinct (map account_key (filter live (bd_connections d)))"

lemma distinct_map_filter [simp]: "distinct (map f xs) \<Longrightarrow> distinct (map f (filter P xs))"
  by (induction xs) auto

lemma purge_expired_ok: "tables_ok d \<Longrightarrow> tables_ok (purge_expired now d)"
  by (simp add: tables_ok_def purge_expired_def)

lemma use_nonce_ok: "tables_ok d \<Longrightarrow> use_nonce now n d = (b, d') \<Longrightarrow> tables_ok d'"
  by (auto simp: tables_ok_def use_nonce_def split: if_splits)

lemma insert_pending_ok: "tables_ok d \<Longrightarrow> insert_pending now st m p e d = Some d' \<Longrightarrow> tables_ok d'"
  by (auto simp: tables_ok_def insert_pending_def split: if_splits)

lemma take_pending_ok: "tables_ok d \<Longrightarrow> tables_ok (snd (take_pending now st d))"
  by (simp add: tables_ok_def take_pending_def)

text \<open>An update that keeps who a row belongs to, never brings a revoked row back and keeps tokens with live rows.\<close>

lemma update_rows_ok:
  assumes d: "tables_ok d"
    and f: "\<And>c. cn_id (f c) = cn_id c" "\<And>c. account_key (f c) = account_key c"
    and l: "\<And>c. c \<in> set (bd_connections d) \<Longrightarrow> P c \<Longrightarrow> (live (f c) \<longrightarrow> live c) \<and> token_ok (f c)"
  shows "tables_ok (update_rows P f d)"
proof -
  define g where "g c = (if P c then f c else c)" for c
  have g: "cn_id (g c) = cn_id c" "account_key (g c) = account_key c" for c using f by (simp_all add: g_def)
  have w: "live (g c) \<longrightarrow> live c" "token_ok (g c)" if "c \<in> set (bd_connections d)" for c
    using l [OF that] d that by (auto simp: g_def tables_ok_def list_all_iff)
  have "filter (\<lambda>c. live (g c)) (bd_connections d) = filter (\<lambda>c. live (g c)) (filter live (bd_connections d))"
    using w(1) by (auto intro!: filter_cong)
  then have "map account_key (filter live (map g (bd_connections d))) =
      map account_key (filter (\<lambda>c. live (g c)) (filter live (bd_connections d)))"
    by (simp add: filter_map comp_def g del: filter_filter)
  moreover have "distinct (map account_key (filter live (bd_connections d)))" using d by (simp add: tables_ok_def)
  ultimately have "distinct (map account_key (filter live (map g (bd_connections d))))"
    by (simp only: distinct_map_filter)
  moreover have "list_all token_ok (map g (bd_connections d))" using w(2) by (simp add: list_all_iff)
  moreover have "update_rows P f d = d\<lparr> bd_connections := map g (bd_connections d) \<rparr>"
    by (simp add: update_rows_def g_def [abs_def])
  ultimately show ?thesis using d by (simp add: tables_ok_def comp_def g)
qed

lemma find_SomeD: "find P xs = Some x \<Longrightarrow> x \<in> set xs \<and> P x"
  by (auto simp: find_Some_iff)

lemma row_unique: "tables_ok d \<Longrightarrow> c \<in> set (bd_connections d) \<Longrightarrow> x \<in> set (bd_connections d) \<Longrightarrow> cn_id x = cn_id c \<Longrightarrow> x = c"
  by (auto simp: tables_ok_def distinct_map inj_on_def)

lemma update_live_row_ok:
  assumes "tables_ok d" and c: "c \<in> set (bd_connections d)" "live c"
    and f: "\<And>x. cn_id (f x) = cn_id x" "\<And>x. account_key (f x) = account_key x" "\<And>x. live x \<Longrightarrow> token_ok (f x)"
  shows "tables_ok (update_rows (\<lambda>x. cn_id x = cn_id c) f d)"
proof (rule update_rows_ok [OF assms(1) f(1,2)])
  fix x
  assume "x \<in> set (bd_connections d)" "cn_id x = cn_id c"
  with row_unique [OF assms(1) c(1)] c(2) have "live x" by blast
  with f(3) show "(live (f x) \<longrightarrow> live x) \<and> token_ok (f x)" by blast
qed

lemma save_connection_ok:
  assumes "tables_ok d" and "save_connection E rnd now fresh key m p a t sc d = Some (i, d')"
  shows "tables_ok d'"
proof (cases "find (\<lambda>c. cn_member c = m \<and> cn_provider c = p \<and> cn_subject c = ac_subject a \<and> live c) (bd_connections d)")
  case None
  with assms(2) obtain sealed where i: "i \<notin> cn_id ` set (bd_connections d)" and d': "d' = d\<lparr> bd_connections := bd_connections d @
      [\<lparr> cn_id = i, cn_member = m, cn_provider = p, cn_subject = ac_subject a, cn_account = ac_email a,
         cn_enc_refresh_token = Some sealed, cn_scopes = sc, cn_created_at = now, cn_dead_at = None, cn_revoked_at = None \<rparr>] \<rparr>"
    by (auto simp: save_connection_def Let_def bind_eq_Some_conv split: if_splits)
  from None have "(m, p, ac_subject a) \<notin> account_key ` set (filter live (bd_connections d))"
    by (auto simp: find_None_iff account_key_def)
  with assms(1) i show ?thesis by (simp add: tables_ok_def d' token_ok_def live_def account_key_def)
next
  case (Some c)
  then have c: "c \<in> set (bd_connections d)" "live c" by (auto dest: find_SomeD)
  from Some assms(2) obtain sealed where d': "d' = update_rows (\<lambda>x. cn_id x = cn_id c)
      (\<lambda>x. x\<lparr> cn_account := ac_email a, cn_enc_refresh_token := Some sealed, cn_scopes := sc, cn_dead_at := None \<rparr>) d"
    by (auto simp: save_connection_def Let_def bind_eq_Some_conv)
  show ?thesis
    unfolding d' by (rule update_live_row_ok [OF assms(1) c]) (auto simp: live_def token_ok_def account_key_def)
qed

lemma revoke_connection_ok: "tables_ok d \<Longrightarrow> tables_ok (snd (revoke_connection now i m d))"
  by (auto simp: revoke_connection_def live_def token_ok_def account_key_def intro!: update_rows_ok split: option.splits)

lemma mark_dead_ok: "tables_ok d \<Longrightarrow> tables_ok (mark_dead now i d)"
  unfolding mark_dead_def by (rule update_rows_ok) (auto simp: live_def token_ok_def account_key_def tables_ok_def list_all_iff)

lemma replace_refresh_token_ok:
  assumes "tables_ok d" and "lock_token i d = Some old"
  shows "tables_ok (replace_refresh_token i sealed d)"
proof -
  obtain c where c: "c \<in> set (bd_connections d)" "live c" and i: "i = cn_id c"
    using assms(2) by (auto simp: lock_token_def bind_eq_Some_conv dest!: find_SomeD)
  show ?thesis
    unfolding replace_refresh_token_def i
    by (rule update_live_row_ok [OF assms(1) c]) (auto simp: live_def token_ok_def account_key_def)
qed

end
