(* ===== verification/Broker.thy ===== *)
theory Broker
  imports Broker_Store Channel_Member Channel_Binding
begin

text \<open>
  \<^verbatim>\<open>services/alpha-broker/src/lib.rs\<close>, \<^verbatim>\<open>channel.rs\<close>, \<^verbatim>\<open>connect.rs\<close> and \<^verbatim>\<open>proxy.rs\<close>: the broker's configuration,
  its table of channels and its routes. The state holds the database, the cached access tokens, the
  open channels, the Secrets and the responder, and every request sent to a provider. A handler runs as
  one step. Each reading of a clock and of the random number generator is part of the call; the texts
  of error messages are not modelled. Axum's routing and its limits on the size of a body are before
  the handlers.
\<close>

section \<open>Errors\<close>

datatype broker_error =
    BUnauthorized | BMalformed | BNotFound | BStateInvalid | BExchangeFailed | BCertInvalid | BNotAllowed
  | BReconnectRequired | BUpstream | BTooLarge | BChannelUnknown | BFrameInvalid | BReplayed | BSignatureInvalid
  | BRequestStale | BNonceReplayed | BGrantInvalid | BGrantExpired | BInternal

fun broker_parts :: "broker_error \<Rightarrow> nat \<times> string" where
  "broker_parts BUnauthorized = (401, ''unauthorized'')"
| "broker_parts BMalformed = (400, ''malformed'')"
| "broker_parts BNotFound = (404, ''not_found'')"
| "broker_parts BStateInvalid = (400, ''state_invalid'')"
| "broker_parts BExchangeFailed = (502, ''exchange_failed'')"
| "broker_parts BCertInvalid = (401, ''cert_invalid'')"
| "broker_parts BNotAllowed = (403, ''not_allowed'')"
| "broker_parts BReconnectRequired = (409, ''reconnect_required'')"
| "broker_parts BUpstream = (502, ''upstream'')"
| "broker_parts BTooLarge = (502, ''too_large'')"
| "broker_parts BChannelUnknown = (409, ''channel_unknown'')"
| "broker_parts BFrameInvalid = (400, ''frame_invalid'')"
| "broker_parts BReplayed = (409, ''replayed'')"
| "broker_parts BSignatureInvalid = (401, ''signature_invalid'')"
| "broker_parts BRequestStale = (401, ''request_stale'')"
| "broker_parts BNonceReplayed = (409, ''nonce_replayed'')"
| "broker_parts BGrantInvalid = (403, ''grant_invalid'')"
| "broker_parts BGrantExpired = (403, ''grant_expired'')"
| "broker_parts BInternal = (500, ''internal'')"

definition envelope :: "(broker_error \<Rightarrow> string) \<Rightarrow> broker_error \<Rightarrow> nat \<times> json" where
  "envelope message e = (fst (broker_parts e), jobj [(''error'', jobj [(''code'', JString (snd (broker_parts e))), (''message'', JString (message e))])])"

section \<open>Configuration\<close>

record broker_config =
  bf_client_ids :: "(string \<times> string) list"
  bf_redirect_base :: string

definition to_ascii_uppercase :: "string \<Rightarrow> string" where
  "to_ascii_uppercase s = map (\<lambda>c. if 97 \<le> code c \<and> code c \<le> 122 then char_of (code c - 32) else c) s"

definition trim_end_matches :: "char \<Rightarrow> string \<Rightarrow> string" where
  "trim_end_matches c s = rev (dropWhile ((=) c) (rev s))"

definition config_build :: "(string \<Rightarrow> string option) \<Rightarrow> (broker_config, broker_error) result" where
  "config_build env =
     and_then (collect_results (\<lambda>p.
       and_then (ok_or (Option.bind (map_option trim (env (to_ascii_uppercase (pv_name p) @ ''_CLIENT_ID''))) (\<lambda>v.
         if v = [] then None else Some v)) BInternal) (\<lambda>c. Ok (pv_name p, c))) PROVIDERS) (\<lambda>ids.
     and_then (ok_or (env ''OAUTH_REDIRECT_BASE'') BInternal) (\<lambda>base.
     refuse_if (\<not> starts_with ''https://'' base) BInternal
     (Ok \<lparr> bf_client_ids = ids, bf_redirect_base = trim_end_matches (CHR ''/'') base \<rparr>)))"

definition config_client_id :: "broker_config \<Rightarrow> provider \<Rightarrow> (string, broker_error) result" where
  "config_client_id cf p = ok_or (map_of (bf_client_ids cf) (pv_name p)) BInternal"

definition redirect_uri :: "broker_config \<Rightarrow> provider \<Rightarrow> string" where
  "redirect_uri cf p = bf_redirect_base cf @ ''/'' @ pv_name p @ ''/callback''"

section \<open>State\<close>

record broker_secrets =
  bs_client_secrets :: "(string \<times> string) list"
  bs_connect_bearer :: bytes
  bs_connectors_key :: bytes

record broker =
  bk_db :: broker_db
  bk_tokens :: "uuid \<rightharpoonup> (string \<times> time \<times> bytes)"
  bk_channels :: "(string \<times> channel \<times> time) list"
  bk_secrets :: broker_secrets
  bk_responder :: responder
  bk_sent :: "outgoing list"

text \<open>
  What a call finds: the clocks (the process's, the database's and the monotonic one), random bytes or
  the generator's failure, the bearer and the certificates presented, and the request.
\<close>

record bcall =
  bc_now :: time
  bc_db_now :: time
  bc_instant :: time
  bc_state_rand :: "bytes option"
  bc_verifier_rand :: "bytes option"
  bc_seal_rand :: "bool \<Rightarrow> bytes option"
  bc_handshake_rand :: "bytes option"
  bc_hpke_rand :: bytes
  bc_uuid :: uuid
  bc_authorization :: "string option"
  bc_peer :: "bytes list"
  bc_method :: string
  bc_path :: string
  bc_body :: bytes
  bc_message :: "broker_error \<Rightarrow> string"

type_synonym 'a handler = "(broker, 'a, broker_error) action"

definition on_db :: "(broker_db \<Rightarrow> 'a \<times> broker_db) \<Rightarrow> 'a handler" where
  "on_db f s = (case f (bk_db s) of (a, d) \<Rightarrow> (Ok a, s\<lparr> bk_db := d \<rparr>))"

definition on_db_opt :: "(broker_db \<Rightarrow> ('a \<times> broker_db) option) \<Rightarrow> 'a handler" where
  "on_db_opt f s = (case f (bk_db s) of None \<Rightarrow> (Err BInternal, s) | Some (a, d) \<Rightarrow> (Ok a, s\<lparr> bk_db := d \<rparr>))"

definition on_sent :: "(outgoing list, 'a, 'e) action \<Rightarrow> (broker, 'a, 'e) action" where
  "on_sent = act_on bk_sent (\<lambda>l. bk_sent_update (\<lambda>_. l))"

definition client :: "broker_config \<Rightarrow> provider \<Rightarrow> (string \<times> string option) handler" where
  "client cf p s = (and_then (config_client_id cf p) (\<lambda>i. Ok (i, map_of (bs_client_secrets (bk_secrets s)) (pv_name p))), s)"

section \<open>Who calls\<close>

definition bearer_matches :: "'x ext_scheme \<Rightarrow> bytes \<Rightarrow> bytes \<Rightarrow> bool" where
  "bearer_matches E presented expected \<longleftrightarrow>
     foldl (\<lambda>d (x, y). or d (xor x y)) (0 :: byte) (zip (sha256 E presented) (sha256 E expected)) = 0"

definition bearer :: "'x ext_scheme \<Rightarrow> string option \<Rightarrow> bytes \<Rightarrow> (unit, broker_error) result" where
  "bearer E authorization expected =
     and_then (ok_or (Option.bind authorization (strip_prefix ''Bearer '')) BUnauthorized) (\<lambda>presented.
     if bearer_matches E (as_bytes presented) expected then Ok () else Err BUnauthorized)"

definition authed_corpus :: "'x ext_scheme \<Rightarrow> bcall \<Rightarrow> unit handler" where
  "authed_corpus E c s = (bearer E (bc_authorization c) (bs_connect_bearer (bk_secrets s)), s)"

definition authed_instance :: "'x ext_scheme \<Rightarrow> bcall \<Rightarrow> (bytes, broker_error) result" where
  "authed_instance E c =
     (case bc_peer c of
        [] \<Rightarrow> Err BCertInvalid
      | leaf # _ \<Rightarrow>
          and_then (map_err (\<lambda>_. BCertInvalid) (and_then (uri_sans E leaf) (parse_instance_sans E))) (\<lambda>_.
          ok_or (spki_sha256 E leaf) BCertInvalid))"

section \<open>Channels\<close>

definition MAX_CHANNELS :: nat where "MAX_CHANNELS = 1024"
definition IDLE :: time where "IDLE = 3600 * 1000000000"

definition elapsed :: "time \<Rightarrow> time \<Rightarrow> time" where
  "elapsed now used = max 0 (now - used)"

text \<open>
  The least recently used channel; the one inserted first among equals, where the hash map's order
  would decide.
\<close>

fun oldest :: "(string \<times> channel \<times> time) list \<Rightarrow> (string \<times> channel \<times> time) option" where
  "oldest [] = None"
| "oldest (e # es) = (case oldest es of None \<Rightarrow> Some e | Some x \<Rightarrow> Some (if snd (snd e) \<le> snd (snd x) then e else x))"

definition channels_insert :: "time \<Rightarrow> channel \<Rightarrow> (string \<times> channel \<times> time) list \<Rightarrow> (string \<times> channel \<times> time) list" where
  "channels_insert now ch table =
     (let kept = filter (\<lambda>e. elapsed now (snd (snd e)) < IDLE) table;
          room = (if length kept \<ge> MAX_CHANNELS then
                    (case oldest kept of None \<Rightarrow> kept | Some e \<Rightarrow> filter (\<lambda>x. fst x \<noteq> fst e) kept)
                  else kept) in
      filter (\<lambda>x. fst x \<noteq> ch_id ch) room @ [(ch_id ch, ch, now)])"

definition channels_with :: "time \<Rightarrow> string \<Rightarrow> (channel \<Rightarrow> 'r \<times> channel) \<Rightarrow> (string \<times> channel \<times> time) list \<Rightarrow>
    'r option \<times> (string \<times> channel \<times> time) list" where
  "channels_with now cid f table =
     (case map_of table cid of
        None \<Rightarrow> (None, table)
      | Some (ch, used) \<Rightarrow>
          (if elapsed now used \<ge> IDLE then (None, filter (\<lambda>e. fst e \<noteq> cid) table)
           else (case f ch of (r, ch') \<Rightarrow>
             (Some r, map (\<lambda>e. if fst e = cid then (cid, ch', now) else e) table))))"

definition on_channel :: "bcall \<Rightarrow> string \<Rightarrow> (channel \<Rightarrow> ('r, 'e) result \<times> channel) \<Rightarrow> ('e \<Rightarrow> broker_error) \<Rightarrow> 'r handler" where
  "on_channel c cid f er s =
     (case channels_with (bc_instant c) cid f (bk_channels s) of (r, t) \<Rightarrow>
        (and_then (ok_or r BChannelUnknown) (map_err er), s\<lparr> bk_channels := t \<rparr>))"

definition PEM_END :: string where "PEM_END = ''-----END CERTIFICATE-----''"

function split_inclusive_end :: "string \<Rightarrow> string list" where
  "split_inclusive_end s =
     (if s = [] then [] else case split_once PEM_END s of None \<Rightarrow> [s] | Some (a, b) \<Rightarrow> (a @ PEM_END) # split_inclusive_end b)"
  by pat_completeness auto
termination
  by (relation "measure length") (auto simp: PEM_END_def dest: split_once_Some)

definition identity_blocks :: "string \<Rightarrow> string list" where
  "identity_blocks chain = filter (\<lambda>b. b \<noteq> []) (map trim (split_inclusive_end chain))"

definition runtime_responder :: "'x ext_scheme \<Rightarrow> string option \<Rightarrow> string option \<Rightarrow> string \<Rightarrow> bytes \<Rightarrow> (responder, broker_error) result" where
  "runtime_responder E app_compose init_data chain key =
     and_then (ok_or (case app_compose of None \<Rightarrow> init_data | Some c \<Rightarrow> Some c) BInternal) (\<lambda>compose.
     map_err (\<lambda>_. BInternal) (responder_new E (identity_blocks chain) key compose))"

definition parse_body :: "'x ext_scheme \<Rightarrow> (raw \<Rightarrow> 'a option) \<Rightarrow> bytes \<Rightarrow> ('a, broker_error) result" where
  "parse_body E dec b = ok_or (Option.bind (json_events E b) dec) BMalformed"

definition client_hello_raw_de :: "raw \<Rightarrow> client_hello option" where
  "client_hello_raw_de v = Option.bind (unique_visit v) client_hello_de"

definition open_channel :: "'x net_ext_scheme \<Rightarrow> bcall \<Rightarrow> server_hello handler" where
  "open_channel E c =
     act_bind (authed_corpus E c) (\<lambda>_.
     act_bind (act_lift (parse_body E client_hello_raw_de (bc_body c))) (\<lambda>hello.
     act_bind (act_read bk_responder) (\<lambda>rs.
     act_bind (act_lift (map_err (\<lambda>e. case e of Malformed \<Rightarrow> BMalformed | _ \<Rightarrow> BInternal)
       (respond E (bc_handshake_rand c) (bc_hpke_rand c) rs hello (bc_now c)))) (\<lambda>(reply, ch).
     act_bind (act_modify (\<lambda>s. s\<lparr> bk_channels := channels_insert (bc_instant c) ch (bk_channels s) \<rparr>)) (\<lambda>_.
     act_ok reply)))))"

record sealed =
  se_channel :: string
  se_seq :: u64
  se_plaintext :: bytes

definition request_frame_raw_de :: "raw \<Rightarrow> request_frame option" where
  "request_frame_raw_de v =
     Option.bind (raw_fields True [(''channel'', False), (''seq'', False), (''ct'', False)] v) (\<lambda>m.
     Option.bind (raw_field m ''channel'' raw_as_str) (\<lambda>ch.
     Option.bind (raw_field m ''seq'' raw_as_u64) (\<lambda>q.
     Option.bind (raw_field m ''ct'' raw_as_str) (\<lambda>t.
     Some \<lparr> frame_channel = ch, frame_seq = word_of_nat q, frame_ct = t \<rparr>))))"

definition sealed_open :: "'x ext_scheme \<Rightarrow> bcall \<Rightarrow> sealed handler" where
  "sealed_open E c =
     act_bind (act_lift (ok_or (Option.bind (json_events E (bc_body c)) request_frame_raw_de) BFrameInvalid)) (\<lambda>frame.
     act_bind (on_channel c (frame_channel frame) (\<lambda>ch. open_request E ch frame (bc_method c) (bc_path c))
       (\<lambda>e. case e of Replayed _ \<Rightarrow> BReplayed | _ \<Rightarrow> BFrameInvalid)) (\<lambda>plaintext.
     act_ok \<lparr> se_channel = frame_channel frame, se_seq = frame_seq frame, se_plaintext = plaintext \<rparr>))"

definition sealed_reply :: "'x ext_scheme \<Rightarrow> bcall \<Rightarrow> sealed \<Rightarrow> (json, broker_error) result \<Rightarrow> (nat \<times> string) handler" where
  "sealed_reply E c sl res =
     (let (status, body) = (case res of Ok b \<Rightarrow> (200, b) | Err e \<Rightarrow> envelope (bc_message c) e) in
      act_bind (on_channel c (se_channel sl) (\<lambda>ch. seal_response E ch (se_seq sl) True (as_bytes (json_to_string E body))) (\<lambda>_. BInternal))
        (\<lambda>line. act_ok (status, line @ [CHR 0x0A])))"

text \<open>A route whose result, a refusal included, is sealed.\<close>

definition sealed_route :: "'x ext_scheme \<Rightarrow> bcall \<Rightarrow> (sealed \<Rightarrow> json handler) \<Rightarrow> (nat \<times> string) handler" where
  "sealed_route E c h =
     act_bind (authed_corpus E c) (\<lambda>_.
     act_bind (sealed_open E c) (\<lambda>sl s. case h sl s of (res, t) \<Rightarrow> sealed_reply E c sl res t))"

section \<open>The member's routes\<close>

definition named_signature_raw_de :: "raw \<Rightarrow> named_signature option" where
  "named_signature_raw_de v = Option.bind (unique_visit v) named_signature_de"

definition signed_request_de :: "raw \<Rightarrow> (json \<times> string \<times> named_signature) option" where
  "signed_request_de v =
     Option.bind (raw_fields True [(''document'', False), (''member_key'', False), (''signature'', False)] v) (\<lambda>m.
     Option.bind (raw_field m ''document'' plain_visit) (\<lambda>d.
     Option.bind (raw_field m ''member_key'' raw_as_str) (\<lambda>k.
     Option.bind (raw_field m ''signature'' named_signature_raw_de) (\<lambda>sg. Some (d, k, sg)))))"

definition member_error :: "chan_error \<Rightarrow> broker_error" where
  "member_error e = (case e of SignatureInvalid \<Rightarrow> BSignatureInvalid | RequestStale \<Rightarrow> BRequestStale | _ \<Rightarrow> BMalformed)"

definition verify_member :: "'x ext_scheme \<Rightarrow> bcall \<Rightarrow> string \<Rightarrow> json \<Rightarrow> string \<Rightarrow> named_signature \<Rightarrow>
    (bytes \<times> member_document, broker_error) result" where
  "verify_member E c ctx document member_key sg = map_err member_error (verify_request E ctx document member_key sg (bc_now c))"

definition verified :: "'x ext_scheme \<Rightarrow> bcall \<Rightarrow> bytes \<Rightarrow> (bytes \<times> member_document, broker_error) result" where
  "verified E c plaintext =
     and_then (parse_body E signed_request_de plaintext) (\<lambda>(document, member_key, sg).
     verify_member E c CONNECTOR_REQUEST document member_key sg)"

definition spend :: "'x ext_scheme \<Rightarrow> bcall \<Rightarrow> member_document \<Rightarrow> unit handler" where
  "spend E c document =
     act_bind (act_lift (ok_or (b64_dec E (member_nonce document)) BMalformed)) (\<lambda>n.
     act_bind (on_db (\<lambda>d. ((), purge_expired (bc_db_now c) d))) (\<lambda>_.
     act_bind (on_db (use_nonce (bc_db_now c) n)) (\<lambda>fresh.
     act_refuse (\<not> fresh) BNonceReplayed (act_ok ()))))"

definition connectors_key :: "broker \<Rightarrow> bytes" where
  "connectors_key s = bs_connectors_key (bk_secrets s)"

definition start_inner :: "'x net_ext_scheme \<Rightarrow> broker_config \<Rightarrow> bcall \<Rightarrow> string \<Rightarrow> sealed \<Rightarrow> json handler" where
  "start_inner E cf c route_provider sl =
     act_bind (act_lift (verified E c (se_plaintext sl))) (\<lambda>(member, document).
     case document of
       MemberRequest (Connect named _ _) \<Rightarrow>
         act_refuse (named \<noteq> route_provider) BMalformed
         (act_bind (act_lift (ok_or (provider_named route_provider) BNotFound)) (\<lambda>p.
          act_bind (spend E c document) (\<lambda>_.
          act_bind (act_lift (ok_or (map_option (b64_enc E) (bc_state_rand c)) BInternal)) (\<lambda>connect_state.
          act_bind (act_lift (ok_or (map_option (pkce E) (bc_verifier_rand c)) BInternal)) (\<lambda>(verifier, chal).
          act_bind (act_read connectors_key) (\<lambda>key.
          act_bind (act_lift (ok_or (store_seal E (bc_seal_rand c False) key
            (store_aad E (as_bytes connect_state) member (pv_name p)) (as_bytes verifier)) BInternal)) (\<lambda>enc.
          act_bind (on_db_opt (\<lambda>d. map_option (Pair ()) (insert_pending (bc_db_now c) connect_state member (pv_name p) enc d))) (\<lambda>_.
          act_bind (act_lift (config_client_id cf p)) (\<lambda>client_id.
          act_bind (act_lift (ok_or (authorization_url E p client_id (redirect_uri cf p) connect_state chal) BInternal)) (\<lambda>u.
          act_ok (jobj [(''url'', JString u)])))))))))))
     | _ \<Rightarrow> act_fail BMalformed)"

definition finish_inner :: "'x net_ext_scheme \<Rightarrow> broker_config \<Rightarrow> bcall \<Rightarrow> sealed \<Rightarrow> json handler" where
  "finish_inner E cf c sl =
     act_bind (act_lift (verified E c (se_plaintext sl))) (\<lambda>(member, document).
     case document of
       MemberRequest (Finish connect_state auth_code _ _) \<Rightarrow>
         act_bind (spend E c document) (\<lambda>_.
         act_bind (on_db (take_pending (bc_db_now c) connect_state)) (\<lambda>found.
         act_bind (act_lift (ok_or (Option.bind found (\<lambda>(row, alive). if alive \<and> pe_member row = member then Some row else None))
           BStateInvalid)) (\<lambda>row.
         act_bind (act_lift (ok_or (provider_named (pe_provider row)) BInternal)) (\<lambda>p.
         act_bind (act_read connectors_key) (\<lambda>key.
         act_bind (client cf p) (\<lambda>(client_id, client_secret).
         act_bind (act_lift (ok_or (Option.bind (store_open E key (store_aad E (as_bytes connect_state) member (pv_name p))
           (pe_enc_pkce_verifier row)) from_utf8) BInternal)) (\<lambda>verifier.
         act_bind (act_map_err (\<lambda>_. BExchangeFailed)
           (on_sent (exchange E p client_id client_secret (redirect_uri cf p) auth_code verifier))) (\<lambda>ts.
         act_bind (act_map_err (\<lambda>_. BExchangeFailed) (on_sent (account_of E p (tk_access ts)))) (\<lambda>acct.
         act_bind (on_db_opt (save_connection E (bc_seal_rand c False) (bc_db_now c) (bc_uuid c) key member (pv_name p) acct
           (tk_refresh ts) (tk_scope ts))) (\<lambda>i.
         act_ok (jobj [(''id'', JString (uuid_show E i)), (''provider'', JString (pv_name p)), (''account'', JString (ac_email acct))])))))))))))
     | _ \<Rightarrow> act_fail BMalformed)"

definition connection_json :: "'x ext_scheme \<Rightarrow> connection \<Rightarrow> json" where
  "connection_json E cn = jobj [(''id'', JString (uuid_show E (cn_id cn))), (''provider'', JString (cn_provider cn)),
     (''account'', JString (cn_account cn)), (''dead'', JBool (cn_dead_at cn \<noteq> None))]"

definition list_inner :: "'x net_ext_scheme \<Rightarrow> bcall \<Rightarrow> sealed \<Rightarrow> json handler" where
  "list_inner E c sl =
     act_bind (act_lift (verified E c (se_plaintext sl))) (\<lambda>(member, document).
     case document of
       MemberRequest (ListConnections _ _) \<Rightarrow>
         act_bind (spend E c document) (\<lambda>_.
         act_bind (act_read (\<lambda>s. list_connections member (bk_db s))) (\<lambda>cs.
         act_ok (jobj [(''connections'', JArray (map (connection_json E) cs))])))
     | _ \<Rightarrow> act_fail BMalformed)"

text \<open>Revoking at the provider: best effort, after the row is revoked here.\<close>

definition revoke_at_provider :: "'x net_ext_scheme \<Rightarrow> broker_config \<Rightarrow> uuid \<Rightarrow> bytes \<Rightarrow> string \<Rightarrow> bytes option \<Rightarrow> broker \<Rightarrow> broker" where
  "revoke_at_provider E cf i member prov enc s =
     (case (provider_named prov,
            Option.bind (Option.bind enc (store_open E (connectors_key s) (store_aad E (uuid_bytes i) member prov))) from_utf8) of
        (Some p, Some token) \<Rightarrow>
          (case fst (client cf p s) of
             Ok (client_id, client_secret) \<Rightarrow> s\<lparr> bk_sent := revoke E p client_id client_secret token (bk_sent s) \<rparr>
           | Err _ \<Rightarrow> s)
      | _ \<Rightarrow> s)"

definition disconnect_inner :: "'x net_ext_scheme \<Rightarrow> broker_config \<Rightarrow> bcall \<Rightarrow> string \<Rightarrow> sealed \<Rightarrow> json handler" where
  "disconnect_inner E cf c route_id sl =
     act_bind (act_lift (verified E c (se_plaintext sl))) (\<lambda>(member, document).
     case document of
       MemberRequest (Disconnect connection_id _ _) \<Rightarrow>
         act_bind (act_lift (ok_or (uuid_parse E route_id) BNotFound)) (\<lambda>i.
         act_refuse (connection_id \<noteq> i) BMalformed
         (act_bind (spend E c document) (\<lambda>_.
          act_bind (on_db (revoke_connection (bc_db_now c) i member)) (\<lambda>found.
          act_bind (act_lift (ok_or found BNotFound)) (\<lambda>(prov, enc, shared).
          act_bind (act_modify (\<lambda>s. s\<lparr> bk_tokens := (bk_tokens s)(i := None) \<rparr>)) (\<lambda>_.
          act_bind (if shared then act_ok () else act_modify (revoke_at_provider E cf i member prov enc)) (\<lambda>_.
          act_ok (jobj []))))))))
     | _ \<Rightarrow> act_fail BMalformed)"

section \<open>What may be sent\<close>

definition MAX_RESPONSE :: nat where "MAX_RESPONSE = 16 * 2 ^ 20"
definition MAX_GRANT_CONNECTIONS :: nat where "MAX_GRANT_CONNECTIONS = 16"
definition EXPIRY_MARGIN :: nat where "EXPIRY_MARGIN = 60"
definition DEFAULT_LIFETIME :: nat where "DEFAULT_LIFETIME = 3600"

definition is_ascii_alphanumeric :: "char \<Rightarrow> bool" where
  "is_ascii_alphanumeric c \<longleftrightarrow> is_ascii_digit c \<or> is_ascii_lowercase c \<or> (65 \<le> code c \<and> code c \<le> 90)"

definition is_id :: "string \<Rightarrow> bool" where
  "is_id segment \<longleftrightarrow> 1 \<le> length segment \<and> length segment \<le> 256
     \<and> list_all (\<lambda>b. is_ascii_alphanumeric b \<or> b = CHR ''-'' \<or> b = CHR ''_'') segment"

definition segment_matches :: "string \<times> string \<Rightarrow> bool" where
  "segment_matches e = (if fst e = ''{id}'' then is_id (snd e) else fst e = snd e)"

definition entry_matches :: "string \<Rightarrow> string \<Rightarrow> string list \<Rightarrow> route_entry \<Rightarrow> bool" where
  "entry_matches meth host segments en \<longleftrightarrow>
     (let template = tl (split_on (CHR ''/'') (en_path en)) in
      en_method en = meth \<and> en_host en = host \<and> length template = length segments \<and> list_all segment_matches (zip template segments))"

definition allowed :: "route_entry list \<Rightarrow> string \<Rightarrow> url \<Rightarrow> route_entry option" where
  "allowed entries meth u =
     (if url_scheme u \<noteq> ''https'' \<or> url_port u \<noteq> None \<or> url_username u \<noteq> [] \<or> url_password u \<noteq> None \<or> url_fragment u \<noteq> None
      then None
      else Option.bind (url_host u) (\<lambda>host.
           Option.bind (url_segments u) (\<lambda>segments. find (entry_matches meth host segments) entries)))"

definition header_insert :: "string \<Rightarrow> string \<Rightarrow> (string \<times> string) list \<Rightarrow> (string \<times> string) list" where
  "header_insert k v hs = filter (\<lambda>e. fst e \<noteq> k) hs @ [(k, v)]"

fun check_headers_from :: "'x net_ext_scheme \<Rightarrow> provider \<Rightarrow> (string \<times> string) list \<Rightarrow> (string \<times> string) list \<Rightarrow>
    ((string \<times> string) list, broker_error) result" where
  "check_headers_from E p out [] = Ok out"
| "check_headers_from E p out ((name, v) # hs) =
     refuse_if (\<not> list_ex (\<lambda>h. eq_ignore_ascii_case h name) (pv_headers p)) BNotAllowed
     (and_then (ok_or (header_name E name) BNotAllowed) (\<lambda>n.
      refuse_if (\<not> header_value_ok E v) BMalformed (check_headers_from E p (header_insert n v out) hs)))"

definition check_headers :: "'x net_ext_scheme \<Rightarrow> provider \<Rightarrow> (string \<times> string) list option \<Rightarrow> ((string \<times> string) list, broker_error) result" where
  "check_headers E p hs = check_headers_from E p [] (case hs of None \<Rightarrow> [] | Some l \<Rightarrow> l)"

definition MCP_METHODS :: "string list" where
  "MCP_METHODS = [''initialize'', ''notifications/initialized'', ''ping'', ''tools/list'']"

definition mcp_call_allowed :: "string list \<Rightarrow> json option \<Rightarrow> bool" where
  "mcp_call_allowed tools body =
     (case body of
        Some (JObject request) \<Rightarrow>
          (case Option.bind (map_of request ''method'') json_as_str of
             None \<Rightarrow> False
           | Some m \<Rightarrow>
               (if m = ''tools/call'' then
                  (case Option.bind (Option.bind (map_of request ''params'') (\<lambda>ps. json_get ps ''name'')) json_as_str of
                     None \<Rightarrow> False | Some n \<Rightarrow> n \<in> set tools)
                else m \<in> set MCP_METHODS))
      | _ \<Rightarrow> False)"

definition target :: "'x net_ext_scheme \<Rightarrow> bytes \<Rightarrow> uuid \<Rightarrow> string \<Rightarrow> url \<Rightarrow> (string \<times> string) list option \<Rightarrow> json option \<Rightarrow>
    (provider \<Rightarrow> route_entry list) \<Rightarrow> (provider \<times> route_entry \<times> (string \<times> string) list) handler" where
  "target E member i meth u hs body listed =
     act_bind (act_read (\<lambda>s. load_connection i member (bk_db s))) (\<lambda>found.
     act_lift (and_then (ok_or found BNotFound) (\<lambda>(prov, dead).
       and_then (ok_or (provider_named prov) BInternal) (\<lambda>p.
       and_then (ok_or (allowed (listed p) meth u) BNotAllowed) (\<lambda>en.
       and_then (check_headers E p hs) (\<lambda>headers.
       refuse_if (case pv_mcp_tools p of None \<Rightarrow> False | Some tools \<Rightarrow> \<not> mcp_call_allowed tools body) BNotAllowed
       (refuse_if dead BReconnectRequired (Ok (p, en, headers)))))))))"

definition grant_holder :: "'x ext_scheme \<Rightarrow> bcall \<Rightarrow> bytes \<Rightarrow> string \<Rightarrow> uuid \<Rightarrow> bytes handler" where
  "grant_holder E c aud wire i s =
     (and_then (map_err (\<lambda>_. BMalformed) (parse_grant E wire)) (\<lambda>sg.
      and_then (ok_or (case load_grant_keys [i] (bk_db s) of [] \<Rightarrow> None | e # _ \<Rightarrow> Some (snd e)) BNotFound) (\<lambda>key.
      and_then (map_err (\<lambda>e. case e of SignatureInvalid \<Rightarrow> BGrantInvalid | _ \<Rightarrow> BMalformed) (verify_grant E sg key)) (\<lambda>g.
      refuse_if (gr_connections g = [] \<or> length (gr_connections g) > MAX_GRANT_CONNECTIONS) BMalformed
      (let listed = load_grant_keys (gr_connections g) (bk_db s) in
       refuse_if (\<not> list_all (\<lambda>x. x \<in> fst ` set listed) (gr_connections g)) BNotFound
       (refuse_if (list_ex (\<lambda>e. snd e \<noteq> key) listed \<or> gr_aud g \<noteq> ''sha256:'' @ hex_encode aud \<or> i \<notin> set (gr_connections g)) BGrantInvalid
        (and_then (map_err (\<lambda>e. case e of GrantExpired \<Rightarrow> BGrantExpired | _ \<Rightarrow> BMalformed) (check_window E g (bc_now c))) (\<lambda>_.
         Ok key))))))), s)"

section \<open>Sending\<close>

definition cached :: "bcall \<Rightarrow> uuid \<Rightarrow> bytes \<Rightarrow> broker \<Rightarrow> string option" where
  "cached c i aad s =
     Option.bind (bk_tokens s i) (\<lambda>(token, until, opened). if until > bc_instant c \<and> opened = aad then Some token else None)"

text \<open>How long a new access token is cached, in seconds; \<open>Instant\<close> holds any such time.\<close>

definition cache_seconds :: "refreshed \<Rightarrow> nat option" where
  "cache_seconds r =
     (let l = (case rf_expires_in r of None \<Rightarrow> DEFAULT_LIFETIME | Some n \<Rightarrow> n) in if l < EXPIRY_MARGIN then None else Some (l - EXPIRY_MARGIN))"

definition cache_token :: "bcall \<Rightarrow> uuid \<Rightarrow> bytes \<Rightarrow> refreshed \<Rightarrow> broker \<Rightarrow> broker" where
  "cache_token c i aad r s =
     (let kept = (\<lambda>x. Option.bind (bk_tokens s x) (\<lambda>(t, until, a). if until > bc_instant c then Some (t, until, a) else None)) in
      s\<lparr> bk_tokens := (case cache_seconds r of None \<Rightarrow> kept
           | Some n \<Rightarrow> kept(i \<mapsto> (rf_access r, bc_instant c + int n * 1000000000, aad))) \<rparr>)"

text \<open>A refresh the provider refuses for good marks the connection dead and forgets its access token.\<close>

definition refresh_or_dead :: "'x net_ext_scheme \<Rightarrow> bcall \<Rightarrow> uuid \<Rightarrow> provider \<Rightarrow> string \<Rightarrow> string option \<Rightarrow> string \<Rightarrow> refreshed handler" where
  "refresh_or_dead E c i p client_id client_secret old s =
     (case on_sent (refresh E p client_id client_secret old) s of
        (Ok r, t) \<Rightarrow> (Ok r, t)
      | (Err Dead, t) \<Rightarrow> (Err BReconnectRequired, t\<lparr> bk_db := mark_dead (bc_db_now c) i (bk_db t), bk_tokens := (bk_tokens t)(i := None) \<rparr>)
      | (Err (Other _), t) \<Rightarrow> (Err BUpstream, t))"

definition refresh_token :: "'x net_ext_scheme \<Rightarrow> broker_config \<Rightarrow> bcall \<Rightarrow> bool \<Rightarrow> uuid \<Rightarrow> bytes \<Rightarrow> provider \<Rightarrow> bytes \<Rightarrow> string handler" where
  "refresh_token E cf c retried i aad p sealed_token =
     act_bind (act_read connectors_key) (\<lambda>key.
     act_bind (client cf p) (\<lambda>(client_id, client_secret).
     act_bind (act_lift (ok_or (Option.bind (store_open E key aad sealed_token) from_utf8) BInternal)) (\<lambda>old.
     act_bind (refresh_or_dead E c i p client_id client_secret old) (\<lambda>r.
     act_bind (case rf_refresh r of
         None \<Rightarrow> act_ok ()
       | Some rotated \<Rightarrow>
           act_bind (act_lift (ok_or (store_seal E (bc_seal_rand c retried) key aad (as_bytes rotated)) BInternal)) (\<lambda>new_sealed.
           act_modify (\<lambda>s. s\<lparr> bk_db := replace_refresh_token i new_sealed (bk_db s) \<rparr>))) (\<lambda>_.
     act_bind (act_modify (cache_token c i aad r)) (\<lambda>_. act_ok (rf_access r)))))))"

definition access_token :: "'x net_ext_scheme \<Rightarrow> broker_config \<Rightarrow> bcall \<Rightarrow> bool \<Rightarrow> uuid \<Rightarrow> bytes \<Rightarrow> provider \<Rightarrow> string handler" where
  "access_token E cf c retried i member p =
     (let aad = store_aad E (uuid_bytes i) member (pv_name p) in
      act_bind (act_read (cached c i aad)) (\<lambda>hit.
      case hit of
        Some token \<Rightarrow> act_ok token
      | None \<Rightarrow>
          act_bind (act_read (\<lambda>s. lock_token i (bk_db s))) (\<lambda>found.
          act_bind (act_lift (ok_or found BNotFound)) (\<lambda>sealed_token. refresh_token E cf c retried i aad p sealed_token))))"

record relayed =
  re_status :: nat
  re_content_type :: "string option"
  re_body :: bytes

fun relay_chunks :: "bytes \<Rightarrow> bytes list \<Rightarrow> bool \<Rightarrow> (bytes, broker_error) result" where
  "relay_chunks body [] broken = (if broken then Err BUpstream else Ok body)"
| "relay_chunks body (x # xs) broken =
     refuse_if (length body + length x > MAX_RESPONSE) BTooLarge (relay_chunks (body @ x) xs broken)"

definition relay :: "answer \<Rightarrow> (relayed, broker_error) result" where
  "relay a = and_then (relay_chunks [] (aw_chunks a) (aw_broken a)) (\<lambda>b.
     Ok \<lparr> re_status = aw_status a, re_content_type = aw_content_type a, re_body = b \<rparr>)"

definition outgoing_request :: "provider \<Rightarrow> route_entry \<Rightarrow> url \<Rightarrow> (string \<times> string) list \<Rightarrow> (string \<times> bytes) option \<Rightarrow> string \<Rightarrow> outgoing" where
  "outgoing_request p en u hs body token =
     (with_mcp_accept p ((base_request (en_method en) (Parsed u))\<lparr> og_headers := hs \<rparr>))
       \<lparr> og_bearer := Some token, og_payload := (case body of None \<Rightarrow> NoBody | Some (ct, b) \<Rightarrow> RawBody ct b) \<rparr>"

definition drop_token :: "uuid \<Rightarrow> string \<Rightarrow> broker \<Rightarrow> broker" where
  "drop_token i token s =
     (case bk_tokens s i of
        Some (t, _, _) \<Rightarrow> if t = token then s\<lparr> bk_tokens := (bk_tokens s)(i := None) \<rparr> else s
      | None \<Rightarrow> s)"

text \<open>The loop: the access token, the request, and once more after a 401 with the token dropped.\<close>

function forward_loop :: "'x net_ext_scheme \<Rightarrow> broker_config \<Rightarrow> bcall \<Rightarrow> uuid \<Rightarrow> bytes \<Rightarrow> provider \<Rightarrow> (string \<Rightarrow> outgoing) \<Rightarrow> bool \<Rightarrow>
    relayed handler" where
  "forward_loop E cf c i member p request retried =
     act_bind (access_token E cf c retried i member p) (\<lambda>token.
     act_bind (on_sent (send E (request token) BUpstream)) (\<lambda>a.
     if aw_status a = 401 \<and> \<not> retried then
       act_bind (act_modify (drop_token i token)) (\<lambda>_. forward_loop E cf c i member p request True)
     else act_lift (relay a)))"
  by pat_completeness auto
termination
  by (relation "measure (\<lambda>(_, _, _, _, _, _, _, retried). if retried then 0 else 1)") auto

declare forward_loop.simps [simp del]

definition forward :: "'x net_ext_scheme \<Rightarrow> broker_config \<Rightarrow> bcall \<Rightarrow> uuid \<Rightarrow> bytes \<Rightarrow> provider \<Rightarrow> route_entry \<Rightarrow> url \<Rightarrow> (string \<times> string) list \<Rightarrow>
    (string \<times> bytes) option \<Rightarrow> relayed handler" where
  "forward E cf c i member p en u hs body = forward_loop E cf c i member p (outgoing_request p en u hs body) False"

section \<open>Proxy and write\<close>

definition raw_string_map :: "raw \<Rightarrow> (string \<times> string) list option" where
  "raw_string_map v =
     (case v of
        RMap es \<Rightarrow> map_option (foldl (\<lambda>m e. map_insert (fst e) (snd e) m) [])
          (to_option (collect_results (\<lambda>e. ok_or (map_option (Pair (fst e)) (raw_as_str (snd e))) BMalformed) es))
      | _ \<Rightarrow> None)"

record proxy_request =
  pq_grant :: string
  pq_connection_id :: uuid
  pq_method :: string
  pq_url :: string
  pq_body :: "json option"
  pq_headers :: "(string \<times> string) list option"

definition proxy_request_de :: "'x ext_scheme \<Rightarrow> raw \<Rightarrow> proxy_request option" where
  "proxy_request_de E v =
     Option.bind (raw_fields True [(''grant'', False), (''connection_id'', False), (''method'', False), (''url'', False), (''body'', True),
       (''headers'', True)] v) (\<lambda>m.
     Option.bind (raw_field m ''grant'' raw_as_str) (\<lambda>g.
     Option.bind (raw_field m ''connection_id'' (\<lambda>r. Option.bind (raw_as_str r) (uuid_parse E))) (\<lambda>i.
     Option.bind (raw_field m ''method'' raw_as_str) (\<lambda>me.
     Option.bind (raw_field m ''url'' raw_as_str) (\<lambda>u.
     Option.bind (raw_opt_field m ''body'' plain_visit) (\<lambda>b.
     Option.bind (raw_opt_field m ''headers'' raw_string_map) (\<lambda>h.
     Some \<lparr> pq_grant = g, pq_connection_id = i, pq_method = me, pq_url = u, pq_body = b, pq_headers = h \<rparr>)))))))"

definition parse_url :: "'x net_ext_scheme \<Rightarrow> string \<Rightarrow> (url, broker_error) result" where
  "parse_url E t = ok_or (url_parse E t) BMalformed"

definition proxy :: "'x net_ext_scheme \<Rightarrow> broker_config \<Rightarrow> bcall \<Rightarrow> relayed handler" where
  "proxy E cf c =
     act_bind (act_lift (authed_instance E c)) (\<lambda>aud.
     act_bind (act_lift (parse_body E (proxy_request_de E) (bc_body c))) (\<lambda>q.
     act_bind (act_lift (parse_url E (pq_url q))) (\<lambda>u.
     act_bind (grant_holder E c aud (pq_grant q) (pq_connection_id q)) (\<lambda>member.
     act_bind (target E member (pq_connection_id q) (pq_method q) u (pq_headers q) (pq_body q) pv_reads) (\<lambda>(p, en, headers).
     forward E cf c (pq_connection_id q) member p en u headers
       (map_option (\<lambda>b. (''application/json'', as_bytes (json_to_string E b))) (pq_body q)))))))"

record signed_write =
  sw_document :: json
  sw_member_key :: string
  sw_signature :: named_signature
  sw_content_type :: string
  sw_body_base64 :: string
  sw_headers :: "(string \<times> string) list option"

definition signed_write_de :: "raw \<Rightarrow> signed_write option" where
  "signed_write_de v =
     Option.bind (raw_fields True [(''document'', False), (''member_key'', False), (''signature'', False), (''content_type'', False),
       (''body_base64'', False), (''headers'', True)] v) (\<lambda>m.
     Option.bind (raw_field m ''document'' plain_visit) (\<lambda>d.
     Option.bind (raw_field m ''member_key'' raw_as_str) (\<lambda>k.
     Option.bind (raw_field m ''signature'' named_signature_raw_de) (\<lambda>sg.
     Option.bind (raw_field m ''content_type'' raw_as_str) (\<lambda>ct.
     Option.bind (raw_field m ''body_base64'' raw_as_str) (\<lambda>b.
     Option.bind (raw_opt_field m ''headers'' raw_string_map) (\<lambda>h.
     Some \<lparr> sw_document = d, sw_member_key = k, sw_signature = sg, sw_content_type = ct, sw_body_base64 = b, sw_headers = h \<rparr>)))))))"

definition relayed_json :: "'x net_ext_scheme \<Rightarrow> relayed \<Rightarrow> json" where
  "relayed_json E r = jobj [(''status'', jnat (re_status r)),
     (''content_type'', case Option.bind (re_content_type r) (header_to_str E) of None \<Rightarrow> JNull | Some t \<Rightarrow> JString t),
     (''body_base64'', JString (b64_std_enc E (re_body r)))]"

definition write_inner :: "'x net_ext_scheme \<Rightarrow> broker_config \<Rightarrow> bcall \<Rightarrow> sealed \<Rightarrow> json handler" where
  "write_inner E cf c sl =
     act_bind (act_lift (parse_body E signed_write_de (se_plaintext sl))) (\<lambda>w.
     act_bind (act_lift (verify_member E c CONNECTOR_WRITE (sw_document w) (sw_member_key w) (sw_signature w))) (\<lambda>(member, document).
     act_bind (spend E c document) (\<lambda>_.
     case document of
       MemberRequest _ \<Rightarrow> act_fail BMalformed
     | MemberWrite wd \<Rightarrow>
         act_refuse (\<not> header_value_ok E (sw_content_type w)) BMalformed
         (act_bind (act_lift (ok_or (b64_std_dec E (sw_body_base64 w)) BMalformed)) (\<lambda>bs.
          act_refuse (wd_body_sha256 wd \<noteq> sha256_label E bs) BMalformed
          (act_bind (act_lift (parse_url E (wd_url wd))) (\<lambda>u.
           act_bind (target E member (wd_connection_id wd) (wd_method wd) u (sw_headers w) None pv_writes) (\<lambda>(p, en, headers).
           act_bind (forward E cf c (wd_connection_id wd) member p en u headers (Some (sw_content_type w, bs))) (\<lambda>r.
           act_ok (relayed_json E r))))))))))"

section \<open>The service\<close>

datatype broker_route =
    OpenChannel | StartConnect string | FinishConnect | ListConnect | DisconnectConnect string | ProxyRead | WriteExport
  | RefreshIdentity responder | RefreshSecrets broker_secrets

text \<open>
  One call: its answer is dropped here, the state is what later calls find. A write's body over the
  limit is refused before the handler.
\<close>

definition WRITE_BODY_LIMIT :: nat where "WRITE_BODY_LIMIT = 16 * 2 ^ 20"

definition broker_step :: "'x net_ext_scheme \<Rightarrow> broker_config \<Rightarrow> broker_route \<times> bcall \<Rightarrow> broker \<Rightarrow> broker" where
  "broker_step E cf q s =
     (let c = snd q in
      case fst q of
        OpenChannel \<Rightarrow> snd (open_channel E c s)
      | StartConnect prov \<Rightarrow> snd (sealed_route E c (start_inner E cf c prov) s)
      | FinishConnect \<Rightarrow> snd (sealed_route E c (finish_inner E cf c) s)
      | ListConnect \<Rightarrow> snd (sealed_route E c (list_inner E c) s)
      | DisconnectConnect i \<Rightarrow> snd (sealed_route E c (disconnect_inner E cf c i) s)
      | ProxyRead \<Rightarrow> snd (proxy E cf c s)
      | WriteExport \<Rightarrow> if length (bc_body c) > WRITE_BODY_LIMIT then s else snd (sealed_route E c (write_inner E cf c) s)
      | RefreshIdentity rs \<Rightarrow> s\<lparr> bk_responder := rs \<rparr>
      | RefreshSecrets secrets \<Rightarrow> s\<lparr> bk_secrets := secrets \<rparr>)"

end
