(* ===== verification/Broker_Spec.thy ===== *)
theory Broker_Spec
  imports Broker
begin

text \<open>What the broker keeps over every sequence of calls, and what each route may send where.\<close>

section \<open>What the queries keep\<close>

lemma keeps_client [act_intros]: "order_like Q \<Longrightarrow> keeps Q (client cf p)"
  by (simp add: keeps_def client_def order_like_def)

lemma keeps_authed [act_intros]: "order_like Q \<Longrightarrow> keeps Q (authed_corpus E c)"
  by (simp add: keeps_def authed_corpus_def order_like_def)

lemma keeps_grant [act_intros]: "order_like Q \<Longrightarrow> keeps Q (grant_holder E c aud w i)"
  by (simp add: keeps_def grant_holder_def order_like_def)

lemma keeps_target [act_intros]: "order_like Q \<Longrightarrow> keeps Q (target E member i meth u hs body listed)"
  unfolding target_def by (intro act_intros)

text \<open>A route keeps what its inner handler, the opening of its frame and the sealing of its answer keep.\<close>

lemma keeps_sealed_route:
  assumes Q: "order_like Q" and h: "\<And>sl. keeps Q (h sl)" 
    and ch: "\<And>cid (f :: channel \<Rightarrow> (bytes, chan_error) result \<times> channel) er. keeps Q (on_channel c cid f er)"
      "\<And>cid (f :: channel \<Rightarrow> (string, chan_error) result \<times> channel) er. keeps Q (on_channel c cid f er)"
  shows "keeps Q (sealed_route E c h)"
proof -
  have o: "keeps Q (sealed_open E c)" unfolding sealed_open_def by (intro act_intros Q ch)
  have r: "keeps Q (sealed_reply E c sl res)" for sl res
    unfolding sealed_reply_def by (auto intro!: act_intros Q ch simp: Let_def split: prod.splits)
  have "Q s (snd (case h sl s of (res, t) \<Rightarrow> sealed_reply E c sl res t))" for sl s
  proof (cases "h sl s")
    case (Pair res t)
    with keepsD [OF h Pair] keeps_snd [OF r, of t sl res] Q show ?thesis unfolding order_like_def by auto
  qed
  then show ?thesis unfolding sealed_route_def by (intro act_intros Q o) (simp add: keeps_def)
qed

text \<open>
  A relation between tables that every query of the store keeps, at the clock of one call: then every
  route keeps it. A refresh token is replaced only in a row that was locked live.
\<close>

abbreviation keeps_db :: "(broker_db \<Rightarrow> broker_db \<Rightarrow> bool) \<Rightarrow> (broker, 'a, 'e) action \<Rightarrow> bool" where
  "keeps_db R \<equiv> keeps (\<lambda>s t. R (bk_db s) (bk_db t))"

locale store_relation =
  fixes E :: "'x net_ext_scheme" and R :: "broker_db \<Rightarrow> broker_db \<Rightarrow> bool" and c :: bcall
  assumes order: "order_like R"
    and purge: "R d (purge_expired (bc_db_now c) d)"
    and nonce_used: "R d (snd (use_nonce (bc_db_now c) n d))"
    and pending_added: "insert_pending (bc_db_now c) st m p e d = Some d' \<Longrightarrow> R d d'"
    and pending_taken: "R d (snd (take_pending (bc_db_now c) st d))"
    and saved: "save_connection E rnd (bc_db_now c) fresh key m p a t sc d = Some (i, d') \<Longrightarrow> R d d'"
    and revoked: "R d (snd (revoke_connection (bc_db_now c) i m d))"
    and dead: "R d (mark_dead (bc_db_now c) i d)"
    and replaced: "lock_token i d = Some old \<Longrightarrow> R d (replace_refresh_token i e d)"
begin

lemma order_R: "order_like (\<lambda>s t. R (bk_db s) (bk_db t))"
  using order unfolding order_like_def by blast

lemma refl_R: "R d d"
  using order unfolding order_like_def by blast

lemma keeps_on_db: "(\<And>d. R d (snd (f d))) \<Longrightarrow> keeps_db R (on_db f)"
  by (auto simp: keeps_def on_db_def split: prod.splits) (metis snd_conv)

lemma keeps_on_db_opt: "(\<And>d a d'. f d = Some (a, d') \<Longrightarrow> R d d') \<Longrightarrow> keeps_db R (on_db_opt f)"
  by (auto simp: keeps_def on_db_opt_def refl_R split: prod.splits option.splits)

lemma keeps_frame: "keeps_db R (on_sent m)" "keeps_db R (on_channel c cid f er)"
  by (auto simp: keeps_def on_sent_def act_on_def on_channel_def refl_R split: prod.splits)

lemmas rules = act_intros order_R keeps_on_db keeps_on_db_opt keeps_frame

lemma keeps_spend: "keeps_db R (spend E c d)"
  unfolding spend_def by (intro rules) (auto simp: purge nonce_used)

lemma keeps_start: "keeps_db R (start_inner E cf c prov sl)"
  unfolding start_inner_def
  by (auto intro!: rules keeps_spend intro: pending_added split: member_document.splits connector_request.splits)

lemma keeps_finish: "keeps_db R (finish_inner E cf c sl)"
  unfolding finish_inner_def
  by (auto intro!: rules keeps_spend intro: pending_taken saved split: member_document.splits connector_request.splits)

lemma keeps_list: "keeps_db R (list_inner E c sl)"
  unfolding list_inner_def by (auto intro!: rules keeps_spend split: member_document.splits connector_request.splits)

lemma revoke_at_provider_db: "bk_db (revoke_at_provider E cf i member prov enc s) = bk_db s"
  by (auto simp: revoke_at_provider_def split: option.splits result.splits)

lemma keeps_disconnect: "keeps_db R (disconnect_inner E cf c i sl)"
  unfolding disconnect_inner_def
  by (auto intro!: rules keeps_spend revoked simp: revoke_at_provider_db refl_R split: member_document.splits connector_request.splits)

lemma refresh_token_keeps:
  assumes "lock_token i (bk_db s) = Some sealed_token"
  shows "R (bk_db s) (bk_db (snd (refresh_token E cf c retried i aad p sealed_token s)))"
proof -
  define P where "P u = (bk_db u = bk_db s)" for u :: broker
  define G where "G u = R (bk_db s) (bk_db u)" for u :: broker
  have PG: "P u \<Longrightarrow> G u" for u by (simp add: P_def G_def refl_R)
  have sent: "triple P (refresh_or_dead E c i p a b old) (\<lambda>_. P) G" for a b old
    by (auto simp: triple_def refresh_or_dead_def on_sent_def act_on_def P_def G_def dead refl_R
        split: prod.splits result.splits refresh_error.splits)
  have cl: "triple P (client cf p) (\<lambda>_. P) G" by (auto simp: triple_def client_def PG)
  have "triple P (refresh_token E cf c retried i aad p sealed_token) (\<lambda>_. G) G"
    unfolding refresh_token_def
    apply (rule triple_bind [where R = "\<lambda>_. P"], rule triple_read, assumption)
    apply (rule triple_bind [OF cl], rule triple_case_prod)
    apply (rule triple_bind [where R = "\<lambda>_. P"], rule triple_lift, assumption, erule PG)
    apply (rule triple_bind [OF sent], rule triple_bind [where R = "\<lambda>_. G"])
     apply (rule triple_case_option, rule triple_lift, erule PG, erule PG)
     apply (rule triple_bind [where R = "\<lambda>_. P"], rule triple_lift, assumption, erule PG)
     apply (rule triple_modify, simp add: P_def G_def replaced [OF assms])
    apply (rule triple_bind [where R = "\<lambda>_. G"], rule triple_modify, simp add: G_def cache_token_def Let_def)
    apply (rule triple_lift, assumption, assumption)
    done
  from tripleD [OF this, of s] show ?thesis by (simp add: P_def G_def)
qed

lemma keeps_access_token: "keeps_db R (access_token E cf c retried i member p)"
proof -
  have "R (bk_db s) (bk_db (snd (access_token E cf c retried i member p s)))" for s
  proof (cases "cached c i (store_aad E (uuid_bytes i) member (pv_name p)) s")
    case None
    then show ?thesis
      by (cases "lock_token i (bk_db s)") (auto simp: access_token_def Let_def refl_R refresh_token_keeps)
  qed (simp add: access_token_def Let_def refl_R)
  then show ?thesis by (simp add: keeps_def)
qed

lemma drop_token_db: "bk_db (drop_token i token s) = bk_db s"
  by (auto simp: drop_token_def split: option.splits)

lemma keeps_forward: "keeps_db R (forward E cf c i member p en u hs body)"
proof -
  have step: "keeps_db R (forward_loop E cf c i member p request retried)" if "retried \<or> keeps_db R (forward_loop E cf c i member p request True)"
    for request retried
    using that by (subst forward_loop.simps) (auto intro!: rules keeps_access_token simp: drop_token_db refl_R)
  have "keeps_db R (forward_loop E cf c i member p request True)" for request by (rule step) simp
  then show ?thesis unfolding forward_def by (intro step) simp
qed

lemma keeps_proxy: "keeps_db R (proxy E cf c)"
  unfolding proxy_def by (intro rules keeps_forward)

lemma keeps_write: "keeps_db R (write_inner E cf c sl)"
  unfolding write_inner_def by (auto intro!: rules keeps_spend keeps_forward split: member_document.splits)

lemma keeps_open_channel: "keeps_db R (open_channel E c)"
  unfolding open_channel_def by (intro rules) (auto simp: refl_R)

lemma step_keeps: "R (bk_db s) (bk_db (broker_step E cf (route, c) s))"
  using keeps_snd [OF keeps_sealed_route [OF order_R _ keeps_frame(2) keeps_frame(2)]] keeps_snd [OF keeps_proxy] keeps_snd [OF keeps_open_channel]
    keeps_start keeps_finish keeps_list keeps_disconnect keeps_write
  by (auto simp: broker_step_def Let_def refl_R split: broker_route.splits)

end

interpretation tables: store_relation E "\<lambda>d d'. tables_ok d \<longrightarrow> tables_ok d'" c for E :: "'x net_ext_scheme" and c
  by unfold_locales
    (auto simp: purge_expired_ok take_pending_ok revoke_connection_ok mark_dead_ok
      intro: use_nonce_ok [OF _ surjective_pairing] insert_pending_ok save_connection_ok replace_refresh_token_ok)

interpretation broker_tables: stepper "broker_step E cf" "\<lambda>s. tables_ok (bk_db s)" for E :: "'x net_ext_scheme" and cf
  by unfold_locales (metis tables.step_keeps prod.collapse)

section \<open>What is sent\<close>

definition identity_urls :: "provider \<Rightarrow> string list" where
  "identity_urls p = (case pv_identity p of IdentityBearer _ u \<Rightarrow> [u] | IdentityMcp u _ _ _ _ \<Rightarrow> [u])"

definition revoke_urls :: "provider \<Rightarrow> string list" where
  "revoke_urls p = (case pv_revoke p of RevokeForm u \<Rightarrow> [u] | RevokeBearer u \<Rightarrow> [u] | RevokeAccessForm u \<Rightarrow> [u] | RevokeLocal \<Rightarrow> [])"

text \<open>
  A method and an address that an entry of a provider's list names: https and nothing but host, path
  and query, the entry's own method and host, and the entry's path segment by segment, where
  \<open>{id}\<close> stands for 1 to 256 letters, digits, dashes and underscores.
\<close>

definition segment_fits :: "string \<Rightarrow> string \<Rightarrow> bool" where
  "segment_fits template segment \<longleftrightarrow> (if template = ''{id}''
     then segment \<noteq> [] \<and> length segment \<le> 256
       \<and> (\<forall>c \<in> set segment. c \<in> {CHR ''-'', CHR ''_''} \<or> (of_char c :: nat) \<in> {48..57} \<union> {65..90} \<union> {97..122})
     else segment = template)"

definition fits :: "route_entry \<Rightarrow> string \<Rightarrow> url \<Rightarrow> bool" where
  "fits en meth u \<longleftrightarrow> url_scheme u = ''https'' \<and> url_port u = None \<and> url_username u = [] \<and> url_password u = None \<and> url_fragment u = None
     \<and> en_method en = meth \<and> url_host u = Some (en_host en)
     \<and> (\<exists>segments. url_segments u = Some segments \<and> list_all2 segment_fits (tl (split_on (CHR ''/'') (en_path en))) segments)"

lemma segment_matches_fits: "segment_matches (template, segment) \<Longrightarrow> segment_fits template segment"
  by (auto simp: segment_matches_def segment_fits_def is_id_def list_all_iff is_ascii_alphanumeric_def is_ascii_digit_def is_ascii_lowercase_def
      code_def split: if_splits)

lemma allowed_fits: "allowed es meth u = Some en \<Longrightarrow> en \<in> set es \<and> fits en meth u"
  unfolding allowed_def fits_def
  by (auto simp: bind_eq_Some_conv entry_matches_def Let_def list_all2_iff list_all_iff segment_matches_fits dest!: find_SomeD split: if_splits)

text \<open>A request to one of the provider's own addresses, or one an entry of its read or write list names.\<close>

definition sends_to :: "provider \<Rightarrow> outgoing \<Rightarrow> bool" where
  "sends_to p r \<longleftrightarrow>
     (case og_to r of
        Fixed u \<Rightarrow> u \<in> set ([pv_token p, pv_refresh p] @ identity_urls p @ revoke_urls p)
      | Parsed u \<Rightarrow> \<exists>en \<in> set (pv_reads p @ pv_writes p). fits en (og_method r) u)"

text \<open>The provider answered one of the requests sent to its token endpoints with this access token.\<close>

definition issued :: "'x net_ext_scheme \<Rightarrow> outgoing list \<Rightarrow> provider \<Rightarrow> string \<Rightarrow> bool" where
  "issued E sent p token \<longleftrightarrow> (\<exists>pre r post a. sent = pre @ r # post \<and> og_to r \<in> {Fixed (pv_token p), Fixed (pv_refresh p)}
     \<and> http_send E pre r = Some a
     \<and> ((\<exists>ts. read_tokens E p a = Ok ts \<and> tk_access ts = token) \<or> (\<exists>rf. read_refreshed E p a = Ok rf \<and> rf_access rf = token)))"

definition request_ok :: "'x net_ext_scheme \<Rightarrow> outgoing list \<Rightarrow> outgoing \<Rightarrow> bool" where
  "request_ok E pre r \<longleftrightarrow> (\<exists>p \<in> set PROVIDERS. sends_to p r \<and> (\<forall>token. og_bearer r = Some token \<longrightarrow> issued E pre p token))"

definition sent_ok :: "'x net_ext_scheme \<Rightarrow> outgoing list \<Rightarrow> bool" where
  "sent_ok E sent \<longleftrightarrow> (\<forall>pre r post. sent = pre @ r # post \<longrightarrow> request_ok E pre r)"

definition cache_ok :: "'x net_ext_scheme \<Rightarrow> broker \<Rightarrow> bool" where
  "cache_ok E s \<longleftrightarrow> (\<forall>i token until aad. bk_tokens s i = Some (token, until, aad) \<longrightarrow>
     (\<exists>p \<in> set PROVIDERS. \<exists>member. aad = store_aad E (uuid_bytes i) member (pv_name p) \<and> issued E (bk_sent s) p token))"

definition tokens_home :: "'x net_ext_scheme \<Rightarrow> broker \<Rightarrow> bool" where
  "tokens_home E s \<longleftrightarrow> sent_ok E (bk_sent s) \<and> cache_ok E s"

lemma issued_append: "issued E sent p token \<Longrightarrow> issued E (sent @ rest) p token"
  unfolding issued_def by (metis append.assoc append_Cons)

lemma sent_ok_snoc: "sent_ok E sent \<Longrightarrow> request_ok E sent r \<Longrightarrow> sent_ok E (sent @ [r])"
  unfolding sent_ok_def
proof (intro allI impI)
  fix pre x post
  assume s: "\<forall>pre r post. sent = pre @ r # post \<longrightarrow> request_ok E pre r" and r: "request_ok E sent r"
    and e: "sent @ [r] = pre @ x # post"
  show "request_ok E pre x"
  proof (cases post rule: rev_cases)
    case Nil
    with e r show ?thesis by simp
  next
    case (snoc ys y)
    with e have "sent = pre @ x # ys" by simp
    with s show ?thesis by blast
  qed
qed

lemma tokens_home_send:
  assumes "tokens_home E s" and "request_ok E (bk_sent s) r"
  shows "tokens_home E (s\<lparr> bk_sent := bk_sent s @ [r] \<rparr>)"
  using assms issued_append [of E "bk_sent s" _ _ "[r]"] unfolding tokens_home_def cache_ok_def
  by (auto simp: sent_ok_snoc) meson

lemma tokens_home_frame: "bk_sent t = bk_sent s \<Longrightarrow> bk_tokens t = bk_tokens s \<Longrightarrow> tokens_home E s \<Longrightarrow> tokens_home E t"
  by (simp add: tokens_home_def cache_ok_def)

lemma tokens_home_forget:
  "bk_sent t = bk_sent s \<Longrightarrow> (\<And>i. bk_tokens t i = bk_tokens s i \<or> bk_tokens t i = None) \<Longrightarrow> tokens_home E s \<Longrightarrow> tokens_home E t"
  unfolding tokens_home_def cache_ok_def by (metis option.distinct(1))

section \<open>Calls to a provider\<close>

lemma token_request_fixed: "token_request p u ci cs form = Some r \<Longrightarrow> og_to r = Fixed u \<and> og_bearer r = None"
  by (auto simp: token_request_def Let_def base_request_def split: client_auth.splits)

lemma request_ok_fixed: "p \<in> set PROVIDERS \<Longrightarrow> og_to r = Fixed u \<Longrightarrow> og_bearer r = None \<Longrightarrow>
    u \<in> set ([pv_token p, pv_refresh p] @ identity_urls p @ revoke_urls p) \<Longrightarrow> request_ok E sent r"
  by (auto simp: request_ok_def sends_to_def)

lemma exchange_cases:
  assumes "exchange E p ci cs ru ac v l = (res, l')"
  shows "(l' = l \<and> (\<exists>e. res = Err e)) \<or> (\<exists>r. og_to r = Fixed (pv_token p) \<and> og_bearer r = None \<and> l' = l @ [r]
    \<and> (\<forall>ts. res = Ok ts \<longrightarrow> (\<exists>a. http_send E l r = Some a \<and> read_tokens E p a = Ok ts)))"
proof (cases "token_request p (pv_token p) ci cs [(''grant_type'', ''authorization_code''), (''code'', ac), (''code_verifier'', v), (''redirect_uri'', ru)]")
  case None
  with assms show ?thesis by (auto simp: exchange_def)
next
  case (Some r)
  with assms token_request_fixed [OF Some] show ?thesis
    by (cases "http_send E l r") (auto simp: exchange_def send_def act_bind_def act_refuse_def split: if_splits)
qed

lemma refresh_cases:
  assumes "refresh E p ci cs old l = (res, l')"
  shows "(l' = l \<and> (\<exists>e. res = Err e)) \<or> (\<exists>r. og_to r = Fixed (pv_refresh p) \<and> og_bearer r = None \<and> l' = l @ [r]
    \<and> (\<forall>rf. res = Ok rf \<longrightarrow> (\<exists>a. http_send E l r = Some a \<and> read_refreshed E p a = Ok rf)))"
proof (cases "token_request p (pv_refresh p) ci cs [(''grant_type'', ''refresh_token''), (''refresh_token'', old)]")
  case None
  with assms show ?thesis by (auto simp: refresh_def)
next
  case (Some r)
  with assms token_request_fixed [OF Some] show ?thesis
    by (cases "http_send E l r") (auto simp: refresh_def send_def act_bind_def)
qed

lemma exchange_home:
  assumes "p \<in> set PROVIDERS"
  shows "triple (tokens_home E) (on_sent (exchange E p ci cs ru ac v))
    (\<lambda>ts t. tokens_home E t \<and> issued E (bk_sent t) p (tk_access ts)) (tokens_home E)"
  unfolding triple_def
proof (intro conjI allI impI)
  fix s ts t
  assume h: "tokens_home E s" and e: "on_sent (exchange E p ci cs ru ac v) s = (Ok ts, t)"
  then obtain l where l: "exchange E p ci cs ru ac v (bk_sent s) = (Ok ts, l)" "t = s\<lparr> bk_sent := l \<rparr>"
    by (auto simp: on_sent_def act_on_Ok)
  with exchange_cases [OF l(1)] obtain r a where r: "og_to r = Fixed (pv_token p)" "og_bearer r = None" "l = bk_sent s @ [r]"
    "http_send E (bk_sent s) r = Some a" "read_tokens E p a = Ok ts" by auto
  show "tokens_home E t" unfolding l(2) r(3) by (rule tokens_home_send [OF h]) (rule request_ok_fixed [OF assms r(1,2)], simp)
  show "issued E (bk_sent t) p (tk_access ts)"
    unfolding issued_def l(2) r(3)
    by (rule exI [of _ "bk_sent s"], rule exI [of _ r], rule exI [of _ "[]"], rule exI [of _ a]) (use r in auto)
next
  fix s e t
  assume h: "tokens_home E s" and "on_sent (exchange E p ci cs ru ac v) s = (Err e, t)"
  then obtain l where l: "exchange E p ci cs ru ac v (bk_sent s) = (Err e, l)" "t = s\<lparr> bk_sent := l \<rparr>"
    by (auto simp: on_sent_def act_on_def split: prod.splits)
  with exchange_cases [OF l(1)] h show "tokens_home E t"
    by (auto intro!: tokens_home_send request_ok_fixed [OF assms])
qed

lemma refresh_home:
  assumes "p \<in> set PROVIDERS" and "tokens_home E s" and "on_sent (refresh E p ci cs old) s = (res, t)"
  shows "tokens_home E t" and "res = Ok rf \<Longrightarrow> issued E (bk_sent t) p (rf_access rf)"
proof -
  from assms(3) obtain l where l: "refresh E p ci cs old (bk_sent s) = (res, l)" "t = s\<lparr> bk_sent := l \<rparr>"
    by (auto simp: on_sent_def act_on_def split: prod.splits)
  with refresh_cases [OF l(1)] assms(2) show "tokens_home E t"
    by (auto intro!: tokens_home_send request_ok_fixed [OF assms(1)])
  show "issued E (bk_sent t) p (rf_access rf)" if ok: "res = Ok rf"
  proof -
    from refresh_cases [OF l(1)] ok obtain r a where r: "og_to r = Fixed (pv_refresh p)" "l = bk_sent s @ [r]"
      "http_send E (bk_sent s) r = Some a" "read_refreshed E p a = Ok rf" by auto
    show ?thesis unfolding issued_def l(2) r(2)
      by (rule exI [of _ "bk_sent s"], rule exI [of _ r], rule exI [of _ "[]"], rule exI [of _ a]) (use r in auto)
  qed
qed

lemma on_sent_send: "on_sent (send E r e) s = (ok_or (http_send E (bk_sent s) r) e, s\<lparr> bk_sent := bk_sent s @ [r] \<rparr>)"
  by (simp add: on_sent_def act_on_def send_def)

lemma request_ok_bearer:
  "p \<in> set PROVIDERS \<Longrightarrow> sends_to p r \<Longrightarrow> og_bearer r = Some token \<Longrightarrow> issued E sent p token \<Longrightarrow> request_ok E sent r"
  by (auto simp: request_ok_def)

lemma account_home:
  assumes "p \<in> set PROVIDERS" and "tokens_home E s" and "issued E (bk_sent s) p token"
  shows "tokens_home E (snd (on_sent (account_of E p token) s))"
proof -
  let ?r = "(account_request p)\<lparr> og_bearer := Some token \<rparr>"
  have "sends_to p ?r"
    by (auto simp: sends_to_def account_request_def with_mcp_accept_def base_request_def identity_urls_def split: identity.splits)
  then have "tokens_home E (s\<lparr> bk_sent := bk_sent s @ [?r] \<rparr>)"
    by (intro tokens_home_send request_ok_bearer [OF assms(1) _ _ assms(3)] assms(2)) auto
  moreover have "snd (account_of E p token (bk_sent s)) = bk_sent s @ [?r]"
    by (auto simp: account_of_def act_bind_def send_def act_refuse_def split: prod.splits result.splits)
  ultimately show ?thesis by (cases "account_of E p token (bk_sent s)") (simp add: on_sent_def act_on_def)
qed

lemma revoke_home:
  assumes "p \<in> set PROVIDERS" and "tokens_home E s"
  shows "tokens_home E (s\<lparr> bk_sent := revoke E p ci cs old (bk_sent s) \<rparr>)"
proof (cases "pv_revoke p")
  case (RevokeForm u)
  then show ?thesis
    using assms by (auto simp: revoke_def Let_def base_request_def revoke_urls_def intro!: tokens_home_send request_ok_fixed)
next
  case RevokeLocal
  then show ?thesis using assms by (simp add: revoke_def Let_def)
next
  case (RevokeBearer u)
  obtain res l where r: "refresh E p ci cs old (bk_sent s) = (res, l)" by fastforce
  then have o: "on_sent (refresh E p ci cs old) s = (res, s\<lparr> bk_sent := l \<rparr>)" by (simp add: on_sent_def act_on_def)
  note h = refresh_home [OF assms o]
  show ?thesis
  proof (cases res)
    case (Ok rf)
    let ?r = "(base_request ''POST'' (Fixed u))\<lparr> og_bearer := Some (rf_access rf) \<rparr>"
    have "sends_to p ?r" using RevokeBearer by (simp add: sends_to_def base_request_def revoke_urls_def)
    with h Ok have "tokens_home E ((s\<lparr> bk_sent := l \<rparr>)\<lparr> bk_sent := bk_sent (s\<lparr> bk_sent := l \<rparr>) @ [?r] \<rparr>)"
      by (intro tokens_home_send request_ok_bearer [OF assms(1)]) auto
    with Ok r RevokeBearer show ?thesis by (simp add: revoke_def Let_def)
  qed (use h(1) r RevokeBearer in \<open>simp add: revoke_def Let_def\<close>)
next
  case (RevokeAccessForm u)
  obtain res l where r: "refresh E p ci cs old (bk_sent s) = (res, l)" by fastforce
  then have o: "on_sent (refresh E p ci cs old) s = (res, s\<lparr> bk_sent := l \<rparr>)" by (simp add: on_sent_def act_on_def)
  note h = refresh_home [OF assms o]
  show ?thesis
  proof (cases res)
    case (Ok rf)
    let ?r = "(base_request ''POST'' (Fixed u))\<lparr> og_payload := Form [(''token'', rf_access rf), (''token_type_hint'', ''access_token''),
            (''client_id'', ci)] \<rparr>"
    have "tokens_home E ((s\<lparr> bk_sent := l \<rparr>)\<lparr> bk_sent := bk_sent (s\<lparr> bk_sent := l \<rparr>) @ [?r] \<rparr>)"
      by (rule tokens_home_send [OF h(1)], rule request_ok_fixed [OF assms(1)])
        (use RevokeAccessForm in \<open>auto simp: base_request_def revoke_urls_def\<close>)
    with Ok r RevokeAccessForm show ?thesis by (simp add: revoke_def Let_def)
  qed (use h(1) r RevokeAccessForm in \<open>simp add: revoke_def Let_def\<close>)
qed

section \<open>Tokens stay with their provider\<close>

lemma provider_namedD: "provider_named n = Some p \<Longrightarrow> p \<in> set PROVIDERS \<and> pv_name p = n"
  unfolding provider_named_def by (drule find_SomeD) auto

lemma provider_names: "distinct (map pv_name PROVIDERS)"
  by (simp add: PROVIDERS_def GOOGLE_def DROPBOX_def SLACK_def FIGMA_def HUBSPOT_def NOTION_def)

lemma provider_eq: "p \<in> set PROVIDERS \<Longrightarrow> q \<in> set PROVIDERS \<Longrightarrow> pv_name p = pv_name q \<Longrightarrow> p = q"
  using provider_names by (auto simp: distinct_map inj_on_def)

lemma store_aad_inject:
  assumes "sha_law E" and "length row = length row'" and "store_aad E row member p = store_aad E row' member' p'"
  shows "row = row' \<and> sha256 E member = sha256 E member' \<and> p = p'"
proof -
  from assms(2,3) have "row = row'" "sha256 E member @ as_bytes p = sha256 E member' @ as_bytes p'"
    by (auto simp: store_aad_def)
  moreover have "length (sha256 E member) = length (sha256 E member')" using assms(1) by (simp add: sha_law_def)
  ultimately show ?thesis by auto
qed

abbreviation keeps_home :: "'x net_ext_scheme \<Rightarrow> (broker, 'a, 'e) action \<Rightarrow> bool" where
  "keeps_home E \<equiv> keeps (\<lambda>s t. tokens_home E s \<longrightarrow> tokens_home E t)"

lemma cached_issued:
  assumes "sha_law E" and "tokens_home E s" and "p \<in> set PROVIDERS"
    and "cached c i (store_aad E (uuid_bytes i) member (pv_name p)) s = Some token"
  shows "issued E (bk_sent s) p token"
proof -
  from assms(4) obtain until where "bk_tokens s i = Some (token, until, store_aad E (uuid_bytes i) member (pv_name p))"
    by (auto simp: cached_def bind_eq_Some_conv split: if_splits)
  with assms(2) obtain q member' where q: "q \<in> set PROVIDERS" "issued E (bk_sent s) q token"
    "store_aad E (uuid_bytes i) member (pv_name p) = store_aad E (uuid_bytes i) member' (pv_name q)"
    unfolding tokens_home_def cache_ok_def by blast
  from store_aad_inject [OF assms(1) refl q(3)] provider_eq [OF assms(3) q(1)] q(2) show ?thesis by simp
qed

lemma cache_token_home:
  assumes "tokens_home E s" and "p \<in> set PROVIDERS" and "issued E (bk_sent s) p (rf_access r)"
  shows "tokens_home E (cache_token c i (store_aad E (uuid_bytes i) member (pv_name p)) r s)"
proof -
  have "\<exists>q \<in> set PROVIDERS. \<exists>m. aad = store_aad E (uuid_bytes j) m (pv_name q) \<and> issued E (bk_sent s) q token"
    if "bk_tokens (cache_token c i (store_aad E (uuid_bytes i) member (pv_name p)) r s) j = Some (token, until, aad)" for j token until aad
    using that assms unfolding tokens_home_def cache_ok_def
    by (auto simp: cache_token_def Let_def bind_eq_Some_conv split: option.splits if_splits)
  moreover have "bk_sent (cache_token c i aad r s) = bk_sent s" for aad by (simp add: cache_token_def Let_def)
  ultimately show ?thesis using assms(1) unfolding tokens_home_def cache_ok_def by auto
qed

lemma refresh_token_home:
  assumes "p \<in> set PROVIDERS"
  shows "triple (tokens_home E) (refresh_token E cf c retried i (store_aad E (uuid_bytes i) member (pv_name p)) p sealed_token)
    (\<lambda>token t. tokens_home E t \<and> issued E (bk_sent t) p token) (tokens_home E)"
proof -
  let ?I = "\<lambda>r t. tokens_home E t \<and> issued E (bk_sent t) p (rf_access r)"
  have cl: "triple (tokens_home E) (client cf p) (\<lambda>_. tokens_home E) (tokens_home E)"
    by (auto simp: triple_def client_def)
  have sent: "triple (tokens_home E) (refresh_or_dead E c i p a b old) ?I (tokens_home E)" for a b old
  proof -
    have "case refresh_or_dead E c i p a b old s of (Ok r, t) \<Rightarrow> ?I r t | (Err e, t) \<Rightarrow> tokens_home E t" if "tokens_home E s" for s
    proof (cases "on_sent (refresh E p a b old) s")
      case (Pair res t)
      note h = refresh_home [OF assms that Pair]
      have "tokens_home E (t\<lparr> bk_db := d, bk_tokens := (bk_tokens t)(i := None) \<rparr>)" for d
        by (rule tokens_home_forget [OF _ _ h(1)]) auto
      with h Pair show ?thesis by (cases res) (auto simp: refresh_or_dead_def split: refresh_error.splits)
    qed
    then show ?thesis unfolding triple_def by (metis (mono_tags, lifting) case_prod_conv result.case)
  qed
  have mod: "triple (?I r) (act_modify (\<lambda>s. s\<lparr> bk_db := f s \<rparr>)) (\<lambda>_. ?I r) (tokens_home E)" for r f
    by (rule triple_modify) (auto intro: tokens_home_frame)
  show ?thesis
    unfolding refresh_token_def
    apply (rule triple_bind [where R = "\<lambda>_. tokens_home E"], rule triple_read, assumption)
    apply (rule triple_bind [OF cl], rule triple_case_prod)
    apply (rule triple_bind [where R = "\<lambda>_. tokens_home E"], rule triple_lift, assumption, assumption)
    apply (rule triple_bind [OF sent])
    subgoal for _ _ _ _ _ r
      apply (rule triple_bind [where R = "\<lambda>_. ?I r"])
       apply (rule triple_case_option, rule triple_lift, assumption, simp)
       apply (rule triple_bind [where R = "\<lambda>_. ?I r"], rule triple_lift, assumption, simp)
       apply (rule mod)
      apply (rule triple_bind [where R = "\<lambda>_. ?I r"], rule triple_modify)
       apply (simp add: cache_token_home assms, simp add: cache_token_def Let_def)
      apply (rule triple_lift, simp, simp)
      done
    done
qed

lemma access_token_home:
  assumes "sha_law E" and "p \<in> set PROVIDERS"
  shows "triple (tokens_home E) (access_token E cf c retried i member p)
    (\<lambda>token t. tokens_home E t \<and> issued E (bk_sent t) p token) (tokens_home E)"
  unfolding access_token_def Let_def
proof (rule triple_bind [where R = "\<lambda>hit s. tokens_home E s \<and> hit = cached c i (store_aad E (uuid_bytes i) member (pv_name p)) s"])
  fix hit
  show "triple (\<lambda>s. tokens_home E s \<and> hit = cached c i (store_aad E (uuid_bytes i) member (pv_name p)) s)
    (case hit of None \<Rightarrow>
        act_bind (act_read (\<lambda>s. lock_token i (bk_db s))) (\<lambda>found. act_bind (act_lift (ok_or found BNotFound))
          (refresh_token E cf c retried i (store_aad E (uuid_bytes i) member (pv_name p)) p))
      | Some token \<Rightarrow> act_ok token)
    (\<lambda>token t. tokens_home E t \<and> issued E (bk_sent t) p token) (tokens_home E)"
  proof (cases hit)
    case None
    show ?thesis
      unfolding None option.case
      by (rule triple_bind [where R = "\<lambda>_. tokens_home E"], rule triple_read, simp,
          rule triple_bind [OF triple_lift refresh_token_home [OF assms(2)]])
  next
    case (Some token)
    show ?thesis unfolding Some option.case by (rule triple_lift) (auto intro: cached_issued [OF assms(1) _ assms(2)] dest: sym)
  qed
qed (rule triple_read, simp)

lemma outgoing_request_simps:
  "og_to (outgoing_request p en u hs body token) = Parsed u" "og_method (outgoing_request p en u hs body token) = en_method en"
  "og_bearer (outgoing_request p en u hs body token) = Some token"
  by (simp_all add: outgoing_request_def with_mcp_accept_def base_request_def)

lemma outgoing_sends_to:
  "allowed (listed p) meth u = Some en \<Longrightarrow> set (listed p) \<subseteq> set (pv_reads p @ pv_writes p) \<Longrightarrow>
     sends_to p (outgoing_request p en u hs body token)"
  using allowed_fits [of "listed p" meth u en] by (auto simp: sends_to_def outgoing_request_simps fits_def)

lemma triple_keeps: "triple P m (\<lambda>_. P) P \<longleftrightarrow> keeps (\<lambda>s t. P s \<longrightarrow> P t) m"
  unfolding triple_def keeps_def by (metis prod.collapse result.exhaust snd_conv)

lemma forward_home:
  assumes "sha_law E" and "p \<in> set PROVIDERS" and "\<And>token. sends_to p (request token) \<and> og_bearer (request token) = Some token"
  shows "keeps_home E (forward_loop E cf c i member p request retried)"
  using assms
proof (induction E cf c i member p request retried rule: forward_loop.induct)
  case (1 E cf c i member p request retried)
  have snd: "triple (\<lambda>t. tokens_home E t \<and> issued E (bk_sent t) p token) (on_sent (send E (request token) BUpstream))
      (\<lambda>_. tokens_home E) (tokens_home E)" for token
    unfolding triple_def on_sent_send
    using "1.prems"(2,3) by (auto intro!: tokens_home_send request_ok_bearer)
  have drop: "triple (tokens_home E) (act_modify (drop_token i token)) (\<lambda>_. tokens_home E) (tokens_home E)" for token
    by (rule triple_modify, rule tokens_home_forget) (auto simp: drop_token_def split: option.splits)
  have again: "triple (tokens_home E) (forward_loop E cf c i member p request True) (\<lambda>_. tokens_home E) (tokens_home E)" if "\<not> retried"
    using "1.IH" [OF _ "1.prems"] that unfolding triple_keeps by (metis answer.select_convs(1))
  show ?case
    unfolding triple_keeps [symmetric] forward_loop.simps [of E cf c i member p request retried]
    by (rule triple_bind [OF access_token_home [OF "1.prems"(1,2)]], rule triple_bind [OF snd], rule triple_if,
        rule triple_bind [OF drop again], simp, rule triple_lift)
qed

lemma home_frame [act_intros]:
  "keeps_home E (on_db f)" "keeps_home E (on_db_opt g)" "keeps_home E (on_channel c cid h er)"
  by (auto simp: keeps_def on_db_def on_db_opt_def on_channel_def split: prod.splits option.splits intro: tokens_home_frame [rotated 2])

lemma home_spend [act_intros]: "keeps_home E (spend E' c d)"
  unfolding spend_def by (intro act_intros order_like_imp)

lemma home_start: "keeps_home E (start_inner E' cf c prov sl)"
  unfolding start_inner_def
  by (auto intro!: act_intros order_like_imp split: member_document.splits connector_request.splits)

lemma home_list: "keeps_home E (list_inner E' c sl)"
  unfolding list_inner_def by (auto intro!: act_intros order_like_imp split: member_document.splits connector_request.splits)

lemma home_exchange_account:
  assumes "p \<in> set PROVIDERS" and "\<And>ts acct. keeps_home E (g ts acct)"
  shows "keeps_home E (act_bind (act_map_err f (on_sent (exchange E p ci cs ru ac v)))
    (\<lambda>ts. act_bind (act_map_err h (on_sent (account_of E p (tk_access ts)))) (g ts)))"
proof -
  have acc: "triple (\<lambda>t. tokens_home E t \<and> issued E (bk_sent t) p token) (on_sent (account_of E p token)) (\<lambda>_. tokens_home E) (tokens_home E)" for token
    unfolding triple_def using account_home [OF assms(1)] by (metis snd_conv)
  show ?thesis
    unfolding triple_keeps [symmetric]
    by (rule triple_bind [OF triple_map_err [OF exchange_home [OF assms(1)]]], rule triple_bind [OF triple_map_err [OF acc]])
      (use assms(2) in \<open>simp add: triple_keeps\<close>)
qed

lemma home_finish: "keeps_home E (finish_inner E cf c sl)"
proof -
  have named: "keeps_home E (act_bind (act_lift (ok_or (provider_named n) BInternal)) f)"
    if "\<And>p. p \<in> set PROVIDERS \<Longrightarrow> keeps_home E (f p)" for n and f :: "provider \<Rightarrow> json handler"
    by (rule keeps_bind_Ok) (use that in \<open>auto intro!: act_intros simp: result_simps dest: provider_namedD\<close>)
  note steps = keeps_bind [OF order_like_imp keeps_read [OF order_like_imp]] keeps_bind [OF order_like_imp keeps_lift [OF order_like_imp]]
    keeps_bind [OF order_like_imp keeps_client [OF order_like_imp]] keeps_bind [OF order_like_imp home_spend]
    keeps_bind [OF order_like_imp home_frame(1)] keeps_bind [OF order_like_imp home_frame(2)] keeps_lift [OF order_like_imp] keeps_case_prod
  show ?thesis
    unfolding finish_inner_def
    apply (rule steps(2), rule steps(8))
    subgoal for _ member document
      apply (cases document; simp only: member_document.case steps(7))
      subgoal for r
        by (cases r; simp only: connector_request.case steps(7))
          ((rule named | (rule home_exchange_account, assumption) | rule steps)+)
      done
    done
qed

lemma home_disconnect: "keeps_home E (disconnect_inner E cf c i sl)"
proof -
  have r: "tokens_home E (revoke_at_provider E cf j member prov enc s)" if "tokens_home E s" for j member prov enc s
    using that revoke_home [OF _ that] by (auto simp: revoke_at_provider_def split: option.splits result.splits dest: provider_namedD)
  have m: "keeps_home E (act_modify (revoke_at_provider E cf j member prov enc))" for j member prov enc
    by (rule keeps_modify) (simp add: r)
  have "tokens_home E (s\<lparr> bk_tokens := (bk_tokens s)(j := None) \<rparr>)" if "tokens_home E s" for s j
    by (rule tokens_home_forget [OF _ _ that]) auto
  then have f: "keeps_home E (act_modify (\<lambda>s. s\<lparr> bk_tokens := (bk_tokens s)(j := None) \<rparr>))" for j
    by (intro keeps_modify) blast
  show ?thesis
    unfolding disconnect_inner_def
    by (auto intro!: act_intros order_like_imp m f split: member_document.splits connector_request.splits)
qed

lemma target_Ok:
  assumes "target E member i meth u hs body listed s = (Ok (p, en, headers), t)"
  shows "p \<in> set PROVIDERS" "allowed (listed p) meth u = Some en" "t = s" "load_connection i member (bk_db s) = Some (pv_name p, False)"
    "check_headers E p hs = Ok headers" "\<forall>tools. pv_mcp_tools p = Some tools \<longrightarrow> mcp_call_allowed tools body"
  using assms provider_namedD by (auto simp: target_def result_simps)

lemma home_target_forward:
  assumes "sha_law E" and "\<And>p. set (listed p) \<subseteq> set (pv_reads p @ pv_writes p)" and "\<And>r. keeps_home E (g r)"
  shows "keeps_home E (act_bind (target E member i meth u hs body listed)
    (\<lambda>(p, en, headers). act_bind (forward E cf c i member p en u headers payload) g))"
proof (rule keeps_bind_Ok [OF order_like_imp])
  fix s a t
  assume "target E member i meth u hs body listed s = (Ok a, t)"
  moreover obtain p en headers where a: "a = (p, en, headers)" by (cases a) auto
  ultimately have "p \<in> set PROVIDERS" "allowed (listed p) meth u = Some en" by (auto dest: target_Ok)
  then have "keeps_home E (forward E cf c i member p en u headers payload)"
    unfolding forward_def
    by (intro forward_home [OF assms(1)]) (auto simp: outgoing_request_simps intro: outgoing_sends_to [OF _ assms(2)])
  then show "keeps_home E (case a of (p, en, headers) \<Rightarrow> act_bind (forward E cf c i member p en u headers payload) g)"
    unfolding a prod.case by (intro act_intros order_like_imp assms(3))
qed (intro act_intros order_like_imp)

lemma act_bind_ok_right: "act_bind m (\<lambda>r. act_ok r) = m"
  by (auto simp: fun_eq_iff act_bind_def split: prod.splits result.splits)

lemma home_proxy: "sha_law E \<Longrightarrow> keeps_home E (proxy E cf c)"
proof -
  assume "sha_law E"
  then have tf: "keeps_home E (act_bind (target E member i meth u hs body pv_reads)
      (\<lambda>(p, en, headers). forward E cf c i member p en u headers payload))" for member i meth u hs body payload
    using home_target_forward [of E pv_reads "\<lambda>r. act_ok r"] by (simp add: act_bind_ok_right keeps_lift)
  show ?thesis
    unfolding proxy_def
    by ((rule tf | rule keeps_bind [OF order_like_imp keeps_lift [OF order_like_imp]] keeps_bind [OF order_like_imp keeps_grant [OF order_like_imp]])+)
qed

lemma home_write: "sha_law E \<Longrightarrow> keeps_home E (write_inner E cf c sl)"
  unfolding write_inner_def
  by (auto intro!: act_intros order_like_imp home_target_forward split: member_document.splits)

lemma home_open_channel: "keeps_home E (open_channel E' c)"
  unfolding open_channel_def by (intro act_intros order_like_imp) (auto intro: tokens_home_frame [rotated 2])

lemma broker_step_home:
  assumes "sha_law E" and "tokens_home E s"
  shows "tokens_home E (broker_step E cf q s)"
  using assms
  by (auto simp: broker_step_def Let_def keeps_snd [OF home_open_channel, rule_format] keeps_snd [OF home_proxy, rule_format]
        keeps_snd [OF keeps_sealed_route [OF order_like_imp _ home_frame(3) home_frame(3)], rule_format] home_start home_finish home_list home_disconnect home_write
      split: broker_route.splits intro: tokens_home_frame [rotated 2])

interpretation broker_home: stepper "broker_step E cf" "\<lambda>s. sha_law E \<longrightarrow> tokens_home E s" for E :: "'x net_ext_scheme" and cf
  by unfold_locales (simp add: broker_step_home)

section \<open>How much a forwarded request sends\<close>

definition grows :: "(outgoing \<Rightarrow> bool) \<Rightarrow> nat \<Rightarrow> broker \<Rightarrow> broker \<Rightarrow> bool" where
  "grows P n s t \<longleftrightarrow> (\<exists>new. bk_sent t = bk_sent s @ new \<and> length new \<le> n \<and> list_all P new)"

lemma grows_same: "bk_sent t = bk_sent s \<Longrightarrow> grows P n s t"
  by (simp add: grows_def)

lemma sent_grows_trans: "grows P n s t \<Longrightarrow> grows P m t u \<Longrightarrow> grows P (n + m) s u"
  unfolding grows_def by (elim exE conjE) (rule exI, auto)

lemma grows_one: "P r \<Longrightarrow> bk_sent t = bk_sent s @ [r] \<Longrightarrow> 0 < n \<Longrightarrow> grows P n s t"
  by (auto simp: grows_def)

abbreviation to_refresh :: "provider \<Rightarrow> outgoing \<Rightarrow> bool" where
  "to_refresh p r \<equiv> og_to r = Fixed (pv_refresh p) \<and> og_bearer r = None"

lemma refresh_or_dead_grows:
  "triple (\<lambda>u. bk_sent u = bk_sent s) (refresh_or_dead E c i p ci cs old) (\<lambda>_. grows (to_refresh p) 1 s) (grows (to_refresh p) 1 s)"
proof -
  have "grows (to_refresh p) 1 s u" if "refresh_or_dead E c i p ci cs old v = (res, u)" "bk_sent v = bk_sent s" for v u res
  proof (cases "refresh E p ci cs old (bk_sent v)")
    case (Pair r l)
    with that(1) have "bk_sent u = l"
      by (auto simp: refresh_or_dead_def on_sent_def act_on_def split: result.splits refresh_error.splits)
    with refresh_cases [OF Pair] that(2) show ?thesis by (auto intro: grows_same grows_one)
  qed
  then show ?thesis unfolding triple_def by blast
qed

lemma refresh_token_grows:
  "triple (\<lambda>u. bk_sent u = bk_sent s) (refresh_token E cf c retried i aad p sealed_token) (\<lambda>_. grows (to_refresh p) 1 s) (grows (to_refresh p) 1 s)"
proof -
  have cl: "triple (\<lambda>u. bk_sent u = bk_sent s) (client cf p) (\<lambda>_ u. bk_sent u = bk_sent s) (grows (to_refresh p) 1 s)"
    by (auto simp: triple_def client_def grows_same)
  let ?G = "grows (to_refresh p) 1 s"
  have frame: "?G t \<Longrightarrow> bk_sent u = bk_sent t \<Longrightarrow> ?G u" for t u by (simp add: grows_def)
  show ?thesis
    unfolding refresh_token_def
    apply (rule triple_bind [where R = "\<lambda>_ u. bk_sent u = bk_sent s"], rule triple_read, assumption)
    apply (rule triple_bind [OF cl], rule triple_case_prod)
    apply (rule triple_bind [where R = "\<lambda>_ u. bk_sent u = bk_sent s"], rule triple_lift, assumption, simp add: grows_same)
    apply (rule triple_bind [OF refresh_or_dead_grows])
    apply (rule triple_bind [where R = "\<lambda>_. ?G"])
     apply (rule triple_case_option, rule triple_lift, assumption, assumption)
     apply (rule triple_bind [where R = "\<lambda>_. ?G"], rule triple_lift, assumption, assumption)
     apply (rule triple_modify, erule frame, simp)
    apply (rule triple_bind [where R = "\<lambda>_. ?G"], rule triple_modify, erule frame, simp add: cache_token_def Let_def)
    apply (rule triple_lift, assumption, assumption)
    done
qed

lemma access_token_grows:
  "triple (\<lambda>u. bk_sent u = bk_sent s) (access_token E cf c retried i member p) (\<lambda>_. grows (to_refresh p) 1 s) (grows (to_refresh p) 1 s)"
  unfolding access_token_def Let_def
  apply (rule triple_bind [where R = "\<lambda>_ u. bk_sent u = bk_sent s"], rule triple_read, assumption)
  apply (rule triple_case_option)
   apply (rule triple_bind [where R = "\<lambda>_ u. bk_sent u = bk_sent s"], rule triple_read, assumption)
   apply (rule triple_bind [OF triple_lift refresh_token_grows], assumption, simp add: grows_same)
  apply (rule triple_lift, simp_all add: grows_same)
  done

lemma forward_loop_grows:
  "triple (\<lambda>u. bk_sent u = bk_sent s) (forward_loop E cf c i member p request retried)
     (\<lambda>_. grows (\<lambda>r. to_refresh p r \<or> (\<exists>token. r = request token)) (if retried then 2 else 4) s)
     (grows (\<lambda>r. to_refresh p r \<or> (\<exists>token. r = request token)) (if retried then 2 else 4) s)"
proof (induction E cf c i member p request retried arbitrary: s rule: forward_loop.induct)
  case (1 E cf c i member p request retried)
  let ?P = "\<lambda>r. to_refresh p r \<or> (\<exists>token. r = request token)" and ?n = "if retried then 2 else 4 :: nat"
  have weaken: "grows ?P m s u" if "grows P n s u" "\<And>r. P r \<Longrightarrow> ?P r" "n \<le> m" for P n m u
    using that by (fastforce simp: grows_def list_all_iff)
  have a: "triple (\<lambda>u. bk_sent u = bk_sent s) (access_token E cf c retried i member p) (\<lambda>_. grows ?P 1 s) (grows ?P ?n s)"
    by (rule triple_conseq [OF access_token_grows]) (auto elim!: weaken)
  have b: "triple (grows ?P 1 s) (on_sent (send E (request token) BUpstream)) (\<lambda>_. grows ?P 2 s) (grows ?P ?n s)" for token
  proof -
    have "grows ?P 2 s (t\<lparr> bk_sent := bk_sent t @ [request token] \<rparr>)" if "grows ?P 1 s t" for t
    proof -
      have "grows ?P 1 t (t\<lparr> bk_sent := bk_sent t @ [request token] \<rparr>)" by (rule grows_one) auto
      from sent_grows_trans [OF that this] show ?thesis by (simp add: numeral_2_eq_2)
    qed
    note two = this
    have "grows ?P ?n s (t\<lparr> bk_sent := bk_sent t @ [request token] \<rparr>)" if "grows ?P 1 s t" for t
      by (rule weaken [OF two [OF that]]) auto
    with two show ?thesis unfolding triple_def on_sent_send by simp
  qed
  have d: "triple (grows ?P 2 s) (act_modify (drop_token i token)) (\<lambda>_. grows ?P 2 s) (grows ?P ?n s)" for token
    by (rule triple_modify) (auto simp: drop_token_def grows_def split: option.splits)
  have again: "triple (grows ?P 2 s) (forward_loop E cf c i member p request True) (\<lambda>_. grows ?P 4 s) (grows ?P 4 s)" if "\<not> retried"
  proof -
    have ih: "triple (\<lambda>u. bk_sent u = bk_sent v) (forward_loop E cf c i member p request True) (\<lambda>_. grows ?P 2 v) (grows ?P 2 v)" for v
      using "1.IH" [of "\<lparr> aw_status = 401, aw_content_type = None, aw_chunks = [], aw_broken = False \<rparr>" v] that by simp
    have "grows ?P 4 s u" if "grows ?P 2 s v" "forward_loop E cf c i member p request True v = (res, u)" for v u res
    proof -
      have "grows ?P 2 v u" using ih [of v] that(2) unfolding triple_def by (cases res) blast+
      from sent_grows_trans [OF that(1) this] show ?thesis by (simp add: eval_nat_numeral)
    qed
    then show ?thesis unfolding triple_def by blast
  qed
  show ?case
    unfolding forward_loop.simps [of E cf c i member p request retried]
    apply (rule triple_bind [OF a], rule triple_bind [OF b], rule triple_if)
     apply (rule triple_bind [OF d])
     apply (use again in simp)
    apply (rule triple_lift)
     apply (auto elim!: weaken)
    done
qed

lemma forward_grows:
  assumes "forward E cf c i member p en u hs body s = (r, t)"
  shows "grows (\<lambda>x. to_refresh p x \<or> (\<exists>token. x = outgoing_request p en u hs body token)) 4 s t"
  using tripleD [OF forward_loop_grows [of s E cf c i member p "outgoing_request p en u hs body" False], of s] assms
  by (simp add: forward_def)

section \<open>Rows that are gone\<close>

text \<open>A connection that was revoked: its row is there, and every row with its id is revoked.\<close>

definition gone :: "uuid \<Rightarrow> broker_db \<Rightarrow> bool" where
  "gone i d \<longleftrightarrow> i \<in> cn_id ` set (bd_connections d) \<and> (\<forall>cn \<in> set (bd_connections d). cn_id cn = i \<longrightarrow> \<not> live cn)"

lemma gone_update:
  assumes "\<And>cn. cn_id (f cn) = cn_id cn" and "\<And>cn. \<not> live cn \<Longrightarrow> \<not> live (f cn)" and "gone i d"
  shows "gone i (update_rows P f d)"
proof -
  obtain cn where cn: "cn \<in> set (bd_connections d)" "cn_id cn = i" using assms(3) by (auto simp: gone_def)
  then have "(if P cn then f cn else cn) \<in> set (bd_connections (update_rows P f d))" by (simp add: update_rows_def)
  moreover have "cn_id (if P cn then f cn else cn) = i" using cn assms(1) by simp
  ultimately have "i \<in> cn_id ` set (bd_connections (update_rows P f d))" by blast
  moreover have "\<not> live cn" if "cn \<in> set (bd_connections (update_rows P f d))" "cn_id cn = i" for cn
    using that assms by (auto simp: update_rows_def gone_def split: if_splits)
  ultimately show ?thesis using assms(3) unfolding gone_def by blast
qed

lemma gone_save:
  assumes "gone i d" and "save_connection E rnd now fresh key m p a t sc d = Some (j, d')"
  shows "gone i d'"
proof (cases "find (\<lambda>c. cn_member c = m \<and> cn_provider c = p \<and> cn_subject c = ac_subject a \<and> live c) (bd_connections d)")
  case None
  with assms(2) have "\<exists>row. cn_id row \<notin> cn_id ` set (bd_connections d) \<and> d' = d\<lparr> bd_connections := bd_connections d @ [row] \<rparr>"
    by (auto simp: save_connection_def Let_def bind_eq_Some_conv intro!: exI [of _ "\<lparr> cn_id = j, cn_member = m, cn_provider = p,
      cn_subject = ac_subject a, cn_account = ac_email a, cn_enc_refresh_token = Some _, cn_scopes = sc, cn_created_at = now,
      cn_dead_at = None, cn_revoked_at = None \<rparr>"] split: if_splits)
  with assms(1) show ?thesis by (auto simp: gone_def)
next
  case (Some c)
  with assms(2) obtain sealed where d': "d' = update_rows (\<lambda>x. cn_id x = cn_id c)
      (\<lambda>x. x\<lparr> cn_account := ac_email a, cn_enc_refresh_token := Some sealed, cn_scopes := sc, cn_dead_at := None \<rparr>) d"
    by (auto simp: save_connection_def Let_def bind_eq_Some_conv)
  show ?thesis unfolding d' by (rule gone_update [OF _ _ assms(1)]) (simp_all add: live_def)
qed

lemma gone_pending: "gone i d \<Longrightarrow> insert_pending now st m p e d = Some d' \<Longrightarrow> gone i d'"
  "gone i d \<Longrightarrow> gone i (snd (take_pending now st d))"
  by (auto simp: gone_def insert_pending_def take_pending_def split: if_splits)

interpretation gone_rows: store_relation E "\<lambda>d d'. gone i d \<longrightarrow> gone i d'" c for E :: "'x net_ext_scheme" and i c
proof
  show "gone i d \<longrightarrow> gone i (purge_expired (bc_db_now c) d)" "gone i d \<longrightarrow> gone i (snd (use_nonce (bc_db_now c) n d))" for d n
    by (simp_all add: gone_def purge_expired_def use_nonce_def)
  show "gone i d \<longrightarrow> gone i (snd (revoke_connection (bc_db_now c) j m d))" for d j m
    by (auto simp: revoke_connection_def live_def intro!: gone_update split: option.splits)
  show "gone i d \<longrightarrow> gone i (mark_dead (bc_db_now c) j d)" "gone i d \<longrightarrow> gone i (replace_refresh_token j e d)" for d j e
    by (auto simp: mark_dead_def replace_refresh_token_def live_def intro!: gone_update)
qed (auto intro: gone_pending gone_save)

interpretation broker_gone: stepper "broker_step E cf" "\<lambda>s. gone i (bk_db s)" for E :: "'x net_ext_scheme" and cf i
  by unfold_locales (metis gone_rows.step_keeps prod.collapse)

section \<open>Nonces that are kept\<close>

text \<open>A spent nonce stays while no call's clock is past the time it is kept for.\<close>

interpretation nonce_rows: store_relation E
  "\<lambda>d d'. bc_db_now c \<le> e \<longrightarrow> (n, e) \<in> set (bd_nonces d) \<longrightarrow> (n, e) \<in> set (bd_nonces d')" c for E :: "'x net_ext_scheme" and n e c
proof
  show "order_like (\<lambda>d d'. bc_db_now c \<le> e \<longrightarrow> (n, e) \<in> set (bd_nonces d) \<longrightarrow> (n, e) \<in> set (bd_nonces d'))"
    by (simp add: order_like_def)
qed (auto simp: purge_expired_def use_nonce_def insert_pending_def take_pending_def save_connection_def Let_def bind_eq_Some_conv
      update_rows_def revoke_connection_def mark_dead_def replace_refresh_token_def split: if_splits option.splits)

lemma run_keeps_nonce:
  "\<forall>q \<in> set qs. bc_db_now (snd q) \<le> e \<Longrightarrow> (n, e) \<in> set (bd_nonces (bk_db s)) \<Longrightarrow>
     (n, e) \<in> set (bd_nonces (bk_db (fold (broker_step E cf) qs s)))"
proof (induction qs arbitrary: s)
  case (Cons q qs)
  then show ?case using nonce_rows.step_keeps [of "snd q" e n s E cf "fst q"] by simp
qed simp

section \<open>Properties\<close>

text \<open>
  Over every sequence of calls the broker's tables keep what the migrations declare: no two rows
  share an id, no two pending connects a state and no two spent nonces are equal, a row holds a sealed
  token exactly while it is not revoked, and a member has at most one live connection to an account.
\<close>

theorem broker_runs_keep_tables:
  assumes "tables_ok (bk_db s)"
  shows "tables_ok (bk_db (fold (broker_step E cf) qs s))"
  by (rule broker_tables.run_inv [OF assms])

text \<open>
  C23. An access token goes home: whatever calls arrive and whatever providers answer, every request the
  broker sends goes to a fixed address of one provider of its table, or over https to a host, method
  and path of that provider's read or write list, and a bearer it carries is an access token which that
  same provider had issued before.
\<close>

theorem access_tokens_stay_with_provider:
  assumes "sha_law E" and "bk_sent s = []" and "bk_tokens s = Map.empty"
    and "bk_sent (fold (broker_step E cf) qs s) = pre @ r # later"
  shows "\<exists>p \<in> set PROVIDERS. sends_to p r \<and> (\<forall>token. og_bearer r = Some token \<longrightarrow> issued E pre p token)"
proof -
  have "tokens_home E s" using assms(2,3) by (simp add: tokens_home_def sent_ok_def cache_ok_def)
  with assms(1) broker_home.run_inv [of E s cf qs] have "tokens_home E (fold (broker_step E cf) qs s)" by blast
  with assms(4) show ?thesis unfolding tokens_home_def sent_ok_def request_ok_def by blast
qed

lemma act_bind_still:
  assumes "m s = (res, s)" and "act_bind m f s = (r, t)" and "bk_sent t \<noteq> bk_sent s"
  shows "\<exists>a. res = Ok a \<and> f a s = (r, t)"
  using assms by (cases res) (auto simp: act_bind_def)

lemmas act_lift_still = act_bind_still [where m = "act_lift r" for r, OF act_lift_eq]

lemma grant_holder_Ok:
  assumes "fst (grant_holder E c aud wire i s) = Ok key"
  shows "\<exists>sg g. parse_grant E wire = Ok sg \<and> verify_grant E sg key = Ok g \<and> gr_aud g = ''sha256:'' @ hex_encode aud
    \<and> i \<in> set (gr_connections g) \<and> check_window E g (bc_now c) = Ok ()
    \<and> (\<forall>j \<in> set (gr_connections g). \<exists>cn \<in> set (bd_connections (bk_db s)). cn_id cn = j \<and> live cn \<and> cn_member cn = key)"
proof -
  from assms obtain sg g where g: "parse_grant E wire = Ok sg" "verify_grant E sg key = Ok g" "gr_aud g = ''sha256:'' @ hex_encode aud"
    "i \<in> set (gr_connections g)" "check_window E g (bc_now c) = Ok ()"
    and l: "list_all (\<lambda>x. x \<in> fst ` set (load_grant_keys (gr_connections g) (bk_db s))) (gr_connections g)"
    "\<not> list_ex (\<lambda>e. snd e \<noteq> key) (load_grant_keys (gr_connections g) (bk_db s))"
    by (auto simp: grant_holder_def result_simps Let_def)
  have "\<exists>cn \<in> set (bd_connections (bk_db s)). cn_id cn = j \<and> live cn \<and> cn_member cn = key" if "j \<in> set (gr_connections g)" for j
    using l that by (force simp: list_all_iff list_ex_iff load_grant_keys_def)
  with g show ?thesis by blast
qed

text \<open>
  A grant in force: signed by the member's key over its own bytes, issued at most a minute ahead of the
  clock, not over yet, and lasting at most twelve hours.
\<close>

definition grant_stands :: "'x ext_scheme \<Rightarrow> time \<Rightarrow> string \<Rightarrow> bytes \<Rightarrow> grant \<Rightarrow> bool" where
  "grant_stands E now wire key g \<longleftrightarrow> (\<exists>document sg bs raw_sg s pk issued expiry. split_once ''.'' wire = Some (document, sg)
     \<and> b64_dec E document = Some bs \<and> b64_dec E sg = Some raw_sg \<and> p256_sig_from_slice E raw_sg = Some s \<and> p256_from_spki E key = Some pk
     \<and> p256_verify E pk (sha256 E (as_bytes CONNECTOR_GRANT @ [0] @ bs)) s \<and> grant_de E bs = Some g
     \<and> time_seconds E (gr_issued_at g) = Ok issued \<and> time_seconds E (gr_exp g) = Ok expiry
     \<and> issued \<le> seconds_of now + 60 \<and> seconds_of now < expiry \<and> expiry - issued \<le> 43200)"

lemma grant_stands:
  assumes "parse_grant E wire = Ok sg" and "verify_grant E sg key = Ok g" and "check_window E g now = Ok ()"
  shows "grant_stands E now wire key g"
proof -
  from assms(1) obtain document sgt raw_sg where w: "split_once ''.'' wire = Some (document, sgt)" "b64_dec E document = Some (sg_document sg)"
    "b64_dec E sgt = Some raw_sg" "p256_sig_from_slice E raw_sg = Some (sg_signature sg)"
    by (auto simp: parse_grant_def p256_signature_def result_simps bind_eq_Some_conv)
  from assms(2) obtain pk where k: "p256_from_spki E key = Some pk"
    "p256_verify E pk (sha256 E (as_bytes CONNECTOR_GRANT @ [0] @ sg_document sg)) (sg_signature sg)" "grant_de E (sg_document sg) = Some g"
    by (auto simp: verify_grant_def member_verifying_key_def member_check_def result_simps)
  from grant_window_bounds [OF assms(3)] w k show ?thesis unfolding grant_stands_def by blast
qed

text \<open>The headers of a provider's row, and the calls a tool server's row names.\<close>

definition headers_listed :: "'x net_ext_scheme \<Rightarrow> provider \<Rightarrow> (string \<times> string) list \<Rightarrow> bool" where
  "headers_listed E p hs \<longleftrightarrow> (\<forall>(n, v) \<in> set hs. \<exists>name. header_name E name = Some n
     \<and> (\<exists>h \<in> set (pv_headers p). to_ascii_lowercase h = to_ascii_lowercase name))"

lemma check_headers_from_listed:
  "check_headers_from E p out hs = Ok headers \<Longrightarrow> headers_listed E p out \<Longrightarrow> headers_listed E p headers"
proof (induction E p out hs rule: check_headers_from.induct)
  case (2 E p out name v hs)
  then obtain n where n: "header_name E name = Some n" "check_headers_from E p (header_insert n v out) hs = Ok headers"
    and l: "\<exists>h \<in> set (pv_headers p). to_ascii_lowercase h = to_ascii_lowercase name"
    by (auto simp: result_simps list_ex_iff eq_ignore_ascii_case_def)
  have "headers_listed E p (header_insert n v out)"
    using "2.prems"(2) n(1) l by (auto simp: headers_listed_def header_insert_def)
  with "2.IH" n l "2.prems"(1) show ?case by (auto simp: list_ex_iff eq_ignore_ascii_case_def result_simps)
qed simp

lemma check_headers_listed: "check_headers E p hs = Ok headers \<Longrightarrow> headers_listed E p headers"
  unfolding check_headers_def by (erule check_headers_from_listed) (auto simp: headers_listed_def)

definition tool_listed :: "string list \<Rightarrow> json option \<Rightarrow> bool" where
  "tool_listed tools body \<longleftrightarrow> (\<exists>request m. body = Some (JObject request) \<and> map_of request ''method'' = Some (JString m)
     \<and> (m \<in> {''initialize'', ''notifications/initialized'', ''ping'', ''tools/list''}
        \<or> m = ''tools/call'' \<and> (\<exists>arguments tool. map_of request ''params'' = Some arguments
             \<and> json_get arguments ''name'' = Some (JString tool) \<and> tool \<in> set tools)))"

lemma json_as_str_Some: "json_as_str v = Some t \<longleftrightarrow> v = JString t"
  by (cases v) auto

lemma mcp_call_listed:
  assumes "mcp_call_allowed tools body"
  shows "tool_listed tools body"
proof -
  define call where "call = ''tools/call''"
  from assms obtain request m where r: "body = Some (JObject request)" "map_of request ''method'' = Some (JString m)"
    and m: "if m = call then (case Option.bind (Option.bind (map_of request ''params'') (\<lambda>ps. json_get ps ''name'')) json_as_str of
        None \<Rightarrow> False | Some n \<Rightarrow> n \<in> set tools) else m \<in> set MCP_METHODS"
    unfolding mcp_call_allowed_def call_def [symmetric]
    by (cases body; cases "the body") (auto simp: bind_eq_Some_conv json_as_str_Some split: option.split_asm)
  show ?thesis
  proof (cases "m = call")
    case True
    with m obtain arguments tool where h: "map_of request ''params'' = Some arguments" "json_get arguments ''name'' = Some (JString tool)" "tool \<in> set tools"
      by (auto simp: bind_eq_Some_conv json_as_str_Some split: option.split_asm)
    show ?thesis
      unfolding tool_listed_def
      by (intro exI conjI, rule r(1), rule r(2), rule disjI2, rule conjI, rule True [unfolded call_def], intro exI conjI, (rule h)+)
  next
    case False
    with m have l: "m \<in> {''initialize'', ''notifications/initialized'', ''ping'', ''tools/list''}" by (simp only: MCP_METHODS_def list.set if_False)
    show ?thesis unfolding tool_listed_def by (intro exI conjI, (rule r)+, rule disjI1, rule l)
  qed
qed

text \<open>
  C24. What reaches a provider through \<open>/proxy\<close>: only a request of an Instance that presented a platform
  leaf, with a grant in force now, signed by the member's key for that leaf's key and naming the
  connection among connections that are all live and that key's; and then only, at most twice each, a
  refresh of the connection's token and the request itself, over https with the method, host and path
  of an entry of the read list of the connection's own provider, with the headers and, for a tool
  server, the tool that provider's row allows.
\<close>

theorem proxy_sends_only_granted_reads:
  assumes "proxy E cf c s = (r, t)" and "bk_sent t \<noteq> bk_sent s"
  shows "\<exists>leaf chain names who aud q u key g cn p en headers new. bc_peer c = leaf # chain \<and> uri_sans E leaf = Ok names
    \<and> parse_instance_sans E names = Ok who \<and> spki_sha256 E leaf = Some aud
    \<and> parse_body E (proxy_request_de E) (bc_body c) = Ok q \<and> url_parse E (pq_url q) = Some u
    \<and> grant_stands E (bc_now c) (pq_grant q) key g \<and> gr_aud g = ''sha256:'' @ hex_encode aud
    \<and> pq_connection_id q \<in> set (gr_connections g)
    \<and> (\<forall>j \<in> set (gr_connections g). \<exists>cn \<in> set (bd_connections (bk_db s)). cn_id cn = j \<and> live cn \<and> cn_member cn = key)
    \<and> cn \<in> set (bd_connections (bk_db s)) \<and> cn_id cn = pq_connection_id q \<and> cn_member cn = key \<and> live cn \<and> cn_dead_at cn = None
    \<and> p \<in> set PROVIDERS \<and> pv_name p = cn_provider cn
    \<and> en \<in> set (pv_reads p) \<and> fits en (pq_method q) u \<and> headers_listed E p headers
    \<and> (\<forall>tools. pv_mcp_tools p = Some tools \<longrightarrow> tool_listed tools (pq_body q))
    \<and> bk_sent t = bk_sent s @ new \<and> length new \<le> 4
    \<and> (\<forall>x \<in> set new. (og_to x = Fixed (pv_refresh p) \<and> og_bearer x = None) \<or> (\<exists>token. x = outgoing_request p en u headers
        (map_option (\<lambda>b. (''application/json'', as_bytes (json_to_string E b))) (pq_body q)) token))"
proof -
  from assms(1) obtain aud where a: "authed_instance E c = Ok aud"
    and 1: "act_bind (act_lift (parse_body E (proxy_request_de E) (bc_body c))) (\<lambda>q.
     act_bind (act_lift (parse_url E (pq_url q))) (\<lambda>u.
     act_bind (grant_holder E c aud (pq_grant q) (pq_connection_id q)) (\<lambda>member.
     act_bind (target E member (pq_connection_id q) (pq_method q) u (pq_headers q) (pq_body q) pv_reads) (\<lambda>(p, en, headers).
     forward E cf c (pq_connection_id q) member p en u headers
       (map_option (\<lambda>b. (''application/json'', as_bytes (json_to_string E b))) (pq_body q)))))) s = (r, t)"
    using act_lift_still [OF _ assms(2)] unfolding proxy_def by blast
  from act_lift_still [OF 1 assms(2)] obtain q where q: "parse_body E (proxy_request_de E) (bc_body c) = Ok q"
    and 2: "act_bind (act_lift (parse_url E (pq_url q))) (\<lambda>u.
     act_bind (grant_holder E c aud (pq_grant q) (pq_connection_id q)) (\<lambda>member.
     act_bind (target E member (pq_connection_id q) (pq_method q) u (pq_headers q) (pq_body q) pv_reads) (\<lambda>(p, en, headers).
     forward E cf c (pq_connection_id q) member p en u headers
       (map_option (\<lambda>b. (''application/json'', as_bytes (json_to_string E b))) (pq_body q))))) s = (r, t)" by blast
  from act_lift_still [OF 2 assms(2)] obtain u where u: "url_parse E (pq_url q) = Some u"
    and 3: "act_bind (grant_holder E c aud (pq_grant q) (pq_connection_id q)) (\<lambda>member.
     act_bind (target E member (pq_connection_id q) (pq_method q) u (pq_headers q) (pq_body q) pv_reads) (\<lambda>(p, en, headers).
     forward E cf c (pq_connection_id q) member p en u headers
       (map_option (\<lambda>b. (''application/json'', as_bytes (json_to_string E b))) (pq_body q)))) s = (r, t)"
    by (auto simp: parse_url_def result_simps)
  have gs: "grant_holder E c aud (pq_grant q) (pq_connection_id q) s = (fst (grant_holder E c aud (pq_grant q) (pq_connection_id q) s), s)"
    by (simp add: grant_holder_def)
  from act_bind_still [OF gs 3 assms(2)] obtain key where g: "fst (grant_holder E c aud (pq_grant q) (pq_connection_id q) s) = Ok key"
    and 4: "act_bind (target E key (pq_connection_id q) (pq_method q) u (pq_headers q) (pq_body q) pv_reads) (\<lambda>(p, en, headers).
     forward E cf c (pq_connection_id q) key p en u headers
       (map_option (\<lambda>b. (''application/json'', as_bytes (json_to_string E b))) (pq_body q))) s = (r, t)" by blast
  have ts: "target E key (pq_connection_id q) (pq_method q) u (pq_headers q) (pq_body q) pv_reads s =
      (fst (target E key (pq_connection_id q) (pq_method q) u (pq_headers q) (pq_body q) pv_reads s), s)"
    by (simp add: target_def)
  from act_bind_still [OF ts 4 assms(2)] obtain p en headers where tg: "target E key (pq_connection_id q) (pq_method q) u (pq_headers q) (pq_body q) pv_reads s =
      (Ok (p, en, headers), s)"
    and fw: "forward E cf c (pq_connection_id q) key p en u headers
       (map_option (\<lambda>b. (''application/json'', as_bytes (json_to_string E b))) (pq_body q)) s = (r, t)"
    using ts by (auto simp: split_beta)
  from forward_grows [OF fw] obtain new where new: "bk_sent t = bk_sent s @ new" "length new \<le> 4" "\<forall>x \<in> set new. to_refresh p x \<or>
      (\<exists>token. x = outgoing_request p en u headers (map_option (\<lambda>b. (''application/json'', as_bytes (json_to_string E b))) (pq_body q)) token)"
    by (auto simp: grows_def list_all_iff)
  from a obtain leaf chain names who where w: "bc_peer c = leaf # chain" "uri_sans E leaf = Ok names" "parse_instance_sans E names = Ok who"
    "spki_sha256 E leaf = Some aud"
    by (auto simp: authed_instance_def result_simps split: list.splits)
  from grant_holder_Ok [OF g] obtain sg g' where G: "parse_grant E (pq_grant q) = Ok sg" "verify_grant E sg key = Ok g'"
    "gr_aud g' = ''sha256:'' @ hex_encode aud" "pq_connection_id q \<in> set (gr_connections g')" "check_window E g' (bc_now c) = Ok ()"
    "\<forall>j \<in> set (gr_connections g'). \<exists>cn \<in> set (bd_connections (bk_db s)). cn_id cn = j \<and> live cn \<and> cn_member cn = key" by blast
  note T = target_Ok [OF tg]
  from T(4) obtain cn where cn: "cn \<in> set (bd_connections (bk_db s))" "cn_id cn = pq_connection_id q" "cn_member cn = key" "live cn"
    "cn_dead_at cn = None" "pv_name p = cn_provider cn"
    by (auto simp: load_connection_def dest!: find_SomeD)
  have m: "\<forall>tools. pv_mcp_tools p = Some tools \<longrightarrow> tool_listed tools (pq_body q)" using T(6) mcp_call_listed by blast
  note n = allowed_fits [OF T(2), THEN conjunct1] allowed_fits [OF T(2), THEN conjunct2]
  show ?thesis
    by (intro exI conjI) (rule w q u grant_stands [OF G(1,2,5)] G(3,4,6) cn(1-5) T(1) cn(6) n check_headers_listed [OF T(5)] m new)+
qed

lemma gone_unused:
  assumes "gone i (bk_db s)"
  shows "load_connection i member (bk_db s) = None" "load_grant_keys [i] (bk_db s) = []"
  using assms by (auto simp: gone_def load_connection_def find_None_iff load_grant_keys_def filter_empty_conv)

lemma on_db_Ok: "on_db f s = (Ok a, t) \<longleftrightarrow> (\<exists>d. f (bk_db s) = (a, d) \<and> t = s\<lparr> bk_db := d \<rparr>)"
  by (auto simp: on_db_def split: prod.splits)

lemma gone_revoked:
  assumes "revoke_connection now i m d = (Some res, d')"
  shows "gone i d'"
proof -
  define f where "f cn = cn\<lparr> cn_revoked_at := Some now, cn_enc_refresh_token := None \<rparr>" for cn :: connection
  from assms obtain cn where cn: "cn \<in> set (bd_connections d)" "cn_id cn = i"
    and d': "d' = update_rows (\<lambda>x. cn_id x = i) f d"
    by (auto simp: revoke_connection_def f_def [abs_def] dest!: find_SomeD split: option.splits)
  have "f cn \<in> set (bd_connections d')"
  proof -
    have "bd_connections d' = map (\<lambda>x. if cn_id x = i then f x else x) (bd_connections d)" by (simp add: d' update_rows_def)
    then show ?thesis by (simp only: set_map) (rule image_eqI [OF _ cn(1)], simp add: cn(2))
  qed
  moreover have "cn_id (f cn) = i" by (simp add: f_def cn(2))
  ultimately have "i \<in> cn_id ` set (bd_connections d')" by blast
  moreover have "\<not> live x" if "x \<in> set (bd_connections d')" "cn_id x = i" for x
  proof -
    have "bd_connections d' = map (\<lambda>x. if cn_id x = i then f x else x) (bd_connections d)" by (simp add: d' update_rows_def)
    with that(1) obtain y where y: "x = (if cn_id y = i then f y else y)" by (simp only: set_map) blast
    show ?thesis using y that(2) by (cases "cn_id y = i") (simp_all add: f_def live_def)
  qed
  ultimately show ?thesis by (simp add: gone_def)
qed

lemma disconnect_Ok:
  assumes "disconnect_inner E cf c route_id sl s = (Ok j, t)" and "uuid_parse E route_id = Some i"
  obtains member d res where "revoke_connection (bc_db_now c) i member d = (Some res, bk_db t)"
proof -
  from assms(1) obtain member document where v: "verified E c (se_plaintext sl) = Ok (member, document)"
    and 1: "(case document of
       MemberRequest (Disconnect connection_id _ _) \<Rightarrow>
         act_bind (act_lift (ok_or (uuid_parse E route_id) BNotFound)) (\<lambda>i.
         act_refuse (connection_id \<noteq> i) BMalformed
         (act_bind (spend E c document) (\<lambda>_.
          act_bind (on_db (revoke_connection (bc_db_now c) i member)) (\<lambda>found.
          act_bind (act_lift (ok_or found BNotFound)) (\<lambda>(prov, enc, shared).
          act_bind (act_modify (\<lambda>s. s\<lparr> bk_tokens := (bk_tokens s)(i := None) \<rparr>)) (\<lambda>_.
          act_bind (if shared then act_ok () else act_modify (revoke_at_provider E cf i member prov enc)) (\<lambda>_.
          act_ok (jobj []))))))))
     | _ \<Rightarrow> act_fail BMalformed) s = (Ok j, t)"
    unfolding disconnect_inner_def by (auto simp: act_bind_Ok)
  from 1 assms(2) obtain u prov enc shared w where r: "revoke_connection (bc_db_now c) i member (bk_db u) = (Some (prov, enc, shared), w)"
    and 2: "(if shared then act_ok () else act_modify (revoke_at_provider E cf i member prov enc) :: unit handler)
      (u\<lparr> bk_db := w, bk_tokens := (bk_tokens u)(i := None) \<rparr>) = (Ok (), t)"
    by (auto simp: act_bind_Ok act_refuse_Ok on_db_Ok result_simps split: member_document.splits connector_request.splits)
  from 2 have "bk_db t = w" by (auto simp: tables.revoke_at_provider_db split: if_splits)
  with r that show ?thesis by blast
qed

text \<open>
  C25. A disconnect is final: after it no sequence of calls makes the connection usable again, whoever
  asks. A read that names it changes nothing and sends nothing, whatever grant it shows, and no
  refresh token is left to open.
\<close>

theorem disconnect_is_final:
  assumes "disconnect_inner E cf c route_id sl s = (Ok j, t)" and "uuid_parse E route_id = Some i"
    and "u = fold (broker_step E cf) qs t"
  shows "lock_token i (bk_db u) = None \<and> load_connection i member (bk_db u) = None
    \<and> (parse_body E (proxy_request_de E) (bc_body d) = Ok q \<longrightarrow> pq_connection_id q = i \<longrightarrow> (\<exists>e. proxy E cf d u = (Err e, u)))"
proof -
  obtain m db0 res where "revoke_connection (bc_db_now c) i m db0 = (Some res, bk_db t)"
    by (rule disconnect_Ok [OF assms(1,2)])
  then have "gone i (bk_db t)" by (rule gone_revoked)
  with broker_gone.run_inv assms(3) have g: "gone i (bk_db u)" by blast
  have "find (\<lambda>cn. cn_id cn = i \<and> live cn) (bd_connections (bk_db u)) = None" using g by (auto simp: gone_def find_None_iff)
  then have "lock_token i (bk_db u) = None" by (simp add: lock_token_def)
  moreover have "\<exists>e. proxy E cf d u = (Err e, u)" if "parse_body E (proxy_request_de E) (bc_body d) = Ok q" "pq_connection_id q = i"
    using that gone_unused(2) [OF g]
    by (cases "authed_instance E d"; cases "parse_url E (pq_url q)"; cases "parse_grant E (pq_grant q)")
      (auto simp: proxy_def act_bind_def grant_holder_def)
  ultimately show ?thesis using gone_unused(1) [OF g] by blast
qed

section \<open>Documents that act once\<close>

text \<open>The routes a member's signed document drives, and the nonce of the document a request's plaintext carries.\<close>

definition member_handler :: "'x net_ext_scheme \<Rightarrow> broker_config \<Rightarrow> broker_route \<Rightarrow> bcall \<Rightarrow> (sealed \<Rightarrow> json handler) option" where
  "member_handler E cf route c =
     (case route of
        StartConnect prov \<Rightarrow> Some (start_inner E cf c prov)
      | FinishConnect \<Rightarrow> Some (finish_inner E cf c)
      | ListConnect \<Rightarrow> Some (list_inner E c)
      | DisconnectConnect i \<Rightarrow> Some (disconnect_inner E cf c i)
      | WriteExport \<Rightarrow> Some (write_inner E cf c)
      | _ \<Rightarrow> None)"

definition signed_nonce :: "'x ext_scheme \<Rightarrow> broker_route \<Rightarrow> bytes \<Rightarrow> bytes option" where
  "signed_nonce E route plaintext =
     (if route = WriteExport
      then Option.bind (to_option (parse_body E signed_write_de plaintext)) (\<lambda>w.
           Option.bind (write_document_de E (sw_document w)) (\<lambda>d. b64_dec E (wd_nonce d)))
      else Option.bind (to_option (parse_body E signed_request_de plaintext)) (\<lambda>(document, _, _).
           Option.bind (connector_request_de E document) (\<lambda>r. b64_dec E (member_nonce (MemberRequest r)))))"

text \<open>A call that was refused and did nothing, but for the expired rows every call clears.\<close>

definition idle :: "bcall \<Rightarrow> broker \<Rightarrow> ('a, broker_error) result \<times> broker \<Rightarrow> bool" where
  "idle c s r \<longleftrightarrow> (\<exists>e. fst r = Err e) \<and> (snd r = s \<or> snd r = s\<lparr> bk_db := purge_expired (bc_db_now c) (bk_db s) \<rparr>)"

text \<open>
  A handler that acts only by spending a nonce: it does nothing when the nonce is in the table, and
  otherwise nothing or what leaves the nonce there for two minutes.
\<close>

definition spends :: "bcall \<Rightarrow> bytes option \<Rightarrow> 'a handler \<Rightarrow> bool" where
  "spends c N m \<longleftrightarrow> (\<forall>s.
     (idle c s (m s) \<or> (\<exists>n. N = Some n \<and> (n, bc_db_now c + minutes 2) \<in> set (bd_nonces (bk_db (snd (m s))))))
     \<and> (\<forall>n. N = Some n \<longrightarrow> n \<in> fst ` set (bd_nonces (purge_expired (bc_db_now c) (bk_db s))) \<longrightarrow> idle c s (m s)))"

lemma spends_fail: "spends c N (act_fail e)" "spends c N (act_lift (Err e))"
  by (simp_all add: spends_def idle_def)

lemma spends_refuse: "spends c N m \<Longrightarrow> spends c N (act_refuse b e m)"
  by (simp add: spends_def idle_def act_refuse_def)

lemma spends_lift: "(\<And>a. r = Ok a \<Longrightarrow> spends c N (f a)) \<Longrightarrow> spends c N (act_bind (act_lift r) f)"
  by (cases r) (simp_all add: spends_def idle_def act_bind_def)

lemma spends_spend:
  assumes "b64_dec E (member_nonce d) = N"
    and "\<And>n. keeps_db (\<lambda>d d'. bc_db_now c \<le> bc_db_now c + minutes 2 \<longrightarrow> (n, bc_db_now c + minutes 2) \<in> set (bd_nonces d)
       \<longrightarrow> (n, bc_db_now c + minutes 2) \<in> set (bd_nonces d')) (k ())"
  shows "spends c N (act_bind (spend E c d) k)"
proof (cases N)
  case None
  with assms(1) show ?thesis by (simp add: spends_def spend_def act_bind_def idle_def)
next
  case (Some n)
  have "idle c s (act_bind (spend E c d) k s)" if "n \<in> fst ` set (bd_nonces (purge_expired (bc_db_now c) (bk_db s)))" for s
    using that assms(1) Some by (simp add: spend_def act_bind_def on_db_def use_nonce_def act_refuse_def idle_def)
  moreover have "(n, bc_db_now c + minutes 2) \<in> set (bd_nonces (bk_db (snd (act_bind (spend E c d) k s))))"
    if f: "n \<notin> fst ` set (bd_nonces (purge_expired (bc_db_now c) (bk_db s)))" for s
  proof -
    let ?t = "s\<lparr> bk_db := (purge_expired (bc_db_now c) (bk_db s))
      \<lparr> bd_nonces := bd_nonces (purge_expired (bc_db_now c) (bk_db s)) @ [(n, bc_db_now c + minutes 2)] \<rparr> \<rparr>"
    have "act_bind (spend E c d) k s = k () ?t"
      using f assms(1) Some by (simp add: spend_def act_bind_def on_db_def use_nonce_def act_refuse_def)
    with keeps_snd [OF assms(2) [of n], of ?t] show ?thesis by (simp add: minutes_def)
  qed
  ultimately show ?thesis using Some unfolding spends_def by blast
qed

lemmas spends_rules = spends_lift spends_refuse spends_fail spends_spend

lemma verified_nonce:
  assumes "verified E c plaintext = Ok (member, document)" and "route \<noteq> WriteExport"
  shows "b64_dec E (member_nonce document) = signed_nonce E route plaintext"
  using assms
  by (auto simp: verified_def verify_member_def verify_request_def result_simps signed_nonce_def CONNECTOR_REQUEST_def CONNECTOR_WRITE_def)

lemma write_nonce:
  assumes "parse_body E signed_write_de plaintext = Ok w"
    and "verify_member E c CONNECTOR_WRITE (sw_document w) (sw_member_key w) (sw_signature w) = Ok (member, document)"
  shows "b64_dec E (member_nonce document) = signed_nonce E WriteExport plaintext"
  using assms
  by (auto simp: verify_member_def verify_request_def result_simps signed_nonce_def CONNECTOR_REQUEST_def CONNECTOR_WRITE_def member_nonce_def)

lemma store_nonces:
  "insert_pending now st m p e d = Some d' \<Longrightarrow> bd_nonces d' = bd_nonces d"
  "save_connection E rnd now fresh key m p a tk sc d = Some (i, d') \<Longrightarrow> bd_nonces d' = bd_nonces d"
  by (auto simp: insert_pending_def save_connection_def update_rows_def Let_def bind_eq_Some_conv split: if_splits option.splits)

lemma take_pending_nonces: "bd_nonces (snd (take_pending now st d)) = bd_nonces d"
  by (simp add: take_pending_def split: option.split)

lemma member_handler_spends:
  assumes "member_handler E cf route c = Some h"
  shows "spends c (signed_nonce E route (se_plaintext sl)) (h sl)"
proof (cases route)
  case (StartConnect prov)
  with assms show ?thesis
    by (auto simp: member_handler_def start_inner_def intro!: spends_rules verified_nonce nonce_rows.rules
        split: member_document.splits connector_request.splits)
      ((assumption | drule store_nonces, simp)+)
next
  case FinishConnect
  with assms show ?thesis
    by (auto simp: member_handler_def finish_inner_def intro!: spends_rules verified_nonce nonce_rows.rules
        simp: take_pending_nonces split: member_document.splits connector_request.splits)
      ((assumption | drule store_nonces, simp)+)
next
  case ListConnect
  with assms show ?thesis
    by (auto simp: member_handler_def list_inner_def intro!: spends_rules verified_nonce nonce_rows.rules
        split: member_document.splits connector_request.splits)
next
  case (DisconnectConnect i)
  with assms show ?thesis
    by (auto simp: member_handler_def disconnect_inner_def intro!: spends_rules verified_nonce nonce_rows.rules nonce_rows.revoked
        simp: nonce_rows.revoke_at_provider_db nonce_rows.refl_R split: member_document.splits connector_request.splits)
next
  case WriteExport
  have "spends c (signed_nonce E WriteExport (se_plaintext sl)) (write_inner E cf c sl)"
    unfolding write_inner_def
    apply (rule spends_lift, rule spends_lift)
    subgoal for w r
      apply (cases r, simp only: prod.case, rule spends_spend, erule (1) write_nonce)
      subgoal for member document n
        by (cases document; simp only: member_document.case) (intro nonce_rows.rules nonce_rows.keeps_forward)+
      done
    done
  with WriteExport assms show ?thesis by (simp add: member_handler_def)
qed (use assms in \<open>simp_all add: member_handler_def\<close>)

text \<open>
  C26. A signed document acts once. Whenever one of the member's routes does anything at all (it answers,
  or changes a row or a cached token, or sends a request), it has spent the nonce of the document in its
  request; then a document with that nonce, whatever its signature, route and sender, is refused and
  does nothing, through every sequence of calls in the two minutes the nonce is kept.
\<close>

theorem spent_nonce_refused:
  assumes "member_handler E cf route c = Some h" and "\<not> idle c s (h sl s)"
    and "u = fold (broker_step E cf) qs (snd (h sl s))" and "\<forall>q \<in> set qs. bc_db_now (snd q) \<le> bc_db_now c + minutes 2"
    and "member_handler E cf route' c' = Some h'" and "bc_db_now c' \<le> bc_db_now c + minutes 2"
    and "signed_nonce E route' (se_plaintext sl') = signed_nonce E route (se_plaintext sl)"
  shows "idle c' u (h' sl' u)"
proof -
  from member_handler_spends [OF assms(1), of sl] assms(2) obtain n where n: "signed_nonce E route (se_plaintext sl) = Some n"
    "(n, bc_db_now c + minutes 2) \<in> set (bd_nonces (bk_db (snd (h sl s))))" unfolding spends_def by blast
  from run_keeps_nonce [OF assms(4) n(2)] assms(3,6)
  have "n \<in> fst ` set (bd_nonces (purge_expired (bc_db_now c') (bk_db u)))" by (force simp: purge_expired_def)
  with member_handler_spends [OF assms(5), of sl'] assms(7) n(1) show ?thesis unfolding spends_def by simp
qed

lemma spend_fresh:
  assumes "b64_dec E (member_nonce d) = Some n" and "n \<notin> fst ` set (bd_nonces (purge_expired (bc_db_now c) (bk_db s)))"
  shows "spend E c d s = (Ok (), s\<lparr> bk_db := (purge_expired (bc_db_now c) (bk_db s))
    \<lparr> bd_nonces := bd_nonces (purge_expired (bc_db_now c) (bk_db s)) @ [(n, bc_db_now c + minutes 2)] \<rparr> \<rparr>)"
  using assms by (simp add: spend_def act_bind_def on_db_def use_nonce_def act_refuse_def)

lemma purge_subset: "set (bd_nonces (purge_expired now d)) \<subseteq> set (bd_nonces d)"
  by (auto simp: purge_expired_def)

text \<open>
  C27. The nonce is kept too short: \<open>check_fresh\<close> counts whole seconds, so a document issued a minute ahead
  is fresh through the whole second that begins two minutes after the one it arrived in, while its
  nonce is purged two minutes after it arrived. In the rest of that second the same document is fresh
  and its nonce is accepted again.
\<close>

theorem nonce_forgotten_while_fresh:
  assumes "b64_dec E (member_nonce d) = Some n" and "n \<notin> fst ` set (bd_nonces (bk_db s))"
    and "time_seconds E (snd (nonce_and_issued_at d)) = Ok (seconds_of (bc_now c) + 60)" and "0 \<le> bc_now c"
    and "bc_db_now c = bc_now c" and "bc_db_now c' = bc_now c'" and "bc_now c + minutes 2 < bc_now c'"
    and "seconds_of (bc_now c') = seconds_of (bc_now c) + 120" and "seconds_of (bc_now c') < 2 ^ 63"
  shows "check_fresh E (snd (nonce_and_issued_at d)) (bc_now c) = Ok () \<and> check_fresh E (snd (nonce_and_issued_at d)) (bc_now c') = Ok ()
    \<and> (\<exists>t t'. spend E c d s = (Ok (), t) \<and> spend E c' d t = (Ok (), t'))"
proof -
  have "0 \<le> bc_now c'" using assms(4,7) by (simp add: minutes_def)
  with assms(3,4,8,9) have f: "check_fresh E (snd (nonce_and_issued_at d)) (bc_now c) = Ok ()" "check_fresh E (snd (nonce_and_issued_at d)) (bc_now c') = Ok ()"
    by (simp_all add: check_fresh_def unix_seconds_def FRESHNESS_SECONDS_def)
  have "n \<notin> fst ` set (bd_nonces (purge_expired (bc_db_now c) (bk_db s)))"
    using assms(2) purge_subset by fast
  from spend_fresh [OF assms(1) this] obtain t where t: "spend E c d s = (Ok (), t)"
    "bd_nonces (bk_db t) = bd_nonces (purge_expired (bc_db_now c) (bk_db s)) @ [(n, bc_db_now c + minutes 2)]" by simp
  have "n \<notin> fst ` set (bd_nonces (purge_expired (bc_db_now c') (bk_db t)))"
    using t(2) assms(2,5,6,7) by (force simp: purge_expired_def)
  from spend_fresh [OF assms(1) this] have "\<exists>t'. spend E c' d t = (Ok (), t')" by blast
  with f t(1) show ?thesis by blast
qed

section \<open>A run\<close>

text \<open>A concrete broker with one connection, and one granted read over it.\<close>

definition demo_member :: bytes where "demo_member = demo_public 32 [9]"

definition demo_grant_raw :: raw where
  "demo_grant_raw = RMap [(''v'', RU64 1), (''aud'', RStr (''sha256:'' @ hex_encode (demo_hash 32 (demo_public 32 [])))),
     (''connections'', RSeq [RStr (uuid_show demo 7)]), (''exp'', RStr ''e''), (''nonce'', RStr (hex_encode (replicate 32 0))), (''issued_at'', RStr ''i'')]"

definition demo_wire :: string where
  "demo_wire = hex_encode [2] @ ''.'' @ hex_encode (demo_hash 64 (demo_member @ demo_hash 32 (as_bytes CONNECTOR_GRANT @ [0, 2])))"

definition demo_url :: url where
  "demo_url = \<lparr> url_scheme = ''https'', url_port = None, url_username = [], url_password = None, url_fragment = None,
     url_host = Some ''slack.com'', url_segments = Some [''api'', ''users.info''], url_query = None \<rparr>"

definition demo_reply :: answer where
  "demo_reply = \<lparr> aw_status = 200, aw_content_type = None, aw_chunks = [[3]], aw_broken = False \<rparr>"

definition demo_net :: net_ext where
  "demo_net = ext.extend (demo\<lparr> x509_parse := \<lambda>_. Some (demo_app_leaf, []),
       rfc3339_parse := \<lambda>t. Some (if t = ''e'' then 10 * 1000000000 else 0),
       json_events := \<lambda>b. if b = [1] then Some (RMap [(''grant'', RStr demo_wire), (''connection_id'', RStr (uuid_show demo 7)),
           (''method'', RStr ''GET''), (''url'', RStr [])])
         else if b = [2] then Some demo_grant_raw else Some (RMap [(''access_token'', RStr ''t'')]) \<rparr>)
     (net_ext.fields (\<lambda>_. Some demo_url) (\<lambda>_ _. None) (\<lambda>_ _. Some demo_reply) Some (\<lambda>_. True) (\<lambda>_ b. from_bytes b) Some)"

definition demo_conf :: broker_config where
  "demo_conf = \<lparr> bf_client_ids = [(''slack'', ''c'')], bf_redirect_base = [] \<rparr>"

definition demo_row :: connection where
  "demo_row = \<lparr> cn_id = 7, cn_member = demo_member, cn_provider = ''slack'', cn_subject = [], cn_account = [],
     cn_enc_refresh_token = Some (replicate 12 0 @ demo_tag [] (replicate 12 0) (store_aad demo (uuid_bytes 7) demo_member ''slack'') @ as_bytes ''r''),
     cn_scopes = [], cn_created_at = 0, cn_dead_at = None, cn_revoked_at = None \<rparr>"

definition demo_broker :: broker where
  "demo_broker = \<lparr> bk_db = \<lparr> bd_pending = [], bd_connections = [demo_row], bd_nonces = [] \<rparr>, bk_tokens = Map.empty, bk_channels = [],
     bk_secrets = \<lparr> bs_client_secrets = [(''slack'', ''s'')], bs_connect_bearer = [], bs_connectors_key = [] \<rparr>,
     bk_responder = \<lparr> rs_certificate_chain = [], rs_key = [], rs_compose = [], rs_compose_hash = [] \<rparr>, bk_sent = [] \<rparr>"

definition demo_bcall :: bcall where
  "demo_bcall = \<lparr> bc_now = 0, bc_db_now = 0, bc_instant = 0, bc_state_rand = None, bc_verifier_rand = None, bc_seal_rand = (\<lambda>_. None),
     bc_handshake_rand = None, bc_hpke_rand = [], bc_uuid = 0, bc_authorization = None, bc_peer = [[]], bc_method = ''POST'',
     bc_path = ''/proxy'', bc_body = [1], bc_message = (\<lambda>_. []) \<rparr>"

lemma demo_broker_fields:
  "x509_parse demo_net b = Some (demo_app_leaf, [])" "uuid_parse demo_net = uuid_parse demo"
  "rfc3339_parse demo_net t = Some (if t = ''e'' then 10 * 1000000000 else 0)"
  "json_events demo_net [1] = Some (RMap [(''grant'', RStr demo_wire), (''connection_id'', RStr (uuid_show demo 7)),
     (''method'', RStr ''GET''), (''url'', RStr [])])"
  "json_events demo_net [2] = Some demo_grant_raw" "json_events demo_net [3] = Some (RMap [(''access_token'', RStr ''t'')])"
  "sha256 demo_net = demo_hash 32" "b64_dec demo_net = demo_unhex"
  "p256_sig_from_slice demo_net sg = (if length sg = 64 then Some sg else None)"
  "p256_from_spki demo_net k = (if length k = 33 then Some k else None)"
  "p256_verify demo_net k m sg = (sg = demo_hash 64 (k @ m))"
  "aes_gcm_dec demo_net = demo_open" "url_parse demo_net t' = Some demo_url" "http_send demo_net l r = Some demo_reply"
  by (simp_all add: demo_net_def ext.defs net_ext.defs demo_def)

lemma demo_granted: "grant_holder demo_net demo_bcall (demo_hash 32 (demo_public 32 [])) demo_wire 7 demo_broker = (Ok demo_member, demo_broker)"
proof -
  have w: "parse_grant demo_net demo_wire = Ok \<lparr> sg_document = [2],
      sg_signature = demo_hash 64 (demo_member @ demo_hash 32 (as_bytes CONNECTOR_GRANT @ [0, 2])) \<rparr>"
  proof -
    have "CHR ''.'' \<notin> set (hex_encode [2])" using demo_b64 by (auto simp: b64_law_def demo_def)
    then have "split_once ''.'' demo_wire = Some (hex_encode [2], hex_encode (demo_hash 64 (demo_member @ demo_hash 32 (as_bytes CONNECTOR_GRANT @ [0, 2]))))"
      unfolding demo_wire_def by (simp add: split_once_char)
    then show ?thesis by (simp add: parse_grant_def demo_broker_fields p256_signature_def demo_unhex_encode)
  qed
  let ?g = "\<lparr> gr_aud = ''sha256:'' @ hex_encode (demo_hash 32 (demo_public 32 [])), gr_connections = [7], gr_exp = ''e'',
      gr_nonce = hex_encode (replicate 32 0), gr_issued_at = ''i'' \<rparr>"
  have g: "grant_de demo_net [2] = Some ?g"
    using demo_uuid
    by (simp add: grant_de_def demo_broker_fields demo_grant_raw_def raw_fields_def raw_field_def raw_vec_def nonce_text_def demo_unhex_encode
        uuid_law_def demo_def)
  have m: "length demo_member = 33" by (simp add: demo_member_def demo_public_def)
  have v: "verify_grant demo_net \<lparr> sg_document = [2],
      sg_signature = demo_hash 64 (demo_member @ demo_hash 32 (as_bytes CONNECTOR_GRANT @ [0, 2])) \<rparr> demo_member = Ok ?g"
    using g by (simp add: verify_grant_def member_verifying_key_def member_check_def demo_broker_fields m)
  have c: "check_window demo_net ?g 0 = Ok ()"
    by (simp add: check_window_def time_seconds_def demo_broker_fields unix_seconds_def seconds_of_def saturating_add_def
        FRESHNESS_SECONDS_def MAX_GRANT_SECONDS_def)
  show ?thesis
    by (simp add: grant_holder_def w demo_bcall_def demo_broker_def load_grant_keys_def demo_row_def live_def v MAX_GRANT_CONNECTIONS_def
        Let_def c [simplified])
qed

definition demo_refresh_request :: outgoing where
  "demo_refresh_request = (base_request ''POST'' (Fixed (pv_refresh SLACK)))\<lparr> og_payload := Form [(''grant_type'', ''refresh_token''),
     (''refresh_token'', ''r''), (''client_id'', ''c''), (''client_secret'', ''s'')] \<rparr>"

abbreviation "demo_read \<equiv> outgoing_request SLACK (get ''slack.com'' ''/api/users.info'') demo_url [] None ''t''"

lemma demo_slack: "provider_named ''slack'' = Some SLACK"
  by (simp add: provider_named_def PROVIDERS_def GOOGLE_def DROPBOX_def SLACK_def)

lemma demo_target:
  "target demo_net demo_member 7 ''GET'' demo_url None None pv_reads demo_broker = (Ok (SLACK, get ''slack.com'' ''/api/users.info'', []), demo_broker)"
proof -
  have "allowed (pv_reads SLACK) ''GET'' demo_url = Some (get ''slack.com'' ''/api/users.info'')"
    by (simp add: SLACK_def allowed_def demo_url_def entry_matches_def get_def segment_matches_def)
  then show ?thesis
    by (simp add: target_def demo_broker_def load_connection_def demo_row_def live_def demo_slack check_headers_def)
      (simp add: SLACK_def)
qed

lemma demo_access:
  "\<exists>t. access_token demo_net demo_conf demo_bcall False 7 demo_member SLACK demo_broker = (Ok ''t'', t) \<and> bk_sent t = [demo_refresh_request]"
proof -
  have o: "store_open demo_net [] (store_aad demo_net (uuid_bytes 7) demo_member ''slack'')
      (replicate 12 0 @ demo_tag [] (replicate 12 0) (store_aad demo (uuid_bytes 7) demo_member ''slack'') @ as_bytes ''r'') = Some (as_bytes ''r'')"
  proof -
    have "store_aad demo_net = store_aad demo" by (simp add: store_aad_def fun_eq_iff demo_broker_fields) (simp add: demo_def)
    then show ?thesis by (simp add: store_open_def demo_broker_fields demo_open_def)
  qed
  have u: "from_utf8 (as_bytes ''r'') = Some ''r''"
    by (simp add: from_utf8_def utf8_valid.simps utf8_width_def as_bytes_def from_bytes_def code_def char_of_def bit_0)
  have q: "token_request SLACK (pv_refresh SLACK) ''c'' (Some ''s'') [(''grant_type'', ''refresh_token''), (''refresh_token'', ''r'')] = Some demo_refresh_request"
    by (simp add: token_request_def demo_refresh_request_def SLACK_def Let_def)
  have rd: "read_refreshed demo_net SLACK demo_reply = Ok \<lparr> rf_access = ''t'', rf_expires_in = None, rf_refresh = None \<rparr>"
    by (simp add: read_refreshed_def answer_json_def answer_bytes_def demo_reply_def demo_broker_fields refresh_reply_de_def raw_fields_def
        raw_opt_field_def is_success_def)
  have r: "refresh_or_dead demo_net demo_bcall 7 SLACK ''c'' (Some ''s'') ''r'' demo_broker =
      (Ok \<lparr> rf_access = ''t'', rf_expires_in = None, rf_refresh = None \<rparr>, demo_broker\<lparr> bk_sent := [demo_refresh_request] \<rparr>)"
    by (simp add: refresh_or_dead_def on_sent_def act_on_def refresh_def q act_bind_def send_def demo_broker_fields rd)
      (simp add: demo_broker_def)
  have cl: "client demo_conf SLACK demo_broker = (Ok (''c'', Some ''s''), demo_broker)"
    by (simp add: client_def config_client_id_def demo_conf_def SLACK_def demo_broker_def)
  have l: "lock_token 7 (bk_db demo_broker) = cn_enc_refresh_token demo_row" "connectors_key demo_broker = []" "bk_tokens demo_broker = Map.empty"
    by (simp_all add: lock_token_def demo_broker_def demo_row_def live_def connectors_key_def)
  have n: "pv_name SLACK = ''slack''" by (simp add: SLACK_def)
  show ?thesis
    by (simp add: access_token_def Let_def cached_def l n demo_row_def refresh_token_def)
      (simp add: act_bind_def cl o u r cache_token_def Let_def)
qed

lemma demo_request: "parse_body demo_net (proxy_request_de demo_net) (bc_body demo_bcall) = Ok \<lparr> pq_grant = demo_wire, pq_connection_id = 7,
    pq_method = ''GET'', pq_url = [], pq_body = None, pq_headers = None \<rparr>"
  using demo_uuid
  by (simp add: parse_body_def demo_bcall_def demo_broker_fields proxy_request_de_def raw_fields_def raw_field_def raw_opt_field_def uuid_law_def)

lemma demo_proxied: "\<exists>r t. proxy demo_net demo_conf demo_bcall demo_broker = (r, t) \<and> bk_sent t = [demo_refresh_request, demo_read]"
proof -
  have a: "authed_instance demo_net demo_bcall = Ok (demo_hash 32 (demo_public 32 []))"
  proof -
    have "uri_sans demo_net [] = Ok (x_uri_sans demo_app_leaf)"
      by (simp add: uri_sans_def parse_x509_def demo_broker_fields demo_app_leaf_def demo_leaf_def)
    moreover have "parse_instance_sans demo_net (x_uri_sans demo_app_leaf) = Ok demo_sans"
    proof -
      have u: "uuid_parse demo_net = uuid_parse demo_edge" by (simp add: demo_broker_fields demo_edge_def)
      show ?thesis using demo_app_names(2) unfolding parse_instance_sans_def u .
    qed
    moreover have "spki_sha256 demo_net [] = Some (demo_hash 32 (demo_public 32 []))"
      by (simp add: spki_sha256_def spki_of_def parse_x509_def demo_broker_fields demo_app_leaf_def)
    ultimately show ?thesis by (simp add: authed_instance_def demo_bcall_def)
  qed
  obtain t where t: "access_token demo_net demo_conf demo_bcall False 7 demo_member SLACK demo_broker = (Ok ''t'', t)"
    "bk_sent t = [demo_refresh_request]" using demo_access by blast
  have "\<exists>r u. forward demo_net demo_conf demo_bcall 7 demo_member SLACK (get ''slack.com'' ''/api/users.info'') demo_url [] None demo_broker = (r, u)
      \<and> bk_sent u = [demo_refresh_request, demo_read]"
    unfolding forward_def
    by (subst forward_loop.simps) (simp add: act_bind_def t on_sent_send demo_broker_fields demo_reply_def)
  then show ?thesis
    by (simp add: proxy_def a demo_request parse_url_def demo_broker_fields) (simp add: act_bind_def demo_granted demo_target)
qed

theorem proxy_sends_only_granted_reads_witness:
  "\<exists>r t g p. proxy demo_net demo_conf demo_bcall demo_broker = (r, t) \<and> bk_sent t \<noteq> bk_sent demo_broker
     \<and> grant_stands demo_net (bc_now demo_bcall) demo_wire demo_member g \<and> p \<in> set PROVIDERS \<and> pv_name p = ''slack''"
proof -
  obtain r t where t: "proxy demo_net demo_conf demo_bcall demo_broker = (r, t)" "bk_sent t = [demo_refresh_request, demo_read]"
    using demo_proxied by blast
  then have n: "bk_sent t \<noteq> bk_sent demo_broker" by (simp add: demo_broker_def)
  from proxy_sends_only_granted_reads [OF t(1) n] obtain q key g cn p where q: "parse_body demo_net (proxy_request_de demo_net) (bc_body demo_bcall) = Ok q"
    and g: "grant_stands demo_net (bc_now demo_bcall) (pq_grant q) key g"
    and cn: "cn \<in> set (bd_connections (bk_db demo_broker))" "cn_member cn = key" "p \<in> set PROVIDERS" "pv_name p = cn_provider cn" by blast
  from q demo_request have "pq_grant q = demo_wire" by auto
  moreover from cn have "key = demo_member" "pv_name p = ''slack''" by (auto simp: demo_broker_def demo_row_def)
  ultimately show ?thesis using t(1) n g cn(3) by metis
qed

theorem access_tokens_stay_with_provider_witness:
  "\<exists>p \<in> set PROVIDERS. sends_to p demo_read \<and> issued demo_net [demo_refresh_request] p ''t''"
proof -
  have s: "sha_law demo_net" by (simp add: sha_law_def demo_broker_fields) (simp add: demo_net_def ext.defs demo_def)
  obtain r t where "proxy demo_net demo_conf demo_bcall demo_broker = (r, t)" "bk_sent t = [demo_refresh_request, demo_read]"
    using demo_proxied by blast
  then have "bk_sent (fold (broker_step demo_net demo_conf) [(ProxyRead, demo_bcall)] demo_broker) = [demo_refresh_request] @ demo_read # []"
    by (simp add: broker_step_def)
  from access_tokens_stay_with_provider [OF s _ _ this] show ?thesis
    by (auto simp: demo_broker_def outgoing_request_simps)
qed

theorem broker_runs_keep_tables_witness:
  "tables_ok (bk_db (fold (broker_step demo_net demo_conf) [(ProxyRead, demo_bcall), (ProxyRead, demo_bcall)] demo_broker))"
  by (rule broker_runs_keep_tables) (simp add: tables_ok_def demo_broker_def demo_row_def token_ok_def live_def)

definition demo_document :: member_document where
  "demo_document = MemberRequest (ListConnections (hex_encode (replicate 32 0)) ''i'')"

definition demo_ahead :: net_ext where
  "demo_ahead = demo_net\<lparr> rfc3339_parse := \<lambda>_. Some (60 * 1000000000) \<rparr>"

definition demo_later :: bcall where
  "demo_later = demo_bcall\<lparr> bc_now := 120 * 1000000000 + 1, bc_db_now := 120 * 1000000000 + 1 \<rparr>"

theorem nonce_forgotten_while_fresh_witness:
  "check_fresh demo_ahead ''i'' (bc_now demo_bcall) = Ok () \<and> check_fresh demo_ahead ''i'' (bc_now demo_later) = Ok ()
    \<and> (\<exists>t t'. spend demo_ahead demo_bcall demo_document demo_broker = (Ok (), t) \<and> spend demo_ahead demo_later demo_document t = (Ok (), t'))"
proof -
  have "b64_dec demo_ahead = demo_unhex" by (simp add: demo_ahead_def demo_broker_fields)
  then show ?thesis
    using nonce_forgotten_while_fresh [of demo_ahead demo_document "replicate 32 0" demo_broker demo_bcall demo_later]
    by (simp add: demo_document_def member_nonce_def demo_unhex_encode demo_broker_def demo_bcall_def demo_later_def minutes_def seconds_of_def
        time_seconds_def demo_ahead_def)
qed

definition demo_gone_raw :: raw where
  "demo_gone_raw = RMap [(''connection_id'', RStr (uuid_show demo 7)), (''issued_at'', RStr ''i''), (''nonce'', RStr (hex_encode (replicate 32 0))),
     (''op'', RStr ''disconnect''), (''v'', RU64 1)]"

definition demo_gone_net :: net_ext where
  "demo_gone_net = demo_net\<lparr> jcs := \<lambda>_. Some [9],
     json_events := \<lambda>_. Some (RMap [(''document'', demo_gone_raw), (''member_key'', RStr (hex_encode demo_member)),
       (''signature'', RMap [(''algorithm'', RStr ''ecdsa-p256''),
         (''signature'', RStr (hex_encode (demo_hash 64 (demo_member @ demo_hash 32 (as_bytes CONNECTOR_REQUEST @ [0, 9])))))])]) \<rparr>"

lemma demo_gone_fields:
  "jcs demo_gone_net v = Some [9]" "uuid_parse demo_gone_net = uuid_parse demo"
  "rfc3339_parse demo_gone_net t = Some (if t = ''e'' then 10 * 1000000000 else 0)"
  "sha256 demo_gone_net = demo_hash 32" "b64_dec demo_gone_net = demo_unhex"
  "p256_sig_from_slice demo_gone_net sg = (if length sg = 64 then Some sg else None)"
  "p256_from_spki demo_gone_net k = (if length k = 33 then Some k else None)" "p256_verify demo_gone_net k m sg = (sg = demo_hash 64 (k @ m))"
  by (simp_all add: demo_gone_net_def demo_net_def ext.defs net_ext.defs demo_def)

lemma demo_member_length: "length demo_member = 33"
  by (simp add: demo_member_def demo_public_def)

definition demo_gone_json :: json where
  "demo_gone_json = JObject [(''connection_id'', JString (uuid_show demo 7)), (''issued_at'', JString ''i''),
     (''nonce'', JString (hex_encode (replicate 32 0))), (''op'', JString ''disconnect''), (''v'', JNumber (PosInt 1))]"

lemma demo_gone_visit: "plain_visit demo_gone_raw = Some demo_gone_json"
  by (simp add: demo_gone_raw_def demo_gone_json_def map_insert_def)

lemma demo_gone_document: "connector_request_de demo_gone_net demo_gone_json = Some (Disconnect 7 (hex_encode (replicate 32 0)) ''i'')"
  using demo_uuid
  by (simp add: connector_request_de_def demo_gone_json_def tagged_content_def member_fields_def with_nonce_def demo_gone_fields
      demo_unhex_encode struct_fields_def field_def uuid_value_def uuid_law_def v1_de_def de_uint_def nonce_de_def nonce_text_def)

lemma demo_verified:
  "verified demo_gone_net demo_bcall [] = Ok (demo_member, MemberRequest (Disconnect 7 (hex_encode (replicate 32 0)) ''i''))"
proof -
  let ?sg = "demo_hash 64 (demo_member @ demo_hash 32 (as_bytes CONNECTOR_REQUEST @ [0, 9]))"
  have p: "parse_body demo_gone_net signed_request_de [] = Ok (demo_gone_json, hex_encode demo_member,
      \<lparr> ns_algorithm = ECDSA_P256, ns_signature = hex_encode ?sg \<rparr>)"
    by (simp add: parse_body_def demo_gone_net_def signed_request_de_def raw_fields_def raw_field_def demo_gone_visit
        named_signature_raw_de_def named_signature_de_def struct_fields_def field_def ECDSA_P256_def list_all_iff set_map_insert)
  show ?thesis
    by (simp add: verified_def p verify_member_def verify_request_def demo_gone_fields demo_unhex_encode member_verifying_key_def
        demo_member_length p256_signature_def signing_digest_def member_check_def demo_gone_document check_fresh_def
        time_seconds_def unix_seconds_def demo_bcall_def seconds_of_def FRESHNESS_SECONDS_def)
qed

definition demo_sealed :: sealed where
  "demo_sealed = \<lparr> se_channel = [], se_seq = 0, se_plaintext = [] \<rparr>"

lemma demo_disconnects:
  "\<exists>j t. disconnect_inner demo_gone_net demo_conf demo_bcall (uuid_show demo 7) demo_sealed demo_broker = (Ok j, t)"
proof -
  have u: "uuid_parse demo_gone_net (uuid_show demo 7) = Some 7" using demo_uuid by (simp add: demo_gone_fields uuid_law_def)
  have sp: "\<exists>t. spend demo_gone_net demo_bcall (MemberRequest (Disconnect 7 (hex_encode (replicate 32 0)) ''i'')) demo_broker = (Ok (), t)
    \<and> bd_connections (bk_db t) = [demo_row]"
    using spend_fresh [of demo_gone_net "MemberRequest (Disconnect 7 (hex_encode (replicate 32 0)) ''i'')" "replicate 32 0" demo_bcall demo_broker]
    by (simp add: member_nonce_def demo_gone_fields demo_unhex_encode demo_broker_def purge_expired_def)
  then obtain t where t: "spend demo_gone_net demo_bcall (MemberRequest (Disconnect 7 (hex_encode (replicate 32 0)) ''i'')) demo_broker = (Ok (), t)"
    "bd_connections (bk_db t) = [demo_row]" by blast
  have r: "\<exists>x d. revoke_connection (bc_db_now demo_bcall) 7 demo_member (bk_db t) = (Some (''slack'', x, False), d)"
    by (simp add: revoke_connection_def t(2) demo_row_def live_def)
  then show ?thesis
    by (auto simp: disconnect_inner_def demo_sealed_def demo_verified act_bind_def u act_refuse_def t(1) on_db_def act_modify_def split: if_splits)
qed

theorem disconnect_is_final_witness:
  "\<exists>j t. disconnect_inner demo_gone_net demo_conf demo_bcall (uuid_show demo 7) demo_sealed demo_broker = (Ok j, t)
    \<and> lock_token 7 (bk_db (fold (broker_step demo_gone_net demo_conf) [(ProxyRead, demo_bcall)] t)) = None"
proof -
  have u: "uuid_parse demo_gone_net (uuid_show demo 7) = Some 7" using demo_uuid by (simp add: demo_gone_fields uuid_law_def)
  obtain j t where d: "disconnect_inner demo_gone_net demo_conf demo_bcall (uuid_show demo 7) demo_sealed demo_broker = (Ok j, t)"
    using demo_disconnects by blast
  with disconnect_is_final [OF d u refl, of "[(ProxyRead, demo_bcall)]"] show ?thesis by blast
qed

theorem spent_nonce_refused_witness:
  "\<exists>j t e. disconnect_inner demo_gone_net demo_conf demo_bcall (uuid_show demo 7) demo_sealed demo_broker = (Ok j, t)
    \<and> fst (disconnect_inner demo_gone_net demo_conf demo_bcall (uuid_show demo 7) demo_sealed
        (fold (broker_step demo_gone_net demo_conf) [(ProxyRead, demo_bcall)] t)) = Err e"
proof -
  obtain j t where d: "disconnect_inner demo_gone_net demo_conf demo_bcall (uuid_show demo 7) demo_sealed demo_broker = (Ok j, t)"
    using demo_disconnects by blast
  have h: "member_handler demo_gone_net demo_conf (DisconnectConnect (uuid_show demo 7)) demo_bcall =
      Some (disconnect_inner demo_gone_net demo_conf demo_bcall (uuid_show demo 7))" by (simp add: member_handler_def)
  have "idle demo_bcall (fold (broker_step demo_gone_net demo_conf) [(ProxyRead, demo_bcall)] t)
      (disconnect_inner demo_gone_net demo_conf demo_bcall (uuid_show demo 7) demo_sealed
        (fold (broker_step demo_gone_net demo_conf) [(ProxyRead, demo_bcall)] t))"
    by (rule spent_nonce_refused [OF h, where s = demo_broker and sl = demo_sealed and qs = "[(ProxyRead, demo_bcall)]", OF _ _ _ h])
      (simp_all add: d idle_def minutes_def)
  with d show ?thesis unfolding idle_def by blast
qed

end
