(* ===== verification/Client.thy ===== *)
theory Client
  imports Broker Kms_Node
begin

text \<open>
  \<^verbatim>\<open>crates/alpha-client\<close>: the pins of a TLS hop (\<^verbatim>\<open>tls.rs\<close>), the KMS client that walks its endpoints and
  the replies it verifies (\<^verbatim>\<open>lib.rs\<close>), and the loop by which a service keeps its leaf and its Secrets
  current (\<^verbatim>\<open>runtime.rs\<close>).

  A TLS exchange is modelled by three functions of everything sent before it: who is reached for a
  request and when that connection's handshake took place (\<open>tls_dial\<close>: the time and the chain presented,
  leaf first, or no connection), and the answer to the last request of a list (\<open>tls_answer\<close>).
  \<open>rustls\<close> completes a handshake only with a peer that holds the key of the leaf it presents and
  that \<open>verify_server_cert\<close> accepts, and nothing of the request leaves before. \<open>webpki_anchor\<close> reads a trust
  anchor from a certificate and \<open>webpki_verify\<close> checks a leaf and its intermediates for server
  authentication under one anchor at a time. \<open>url_text\<close> is \<open>Url::as_str\<close>.
\<close>

section \<open>Pins\<close>

datatype pin =
    PinCa bytes
  | PinCaAndRevisions bytes "compose_hash list"
  | PinCaRevisionsAndSpki bytes "compose_hash list" bytes
  | PinCaAndInstanceRevisions bytes "compose_hash list" "uuid option"
  | PinCaSpkiAndRevisions bytes "compose_hash list"
  | PinSpki bytes

record dialled =
  dl_pin :: "pin option"
  dl_leaf :: bytes
  dl_chain :: "bytes list"
  dl_at :: time
  dl_request :: outgoing

record tls_ext = net_ext +
  webpki_anchor :: "bytes \<Rightarrow> bytes option"
  webpki_verify :: "bytes \<Rightarrow> bytes \<Rightarrow> bytes list \<Rightarrow> time \<Rightarrow> bool"
  tls_dial :: "dialled list \<Rightarrow> outgoing \<Rightarrow> (time \<times> bytes list) option"
  tls_answer :: "dialled list \<Rightarrow> answer option"
  url_text :: "url \<Rightarrow> string"

record pinned_server =
  ps_pin :: "pin option"
  ps_anchor :: "bytes option"

fun pin_ca :: "pin \<Rightarrow> bytes option" where
  "pin_ca (PinCa ca) = Some ca"
| "pin_ca (PinCaAndRevisions ca _) = Some ca"
| "pin_ca (PinCaRevisionsAndSpki ca _ _) = Some ca"
| "pin_ca (PinCaAndInstanceRevisions ca _ _) = Some ca"
| "pin_ca (PinCaSpkiAndRevisions _ _) = None"
| "pin_ca (PinSpki _) = None"

datatype client_error =
    CApi (ce_code: string) (ce_status: nat)
  | CConnect
  | CInvalid

definition pinned_server_new :: "'x tls_ext_scheme \<Rightarrow> pin option \<Rightarrow> (pinned_server, client_error) result" where
  "pinned_server_new E p =
     (case Option.bind p pin_ca of
        None \<Rightarrow> Ok \<lparr> ps_pin = p, ps_anchor = None \<rparr>
      | Some ca \<Rightarrow> and_then (ok_or (webpki_anchor E ca) CInvalid) (\<lambda>a. Ok \<lparr> ps_pin = p, ps_anchor = Some a \<rparr>))"

text \<open>A refused certificate is \<open>rustls::Error::General\<close> whatever the reason.\<close>

definition server_anchor :: "'x tls_ext_scheme \<Rightarrow> pinned_server \<Rightarrow> pin \<Rightarrow> bytes list \<Rightarrow> (bytes option, unit) result" where
  "server_anchor E ps p intermediates =
     (case p of
        PinCaSpkiAndRevisions digest _ \<Rightarrow>
          and_then (ok_or (find (\<lambda>c. spki_sha256 E c = Some digest) intermediates) ()) (\<lambda>ca.
          and_then (ok_or (webpki_anchor E ca) ()) (\<lambda>a. Ok (Some a)))
      | PinSpki _ \<Rightarrow> Ok None
      | _ \<Rightarrow> and_then (ok_or (ps_anchor ps) ()) (\<lambda>a. Ok (Some a)))"

definition check_node_leaf :: "'x ext_scheme \<Rightarrow> compose_hash list \<Rightarrow> bytes \<Rightarrow> (unit, unit) result" where
  "check_node_leaf E revisions leaf =
     and_then (map_err (\<lambda>_. ()) (uri_sans E leaf)) (\<lambda>sans.
     refuse_if (\<not> list_ex (\<lambda>s. s = KMS_SAN) sans) ()
     (refuse_if (\<not> list_ex (\<lambda>r. REVISION_URN @ compose_hash_show r \<in> set sans) revisions) () (Ok ())))"

definition check_spki :: "'x ext_scheme \<Rightarrow> bytes \<Rightarrow> bytes \<Rightarrow> (unit, unit) result" where
  "check_spki E spki leaf =
     and_then (map_err (\<lambda>_. ()) (spki_of E leaf)) (\<lambda>k. refuse_if (k \<noteq> spki) () (Ok ()))"

definition check_pinned :: "'x ext_scheme \<Rightarrow> pin \<Rightarrow> bytes \<Rightarrow> (unit, unit) result" where
  "check_pinned E p leaf =
     (case p of
        PinCa _ \<Rightarrow> Ok ()
      | PinCaAndRevisions _ revisions \<Rightarrow> check_node_leaf E revisions leaf
      | PinCaSpkiAndRevisions _ revisions \<Rightarrow> check_node_leaf E revisions leaf
      | PinCaRevisionsAndSpki _ revisions spki \<Rightarrow>
          and_then (check_node_leaf E revisions leaf) (\<lambda>_. check_spki E spki leaf)
      | PinCaAndInstanceRevisions _ revisions org \<Rightarrow>
          and_then (map_err (\<lambda>_. ()) (uri_sans E leaf)) (\<lambda>sans.
          and_then (map_err (\<lambda>_. ()) (parse_instance_sans E sans)) (\<lambda>i.
          refuse_if (is_compose_hash i \<notin> set revisions) ()
          (refuse_if (case org of None \<Rightarrow> False | Some x \<Rightarrow> is_org_id i \<noteq> x) () (Ok ()))))
      | PinSpki spki \<Rightarrow> check_spki E spki leaf)"

definition verify_server_cert :: "'x tls_ext_scheme \<Rightarrow> pinned_server \<Rightarrow> bytes \<Rightarrow> bytes list \<Rightarrow> time \<Rightarrow> (unit, unit) result" where
  "verify_server_cert E ps leaf intermediates now =
     (case ps_pin ps of
        None \<Rightarrow> Ok ()
      | Some p \<Rightarrow>
          and_then (server_anchor E ps p intermediates) (\<lambda>anchor.
          refuse_if (case anchor of None \<Rightarrow> False | Some a \<Rightarrow> \<not> webpki_verify E a leaf intermediates now) ()
          (check_pinned E p leaf)))"

text \<open>
  One request over a client with a pin: \<open>Err\<close> when nothing is reached, when the handshake refuses the
  peer, or when no answer comes back; otherwise the leaf of the connection and the answer. What is
  sent is recorded together with the peer it was sent to.
\<close>

definition pinned_send :: "'x tls_ext_scheme \<Rightarrow> pinned_server \<Rightarrow> outgoing \<Rightarrow> (dialled list, bytes \<times> answer, unit) action" where
  "pinned_send E ps r sent =
     (case tls_dial E sent r of
        Some (t, leaf # chain) \<Rightarrow>
          (if is_ok (verify_server_cert E ps leaf chain t) then
             let now_sent = sent @ [\<lparr> dl_pin = ps_pin ps, dl_leaf = leaf, dl_chain = chain, dl_at = t, dl_request = r \<rparr>] in
             (map_err (\<lambda>_. ()) (and_then (ok_or (tls_answer E now_sent) ()) (\<lambda>a. Ok (leaf, a))), now_sent)
           else (Err (), sent))
      | _ \<Rightarrow> (Err (), sent))"

section \<open>The KMS client\<close>

definition CODES :: "string list" where
  "CODES = [''malformed'', ''signature_invalid'', ''nonce_invalid'', ''cert_invalid'', ''attestation_failed'', ''attestation_unknown'',
     ''policy_denied'', ''revision_revoked'', ''already_exists'', ''not_found'', ''rate_limited'', ''sealed'', ''internal'', ''not_attested'']"

definition error_kind :: "client_error \<Rightarrow> string" where
  "error_kind e =
     (case e of
        CApi c _ \<Rightarrow> (case find (\<lambda>x. x = c) CODES of Some x \<Rightarrow> x | None \<Rightarrow> ''other'')
      | CConnect \<Rightarrow> ''unreachable''
      | CInvalid \<Rightarrow> ''invalid'')"

definition api_error_de :: "raw \<Rightarrow> string option" where
  "api_error_de v =
     Option.bind (raw_fields False [(''code'', False), (''message'', False), (''request_id'', False)] v) (\<lambda>m.
     Option.bind (raw_field m ''code'' raw_as_str) (\<lambda>c.
     Option.bind (raw_field m ''message'' raw_as_str) (\<lambda>_.
     Option.bind (raw_field m ''request_id'' raw_as_str) (\<lambda>_. Some c))))"

definition envelope_de :: "raw \<Rightarrow> string option" where
  "envelope_de v = Option.bind (raw_fields False [(''error'', False)] v) (\<lambda>m. raw_field m ''error'' api_error_de)"

definition client_api_error :: "'x ext_scheme \<Rightarrow> nat \<Rightarrow> bytes \<Rightarrow> client_error" where
  "client_api_error E st body =
     (case Option.bind (json_events E body) envelope_de of Some c \<Rightarrow> CApi c st | None \<Rightarrow> CInvalid)"

definition decode :: "'x ext_scheme \<Rightarrow> string \<Rightarrow> (bytes, client_error) result" where
  "decode E t = ok_or (b64_dec E t) CInvalid"

definition REPLY_CAP :: nat where "REPLY_CAP = 4 * 2 ^ 20"

text \<open>The chunks of a body are read until one would pass the cap or the connection breaks.\<close>

fun read_capped_from :: "nat \<Rightarrow> bytes \<Rightarrow> bytes list \<Rightarrow> bool \<Rightarrow> bytes option" where
  "read_capped_from cap body [] broken = (if broken then None else Some body)"
| "read_capped_from cap body (c # cs) broken =
     (if length c > cap - length body then None else read_capped_from cap (body @ c) cs broken)"

definition read_capped :: "answer \<Rightarrow> nat \<Rightarrow> bytes option" where
  "read_capped a cap = read_capped_from cap [] (aw_chunks a) (aw_broken a)"

record kms_client =
  kc_endpoints :: "string list"
  kc_server :: pinned_server

definition client_configured :: "'x tls_ext_scheme \<Rightarrow> string list \<Rightarrow> pin \<Rightarrow> (kms_client, client_error) result" where
  "client_configured E endpoints p =
     refuse_if (endpoints = []) CInvalid
     (and_then (pinned_server_new E (Some p)) (\<lambda>ps.
      Ok \<lparr> kc_endpoints = map (trim_end_matches (CHR ''/'')) endpoints, kc_server = ps \<rparr>))"

definition kms_request :: "string \<Rightarrow> string \<Rightarrow> json option \<Rightarrow> outgoing" where
  "kms_request meth url body =
     \<lparr> og_method = meth, og_to = Fixed url, og_bearer = None, og_basic = None, og_headers = [],
       og_payload = (case body of None \<Rightarrow> NoBody | Some j \<Rightarrow> JsonBody j) \<rparr>"

fun request_from :: "'x tls_ext_scheme \<Rightarrow> pinned_server \<Rightarrow> client_error \<Rightarrow> string list \<Rightarrow> string \<Rightarrow> string \<Rightarrow> json option \<Rightarrow>
    (raw \<Rightarrow> 'a option) \<Rightarrow> (dialled list, 'a, client_error) action" where
  "request_from E ps lasterr [] meth path body dec sent = (Err lasterr, sent)"
| "request_from E ps lasterr (endpoint # rest) meth path body dec sent =
     (case pinned_send E ps (kms_request meth (endpoint @ path) body) sent of
        (Err _, sent') \<Rightarrow> request_from E ps CConnect rest meth path body dec sent'
      | (Ok (_, a), sent') \<Rightarrow>
          (case read_capped a REPLY_CAP of
             None \<Rightarrow> request_from E ps CConnect rest meth path body dec sent'
           | Some b \<Rightarrow>
               if is_success a then (ok_or (Option.bind (json_events E b) dec) CInvalid, sent')
               else if 500 \<le> aw_status a \<and> aw_status a < 600
               then request_from E ps (client_api_error E (aw_status a) b) rest meth path body dec sent'
               else (Err (client_api_error E (aw_status a) b), sent')))"

definition request :: "'x tls_ext_scheme \<Rightarrow> kms_client \<Rightarrow> string \<Rightarrow> string \<Rightarrow> json option \<Rightarrow> (raw \<Rightarrow> 'a option) \<Rightarrow>
    (dialled list, 'a, client_error) action" where
  "request E kc meth path body dec = request_from E (kc_server kc) CConnect (kc_endpoints kc) meth path body dec"


section \<open>Signed bodies and replies\<close>

definition sign_as :: "'x ext_scheme \<Rightarrow> string \<Rightarrow> json \<Rightarrow> uuid option \<Rightarrow> bytes \<Rightarrow> (json \<times> signature_object, client_error) result" where
  "sign_as E ctx p key_id key =
     and_then (ok_or (signing_digest E ctx p) CInvalid) (\<lambda>digest.
     and_then (ok_or (ed25519_sign E key digest) CInvalid) (\<lambda>sg.
     Ok (p, \<lparr> so_key_id = key_id, so_algorithm = ''ed25519'', so_signature = b64_enc E sg, so_authenticator_data = None,
       so_client_data_json = None \<rparr>)))"

record signed_bootstrap =
  bp_shares_hpke :: "sealed_box list"
  bp_kms_ca_pem :: string

definition signed_bootstrap_de :: "json \<Rightarrow> signed_bootstrap option" where
  "signed_bootstrap_de v =
     Option.bind (struct_fields True [(''shares_hpke'', False), (''kms_ca_pem'', False)] v) (\<lambda>m.
     Option.bind (field m ''shares_hpke'' (de_vec sealed_box_de)) (\<lambda>s.
     Option.bind (field m ''kms_ca_pem'' json_as_str) (\<lambda>c. Some \<lparr> bp_shares_hpke = s, bp_kms_ca_pem = c \<rparr>)))"

definition bootstrap_reply_verify :: "'x ext_scheme \<Rightarrow> json \<Rightarrow> named_signature \<Rightarrow> bytes \<Rightarrow> (signed_bootstrap, client_error) result" where
  "bootstrap_reply_verify E p sg runtime_spki =
     refuse_if (ns_algorithm sg \<noteq> ''ecdsa-p256'') CInvalid
     (and_then (ok_or (p256_from_spki E runtime_spki) CInvalid) (\<lambda>key.
      and_then (ok_or (Option.bind (b64_dec E (ns_signature sg)) (p256_sig_from_slice E)) CInvalid) (\<lambda>s.
      and_then (ok_or (signing_digest E NODE_BOOTSTRAP p) CInvalid) (\<lambda>digest.
      refuse_if (\<not> p256_verify E key digest s) CInvalid
      (ok_or (signed_bootstrap_de p) CInvalid)))))"

section \<open>Probing an Endpoint\<close>

datatype probe = Attested instance_sans | OtherRevision instance_sans | Silent

definition cert_from_pem :: "'x ext_scheme \<Rightarrow> string \<Rightarrow> (bytes, client_error) result" where
  "cert_from_pem E pem =
     ok_or (case List.map_filter (\<lambda>b. case b of None \<Rightarrow> Some None | Some (label, d) \<Rightarrow> if label = ''CERTIFICATE'' then Some (Some d) else None)
              (pem_blocks E (as_bytes pem)) of [] \<Rightarrow> None | x # _ \<Rightarrow> x) CInvalid"

definition instance_leaf :: "'x tls_ext_scheme \<Rightarrow> string \<Rightarrow> string \<Rightarrow> (dialled list, (instance_sans \<times> bytes) option, client_error) action" where
  "instance_leaf E url kms_ca_pem sent =
     (case and_then (cert_from_pem E kms_ca_pem) (\<lambda>ca. pinned_server_new E (Some (PinCa ca))) of
        Err e \<Rightarrow> (Err e, sent)
      | Ok ps \<Rightarrow>
          (case pinned_send E ps (kms_request ''GET'' url None) sent of
             (Err _, t) \<Rightarrow> (Ok None, t)
           | (Ok (leaf, _), t) \<Rightarrow>
               (map_err (\<lambda>_. CInvalid) (and_then (uri_sans E leaf) (\<lambda>sans.
                and_then (parse_instance_sans E sans) (\<lambda>i. Ok (Some (i, leaf))))), t)))"

definition probe_instance :: "'x tls_ext_scheme \<Rightarrow> string \<Rightarrow> string \<Rightarrow> compose_hash \<Rightarrow> (dialled list, probe, client_error) action" where
  "probe_instance E url kms_ca_pem expected =
     act_bind (instance_leaf E url kms_ca_pem) (\<lambda>r.
     act_ok (case r of None \<Rightarrow> Silent
             | Some (i, _) \<Rightarrow> if is_compose_hash i = expected then Attested i else OtherRevision i))"

section \<open>The runtime socket's client\<close>

definition is_upstream_host :: "string \<Rightarrow> bool" where
  "is_upstream_host name \<longleftrightarrow> is_key_purpose name \<and> list_all (\<lambda>l. l \<noteq> [] \<and> length l \<le> 63) (split_on (CHR ''.'') name)"

definition valid_secret_name :: "string \<Rightarrow> bool" where
  "valid_secret_name name \<longleftrightarrow> name \<noteq> [] \<and> length name \<le> 128 \<and> list_all (\<lambda>b. is_ascii_alphanumeric b \<or> b \<in> set ''._-'') name"

text \<open>
  \<open>refresh_loop\<close>, over the attempts it makes: for each, how long the identity and the rest took and how
  they came out, \<open>None\<close> when the timeout cut the call. Timers are exact: a sleep lasts its delay and a
  cut call exactly \<open>ATTEMPT_TIMEOUT\<close>. The loop never returns of its own, so what it has become
  after some attempts is either the state it goes on with or the error it ended with, and when.
\<close>

definition REFRESH_INTERVAL :: time where "REFRESH_INTERVAL = 300 * 1000000000"
definition RETRY_AFTER :: time where "RETRY_AFTER = 30 * 1000000000"
definition ATTEMPT_TIMEOUT :: time where "ATTEMPT_TIMEOUT = 30 * 1000000000"
definition GIVE_UP_AFTER :: time where "GIVE_UP_AFTER = 600 * 1000000000"

record attempt =
  at_identity_took :: time
  at_identity :: "bool option"
  at_rest_took :: time
  at_rest :: "bool option"

datatype refresh_state = Running (rl_delay: time) (rl_last_good: time) (rl_now: time) | Ended (re_at: time)

definition refresh_once :: "attempt \<Rightarrow> time \<Rightarrow> time \<Rightarrow> time \<Rightarrow> refresh_state" where
  "refresh_once a delay last_good now =
     (let woken = now + delay; known = woken + at_identity_took a; tried = known + at_rest_took a in
      if at_identity a \<noteq> Some True then Ended known
      else if at_rest a = Some True then Running REFRESH_INTERVAL tried tried
      else if tried - last_good \<ge> GIVE_UP_AFTER then Ended tried
      else Running RETRY_AFTER last_good tried)"

fun refresh_loop :: "attempt list \<Rightarrow> refresh_state \<Rightarrow> refresh_state" where
  "refresh_loop [] s = s"
| "refresh_loop (a # more_attempts) (Running delay last_good now) = refresh_loop more_attempts (refresh_once a delay last_good now)"
| "refresh_loop (a # more_attempts) (Ended t) = Ended t"


section \<open>What a pin proves\<close>

lemma check_spki_Ok [result_simps]: "check_spki E spki leaf = Ok u \<longleftrightarrow> spki_of E leaf = Ok spki"
  by (auto simp: check_spki_def result_simps)

lemma check_node_leaf_Ok:
  "check_node_leaf E revisions leaf = Ok u \<longleftrightarrow>
     (\<exists>sans r. uri_sans E leaf = Ok sans \<and> KMS_SAN \<in> set sans \<and> r \<in> set revisions \<and> REVISION_URN @ compose_hash_show r \<in> set sans)"
  by (auto simp: check_node_leaf_def result_simps list_ex_iff)

text \<open>The leaf of an App Instance of one of the given Revisions, of one organization when one is given.\<close>

definition instance_of :: "'x ext_scheme \<Rightarrow> compose_hash list \<Rightarrow> uuid option \<Rightarrow> bytes \<Rightarrow> bool" where
  "instance_of E revisions org leaf \<longleftrightarrow>
     (\<exists>sans i. uri_sans E leaf = Ok sans \<and> parse_instance_sans E sans = Ok i \<and> is_compose_hash i \<in> set revisions
       \<and> (\<forall>x. org = Some x \<longrightarrow> is_org_id i = x))"

definition node_of :: "'x ext_scheme \<Rightarrow> compose_hash list \<Rightarrow> bytes \<Rightarrow> bool" where
  "node_of E revisions leaf \<longleftrightarrow>
     (\<exists>sans r. uri_sans E leaf = Ok sans \<and> KMS_SAN \<in> set sans \<and> r \<in> set revisions \<and> REVISION_URN @ compose_hash_show r \<in> set sans)"

definition chained :: "'x tls_ext_scheme \<Rightarrow> bytes \<Rightarrow> dialled \<Rightarrow> bool" where
  "chained E ca d \<longleftrightarrow> (\<exists>a. webpki_anchor E ca = Some a \<and> webpki_verify E a (dl_leaf d) (dl_chain d) (dl_at d))"

text \<open>What the peer of a connection proved under each pin.\<close>

fun pin_proved :: "'x tls_ext_scheme \<Rightarrow> pin \<Rightarrow> dialled \<Rightarrow> bool" where
  "pin_proved E (PinCa ca) d = chained E ca d"
| "pin_proved E (PinCaAndRevisions ca rs) d = (chained E ca d \<and> node_of E rs (dl_leaf d))"
| "pin_proved E (PinCaRevisionsAndSpki ca rs spki) d = (chained E ca d \<and> node_of E rs (dl_leaf d) \<and> spki_of E (dl_leaf d) = Ok spki)"
| "pin_proved E (PinCaAndInstanceRevisions ca rs org) d = (chained E ca d \<and> instance_of E rs org (dl_leaf d))"
| "pin_proved E (PinCaSpkiAndRevisions digest rs) d =
     ((\<exists>ca \<in> set (dl_chain d). spki_sha256 E ca = Some digest \<and> chained E ca d) \<and> node_of E rs (dl_leaf d))"
| "pin_proved E (PinSpki spki) d = (spki_of E (dl_leaf d) = Ok spki)"

lemma verify_server_cert_proves:
  assumes "pinned_server_new E (Some p) = Ok ps" and "verify_server_cert E ps (dl_leaf d) (dl_chain d) (dl_at d) = Ok u"
  shows "pin_proved E p d"
  using assms
  by (cases p; auto simp: pinned_server_new_def verify_server_cert_def server_anchor_def check_pinned_def result_simps chained_def node_of_def instance_of_def
      check_node_leaf_Ok split: option.splits dest!: find_SomeD; blast)

text \<open>Everything a pinned client sends, it sends to a peer that proved its pin.\<close>

definition sent_pinned :: "'x tls_ext_scheme \<Rightarrow> pin \<Rightarrow> dialled list \<Rightarrow> dialled list \<Rightarrow> bool" where
  "sent_pinned E p old_sent new_sent \<longleftrightarrow> (\<exists>ds. new_sent = old_sent @ ds \<and> (\<forall>d \<in> set ds. dl_pin d = Some p \<and> pin_proved E p d))"

lemma sent_pinned_refl [simp]: "sent_pinned E p s s"
  by (simp add: sent_pinned_def)

lemma sent_pinned_trans: "sent_pinned E p s t \<Longrightarrow> sent_pinned E p t u \<Longrightarrow> sent_pinned E p s u"
  by (force simp: sent_pinned_def)

lemma pinned_server_pin: "pinned_server_new E p = Ok ps \<Longrightarrow> ps_pin ps = p"
  by (auto simp: pinned_server_new_def result_simps split: option.splits)

lemma pinned_send_pinned:
  assumes "pinned_server_new E (Some p) = Ok ps"
  shows "sent_pinned E p s (snd (pinned_send E ps r s))"
proof (cases "tls_dial E s r")
  case (Some x)
  then show ?thesis
  proof (cases x)
    case (Pair t c)
    with Some show ?thesis
    proof (cases c)
      case (Cons leaf chain)
      let ?d = "\<lparr> dl_pin = ps_pin ps, dl_leaf = leaf, dl_chain = chain, dl_at = t, dl_request = r \<rparr>"
      have "pin_proved E p ?d" if "verify_server_cert E ps leaf chain t = Ok u" for u
        using verify_server_cert_proves [OF assms, of ?d u] that by simp
      with Some Pair Cons pinned_server_pin [OF assms] show ?thesis
        by (auto simp: pinned_send_def sent_pinned_def is_ok_iff Let_def)
    qed (simp add: pinned_send_def)
  qed
qed (simp add: pinned_send_def)

lemma request_from_pinned:
  assumes "pinned_server_new E (Some p) = Ok ps"
  shows "sent_pinned E p s (snd (request_from E ps e endpoints meth path body dec s))"
proof (induction endpoints arbitrary: e s)
  case (Cons x rest)
  obtain r t where 1: "pinned_send E ps (kms_request meth (x @ path) body) s = (r, t)" by force
  with pinned_send_pinned [OF assms, of s "kms_request meth (x @ path) body"] have "sent_pinned E p s t" by simp
  with Cons.IH [where s = t] have "sent_pinned E p s (snd (request_from E ps e' rest meth path body dec t))" for e'
    using sent_pinned_trans by blast
  with 1 \<open>sent_pinned E p s t\<close> show ?case by (auto split: result.splits option.splits prod.splits)
qed simp

lemma pinned_send_length: "length (snd (pinned_send E ps r s)) \<le> Suc (length s)"
  by (auto simp: pinned_send_def Let_def split: option.splits prod.splits list.splits)

lemma request_from_length: "length (snd (request_from E ps e endpoints meth path body dec s)) \<le> length s + length endpoints"
proof (induction endpoints arbitrary: e s)
  case (Cons x rest)
  obtain r t where 1: "pinned_send E ps (kms_request meth (x @ path) body) s = (r, t)" by force
  with pinned_send_length [of E ps "kms_request meth (x @ path) body" s] have "length t \<le> Suc (length s)" by simp
  then have "length (snd (request_from E ps e' rest meth path body dec t)) \<le> length s + Suc (length rest)" for e'
    using Cons.IH [where s = t and e = e'] by linarith
  with 1 \<open>length t \<le> Suc (length s)\<close> show ?case by (auto split: result.splits option.splits)
qed simp

text \<open>
  A KMS client sends nothing to a stranger: each request walks the endpoints at most once each, and
  every one of them it sends to goes, whatever the network routes it to, over a connection whose leaf
  proved the client's pin at its handshake: the chain under the pinned CA, and the KMS identity, the
  Revisions and the key the pin names.
\<close>

theorem request_reaches_only_pinned:
  assumes "client_configured E endpoints p = Ok kc" and "request E kc meth path body dec s = (r, t)"
  shows "\<exists>ds. t = s @ ds \<and> length ds \<le> length endpoints \<and> (\<forall>d \<in> set ds. dl_pin d = Some p \<and> pin_proved E p d)"
proof -
  from assms(1) obtain ps where ps: "pinned_server_new E (Some p) = Ok ps"
    "kc = \<lparr> kc_endpoints = map (trim_end_matches (CHR ''/'')) endpoints, kc_server = ps \<rparr>"
    by (auto simp: client_configured_def result_simps)
  with assms(2) have t: "t = snd (request_from E ps CConnect (map (trim_end_matches (CHR ''/'')) endpoints) meth path body dec s)"
    by (simp add: request_def)
  with request_from_pinned [OF ps(1)] obtain ds where "t = s @ ds" "\<forall>d \<in> set ds. dl_pin d = Some p \<and> pin_proved E p d"
    unfolding sent_pinned_def by blast
  moreover have "length t \<le> length s + length endpoints" using request_from_length t by (metis length_map)
  ultimately show ?thesis by auto
qed

definition demo_tls :: tls_ext where
  "demo_tls = net_ext.extend (ext.extend (demo\<lparr> x509_parse := \<lambda>_. Some (demo_leaf, []), json_events := \<lambda>_. Some RNull \<rparr>)
       (net_ext.fields (\<lambda>_. None) (\<lambda>_ _. None) (\<lambda>_ _. None) Some (\<lambda>_. True) (\<lambda>_ b. from_bytes b) Some))
     (tls_ext.fields Some (\<lambda>_ _ _ _. True) (\<lambda>_ _. Some (0, [[1], [2]]))
       (\<lambda>_. Some \<lparr> aw_status = 200, aw_content_type = None, aw_chunks = [], aw_broken = False \<rparr>) (\<lambda>_. []))"

theorem request_reaches_only_pinned_witness:
  "\<exists>r d. request demo_tls \<lparr> kc_endpoints = [''k''], kc_server = \<lparr> ps_pin = Some (PinCaAndRevisions [7] [replicate 32 1]), ps_anchor = Some [7] \<rparr> \<rparr>
      ''GET'' ''/ready'' None Some [] = (r, [d]) \<and> pin_proved demo_tls (PinCaAndRevisions [7] [replicate 32 1]) d"
proof -
  let ?p = "PinCaAndRevisions [7] [replicate 32 1]" and ?ps = "\<lparr> ps_pin = Some (PinCaAndRevisions [7] [replicate 32 1]), ps_anchor = Some [7] \<rparr>"
  let ?kc = "\<lparr> kc_endpoints = [''k''], kc_server = ?ps \<rparr>"
  have e: "webpki_anchor demo_tls = Some" "webpki_verify demo_tls = (\<lambda>_ _ _ _. True)" "tls_dial demo_tls = (\<lambda>_ _. Some (0, [[1], [2]]))"
    "x509_parse demo_tls = (\<lambda>_. Some (demo_leaf, []))"
    "tls_answer demo_tls = (\<lambda>_. Some \<lparr> aw_status = 200, aw_content_type = None, aw_chunks = [], aw_broken = False \<rparr>)"
    by (simp_all add: demo_tls_def tls_ext.defs net_ext.defs ext.defs)
  have c: "client_configured demo_tls [''k''] ?p = Ok ?kc"
    by (simp add: client_configured_def pinned_server_new_def e trim_end_matches_def)
  have "check_node_leaf demo_tls [replicate 32 1] [1] = Ok ()"
    by (simp add: check_node_leaf_def uri_sans_def parse_x509_def e demo_leaf_def)
  then have "verify_server_cert demo_tls ?ps [1] [[2]] 0 = Ok ()"
    by (simp add: verify_server_cert_def server_anchor_def e check_pinned_def)
  then have "\<exists>r d. request demo_tls ?kc ''GET'' ''/ready'' None Some [] = (r, [d])"
    by (simp add: request_def pinned_send_def e read_capped_def is_success_def)
  with request_reaches_only_pinned [OF c] show ?thesis by (metis append_Nil list.set_intros(1))
qed

section \<open>Giving up\<close>

text \<open>A call is cut after \<open>ATTEMPT_TIMEOUT\<close>.\<close>

definition timely :: "attempt \<Rightarrow> bool" where
  "timely a \<longleftrightarrow> 0 \<le> at_identity_took a \<and> at_identity_took a \<le> ATTEMPT_TIMEOUT \<and> 0 \<le> at_rest_took a \<and> at_rest_took a \<le> ATTEMPT_TIMEOUT"

definition loop_ok :: "refresh_state \<Rightarrow> bool" where
  "loop_ok s \<longleftrightarrow> (\<forall>d g n. s = Running d g n \<longrightarrow> (d = REFRESH_INTERVAL \<and> g = n) \<or> (d = RETRY_AFTER \<and> REFRESH_INTERVAL \<le> n - g \<and> n - g < GIVE_UP_AFTER))"

lemmas refresh_times = REFRESH_INTERVAL_def RETRY_AFTER_def ATTEMPT_TIMEOUT_def GIVE_UP_AFTER_def

lemma refresh_once_ok: "timely a \<Longrightarrow> loop_ok (Running d g n) \<Longrightarrow> loop_ok (refresh_once a d g n)"
  by (auto simp: loop_ok_def refresh_once_def timely_def refresh_times Let_def)

lemma refresh_loop_ok: "list_all timely as \<Longrightarrow> loop_ok s \<Longrightarrow> loop_ok (refresh_loop as s)"
  by (induction as s rule: refresh_loop.induct) (simp_all add: refresh_once_ok)

lemma refresh_loop_append: "refresh_loop (as @ bs) s = refresh_loop bs (refresh_loop as s)"
  by (induction as s rule: refresh_loop.induct) (simp, simp, cases bs, simp_all)

text \<open>
  Attempts left until the loop must end: from a good read eleven failing ones, then one per
  \<open>RETRY_AFTER\<close> that is still missing.
\<close>

lemma retries_end:
  assumes "list_all (\<lambda>a. timely a \<and> at_rest a \<noteq> Some True) as" and "g \<le> n" and "n - g < GIVE_UP_AFTER"
    and "GIVE_UP_AFTER \<le> n - g + int (length as) * RETRY_AFTER"
  shows "\<exists>t. refresh_loop as (Running RETRY_AFTER g n) = Ended t \<and> t \<le> g + 690 * 1000000000"
  using assms
proof (induction as arbitrary: n)
  case (Cons a rest)
  show ?case
  proof (cases "refresh_once a RETRY_AFTER g n")
    case (Running d g' n')
    with Cons.prems have 1: "d = RETRY_AFTER" "g' = g" "n + RETRY_AFTER \<le> n'" "n' - g < GIVE_UP_AFTER"
      by (auto simp: refresh_once_def Let_def timely_def split: if_splits)
    with Cons.prems have "\<exists>t. refresh_loop rest (Running RETRY_AFTER g n') = Ended t \<and> t \<le> g + 690 * 1000000000"
      by (intro Cons.IH) (auto simp: refresh_times algebra_simps)
    with Running 1 show ?thesis by simp
  next
    case (Ended t)
    with Cons.prems have "t \<le> g + 690 * 1000000000"
      by (auto simp: refresh_once_def Let_def timely_def refresh_times split: if_splits)
    with Ended show ?thesis by (cases rest) auto
  qed
qed simp

lemma failing_loop_ends:
  assumes "list_all (\<lambda>a. timely a \<and> at_rest a \<noteq> Some True) as" and "11 \<le> length as" and "loop_ok (Running d g n)"
  shows "\<exists>t. refresh_loop as (Running d g n) = Ended t \<and> t \<le> g + 690 * 1000000000"
proof (cases "d = RETRY_AFTER")
  case True
  with assms show ?thesis
    using retries_end [OF assms(1), of g n] by (auto simp: loop_ok_def refresh_times)
next
  case False
  with assms(3) have d: "d = REFRESH_INTERVAL" "g = n" by (auto simp: loop_ok_def)
  obtain a rest where as: "as = a # rest" using assms(2) by (cases as) auto
  show ?thesis
  proof (cases "refresh_once a d g n")
    case (Running d' g' n')
    with assms(1) as d have 1: "d' = RETRY_AFTER" "g' = g" "n + REFRESH_INTERVAL \<le> n'" "n' - g < GIVE_UP_AFTER"
      by (auto simp: refresh_once_def Let_def timely_def split: if_splits)
    have "\<exists>t. refresh_loop rest (Running RETRY_AFTER g n') = Ended t \<and> t \<le> g + 690 * 1000000000"
      by (rule retries_end) (use assms as d 1 in \<open>auto simp: refresh_times\<close>)
    with Running as 1 show ?thesis by simp
  next
    case (Ended t)
    with assms(1) as d have "t \<le> g + 690 * 1000000000"
      by (auto simp: refresh_once_def Let_def timely_def refresh_times split: if_splits)
    with Ended as show ?thesis by (cases rest) auto
  qed
qed

text \<open>
  C32. A service does not go on with Secrets it cannot re-read: whatever attempts came first, once
  every further one fails or hangs the refresh loop ends, after at most eleven of them and at most
  690 seconds after the last good read (ten minutes, and the retry that was due by then).
\<close>

theorem refresh_gives_up:
  assumes "list_all timely before" and "refresh_loop before (Running REFRESH_INTERVAL t0 t0) = Running d last_good now"
    and "list_all timely after" and "list_all (\<lambda>a. at_rest a \<noteq> Some True) after" and "11 \<le> length after"
  shows "\<exists>t. refresh_loop (before @ after) (Running REFRESH_INTERVAL t0 t0) = Ended t \<and> t \<le> last_good + 690 * 1000000000"
proof -
  have "loop_ok (Running REFRESH_INTERVAL t0 t0)" by (simp add: loop_ok_def)
  with assms(1,2) refresh_loop_ok have "loop_ok (Running d last_good now)" by metis
  with assms(3-5) failing_loop_ends [of after d last_good now] show ?thesis
    by (simp add: refresh_loop_append assms(2) list_all_iff)
qed

definition demo_failing :: attempt where
  "demo_failing = \<lparr> at_identity_took = 0, at_identity = Some True, at_rest_took = 0, at_rest = Some False \<rparr>"

definition demo_reading :: attempt where
  "demo_reading = \<lparr> at_identity_took = 0, at_identity = Some True, at_rest_took = 5, at_rest = Some True \<rparr>"

theorem refresh_gives_up_witness:
  "\<exists>t. refresh_loop ([demo_reading] @ replicate 11 demo_failing) (Running REFRESH_INTERVAL 0 0) = Ended t
     \<and> t \<le> (300 * 1000000000 + 5) + 690 * 1000000000"
  by (rule refresh_gives_up [where d = REFRESH_INTERVAL and now = "300 * 1000000000 + 5"])
    (simp_all add: list_all_iff timely_def demo_failing_def demo_reading_def refresh_once_def refresh_times)

end
