(* ===== verification/Inference.thy ===== *)
theory Inference
  imports Guard Attest_Wire Channel_Platform "HOL-Library.Product_Lexorder" "HOL-Library.Char_ord" "HOL-Library.List_Lexorder"
begin

text \<open>
  \<^verbatim>\<open>services/alpha-inference\<close>: the inference front. API keys (\<^verbatim>\<open>keys.rs\<close>), an organization's model servers
  (\<^verbatim>\<open>org_models.rs\<close>, \<^verbatim>\<open>own.rs\<close>), the check of the external gateway (\<^verbatim>\<open>upstream.rs\<close>), the usage meter and its
  sums (\<^verbatim>\<open>usage.rs\<close>), and the routes (\<^verbatim>\<open>lib.rs\<close>).

  The state is the front's own memory, its four tables and the list of everything it sent, each with
  the peer it went to. An answer that is being relayed is a \<open>flight\<close>: it holds the meter and the
  organization's slot until its body is dropped. A handler runs as one step; a failing database
  connection is not modelled.
\<close>

section \<open>Errors and configuration\<close>

text \<open>
  \<open>IRejected\<close> is the framework's own refusal of a path, a query or a body, \<open>ITooLarge\<close> its refusal of a body over
  the route's limit.
\<close>

datatype inf_error = IUnauthorized | IBadRequest | INotFound | IModelNotFound string | IUpstreamUnverified | IUpstream | IBusy | IInternal | IRejected | ITooLarge

definition inf_parts :: "inf_error \<Rightarrow> nat \<times> string \<times> string" where
  "inf_parts e =
     (case e of
        IUnauthorized \<Rightarrow> (401, ''authentication_error'', ''unauthorized'')
      | IBadRequest \<Rightarrow> (400, ''invalid_request_error'', ''invalid_request'')
      | INotFound \<Rightarrow> (404, ''invalid_request_error'', ''not_found'')
      | IModelNotFound _ \<Rightarrow> (404, ''invalid_request_error'', ''model_not_found'')
      | IUpstreamUnverified \<Rightarrow> (502, ''upstream_error'', ''upstream_unverified'')
      | IUpstream \<Rightarrow> (502, ''upstream_error'', ''upstream'')
      | IBusy \<Rightarrow> (429, ''rate_limit_error'', ''rate_limit_exceeded'')
      | IInternal \<Rightarrow> (500, ''internal_error'', ''internal'')
      | IRejected \<Rightarrow> (400, [], [])
      | ITooLarge \<Rightarrow> (413, [], []))"

record model_server =
  ms_url :: string
  ms_revisions :: "compose_hash list"

definition model_server_de :: "raw \<Rightarrow> model_server option" where
  "model_server_de v =
     Option.bind (raw_fields True [(''url'', False), (''revisions'', False)] v) (\<lambda>m.
     Option.bind (raw_field m ''url'' raw_as_str) (\<lambda>u.
     Option.bind (raw_field m ''revisions'' (raw_vec (\<lambda>r. Option.bind (raw_as_str r) compose_hash_from_str))) (\<lambda>rs.
     Some \<lparr> ms_url = u, ms_revisions = rs \<rparr>)))"

definition origin :: "'x tls_ext_scheme \<Rightarrow> string \<Rightarrow> string option" where
  "origin E text =
     Option.bind (url_parse E text) (\<lambda>u.
     if url_scheme u = ''https'' \<and> url_host u \<noteq> None \<and> url_segments u = Some [[]] \<and> url_query u = None \<and> url_fragment u = None
        \<and> url_username u = [] \<and> url_password u = None
     then Some (trim_end_matches (CHR ''/'') (url_text E u)) else None)"

definition check_server :: "'x tls_ext_scheme \<Rightarrow> 'e \<Rightarrow> model_server \<Rightarrow> (model_server, 'e) result" where
  "check_server E e s =
     and_then (ok_or (origin E (ms_url s)) e) (\<lambda>u.
     refuse_if (ms_revisions s = []) e (Ok (s\<lparr> ms_url := u \<rparr>)))"

text \<open>A \<open>BTreeMap\<close> read from an object: the last entry of a key counts.\<close>

definition servers_de :: "raw \<Rightarrow> (string \<times> model_server) list option" where
  "servers_de v =
     (case v of
        RMap es \<Rightarrow> map_option (foldl (\<lambda>m e. map_insert (fst e) (snd e) m) [])
          (to_option (collect_results (\<lambda>e. ok_or (map_option (Pair (fst e)) (model_server_de (snd e))) ()) es))
      | _ \<Rightarrow> None)"

definition own_parse :: "'x tls_ext_scheme \<Rightarrow> string \<Rightarrow> ((string \<times> model_server) list, inf_error) result" where
  "own_parse E text =
     and_then (ok_or (Option.bind (json_events E (as_bytes text)) servers_de) IInternal) (\<lambda>servers.
     collect_results (\<lambda>(m, s). and_then (check_server E IInternal s) (\<lambda>t. Ok (m, t))) servers)"

record external =
  ex_upstream_url :: string
  ex_pccs_url :: string
  ex_upstream_policy :: attest_policy

record inf_config =
  if_models :: "string list"
  if_own :: "(string \<times> model_server) list"
  if_external :: "external option"
  if_app_concurrency_per_org :: nat

definition policy_raw_de :: "raw \<Rightarrow> attest_policy option" where
  "policy_raw_de v =
     Option.bind (raw_fields False [(''tcb_statuses'', False), (''tolerated_advisories'', False)] v) (\<lambda>m.
     Option.bind (raw_field m ''tcb_statuses'' (raw_vec raw_as_str)) (\<lambda>s.
     Option.bind (raw_field m ''tolerated_advisories'' (raw_vec raw_as_str)) (\<lambda>a.
     Some \<lparr> tcb_statuses = s, tolerated_advisories = a \<rparr>)))"

definition external_build :: "'x ext_scheme \<Rightarrow> (string \<Rightarrow> string option) \<Rightarrow> (external, inf_error) result" where
  "external_build E env =
     and_then (ok_or (env ''UPSTREAM_URL'') IInternal) (\<lambda>u.
     refuse_if (\<not> starts_with ''https://'' u) IInternal
     (and_then (ok_or (env ''PCCS_URL'') IInternal) (\<lambda>c.
      refuse_if (\<not> starts_with ''https://'' c) IInternal
      (and_then (ok_or (env ''UPSTREAM_POLICY'') IInternal) (\<lambda>t.
       and_then (ok_or (Option.bind (json_events E (as_bytes t)) policy_raw_de) IInternal) (\<lambda>p.
       refuse_if (tcb_statuses p = []) IInternal
       (Ok \<lparr> ex_upstream_url = trim_end_matches (CHR ''/'') u, ex_pccs_url = trim_end_matches (CHR ''/'') c, ex_upstream_policy = p \<rparr>)))))))"

text \<open>\<open>Semaphore::MAX_PERMITS\<close> is \<open>usize::MAX >> 3\<close>.\<close>

definition MAX_PERMITS :: nat where "MAX_PERMITS = (2 ^ 64 - 1) div 8"

definition inf_config_build :: "'x tls_ext_scheme \<Rightarrow> (string \<Rightarrow> string option) \<Rightarrow> (inf_config, inf_error) result" where
  "inf_config_build E env =
     (let models = filter (\<lambda>s. s \<noteq> []) (map trim (split_on (CHR '','') (case env ''MODELS'' of None \<Rightarrow> [] | Some t \<Rightarrow> t))) in
      refuse_if (models = []) IInternal
      (and_then (case env ''MODEL_SERVERS'' of None \<Rightarrow> Ok [] | Some t \<Rightarrow> own_parse E t) (\<lambda>own.
       refuse_if (list_ex (\<lambda>e. fst e \<notin> set models) own) IInternal
       (and_then (if list_all (\<lambda>m. map_of own m \<noteq> None) models then Ok None
                  else and_then (external_build E env) (\<lambda>x. Ok (Some x))) (\<lambda>provider_of.
        and_then (case env ''APP_CONCURRENCY_PER_ORG'' of
            None \<Rightarrow> Ok 4
          | Some t \<Rightarrow> ok_or (Option.bind (parse_uint (2 ^ 64 - 1) t) (\<lambda>n. if 1 \<le> n \<and> n \<le> MAX_PERMITS then Some n else None)) IInternal) (\<lambda>n.
        Ok \<lparr> if_models = models, if_own = own, if_external = provider_of, if_app_concurrency_per_org = n \<rparr>))))))"

definition default_model :: "inf_config \<Rightarrow> string" where
  "default_model cf = (case if_models cf of [] \<Rightarrow> [] | m # _ \<Rightarrow> m)"

definition allows :: "inf_config \<Rightarrow> string \<Rightarrow> bool" where
  "allows cf m \<longleftrightarrow> list_ex ((=) m) (if_models cf)"

definition external_models :: "inf_config \<Rightarrow> string list" where
  "external_models cf = filter (\<lambda>m. map_of (if_own cf) m = None) (if_models cf)"

section \<open>API keys\<close>

definition KEY_PREFIX :: string where "KEY_PREFIX = ''sk-alpha-''"
definition KEY_MAC_CONTEXT :: bytes where "KEY_MAC_CONTEXT = as_bytes ''alphacompute/inference/api-key/v1''"
definition NAME_MAX :: nat where "NAME_MAX = 128"

definition mac :: "'x ext_scheme \<Rightarrow> bytes \<Rightarrow> bytes \<Rightarrow> bytes list \<Rightarrow> bytes" where
  "mac E k context parts = hmac_sha256 E k (context @ concat parts)"

definition key_mac :: "'x ext_scheme \<Rightarrow> bytes \<Rightarrow> uuid \<Rightarrow> uuid \<Rightarrow> bytes \<Rightarrow> bytes" where
  "key_mac E k i org secret = mac E k KEY_MAC_CONTEXT [uuid_bytes i, uuid_bytes org, secret]"

text \<open>\<open>Uuid::simple\<close>: the sixteen bytes in lower-case hexadecimal.\<close>

definition uuid_simple :: "uuid \<Rightarrow> string" where
  "uuid_simple u = hex_encode (uuid_bytes u)"

definition key_parse :: "'x ext_scheme \<Rightarrow> string \<Rightarrow> (uuid \<times> bytes) option" where
  "key_parse E token =
     Option.bind (Option.bind (strip_prefix KEY_PREFIX token) (split_once ''_'')) (\<lambda>(i, secret).
     if length i \<noteq> 32 then None
     else Option.bind (uuid_parse E i) (\<lambda>u.
          Option.bind (hex_decode secret) (\<lambda>b. if length b = 32 then Some (u, b) else None)))"

record api_key =
  ak_id :: uuid
  ak_org_id :: uuid
  ak_name :: string
  ak_mac :: bytes
  ak_created_at :: time
  ak_revoked_at :: "time option"

record model_row =
  mr_org_id :: uuid
  mr_model :: string
  mr_url :: string
  mr_revisions :: "string list"
  mr_mac :: bytes

record usage_row =
  us_id :: uuid
  us_key_id :: "uuid option"
  us_app_id :: "uuid option"
  us_org_id :: uuid
  us_model :: string
  us_prompt :: "nat option"
  us_completion :: "nat option"
  us_started_at :: time

record inf_db =
  id_keys :: "api_key list"
  id_models :: "model_row list"
  id_usage :: "usage_row list"

definition key_text :: "uuid \<Rightarrow> bytes \<Rightarrow> string" where
  "key_text i secret = KEY_PREFIX @ uuid_simple i @ ''_'' @ hex_encode secret"

text \<open>The insert fails when the id is taken, as a failing database does.\<close>

definition create_key_row :: "'x ext_scheme \<Rightarrow> bytes \<Rightarrow> time \<Rightarrow> uuid \<Rightarrow> bytes option \<Rightarrow> uuid \<Rightarrow> string \<Rightarrow> inf_db \<Rightarrow>
    (string, inf_error) result \<times> inf_db" where
  "create_key_row E k now i rand org name d =
     (if name = [] \<or> length name > NAME_MAX then (Err IBadRequest, d)
      else case rand of
        None \<Rightarrow> (Err IInternal, d)
      | Some secret \<Rightarrow>
          if i \<in> ak_id ` set (id_keys d) then (Err IInternal, d)
          else (Ok (key_text i secret),
            d\<lparr> id_keys := id_keys d @ [\<lparr> ak_id = i, ak_org_id = org, ak_name = name, ak_mac = key_mac E k i org secret, ak_created_at = now,
              ak_revoked_at = None \<rparr>] \<rparr>))"

definition list_key_rows :: "uuid \<Rightarrow> inf_db \<Rightarrow> api_key list" where
  "list_key_rows org d = sort_key ak_id (filter (\<lambda>r. ak_org_id r = org) (id_keys d))"

definition revoke_key_row :: "time \<Rightarrow> uuid \<Rightarrow> inf_db \<Rightarrow> bool \<times> inf_db" where
  "revoke_key_row now i d =
     (list_ex (\<lambda>r. ak_id r = i) (id_keys d),
      d\<lparr> id_keys := map (\<lambda>r. if ak_id r = i then r\<lparr> ak_revoked_at := (case ak_revoked_at r of None \<Rightarrow> Some now | Some t \<Rightarrow> Some t) \<rparr> else r)
        (id_keys d) \<rparr>)"

definition authenticate :: "'x ext_scheme \<Rightarrow> bytes \<Rightarrow> string \<Rightarrow> inf_db \<Rightarrow> (uuid \<times> uuid) option" where
  "authenticate E k token d =
     Option.bind (key_parse E token) (\<lambda>(i, secret).
     Option.bind (find (\<lambda>r. ak_id r = i \<and> ak_revoked_at r = None) (id_keys d)) (\<lambda>r.
     if key_mac E k i (ak_org_id r) secret = ak_mac r then Some (i, ak_org_id r) else None))"

section \<open>An organization's model servers\<close>

definition SERVER_MAC_CONTEXT :: bytes where "SERVER_MAC_CONTEXT = as_bytes ''alphacompute/inference/model-server/v1''"
definition MODEL_MAX :: nat where "MODEL_MAX = 256"

definition server_mac :: "'x ext_scheme \<Rightarrow> bytes \<Rightarrow> uuid \<Rightarrow> string \<Rightarrow> model_server \<Rightarrow> bytes" where
  "server_mac E k org model s =
     mac E k SERVER_MAC_CONTEXT [as_bytes (json_to_string E (JArray [JString (uuid_show E org), JString model, JString (ms_url s),
       JArray (map (\<lambda>r. JString (compose_hash_show r)) (ms_revisions s))]))]"

definition put_model_row :: "'x tls_ext_scheme \<Rightarrow> bytes \<Rightarrow> uuid \<Rightarrow> string \<Rightarrow> model_server \<Rightarrow> inf_db \<Rightarrow> (unit, inf_error) result \<times> inf_db" where
  "put_model_row E k org model s d =
     (if model = [] \<or> length model > MODEL_MAX then (Err IBadRequest, d)
      else case check_server E IBadRequest s of
        Err e \<Rightarrow> (Err e, d)
      | Ok t \<Rightarrow>
          (Ok (), d\<lparr> id_models := filter (\<lambda>r. \<not> (mr_org_id r = org \<and> mr_model r = model)) (id_models d)
             @ [\<lparr> mr_org_id = org, mr_model = model, mr_url = ms_url t, mr_revisions = map compose_hash_show (ms_revisions t),
                  mr_mac = server_mac E k org model t \<rparr>] \<rparr>))"

definition delete_model_row :: "uuid \<Rightarrow> string \<Rightarrow> inf_db \<Rightarrow> bool \<times> inf_db" where
  "delete_model_row org model d =
     (list_ex (\<lambda>r. mr_org_id r = org \<and> mr_model r = model) (id_models d),
      d\<lparr> id_models := filter (\<lambda>r. \<not> (mr_org_id r = org \<and> mr_model r = model)) (id_models d) \<rparr>)"

definition verified_row :: "'x ext_scheme \<Rightarrow> bytes \<Rightarrow> uuid \<Rightarrow> model_row \<Rightarrow> model_server option" where
  "verified_row E k org r =
     Option.bind (to_option (collect_results (\<lambda>x. ok_or (compose_hash_from_str x) ()) (mr_revisions r))) (\<lambda>rs.
     let s = \<lparr> ms_url = mr_url r, ms_revisions = rs \<rparr> in
     if server_mac E k org (mr_model r) s = mr_mac r then Some s else None)"

definition find_model :: "'x ext_scheme \<Rightarrow> bytes \<Rightarrow> uuid \<Rightarrow> string \<Rightarrow> inf_db \<Rightarrow> model_server option" where
  "find_model E k org model d =
     Option.bind (find (\<lambda>r. mr_org_id r = org \<and> mr_model r = model) (id_models d)) (verified_row E k org)"

text \<open>Text is ordered bytewise, as in the database's \<open>C\<close> collation.\<close>

definition model_names :: "'x ext_scheme \<Rightarrow> bytes \<Rightarrow> uuid \<Rightarrow> inf_db \<Rightarrow> string list" where
  "model_names E k org d =
     map mr_model (filter (\<lambda>r. verified_row E k org r \<noteq> None) (sort_key mr_model (filter (\<lambda>r. mr_org_id r = org) (id_models d))))"


section \<open>The usage meter\<close>

datatype caller = CallerKey (cl_key: uuid) (cl_org: uuid) | CallerApp (cl_org: uuid) (cl_app: uuid)

definition BODY_MAX :: nat where "BODY_MAX = 4 * 1024 * 1024"
definition EVENT_MAX :: nat where "EVENT_MAX = 64 * 1024"

type_synonym token_counts = "nat \<times> nat"

definition usage_count :: "json \<Rightarrow> string \<Rightarrow> nat option" where
  "usage_count us k = Option.bind (Option.bind (json_get us k) json_as_u64) (\<lambda>n. if n < 2 ^ 63 then Some n else None)"

definition usage_tokens :: "json \<Rightarrow> token_counts option" where
  "usage_tokens answer =
     Option.bind (json_get answer ''usage'') (\<lambda>us.
     Option.bind (usage_count us ''prompt_tokens'') (\<lambda>p.
     Option.bind (usage_count us ''completion_tokens'') (\<lambda>c. Some (p, c))))"

record meter =
  mt_caller :: caller
  mt_model :: string
  mt_started_at :: time
  mt_stream :: bool
  mt_buf :: bytes
  mt_overflow :: bool
  mt_last :: "token_counts option"

definition meter_new :: "caller \<Rightarrow> string \<Rightarrow> bool \<Rightarrow> time \<Rightarrow> meter" where
  "meter_new c model stream at =
     \<lparr> mt_caller = c, mt_model = model, mt_started_at = at, mt_stream = stream, mt_buf = [], mt_overflow = False, mt_last = None \<rparr>"

definition sse_tokens :: "'x ext_scheme \<Rightarrow> bytes \<Rightarrow> token_counts option" where
  "sse_tokens E event =
     Option.bind (from_utf8 event) (\<lambda>t.
     Option.bind (find (\<lambda>x. x \<noteq> None) (map (\<lambda>d. Option.bind (json_from_str E (trim d)) usage_tokens)
       (List.map_filter (strip_prefix ''data:'') (str_lines t)))) (\<lambda>x. x))"

text \<open>The first blank line of the buffer: what comes up to and with it, and what is left.\<close>

definition blank_line :: bytes where "blank_line = [10, 10]"

definition next_event :: "bytes \<Rightarrow> (bytes \<times> bytes) option" where
  "next_event buf = map_option (\<lambda>(a, b). (a @ blank_line, b)) (split_once blank_line buf)"

lemma next_event_shorter: "next_event buf = Some (e, rest) \<Longrightarrow> length rest < length buf"
  by (auto simp: next_event_def blank_line_def dest!: split_once_Some)

function drain_events :: "'x ext_scheme \<Rightarrow> bytes \<Rightarrow> token_counts option \<Rightarrow> bytes \<times> token_counts option" where
  "drain_events E buf found =
     (case next_event buf of
        None \<Rightarrow> (buf, found)
      | Some (event, rest) \<Rightarrow> drain_events E rest (case sse_tokens E event of None \<Rightarrow> found | Some t \<Rightarrow> Some t))"
  by pat_completeness auto
termination by (relation "measure (\<lambda>(E, buf, found). length buf)") (auto dest: next_event_shorter)

declare drain_events.simps [simp del]

definition observe :: "'x ext_scheme \<Rightarrow> bytes \<Rightarrow> meter \<Rightarrow> meter" where
  "observe E chunk m =
     (if \<not> mt_stream m then
        if mt_overflow m then m
        else if length (mt_buf m) + length chunk > BODY_MAX then m\<lparr> mt_overflow := True, mt_buf := [] \<rparr>
        else m\<lparr> mt_buf := mt_buf m @ chunk \<rparr>
      else
        case drain_events E (mt_buf m @ filter (\<lambda>b. b \<noteq> 13) chunk) (mt_last m) of
          (buf, found) \<Rightarrow> m\<lparr> mt_buf := (if length buf > EVENT_MAX then [] else buf), mt_last := found \<rparr>)"

definition meter_result :: "'x ext_scheme \<Rightarrow> meter \<Rightarrow> token_counts option" where
  "meter_result E m =
     (if mt_stream m then mt_last m
      else if mt_overflow m then None
      else Option.bind (Option.bind (json_events E (mt_buf m)) plain_visit) usage_tokens)"

definition meter_row :: "'x ext_scheme \<Rightarrow> uuid \<Rightarrow> meter \<Rightarrow> usage_row" where
  "meter_row E i m =
     \<lparr> us_id = i, us_key_id = (case mt_caller m of CallerKey k _ \<Rightarrow> Some k | CallerApp _ _ \<Rightarrow> None),
       us_app_id = (case mt_caller m of CallerKey _ _ \<Rightarrow> None | CallerApp _ a \<Rightarrow> Some a), us_org_id = cl_org (mt_caller m),
       us_model = mt_model m, us_prompt = map_option fst (meter_result E m), us_completion = map_option snd (meter_result E m),
       us_started_at = mt_started_at m \<rparr>"

definition insert_usage :: "usage_row \<Rightarrow> inf_db \<Rightarrow> inf_db" where
  "insert_usage r d = (if us_id r \<in> us_id ` set (id_usage d) then d else d\<lparr> id_usage := id_usage d @ [r] \<rparr>)"

text \<open>\<open>coalesce(sum(c), 0)\<close> over a group: nulls count nothing.\<close>

definition sum_counts :: "(usage_row \<Rightarrow> nat option) \<Rightarrow> usage_row list \<Rightarrow> nat" where
  "sum_counts f rs = sum_list (List.map_filter f rs)"

definition of_key :: "uuid \<Rightarrow> inf_db \<Rightarrow> (string \<times> nat \<times> nat \<times> nat) list" where
  "of_key k d =
     (let rows = filter (\<lambda>r. us_key_id r = Some k) (id_usage d) in
      map (\<lambda>m. let g = filter (\<lambda>r. us_model r = m) rows in (m, length g, sum_counts us_prompt g, sum_counts us_completion g))
        (sort (remdups (map us_model rows))))"

definition HOUR :: time where "HOUR = 3600 * 1000000000"

text \<open>The columns the export groups by, with a null after every value as the database orders them.\<close>

definition usage_group :: "usage_row \<Rightarrow> time \<times> uuid \<times> (bool \<times> uuid) \<times> (bool \<times> uuid) \<times> string" where
  "usage_group r =
     (us_started_at r div HOUR * HOUR, us_org_id r, (us_key_id r = None, case us_key_id r of None \<Rightarrow> 0 | Some k \<Rightarrow> k),
      (us_app_id r = None, case us_app_id r of None \<Rightarrow> 0 | Some a \<Rightarrow> a), us_model r)"

definition hourly :: "time \<Rightarrow> time \<Rightarrow> uuid option \<Rightarrow> inf_db \<Rightarrow>
    ((time \<times> uuid \<times> (bool \<times> uuid) \<times> (bool \<times> uuid) \<times> string) \<times> nat \<times> nat \<times> nat) list" where
  "hourly lo hi org d =
     (let rows = filter (\<lambda>r. lo \<le> us_started_at r \<and> us_started_at r < hi \<and> (org = None \<or> Some (us_org_id r) = org)) (id_usage d) in
      map (\<lambda>k. let g = filter (\<lambda>r. usage_group r = k) rows in (k, length g, sum_counts us_prompt g, sum_counts us_completion g))
        (sort (remdups (map usage_group rows))))"

section \<open>The gateway check\<close>

definition VERIFIED_TTL :: time where "VERIFIED_TTL = 60 * 1000000000"

datatype reason = RFetch | RStatus | RShape | RCollateral | RQuote | RPolicy | RBinding

record report =
  rp_signing_address :: string
  rp_intel_quote :: string

definition report_de :: "raw \<Rightarrow> report option" where
  "report_de v =
     Option.bind (raw_fields False [(''signing_address'', False), (''intel_quote'', False)] v) (\<lambda>m.
     Option.bind (raw_field m ''signing_address'' raw_as_str) (\<lambda>a.
     Option.bind (raw_field m ''intel_quote'' raw_as_str) (\<lambda>q. Some \<lparr> rp_signing_address = a, rp_intel_quote = q \<rparr>)))"

text \<open>\<open>report_data\<close> is 64 bytes; of another length it matches nothing.\<close>

definition binding_matches :: "'x ext_scheme \<Rightarrow> bytes \<Rightarrow> bytes \<Rightarrow> bytes \<Rightarrow> bytes \<Rightarrow> bool" where
  "binding_matches E rd signing_address spki n \<longleftrightarrow>
     length rd = 64 \<and> take 32 rd = sha256 E (signing_address @ sha256 E spki) \<and> drop 32 rd = n"

definition check_report :: "'x ext_scheme \<Rightarrow> report \<Rightarrow> bytes \<Rightarrow> bytes \<Rightarrow> collateral \<Rightarrow> attest_policy \<Rightarrow> time \<Rightarrow> (unit, reason) result" where
  "check_report E r spki n coll p now =
     and_then (ok_or (hex_decode (rp_intel_quote r)) RShape) (\<lambda>quote.
     and_then (ok_or (Option.bind (strip_prefix ''0x'' (rp_signing_address r)) (hex_bytes 20)) RShape) (\<lambda>addr.
     and_then (map_err (\<lambda>e. case e of PolicyDenied \<Rightarrow> RPolicy | _ \<Rightarrow> RQuote) (verify_quote E quote coll p now)) (\<lambda>v.
     if binding_matches E (vq_report_data v) addr spki n then Ok () else Err RBinding)))"


section \<open>The front\<close>

record inf_secrets =
  is_provider_key :: "string option"
  is_caller_bearer :: bytes
  is_admin_bearer :: bytes

text \<open>A model server: where it is, the pinned client to it, and the last probe.\<close>

record server =
  sv_url :: string
  sv_client :: pinned_server
  sv_probe :: "(time \<times> bool) option"

record upstream =
  up_url :: string
  up_pccs_url :: string
  up_policy :: attest_policy
  up_slots :: "(string \<times> (time \<times> (pinned_server, reason) result) option) list"

record flight =
  fl_no :: nat
  fl_meter :: "meter option"
  fl_slot :: "uuid option"
  fl_chunks :: "bytes list"

record front =
  fr_config :: inf_config
  fr_secrets :: inf_secrets
  fr_kms_ca :: bytes
  fr_keys_key :: bytes
  fr_upstream :: "upstream option"
  fr_own :: "(string \<times> server) list"
  fr_clients :: "uuid \<times> string \<Rightarrow> (model_server \<times> server) option"
  fr_slots :: "uuid \<Rightarrow> nat option"
  fr_flights :: "flight list"
  fr_next :: nat
  fr_db :: inf_db
  fr_sent :: "dialled list"

text \<open>
  What a call finds: the clocks, a fresh id, randomness, the \<open>Authorization\<close> header, the peer's
  chain, the body, and the collateral the PCCS returns for a quote.
\<close>

record icall =
  ic_now :: time
  ic_db_now :: time
  ic_instant :: time
  ic_uuid :: uuid
  ic_rand :: "bytes option"
  ic_authorization :: "string option"
  ic_peer :: "bytes list"
  ic_body :: bytes
  ic_collateral :: "bytes \<Rightarrow> collateral option"

type_synonym 'a inf_handler = "(front, 'a, inf_error) action"

definition on_front_sent :: "(dialled list, 'a, 'e) action \<Rightarrow> (front, 'a, 'e) action" where
  "on_front_sent = act_on fr_sent (\<lambda>l. fr_sent_update (\<lambda>_. l))"

definition on_inf_db :: "(inf_db \<Rightarrow> 'a \<times> inf_db) \<Rightarrow> 'a inf_handler" where
  "on_inf_db f s = (case f (fr_db s) of (a, d) \<Rightarrow> (Ok a, s\<lparr> fr_db := d \<rparr>))"

definition server_new :: "'x tls_ext_scheme \<Rightarrow> string \<Rightarrow> pin \<Rightarrow> (server, inf_error) result" where
  "server_new E u p = and_then (map_err (\<lambda>_. IInternal) (pinned_server_new E (Some p))) (\<lambda>ps. Ok \<lparr> sv_url = u, sv_client = ps, sv_probe = None \<rparr>)"

definition own_servers :: "'x tls_ext_scheme \<Rightarrow> bytes \<Rightarrow> (string \<times> model_server) list \<Rightarrow> ((string \<times> server) list, inf_error) result" where
  "own_servers E ca ms =
     collect_results (\<lambda>(m, s). and_then (server_new E (ms_url s) (PinCaAndInstanceRevisions ca (ms_revisions s) None)) (\<lambda>v. Ok (m, v))) ms"

definition upstream_build :: "inf_config \<Rightarrow> upstream option" where
  "upstream_build cf =
     map_option (\<lambda>x. \<lparr> up_url = ex_upstream_url x, up_pccs_url = ex_pccs_url x, up_policy = ex_upstream_policy x,
       up_slots = map (\<lambda>m. (m, None)) (external_models cf) \<rparr>) (if_external cf)"

definition front_start :: "'x tls_ext_scheme \<Rightarrow> inf_config \<Rightarrow> inf_secrets \<Rightarrow> bytes \<Rightarrow> bytes \<Rightarrow> inf_db \<Rightarrow> (front, inf_error) result" where
  "front_start E cf secrets ca keys_key d =
     and_then (own_servers E ca (if_own cf)) (\<lambda>own.
     Ok \<lparr> fr_config = cf, fr_secrets = secrets, fr_kms_ca = ca, fr_keys_key = keys_key, fr_upstream = upstream_build cf, fr_own = own,
       fr_clients = Map.empty, fr_slots = Map.empty, fr_flights = [], fr_next = 0, fr_db = d, fr_sent = [] \<rparr>)"

subsection \<open>Who calls\<close>

definition inf_bearer :: "'x net_ext_scheme \<Rightarrow> icall \<Rightarrow> (string, inf_error) result" where
  "inf_bearer E c = ok_or (Option.bind (Option.bind (ic_authorization c) (header_to_str E)) (strip_prefix ''Bearer '')) IUnauthorized"

definition app_instance :: "'x ext_scheme \<Rightarrow> bytes list \<Rightarrow> (caller, inf_error) result" where
  "app_instance E peer =
     (case peer of
        [] \<Rightarrow> Err IUnauthorized
      | leaf # _ \<Rightarrow>
          and_then (map_err (\<lambda>_. IUnauthorized) (and_then (uri_sans E leaf) (parse_instance_sans E))) (\<lambda>i.
          Ok (CallerApp (is_org_id i) (is_app_id i))))"

definition inf_authed_caller :: "'x net_ext_scheme \<Rightarrow> icall \<Rightarrow> front \<Rightarrow> (caller option, inf_error) result" where
  "inf_authed_caller E c s =
     (case inf_bearer E c of
        Err _ \<Rightarrow> refuse_if (ic_authorization c \<noteq> None) IUnauthorized (and_then (app_instance E (ic_peer c)) (\<lambda>a. Ok (Some a)))
      | Ok presented \<Rightarrow>
          if bearer_matches E (as_bytes presented) (is_caller_bearer (fr_secrets s)) then Ok None
          else and_then (ok_or (authenticate E (fr_keys_key s) presented (fr_db s)) IUnauthorized) (\<lambda>(i, org). Ok (Some (CallerKey i org))))"

definition inf_admin :: "'x net_ext_scheme \<Rightarrow> icall \<Rightarrow> front \<Rightarrow> (unit, inf_error) result" where
  "inf_admin E c s =
     and_then (inf_bearer E c) (\<lambda>presented.
     if bearer_matches E (as_bytes presented) (is_admin_bearer (fr_secrets s)) then Ok () else Err IUnauthorized)"

definition with_admin :: "'x net_ext_scheme \<Rightarrow> icall \<Rightarrow> 'a inf_handler \<Rightarrow> 'a inf_handler" where
  "with_admin E c h = act_bind (\<lambda>s. (inf_admin E c s, s)) (\<lambda>_. h)"

subsection \<open>The admin routes\<close>

definition create_key_de :: "raw \<Rightarrow> string option" where
  "create_key_de v = Option.bind (raw_fields True [(''name'', False)] v) (\<lambda>m. raw_field m ''name'' raw_as_str)"

definition inf_body :: "'x ext_scheme \<Rightarrow> icall \<Rightarrow> (raw \<Rightarrow> 'a option) \<Rightarrow> ('a, inf_error) result" where
  "inf_body E c dec = ok_or (Option.bind (json_events E (ic_body c)) dec) IRejected"

definition create_key :: "'x net_ext_scheme \<Rightarrow> icall \<Rightarrow> uuid \<Rightarrow> string inf_handler" where
  "create_key E c org =
     with_admin E c
     (act_bind (act_lift (inf_body E c create_key_de)) (\<lambda>name.
      act_bind (act_read fr_keys_key) (\<lambda>k.
      act_bind (on_inf_db (create_key_row E k (ic_db_now c) (ic_uuid c) (ic_rand c) org name)) act_lift)))"

definition list_keys :: "'x net_ext_scheme \<Rightarrow> icall \<Rightarrow> uuid \<Rightarrow> api_key list inf_handler" where
  "list_keys E c org = with_admin E c (act_read (\<lambda>s. list_key_rows org (fr_db s)))"

definition inf_revoke_key :: "'x net_ext_scheme \<Rightarrow> icall \<Rightarrow> uuid \<Rightarrow> unit inf_handler" where
  "inf_revoke_key E c i =
     with_admin E c (act_bind (on_inf_db (revoke_key_row (ic_db_now c) i)) (\<lambda>found. act_refuse (\<not> found) INotFound (act_ok ())))"

definition put_model :: "'x tls_ext_scheme \<Rightarrow> icall \<Rightarrow> uuid \<Rightarrow> string \<Rightarrow> unit inf_handler" where
  "put_model E c org model =
     with_admin E c
     (act_bind (act_lift (inf_body E c model_server_de)) (\<lambda>sv.
      act_bind (act_read fr_config) (\<lambda>cf.
      act_refuse (allows cf model) IBadRequest
      (act_bind (act_read fr_keys_key) (\<lambda>k.
       act_bind (on_inf_db (put_model_row E k org model sv)) act_lift)))))"

definition delete_model :: "'x net_ext_scheme \<Rightarrow> icall \<Rightarrow> uuid \<Rightarrow> string \<Rightarrow> unit inf_handler" where
  "delete_model E c org model =
     with_admin E c (act_bind (on_inf_db (delete_model_row org model)) (\<lambda>found. act_refuse (\<not> found) INotFound (act_ok ())))"

definition usage_export :: "'x net_ext_scheme \<Rightarrow> icall \<Rightarrow> time \<Rightarrow> time \<Rightarrow> uuid option \<Rightarrow>
    ((time \<times> uuid \<times> (bool \<times> uuid) \<times> (bool \<times> uuid) \<times> string) \<times> nat \<times> nat \<times> nat) list inf_handler" where
  "usage_export E c lo hi org = with_admin E c (act_read (\<lambda>s. hourly lo hi org (fr_db s)))"

subsection \<open>Which server a model has\<close>

datatype which_server = OwnServer string | OrgServer uuid string

definition clients_new :: "'x tls_ext_scheme \<Rightarrow> uuid \<Rightarrow> string \<Rightarrow> model_server \<Rightarrow> unit inf_handler" where
  "clients_new E org model ms s =
     (case server_new E (ms_url ms) (PinCaAndInstanceRevisions (fr_kms_ca s) (ms_revisions ms) (Some org)) of
        Err e \<Rightarrow> (Err e, s)
      | Ok n \<Rightarrow> (Ok (), s\<lparr> fr_clients := (fr_clients s)((org, model) \<mapsto> (ms, n)) \<rparr>))"

definition clients_get :: "'x tls_ext_scheme \<Rightarrow> uuid \<Rightarrow> string \<Rightarrow> model_server \<Rightarrow> unit inf_handler" where
  "clients_get E org model ms s =
     (case fr_clients s (org, model) of
        Some (pinned, _) \<Rightarrow> if pinned = ms then (Ok (), s) else clients_new E org model ms s
      | None \<Rightarrow> clients_new E org model ms s)"

definition the_server :: "which_server \<Rightarrow> front \<Rightarrow> server option" where
  "the_server w s =
     (case w of OwnServer m \<Rightarrow> map_of (fr_own s) m | OrgServer org m \<Rightarrow> map_option snd (fr_clients s (org, m)))"

definition set_probe :: "which_server \<Rightarrow> time \<times> bool \<Rightarrow> front \<Rightarrow> front" where
  "set_probe w p s =
     (case w of
        OwnServer m \<Rightarrow> s\<lparr> fr_own := map (\<lambda>(n, v). (n, if n = m then v\<lparr> sv_probe := Some p \<rparr> else v)) (fr_own s) \<rparr>
      | OrgServer org m \<Rightarrow> s\<lparr> fr_clients := (fr_clients s)((org, m) := map_option (\<lambda>(ms, v). (ms, v\<lparr> sv_probe := Some p \<rparr>)) (fr_clients s (org, m))) \<rparr>)"

definition model_server_of :: "'x tls_ext_scheme \<Rightarrow> caller option \<Rightarrow> string \<Rightarrow> which_server option inf_handler" where
  "model_server_of E c model s =
     (case c of
        Some (CallerApp _ _) \<Rightarrow>
          (case map_of (fr_own s) model of None \<Rightarrow> (Err (IModelNotFound model), s) | Some _ \<Rightarrow> (Ok (Some (OwnServer model)), s))
      | _ \<Rightarrow>
          if allows (fr_config s) model
          then (Ok (case map_of (fr_own s) model of None \<Rightarrow> None | Some _ \<Rightarrow> Some (OwnServer model)), s)
          else
            (case c of
               Some (CallerKey _ org) \<Rightarrow>
                 (case find_model E (fr_keys_key s) org model (fr_db s) of
                    None \<Rightarrow> (Err (IModelNotFound model), s)
                  | Some ms \<Rightarrow> act_bind (clients_get E org model ms) (\<lambda>_. act_ok (Some (OrgServer org model))) s)
             | _ \<Rightarrow> (Err (IModelNotFound model), s)))"

subsection \<open>Probing and completing at a model server\<close>

definition PROBE_TTL :: time where "PROBE_TTL = 10 * 1000000000"

definition served_revision :: "'x ext_scheme \<Rightarrow> bytes \<Rightarrow> (compose_hash, unit) result" where
  "served_revision E leaf = map_err (\<lambda>_. ()) (and_then (uri_sans E leaf) (\<lambda>sans. and_then (parse_instance_sans E sans) (\<lambda>i. Ok (is_compose_hash i))))"

definition lists_model :: "'x ext_scheme \<Rightarrow> string \<Rightarrow> answer \<Rightarrow> bool" where
  "lists_model E model a \<longleftrightarrow>
     \<not> (400 \<le> aw_status a \<and> aw_status a < 600) \<and>
     (case Option.bind (Option.bind (Option.bind (answer_json E a) plain_visit) (\<lambda>v. json_get v ''data'')) json_as_array of
        None \<Rightarrow> False
      | Some items \<Rightarrow> list_ex (\<lambda>m. Option.bind (json_get m ''id'') json_as_str = Some model) items)"

definition probe_server :: "'x tls_ext_scheme \<Rightarrow> icall \<Rightarrow> which_server \<Rightarrow> string \<Rightarrow> server \<Rightarrow> front \<Rightarrow> bool \<times> front" where
  "probe_server E c w model sv s =
     (case on_front_sent (pinned_send E (sv_client sv) (kms_request ''GET'' (sv_url sv @ ''/v1/models'') None)) s of
        (r, t) \<Rightarrow> (let up = (case r of Err _ \<Rightarrow> False | Ok (leaf, a) \<Rightarrow> is_ok (served_revision E leaf) \<and> lists_model E model a) in
                   (up, set_probe w (ic_instant c, up) t)))"

definition server_live :: "'x tls_ext_scheme \<Rightarrow> icall \<Rightarrow> which_server \<Rightarrow> string \<Rightarrow> front \<Rightarrow> bool \<times> front" where
  "server_live E c w model s =
     (case the_server w s of
        None \<Rightarrow> (False, s)
      | Some sv \<Rightarrow>
          (case sv_probe sv of
             Some (at, up) \<Rightarrow> if elapsed (ic_instant c) at < PROBE_TTL then (up, s) else probe_server E c w model sv s
           | None \<Rightarrow> probe_server E c w model sv s))"

definition completion_post :: "string \<Rightarrow> string option \<Rightarrow> bytes \<Rightarrow> outgoing" where
  "completion_post u key body =
     \<lparr> og_method = ''POST'', og_to = Fixed u, og_bearer = key, og_basic = None, og_headers = [], og_payload = RawBody ''application/json'' body \<rparr>"

definition complete :: "'x tls_ext_scheme \<Rightarrow> which_server \<Rightarrow> bytes \<Rightarrow> answer inf_handler" where
  "complete E w body s =
     (case the_server w s of
        None \<Rightarrow> (Err IInternal, s)
      | Some sv \<Rightarrow>
          act_bind (on_front_sent (act_map_err (\<lambda>_. IUpstream) (pinned_send E (sv_client sv)
            (completion_post (sv_url sv @ ''/v1/chat/completions'') None body)))) (\<lambda>(leaf, a).
          act_bind (act_lift (map_err (\<lambda>_. IUpstream) (served_revision E leaf))) (\<lambda>_. act_ok a)) s)"


subsection \<open>The external gateway\<close>

definition unpinned :: pinned_server where
  "unpinned = \<lparr> ps_pin = None, ps_anchor = None \<rparr>"

definition report_request :: "string \<Rightarrow> string \<Rightarrow> bytes \<Rightarrow> outgoing" where
  "report_request u model n =
     \<lparr> og_method = ''GET'', og_to = Fixed (u @ ''/attestation/report''), og_bearer = None, og_basic = None, og_headers = [],
       og_payload = Form [(''model'', model), (''nonce'', hex_encode n), (''signing_algo'', ''ecdsa''), (''version'', ''2'')] \<rparr>"

text \<open>The query of the report's address is kept in \<open>og_payload\<close>; the order of the refusals is the code's.\<close>

definition read_report :: "'x tls_ext_scheme \<Rightarrow> icall \<Rightarrow> upstream \<Rightarrow> bytes \<Rightarrow> bytes \<Rightarrow> answer \<Rightarrow> (pinned_server, reason) result" where
  "read_report E c up n leaf a =
     and_then (ok_or (answer_bytes a) RFetch) (\<lambda>b.
     refuse_if (\<not> is_success a) RStatus
     (and_then (ok_or (Option.bind (json_events E b) report_de) RShape) (\<lambda>r.
      and_then (ok_or (hex_decode (rp_intel_quote r)) RShape) (\<lambda>quote.
      and_then (map_err (\<lambda>_. RShape) (spki_of E leaf)) (\<lambda>spki.
      and_then (ok_or (ic_collateral c quote) RCollateral) (\<lambda>coll.
      and_then (check_report E r spki n coll (up_policy up) (ic_now c)) (\<lambda>_.
      map_err (\<lambda>_. RBinding) (pinned_server_new E (Some (PinSpki spki))))))))))"

definition gateway_check :: "'x tls_ext_scheme \<Rightarrow> icall \<Rightarrow> upstream \<Rightarrow> string \<Rightarrow> (dialled list, pinned_server, reason) action" where
  "gateway_check E c up model =
     act_bind (act_lift (ok_or (ic_rand c) RFetch)) (\<lambda>n.
     act_bind (act_map_err (\<lambda>_. RFetch) (pinned_send E unpinned (report_request (up_url up) model n))) (\<lambda>(leaf, a).
     act_lift (read_report E c up n leaf a)))"

text \<open>\<open>now.duration_since(at)\<close> fails when the clock went back, and then the check runs again.\<close>

definition set_slot :: "string \<Rightarrow> (time \<times> (pinned_server, reason) result) option \<Rightarrow> front \<Rightarrow> front" where
  "set_slot model v s =
     s\<lparr> fr_upstream := map_option (\<lambda>up. up\<lparr> up_slots := map (\<lambda>(m, x). (m, if m = model then v else x)) (up_slots up) \<rparr>) (fr_upstream s) \<rparr>"

definition run_check :: "'x tls_ext_scheme \<Rightarrow> icall \<Rightarrow> upstream \<Rightarrow> string \<Rightarrow> pinned_server inf_handler" where
  "run_check E c up model s =
     (case on_front_sent (gateway_check E c up model) s of
        (r, t) \<Rightarrow> (map_err (\<lambda>_. IUpstreamUnverified) r, set_slot model (Some (ic_now c, r)) t))"

definition upstream_verified :: "'x tls_ext_scheme \<Rightarrow> icall \<Rightarrow> upstream \<Rightarrow> string \<Rightarrow> pinned_server inf_handler" where
  "upstream_verified E c up model s =
     (case map_of (up_slots up) model of
        None \<Rightarrow> (Err IInternal, s)
      | Some (Some (at, res)) \<Rightarrow>
          if at \<le> ic_now c \<and> ic_now c - at < VERIFIED_TTL then (map_err (\<lambda>_. IUpstreamUnverified) res, s)
          else run_check E c up model s
      | Some None \<Rightarrow> run_check E c up model s)"

definition verified_external :: "'x tls_ext_scheme \<Rightarrow> icall \<Rightarrow> string \<Rightarrow> (string \<times> pinned_server) inf_handler" where
  "verified_external E c model =
     act_bind (act_read fr_upstream) (\<lambda>up.
     case up of
       None \<Rightarrow> act_fail IInternal
     | Some u \<Rightarrow> act_bind (upstream_verified E c u model) (\<lambda>ps. act_ok (up_url u, ps)))"

definition list_upstream_models :: "'x tls_ext_scheme \<Rightarrow> upstream \<Rightarrow> front \<Rightarrow> json \<times> front" where
  "list_upstream_models E up s =
     (case on_front_sent (pinned_send E unpinned (kms_request ''GET'' (up_url up @ ''/models'') None)) s of
        (Err _, t) \<Rightarrow> (JNull, t)
      | (Ok (_, a), t) \<Rightarrow>
          (if 400 \<le> aw_status a \<and> aw_status a < 600 then JNull
           else (case Option.bind (answer_json E a) plain_visit of None \<Rightarrow> JNull | Some v \<Rightarrow> v), t))"

subsection \<open>The caller's routes\<close>

definition model_entry :: "string \<Rightarrow> string option \<Rightarrow> json" where
  "model_entry m owned_by =
     jobj ([(''id'', JString m), (''object'', JString ''model'')] @ (case owned_by of None \<Rightarrow> [] | Some x \<Rightarrow> [(''owned_by'', JString x)]))"

definition external_entries :: "inf_config \<Rightarrow> json \<Rightarrow> json list" where
  "external_entries cf listed =
     (let entries = (case Option.bind (json_get listed ''data'') json_as_array of None \<Rightarrow> [] | Some xs \<Rightarrow> xs);
          ok = filter (\<lambda>m. case Option.bind (json_get m ''id'') json_as_str of None \<Rightarrow> False | Some i \<Rightarrow> i \<in> set (external_models cf)) entries in
      if ok = [] then map (\<lambda>i. model_entry i None) (external_models cf) else ok)"

definition list_models :: "'x tls_ext_scheme \<Rightarrow> icall \<Rightarrow> json inf_handler" where
  "list_models E c s =
     (case inf_authed_caller E c s of
        Err e \<Rightarrow> (Err e, s)
      | Ok who \<Rightarrow>
          let org_models = (case who of Some (CallerKey _ org) \<Rightarrow> model_names E (fr_keys_key s) org (fr_db s) | _ \<Rightarrow> []);
              ours = map (\<lambda>m. model_entry m (Some ''alphacompute'')) (map fst (if_own (fr_config s)) @ org_models);
              reply = (\<lambda>data. jobj [(''object'', JString ''list''), (''data'', JArray data)]) in
          (case (fr_upstream s, who) of
             (None, _) \<Rightarrow> (Ok (reply ours), s)
           | (Some _, Some (CallerApp _ _)) \<Rightarrow> (Ok (reply ours), s)
           | (Some up, _) \<Rightarrow> (case list_upstream_models E up s of (listed, t) \<Rightarrow> (Ok (reply (ours @ external_entries (fr_config s) listed)), t))))"

definition get_model :: "'x tls_ext_scheme \<Rightarrow> icall \<Rightarrow> string \<Rightarrow> json inf_handler" where
  "get_model E c model =
     act_bind (\<lambda>s. (inf_authed_caller E c s, s)) (\<lambda>who.
     act_bind (model_server_of E who model) (\<lambda>w.
     case w of
       Some sv \<Rightarrow> act_bind (\<lambda>s. case server_live E c sv model s of (up, t) \<Rightarrow> (Ok up, t)) (\<lambda>up.
         act_refuse (\<not> up) IUpstream (act_ok (model_entry model (Some ''alphacompute''))))
     | None \<Rightarrow> act_bind (verified_external E c model) (\<lambda>_. act_ok (model_entry model (Some ''redpill'')))))"

text \<open>The organization's slot: a semaphore made with all its permits when the organization first needs one.\<close>

definition permits :: "front \<Rightarrow> uuid \<Rightarrow> nat" where
  "permits s org = (case fr_slots s org of None \<Rightarrow> if_app_concurrency_per_org (fr_config s) | Some n \<Rightarrow> n)"

definition app_slot :: "uuid \<Rightarrow> unit inf_handler" where
  "app_slot org s =
     (if permits s org = 0 then (Err IBusy, s\<lparr> fr_slots := (fr_slots s)(org \<mapsto> 0) \<rparr>)
      else (Ok (), s\<lparr> fr_slots := (fr_slots s)(org \<mapsto> permits s org - 1) \<rparr>))"

definition release_slot :: "uuid option \<Rightarrow> front \<Rightarrow> front" where
  "release_slot slot s =
     (case slot of None \<Rightarrow> s | Some org \<Rightarrow> s\<lparr> fr_slots := (fr_slots s)(org \<mapsto> permits s org + 1) \<rparr>)"

definition take_slot :: "caller option \<Rightarrow> uuid option inf_handler" where
  "take_slot who =
     (case who of Some (CallerApp org _) \<Rightarrow> act_bind (app_slot org) (\<lambda>_. act_ok (Some org)) | _ \<Rightarrow> act_ok None)"

text \<open>Whatever fails while the permit is held gives it back.\<close>

definition holding :: "uuid option \<Rightarrow> 'a inf_handler \<Rightarrow> 'a inf_handler" where
  "holding slot h s = (case h s of (Ok a, t) \<Rightarrow> (Ok a, t) | (Err e, t) \<Rightarrow> (Err e, release_slot slot t))"

definition is_streamed :: "caller option \<Rightarrow> json \<Rightarrow> (bool, inf_error) result" where
  "is_streamed who parsed =
     (case json_get parsed ''stream'' of
        None \<Rightarrow> Ok False
      | Some JNull \<Rightarrow> Ok False
      | Some (JBool b) \<Rightarrow> Ok b
      | Some _ \<Rightarrow> if who \<noteq> None then Err IBadRequest else Ok False)"

definition include_usage :: "json \<Rightarrow> json" where
  "include_usage parsed =
     (case parsed of
        JObject m \<Rightarrow>
          JObject (map_insert ''stream_options''
            (case map_of m ''stream_options'' of
               Some (JObject o') \<Rightarrow> JObject (map_insert ''include_usage'' (JBool True) o')
             | None \<Rightarrow> JObject (map_insert ''include_usage'' (JBool True) [])
             | _ \<Rightarrow> jobj [(''include_usage'', JBool True)]) m)
      | _ \<Rightarrow> parsed)"

definition parsed_body :: "'x ext_scheme \<Rightarrow> bytes \<Rightarrow> json" where
  "parsed_body E body = (case Option.bind (json_events E body) plain_visit of None \<Rightarrow> JNull | Some v \<Rightarrow> v)"

definition body_model :: "json \<Rightarrow> string" where
  "body_model parsed = (case Option.bind (json_get parsed ''model'') json_as_str of None \<Rightarrow> [] | Some m \<Rightarrow> m)"

definition forwarded_body :: "'x ext_scheme \<Rightarrow> caller option \<Rightarrow> bool \<Rightarrow> json \<Rightarrow> bytes \<Rightarrow> bytes" where
  "forwarded_body E who streamed parsed body =
     (if who \<noteq> None \<and> streamed then as_bytes (json_to_string E (include_usage parsed)) else body)"

definition complete_external :: "'x tls_ext_scheme \<Rightarrow> icall \<Rightarrow> string \<Rightarrow> bytes \<Rightarrow> answer inf_handler" where
  "complete_external E c model body =
     act_bind (verified_external E c model) (\<lambda>(u, ps).
     act_bind (act_read (\<lambda>s. is_provider_key (fr_secrets s))) (\<lambda>key.
     case key of
       None \<Rightarrow> act_fail IInternal
     | Some k \<Rightarrow> (\<lambda>s. case on_front_sent (pinned_send E ps (completion_post (u @ ''/chat/completions'') (Some k) body)) s of
         (Ok (_, a), t) \<Rightarrow> (Ok a, t)
       | (Err _, t) \<Rightarrow> (Err IUpstream, set_slot model None t))))"

definition launch :: "caller option \<Rightarrow> uuid option \<Rightarrow> string \<Rightarrow> bool \<Rightarrow> time \<Rightarrow> answer \<Rightarrow> front \<Rightarrow> front" where
  "launch who slot model streamed started a s =
     s\<lparr> fr_next := Suc (fr_next s),
        fr_flights := fr_flights s @ [\<lparr> fl_no = fr_next s, fl_meter = map_option (\<lambda>w. meter_new w model streamed started) who,
          fl_slot = slot, fl_chunks = aw_chunks a \<rparr>] \<rparr>"

text \<open>The answer's status and content type go to the caller at once; its body is the new flight. The
  caller is read before the body, which may be as long as the route's limit.\<close>

definition COMPLETIONS_BODY_LIMIT :: nat where "COMPLETIONS_BODY_LIMIT = 16 * 1024 * 1024"

definition chat_completions :: "'x tls_ext_scheme \<Rightarrow> icall \<Rightarrow> (nat \<times> string) inf_handler" where
  "chat_completions E c =
     act_bind (\<lambda>s. (inf_authed_caller E c s, s)) (\<lambda>who.
     act_bind (act_lift (refuse_if (length (ic_body c) > COMPLETIONS_BODY_LIMIT) ITooLarge (Ok ()))) (\<lambda>_.
     let parsed = parsed_body E (ic_body c); model = body_model parsed in
     act_bind (model_server_of E who model) (\<lambda>w.
     act_bind (take_slot who) (\<lambda>slot.
     act_bind (holding slot
       (act_bind (act_lift (is_streamed who parsed)) (\<lambda>streamed.
        let body = forwarded_body E who streamed parsed (ic_body c) in
        act_bind (case w of Some sv \<Rightarrow> complete E sv body | None \<Rightarrow> complete_external E c model body) (\<lambda>a. act_ok (streamed, a))))) (\<lambda>(streamed, a).
     act_bind (act_modify (launch who slot model streamed (ic_now c) a)) (\<lambda>_.
     act_ok (aw_status a, case aw_content_type a of None \<Rightarrow> ''text/event-stream'' | Some t \<Rightarrow> t)))))))"

definition key_usage :: "'x net_ext_scheme \<Rightarrow> icall \<Rightarrow> (string \<times> nat \<times> nat \<times> nat) list inf_handler" where
  "key_usage E c s =
     (case inf_authed_caller E c s of
        Err e \<Rightarrow> (Err e, s)
      | Ok (Some (CallerKey k _)) \<Rightarrow> (Ok (of_key k (fr_db s)), s)
      | Ok _ \<Rightarrow> (Err INotFound, s))"

definition inf_ready :: "'x tls_ext_scheme \<Rightarrow> icall \<Rightarrow> front \<Rightarrow> bool \<times> front" where
  "inf_ready E c s =
     (let model = default_model (fr_config s) in
      case map_of (fr_own s) model of
        Some _ \<Rightarrow> server_live E c (OwnServer model) model s
      | None \<Rightarrow> (case verified_external E c model s of (r, t) \<Rightarrow> (is_ok r, t)))"

subsection \<open>Relaying\<close>

definition relay_step :: "'x ext_scheme \<Rightarrow> flight \<Rightarrow> flight" where
  "relay_step E f =
     (case fl_chunks f of
        [] \<Rightarrow> f
      | b # bs \<Rightarrow> f\<lparr> fl_chunks := bs, fl_meter := map_option (observe E b) (fl_meter f) \<rparr>)"

definition relay_flight :: "'x ext_scheme \<Rightarrow> nat \<Rightarrow> front \<Rightarrow> front" where
  "relay_flight E n s = s\<lparr> fr_flights := map (\<lambda>f. if fl_no f = n then relay_step E f else f) (fr_flights s) \<rparr>"

text \<open>The body is dropped, finished or cut: the permit returns and the row is written, unless three inserts fail.\<close>

definition drop_flight :: "'x ext_scheme \<Rightarrow> nat \<Rightarrow> uuid \<Rightarrow> bool \<Rightarrow> front \<Rightarrow> front" where
  "drop_flight E n row_id inserted s =
     (case find (\<lambda>f. fl_no f = n) (fr_flights s) of
        None \<Rightarrow> s
      | Some f \<Rightarrow>
          let t = release_slot (fl_slot f) (s\<lparr> fr_flights := filter (\<lambda>g. fl_no g \<noteq> n) (fr_flights s) \<rparr>) in
          (case fl_meter f of
             Some m \<Rightarrow> if inserted then t\<lparr> fr_db := insert_usage (meter_row E row_id m) (fr_db t) \<rparr> else t
           | None \<Rightarrow> t))"

subsection \<open>A step of the front\<close>

datatype inf_event =
    CreateKey icall uuid | ListKeys icall uuid | RevokeKey icall uuid | PutModel icall uuid string | DeleteModel icall uuid string
  | UsageExport icall time time "uuid option" | ListModels icall | GetModel icall string | ChatCompletions icall | KeyUsage icall | Ready icall
  | RelayChunk nat | DropBody nat uuid bool | RenewSecrets inf_secrets

definition front_step :: "'x tls_ext_scheme \<Rightarrow> inf_event \<Rightarrow> front \<Rightarrow> front" where
  "front_step E ev s =
     (case ev of
        CreateKey c org \<Rightarrow> snd (create_key E c org s)
      | ListKeys c org \<Rightarrow> snd (list_keys E c org s)
      | RevokeKey c i \<Rightarrow> snd (inf_revoke_key E c i s)
      | PutModel c org m \<Rightarrow> snd (put_model E c org m s)
      | DeleteModel c org m \<Rightarrow> snd (delete_model E c org m s)
      | UsageExport c lo hi org \<Rightarrow> snd (usage_export E c lo hi org s)
      | ListModels c \<Rightarrow> snd (list_models E c s)
      | GetModel c m \<Rightarrow> snd (get_model E c m s)
      | ChatCompletions c \<Rightarrow> snd (chat_completions E c s)
      | KeyUsage c \<Rightarrow> snd (key_usage E c s)
      | Ready c \<Rightarrow> snd (inf_ready E c s)
      | RelayChunk n \<Rightarrow> relay_flight E n s
      | DropBody n i ok \<Rightarrow> drop_flight E n i ok s
      | RenewSecrets x \<Rightarrow> s\<lparr> fr_secrets := x \<rparr>)"

end
