(* ===== verification/Inference_Spec.thy ===== *)
theory Inference_Spec
  imports Inference
begin

text \<open>
  What the inference front promises: the meter reads the same counts however the answer is cut into
  chunks; an organization's Apps never hold more slots than the cap; a completion leaves only for a
  server that proved what the caller's model pins; an API key admits its organization until it is
  revoked and never after.
\<close>

section \<open>The meter\<close>

lemma split_once_append:
  assumes "split_once p x = Some (a, b)"
  shows "split_once p (x @ y) = Some (a, b @ y)"
  using assms
proof (induction p x arbitrary: a rule: split_once.induct)
  case (1 p)
  then show ?case by (cases y) (auto split: if_splits)
next
  case (2 p c cs)
  from split_once_Some [OF 2(2)] have "length p \<le> length (c # cs)" by simp
  then have "take (length p) (c # cs @ y) = take (length p) (c # cs)" "drop (length p) (c # cs @ y) = drop (length p) (c # cs) @ y"
    using take_append [of "length p" "c # cs" y] drop_append [of "length p" "c # cs" y] by auto
  with 2 show ?case by (auto split: if_splits)
qed

lemma next_event_append: "next_event x = Some (e, r) \<Longrightarrow> next_event (x @ y) = Some (e, r @ y)"
  by (auto simp: next_event_def dest: split_once_append)

lemma drain_events_append:
  "drain_events E (x @ y) f = (case drain_events E x f of (b, g) \<Rightarrow> drain_events E (b @ y) g)"
proof (induction E x f rule: drain_events.induct)
  case (1 E x f)
  show ?case
  proof (cases "next_event x")
    case None
    then show ?thesis by (subst (2) drain_events.simps) simp
  next
    case (Some er)
    then obtain e r where er: "next_event x = Some (e, r)" by (cases er) auto
    from next_event_append [OF er] have "drain_events E (x @ y) f = drain_events E (r @ y) (case sse_tokens E e of None \<Rightarrow> f | Some t \<Rightarrow> Some t)"
      by (subst drain_events.simps) simp
    moreover have "drain_events E x f = drain_events E r (case sse_tokens E e of None \<Rightarrow> f | Some t \<Rightarrow> Some t)"
      using er by (subst drain_events.simps) simp
    ultimately show ?thesis using 1 [OF er refl] by simp
  qed
qed

text \<open>The bytes the meter frames: every chunk without its carriage returns.\<close>

definition framed :: "bytes list \<Rightarrow> bytes" where
  "framed chunks = filter (\<lambda>b. b \<noteq> 13) (concat chunks)"

text \<open>
  At every cut between chunks, the bytes that wait for their blank line fit the event buffer.
\<close>

fun events_fit :: "'x ext_scheme \<Rightarrow> bytes \<Rightarrow> bytes list \<Rightarrow> bool" where
  "events_fit E seen [] \<longleftrightarrow> True"
| "events_fit E seen (c # cs) \<longleftrightarrow> length (fst (drain_events E (seen @ framed [c]) None)) \<le> EVENT_MAX \<and> events_fit E (seen @ framed [c]) cs"

lemma stream_observed:
  assumes "mt_stream m" and "drain_events E seen None = (mt_buf m, mt_last m)" and "events_fit E seen chunks"
  shows "mt_last (fold (observe E) chunks m) = snd (drain_events E (seen @ framed chunks) None)"
  using assms
proof (induction chunks arbitrary: seen m)
  case Nil
  then show ?case by (simp add: framed_def)
next
  case (Cons c cs)
  obtain b g where bg: "drain_events E (mt_buf m @ filter (\<lambda>b. b \<noteq> 13) c) (mt_last m) = (b, g)" by fastforce
  have d: "drain_events E (seen @ framed [c]) None = (b, g)"
    unfolding drain_events_append [of E seen] Cons.prems(2) framed_def using bg by simp
  from Cons.prems(3) have fit: "length b \<le> EVENT_MAX" and rest: "events_fit E (seen @ framed [c]) cs" by (simp_all add: d)
  let ?m = "m\<lparr> mt_buf := b, mt_last := g \<rparr>"
  have o: "observe E c m = ?m" unfolding observe_def bg using Cons.prems(1) fit by simp
  have "mt_last (fold (observe E) cs ?m) = snd (drain_events E ((seen @ framed [c]) @ framed cs) None)"
    by (rule Cons.IH) (use Cons.prems(1) d rest in simp_all)
  then show ?case by (simp add: o framed_def)
qed

lemma overflow_stays: "mt_overflow m \<Longrightarrow> \<not> mt_stream m \<Longrightarrow> fold (observe E) chunks m = m"
  by (induction chunks) (simp_all add: observe_def)

lemma whole_observed:
  assumes "\<not> mt_stream m" "\<not> mt_overflow m"
  shows "meter_result E (fold (observe E) chunks m) =
    (if length (mt_buf m) + length (concat chunks) \<le> BODY_MAX \<or> chunks = []
     then Option.bind (Option.bind (json_events E (mt_buf m @ concat chunks)) plain_visit) usage_tokens else None)"
  using assms
proof (induction chunks arbitrary: m)
  case (Cons c cs)
  show ?case
  proof (cases "length (mt_buf m) + length c > BODY_MAX")
    case True
    with Cons.prems have "observe E c m = m\<lparr> mt_overflow := True, mt_buf := [] \<rparr>" by (simp add: observe_def)
    with True Cons.prems show ?thesis by (simp add: overflow_stays meter_result_def)
  next
    case False
    with Cons.prems have "observe E c m = m\<lparr> mt_buf := mt_buf m @ c \<rparr>" by (simp add: observe_def)
    with False Cons show ?thesis by (cases cs) (simp_all add: add.assoc)
  qed
qed (simp add: meter_result_def)

text \<open>
  What the meter should read: of a whole answer its \<open>usage\<close>, of a stream the \<open>usage\<close> of the last event
  that has one.
\<close>

definition metered :: "'x ext_scheme \<Rightarrow> bool \<Rightarrow> bytes \<Rightarrow> token_counts option" where
  "metered E stream text =
     (if stream then snd (drain_events E (filter (\<lambda>b. b \<noteq> 13) text) None)
      else if length text \<le> BODY_MAX then Option.bind (Option.bind (json_events E text) plain_visit) usage_tokens else None)"

text \<open>
  C31. The counts do not depend on how the answer arrives: whatever chunks it is cut into, the meter ends
  with the counts of the answer as a whole, for a stream as long as no event outgrows the event buffer.
\<close>

theorem meter_ignores_chunking:
  assumes "stream \<longrightarrow> events_fit E [] chunks"
  shows "meter_result E (fold (observe E) chunks (meter_new who model stream at)) = metered E stream (concat chunks)"
proof (cases stream)
  case True
  have "drain_events E [] None = ([], None)" by (subst drain_events.simps) (simp add: next_event_def blank_line_def)
  with True assms have l: "mt_last (fold (observe E) chunks (meter_new who model True at)) = snd (drain_events E (framed chunks) None)"
    using stream_observed [of "meter_new who model True at" E "[]" chunks] by (simp add: meter_new_def)
  have "mt_stream (fold (observe E) chunks m) = mt_stream m" for m
    by (induction chunks arbitrary: m) (auto simp: observe_def split: prod.splits)
  then have "mt_stream (fold (observe E) chunks (meter_new who model True at))" by (simp add: meter_new_def)
  with l True show ?thesis by (simp add: meter_result_def metered_def framed_def)
next
  case False
  then show ?thesis using whole_observed [of "meter_new who model False at" E chunks]
    by (auto simp: meter_new_def metered_def)
qed


definition demo_meter :: ext where
  "demo_meter = demo\<lparr> json_from_str := \<lambda>_. Some (jobj [(''usage'', jobj [(''completion_tokens'', JNumber (PosInt 4)), (''prompt_tokens'', JNumber (PosInt 3))])]) \<rparr>"

definition demo_chunks :: "bytes list" where
  "demo_chunks = [as_bytes ''data:'', as_bytes ''{}'' @ [13, 10], [13, 10, 58]]"

theorem meter_ignores_chunking_witness:
  "events_fit demo_meter [] demo_chunks
   \<and> meter_result demo_meter (fold (observe demo_meter) demo_chunks (meter_new (CallerKey 1 2) ''m'' True 0)) = Some (3, 4)"
proof
  show f: "events_fit demo_meter [] demo_chunks"
    by (simp add: demo_chunks_def framed_def as_bytes_def code_def drain_events.simps next_event_def blank_line_def EVENT_MAX_def split: option.splits)
  have u: "from_utf8 [100, 97, 116, 97, 58, 123, 125, 10, 10] = Some (''data:{}'' @ [CHR 0x0A, CHR 0x0A])" by code_simp
  have l: "List.map_filter (strip_prefix ''data:'') (str_lines (''data:{}'' @ [CHR 0x0A, CHR 0x0A])) = [''{}'']" by code_simp
  have "sse_tokens demo_meter [100, 97, 116, 97, 58, 123, 125, 10, 10] = Some (3, 4)"
    unfolding sse_tokens_def u bind.bind_lunit l
    by (simp add: demo_meter_def usage_tokens_def usage_count_def jobj_def map_insert_def json_get_def json_index_def)
  then have "metered demo_meter True (concat demo_chunks) = Some (3, 4)"
    by (simp add: metered_def demo_chunks_def as_bytes_def code_def drain_events.simps next_event_def blank_line_def)
  with meter_ignores_chunking [of True demo_meter demo_chunks "CallerKey 1 2" "''m''" 0] f
  show "meter_result demo_meter (fold (observe demo_meter) demo_chunks (meter_new (CallerKey 1 2) ''m'' True 0)) = Some (3, 4)" by simp
qed

section \<open>What the routes keep\<close>

lemma pinned_send_sent:
  "pinned_send E ps q s = (r, t) \<Longrightarrow> t = s \<and> r = Err () \<or> (\<exists>d. t = s @ [d] \<and> dl_request d = q \<and> (\<forall>leaf a. r = Ok (leaf, a) \<longrightarrow> dl_leaf d = leaf \<and> tls_answer E t = Some a))"
  by (auto simp: pinned_send_def Let_def result_simps split: option.splits prod.splits list.splits if_splits)

text \<open>
  A relation between the state a call finds and the state it leaves: when what a call does by itself
  stays within it (sending, probing, a new client, the gateway's check), every caller's route does.
\<close>

locale front_calls =
  fixes E :: "'x tls_ext_scheme" and Q :: "front \<Rightarrow> front \<Rightarrow> bool"
  assumes stays: "Q s s"
    and trans: "Q s t \<Longrightarrow> Q t u \<Longrightarrow> Q s u"
    and sends: "Q s (s\<lparr> fr_sent := fr_sent s @ ds \<rparr>)"
    and probes: "Q s (set_probe w p s)"
    and forgets: "Q s (set_slot model None s)"
    and new_client: "Q s (snd (clients_new E org model ms s))"
    and checks: "fr_upstream s = Some up \<Longrightarrow> Q s (snd (upstream_verified E c up model s))"
begin

lemma order: "order_like Q"
  unfolding order_like_def using stays trans by blast

lemma sent: "on_front_sent (pinned_send E ps q) s = (r, t) \<Longrightarrow> Q s t"
  using sends [of s] stays
  by (auto simp: on_front_sent_def act_on_def split: prod.splits dest!: pinned_send_sent)

lemma sent_keeps: "keeps Q (on_front_sent (act_map_err f (pinned_send E ps q)))"
  using sent unfolding keeps_def on_front_sent_def by (fastforce simp: act_on_def act_map_err_def split: prod.splits)

lemma probe_server: "Q s (snd (probe_server E c w model sv s))"
  by (auto simp: probe_server_def Let_def split: prod.splits dest!: sent intro: trans probes)

lemma server_live: "Q s (snd (server_live E c w model s))"
  using probe_server [of s c w model] stays by (auto simp: server_live_def split: option.splits)

lemma clients_get: "keeps Q (clients_get E org model ms)"
  using new_client stays by (auto simp: keeps_def clients_get_def split: option.splits)

lemma model_server_of: "keeps Q (model_server_of E who model)"
proof -
  have "keeps Q (act_bind (clients_get E org model ms) (\<lambda>_. act_ok (Some (OrgServer org model))))" for org ms
    by (intro act_intros clients_get order)
  then show ?thesis
    using stays by (auto simp: keeps_def model_server_of_def split: option.splits caller.splits)
qed

lemma complete: "keeps Q (complete E w body)"
proof -
  have "keeps Q (act_bind (on_front_sent (act_map_err (\<lambda>_. IUpstream) (pinned_send E ps r))) (\<lambda>(leaf, a).
      act_bind (act_lift (map_err (\<lambda>_. IUpstream) (served_revision E leaf))) (\<lambda>_. act_ok a)))" for ps r
    by (intro act_intros sent_keeps order)
  then show ?thesis using stays by (auto simp: keeps_def complete_def split: option.splits)
qed

lemma verified_external: "keeps Q (verified_external E c model)"
  unfolding keeps_def
proof
  fix s
  show "Q s (snd (verified_external E c model s))"
  proof (cases "fr_upstream s")
    case (Some up)
    obtain q u where q: "upstream_verified E c up model s = (q, u)" by fastforce
    with Some have "snd (verified_external E c model s) = u" by (cases q) (simp_all add: verified_external_def act_bind_def)
    with checks [OF Some, of c model] q show ?thesis by simp
  qed (simp add: verified_external_def stays)
qed

lemma complete_external: "keeps Q (complete_external E c model body)"
proof -
  have "keeps Q (\<lambda>s. case on_front_sent (pinned_send E ps q) s of (Ok (_, a), t) \<Rightarrow> (Ok a, t) | (Err _, t) \<Rightarrow> (Err IUpstream, set_slot model None t))" for ps q
    by (auto simp: keeps_def split: prod.splits result.splits dest!: sent intro: trans forgets)
  then show ?thesis unfolding complete_external_def by (intro act_intros verified_external order)
qed

lemma authed: "keeps Q (\<lambda>s. (inf_authed_caller E c s, s))"
  by (simp add: keeps_def stays)

lemma list_models: "Q s (snd (list_models E c s))"
proof -
  have "Q s (snd (list_upstream_models E up s))" for up
    by (auto simp: list_upstream_models_def split: prod.splits result.splits dest!: sent)
  then show ?thesis
    using stays by (simp add: list_models_def Let_def split: result.splits option.splits caller.splits prod.splits) (metis snd_conv)
qed

lemma get_model: "Q s (snd (get_model E c m s))"
proof -
  have l: "keeps Q (\<lambda>s. case server_live E c w m s of (up, t) \<Rightarrow> (Ok up, t))" for w
    unfolding keeps_def
  proof
    fix s
    show "Q s (snd (case server_live E c w m s of (up, t) \<Rightarrow> (Ok up, t)))"
      using server_live [of s c w m] by (cases "server_live E c w m s") simp
  qed
  have "keeps Q (get_model E c m)"
    unfolding get_model_def by (intro act_intros authed model_server_of l verified_external order)
  then show ?thesis by (simp add: keeps_def)
qed

lemma key_usage: "Q s (snd (key_usage G c s))"
  using stays by (auto simp: key_usage_def split: result.splits option.splits caller.splits)

lemma ready: "Q s (snd (inf_ready E c s))"
  using server_live [of s c] keeps_snd [OF verified_external, of s c]
  by (simp add: inf_ready_def Let_def split: option.splits prod.splits) (metis snd_conv)

end

text \<open>When the slots are outside the relation as well, a completion stays within it.\<close>

locale front_chat = front_calls +
  assumes slots: "Q s (s\<lparr> fr_slots := x \<rparr>)"
    and launches: "Q s (launch who slot model streamed at a s)"
begin

lemma release: "Q s (release_slot slot s)"
  using stays slots by (simp add: release_slot_def split: option.splits)

lemma take_slot: "keeps Q (take_slot who)"
proof -
  have a: "keeps Q (app_slot org)" for org using slots by (simp add: keeps_def app_slot_def)
  have "keeps Q (act_bind (app_slot org) (\<lambda>_. act_ok (Some org)))" for org by (intro act_intros a order)
  moreover have "keeps Q (act_ok None)" by (intro act_intros order)
  ultimately show ?thesis unfolding take_slot_def by (cases who; cases "the who") simp_all
qed

lemma holding:
  assumes "keeps Q h"
  shows "keeps Q (holding slot h)"
  unfolding keeps_def
proof
  fix s
  from keeps_snd [OF assms, of s] show "Q s (snd (holding slot h s))"
    by (auto simp: holding_def split: prod.splits result.splits intro: trans release)
qed

lemma chat_completions: "keeps Q (chat_completions E c)"
  unfolding chat_completions_def Let_def
  by (intro act_intros authed model_server_of holding take_slot complete complete_external order launches)

end

text \<open>When any change of the tables is within the relation, the admin's routes are.\<close>

locale front_tables = front_calls +
  assumes tables: "Q s (s\<lparr> fr_db := d \<rparr>)"
begin

lemma on_db: "keeps Q (on_inf_db f)"
  using tables by (auto simp: keeps_def on_inf_db_def split: prod.splits)

lemma admin: "keeps Q h \<Longrightarrow> keeps Q (with_admin G c h)"
  unfolding with_admin_def by (intro act_intros order) (simp_all add: keeps_def stays)

lemma admin_routes:
  "keeps Q (create_key G c org)" "keeps Q (list_keys G c org)" "keeps Q (inf_revoke_key G c i)"
  "keeps Q (put_model H c org m)" "keeps Q (delete_model G c org m)" "keeps Q (usage_export G c lo hi og)"
  unfolding create_key_def list_keys_def inf_revoke_key_def put_model_def delete_model_def usage_export_def
  by (intro admin act_intros on_db order)+

end

section \<open>Slots\<close>

definition held :: "uuid \<Rightarrow> front \<Rightarrow> nat" where
  "held org s = length (filter (\<lambda>f. fl_slot f = Some org) (fr_flights s))"

text \<open>
  The permits an organization has left, the answers that hold one, and the one the call at hand took
  make up the cap; every flight has its own number.
\<close>

definition numbered :: "front \<Rightarrow> bool" where
  "numbered s \<longleftrightarrow> distinct (map fl_no (fr_flights s)) \<and> (\<forall>f \<in> set (fr_flights s). fl_no f < fr_next s)"

definition slots_but :: "inf_config \<Rightarrow> uuid option \<Rightarrow> front \<Rightarrow> bool" where
  "slots_but cf slot s \<longleftrightarrow>
     (\<forall>org. permits s org + held org s + (if slot = Some org then 1 else 0) = if_app_concurrency_per_org cf) \<and> numbered s \<and> fr_config s = cf"

definition same_slots :: "front \<Rightarrow> front \<Rightarrow> bool" where
  "same_slots s t \<longleftrightarrow> fr_slots t = fr_slots s \<and> fr_flights t = fr_flights s \<and> fr_next t = fr_next s \<and> fr_config t = fr_config s"

lemma same_slots_order [simp]: "order_like same_slots"
  by (simp add: order_like_def same_slots_def)

lemma same_slots_but: "same_slots s t \<Longrightarrow> slots_but cf slot t \<longleftrightarrow> slots_but cf slot s"
  by (simp add: same_slots_def slots_but_def numbered_def permits_def held_def cong: option.case_cong)

lemma same_slots_updates [simp]:
  "same_slots s (s\<lparr> fr_sent := a \<rparr>)" "same_slots s (s\<lparr> fr_db := d \<rparr>)" "same_slots s (s\<lparr> fr_own := w \<rparr>)"
  "same_slots s (s\<lparr> fr_clients := x \<rparr>)" "same_slots s (s\<lparr> fr_upstream := u \<rparr>)" "same_slots s (s\<lparr> fr_secrets := y \<rparr>)" "same_slots s s"
  by (simp_all add: same_slots_def)

lemma same_sent: "same_slots s (snd (on_front_sent m s))"
  by (auto simp: on_front_sent_def act_on_def split: prod.splits)

interpretation slots_calls: front_tables E same_slots for E :: "'x tls_ext_scheme"
proof unfold_locales
  fix s up c model
  have "same_slots s (snd (run_check E c up model s))" for s
    using same_sent [of s "gateway_check E c up model"] by (auto simp: run_check_def set_slot_def same_slots_def split: prod.splits)
  then show "same_slots s (snd (upstream_verified E c up model s))"
    by (auto simp: upstream_verified_def split: option.splits)
qed (auto simp: same_slots_def set_probe_def set_slot_def clients_new_def split: which_server.splits result.splits)

lemma permits_updates [simp]:
  "permits (s\<lparr> fr_slots := (fr_slots s)(a \<mapsto> n) \<rparr>) org = (if org = a then n else permits s org)"
  "held org (s\<lparr> fr_slots := x \<rparr>) = held org s"
  by (simp_all add: permits_def held_def cong: option.case_cong)

lemma slots_but_moved:
  assumes "slots_but cf slot s" and "numbered s \<Longrightarrow> numbered t" and "fr_config t = fr_config s"
    and m: "\<And>org. permits t org + held org t + (if slot' = Some org then 1 else 0) = permits s org + held org s + (if slot = Some org then 1 else 0)"
  shows "slots_but cf slot' t"
  unfolding slots_but_def
proof (intro conjI allI)
  fix org
  from assms(1) have "permits s org + held org s + (if slot = Some org then 1 else 0) = if_app_concurrency_per_org cf"
    unfolding slots_but_def by blast
  then show "permits t org + held org t + (if slot' = Some org then 1 else 0) = if_app_concurrency_per_org cf"
    by (simp only: m)
qed (use assms(1,2,3) in \<open>simp_all add: slots_but_def\<close>)

lemma app_slot_takes: "triple (slots_but cf None) (app_slot org) (\<lambda>_. slots_but cf (Some org)) (slots_but cf None)"
  unfolding triple_def by (auto simp: app_slot_def numbered_def split: if_splits elim!: slots_but_moved)

lemma take_slot_takes: "triple (slots_but cf None) (take_slot who) (slots_but cf) (slots_but cf None)"
proof (cases "\<exists>org app. who = Some (CallerApp org app)")
  case True
  then obtain org app where w: "who = Some (CallerApp org app)" by blast
  show ?thesis unfolding take_slot_def w
    using app_slot_takes [of cf org] by (auto simp: triple_def act_bind_def split: prod.splits result.splits)
next
  case False
  then have "take_slot who = act_ok None" by (auto simp: take_slot_def split: option.splits caller.splits)
  then show ?thesis by (simp add: triple_def)
qed

lemma release_slot_back: "slots_but cf slot s \<Longrightarrow> slots_but cf None (release_slot slot s)"
  by (auto simp: release_slot_def numbered_def split: option.splits elim!: slots_but_moved)

lemma keeps_same_but: "keeps same_slots m \<Longrightarrow> slots_but cf slot (snd (m s)) \<longleftrightarrow> slots_but cf slot s"
  by (blast dest: keeps_snd same_slots_but)

lemma keeps_triple: "keeps same_slots m \<Longrightarrow> triple (slots_but cf slot) m (\<lambda>_. slots_but cf slot) (slots_but cf slot)"
  unfolding triple_def by (blast dest: keepsD same_slots_but)

lemma holding_back:
  assumes "triple (slots_but cf slot) h (\<lambda>_. slots_but cf slot) (slots_but cf slot)"
  shows "triple (slots_but cf slot) (holding slot h) (\<lambda>_. slots_but cf slot) (slots_but cf None)"
  unfolding triple_def
proof (intro conjI allI impI)
  fix s a t
  assume "slots_but cf slot s" "holding slot h s = (Ok a, t)"
  moreover from this(2) have "h s = (Ok a, t)" by (simp add: holding_def split: prod.splits result.splits)
  ultimately show "slots_but cf slot t" using assms unfolding triple_def by blast
next
  fix s e t
  assume "slots_but cf slot s" "holding slot h s = (Err e, t)"
  moreover from this(2) obtain u where "h s = (Err e, u)" "t = release_slot slot u" by (auto simp: holding_def split: prod.splits result.splits)
  ultimately show "slots_but cf None t" using assms release_slot_back unfolding triple_def by blast
qed

lemma launch_holds: "slots_but cf slot s \<Longrightarrow> slots_but cf None (launch who slot model streamed at a s)"
proof (erule slots_but_moved)
  show "permits (launch who slot model streamed at a s) org + held org (launch who slot model streamed at a s) + (if None = Some org then 1 else 0)
      = permits s org + held org s + (if slot = Some org then 1 else 0)" for org
    by (simp add: launch_def permits_def held_def cong: option.case_cong)
qed (auto simp: launch_def numbered_def less_Suc_eq)

lemma chat_completions_slots: "triple (slots_but cf None) (chat_completions E c) (\<lambda>_. slots_but cf None) (slots_but cf None)"
proof -
  have inner: "triple (slots_but cf slot) (holding slot
       (act_bind (act_lift (is_streamed who parsed)) (\<lambda>streamed.
        let body = forwarded_body E who streamed parsed (ic_body c) in
        act_bind (case w of Some sv \<Rightarrow> complete E sv body | None \<Rightarrow> complete_external E c model body) (\<lambda>a. act_ok (streamed, a)))))
       (\<lambda>_. slots_but cf slot) (slots_but cf None)" for slot who parsed w model
    unfolding Let_def by (intro holding_back keeps_triple act_intros slots_calls.complete slots_calls.complete_external same_slots_order)
  have caller: "triple (slots_but cf None) (\<lambda>s. (inf_authed_caller E c s, s)) (\<lambda>_. slots_but cf None) (slots_but cf None)"
    by (simp add: triple_def)
  have last: "triple (slots_but cf slot) (case p of (streamed, a) \<Rightarrow> act_bind (act_modify (launch who slot model streamed (ic_now c) a)) (\<lambda>_. act_ok (f a)))
      (\<lambda>_. slots_but cf None) (slots_but cf None)" for p who slot model and f :: "answer \<Rightarrow> nat \<times> string"
    by (cases p) (simp add: triple_def launch_holds)
  show ?thesis
    unfolding chat_completions_def Let_def
    by (rule triple_bind [OF caller], rule triple_bind [OF triple_lift], assumption, assumption,
        rule triple_bind [OF keeps_triple [OF slots_calls.model_server_of]], rule triple_bind [OF take_slot_takes],
        rule triple_bind [OF inner [unfolded Let_def]], rule last)
qed

lemma drop_flight_slots: "slots_but cf None s \<Longrightarrow> slots_but cf None (drop_flight E n i ok s)"
proof (cases "find (\<lambda>f. fl_no f = n) (fr_flights s)")
  case (Some f)
  assume ok: "slots_but cf None s"
  let ?u = "s\<lparr> fr_flights := filter (\<lambda>g. fl_no g \<noteq> n) (fr_flights s) \<rparr>"
  from ok have d: "numbered s" by (simp add: slots_but_def)
  from Some obtain xs ys where xy: "fr_flights s = xs @ f # ys" "fl_no f = n" using find_SomeD by (metis (lifting) split_list)
  with d have "\<forall>g \<in> set xs \<union> set ys. fl_no g \<noteq> n" unfolding numbered_def by (simp add: image_iff) blast
  with xy have fl: "filter (\<lambda>g. fl_no g \<noteq> n) (fr_flights s) = xs @ ys" by (simp add: filter_id_conv)
  have "slots_but cf (fl_slot f) ?u"
    by (rule slots_but_moved [OF ok]) (use d xy fl in \<open>auto simp: numbered_def permits_def held_def cong: option.case_cong\<close>)
  then have "slots_but cf None (release_slot (fl_slot f) ?u)" by (rule release_slot_back)
  then have "slots_but cf None ((release_slot (fl_slot f) ?u)\<lparr> fr_db := x \<rparr>)" for x
    using same_slots_but [OF same_slots_updates(2)] by blast
  with \<open>slots_but cf None (release_slot (fl_slot f) ?u)\<close> Some show ?thesis by (auto simp: drop_flight_def Let_def split: option.splits)
qed (simp add: drop_flight_def)

lemma relay_flight_slots: "slots_but cf None s \<Longrightarrow> slots_but cf None (relay_flight E n s)"
proof (erule slots_but_moved)
  have r: "fl_no (relay_step E f) = fl_no f" "fl_slot (relay_step E f) = fl_slot f" for f
    by (simp_all add: relay_step_def split: list.splits)
  have m: "map (\<lambda>f. fl_no (if fl_no f = n then relay_step E f else f)) fs = map fl_no fs" for fs by (simp add: r)
  show "numbered (relay_flight E n s)" if "numbered s"
    using that by (auto simp: relay_flight_def numbered_def r comp_def m)
  have "length (filter (\<lambda>f. fl_slot f = Some org) (map (\<lambda>f. if fl_no f = n then relay_step E f else f) fs)) = length (filter (\<lambda>f. fl_slot f = Some org) fs)" for org fs
    by (induction fs) (simp_all add: r)
  then show "permits (relay_flight E n s) org + held org (relay_flight E n s) + (if None = Some org then 1 else 0)
      = permits s org + held org s + (if None = Some org then 1 else 0)" for org
    by (simp add: relay_flight_def permits_def held_def cong: option.case_cong)
qed (simp add: relay_flight_def)

lemma front_step_slots: "slots_but cf None s \<Longrightarrow> slots_but cf None (front_step E ev s)"
proof (cases ev)
  case (ChatCompletions c)
  assume "slots_but cf None s"
  then have "slots_but cf None (snd (chat_completions E c s))" by (rule tripleD [OF chat_completions_slots])
  then show ?thesis by (simp add: front_step_def ChatCompletions)
qed (simp_all add: front_step_def drop_flight_slots relay_flight_slots same_slots_but [OF same_slots_updates(6)]
      same_slots_but [OF slots_calls.ready] same_slots_but [OF slots_calls.list_models] same_slots_but [OF slots_calls.get_model]
      same_slots_but [OF slots_calls.key_usage] keeps_same_but slots_calls.admin_routes)

interpretation front_slots: stepper "front_step E" "slots_but cf None" for cf and E :: "'x tls_ext_scheme"
  by unfold_locales (rule front_step_slots)

text \<open>
  C29. The cap on an organization's Apps: from start-up on, through any calls, relays and dropped bodies, the
  answers in flight that hold an organization's slot and the permits it has left always make up
  \<open>app_concurrency_per_org\<close>, so no permit is lost on any error path and the cap is never passed.
\<close>

theorem app_concurrency_capped:
  assumes "front_start E cf secrets ca keys_key d = Ok s"
  shows "held org (fold (front_step E) evs s) + permits (fold (front_step E) evs s) org = if_app_concurrency_per_org cf"
proof -
  have "slots_but cf None s" using assms by (auto simp: front_start_def result_simps slots_but_def permits_def held_def numbered_def)
  then have "slots_but cf None (fold (front_step E) evs s)" by (rule front_slots.run_inv)
  then show ?thesis by (simp add: slots_but_def add.commute)
qed

text \<open>An App asks for a model the operator serves.\<close>

definition demo_front_ext :: tls_ext where
  "demo_front_ext = demo_judge\<lparr> json_events := \<lambda>_. Some (RMap [(''model'', RStr ''m'')]) \<rparr>"

definition demo_server :: model_server where
  "demo_server = \<lparr> ms_url = ''https://s'', ms_revisions = [is_compose_hash demo_sans] \<rparr>"

definition demo_front_config :: inf_config where
  "demo_front_config = \<lparr> if_models = [''m''], if_own = [(''m'', demo_server)], if_external = None, if_app_concurrency_per_org = 4 \<rparr>"

definition demo_front_secrets :: inf_secrets where
  "demo_front_secrets = \<lparr> is_provider_key = None, is_caller_bearer = [1], is_admin_bearer = [2] \<rparr>"

definition demo_front_db :: inf_db where
  "demo_front_db = \<lparr> id_keys = [], id_models = [], id_usage = [] \<rparr>"

definition demo_front_own :: server where
  "demo_front_own = \<lparr> sv_url = ''https://s'', sv_client = \<lparr> ps_pin = Some (PinCaAndInstanceRevisions [7] [is_compose_hash demo_sans] None), ps_anchor = Some [7] \<rparr>, sv_probe = None \<rparr>"

definition demo_front :: front where
  "demo_front = \<lparr> fr_config = demo_front_config, fr_secrets = demo_front_secrets, fr_kms_ca = [7], fr_keys_key = [8], fr_upstream = None,
     fr_own = [(''m'', demo_front_own)], fr_clients = Map.empty, fr_slots = Map.empty, fr_flights = [], fr_next = 0, fr_db = demo_front_db, fr_sent = [] \<rparr>"

definition demo_app_call :: icall where
  "demo_app_call = \<lparr> ic_now = 0, ic_db_now = 0, ic_instant = 0, ic_uuid = 5, ic_rand = None, ic_authorization = None, ic_peer = [[1]], ic_body = [1],
     ic_collateral = (\<lambda>_. None) \<rparr>"

lemma demo_front_start: "front_start demo_front_ext demo_front_config demo_front_secrets [7] [8] demo_front_db = Ok demo_front"
proof -
  have "webpki_anchor demo_front_ext = Some" by (simp add: demo_front_ext_def demo_judge_fields)
  then show ?thesis
    by (simp add: front_start_def own_servers_def demo_front_config_def server_new_def pinned_server_new_def demo_server_def upstream_build_def
        demo_front_def demo_front_own_def)
qed

lemma demo_front_names:
  "uri_sans demo_front_ext l = Ok (x_uri_sans demo_app_leaf)" "parse_instance_sans demo_front_ext (x_uri_sans demo_app_leaf) = Ok demo_sans"
proof -
  show "uri_sans demo_front_ext l = Ok (x_uri_sans demo_app_leaf)"
    using demo_judge_leaf(1) unfolding uri_sans_def parse_x509_def by (simp add: demo_front_ext_def)
  have u: "uuid_parse demo_front_ext = uuid_parse demo_judge" by (simp add: demo_front_ext_def)
  show "parse_instance_sans demo_front_ext (x_uri_sans demo_app_leaf) = Ok demo_sans"
    using demo_judge_leaf(2) unfolding parse_instance_sans_def u .
qed

lemma demo_front_asks:
  "\<exists>t. chat_completions demo_front_ext demo_app_call demo_front = (Ok (200, ''text/event-stream''), t) \<and> held (is_org_id demo_sans) t = 1 \<and> length (fr_sent t) = 1"
proof -
  note f = demo_front_ext_def demo_judge_fields
  have a: "inf_authed_caller demo_front_ext demo_app_call demo_front = Ok (Some (CallerApp (is_org_id demo_sans) (is_app_id demo_sans)))"
    by (simp add: inf_authed_caller_def inf_bearer_def demo_app_call_def app_instance_def demo_front_names)
  have b: "parsed_body demo_front_ext [1] = jobj [(''model'', JString ''m'')]"
    by (simp add: parsed_body_def f jobj_def map_insert_def)
  have g: "json_get (jobj [(''model'', JString ''m'')]) ''model'' = Some (JString ''m'')" "json_get (jobj [(''model'', JString ''m'')]) ''stream'' = None"
    by (simp_all add: jobj_def map_insert_def json_get_def json_index_def)
  have v: "verify_server_cert demo_front_ext (sv_client demo_front_own) [1] [[2]] 0 = Ok ()"
    by (simp add: verify_server_cert_def demo_front_own_def server_anchor_def check_pinned_def demo_front_names) (simp add: f)
  have s: "fr_own demo_front = [(''m'', demo_front_own)]" "fr_slots demo_front = Map.empty" "fr_sent demo_front = []" "fr_flights demo_front = []"
    "if_app_concurrency_per_org (fr_config demo_front) = 4" "ic_body demo_app_call = [1]"
    by (simp_all add: demo_front_def demo_front_config_def demo_app_call_def)
  have d: "tls_dial demo_front_ext = (\<lambda>_ _. Some (0, [[1], [2]]))"
    "tls_answer demo_front_ext = (\<lambda>_. Some \<lparr> aw_status = 200, aw_content_type = None, aw_chunks = [[2]], aw_broken = False \<rparr>)"
    by (simp_all add: f)
  show ?thesis
    by (simp add: chat_completions_def act_bind_def a s d Let_def body_model_def b g model_server_of_def take_slot_def app_slot_def permits_def
        holding_def is_streamed_def forwarded_body_def complete_def the_server_def on_front_sent_def act_on_def act_map_err_def pinned_send_def v
        served_revision_def demo_front_names launch_def held_def COMPLETIONS_BODY_LIMIT_def)
qed

theorem app_concurrency_capped_witness:
  "\<exists>c. held (is_org_id demo_sans) (fold (front_step demo_front_ext) [ChatCompletions c] demo_front) = 1
     \<and> permits (fold (front_step demo_front_ext) [ChatCompletions c] demo_front) (is_org_id demo_sans) = 3"
proof -
  from demo_front_asks have "held (is_org_id demo_sans) (fold (front_step demo_front_ext) [ChatCompletions demo_app_call] demo_front) = 1"
    by (auto simp: front_step_def)
  with app_concurrency_capped [OF demo_front_start, of "is_org_id demo_sans" "[ChatCompletions demo_app_call]"] show ?thesis
    by (auto simp: demo_front_config_def)
qed

end
