(* ===== verification/Inference_Pin.thy ===== *)
theory Inference_Pin
  imports Inference_Spec
begin

text \<open>
  Where a completion goes. The front keeps three kinds of client to a model: to an own server, to an
  organization's server and to the external gateway. The invariant says what each is pinned to, and,
  of the gateway's, which report it rests on; with it every completion leaves for a peer that proved
  what its model pins.
\<close>

section \<open>What every client is pinned to\<close>

definition own_ok :: "'x tls_ext_scheme \<Rightarrow> front \<Rightarrow> bool" where
  "own_ok E s \<longleftrightarrow>
     (\<forall>m sv. map_of (fr_own s) m = Some sv \<longrightarrow>
        (\<exists>ms. (m, ms) \<in> set (if_own (fr_config s)) \<and> sv_url sv = ms_url ms
           \<and> pinned_server_new E (Some (PinCaAndInstanceRevisions (fr_kms_ca s) (ms_revisions ms) None)) = Ok (sv_client sv)))"

definition clients_ok :: "'x tls_ext_scheme \<Rightarrow> front \<Rightarrow> bool" where
  "clients_ok E s \<longleftrightarrow>
     (\<forall>org m ms sv. fr_clients s (org, m) = Some (ms, sv) \<longrightarrow>
        sv_url sv = ms_url ms \<and> pinned_server_new E (Some (PinCaAndInstanceRevisions (fr_kms_ca s) (ms_revisions ms) (Some org))) = Ok (sv_client sv))"

text \<open>
  The evidence behind a key of the gateway: a request for a report with a nonce, whose answer on a
  connection with that key is a report that \<open>check_report\<close> accepted at a time.
\<close>

definition attested_key :: "'x tls_ext_scheme \<Rightarrow> dialled list \<Rightarrow> external \<Rightarrow> string \<Rightarrow> time \<Rightarrow> bytes \<Rightarrow> bool" where
  "attested_key E sent x model at spki \<longleftrightarrow>
     (\<exists>before d after n a rp coll.
        sent = before @ d # after \<and> dl_request d = report_request (ex_upstream_url x) model n \<and> spki_of E (dl_leaf d) = Ok spki
        \<and> tls_answer E (before @ [d]) = Some a \<and> Option.bind (answer_bytes a) (\<lambda>b. Option.bind (json_events E b) report_de) = Some rp
        \<and> check_report E rp spki n coll (ex_upstream_policy x) at = Ok ())"

definition gate_ok :: "'x tls_ext_scheme \<Rightarrow> front \<Rightarrow> bool" where
  "gate_ok E s \<longleftrightarrow>
     (\<forall>up. fr_upstream s = Some up \<longrightarrow>
        (\<exists>x. if_external (fr_config s) = Some x \<and> up_url up = ex_upstream_url x \<and> up_policy up = ex_upstream_policy x
           \<and> (\<forall>m at ps. map_of (up_slots up) m = Some (Some (at, Ok ps)) \<longrightarrow>
                (\<exists>spki. pinned_server_new E (Some (PinSpki spki)) = Ok ps \<and> attested_key E (fr_sent s) x m at spki))))"

definition front_ok :: "'x tls_ext_scheme \<Rightarrow> front \<Rightarrow> bool" where
  "front_ok E s \<longleftrightarrow> own_ok E s \<and> clients_ok E s \<and> gate_ok E s"

text \<open>A step keeps the configuration, only adds to what was sent, and keeps the invariant.\<close>

definition front_below :: "'x tls_ext_scheme \<Rightarrow> front \<Rightarrow> front \<Rightarrow> bool" where
  "front_below E s t \<longleftrightarrow>
     fr_config t = fr_config s \<and> fr_kms_ca t = fr_kms_ca s \<and> fr_keys_key t = fr_keys_key s
     \<and> (\<exists>ds. fr_sent t = fr_sent s @ ds) \<and> (front_ok E s \<longrightarrow> front_ok E t)"

lemma front_below_trans: "front_below E s t \<Longrightarrow> front_below E t u \<Longrightarrow> front_below E s u"
  by (auto simp: front_below_def)

lemma front_below_refl [simp]: "front_below E s s"
  by (simp add: front_below_def)

lemma front_below_order [simp]: "order_like (front_below E)"
  unfolding order_like_def using front_below_trans front_below_refl by blast

lemma attested_key_more: "attested_key E sent x m at spki \<Longrightarrow> attested_key E (sent @ ds) x m at spki"
  unfolding attested_key_def by (metis append_Cons append_assoc)

lemma gate_ok_more: "gate_ok E s \<Longrightarrow> gate_ok E (s\<lparr> fr_sent := fr_sent s @ ds \<rparr>)"
  unfolding gate_ok_def by (auto intro: attested_key_more) (metis attested_key_more)

lemma front_below_sent: "front_below E s (s\<lparr> fr_sent := fr_sent s @ ds \<rparr>)"
  using gate_ok_more [of E s ds] by (simp add: front_below_def front_ok_def own_ok_def clients_ok_def)

lemma front_below_updates [simp]:
  "front_below E s (s\<lparr> fr_db := d \<rparr>)" "front_below E s (s\<lparr> fr_slots := x \<rparr>)" "front_below E s (s\<lparr> fr_secrets := y \<rparr>)"
  "front_below E s (s\<lparr> fr_flights := fl \<rparr>)" "front_below E s (s\<lparr> fr_next := n, fr_flights := fl \<rparr>)"
  by (simp_all add: front_below_def front_ok_def own_ok_def clients_ok_def gate_ok_def)

lemma map_of_probed: "map_of (map (\<lambda>(n, v). (n, if n = m then f v else v)) l) k = map_option (\<lambda>v. if k = m then f v else v) (map_of l k)"
  by (induction l) auto

lemma front_below_probe [simp]: "front_below E s (set_probe w p s)"
proof (cases w)
  case (OwnServer m)
  have "own_ok E (set_probe w p s)" if "own_ok E s"
    using that by (auto simp: own_ok_def OwnServer set_probe_def map_of_probed split: if_splits)
  then show ?thesis by (simp add: front_below_def front_ok_def clients_ok_def gate_ok_def OwnServer set_probe_def)
next
  case (OrgServer org m)
  have "clients_ok E (set_probe w p s)" if "clients_ok E s"
    using that by (auto simp: clients_ok_def OrgServer set_probe_def split: if_splits)
  then show ?thesis by (simp add: front_below_def front_ok_def own_ok_def gate_ok_def OrgServer set_probe_def)
qed

text \<open>A slot is set with an error, emptied, or set with a key that has its report.\<close>

lemma map_of_slot: "map_of (map (\<lambda>(m, x). (m, if m = model then v else x)) l) k = map_option (\<lambda>x. if k = model then v else x) (map_of l k)"
  by (induction l) auto

lemma front_below_slot:
  assumes "\<And>at ps x. front_ok E s \<Longrightarrow> v = Some (at, Ok ps) \<Longrightarrow> if_external (fr_config s) = Some x \<Longrightarrow>
     \<exists>spki. pinned_server_new E (Some (PinSpki spki)) = Ok ps \<and> attested_key E (fr_sent s) x model at spki"
  shows "front_below E s (set_slot model v s)"
proof -
  have "gate_ok E (set_slot model v s)" if "front_ok E s"
    using that assms [OF that] unfolding front_ok_def gate_ok_def by (auto simp: set_slot_def map_of_slot split: if_splits)
  then show ?thesis by (simp add: front_below_def front_ok_def own_ok_def clients_ok_def set_slot_def)
qed

section \<open>Calls\<close>

lemma gateway_check_sent:
  assumes "gateway_check E c up model s = (r, t)"
  shows "(\<exists>ds. t = s @ ds) \<and> (\<forall>ps. r = Ok ps \<longrightarrow> (\<exists>d n a rp spki coll. t = s @ [d] \<and> dl_request d = report_request (up_url up) model n
      \<and> spki_of E (dl_leaf d) = Ok spki \<and> tls_answer E t = Some a
      \<and> Option.bind (answer_bytes a) (\<lambda>b. Option.bind (json_events E b) report_de) = Some rp
      \<and> check_report E rp spki n coll (up_policy up) (ic_now c) = Ok () \<and> pinned_server_new E (Some (PinSpki spki)) = Ok ps))"
proof (cases "ic_rand c")
  case (Some n)
  obtain q u where q: "pinned_send E unpinned (report_request (up_url up) model n) s = (q, u)" by fastforce
  show ?thesis
  proof (cases q)
    case (Err e)
    with assms Some q pinned_send_sent [OF q] show ?thesis by (auto simp: gateway_check_def act_map_err_def act_bind_def)
  next
    case (Ok la)
    then obtain leaf a where la: "q = Ok (leaf, a)" by (cases la) auto
    with pinned_send_sent [OF q] obtain d where d: "u = s @ [d]" "dl_request d = report_request (up_url up) model n" "dl_leaf d = leaf" "tls_answer E u = Some a"
      by auto
    from assms Some q la have rt: "r = read_report E c up n leaf a" "t = u" by (auto simp: gateway_check_def act_map_err_def act_bind_def)
    have "\<exists>rp spki coll. spki_of E leaf = Ok spki \<and> Option.bind (answer_bytes a) (\<lambda>b. Option.bind (json_events E b) report_de) = Some rp
      \<and> check_report E rp spki n coll (up_policy up) (ic_now c) = Ok () \<and> pinned_server_new E (Some (PinSpki spki)) = Ok ps" if "r = Ok ps" for ps
      using that unfolding rt(1) read_report_def by (auto simp: result_simps)
    with d rt(2) show ?thesis by blast
  qed
qed (use assms in \<open>auto simp: gateway_check_def\<close>)

lemma run_check_below:
  assumes up: "fr_upstream s = Some up" and rc: "run_check E c up model s = (r, t)"
  shows "front_below E s t"
    and "r = Ok ps \<Longrightarrow> front_ok E s \<Longrightarrow> if_external (fr_config s) = Some x \<Longrightarrow>
      \<exists>spki. pinned_server_new E (Some (PinSpki spki)) = Ok ps \<and> attested_key E (fr_sent t) x model (ic_now c) spki"
proof -
  obtain q u where q: "gateway_check E c up model (fr_sent s) = (q, u)" by fastforce
  from gateway_check_sent [OF q] obtain ds where u: "u = fr_sent s @ ds" by blast
  let ?v = "s\<lparr> fr_sent := u \<rparr>"
  from rc q have rt: "r = map_err (\<lambda>_. IUpstreamUnverified) q" "t = set_slot model (Some (ic_now c, q)) ?v"
    by (auto simp: run_check_def on_front_sent_def act_on_def)
  have ev: "\<exists>spki. pinned_server_new E (Some (PinSpki spki)) = Ok ps \<and> attested_key E u x model (ic_now c) spki"
    if "front_ok E w" "fr_upstream w = Some up" "fr_config w = fr_config s" "q = Ok ps" "if_external (fr_config s) = Some x" for ps x w
  proof -
    from that have "up_url up = ex_upstream_url x" "up_policy up = ex_upstream_policy x" by (auto simp: front_ok_def gate_ok_def)
    with gateway_check_sent [OF q] that(4) show ?thesis unfolding attested_key_def by force
  qed
  have "front_below E ?v t" unfolding rt(2)
    by (rule front_below_slot) (use ev [of ?v] up in auto)
  then show "front_below E s t" using front_below_sent [of E s ds] unfolding u by (rule front_below_trans [rotated])
  show "\<exists>spki. pinned_server_new E (Some (PinSpki spki)) = Ok ps \<and> attested_key E (fr_sent t) x model (ic_now c) spki"
    if "r = Ok ps" "front_ok E s" "if_external (fr_config s) = Some x"
    using ev [of s ps x] that up rt by (auto simp: result_simps set_slot_def)
qed

text \<open>A key the front uses for the gateway was attested less than a minute ago, by the clock of the call.\<close>

definition fresh_key :: "'x tls_ext_scheme \<Rightarrow> front \<Rightarrow> icall \<Rightarrow> string \<Rightarrow> pinned_server \<Rightarrow> bool" where
  "fresh_key E s c model ps \<longleftrightarrow>
     (\<exists>x at spki. if_external (fr_config s) = Some x \<and> at \<le> ic_now c \<and> ic_now c - at < VERIFIED_TTL
        \<and> pinned_server_new E (Some (PinSpki spki)) = Ok ps \<and> attested_key E (fr_sent s) x model at spki)"

lemma upstream_verified_below:
  assumes up: "fr_upstream s = Some up" and uv: "upstream_verified E c up model s = (r, t)"
  shows "front_below E s t" and "r = Ok ps \<Longrightarrow> front_ok E s \<Longrightarrow> fresh_key E t c model ps"
proof -
  show "front_below E s t"
    using uv run_check_below(1) [OF up, of E c model r t] by (auto simp: upstream_verified_def split: option.splits if_splits)
  assume r: "r = Ok ps" and ok: "front_ok E s"
  with up obtain x where x: "if_external (fr_config s) = Some x"
    "\<forall>m at ps. map_of (up_slots up) m = Some (Some (at, Ok ps)) \<longrightarrow>
       (\<exists>spki. pinned_server_new E (Some (PinSpki spki)) = Ok ps \<and> attested_key E (fr_sent s) x m at spki)"
    by (auto simp: front_ok_def gate_ok_def)
  have ran: "fresh_key E t c model ps" if rc: "run_check E c up model s = (r, t)"
  proof -
    from run_check_below(1) [OF up rc] x(1) have "if_external (fr_config t) = Some x" by (simp add: front_below_def)
    with run_check_below(2) [OF up rc r ok x(1)] show ?thesis unfolding fresh_key_def by (auto simp: VERIFIED_TTL_def)
  qed
  show "fresh_key E t c model ps"
  proof (cases "\<exists>at res. map_of (up_slots up) model = Some (Some (at, res)) \<and> at \<le> ic_now c \<and> ic_now c - at < VERIFIED_TTL")
    case True
    then obtain at res where m: "map_of (up_slots up) model = Some (Some (at, res))" "at \<le> ic_now c" "ic_now c - at < VERIFIED_TTL" by blast
    with uv r have "res = Ok ps" "t = s" by (auto simp: upstream_verified_def result_simps)
    with m x show ?thesis unfolding fresh_key_def by blast
  next
    case False
    with uv r ran show ?thesis by (auto simp: upstream_verified_def split: option.splits if_splits)
  qed
qed

interpretation pins_chat: front_chat E "front_below E" for E :: "'x tls_ext_scheme"
proof unfold_locales
  show "front_below E s (set_slot model None s)" for s model by (rule front_below_slot) simp
  show "front_below E s (snd (clients_new E org model ms s))" for s org model ms
    by (auto simp: clients_new_def server_new_def result_simps front_below_def front_ok_def own_ok_def gate_ok_def clients_ok_def split: result.splits)
  show "front_below E s (snd (upstream_verified E c up model s))" if "fr_upstream s = Some up" for s up c model
    using upstream_verified_below(1) [OF that] by (metis prod.collapse)
qed (auto simp: launch_def intro: front_below_trans front_below_sent)

interpretation pins_tables: front_tables E "front_below E" for E :: "'x tls_ext_scheme"
  by unfold_locales simp

lemma verified_external_Ok:
  assumes "verified_external E c model s = (Ok (u, ps), t)" and "front_ok E s"
  shows "fresh_key E t c model ps"
proof -
  from assms(1) obtain up where "fr_upstream s = Some up" "upstream_verified E c up model s = (Ok ps, t)"
    by (auto simp: verified_external_def act_inv_simps split: option.splits)
  with upstream_verified_below(2) assms(2) show ?thesis by blast
qed

lemma front_step_below: "front_below E s (front_step E ev s)"
proof (cases ev)
  case (DropBody n i ok)
  have "front_below E s (release_slot slot (s\<lparr> fr_flights := fl \<rparr>))" for slot fl
    using front_below_trans [OF front_below_updates(4) pins_chat.release] .
  moreover have "front_below E s (release_slot slot (s\<lparr> fr_flights := fl \<rparr>)\<lparr> fr_db := d \<rparr>)" for slot fl d
    using front_below_trans [OF calculation front_below_updates(1)] .
  ultimately show ?thesis by (simp add: front_step_def DropBody drop_flight_def Let_def split: option.splits)
qed (simp_all add: front_step_def relay_flight_def pins_chat.ready pins_chat.list_models pins_chat.get_model pins_chat.key_usage
      pins_chat.chat_completions [THEN keeps_snd] pins_tables.admin_routes [THEN keeps_snd])

interpretation front_pins: monotone_stepper "front_step E" "front_ok E" "front_below E" for E :: "'x tls_ext_scheme"
  by unfold_locales (use front_step_below front_below_trans in \<open>auto simp: front_below_def\<close>)

section \<open>Where a completion goes\<close>

lemma collect_results_from: "collect_results f xs = Ok ys \<Longrightarrow> y \<in> set ys \<Longrightarrow> \<exists>x \<in> set xs. f x = Ok y"
  unfolding collect_results_Ok by (induction rule: list_all2_induct) auto

lemma front_start_ok:
  assumes "front_start E cf secrets ca keys_key d = Ok s"
  shows "front_ok E s \<and> fr_config s = cf \<and> fr_kms_ca s = ca \<and> fr_keys_key s = keys_key"
proof -
  from assms obtain own where o: "own_servers E ca (if_own cf) = Ok own" and s: "fr_own s = own" "fr_config s = cf" "fr_kms_ca s = ca"
    "fr_keys_key s = keys_key" "fr_clients s = Map.empty" "fr_upstream s = upstream_build cf"
    by (auto simp: front_start_def result_simps)
  have "\<exists>ms. (m, ms) \<in> set (if_own cf) \<and> server_new E (ms_url ms) (PinCaAndInstanceRevisions ca (ms_revisions ms) None) = Ok sv"
    if "(m, sv) \<in> set own" for m sv
    using collect_results_from [OF o [unfolded own_servers_def] that] by (auto simp: result_simps)
  then have "own_ok E s" unfolding own_ok_def s by (fastforce dest!: map_of_SomeD simp: server_new_def result_simps)
  moreover have "gate_ok E s" unfolding gate_ok_def s upstream_build_def by (auto dest!: map_of_SomeD)
  ultimately show ?thesis using s by (simp add: front_ok_def clients_ok_def)
qed

text \<open>
  A peer may have a completion for the model the caller named when it is the operator's server for
  that model, the caller's organization's own, or the gateway, in each case with the proof the model pins.
\<close>

definition completion_peer :: "'x tls_ext_scheme \<Rightarrow> front \<Rightarrow> icall \<Rightarrow> dialled list \<Rightarrow> dialled \<Rightarrow> bool" where
  "completion_peer E s c sent d \<longleftrightarrow>
     (let model = body_model (parsed_body E (ic_body c)) in
      (\<exists>ms. (model, ms) \<in> set (if_own (fr_config s)) \<and> pin_proved E (PinCaAndInstanceRevisions (fr_kms_ca s) (ms_revisions ms) None) d)
      \<or> (\<exists>k org ms. inf_authed_caller E c s = Ok (Some (CallerKey k org)) \<and> \<not> allows (fr_config s) model
           \<and> find_model E (fr_keys_key s) org model (fr_db s) = Some ms
           \<and> pin_proved E (PinCaAndInstanceRevisions (fr_kms_ca s) (ms_revisions ms) (Some org)) d)
      \<or> ((\<exists>who. inf_authed_caller E c s = Ok who \<and> (\<forall>org app. who \<noteq> Some (CallerApp org app))) \<and> allows (fr_config s) model
           \<and> (\<exists>x at spki. if_external (fr_config s) = Some x \<and> at \<le> ic_now c \<and> ic_now c - at < VERIFIED_TTL
                \<and> attested_key E sent x model at spki \<and> pin_proved E (PinSpki spki) d)))"

lemma complete_peer:
  assumes "the_server w s = Some sv" and "pinned_server_new E (Some p) = Ok (sv_client sv)" and "complete E w body s = (r, t)"
  shows "\<exists>ds. fr_sent t = fr_sent s @ ds \<and> (\<forall>d \<in> set ds. pin_proved E p d)"
proof -
  let ?q = "completion_post (sv_url sv @ ''/v1/chat/completions'') None body"
  from assms(1,3) have "fr_sent t = snd (pinned_send E (sv_client sv) ?q (fr_sent s))"
    by (auto simp: complete_def on_front_sent_def act_on_def act_bind_def act_map_err_def split: prod.splits result.splits)
  with pinned_send_pinned [OF assms(2), of "fr_sent s" ?q] show ?thesis by (auto simp: sent_pinned_def)
qed

definition asks_report :: "dialled \<Rightarrow> bool" where
  "asks_report d \<longleftrightarrow> (\<exists>u model n. dl_request d = report_request u model n)"

definition only_reports :: "dialled list \<Rightarrow> dialled list \<Rightarrow> bool" where
  "only_reports x y \<longleftrightarrow> (\<exists>ds. y = x @ ds \<and> list_all asks_report ds)"

lemma gateway_check_reports: "gateway_check E c up model s = (r, t) \<Longrightarrow> only_reports s t"
  by (auto simp: gateway_check_def only_reports_def asks_report_def act_bind_def act_map_err_def dest!: pinned_send_sent split: prod.splits result.splits option.splits) blast+

lemma verified_external_reports: "verified_external E c model s = (r, t) \<Longrightarrow> only_reports (fr_sent s) (fr_sent t)"
proof -
  have rc: "only_reports (fr_sent s) (fr_sent u)" if "run_check E c up model s = (q, u)" for up q u
    using that gateway_check_reports by (fastforce simp: run_check_def on_front_sent_def act_on_def set_slot_def split: prod.splits)
  have "only_reports (fr_sent s) (fr_sent u)" if "upstream_verified E c up model s = (q, u)" for up q u
    using that rc by (auto simp: upstream_verified_def only_reports_def split: option.splits if_splits)
  moreover assume "verified_external E c model s = (r, t)"
  ultimately show ?thesis
    by (auto simp: verified_external_def act_bind_def only_reports_def split: option.splits prod.splits result.splits)
qed

lemma complete_external_peer:
  assumes "complete_external E c model body s = (r, t)" and "front_ok E s"
  shows "\<exists>ds. fr_sent t = fr_sent s @ ds \<and> (\<forall>d \<in> set ds. asks_report d
     \<or> (\<exists>x at spki. if_external (fr_config s) = Some x \<and> at \<le> ic_now c \<and> ic_now c - at < VERIFIED_TTL
          \<and> attested_key E (fr_sent t) x model at spki \<and> pin_proved E (PinSpki spki) d))"
proof -
  obtain q v where q: "verified_external E c model s = (q, v)" by fastforce
  from verified_external_reports [OF q] obtain rs where rs: "fr_sent v = fr_sent s @ rs" "\<forall>d \<in> set rs. asks_report d"
    by (auto simp: only_reports_def list_all_iff)
  show ?thesis
  proof (cases "fr_sent t = fr_sent v")
    case True
    with rs show ?thesis by auto
  next
    case False
    then obtain u ps where p: "q = Ok (u, ps)"
      using assms(1) q by (cases q) (auto simp: complete_external_def act_bind_def)
    with False assms(1) q obtain k where k: "is_provider_key (fr_secrets v) = Some k"
      by (cases "is_provider_key (fr_secrets v)") (auto simp: complete_external_def act_bind_def)
    let ?q = "completion_post (u @ ''/chat/completions'') (Some k) body"
    obtain o1 w where w: "pinned_send E ps ?q (fr_sent v) = (o1, w)" by fastforce
    have t: "fr_sent t = w"
      using assms(1) by (cases o1) (auto simp: complete_external_def act_bind_def q p k on_front_sent_def act_on_def w set_slot_def)
    from verified_external_Ok [of E c model s u ps v] q p assms(2) obtain x at spki where x: "if_external (fr_config v) = Some x" "at \<le> ic_now c"
      "ic_now c - at < VERIFIED_TTL" "pinned_server_new E (Some (PinSpki spki)) = Ok ps" "attested_key E (fr_sent v) x model at spki"
      unfolding fresh_key_def by blast
    from pinned_send_pinned [OF x(4), of "fr_sent v" ?q]
    obtain ds where ds: "w = fr_sent v @ ds" "\<forall>d \<in> set ds. pin_proved E (PinSpki spki) d"
      unfolding sent_pinned_def w snd_conv by blast
    have "fr_config v = fr_config s" using keepsD [OF pins_chat.verified_external q] by (simp add: front_below_def)
    moreover have "attested_key E (fr_sent t) x model at spki" using attested_key_more [OF x(5)] ds(1) t by simp
    ultimately show ?thesis using rs x(1-3) ds t by (intro exI [of _ "rs @ ds"]) auto
  qed
qed

lemma clients_get_sets:
  "clients_get E org model ms s = (r, u) \<Longrightarrow> fr_sent u = fr_sent s \<and> (r = Ok () \<longrightarrow> (\<exists>sv. fr_clients u (org, model) = Some (ms, sv)))"
  by (auto simp: clients_get_def clients_new_def split: option.splits result.splits if_splits)

lemma model_server_of_sent: "model_server_of E who model s = (r, u) \<Longrightarrow> fr_sent u = fr_sent s"
  by (auto simp: model_server_of_def act_bind_def split: option.splits caller.splits if_splits prod.splits result.splits dest!: clients_get_sets)

lemma model_server_of_Ok:
  assumes "model_server_of E who model s = (Ok w, u)"
  shows "w = None \<and> (\<forall>org app. who \<noteq> Some (CallerApp org app)) \<and> allows (fr_config s) model
    \<or> w = Some (OwnServer model) \<and> map_of (fr_own s) model \<noteq> None \<and> u = s
    \<or> (\<exists>k org ms sv. w = Some (OrgServer org model) \<and> who = Some (CallerKey k org) \<and> \<not> allows (fr_config s) model
         \<and> find_model E (fr_keys_key s) org model (fr_db s) = Some ms \<and> fr_clients u (org, model) = Some (ms, sv))"
  using assms
  by (auto simp: model_server_of_def act_inv_simps split: option.splits caller.splits if_splits dest!: clients_get_sets)

lemma take_slot_same:
  "take_slot who u = (r, v) \<Longrightarrow> fr_sent v = fr_sent u \<and> fr_own v = fr_own u \<and> fr_clients v = fr_clients u"
  by (auto simp: take_slot_def app_slot_def act_bind_def split: option.splits caller.splits if_splits)

lemma chat_completions_sent:
  assumes "chat_completions E c s = (r, t)" and "fr_sent t \<noteq> fr_sent s"
  shows "\<exists>who w u slot v body q x. inf_authed_caller E c s = Ok who \<and> model_server_of E who (body_model (parsed_body E (ic_body c))) s = (Ok w, u)
     \<and> take_slot who u = (Ok slot, v) \<and> fr_sent t = fr_sent x
     \<and> (case w of Some sv \<Rightarrow> complete E sv body | None \<Rightarrow> complete_external E c (body_model (parsed_body E (ic_body c))) body) v = (q, x)"
proof -
  let ?p = "parsed_body E (ic_body c)"
  let ?m = "body_model ?p"
  have [simp]: "fr_sent (release_slot z y) = fr_sent y" "fr_sent (launch a0 a1 a2 a3 a4 a5 y) = fr_sent y" for z y a0 a1 a2 a3 a4 a5
    by (simp_all add: release_slot_def launch_def split: option.splits)
  from assms obtain who where who: "inf_authed_caller E c s = Ok who"
    by (cases "inf_authed_caller E c s") (auto simp: chat_completions_def act_bind_def)
  with assms have small: "\<not> COMPLETIONS_BODY_LIMIT < length (ic_body c)"
    by (cases "COMPLETIONS_BODY_LIMIT < length (ic_body c)") (auto simp: chat_completions_def act_bind_def)
  obtain w0 u where u: "model_server_of E who ?m s = (w0, u)" by fastforce
  from model_server_of_sent [OF u] have us: "fr_sent u = fr_sent s" .
  with assms who u obtain w where w: "w0 = Ok w" by (cases w0) (auto simp: chat_completions_def act_bind_def Let_def small)
  obtain l0 v where v: "take_slot who u = (l0, v)" by fastforce
  from take_slot_same [OF v] us have vs: "fr_sent v = fr_sent s" by simp
  with assms who u w v obtain slot where l: "l0 = Ok slot" by (cases l0) (auto simp: chat_completions_def act_bind_def Let_def small)
  with vs assms who u w v obtain streamed where st: "is_streamed who ?p = Ok streamed"
    by (cases "is_streamed who ?p") (auto simp: chat_completions_def act_bind_def Let_def holding_def small)
  obtain q x where q: "(case w of Some sv \<Rightarrow> complete E sv (forwarded_body E who streamed ?p (ic_body c))
      | None \<Rightarrow> complete_external E c ?m (forwarded_body E who streamed ?p (ic_body c))) v = (q, x)" by fastforce
  have "fr_sent t = fr_sent x"
    using assms(1) by (cases q) (auto simp: chat_completions_def act_bind_def Let_def holding_def who u w v l st q small)
  with who u w v l q show ?thesis by blast
qed

lemma chat_completions_peer:
  assumes ok: "front_ok E s" and cc: "chat_completions E c s = (r, t)"
  shows "\<exists>ds. fr_sent t = fr_sent s @ ds \<and> (\<forall>d \<in> set ds. asks_report d \<or> completion_peer E s c (fr_sent t) d)"
proof (cases "fr_sent t = fr_sent s")
  case False
  let ?m = "body_model (parsed_body E (ic_body c))"
  from chat_completions_sent [OF cc False] obtain who w u slot v body q x where who: "inf_authed_caller E c s = Ok who"
    and u: "model_server_of E who ?m s = (Ok w, u)" and v: "take_slot who u = (Ok slot, v)" and t: "fr_sent t = fr_sent x"
    and q: "(case w of Some sv \<Rightarrow> complete E sv body | None \<Rightarrow> complete_external E c ?m body) v = (q, x)" by blast
  have "front_below E s v" using keepsD [OF pins_chat.model_server_of u] keepsD [OF pins_chat.take_slot v] by (rule front_below_trans)
  with ok have vok: "front_ok E v" and cfg: "fr_config v = fr_config s" "fr_kms_ca v = fr_kms_ca s" by (auto simp: front_below_def)
  have vs: "fr_sent v = fr_sent s" "fr_own v = fr_own u" "fr_clients v = fr_clients u"
    using take_slot_same [OF v] model_server_of_sent [OF u] by auto
  from model_server_of_Ok [OF u] consider
      "w = None" "\<forall>org app. who \<noteq> Some (CallerApp org app)" "allows (fr_config s) ?m"
    | sv where "w = Some (OwnServer ?m)" "map_of (fr_own v) ?m = Some sv"
    | k org ms sv where "w = Some (OrgServer org ?m)" "who = Some (CallerKey k org)" "\<not> allows (fr_config s) ?m"
        "find_model E (fr_keys_key s) org ?m (fr_db s) = Some ms" "fr_clients v (org, ?m) = Some (ms, sv)"
    using vs by auto
  then show ?thesis
  proof cases
    case 1
    with complete_external_peer [of E c ?m body v q x] vok q obtain ds where "fr_sent x = fr_sent v @ ds" "\<forall>d \<in> set ds. asks_report d
     \<or> (\<exists>y at spki. if_external (fr_config v) = Some y \<and> at \<le> ic_now c \<and> ic_now c - at < VERIFIED_TTL
          \<and> attested_key E (fr_sent x) y ?m at spki \<and> pin_proved E (PinSpki spki) d)" by auto
    with 1 who t vs cfg show ?thesis unfolding completion_peer_def Let_def by (intro exI [of _ ds]) auto
  next
    case (2 sv)
    with vok cfg obtain ms where ms: "(?m, ms) \<in> set (if_own (fr_config s))"
      "pinned_server_new E (Some (PinCaAndInstanceRevisions (fr_kms_ca s) (ms_revisions ms) None)) = Ok (sv_client sv)"
      unfolding front_ok_def own_ok_def by metis
    from 2 q have "the_server (OwnServer ?m) v = Some sv" "complete E (OwnServer ?m) body v = (q, x)" by (simp_all add: the_server_def)
    from complete_peer [OF this(1) ms(2) this(2)] ms(1) t vs(1) show ?thesis unfolding completion_peer_def Let_def by metis
  next
    case (3 k org ms sv)
    with vok cfg have p: "pinned_server_new E (Some (PinCaAndInstanceRevisions (fr_kms_ca s) (ms_revisions ms) (Some org))) = Ok (sv_client sv)"
      unfolding front_ok_def clients_ok_def by metis
    from 3 q have "the_server (OrgServer org ?m) v = Some sv" "complete E (OrgServer org ?m) body v = (q, x)" by (simp_all add: the_server_def)
    from complete_peer [OF this(1) p this(2)] 3(2-4) who t vs(1) show ?thesis unfolding completion_peer_def Let_def by metis
  qed
qed simp

text \<open>
  C28. A prompt leaves only for a server that proved what its model pins. After start-up and any history,
  everything \<open>chat_completions\<close> sends is a request for the gateway's report, or goes to a peer that
  proved: under the KMS's CA, a Revision that the operator configured for the model; or, for a key's own
  organization, a Revision that organization registered, run in that organization; or, for a listed
  model without a server and a caller that is no App, the very key that the gateway's report, accepted
  within the last minute, was bound to.
\<close>

theorem prompts_reach_only_pinned_servers:
  assumes "front_start E cf secrets ca keys_key d0 = Ok s0" and "s = fold (front_step E) evs s0" and "chat_completions E c s = (r, t)"
  shows "fr_config s = cf \<and> fr_kms_ca s = ca \<and> fr_keys_key s = keys_key
     \<and> (\<exists>ds. fr_sent t = fr_sent s @ ds \<and> (\<forall>d \<in> set ds. asks_report d \<or> completion_peer E s c (fr_sent t) d))"
proof -
  from front_start_ok [OF assms(1)] have s0: "front_ok E s0" "fr_config s0 = cf" "fr_kms_ca s0 = ca" "fr_keys_key s0 = keys_key" by auto
  have "front_ok E s" unfolding assms(2) by (rule front_pins.run_inv [OF s0(1)])
  moreover have "front_below E s0 s" unfolding assms(2) by (rule front_pins.run_below [OF s0(1)])
  ultimately show ?thesis using chat_completions_peer [OF _ assms(3)] s0(2-4) by (simp add: front_below_def)
qed

theorem prompts_reach_only_pinned_servers_witness:
  "\<exists>t d. chat_completions demo_front_ext demo_app_call demo_front = (Ok (200, ''text/event-stream''), t) \<and> fr_sent t = [d]
     \<and> (asks_report d \<or> completion_peer demo_front_ext demo_front demo_app_call [d] d)"
proof -
  from demo_front_asks obtain t where t: "chat_completions demo_front_ext demo_app_call demo_front = (Ok (200, ''text/event-stream''), t)" "length (fr_sent t) = 1"
    by blast
  have "demo_front = fold (front_step demo_front_ext) [] demo_front" "fr_sent demo_front = []" by (simp_all add: demo_front_def)
  from prompts_reach_only_pinned_servers [OF demo_front_start this(1) t(1)] this(2)
  have "\<forall>d \<in> set (fr_sent t). asks_report d \<or> completion_peer demo_front_ext demo_front demo_app_call (fr_sent t) d" by auto
  moreover from t(2) obtain d where "fr_sent t = [d]" by (cases "fr_sent t") auto
  ultimately show ?thesis using t(1) by auto
qed

end
