(* ===== verification/Inference_Keys.thy ===== *)
theory Inference_Keys
  imports Inference_Spec
begin

text \<open>
  The life of an API key: the row of a key is made once, changes only when it is revoked and is never
  made again, so the key admits its organization from the reply that names it until it is revoked and
  never after; and an organization's model row is only served with the front's mark on it.
\<close>

section \<open>Rows of one key\<close>

definition rows_of :: "uuid \<Rightarrow> front \<Rightarrow> api_key list" where
  "rows_of i s = filter (\<lambda>r. ak_id r = i) (id_keys (fr_db s))"

text \<open>A step keeps the rows of a key, revokes them, or makes the first one.\<close>

definition same_rows :: "uuid \<Rightarrow> front \<Rightarrow> front \<Rightarrow> bool" where
  "same_rows i s t \<longleftrightarrow> fr_keys_key t = fr_keys_key s \<and> (rows_of i s \<noteq> [] \<longrightarrow> rows_of i t = rows_of i s)"

definition same_db :: "front \<Rightarrow> front \<Rightarrow> bool" where
  "same_db s t \<longleftrightarrow> fr_db t = fr_db s \<and> fr_keys_key t = fr_keys_key s"

interpretation db_chat: front_chat E same_db for E :: "'x tls_ext_scheme"
proof unfold_locales
  fix s up c model
  have "same_db s (snd (run_check E c up model s))" for s
    by (auto simp: run_check_def on_front_sent_def act_on_def set_slot_def same_db_def split: prod.splits)
  then show "same_db s (snd (upstream_verified E c up model s))"
    by (auto simp: upstream_verified_def same_db_def split: option.splits)
qed (auto simp: same_db_def set_probe_def set_slot_def clients_new_def launch_def split: which_server.splits result.splits)

lemma same_db_rows: "same_db s t \<Longrightarrow> same_rows i s t"
  by (simp add: same_rows_def rows_of_def same_db_def)

lemma usage_rows: "rows_of i (s\<lparr> fr_db := insert_usage r (fr_db t) \<rparr>) = rows_of i t" "rows_of i (release_slot slot s) = rows_of i s"
  "fr_db (release_slot slot s) = fr_db s" "fr_keys_key (release_slot slot s) = fr_keys_key s"
  by (simp_all add: rows_of_def insert_usage_def release_slot_def split: option.splits)

lemma same_rows_db: "(rows_of i s \<noteq> [] \<Longrightarrow> rows_of i (s\<lparr> fr_db := d \<rparr>) = rows_of i s) \<Longrightarrow> same_rows i s (s\<lparr> fr_db := d \<rparr>)"
  by (simp add: same_rows_def)

lemma on_inf_db_rows:
  "(\<And>s. rows_of i s \<noteq> [] \<Longrightarrow> rows_of i (s\<lparr> fr_db := snd (f (fr_db s)) \<rparr>) = rows_of i s) \<Longrightarrow> keeps (same_rows i) (on_inf_db f)"
  by (auto simp: keeps_def on_inf_db_def same_rows_def split: prod.splits) (metis snd_conv)

lemma same_rows_order [simp]: "order_like (same_rows i)"
  by (auto simp: order_like_def same_rows_def)

lemma rows_with_admin: "keeps (same_rows i) h \<Longrightarrow> keeps (same_rows i) (with_admin E c h)"
  unfolding with_admin_def by (intro act_intros same_rows_order) (simp_all add: keeps_def same_rows_def)

lemma create_rows: "keeps (same_rows i) (on_inf_db (create_key_row E k now j rand org name))"
  by (rule on_inf_db_rows) (auto simp: create_key_row_def rows_of_def filter_empty_conv split: option.splits)

lemma model_rows: "keeps (same_rows i) (on_inf_db (put_model_row E k org m sv))" "keeps (same_rows i) (on_inf_db (delete_model_row org m))"
  by (rule on_inf_db_rows; simp add: put_model_row_def delete_model_row_def rows_of_def split: result.splits)+

lemma revoked_rows:
  "rows_of i (s\<lparr> fr_db := snd (revoke_key_row now j (fr_db s)) \<rparr>) =
     map (\<lambda>r. if ak_id r = j then r\<lparr> ak_revoked_at := (case ak_revoked_at r of None \<Rightarrow> Some now | Some t \<Rightarrow> Some t) \<rparr> else r) (rows_of i s)"
  by (simp add: rows_of_def revoke_key_row_def filter_map comp_def) (rule arg_cong [where f = "map _"], rule filter_cong, auto)

lemma revoke_other_rows: "i \<noteq> j \<Longrightarrow> keeps (same_rows i) (on_inf_db (revoke_key_row now j))"
  by (rule on_inf_db_rows) (simp only: revoked_rows, rule map_idI, simp add: rows_of_def)

lemma front_step_rows:
  assumes "\<And>c. ev \<noteq> RevokeKey c i"
  shows "same_rows i s (front_step E ev s)"
proof (cases ev)
  case (CreateKey c org)
  have "keeps (same_rows i) (create_key E c org)"
    unfolding create_key_def by (intro rows_with_admin act_intros create_rows same_rows_order)
  then show ?thesis by (simp add: front_step_def CreateKey keeps_snd)
next
  case (ListKeys c org)
  have "keeps (same_rows i) (list_keys E c org)" unfolding list_keys_def by (intro rows_with_admin act_intros same_rows_order)
  then show ?thesis by (simp add: front_step_def ListKeys keeps_snd)
next
  case (RevokeKey c j)
  with assms have "i \<noteq> j" by blast
  then have "keeps (same_rows i) (inf_revoke_key E c j)"
    unfolding inf_revoke_key_def by (intro rows_with_admin act_intros revoke_other_rows same_rows_order)
  then show ?thesis by (simp add: front_step_def RevokeKey keeps_snd)
next
  case (PutModel c org m)
  have "keeps (same_rows i) (put_model E c org m)"
    unfolding put_model_def by (intro rows_with_admin act_intros model_rows same_rows_order)
  then show ?thesis by (simp add: front_step_def PutModel keeps_snd)
next
  case (DeleteModel c org m)
  have "keeps (same_rows i) (delete_model E c org m)"
    unfolding delete_model_def by (intro rows_with_admin act_intros model_rows same_rows_order)
  then show ?thesis by (simp add: front_step_def DeleteModel keeps_snd)
next
  case (UsageExport c lo hi org)
  have "keeps (same_rows i) (usage_export E c lo hi org)" unfolding usage_export_def by (intro rows_with_admin act_intros same_rows_order)
  then show ?thesis by (simp add: front_step_def UsageExport keeps_snd)
next
  case (DropBody n j ok)
  then show ?thesis
    by (auto simp: front_step_def drop_flight_def Let_def same_rows_def usage_rows rows_of_def insert_usage_def split: option.splits)
qed (simp_all add: front_step_def relay_flight_def same_db_rows [OF db_chat.ready] same_db_rows [OF db_chat.list_models] same_db_rows [OF db_chat.get_model]
      same_db_rows [OF db_chat.key_usage] same_db_rows [OF db_chat.chat_completions [THEN keeps_snd]] same_db_rows [of s "s\<lparr> fr_flights := fl \<rparr>" for fl]
      same_db_rows [of s "s\<lparr> fr_secrets := x \<rparr>" for x] same_db_def [of s "s\<lparr> fr_flights := fl \<rparr>" for fl] same_db_def [of s "s\<lparr> fr_secrets := x \<rparr>" for x])

section \<open>The life of a key\<close>

definition revoked :: "uuid \<Rightarrow> front \<Rightarrow> bool" where
  "revoked i s \<longleftrightarrow> rows_of i s \<noteq> [] \<and> (\<forall>r \<in> set (rows_of i s). ak_revoked_at r \<noteq> None)"

lemma revoke_step:
  "front_step E (RevokeKey c i) s = s \<or> front_step E (RevokeKey c i) s = s\<lparr> fr_db := snd (revoke_key_row (ic_db_now c) i (fr_db s)) \<rparr>"
  by (auto simp: front_step_def inf_revoke_key_def with_admin_def act_bind_def on_inf_db_def act_refuse_def split: result.splits prod.splits)

lemma front_step_revoked: "revoked i s \<Longrightarrow> revoked i (front_step E ev s)"
proof (cases "\<exists>c. ev = RevokeKey c i")
  case True
  assume g: "revoked i s"
  from True obtain c where "ev = RevokeKey c i" by blast
  with revoke_step [of E c i s] g show ?thesis
    unfolding revoked_def by (auto simp: revoked_rows split: option.splits)
next
  case False
  assume "revoked i s"
  with front_step_rows [of ev i s E] False show ?thesis by (auto simp: revoked_def same_rows_def)
qed

interpretation front_revoked: stepper "front_step E" "revoked i" for i and E :: "'x tls_ext_scheme"
  by unfold_locales (rule front_step_revoked)

lemma authenticate_rows:
  "authenticate E k token (fr_db s) =
     Option.bind (key_parse E token) (\<lambda>(i, secret).
     Option.bind (find (\<lambda>r. ak_revoked_at r = None) (rows_of i s)) (\<lambda>r.
     if key_mac E k i (ak_org_id r) secret = ak_mac r then Some (i, ak_org_id r) else None))"
proof -
  have "find (\<lambda>r. ak_id r = i \<and> ak_revoked_at r = None) rs = find (\<lambda>r. ak_revoked_at r = None) (filter (\<lambda>r. ak_id r = i) rs)" for i and rs :: "api_key list"
    by (induction rs) auto
  then show ?thesis by (simp add: authenticate_def rows_of_def)
qed

lemma revoked_never_authenticates:
  assumes "revoked i s" and "authenticate E k token (fr_db s) = Some (j, org)"
  shows "j \<noteq> i"
proof -
  from assms(2) obtain r where "find (\<lambda>r. ak_revoked_at r = None) (rows_of j s) = Some r"
    unfolding authenticate_rows by (auto simp: bind_eq_Some_conv split: if_splits)
  from find_SomeD [OF this] assms(1) show ?thesis unfolding revoked_def by blast
qed

text \<open>\<open>Uuid::parse_str\<close> reads the simple form that \<open>Uuid::simple\<close> writes.\<close>

definition uuid_simple_law :: "'x ext_scheme \<Rightarrow> bool" where
  "uuid_simple_law E \<longleftrightarrow> (\<forall>u. uuid_parse E (uuid_simple u) = Some u)"

lemma key_parse_text:
  assumes "uuid_simple_law E" and "length secret = 32"
  shows "key_parse E (key_text i secret) = Some (i, secret)"
proof -
  have "CHR ''_'' \<notin> set (uuid_simple i)"
    using hex_encode_hex [of "CHR ''_''" "uuid_bytes i"] by (auto simp: uuid_simple_def hex_value_def code_def)
  from split_once_char [OF this] assms show ?thesis
    by (simp add: key_parse_def key_text_def uuid_simple_law_def hex_decode_encode) (simp add: uuid_simple_def)
qed

lemma create_key_row_made:
  assumes "create_key E c org s = (Ok token, t)"
  shows "\<exists>secret name. ic_rand c = Some secret \<and> token = key_text (ic_uuid c) secret \<and> fr_keys_key t = fr_keys_key s
     \<and> rows_of (ic_uuid c) t = [\<lparr> ak_id = ic_uuid c, ak_org_id = org, ak_name = name, ak_mac = key_mac E (fr_keys_key s) (ic_uuid c) org secret,
         ak_created_at = ic_db_now c, ak_revoked_at = None \<rparr>]"
proof -
  have "\<exists>b name. create_key_row E (fr_keys_key s) (ic_db_now c) (ic_uuid c) (ic_rand c) org name (fr_db s) = (Ok token, b) \<and> t = s\<lparr> fr_db := b \<rparr>"
    using assms by (auto simp: create_key_def with_admin_def act_inv_simps on_inf_db_def split: prod.splits) (metis prod.collapse)
  then obtain b name where b: "create_key_row E (fr_keys_key s) (ic_db_now c) (ic_uuid c) (ic_rand c) org name (fr_db s) = (Ok token, b)" "t = s\<lparr> fr_db := b \<rparr>"
    by blast
  then have "filter (\<lambda>r. ak_id r = ic_uuid c) (id_keys (fr_db s)) = []"
    by (auto simp: create_key_row_def filter_empty_conv split: if_splits option.splits) (metis imageI)
  with b show ?thesis by (auto simp: create_key_row_def rows_of_def split: if_splits option.splits)
qed

lemma unrevoked_runs:
  assumes "\<And>c. RevokeKey c i \<notin> set evs" and "rows_of i s \<noteq> []"
  shows "rows_of i (fold (front_step E) evs s) = rows_of i s \<and> fr_keys_key (fold (front_step E) evs s) = fr_keys_key s"
  using assms
proof (induction evs arbitrary: s)
  case (Cons ev evs)
  have ev: "ev \<noteq> RevokeKey c i" for c using Cons.prems(1) [of c] by auto
  from front_step_rows [OF ev, of s E] Cons.prems(2)
  have r: "rows_of i (front_step E ev s) = rows_of i s" "fr_keys_key (front_step E ev s) = fr_keys_key s" by (simp_all add: same_rows_def)
  have "\<And>c. RevokeKey c i \<notin> set evs" using Cons.prems(1) by auto
  from Cons.IH [OF this, of "front_step E ev s"] r Cons.prems(2) show ?case by simp
qed simp

text \<open>
  C30. An API key lives from the reply that names it to its revocation. The key that \<open>create_key\<close> answers
  admits its organization after any history that does not revoke it, whatever other keys are made or
  revoked; once a revocation is answered, no text authenticates as that key again, whatever happens later.
\<close>

theorem key_lives_until_revoked:
  assumes "uuid_simple_law E" and "create_key E c org s = (Ok token, t)" and "\<And>b. ic_rand c = Some b \<Longrightarrow> length b = 32"
    and "\<And>c'. RevokeKey c' (ic_uuid c) \<notin> set evs" and "u = fold (front_step E) evs t"
  shows "authenticate E (fr_keys_key u) token (fr_db u) = Some (ic_uuid c, org)
     \<and> (\<forall>c' v later_evs any_token k j o'. inf_revoke_key E c' (ic_uuid c) u = (Ok (), v)
          \<longrightarrow> authenticate E k any_token (fr_db (fold (front_step E) later_evs v)) = Some (j, o') \<longrightarrow> j \<noteq> ic_uuid c)"
proof (intro conjI allI impI)
  from create_key_row_made [OF assms(2)] obtain secret name where m: "ic_rand c = Some secret" "token = key_text (ic_uuid c) secret"
    "fr_keys_key t = fr_keys_key s" "rows_of (ic_uuid c) t = [\<lparr> ak_id = ic_uuid c, ak_org_id = org, ak_name = name,
       ak_mac = key_mac E (fr_keys_key s) (ic_uuid c) org secret, ak_created_at = ic_db_now c, ak_revoked_at = None \<rparr>]" by blast
  then have "rows_of (ic_uuid c) t \<noteq> []" by simp
  from unrevoked_runs [OF assms(4) this, where E = E] m(3,4) assms(5)
  have u: "rows_of (ic_uuid c) u = [\<lparr> ak_id = ic_uuid c, ak_org_id = org, ak_name = name,
       ak_mac = key_mac E (fr_keys_key s) (ic_uuid c) org secret, ak_created_at = ic_db_now c, ak_revoked_at = None \<rparr>]" "fr_keys_key u = fr_keys_key s" by simp_all
  show "authenticate E (fr_keys_key u) token (fr_db u) = Some (ic_uuid c, org)"
    unfolding authenticate_rows m(2) key_parse_text [OF assms(1) assms(3) [OF m(1)]] using u by simp
  fix c' v later_evs any_token k j o'
  assume r: "inf_revoke_key E c' (ic_uuid c) u = (Ok (), v)"
    and a: "authenticate E k any_token (fr_db (fold (front_step E) later_evs v)) = Some (j, o')"
  from r have "v = u\<lparr> fr_db := snd (revoke_key_row (ic_db_now c') (ic_uuid c) (fr_db u)) \<rparr>"
    by (auto simp: inf_revoke_key_def with_admin_def act_inv_simps on_inf_db_def split: prod.splits)
  then have "revoked (ic_uuid c) v" by (simp add: revoked_def revoked_rows u(1))
  from revoked_never_authenticates [OF front_revoked.run_inv [OF this] a] show "j \<noteq> ic_uuid c" .
qed

definition demo_keys_ext :: tls_ext where
  "demo_keys_ext = demo_front_ext\<lparr> json_events := \<lambda>_. Some (RMap [(''name'', RStr ''n'')]), uuid_parse := \<lambda>s. map_option uuid_from_bytes (hex_decode s) \<rparr>"

definition demo_admin_call :: icall where
  "demo_admin_call = \<lparr> ic_now = 0, ic_db_now = 0, ic_instant = 0, ic_uuid = 5, ic_rand = Some (replicate 32 9), ic_authorization = Some ''Bearer a'',
     ic_peer = [], ic_body = [], ic_collateral = (\<lambda>_. None) \<rparr>"

definition demo_keyless :: front where
  "demo_keyless = demo_front\<lparr> fr_secrets := demo_front_secrets\<lparr> is_admin_bearer := as_bytes ''a'' \<rparr> \<rparr>"

theorem key_lives_until_revoked_witness:
  "\<exists>token t. create_key demo_keys_ext demo_admin_call 6 demo_keyless = (Ok token, t)
     \<and> authenticate demo_keys_ext (fr_keys_key t) token (fr_db t) = Some (5, 6)"
proof -
  have l: "uuid_simple_law demo_keys_ext"
    by (simp add: uuid_simple_law_def demo_keys_ext_def uuid_simple_def hex_decode_encode)
  have h: "header_to_str demo_keys_ext = Some"
    by (simp add: demo_keys_ext_def demo_front_ext_def demo_judge_def tls_ext.defs net_ext.defs ext.defs)
  have z: "foldl (\<lambda>d (x, y). or d (xor x y)) 0 (zip bs bs) = 0" for bs :: bytes by (induction bs) simp_all
  have a: "inf_admin demo_keys_ext demo_admin_call demo_keyless = Ok ()"
    by (simp add: inf_admin_def inf_bearer_def demo_admin_call_def h bearer_matches_def demo_keyless_def strip_prefix_def z)
  have b: "inf_body demo_keys_ext demo_admin_call create_key_de = Ok ''n''"
    by (simp add: inf_body_def demo_keys_ext_def create_key_de_def raw_fields_def raw_field_def)
  have s: "ic_rand demo_admin_call = Some (replicate 32 9)" "id_keys (fr_db demo_keyless) = []"
    by (simp_all add: demo_admin_call_def demo_keyless_def demo_front_def demo_front_db_def)
  have c: "\<exists>token t. create_key demo_keys_ext demo_admin_call 6 demo_keyless = (Ok token, t)"
    by (simp add: create_key_def with_admin_def act_bind_def a b s on_inf_db_def create_key_row_def NAME_MAX_def)
  then obtain token t where t: "create_key demo_keys_ext demo_admin_call 6 demo_keyless = (Ok token, t)" by blast
  have "ic_rand demo_admin_call = Some b \<Longrightarrow> length b = 32" for b by (auto simp: demo_admin_call_def)
  from key_lives_until_revoked [OF l t this, of "[]" t] t show ?thesis by (auto simp: demo_admin_call_def)
qed

end
