(* ===== verification/Runtime.thy ===== *)
theory Runtime
  imports Client Attest_Wire Channel_Public
begin

text \<open>
  \<^verbatim>\<open>services/alpha-runtime/src/lib.rs\<close>, \<^verbatim>\<open>socket.rs\<close> and \<^verbatim>\<open>gpu.rs\<close>: the sidecar of an Instance. It has one key, attests it to the
  KMS into a leaf it renews, keeps the newest platform document it accepted, hands Secrets and keys
  to the tenant's containers and writes the declared Secrets to their files.

  The state is the process's memory, the Secret files and everything sent to the KMS, each with the
  peer it went to. A route, a pass or an attestation runs as one step at one reading of the clock.
\<close>

section \<open>Errors\<close>

datatype rt_error = RtConfig | RtKey | RtEvidence | RtKms client_error | RtCertificate | RtNotAttested | RtSocket | RtPlatform | RtTimedOut

definition rt_kind :: "rt_error \<Rightarrow> string" where
  "rt_kind e =
     (case e of
        RtConfig \<Rightarrow> ''config''
      | RtKey \<Rightarrow> ''key''
      | RtEvidence \<Rightarrow> ''evidence''
      | RtKms k \<Rightarrow> error_kind k
      | RtCertificate \<Rightarrow> ''certificate''
      | RtNotAttested \<Rightarrow> ''not_attested''
      | RtSocket \<Rightarrow> ''socket''
      | RtPlatform \<Rightarrow> ''platform_document''
      | RtTimedOut \<Rightarrow> ''timed_out'')"

fun rt_revoked_error :: "rt_error \<Rightarrow> bool" where
  "rt_revoked_error (RtKms (CApi k _)) \<longleftrightarrow> k = ''revision_revoked''"
| "rt_revoked_error _ \<longleftrightarrow> False"

definition EXIT_REFUSED :: int where "EXIT_REFUSED = 1"
definition EXIT_REVOKED :: int where "EXIT_REVOKED = 78"

definition exit_code :: "rt_error \<Rightarrow> int" where
  "exit_code e = (if rt_revoked_error e then EXIT_REVOKED else EXIT_REFUSED)"

datatype rt_exit = Drained | ExitRevoked | QuoteStuck

definition rt_exit_code :: "rt_exit \<Rightarrow> int" where
  "rt_exit_code x = (case x of Drained \<Rightarrow> 0 | ExitRevoked \<Rightarrow> EXIT_REVOKED | QuoteStuck \<Rightarrow> 1)"

section \<open>Configuration\<close>

definition comma_list :: "string \<Rightarrow> string list" where
  "comma_list text = filter (\<lambda>s. s \<noteq> []) (map trim (split_on (CHR '','') text))"

type_synonym declared = "(string \<times> string list) list"

text \<open>A \<open>BTreeMap\<close> of \<open>BTreeSet\<close>s out of a value: sorted, each name once.\<close>

definition secrets_value :: "json \<Rightarrow> declared option" where
  "secrets_value v =
     (case v of
        JObject m \<Rightarrow> to_option (collect_results (\<lambda>(s, x). and_then (ok_or (de_vec json_as_str x) ()) (\<lambda>ns. Ok (s, sort (remdups ns)))) m)
      | _ \<Rightarrow> None)"

definition parse_secrets :: "'x ext_scheme \<Rightarrow> string option \<Rightarrow> (declared, rt_error) result" where
  "parse_secrets E text =
     (case text of
        None \<Rightarrow> Ok []
      | Some t \<Rightarrow>
          and_then (ok_or (Option.bind (parse E (as_bytes t)) secrets_value) RtConfig) (\<lambda>secrets.
          refuse_if (list_ex (\<lambda>(service, names). \<not> is_key_purpose service \<or> list_ex (\<lambda>n. \<not> is_key_purpose n) names) secrets) RtConfig
          (Ok secrets)))"

definition is_port :: "string \<Rightarrow> bool" where
  "is_port p \<longleftrightarrow> list_all is_ascii_digit p \<and> (case parse_uint (2 ^ 16 - 1) p of None \<Rightarrow> False | Some n \<Rightarrow> n \<noteq> 0)"

definition parse_upstream :: "string option \<Rightarrow> (string option, rt_error) result" where
  "parse_upstream text =
     (case text of
        None \<Rightarrow> Ok None
      | Some t \<Rightarrow>
          and_then (ok_or (rsplit_once '':'' t) RtConfig) (\<lambda>(host, port).
          refuse_if (\<not> is_upstream_host host) RtConfig
          (refuse_if (\<not> is_port port) RtConfig (Ok (Some t)))))"

definition parse_callers :: "'x ext_scheme \<Rightarrow> string option \<Rightarrow> string option \<Rightarrow> (uuid list, rt_error) result" where
  "parse_callers E text upstream =
     and_then (collect_results (\<lambda>s. ok_or (uuid_parse E s) RtConfig) (comma_list (case text of None \<Rightarrow> [] | Some t \<Rightarrow> t))) (\<lambda>callers.
     refuse_if (callers \<noteq> [] \<and> upstream = None) RtConfig (Ok callers))"

definition is_ascii_graphic :: "char \<Rightarrow> bool" where
  "is_ascii_graphic c \<longleftrightarrow> 33 \<le> code c \<and> code c \<le> 126"

definition parse_ready :: "string option \<Rightarrow> string option \<Rightarrow> (string option, rt_error) result" where
  "parse_ready text upstream =
     (case text of
        None \<Rightarrow> Ok None
      | Some t \<Rightarrow>
          refuse_if (upstream = None) RtConfig
          (refuse_if (\<not> starts_with ''/'' t \<or> length t > 256 \<or> \<not> list_all is_ascii_graphic t) RtConfig (Ok (Some t))))"

definition parse_revisions :: "string \<Rightarrow> (compose_hash list, rt_error) result" where
  "parse_revisions text =
     and_then (collect_results (\<lambda>s. ok_or (compose_hash_from_str s) RtConfig) (comma_list text)) (\<lambda>revisions.
     refuse_if (revisions = []) RtConfig (Ok revisions))"

record inference_front =
  if_url :: string
  if_revisions :: "compose_hash list"

definition https_origin :: "'x tls_ext_scheme \<Rightarrow> string \<Rightarrow> string option" where
  "https_origin E text =
     Option.bind (url_parse E text) (\<lambda>u.
     if url_scheme u = ''https'' \<and> url_host u \<noteq> None \<and> url_segments u = Some [[]] \<and> url_query u = None \<and> url_fragment u = None
        \<and> url_username u = [] \<and> url_password u = None
     then Some (trim_end_matches (CHR ''/'') (url_text E u)) else None)"

definition parse_inference :: "'x tls_ext_scheme \<Rightarrow> string option \<Rightarrow> string option \<Rightarrow> (inference_front option, rt_error) result" where
  "parse_inference E u revisions =
     (case (u, revisions) of
        (None, None) \<Rightarrow> Ok None
      | (Some x, Some rs) \<Rightarrow>
          and_then (ok_or (https_origin E (trim x)) RtConfig) (\<lambda>o1.
          and_then (parse_revisions rs) (\<lambda>r. Ok (Some \<lparr> if_url = o1, if_revisions = r \<rparr>)))
      | _ \<Rightarrow> Err RtConfig)"

datatype kms_revisions = Listed "compose_hash list" | Document (kd_url: string) (kd_min_version: nat) (kd_keys: release_keys)

text \<open>\<open>keys\<close> is what \<open>release_keys()\<close> reads from the file compiled into the program.\<close>

definition kms_revisions_parse :: "(release_keys, chan_error) result \<Rightarrow> string option \<Rightarrow> string option \<Rightarrow> string option \<Rightarrow>
    (kms_revisions, rt_error) result" where
  "kms_revisions_parse keys listed document_url min_version =
     (case (listed, document_url, min_version) of
        (Some l, None, None) \<Rightarrow> and_then (parse_revisions l) (\<lambda>r. Ok (Listed r))
      | (None, Some u, mv) \<Rightarrow>
          refuse_if (\<not> starts_with ''https://'' (trim u)) RtConfig
          (and_then (ok_or (Option.bind (Option.bind mv (\<lambda>v. parse_uint (2 ^ 64 - 1) (trim v))) (\<lambda>n. if n > 0 then Some n else None)) RtConfig) (\<lambda>n.
           and_then (map_err (\<lambda>_. RtConfig) keys) (\<lambda>k. Ok (Document (trim u) n k))))
      | _ \<Rightarrow> Err RtConfig)"

record rt_config =
  rc_kms_ca_spki_sha256 :: bytes
  rc_kms_revisions :: kms_revisions
  rc_kms_endpoints :: "string list"
  rc_secrets :: declared
  rc_tls_upstream :: "string option"
  rc_tls_callers :: "uuid list"
  rc_tls_ready :: "string option"
  rc_public :: "string option"
  rc_inference :: "inference_front option"

definition rt_config_parse :: "'x ext_scheme \<Rightarrow> string \<Rightarrow> kms_revisions \<Rightarrow> string \<Rightarrow> string option \<Rightarrow> string option \<Rightarrow> string option \<Rightarrow> string option \<Rightarrow>
    (rt_config, rt_error) result" where
  "rt_config_parse E ca_spki_sha256 revisions endpoints secrets tls_upstream tls_callers tls_ready =
     and_then (ok_or (Option.bind (strip_prefix ''sha256:'' (trim ca_spki_sha256)) (hex_bytes 32)) RtConfig) (\<lambda>ca.
     let es = map (trim_end_matches (CHR ''/'')) (comma_list endpoints) in
     refuse_if (es = []) RtConfig
     (and_then (parse_secrets E secrets) (\<lambda>ss.
      and_then (parse_upstream tls_upstream) (\<lambda>up.
      and_then (parse_callers E tls_callers up) (\<lambda>cs.
      and_then (parse_ready tls_ready up) (\<lambda>rd.
      Ok \<lparr> rc_kms_ca_spki_sha256 = ca, rc_kms_revisions = revisions, rc_kms_endpoints = es, rc_secrets = ss, rc_tls_upstream = up,
        rc_tls_callers = cs, rc_tls_ready = rd, rc_public = None, rc_inference = None \<rparr>))))))"

text \<open>\<open>dns_ok\<close> is \<open>rustls\<close>'s \<open>DnsName::try_from\<close>.\<close>

definition parse_public_name :: "(string \<Rightarrow> bool) \<Rightarrow> string option \<Rightarrow> string option \<Rightarrow> uuid list \<Rightarrow> (string option, rt_error) result" where
  "parse_public_name dns_ok name upstream callers =
     (case name of
        None \<Rightarrow> Ok None
      | Some n \<Rightarrow>
          refuse_if (CHR ''.'' \<notin> set n \<or> list_ex (\<lambda>b. 65 \<le> code b \<and> code b \<le> 90) n \<or> \<not> dns_ok n) RtConfig
          (refuse_if (upstream = None) RtConfig
          (refuse_if (callers \<noteq> []) RtConfig (Ok (Some n)))))"

definition rt_config_from_env :: "'x tls_ext_scheme \<Rightarrow> (string \<Rightarrow> bool) \<Rightarrow> (release_keys, chan_error) result \<Rightarrow> (string \<Rightarrow> string option) \<Rightarrow>
    (rt_config, rt_error) result" where
  "rt_config_from_env E dns_ok keys env =
     and_then (ok_or (env ''ALPHACOMPUTE_KMS_CA_SPKI_SHA256'') RtConfig) (\<lambda>ca.
     and_then (kms_revisions_parse keys (env ''ALPHACOMPUTE_KMS_REVISIONS'') (env ''ALPHACOMPUTE_PLATFORM_DOCUMENT_URL'')
       (env ''ALPHACOMPUTE_PLATFORM_MIN_VERSION'')) (\<lambda>revisions.
     and_then (ok_or (env ''ALPHACOMPUTE_KMS_ENDPOINTS'') RtConfig) (\<lambda>endpoints.
     and_then (rt_config_parse E ca revisions endpoints (env ''ALPHACOMPUTE_SECRETS'') (env ''ALPHACOMPUTE_TLS_UPSTREAM'')
       (env ''ALPHACOMPUTE_TLS_CALLER_APPS'') (env ''ALPHACOMPUTE_TLS_UPSTREAM_READY'')) (\<lambda>cf.
     and_then (parse_public_name dns_ok (env ''ALPHACOMPUTE_PUBLIC_NAME'') (rc_tls_upstream cf) (rc_tls_callers cf)) (\<lambda>pub.
     and_then (parse_inference E (env ''ALPHACOMPUTE_INFERENCE_URL'') (env ''ALPHACOMPUTE_INFERENCE_REVISIONS'')) (\<lambda>inf.
     Ok (cf\<lparr> rc_public := pub, rc_inference := inf \<rparr>)))))))"

section \<open>Replies of the KMS\<close>

definition nonce_reply_de :: "raw \<Rightarrow> string option" where
  "nonce_reply_de v =
     Option.bind (raw_fields False [(''nonce'', False), (''expires_at'', False)] v) (\<lambda>m.
     Option.bind (raw_field m ''nonce'' raw_as_str) (\<lambda>n. Option.bind (raw_field m ''expires_at'' raw_as_str) (\<lambda>_. Some n)))"

text \<open>A unit variant is read from its name, or from an object with the name and null.\<close>

definition verdict_de :: "raw \<Rightarrow> verdict option" where
  "verdict_de v =
     Option.bind (case v of RStr s \<Rightarrow> Some s | RMap [(s, RNull)] \<Rightarrow> Some s | _ \<Rightarrow> None)
       (map_of [(''verified'', Verified), (''failed'', VerdictFailed), (''unknown'', VerdictUnknown)])"

definition measured_de :: "raw \<Rightarrow> measured option" where
  "measured_de v =
     (let get = (\<lambda>m k. raw_field m k (\<lambda>r. Option.bind (raw_as_str r) measurement_from_str)) in
      Option.bind (raw_fields False [(''mrtd'', False), (''rtmr0'', False), (''rtmr1'', False), (''rtmr2'', False), (''rtmr3'', False)] v) (\<lambda>m.
      Option.bind (get m ''mrtd'') (\<lambda>t. Option.bind (get m ''rtmr0'') (\<lambda>a. Option.bind (get m ''rtmr1'') (\<lambda>b.
      Option.bind (get m ''rtmr2'') (\<lambda>c. Option.bind (get m ''rtmr3'') (\<lambda>d.
      Some \<lparr> m_mrtd = t, m_rtmr0 = a, m_rtmr1 = b, m_rtmr2 = c, m_rtmr3 = d \<rparr>)))))))"

definition attested_revision_de :: "'x ext_scheme \<Rightarrow> raw \<Rightarrow> attested_revision option" where
  "attested_revision_de E v =
     Option.bind (raw_fields False [(''compose_hash'', False), (''app_id'', False), (''org_id'', False)] v) (\<lambda>m.
     Option.bind (raw_field m ''compose_hash'' (\<lambda>r. Option.bind (raw_as_str r) compose_hash_from_str)) (\<lambda>h.
     Option.bind (raw_field m ''app_id'' (\<lambda>r. Option.bind (raw_as_str r) (uuid_parse E))) (\<lambda>a.
     Option.bind (raw_field m ''org_id'' (\<lambda>r. Option.bind (raw_as_str r) (uuid_parse E))) (\<lambda>o'.
     Some \<lparr> ar_compose_hash = h, ar_app_id = a, ar_org_id = o' \<rparr>))))"

definition attestation_result_de :: "'x ext_scheme \<Rightarrow> raw \<Rightarrow> attestation_result option" where
  "attestation_result_de E v =
     Option.bind (raw_fields False [(''format'', False), (''verdict'', False), (''measured'', False), (''tcb_status'', False), (''advisories'', False),
       (''os_image'', False), (''revision'', False), (''runtime_pubkey_sha256'', False), (''evidence_sha256'', False), (''verified_at'', False),
       (''policy_version'', False), (''gpu_serials'', True)] v) (\<lambda>m.
     Option.bind (raw_field m ''format'' raw_as_str) (\<lambda>f.
     Option.bind (raw_field m ''verdict'' verdict_de) (\<lambda>vd.
     Option.bind (raw_field m ''measured'' measured_de) (\<lambda>ms.
     Option.bind (raw_field m ''tcb_status'' raw_as_str) (\<lambda>ts.
     Option.bind (raw_field m ''advisories'' (raw_vec raw_as_str)) (\<lambda>ad.
     Option.bind (raw_field m ''os_image'' raw_as_str) (\<lambda>os.
     Option.bind (raw_field m ''revision'' (attested_revision_de E)) (\<lambda>rv.
     Option.bind (raw_field m ''runtime_pubkey_sha256'' raw_as_str) (\<lambda>pk.
     Option.bind (raw_field m ''evidence_sha256'' raw_as_str) (\<lambda>es.
     Option.bind (raw_field m ''verified_at'' raw_as_str) (\<lambda>va.
     Option.bind (raw_field m ''policy_version'' raw_as_u64) (\<lambda>pv.
     Option.bind (case map_of m ''gpu_serials'' of None \<Rightarrow> Some [] | Some x \<Rightarrow> raw_vec raw_as_str x) (\<lambda>gs.
     Some \<lparr> at_format = f, at_verdict = vd, at_measured = ms, at_tcb_status = ts, at_advisories = ad, at_os_image = os, at_revision = rv,
       at_runtime_pubkey_sha256 = pk, at_evidence_sha256 = es, at_verified_at = va, at_policy_version = word_of_nat pv, at_gpu_serials = gs \<rparr>)))))))))))))"

record attest_reply =
  ay_certificate_chain :: "string list"
  ay_not_after :: string
  ay_result :: attestation_result

definition attest_reply_de :: "'x ext_scheme \<Rightarrow> raw \<Rightarrow> attest_reply option" where
  "attest_reply_de E v =
     Option.bind (raw_fields False [(''certificate_chain'', False), (''not_after'', False), (''attestation_result'', False)] v) (\<lambda>m.
     Option.bind (raw_field m ''certificate_chain'' (raw_vec raw_as_str)) (\<lambda>ch.
     Option.bind (raw_field m ''not_after'' raw_as_str) (\<lambda>na.
     Option.bind (raw_field m ''attestation_result'' (attestation_result_de E)) (\<lambda>r.
     Some \<lparr> ay_certificate_chain = ch, ay_not_after = na, ay_result = r \<rparr>))))"

record kms_secret =
  ks_value :: string
  ks_content_sha256 :: string
  ks_issued_at :: string

definition kms_secret_de :: "raw \<Rightarrow> kms_secret option" where
  "kms_secret_de v =
     Option.bind (raw_fields False [(''value'', False), (''content_sha256'', False), (''issued_at'', False)] v) (\<lambda>m.
     Option.bind (raw_field m ''value'' raw_as_str) (\<lambda>x.
     Option.bind (raw_field m ''content_sha256'' raw_as_str) (\<lambda>h.
     Option.bind (raw_field m ''issued_at'' raw_as_str) (\<lambda>i. Some \<lparr> ks_value = x, ks_content_sha256 = h, ks_issued_at = i \<rparr>))))"

definition derived_key_de :: "raw \<Rightarrow> string option" where
  "derived_key_de v = Option.bind (raw_fields False [(''key'', False)] v) (\<lambda>m. raw_field m ''key'' raw_as_str)"

definition attest_body :: "'x ext_scheme \<Rightarrow> bytes \<Rightarrow> bytes \<Rightarrow> instance_evidence \<Rightarrow> json" where
  "attest_body E spki n ev =
     jobj [(''runtime_pubkey'', JString (b64_enc E spki)), (''nonce'', JString (b64_enc E n)), (''evidence'', instance_evidence_json E ev)]"

section \<open>The state\<close>

datatype revision_text = ComposeText string | InitDataText string

text \<open>What one attestation leaves behind: the certified key is the chain and the private key.\<close>

record attested =
  ad_identity :: instance_sans
  ad_chain_pem :: "string list"
  ad_not_after :: time
  ad_result :: attestation_result
  ad_certified :: "bytes list \<times> bytes"
  ad_attestation :: "bytes option"
  ad_client :: kms_client
  ad_secrets :: "string \<Rightarrow> kms_secret option"
  ad_keys :: "(string \<times> string) list"

record runtime =
  rt_config :: rt_config
  rt_pkcs8 :: bytes
  rt_spki :: bytes
  rt_revision :: "revision_text option"
  rt_accepted :: "(nat \<times> compose_hash list) option"
  rt_attested :: "attested option"
  rt_attest_error :: "string option"
  rt_revoked :: bool
  rt_files :: "string \<times> string \<Rightarrow> bytes option"
  rt_sent :: "dialled list"

text \<open>
  What a step finds: the clock, what a plain GET of an address returns, the quote service's evidence
  for some report data (\<open>None\<close> when it takes longer than \<open>QUOTE_TIMEOUT\<close>), Intel's collateral for
  a quote as JSON, and which files can be written.
\<close>

record rcall =
  rq_now :: time
  rq_fetch :: "string \<Rightarrow> answer option"
  rq_evidence :: "bytes \<Rightarrow> (instance_evidence, unit) result option"
  rq_collateral :: "bytes \<Rightarrow> json option"
  rq_writable :: "string \<Rightarrow> string \<Rightarrow> bool"

type_synonym 'a rt_step = "(runtime, 'a, rt_error) action"

definition on_rt_sent :: "(dialled list, 'a, client_error) action \<Rightarrow> 'a rt_step" where
  "on_rt_sent m = act_on rt_sent (\<lambda>l. rt_sent_update (\<lambda>_. l)) (act_map_err RtKms m)"

definition last_attested :: "runtime \<Rightarrow> attested option" where
  "last_attested s = rt_attested s"

definition current :: "time \<Rightarrow> runtime \<Rightarrow> attested option" where
  "current now s = Option.bind (last_attested s) (\<lambda>a. if now < ad_not_after a then Some a else None)"

text \<open>\<open>p256_to_pkcs8\<close> stands for the \<open>p256\<close> crate's encoding of the signing key.\<close>

definition runtime_new :: "'x ext_scheme \<Rightarrow> (bytes \<Rightarrow> bytes option) \<Rightarrow> rt_config \<Rightarrow> bytes \<Rightarrow> revision_text option \<Rightarrow>
    (string \<times> string \<Rightarrow> bytes option) \<Rightarrow> (runtime, rt_error) result" where
  "runtime_new E p256_to_pkcs8 cf key revision files =
     and_then (ok_or (p256_to_spki E (p256_public E key)) RtKey) (\<lambda>spki.
     and_then (ok_or (p256_to_pkcs8 key) RtKey) (\<lambda>pkcs8.
     Ok \<lparr> rt_config = cf, rt_pkcs8 = pkcs8, rt_spki = spki, rt_revision = revision, rt_accepted = None, rt_attested = None, rt_attest_error = None,
       rt_revoked = False, rt_files = files, rt_sent = [] \<rparr>))"

definition note_error :: "'a rt_step \<Rightarrow> 'a rt_step" where
  "note_error m s = (case m s of (Ok a, t) \<Rightarrow> (Ok a, t) | (Err e, t) \<Rightarrow> (Err e, if rt_revoked_error e then t\<lparr> rt_revoked := True \<rparr> else t))"

section \<open>The platform document\<close>

definition DOCUMENT_CAP :: nat where "DOCUMENT_CAP = 2 ^ 20"

definition release_signature_raw_de :: "raw \<Rightarrow> release_signature option" where
  "release_signature_raw_de v =
     Option.bind (raw_fields True [(''key'', False), (''algorithm'', False), (''signature'', False)] v) (\<lambda>m.
     Option.bind (raw_field m ''key'' raw_as_str) (\<lambda>k.
     Option.bind (raw_field m ''algorithm'' raw_as_str) (\<lambda>a.
     Option.bind (raw_field m ''signature'' raw_as_str) (\<lambda>s. Some \<lparr> rs_key = k, rs_algorithm = a, rs_signature = s \<rparr>))))"

definition signed_document_raw_de :: "raw \<Rightarrow> signed_document option" where
  "signed_document_raw_de v =
     Option.bind (raw_fields True [(''document'', False), (''signatures'', False)] v) (\<lambda>m.
     Option.bind (raw_field m ''document'' plain_visit) (\<lambda>d.
     Option.bind (raw_field m ''signatures'' (raw_vec release_signature_raw_de)) (\<lambda>ss.
     Some \<lparr> sd_document = d, sd_signatures = ss \<rparr>)))"

definition fetch_signed :: "'x ext_scheme \<Rightarrow> rcall \<Rightarrow> string \<Rightarrow> signed_document option" where
  "fetch_signed E c u =
     Option.bind (rq_fetch c u) (\<lambda>a.
     if 400 \<le> aw_status a \<and> aw_status a < 600 then None
     else Option.bind (read_capped a DOCUMENT_CAP) (\<lambda>b. Option.bind (json_events E b) signed_document_raw_de))"

definition fetch_verified :: "'x ext_scheme \<Rightarrow> rcall \<Rightarrow> string \<Rightarrow> release_keys \<Rightarrow> platform_document option" where
  "fetch_verified E c u keys = Option.bind (fetch_signed E c u) (\<lambda>d. to_option (client_platform_verify E d keys (rq_now c)))"

definition rt_kms_revisions :: "'x ext_scheme \<Rightarrow> rcall \<Rightarrow> compose_hash list rt_step" where
  "rt_kms_revisions E c s =
     (case rc_kms_revisions (rt_config s) of
        Listed revisions \<Rightarrow> (Ok revisions, s)
      | Document u min_version keys \<Rightarrow>
          (let newer = (\<lambda>v. case rt_accepted s of None \<Rightarrow> v \<ge> min_version | Some (w, _) \<Rightarrow> v > w);
               kept = (case rt_accepted s of Some (_, revisions) \<Rightarrow> (Ok revisions, s) | None \<Rightarrow> (Err RtPlatform, s)) in
           case fetch_verified E c u keys of
             Some doc \<Rightarrow>
               if newer (unat (pd_version doc)) then
                 let revisions = map kr_compose_hash (pd_kms_revisions doc) in
                 (Ok revisions, s\<lparr> rt_accepted := Some (unat (pd_version doc), revisions) \<rparr>)
               else kept
           | None \<Rightarrow> kept))"

section \<open>Attesting\<close>

definition tls_certified :: "'x ext_scheme \<Rightarrow> bytes list \<Rightarrow> bytes \<Rightarrow> (bytes list \<times> bytes, client_error) result" where
  "tls_certified E chain pkcs8 = refuse_if (chain = []) CInvalid (refuse_if (\<not> load_private_key_ok E pkcs8) CInvalid (Ok (chain, pkcs8)))"

definition revision_text_of :: "revision_text \<Rightarrow> string" where
  "revision_text_of r = (case r of ComposeText t \<Rightarrow> t | InitDataText t \<Rightarrow> t)"

definition accept :: "'x tls_ext_scheme \<Rightarrow> runtime \<Rightarrow> attest_reply \<Rightarrow> pin \<Rightarrow> (attested, rt_error) result" where
  "accept E s reply p =
     and_then (map_err RtKms (collect_results (cert_from_pem E) (ay_certificate_chain reply))) (\<lambda>chain.
     case chain of
       [leaf, ca] \<Rightarrow>
         and_then (map_err (\<lambda>_. RtKms CInvalid) (spki_of E leaf)) (\<lambda>k.
         refuse_if (k \<noteq> rt_spki s) RtCertificate
         (refuse_if (spki_sha256 E ca \<noteq> Some (rc_kms_ca_spki_sha256 (rt_config s))) RtCertificate
         (and_then (map_err (\<lambda>_. RtKms CInvalid) (and_then (uri_sans E leaf) (parse_instance_sans E))) (\<lambda>i.
          refuse_if (case rt_revision s of None \<Rightarrow> False | Some r \<Rightarrow> compose_hash_of E (as_bytes (revision_text_of r)) \<noteq> is_compose_hash i) RtCertificate
          (and_then (map_err RtKms (tls_certified E chain (rt_pkcs8 s))) (\<lambda>ck.
           and_then (ok_or (rfc3339_parse E (ay_not_after reply)) RtCertificate) (\<lambda>na.
           and_then (map_err RtKms (client_configured E (rc_kms_endpoints (rt_config s)) p)) (\<lambda>kc.
           Ok \<lparr> ad_identity = i, ad_chain_pem = ay_certificate_chain reply, ad_not_after = na, ad_result = ay_result reply, ad_certified = ck,
             ad_attestation = None, ad_client = kc, ad_secrets = Map.empty, ad_keys = [] \<rparr>))))))))
     | _ \<Rightarrow> Err RtCertificate)"

definition rt_attest_inner :: "'x tls_ext_scheme \<Rightarrow> rcall \<Rightarrow> (attested \<times> instance_evidence \<times> bytes) rt_step" where
  "rt_attest_inner E c =
     act_bind (rt_kms_revisions E c) (\<lambda>revisions.
     act_bind (act_read rt_config) (\<lambda>cf.
     let p = PinCaSpkiAndRevisions (rc_kms_ca_spki_sha256 cf) revisions in
     act_bind (act_lift (map_err RtKms (client_configured E (rc_kms_endpoints cf) p))) (\<lambda>kms.
     act_bind (on_rt_sent (request E kms ''POST'' ''/v1/attest/nonce'' None nonce_reply_de)) (\<lambda>text.
     act_bind (act_lift (map_err RtKms (and_then (decode E text) (\<lambda>b. refuse_if (length b \<noteq> 32) CInvalid (Ok b))))) (\<lambda>n.
     act_bind (act_read rt_spki) (\<lambda>spki.
     act_bind (act_lift (case rq_evidence c (report_data E spki n None) of
         None \<Rightarrow> Err RtTimedOut
       | Some (Err _) \<Rightarrow> Err RtEvidence
       | Some (Ok ev) \<Rightarrow> Ok ev)) (\<lambda>ev.
     act_bind (on_rt_sent (request E kms ''POST'' ''/v1/attest'' (Some (attest_body E spki n ev)) (attest_reply_de E))) (\<lambda>reply.
     act_bind (\<lambda>s. (accept E s reply p, s)) (\<lambda>a. act_ok (a, ev, n))))))))))"

definition attestation_document :: "'x ext_scheme \<Rightarrow> rcall \<Rightarrow> runtime \<Rightarrow> instance_evidence \<Rightarrow> bytes \<Rightarrow> bytes option" where
  "attestation_document E c s ev n =
     (case (rc_public (rt_config s), ev, rt_revision s) of
        (Some _, Kata k, Some (InitDataText t)) \<Rightarrow>
          map_option (\<lambda>coll. as_bytes (json_to_string E (jobj [(''evidence'', kata_evidence_json E k), (''nonce'', JString (b64_enc E n)),
            (''init_data'', JString t), (''collateral'', coll)]))) (rq_collateral c (k_quote k))
      | _ \<Rightarrow> None)"

definition rt_attest :: "'x tls_ext_scheme \<Rightarrow> rcall \<Rightarrow> attested rt_step" where
  "rt_attest E c s =
     (case note_error (rt_attest_inner E c) s of
        (Err e, t) \<Rightarrow> (Err e, t\<lparr> rt_attest_error := Some (rt_kind e) \<rparr>)
      | (Ok (a, ev, n), t) \<Rightarrow>
          let b = a\<lparr> ad_attestation := attestation_document E c t ev n \<rparr> in
          (Ok b, t\<lparr> rt_attest_error := None, rt_attested := Some b \<rparr>))"

section \<open>Secrets and keys\<close>

definition rt_secret :: "'x tls_ext_scheme \<Rightarrow> rcall \<Rightarrow> string \<Rightarrow> kms_secret rt_step" where
  "rt_secret E c name s =
     (case current (rq_now c) s of
        None \<Rightarrow> (Err RtNotAttested, s)
      | Some a \<Rightarrow>
          (case ad_secrets a name of
             Some v \<Rightarrow> (Ok v, s)
           | None \<Rightarrow>
               act_bind (note_error (on_rt_sent (request E (ad_client a) ''GET'' (''/v1/secrets/'' @ name) None kms_secret_de))) (\<lambda>v.
               act_bind (act_modify (\<lambda>t. t\<lparr> rt_attested := Some (a\<lparr> ad_secrets := (ad_secrets a)(name \<mapsto> v) \<rparr>) \<rparr>)) (\<lambda>_. act_ok v)) s))"

definition CACHED_KEYS :: nat where "CACHED_KEYS = 64"

definition rt_key :: "'x tls_ext_scheme \<Rightarrow> rcall \<Rightarrow> string \<Rightarrow> string rt_step" where
  "rt_key E c purpose s =
     (case current (rq_now c) s of
        None \<Rightarrow> (Err RtNotAttested, s)
      | Some a \<Rightarrow>
          (case map_of (ad_keys a) purpose of
             Some k \<Rightarrow> (Ok k, s)
           | None \<Rightarrow>
               act_bind (note_error (on_rt_sent (request E (ad_client a) ''POST'' ''/v1/keys/derive'' (Some (jobj [(''purpose'', JString purpose)])) derived_key_de))) (\<lambda>k.
               act_bind (act_modify (\<lambda>t. if length (ad_keys a) < CACHED_KEYS then t\<lparr> rt_attested := Some (a\<lparr> ad_keys := ad_keys a @ [(purpose, k)] \<rparr>) \<rparr> else t))
                 (\<lambda>_. act_ok k)) s))"

section \<open>Secret files\<close>

definition write_secret :: "rcall \<Rightarrow> string \<Rightarrow> string \<Rightarrow> bytes \<Rightarrow> runtime \<Rightarrow> bool \<times> runtime" where
  "write_secret c service name v s =
     (if rt_files s (service, name) = Some v then (True, s)
      else if rq_writable c service name then (True, s\<lparr> rt_files := (rt_files s)((service, name) \<mapsto> v) \<rparr>)
      else (False, s))"

definition healthcheck :: "(string \<times> string \<Rightarrow> bytes option) \<Rightarrow> declared \<Rightarrow> bool" where
  "healthcheck files secrets \<longleftrightarrow> list_all (\<lambda>(service, names). list_all (\<lambda>n. files (service, n) \<noteq> None) names) secrets"

datatype delivery = Complete | Incomplete "string list" | DeliveryRevoked

definition declared_names :: "declared \<Rightarrow> string list" where
  "declared_names secrets = sort (remdups (concat (map snd secrets)))"

definition write_all :: "rcall \<Rightarrow> string \<Rightarrow> bytes \<Rightarrow> string list \<Rightarrow> runtime \<Rightarrow> bool \<times> runtime" where
  "write_all c name v services s = foldl (\<lambda>(ok, t) service. case write_secret c service name v t of (w, u) \<Rightarrow> (ok \<and> w, u)) (True, s) services"

text \<open>One name of a pass: whether it is complete, or that the Revision is revoked.\<close>

definition deliver_one :: "'x tls_ext_scheme \<Rightarrow> rcall \<Rightarrow> uuid \<Rightarrow> string \<Rightarrow> runtime \<Rightarrow> bool option \<times> runtime" where
  "deliver_one E c app_id name s =
     (case rt_secret E c (uuid_show E app_id @ ''.'' @ name) s of
        (Err e, t) \<Rightarrow> (if rt_revoked_error e then None else Some False, t)
      | (Ok v, t) \<Rightarrow>
          (case b64_dec E (ks_value v) of
             None \<Rightarrow> (Some False, t)
           | Some b \<Rightarrow>
               (case write_all c name b (map fst (filter (\<lambda>(_, ns). name \<in> set ns) (rc_secrets (rt_config t)))) t of
                  (ok, u) \<Rightarrow> (Some ok, u))))"

fun deliver_names :: "'x tls_ext_scheme \<Rightarrow> rcall \<Rightarrow> uuid \<Rightarrow> string list \<Rightarrow> string list \<Rightarrow> runtime \<Rightarrow> delivery \<times> runtime" where
  "deliver_names E c app_id [] incomplete s = (if incomplete = [] then Complete else Incomplete incomplete, s)"
| "deliver_names E c app_id (n # ns) incomplete s =
     (case deliver_one E c app_id n s of
        (None, t) \<Rightarrow> (DeliveryRevoked, t)
      | (Some ok, t) \<Rightarrow> deliver_names E c app_id ns (if ok then incomplete else incomplete @ [n]) t)"

definition deliver :: "'x tls_ext_scheme \<Rightarrow> rcall \<Rightarrow> runtime \<Rightarrow> delivery \<times> runtime" where
  "deliver E c s =
     (if rt_revoked s then (DeliveryRevoked, s)
      else case current (rq_now c) s of
        None \<Rightarrow> (Incomplete (declared_names (rc_secrets (rt_config s))), s)
      | Some a \<Rightarrow> deliver_names E c (is_app_id (ad_identity a)) (declared_names (rc_secrets (rt_config s))) [] s)"

section \<open>The loops\<close>

definition RENEW_BEFORE :: time where "RENEW_BEFORE = 600 * 1000000000"
definition RT_RETRY_AFTER :: time where "RT_RETRY_AFTER = 30 * 1000000000"
definition FIRST_RETRY :: time where "FIRST_RETRY = 2 * 1000000000"
definition SECRETS_POLL :: time where "SECRETS_POLL = 60 * 1000000000"

text \<open>Durations are never negative: both subtractions stop at zero.\<close>

definition renewal_delay :: "time \<Rightarrow> time \<Rightarrow> time" where
  "renewal_delay expiry now = max 0 (max 0 (expiry - now) - RENEW_BEFORE)"

text \<open>
  The first attestation over the attempts it makes, one call each: the waits so far and the outcome,
  \<open>None\<close> while it goes on.
\<close>

fun attest_first :: "'x tls_ext_scheme \<Rightarrow> rcall list \<Rightarrow> time \<Rightarrow> runtime \<Rightarrow> time list \<times> (attested, rt_error) result option \<times> runtime" where
  "attest_first E [] retry s = ([], None, s)"
| "attest_first E (c # cs) retry s =
     (case rt_attest E c s of
        (Err e, t) \<Rightarrow>
          if \<not> rt_revoked_error e \<and> e \<noteq> RtTimedOut then
            (case attest_first E cs (min (2 * retry) RT_RETRY_AFTER) t of (ws, r, u) \<Rightarrow> (retry # ws, r, u))
          else ([], Some (Err e), t)
      | (Ok a, t) \<Rightarrow> ([], Some (Ok a), t))"

text \<open>How long the delivery loop sleeps after a pass, and its next retry; \<open>None\<close> when it ends.\<close>

definition deliver_wait :: "delivery \<Rightarrow> time \<Rightarrow> (time \<times> time) option" where
  "deliver_wait d retry =
     (case d of
        DeliveryRevoked \<Rightarrow> None
      | Complete \<Rightarrow> Some (SECRETS_POLL, FIRST_RETRY)
      | Incomplete _ \<Rightarrow> Some (retry, min (2 * retry) SECRETS_POLL))"

text \<open>One turn of the renewal after its sleep: it ends the process, or sleeps for a while and goes on.\<close>

definition renew_once :: "'x tls_ext_scheme \<Rightarrow> rcall \<Rightarrow> runtime \<Rightarrow> (rt_exit + time) \<times> runtime" where
  "renew_once E c s =
     (case rt_attest E c s of
        (Ok a, t) \<Rightarrow> (Inr (renewal_delay (ad_not_after a) (rq_now c)), t)
      | (Err e, t) \<Rightarrow>
          (if rt_revoked_error e then Inl ExitRevoked
           else if e = RtTimedOut \<and> current (rq_now c) t = None then Inl QuoteStuck
           else Inr (RT_RETRY_AFTER + (case last_attested t of None \<Rightarrow> 0 | Some a \<Rightarrow> renewal_delay (ad_not_after a) (rq_now c + RT_RETRY_AFTER))), t))"

section \<open>The socket's routes\<close>

definition rt_error_reply :: "rt_error \<Rightarrow> nat \<times> string" where
  "rt_error_reply e =
     (case e of
        RtKms (CApi k st) \<Rightarrow> (if 100 \<le> st \<and> st < 1000 then st else 500, k)
      | RtNotAttested \<Rightarrow> (503, ''not_attested'')
      | _ \<Rightarrow> (500, ''internal''))"

definition identity_json :: "'x ext_scheme \<Rightarrow> time \<Rightarrow> runtime \<Rightarrow> (json, rt_error) result" where
  "identity_json E now s =
     and_then (ok_or (current now s) RtNotAttested) (\<lambda>a.
     Ok (jobj [(''app_id'', JString (uuid_show E (is_app_id (ad_identity a)))), (''org_id'', JString (uuid_show E (is_org_id (ad_identity a)))),
       (''compose_hash'', JString (compose_hash_show (is_compose_hash (ad_identity a)))),
       (''certificate_chain'', JArray (map JString (ad_chain_pem a))),
       (''tls_private_key'', JString (b64_enc E (rt_pkcs8 s))), (''attestation_result'', attestation_result_json E (ad_result a)),
       (''app_compose'', case rt_revision s of Some (ComposeText t) \<Rightarrow> JString t | _ \<Rightarrow> JNull),
       (''init_data'', case rt_revision s of Some (InitDataText t) \<Rightarrow> JString t | _ \<Rightarrow> JNull)]))"

definition healthz_json :: "'x ext_scheme \<Rightarrow> time \<Rightarrow> runtime \<Rightarrow> json" where
  "healthz_json E now s =
     jobj [(''attested'', JBool (current now s \<noteq> None)),
       (''cert_not_after'', case last_attested s of None \<Rightarrow> JNull
          | Some a \<Rightarrow> (case rfc3339_show E (seconds_of (ad_not_after a)) of None \<Rightarrow> JNull | Some t \<Rightarrow> JString t))]"

datatype rt_event = Attest rcall | Deliver rcall | GetSecret rcall string | GetKey rcall string

definition runtime_step :: "'x tls_ext_scheme \<Rightarrow> rt_event \<Rightarrow> runtime \<Rightarrow> runtime" where
  "runtime_step E ev s =
     (case ev of
        Attest c \<Rightarrow> snd (rt_attest E c s)
      | Deliver c \<Rightarrow> snd (deliver E c s)
      | GetSecret c name \<Rightarrow> snd (rt_secret E c name s)
      | GetKey c purpose \<Rightarrow> snd (rt_key E c purpose s))"

section \<open>GPU evidence\<close>

definition with_gpus :: "'x ext_scheme \<Rightarrow> bytes \<Rightarrow> (bytes \<Rightarrow> gpu_evidence list option) \<Rightarrow> (bytes \<Rightarrow> instance_evidence option) \<Rightarrow> instance_evidence option" where
  "with_gpus E rd collect quote =
     Option.bind (collect (gpu_nonce E rd)) (\<lambda>gpus.
     Option.bind (quote (bind_gpus E rd gpus)) (\<lambda>ev.
     case ev of Kata k \<Rightarrow> Some (Kata (k\<lparr> k_gpu := gpus \<rparr>)) | Dstack _ \<Rightarrow> None))"

definition gpu_evidence_of :: "'x ext_scheme \<Rightarrow> (bytes \<Rightarrow> gpu_evidence list option) option \<Rightarrow> (bytes \<Rightarrow> instance_evidence option) \<Rightarrow> bytes \<Rightarrow> instance_evidence option" where
  "gpu_evidence_of E nvml quote rd = (case nvml of Some collect \<Rightarrow> with_gpus E rd collect quote | None \<Rightarrow> quote rd)"

section \<open>Init-data\<close>

text \<open>
  At most the limit is read; the text must be UTF-8 and below it. \<open>gunzip\<close> reads a stream to its end or
  to that many bytes, \<open>None\<close> when it is no gzip stream that far.
\<close>

definition read_under_limit :: "bytes \<Rightarrow> string option" where
  "read_under_limit bs = Option.bind (from_utf8 (take MAX_INIT_DATA bs)) (\<lambda>t. if length t \<ge> MAX_INIT_DATA then None else Some t)"

definition read_init_data :: "'x ext_scheme \<Rightarrow> (bytes \<Rightarrow> bytes option) \<Rightarrow> bytes option \<Rightarrow> (string option, rt_error) result" where
  "read_init_data E gunzip file =
     (case file of
        None \<Rightarrow> Ok None
      | Some b \<Rightarrow>
          and_then (ok_or (read_under_limit b) RtEvidence) (\<lambda>annotation.
          and_then (ok_or (b64_std_dec E (trim annotation)) RtEvidence) (\<lambda>gzip.
          and_then (ok_or (Option.bind (gunzip gzip) read_under_limit) RtEvidence) (\<lambda>t. Ok (Some t)))))"

end
