(* ===== verification/Runtime_Edge.thy ===== *)
theory Runtime_Edge
  imports Runtime
begin

text \<open>
  \<^verbatim>\<open>services/alpha-runtime/src/proxy.rs\<close>, \<^verbatim>\<open>acme.rs\<close> and \<^verbatim>\<open>inference.rs\<close>: the Endpoint that the Instance's leaf or its
  public certificate terminates and that is copied to the tenant's service, the two requests the
  runtime answers itself, the public certificate found again in Certificate Transparency, and the
  forwarder to the inference front. The ACME exchange itself is the \<open>instant-acme\<close> crate's: what the CA
  answers in the course of an order is an argument.
\<close>

section \<open>Which certificate a handshake gets\<close>

definition ACME_TLS_ALPN :: bytes where "ACME_TLS_ALPN = as_bytes ''acme-tls/1''"
definition INSTANCE_ALPN :: bytes where "INSTANCE_ALPN = as_bytes ''alphacompute-instance/1''"
definition HTTP_ALPN :: bytes where "HTTP_ALPN = as_bytes ''http/1.1''"

datatype acme_route = RouteInstance | RouteChallenge | RoutePublic

fun alpn_route :: "bytes list \<Rightarrow> acme_route" where
  "alpn_route [] = RoutePublic"
| "alpn_route (p # ps) = (if p = ACME_TLS_ALPN then RouteChallenge else if p = INSTANCE_ALPN then RouteInstance else alpn_route ps)"

definition route :: "string \<Rightarrow> string option \<Rightarrow> bytes list option \<Rightarrow> acme_route" where
  "route public sni alpn =
     (if (case sni of None \<Rightarrow> True | Some n \<Rightarrow> \<not> eq_ignore_ascii_case n public) then RouteInstance
      else alpn_route (case alpn of None \<Rightarrow> [] | Some ps \<Rightarrow> ps))"

type_synonym certified_key = "bytes list \<times> bytes"

record edge =
  eg_served :: "certified_key option"
  eg_challenge :: "certified_key option"

record hello =
  he_sni :: "string option"
  he_alpn :: "bytes list option"

text \<open>\<open>InstanceConfig\<close> serves the current leaf; a public one serves a certificate and may name a protocol.\<close>

datatype tls_config = InstanceConfig | PublicConfig certified_key "bytes option"

datatype handshake = HsInstance | HsChallenge | HsPublic string certified_key

definition select_config :: "(string \<times> edge) option \<Rightarrow> bool \<Rightarrow> hello \<Rightarrow> (handshake \<times> tls_config) option" where
  "select_config public attested_now h =
     (case public of
        None \<Rightarrow> Some (HsInstance, InstanceConfig)
      | Some (name, eg) \<Rightarrow>
          (case route name (he_sni h) (he_alpn h) of
             RouteChallenge \<Rightarrow> map_option (\<lambda>ck. (HsChallenge, PublicConfig ck (Some ACME_TLS_ALPN))) (eg_challenge eg)
           | RoutePublic \<Rightarrow>
               (case eg_served eg of
                  Some ck \<Rightarrow>
                    if attested_now then
                      Some (HsPublic name ck, PublicConfig ck (if (case he_alpn h of None \<Rightarrow> False | Some ps \<Rightarrow> HTTP_ALPN \<in> set ps) then Some HTTP_ALPN else None))
                    else Some (HsInstance, InstanceConfig)
                | None \<Rightarrow> Some (HsInstance, InstanceConfig))
           | RouteInstance \<Rightarrow> Some (HsInstance, InstanceConfig)))"

definition admitted :: "'x ext_scheme \<Rightarrow> bytes list \<Rightarrow> uuid list \<Rightarrow> bool" where
  "admitted E peer callers \<longleftrightarrow>
     callers = [] \<or>
     (case peer of
        [] \<Rightarrow> False
      | leaf # _ \<Rightarrow>
          (case and_then (uri_sans E leaf) (parse_instance_sans E) of Err _ \<Rightarrow> False | Ok i \<Rightarrow> is_app_id i \<in> set callers))"

section \<open>What the runtime answers itself\<close>

definition ATTESTATION_PATH :: string where "ATTESTATION_PATH = ''/.well-known/alphacompute/attestation''"
definition CHALLENGE :: string where "CHALLENGE = ''?challenge=''"
definition CHALLENGE_LEN :: nat where "CHALLENGE_LEN = 43"

datatype asked = AskedBinding "bytes option" | AskedAttestation

datatype head = Partial | Asked asked | Other

definition binding_line :: bytes where "binding_line = as_bytes (''GET '' @ BINDING_PATH @ '' '')"
definition attestation_line :: bytes where "attestation_line = as_bytes (''GET '' @ ATTESTATION_PATH @ '' '')"
definition challenged_line :: bytes where "challenged_line = as_bytes (''GET '' @ BINDING_PATH @ CHALLENGE)"

definition token_byte :: "byte \<Rightarrow> bool" where
  "token_byte b \<longleftrightarrow> is_ascii_alphanumeric (char_of (unat b)) \<or> char_of (unat b) \<in> set ''-_''"

definition parse_challenge :: "'x ext_scheme \<Rightarrow> bytes \<Rightarrow> head" where
  "parse_challenge E rest =
     (let token = take CHALLENGE_LEN rest; tail = drop CHALLENGE_LEN rest in
      if \<not> list_all token_byte token then Other
      else case tail of
        [] \<Rightarrow> Partial
      | b # _ \<Rightarrow>
          if char_of (unat b) = CHR '' '' then
            (case Option.bind (b64_dec E (from_bytes token)) (\<lambda>c. if length c = 32 then Some c else None) of
               None \<Rightarrow> Other | Some c \<Rightarrow> Asked (AskedBinding (Some c)))
          else Other)"

definition parse_head :: "'x ext_scheme \<Rightarrow> bytes \<Rightarrow> head" where
  "parse_head E h =
     (if starts_with binding_line h then Asked (AskedBinding None)
      else if starts_with attestation_line h then Asked AskedAttestation
      else if starts_with challenged_line h then parse_challenge E (drop (length challenged_line) h)
      else if list_ex (\<lambda>r. starts_with h r) [binding_line, attestation_line, challenged_line] then Partial else Other)"

text \<open>
  What the reads of a connection return, in order, each at most 64 bytes: an empty one is the end of
  the stream, and no more reads means that the time ran out or the connection failed. The result is
  what was asked, the bytes taken so far and the reads left.
\<close>

fun read_head :: "'x ext_scheme \<Rightarrow> bytes list \<Rightarrow> bytes \<Rightarrow> (asked option \<times> bytes \<times> bytes list) option" where
  "read_head E reads h =
     (case parse_head E h of
        Asked a \<Rightarrow> Some (Some a, h, reads)
      | Other \<Rightarrow> Some (None, h, reads)
      | Partial \<Rightarrow>
          (case reads of
             [] \<Rightarrow> None
           | r # rs \<Rightarrow> if r = [] then Some (None, h, rs) else read_head E rs (h @ r)))"

declare read_head.simps [simp del]

definition chain_pem :: "attested \<Rightarrow> string" where
  "chain_pem a = concat (map (\<lambda>pem. trim_end pem @ [newline_char]) (ad_chain_pem a))"

definition signed_binding_text :: "'x ext_scheme \<Rightarrow> signed_binding \<Rightarrow> string" where
  "signed_binding_text E b =
     struct_text E ([(''statement'', json_text E (bs_statement b)), (''signature'', json_text E (bs_signature b)), (''chain_pem'', json_text E (bs_chain_pem b))]
       @ (case bs_answer b of None \<Rightarrow> [] | Some a \<Rightarrow> [(''answer'', json_text E a)]))"

definition binding_body :: "'x ext_scheme \<Rightarrow> time \<Rightarrow> runtime \<Rightarrow> string \<Rightarrow> certified_key \<Rightarrow> bytes option \<Rightarrow> bytes option" where
  "binding_body E now s name served chal =
     Option.bind (current now s) (\<lambda>a.
     Option.bind (p256_from_pkcs8 E (rt_pkcs8 s)) (\<lambda>key.
     Option.bind (case fst served of [] \<Rightarrow> None | leaf # _ \<Rightarrow> Some leaf) (\<lambda>leaf.
     Option.bind (to_option (binding_sign E key (chain_pem a) name leaf)) (\<lambda>sb.
     Option.bind (case chal of None \<Rightarrow> Some sb | Some ch \<Rightarrow> to_option (binding_answer E key ch sb)) (\<lambda>answered.
     Some (as_bytes (signed_binding_text E answered)))))))"

definition crlf :: string where "crlf = [CHR 0x0D, CHR 0x0A]"

definition http_reply :: "bytes option \<Rightarrow> bytes" where
  "http_reply body =
     (let (st, b) = (case body of Some x \<Rightarrow> (''200 OK'', x) | None \<Rightarrow> (''503 Service Unavailable'', as_bytes ''{}'')) in
      as_bytes (''HTTP/1.1 '' @ st @ crlf @ ''Content-Type: application/json'' @ crlf @ ''Cache-Control: no-store'' @ crlf
        @ ''Access-Control-Allow-Origin: *'' @ crlf @ ''Content-Length: '' @ show_nat (length b) @ crlf @ ''Connection: close'' @ crlf @ crlf) @ b)"

section \<open>A connection\<close>

text \<open>
  A connection after its handshake: dropped, answered by the runtime and closed, or copied to the
  upstream, if that can be reached, which gets the bytes read so far first.
\<close>

datatype proxied = Dropped | Answered bytes | Copied bytes "bytes list"

definition answer_asked :: "'x ext_scheme \<Rightarrow> time \<Rightarrow> runtime \<Rightarrow> string \<Rightarrow> certified_key \<Rightarrow> asked \<Rightarrow> bytes" where
  "answer_asked E now s name served a =
     http_reply (case a of AskedBinding chal \<Rightarrow> binding_body E now s name served chal
                 | AskedAttestation \<Rightarrow> Option.bind (current now s) ad_attestation)"

definition proxy_connection :: "'x ext_scheme \<Rightarrow> time \<Rightarrow> runtime \<Rightarrow> (string \<times> edge) option \<Rightarrow> hello \<Rightarrow> bytes list \<Rightarrow> bytes list \<Rightarrow> proxied" where
  "proxy_connection E now s public h peer reads =
     (case select_config public (current now s \<noteq> None) h of
        None \<Rightarrow> Dropped
      | Some (HsChallenge, _) \<Rightarrow> Dropped
      | Some (HsPublic name served, _) \<Rightarrow>
          (case read_head E reads [] of
             None \<Rightarrow> Dropped
           | Some (Some a, _, _) \<Rightarrow> Answered (answer_asked E now s name served a)
           | Some (None, taken, rest) \<Rightarrow> Copied taken rest)
      | Some (HsInstance, _) \<Rightarrow> if admitted E peer (rc_tls_callers (rt_config s)) then Copied [] reads else Dropped)"

definition leaf_chain :: "time \<Rightarrow> runtime \<Rightarrow> string option" where
  "leaf_chain now s = map_option chain_pem (current now s)"

text \<open>The upstream's answer is the ten bytes it sends first, \<open>None\<close> when they do not come in time.\<close>

definition upstream_answers :: "bytes option \<Rightarrow> bool" where
  "upstream_answers st =
     (case st of None \<Rightarrow> False
      | Some b \<Rightarrow> length b = 10 \<and> starts_with (as_bytes ''HTTP/1.'') b \<and> drop 8 b = as_bytes '' 2'')"

definition rt_ready :: "time \<Rightarrow> runtime \<Rightarrow> (string \<Rightarrow> string \<Rightarrow> bytes option) \<Rightarrow> nat \<times> string" where
  "rt_ready now s ask =
     (if current now s = None then (503, case rt_attest_error s of None \<Rightarrow> [] | Some k \<Rightarrow> k)
      else case (rc_tls_upstream (rt_config s), rc_tls_ready (rt_config s)) of
        (Some u, Some path) \<Rightarrow> if upstream_answers (ask u path) then (200, []) else (503, [])
      | _ \<Rightarrow> (200, []))"

section \<open>The public certificate\<close>

definition ACME_RETRY_AFTER :: time where "ACME_RETRY_AFTER = 15 * 60 * 1000000000"
definition ROUTABLE_AFTER :: time where "ROUTABLE_AFTER = 30 * 1000000000"
definition EXPIRED_BACKOFF :: time where "EXPIRED_BACKOFF = 48 * 60 * 60 * 1000000000"
definition CT_PAGES :: nat where "CT_PAGES = 4"

definition acme_renewal_delay :: "time \<Rightarrow> time \<Rightarrow> time" where
  "acme_renewal_delay expiry now =
     (if expiry - now > 0 then max ((expiry - now) div 3 * 2) ACME_RETRY_AFTER else EXPIRED_BACKOFF)"

text \<open>\<open>key_spki\<close> is \<open>rcgen\<close>'s reading of the public key of a PKCS#8 key.\<close>

definition install :: "'x ext_scheme \<Rightarrow> (bytes \<Rightarrow> bytes option) \<Rightarrow> bytes \<Rightarrow> string \<Rightarrow> edge \<Rightarrow> (time, unit) result \<times> edge" where
  "install E key_spki pkcs8 chain_text eg =
     (case and_then (ok_or (those (map (\<lambda>b. map_option snd b)
              (filter (\<lambda>b. case b of None \<Rightarrow> True | Some (label, _) \<Rightarrow> label = ''CERTIFICATE'') (pem_blocks E (as_bytes chain_text))))) ()) (\<lambda>chain.
          case chain of
            [] \<Rightarrow> Err ()
          | leaf # _ \<Rightarrow>
              and_then (ok_or (key_spki pkcs8) ()) (\<lambda>spki.
              refuse_if (spki_sha256 E leaf \<noteq> Some (sha256 E spki)) ()
              (and_then (map_err (\<lambda>_. ()) (not_after E leaf)) (\<lambda>na.
               and_then (map_err (\<lambda>_. ()) (tls_certified E chain pkcs8)) (\<lambda>ck. Ok (na, ck)))))) of
        Err e \<Rightarrow> (Err e, eg)
      | Ok (na, ck) \<Rightarrow> (Ok na, eg\<lparr> eg_served := Some ck \<rparr>))"

record found_cert =
  fc_serial :: string
  fc_not_before :: time
  fc_not_after :: time

definition serial_hex :: "bytes \<Rightarrow> string" where
  "serial_hex raw_serial =
     (let h = hex_encode (dropWhile (\<lambda>b. b = 0) raw_serial) in replicate (36 - length h) (CHR ''0'') @ h)"

definition unix_time :: "int \<Rightarrow> time option" where
  "unix_time secs = (if secs < 0 then None else Some (secs * 1000000000))"

definition ct_issuance :: "'x ext_scheme \<Rightarrow> bytes \<Rightarrow> time \<Rightarrow> json \<Rightarrow> found_cert option" where
  "ct_issuance E spki now v =
     (if json_get v ''revoked'' = Some (JBool True) then None
      else Option.bind (Option.bind (json_get v ''cert_der'') json_as_str) (\<lambda>t.
           Option.bind (b64_std_dec E t) (\<lambda>der_bytes.
           Option.bind (x509_parse E der_bytes) (\<lambda>(cert, _).
           if sha256 E (x_spki cert) \<noteq> spki then None
           else Option.bind (unix_time (x_not_before cert)) (\<lambda>nb.
                Option.bind (unix_time (x_not_after cert)) (\<lambda>na.
                if nb \<le> now \<and> now < na then Some \<lparr> fc_serial = serial_hex (x_serial cert), fc_not_before = nb, fc_not_after = na \<rparr> else None))))))"

text \<open>\<open>max_by_key\<close> returns the last of the greatest.\<close>

definition newest :: "found_cert list \<Rightarrow> found_cert option" where
  "newest = foldl (\<lambda>best x. case best of None \<Rightarrow> Some x | Some b \<Rightarrow> if fc_not_after b \<le> fc_not_after x then Some x else Some b) None"

definition newest_holding :: "'x ext_scheme \<Rightarrow> json list \<Rightarrow> bytes \<Rightarrow> time \<Rightarrow> found_cert option" where
  "newest_holding E page spki now = newest (List.map_filter (ct_issuance E spki now) page)"

definition fetch_bytes :: "rcall \<Rightarrow> string \<Rightarrow> bytes option" where
  "fetch_bytes c u = Option.bind (rq_fetch c u) (\<lambda>a. if 400 \<le> aw_status a \<and> aw_status a < 600 then None else read_capped a (2 ^ 20))"

definition LETS_ENCRYPT_CERT :: string where "LETS_ENCRYPT_CERT = ''https://acme-v02.api.letsencrypt.org/acme/cert/''"
definition CT_SEARCH :: string where "CT_SEARCH = ''https://api.certspotter.com/v1/issuances''"

definition issuance_id :: "json \<Rightarrow> string option" where
  "issuance_id v = Option.bind (Option.bind (json_get v ''id'') json_as_str) (\<lambda>i. if list_all is_ascii_digit i then Some i else None)"

fun ct_pages :: "'x ext_scheme \<Rightarrow> rcall \<Rightarrow> string \<Rightarrow> bytes \<Rightarrow> nat \<Rightarrow> string \<Rightarrow> found_cert option \<Rightarrow> (found_cert option, unit) result" where
  "ct_pages E c name spki 0 after best = Ok best"
| "ct_pages E c name spki (Suc n) after best =
     and_then (ok_or (fetch_bytes c (CT_SEARCH @ ''?domain='' @ name @ ''&expand=cert_der&after='' @ after)) ()) (\<lambda>b.
     and_then (ok_or (Option.bind (json_events E b) (raw_vec plain_visit)) ()) (\<lambda>page.
     if page = [] then Ok best
     else and_then (ok_or (issuance_id (last page)) ()) (\<lambda>i.
          ct_pages E c name spki n i (newest ((case best of None \<Rightarrow> [] | Some x \<Rightarrow> [x]) @ (case newest_holding E page spki (rq_now c) of None \<Rightarrow> [] | Some x \<Rightarrow> [x]))))))"

definition reuse :: "'x ext_scheme \<Rightarrow> (bytes \<Rightarrow> bytes option) \<Rightarrow> rcall \<Rightarrow> string \<Rightarrow> bytes \<Rightarrow> edge \<Rightarrow> (time option, unit) result \<times> edge" where
  "reuse E key_spki c name pkcs8 eg =
     (case and_then (ok_or (key_spki pkcs8) ()) (\<lambda>spki. ct_pages E c name (sha256 E spki) CT_PAGES [] None) of
        Err e \<Rightarrow> (Err e, eg)
      | Ok None \<Rightarrow> (Ok None, eg)
      | Ok (Some f) \<Rightarrow>
          (case Option.bind (fetch_bytes c (LETS_ENCRYPT_CERT @ fc_serial f)) from_utf8 of
             None \<Rightarrow> (Err (), eg)
           | Some t \<Rightarrow>
               (case install E key_spki pkcs8 t eg of
                  (Err e, x) \<Rightarrow> (Err e, x)
                | (Ok _, x) \<Rightarrow>
                    (Ok (Some (max (max 0 (fc_not_before f + acme_renewal_delay (fc_not_after f) (fc_not_before f) - rq_now c)) ROUTABLE_AFTER)), x))))"

subsection \<open>Ordering it\<close>

definition KEY_PURPOSE :: string where "KEY_PURPOSE = ''edge-tls''"
definition CERT_KEY_LABEL :: bytes where "CERT_KEY_LABEL = as_bytes ''alphacompute-runtime/public-name-key/v1/''"
definition ACCOUNT_KEY_LABEL :: bytes where "ACCOUNT_KEY_LABEL = as_bytes ''alphacompute-runtime/acme-account-key/v1''"

definition KEY_RETRY :: time where "KEY_RETRY = 5 * 1000000000"

text \<open>
  One try for the App's key. The loop around it sleeps and tries again: a try comes with what the
  runtime's other tasks did to its state before it, and a list of tries that all fail is a loop that is
  still running. The waits are what it slept.
\<close>

definition try_edge_key :: "'x tls_ext_scheme \<Rightarrow> rcall \<Rightarrow> bytes rt_step" where
  "try_edge_key E c = act_bind (rt_key E c KEY_PURPOSE) (\<lambda>k. act_lift (map_err RtKms (decode E k)))"

fun edge_tls_key :: "'x tls_ext_scheme \<Rightarrow> (rcall \<times> (runtime \<Rightarrow> runtime)) list \<Rightarrow> runtime \<Rightarrow> bytes option \<times> time list \<times> runtime" where
  "edge_tls_key E [] s = (None, [], s)"
| "edge_tls_key E ((c, other) # tries) s =
     (case try_edge_key E c (other s) of
        (Ok k, t) \<Rightarrow> (Some k, [], t)
      | (Err _, t) \<Rightarrow> (case edge_tls_key E tries t of (r, ws, u) \<Rightarrow> (r, KEY_RETRY # ws, u)))"

text \<open>
  What the \<open>hkdf\<close> and \<open>p256\<close> crates do in \<open>derive_p256\<close>: 48 bytes of HKDF-SHA256 without a salt, their
  reduction modulo the group order, and the PKCS#8 encoding of a scalar.
\<close>

record key_deriver =
  kd_hkdf48 :: "bytes \<Rightarrow> bytes \<Rightarrow> bytes option"
  kd_reduce :: "bytes \<Rightarrow> nat"
  kd_pkcs8 :: "nat \<Rightarrow> bytes option"

definition derive_p256 :: "key_deriver \<Rightarrow> bytes \<Rightarrow> bytes \<Rightarrow> (bytes, string) result" where
  "derive_p256 K key info =
     and_then (ok_or (kd_hkdf48 K key info) ''hkdf'') (\<lambda>wide.
     (let scalar = kd_reduce K wide in
      refuse_if (scalar = 0) ''the derived scalar is zero'' (ok_or (kd_pkcs8 K scalar) ''pkcs8'')))"

definition edge_keys :: "key_deriver \<Rightarrow> string \<Rightarrow> bytes \<Rightarrow> (bytes \<times> bytes, string) result" where
  "edge_keys K name tls_key =
     and_then (derive_p256 K tls_key (CERT_KEY_LABEL @ as_bytes name)) (\<lambda>cert.
     and_then (derive_p256 K tls_key ACCOUNT_KEY_LABEL) (\<lambda>account. Ok (cert, account)))"

text \<open>
  \<open>account\<close>: \<open>key_ok\<close> is whether \<open>instant_acme\<close> reads the account's key, and the CA answers with the
  account it has or makes for that key. The loop asks until one try succeeds.
\<close>

definition acme_account :: "(bytes \<Rightarrow> bool) \<Rightarrow> (bytes \<Rightarrow> string option) \<Rightarrow> bytes \<Rightarrow> (string, unit) result" where
  "acme_account key_ok ca pkcs8 = refuse_if (\<not> key_ok pkcs8) () (ok_or (ca pkcs8) ())"

fun account_loop :: "(bytes \<Rightarrow> bool) \<Rightarrow> (bytes \<Rightarrow> string option) list \<Rightarrow> bytes \<Rightarrow> string option \<times> time list" where
  "account_loop key_ok [] pkcs8 = (None, [])"
| "account_loop key_ok (ca # cas) pkcs8 =
     (case acme_account key_ok ca pkcs8 of
        Ok account \<Rightarrow> (Some account, [])
      | Err _ \<Rightarrow> (case account_loop key_ok cas pkcs8 of (r, ws) \<Rightarrow> (r, ACME_RETRY_AFTER # ws)))"

text \<open>
  What the CA answers in the course of one order: an authorization cannot be read, is valid already, or
  offers a digest to prove (or no such challenge) and is told to check it; then whether the order
  became ready, whether the request was taken, and the chain.
\<close>

datatype acme_auth = AuthFailed | AuthValid | AuthPending "bytes option" bool

record acme_order =
  ao_auths :: "acme_auth list"
  ao_ready :: bool
  ao_finalized :: bool
  ao_chain :: "string option"

text \<open>\<open>challenge_cert\<close> is the self-signed certificate \<open>rcgen\<close> makes for a digest.\<close>

fun acme_authorize :: "(bytes \<Rightarrow> certified_key option) \<Rightarrow> acme_auth list \<Rightarrow> edge \<Rightarrow> bool \<times> edge" where
  "acme_authorize challenge_cert [] eg = (True, eg)"
| "acme_authorize challenge_cert (a # as) eg =
     (case a of
        AuthFailed \<Rightarrow> (False, eg)
      | AuthValid \<Rightarrow> acme_authorize challenge_cert as eg
      | AuthPending None _ \<Rightarrow> (False, eg)
      | AuthPending (Some digest) told \<Rightarrow>
          (case challenge_cert digest of
             None \<Rightarrow> (False, eg)
           | Some ck \<Rightarrow>
               if told then acme_authorize challenge_cert as (eg\<lparr> eg_challenge := Some ck \<rparr>)
               else (False, eg\<lparr> eg_challenge := Some ck \<rparr>)))"

definition acme_issue :: "'x ext_scheme \<Rightarrow> (bytes \<Rightarrow> bytes option) \<Rightarrow> (bytes \<Rightarrow> certified_key option) \<Rightarrow> acme_order option \<Rightarrow> bytes \<Rightarrow> edge \<Rightarrow>
    (time, unit) result \<times> edge" where
  "acme_issue E key_spki challenge_cert order pkcs8 eg =
     (case order of
        None \<Rightarrow> (Err (), eg)
      | Some r \<Rightarrow>
          (case acme_authorize challenge_cert (ao_auths r) eg of
             (False, x) \<Rightarrow> (Err (), x)
           | (True, x) \<Rightarrow>
               let y = x\<lparr> eg_challenge := None \<rparr> in
               if \<not> ao_ready r \<or> key_spki pkcs8 = None \<or> \<not> ao_finalized r then (Err (), y)
               else case ao_chain r of None \<Rightarrow> (Err (), y) | Some chain_text \<Rightarrow> install E key_spki pkcs8 chain_text y))"

text \<open>
  One turn of \<open>issue_forever\<close>'s loop: the CA's answers to the order of this account, the time after it,
  and what the loop sleeps before the next.
\<close>

definition issue_turn :: "'x ext_scheme \<Rightarrow> (bytes \<Rightarrow> bytes option) \<Rightarrow> (bytes \<Rightarrow> certified_key option) \<Rightarrow> string \<Rightarrow> bytes \<Rightarrow>
    (string \<Rightarrow> acme_order option) \<times> time \<Rightarrow> edge \<Rightarrow> time \<times> edge" where
  "issue_turn E key_spki challenge_cert account pkcs8 turn eg =
     (case acme_issue E key_spki challenge_cert (fst turn account) pkcs8 eg of
        (Ok na, x) \<Rightarrow> (acme_renewal_delay na (snd turn), x)
      | (Err _, x) \<Rightarrow> (ACME_RETRY_AFTER, x))"

fun issue_turns :: "'x ext_scheme \<Rightarrow> (bytes \<Rightarrow> bytes option) \<Rightarrow> (bytes \<Rightarrow> certified_key option) \<Rightarrow> string \<Rightarrow> bytes \<Rightarrow>
    ((string \<Rightarrow> acme_order option) \<times> time) list \<Rightarrow> edge \<Rightarrow> time list \<times> edge" where
  "issue_turns E key_spki challenge_cert account pkcs8 [] eg = ([], eg)"
| "issue_turns E key_spki challenge_cert account pkcs8 (x # xs) eg =
     (case issue_turn E key_spki challenge_cert account pkcs8 x eg of
        (w, e1) \<Rightarrow> (case issue_turns E key_spki challenge_cert account pkcs8 xs e1 of (ws, e2) \<Rightarrow> (w # ws, e2)))"

text \<open>The lookup, given up after a minute (no call then); a lookup that fails is one that found nothing.\<close>

definition lookup_reused :: "'x ext_scheme \<Rightarrow> (bytes \<Rightarrow> bytes option) \<Rightarrow> rcall option \<Rightarrow> string \<Rightarrow> bytes \<Rightarrow> edge \<Rightarrow> time option \<times> edge" where
  "lookup_reused E key_spki looked name pkcs8 eg =
     (case looked of
        None \<Rightarrow> (None, eg)
      | Some c \<Rightarrow> (case reuse E key_spki c name pkcs8 eg of (Ok r, x) \<Rightarrow> (r, x) | (Err _, x) \<Rightarrow> (None, x)))"

text \<open>
  The task: fetch the App's key, derive the certificate's and the account's from it, look the
  certificate up, wait, ask for the account as often as it takes, then order, turn by turn. What the
  world answers is listed, as far as the run is watched; the waits come in the order they are slept.
\<close>

record issue_run =
  ir_tries :: "(rcall \<times> (runtime \<Rightarrow> runtime)) list"
  ir_lookup :: "rcall option"
  ir_accounts :: "(bytes \<Rightarrow> string option) list"
  ir_turns :: "((string \<Rightarrow> acme_order option) \<times> time) list"

definition issue_forever :: "'x tls_ext_scheme \<Rightarrow> key_deriver \<Rightarrow> (bytes \<Rightarrow> bool) \<Rightarrow> (bytes \<Rightarrow> bytes option) \<Rightarrow> (bytes \<Rightarrow> certified_key option) \<Rightarrow>
    string \<Rightarrow> issue_run \<Rightarrow> runtime \<Rightarrow> edge \<Rightarrow> time list \<times> runtime \<times> edge" where
  "issue_forever E K key_ok key_spki challenge_cert name run s eg =
     (case edge_tls_key E (ir_tries run) s of
        (None, ws, t) \<Rightarrow> (ws, t, eg)
      | (Some tls_key, ws, t) \<Rightarrow>
          (case edge_keys K name tls_key of
             Err _ \<Rightarrow> (ws, t, eg)
           | Ok (cert_key, acme_key) \<Rightarrow>
               (let (reused, e1) = lookup_reused E key_spki (ir_lookup run) name cert_key eg;
                    routable = (case reused of None \<Rightarrow> ROUTABLE_AFTER | Some w \<Rightarrow> w) in
                (case account_loop key_ok (ir_accounts run) acme_key of
                   (None, vs) \<Rightarrow> (ws @ routable # vs, t, e1)
                 | (Some account, vs) \<Rightarrow>
                     (case issue_turns E key_spki challenge_cert account cert_key (ir_turns run) e1 of
                        (us, e2) \<Rightarrow> (ws @ routable # vs @ us, t, e2))))))"

section \<open>The forwarder to the inference front\<close>

definition DROPPED :: "string list" where
  "DROPPED = [''authorization'', ''proxy-authorization'', ''proxy-authenticate'', ''host'', ''connection'', ''keep-alive'', ''proxy-connection'',
     ''te'', ''trailer'', ''transfer-encoding'', ''upgrade'']"

text \<open>Header names are lower case, as in \<open>HeaderMap\<close>.\<close>

definition strip_headers :: "'x net_ext_scheme \<Rightarrow> (string \<times> string) list \<Rightarrow> (string \<times> string) list" where
  "strip_headers E hs =
     (let named = List.map_filter (\<lambda>t. header_name E (trim t))
            (concat (map (split_on (CHR '','')) (List.map_filter (\<lambda>(k, v). if k = ''connection'' then header_to_str E v else None) hs))) in
      filter (\<lambda>(k, v). k \<notin> set named \<and> k \<notin> set DROPPED) hs)"

record rt_front =
  rf_url :: string
  rf_client :: pinned_server

definition forwarder_bind :: "'x tls_ext_scheme \<Rightarrow> runtime \<Rightarrow> (rt_front option, rt_error) result" where
  "forwarder_bind E s =
     (case rc_inference (rt_config s) of
        None \<Rightarrow> Ok None
      | Some f \<Rightarrow>
          and_then (ok_or (Option.bind (last_attested s) (\<lambda>a. if fst (ad_certified a) = [] then None else Some (last (fst (ad_certified a))))) RtNotAttested) (\<lambda>ca.
          and_then (map_err RtKms (pinned_server_new E (Some (PinCaAndInstanceRevisions ca (if_revisions f) None)))) (\<lambda>ps.
          Ok (Some \<lparr> rf_url = if_url f, rf_client = ps \<rparr>))))"

definition url_path :: "url \<Rightarrow> string" where
  "url_path u = (case url_segments u of None \<Rightarrow> [] | Some ss \<Rightarrow> ''/'' @ join ''/'' ss)"

datatype forwarded = NotFoundPath | NotAttestedYet | FrontUnreachable | Relayed answer

text \<open>The caller's method, path with query, headers and body, which is left out when it is known to be empty.\<close>

definition front_request :: "'x net_ext_scheme \<Rightarrow> string \<Rightarrow> url \<Rightarrow> (string \<times> string) list \<Rightarrow> bytes \<Rightarrow> outgoing" where
  "front_request E meth u hs body =
     \<lparr> og_method = meth, og_to = Parsed u, og_bearer = None, og_basic = None, og_headers = strip_headers E hs,
       og_payload = (if body = [] then NoBody else RawBody [] body) \<rparr>"

definition rt_forward :: "'x tls_ext_scheme \<Rightarrow> rt_front \<Rightarrow> time \<Rightarrow> string \<Rightarrow> string option \<Rightarrow> (string \<times> string) list \<Rightarrow> bytes \<Rightarrow> runtime \<Rightarrow> forwarded \<times> runtime" where
  "rt_forward E f now meth asked_for hs body s =
     (case Option.bind (Option.bind asked_for (\<lambda>t. url_parse E (rf_url f @ t))) (\<lambda>u. if starts_with ''/v1/'' (url_path u) then Some u else None) of
        None \<Rightarrow> (NotFoundPath, s)
      | Some u \<Rightarrow>
          if current now s = None then (NotAttestedYet, s)
          else (case pinned_send E (rf_client f) (front_request E meth u hs body) (rt_sent s) of
                  (Err _, l) \<Rightarrow> (FrontUnreachable, s\<lparr> rt_sent := l \<rparr>)
                | (Ok (_, a), l) \<Rightarrow> (Relayed a, s\<lparr> rt_sent := l \<rparr>)))"

end
