(* ===== verification/Runtime_Spec.thy ===== *)
theory Runtime_Spec
  imports Runtime_Edge
begin

text \<open>
  What the runtime promises: it asks only KMS nodes that prove the measured pins, it serves only a
  leaf over its own key for the Revision it runs, the platform document it follows never goes back,
  and a Secret's file holds what the KMS answered for this App and that name, in the directory of a
  service that declared it.
\<close>

section \<open>What the KMS client's answers rest on\<close>

text \<open>A value the KMS answered to a request with a method, a path and a body, over everything sent.\<close>

definition kms_answered :: "'x tls_ext_scheme \<Rightarrow> dialled list \<Rightarrow> string \<Rightarrow> string \<Rightarrow> json option \<Rightarrow> (raw \<Rightarrow> 'a option) \<Rightarrow> 'a \<Rightarrow> bool" where
  "kms_answered E sent meth path body dec v \<longleftrightarrow>
     (\<exists>before d after endpoint a b. sent = before @ d # after \<and> dl_request d = kms_request meth (endpoint @ path) body
        \<and> tls_answer E (before @ [d]) = Some a \<and> is_success a \<and> read_capped a REPLY_CAP = Some b \<and> Option.bind (json_events E b) dec = Some v)"

lemma kms_answered_more: "kms_answered E sent meth path body dec v \<Longrightarrow> kms_answered E (sent @ ds) meth path body dec v"
  unfolding kms_answered_def by (metis append_Cons append_assoc)

lemma pinned_send_answer:
  "pinned_send E ps q s = (Ok (leaf, a), t) \<Longrightarrow> \<exists>d. t = s @ [d] \<and> dl_request d = q \<and> tls_answer E t = Some a"
  by (auto simp: pinned_send_def Let_def result_simps split: option.splits prod.splits list.splits if_splits)

lemma request_from_answered:
  "request_from E ps e endpoints meth path body dec s = (Ok v, t) \<Longrightarrow> kms_answered E t meth path body dec v"
proof (induction endpoints arbitrary: e s)
  case (Cons x rest)
  obtain r u where p: "pinned_send E ps (kms_request meth (x @ path) body) s = (r, u)" by fastforce
  show ?case
  proof (cases r)
    case (Err z)
    with Cons p show ?thesis by simp
  next
    case (Ok la)
    then obtain leaf a where r: "r = Ok (leaf, a)" by (cases la) auto
    from pinned_send_answer [OF p [unfolded r]] obtain d where d: "u = s @ [d]" "dl_request d = kms_request meth (x @ path) body" "tls_answer E u = Some a" by blast
    show ?thesis
    proof (cases "\<exists>b. read_capped a REPLY_CAP = Some b \<and> is_success a")
      case True
      then obtain b where b: "read_capped a REPLY_CAP = Some b" "is_success a" by blast
      with Cons.prems p r have "Option.bind (json_events E b) dec = Some v" "t = u" by (auto simp: result_simps)
      with b d show ?thesis unfolding kms_answered_def by blast
    next
      case False
      with Cons.prems p r show ?thesis
        by (auto split: option.splits if_splits dest: Cons.IH)
    qed
  qed
qed simp

lemma request_answered: "request E kc meth path body dec s = (Ok v, t) \<Longrightarrow> kms_answered E t meth path body dec v"
  unfolding request_def by (rule request_from_answered)

section \<open>The invariant\<close>

text \<open>The Revisions the runtime may trust: the measured list, or those of a signed document at the measured floor or above.\<close>

definition trusted_revisions :: "'x ext_scheme \<Rightarrow> rt_config \<Rightarrow> compose_hash list \<Rightarrow> bool" where
  "trusted_revisions E cf revisions \<longleftrightarrow>
     (case rc_kms_revisions cf of
        Listed listed \<Rightarrow> revisions = listed
      | Document u min_version keys \<Rightarrow>
          \<exists>d now doc. client_platform_verify E d keys now = Ok doc \<and> min_version \<le> unat (pd_version doc)
            \<and> revisions = map kr_compose_hash (pd_kms_revisions doc))"

abbreviation kms_pin :: "rt_config \<Rightarrow> compose_hash list \<Rightarrow> pin" where
  "kms_pin cf revisions \<equiv> PinCaSpkiAndRevisions (rc_kms_ca_spki_sha256 cf) revisions"

definition sent_trusted :: "'x tls_ext_scheme \<Rightarrow> rt_config \<Rightarrow> dialled \<Rightarrow> bool" where
  "sent_trusted E cf d \<longleftrightarrow> (\<exists>revisions. trusted_revisions E cf revisions \<and> pin_proved E (kms_pin cf revisions) d)"

text \<open>A leaf over the runtime's key, under the pinned CA, for the Revision whose text the runtime read.\<close>

definition own_leaf :: "'x ext_scheme \<Rightarrow> runtime \<Rightarrow> attested \<Rightarrow> bool" where
  "own_leaf E s a \<longleftrightarrow>
     (\<exists>leaf ca. ad_certified a = ([leaf, ca], rt_pkcs8 s) \<and> spki_of E leaf = Ok (rt_spki s)
        \<and> spki_sha256 E ca = Some (rc_kms_ca_spki_sha256 (rt_config s))
        \<and> and_then (uri_sans E leaf) (parse_instance_sans E) = Ok (ad_identity a)
        \<and> (\<forall>r. rt_revision s = Some r \<longrightarrow> compose_hash_of E (as_bytes (revision_text_of r)) = is_compose_hash (ad_identity a)))"

definition client_trusted :: "'x tls_ext_scheme \<Rightarrow> rt_config \<Rightarrow> kms_client \<Rightarrow> bool" where
  "client_trusted E cf kc \<longleftrightarrow> (\<exists>revisions. trusted_revisions E cf revisions \<and> client_configured E (rc_kms_endpoints cf) (kms_pin cf revisions) = Ok kc)"

abbreviation secret_answered :: "'x tls_ext_scheme \<Rightarrow> dialled list \<Rightarrow> string \<Rightarrow> kms_secret \<Rightarrow> bool" where
  "secret_answered E sent name v \<equiv> kms_answered E sent ''GET'' (''/v1/secrets/'' @ name) None kms_secret_de v"

definition attested_ok :: "'x tls_ext_scheme \<Rightarrow> runtime \<Rightarrow> attested \<Rightarrow> bool" where
  "attested_ok E s a \<longleftrightarrow> own_leaf E s a \<and> client_trusted E (rt_config s) (ad_client a)
     \<and> (\<forall>name v. ad_secrets a name = Some v \<longrightarrow> secret_answered E (rt_sent s) name v) \<and> length (ad_keys a) \<le> CACHED_KEYS"

definition accepted_ok :: "'x ext_scheme \<Rightarrow> runtime \<Rightarrow> bool" where
  "accepted_ok E s \<longleftrightarrow> (\<forall>v revisions. rt_accepted s = Some (v, revisions) \<longrightarrow> trusted_revisions E (rt_config s) revisions
     \<and> (\<forall>u min_version keys. rc_kms_revisions (rt_config s) = Document u min_version keys \<longrightarrow> min_version \<le> v))"

definition runtime_ok :: "'x tls_ext_scheme \<Rightarrow> runtime \<Rightarrow> bool" where
  "runtime_ok E s \<longleftrightarrow> accepted_ok E s \<and> (\<forall>a. rt_attested s = Some a \<longrightarrow> attested_ok E s a) \<and> (\<forall>d \<in> set (rt_sent s). sent_trusted E (rt_config s) d)"

text \<open>What no step undoes.\<close>

definition runtime_below :: "runtime \<Rightarrow> runtime \<Rightarrow> bool" where
  "runtime_below s t \<longleftrightarrow>
     rt_config t = rt_config s \<and> rt_pkcs8 t = rt_pkcs8 s \<and> rt_spki t = rt_spki s \<and> rt_revision t = rt_revision s
     \<and> (rt_revoked s \<longrightarrow> rt_revoked t) \<and> (\<exists>ds. rt_sent t = rt_sent s @ ds)
     \<and> (\<forall>v r. rt_accepted s = Some (v, r) \<longrightarrow> (\<exists>v' r'. rt_accepted t = Some (v', r') \<and> v \<le> v' \<and> (v' = v \<longrightarrow> r' = r)))"

lemma runtime_below_refl [simp]: "runtime_below s s"
  by (simp add: runtime_below_def)

lemma runtime_below_trans:
  assumes "runtime_below s t" and "runtime_below t u"
  shows "runtime_below s u"
proof -
  have "\<exists>v' r'. rt_accepted u = Some (v', r') \<and> v \<le> v' \<and> (v' = v \<longrightarrow> r' = r)" if "rt_accepted s = Some (v, r)" for v r
  proof -
    from assms(1) that obtain v1 r1 where 1: "rt_accepted t = Some (v1, r1)" "v \<le> v1" "v1 = v \<longrightarrow> r1 = r" unfolding runtime_below_def by blast
    with assms(2) obtain v2 r2 where "rt_accepted u = Some (v2, r2)" "v1 \<le> v2" "v2 = v1 \<longrightarrow> r2 = r1" unfolding runtime_below_def by blast
    with 1 show ?thesis by (metis le_antisym le_trans)
  qed
  with assms show ?thesis unfolding runtime_below_def by auto
qed

text \<open>A state in which a step may be: the invariant holds and nothing of the state it started in is undone.\<close>

definition good :: "'x tls_ext_scheme \<Rightarrow> runtime \<Rightarrow> runtime \<Rightarrow> bool" where
  "good E s0 s \<longleftrightarrow> runtime_ok E s \<and> runtime_below s0 s"

lemma goodI: "good E s0 s \<Longrightarrow> runtime_below s t \<Longrightarrow> runtime_ok E t \<Longrightarrow> good E s0 t"
  unfolding good_def using runtime_below_trans by blast

lemma good_config: "good E s0 s \<Longrightarrow> rt_config s = rt_config s0 \<and> rt_spki s = rt_spki s0 \<and> rt_pkcs8 s = rt_pkcs8 s0 \<and> rt_revision s = rt_revision s0"
  by (simp add: good_def runtime_below_def)

lemma attested_ok_same:
  "attested_ok E s a \<Longrightarrow> rt_config t = rt_config s \<Longrightarrow> rt_spki t = rt_spki s \<Longrightarrow> rt_pkcs8 t = rt_pkcs8 s \<Longrightarrow> rt_revision t = rt_revision s
   \<Longrightarrow> rt_sent t = rt_sent s @ ds \<Longrightarrow> attested_ok E t a"
  by (auto simp: attested_ok_def own_leaf_def intro: kms_answered_more)

lemma good_sent:
  assumes "good E s0 s" and "\<forall>d \<in> set ds. sent_trusted E (rt_config s0) d"
  shows "good E s0 (s\<lparr> rt_sent := rt_sent s @ ds \<rparr>)"
proof (rule goodI [OF assms(1)])
  show "runtime_below s (s\<lparr> rt_sent := rt_sent s @ ds \<rparr>)" by (simp add: runtime_below_def)
  have "attested_ok E (s\<lparr> rt_sent := rt_sent s @ ds \<rparr>) a" if "attested_ok E s a" for a
    using attested_ok_same [OF that, of "s\<lparr> rt_sent := rt_sent s @ ds \<rparr>" ds] by simp
  with assms good_config [OF assms(1)] show "runtime_ok E (s\<lparr> rt_sent := rt_sent s @ ds \<rparr>)"
    by (auto simp: good_def runtime_ok_def accepted_ok_def)
qed

lemma good_updates:
  assumes "good E s0 s"
  shows "good E s0 (s\<lparr> rt_revoked := True \<rparr>)" "good E s0 (s\<lparr> rt_attest_error := e \<rparr>)" "good E s0 (s\<lparr> rt_files := f \<rparr>)"
  using assms by (auto simp: good_def runtime_ok_def runtime_below_def accepted_ok_def attested_ok_def own_leaf_def)

lemma good_attested:
  assumes "good E s0 s" and "attested_ok E s a"
  shows "good E s0 (s\<lparr> rt_attested := Some a \<rparr>)"
  using assms by (auto simp: good_def runtime_ok_def runtime_below_def accepted_ok_def attested_ok_def own_leaf_def)

lemma good_request:
  assumes "client_trusted E (rt_config s0) kc"
  shows "triple (good E s0) (on_rt_sent (request E kc meth path body dec)) (\<lambda>v t. good E s0 t \<and> kms_answered E (rt_sent t) meth path body dec v) (good E s0)"
proof -
  from assms obtain revisions where t: "trusted_revisions E (rt_config s0) revisions"
    and c: "client_configured E (rc_kms_endpoints (rt_config s0)) (kms_pin (rt_config s0) revisions) = Ok kc" unfolding client_trusted_def by blast
  from c obtain ps where ps: "pinned_server_new E (Some (kms_pin (rt_config s0) revisions)) = Ok ps" "kc_server kc = ps"
    by (auto simp: client_configured_def result_simps)
  have sent: "good E s0 (s\<lparr> rt_sent := l \<rparr>)" if "good E s0 s" "request E kc meth path body dec (rt_sent s) = (r, l)" for s r l
  proof -
    from request_from_pinned [OF ps(1), of "rt_sent s" CConnect "kc_endpoints kc" meth path body dec] that(2) ps(2)
    obtain ds where "l = rt_sent s @ ds" "\<forall>d \<in> set ds. pin_proved E (kms_pin (rt_config s0) revisions) d" by (auto simp: request_def sent_pinned_def)
    with good_sent [OF that(1), of ds] t show ?thesis unfolding sent_trusted_def by blast
  qed
  show ?thesis unfolding triple_def
  proof (rule conjI; intro allI impI)
    fix s v t
    assume "good E s0 s" "on_rt_sent (request E kc meth path body dec) s = (Ok v, t)"
    then obtain l where "request E kc meth path body dec (rt_sent s) = (Ok v, l)" "t = s\<lparr> rt_sent := l \<rparr>"
      by (auto simp: on_rt_sent_def act_inv_simps)
    with sent \<open>good E s0 s\<close> request_answered show "good E s0 t \<and> kms_answered E (rt_sent t) meth path body dec v" by fastforce
  next
    fix s e t
    assume "good E s0 s" "on_rt_sent (request E kc meth path body dec) s = (Err e, t)"
    then obtain r l where "request E kc meth path body dec (rt_sent s) = (r, l)" "t = s\<lparr> rt_sent := l \<rparr>"
      by (auto simp: on_rt_sent_def act_on_def act_map_err_def split: prod.splits)
    with sent \<open>good E s0 s\<close> show "good E s0 t" by blast
  qed
qed

lemma good_note: "triple (good E s0) m R (good E s0) \<Longrightarrow> triple (good E s0) (note_error m) R (good E s0)"
  unfolding triple_def note_error_def by (auto split: prod.splits result.splits intro: good_updates)

lemma good_kms_revisions:
  "triple (good E s0) (rt_kms_revisions E c) (\<lambda>revisions t. good E s0 t \<and> trusted_revisions E (rt_config s0) revisions) (good E s0)"
proof -
  have all: "(\<forall>e. r = Err e \<longrightarrow> good E s0 t) \<and> (\<forall>revisions. r = Ok revisions \<longrightarrow> good E s0 t \<and> trusted_revisions E (rt_config s0) revisions)"
    if g: "good E s0 s" and r: "rt_kms_revisions E c s = (r, t)" for s r t
  proof (cases "rc_kms_revisions (rt_config s)")
    case (Listed listed)
    with g r good_config [OF g] show ?thesis by (auto simp: rt_kms_revisions_def trusted_revisions_def)
  next
    case (Document u mv keys)
    have kept: ?thesis if "(r, t) = (case rt_accepted s of Some (_, revisions) \<Rightarrow> (Ok revisions, s) | None \<Rightarrow> (Err RtPlatform, s))"
      using that g good_config [OF g] by (auto simp: good_def runtime_ok_def accepted_ok_def split: option.splits)
    show ?thesis
    proof (cases "fetch_verified E c u keys")
      case None
      with Document r kept show ?thesis by (simp add: rt_kms_revisions_def Let_def)
    next
      case (Some doc)
      show ?thesis
      proof (cases "case rt_accepted s of None \<Rightarrow> unat (pd_version doc) \<ge> mv | Some (w, _) \<Rightarrow> unat (pd_version doc) > w")
        case False
        with Some Document r kept show ?thesis by (auto simp: rt_kms_revisions_def Let_def)
      next
        case True
        from Some obtain d where d: "client_platform_verify E d keys (rq_now c) = Ok doc" by (auto simp: fetch_verified_def bind_eq_Some_conv result_simps)
        let ?rs = "map kr_compose_hash (pd_kms_revisions doc)" and ?v = "unat (pd_version doc)"
        have mv: "mv \<le> ?v"
          using True g Document by (auto simp: good_def runtime_ok_def accepted_ok_def split: option.splits prod.splits)
        with d Document have tr: "trusted_revisions E (rt_config s) ?rs" unfolding trusted_revisions_def by auto
        have rt: "r = Ok ?rs" "t = s\<lparr> rt_accepted := Some (?v, ?rs) \<rparr>"
          using Some Document r True by (auto simp: rt_kms_revisions_def Let_def)
        have "runtime_below s t" unfolding rt(2) runtime_below_def using True by auto
        moreover have "runtime_ok E t"
          using g tr mv Document unfolding rt(2) by (auto simp: good_def runtime_ok_def accepted_ok_def attested_ok_def own_leaf_def)
        ultimately have "good E s0 t" by (rule goodI [OF g])
        with rt(1) tr good_config [OF g] show ?thesis by simp
      qed
    qed
  qed
  show ?thesis unfolding triple_def using all by blast
qed

lemma accept_ok:
  assumes "accept E s reply (kms_pin (rt_config s) revisions) = Ok a" and "trusted_revisions E (rt_config s) revisions"
  shows "attested_ok E s a"
proof -
  from assms(1) obtain leaf ca where "ad_certified a = ([leaf, ca], rt_pkcs8 s)" "spki_of E leaf = Ok (rt_spki s)"
    "spki_sha256 E ca = Some (rc_kms_ca_spki_sha256 (rt_config s))" "and_then (uri_sans E leaf) (parse_instance_sans E) = Ok (ad_identity a)"
    "\<forall>r. rt_revision s = Some r \<longrightarrow> compose_hash_of E (as_bytes (revision_text_of r)) = is_compose_hash (ad_identity a)"
    and k: "client_configured E (rc_kms_endpoints (rt_config s)) (kms_pin (rt_config s) revisions) = Ok (ad_client a)" "ad_secrets a = Map.empty" "ad_keys a = []"
    by (auto simp: accept_def tls_certified_def result_simps split: list.splits option.splits)
  then have "own_leaf E s a" unfolding own_leaf_def by blast
  with k assms(2) show ?thesis by (auto simp: attested_ok_def client_trusted_def)
qed

lemma good_attest_inner: "triple (good E s0) (rt_attest_inner E c) (\<lambda>(a, ev, n) t. good E s0 t \<and> attested_ok E t a) (good E s0)"
proof -
  have cf: "triple (good E s0) (act_read rt_config) (\<lambda>cf t. good E s0 t \<and> cf = rt_config s0) (good E s0)"
    by (auto simp: triple_def dest: good_config)
  have lift: "triple (good E s0) (act_lift r) (\<lambda>_. good E s0) (good E s0)" for r :: "('z, rt_error) result"
    by (cases r) (auto simp: triple_def)
  have read: "triple (good E s0) (act_read f) (\<lambda>_. good E s0) (good E s0)" for f :: "runtime \<Rightarrow> 'y"
    by (auto simp: triple_def)
  have pure: "triple (\<lambda>t. good E s0 t \<and> P) m R S" if "P \<Longrightarrow> triple (good E s0) m R S" for P R S and m :: "(runtime, 'w, rt_error) action"
    using that by (auto simp: triple_def)
  have last: "triple (good E s0) (act_bind (\<lambda>s. (accept E s reply (kms_pin (rt_config s0) revisions), s)) (\<lambda>a. act_ok (a, ev, n)))
      (\<lambda>(a, ev, n) t. good E s0 t \<and> attested_ok E t a) (good E s0)" if "trusted_revisions E (rt_config s0) revisions" for reply revisions ev n
    unfolding triple_def by (auto simp: act_bind_Ok act_bind_Err dest: good_config intro!: accept_ok that)
  have kc: "triple (good E s0) (act_lift (map_err RtKms (client_configured E (rc_kms_endpoints (rt_config s0)) (kms_pin (rt_config s0) revisions))))
      (\<lambda>kms t. good E s0 t \<and> client_trusted E (rt_config s0) kms) (good E s0)" if "trusted_revisions E (rt_config s0) revisions" for revisions
    using that by (auto simp: triple_def client_trusted_def result_simps)
  show ?thesis
    unfolding rt_attest_inner_def Let_def
    apply (rule triple_bind [OF good_kms_revisions])
    apply (rule pure)
    apply (rule triple_bind [OF cf])
    apply (rule pure, simp only:)
    apply (rule triple_bind [OF kc], assumption)
    apply (rule pure)
    apply (rule triple_bind [OF triple_conseq [OF good_request]], assumption, assumption, erule conjunct1, assumption)
    apply (rule triple_bind [OF lift], rule triple_bind [OF read], rule triple_bind [OF lift])
    apply (rule triple_bind [OF triple_conseq [OF good_request]], assumption, assumption, erule conjunct1, assumption)
    apply (rule last, assumption)
    done
qed


section \<open>Every step keeps it\<close>

lemma attested_ok_attestation: "attested_ok E s (a\<lparr> ad_attestation := d \<rparr>) \<longleftrightarrow> attested_ok E s a"
  by (simp add: attested_ok_def own_leaf_def)

lemma attested_ok_error: "attested_ok E (s\<lparr> rt_attest_error := e \<rparr>) a \<longleftrightarrow> attested_ok E s a"
  by (simp add: attested_ok_def own_leaf_def)

lemma good_attest: "triple (good E s0) (rt_attest E c) (\<lambda>a t. good E s0 t \<and> rt_attested t = Some a) (good E s0)"
proof -
  have t: "triple (good E s0) (note_error (rt_attest_inner E c)) (\<lambda>(a, ev, n) t. good E s0 t \<and> attested_ok E t a) (good E s0)"
    by (rule good_note [OF good_attest_inner])
  show ?thesis unfolding triple_def
  proof (rule conjI; intro allI impI)
    fix s a t
    assume g: "good E s0 s" and r: "rt_attest E c s = (Ok a, t)"
    from r obtain b ev n u where i: "note_error (rt_attest_inner E c) s = (Ok (b, ev, n), u)"
      and a: "a = b\<lparr> ad_attestation := attestation_document E c u ev n \<rparr>" and tt: "t = u\<lparr> rt_attest_error := None, rt_attested := Some a \<rparr>"
      by (auto simp: rt_attest_def Let_def split: prod.splits result.splits)
    from t g i have u: "good E s0 u" "attested_ok E u b" unfolding triple_def by blast+
    have "attested_ok E (u\<lparr> rt_attest_error := None \<rparr>) a" using u a by (simp add: attested_ok_attestation attested_ok_error)
    with good_attested [OF good_updates(2) [OF u(1)]] tt show "good E s0 t \<and> rt_attested t = Some a" by simp
  next
    fix s e t
    assume g: "good E s0 s" and r: "rt_attest E c s = (Err e, t)"
    from r obtain u where i: "note_error (rt_attest_inner E c) s = (Err e, u)" and tt: "t = u\<lparr> rt_attest_error := Some (rt_kind e) \<rparr>"
      by (auto simp: rt_attest_def Let_def split: prod.splits result.splits)
    from t g i have "good E s0 u" unfolding triple_def by blast
    with tt show "good E s0 t" by (simp add: good_updates)
  qed
qed

lemma current_ok: "good E s0 s \<Longrightarrow> current now s = Some a \<Longrightarrow> attested_ok E s a \<and> rt_attested s = Some a"
  by (auto simp: good_def runtime_ok_def current_def last_attested_def bind_eq_Some_conv split: if_splits)

lemma attested_ok_later:
  assumes "attested_ok E s a" and "runtime_below s t"
  shows "attested_ok E t a"
  using assms attested_ok_same by (auto simp: runtime_below_def)

text \<open>A request over the current leaf, and what it leaves in the caches.\<close>

lemma good_current_request:
  assumes "good E s0 s" and "current now s = Some a"
  shows "triple ((=) s) (note_error (on_rt_sent (request E (ad_client a) meth path body dec)))
     (\<lambda>v t. good E s0 t \<and> attested_ok E t a \<and> kms_answered E (rt_sent t) meth path body dec v) (good E s0)"
proof -
  from current_ok [OF assms] have a: "attested_ok E s a" by simp
  have g: "good E s s" using assms(1) by (simp add: good_def)
  from a have "client_trusted E (rt_config s) (ad_client a)" by (simp add: attested_ok_def)
  note req = good_note [OF good_request [OF this], of meth path body dec]
  show ?thesis unfolding triple_def
  proof (rule conjI; intro allI impI)
    fix u v t
    assume "s = u" "note_error (on_rt_sent (request E (ad_client a) meth path body dec)) u = (Ok v, t)"
    with req g have t: "good E s t" "kms_answered E (rt_sent t) meth path body dec v" unfolding triple_def by blast+
    then have "runtime_below s t" "runtime_ok E t" by (simp_all add: good_def)
    with t goodI [OF assms(1)] attested_ok_later [OF a] show "good E s0 t \<and> attested_ok E t a \<and> kms_answered E (rt_sent t) meth path body dec v" by blast
  next
    fix u e t
    assume "s = u" "note_error (on_rt_sent (request E (ad_client a) meth path body dec)) u = (Err e, t)"
    with req g have "good E s t" unfolding triple_def by blast
    with goodI [OF assms(1)] show "good E s0 t" by (simp add: good_def)
  qed
qed

lemma note_sent_files: "note_error (on_rt_sent m) s = (r, t) \<Longrightarrow> rt_files t = rt_files s"
  by (auto simp: note_error_def on_rt_sent_def act_on_def act_map_err_def split: prod.splits result.splits if_splits)

lemma good_secret:
  assumes g: "good E s0 s" and r: "rt_secret E c name s = (r, t)"
  shows "good E s0 t \<and> rt_files t = rt_files s \<and> (\<forall>v. r = Ok v \<longrightarrow> secret_answered E (rt_sent t) name v)"
proof (cases "current (rq_now c) s")
  case None
  with g r show ?thesis by (auto simp: rt_secret_def)
next
  case (Some a)
  show ?thesis
  proof (cases "ad_secrets a name")
    case (Some v)
    with \<open>current (rq_now c) s = Some a\<close> current_ok [OF g] g r show ?thesis by (auto simp: rt_secret_def attested_ok_def)
  next
    case None
    let ?m = "note_error (on_rt_sent (request E (ad_client a) ''GET'' (''/v1/secrets/'' @ name) None kms_secret_de))"
    obtain x u where m: "?m s = (x, u)" by fastforce
    note k = good_current_request [OF g Some, of "''GET''" "''/v1/secrets/'' @ name" None kms_secret_de, unfolded triple_def]
    show ?thesis
    proof (cases x)
      case (Err e)
      with m k have "good E s0 u" by blast
      with m Err r None Some note_sent_files [OF m] show ?thesis by (auto simp: rt_secret_def act_bind_def)
    next
      case (Ok v)
      with m k have u: "good E s0 u" "attested_ok E u a" "secret_answered E (rt_sent u) name v" by blast+
      then have "attested_ok E u (a\<lparr> ad_secrets := (ad_secrets a)(name \<mapsto> v) \<rparr>)" by (auto simp: attested_ok_def own_leaf_def)
      from good_attested [OF u(1) this] u m Ok r None Some note_sent_files [OF m] show ?thesis
        by (auto simp: rt_secret_def act_bind_def act_modify_def)
    qed
  qed
qed

lemma good_key:
  assumes g: "good E s0 s" and r: "rt_key E c purpose s = (r, t)"
  shows "good E s0 t"
proof (cases "current (rq_now c) s")
  case None
  with g r show ?thesis by (auto simp: rt_key_def)
next
  case (Some a)
  show ?thesis
  proof (cases "map_of (ad_keys a) purpose")
    case (Some k)
    with \<open>current (rq_now c) s = Some a\<close> g r show ?thesis by (auto simp: rt_key_def)
  next
    case None
    let ?b = "Some (jobj [(''purpose'', JString purpose)])"
    let ?m = "note_error (on_rt_sent (request E (ad_client a) ''POST'' ''/v1/keys/derive'' ?b derived_key_de))"
    obtain x u where m: "?m s = (x, u)" by fastforce
    note k = good_current_request [OF g Some, of "''POST''" "''/v1/keys/derive''" ?b derived_key_de, unfolded triple_def]
    show ?thesis
    proof (cases x)
      case (Err e)
      with m k have "good E s0 u" by blast
      with m Err r None Some show ?thesis by (auto simp: rt_key_def act_bind_def)
    next
      case (Ok v)
      with m k have u: "good E s0 u" "attested_ok E u a" by blast+
      have "attested_ok E u (a\<lparr> ad_keys := ad_keys a @ [(purpose, v)] \<rparr>)" if "length (ad_keys a) < CACHED_KEYS"
        using u(2) that by (auto simp: attested_ok_def own_leaf_def)
      from good_attested [OF u(1) this] u(1) m Ok r None Some show ?thesis
        by (auto simp: rt_key_def act_bind_def act_modify_def split: if_splits)
    qed
  qed
qed

section \<open>The Secret files\<close>

lemma write_secret_files:
  assumes "write_secret c service name v s = (ok, t)"
  shows "\<exists>f. t = s\<lparr> rt_files := f \<rparr> \<and> (\<forall>k. f k = rt_files s k \<or> k = (service, name) \<and> f k = Some v) \<and> (ok \<longrightarrow> f (service, name) = Some v)"
proof (cases "rt_files s (service, name) = Some v \<or> \<not> rq_writable c service name")
  case True
  with assms have "t = s" "ok \<longrightarrow> rt_files s (service, name) = Some v" by (auto simp: write_secret_def split: if_splits)
  then show ?thesis by (intro exI [of _ "rt_files s"]) auto
next
  case False
  with assms have "t = s\<lparr> rt_files := (rt_files s)((service, name) \<mapsto> v) \<rparr>" by (auto simp: write_secret_def)
  then show ?thesis by (intro exI [of _ "(rt_files s)((service, name) \<mapsto> v)"]) auto
qed

lemma write_fold_files:
  assumes "foldl (\<lambda>(ok, t) service. case write_secret c service name v t of (w, u) \<Rightarrow> (ok \<and> w, u)) (ok0, s) services = (ok, t)"
  shows "\<exists>f. t = s\<lparr> rt_files := f \<rparr> \<and> (\<forall>k. f k = rt_files s k \<or> fst k \<in> set services \<and> snd k = name \<and> f k = Some v)
     \<and> (ok \<longrightarrow> ok0 \<and> (\<forall>service \<in> set services. f (service, name) = Some v))"
  using assms
proof (induction services arbitrary: ok0 s)
  case Nil
  then show ?case by (intro exI [of _ "rt_files s"]) auto
next
  case (Cons x xs)
  obtain w u where w: "write_secret c x name v s = (w, u)" by fastforce
  from write_secret_files [OF w] obtain g where g: "u = s\<lparr> rt_files := g \<rparr>" "\<forall>k. g k = rt_files s k \<or> k = (x, name) \<and> g k = Some v"
    "w \<longrightarrow> g (x, name) = Some v" by blast
  from Cons.IH [of "ok0 \<and> w" u] Cons.prems w obtain f where f: "t = u\<lparr> rt_files := f \<rparr>"
    "\<forall>k. f k = rt_files u k \<or> fst k \<in> set xs \<and> snd k = name \<and> f k = Some v"
    "ok \<longrightarrow> (ok0 \<and> w) \<and> (\<forall>service \<in> set xs. f (service, name) = Some v)" by auto
  have keep: "f k = rt_files s k \<or> fst k \<in> set (x # xs) \<and> snd k = name \<and> f k = Some v" for k
    using f(2) [rule_format, of k] g(2) [rule_format, of k] unfolding g(1) by auto
  have all: "ok \<longrightarrow> ok0 \<and> (\<forall>service \<in> set (x # xs). f (service, name) = Some v)"
    using f(3) g(3) f(2) [rule_format, of "(x, name)"] unfolding g(1) by auto
  from f(1) g(1) have "t = s\<lparr> rt_files := f \<rparr>" by simp
  with keep all show ?case by blast
qed

text \<open>A file that holds what the KMS answered for the App and the file's name.\<close>

definition file_answered :: "'x tls_ext_scheme \<Rightarrow> uuid \<Rightarrow> runtime \<Rightarrow> string \<times> string \<Rightarrow> bool" where
  "file_answered E app_id t k \<longleftrightarrow>
     (\<exists>v b. secret_answered E (rt_sent t) (uuid_show E app_id @ ''.'' @ snd k) v \<and> b64_dec E (ks_value v) = Some b \<and> rt_files t k = Some b)"

definition declares :: "declared \<Rightarrow> string \<times> string \<Rightarrow> bool" where
  "declares secrets k \<longleftrightarrow> (\<exists>names. (fst k, names) \<in> set secrets \<and> snd k \<in> set names)"

definition files_delivered :: "'x tls_ext_scheme \<Rightarrow> uuid \<Rightarrow> runtime \<Rightarrow> runtime \<Rightarrow> bool" where
  "files_delivered E app_id s t \<longleftrightarrow> (\<forall>k. rt_files t k = rt_files s k \<or> declares (rc_secrets (rt_config s)) k \<and> file_answered E app_id t k)"

lemma file_answered_later:
  "file_answered E app_id s k \<Longrightarrow> runtime_below s t \<Longrightarrow> files_delivered E app_id s t \<Longrightarrow> file_answered E app_id t k"
  unfolding files_delivered_def file_answered_def runtime_below_def by (metis kms_answered_more)

lemma files_delivered_trans:
  assumes "files_delivered E app_id s t" and "files_delivered E app_id t u" and "runtime_below s t" and "runtime_below t u"
  shows "files_delivered E app_id s u"
proof -
  have "rt_files u k = rt_files s k \<or> declares (rc_secrets (rt_config s)) k \<and> file_answered E app_id u k" for k
  proof (cases "rt_files u k = rt_files t k")
    case True
    show ?thesis
    proof (cases "rt_files t k = rt_files s k")
      case False
      with assms(1) have "declares (rc_secrets (rt_config s)) k" "file_answered E app_id t k" unfolding files_delivered_def by blast+
      with file_answered_later [OF _ assms(4) assms(2)] show ?thesis by blast
    qed (use True in simp)
  next
    case False
    with assms(2,3) show ?thesis unfolding files_delivered_def runtime_below_def by metis
  qed
  then show ?thesis unfolding files_delivered_def by blast
qed

lemma good_deliver_one:
  assumes g: "good E s0 s" and r: "deliver_one E c app_id name s = (r, t)"
  shows "good E s0 t \<and> runtime_below s t \<and> files_delivered E app_id s t
     \<and> (r = Some True \<longrightarrow> (\<forall>service. declares (rc_secrets (rt_config s)) (service, name) \<longrightarrow> file_answered E app_id t (service, name)))"
proof -
  let ?n = "uuid_show E app_id @ ''.'' @ name"
  obtain x u where x: "rt_secret E c ?n s = (x, u)" by fastforce
  have gs: "good E s s" using g by (simp add: good_def)
  from good_secret [OF gs x] have u: "good E s u" "runtime_below s u" "rt_files u = rt_files s" "\<And>v. x = Ok v \<Longrightarrow> secret_answered E (rt_sent u) ?n v"
    by (auto simp: good_def)
  have gu: "good E s0 u" using goodI [OF g u(2)] u(1) by (simp add: good_def)
  show ?thesis
  proof (cases "\<exists>v b. x = Ok v \<and> b64_dec E (ks_value v) = Some b")
    case False
    with r x have "t = u" "r \<noteq> Some True" by (auto simp: deliver_one_def split: result.splits option.splits if_splits)
    with gu u show ?thesis by (simp add: files_delivered_def)
  next
    case True
    then obtain v b where v: "x = Ok v" "b64_dec E (ks_value v) = Some b" by blast
    let ?ss = "map fst (filter (\<lambda>(_, ns). name \<in> set ns) (rc_secrets (rt_config u)))"
    obtain ok where w: "write_all c name b ?ss u = (ok, t)" and rr: "r = Some ok"
      using r x v by (auto simp: deliver_one_def split: prod.splits)
    from write_fold_files [OF w [unfolded write_all_def]] obtain f where f: "t = u\<lparr> rt_files := f \<rparr>"
      "\<forall>k. f k = rt_files u k \<or> fst k \<in> set ?ss \<and> snd k = name \<and> f k = Some b" "ok \<longrightarrow> (\<forall>service \<in> set ?ss. f (service, name) = Some b)" by blast
    have cf: "rt_config u = rt_config s" using u(2) by (simp add: runtime_below_def)
    have ss: "service \<in> set ?ss \<longleftrightarrow> declares (rc_secrets (rt_config s)) (service, name)" for service
      unfolding cf declares_def by force
    have ans: "file_answered E app_id t (service, name)" if "f (service, name) = Some b" for service
      using that u(4) [OF v(1)] v(2) f(1) unfolding file_answered_def by auto
    have "runtime_below u t" unfolding f(1) by (simp add: runtime_below_def)
    then have b: "runtime_below s t" using runtime_below_trans u(2) by blast
    have gt: "good E s0 t" unfolding f(1) by (rule good_updates [OF gu])
    have "files_delivered E app_id s t" unfolding files_delivered_def
    proof
      fix k :: "string \<times> string"
      obtain service n where k: "k = (service, n)" by (cases k)
      show "rt_files t k = rt_files s k \<or> declares (rc_secrets (rt_config s)) k \<and> file_answered E app_id t k"
        using f(2) [rule_format, of k] ss ans u(3) unfolding k f(1) by auto
    qed
    with gt b ans ss f(3) rr show ?thesis by blast
  qed
qed

lemma good_deliver_names:
  assumes "good E s0 s" and "deliver_names E c app_id names incomplete s = (d, t)"
  shows "good E s0 t \<and> runtime_below s t \<and> files_delivered E app_id s t
     \<and> (d = Complete \<longrightarrow> incomplete = [] \<and> (\<forall>n \<in> set names. \<forall>service. declares (rc_secrets (rt_config s)) (service, n) \<longrightarrow> file_answered E app_id t (service, n)))"
  using assms
proof (induction names arbitrary: incomplete s)
  case Nil
  then show ?case by (auto simp: files_delivered_def split: if_splits)
next
  case (Cons x xs)
  obtain r u where o1: "deliver_one E c app_id x s = (r, u)" by fastforce
  note one = good_deliver_one [OF Cons.prems(1) o1]
  show ?case
  proof (cases r)
    case None
    with Cons.prems o1 one show ?thesis by auto
  next
    case (Some ok)
    with Cons.prems(2) o1 have "deliver_names E c app_id xs (if ok then incomplete else incomplete @ [x]) u = (d, t)" by simp
    from Cons.IH [OF _ this] one have rest: "good E s0 t" "runtime_below u t" "files_delivered E app_id u t"
      and done': "d = Complete \<Longrightarrow> ok \<and> incomplete = []"
      "\<And>n service. d = Complete \<Longrightarrow> n \<in> set xs \<Longrightarrow> declares (rc_secrets (rt_config u)) (service, n) \<Longrightarrow> file_answered E app_id t (service, n)"
      by (auto split: if_splits)
    have cf: "rt_config u = rt_config s" using one by (simp add: runtime_below_def)
    have "file_answered E app_id t (service, n)" if "d = Complete" "n \<in> set (x # xs)" "declares (rc_secrets (rt_config s)) (service, n)" for n service
      using that done' one Some file_answered_later [OF _ rest(2,3)] cf by (cases "n \<in> set xs") auto
    with one rest done' runtime_below_trans files_delivered_trans show ?thesis by meson
  qed
qed

lemma good_deliver:
  assumes "good E s0 s" and "deliver E c s = (d, t)"
  shows "good E s0 t" "runtime_below s t"
    "\<exists>app_id. (\<forall>a. current (rq_now c) s = Some a \<longrightarrow> app_id = is_app_id (ad_identity a)) \<and> files_delivered E app_id s t
      \<and> (d = Complete \<longrightarrow> (\<forall>k. declares (rc_secrets (rt_config s)) k \<longrightarrow> file_answered E app_id t k))"
proof -
  have mem: "n \<in> set (declared_names ss)" if "declares ss (service, n)" for ss service n
    using that unfolding declares_def declared_names_def by (auto intro: bexI [of _ "(service, _)"])
  have "good E s0 t \<and> runtime_below s t \<and> (\<exists>app_id. (\<forall>a. current (rq_now c) s = Some a \<longrightarrow> app_id = is_app_id (ad_identity a)) \<and> files_delivered E app_id s t
      \<and> (d = Complete \<longrightarrow> (\<forall>k. declares (rc_secrets (rt_config s)) k \<longrightarrow> file_answered E app_id t k)))"
  proof (cases "\<not> rt_revoked s \<and> (\<exists>a. current (rq_now c) s = Some a)")
    case False
    with assms have "t = s" "d \<noteq> Complete" by (auto simp: deliver_def split: if_splits option.splits)
    with assms(1) show ?thesis by (cases "current (rq_now c) s") (auto simp: files_delivered_def)
  next
    case True
    then obtain a where a: "current (rq_now c) s = Some a" "\<not> rt_revoked s" by blast
    with assms(2) have "deliver_names E c (is_app_id (ad_identity a)) (declared_names (rc_secrets (rt_config s))) [] s = (d, t)" by (simp add: deliver_def)
    from good_deliver_names [OF assms(1) this] a(1) mem show ?thesis by auto
  qed
  then show "good E s0 t" "runtime_below s t"
    "\<exists>app_id. (\<forall>a. current (rq_now c) s = Some a \<longrightarrow> app_id = is_app_id (ad_identity a)) \<and> files_delivered E app_id s t
      \<and> (d = Complete \<longrightarrow> (\<forall>k. declares (rc_secrets (rt_config s)) k \<longrightarrow> file_answered E app_id t k))" by blast+
qed

section \<open>Runs\<close>

lemma good_step:
  assumes "good E s0 s"
  shows "good E s0 (runtime_step E ev s)"
proof (cases ev)
  case (Attest c)
  have "triple (good E s0) (rt_attest E c) (\<lambda>_. good E s0) (good E s0)" by (rule triple_conseq [OF good_attest]) auto
  from tripleD [OF this assms] Attest show ?thesis by (simp add: runtime_step_def)
next
  case (Deliver c)
  then show ?thesis using good_deliver(1) [OF assms, of c] by (cases "deliver E c s") (simp add: runtime_step_def)
next
  case (GetSecret c name)
  then show ?thesis using good_secret [OF assms, of c name] by (cases "rt_secret E c name s") (simp add: runtime_step_def)
next
  case (GetKey c purpose)
  then show ?thesis using good_key [OF assms, of c purpose] by (cases "rt_key E c purpose s") (simp add: runtime_step_def)
qed

interpretation sidecar: monotone_stepper "runtime_step E" "runtime_ok E" runtime_below for E :: "'x tls_ext_scheme"
proof unfold_locales
  fix s ev
  assume "runtime_ok E s"
  then have "good E s s" by (simp add: good_def)
  from good_step [OF this, of ev] show "runtime_ok E (runtime_step E ev s)" "runtime_below s (runtime_step E ev s)" by (simp_all add: good_def)
qed (auto intro: runtime_below_trans)

lemma runtime_new_ok: "runtime_new E p256_to_pkcs8 cf key revision files = Ok s \<Longrightarrow> runtime_ok E s \<and> rt_config s = cf"
  by (auto simp: runtime_new_def runtime_ok_def accepted_ok_def result_simps)

section \<open>A runtime that attests and delivers\<close>

definition demo_measurement :: raw where "demo_measurement = RStr (measurement_show (replicate 48 0))"

definition demo_result_raw :: raw where
  "demo_result_raw = RMap [(''format'', RStr ''kata''), (''verdict'', RStr ''verified''),
     (''measured'', RMap (map (\<lambda>k. (k, demo_measurement)) [''mrtd'', ''rtmr0'', ''rtmr1'', ''rtmr2'', ''rtmr3''])),
     (''tcb_status'', RStr ''UpToDate''), (''advisories'', RSeq []), (''os_image'', RStr ''o''),
     (''revision'', RMap [(''compose_hash'', RStr (compose_hash_show demo_compose_hash)), (''app_id'', RStr (demo_uuid_show 2)), (''org_id'', RStr (demo_uuid_show 1))]),
     (''runtime_pubkey_sha256'', RStr ''r''), (''evidence_sha256'', RStr ''e''), (''verified_at'', RStr ''t''), (''policy_version'', RU64 1)]"

definition demo_attest_raw :: raw where
  "demo_attest_raw = RMap [(''certificate_chain'', RSeq [RStr [CHR 0x03], RStr [CHR 0x02]]), (''not_after'', RStr ''t''), (''attestation_result'', demo_result_raw)]"

text \<open>The node answers the nonce, then the attestation, then the Secret.\<close>

definition demo_kms_answer :: "dialled list \<Rightarrow> answer option" where
  "demo_kms_answer sent = Some \<lparr> aw_status = 200, aw_content_type = None, aw_chunks = [[word_of_nat (length sent)]], aw_broken = False \<rparr>"

definition demo_front_url :: url where
  "demo_front_url = \<lparr> url_scheme = ''https'', url_port = None, url_username = [], url_password = None, url_fragment = None,
     url_host = Some ''f'', url_segments = Some [''v1'', ''models''], url_query = None \<rparr>"

text \<open>The front is dialled at a parsed address and proves an Instance's leaf.\<close>

definition demo_rt_dial :: "dialled list \<Rightarrow> outgoing \<Rightarrow> (time \<times> bytes list) option" where
  "demo_rt_dial sent q = Some (0, case og_to q of Fixed _ \<Rightarrow> [[1], [2]] | Parsed _ \<Rightarrow> [[3], [2]])"

definition demo_rt_ext :: tls_ext where
  "demo_rt_ext = net_ext.extend (ext.extend (demo\<lparr> x509_parse := \<lambda>b. Some (if b = [3] then demo_app_leaf else demo_leaf, []),
       json_events := \<lambda>b. if b = [1] then Some (RMap [(''nonce'', RStr (hex_encode (replicate 32 0))), (''expires_at'', RStr ''t'')])
         else if b = [2] then Some demo_attest_raw
         else Some (RMap [(''value'', RStr ''0a''), (''content_sha256'', RStr ''c''), (''issued_at'', RStr ''t'')]),
       rfc3339_parse := \<lambda>_. Some 100, pem_blocks := \<lambda>b. [Some (''CERTIFICATE'', b)] \<rparr>)
       (net_ext.fields (\<lambda>_. Some demo_front_url) (\<lambda>_ _. None) (\<lambda>_ _. None) Some (\<lambda>_. True) (\<lambda>_ b. from_bytes b) Some))
     (tls_ext.fields Some (\<lambda>_ _ _ _. True) demo_rt_dial demo_kms_answer (\<lambda>_. []))"

definition demo_rt_config :: rt_config where
  "demo_rt_config = \<lparr> rc_kms_ca_spki_sha256 = demo_hash 32 (x_spki demo_leaf), rc_kms_revisions = Listed [replicate 32 1], rc_kms_endpoints = [''k''],
     rc_secrets = [(''web'', [''token''])], rc_tls_upstream = None, rc_tls_callers = [], rc_tls_ready = None, rc_public = None,
     rc_inference = Some \<lparr> if_url = ''https://f'', if_revisions = [demo_compose_hash] \<rparr> \<rparr>"

definition demo_runtime :: runtime where
  "demo_runtime = \<lparr> rt_config = demo_rt_config, rt_pkcs8 = [], rt_spki = demo_public 32 [], rt_revision = Some (ComposeText []), rt_accepted = None,
     rt_attested = None, rt_attest_error = None, rt_revoked = False, rt_files = Map.empty, rt_sent = [] \<rparr>"

definition demo_rcall :: rcall where
  "demo_rcall = \<lparr> rq_now = 0, rq_fetch = \<lambda>_. None, rq_evidence = \<lambda>_. Some (Ok (Kata demo_pod)), rq_collateral = \<lambda>_. None, rq_writable = \<lambda>_ _. True \<rparr>"

lemma demo_runtime_new: "runtime_new demo_rt_ext (\<lambda>k. Some k) demo_rt_config [] (Some (ComposeText [])) Map.empty = Ok demo_runtime"
  by (simp add: runtime_new_def demo_runtime_def demo_rt_ext_def tls_ext.defs net_ext.defs ext.defs demo_def)

lemma demo_rt_fields:
  "webpki_anchor demo_rt_ext = Some" "webpki_verify demo_rt_ext = (\<lambda>_ _ _ _. True)" "tls_dial demo_rt_ext = demo_rt_dial" "url_parse demo_rt_ext = (\<lambda>_. Some demo_front_url)"
  "x509_parse demo_rt_ext = (\<lambda>b. Some (if b = [3] then demo_app_leaf else demo_leaf, []))" "tls_answer demo_rt_ext = demo_kms_answer"
  "json_events demo_rt_ext [1] = Some (RMap [(''nonce'', RStr (hex_encode (replicate 32 0))), (''expires_at'', RStr ''t'')])"
  "json_events demo_rt_ext [2] = Some demo_attest_raw" "rfc3339_parse demo_rt_ext = (\<lambda>_. Some 100)"
  "json_events demo_rt_ext [3] = Some (RMap [(''value'', RStr ''0a''), (''content_sha256'', RStr ''c''), (''issued_at'', RStr ''t'')])"
  "pem_blocks demo_rt_ext = (\<lambda>b. [Some (''CERTIFICATE'', b)])" "b64_dec demo_rt_ext = demo_unhex" "sha256 demo_rt_ext = demo_hash 32"
  "uuid_parse demo_rt_ext = demo_uuid_parse" "load_private_key_ok demo_rt_ext = (\<lambda>_. True)" "uuid_show demo_rt_ext = demo_uuid_show"
  by (simp_all add: demo_rt_ext_def tls_ext.defs net_ext.defs ext.defs demo_def)

abbreviation "demo_kms_client \<equiv> \<lparr> kc_endpoints = [''k''], kc_server = \<lparr> ps_pin = Some (kms_pin demo_rt_config [replicate 32 1]), ps_anchor = None \<rparr> \<rparr>"

lemma demo_client: "client_configured demo_rt_ext [''k''] (kms_pin demo_rt_config [replicate 32 1]) = Ok demo_kms_client"
  by (simp add: client_configured_def pinned_server_new_def trim_end_matches_def)

lemma demo_rt_names: "uri_sans demo_rt_ext [3] = Ok (x_uri_sans demo_app_leaf)" "parse_instance_sans demo_rt_ext (x_uri_sans demo_app_leaf) = Ok demo_sans"
  "spki_of demo_rt_ext [3] = Ok (demo_public 32 [])" "spki_sha256 demo_rt_ext [2] = Some (rc_kms_ca_spki_sha256 demo_rt_config)"
proof -
  have u: "uuid_parse demo_rt_ext = uuid_parse demo_edge" by (simp add: demo_rt_fields demo_edge_def) (simp add: demo_def)
  show "parse_instance_sans demo_rt_ext (x_uri_sans demo_app_leaf) = Ok demo_sans"
    using demo_app_names(2) unfolding parse_instance_sans_def u .
  show "uri_sans demo_rt_ext [3] = Ok (x_uri_sans demo_app_leaf)" by (simp add: uri_sans_def parse_x509_def demo_rt_fields)
  show "spki_of demo_rt_ext [3] = Ok (demo_public 32 [])" by (simp add: spki_of_def parse_x509_def demo_rt_fields) (simp add: demo_app_leaf_def)
  show "spki_sha256 demo_rt_ext [2] = Some (rc_kms_ca_spki_sha256 demo_rt_config)"
    by (simp add: spki_sha256_def spki_of_def parse_x509_def demo_rt_fields demo_rt_config_def)
qed

lemma demo_rt_verified: "verify_server_cert demo_rt_ext (kc_server demo_kms_client) [1] [[2]] 0 = Ok ()"
proof -
  have "check_node_leaf demo_rt_ext [replicate 32 1] [1] = Ok ()"
    by (simp add: check_node_leaf_def uri_sans_def parse_x509_def demo_rt_fields demo_leaf_def)
  with demo_rt_names(4) show ?thesis by (simp add: verify_server_cert_def server_anchor_def check_pinned_def demo_rt_fields)
qed

definition demo_dialled :: "outgoing \<Rightarrow> dialled" where
  "demo_dialled q = \<lparr> dl_pin = Some (kms_pin demo_rt_config [replicate 32 1]), dl_leaf = [1], dl_chain = [[2]], dl_at = 0, dl_request = q \<rparr>"

text \<open>Every request to the demonstration node is answered by the bytes its position gives.\<close>

lemma demo_rt_request:
  "request demo_rt_ext demo_kms_client meth path body dec s =
     (ok_or (Option.bind (json_events demo_rt_ext [word_of_nat (Suc (length s))]) dec) CInvalid, s @ [demo_dialled (kms_request meth (''k'' @ path) body)])"
proof -
  let ?q = "kms_request meth (''k'' @ path) body"
  have "pinned_send demo_rt_ext (kc_server demo_kms_client) ?q s = (Ok ([1], the (demo_kms_answer (s @ [demo_dialled ?q]))), s @ [demo_dialled ?q])"
    using demo_rt_verified by (simp add: pinned_send_def demo_rt_fields demo_rt_dial_def demo_dialled_def Let_def demo_kms_answer_def kms_request_def)
  then show ?thesis by (simp add: request_def demo_kms_answer_def read_capped_def is_success_def REPLY_CAP_def)
qed

lemmas demo_raws = raw_fields_def raw_field_def raw_opt_field_def raw_vec_def

lemma demo_attest_reply: "\<exists>r. attest_reply_de demo_rt_ext demo_attest_raw = Some \<lparr> ay_certificate_chain = [[CHR 0x03], [CHR 0x02]], ay_not_after = ''t'', ay_result = r \<rparr>"
proof -
  have m: "measurement_from_str (measurement_show (replicate 48 0)) = Some (replicate 48 0)"
    by (simp add: measurement_from_str_def measurement_show_def strip_prefix_def hex.dec_enc)
  have "measured_de (RMap (map (\<lambda>k. (k, demo_measurement)) [''mrtd'', ''rtmr0'', ''rtmr1'', ''rtmr2'', ''rtmr3''])) \<noteq> None"
    by (simp add: measured_de_def demo_raws demo_measurement_def m Let_def)
  moreover have "attested_revision_de demo_rt_ext (RMap [(''compose_hash'', RStr (compose_hash_show demo_compose_hash)), (''app_id'', RStr (demo_uuid_show 2)), (''org_id'', RStr (demo_uuid_show 1))]) \<noteq> None"
    by (simp add: attested_revision_de_def demo_raws demo_rt_fields demo_uuid_roundtrip compose_text.dec_enc demo_compose_hash_def)
  ultimately have "attestation_result_de demo_rt_ext demo_result_raw \<noteq> None"
    by (auto simp add: attestation_result_de_def demo_raws demo_result_raw_def verdict_de_def)
  then show ?thesis by (auto simp: attest_reply_de_def demo_attest_raw_def demo_raws)
qed

lemma demo_accept:
  "\<exists>a. accept demo_rt_ext (demo_runtime\<lparr> rt_sent := l \<rparr>) \<lparr> ay_certificate_chain = [[CHR 0x03], [CHR 0x02]], ay_not_after = ''t'', ay_result = r \<rparr>
        (kms_pin demo_rt_config [replicate 32 1]) = Ok a
     \<and> ad_identity a = demo_sans \<and> ad_not_after a = 100 \<and> ad_client a = demo_kms_client \<and> ad_secrets a = Map.empty \<and> ad_keys a = []"
proof -
  have p: "cert_from_pem demo_rt_ext [CHR 0x03] = Ok [3]" "cert_from_pem demo_rt_ext [CHR 0x02] = Ok [2]"
    by (simp_all add: cert_from_pem_def demo_rt_fields as_bytes_def code_def List.map_filter_simps)
  have h: "compose_hash_of demo_rt_ext (as_bytes []) = is_compose_hash demo_sans"
    by (simp add: compose_hash_of_def demo_rt_fields as_bytes_def demo_sans_def demo_compose_hash_def)
  have e: "rc_kms_endpoints demo_rt_config = [''k'']" by (simp add: demo_rt_config_def)
  show ?thesis
    by (simp add: accept_def p demo_rt_names demo_runtime_def revision_text_of_def h tls_certified_def demo_rt_fields e demo_client)
qed

lemma demo_attests:
  "\<exists>a t. rt_attest demo_rt_ext demo_rcall demo_runtime = (Ok a, t) \<and> rt_attested t = Some a \<and> ad_identity a = demo_sans \<and> ad_not_after a = 100
     \<and> ad_client a = demo_kms_client \<and> ad_secrets a = Map.empty \<and> \<not> rt_revoked t \<and> rt_files t = Map.empty \<and> rt_config t = demo_rt_config \<and> length (rt_sent t) = 2"
proof -
  from demo_attest_reply obtain r where r: "attest_reply_de demo_rt_ext demo_attest_raw = Some \<lparr> ay_certificate_chain = [[CHR 0x03], [CHR 0x02]], ay_not_after = ''t'', ay_result = r \<rparr>" by blast
  have d: "decode demo_rt_ext (hex_encode (replicate 32 0)) = Ok (replicate 32 0)" by (simp add: decode_def demo_rt_fields demo_unhex_encode)
  have cf: "rt_config demo_runtime = demo_rt_config" "rc_kms_revisions demo_rt_config = Listed [replicate 32 1]" "rc_kms_endpoints demo_rt_config = [''k'']"
    "rt_sent demo_runtime = []" "rq_evidence demo_rcall = (\<lambda>_. Some (Ok (Kata demo_pod)))" "\<not> rt_revoked demo_runtime" "rt_files demo_runtime = Map.empty"
    by (simp_all add: demo_runtime_def demo_rt_config_def demo_rcall_def)
  have n: "nonce_reply_de (RMap [(''nonce'', RStr (hex_encode (replicate 32 0))), (''expires_at'', RStr ''t'')]) = Some (hex_encode (replicate 32 0))"
    by (simp add: nonce_reply_de_def demo_raws)
  let ?l = "[demo_dialled (kms_request ''POST'' (''k'' @ ''/v1/attest/nonce'') None), demo_dialled (kms_request ''POST'' (''k'' @ ''/v1/attest'')
      (Some (attest_body demo_rt_ext (rt_spki demo_runtime) (replicate 32 0) (Kata demo_pod))))]"
  from demo_accept obtain a where a: "accept demo_rt_ext (demo_runtime\<lparr> rt_sent := ?l \<rparr>) \<lparr> ay_certificate_chain = [[CHR 0x03], [CHR 0x02]], ay_not_after = ''t'', ay_result = r \<rparr>
        (kms_pin demo_rt_config [replicate 32 1]) = Ok a"
    "ad_identity a = demo_sans" "ad_not_after a = 100" "ad_client a = demo_kms_client" "ad_secrets a = Map.empty" by blast
  have "rt_attest_inner demo_rt_ext demo_rcall demo_runtime = (Ok (a, Kata demo_pod, replicate 32 0), demo_runtime\<lparr> rt_sent := ?l \<rparr>)"
    using a(1) by (simp add: rt_attest_inner_def rt_kms_revisions_def act_bind_def Let_def cf demo_client on_rt_sent_def act_on_def act_map_err_def
        demo_rt_request demo_rt_fields n r d)
  with a(2-5) show ?thesis by (simp add: rt_attest_def note_error_def Let_def cf)
qed

lemma demo_delivers:
  assumes "rt_attested s = Some a" and "ad_identity a = demo_sans" and "ad_not_after a = 100" and "ad_client a = demo_kms_client" and "ad_secrets a = Map.empty"
    and "\<not> rt_revoked s" and "rt_config s = demo_rt_config" and "length (rt_sent s) = 2" and "rt_files s = Map.empty"
  shows "\<exists>t. deliver demo_rt_ext demo_rcall s = (Complete, t)"
proof -
  have c: "current (rq_now demo_rcall) s = Some a" "rc_secrets demo_rt_config = [(''web'', [''token''])]" "rq_writable demo_rcall = (\<lambda>_ _. True)"
    using assms by (simp_all add: current_def last_attested_def demo_rcall_def demo_rt_config_def)
  have k: "kms_secret_de (RMap [(''value'', RStr ''0a''), (''content_sha256'', RStr ''c''), (''issued_at'', RStr ''t'')])
      = Some \<lparr> ks_value = ''0a'', ks_content_sha256 = ''c'', ks_issued_at = ''t'' \<rparr>" by (simp add: kms_secret_de_def demo_raws)
  have d: "demo_unhex ''0a'' = Some [10]" by (simp add: hex_value_def code_def)
  let ?n = "demo_uuid_show (is_app_id demo_sans) @ ''.'' @ ''token''"
  have "\<exists>l b. rt_secret demo_rt_ext demo_rcall ?n s
      = (Ok \<lparr> ks_value = ''0a'', ks_content_sha256 = ''c'', ks_issued_at = ''t'' \<rparr>, s\<lparr> rt_sent := l, rt_attested := Some b \<rparr>)"
    using assms by (simp add: rt_secret_def c act_bind_def note_error_def on_rt_sent_def act_on_def act_map_err_def demo_rt_request demo_rt_fields k act_modify_def)
      (intro exI, rule refl)
  then obtain l b where "rt_secret demo_rt_ext demo_rcall ?n s
      = (Ok \<lparr> ks_value = ''0a'', ks_content_sha256 = ''c'', ks_issued_at = ''t'' \<rparr>, s\<lparr> rt_sent := l, rt_attested := Some b \<rparr>)" by blast
  then have "\<exists>t. deliver_one demo_rt_ext demo_rcall (is_app_id demo_sans) ''token'' s = (Some True, t)"
    using assms d by (simp add: deliver_one_def demo_rt_fields c write_all_def write_secret_def)
  with assms c show ?thesis by (auto simp: deliver_def declared_names_def)
qed

lemma demo_delivered: "\<exists>t. deliver demo_rt_ext demo_rcall (fold (runtime_step demo_rt_ext) [Attest demo_rcall] demo_runtime) = (Complete, t)"
proof -
  from demo_attests obtain a s where s: "rt_attest demo_rt_ext demo_rcall demo_runtime = (Ok a, s)" "rt_attested s = Some a" "ad_identity a = demo_sans"
    "ad_not_after a = 100" "ad_client a = demo_kms_client" "ad_secrets a = Map.empty" "\<not> rt_revoked s" "rt_files s = Map.empty" "rt_config s = demo_rt_config"
    "length (rt_sent s) = 2" by blast
  from demo_delivers [OF s(2-7) s(9,10,8)] s(1) show ?thesis by (simp add: runtime_step_def)
qed

lemma demo_attested_run:
  "\<exists>a. rt_attested (fold (runtime_step demo_rt_ext) [Attest demo_rcall] demo_runtime) = Some a \<and> ad_not_after a = 100 \<and> ad_identity a = demo_sans
     \<and> length (rt_sent (fold (runtime_step demo_rt_ext) [Attest demo_rcall] demo_runtime)) = 2"
  using demo_attests by (auto simp: runtime_step_def)

section \<open>What the runtime promises\<close>

text \<open>
  C35. Everything the runtime ever asks of the KMS, nonces, attestations, Secrets and keys, goes to a
  peer that proved a node's certificate for a trusted Revision under the measured CA: the measured
  Revisions, or those of a platform document that the release keys signed, at the measured version or
  above. The version of the document it follows never goes back, and a version names one list of Revisions.
\<close>

theorem runtime_asks_only_trusted_kms:
  assumes "runtime_new E p256_to_pkcs8 cf key revision files = Ok s0"
    and "s = fold (runtime_step E) before s0" and "t = fold (runtime_step E) after s"
  shows "(\<forall>d \<in> set (rt_sent t). \<exists>revisions. trusted_revisions E cf revisions \<and> pin_proved E (PinCaSpkiAndRevisions (rc_kms_ca_spki_sha256 cf) revisions) d)
     \<and> (\<forall>v revisions. rt_accepted s = Some (v, revisions) \<longrightarrow>
          (\<exists>w revisions'. rt_accepted t = Some (w, revisions') \<and> v \<le> w \<and> (w = v \<longrightarrow> revisions' = revisions)))"
proof -
  from runtime_new_ok [OF assms(1)] have 0: "runtime_ok E s0" "rt_config s0 = cf" by simp_all
  from sidecar.run_inv [OF 0(1), of before] have s: "runtime_ok E s" unfolding assms(2) .
  from sidecar.run_below [OF s, of after] have b: "runtime_below s t" unfolding assms(3) .
  from sidecar.run_inv [OF s, of after] have t: "runtime_ok E t" unfolding assms(3) .
  from sidecar.run_below [OF 0(1), of before] b 0(2) have "rt_config t = cf" unfolding assms(2) by (simp add: runtime_below_def)
  with t have "\<forall>d \<in> set (rt_sent t). sent_trusted E cf d" by (simp add: runtime_ok_def)
  moreover from b have "\<forall>v r. rt_accepted s = Some (v, r) \<longrightarrow> (\<exists>v' r'. rt_accepted t = Some (v', r') \<and> v \<le> v' \<and> (v' = v \<longrightarrow> r' = r))"
    unfolding runtime_below_def by blast
  ultimately show ?thesis unfolding sent_trusted_def by blast
qed

theorem runtime_asks_only_trusted_kms_witness:
  "\<exists>d \<in> set (rt_sent (fold (runtime_step demo_rt_ext) [Attest demo_rcall] demo_runtime)).
     \<exists>revisions. trusted_revisions demo_rt_ext demo_rt_config revisions \<and> pin_proved demo_rt_ext (PinCaSpkiAndRevisions (demo_hash 32 (x_spki demo_leaf)) revisions) d"
proof -
  let ?t = "fold (runtime_step demo_rt_ext) [Attest demo_rcall] demo_runtime"
  have "rc_kms_ca_spki_sha256 demo_rt_config = demo_hash 32 (x_spki demo_leaf)" by (simp add: demo_rt_config_def)
  note all = runtime_asks_only_trusted_kms [OF demo_runtime_new, of demo_runtime "[]" ?t "[Attest demo_rcall]", THEN conjunct1, unfolded this]
  from demo_attested_run have "rt_sent ?t \<noteq> []" by (auto simp del: fold.simps)
  then obtain d where "d \<in> set (rt_sent ?t)" by (meson list.set_sel(1))
  with all show ?thesis by (simp del: fold.simps) (simp, blast)
qed

text \<open>
  C36. The leaf the runtime serves with, until it expires, is over the runtime's own key, under the CA
  it was measured with, and names the Revision whose text the runtime read: the identity it hands its
  containers is the leaf's, with a Revision digest that is the digest of that text.
\<close>

theorem current_leaf_is_own:
  assumes "runtime_new E p256_to_pkcs8 cf key revision files = Ok s0" and "s = fold (runtime_step E) events s0" and "current now s = Some a"
  shows "\<exists>leaf ca. ad_certified a = ([leaf, ca], rt_pkcs8 s0) \<and> Some (rt_spki s0) = p256_to_spki E (p256_public E key) \<and> spki_of E leaf = Ok (rt_spki s0)
     \<and> spki_sha256 E ca = Some (rc_kms_ca_spki_sha256 cf) \<and> and_then (uri_sans E leaf) (parse_instance_sans E) = Ok (ad_identity a)
     \<and> (\<forall>r. revision = Some r \<longrightarrow> is_compose_hash (ad_identity a) = compose_hash_of E (as_bytes (revision_text_of r))) \<and> now < ad_not_after a"
proof -
  from runtime_new_ok [OF assms(1)] have 0: "runtime_ok E s0" "rt_config s0 = cf" by simp_all
  from assms(1) have k: "Some (rt_spki s0) = p256_to_spki E (p256_public E key)" "rt_revision s0 = revision" by (auto simp: runtime_new_def result_simps)
  from sidecar.run_inv [OF 0(1), of events] sidecar.run_below [OF 0(1), of events] have g: "good E s0 s" unfolding assms(2) good_def by blast
  from current_ok [OF g assms(3)] have "own_leaf E s a" by (simp add: attested_ok_def)
  moreover from assms(3) have "now < ad_not_after a" by (auto simp: current_def bind_eq_Some_conv split: if_splits)
  ultimately show ?thesis using good_config [OF g] k 0(2) unfolding own_leaf_def by auto
qed

theorem current_leaf_is_own_witness:
  "\<exists>a leaf ca. current 0 (fold (runtime_step demo_rt_ext) [Attest demo_rcall] demo_runtime) = Some a \<and> fst (ad_certified a) = [leaf, ca]
     \<and> is_compose_hash (ad_identity a) = compose_hash_of demo_rt_ext (as_bytes [])"
proof -
  let ?t = "fold (runtime_step demo_rt_ext) [Attest demo_rcall] demo_runtime"
  from demo_attested_run obtain a where a: "rt_attested ?t = Some a" "ad_not_after a = 100" by blast
  then have c: "current 0 ?t = Some a" by (simp add: current_def last_attested_def del: fold.simps)
  from current_leaf_is_own [OF demo_runtime_new refl c] show ?thesis using c by (auto simp: revision_text_of_def simp del: fold.simps)
qed

text \<open>
  C37. A pass of delivery touches only files that the configuration declares, and every file it leaves
  changed holds exactly the decoded value that a trusted KMS answered for the App of the current leaf
  and the file's name. A pass that reports itself complete leaves every declared file so, and the
  healthcheck passes.
\<close>

theorem secret_files_are_kms_answers:
  assumes "runtime_new E p256_to_pkcs8 cf key revision files = Ok s0" and "s = fold (runtime_step E) events s0"
    and "current (rq_now c) s = Some a" and "deliver E c s = (d, t)"
  shows "(\<forall>service name. rt_files t (service, name) \<noteq> rt_files s (service, name) \<longrightarrow>
        declares (rc_secrets cf) (service, name) \<and> file_answered E (is_app_id (ad_identity a)) t (service, name))
     \<and> (d = Complete \<longrightarrow> (\<forall>service name. declares (rc_secrets cf) (service, name) \<longrightarrow> file_answered E (is_app_id (ad_identity a)) t (service, name))
          \<and> healthcheck (rt_files t) (rc_secrets cf))
     \<and> (\<forall>x \<in> set (rt_sent t). sent_trusted E cf x)"
proof -
  from runtime_new_ok [OF assms(1)] have 0: "runtime_ok E s0" "rt_config s0 = cf" by simp_all
  from sidecar.run_inv [OF 0(1), of events] sidecar.run_below [OF 0(1), of events] have g: "good E s0 s" unfolding assms(2) good_def by blast
  have cf: "rt_config s = cf" using good_config [OF g] 0(2) by simp
  note dl = good_deliver [OF g assms(4)]
  from dl(3) assms(3) cf have f: "files_delivered E (is_app_id (ad_identity a)) s t"
    and all: "d = Complete \<longrightarrow> (\<forall>k. declares (rc_secrets cf) k \<longrightarrow> file_answered E (is_app_id (ad_identity a)) t k)" by auto
  have "healthcheck (rt_files t) (rc_secrets cf)" if "d = Complete"
  proof -
    have "rt_files t (service, name) \<noteq> None" if "(service, names) \<in> set (rc_secrets cf)" "name \<in> set names" for service name names
      using all \<open>d = Complete\<close> that by (fastforce simp: declares_def file_answered_def)
    then show ?thesis by (auto simp: healthcheck_def list_all_iff)
  qed
  moreover have "\<forall>x \<in> set (rt_sent t). sent_trusted E cf x"
    using dl(1) good_config [OF dl(1)] 0(2) by (simp add: good_def runtime_ok_def)
  ultimately show ?thesis using f all cf unfolding files_delivered_def by metis
qed

theorem secret_files_are_kms_answers_witness:
  "\<exists>a t. deliver demo_rt_ext demo_rcall (fold (runtime_step demo_rt_ext) [Attest demo_rcall] demo_runtime) = (Complete, t)
     \<and> file_answered demo_rt_ext a t (''web'', ''token'')"
proof -
  let ?s = "fold (runtime_step demo_rt_ext) [Attest demo_rcall] demo_runtime"
  from demo_delivered obtain t where t: "deliver demo_rt_ext demo_rcall ?s = (Complete, t)" by blast
  from demo_attested_run obtain a where a: "rt_attested ?s = Some a" "ad_not_after a = 100" by blast
  then have c: "current (rq_now demo_rcall) ?s = Some a" by (simp add: current_def last_attested_def demo_rcall_def del: fold.simps)
  have "declares (rc_secrets demo_rt_config) (''web'', ''token'')" by (simp add: declares_def demo_rt_config_def)
  with secret_files_are_kms_answers [OF demo_runtime_new refl c t] t show ?thesis by blast
qed

end
