(* ===== verification/Runtime_Wire.thy ===== *)
theory Runtime_Wire
  imports Runtime_Spec
begin

text \<open>
  The Endpoint and the loops: what a connection is recognised as does not depend on how its bytes
  arrive, a copied connection loses none, the waits of the first attestation, and what the forwarder sends.
\<close>

section \<open>Recognising a request\<close>

lemma own_lines: "binding_line = as_bytes ''GET /.well-known/alphacompute/binding ''"
  "attestation_line = as_bytes ''GET /.well-known/alphacompute/attestation ''"
  "challenged_line = as_bytes ''GET /.well-known/alphacompute/binding?challenge=''"
  by (simp_all add: binding_line_def attestation_line_def challenged_line_def BINDING_PATH_def ATTESTATION_PATH_def CHALLENGE_def)

lemma own_lines_apart:
  "\<not> starts_with binding_line (attestation_line @ x)" "\<not> starts_with binding_line (challenged_line @ x)" "\<not> starts_with attestation_line (challenged_line @ x)"
  by (simp_all add: own_lines starts_with_def as_bytes_def code_def)

lemma parse_challenge_stable: "parse_challenge E h \<noteq> Partial \<Longrightarrow> parse_challenge E (h @ x) = parse_challenge E h"
  by (cases "length h \<le> CHALLENGE_LEN") (auto simp: parse_challenge_def Let_def split: list.splits)

lemma starts_with_iff: "starts_with p s \<longleftrightarrow> (\<exists>r. s = p @ r)"
  unfolding starts_with_def by (metis append_take_drop_id append_eq_conv_conj)

lemma starts_with_append: "starts_with p (s @ x) \<longleftrightarrow> starts_with p s \<or> starts_with s p \<and> starts_with p (s @ x)"
  unfolding starts_with_iff by (auto simp: append_eq_append_conv2)

lemma parse_head_stable:
  assumes "parse_head E h \<noteq> Partial"
  shows "parse_head E (h @ x) = parse_head E h"
proof -
  consider (binding) "starts_with binding_line h" | (attestation) r where "h = attestation_line @ r" | (challenged) r where "h = challenged_line @ r"
    | (other) "\<not> list_ex (\<lambda>r. starts_with r h \<or> starts_with h r) [binding_line, attestation_line, challenged_line]"
    using assms unfolding starts_with_iff [symmetric] by (auto simp: parse_head_def starts_with_iff split: if_splits)
  then show ?thesis
  proof cases
    case binding
    then have "starts_with binding_line (h @ x)" by (subst starts_with_append) simp
    with binding show ?thesis by (simp add: parse_head_def)
  next
    case (attestation r)
    have "parse_head E (attestation_line @ y) = Asked AskedAttestation" for y
      using own_lines_apart by (simp add: parse_head_def) (simp add: starts_with_def)
    with attestation show ?thesis by simp
  next
    case (challenged r)
    have "parse_head E (challenged_line @ y) = parse_challenge E y" for y
      using own_lines_apart by (simp add: parse_head_def) (simp add: starts_with_def)
    with challenged assms parse_challenge_stable show ?thesis by simp
  next
    case other
    have "\<not> starts_with l (h @ x) \<and> \<not> starts_with (h @ x) l" if "\<not> starts_with l h \<and> \<not> starts_with h l" for l :: bytes
      using that by (auto simp: starts_with_iff append_eq_append_conv2)
    with other show ?thesis by (simp add: parse_head_def)
  qed
qed

lemma read_head_keeps: "read_head E reads h = Some (a, taken, rest) \<Longrightarrow> taken @ concat rest = h @ concat reads"
proof (induction reads arbitrary: h)
  case Nil
  then show ?case by (subst (asm) read_head.simps) (auto split: head.splits)
next
  case (Cons r rs)
  from Cons.prems show ?case
    by (subst (asm) read_head.simps) (auto split: head.splits if_splits dest: Cons.IH)
qed

text \<open>What a head decides, over the whole of what arrived.\<close>

definition decided :: "head \<Rightarrow> asked option option" where
  "decided h = (case h of Partial \<Rightarrow> None | Asked a \<Rightarrow> Some (Some a) | Other \<Rightarrow> Some None)"

lemma read_head_decides:
  assumes "[] \<notin> set reads"
  shows "map_option fst (read_head E reads h) = decided (parse_head E (h @ concat reads))"
  using assms
proof (induction reads arbitrary: h)
  case Nil
  then show ?case by (subst read_head.simps) (auto simp: decided_def split: head.splits)
next
  case (Cons r rs)
  show ?case
  proof (cases "parse_head E h = Partial")
    case True
    with Cons show ?thesis by (subst read_head.simps) auto
  next
    case False
    with parse_head_stable [OF this, of "concat (r # rs)"] show ?thesis
      by (subst read_head.simps) (auto simp: decided_def split: head.splits)
  qed
qed

text \<open>
  C38. What the runtime takes a public connection for is decided by the bytes that arrive, not by how the
  reads cut them: the reading stops undecided exactly when the whole of what arrived is the start of
  one of the runtime's own requests, and otherwise finds what the whole parses to, with no byte of it
  lost, the bytes taken followed by the reads left being all that arrived.
\<close>

theorem head_decided_by_bytes:
  assumes "[] \<notin> set reads"
  shows "map_option fst (read_head E reads []) = decided (parse_head E (concat reads))
     \<and> (\<forall>a taken rest. read_head E reads [] = Some (a, taken, rest) \<longrightarrow> taken @ concat rest = concat reads)"
  using read_head_decides [OF assms, of E "[]"] read_head_keeps [of E reads "[]"] by simp

definition demo_reads :: "bytes list" where "demo_reads = [as_bytes ''GET /.well'', as_bytes ''-known/alphacompute/attestation HTTP'']"

theorem head_decided_by_bytes_witness:
  "[] \<notin> set demo_reads \<and> map_option fst (read_head demo demo_reads []) = Some (Some AskedAttestation)"
proof -
  have r: "[] \<notin> set demo_reads" by (simp add: demo_reads_def as_bytes_def)
  have "concat demo_reads = attestation_line @ as_bytes ''HTTP''" by (simp add: demo_reads_def own_lines as_bytes_def)
  then have "parse_head demo (concat demo_reads) = Asked AskedAttestation"
    using own_lines_apart(1) [of "as_bytes ''HTTP''"] by (simp add: parse_head_def) (simp add: starts_with_def)
  with r head_decided_by_bytes [OF r, of demo] show ?thesis by (simp add: decided_def)
qed

section \<open>Connections\<close>

lemma select_config_public:
  "select_config public attested_now h = Some (HsPublic name ck, cf) \<Longrightarrow>
     attested_now \<and> (\<exists>eg. public = Some (name, eg) \<and> eg_served eg = Some ck \<and> route name (he_sni h) (he_alpn h) = RoutePublic)"
  by (auto simp: select_config_def split: option.splits acme_route.splits if_splits)

text \<open>
  A connection copied to the tenant's service reaches it whole, whatever was read of it first; it
  came in under the Instance's leaf from a caller of the declared Apps, or under the public name while
  the Instance holds a current leaf, and then asks for nothing the runtime answers itself. What the
  runtime answers itself it answers only under the public name and over the certificate served there.
  With no public name, a connection is dropped only when its caller is not admitted.
\<close>

theorem proxied_connection_sound:
  "case proxy_connection E now s public h peer reads of
     Copied taken rest \<Rightarrow>
       taken @ concat rest = concat reads
       \<and> (admitted E peer (rc_tls_callers (rt_config s))
          \<or> (\<exists>name eg ck a r. public = Some (name, eg) \<and> eg_served eg = Some ck \<and> current now s = Some a
               \<and> route name (he_sni h) (he_alpn h) = RoutePublic \<and> read_head E reads [] = Some (None, r)))
   | Answered b \<Rightarrow>
       \<exists>name eg ck a q. public = Some (name, eg) \<and> eg_served eg = Some ck \<and> current now s = Some a
         \<and> route name (he_sni h) (he_alpn h) = RoutePublic \<and> b = answer_asked E now s name ck q
   | Dropped \<Rightarrow> (case public of None \<Rightarrow> admitted E peer (rc_tls_callers (rt_config s)) = False | Some _ \<Rightarrow> True)"
proof (cases "proxy_connection E now s public h peer reads")
  case Dropped
  then show ?thesis by (auto simp: proxy_connection_def select_config_def split: option.splits if_splits)
next
  case (Answered b)
  then show ?thesis
    by (auto simp: proxy_connection_def split: option.splits prod.splits handshake.splits if_splits dest!: select_config_public)
next
  case (Copied taken rest)
  then show ?thesis
    by (auto simp: proxy_connection_def split: option.splits prod.splits handshake.splits if_splits dest!: select_config_public read_head_keeps)
qed

section \<open>The first attestation\<close>

lemma attest_first_waits:
  assumes "attest_first E cs retry s = (ws, r, t)" and "0 < retry" and "retry \<le> RT_RETRY_AFTER"
  shows "ws = map (\<lambda>i. min (2 ^ i * retry) RT_RETRY_AFTER) [0..<length ws] \<and> length ws \<le> length cs \<and> (r = None \<longleftrightarrow> length ws = length cs)
     \<and> (\<forall>a. r = Some (Ok a) \<longrightarrow> rt_attested t = Some a) \<and> (\<forall>e. r = Some (Err e) \<longrightarrow> rt_revoked_error e \<or> e = RtTimedOut)"
  using assms
proof (induction cs arbitrary: retry s ws)
  case Nil
  then show ?case by simp
next
  case (Cons c cs)
  obtain x u where x: "rt_attest E c s = (x, u)" by fastforce
  show ?case
  proof (cases "\<exists>e. x = Err e \<and> \<not> rt_revoked_error e \<and> e \<noteq> RtTimedOut")
    case True
    then obtain vs where vs: "attest_first E cs (min (2 * retry) RT_RETRY_AFTER) u = (vs, r, t)" "ws = retry # vs"
      using Cons.prems(1) x by (auto split: prod.splits)
    have "0 < min (2 * retry) RT_RETRY_AFTER" using Cons.prems(2) by (simp add: RT_RETRY_AFTER_def)
    note ih = Cons.IH [OF vs(1) this min.cobounded2]
    have "min (2 ^ i * min (2 * retry) RT_RETRY_AFTER) RT_RETRY_AFTER = min (2 ^ Suc i * retry) RT_RETRY_AFTER" for i
    proof -
      have "1 \<le> (2 :: int) ^ i" by simp
      then have "RT_RETRY_AFTER \<le> 2 ^ i * RT_RETRY_AFTER" unfolding RT_RETRY_AFTER_def by linarith
      moreover have "2 ^ i * min (2 * retry) RT_RETRY_AFTER = min (2 ^ i * (2 * retry)) (2 ^ i * RT_RETRY_AFTER)"
        by (simp add: min_def)
      ultimately show ?thesis by (simp add: mult.assoc mult.left_commute)
    qed
    then have "map (\<lambda>i. min (2 ^ i * min (2 * retry) RT_RETRY_AFTER) RT_RETRY_AFTER) [0..<length vs] = map (\<lambda>i. min (2 ^ Suc i * retry) RT_RETRY_AFTER) [0..<length vs]"
      by simp
    moreover have "map (\<lambda>i. min (2 ^ i * retry) RT_RETRY_AFTER) [0..<Suc (length vs)]
        = retry # map (\<lambda>i. min (2 ^ Suc i * retry) RT_RETRY_AFTER) [0..<length vs]"
      using Cons.prems(3) by (simp add: map_upt_Suc del: upt_Suc power_Suc)
    ultimately show ?thesis using ih unfolding vs(2) by simp
  next
    case False
    with Cons.prems(1) x show ?thesis
      by (cases x) (auto simp: rt_attest_def Let_def split: if_splits prod.splits result.splits)
  qed
qed

text \<open>
  The first attestation waits two seconds, then twice as long each time up to thirty, and goes on
  through every failure but two: it ends with the leaf it just installed, or with a revoked Revision
  or a quote that did not come in time, and never otherwise.
\<close>

theorem attest_first_backs_off:
  assumes "attest_first E cs FIRST_RETRY s = (ws, r, t)"
  shows "ws = map (\<lambda>i. min (2 ^ i * (2 * 1000000000)) (30 * 1000000000)) [0..<length ws]
     \<and> (case r of None \<Rightarrow> length ws = length cs
        | Some (Ok a) \<Rightarrow> length ws < length cs \<and> rt_attested t = Some a
        | Some (Err e) \<Rightarrow> length ws < length cs \<and> (rt_revoked_error e \<or> e = RtTimedOut))"
  using attest_first_waits [OF assms] by (auto simp: FIRST_RETRY_def RT_RETRY_AFTER_def split: option.splits result.splits)

theorem attest_first_backs_off_witness:
  "\<exists>a t. attest_first demo_rt_ext [demo_rcall, demo_rcall] FIRST_RETRY demo_runtime = ([], Some (Ok a), t) \<and> rt_attested t = Some a"
proof -
  from demo_attests obtain a t where "rt_attest demo_rt_ext demo_rcall demo_runtime = (Ok a, t)" by blast
  then have f: "attest_first demo_rt_ext [demo_rcall, demo_rcall] FIRST_RETRY demo_runtime = ([], Some (Ok a), t)" by simp
  from attest_first_backs_off [OF f] f show ?thesis by simp
qed

section \<open>The forwarder\<close>

text \<open>
  C39. What the forwarder sends for a container goes, while a leaf is current, to a peer that proved the
  pinned Revisions of the inference front under the CA the runtime was measured with; its path is
  under \<open>/v1/\<close>, it carries the body unchanged, and it carries no credential of the container's.
\<close>

theorem forwarded_only_to_pinned_front:
  assumes "runtime_new E p256_to_pkcs8 cf key revision files = Ok s0" and "s = fold (runtime_step E) events s0"
    and "forwarder_bind E s = Ok (Some f)" and "rc_inference cf = Some front" and "rt_forward E f now meth asked_for hs body u = (r, t)"
  shows "t = u \<or> (\<exists>ca d v. rt_sent t = rt_sent u @ [d] \<and> current now u \<noteq> None \<and> spki_sha256 E ca = Some (rc_kms_ca_spki_sha256 cf)
     \<and> pin_proved E (PinCaAndInstanceRevisions ca (if_revisions front) None) d
     \<and> dl_request d = front_request E meth v hs body \<and> starts_with ''/v1/'' (url_path v)
     \<and> (\<forall>k \<in> fst ` set (og_headers (dl_request d)). k \<notin> {''authorization'', ''proxy-authorization'', ''host'', ''connection''}))"
proof -
  from runtime_new_ok [OF assms(1)] have 0: "runtime_ok E s0" "rt_config s0 = cf" by simp_all
  from sidecar.run_inv [OF 0(1), of events] sidecar.run_below [OF 0(1), of events] have g: "good E s0 s" unfolding assms(2) good_def by blast
  have cf: "rt_config s = cf" using good_config [OF g] 0(2) by simp
  from assms(3,4) cf obtain a where a: "rt_attested s = Some a"
    and ps: "pinned_server_new E (Some (PinCaAndInstanceRevisions (last (fst (ad_certified a))) (if_revisions front) None)) = Ok (rf_client f)"
    by (auto simp: forwarder_bind_def last_attested_def result_simps bind_eq_Some_conv split: if_splits)
  let ?ca = "last (fst (ad_certified a))"
  from g a have "own_leaf E s a" by (simp add: good_def runtime_ok_def attested_ok_def)
  with cf have ca: "spki_sha256 E ?ca = Some (rc_kms_ca_spki_sha256 cf)" by (auto simp: own_leaf_def)
  have hd: "k \<notin> {''authorization'', ''proxy-authorization'', ''host'', ''connection''}" if "k \<in> fst ` set (strip_headers E hs)" for k
    using that by (auto simp: strip_headers_def Let_def DROPPED_def)
  show ?thesis
  proof (cases "\<exists>v. Option.bind asked_for (\<lambda>x. url_parse E (rf_url f @ x)) = Some v \<and> starts_with ''/v1/'' (url_path v) \<and> current now u \<noteq> None")
    case False
    with assms(5) show ?thesis by (auto simp: rt_forward_def bind_eq_Some_conv split: option.splits if_splits)
  next
    case True
    then obtain v where v: "Option.bind asked_for (\<lambda>x. url_parse E (rf_url f @ x)) = Some v" "starts_with ''/v1/'' (url_path v)" "current now u \<noteq> None" by blast
    obtain o1 l where p: "pinned_send E (rf_client f) (front_request E meth v hs body) (rt_sent u) = (o1, l)" by fastforce
    from v p assms(5) have t: "t = u\<lparr> rt_sent := l \<rparr>" by (auto simp: rt_forward_def split: result.splits prod.splits)
    from pinned_send_pinned [OF ps, of "rt_sent u" "front_request E meth v hs body"] p
    obtain ds where ds: "l = rt_sent u @ ds" "\<forall>d \<in> set ds. pin_proved E (PinCaAndInstanceRevisions ?ca (if_revisions front) None) d"
      by (auto simp: sent_pinned_def)
    from p have "l = rt_sent u \<or> (\<exists>d. l = rt_sent u @ [d] \<and> dl_request d = front_request E meth v hs body)"
      by (auto simp: pinned_send_def Let_def split: option.splits prod.splits list.splits if_splits)
    then show ?thesis
    proof
      assume "l = rt_sent u"
      with t show ?thesis by simp
    next
      assume "\<exists>d. l = rt_sent u @ [d] \<and> dl_request d = front_request E meth v hs body"
      then obtain d where d: "l = rt_sent u @ [d]" "dl_request d = front_request E meth v hs body" by blast
      with ds have "pin_proved E (PinCaAndInstanceRevisions ?ca (if_revisions front) None) d" by (metis list.set_intros(1) same_append_eq)
      with d t v(2,3) ca hd show ?thesis by (auto simp: front_request_def)
    qed
  qed
qed

theorem forwarded_only_to_pinned_front_witness:
  "\<exists>f r t ca d. forwarder_bind demo_rt_ext (fold (runtime_step demo_rt_ext) [Attest demo_rcall] demo_runtime) = Ok (Some f)
     \<and> rt_forward demo_rt_ext f 0 ''GET'' (Some ''/v1/models'') [(''authorization'', ''x'')] [] (fold (runtime_step demo_rt_ext) [Attest demo_rcall] demo_runtime) = (r, t)
     \<and> d \<in> set (rt_sent t) \<and> pin_proved demo_rt_ext (PinCaAndInstanceRevisions ca [demo_compose_hash] None) d"
proof -
  let ?s = "fold (runtime_step demo_rt_ext) [Attest demo_rcall] demo_runtime" and ?front = "\<lparr> if_url = ''https://f'', if_revisions = [demo_compose_hash] \<rparr>"
  from demo_attested_run obtain a where a: "rt_attested ?s = Some a" "ad_not_after a = 100" by blast
  then have c: "current 0 ?s = Some a" by (simp add: current_def last_attested_def del: fold.simps)
  have cf: "rc_inference demo_rt_config = Some ?front" by (simp add: demo_rt_config_def)
  have g: "runtime_ok demo_rt_ext ?s" "rt_config ?s = demo_rt_config"
    using runtime_new_ok [OF demo_runtime_new] sidecar.run_inv [of demo_rt_ext demo_runtime "[Attest demo_rcall]"] sidecar.run_below [of demo_rt_ext demo_runtime "[Attest demo_rcall]"]
    by (simp_all add: runtime_below_def del: fold.simps)
  then obtain leaf ca where ca: "fst (ad_certified a) = [leaf, ca]" using a by (auto simp: runtime_ok_def attested_ok_def own_leaf_def simp del: fold.simps)
  let ?p = "PinCaAndInstanceRevisions ca [demo_compose_hash] None"
  let ?f = "\<lparr> rf_url = ''https://f'', rf_client = \<lparr> ps_pin = Some ?p, ps_anchor = Some ca \<rparr> \<rparr>"
  have b: "forwarder_bind demo_rt_ext ?s = Ok (Some ?f)"
    by (simp add: forwarder_bind_def g(2) cf last_attested_def a(1) ca pinned_server_new_def demo_rt_fields del: fold.simps)
  have v: "verify_server_cert demo_rt_ext (rf_client ?f) [3] [[2]] 0 = Ok ()"
    by (simp add: verify_server_cert_def server_anchor_def check_pinned_def demo_rt_names demo_rt_fields demo_sans_def)
  obtain r t where r: "rt_forward demo_rt_ext ?f 0 ''GET'' (Some ''/v1/models'') [(''authorization'', ''x'')] [] ?s = (r, t)" by fastforce
  have "rt_sent t \<noteq> rt_sent ?s"
    using r v c by (auto simp: rt_forward_def demo_rt_fields url_path_def demo_front_url_def starts_with_def pinned_send_def demo_rt_dial_def
        front_request_def Let_def demo_kms_answer_def simp del: fold.simps)
  with forwarded_only_to_pinned_front [OF demo_runtime_new refl b cf r] obtain ca' d where
    "rt_sent t = rt_sent ?s @ [d]" "pin_proved demo_rt_ext (PinCaAndInstanceRevisions ca' (if_revisions ?front) None) d" by blast
  then have "d \<in> set (rt_sent t)" "pin_proved demo_rt_ext (PinCaAndInstanceRevisions ca' [demo_compose_hash] None) d" by simp_all
  with b r show ?thesis by blast
qed

section \<open>The public certificate\<close>

definition served_holds :: "'x ext_scheme \<Rightarrow> (bytes \<Rightarrow> bytes option) \<Rightarrow> bytes \<Rightarrow> edge \<Rightarrow> bool" where
  "served_holds E key_spki pkcs8 eg \<longleftrightarrow>
     (\<forall>ck. eg_served eg = Some ck \<longrightarrow> snd ck = pkcs8 \<and> (\<exists>leaf rest spki. fst ck = leaf # rest \<and> key_spki pkcs8 = Some spki \<and> spki_sha256 E leaf = Some (sha256 E spki)))"

lemma install_holds:
  assumes "install E key_spki pkcs8 chain_text eg = (r, x)" and "served_holds E key_spki pkcs8 eg"
  shows "served_holds E key_spki pkcs8 x"
proof (cases r)
  case (Err e)
  with assms show ?thesis by (auto simp: install_def split: result.splits)
next
  case (Ok na)
  let ?blocks = "those (map (\<lambda>b. map_option snd b) (filter (\<lambda>b. case b of None \<Rightarrow> True | Some (label, _) \<Rightarrow> label = ''CERTIFICATE'') (pem_blocks E (as_bytes chain_text))))"
  from assms(1) Ok obtain leaf rest where b: "?blocks = Some (leaf # rest)"
    by (cases ?blocks; cases "the ?blocks") (auto simp: install_def split: result.splits)
  with Ok assms(1) obtain spki where "x = eg\<lparr> eg_served := Some (leaf # rest, pkcs8) \<rparr>" "key_spki pkcs8 = Some spki" "spki_sha256 E leaf = Some (sha256 E spki)"
    by (auto simp: install_def b tls_certified_def result_simps split: result.splits)
  then show ?thesis by (simp add: served_holds_def)
qed

lemma reuse_holds: "reuse E key_spki c name pkcs8 eg = (r, x) \<Longrightarrow> served_holds E key_spki pkcs8 eg \<Longrightarrow>
    served_holds E key_spki pkcs8 x \<and> (\<forall>w. r = Ok (Some w) \<longrightarrow> ROUTABLE_AFTER \<le> w)"
  by (auto simp: reuse_def split: result.splits option.splits prod.splits dest: install_holds)

lemma authorize_served: "acme_authorize cc as eg = (ok, x) \<Longrightarrow> eg_served x = eg_served eg"
  by (induction as arbitrary: eg) (auto split: acme_auth.splits option.splits if_splits)

lemma issue_turn_holds:
  assumes "issue_turn E key_spki cc account pkcs8 turn eg = (w, x)" and "served_holds E key_spki pkcs8 eg"
  shows "served_holds E key_spki pkcs8 x \<and> ACME_RETRY_AFTER \<le> w"
proof -
  obtain r y where y: "acme_issue E key_spki cc (fst turn account) pkcs8 eg = (r, y)" by fastforce
  have "served_holds E key_spki pkcs8 y"
  proof (cases "\<exists>z chain_text. eg_served z = eg_served eg \<and> install E key_spki pkcs8 chain_text z = (r, y)")
    case True
    then obtain z chain_text where z: "eg_served z = eg_served eg" "install E key_spki pkcs8 chain_text z = (r, y)" by blast
    with assms(2) have "served_holds E key_spki pkcs8 z" unfolding served_holds_def by metis
    with install_holds [OF z(2)] show ?thesis .
  next
    case False
    with y have "eg_served y = eg_served eg"
      by (auto simp: acme_issue_def Let_def split: option.splits prod.splits bool.splits if_splits dest!: authorize_served)
    with assms(2) show ?thesis unfolding served_holds_def by metis
  qed
  with assms(1) y show ?thesis
    by (auto simp: issue_turn_def acme_renewal_delay_def ACME_RETRY_AFTER_def EXPIRED_BACKOFF_def split: result.splits)
qed

lemma issue_turns_hold:
  "issue_turns E key_spki cc account pkcs8 turns eg = (ws, x) \<Longrightarrow> served_holds E key_spki pkcs8 eg \<Longrightarrow>
     served_holds E key_spki pkcs8 x \<and> (\<forall>w \<in> set ws. ACME_RETRY_AFTER \<le> w)"
proof (induction turns arbitrary: eg ws x)
  case (Cons t ts)
  obtain w y where y: "issue_turn E key_spki cc account pkcs8 t eg = (w, y)" by fastforce
  obtain vs z where z: "issue_turns E key_spki cc account pkcs8 ts y = (vs, z)" by fastforce
  from issue_turn_holds [OF y Cons.prems(2)] Cons.IH [OF z] Cons.prems(1) y z show ?case by auto
qed auto

lemma lookup_holds: "lookup_reused E key_spki looked name pkcs8 eg = (r, x) \<Longrightarrow> served_holds E key_spki pkcs8 eg \<Longrightarrow>
    served_holds E key_spki pkcs8 x \<and> (\<forall>w. r = Some w \<longrightarrow> ROUTABLE_AFTER \<le> w)"
  by (auto simp: lookup_reused_def split: option.splits prod.splits result.splits dest: reuse_holds)

lemma account_waits: "account_loop key_ok cas pkcs8 = (r, ws) \<Longrightarrow> \<forall>w \<in> set ws. ACME_RETRY_AFTER \<le> w"
  by (induction cas arbitrary: r ws) (auto split: result.splits prod.splits)

lemma derive_p256_Ok: "derive_p256 K key info = Ok pkcs8 \<Longrightarrow>
    \<exists>wide. kd_hkdf48 K key info = Some wide \<and> kd_reduce K wide \<noteq> 0 \<and> kd_pkcs8 K (kd_reduce K wide) = Some pkcs8"
  by (auto simp: derive_p256_def Let_def result_simps)

text \<open>The state a try for the App's key finds, after the tries before it and the other tasks.\<close>

definition tried :: "'x tls_ext_scheme \<Rightarrow> (rcall \<times> (runtime \<Rightarrow> runtime)) list \<Rightarrow> runtime \<Rightarrow> runtime" where
  "tried E tries s = fold (\<lambda>(c, other) t. snd (rt_key E c ''edge-tls'' (other t))) tries s"

lemma try_edge_key_cases:
  "try_edge_key E c s = (res, t) \<Longrightarrow> t = snd (rt_key E c ''edge-tls'' s)
    \<and> (\<forall>k. res = Ok k \<longrightarrow> (\<exists>key_text. fst (rt_key E c ''edge-tls'' s) = Ok key_text \<and> b64_dec E key_text = Some k))"
  by (cases "rt_key E c ''edge-tls'' s"; cases "fst (rt_key E c ''edge-tls'' s)")
    (auto simp: try_edge_key_def KEY_PURPOSE_def act_bind_def decode_def result_simps)

lemma edge_tls_key_cases:
  assumes "edge_tls_key E tries s = (r, ws, t)"
  shows "(\<forall>w \<in> set ws. w = KEY_RETRY) \<and> (\<forall>k. r = Some k \<longrightarrow> (\<exists>before c other after key_text. tries = before @ (c, other) # after
    \<and> length ws = length before \<and> fst (rt_key E c ''edge-tls'' (other (tried E before s))) = Ok key_text \<and> b64_dec E key_text = Some k))"
  using assms
proof (induction E tries s arbitrary: r ws t rule: edge_tls_key.induct)
  case (2 E c other tries s)
  obtain res u where u: "try_edge_key E c (other s) = (res, u)" by fastforce
  note h = try_edge_key_cases [OF u]
  show ?case
  proof (cases res)
    case (Ok k)
    with u "2.prems" have "r = Some k" "ws = []" by auto
    with h Ok show ?thesis by (auto simp: tried_def intro!: exI [of _ "[]"])
  next
    case (Err e)
    obtain vs where w: "edge_tls_key E tries u = (r, vs, t)" "ws = KEY_RETRY # vs"
      using u Err "2.prems" by (auto split: prod.splits)
    note ih = "2.IH" [OF u [symmetric] Err w(1)]
    have "\<exists>before c' other' after key_text. (c, other) # tries = before @ (c', other') # after \<and> length ws = length before
        \<and> fst (rt_key E c' ''edge-tls'' (other' (tried E before s))) = Ok key_text \<and> b64_dec E key_text = Some k" if k: "r = Some k" for k
    proof -
      from ih k obtain before c' other' after key_text where "tries = before @ (c', other') # after" "length vs = length before"
        "fst (rt_key E c' ''edge-tls'' (other' (tried E before u))) = Ok key_text" "b64_dec E key_text = Some k" by blast
      moreover have "tried E ((c, other) # before) s = tried E before u" using h by (simp add: tried_def)
      ultimately show ?thesis using w(2)
        by (intro exI [of _ "(c, other) # before"] exI [of _ c'] exI [of _ other'] exI [of _ after] exI [of _ key_text]) simp
    qed
    with ih w(2) show ?thesis by auto
  qed
qed simp

text \<open>
  C40. However the CA, its logs and the network answer, the certificate served under the public name is
  always over the key derived for that name from the App's \<open>edge-tls\<close> key as the KMS gave it: HKDF of that
  key with the certificate label and the name, reduced to a scalar that is not zero, and nothing else; the
  leaf of the served chain holds that key's public half. Tries for the App's key are five seconds
  apart; the CA is asked no sooner than half a minute after the lookup, and each failed request for the
  account and each order is followed by a wait of at least a quarter of an hour.
\<close>

theorem public_certificate_holds_key:
  assumes "issue_forever E K key_ok key_spki challenge_cert name run s \<lparr> eg_served = None, eg_challenge = None \<rparr> = (ws, s', eg)"
  shows "(\<forall>chain key. eg_served eg = Some (chain, key) \<longrightarrow>
        (\<exists>before c other after key_text tls_key wide. ir_tries run = before @ (c, other) # after
           \<and> fst (rt_key E c ''edge-tls'' (other (tried E before s))) = Ok key_text \<and> b64_dec E key_text = Some tls_key
           \<and> kd_hkdf48 K tls_key (as_bytes ''alphacompute-runtime/public-name-key/v1/'' @ as_bytes name) = Some wide
           \<and> kd_reduce K wide \<noteq> 0 \<and> kd_pkcs8 K (kd_reduce K wide) = Some key)
        \<and> (\<exists>leaf rest spki. chain = leaf # rest \<and> key_spki key = Some spki \<and> spki_sha256 E leaf = Some (sha256 E spki)))
     \<and> (\<exists>ks vs. ws = ks @ vs \<and> (\<forall>w \<in> set ks. w = 5 * 1000000000)
         \<and> (vs = [] \<or> 30 * 1000000000 \<le> hd vs \<and> (\<forall>w \<in> set (tl vs). 15 * 60 * 1000000000 \<le> w)))"
proof -
  let ?eg = "\<lparr> eg_served = None, eg_challenge = None \<rparr>"
  obtain r ks t where k: "edge_tls_key E (ir_tries run) s = (r, ks, t)" by (metis prod_cases3)
  note waits = edge_tls_key_cases [OF k, THEN conjunct1, unfolded KEY_RETRY_def]
  show ?thesis
  proof (cases "\<exists>tls_key keys. r = Some tls_key \<and> edge_keys K name tls_key = Ok keys")
    case False
    with assms k have "ws = ks" "eg = ?eg" by (auto simp: issue_forever_def split: option.splits result.splits)
    with waits show ?thesis by auto
  next
    case True
    then obtain tls_key pkcs8 acme_key where d: "r = Some tls_key" "edge_keys K name tls_key = Ok (pkcs8, acme_key)" by auto
    then have "derive_p256 K tls_key (CERT_KEY_LABEL @ as_bytes name) = Ok pkcs8" by (auto simp: edge_keys_def result_simps)
    from derive_p256_Ok [OF this] obtain wide where p: "kd_hkdf48 K tls_key (as_bytes ''alphacompute-runtime/public-name-key/v1/'' @ as_bytes name) = Some wide"
      "kd_reduce K wide \<noteq> 0" "kd_pkcs8 K (kd_reduce K wide) = Some pkcs8" by (auto simp: CERT_KEY_LABEL_def)
    from edge_tls_key_cases [OF k] d(1) obtain before c other after key_text where f: "ir_tries run = before @ (c, other) # after"
      "fst (rt_key E c ''edge-tls'' (other (tried E before s))) = Ok key_text" "b64_dec E key_text = Some tls_key" by blast
    obtain reused e1 where l: "lookup_reused E key_spki (ir_lookup run) name pkcs8 ?eg = (reused, e1)" by fastforce
    have 1: "served_holds E key_spki pkcs8 e1 \<and> (\<forall>w. reused = Some w \<longrightarrow> ROUTABLE_AFTER \<le> w)"
      by (rule lookup_holds [OF l]) (simp add: served_holds_def)
    obtain acct vs where a: "account_loop key_ok (ir_accounts run) acme_key = (acct, vs)" by fastforce
    let ?w = "case reused of None \<Rightarrow> ROUTABLE_AFTER | Some w \<Rightarrow> w"
    obtain us where w: "ws = ks @ ?w # vs @ us" "served_holds E key_spki pkcs8 eg" "\<forall>w \<in> set us. ACME_RETRY_AFTER \<le> w"
    proof (cases acct)
      case None
      with assms k d l a 1 show thesis by (intro that [of "[]"]) (auto simp: issue_forever_def)
    next
      case (Some account)
      obtain us e2 where t: "issue_turns E key_spki challenge_cert account pkcs8 (ir_turns run) e1 = (us, e2)" by fastforce
      with Some assms k d l a issue_turns_hold [OF t] 1 show thesis by (intro that [of us]) (auto simp: issue_forever_def)
    qed
    have "30 * 1000000000 \<le> ?w" using 1 by (auto simp: ROUTABLE_AFTER_def split: option.splits)
    with w(1,3) waits account_waits [OF a]
    have "\<exists>ks vs. ws = ks @ vs \<and> (\<forall>w \<in> set ks. w = 5 * 1000000000)
         \<and> (vs = [] \<or> 30 * 1000000000 \<le> hd vs \<and> (\<forall>w \<in> set (tl vs). 15 * 60 * 1000000000 \<le> w))"
      by (intro exI [of _ ks] exI [of _ "?w # vs @ us"]) (auto simp: ACME_RETRY_AFTER_def)
    moreover from w(2) have "key = pkcs8 \<and> (\<exists>leaf rest spki. chain = leaf # rest \<and> key_spki key = Some spki \<and> spki_sha256 E leaf = Some (sha256 E spki))"
      if "eg_served eg = Some (chain, key)" for chain key using that unfolding served_holds_def by fastforce
    ultimately show ?thesis using p f by blast
  qed
qed

definition demo_order :: acme_order where
  "demo_order = \<lparr> ao_auths = [AuthPending (Some [1]) True], ao_ready = True, ao_finalized = True, ao_chain = Some [CHR 0x03] \<rparr>"

text \<open>The first try comes before the first leaf, the second after it; the first account and the first order fail.\<close>

definition demo_kd :: key_deriver where
  "demo_kd = \<lparr> kd_hkdf48 = (\<lambda>k i. Some (k @ i)), kd_reduce = length, kd_pkcs8 = (\<lambda>n. Some [word_of_nat n]) \<rparr>"

definition demo_keyed :: "attested \<Rightarrow> runtime \<Rightarrow> runtime" where
  "demo_keyed a s = s\<lparr> rt_attested := Some (a\<lparr> ad_keys := [(''edge-tls'', ''0a'')] \<rparr>) \<rparr>"

definition demo_issue_run :: "attested \<Rightarrow> issue_run" where
  "demo_issue_run a = \<lparr> ir_tries = [(demo_rcall, \<lambda>s. s), (demo_rcall, demo_keyed a)], ir_lookup = None,
     ir_accounts = [\<lambda>_. None, \<lambda>_. Some ''a''], ir_turns = [(\<lambda>_. None, 0), (\<lambda>a. if a = ''a'' then Some demo_order else None, 0)] \<rparr>"

theorem public_certificate_holds_key_witness:
  "\<exists>a ws s eg chain key. issue_forever demo_rt_ext demo_kd (\<lambda>_. True) (\<lambda>_. Some (demo_public 32 [])) (\<lambda>_. Some ([], [])) ''n.cc'' (demo_issue_run a)
        demo_runtime \<lparr> eg_served = None, eg_challenge = None \<rparr> = (ws, s, eg)
     \<and> eg_served eg = Some (chain, key) \<and> length ws = 5
     \<and> kd_pkcs8 demo_kd (length ([10] @ as_bytes ''alphacompute-runtime/public-name-key/v1/n.cc'')) = Some key
     \<and> (\<exists>leaf rest. chain = leaf # rest \<and> spki_sha256 demo_rt_ext leaf = Some (sha256 demo_rt_ext (demo_public 32 [])))"
proof -
  obtain a :: attested where a: "ad_not_after a = 100" using demo_attested_run by blast
  let ?key = "[45 :: byte]"
  let ?run = "issue_forever demo_rt_ext demo_kd (\<lambda>_. True) (\<lambda>_. Some (demo_public 32 [])) (\<lambda>_. Some ([], [])) ''n.cc'' (demo_issue_run a)
        demo_runtime \<lparr> eg_served = None, eg_challenge = None \<rparr>"
  have n: "\<exists>na. not_after demo_rt_ext [3] = Ok na" by (simp add: not_after_def parse_x509_def demo_rt_fields) (simp add: demo_app_leaf_def demo_leaf_def from_unix_seconds_def)
  have s: "spki_sha256 demo_rt_ext [3] = Some (demo_hash 32 (demo_public 32 []))" by (simp add: spki_sha256_def demo_rt_names demo_rt_fields)
  have i: "\<exists>na. install demo_rt_ext (\<lambda>_. Some (demo_public 32 [])) ?key [CHR 0x03] \<lparr> eg_served = None, eg_challenge = None \<rparr>
      = (Ok na, \<lparr> eg_served = Some ([[3]], ?key), eg_challenge = None \<rparr>)"
    using n s by (auto simp: install_def demo_rt_fields as_bytes_def code_def tls_certified_def)
  have u: "demo_unhex ''0a'' = Some [10]" by code_simp
  have d: "decode demo_rt_ext ''0a'' = Ok [10]" unfolding decode_def demo_rt_fields u by simp
  have t1: "try_edge_key demo_rt_ext demo_rcall demo_runtime = (Err RtNotAttested, demo_runtime)"
    by (simp add: try_edge_key_def act_bind_def rt_key_def current_def last_attested_def demo_runtime_def)
  have t2: "try_edge_key demo_rt_ext demo_rcall (demo_keyed a demo_runtime) = (Ok [10], demo_keyed a demo_runtime)"
    by (simp add: try_edge_key_def act_bind_def rt_key_def current_def last_attested_def demo_keyed_def a demo_rcall_def KEY_PURPOSE_def d)
  have k: "edge_keys demo_kd ''n.cc'' [10] = Ok (?key, [41])"
    by (simp add: edge_keys_def derive_p256_def demo_kd_def CERT_KEY_LABEL_def ACCOUNT_KEY_LABEL_def as_bytes_def)
  have "\<exists>ws s eg. ?run = (ws, s, eg) \<and> eg_served eg = Some ([[3]], ?key) \<and> length ws = 5"
    using i by (auto simp: issue_forever_def demo_issue_run_def t1 t2 k lookup_reused_def acme_account_def issue_turn_def acme_issue_def demo_order_def Let_def)
  then obtain ws s eg where r: "?run = (ws, s, eg)" "eg_served eg = Some ([[3]], ?key)" "length ws = 5" by blast
  have p: "kd_pkcs8 demo_kd (length ([10] @ as_bytes ''alphacompute-runtime/public-name-key/v1/n.cc'')) = Some ?key"
    by (simp add: demo_kd_def as_bytes_def)
  from public_certificate_holds_key [OF r(1), THEN conjunct1, rule_format, OF r(2)]
  have "\<exists>leaf rest. [[3]] = leaf # rest \<and> spki_sha256 demo_rt_ext leaf = Some (sha256 demo_rt_ext (demo_public 32 []))" by blast
  with r p show ?thesis by blast
qed

end
