(* ===== verification/Spec2Isabelle.thy ===== *)
theory Spec2Isabelle
  imports Kms_Node_Spec Kms_Channel Kms_Kbs Channel_Member Channel_Public Channel_Compose Broker_Spec Inference_Pin Inference_Keys Runtime_Wire
begin

text \<open>
  A verification of the AlphaCompute confidential platform: confidential virtual machines (TDX guests,
  as dstack machines or Kata pods) that run an App's measured Revision, a key management service that
  releases keys and Secrets only to such guests, and the services beside it.

  \<^bold>\<open>The parts.\<close> \<^verbatim>\<open>alpha-core\<close> holds names, the canonical JSON that is signed, network openings and
  init-data; \<^verbatim>\<open>alpha-attest\<close> appraises a guest's quote, event log and GPU evidence; \<^verbatim>\<open>alpha-channel\<close> is the
  encrypted channel inside TLS, with the handshake, receipts, bindings and the release-signed platform
  document that lists trusted KMS Revisions. On these stand the services. \<^verbatim>\<open>alpha-kms\<close> keeps
  organizations, keys, Revisions and Secrets (Control API), turns an appraised key into a leaf and
  releases Secrets to it (Instance API), and is bootstrapped, unsealed and joined by its peers (Node
  API). \<^verbatim>\<open>alpha-runtime\<close> runs beside an App's containers: it attests its key to the KMS through
  \<^verbatim>\<open>alpha-client\<close>, hands Secrets and keys on and terminates the App's public name. \<^verbatim>\<open>alpha-inference\<close> forwards
  completions to model servers whose Revision it pins, \<^verbatim>\<open>alpha-guard\<close> judges content through it, and
  \<^verbatim>\<open>alpha-broker\<close> holds the OAuth connections of an organization's members.

  \<^bold>\<open>How code is modelled.\<close> A struct is a record, an enum a datatype, \<open>Result\<close> the type \<open>result\<close> with the
  question-mark operator as \<open>and_then\<close> (\<open>Rust_Prelude\<close>). A handler is a function of its state that
  returns a result and the new state (\<open>Rust_Action\<close>: \<open>act_bind\<close> and the triples over it), with every
  early return as a branch. A handler is one atomic step at one reading of the clock, except where the
  code itself lets another call in between: a Control route may authorize on tables older than those
  its transaction meets, and the broker's and the front's answers in flight are steps of their own.
  Lengths, versions and sequence numbers that can wrap are words; times are nanoseconds as integers.
  Third-party code is never defined: it is a field of the record \<open>ext\<close> (\<open>External\<close>; extended by \<open>net_ext\<close>
  in \<open>Broker_OAuth\<close> and \<open>tls_ext\<close> in \<open>Client\<close>) or of a call's record (clock, randomness, database answers,
  fetched bytes), and what a property needs of it is a named law (\<open>b64_law\<close>, \<open>aead_law\<close>, \<open>sha_law\<close>, \<dots>).
  \<open>Demo\<close> satisfies all the laws, so the witnesses evaluate the definitions on real inputs.

  \<^bold>\<open>The theories.\<close>
  \<^item> \<open>Rust_Prelude\<close>, \<open>Rust_Action\<close>, \<open>Serde_Text\<close>, \<open>External\<close>, \<open>Demo\<close>: the shared layer. The locale \<open>codec\<close> is an encoding and
    its reader, \<open>stepper\<close> a machine whose steps keep an invariant, and \<open>monotone_stepper\<close> one that also
    undoes nothing; each service's step function is an interpretation.
  \<^item> \<open>Core_Names\<close>, \<open>Core_Json\<close>, \<open>Core_Platform\<close>, \<open>Core_Network\<close>, \<open>Core_InitData\<close>: \<^verbatim>\<open>crates/alpha-core\<close>. A signing digest
    separates contexts and documents; the pinned agent policy and the openings of a Kata Revision.
  \<^item> \<open>Attest\<close>, \<open>Attest_Gpu\<close>, \<open>Attest_Ocsp\<close>, \<open>Attest_Wire\<close>: \<^verbatim>\<open>crates/alpha-attest\<close>. An accepted appraisal rests on a
    verified quote over the key and the nonce; the measured RTMR3 fixes the compose hash an appraisal of a log
    of runtime events names; a GPU class is granted only with its number of distinct GPUs, each with a
    chain that holds, a fresh signature and pinned measurements (the relations \<open>chain_holds\<close>, \<open>gpu_proved\<close>).
  \<^item> \<open>Channel_Frame\<close>, \<open>Channel_Cert\<close>, \<open>Channel_Platform\<close>, \<open>Channel_Handshake\<close>, \<open>Channel_Binding\<close>, \<open>Channel_Member\<close>,
    \<open>Channel_Public\<close>, \<open>Channel_Compose\<close>, \<open>Crypto_Hpke\<close>: \<^verbatim>\<open>crates/alpha-channel\<close> and \<^verbatim>\<open>crates/alpha-crypto\<close>. What a
    channel returns is sealed under nonces that never repeat, and no frame opens twice; both ends of a handshake agree and a finished one proves the App; a
    document needs the threshold of release keys; receipts are a listed KMS node's.
  \<^item> \<open>Kms_Keys\<close>, \<open>Kms_Control\<close>, \<open>Kms_Control_Spec\<close>: signatures, key chains and the Control API over the tables.
    The abstract specification is six commits in the name of an organization for which the request's own
    payload was signed; every route refines it, keeps the tables' invariant, and touches no other
    organization.
  \<^item> \<open>Kms_Instance\<close>, \<open>Kms_Instance_Spec\<close>, \<open>Kms_Kbs\<close>, \<open>Kms_Channel\<close>: leaves, Secrets, the key broker protocol and the
    channel's tickets. What a leaf certifies, down to the nonce's MAC and the signed Revision, and that a Secret is released as it was put and only to
    an App its signed document names.
  \<^item> \<open>Kms_Node\<close>, \<open>Kms_Node_Spec\<close>: bootstrap, unseal, join and the stored platform document, under
    dstack and under Kata, where a node logs in to its database with a password derived from the root key.
  \<^item> \<open>Broker_OAuth\<close>, \<open>Broker_Store\<close>, \<open>Broker\<close>, \<open>Broker_Spec\<close>: \<^verbatim>\<open>services/alpha-broker\<close>. Tokens go only to their provider, a
    request is sent only under a member's live grant, a disconnect is final, a signed document acts once. The
    locale \<open>store_relation\<close> lifts a relation between tables from the store's queries to every route; it is
    interpreted for the tables' invariant, for revoked rows and for spent nonces.
  \<^item> \<open>Client\<close>: \<^verbatim>\<open>crates/alpha-client\<close>. What a pinned peer proved, the walk over the KMS endpoints, and the end of the refresh loop.
  \<^item> \<open>Guard\<close>: \<^verbatim>\<open>services/alpha-guard\<close>. The judge's prompt cannot be closed from inside, and what a verdict rests on.
  \<^item> \<open>Inference\<close>, \<open>Inference_Spec\<close>, \<open>Inference_Pin\<close>, \<open>Inference_Keys\<close>: \<^verbatim>\<open>services/alpha-inference\<close>. The locales \<open>front_calls\<close>,
    \<open>front_chat\<close> and \<open>front_tables\<close> lift a property of the primitive steps to every route; interpreted for the
    permits, the pins and the API keys.
  \<^item> \<open>Runtime\<close>, \<open>Runtime_Edge\<close>, \<open>Runtime_Spec\<close>, \<open>Runtime_Wire\<close>: \<^verbatim>\<open>services/alpha-runtime\<close>. One invariant for whom it asks, which
    leaf it serves and what its caches hold; Secret files, the Endpoint, the public certificate, whose key is
    derived from the App's, and the forwarder.
  \<^item> This theory: what a page shows of a Revision is what the KMS registers.

  \<^bold>\<open>Bounds.\<close> Every loop of the code that ends is a function that ends: a key chain is followed for as
  many hops as the code allows, Certificate Transparency for four pages, the endpoints of a client
  once each. A loop that never ends (renewal, delivery, refresh, ordering a certificate) is modelled
  turn by turn over the list of what its turns meet, of any length, so a property over it holds for
  every number of turns; the refresh loop is shown to end after at most eleven failing attempts.

  \<^bold>\<open>Not modelled.\<close> The start-up code of the programs (environment, sockets, signals, timers), logging and
  metrics; the TLS, HTTP, PostgreSQL and ACME clients, whose answers are arguments; the HTTP
  framework's own limits, other than the body limits the code sets; a database
  connection that fails half way, and interleavings inside a handler other than those above;
  \<^verbatim>\<open>alpha-tsm\<close> (reads quotes from the guest's file system), \<^verbatim>\<open>alpha-nvml\<close> (a binding to a C library),
  \<^verbatim>\<open>gpu/rim.rs\<close> (an XML manifest reader of the operator's tools), the WebAssembly glue,
  the rate limiter's floating-point bucket, and \<^verbatim>\<open>alpha-cpu-app\<close>, a sample image.
  Of the command line \<^verbatim>\<open>alpha-cli\<close> nothing is modelled: it is the operator's side and makes no decision that
  the services rely on.
\<close>

text \<open>
  C22. A page and the KMS read a Revision alike: the payload a page builds from a Revision it approved
  under the platform document's pinned policy is one the KMS registers under the same document, as
  the same App and with the digest of the very bytes the page showed.
\<close>

theorem page_payload_accepted:
  assumes "uuid_law E" and "page_revision_payload E app_id revision (pd_kata_policy doc) (pd_kms_ca_pem doc) = Ok payload" and "sha_law E"
  shows "\<exists>compose init. revision_payload E payload (Some doc) = Ok (compose_hash_of E (as_bytes revision), app_id, compose, init)
    \<and> {compose, init} = {Some revision, None}"
proof (cases "starts_with ''{'' (trim_start revision)")
  case True
  with assms(2) have c: "check_registration E revision app_id = Ok (compose_hash_of E (as_bytes revision))"
    and p: "payload = jobj [(''app_id'', JString (uuid_show E app_id)), (''compose'', JString revision)]"
    by (auto simp: page_revision_payload_def is_compose_def check_registration_def result_simps Let_def)
  have "revision_payload_de E payload = Some (app_id, revision)"
    unfolding revision_payload_de_def p
    by (rule struct_fields_jobj_bind) (use assms(1) in \<open>simp_all add: field_def uuid_de_def uuid_law_def\<close>)
  with c show ?thesis by (simp add: revision_payload_def p )
next
  case False
  with assms(2) obtain d pinned where d: "init_data_parse E revision = Ok d" "init_data_app_id E d = Some app_id"
      "pd_kata_policy doc = Some pinned" "check_policy E d pinned (pd_kms_ca_pem doc) = Ok ()"
    and p: "payload = jobj [(''app_id'', JString (uuid_show E app_id)), (''init_data'', JString revision),
      (''digest'', JString (compose_hash_show (init_data_digest E d)))]"
    by (auto simp: page_revision_payload_def is_compose_def result_simps)
  note c = d(1) [unfolded init_data_parse_same [OF d(1)]] d(2-4) [unfolded init_data_parse_same [OF d(1)]]
    and p = p [unfolded init_data_parse_same [OF d(1)]]
  have "init_data_payload_de E payload = Some (app_id, revision, init_data_digest E revision)"
    unfolding init_data_payload_de_def p
    by (rule struct_fields_jobj_bind) (use assms(1,3) in \<open>simp_all add: field_def uuid_de_def uuid_law_def compose_hash_de_def compose_hash_of_def
      init_data_digest_def compose_text.dec_enc sha_law_def\<close>)
  with c show ?thesis by (simp add: revision_payload_def p check_kata_policy_def init_data_digest_def insert_commute)
qed

definition demo_pinned_doc :: platform_document where
  "demo_pinned_doc = demo_doc\<lparr> pd_kata_policy := Some demo_pin, pd_kms_ca_pem := [] \<rparr>"

lemma demo_page_payload:
  "\<exists>payload. page_revision_payload demo_kata 7 [] (pd_kata_policy demo_pinned_doc) (pd_kms_ca_pem demo_pinned_doc) = Ok payload"
proof -
  have "init_data_parse demo_kata [] = Ok []" by (simp add: init_data_parse_def demo_kata_def MAX_INIT_DATA_def toml_string_def)
  moreover have "init_data_app_id demo_kata [] = Some 7"
    using demo_uuid by (simp add: init_data_app_id_def demo_kata_policy(2) toml_string_def) (simp add: demo_kata_def uuid_law_def)
  moreover have "trim_start [] = []"
    unfolding trim_start_def by (rule strip_words_id) (use white_space_ends in \<open>auto simp: starts_with_def\<close>)
  then have "is_compose [] = Ok False" by (simp add: is_compose_def MAX_INIT_DATA_def starts_with_def)
  ultimately show ?thesis
    by (simp add: page_revision_payload_def demo_pinned_doc_def demo_kata_policy(1))
qed

theorem page_payload_accepted_witness:
  "\<exists>payload compose init. page_revision_payload demo_kata 7 [] (pd_kata_policy demo_pinned_doc) (pd_kms_ca_pem demo_pinned_doc) = Ok payload
     \<and> revision_payload demo_kata payload (Some demo_pinned_doc) = Ok (compose_hash_of demo_kata (as_bytes []), 7, compose, init)"
proof -
  obtain payload where p: "page_revision_payload demo_kata 7 [] (pd_kata_policy demo_pinned_doc) (pd_kms_ca_pem demo_pinned_doc) = Ok payload"
    using demo_page_payload by blast
  have "uuid_law demo_kata" "sha_law demo_kata"
    using demo_uuid demo_sha by (simp_all add: demo_kata_def uuid_law_def sha_law_def)
  from page_payload_accepted [OF this(1) p this(2)] p show ?thesis by blast
qed

end
